(* ===== verification/Prelude.thy ===== *)
theory Prelude
  imports Main "HOL-Library.Word" "HOL-Library.State_Monad"
begin

text \<open>
  Vocabulary shared by every theory of the development: the UEFI integer types, the
  status codes of MdePkg/Include/Uefi/UefiBaseType.h that the modelled code returns, the
  named collections of simplification rules, and generic lemmas on words and byte lists.
\<close>

unbundle bit_operations_syntax

type_synonym u8 = "8 word"
type_synonym u16 = "16 word"
type_synonym u32 = "32 word"
type_synonym u64 = "64 word"

text \<open>\<open>regs\<close> collects the register offsets and bit masks of a component, \<open>hwrun\<close> the
  equations that run a program of the model on plain register storage.\<close>

named_theorems regs "register offsets, masks and identifiers"
named_theorems hwrun "running programs on register storage"

datatype efi_status =
    EFI_SUCCESS
  | EFI_INVALID_PARAMETER
  | EFI_UNSUPPORTED
  | EFI_DEVICE_ERROR
  | EFI_WRITE_PROTECTED
  | EFI_OUT_OF_RESOURCES
  | EFI_NOT_FOUND
  | EFI_ACCESS_DENIED

definition EFI_ERROR :: "efi_status \<Rightarrow> bool" where
  "EFI_ERROR st = (st \<noteq> EFI_SUCCESS)"

lemma EFI_ERROR_simps [simp]:
  "\<not> EFI_ERROR EFI_SUCCESS"
  "st \<noteq> EFI_SUCCESS \<Longrightarrow> EFI_ERROR st"
  by (simp_all add: EFI_ERROR_def)

text \<open>The bit masks BIT0 ... BIT31 of MdePkg/Include/Base.h.\<close>

abbreviation BIT :: "nat \<Rightarrow> 'a::len word" where
  "BIT n \<equiv> push_bit n 1"

section \<open>Running programs of the state monad\<close>

lemma run_bind [hwrun]:
  "run_state (State_Monad.bind m f) s = (case run_state m s of (a, s') \<Rightarrow> run_state (f a) s')"
  by (simp add: State_Monad.bind_def split: prod.splits)

lemma run_return [hwrun]: "run_state (State_Monad.return a) s = (a, s)"
  by (simp add: State_Monad.return_def)

lemma run_if [hwrun]:
  "run_state (if c then m else n) s = (if c then run_state m s else run_state n s)"
  by simp

section \<open>Words as little-endian bytes\<close>

definition bytes_of :: "nat \<Rightarrow> 'a::len word \<Rightarrow> u8 list" where
  "bytes_of n w = map (\<lambda>i. ucast (drop_bit (8 * i) w)) [0..<n]"

fun word_of_bytes :: "u8 list \<Rightarrow> 'a::len word" where
  "word_of_bytes [] = 0"
| "word_of_bytes (b # bs) = ucast b OR push_bit 8 (word_of_bytes bs)"

lemma length_bytes_of [simp]: "length (bytes_of n w) = n"
  by (simp add: bytes_of_def)

lemma bytes_of_Suc: "bytes_of (Suc n) w = ucast w # bytes_of n (drop_bit 8 w)"
  by (simp add: bytes_of_def upt_conv_Cons map_Suc_upt [symmetric] o_def ac_simps del: upt_Suc)

lemma word_of_bytes_of: "word_of_bytes (bytes_of n w) = (take_bit (8 * n) w :: 'a::len word)"
proof (induction n arbitrary: w)
  case 0
  then show ?case by (simp add: bytes_of_def)
next
  case (Suc n)
  show ?case
    by (rule bit_word_eqI)
      (auto simp: bytes_of_Suc Suc bit_simps not_less le_Suc_eq
        elim: le_SucE dest: bit_imp_le_length)
qed

lemma word_of_bytes_same:
  "LENGTH('a) \<le> 8 * n \<Longrightarrow> word_of_bytes (bytes_of n w) = (w :: 'a::len word)"
  by (simp add: word_of_bytes_of take_bit_word_eq_self)

section \<open>Read-modify-write masks\<close>

lemma and_not_or_field:
  "((w AND NOT m) OR (v AND m)) AND m = (v AND m :: 'a::len word)"
  by (rule bit_word_eqI) (auto simp: bit_simps)

lemma and_not_or_outside:
  "((w AND NOT m) OR (v AND m)) AND NOT m = (w AND NOT m :: 'a::len word)"
  by (rule bit_word_eqI) (auto simp: bit_simps)

lemma and_not_or_read: "((w AND NOT m) OR v) AND m = (v AND m :: 'a::len word)"
  by (rule bit_word_eqI) (auto simp: bit_simps)

lemma and_not_or_and_not: "((w AND NOT m) OR m) AND NOT m = (w AND NOT m :: 'a::len word)"
  by (rule bit_word_eqI) (auto simp: bit_simps)

lemma and_subset_self: "v AND NOT m = 0 \<Longrightarrow> v AND m = (v :: 'a::len word)"
proof -
  assume z: "v AND NOT m = 0"
  have "v = (v AND m) OR (v AND NOT m)"
    by (rule bit_word_eqI) (auto simp: bit_simps)
  with z show ?thesis by simp
qed

section \<open>Changing the width\<close>

lemma ucast_widen [simp]:
  "LENGTH('a) \<le> LENGTH('b) \<Longrightarrow> (ucast (ucast x :: 'b::len word) :: 'a::len word) = x"
  by (rule bit_word_eqI) (auto simp: bit_simps dest: bit_imp_le_length)

lemma ucast_low_part [simp]:
  "LENGTH('a) \<le> LENGTH('b) \<Longrightarrow>
     ucast ((d AND NOT (mask LENGTH('a))) OR ucast x :: 'b::len word) = (x :: 'a::len word)"
  by (rule bit_word_eqI) (auto simp: bit_simps dest: bit_imp_le_length)

lemma ucast_and_widen:
  "LENGTH('a) \<le> LENGTH('b) \<Longrightarrow> (ucast (x AND y) :: 'b::len word) = ucast x AND ucast (y :: 'a::len word)"
  by (rule bit_word_eqI) (auto simp: bit_simps)

lemma ucast_eq_0_widen [simp]:
  "LENGTH('a) \<le> LENGTH('b) \<Longrightarrow> (ucast (x :: 'a::len word) :: 'b::len word) = 0 \<longleftrightarrow> x = 0"
  by (metis ucast_widen unsigned_0)

section \<open>Alignment\<close>

lemma and_3_zero: "x AND 3 = 0 \<longleftrightarrow> 4 dvd unat (x :: 'a::len word)"
proof -
  have "x AND 3 = take_bit 2 x" by (simp add: take_bit_eq_mask mask_numeral)
  moreover have "unat (take_bit 2 x) = unat x mod 4"
    by (simp only: unsigned_take_bit_eq) (simp add: take_bit_eq_mod)
  ultimately show ?thesis
    by (metis dvd_eq_mod_eq_0 unsigned_0 unsigned_word_eqI)
qed

lemma and_1_zero: "x AND 1 = 0 \<longleftrightarrow> 2 dvd unat (x :: 'a::len word)"
proof -
  have "x AND 1 = take_bit 1 x" by (simp add: take_bit_eq_mask)
  moreover have "unat (take_bit 1 x) = unat x mod 2"
    by (simp only: unsigned_take_bit_eq) (simp add: take_bit_eq_mod)
  ultimately show ?thesis
    by (metis dvd_eq_mod_eq_0 unsigned_0 unsigned_word_eqI)
qed

section \<open>Single bits\<close>

lemma and_BIT_zero: "n < LENGTH('a) \<Longrightarrow> v AND push_bit n 1 = 0 \<longleftrightarrow> \<not> bit (v :: 'a::len word) n"
  by (auto simp: bit_eq_iff [where 'a = "'a word"] bit_simps)

end
