(* ===== verification/Mmio.thy ===== *)
theory Mmio
  imports Prelude
begin

text \<open>
  The environment of the firmware and its access primitives.  The hardware is a parameter:
  a record \<open>hw\<close> whose fields say what a load, a store or a stall does to a device state of
  an arbitrary type, where the build puts PCI configuration space, and whether the
  DEBUG_CODE blocks are compiled in.  The operations are the MmioRead/MmioWrite functions of
  MdePkg/Library/BaseIoLibIntrinsic/IoLib.c and the read-modify-write functions of
  IoHighLevel.c, as programs of the library's state monad over the device state and the
  module variables of the firmware.  The second half gives the hardware instance of plain
  register storage: a byte-addressed store with a log of the stores made, with the laws
  of loads after stores for every combination of widths, and the interface \<open>reg_bus\<close>
  under which a read-modify-write behaves as one register update.
\<close>

section \<open>The hardware parameter\<close>

record 's hw =
  hw_rd8 :: "u64 \<Rightarrow> 's \<Rightarrow> u8 \<times> 's"
  hw_rd16 :: "u64 \<Rightarrow> 's \<Rightarrow> u16 \<times> 's"
  hw_rd32 :: "u64 \<Rightarrow> 's \<Rightarrow> u32 \<times> 's"
  hw_wr8 :: "u64 \<Rightarrow> u8 \<Rightarrow> 's \<Rightarrow> 's"
  hw_wr16 :: "u64 \<Rightarrow> u16 \<Rightarrow> 's \<Rightarrow> 's"
  hw_wr32 :: "u64 \<Rightarrow> u32 \<Rightarrow> 's \<Rightarrow> 's"
  hw_pci_base :: "u32 \<Rightarrow> u32 \<Rightarrow> u32 \<Rightarrow> u64"
  hw_simics :: bool
  hw_debug_code :: bool

text \<open>The module variables: the caches of PchInfoLib.c.\<close>

datatype PCH_SERIES = PchH | PchLp | PchUnknownSeries
datatype PCH_GENERATION = SklPch | PchUnknownGeneration
datatype PCH_STEPPING =
    PchHA0 | PchHB0 | PchHC0 | PchHD0 | PchHD1
  | PchLpA0 | PchLpB0 | PchLpB1 | PchLpC0 | PchLpC1
  | LbgA0 | LbgB0 | LbgB1 | LbgB2 | LbgS0 | LbgS1
  | PchSteppingMax

record 's sys =
  dev :: 's
  mLpcBaseAddr :: u64
  mPchStepping :: PCH_STEPPING
  mIsPchSupported :: u8
  mPchSeries :: PCH_SERIES
  mPchGeneration :: PCH_GENERATION

type_synonym ('s, 'a) prog = "('s sys, 'a) state"

definition boot :: "'s \<Rightarrow> 's sys" where
  "boot d = \<lparr> dev = d, mLpcBaseAddr = 0, mPchStepping = PchSteppingMax,
     mIsPchSupported = 0xFF, mPchSeries = PchUnknownSeries,
     mPchGeneration = PchUnknownGeneration \<rparr>"

section \<open>Running programs\<close>

definition on_dev :: "('s \<Rightarrow> 'a \<times> 's) \<Rightarrow> ('s, 'a) prog" where
  "on_dev f = State (\<lambda>s. let (a, d) = f (dev s) in (a, s\<lparr>dev := d\<rparr>))"

lemma run_on_dev: "run_state (on_dev f) s = (case f (dev s) of (a, d) \<Rightarrow> (a, s\<lparr>dev := d\<rparr>))"
  by (simp add: on_dev_def)

section \<open>IoLib.c: loads and stores\<close>

definition MmioRead8 :: "'s hw \<Rightarrow> u64 \<Rightarrow> ('s, u8) prog" where
  "MmioRead8 hw Address = on_dev (hw_rd8 hw Address)"

definition MmioRead16 :: "'s hw \<Rightarrow> u64 \<Rightarrow> ('s, u16) prog" where
  "MmioRead16 hw Address = on_dev (hw_rd16 hw Address)"

definition MmioRead32 :: "'s hw \<Rightarrow> u64 \<Rightarrow> ('s, u32) prog" where
  "MmioRead32 hw Address = on_dev (hw_rd32 hw Address)"

definition MmioWrite8 :: "'s hw \<Rightarrow> u64 \<Rightarrow> u8 \<Rightarrow> ('s, u8) prog" where
  "MmioWrite8 hw Address Value = on_dev (\<lambda>d. (Value, hw_wr8 hw Address Value d))"

definition MmioWrite16 :: "'s hw \<Rightarrow> u64 \<Rightarrow> u16 \<Rightarrow> ('s, u16) prog" where
  "MmioWrite16 hw Address Value = on_dev (\<lambda>d. (Value, hw_wr16 hw Address Value d))"

definition MmioWrite32 :: "'s hw \<Rightarrow> u64 \<Rightarrow> u32 \<Rightarrow> ('s, u32) prog" where
  "MmioWrite32 hw Address Value = on_dev (\<lambda>d. (Value, hw_wr32 hw Address Value d))"

section \<open>IoHighLevel.c: read-modify-write\<close>

definition MmioOr8 :: "'s hw \<Rightarrow> u64 \<Rightarrow> u8 \<Rightarrow> ('s, u8) prog" where
  "MmioOr8 hw Address OrData = do {
     v \<leftarrow> MmioRead8 hw Address;
     MmioWrite8 hw Address (v OR OrData)
   }"

definition MmioAnd8 :: "'s hw \<Rightarrow> u64 \<Rightarrow> u8 \<Rightarrow> ('s, u8) prog" where
  "MmioAnd8 hw Address AndData = do {
     v \<leftarrow> MmioRead8 hw Address;
     MmioWrite8 hw Address (v AND AndData)
   }"

definition MmioAndThenOr8 :: "'s hw \<Rightarrow> u64 \<Rightarrow> u8 \<Rightarrow> u8 \<Rightarrow> ('s, u8) prog" where
  "MmioAndThenOr8 hw Address AndData OrData = do {
     v \<leftarrow> MmioRead8 hw Address;
     MmioWrite8 hw Address ((v AND AndData) OR OrData)
   }"

definition MmioOr16 :: "'s hw \<Rightarrow> u64 \<Rightarrow> u16 \<Rightarrow> ('s, u16) prog" where
  "MmioOr16 hw Address OrData = do {
     v \<leftarrow> MmioRead16 hw Address;
     MmioWrite16 hw Address (v OR OrData)
   }"

definition MmioAnd16 :: "'s hw \<Rightarrow> u64 \<Rightarrow> u16 \<Rightarrow> ('s, u16) prog" where
  "MmioAnd16 hw Address AndData = do {
     v \<leftarrow> MmioRead16 hw Address;
     MmioWrite16 hw Address (v AND AndData)
   }"

definition MmioAndThenOr16 :: "'s hw \<Rightarrow> u64 \<Rightarrow> u16 \<Rightarrow> u16 \<Rightarrow> ('s, u16) prog" where
  "MmioAndThenOr16 hw Address AndData OrData = do {
     v \<leftarrow> MmioRead16 hw Address;
     MmioWrite16 hw Address ((v AND AndData) OR OrData)
   }"

definition MmioOr32 :: "'s hw \<Rightarrow> u64 \<Rightarrow> u32 \<Rightarrow> ('s, u32) prog" where
  "MmioOr32 hw Address OrData = do {
     v \<leftarrow> MmioRead32 hw Address;
     MmioWrite32 hw Address (v OR OrData)
   }"

definition MmioAnd32 :: "'s hw \<Rightarrow> u64 \<Rightarrow> u32 \<Rightarrow> ('s, u32) prog" where
  "MmioAnd32 hw Address AndData = do {
     v \<leftarrow> MmioRead32 hw Address;
     MmioWrite32 hw Address (v AND AndData)
   }"

definition MmioAndThenOr32 :: "'s hw \<Rightarrow> u64 \<Rightarrow> u32 \<Rightarrow> u32 \<Rightarrow> ('s, u32) prog" where
  "MmioAndThenOr32 hw Address AndData OrData = do {
     v \<leftarrow> MmioRead32 hw Address;
     MmioWrite32 hw Address ((v AND AndData) OR OrData)
   }"

section \<open>Plain register storage\<close>

text \<open>\<open>apart a n b k\<close>: the \<open>n\<close> bytes from \<open>a\<close> and the \<open>k\<close> bytes from \<open>b\<close> share no byte.\<close>

type_synonym mem = "u64 \<Rightarrow> u8"

definition loadn :: "mem \<Rightarrow> u64 \<Rightarrow> nat \<Rightarrow> u8 list" where
  "loadn m a n = map (\<lambda>i. m (a + of_nat i)) [0..<n]"

definition storen :: "mem \<Rightarrow> u64 \<Rightarrow> u8 list \<Rightarrow> mem" where
  "storen m a bs = (\<lambda>x. if unat (x - a) < length bs then bs ! unat (x - a) else m x)"

definition apart :: "u64 \<Rightarrow> nat \<Rightarrow> u64 \<Rightarrow> nat \<Rightarrow> bool" where
  "apart a n b k = (n \<le> unat (b - a) \<and> k \<le> unat (a - b))"

lemma unat_add_neg: "d \<noteq> 0 \<Longrightarrow> unat (- d) + unat d = 2 ^ 64" for d :: u64
proof -
  assume ne: "d \<noteq> 0"
  have "unat (- d + d) = (unat (- d) + unat d) mod 2 ^ 64"
    by (simp only: unat_word_ariths) simp
  then have z: "(unat (- d) + unat d) mod 2 ^ 64 = 0" by simp
  have "0 < unat d" using ne by (simp add: unat_gt_0)
  moreover have "unat (- d) < 2 ^ 64" "unat d < 2 ^ 64"
    using unsigned_less [of "- d"] unsigned_less [of d] by simp_all
  ultimately show ?thesis using z by auto
qed

lemma unat_offset: "unat d + i < 2 ^ 64 \<Longrightarrow> unat (d + of_nat i) = unat d + i" for d :: u64
  by (simp add: unat_word_ariths unat_of_nat)

text \<open>Ranges that do not wrap are apart when one ends before the other begins.\<close>

lemma unat_sub: "unat b \<le> unat a \<Longrightarrow> unat (a - b) = unat a - unat b" for a b :: u64
  by (simp add: unat_sub word_le_nat_alt)

lemma apart_above: "unat b + k \<le> unat a \<Longrightarrow> unat a + n \<le> 2 ^ 64 \<Longrightarrow> 0 < k \<Longrightarrow> apart a n b k"
proof -
  assume le: "unat b + k \<le> unat a" and fit: "unat a + n \<le> 2 ^ 64" and "0 < k"
  then have d: "unat (a - b) = unat a - unat b" by (intro unat_sub) simp
  have "a - b \<noteq> 0" using le \<open>0 < k\<close> by auto
  from unat_add_neg [OF this] have "unat (b - a) + unat (a - b) = 2 ^ 64" by simp
  then have "n \<le> unat (b - a)" "k \<le> unat (a - b)" using d le fit by linarith+
  then show ?thesis by (simp add: apart_def)
qed

lemma apart_sym: "apart a n b k \<longleftrightarrow> apart b k a n"
  by (auto simp: apart_def)

lemma loadn_storen_apart:
  assumes ap: "apart a (length bs) b k"
  shows "loadn (storen m a bs) b k = loadn m b k"
proof -
  have "\<not> unat (b + of_nat i - a) < length bs" if i: "i < k" for i
  proof -
    let ?d = "b - a"
    have le: "length bs \<le> unat ?d" and kle: "k \<le> unat (- ?d)"
      using ap by (auto simp: apart_def)
    have ne: "?d \<noteq> 0"
    proof
      assume "?d = 0"
      then have "unat (- ?d) = 0" by simp
      with kle i show False by linarith
    qed
    have "unat ?d + i < 2 ^ 64" using unat_add_neg [OF ne] i kle by linarith
    from unat_offset [OF this] le show ?thesis by (simp add: algebra_simps)
  qed
  then show ?thesis by (simp add: loadn_def storen_def)
qed

lemma loadn_storen_same:
  "length bs < 2 ^ 64 \<Longrightarrow> loadn (storen m a bs) a (length bs) = bs"
  by (rule nth_equalityI) (auto simp: loadn_def storen_def unat_of_nat)

definition loadw :: "nat \<Rightarrow> mem \<Rightarrow> u64 \<Rightarrow> 'a::len word" where
  "loadw n m a = word_of_bytes (loadn m a n)"

definition storew :: "nat \<Rightarrow> mem \<Rightarrow> u64 \<Rightarrow> 'a::len word \<Rightarrow> mem" where
  "storew n m a w = storen m a (bytes_of n w)"

lemma loadw_storew_same [simp]:
  fixes w :: "'a::len word"
  assumes "LENGTH('a) \<le> 8 * n" "n < 2 ^ 64"
  shows "(loadw n (storew n m a w) a :: 'a word) = w"
  using assms loadn_storen_same [of "bytes_of n w" m a]
  by (simp add: loadw_def storew_def word_of_bytes_same)

lemma loadw_storew_apart:
  "apart a n b k \<Longrightarrow> loadw k (storew n m a w) b = loadw k m b"
  by (simp add: loadw_def storew_def loadn_storen_apart)

lemma storew_apart_byte:
  "apart a n b (Suc 0) \<Longrightarrow> storew n m a w b = m b"
  using loadn_storen_apart [of a "bytes_of n w" b "Suc 0" m]
  by (simp add: storew_def loadn_def)

text \<open>The instance: memory, and the log of the stores (latest last) with address, width in
  bytes and value.\<close>

record ram =
  mem :: mem
  wlog :: "(u64 \<times> nat \<times> u32) list"

definition blank :: ram where
  "blank = \<lparr> mem = (\<lambda>_. 0), wlog = [] \<rparr>"

lemma word_of_zero_bytes: "\<forall>b \<in> set bs. b = 0 \<Longrightarrow> word_of_bytes bs = 0"
  by (induction bs) simp_all

lemma loadw_zero [simp]: "loadw n (\<lambda>_. 0) a = 0"
  by (simp add: loadw_def loadn_def word_of_zero_bytes)

lemma mem_blank [simp]: "mem (dev (boot blank)) = (\<lambda>_. 0)"
  by (simp add: boot_def blank_def)

definition ram_rd :: "nat \<Rightarrow> u64 \<Rightarrow> ram \<Rightarrow> 'a::len word \<times> ram" where
  "ram_rd n a d = (loadw n (mem d) a, d)"

definition ram_wr :: "nat \<Rightarrow> u64 \<Rightarrow> 'a::len word \<Rightarrow> ram \<Rightarrow> ram" where
  "ram_wr n a w d = d\<lparr> mem := storew n (mem d) a w, wlog := wlog d @ [(a, n, ucast w)] \<rparr>"

text \<open>PCI configuration space lies at PcdPciExpressBaseAddress (0x80000000 in
  PlatformPkg.dsc), a 4 KB page for each function.\<close>

definition ecam :: "u32 \<Rightarrow> u32 \<Rightarrow> u32 \<Rightarrow> u64" where
  "ecam Bus Dev Fun = 0x80000000 + push_bit 20 (ucast Bus) + push_bit 15 (ucast Dev)
     + push_bit 12 (ucast Fun)"

definition ram_hw :: "bool \<Rightarrow> ram hw" where
  "ram_hw debug = \<lparr>
     hw_rd8 = ram_rd 1, hw_rd16 = ram_rd 2, hw_rd32 = ram_rd 4,
     hw_wr8 = ram_wr 1, hw_wr16 = ram_wr 2, hw_wr32 = ram_wr 4,
     hw_pci_base = ecam, hw_simics = False, hw_debug_code = debug \<rparr>"

abbreviation reg8 :: "ram sys \<Rightarrow> u64 \<Rightarrow> u8" where
  "reg8 s a \<equiv> loadw (Suc 0) (mem (dev s)) a"

abbreviation reg16 :: "ram sys \<Rightarrow> u64 \<Rightarrow> u16" where
  "reg16 s a \<equiv> loadw 2 (mem (dev s)) a"

abbreviation reg32 :: "ram sys \<Rightarrow> u64 \<Rightarrow> u32" where
  "reg32 s a \<equiv> loadw 4 (mem (dev s)) a"

text \<open>\<open>wr n a w s\<close>: the system after one store of \<open>n\<close> bytes.\<close>

definition wr :: "nat \<Rightarrow> u64 \<Rightarrow> 'a::len word \<Rightarrow> ram sys \<Rightarrow> ram sys" where
  "wr n a w s = s\<lparr> dev := ram_wr n a w (dev s) \<rparr>"

abbreviation wr8 :: "u64 \<Rightarrow> u8 \<Rightarrow> ram sys \<Rightarrow> ram sys" where "wr8 \<equiv> wr (Suc 0)"
abbreviation wr16 :: "u64 \<Rightarrow> u16 \<Rightarrow> ram sys \<Rightarrow> ram sys" where "wr16 \<equiv> wr 2"
abbreviation wr32 :: "u64 \<Rightarrow> u32 \<Rightarrow> ram sys \<Rightarrow> ram sys" where "wr32 \<equiv> wr 4"

lemma wr_mem [simp]: "mem (dev (wr n a w s)) = storew n (mem (dev s)) a w"
  by (simp add: wr_def ram_wr_def)

lemma wr_wlog [simp]: "wlog (dev (wr n a w s)) = wlog (dev s) @ [(a, n, ucast w)]"
  by (simp add: wr_def ram_wr_def)

lemma wr_sys [simp]:
  "mLpcBaseAddr (wr n a w s) = mLpcBaseAddr s"
  "mPchStepping (wr n a w s) = mPchStepping s"
  "mIsPchSupported (wr n a w s) = mIsPchSupported s"
  "mPchSeries (wr n a w s) = mPchSeries s"
  "mPchGeneration (wr n a w s) = mPchGeneration s"
  by (simp_all add: wr_def)

lemma wr_cache [simp]: "(wr n a w s)\<lparr> mPchSeries := x \<rparr> = wr n a w (s\<lparr> mPchSeries := x \<rparr>)"
  by (simp add: wr_def)

lemma ram_hw_pci [hwrun]:
  "hw_pci_base (ram_hw dbg) = ecam" "hw_debug_code (ram_hw dbg) = dbg" "\<not> hw_simics (ram_hw dbg)"
  by (simp_all add: ram_hw_def)

lemma run_Mmio_ram [hwrun]:
  "run_state (MmioRead8 (ram_hw dbg) a) s = (reg8 s a, s)"
  "run_state (MmioRead16 (ram_hw dbg) a) s = (reg16 s a, s)"
  "run_state (MmioRead32 (ram_hw dbg) a) s = (reg32 s a, s)"
  "run_state (MmioWrite8 (ram_hw dbg) a b) s = (b, wr 1 a b s)"
  "run_state (MmioWrite16 (ram_hw dbg) a w) s = (w, wr 2 a w s)"
  "run_state (MmioWrite32 (ram_hw dbg) a v) s = (v, wr 4 a v s)"
  by (simp_all add: MmioRead8_def MmioRead16_def MmioRead32_def MmioWrite8_def MmioWrite16_def
      MmioWrite32_def run_on_dev ram_hw_def ram_rd_def wr_def)

section \<open>A register port\<close>

text \<open>What a read-modify-write relies on: a read returns the register and changes nothing, a
  write updates the register, which then reads back as written.\<close>

locale reg_port =
  fixes rd :: "u64 \<Rightarrow> ('s, 'a::len word) prog"
    and wt :: "u64 \<Rightarrow> 'a word \<Rightarrow> ('s, 'a word) prog"
    and val :: "'s sys \<Rightarrow> u64 \<Rightarrow> 'a word"
    and upd :: "u64 \<Rightarrow> 'a word \<Rightarrow> 's sys \<Rightarrow> 's sys"
  assumes run_rd: "run_state (rd a) s = (val s a, s)"
    and run_wt: "run_state (wt a v) s = (v, upd a v s)"
    and val_upd: "val (upd a v s) a = v"
begin

lemma rmw:
  "run_state (State_Monad.bind (rd a) (\<lambda>x. wt a (f x))) s = (f (val s a), upd a (f (val s a)) s)"
  by (simp add: hwrun run_rd run_wt)

lemma rmw_field:
  assumes "f = (\<lambda>x. (x AND NOT msk) OR (v AND msk))"
    and "run_state (State_Monad.bind (rd a) (\<lambda>x. wt a (f x))) s = (r, s')"
  shows "val s' a AND msk = v AND msk" and "val s' a AND NOT msk = val s a AND NOT msk"
  using assms rmw [of a f s] val_upd by (auto simp: and_not_or_field and_not_or_outside)

end

interpretation port8: reg_port "MmioRead8 (ram_hw dbg)" "MmioWrite8 (ram_hw dbg)" "\<lambda>s. reg8 s" "wr8"
  for dbg
  by unfold_locales (simp_all add: hwrun)

interpretation port16: reg_port "MmioRead16 (ram_hw dbg)" "MmioWrite16 (ram_hw dbg)" "\<lambda>s. reg16 s" "wr16"
  for dbg
  by unfold_locales (simp_all add: hwrun)

interpretation port32: reg_port "MmioRead32 (ram_hw dbg)" "MmioWrite32 (ram_hw dbg)" "\<lambda>s. reg32 s" "wr32"
  for dbg
  by unfold_locales (simp_all add: hwrun)

lemma run_Mmio_rmw [hwrun]:
  "run_state (MmioOr8 (ram_hw dbg) a b) s = (reg8 s a OR b, wr8 a (reg8 s a OR b) s)"
  "run_state (MmioAnd8 (ram_hw dbg) a b) s = (reg8 s a AND b, wr8 a (reg8 s a AND b) s)"
  "run_state (MmioAndThenOr8 (ram_hw dbg) a b c) s
     = (reg8 s a AND b OR c, wr8 a (reg8 s a AND b OR c) s)"
  "run_state (MmioOr16 (ram_hw dbg) a w) s = (reg16 s a OR w, wr16 a (reg16 s a OR w) s)"
  "run_state (MmioAnd16 (ram_hw dbg) a w) s = (reg16 s a AND w, wr16 a (reg16 s a AND w) s)"
  "run_state (MmioAndThenOr16 (ram_hw dbg) a w x) s
     = (reg16 s a AND w OR x, wr16 a (reg16 s a AND w OR x) s)"
  "run_state (MmioOr32 (ram_hw dbg) a v) s = (reg32 s a OR v, wr32 a (reg32 s a OR v) s)"
  "run_state (MmioAnd32 (ram_hw dbg) a v) s = (reg32 s a AND v, wr32 a (reg32 s a AND v) s)"
  "run_state (MmioAndThenOr32 (ram_hw dbg) a v y) s
     = (reg32 s a AND v OR y, wr32 a (reg32 s a AND v OR y) s)"
  by (simp_all only: MmioOr8_def MmioAnd8_def MmioAndThenOr8_def MmioOr16_def MmioAnd16_def
      MmioAndThenOr16_def MmioOr32_def MmioAnd32_def MmioAndThenOr32_def
      port8.rmw port16.rmw port32.rmw)

text \<open>Whether two accesses are apart is decided by evaluating the distance of the
  addresses: \<open>mem_simps\<close> is the bundle with which a component reads its registers back.\<close>

lemma unat_m1: "unat (- 1 :: u64) = 18446744073709551615"
  by (simp add: unsigned_minus_1_eq_mask mask_eq_exp_minus_1)

lemmas mem_simps = loadw_storew_apart storew_apart_byte apart_def unat_m1

lemma ecam_simps [simp]:
  "ecam 0 31 0 = 0x800F8000" "ecam 0 31 1 = 0x800F9000" "ecam 0 31 2 = 0x800FA000"
  "ecam 0 31 3 = 0x800FB000" "ecam 0 31 4 = 0x800FC000" "ecam 0 31 5 = 0x800FD000"
  by (simp_all add: ecam_def)

lemma mem_example:
  "run_state (do { MmioWrite32 (ram_hw d) (x + 4) 0x12345678; MmioOr8 (ram_hw d) x 3;
      MmioRead32 (ram_hw d) (x + 4) }) s
     = (0x12345678, wr8 x (reg8 s x OR 3) (wr32 (x + 4) 0x12345678 s))"
  by (simp add: hwrun mem_simps)

end
