(* ===== verification/PchInfo.thy ===== *)
theory PchInfo
  imports Mmio
begin

text \<open>
  PeiDxeSmmPchInfoLib/PchInfoLib.c: identification of the PCH from the device id and the
  revision id of its LPC bridge, cached in module variables.  SIMICS_FLAG and SKXD_EN are
  not defined by the platform's build, so the code they guard is absent.
\<close>

definition DEFAULT_PCI_BUS_NUMBER_PCH :: u32 where [regs]: "DEFAULT_PCI_BUS_NUMBER_PCH = 0"
definition PCI_DEVICE_NUMBER_PCH_LPC :: u32 where [regs]: "PCI_DEVICE_NUMBER_PCH_LPC = 31"
definition PCI_FUNCTION_NUMBER_PCH_LPC :: u32 where [regs]: "PCI_FUNCTION_NUMBER_PCH_LPC = 0"
definition PCI_DEVICE_NUMBER_EVA :: u32 where [regs]: "PCI_DEVICE_NUMBER_EVA = 17"
definition PCI_FUNCTION_NUMBER_PCH_SSATA :: u32 where [regs]: "PCI_FUNCTION_NUMBER_PCH_SSATA = 5"
definition PCI_VENDOR_ID_OFFSET :: u64 where [regs]: "PCI_VENDOR_ID_OFFSET = 0x00"
definition PCI_DEVICE_ID_OFFSET :: u64 where [regs]: "PCI_DEVICE_ID_OFFSET = 0x02"
definition PCI_REVISION_ID_OFFSET :: u64 where [regs]: "PCI_REVISION_ID_OFFSET = 0x08"
definition V_PCH_LPC_VENDOR_ID :: u16 where [regs]: "V_PCH_LPC_VENDOR_ID = 0x8086"

section \<open>PchAccess.h: device id macros\<close>

definition IS_PCH_H_LPC_DEVICE_ID :: "u16 \<Rightarrow> bool" where
  "IS_PCH_H_LPC_DEVICE_ID DeviceId \<longleftrightarrow>
     DeviceId \<in> {0xA142, 0xA143, 0xA144, 0xA145, 0xA146, 0xA147, 0xA148, 0xA140, 0xA141}
   \<or> DeviceId \<in> {0xA14D, 0xA14E, 0xA14F, 0xA141}
   \<or> DeviceId \<in> {0xA149, 0xA14A, 0xA150, 0xA14B}"

definition IS_PCH_LP_LPC_DEVICE_ID :: "u16 \<Rightarrow> bool" where
  "IS_PCH_LP_LPC_DEVICE_ID DeviceId \<longleftrightarrow>
     DeviceId \<in> {0x9D40, 0x9D41, 0x9D42, 0x9D43, 0x9D46, 0x9D48}"

definition IS_PCH_LBG_LPC_DEVICE_ID :: "u16 \<Rightarrow> bool" where
  "IS_PCH_LBG_LPC_DEVICE_ID DeviceId \<longleftrightarrow>
     (DeviceId \<ge> 0xA1C0 \<and> DeviceId \<le> 0xA1CF)
   \<or> DeviceId = 0xA243 \<or> DeviceId = 0xA1C6 \<or> DeviceId = 0xA1CA
   \<or> False
   \<or> (DeviceId \<ge> 0xA240 \<and> DeviceId \<le> 0xA24F)"

section \<open>Operations\<close>

definition PchStepping :: "'s hw \<Rightarrow> ('s, PCH_STEPPING) prog" where
  "PchStepping hw = do {
     s \<leftarrow> State_Monad.get;
     if mPchStepping s \<noteq> PchSteppingMax then State_Monad.return (mPchStepping s)
     else do {
       let LpcBaseAddress = hw_pci_base hw DEFAULT_PCI_BUS_NUMBER_PCH
             PCI_DEVICE_NUMBER_PCH_LPC PCI_FUNCTION_NUMBER_PCH_LPC;
       RevId \<leftarrow> MmioRead8 hw (LpcBaseAddress + PCI_REVISION_ID_OFFSET);
       LpcDeviceId \<leftarrow> MmioRead16 hw (LpcBaseAddress + PCI_DEVICE_ID_OFFSET);
       let cache = (\<lambda>st. do {
             s' \<leftarrow> State_Monad.get;
             State_Monad.set (s'\<lparr> mPchStepping := st \<rparr>);
             State_Monad.return st });
       if IS_PCH_H_LPC_DEVICE_ID LpcDeviceId then
         (if RevId = 0x00 then cache PchHA0
          else if RevId = 0x10 then cache PchHB0
          else if RevId = 0x20 then cache PchHC0
          else if RevId = 0x30 then cache PchHD0
          else if RevId = 0x31 then cache PchHD1
          else State_Monad.return PchSteppingMax)
       else if IS_PCH_LP_LPC_DEVICE_ID LpcDeviceId then
         (if RevId = 0x10 then cache PchLpB0
          else if RevId = 0x11 then cache PchLpB1
          else if RevId = 0x20 then cache PchLpC0
          else if RevId = 0x21 then cache PchLpC1
          else State_Monad.return PchSteppingMax)
       else if IS_PCH_LBG_LPC_DEVICE_ID LpcDeviceId then
         (if hw_simics hw \<and> RevId = 0 then State_Monad.return LbgA0
          else if RevId = 0x00 then State_Monad.return LbgA0
          else if RevId = 0x02 then State_Monad.return LbgB0
          else if RevId = 0x03 then State_Monad.return LbgB1
          else if RevId = 0x04 then State_Monad.return LbgB2
          else if RevId = 0x08 then State_Monad.return LbgS0
          else if RevId = 0x09 then State_Monad.return LbgS1
          else State_Monad.return PchSteppingMax)
       else State_Monad.return PchSteppingMax
     }
   }"

text \<open>The cache \<open>mIsPchSupported\<close> is a UINT8 with 0xFF for not yet known.\<close>

definition IsPchSupported :: "'s hw \<Rightarrow> ('s, bool) prog" where
  "IsPchSupported hw = do {
     s \<leftarrow> State_Monad.get;
     if mIsPchSupported s \<noteq> 0xFF then State_Monad.return (mIsPchSupported s \<noteq> 0)
     else do {
       let LpcBaseAddress = hw_pci_base hw DEFAULT_PCI_BUS_NUMBER_PCH
             PCI_DEVICE_NUMBER_PCH_LPC PCI_FUNCTION_NUMBER_PCH_LPC;
       LpcDeviceId \<leftarrow> MmioRead16 hw (LpcBaseAddress + PCI_DEVICE_ID_OFFSET);
       LpcVendorId \<leftarrow> MmioRead16 hw (LpcBaseAddress + PCI_VENDOR_ID_OFFSET);
       s' \<leftarrow> State_Monad.get;
       if LpcVendorId = V_PCH_LPC_VENDOR_ID \<and> IS_PCH_LBG_LPC_DEVICE_ID LpcDeviceId then do {
         State_Monad.set (s'\<lparr> mIsPchSupported := 1 \<rparr>);
         State_Monad.return True
       } else do {
         State_Monad.set (s'\<lparr> mIsPchSupported := 0 \<rparr>);
         State_Monad.return False
       }
     }
   }"

definition GetPchSeries :: "'s hw \<Rightarrow> ('s, PCH_SERIES) prog" where
  "GetPchSeries hw = do {
     s \<leftarrow> State_Monad.get;
     if mPchSeries s \<noteq> PchUnknownSeries then State_Monad.return (mPchSeries s)
     else do {
       let LpcBaseAddress = hw_pci_base hw DEFAULT_PCI_BUS_NUMBER_PCH
             PCI_DEVICE_NUMBER_PCH_LPC PCI_FUNCTION_NUMBER_PCH_LPC;
       LpcDeviceId \<leftarrow> MmioRead16 hw (LpcBaseAddress + PCI_DEVICE_ID_OFFSET);
       let PchSeries = (if IS_PCH_LBG_LPC_DEVICE_ID LpcDeviceId then PchH
             else if IS_PCH_LP_LPC_DEVICE_ID LpcDeviceId then PchLp
             else PchUnknownSeries);
       s' \<leftarrow> State_Monad.get;
       State_Monad.set (s'\<lparr> mPchSeries := PchSeries \<rparr>);
       State_Monad.return PchSeries
     }
   }"

definition GetPchGeneration :: "'s hw \<Rightarrow> ('s, PCH_GENERATION) prog" where
  "GetPchGeneration hw = do {
     s \<leftarrow> State_Monad.get;
     if mPchGeneration s \<noteq> PchUnknownGeneration then State_Monad.return (mPchGeneration s)
     else do {
       let LpcBaseAddress = hw_pci_base hw DEFAULT_PCI_BUS_NUMBER_PCH
             PCI_DEVICE_NUMBER_PCH_LPC PCI_FUNCTION_NUMBER_PCH_LPC;
       LpcDeviceId \<leftarrow> MmioRead16 hw (LpcBaseAddress + PCI_DEVICE_ID_OFFSET);
       let PchGen = (if IS_PCH_LBG_LPC_DEVICE_ID LpcDeviceId then SklPch
             else PchUnknownGeneration);
       s' \<leftarrow> State_Monad.get;
       State_Monad.set (s'\<lparr> mPchGeneration := PchGen \<rparr>);
       State_Monad.return PchGen
     }
   }"

text \<open>The limits of PchLimits.h by series.\<close>

definition by_series :: "'s hw \<Rightarrow> u8 \<Rightarrow> u8 \<Rightarrow> ('s, u8) prog" where
  "by_series hw lp h = do {
     PchSeries \<leftarrow> GetPchSeries hw;
     State_Monad.return (case PchSeries of PchLp \<Rightarrow> lp | PchH \<Rightarrow> h | PchUnknownSeries \<Rightarrow> 0)
   }"

definition GetPchMaxPciePortNum :: "'s hw \<Rightarrow> ('s, u8) prog" where
  "GetPchMaxPciePortNum hw = by_series hw 12 20"

definition GetPchMaxSataPortNum :: "'s hw \<Rightarrow> ('s, u8) prog" where
  "GetPchMaxSataPortNum hw = by_series hw 3 8"

definition GetPchUsbMaxPhysicalPortNum :: "'s hw \<Rightarrow> ('s, u8) prog" where
  "GetPchUsbMaxPhysicalPortNum hw = by_series hw 10 14"

definition GetPchXhciMaxUsb2PortNum :: "'s hw \<Rightarrow> ('s, u8) prog" where
  "GetPchXhciMaxUsb2PortNum hw = by_series hw 12 16"

definition GetPchXhciMaxUsb3PortNum :: "'s hw \<Rightarrow> ('s, u8) prog" where
  "GetPchXhciMaxUsb3PortNum hw = by_series hw 6 10"

definition GetIsPchsSataPresent :: "'s hw \<Rightarrow> ('s, bool) prog" where
  "GetIsPchsSataPresent hw = do {
     let sSataBaseAddress = hw_pci_base hw DEFAULT_PCI_BUS_NUMBER_PCH
           PCI_DEVICE_NUMBER_EVA PCI_FUNCTION_NUMBER_PCH_SSATA;
     sSataDeviceId \<leftarrow> MmioRead16 hw (sSataBaseAddress + PCI_DEVICE_ID_OFFSET);
     State_Monad.return (sSataDeviceId \<noteq> 0xFFFF)
   }"

definition GetPchMaxsSataPortNum :: u8 where "GetPchMaxsSataPortNum = 6"

definition GetPchMaxsSataControllerNum :: u8 where "GetPchMaxsSataControllerNum = 1"

text \<open>The enumeration values of PCH_SERIES, as GetPchLpcDeviceId returns them.\<close>

fun series_value :: "PCH_SERIES \<Rightarrow> u16" where
  "series_value PchH = 1"
| "series_value PchLp = 2"
| "series_value PchUnknownSeries = 3"

definition GetPchLpcDeviceId :: "'s hw \<Rightarrow> ('s, u16) prog" where
  "GetPchLpcDeviceId hw = do {
     s \<leftarrow> State_Monad.get;
     if mPchSeries s \<noteq> PchUnknownSeries then State_Monad.return (series_value (mPchSeries s))
     else do {
       let LpcBaseAddress = (if mLpcBaseAddr s = 0
             then hw_pci_base hw DEFAULT_PCI_BUS_NUMBER_PCH
               PCI_DEVICE_NUMBER_PCH_LPC PCI_FUNCTION_NUMBER_PCH_LPC
             else mLpcBaseAddr s);
       State_Monad.set (s\<lparr> mLpcBaseAddr := LpcBaseAddress \<rparr>);
       MmioRead16 hw (LpcBaseAddress + PCI_DEVICE_ID_OFFSET)
     }
   }"

definition PchIsBDFRootPort :: "u8 \<Rightarrow> u8 \<Rightarrow> u8 \<Rightarrow> bool" where
  "PchIsBDFRootPort PcieBus PcieDev PcieFunc \<longleftrightarrow>
     0 = PcieBus \<and> (28 = PcieDev \<or> 29 = PcieDev \<or> (27 = PcieDev \<and> 3 \<ge> PcieFunc))"

section \<open>Running on register storage\<close>

text \<open>The series read from the device, and the cache that remembers it.\<close>

definition series_of :: "u16 \<Rightarrow> PCH_SERIES" where
  "series_of d = (if IS_PCH_LBG_LPC_DEVICE_ID d then PchH
     else if IS_PCH_LP_LPC_DEVICE_ID d then PchLp else PchUnknownSeries)"

definition lpc_device_id :: "ram sys \<Rightarrow> u16" where
  "lpc_device_id s = reg16 s 0x800F8002"

definition cur_series :: "ram sys \<Rightarrow> PCH_SERIES" where
  "cur_series s = (if mPchSeries s \<noteq> PchUnknownSeries then mPchSeries s
     else series_of (lpc_device_id s))"

definition cached :: "ram sys \<Rightarrow> ram sys" where
  "cached s = s\<lparr> mPchSeries := cur_series s \<rparr>"

lemma cached_simps [simp]:
  "dev (cached s) = dev s" "mPchSeries (cached s) = cur_series s"
  "mPchGeneration (cached s) = mPchGeneration s"
  by (simp_all add: cached_def)

lemma run_GetPchSeries [hwrun]:
  "run_state (GetPchSeries (ram_hw dbg)) s = (cur_series s, cached s)"
  by (auto simp: GetPchSeries_def hwrun regs cur_series_def cached_def series_of_def
      lpc_device_id_def Let_def)

lemma cur_series_cached [simp]: "cur_series (cached s) = cur_series s"
  by (simp add: cur_series_def lpc_device_id_def)

lemma cached_cached [simp]: "cached (cached s) = cached s"
  by (simp add: cached_def [of "cached s"])

text \<open>A platform the code supports is Lewisburg: its series is PchH, whatever is cached.\<close>

lemma LBG_not_LP: "IS_PCH_LBG_LPC_DEVICE_ID d \<Longrightarrow> \<not> IS_PCH_LP_LPC_DEVICE_ID d"
  by (auto simp: IS_PCH_LBG_LPC_DEVICE_ID_def IS_PCH_LP_LPC_DEVICE_ID_def)

lemma LBG_not_H: "IS_PCH_LBG_LPC_DEVICE_ID d \<Longrightarrow> \<not> IS_PCH_H_LPC_DEVICE_ID d"
  by (auto simp: IS_PCH_LBG_LPC_DEVICE_ID_def IS_PCH_H_LPC_DEVICE_ID_def)

text \<open>Once GetPchSeries has identified a Lewisburg device it answers PchH, with its port
  limits, from its cache, whatever the device registers hold later.\<close>

theorem pch_info_cached:
  assumes "IS_PCH_LBG_LPC_DEVICE_ID (lpc_device_id s)" and "mPchSeries s = PchUnknownSeries"
    and "run_state (GetPchSeries (ram_hw dbg)) s = (series, s1)"
    and "dev t = d" and "t = s1\<lparr> dev := d \<rparr>"
  shows "series = PchH
    \<and> run_state (GetPchSeries (ram_hw dbg)) t = (PchH, t)
    \<and> fst (run_state (GetPchMaxPciePortNum (ram_hw dbg)) t) = 20
    \<and> fst (run_state (GetPchMaxSataPortNum (ram_hw dbg)) t) = 8"
proof -
  have "series = PchH" "mPchSeries t = PchH"
    using assms by (auto simp: hwrun cur_series_def series_of_def)
  moreover have "cached t = t" if "mPchSeries t = PchH"
    using that by (simp add: cached_def cur_series_def)
  ultimately show ?thesis
    by (simp add: hwrun GetPchMaxPciePortNum_def GetPchMaxSataPortNum_def by_series_def cur_series_def)
qed

theorem pch_info_cached_witness:
  "let s = wr16 0x800F8002 0xA1C1 (boot blank); s1 = snd (run_state (GetPchSeries (ram_hw False)) s)
   in fst (run_state (GetPchMaxPciePortNum (ram_hw False)) (s1\<lparr> dev := blank \<rparr>)) = 20"
proof -
  let ?s = "wr16 0x800F8002 0xA1C1 (boot blank)"
  have "IS_PCH_LBG_LPC_DEVICE_ID (lpc_device_id ?s)" "mPchSeries ?s = PchUnknownSeries"
    by (simp_all add: lpc_device_id_def IS_PCH_LBG_LPC_DEVICE_ID_def) (simp add: boot_def)
  from pch_info_cached [OF this surjective_pairing _ refl, of blank False] show ?thesis
    by (simp add: Let_def)
qed

text \<open>Once the series is cached, GetPchLpcDeviceId returns it in place of the device id.\<close>

text \<open>GetPchLpcDeviceId returns the LPC device id before GetPchSeries has run, and the value of
  the series enumeration afterwards.\<close>

theorem lpc_device_id_is_series:
  assumes "IS_PCH_LBG_LPC_DEVICE_ID (lpc_device_id s)" and "mPchSeries s = PchUnknownSeries"
    and "mLpcBaseAddr s = 0"
  shows "fst (run_state (GetPchLpcDeviceId (ram_hw dbg)) s) = lpc_device_id s
    \<and> fst (run_state (GetPchLpcDeviceId (ram_hw dbg)) (snd (run_state (GetPchSeries (ram_hw dbg)) s))) = 1"
  using assms
  by (simp add: GetPchLpcDeviceId_def hwrun regs cur_series_def series_of_def lpc_device_id_def Let_def)

theorem lpc_device_id_is_series_witness:
  "let s = wr16 0x800F8002 0xA1C1 (boot blank)
   in fst (run_state (GetPchLpcDeviceId (ram_hw True)) s) = 0xA1C1
     \<and> fst (run_state (GetPchLpcDeviceId (ram_hw True)) (snd (run_state (GetPchSeries (ram_hw True)) s))) = 1"
proof -
  let ?s = "wr16 0x800F8002 0xA1C1 (boot blank)"
  have "IS_PCH_LBG_LPC_DEVICE_ID (lpc_device_id ?s)" "mPchSeries ?s = PchUnknownSeries" "mLpcBaseAddr ?s = 0"
    by (simp_all add: lpc_device_id_def IS_PCH_LBG_LPC_DEVICE_ID_def) (simp_all add: boot_def)
  from lpc_device_id_is_series [OF this, of True] show ?thesis
    by (simp add: Let_def lpc_device_id_def)
qed

end
