(* ===== verification/PchPcr.thy ===== *)
theory PchPcr
  imports PchInfo
begin

text \<open>
  PeiDxeSmmPchPcrLib/PchPcrLib.c: access to the private configuration registers (PCR) of
  the PCH, a 64 KB window of memory-mapped registers for each port id.
\<close>

definition PID_DMI :: u8 where [regs]: "PID_DMI = 0xEF"
definition PID_LPC :: u8 where [regs]: "PID_LPC = 0xC7"
definition PID_CSME0 :: u8 where [regs]: "PID_CSME0 = 0x90"
definition PID_GPIOCOM0 :: u8 where [regs]: "PID_GPIOCOM0 = 0xAF"
definition PID_GPIOCOM1 :: u8 where [regs]: "PID_GPIOCOM1 = 0xAE"
definition PID_GPIOCOM2 :: u8 where [regs]: "PID_GPIOCOM2 = 0xAD"
definition PID_GPIOCOM3 :: u8 where [regs]: "PID_GPIOCOM3 = 0xAC"
definition PID_GPIOCOM4 :: u8 where [regs]: "PID_GPIOCOM4 = 0xAB"
definition PID_GPIOCOM5 :: u8 where [regs]: "PID_GPIOCOM5 = 0x11"
definition R_PCH_PCR_LPC_GCFD :: u16 where [regs]: "R_PCH_PCR_LPC_GCFD = 0x3418"

text \<open>PchRegsPcr.h; PCH_PCR_BASE_ADDRESS is 0xFD000000.\<close>

definition PCH_PCR_ADDRESS :: "u8 \<Rightarrow> u16 \<Rightarrow> u64" where
  "PCH_PCR_ADDRESS Pid Offset = ucast ((0xFD000000 :: u32) OR push_bit 16 (ucast Pid) OR ucast Offset)"

section \<open>Operations\<close>

text \<open>The out parameter is a buffer of up to four bytes: a read of one or two bytes replaces
  the low part of it.  With a size other than 1, 2 and 4 the buffer keeps its contents.\<close>

definition PchPcrRead :: "'s hw \<Rightarrow> u8 \<Rightarrow> u16 \<Rightarrow> u64 \<Rightarrow> u32 \<Rightarrow> ('s, efi_status \<times> u32) prog" where
  "PchPcrRead hw Pid Offset Size OutData =
     (if ucast Offset AND (Size - 1) \<noteq> 0 then State_Monad.return (EFI_INVALID_PARAMETER, OutData)
      else if Size = 4 then do {
        v \<leftarrow> MmioRead32 hw (PCH_PCR_ADDRESS Pid Offset);
        State_Monad.return (EFI_SUCCESS, v)
      } else if Size = 2 then do {
        v \<leftarrow> MmioRead16 hw (PCH_PCR_ADDRESS Pid Offset);
        State_Monad.return (EFI_SUCCESS, (OutData AND NOT (mask 16)) OR ucast v)
      } else if Size = 1 then do {
        v \<leftarrow> MmioRead8 hw (PCH_PCR_ADDRESS Pid Offset);
        State_Monad.return (EFI_SUCCESS, (OutData AND NOT (mask 8)) OR ucast v)
      } else State_Monad.return (EFI_SUCCESS, OutData))"

definition PchPcrRead32 :: "'s hw \<Rightarrow> u8 \<Rightarrow> u16 \<Rightarrow> u32 \<Rightarrow> ('s, efi_status \<times> u32) prog" where
  "PchPcrRead32 hw Pid Offset OutData = PchPcrRead hw Pid Offset 4 OutData"

definition PchPcrRead16 :: "'s hw \<Rightarrow> u8 \<Rightarrow> u16 \<Rightarrow> u16 \<Rightarrow> ('s, efi_status \<times> u16) prog" where
  "PchPcrRead16 hw Pid Offset OutData = do {
     (Status, v) \<leftarrow> PchPcrRead hw Pid Offset 2 (ucast OutData);
     State_Monad.return (Status, ucast v)
   }"

definition PchPcrRead8 :: "'s hw \<Rightarrow> u8 \<Rightarrow> u16 \<Rightarrow> u8 \<Rightarrow> ('s, efi_status \<times> u8) prog" where
  "PchPcrRead8 hw Pid Offset OutData = do {
     (Status, v) \<leftarrow> PchPcrRead hw Pid Offset 1 (ucast OutData);
     State_Monad.return (Status, ucast v)
   }"

text \<open>The pad configuration lock registers that must be written through SBI, as the check
  lists them: by port id, with the offsets of the LP and of the H series.\<close>

definition sbi_only :: "PCH_SERIES \<Rightarrow> u8 \<Rightarrow> u16 \<Rightarrow> bool" where
  "sbi_only PchSeries Pid Offset \<longleftrightarrow>
     (Pid = PID_GPIOCOM0 \<and>
       ((PchSeries = PchLp \<and> Offset \<in> {0xA0, 0xA4, 0xA8, 0xAC}) \<or>
        (PchSeries = PchH \<and> Offset \<in> {0x60, 0x64, 0x68, 0x6C}))) \<or>
     (Pid = PID_GPIOCOM1 \<and>
       ((PchSeries = PchLp \<and> Offset \<in> {0xA0, 0xA4, 0xA8, 0xAC, 0xB0, 0xB4}) \<or>
        (PchSeries = PchH \<and>
          (Offset \<in> {0x60, 0x64, 0x68, 0x6C, 0x70, 0x74} \<comment> \<open>GPP_C, GPP_D, GPP_E\<close>
           \<or> Offset \<in> {0x70, 0x74} \<comment> \<open>GPP_F\<close>
           \<or> Offset \<in> {0x60, 0x64, 0x68, 0x6C} \<comment> \<open>GPP_G, GPP_H\<close>)))) \<or>
     (Pid = PID_GPIOCOM2 \<and>
       ((PchSeries = PchLp \<and> Offset \<in> {0xA0, 0xA4}) \<or>
        (PchSeries = PchH \<and> Offset \<in> {0x60, 0x64}))) \<or>
     (Pid = PID_GPIOCOM3 \<and>
       ((PchSeries = PchLp \<and> Offset \<in> {0xA0, 0xA4, 0xA8, 0xAC}) \<or>
        (PchSeries = PchH \<and> Offset \<in> {0x60, 0x64}))) \<or>
     Pid = PID_CSME0"

definition PchPcrWriteMmioCheck :: "'s hw \<Rightarrow> u8 \<Rightarrow> u16 \<Rightarrow> ('s, bool) prog" where
  "PchPcrWriteMmioCheck hw Pid Offset =
     (if hw_debug_code hw then do {
        PchSeries \<leftarrow> GetPchSeries hw;
        State_Monad.return (\<not> sbi_only PchSeries Pid Offset)
      } else State_Monad.return True)"

text \<open>The write reads a register of another port afterwards, so that two writes never follow
  back to back.\<close>

definition PchPcrWrite :: "'s hw \<Rightarrow> u8 \<Rightarrow> u16 \<Rightarrow> u64 \<Rightarrow> u32 \<Rightarrow> ('s, efi_status) prog" where
  "PchPcrWrite hw Pid Offset Size InData =
     (if ucast Offset AND (Size - 1) \<noteq> 0 then State_Monad.return EFI_INVALID_PARAMETER
      else do {
        ok \<leftarrow> (if hw_debug_code hw then PchPcrWriteMmioCheck hw Pid Offset
              else State_Monad.return True);
        if \<not> ok then State_Monad.return EFI_INVALID_PARAMETER
        else do {
          (if Size = 4 then do {
             _ \<leftarrow> MmioWrite32 hw (PCH_PCR_ADDRESS Pid Offset) InData;
             State_Monad.return () }
           else if Size = 2 then do {
             _ \<leftarrow> MmioWrite16 hw (PCH_PCR_ADDRESS Pid Offset) (ucast InData);
             State_Monad.return () }
           else if Size = 1 then do {
             _ \<leftarrow> MmioWrite8 hw (PCH_PCR_ADDRESS Pid Offset) (ucast InData);
             State_Monad.return () }
           else State_Monad.return ());
          _ \<leftarrow> MmioRead32 hw (PCH_PCR_ADDRESS PID_LPC R_PCH_PCR_LPC_GCFD);
          State_Monad.return EFI_SUCCESS
        }
      })"

definition PchPcrWrite32 :: "'s hw \<Rightarrow> u8 \<Rightarrow> u16 \<Rightarrow> u32 \<Rightarrow> ('s, efi_status) prog" where
  "PchPcrWrite32 hw Pid Offset InData = PchPcrWrite hw Pid Offset 4 InData"

definition PchPcrWrite16 :: "'s hw \<Rightarrow> u8 \<Rightarrow> u16 \<Rightarrow> u16 \<Rightarrow> ('s, efi_status) prog" where
  "PchPcrWrite16 hw Pid Offset InData = PchPcrWrite hw Pid Offset 2 (ucast InData)"

definition PchPcrWrite8 :: "'s hw \<Rightarrow> u8 \<Rightarrow> u16 \<Rightarrow> u8 \<Rightarrow> ('s, efi_status) prog" where
  "PchPcrWrite8 hw Pid Offset InData = PchPcrWrite hw Pid Offset 1 (ucast InData)"

definition PchPcrAndThenOr32 :: "'s hw \<Rightarrow> u8 \<Rightarrow> u16 \<Rightarrow> u32 \<Rightarrow> u32 \<Rightarrow> ('s, efi_status) prog" where
  "PchPcrAndThenOr32 hw Pid Offset AndData OrData = do {
     (Status, Data32) \<leftarrow> PchPcrRead hw Pid Offset 4 0;
     if EFI_ERROR Status then State_Monad.return Status
     else PchPcrWrite hw Pid Offset 4 ((Data32 AND AndData) OR OrData)
   }"

definition PchPcrAndThenOr16 :: "'s hw \<Rightarrow> u8 \<Rightarrow> u16 \<Rightarrow> u16 \<Rightarrow> u16 \<Rightarrow> ('s, efi_status) prog" where
  "PchPcrAndThenOr16 hw Pid Offset AndData OrData = do {
     (Status, v) \<leftarrow> PchPcrRead hw Pid Offset 2 0;
     let Data16 = ucast v;
     if EFI_ERROR Status then State_Monad.return Status
     else PchPcrWrite hw Pid Offset 2 (ucast ((Data16 AND AndData) OR OrData))
   }"

text \<open>\<open>Data8\<close> is not initialised in the source; every path that uses it has read it.\<close>

definition PchPcrAndThenOr8 :: "'s hw \<Rightarrow> u8 \<Rightarrow> u16 \<Rightarrow> u8 \<Rightarrow> u8 \<Rightarrow> ('s, efi_status) prog" where
  "PchPcrAndThenOr8 hw Pid Offset AndData OrData = do {
     (Status, v) \<leftarrow> PchPcrRead hw Pid Offset 1 0;
     let Data8 = ucast v;
     if EFI_ERROR Status then State_Monad.return Status
     else PchPcrWrite hw Pid Offset 1 (ucast ((Data8 AND AndData) OR OrData))
   }"

section \<open>Running on register storage\<close>

text \<open>The DEBUG_CODE build consults the series, and so fills its cache.\<close>

definition chk :: "bool \<Rightarrow> ram sys \<Rightarrow> ram sys" where
  "chk dbg s = (if dbg then cached s else s)"

definition refused :: "bool \<Rightarrow> ram sys \<Rightarrow> u8 \<Rightarrow> u16 \<Rightarrow> bool" where
  "refused dbg s Pid Offset \<longleftrightarrow> dbg \<and> sbi_only (cur_series s) Pid Offset"

lemma chk_simps [simp]:
  "dev (chk dbg s) = dev s" "chk dbg (chk dbg s) = chk dbg s" "cur_series (chk dbg s) = cur_series s"
  "mPchGeneration (chk dbg s) = mPchGeneration s"
  "cached (chk dbg s) = cached s" "chk dbg (cached s) = cached s"
  by (simp_all add: chk_def)

text \<open>The registers of the ports lie apart from PCI configuration space, so that the LPC
  device id that the series is read from stays as it is.\<close>

definition keeps_id :: "nat \<Rightarrow> u64 \<Rightarrow> bool" where
  "keeps_id n a = apart a n 0x800F8002 2"

lemma cur_series_wr [simp]: "keeps_id n a \<Longrightarrow> cur_series (wr n a w s) = cur_series s"
  by (simp add: cur_series_def lpc_device_id_def keeps_id_def loadw_storew_apart)

lemma cached_wr [simp]: "keeps_id n a \<Longrightarrow> cached (wr n a w s) = wr n a w (cached s)"
  by (simp add: cached_def) 

lemma chk_wr [simp]: "keeps_id n a \<Longrightarrow> chk dbg (wr n a w s) = wr n a w (chk dbg s)"
  by (simp add: chk_def)

lemma PCR_base_bit: "bit (0xFD000000 :: int) n \<Longrightarrow> 24 \<le> n"
proof (rule ccontr)
  assume b: "bit (0xFD000000 :: int) n" and "\<not> 24 \<le> n"
  then have "bit (take_bit 24 (0xFD000000 :: int)) n" by (simp only: bit_take_bit_iff) simp
  then show False by simp
qed

lemma PCR_parts:
  "(0xFD000000 :: u32) OR push_bit 16 (ucast Pid) OR ucast Offset
     = 0xFD000000 + (push_bit 16 (ucast (Pid :: u8)) + ucast (Offset :: u16))"
proof -
  have "push_bit 16 (ucast Pid) + ucast Offset = (push_bit 16 (ucast Pid) OR ucast Offset :: u32)"
    by (rule disjunctive_add) (auto simp: bit_simps dest: bit_imp_le_length)
  moreover have "0xFD000000 + (push_bit 16 (ucast Pid) OR ucast Offset)
      = (0xFD000000 OR (push_bit 16 (ucast Pid) OR ucast Offset) :: u32)"
    by (rule disjunctive_add) (auto simp: bit_simps dest!: PCR_base_bit bit_imp_le_length)
  ultimately show ?thesis by (simp only: or.assoc)
qed

lemma unat_PCR:
  "unat (PCH_PCR_ADDRESS Pid Offset) = 0xFD000000 + 0x10000 * unat Pid + unat Offset"
proof -
  have b: "unat Pid < 256" "unat Offset < 65536"
    using unsigned_less [of Pid] unsigned_less [of Offset] by simp_all
  have u: "unat (ucast Pid :: u32) = unat Pid" "unat (ucast Offset :: u32) = unat Offset"
    using b by (simp_all add: unsigned_ucast_eq take_bit_nat_eq_self)
  have "unat ((0xFD000000 :: u32) + (push_bit 16 (ucast Pid) + ucast Offset))
      = 0xFD000000 + 0x10000 * unat Pid + unat Offset"
    using b by (simp add: push_bit_eq_mult unat_word_ariths u)
  moreover have "0xFD000000 + 0x10000 * unat Pid + unat Offset < 2 ^ 64" using b by simp
  ultimately show ?thesis
    by (simp add: PCH_PCR_ADDRESS_def PCR_parts unsigned_ucast_eq take_bit_nat_eq_self)
qed

lemma keeps_id_PCR [simp]: "n \<le> 4 \<Longrightarrow> keeps_id n (PCH_PCR_ADDRESS Pid Offset)"
proof -
  assume "n \<le> 4"
  moreover have "unat Pid < 256" "unat Offset < 65536"
    using unsigned_less [of Pid] unsigned_less [of Offset] by simp_all
  ultimately show ?thesis
    unfolding keeps_id_def by (intro apart_above) (simp_all add: unat_PCR)
qed

lemma ucast_mask_zero [simp]:
  "(ucast x AND 3 :: u64) = 0 \<longleftrightarrow> x AND 3 = 0" "(ucast x AND 1 :: u64) = 0 \<longleftrightarrow> x AND 1 = 0"
  for x :: u16
proof -
  have "ucast x AND 3 = (ucast (x AND 3) :: u64)" "ucast x AND 1 = (ucast (x AND 1) :: u64)"
    by (simp_all add: ucast_and_widen)
  then show "(ucast x AND 3 :: u64) = 0 \<longleftrightarrow> x AND 3 = 0"
    "(ucast x AND 1 :: u64) = 0 \<longleftrightarrow> x AND 1 = 0"
    by (simp_all del: ucast_and_widen)
qed

lemma run_PchPcrRead [hwrun]:
  "run_state (PchPcrRead32 (ram_hw dbg) Pid Offset d32) s
     = (if Offset AND 3 = 0 then (EFI_SUCCESS, reg32 s (PCH_PCR_ADDRESS Pid Offset))
        else (EFI_INVALID_PARAMETER, d32), s)"
  "run_state (PchPcrRead16 (ram_hw dbg) Pid Offset d16) s
     = (if Offset AND 1 = 0 then (EFI_SUCCESS, reg16 s (PCH_PCR_ADDRESS Pid Offset))
        else (EFI_INVALID_PARAMETER, d16), s)"
  "run_state (PchPcrRead8 (ram_hw dbg) Pid Offset d8) s
     = ((EFI_SUCCESS, reg8 s (PCH_PCR_ADDRESS Pid Offset)), s)"
  by (simp_all add: PchPcrRead32_def PchPcrRead16_def PchPcrRead8_def PchPcrRead_def hwrun
      ucast_low_part [where 'a=16 and 'b=32, simplified] ucast_low_part [where 'a=8 and 'b=32, simplified])

lemma run_PchPcrWrite:
  "run_state (PchPcrWrite (ram_hw dbg) Pid Offset Size v) s
     = (if ucast Offset AND (Size - 1) \<noteq> 0 then (EFI_INVALID_PARAMETER, s)
        else if refused dbg s Pid Offset then (EFI_INVALID_PARAMETER, chk dbg s)
        else (EFI_SUCCESS,
          (if Size = 4 then wr32 (PCH_PCR_ADDRESS Pid Offset) v
           else if Size = 2 then wr16 (PCH_PCR_ADDRESS Pid Offset) (ucast v)
           else if Size = 1 then wr8 (PCH_PCR_ADDRESS Pid Offset) (ucast v) else id) (chk dbg s)))"
  by (simp add: PchPcrWrite_def PchPcrWriteMmioCheck_def hwrun refused_def chk_def)

lemma run_PchPcrWrites [hwrun]:
  "run_state (PchPcrWrite32 (ram_hw dbg) Pid Offset v) s
     = (if Offset AND 3 \<noteq> 0 then (EFI_INVALID_PARAMETER, s)
        else if refused dbg s Pid Offset then (EFI_INVALID_PARAMETER, chk dbg s)
        else (EFI_SUCCESS, wr32 (PCH_PCR_ADDRESS Pid Offset) v (chk dbg s)))"
  "run_state (PchPcrWrite16 (ram_hw dbg) Pid Offset w) s
     = (if Offset AND 1 \<noteq> 0 then (EFI_INVALID_PARAMETER, s)
        else if refused dbg s Pid Offset then (EFI_INVALID_PARAMETER, chk dbg s)
        else (EFI_SUCCESS, wr16 (PCH_PCR_ADDRESS Pid Offset) w (chk dbg s)))"
  "run_state (PchPcrWrite8 (ram_hw dbg) Pid Offset b) s
     = (if refused dbg s Pid Offset then (EFI_INVALID_PARAMETER, chk dbg s)
        else (EFI_SUCCESS, wr8 (PCH_PCR_ADDRESS Pid Offset) b (chk dbg s)))"
  by (simp_all add: PchPcrWrite32_def PchPcrWrite16_def PchPcrWrite8_def run_PchPcrWrite)

lemma run_PchPcrAndThenOr [hwrun]:
  "run_state (PchPcrAndThenOr32 (ram_hw dbg) Pid Offset a o') s
     = (if Offset AND 3 \<noteq> 0 then (EFI_INVALID_PARAMETER, s)
        else if refused dbg s Pid Offset then (EFI_INVALID_PARAMETER, chk dbg s)
        else (EFI_SUCCESS, wr32 (PCH_PCR_ADDRESS Pid Offset)
          (reg32 s (PCH_PCR_ADDRESS Pid Offset) AND a OR o') (chk dbg s)))"
  "run_state (PchPcrAndThenOr16 (ram_hw dbg) Pid Offset a16 o16) s
     = (if Offset AND 1 \<noteq> 0 then (EFI_INVALID_PARAMETER, s)
        else if refused dbg s Pid Offset then (EFI_INVALID_PARAMETER, chk dbg s)
        else (EFI_SUCCESS, wr16 (PCH_PCR_ADDRESS Pid Offset)
          (reg16 s (PCH_PCR_ADDRESS Pid Offset) AND a16 OR o16) (chk dbg s)))"
  "run_state (PchPcrAndThenOr8 (ram_hw dbg) Pid Offset a8 o8) s
     = (if refused dbg s Pid Offset then (EFI_INVALID_PARAMETER, chk dbg s)
        else (EFI_SUCCESS, wr8 (PCH_PCR_ADDRESS Pid Offset)
          (reg8 s (PCH_PCR_ADDRESS Pid Offset) AND a8 OR o8) (chk dbg s)))"
  by (simp_all add: PchPcrAndThenOr32_def PchPcrAndThenOr16_def PchPcrAndThenOr8_def
      PchPcrRead_def run_PchPcrWrite hwrun EFI_ERROR_def)

lemma not_refused [simp]:
  "\<not> refused dbg s PID_DMI Offset" "\<not> refused dbg s PID_LPC Offset"
  by (simp_all add: refused_def sbi_only_def regs)

section \<open>Distinct registers\<close>

lemma dvd4_gap: "a \<noteq> b \<Longrightarrow> 4 dvd a \<Longrightarrow> 4 dvd b \<Longrightarrow> a + 4 \<le> b \<or> b + 4 \<le> (a :: nat)"
  by presburger

lemma PCR_apart:
  assumes "Offset AND 3 = 0" "Offset' AND 3 = 0" "(Pid, Offset) \<noteq> (Pid', Offset')"
  shows "apart (PCH_PCR_ADDRESS Pid Offset) 4 (PCH_PCR_ADDRESS Pid' Offset') 4"
proof -
  let ?a = "unat (PCH_PCR_ADDRESS Pid Offset)" and ?b = "unat (PCH_PCR_ADDRESS Pid' Offset')"
  have bounds: "unat Pid < 256" "unat Offset < 65536" "unat Pid' < 256" "unat Offset' < 65536"
    using unsigned_less [of Pid] unsigned_less [of Offset] unsigned_less [of Pid']
      unsigned_less [of Offset'] by simp_all
  have al: "4 dvd unat Offset" "4 dvd unat Offset'"
    using assms(1,2) by (simp_all add: and_3_zero)
  have "?a \<noteq> ?b"
  proof
    assume "?a = ?b"
    then have "0x10000 * unat Pid + unat Offset = 0x10000 * unat Pid' + unat Offset'"
      by (simp add: unat_PCR)
    then have e: "0x10000 * unat Pid + unat Offset = 0x10000 * unat Pid' + unat Offset'" .
    then have "\<not> unat Pid < unat Pid'" "\<not> unat Pid' < unat Pid" using bounds by linarith+
    then have "unat Pid = unat Pid'" by linarith
    with e have "unat Pid = unat Pid'" "unat Offset = unat Offset'" by linarith+
    then have "Pid = Pid'" "Offset = Offset'" by (metis unsigned_word_eqI)+
    with assms(3) show False by simp
  qed
  moreover have "4 dvd ?a" "4 dvd ?b" using al by (simp_all add: unat_PCR)
  ultimately have "?a + 4 \<le> ?b \<or> ?b + 4 \<le> ?a" by (rule dvd4_gap)
  moreover have "?a + 4 \<le> 2 ^ 64" "?b + 4 \<le> 2 ^ 64" using bounds by (simp_all add: unat_PCR)
  ultimately show ?thesis
    using apart_above [of "PCH_PCR_ADDRESS Pid' Offset'" 4 "PCH_PCR_ADDRESS Pid Offset" 4]
      apart_above [of "PCH_PCR_ADDRESS Pid Offset" 4 "PCH_PCR_ADDRESS Pid' Offset'" 4]
    by (auto simp: apart_sym)
qed

text \<open>C37: PchPcrAndThenOr32 with the complement of a field mask and a masked value replaces that
  field and nothing else: the register reads back with the new field, its other bits are kept,
  and every other aligned register of any port id reads as before.\<close>

theorem pcr_field_update:
  assumes "Offset AND 3 = 0" and "\<not> refused dbg s Pid Offset"
    and "run_state (PchPcrAndThenOr32 (ram_hw dbg) Pid Offset (NOT Msk) (Value AND Msk)) s = (st, s')"
    and "fst (run_state (PchPcrRead32 (ram_hw dbg) Pid Offset 0) s) = (EFI_SUCCESS, v)"
    and "fst (run_state (PchPcrRead32 (ram_hw dbg) Pid Offset 0) s') = (st', v')"
    and "Offset' AND 3 = 0" and "(Pid', Offset') \<noteq> (Pid, Offset)"
  shows "st = EFI_SUCCESS \<and> st' = EFI_SUCCESS \<and> v' AND Msk = Value AND Msk
    \<and> v' AND NOT Msk = v AND NOT Msk
    \<and> fst (run_state (PchPcrRead32 (ram_hw dbg) Pid' Offset' 0) s')
        = fst (run_state (PchPcrRead32 (ram_hw dbg) Pid' Offset' 0) s)"
proof -
  have "apart (PCH_PCR_ADDRESS Pid Offset) 4 (PCH_PCR_ADDRESS Pid' Offset') 4"
    using assms(1,6,7) by (intro PCR_apart) auto
  with assms show ?thesis
    by (auto simp: hwrun loadw_storew_apart and_not_or_field and_not_or_outside)
qed

theorem pcr_field_update_witness:
  "let s' = snd (run_state (PchPcrAndThenOr32 (ram_hw True) PID_DMI 0x27B0 (NOT 0xFF) (0xA8 AND 0xFF)) (boot blank))
   in fst (run_state (PchPcrRead32 (ram_hw True) PID_DMI 0x27B4 0) s')
      = fst (run_state (PchPcrRead32 (ram_hw True) PID_DMI 0x27B4 0) (boot blank))"
proof -
  have "fst (run_state (PchPcrRead32 (ram_hw True) PID_DMI 0x27B0 0) (boot blank)) = (EFI_SUCCESS, 0)"
    by (simp add: hwrun)
  from pcr_field_update [where Msk = "0xFF" and Value = "0xA8" and Offset' = "0x27B4" and Pid' = PID_DMI,
      OF _ not_refused(1) surjective_pairing this surjective_pairing]
  show ?thesis by (simp add: Let_def)
qed

text \<open>A misaligned access is refused without touching the device, at every width.\<close>

text \<open>A misaligned 32-bit (16-bit) private register access is refused with
  EFI_INVALID_PARAMETER, and neither the state nor the caller's data changes.\<close>

theorem pcr_misaligned_refused:
  assumes "Offset AND 3 \<noteq> 0"
  shows "run_state (PchPcrRead32 (ram_hw dbg) Pid Offset d) s = ((EFI_INVALID_PARAMETER, d), s)
    \<and> run_state (PchPcrWrite32 (ram_hw dbg) Pid Offset v) s = (EFI_INVALID_PARAMETER, s)
    \<and> run_state (PchPcrAndThenOr32 (ram_hw dbg) Pid Offset a v) s = (EFI_INVALID_PARAMETER, s)
    \<and> (Offset AND 1 \<noteq> 0 \<longrightarrow>
        run_state (PchPcrRead16 (ram_hw dbg) Pid Offset d16) s = ((EFI_INVALID_PARAMETER, d16), s)
        \<and> run_state (PchPcrWrite16 (ram_hw dbg) Pid Offset v16) s = (EFI_INVALID_PARAMETER, s))"
  using assms by (simp add: hwrun)

theorem pcr_misaligned_refused_witness:
  "run_state (PchPcrWrite32 (ram_hw True) PID_DMI 0x27B2 1) (boot blank) = (EFI_INVALID_PARAMETER, boot blank)"
  using pcr_misaligned_refused [of "0x27B2" True PID_DMI 0 "boot blank" 1] by simp

end
