(* ===== verification/PchP2sb.thy ===== *)
theory PchP2sb
  imports PchPcr
begin

text \<open>
  PeiDxeSmmPchP2sbLib/PchP2sbLib.c: access to the configuration registers of the
  primary-to-sideband bridge (P2SB), a PCI function the firmware keeps hidden: a hidden
  function reads as all ones, and clearing bit 0 of byte E1h reveals it.
\<close>

definition PCI_DEVICE_NUMBER_PCH_P2SB :: u32 where [regs]: "PCI_DEVICE_NUMBER_PCH_P2SB = 31"
definition PCI_FUNCTION_NUMBER_PCH_P2SB :: u32 where [regs]: "PCI_FUNCTION_NUMBER_PCH_P2SB = 1"
definition R_PCH_P2SB_E0 :: u64 where [regs]: "R_PCH_P2SB_E0 = 0xE0"

definition P2sbBase :: "'s hw \<Rightarrow> u64" where
  "P2sbBase hw = hw_pci_base hw DEFAULT_PCI_BUS_NUMBER_PCH PCI_DEVICE_NUMBER_PCH_P2SB
     PCI_FUNCTION_NUMBER_PCH_P2SB"

definition PchHideP2sb :: "'s hw \<Rightarrow> u64 \<Rightarrow> ('s, efi_status) prog" where
  "PchHideP2sb hw Base = do {
     _ \<leftarrow> MmioWrite8 hw (Base + R_PCH_P2SB_E0 + 1) (BIT 0);
     State_Monad.return EFI_SUCCESS
   }"

text \<open>The out parameter OrgStatus may be NULL, here None.\<close>

definition PchRevealP2sb :: "'s hw \<Rightarrow> u64 \<Rightarrow> bool option \<Rightarrow> ('s, efi_status \<times> bool option) prog" where
  "PchRevealP2sb hw Base OrgStatus = do {
     vid \<leftarrow> MmioRead16 hw (Base + PCI_VENDOR_ID_OFFSET);
     let DevicePresent = (vid \<noteq> 0xFFFF);
     let OrgStatus = map_option (\<lambda>_. DevicePresent) OrgStatus;
     (if \<not> DevicePresent then do {
        _ \<leftarrow> MmioWrite8 hw (Base + R_PCH_P2SB_E0 + 1) 0;
        State_Monad.return () }
      else State_Monad.return ());
     State_Monad.return (EFI_SUCCESS, OrgStatus)
   }"

text \<open>The check of offset and size, and the steps before and after the access proper.\<close>

definition p2sb_bad :: "u64 \<Rightarrow> u64 \<Rightarrow> bool" where
  "p2sb_bad Offset Size \<longleftrightarrow> Offset > 255 \<or> Offset AND (Size - 1) \<noteq> 0"

definition p2sb_reveal :: "'s hw \<Rightarrow> ('s, bool) prog" where
  "p2sb_reveal hw = do {
     vid \<leftarrow> MmioRead16 hw (P2sbBase hw + PCI_VENDOR_ID_OFFSET);
     let DevicePresent = (vid \<noteq> 0xFFFF);
     (if \<not> DevicePresent then do {
        _ \<leftarrow> MmioWrite8 hw (P2sbBase hw + R_PCH_P2SB_E0 + 1) 0;
        State_Monad.return () }
      else State_Monad.return ());
     State_Monad.return DevicePresent
   }"

definition p2sb_unreveal :: "'s hw \<Rightarrow> bool \<Rightarrow> ('s, unit) prog" where
  "p2sb_unreveal hw DevicePresent =
     (if \<not> DevicePresent then do {
        _ \<leftarrow> MmioWrite8 hw (P2sbBase hw + R_PCH_P2SB_E0 + 1) (BIT 0);
        State_Monad.return () }
      else State_Monad.return ())"

definition PchP2sbCfgGet :: "'s hw \<Rightarrow> u64 \<Rightarrow> u64 \<Rightarrow> u32 \<Rightarrow> ('s, efi_status \<times> u32) prog" where
  "PchP2sbCfgGet hw Offset Size OutData =
     (if p2sb_bad Offset Size then State_Monad.return (EFI_INVALID_PARAMETER, OutData)
      else do {
        DevicePresent \<leftarrow> p2sb_reveal hw;
        OutData \<leftarrow>
          (if Size = 4 then MmioRead32 hw (P2sbBase hw + Offset)
           else if Size = 2 then do {
             v \<leftarrow> MmioRead16 hw (P2sbBase hw + Offset);
             State_Monad.return ((OutData AND NOT (mask 16)) OR ucast v) }
           else if Size = 1 then do {
             v \<leftarrow> MmioRead8 hw (P2sbBase hw + Offset);
             State_Monad.return ((OutData AND NOT (mask 8)) OR ucast v) }
           else State_Monad.return OutData);
        p2sb_unreveal hw DevicePresent;
        State_Monad.return (EFI_SUCCESS, OutData)
      })"

definition PchP2sbCfgGet32 :: "'s hw \<Rightarrow> u64 \<Rightarrow> u32 \<Rightarrow> ('s, efi_status \<times> u32) prog" where
  "PchP2sbCfgGet32 hw Offset OutData = PchP2sbCfgGet hw Offset 4 OutData"

definition PchP2sbCfgGet16 :: "'s hw \<Rightarrow> u64 \<Rightarrow> u16 \<Rightarrow> ('s, efi_status \<times> u16) prog" where
  "PchP2sbCfgGet16 hw Offset OutData = do {
     (Status, v) \<leftarrow> PchP2sbCfgGet hw Offset 2 (ucast OutData);
     State_Monad.return (Status, ucast v)
   }"

definition PchP2sbCfgGet8 :: "'s hw \<Rightarrow> u64 \<Rightarrow> u8 \<Rightarrow> ('s, efi_status \<times> u8) prog" where
  "PchP2sbCfgGet8 hw Offset OutData = do {
     (Status, v) \<leftarrow> PchP2sbCfgGet hw Offset 1 (ucast OutData);
     State_Monad.return (Status, ucast v)
   }"

definition PchP2sbCfgSet :: "'s hw \<Rightarrow> u64 \<Rightarrow> u64 \<Rightarrow> u32 \<Rightarrow> u32 \<Rightarrow> ('s, efi_status) prog" where
  "PchP2sbCfgSet hw Offset Size AndData OrData =
     (if p2sb_bad Offset Size then State_Monad.return EFI_INVALID_PARAMETER
      else do {
        DevicePresent \<leftarrow> p2sb_reveal hw;
        (if Size = 4 then do {
           Data32 \<leftarrow> MmioRead32 hw (P2sbBase hw + Offset);
           _ \<leftarrow> MmioWrite32 hw (P2sbBase hw + Offset) ((Data32 AND AndData) OR OrData);
           State_Monad.return () }
         else if Size = 2 then do {
           v \<leftarrow> MmioRead16 hw (P2sbBase hw + Offset);
           _ \<leftarrow> MmioWrite16 hw (P2sbBase hw + Offset) (ucast ((ucast v AND AndData) OR OrData));
           State_Monad.return () }
         else if Size = 1 then do {
           v \<leftarrow> MmioRead8 hw (P2sbBase hw + Offset);
           _ \<leftarrow> MmioWrite8 hw (P2sbBase hw + Offset) (ucast ((ucast v AND AndData) OR OrData));
           State_Monad.return () }
         else State_Monad.return ());
        p2sb_unreveal hw DevicePresent;
        State_Monad.return EFI_SUCCESS
      })"

definition PchP2sbCfgSet32 :: "'s hw \<Rightarrow> u64 \<Rightarrow> u32 \<Rightarrow> u32 \<Rightarrow> ('s, efi_status) prog" where
  "PchP2sbCfgSet32 hw Offset AndData OrData = PchP2sbCfgSet hw Offset 4 AndData OrData"

definition PchP2sbCfgSet16 :: "'s hw \<Rightarrow> u64 \<Rightarrow> u16 \<Rightarrow> u16 \<Rightarrow> ('s, efi_status) prog" where
  "PchP2sbCfgSet16 hw Offset AndData OrData = PchP2sbCfgSet hw Offset 2 (ucast AndData) (ucast OrData)"

definition PchP2sbCfgSet8 :: "'s hw \<Rightarrow> u64 \<Rightarrow> u8 \<Rightarrow> u8 \<Rightarrow> ('s, efi_status) prog" where
  "PchP2sbCfgSet8 hw Offset AndData OrData = PchP2sbCfgSet hw Offset 1 (ucast AndData) (ucast OrData)"

section \<open>A P2SB function that can be hidden and carries sideband messages\<close>

text \<open>The second hardware instance: register storage in which the P2SB page reads as ones and
  ignores stores while bit 0 of byte E1h is set, and in which a 16-bit store to SBISTAT with
  INITRDY set hands the message in the SBI registers to \<open>respond\<close>, which answers with a
  response code and data and may change the device; the answer is there at the next read.\<close>

record sbi_msg =
  m_addr :: u32
  m_ext :: u32
  m_stat :: u16
  m_rid :: u16
  m_data :: u32

type_synonym responder = "sbi_msg \<Rightarrow> ram \<Rightarrow> u8 \<times> u32 \<times> ram"

definition in_p2sb :: "u64 \<Rightarrow> bool" where
  "in_p2sb a \<longleftrightarrow> unat (a - 0x800F9000) < 0x1000"

definition hidden :: "ram \<Rightarrow> bool" where
  "hidden d \<longleftrightarrow> bit (mem d 0x800F90E1) 0"

definition the_msg :: "mem \<Rightarrow> sbi_msg" where
  "the_msg m = \<lparr> m_addr = loadw 4 m 0x800F90D0, m_ext = loadw 4 m 0x800F90DC,
     m_stat = loadw 2 m 0x800F90D8, m_rid = loadw 2 m 0x800F90DA, m_data = loadw 4 m 0x800F90D4 \<rparr>"

definition transact :: "responder \<Rightarrow> ram \<Rightarrow> ram" where
  "transact respond d =
     (case respond (the_msg (mem d)) d of (r, v, d') \<Rightarrow>
        d'\<lparr> mem := storew 2 (storew 4 (mem d') 0x800F90D4 v) 0x800F90D8
              ((loadw 2 (mem d) 0x800F90D8 AND NOT (mask 3)) OR push_bit 1 (ucast r AND mask 2) :: u16) \<rparr>)"

definition sbi_rd :: "nat \<Rightarrow> u64 \<Rightarrow> ram \<Rightarrow> 'a::len word \<times> ram" where
  "sbi_rd n a d = (if hidden d \<and> in_p2sb a then - 1 else loadw n (mem d) a, d)"

definition sbi_wr :: "responder \<Rightarrow> nat \<Rightarrow> u64 \<Rightarrow> 'a::len word \<Rightarrow> ram \<Rightarrow> ram" where
  "sbi_wr respond n a w d =
     (if hidden d \<and> in_p2sb a \<and> a \<noteq> 0x800F90E1 then d
      else if n = 2 \<and> a = 0x800F90D8 \<and> bit w 0 then transact respond (ram_wr n a w d)
      else ram_wr n a w d)"

definition sbi_hw :: "responder \<Rightarrow> ram hw" where
  "sbi_hw respond = \<lparr>
     hw_rd8 = sbi_rd 1, hw_rd16 = sbi_rd 2, hw_rd32 = sbi_rd 4,
     hw_wr8 = sbi_wr respond 1, hw_wr16 = sbi_wr respond 2, hw_wr32 = sbi_wr respond 4,
     hw_pci_base = ecam, hw_simics = False, hw_debug_code = False \<rparr>"

lemma sbi_hw_simps [hwrun]:
  "hw_pci_base (sbi_hw r) = ecam" "\<not> hw_debug_code (sbi_hw r)"
  by (simp_all add: sbi_hw_def)

abbreviation vis :: "ram sys \<Rightarrow> bool" where "vis s \<equiv> \<not> hidden (dev s)"

text \<open>Outside the P2SB page, and inside it while it is revealed, this is plain storage.\<close>

lemma run_sbi_rd [hwrun]:
  "run_state (MmioRead8 (sbi_hw r) a) s = (if hidden (dev s) \<and> in_p2sb a then - 1 else reg8 s a, s)"
  "run_state (MmioRead16 (sbi_hw r) a) s = (if hidden (dev s) \<and> in_p2sb a then - 1 else reg16 s a, s)"
  "run_state (MmioRead32 (sbi_hw r) a) s = (if hidden (dev s) \<and> in_p2sb a then - 1 else reg32 s a, s)"
  by (simp_all add: MmioRead8_def MmioRead16_def MmioRead32_def run_on_dev sbi_hw_def sbi_rd_def)

definition sent :: "responder \<Rightarrow> ram sys \<Rightarrow> ram sys" where
  "sent r s = s\<lparr> dev := transact r (dev s) \<rparr>"

lemma run_sbi_wr [hwrun]:
  "run_state (MmioWrite8 (sbi_hw r) a b) s
     = (b, if hidden (dev s) \<and> in_p2sb a \<and> a \<noteq> 0x800F90E1 then s else wr8 a b s)"
  "run_state (MmioWrite16 (sbi_hw r) a w) s
     = (w, if hidden (dev s) \<and> in_p2sb a \<and> a \<noteq> 0x800F90E1 then s
           else if a = 0x800F90D8 \<and> bit w 0 then sent r (wr16 a w s)
           else wr16 a w s)"
  "run_state (MmioWrite32 (sbi_hw r) a v) s
     = (v, if hidden (dev s) \<and> in_p2sb a \<and> a \<noteq> 0x800F90E1 then s else wr32 a v s)"
  by (simp_all add: MmioWrite8_def MmioWrite16_def MmioWrite32_def run_on_dev sbi_hw_def sbi_wr_def wr_def
      sent_def)

text \<open>The store to E1h is what hides and reveals.\<close>

lemma storew1: "storew (Suc 0) m a (b :: u8) = m(a := b)"
proof
  fix x
  show "storew (Suc 0) m a b x = (m(a := b)) x"
  proof (cases "x = a")
    case True
    then show ?thesis by (simp add: storew_def storen_def bytes_of_def)
  next
    case False
    then have "x - a \<noteq> 0" by simp
    then have "unat (x - a) \<noteq> 0" by (metis unsigned_0 unsigned_word_eqI)
    with False show ?thesis by (simp add: storew_def storen_def)
  qed
qed

lemma hidden_wr_E1 [simp]: "hidden (dev (wr8 0x800F90E1 b s)) \<longleftrightarrow> bit b 0"
  using storew1 [of "mem (dev s)" "0x800F90E1" b] by (simp add: hidden_def)

lemma hidden_wr_apart: "apart a n 0x800F90E1 (Suc 0) \<Longrightarrow> hidden (dev (wr n a w s)) \<longleftrightarrow> hidden (dev s)"
  by (simp add: hidden_def storew_apart_byte)

section \<open>Revealing and hiding\<close>

definition present :: "ram sys \<Rightarrow> bool" where
  "present s \<longleftrightarrow> reg16 s 0x800F9000 \<noteq> 0xFFFF"

definition revealed :: "ram sys \<Rightarrow> ram sys" where
  "revealed s = (if hidden (dev s) then wr8 0x800F90E1 0 s else s)"

definition rehidden :: "bool \<Rightarrow> ram sys \<Rightarrow> ram sys" where
  "rehidden h s = (if h then wr8 0x800F90E1 1 s else s)"

lemma P2sbBase_sbi [hwrun]: "P2sbBase (sbi_hw r) = 0x800F9000"
  by (simp add: P2sbBase_def hwrun regs)

lemma in_p2sb_offset [simp]: "Offset \<le> 255 \<Longrightarrow> in_p2sb (0x800F9000 + Offset)"
  by (simp add: in_p2sb_def word_le_nat_alt)

lemma in_p2sb_lit [simp]: "in_p2sb 0x800F9000" "in_p2sb 0x800F90E1" "in_p2sb 0x800F90D8"
  "in_p2sb 0x800F90D0" "in_p2sb 0x800F90D4" "in_p2sb 0x800F90DC" "in_p2sb 0x800F90DA"
  by (simp_all add: in_p2sb_def)

lemma revealed_simps [simp]:
  "\<not> hidden (dev (revealed s))" "present s \<Longrightarrow> present (revealed s)"
  by (auto simp: revealed_def present_def mem_simps)

lemma hidden_rehidden [simp]: "\<not> hidden (dev s) \<Longrightarrow> hidden (dev (rehidden h s)) \<longleftrightarrow> h"
  by (simp add: rehidden_def)

lemma revealed_mem:
  "mem (dev (revealed s)) = (if hidden (dev s) then (mem (dev s))(0x800F90E1 := 0) else mem (dev s))"
  by (simp add: revealed_def storew1)

lemma revealed_loadw: "apart 0x800F90E1 (Suc 0) a n \<Longrightarrow> loadw n (mem (dev (revealed s))) a = loadw n (mem (dev s)) a"
  by (simp add: revealed_def loadw_storew_apart)

lemma rehidden_loadw: "apart 0x800F90E1 (Suc 0) a n \<Longrightarrow> loadw n (mem (dev (rehidden h s))) a = loadw n (mem (dev s)) a"
  by (simp add: rehidden_def loadw_storew_apart)

lemma run_p2sb_reveal [hwrun]:
  "present s \<Longrightarrow> run_state (p2sb_reveal (sbi_hw r)) s = (vis s, revealed s)"
  by (auto simp: p2sb_reveal_def hwrun regs revealed_def present_def)

lemma run_p2sb_unreveal [hwrun]:
  "run_state (p2sb_unreveal (sbi_hw r) b) s = ((), rehidden (\<not> b) s)"
  by (simp add: p2sb_unreveal_def hwrun regs rehidden_def)

lemma run_PchRevealP2sb [hwrun]:
  "present s \<Longrightarrow> run_state (PchRevealP2sb (sbi_hw r) 0x800F9000 (Some b)) s
     = ((EFI_SUCCESS, Some (vis s)), revealed s)"
  by (auto simp: PchRevealP2sb_def hwrun regs revealed_def present_def)

lemma run_PchHideP2sb [hwrun]:
  "run_state (PchHideP2sb (sbi_hw r) 0x800F9000) s = (EFI_SUCCESS, rehidden True s)"
  by (simp add: PchHideP2sb_def hwrun regs rehidden_def)

section \<open>The configuration access\<close>

lemma run_CfgGet32:
  assumes "present s" "Offset \<le> 255" "Offset AND 3 = 0"
  shows "run_state (PchP2sbCfgGet32 (sbi_hw r) Offset d) s
     = ((EFI_SUCCESS, reg32 (revealed s) (0x800F9000 + Offset)), rehidden (hidden (dev s)) (revealed s))"
  using assms by (auto simp: PchP2sbCfgGet32_def PchP2sbCfgGet_def p2sb_bad_def hwrun)

lemma run_CfgSet32:
  assumes "present s" "Offset \<le> 255" "Offset AND 3 = 0"
  shows "run_state (PchP2sbCfgSet32 (sbi_hw r) Offset a o') s
     = (EFI_SUCCESS, rehidden (hidden (dev s)) (wr32 (0x800F9000 + Offset)
         (reg32 (revealed s) (0x800F9000 + Offset) AND a OR o') (revealed s)))"
  using assms by (auto simp: PchP2sbCfgSet32_def PchP2sbCfgSet_def p2sb_bad_def hwrun)

lemma apart_E1:
  assumes "Offset \<le> 255" "Offset AND 3 = 0" "Offset \<noteq> 0xE0"
  shows "apart (0x800F9000 + Offset) 4 0x800F90E1 (Suc 0)"
proof -
  have le: "unat Offset \<le> 255" using assms(1) by (simp add: word_le_nat_alt)
  have "unat Offset \<noteq> 0xE0"
  proof
    assume "unat Offset = 0xE0"
    then have "unat Offset = unat (0xE0 :: u64)" by simp
    with assms(3) show False by (metis unsigned_word_eqI)
  qed
  moreover have "4 dvd unat Offset" using assms(2) by (simp add: and_3_zero)
  ultimately have "unat Offset + 4 \<le> 0xE1 \<or> 0xE4 \<le> unat Offset" by presburger
  moreover have "unat (0x800F9000 + Offset) = 0x800F9000 + unat Offset"
    using le by (simp add: unat_word_ariths)
  ultimately show ?thesis
    using le apart_above [of "0x800F90E1" "Suc 0" "0x800F9000 + Offset" 4]
      apart_above [of "0x800F9000 + Offset" 4 "0x800F90E1" "Suc 0"]
    by (auto simp: apart_sym)
qed

text \<open>PchP2sbCfgSet32 updates the addressed P2SB configuration register with its AND and OR
  data, whether the bridge was hidden or visible, touches no other byte apart from the hide
  byte, and restores the hidden state.\<close>

theorem p2sb_cfg_set32:
  assumes "present s" and "Offset \<le> 255" and "Offset AND 3 = 0" and "Offset \<noteq> 0xE0"
    and "run_state (PchP2sbCfgSet32 (sbi_hw respond) Offset AndData OrData) s = (st, s')"
  shows "st = EFI_SUCCESS \<and> hidden (dev s') = hidden (dev s) \<and>
    reg32 s' (0x800F9000 + Offset) = reg32 s (0x800F9000 + Offset) AND AndData OR OrData \<and>
    (\<forall>b. apart (0x800F9000 + Offset) 4 b 1 \<and> b \<noteq> 0x800F90E1 \<longrightarrow> mem (dev s') b = mem (dev s) b)"
proof -
  have E1: "apart 0x800F90E1 (Suc 0) (0x800F9000 + Offset) 4"
    using apart_E1 [OF assms(2-4)] by (simp add: apart_sym)
  let ?v = "reg32 s (0x800F9000 + Offset) AND AndData OR OrData"
  have run: "st = EFI_SUCCESS \<and>
      s' = rehidden (hidden (dev s)) (wr32 (0x800F9000 + Offset) ?v (revealed s))"
    using assms(5) run_CfgSet32 [OF assms(1-3), of respond AndData OrData]
    by (simp add: revealed_loadw [OF E1])
  have vis: "vis (wr32 (0x800F9000 + Offset) ?v (revealed s))"
    by (simp add: hidden_wr_apart [OF apart_E1 [OF assms(2-4)]])
  have "mem (dev s') b = mem (dev s) b"
    if "apart (0x800F9000 + Offset) 4 b 1" "b \<noteq> 0x800F90E1" for b
    using run that by (simp add: rehidden_def storew1 storew_apart_byte revealed_mem)
  with run vis show ?thesis
    by (simp add: rehidden_loadw [OF E1])
qed

theorem p2sb_cfg_set32_witness:
  "reg32 (snd (run_state (PchP2sbCfgSet32 (sbi_hw (\<lambda>m d. (0, 0, d))) 0x60 0 0x81) (boot blank))) 0x800F9060 = 0x81"
proof -
  have "present (boot blank)"
    by (simp add: present_def)
  from p2sb_cfg_set32 [where Offset = "0x60" and respond = "\<lambda>m d. (0, 0, d)" and AndData = 0
      and OrData = "0x81", OF this _ _ _ surjective_pairing] show ?thesis by simp
qed

end
