(* ===== verification/PchSbi.thy ===== *)
theory PchSbi
  imports PchP2sb
begin

text \<open>
  PeiDxeSmmPchSbiAccessLib/PchSbiAccessLib.c: sideband (SBI) messages sent through the
  registers of the P2SB function.  The polling loops count down from 0xFFFFFFF; they are
  recursions on the count.
\<close>

datatype PCH_SBI_OPCODE =
    MemoryRead | MemoryWrite | PciConfigRead | PciConfigWrite
  | PrivateControlRead | PrivateControlWrite | GpioLockUnlock

fun opcode_value :: "PCH_SBI_OPCODE \<Rightarrow> u32" where
  "opcode_value MemoryRead = 0x0"
| "opcode_value MemoryWrite = 0x1"
| "opcode_value PciConfigRead = 0x4"
| "opcode_value PciConfigWrite = 0x5"
| "opcode_value PrivateControlRead = 0x6"
| "opcode_value PrivateControlWrite = 0x7"
| "opcode_value GpioLockUnlock = 0x13"

definition SBI_SUCCESSFUL :: u8 where [regs]: "SBI_SUCCESSFUL = 0"
definition SBI_INVALID_RESPONSE :: u8 where [regs]: "SBI_INVALID_RESPONSE = 4"

definition R_PCH_P2SB_SBIADDR :: u64 where [regs]: "R_PCH_P2SB_SBIADDR = 0xD0"
definition R_PCH_P2SB_SBIDATA :: u64 where [regs]: "R_PCH_P2SB_SBIDATA = 0xD4"
definition R_PCH_P2SB_SBISTAT :: u64 where [regs]: "R_PCH_P2SB_SBISTAT = 0xD8"
definition R_PCH_P2SB_SBIRID :: u64 where [regs]: "R_PCH_P2SB_SBIRID = 0xDA"
definition R_PCH_P2SB_SBIEXTADDR :: u64 where [regs]: "R_PCH_P2SB_SBIEXTADDR = 0xDC"
definition B_PCH_P2SB_SBISTAT_INITRDY :: u16 where [regs]: "B_PCH_P2SB_SBISTAT_INITRDY = BIT 0"
definition B_PCH_P2SB_SBISTAT_RESPONSE :: u16 where [regs]: "B_PCH_P2SB_SBISTAT_RESPONSE = 0x0006"
definition B_PCH_P2SB_SBISTAT_POSTED :: u16 where [regs]: "B_PCH_P2SB_SBISTAT_POSTED = BIT 7"
definition B_PCH_P2SB_SBISTAT_OPCODE :: u16 where [regs]: "B_PCH_P2SB_SBISTAT_OPCODE = 0xFF00"

record PCH_SBI_REGISTER_STRUCT =
  SbiAddr :: u32
  SbiExtAddr :: u32
  SbiData :: u32
  SbiStat :: u16
  SbiRid :: u16

section \<open>The polling loops\<close>

text \<open>\<open>while (Timeout > 0) { SbiStat = ...; if (ready) break; Timeout--; }\<close>: the result is the
  final Timeout with the last status read.\<close>

fun sbi_poll :: "'s hw \<Rightarrow> nat \<Rightarrow> u16 \<Rightarrow> ('s, nat \<times> u16) prog" where
  "sbi_poll hw 0 Stat = State_Monad.return (0, Stat)"
| "sbi_poll hw (Suc Timeout) Stat = do {
     Stat \<leftarrow> MmioRead16 hw (P2sbBase hw + R_PCH_P2SB_SBISTAT);
     if Stat AND B_PCH_P2SB_SBISTAT_INITRDY = 0 then State_Monad.return (Suc Timeout, Stat)
     else sbi_poll hw Timeout Stat
   }"

text \<open>\<open>while ((Timeout--) > 0) { SbiStat = ...; if (ready) break; }\<close>: the count is a UINTN and
  wraps to its maximum when the test fails.\<close>

fun sbi_poll_post :: "'s hw \<Rightarrow> nat \<Rightarrow> ('s, u64) prog" where
  "sbi_poll_post hw 0 = State_Monad.return (0 - 1)"
| "sbi_poll_post hw (Suc Timeout) = do {
     Stat \<leftarrow> MmioRead16 hw (P2sbBase hw + R_PCH_P2SB_SBISTAT);
     if Stat AND B_PCH_P2SB_SBISTAT_INITRDY = 0 then State_Monad.return (of_nat Timeout)
     else sbi_poll_post hw Timeout
   }"

definition sbi_timeout :: nat where "sbi_timeout = 0xFFFFFFF"

section \<open>Operations\<close>

definition sbi_writes :: "PCH_SBI_OPCODE \<Rightarrow> bool" where
  "sbi_writes Opcode \<longleftrightarrow> Opcode \<in> {PciConfigWrite, PrivateControlWrite, GpioLockUnlock}"

definition sbi_reads :: "PCH_SBI_OPCODE \<Rightarrow> bool" where
  "sbi_reads Opcode \<longleftrightarrow> Opcode \<in> {PciConfigRead, PrivateControlRead}"

text \<open>Steps 2 to 6 of the transaction: the registers of the message.  The opcode and the posted
  flag go to their fields of SBISTAT, the byte enables, the BAR and the function id to RID.\<close>

definition sbi_stat_and :: u16 where
  "sbi_stat_and = NOT (B_PCH_P2SB_SBISTAT_OPCODE OR B_PCH_P2SB_SBISTAT_POSTED)"

definition sbi_stat_or :: "PCH_SBI_OPCODE \<Rightarrow> bool \<Rightarrow> u16" where
  "sbi_stat_or Opcode Posted =
     ucast (push_bit 8 (opcode_value Opcode) OR push_bit 7 (if Posted then 1 else 0))"

definition sbi_rid :: "u16 \<Rightarrow> u16 \<Rightarrow> u16 \<Rightarrow> u16" where
  "sbi_rid Fbe Bar Fid =
     push_bit 12 (Fbe AND 0x000F) OR push_bit 8 (Bar AND 0x0007) OR (Fid AND 0x00FF)"

definition sbi_fill ::
  "'s hw \<Rightarrow> u8 \<Rightarrow> u64 \<Rightarrow> PCH_SBI_OPCODE \<Rightarrow> bool \<Rightarrow> u16 \<Rightarrow> u16 \<Rightarrow> u16 \<Rightarrow> u32 \<Rightarrow> ('s, unit) prog" where
  "sbi_fill hw Pid Offset Opcode Posted Fbe Bar Fid Data32 = do {
     _ \<leftarrow> MmioWrite32 hw (P2sbBase hw + R_PCH_P2SB_SBIADDR)
           (push_bit 24 (ucast Pid) OR ucast (ucast Offset :: u16));
     _ \<leftarrow> MmioWrite32 hw (P2sbBase hw + R_PCH_P2SB_SBIEXTADDR) (ucast (drop_bit 16 Offset));
     _ \<leftarrow> MmioAndThenOr16 hw (P2sbBase hw + R_PCH_P2SB_SBISTAT)
           sbi_stat_and (sbi_stat_or Opcode Posted);
     _ \<leftarrow> MmioWrite16 hw (P2sbBase hw + R_PCH_P2SB_SBIRID)
           (sbi_rid Fbe Bar Fid);
     (if sbi_writes Opcode then do {
        _ \<leftarrow> MmioWrite32 hw (P2sbBase hw + R_PCH_P2SB_SBIDATA) Data32;
        State_Monad.return () }
      else do {
        _ \<leftarrow> MmioWrite32 hw (P2sbBase hw + R_PCH_P2SB_SBIDATA) 0;
        State_Monad.return () })
   }"

definition sbi_response :: "u16 \<Rightarrow> u8" where
  "sbi_response Stat = ucast (drop_bit 1 (Stat AND B_PCH_P2SB_SBISTAT_RESPONSE))"

text \<open>Steps 8 and 9, once the message has been triggered: poll, and take the response.\<close>

definition sbi_finish ::
  "'s hw \<Rightarrow> PCH_SBI_OPCODE \<Rightarrow> u32 \<Rightarrow> ('s, efi_status \<times> u32 \<times> u8) prog" where
  "sbi_finish hw Opcode Data32 = do {
     (Timeout, Stat) \<leftarrow> sbi_poll hw sbi_timeout 0;
     if Timeout = 0 then State_Monad.return (EFI_DEVICE_ERROR, Data32, SBI_INVALID_RESPONSE)
     else do {
       let Response = sbi_response Stat;
       if Response = SBI_SUCCESSFUL then
         (if sbi_reads Opcode then do {
            v \<leftarrow> MmioRead32 hw (P2sbBase hw + R_PCH_P2SB_SBIDATA);
            State_Monad.return (EFI_SUCCESS, v, Response) }
          else State_Monad.return (EFI_SUCCESS, Data32, Response))
       else State_Monad.return (EFI_DEVICE_ERROR, Data32, Response)
     }
   }"

text \<open>The transaction, between revealing and hiding the function.  The result is the status
  with the data and response buffers.\<close>

definition sbi_transaction ::
  "'s hw \<Rightarrow> u8 \<Rightarrow> u64 \<Rightarrow> PCH_SBI_OPCODE \<Rightarrow> bool \<Rightarrow> u16 \<Rightarrow> u16 \<Rightarrow> u16 \<Rightarrow> u32 \<Rightarrow> u8 \<Rightarrow>
    ('s, efi_status \<times> u32 \<times> u8) prog" where
  "sbi_transaction hw Pid Offset Opcode Posted Fbe Bar Fid Data32 Response = do {
     (Timeout, _) \<leftarrow> sbi_poll hw sbi_timeout 0;
     if Timeout = 0 then State_Monad.return (EFI_DEVICE_ERROR, Data32, Response)
     else do {
       sbi_fill hw Pid Offset Opcode Posted Fbe Bar Fid Data32;
       _ \<leftarrow> MmioOr16 hw (P2sbBase hw + R_PCH_P2SB_SBISTAT) B_PCH_P2SB_SBISTAT_INITRDY;
       sbi_finish hw Opcode Data32
     }
   }"

definition PchSbiExecutionEx ::
  "'s hw \<Rightarrow> u8 \<Rightarrow> u64 \<Rightarrow> PCH_SBI_OPCODE \<Rightarrow> bool \<Rightarrow> u16 \<Rightarrow> u16 \<Rightarrow> u16 \<Rightarrow> u32 \<Rightarrow> u8 \<Rightarrow>
    ('s, efi_status \<times> u32 \<times> u8) prog" where
  "PchSbiExecutionEx hw Pid Offset Opcode Posted Fbe Bar Fid Data32 Response =
     (if \<not> sbi_writes Opcode \<and> \<not> sbi_reads Opcode
      then State_Monad.return (EFI_INVALID_PARAMETER, Data32, Response)
      else do {
        (_, P2sbOrgStatus) \<leftarrow> PchRevealP2sb hw (P2sbBase hw) (Some False);
        r \<leftarrow> sbi_transaction hw Pid Offset Opcode Posted Fbe Bar Fid Data32 Response;
        (if P2sbOrgStatus = Some False then do {
           _ \<leftarrow> PchHideP2sb hw (P2sbBase hw);
           State_Monad.return () }
         else State_Monad.return ());
        State_Monad.return r
      })"

definition PchSbiExecution ::
  "'s hw \<Rightarrow> u8 \<Rightarrow> u64 \<Rightarrow> PCH_SBI_OPCODE \<Rightarrow> bool \<Rightarrow> u32 \<Rightarrow> u8 \<Rightarrow>
    ('s, efi_status \<times> u32 \<times> u8) prog" where
  "PchSbiExecution hw Pid Offset Opcode Posted Data32 Response =
     PchSbiExecutionEx hw Pid Offset Opcode Posted 0x000F 0x0000 0x0000 Data32 Response"

definition PchSbiRegisterSave ::
  "'s hw \<Rightarrow> PCH_SBI_REGISTER_STRUCT \<Rightarrow> ('s, efi_status \<times> PCH_SBI_REGISTER_STRUCT) prog" where
  "PchSbiRegisterSave hw PchSbiRegister = do {
     vid \<leftarrow> MmioRead16 hw (P2sbBase hw + PCI_VENDOR_ID_OFFSET);
     if vid = 0xFFFF then State_Monad.return (EFI_DEVICE_ERROR, PchSbiRegister)
     else do {
       Timeout \<leftarrow> sbi_poll_post hw sbi_timeout;
       if Timeout = 0 then State_Monad.return (EFI_DEVICE_ERROR, PchSbiRegister)
       else do {
         a \<leftarrow> MmioRead32 hw (P2sbBase hw + R_PCH_P2SB_SBIADDR);
         e \<leftarrow> MmioRead32 hw (P2sbBase hw + R_PCH_P2SB_SBIEXTADDR);
         d \<leftarrow> MmioRead32 hw (P2sbBase hw + R_PCH_P2SB_SBIDATA);
         st \<leftarrow> MmioRead16 hw (P2sbBase hw + R_PCH_P2SB_SBISTAT);
         r \<leftarrow> MmioRead16 hw (P2sbBase hw + R_PCH_P2SB_SBIRID);
         State_Monad.return (EFI_SUCCESS,
           \<lparr> SbiAddr = a, SbiExtAddr = e, SbiData = d, SbiStat = st, SbiRid = r \<rparr>)
       }
     }
   }"

definition PchSbiRegisterRestore ::
  "'s hw \<Rightarrow> PCH_SBI_REGISTER_STRUCT \<Rightarrow> ('s, efi_status) prog" where
  "PchSbiRegisterRestore hw PchSbiRegister = do {
     vid \<leftarrow> MmioRead16 hw (P2sbBase hw + PCI_VENDOR_ID_OFFSET);
     if vid = 0xFFFF then State_Monad.return EFI_DEVICE_ERROR
     else do {
       Timeout \<leftarrow> sbi_poll_post hw sbi_timeout;
       if Timeout = 0 then State_Monad.return EFI_DEVICE_ERROR
       else do {
         _ \<leftarrow> MmioWrite32 hw (P2sbBase hw + R_PCH_P2SB_SBIADDR) (SbiAddr PchSbiRegister);
         _ \<leftarrow> MmioWrite32 hw (P2sbBase hw + R_PCH_P2SB_SBIEXTADDR) (SbiExtAddr PchSbiRegister);
         _ \<leftarrow> MmioWrite32 hw (P2sbBase hw + R_PCH_P2SB_SBIDATA) (SbiData PchSbiRegister);
         _ \<leftarrow> MmioWrite16 hw (P2sbBase hw + R_PCH_P2SB_SBISTAT) (SbiStat PchSbiRegister);
         _ \<leftarrow> MmioWrite16 hw (P2sbBase hw + R_PCH_P2SB_SBIRID) (SbiRid PchSbiRegister);
         State_Monad.return EFI_SUCCESS
       }
     }
   }"

section \<open>Running against a P2SB function\<close>

definition busy :: "ram sys \<Rightarrow> bool" where
  "busy s \<longleftrightarrow> bit (reg16 s 0x800F90D8) 0"

lemma INITRDY_zero [simp]: "w AND B_PCH_P2SB_SBISTAT_INITRDY = 0 \<longleftrightarrow> \<not> bit w 0"
  by (simp add: regs and_one_eq bit_0 even_iff_mod_2_eq_zero)

lemma run_sbi_poll_ready [hwrun]:
  "\<not> busy s \<Longrightarrow> vis s \<Longrightarrow> 0 < n \<Longrightarrow> run_state (sbi_poll (sbi_hw r) n Stat) s = ((n, reg16 s 0x800F90D8), s)"
  by (cases n) (simp_all add: hwrun busy_def R_PCH_P2SB_SBISTAT_def)

lemma run_sbi_poll_busy [hwrun]:
  "busy s \<Longrightarrow> vis s \<Longrightarrow>
     run_state (sbi_poll (sbi_hw r) n Stat) s = ((0, if n = 0 then Stat else reg16 s 0x800F90D8), s)"
  by (induction n arbitrary: Stat) (simp_all add: hwrun busy_def R_PCH_P2SB_SBISTAT_def)

lemma run_sbi_poll_post_ready:
  "\<not> busy s \<Longrightarrow> vis s \<Longrightarrow> 0 < n \<Longrightarrow> run_state (sbi_poll_post (sbi_hw r) n) s = (of_nat (n - 1), s)"
  by (cases n) (simp_all add: hwrun busy_def R_PCH_P2SB_SBISTAT_def)

lemma run_sbi_poll_post_busy:
  "busy s \<Longrightarrow> vis s \<Longrightarrow> run_state (sbi_poll_post (sbi_hw r) n) s = (- 1, s)"
  by (induction n) (simp_all add: hwrun busy_def R_PCH_P2SB_SBISTAT_def)

lemma sbi_timeout_pos [simp]: "0 < sbi_timeout" "sbi_timeout \<noteq> 0" by (simp_all add: sbi_timeout_def)

text \<open>What the responder is relied on for: it leaves the P2SB page alone.\<close>

definition outside_p2sb :: "responder \<Rightarrow> bool" where
  "outside_p2sb respond \<longleftrightarrow>
     (\<forall>m d a. in_p2sb a \<longrightarrow> mem (snd (snd (respond m d))) a = mem d a)"

definition sbi_stat_word :: "PCH_SBI_OPCODE \<Rightarrow> bool \<Rightarrow> u16 \<Rightarrow> u16" where
  "sbi_stat_word Opcode Posted Stat =
     (Stat AND sbi_stat_and) OR sbi_stat_or Opcode Posted"

definition sbi_request ::
  "u8 \<Rightarrow> u64 \<Rightarrow> PCH_SBI_OPCODE \<Rightarrow> bool \<Rightarrow> u16 \<Rightarrow> u16 \<Rightarrow> u16 \<Rightarrow> u32 \<Rightarrow> u16 \<Rightarrow> sbi_msg" where
  "sbi_request Pid Offset Opcode Posted Fbe Bar Fid Data32 Stat =
     \<lparr> m_addr = push_bit 24 (ucast Pid) OR ucast (ucast Offset :: u16),
       m_ext = ucast (drop_bit 16 Offset),
       m_stat = sbi_stat_word Opcode Posted Stat OR B_PCH_P2SB_SBISTAT_INITRDY,
       m_rid = sbi_rid Fbe Bar Fid,
       m_data = (if sbi_writes Opcode then Data32 else 0) \<rparr>"

lemma sent_regs:
  assumes "outside_p2sb r" "vis s"
  shows "vis (sent r s)"
    and "reg16 (sent r s) 0x800F90D8 = (reg16 s 0x800F90D8 AND NOT (mask 3)) OR
      push_bit 1 (ucast (fst (r (the_msg (mem (dev s))) (dev s))) AND mask 2)"
    and "reg32 (sent r s) 0x800F90D4 = fst (snd (r (the_msg (mem (dev s))) (dev s)))"
proof -
  obtain c v d' where r: "r (the_msg (mem (dev s))) (dev s) = (c, v, d')"
    by (cases "r (the_msg (mem (dev s))) (dev s)")
  have "mem d' 0x800F90E1 = mem (dev s) 0x800F90E1"
    using assms(1) r unfolding outside_p2sb_def by (metis in_p2sb_lit(2) snd_conv)
  then show "vis (sent r s)"
    using assms(2) by (simp add: sent_def transact_def r hidden_def mem_simps)
  show "reg16 (sent r s) 0x800F90D8 = (reg16 s 0x800F90D8 AND NOT (mask 3)) OR
      push_bit 1 (ucast (fst (r (the_msg (mem (dev s))) (dev s))) AND mask 2)"
    by (simp add: sent_def transact_def r)
  show "reg32 (sent r s) 0x800F90D4 = fst (snd (r (the_msg (mem (dev s))) (dev s)))"
    by (simp add: sent_def transact_def r mem_simps)
qed

lemma sent_ready: "outside_p2sb r \<Longrightarrow> vis s \<Longrightarrow> \<not> busy (sent r s)"
  by (simp add: busy_def sent_regs(2) bit_simps del: push_bit_Suc)

lemma response_field:
  "sbi_response ((w AND NOT (mask 3)) OR push_bit 1 (ucast c AND mask 2)) = c AND mask 2"
proof -
  have six: "B_PCH_P2SB_SBISTAT_RESPONSE = push_bit 1 (mask 2)"
    by (simp add: regs mask_numeral)
  show ?thesis unfolding six sbi_response_def
    by (rule bit_word_eqI) (auto simp: bit_simps simp del: push_bit_Suc)
qed

text \<open>Stores to the P2SB page leave every byte outside it.\<close>

lemma p2sb_storew:
  assumes "unat (b - 0x800F9000) + n \<le> 0x1000" "\<not> in_p2sb a"
  shows "storew n m b w a = m a"
proof -
  have "\<not> unat (a - b) < n"
  proof
    assume lt: "unat (a - b) < n"
    have "a - 0x800F9000 = (a - b) + (b - 0x800F9000)" by simp
    then have "unat (a - 0x800F9000) \<le> unat (a - b) + unat (b - 0x800F9000)"
      by (metis unat_word_ariths(1) mod_less_eq_dividend)
    with lt assms(1) have "unat (a - 0x800F9000) < 0x1000" by linarith
    with assms(2) show False by (simp add: in_p2sb_def)
  qed
  then show ?thesis by (simp add: storew_def storen_def)
qed

lemmas sbi_offsets = R_PCH_P2SB_SBIADDR_def R_PCH_P2SB_SBIDATA_def R_PCH_P2SB_SBISTAT_def
  R_PCH_P2SB_SBIRID_def R_PCH_P2SB_SBIEXTADDR_def

lemma vis_wr [simp]:
  "a \<in> {0x800F90D0, 0x800F90D4, 0x800F90D8, 0x800F90DA, 0x800F90DC} \<Longrightarrow> n \<le> 4 \<Longrightarrow>
     hidden (dev (wr n a w s)) \<longleftrightarrow> hidden (dev s)"
  by (auto intro!: hidden_wr_apart simp: apart_def)

text \<open>The registers as they stand before the message is triggered, and the message.\<close>

definition sbi_filled ::
  "u8 \<Rightarrow> u64 \<Rightarrow> PCH_SBI_OPCODE \<Rightarrow> bool \<Rightarrow> u16 \<Rightarrow> u16 \<Rightarrow> u16 \<Rightarrow> u32 \<Rightarrow> ram sys \<Rightarrow> ram sys" where
  "sbi_filled Pid Offset Opcode Posted Fbe Bar Fid Data32 s =
     (let q = sbi_request Pid Offset Opcode Posted Fbe Bar Fid Data32 (reg16 s 0x800F90D8) in
      wr32 0x800F90D4 (m_data q) (wr16 0x800F90DA (m_rid q)
        (wr16 0x800F90D8 (sbi_stat_word Opcode Posted (reg16 s 0x800F90D8))
          (wr32 0x800F90DC (m_ext q) (wr32 0x800F90D0 (m_addr q) s)))))"

definition sbi_armed ::
  "u8 \<Rightarrow> u64 \<Rightarrow> PCH_SBI_OPCODE \<Rightarrow> bool \<Rightarrow> u16 \<Rightarrow> u16 \<Rightarrow> u16 \<Rightarrow> u32 \<Rightarrow> ram sys \<Rightarrow> ram sys" where
  "sbi_armed Pid Offset Opcode Posted Fbe Bar Fid Data32 s =
     (let f = sbi_filled Pid Offset Opcode Posted Fbe Bar Fid Data32 s in
      wr16 0x800F90D8 (reg16 f 0x800F90D8 OR B_PCH_P2SB_SBISTAT_INITRDY) f)"

lemma sbi_filled_simps [simp]:
  "hidden (dev (sbi_filled Pid Offset Opcode Posted Fbe Bar Fid Data32 s)) = hidden (dev s)"
  "reg16 (sbi_filled Pid Offset Opcode Posted Fbe Bar Fid Data32 s) 0x800F90D8
     = sbi_stat_word Opcode Posted (reg16 s 0x800F90D8)"
  by (simp_all add: sbi_filled_def Let_def mem_simps)

lemma sbi_armed_vis [simp]:
  "hidden (dev (sbi_armed Pid Offset Opcode Posted Fbe Bar Fid Data32 s)) = hidden (dev s)"
  by (simp add: sbi_armed_def Let_def)

lemma sbi_armed_msg:
  "the_msg (mem (dev (sbi_armed Pid Offset Opcode Posted Fbe Bar Fid Data32 s)))
     = sbi_request Pid Offset Opcode Posted Fbe Bar Fid Data32 (reg16 s 0x800F90D8)"
  by (simp add: sbi_armed_def Let_def the_msg_def mem_simps)
    (simp add: sbi_filled_def sbi_request_def Let_def mem_simps)

lemma sbi_armed_other:
  "\<not> in_p2sb a \<Longrightarrow> mem (dev (sbi_armed Pid Offset Opcode Posted Fbe Bar Fid Data32 s)) a = mem (dev s) a"
  by (simp add: sbi_armed_def sbi_filled_def Let_def p2sb_storew)

lemma sbi_stat_even: "\<not> bit w 0 \<Longrightarrow> \<not> bit (sbi_stat_word Opcode Posted w) 0"
  by (simp add: sbi_stat_word_def sbi_stat_or_def bit_simps del: push_bit_Suc push_bit_numeral)

lemma run_sbi_stat:
  assumes v: "vis s" and rdy: "\<not> bit (reg16 s 0x800F90D8) 0"
  shows "run_state (MmioAndThenOr16 (sbi_hw r) 0x800F90D8
      sbi_stat_and (sbi_stat_or Opcode Posted)) s
     = (sbi_stat_word Opcode Posted (reg16 s 0x800F90D8),
        wr16 0x800F90D8 (sbi_stat_word Opcode Posted (reg16 s 0x800F90D8)) s)"
  using sbi_stat_even [OF rdy, of Opcode Posted]
  unfolding MmioAndThenOr16_def sbi_stat_word_def [symmetric]
  by (simp add: run_bind run_sbi_rd run_sbi_wr v flip: sbi_stat_word_def)

lemma run_sbi_fill:
  assumes v: "vis s" and rdy: "\<not> busy s"
  shows "run_state (sbi_fill (sbi_hw r) Pid Offset Opcode Posted Fbe Bar Fid Data32) s
     = ((), sbi_filled Pid Offset Opcode Posted Fbe Bar Fid Data32 s)"
proof -
  have nb: "\<not> bit (reg16 s 0x800F90D8) 0"
    using rdy by (simp add: busy_def)
  show ?thesis
    by (simp add: sbi_fill_def hwrun sbi_offsets v nb run_sbi_stat mem_simps sbi_filled_def Let_def
        sbi_request_def)
qed

lemma run_sbi_trigger:
  assumes v: "vis s" and s6: "s6 = wr16 0x800F90D8 (reg16 s 0x800F90D8 OR B_PCH_P2SB_SBISTAT_INITRDY) s"
  shows "run_state (MmioOr16 (sbi_hw r) (P2sbBase (sbi_hw r) + R_PCH_P2SB_SBISTAT) B_PCH_P2SB_SBISTAT_INITRDY) s
     = (reg16 s 0x800F90D8 OR B_PCH_P2SB_SBISTAT_INITRDY, sent r s6)"
  by (simp add: MmioOr16_def hwrun v s6 sbi_offsets) (simp add: regs bit_simps)

lemma run_sbi_finish:
  fixes s6 :: "ram sys"
  assumes out: "outside_p2sb r" and v6: "vis s6" and a: "a = r (the_msg (mem (dev s6))) (dev s6)"
  shows "run_state (sbi_finish (sbi_hw r) Opcode Data32) (sent r s6)
     = ((if fst a AND mask 2 = 0 then EFI_SUCCESS else EFI_DEVICE_ERROR,
         if fst a AND mask 2 = 0 \<and> sbi_reads Opcode then fst (snd a) else Data32,
         fst a AND mask 2), sent r s6)"
proof -
  note post = sent_regs [OF out v6, folded a] sent_ready [OF out v6]
  have resp: "sbi_response (reg16 (sent r s6) 0x800F90D8) = fst a AND mask 2"
    by (simp only: post response_field)
  show ?thesis
    by (simp add: sbi_finish_def hwrun post(1,3,4) resp sbi_offsets SBI_SUCCESSFUL_def Let_def)
qed

lemma run_sbi_transaction:
  assumes out: "outside_p2sb r" and v: "vis s" and rdy: "\<not> busy s"
    and s6: "s6 = sbi_armed Pid Offset Opcode Posted Fbe Bar Fid Data32 s"
    and a: "a = r (the_msg (mem (dev s6))) (dev s6)"
  shows "run_state (sbi_transaction (sbi_hw r) Pid Offset Opcode Posted Fbe Bar Fid Data32 Response) s
     = ((if fst a AND mask 2 = 0 then EFI_SUCCESS else EFI_DEVICE_ERROR,
         if fst a AND mask 2 = 0 \<and> sbi_reads Opcode then fst (snd a) else Data32,
         fst a AND mask 2), sent r s6)"
proof -
  let ?f = "sbi_filled Pid Offset Opcode Posted Fbe Bar Fid Data32 s"
  have vf: "vis ?f" and v6: "vis s6" using v by (simp_all add: s6)
  have s6': "s6 = wr16 0x800F90D8 (reg16 ?f 0x800F90D8 OR B_PCH_P2SB_SBISTAT_INITRDY) ?f"
    by (simp only: s6 sbi_armed_def Let_def)
  show ?thesis
    by (simp add: sbi_transaction_def run_bind v rdy run_sbi_poll_ready run_sbi_fill
        run_sbi_trigger [OF vf s6'] run_sbi_finish [OF out v6 a])
qed

lemma revealed_reg_D8 [simp]:
  "reg16 (revealed s) 0x800F90D8 = reg16 s 0x800F90D8" "busy (revealed s) = busy s"
  by (simp_all add: revealed_loadw busy_def apart_def)

lemma revealed_other: "\<not> in_p2sb a \<Longrightarrow> mem (dev (revealed s)) a = mem (dev s) a"
  by (auto simp: revealed_mem)

lemma rehidden_other: "\<not> in_p2sb a \<Longrightarrow> mem (dev (rehidden h s)) a = mem (dev s) a"
  by (auto simp: rehidden_def storew1)

lemma sent_other:
  "\<not> in_p2sb a \<Longrightarrow> mem (dev (sent r s)) a = mem (snd (snd (r (the_msg (mem (dev s))) (dev s)))) a"
  by (cases "r (the_msg (mem (dev s))) (dev s)") (simp add: sent_def transact_def p2sb_storew)

definition sbi_result :: "PCH_SBI_OPCODE \<Rightarrow> u32 \<Rightarrow> u8 \<times> u32 \<times> ram \<Rightarrow> efi_status \<times> u32 \<times> u8" where
  "sbi_result Opcode Data32 a =
     (if fst a AND mask 2 = 0 then EFI_SUCCESS else EFI_DEVICE_ERROR,
      if fst a AND mask 2 = 0 \<and> sbi_reads Opcode then fst (snd a) else Data32,
      fst a AND mask 2)"

text \<open>A whole execution: the message sent, with the bridge revealed for the time of the call.\<close>

lemma run_PchSbiExecutionEx:
  assumes "outside_p2sb respond" and "present s" and "\<not> busy s"
    and "sbi_writes Opcode \<or> sbi_reads Opcode"
    and "s6 = sbi_armed Pid Offset Opcode Posted Fbe Bar Fid Data32 (revealed s)"
    and "answer = respond (sbi_request Pid Offset Opcode Posted Fbe Bar Fid Data32 (reg16 s 0x800F90D8)) (dev s6)"
    and "s' = rehidden (hidden (dev s)) (sent respond s6)"
  shows "run_state (PchSbiExecutionEx (sbi_hw respond) Pid Offset Opcode Posted Fbe Bar Fid Data32 Response) s
      = (sbi_result Opcode Data32 answer, s')"
    and "hidden (dev s') = hidden (dev s)"
    and "\<not> in_p2sb a \<Longrightarrow> mem (dev s') a = mem (snd (snd answer)) a"
    and "\<not> in_p2sb a \<Longrightarrow> mem (dev s6) a = mem (dev s) a"
proof -
  have v: "vis s6" using assms(5) by simp
  have m: "respond (the_msg (mem (dev s6))) (dev s6) = answer"
    unfolding assms(6) by (simp add: assms(5) sbi_armed_msg)
  show "run_state (PchSbiExecutionEx (sbi_hw respond) Pid Offset Opcode Posted Fbe Bar Fid Data32 Response) s
      = (sbi_result Opcode Data32 answer, s')"
    using assms(2-4) run_sbi_transaction [OF assms(1) _ _ refl refl, of "revealed s"] m
    by (auto simp: PchSbiExecutionEx_def hwrun sbi_result_def rehidden_def assms(5,7))
  show "hidden (dev s') = hidden (dev s)"
    using sent_regs(1) [OF assms(1) v] by (simp add: assms(7))
  show "\<not> in_p2sb a \<Longrightarrow> mem (dev s') a = mem (snd (snd answer)) a"
    by (simp add: assms(7) rehidden_other sent_other m)
  show "\<not> in_p2sb a \<Longrightarrow> mem (dev s6) a = mem (dev s) a"
    by (simp add: assms(5) sbi_armed_other revealed_other)
qed


text \<open>On a bridge whose ready bit never clears PchSbiExecutionEx reports EFI_DEVICE_ERROR, but
  PchSbiRegisterSave, whose loop counts the timer past zero before testing it, reports success.\<close>

theorem sbi_stuck_not_detected:
  assumes "present s" and "vis s" and "busy s"
  shows "fst (fst (run_state (PchSbiRegisterSave (sbi_hw respond) Regs) s)) = EFI_SUCCESS
    \<and> fst (fst (run_state (PchSbiExecutionEx (sbi_hw respond) Pid Offset PrivateControlRead
        Posted Fbe Bar Fid Data32 Response) s)) = EFI_DEVICE_ERROR"
  using assms
  by (auto simp: PchSbiRegisterSave_def PchSbiExecutionEx_def sbi_transaction_def sbi_reads_def hwrun
      regs run_sbi_poll_post_busy present_def revealed_def split: prod.splits)

lemma sbi_timeout_of_nat [simp]: "(of_nat (sbi_timeout - Suc 0) :: u64) \<noteq> 0"
  by (simp add: sbi_timeout_def)

text \<open>PchSbiRegisterRestore after PchSbiRegisterSave puts back the message registers of the
  moment of the save whatever was written between, and changes nothing outside the P2SB page;
  saving changes no state.\<close>

theorem sbi_save_restore:
  assumes "present s" and "vis s" and "\<not> busy s"
    and "present t" and "vis t" and "\<not> busy t"
    and save: "run_state (PchSbiRegisterSave (sbi_hw respond) Regs0) s = ((st, Regs), s')"
    and restore: "run_state (PchSbiRegisterRestore (sbi_hw respond) Regs) t = (st', t')"
  shows "st = EFI_SUCCESS \<and> st' = EFI_SUCCESS \<and> s' = s \<and> the_msg (mem (dev t')) = the_msg (mem (dev s))
    \<and> (\<forall>a. \<not> in_p2sb a \<longrightarrow> mem (dev t') a = mem (dev t) a)"
proof -
  note poll = run_sbi_poll_post_ready [OF _ _ sbi_timeout_pos(1)]
  have s: "st = EFI_SUCCESS \<and> s' = s \<and> Regs =
      \<lparr> SbiAddr = reg32 s 0x800F90D0, SbiExtAddr = reg32 s 0x800F90DC, SbiData = reg32 s 0x800F90D4,
        SbiStat = reg16 s 0x800F90D8, SbiRid = reg16 s 0x800F90DA \<rparr>"
    using save assms(1-3)
    by (auto simp: PchSbiRegisterSave_def hwrun poll sbi_offsets PCI_VENDOR_ID_OFFSET_def present_def)
  have "st' = EFI_SUCCESS \<and> t' = wr16 0x800F90DA (SbiRid Regs) (wr16 0x800F90D8 (SbiStat Regs)
      (wr32 0x800F90D4 (SbiData Regs) (wr32 0x800F90DC (SbiExtAddr Regs) (wr32 0x800F90D0 (SbiAddr Regs) t))))"
    using restore assms(3-6) s
    by (simp add: PchSbiRegisterRestore_def hwrun poll sbi_offsets PCI_VENDOR_ID_OFFSET_def
        present_def busy_def)
  with s show ?thesis by (simp add: the_msg_def mem_simps p2sb_storew)
qed

section \<open>Witnesses\<close>

definition echo :: responder where
  "echo m d = (0, m_addr m, d)"

lemma echo_outside [simp]: "outside_p2sb echo"
  by (simp add: outside_p2sb_def echo_def)

lemma blank_facts [simp]:
  "present (boot blank)" "vis (boot blank)" "\<not> busy (boot blank)"
  by (simp_all add: present_def hidden_def busy_def)


definition stuck :: "ram sys" where
  "stuck = wr16 0x800F90D8 1 (boot blank)"

theorem sbi_stuck_not_detected_witness:
  "fst (fst (run_state (PchSbiRegisterSave (sbi_hw echo)
      \<lparr> SbiAddr = 0, SbiExtAddr = 0, SbiData = 0, SbiStat = 0, SbiRid = 0 \<rparr>) stuck)) = EFI_SUCCESS"
proof -
  have "present stuck" "vis stuck" "busy stuck"
    using blank_facts by (simp_all add: stuck_def present_def busy_def mem_simps)
  then show ?thesis by (rule sbi_stuck_not_detected [THEN conjunct1])
qed

definition no_regs :: PCH_SBI_REGISTER_STRUCT where
  "no_regs = \<lparr> SbiAddr = 0, SbiExtAddr = 0, SbiData = 0, SbiStat = 0, SbiRid = 0 \<rparr>"

theorem sbi_save_restore_witness:
  "let Regs = snd (fst (run_state (PchSbiRegisterSave (sbi_hw echo) no_regs) (boot blank)));
       t = wr32 0x800F90D0 0x1234 (boot blank);
       t' = snd (run_state (PchSbiRegisterRestore (sbi_hw echo) Regs) t)
   in the_msg (mem (dev t')) = the_msg (mem (dev (boot blank)))"
proof -
  let ?t = "wr32 0x800F90D0 0x1234 (boot blank)"
  have t: "present ?t" "vis ?t" "\<not> busy ?t"
    using blank_facts by (simp_all add: present_def busy_def mem_simps)
  obtain st Regs s' where save: "run_state (PchSbiRegisterSave (sbi_hw echo) no_regs) (boot blank) = ((st, Regs), s')"
    by (metis surj_pair)
  obtain st' t' where restore: "run_state (PchSbiRegisterRestore (sbi_hw echo) Regs) ?t = (st', t')"
    by (metis surj_pair)
  from sbi_save_restore [OF _ _ _ t save restore] save restore show ?thesis
    by (simp add: Let_def)
qed

end
