(* ===== verification/CycleDecoding.thy ===== *)
theory CycleDecoding
  imports PchSbi
begin

text \<open>
  PeiDxeSmmPchCycleDecodingLib/PchCycleDecodingLib.c: the address decoders of the PCH.  A
  decoder is a register of a PCI function of bus 0 with a copy in the DMI port; programming
  is refused while the DMI control register is locked (DMIC.SRL).  The output pointers that
  the code compares with NULL are options, None for NULL.
\<close>

section \<open>Registers\<close>

definition PmcBase :: "'s hw \<Rightarrow> u64" where
  "PmcBase hw = hw_pci_base hw DEFAULT_PCI_BUS_NUMBER_PCH 31 2"
definition LpcBase :: "'s hw \<Rightarrow> u64" where
  "LpcBase hw = hw_pci_base hw DEFAULT_PCI_BUS_NUMBER_PCH
     PCI_DEVICE_NUMBER_PCH_LPC PCI_FUNCTION_NUMBER_PCH_LPC"
definition SmbusBase :: "'s hw \<Rightarrow> u64" where
  "SmbusBase hw = hw_pci_base hw DEFAULT_PCI_BUS_NUMBER_PCH 31 4"
definition SpiBase :: "'s hw \<Rightarrow> u64" where
  "SpiBase hw = hw_pci_base hw DEFAULT_PCI_BUS_NUMBER_PCH 31 5"

definition R_PCH_PMC_ACPI_BASE :: u64 where [regs]: "R_PCH_PMC_ACPI_BASE = 0x40"
definition B_PCH_PMC_ACPI_BASE_BAR :: u16 where [regs]: "B_PCH_PMC_ACPI_BASE_BAR = 0xFFFC"
definition R_PCH_PMC_ACPI_CNT :: u64 where [regs]: "R_PCH_PMC_ACPI_CNT = 0x44"
definition B_PCH_PMC_ACPI_CNT_ACPI_EN :: u8 where [regs]: "B_PCH_PMC_ACPI_CNT_ACPI_EN = BIT 7"
definition B_PCH_PMC_ACPI_CNT_PWRM_EN :: u16 where [regs]: "B_PCH_PMC_ACPI_CNT_PWRM_EN = BIT 8"
definition R_PCH_PMC_PWRM_BASE :: u64 where [regs]: "R_PCH_PMC_PWRM_BASE = 0x48"
definition B_PCH_PMC_PWRM_BASE_BAR :: u32 where [regs]: "B_PCH_PMC_PWRM_BASE_BAR = 0xFFFF0000"
definition R_PCH_SMBUS_TCOBASE :: u64 where [regs]: "R_PCH_SMBUS_TCOBASE = 0x50"
definition B_PCH_SMBUS_TCOBASE_BAR :: u16 where [regs]: "B_PCH_SMBUS_TCOBASE_BAR = 0xFFE0"
definition R_PCH_SMBUS_TCOCTL :: u64 where [regs]: "R_PCH_SMBUS_TCOCTL = 0x54"
definition B_PCH_SMBUS_TCOCTL_TCO_BASE_EN :: u16 where [regs]: "B_PCH_SMBUS_TCOCTL_TCO_BASE_EN = BIT 8"
definition B_PCH_SMBUS_TCOCTL_TCO_BASE_LOCK :: u8 where [regs]: "B_PCH_SMBUS_TCOCTL_TCO_BASE_LOCK = BIT 0"
definition R_PCH_PCR_DMI_DMIC :: u16 where [regs]: "R_PCH_PCR_DMI_DMIC = 0x2234"
definition B_PCH_PCR_DMI_DMIC_SRL :: u32 where [regs]: "B_PCH_PCR_DMI_DMIC_SRL = BIT 31"
definition R_PCH_PCR_DMI_LPCLGIR1 :: u16 where [regs]: "R_PCH_PCR_DMI_LPCLGIR1 = 0x2730"
definition R_PCH_PCR_DMI_LPCGMR :: u16 where [regs]: "R_PCH_PCR_DMI_LPCGMR = 0x2740"
definition R_PCH_PCR_DMI_LPCBDE :: u16 where [regs]: "R_PCH_PCR_DMI_LPCBDE = 0x2744"
definition R_PCH_PCR_DMI_GCS :: u16 where [regs]: "R_PCH_PCR_DMI_GCS = 0x274C"
definition B_PCH_PCR_DMI_BBS :: u32 where [regs]: "B_PCH_PCR_DMI_BBS = BIT 10"
definition B_PCH_PCR_DMI_RPR :: u32 where [regs]: "B_PCH_PCR_DMI_RPR = BIT 11"
definition R_PCH_PCR_DMI_LPCIOD :: u16 where [regs]: "R_PCH_PCR_DMI_LPCIOD = 0x2770"
definition R_PCH_PCR_DMI_LPCIOE :: u16 where [regs]: "R_PCH_PCR_DMI_LPCIOE = 0x2774"
definition R_PCH_PCR_DMI_TCOBASE :: u16 where [regs]: "R_PCH_PCR_DMI_TCOBASE = 0x2778"
definition B_PCH_PCR_DMI_TCOBASE_TCOBA :: u16 where [regs]: "B_PCH_PCR_DMI_TCOBASE_TCOBA = 0xFFE0"
definition R_PCH_PCR_DMI_PMBASEA :: u16 where [regs]: "R_PCH_PCR_DMI_PMBASEA = 0x27AC"
definition R_PCH_PCR_DMI_PMBASEC :: u16 where [regs]: "R_PCH_PCR_DMI_PMBASEC = 0x27B0"
definition R_PCH_PCR_DMI_ACPIBA :: u16 where [regs]: "R_PCH_PCR_DMI_ACPIBA = 0x27B4"
definition R_PCH_PCR_DMI_ACPIBDID :: u16 where [regs]: "R_PCH_PCR_DMI_ACPIBDID = 0x27B8"
definition R_PCH_PCR_DMI_SEGMR :: u16 where [regs]: "R_PCH_PCR_DMI_SEGMR = 0x27C0"
definition R_PCH_PCR_DMI_SEGIR :: u16 where [regs]: "R_PCH_PCR_DMI_SEGIR = 0x27BC"
definition R_PCH_LPC_IOD :: u64 where [regs]: "R_PCH_LPC_IOD = 0x80"
definition R_PCH_LPC_IOE :: u64 where [regs]: "R_PCH_LPC_IOE = 0x82"
definition R_PCH_LPC_GEN1_DEC :: u64 where [regs]: "R_PCH_LPC_GEN1_DEC = 0x84"
definition B_PCH_LPC_GENX_DEC_IODRA :: u32 where [regs]: "B_PCH_LPC_GENX_DEC_IODRA = 0x00FC0000"
definition B_PCH_LPC_GENX_DEC_IOBAR :: u32 where [regs]: "B_PCH_LPC_GENX_DEC_IOBAR = 0x0000FFFC"
definition B_PCH_LPC_GENX_DEC_EN :: u32 where [regs]: "B_PCH_LPC_GENX_DEC_EN = 0x00000001"
definition R_PCH_LPC_LGMR :: u64 where [regs]: "R_PCH_LPC_LGMR = 0x98"
definition B_PCH_LPC_LGMR_MA :: u32 where [regs]: "B_PCH_LPC_LGMR_MA = 0xFFFF0000"
definition B_PCH_LPC_LGMR_LMRD_EN :: u32 where [regs]: "B_PCH_LPC_LGMR_LMRD_EN = BIT 0"
definition R_PCH_LPC_PCCS1IORE :: u64 where [regs]: "R_PCH_LPC_PCCS1IORE = 0xA0"
definition R_PCH_LPC_PCCS1GIR1 :: u64 where [regs]: "R_PCH_LPC_PCCS1GIR1 = 0xA4"
definition R_PCH_LPC_PCCS1GMR1 :: u64 where [regs]: "R_PCH_LPC_PCCS1GMR1 = 0xA8"
definition LPC_ESPI_FIRST_SLAVE :: u8 where [regs]: "LPC_ESPI_FIRST_SLAVE = 0"
definition ESPI_SECONDARY_SLAVE :: u8 where [regs]: "ESPI_SECONDARY_SLAVE = 1"
definition R_PCH_LPC_BDE :: u64 where [regs]: "R_PCH_LPC_BDE = 0xD8"
definition R_PCH_SPI_BDE :: u64 where [regs]: "R_PCH_SPI_BDE = 0xD8"
definition R_PCH_P2SB_IOAC :: u64 where [regs]: "R_PCH_P2SB_IOAC = 0x64"
definition R_PCH_P2SB_HPTC :: u64 where [regs]: "R_PCH_P2SB_HPTC = 0x60"

section \<open>ACPI, PWRM and TCO base\<close>

text \<open>DMIC is read into an uninitialised variable; the read always succeeds.\<close>

definition srl_locked :: "'s hw \<Rightarrow> ('s, bool) prog" where
  "srl_locked hw = do {
     (_, Dmic) \<leftarrow> PchPcrRead32 hw PID_DMI R_PCH_PCR_DMI_DMIC 0;
     State_Monad.return (Dmic AND B_PCH_PCR_DMI_DMIC_SRL \<noteq> 0)
   }"

definition PchAcpiBaseSet :: "'s hw \<Rightarrow> u16 \<Rightarrow> ('s, efi_status) prog" where
  "PchAcpiBaseSet hw Address = do {
     PchSeries \<leftarrow> GetPchSeries hw;
     if Address AND 0x00FF \<noteq> 0 \<or> Address = 0 then State_Monad.return EFI_INVALID_PARAMETER
     else do {
       locked \<leftarrow> srl_locked hw;
       if locked then State_Monad.return EFI_UNSUPPORTED
       else do {
         vid \<leftarrow> MmioRead16 hw (PmcBase hw);
         if vid = 0xFFFF then State_Monad.return EFI_UNSUPPORTED
         else do {
           _ \<leftarrow> MmioAnd8 hw (PmcBase hw + R_PCH_PMC_ACPI_CNT) (NOT B_PCH_PMC_ACPI_CNT_ACPI_EN);
           _ \<leftarrow> MmioAndThenOr16 hw (PmcBase hw + R_PCH_PMC_ACPI_BASE)
                 (NOT B_PCH_PMC_ACPI_BASE_BAR) Address;
           _ \<leftarrow> MmioOr8 hw (PmcBase hw + R_PCH_PMC_ACPI_CNT) B_PCH_PMC_ACPI_CNT_ACPI_EN;
           _ \<leftarrow> PchPcrWrite32 hw PID_DMI R_PCH_PCR_DMI_ACPIBA (0x00FC0001 + ucast Address);
           _ \<leftarrow> PchPcrWrite32 hw PID_DMI R_PCH_PCR_DMI_ACPIBDID
                 (if PchSeries = PchLp then 0x23A0 else 0x23A8);
           State_Monad.return EFI_SUCCESS
         }
       }
     }
   }"

definition PchAcpiBaseGet :: "'s hw \<Rightarrow> u16 option \<Rightarrow> ('s, efi_status \<times> u16 option) prog" where
  "PchAcpiBaseGet hw Address =
     (if Address = None then State_Monad.return (EFI_INVALID_PARAMETER, Address)
      else do {
        vid \<leftarrow> MmioRead16 hw (PmcBase hw);
        if vid = 0xFFFF then State_Monad.return (EFI_UNSUPPORTED, Address)
        else do {
          v \<leftarrow> MmioRead16 hw (PmcBase hw + R_PCH_PMC_ACPI_BASE);
          State_Monad.return (EFI_SUCCESS, Some (v AND B_PCH_PMC_ACPI_BASE_BAR))
        }
      })"

definition PchPwrmBaseSet :: "'s hw \<Rightarrow> u32 \<Rightarrow> ('s, efi_status) prog" where
  "PchPwrmBaseSet hw Address = do {
     PchSeries \<leftarrow> GetPchSeries hw;
     if Address AND NOT B_PCH_PMC_PWRM_BASE_BAR \<noteq> 0 \<or> Address = 0
     then State_Monad.return EFI_INVALID_PARAMETER
     else do {
       locked \<leftarrow> srl_locked hw;
       if locked then State_Monad.return EFI_UNSUPPORTED
       else do {
         vid \<leftarrow> MmioRead16 hw (PmcBase hw);
         if vid = 0xFFFF then State_Monad.return EFI_UNSUPPORTED
         else do {
           _ \<leftarrow> MmioAnd16 hw (PmcBase hw + R_PCH_PMC_ACPI_CNT) (NOT B_PCH_PMC_ACPI_CNT_PWRM_EN);
           _ \<leftarrow> MmioAndThenOr32 hw (PmcBase hw + R_PCH_PMC_PWRM_BASE)
                 (NOT B_PCH_PMC_PWRM_BASE_BAR) Address;
           _ \<leftarrow> MmioOr16 hw (PmcBase hw + R_PCH_PMC_ACPI_CNT) B_PCH_PMC_ACPI_CNT_PWRM_EN;
           _ \<leftarrow> PchPcrWrite32 hw PID_DMI R_PCH_PCR_DMI_PMBASEA
                 ((Address AND 0xFFFF0000) OR drop_bit 16 Address);
           _ \<leftarrow> PchPcrWrite32 hw PID_DMI R_PCH_PCR_DMI_PMBASEC
                 (if PchSeries = PchLp then 0x800023A0 else 0x800023A8);
           State_Monad.return EFI_SUCCESS
         }
       }
     }
   }"

definition PchPwrmBaseGet :: "'s hw \<Rightarrow> u32 option \<Rightarrow> ('s, efi_status \<times> u32 option) prog" where
  "PchPwrmBaseGet hw Address =
     (if Address = None then State_Monad.return (EFI_INVALID_PARAMETER, Address)
      else do {
        vid \<leftarrow> MmioRead16 hw (PmcBase hw);
        if vid = 0xFFFF then State_Monad.return (EFI_UNSUPPORTED, Address)
        else do {
          v \<leftarrow> MmioRead32 hw (PmcBase hw + R_PCH_PMC_PWRM_BASE);
          State_Monad.return (EFI_SUCCESS, Some (v AND B_PCH_PMC_PWRM_BASE_BAR))
        }
      })"

definition PchTcoBaseSet :: "'s hw \<Rightarrow> u16 \<Rightarrow> ('s, efi_status) prog" where
  "PchTcoBaseSet hw Address =
     (if Address AND NOT B_PCH_SMBUS_TCOBASE_BAR \<noteq> 0 then State_Monad.return EFI_INVALID_PARAMETER
      else do {
        locked \<leftarrow> srl_locked hw;
        if locked then State_Monad.return EFI_UNSUPPORTED
        else do {
          vid \<leftarrow> MmioRead16 hw (SmbusBase hw);
          if vid = 0xFFFF then State_Monad.return EFI_UNSUPPORTED
          else do {
            ctl \<leftarrow> MmioRead8 hw (SmbusBase hw + R_PCH_SMBUS_TCOCTL);
            if ctl AND B_PCH_SMBUS_TCOCTL_TCO_BASE_LOCK \<noteq> 0 then State_Monad.return EFI_DEVICE_ERROR
            else do {
              _ \<leftarrow> MmioAnd8 hw (SmbusBase hw + R_PCH_SMBUS_TCOCTL + 1)
                    (ucast (NOT (drop_bit 8 B_PCH_SMBUS_TCOCTL_TCO_BASE_EN)));
              _ \<leftarrow> MmioAndThenOr16 hw (SmbusBase hw + R_PCH_SMBUS_TCOBASE)
                    (NOT B_PCH_SMBUS_TCOBASE_BAR) Address;
              _ \<leftarrow> MmioOr8 hw (SmbusBase hw + R_PCH_SMBUS_TCOCTL + 1)
                    (ucast (drop_bit 8 B_PCH_SMBUS_TCOCTL_TCO_BASE_EN));
              _ \<leftarrow> PchPcrWrite16 hw PID_DMI R_PCH_PCR_DMI_TCOBASE (Address OR BIT 1);
              State_Monad.return EFI_SUCCESS
            }
          }
        }
      })"

definition PchTcoBaseGet :: "'s hw \<Rightarrow> u16 option \<Rightarrow> ('s, efi_status \<times> u16 option) prog" where
  "PchTcoBaseGet hw Address =
     (case Address of None \<Rightarrow> State_Monad.return (EFI_INVALID_PARAMETER, None)
      | Some old \<Rightarrow> do {
          (_, v) \<leftarrow> PchPcrRead16 hw PID_DMI R_PCH_PCR_DMI_TCOBASE old;
          State_Monad.return (EFI_SUCCESS, Some (v AND B_PCH_PCR_DMI_TCOBASE_TCOBA))
        })"

section \<open>Generic IO ranges\<close>

record PCH_LPC_GEN_IO_RANGE =
  BaseAddr :: u16
  Length :: "15 word"
  Enable :: bool

abbreviation PCH_LPC_GEN_IO_RANGE_MAX :: nat where "PCH_LPC_GEN_IO_RANGE_MAX \<equiv> 4"

definition gen_io_decode :: "u32 \<Rightarrow> PCH_LPC_GEN_IO_RANGE" where
  "gen_io_decode Data32 = \<lparr>
     BaseAddr = ucast (Data32 AND B_PCH_LPC_GENX_DEC_IOBAR),
     Length = ucast (drop_bit 16 (Data32 AND B_PCH_LPC_GENX_DEC_IODRA) + 4),
     Enable = (Data32 AND B_PCH_LPC_GENX_DEC_EN \<noteq> 0) \<rparr>"

text \<open>The four registers in order; for the secondary slave one register fills entry 0 and the
  other entries keep what the caller's list holds.\<close>

fun gen_io_read :: "'s hw \<Rightarrow> nat \<Rightarrow> nat \<Rightarrow> ('s, PCH_LPC_GEN_IO_RANGE list) prog" where
  "gen_io_read hw Index 0 = State_Monad.return []"
| "gen_io_read hw Index (Suc n) = do {
     Data32 \<leftarrow> MmioRead32 hw (LpcBase hw + R_PCH_LPC_GEN1_DEC + of_nat Index * 4);
     rest \<leftarrow> gen_io_read hw (Suc Index) n;
     State_Monad.return (gen_io_decode Data32 # rest)
   }"

definition PchLpcGenIoRangeGet ::
  "'s hw \<Rightarrow> PCH_LPC_GEN_IO_RANGE list option \<Rightarrow> u8 \<Rightarrow>
     ('s, efi_status \<times> PCH_LPC_GEN_IO_RANGE list option) prog" where
  "PchLpcGenIoRangeGet hw LpcGenIoRangeList SlaveDevice =
     (case LpcGenIoRangeList of None \<Rightarrow> State_Monad.return (EFI_INVALID_PARAMETER, None)
      | Some old \<Rightarrow>
         (if SlaveDevice = LPC_ESPI_FIRST_SLAVE then do {
            Ranges \<leftarrow> gen_io_read hw 0 PCH_LPC_GEN_IO_RANGE_MAX;
            State_Monad.return (EFI_SUCCESS, Some Ranges) }
          else do {
            Data32 \<leftarrow> MmioRead32 hw (LpcBase hw + R_PCH_LPC_PCCS1GIR1);
            State_Monad.return (EFI_SUCCESS, Some (old[0 := gen_io_decode Data32])) }))"

text \<open>The checks on the parameters, in the order of the code: Length is a UINTN.\<close>

definition ExceptRanges :: "(u8 \<times> u8) list" where
  "ExceptRanges = [(0x00, 0x20), (0x44, 0x08), (0x54, 0x0C), (0x68, 0x08), (0x80, 0x10), (0xC0, 0x40)]"

definition gen_io_shape_ok :: "u16 \<Rightarrow> u64 \<Rightarrow> bool" where
  "gen_io_shape_ok Address Len \<longleftrightarrow>
     \<not> (Len AND (Len - 1) \<noteq> 0 \<or>
        Address AND NOT (ucast B_PCH_LPC_GENX_DEC_IOBAR) \<noteq> 0 \<or> Len > 256)"

definition gen_io_low_ok :: "u16 \<Rightarrow> u64 \<Rightarrow> bool" where
  "gen_io_low_ok Address Len \<longleftrightarrow>
     (Address < 0x100 \<longrightarrow>
       list_ex (\<lambda>(Start, L). Address \<ge> ucast Start \<and>
         ucast Address + Len \<le> (ucast Start + ucast L :: u64)) ExceptRanges)"

definition gen_io_overlap :: "u16 \<Rightarrow> u64 \<Rightarrow> PCH_LPC_GEN_IO_RANGE \<Rightarrow> bool" where
  "gen_io_overlap Address Len r \<longleftrightarrow>
     (let A = ucast Address; Base = ucast (BaseAddr r); MaskLength = ucast (Length r) :: u64 in
      (A \<ge> Base \<and> A < Base + MaskLength) \<or>
      (A + Len > Base \<and> A + Len \<le> Base + MaskLength))"

definition gen_io_covered :: "u16 \<Rightarrow> u64 \<Rightarrow> PCH_LPC_GEN_IO_RANGE \<Rightarrow> bool" where
  "gen_io_covered Address Len r \<longleftrightarrow> Address \<ge> BaseAddr r \<and> Len \<le> ucast (Length r)"

text \<open>What the searches decide: nothing to do, no register left, or to program a register with
  a range, which is the union of the request and the first range it overlaps.\<close>

datatype gen_io_choice = Covered | NoRoom | Program nat u16 u64

definition gen_io_merge :: "nat \<Rightarrow> u16 \<Rightarrow> u64 \<Rightarrow> PCH_LPC_GEN_IO_RANGE \<Rightarrow> gen_io_choice" where
  "gen_io_merge Index Address Len r =
     (let A = ucast Address; Base = ucast (BaseAddr r); MaskLength = ucast (Length r) :: u64;
          TempMaxAddr = (if A + Len > Base + MaskLength then A + Len else Base + MaskLength);
          Address' = (if A > Base then BaseAddr r else Address)
      in Program Index Address' (TempMaxAddr - ucast Address'))"

fun gen_io_scan :: "nat \<Rightarrow> u16 \<Rightarrow> u64 \<Rightarrow> PCH_LPC_GEN_IO_RANGE list \<Rightarrow> gen_io_choice option" where
  "gen_io_scan Index Address Len [] = None"
| "gen_io_scan Index Address Len (r # rs) =
     (if BaseAddr r = 0 then gen_io_scan (Suc Index) Address Len rs
      else if gen_io_overlap Address Len r then
        Some (if gen_io_covered Address Len r then Covered else gen_io_merge Index Address Len r)
      else gen_io_scan (Suc Index) Address Len rs)"

fun gen_io_empty :: "nat \<Rightarrow> PCH_LPC_GEN_IO_RANGE list \<Rightarrow> nat option" where
  "gen_io_empty Index [] = None"
| "gen_io_empty Index (r # rs) = (if BaseAddr r = 0 then Some Index else gen_io_empty (Suc Index) rs)"

definition gen_io_choose :: "u8 \<Rightarrow> u16 \<Rightarrow> u64 \<Rightarrow> PCH_LPC_GEN_IO_RANGE list \<Rightarrow> gen_io_choice" where
  "gen_io_choose SlaveDevice Address Len Ranges =
     (if SlaveDevice = LPC_ESPI_FIRST_SLAVE then
        (case gen_io_scan 0 Address Len Ranges of
           Some c \<Rightarrow> c
         | None \<Rightarrow> (case gen_io_empty 0 Ranges of Some Index \<Rightarrow> Program Index Address Len | None \<Rightarrow> NoRoom))
      else if BaseAddr (hd Ranges) \<noteq> 0 \<and> gen_io_overlap Address Len (hd Ranges) then
        (if gen_io_covered Address Len (hd Ranges) then Covered else NoRoom)
      else Program 0 Address Len)"

definition gen_io_value :: "u16 \<Rightarrow> u64 \<Rightarrow> u32" where
  "gen_io_value Address Len =
     (ucast (push_bit 16 (Len - 1)) AND B_PCH_LPC_GENX_DEC_IODRA) OR ucast Address OR B_PCH_LPC_GENX_DEC_EN"

text \<open>The local list is not initialised; the code reads only entries that the call has set.\<close>

definition no_range :: PCH_LPC_GEN_IO_RANGE where
  "no_range = \<lparr> BaseAddr = 0, Length = 0, Enable = False \<rparr>"

definition PchLpcGenIoRangeSet :: "'s hw \<Rightarrow> u16 \<Rightarrow> u64 \<Rightarrow> u8 \<Rightarrow> ('s, efi_status) prog" where
  "PchLpcGenIoRangeSet hw Address Len SlaveDevice =
     (if \<not> gen_io_shape_ok Address Len then State_Monad.return EFI_INVALID_PARAMETER
      else if \<not> gen_io_low_ok Address Len then State_Monad.return EFI_INVALID_PARAMETER
      else do {
        (Status, Ranges) \<leftarrow> PchLpcGenIoRangeGet hw
            (Some (replicate PCH_LPC_GEN_IO_RANGE_MAX no_range)) SlaveDevice;
        if EFI_ERROR Status then State_Monad.return Status
        else (case gen_io_choose SlaveDevice Address Len (the Ranges) of
            Covered \<Rightarrow> State_Monad.return EFI_SUCCESS
          | NoRoom \<Rightarrow> State_Monad.return EFI_OUT_OF_RESOURCES
          | Program Index Address Len \<Rightarrow> do {
              locked \<leftarrow> srl_locked hw;
              if locked then State_Monad.return EFI_UNSUPPORTED
              else do {
                let Data32 = gen_io_value Address Len;
                (if SlaveDevice = LPC_ESPI_FIRST_SLAVE then do {
                   _ \<leftarrow> MmioWrite32 hw (LpcBase hw + R_PCH_LPC_GEN1_DEC + of_nat Index * 4) Data32;
                   _ \<leftarrow> PchPcrWrite32 hw PID_DMI (R_PCH_PCR_DMI_LPCLGIR1 + of_nat Index * 4) Data32;
                   State_Monad.return () }
                 else do {
                   _ \<leftarrow> MmioWrite32 hw (LpcBase hw + R_PCH_LPC_PCCS1GIR1) Data32;
                   _ \<leftarrow> PchPcrWrite32 hw PID_DMI R_PCH_PCR_DMI_SEGIR Data32;
                   State_Monad.return () });
                State_Monad.return EFI_SUCCESS
              }
            })
      })"

section \<open>The other decoders\<close>

definition PchLpcMemRangeSet :: "'s hw \<Rightarrow> u32 \<Rightarrow> u8 \<Rightarrow> ('s, efi_status) prog" where
  "PchLpcMemRangeSet hw Address SlaveDevice =
     (if Address AND NOT B_PCH_LPC_LGMR_MA \<noteq> 0 then State_Monad.return EFI_INVALID_PARAMETER
      else do {
        locked \<leftarrow> srl_locked hw;
        if locked then State_Monad.return EFI_UNSUPPORTED
        else do {
          let LpcReg = LpcBase hw + (if SlaveDevice = ESPI_SECONDARY_SLAVE
                then R_PCH_LPC_PCCS1GMR1 else R_PCH_LPC_LGMR);
          let DmiReg = (if SlaveDevice = ESPI_SECONDARY_SLAVE
                then R_PCH_PCR_DMI_SEGMR else R_PCH_PCR_DMI_LPCGMR);
          _ \<leftarrow> MmioAnd32 hw LpcReg (NOT B_PCH_LPC_LGMR_LMRD_EN);
          _ \<leftarrow> MmioWrite32 hw LpcReg (Address OR B_PCH_LPC_LGMR_LMRD_EN);
          _ \<leftarrow> PchPcrWrite32 hw PID_DMI DmiReg (Address OR B_PCH_LPC_LGMR_LMRD_EN);
          State_Monad.return EFI_SUCCESS
        }
      })"

definition PchLpcMemRangeGet :: "'s hw \<Rightarrow> u32 option \<Rightarrow> u8 \<Rightarrow> ('s, efi_status \<times> u32 option) prog" where
  "PchLpcMemRangeGet hw Address SlaveDevice =
     (if Address = None then State_Monad.return (EFI_INVALID_PARAMETER, Address)
      else do {
        v \<leftarrow> MmioRead32 hw (LpcBase hw + (if SlaveDevice = LPC_ESPI_FIRST_SLAVE
              then R_PCH_LPC_LGMR else R_PCH_LPC_PCCS1GMR1));
        State_Monad.return (EFI_SUCCESS, Some (v AND B_PCH_LPC_LGMR_MA))
      })"

definition PchBiosDecodeEnableSet :: "'s hw \<Rightarrow> u16 \<Rightarrow> ('s, efi_status) prog" where
  "PchBiosDecodeEnableSet hw BiosDecodeEnable = do {
     locked \<leftarrow> srl_locked hw;
     if locked then State_Monad.return EFI_UNSUPPORTED
     else do {
       (_, Gcs) \<leftarrow> PchPcrRead32 hw PID_DMI R_PCH_PCR_DMI_GCS 0;
       (if Gcs AND B_PCH_PCR_DMI_BBS = 0 then do {
          _ \<leftarrow> MmioWrite16 hw (SpiBase hw + R_PCH_SPI_BDE) BiosDecodeEnable;
          State_Monad.return () }
        else do {
          _ \<leftarrow> MmioWrite16 hw (LpcBase hw + R_PCH_LPC_BDE) BiosDecodeEnable;
          State_Monad.return () });
       _ \<leftarrow> PchPcrWrite16 hw PID_DMI R_PCH_PCR_DMI_LPCBDE BiosDecodeEnable;
       State_Monad.return EFI_SUCCESS
     }
   }"

definition PchLpcIoDecodeRangesSet :: "'s hw \<Rightarrow> u16 \<Rightarrow> ('s, efi_status) prog" where
  "PchLpcIoDecodeRangesSet hw LpcIoDecodeRanges = do {
     cur \<leftarrow> MmioRead16 hw (LpcBase hw + R_PCH_LPC_IOD);
     if LpcIoDecodeRanges = cur then State_Monad.return EFI_SUCCESS
     else do {
       locked \<leftarrow> srl_locked hw;
       if locked then State_Monad.return EFI_UNSUPPORTED
       else do {
         _ \<leftarrow> MmioWrite16 hw (LpcBase hw + R_PCH_LPC_IOD) LpcIoDecodeRanges;
         _ \<leftarrow> PchPcrWrite16 hw PID_DMI R_PCH_PCR_DMI_LPCIOD LpcIoDecodeRanges;
         State_Monad.return EFI_SUCCESS
       }
     }
   }"

definition PchLpcIoEnableDecodingSet :: "'s hw \<Rightarrow> u16 \<Rightarrow> u8 \<Rightarrow> ('s, efi_status) prog" where
  "PchLpcIoEnableDecodingSet hw LpcIoEnableDecoding SlaveDevice = do {
     let LpcReg = (if SlaveDevice = LPC_ESPI_FIRST_SLAVE then R_PCH_LPC_IOE else R_PCH_LPC_PCCS1IORE);
     cur \<leftarrow> MmioRead16 hw (LpcBase hw + LpcReg);
     if LpcIoEnableDecoding = cur then State_Monad.return EFI_SUCCESS
     else do {
       locked \<leftarrow> srl_locked hw;
       if locked then State_Monad.return EFI_UNSUPPORTED
       else do {
         _ \<leftarrow> MmioWrite16 hw (LpcBase hw + LpcReg) LpcIoEnableDecoding;
         (if SlaveDevice = ESPI_SECONDARY_SLAVE then do {
            ioe \<leftarrow> MmioRead16 hw (LpcBase hw + R_PCH_LPC_IOE);
            _ \<leftarrow> MmioWrite16 hw (LpcBase hw + R_PCH_LPC_IOE) (LpcIoEnableDecoding OR ioe);
            State_Monad.return () }
          else State_Monad.return ());
         _ \<leftarrow> PchPcrWrite16 hw PID_DMI R_PCH_PCR_DMI_LPCIOE LpcIoEnableDecoding;
         State_Monad.return EFI_SUCCESS
       }
     }
   }"

definition PchLpRprDidTable :: "u16 list" where
  "PchLpRprDidTable = [0x2188, 0x2189, 0x218A, 0x218B, 0x2198, 0x2199, 0x219A, 0x219B,
     0x21A8, 0x21A9, 0x21AA, 0x21AB]"

definition PchHRprDidTable :: "u16 list" where
  "PchHRprDidTable = [0x2180, 0x2181, 0x2182, 0x2183, 0x2188, 0x2189, 0x218A, 0x218B,
     0x2198, 0x2199, 0x219A, 0x219B, 0x21A8, 0x21A9, 0x21AA, 0x21AB, 0x21B8, 0x21B9, 0x21BA, 0x21BB]"

text \<open>The table is indexed without a check: past its end the code reads whatever follows, here
  the parameter \<open>beyond\<close>.\<close>

definition PchIoPort80DecodeSet :: "'s hw \<Rightarrow> (nat \<Rightarrow> u16) \<Rightarrow> u64 \<Rightarrow> ('s, efi_status) prog" where
  "PchIoPort80DecodeSet hw beyond RpPhyNumber = do {
     locked \<leftarrow> srl_locked hw;
     if locked then State_Monad.return EFI_UNSUPPORTED
     else do {
       PchSeries \<leftarrow> GetPchSeries hw;
       let Table = (if PchSeries = PchLp then PchLpRprDidTable else PchHRprDidTable);
       let Did = (if unat RpPhyNumber < length Table then Table ! unat RpPhyNumber
             else beyond (unat RpPhyNumber));
       _ \<leftarrow> PchPcrWrite16 hw PID_DMI (R_PCH_PCR_DMI_GCS + 2) Did;
       _ \<leftarrow> PchPcrAndThenOr8 hw PID_DMI (R_PCH_PCR_DMI_GCS + 1) 0xFF (ucast (drop_bit 8 B_PCH_PCR_DMI_RPR));
       State_Monad.return EFI_SUCCESS
     }
   }"

definition PchIoApicBaseGet ::
  "'s hw \<Rightarrow> u32 option \<Rightarrow> u32 option \<Rightarrow> ('s, efi_status \<times> u32 option \<times> u32 option) prog" where
  "PchIoApicBaseGet hw IoApicIndex IoApicData = do {
     (Status, RegIoac) \<leftarrow> PchP2sbCfgGet16 hw R_PCH_P2SB_IOAC 0;
     if EFI_ERROR Status then State_Monad.return (Status, IoApicIndex, IoApicData)
     else do {
       let RangeSelect = push_bit 12 (ucast (RegIoac AND 0x00FF));
       State_Monad.return (EFI_SUCCESS,
         map_option (\<lambda>_. 0xFEC00000 + RangeSelect) IoApicIndex,
         map_option (\<lambda>_. 0xFEC00010 + RangeSelect) IoApicData)
     }
   }"

definition PchHpetBaseGet :: "'s hw \<Rightarrow> u32 option \<Rightarrow> ('s, efi_status \<times> u32 option) prog" where
  "PchHpetBaseGet hw HpetBase =
     (if HpetBase = None then State_Monad.return (EFI_INVALID_PARAMETER, HpetBase)
      else do {
        (_, RegHptc) \<leftarrow> PchP2sbCfgGet8 hw R_PCH_P2SB_HPTC 0;
        let sel = RegHptc AND 0x03;
        State_Monad.return (EFI_SUCCESS, Some (if sel = 0 then 0xFED00000
          else if sel = 1 then 0xFED01000 else if sel = 2 then 0xFED02000 else 0xFED03000))
      })"

section \<open>Running on register storage\<close>

lemma bases [hwrun]:
  "PmcBase (ram_hw dbg) = 0x800FA000" "LpcBase (ram_hw dbg) = 0x800F8000"
  "SmbusBase (ram_hw dbg) = 0x800FC000" "SpiBase (ram_hw dbg) = 0x800FD000"
  by (simp_all add: PmcBase_def LpcBase_def SmbusBase_def SpiBase_def hwrun regs)

text \<open>A register of the DMI port.\<close>

abbreviation DMI :: "u16 \<Rightarrow> u64" where
  "DMI Offset \<equiv> PCH_PCR_ADDRESS PID_DMI Offset"

definition srl :: "ram sys \<Rightarrow> bool" where
  "srl s \<longleftrightarrow> bit (reg32 s 0xFDEF2234) 31"

lemma DMI_eval:
  "DMI 0x2234 = 0xFDEF2234" "DMI 0x27B4 = 0xFDEF27B4" "DMI 0x27B8 = 0xFDEF27B8"
  "DMI 0x27AC = 0xFDEF27AC" "DMI 0x27B0 = 0xFDEF27B0" "DMI 0x2778 = 0xFDEF2778"
  "DMI 0x2740 = 0xFDEF2740" "DMI 0x27C0 = 0xFDEF27C0" "DMI 0x2744 = 0xFDEF2744"
  "DMI 0x274C = 0xFDEF274C" "DMI 0x274D = 0xFDEF274D" "DMI 0x274E = 0xFDEF274E"
  "DMI 0x2770 = 0xFDEF2770" "DMI 0x2774 = 0xFDEF2774" "DMI 0x27BC = 0xFDEF27BC"
  by (simp_all add: PCH_PCR_ADDRESS_def PID_DMI_def)

lemma SRL_zero: "v AND B_PCH_PCR_DMI_DMIC_SRL = 0 \<longleftrightarrow> \<not> bit v 31"
  unfolding B_PCH_PCR_DMI_DMIC_SRL_def by (rule and_BIT_zero) simp

lemma run_srl_locked [hwrun]: "run_state (srl_locked (ram_hw dbg)) s = (srl s, s)"
  by (simp add: srl_locked_def hwrun R_PCH_PCR_DMI_DMIC_def DMI_eval SRL_zero srl_def)

lemma srl_simps [simp]: "srl (cached s) = srl s" "srl (chk dbg s) = srl s"
  by (simp_all add: srl_def)

lemma srl_wr [simp]: "apart a n 0xFDEF2234 4 \<Longrightarrow> srl (wr n a w s) = srl s"
  by (simp add: srl_def loadw_storew_apart)

section \<open>Base decoders\<close>

text \<open>What setting and reading a base address promise: a refused call changes no register; a call
  that is accepted leaves the decoder open and the address readable; reading changes nothing.\<close>

locale base_decoder =
  fixes program :: "'a \<Rightarrow> (ram, efi_status) prog"
    and query :: "(ram, efi_status \<times> 'a option) prog"
    and ok :: "'a \<Rightarrow> bool"
    and opened :: "ram sys \<Rightarrow> bool"
  assumes refuse: "\<not> ok a \<or> \<not> opened s \<Longrightarrow>
      EFI_ERROR (fst (run_state (program a) s)) \<and> dev (snd (run_state (program a) s)) = dev s"
    and accept: "ok a \<Longrightarrow> opened s \<Longrightarrow>
      fst (run_state (program a) s) = EFI_SUCCESS \<and> opened (snd (run_state (program a) s)) \<and>
      fst (run_state query (snd (run_state (program a) s))) = (EFI_SUCCESS, Some a)"
    and get_dev: "dev s = dev t \<Longrightarrow> fst (run_state query s) = fst (run_state query t)"
    and opened_dev: "dev s = dev t \<Longrightarrow> opened s = opened t"

text \<open>A sequence of calls, and the value that the last accepted one leaves.\<close>

fun set_all :: "('a \<Rightarrow> ('s, efi_status) prog) \<Rightarrow> 'a list \<Rightarrow> ('s, efi_status list) prog" where
  "set_all program [] = State_Monad.return []"
| "set_all program (a # as) = do {
     st \<leftarrow> program a;
     sts \<leftarrow> set_all program as;
     State_Monad.return (st # sts)
   }"

lemma run_set_all_Cons [simp]:
  "snd (run_state (set_all p (a # as)) s) = snd (run_state (set_all p as) (snd (run_state (p a) s)))"
  "fst (run_state (set_all p (a # as)) s) =
     fst (run_state (p a) s) # fst (run_state (set_all p as) (snd (run_state (p a) s)))"
  by (simp_all add: hwrun case_prod_beta)

lemma run_set_all_Nil [simp]: "run_state (set_all p []) s = ([], s)"
  by (simp add: hwrun)

declare set_all.simps [simp del]

context base_decoder
begin

lemma set_all_opened: "opened s \<Longrightarrow> opened (snd (run_state (set_all program as) s))"
proof (induction as arbitrary: s)
  case (Cons a as)
  have "opened (snd (run_state (program a) s))"
    using Cons.prems accept [of a s] refuse [of a s] opened_dev by metis
  then show ?case using Cons.IH by simp
qed simp

lemma set_all_status:
  "opened s \<Longrightarrow> map EFI_ERROR (fst (run_state (set_all program as) s)) = map (\<lambda>a. \<not> ok a) as"
proof (induction as arbitrary: s)
  case (Cons a as)
  have "opened (snd (run_state (program a) s))"
    using Cons.prems accept [of a s] refuse [of a s] opened_dev by metis
  moreover have "EFI_ERROR (fst (run_state (program a) s)) = (\<not> ok a)"
    using Cons.prems accept [of a s] refuse [of a s] by (cases "ok a") auto
  ultimately show ?case using Cons.IH by simp
qed simp

lemma set_all_get:
  "opened s \<Longrightarrow> filter ok as \<noteq> [] \<Longrightarrow>
     fst (run_state query (snd (run_state (set_all program as) s))) = (EFI_SUCCESS, Some (last (filter ok as)))"
proof (induction as arbitrary: s rule: rev_induct)
  case (snoc a as)
  have app: "snd (run_state (set_all program (as @ [a])) s)
      = snd (run_state (program a) (snd (run_state (set_all program as) s)))" for s
    by (induction as arbitrary: s) simp_all
  let ?t = "snd (run_state (set_all program as) s)"
  have o: "opened ?t" using snoc.prems(1) by (rule set_all_opened)
  show ?case
  proof (cases "ok a")
    case True
    then show ?thesis using accept [OF True o] by (simp add: app)
  next
    case False
    then have "fst (run_state query (snd (run_state (program a) ?t))) = fst (run_state query ?t)"
      using refuse [of a ?t] by (intro get_dev) simp
    with False snoc show ?thesis by (simp add: app)
  qed
qed simp

end

section \<open>The ACPI base\<close>

definition acpi_ok :: "u16 \<Rightarrow> bool" where
  "acpi_ok Address \<longleftrightarrow> Address AND 0x00FF = 0 \<and> Address \<noteq> 0"

definition pmc_open :: "ram sys \<Rightarrow> bool" where
  "pmc_open s \<longleftrightarrow> \<not> srl s \<and> reg16 s 0x800FA000 \<noteq> 0xFFFF"

text \<open>The stores of an accepted call, in order.\<close>

definition acpi_programmed :: "u16 \<Rightarrow> ram sys \<Rightarrow> ram sys" where
  "acpi_programmed Address s =
     (let c = reg8 s 0x800FA044; b = reg16 s 0x800FA040 in
      wr32 0xFDEF27B8 (if cur_series s = PchLp then 0x23A0 else 0x23A8)
        (wr32 0xFDEF27B4 (0x00FC0001 + ucast Address)
          (wr8 0x800FA044 (c AND NOT B_PCH_PMC_ACPI_CNT_ACPI_EN OR B_PCH_PMC_ACPI_CNT_ACPI_EN)
            (wr16 0x800FA040 (b AND NOT B_PCH_PMC_ACPI_BASE_BAR OR Address)
              (wr8 0x800FA044 (c AND NOT B_PCH_PMC_ACPI_CNT_ACPI_EN) s)))))"

lemma keeps_id_lit [simp]:
  "n \<le> 4 \<Longrightarrow> a \<in> {0x800FA040, 0x800FA044, 0x800FA048, 0x800FC050, 0x800FC055,
     0xFDEF27B8, 0xFDEF27B4, 0xFDEF27AC, 0xFDEF27B0, 0xFDEF2778} \<Longrightarrow> keeps_id n a"
  by (auto simp: keeps_id_def apart_def)

lemma run_PchAcpiBaseSet [hwrun]:
  "run_state (PchAcpiBaseSet (ram_hw dbg) Address) s =
     (if \<not> acpi_ok Address then (EFI_INVALID_PARAMETER, cached s)
      else if \<not> pmc_open s then (EFI_UNSUPPORTED, cached s)
      else (EFI_SUCCESS, acpi_programmed Address (cached s)))"
  by (simp add: PchAcpiBaseSet_def hwrun acpi_ok_def pmc_open_def acpi_programmed_def Let_def
      R_PCH_PMC_ACPI_CNT_def R_PCH_PMC_ACPI_BASE_def R_PCH_PCR_DMI_ACPIBA_def
      R_PCH_PCR_DMI_ACPIBDID_def DMI_eval mem_simps)

lemma run_PchAcpiBaseGet [hwrun]:
  "run_state (PchAcpiBaseGet (ram_hw dbg) (Some old)) s =
     (if reg16 s 0x800FA000 = 0xFFFF then (EFI_UNSUPPORTED, Some old)
      else (EFI_SUCCESS, Some (reg16 s 0x800FA040 AND B_PCH_PMC_ACPI_BASE_BAR)), s)"
  by (simp add: PchAcpiBaseGet_def hwrun R_PCH_PMC_ACPI_BASE_def)

lemma acpi_ok_BAR: "acpi_ok Address \<Longrightarrow> Address AND B_PCH_PMC_ACPI_BASE_BAR = Address"
proof -
  assume "acpi_ok Address"
  then have "(Address AND 0x00FF) AND 3 = 0" by (simp add: acpi_ok_def)
  then have low: "Address AND 3 = 0" by (simp add: and.assoc)
  have "NOT 0xFFFC = (3 :: u16)" by simp
  then have "Address AND NOT 0xFFFC = 0" by (simp only: low)
  then show ?thesis unfolding B_PCH_PMC_ACPI_BASE_BAR_def by (rule and_subset_self)
qed

lemma acpi_programmed_simps [simp]:
  "pmc_open (acpi_programmed Address s) = pmc_open s"
  "reg16 (acpi_programmed Address s) 0x800FA040
     = reg16 s 0x800FA040 AND NOT B_PCH_PMC_ACPI_BASE_BAR OR Address"
  "reg16 (acpi_programmed Address s) 0x800FA000 = reg16 s 0x800FA000"
  "reg32 (acpi_programmed Address s) 0xFDEF27B4 = 0x00FC0001 + ucast Address"
  "reg32 (acpi_programmed Address s) 0xFDEF27B8 = (if cur_series s = PchLp then 0x23A0 else 0x23A8)"
  by (simp_all add: acpi_programmed_def pmc_open_def Let_def mem_simps)

lemma pmc_open_dev: "dev s = dev t \<Longrightarrow> pmc_open s = pmc_open t"
  by (simp add: pmc_open_def srl_def)

lemma pmc_open_cached [simp]: "pmc_open (cached s) = pmc_open s"
  by (simp add: pmc_open_def)

interpretation acpi: base_decoder "PchAcpiBaseSet (ram_hw dbg)"
  "PchAcpiBaseGet (ram_hw dbg) (Some old)" acpi_ok pmc_open for dbg old
proof
  fix s t :: "ram sys" and a
  show "\<not> acpi_ok a \<or> \<not> pmc_open s \<Longrightarrow> EFI_ERROR (fst (run_state (PchAcpiBaseSet (ram_hw dbg) a) s))
      \<and> dev (snd (run_state (PchAcpiBaseSet (ram_hw dbg) a) s)) = dev s"
    by (auto simp: hwrun)
  assume ok: "acpi_ok a" "pmc_open s"
  then have "reg16 s 0x800FA000 \<noteq> 0xFFFF" by (simp add: pmc_open_def)
  with ok show "fst (run_state (PchAcpiBaseSet (ram_hw dbg) a) s) = EFI_SUCCESS
      \<and> pmc_open (snd (run_state (PchAcpiBaseSet (ram_hw dbg) a) s))
      \<and> fst (run_state (PchAcpiBaseGet (ram_hw dbg) (Some old))
          (snd (run_state (PchAcpiBaseSet (ram_hw dbg) a) s))) = (EFI_SUCCESS, Some a)"
    by (simp add: hwrun and_not_or_read acpi_ok_BAR)
next
  fix s t :: "ram sys"
  assume "dev s = dev t"
  then show "pmc_open s = pmc_open t"
    and "fst (run_state (PchAcpiBaseGet (ram_hw dbg) (Some old)) s)
      = fst (run_state (PchAcpiBaseGet (ram_hw dbg) (Some old)) t)"
    by (simp_all add: hwrun pmc_open_def srl_def)
qed

text \<open>C36: After any sequence of PchAcpiBaseSet calls, legal and illegal mixed, at least one of them
  legal, with DMIC.SRL clear and the power management controller visible, exactly the illegal
  ones have failed and PchAcpiBaseGet returns the address of the last legal one.\<close>

theorem acpi_base_history:
  assumes "pmc_open s" and "filter acpi_ok as \<noteq> []"
  shows "map EFI_ERROR (fst (run_state (set_all (PchAcpiBaseSet (ram_hw dbg)) as) s))
      = map (\<lambda>a. \<not> acpi_ok a) as
    \<and> fst (run_state (PchAcpiBaseGet (ram_hw dbg) (Some old))
        (snd (run_state (set_all (PchAcpiBaseSet (ram_hw dbg)) as) s)))
      = (EFI_SUCCESS, Some (last (filter acpi_ok as)))"
  using assms acpi.set_all_get [of s as dbg old] acpi.set_all_status [of s dbg as] by simp

theorem acpi_base_history_witness:
  "fst (run_state (PchAcpiBaseGet (ram_hw True) (Some 7))
     (snd (run_state (set_all (PchAcpiBaseSet (ram_hw True)) [0x500, 0x1800, 0x1801]) (boot blank))))
   = (EFI_SUCCESS, Some 0x1800)"
proof -
  have "pmc_open (boot blank)" by (simp add: pmc_open_def srl_def)
  moreover have "filter acpi_ok [0x500, 0x1800, 0x1801] = [0x500, 0x1800]"
    by (simp add: acpi_ok_def)
  ultimately show ?thesis
    using acpi_base_history [of "boot blank" "[0x500, 0x1800, 0x1801]" True 7] by simp
qed

text \<open>A legal PchAcpiBaseSet writes, in this order: the decode disable, the base, the decode
  enable, then the DMI copy of the range and its destination id for the series.\<close>

theorem acpi_base_programmed:
  assumes "acpi_ok Address" and "pmc_open s"
    and "run_state (PchAcpiBaseSet (ram_hw dbg) Address) s = (st, s')"
  shows "st = EFI_SUCCESS
    \<and> reg32 s' 0xFDEF27B4 = 0x00FC0001 + ucast Address
    \<and> reg32 s' 0xFDEF27B8 = (if cur_series s = PchLp then 0x23A0 else 0x23A8)
    \<and> (\<exists>c b. wlog (dev s') = wlog (dev s) @
        [(0x800FA044, 1, ucast (c AND NOT B_PCH_PMC_ACPI_CNT_ACPI_EN)),
         (0x800FA040, 2, ucast (b AND NOT B_PCH_PMC_ACPI_BASE_BAR OR Address)),
         (0x800FA044, 1, ucast (c AND NOT B_PCH_PMC_ACPI_CNT_ACPI_EN OR B_PCH_PMC_ACPI_CNT_ACPI_EN)),
         (0xFDEF27B4, 4, 0x00FC0001 + ucast Address),
         (0xFDEF27B8, 4, if cur_series s = PchLp then 0x23A0 else 0x23A8)]
        \<and> c = reg8 s 0x800FA044 \<and> b = reg16 s 0x800FA040)"
proof -
  have "st = EFI_SUCCESS" "s' = acpi_programmed Address (cached s)"
    using assms by (auto simp: hwrun)
  then show ?thesis
    by (simp add: acpi_programmed_simps) (simp add: acpi_programmed_def Let_def)
qed

theorem acpi_base_programmed_witness:
  "reg32 (snd (run_state (PchAcpiBaseSet (ram_hw False) 0x1800) (boot blank))) 0xFDEF27B4 = 0x00FC1801"
proof -
  have "acpi_ok 0x1800" "pmc_open (boot blank)" by (simp_all add: acpi_ok_def pmc_open_def srl_def)
  from acpi_base_programmed [OF this surjective_pairing] show ?thesis by simp
qed

section \<open>The PWRM and TCO bases and the memory range\<close>

definition pwrm_ok :: "u32 \<Rightarrow> bool" where
  "pwrm_ok Address \<longleftrightarrow> Address AND NOT B_PCH_PMC_PWRM_BASE_BAR = 0 \<and> Address \<noteq> 0"

definition pwrm_programmed :: "u32 \<Rightarrow> ram sys \<Rightarrow> ram sys" where
  "pwrm_programmed Address s =
     (let c = reg16 s 0x800FA044; b = reg32 s 0x800FA048 in
      wr32 0xFDEF27B0 (if cur_series s = PchLp then 0x800023A0 else 0x800023A8)
        (wr32 0xFDEF27AC ((Address AND 0xFFFF0000) OR drop_bit 16 Address)
          (wr16 0x800FA044 (c AND NOT B_PCH_PMC_ACPI_CNT_PWRM_EN OR B_PCH_PMC_ACPI_CNT_PWRM_EN)
            (wr32 0x800FA048 (b AND NOT B_PCH_PMC_PWRM_BASE_BAR OR Address)
              (wr16 0x800FA044 (c AND NOT B_PCH_PMC_ACPI_CNT_PWRM_EN) s)))))"

lemma run_PchPwrmBaseSet [hwrun]:
  "run_state (PchPwrmBaseSet (ram_hw dbg) Address) s =
     (if \<not> pwrm_ok Address then (EFI_INVALID_PARAMETER, cached s)
      else if \<not> pmc_open s then (EFI_UNSUPPORTED, cached s)
      else (EFI_SUCCESS, pwrm_programmed Address (cached s)))"
  by (simp add: PchPwrmBaseSet_def hwrun pwrm_ok_def pmc_open_def pwrm_programmed_def Let_def
      R_PCH_PMC_ACPI_CNT_def R_PCH_PMC_PWRM_BASE_def R_PCH_PCR_DMI_PMBASEA_def
      R_PCH_PCR_DMI_PMBASEC_def DMI_eval mem_simps)

lemma run_PchPwrmBaseGet [hwrun]:
  "run_state (PchPwrmBaseGet (ram_hw dbg) (Some old)) s =
     (if reg16 s 0x800FA000 = 0xFFFF then (EFI_UNSUPPORTED, Some old)
      else (EFI_SUCCESS, Some (reg32 s 0x800FA048 AND B_PCH_PMC_PWRM_BASE_BAR)), s)"
  by (simp add: PchPwrmBaseGet_def hwrun R_PCH_PMC_PWRM_BASE_def)

lemma pwrm_programmed_simps [simp]:
  "pmc_open (pwrm_programmed Address s) = pmc_open s"
  "reg32 (pwrm_programmed Address s) 0x800FA048
     = reg32 s 0x800FA048 AND NOT B_PCH_PMC_PWRM_BASE_BAR OR Address"
  "reg16 (pwrm_programmed Address s) 0x800FA000 = reg16 s 0x800FA000"
  "reg32 (pwrm_programmed Address s) 0xFDEF27AC = (Address AND 0xFFFF0000) OR drop_bit 16 Address"
  "reg16 (pwrm_programmed Address s) 0x800FA044
     = reg16 s 0x800FA044 AND NOT B_PCH_PMC_ACPI_CNT_PWRM_EN OR B_PCH_PMC_ACPI_CNT_PWRM_EN"
  by (simp_all add: pwrm_programmed_def pmc_open_def Let_def mem_simps)

interpretation pwrm: base_decoder "PchPwrmBaseSet (ram_hw dbg)"
  "PchPwrmBaseGet (ram_hw dbg) (Some old)" pwrm_ok pmc_open for dbg old
proof
  fix s t :: "ram sys" and a
  show "\<not> pwrm_ok a \<or> \<not> pmc_open s \<Longrightarrow> EFI_ERROR (fst (run_state (PchPwrmBaseSet (ram_hw dbg) a) s))
      \<and> dev (snd (run_state (PchPwrmBaseSet (ram_hw dbg) a) s)) = dev s"
    by (auto simp: hwrun)
  assume ok: "pwrm_ok a" "pmc_open s"
  then have "reg16 s 0x800FA000 \<noteq> 0xFFFF" "a AND B_PCH_PMC_PWRM_BASE_BAR = a"
    by (simp_all add: pmc_open_def pwrm_ok_def and_subset_self)
  with ok show "fst (run_state (PchPwrmBaseSet (ram_hw dbg) a) s) = EFI_SUCCESS
      \<and> pmc_open (snd (run_state (PchPwrmBaseSet (ram_hw dbg) a) s))
      \<and> fst (run_state (PchPwrmBaseGet (ram_hw dbg) (Some old))
          (snd (run_state (PchPwrmBaseSet (ram_hw dbg) a) s))) = (EFI_SUCCESS, Some a)"
    by (simp add: hwrun and_not_or_read)
next
  fix s t :: "ram sys"
  assume "dev s = dev t"
  then show "pmc_open s = pmc_open t"
    and "fst (run_state (PchPwrmBaseGet (ram_hw dbg) (Some old)) s)
      = fst (run_state (PchPwrmBaseGet (ram_hw dbg) (Some old)) t)"
    by (simp_all add: hwrun pmc_open_def srl_def)
qed

text \<open>After any sequence of PchPwrmBaseSet calls exactly the misaligned or out of range ones
  have failed and PchPwrmBaseGet returns the base of the last legal one.\<close>

theorem pwrm_base_history:
  assumes "pmc_open s" and "filter pwrm_ok as \<noteq> []"
  shows "map EFI_ERROR (fst (run_state (set_all (PchPwrmBaseSet (ram_hw dbg)) as) s))
      = map (\<lambda>a. \<not> pwrm_ok a) as
    \<and> fst (run_state (PchPwrmBaseGet (ram_hw dbg) (Some old))
        (snd (run_state (set_all (PchPwrmBaseSet (ram_hw dbg)) as) s)))
      = (EFI_SUCCESS, Some (last (filter pwrm_ok as)))"
  using assms pwrm.set_all_get [of s as dbg old] pwrm.set_all_status [of s dbg as] by simp

theorem pwrm_base_history_witness:
  "fst (run_state (PchPwrmBaseGet (ram_hw True) (Some 7))
     (snd (run_state (set_all (PchPwrmBaseSet (ram_hw True)) [0xFE000000, 0xFE001000]) (boot blank))))
   = (EFI_SUCCESS, Some 0xFE000000)"
proof -
  have "pmc_open (boot blank)" by (simp add: pmc_open_def srl_def)
  moreover have "filter pwrm_ok [0xFE000000, 0xFE001000] = [0xFE000000]"
    by (simp add: pwrm_ok_def regs)
  ultimately show ?thesis
    using pwrm_base_history [of "boot blank" "[0xFE000000, 0xFE001000]" True 7] by simp
qed

definition tco_ok :: "u16 \<Rightarrow> bool" where
  "tco_ok Address \<longleftrightarrow> Address AND NOT B_PCH_SMBUS_TCOBASE_BAR = 0"

definition tco_open :: "ram sys \<Rightarrow> bool" where
  "tco_open s \<longleftrightarrow> \<not> srl s \<and> reg16 s 0x800FC000 \<noteq> 0xFFFF
     \<and> reg8 s 0x800FC054 AND B_PCH_SMBUS_TCOCTL_TCO_BASE_LOCK = 0"

definition tco_programmed :: "bool \<Rightarrow> u16 \<Rightarrow> ram sys \<Rightarrow> ram sys" where
  "tco_programmed dbg Address s =
     (let c = reg8 s 0x800FC055; b = reg16 s 0x800FC050 in
      wr16 0xFDEF2778 (Address OR 2)
        (wr8 0x800FC055 (c AND 0xFE OR 1)
          (wr16 0x800FC050 (b AND NOT B_PCH_SMBUS_TCOBASE_BAR OR Address)
            (wr8 0x800FC055 (c AND 0xFE) (chk dbg s)))))"

lemma tco_en [simp]:
  "ucast (NOT (drop_bit 8 B_PCH_SMBUS_TCOCTL_TCO_BASE_EN)) = (0xFE :: u8)"
  "ucast (drop_bit 8 B_PCH_SMBUS_TCOCTL_TCO_BASE_EN) = (1 :: u8)"
  by (simp_all add: regs)

lemma run_PchTcoBaseSet [hwrun]:
  "run_state (PchTcoBaseSet (ram_hw dbg) Address) s =
     (if \<not> tco_ok Address then (EFI_INVALID_PARAMETER, s)
      else if tco_open s then (EFI_SUCCESS, tco_programmed dbg Address s)
      else (if srl s \<or> reg16 s 0x800FC000 = 0xFFFF then EFI_UNSUPPORTED else EFI_DEVICE_ERROR, s))"
  by (simp add: PchTcoBaseSet_def hwrun tco_ok_def tco_open_def tco_programmed_def Let_def
      R_PCH_SMBUS_TCOCTL_def R_PCH_SMBUS_TCOBASE_def R_PCH_PCR_DMI_TCOBASE_def DMI_eval mem_simps)

lemma run_PchTcoBaseGet [hwrun]:
  "run_state (PchTcoBaseGet (ram_hw dbg) (Some old)) s =
     ((EFI_SUCCESS, Some (reg16 s 0xFDEF2778 AND B_PCH_PCR_DMI_TCOBASE_TCOBA)), s)"
  by (simp add: PchTcoBaseGet_def hwrun R_PCH_PCR_DMI_TCOBASE_def DMI_eval)

lemma tco_programmed_simps [simp]:
  "tco_open (tco_programmed dbg Address s) = tco_open s"
  "reg16 (tco_programmed dbg Address s) 0xFDEF2778 = Address OR 2"
  "reg16 (tco_programmed dbg Address s) 0x800FC050
     = reg16 s 0x800FC050 AND NOT B_PCH_SMBUS_TCOBASE_BAR OR Address"
  by (simp_all add: tco_programmed_def tco_open_def Let_def mem_simps)

text \<open>TCOBASE of the DMI port holds the address with an enable bit below its mask.\<close>

lemma tco_ok_mask: "tco_ok Address \<Longrightarrow> (Address OR 2) AND B_PCH_PCR_DMI_TCOBASE_TCOBA = Address"
proof -
  assume "tco_ok Address"
  then have "Address AND B_PCH_PCR_DMI_TCOBASE_TCOBA = Address"
    by (simp add: tco_ok_def B_PCH_SMBUS_TCOBASE_BAR_def B_PCH_PCR_DMI_TCOBASE_TCOBA_def
        and_subset_self)
  moreover have "2 AND B_PCH_PCR_DMI_TCOBASE_TCOBA = 0" by (simp add: regs)
  ultimately show ?thesis by (simp add: bit.conj_disj_distrib2)
qed

interpretation tco: base_decoder "PchTcoBaseSet (ram_hw dbg)"
  "PchTcoBaseGet (ram_hw dbg) (Some old)" tco_ok tco_open for dbg old
proof
  fix s t :: "ram sys" and a
  show "\<not> tco_ok a \<or> \<not> tco_open s \<Longrightarrow> EFI_ERROR (fst (run_state (PchTcoBaseSet (ram_hw dbg) a) s))
      \<and> dev (snd (run_state (PchTcoBaseSet (ram_hw dbg) a) s)) = dev s"
    by (auto simp: hwrun)
  assume ok: "tco_ok a" "tco_open s"
  then show "fst (run_state (PchTcoBaseSet (ram_hw dbg) a) s) = EFI_SUCCESS
      \<and> tco_open (snd (run_state (PchTcoBaseSet (ram_hw dbg) a) s))
      \<and> fst (run_state (PchTcoBaseGet (ram_hw dbg) (Some old))
          (snd (run_state (PchTcoBaseSet (ram_hw dbg) a) s))) = (EFI_SUCCESS, Some a)"
    by (simp add: hwrun tco_ok_mask)
next
  fix s t :: "ram sys"
  assume "dev s = dev t"
  then show "tco_open s = tco_open t"
    and "fst (run_state (PchTcoBaseGet (ram_hw dbg) (Some old)) s)
      = fst (run_state (PchTcoBaseGet (ram_hw dbg) (Some old)) t)"
    by (simp_all add: hwrun tco_open_def srl_def)
qed

text \<open>While the TCO base is not locked, after any sequence of PchTcoBaseSet calls exactly the
  misaligned ones have failed and PchTcoBaseGet returns the base of the last legal one.\<close>

theorem tco_base_history:
  assumes "tco_open s" and "filter tco_ok as \<noteq> []"
  shows "map EFI_ERROR (fst (run_state (set_all (PchTcoBaseSet (ram_hw dbg)) as) s))
      = map (\<lambda>a. \<not> tco_ok a) as
    \<and> fst (run_state (PchTcoBaseGet (ram_hw dbg) (Some old))
        (snd (run_state (set_all (PchTcoBaseSet (ram_hw dbg)) as) s)))
      = (EFI_SUCCESS, Some (last (filter tco_ok as)))"
  using assms tco.set_all_get [of s as dbg old] tco.set_all_status [of s dbg as] by simp

theorem tco_base_history_witness:
  "fst (run_state (PchTcoBaseGet (ram_hw True) (Some 7))
     (snd (run_state (set_all (PchTcoBaseSet (ram_hw True)) [0x400, 0x410, 0x420]) (boot blank))))
   = (EFI_SUCCESS, Some 0x420)"
proof -
  have "tco_open (boot blank)" by (simp add: tco_open_def srl_def)
  moreover have "filter tco_ok [0x400, 0x410, 0x420] = [0x400, 0x420]"
    by (simp add: tco_ok_def regs)
  ultimately show ?thesis
    using tco_base_history [of "boot blank" "[0x400, 0x410, 0x420]" True 7] by simp
qed

section \<open>Nothing is written while the decoders are locked\<close>

definition writes_nothing :: "(ram, efi_status) prog \<Rightarrow> ram sys \<Rightarrow> bool" where
  "writes_nothing m s \<longleftrightarrow> dev (snd (run_state m s)) = dev s"

lemma gen_io_read_pure: "snd (run_state (gen_io_read (ram_hw dbg) Index n) s) = s"
  by (induction n arbitrary: Index) (simp_all add: hwrun case_prod_beta)

lemma run_GenIoGet_pure:
  "snd (run_state (PchLpcGenIoRangeGet (ram_hw dbg) l SlaveDevice) s) = s"
  by (cases l) (simp_all add: PchLpcGenIoRangeGet_def hwrun case_prod_beta gen_io_read_pure)

text \<open>While DMIC.SRL is set, none of the nine decoder programming functions writes any
  register.\<close>

theorem srl_blocks_decoders:
  assumes "srl s"
  shows "writes_nothing (PchAcpiBaseSet (ram_hw dbg) Address) s
    \<and> writes_nothing (PchPwrmBaseSet (ram_hw dbg) Base32) s
    \<and> writes_nothing (PchTcoBaseSet (ram_hw dbg) Address) s
    \<and> writes_nothing (PchLpcGenIoRangeSet (ram_hw dbg) Address Len SlaveDevice) s
    \<and> writes_nothing (PchLpcMemRangeSet (ram_hw dbg) Base32 SlaveDevice) s
    \<and> writes_nothing (PchBiosDecodeEnableSet (ram_hw dbg) Word) s
    \<and> writes_nothing (PchLpcIoDecodeRangesSet (ram_hw dbg) Word) s
    \<and> writes_nothing (PchLpcIoEnableDecodingSet (ram_hw dbg) Word SlaveDevice) s
    \<and> writes_nothing (PchIoPort80DecodeSet (ram_hw dbg) beyond RpPhyNumber) s"
proof -
  have gen: "writes_nothing (PchLpcGenIoRangeSet (ram_hw dbg) Address Len SlaveDevice) s"
    using assms run_GenIoGet_pure [of dbg "Some (replicate 4 no_range)" SlaveDevice s]
    by (auto simp: writes_nothing_def PchLpcGenIoRangeSet_def hwrun case_prod_beta
        split: gen_io_choice.splits)
  have "\<not> pmc_open s" "\<not> tco_open s" using assms by (simp_all add: pmc_open_def tco_open_def)
  then show ?thesis using assms
    by (simp add: gen) (simp add: writes_nothing_def hwrun PchLpcMemRangeSet_def PchBiosDecodeEnableSet_def
        PchLpcIoDecodeRangesSet_def PchLpcIoEnableDecodingSet_def PchIoPort80DecodeSet_def Let_def)
qed

theorem srl_blocks_decoders_witness:
  "let s = wr32 0xFDEF2234 0x80000000 (boot blank) in
   writes_nothing (PchLpcIoDecodeRangesSet (ram_hw True) 0x10) s"
proof -
  have "srl (wr32 0xFDEF2234 0x80000000 (boot blank))"
    by (simp add: srl_def)
  from srl_blocks_decoders [OF this] show ?thesis by (simp add: Let_def)
qed

section \<open>Generic IO ranges on register storage\<close>

definition gen_reg :: "nat \<Rightarrow> u64" where
  "gen_reg i = 0x800F8084 + of_nat i * 4"

definition gen_ranges :: "ram sys \<Rightarrow> PCH_LPC_GEN_IO_RANGE list" where
  "gen_ranges s = map (\<lambda>i. gen_io_decode (reg32 s (gen_reg i))) [0..<4]"

text \<open>A port is decoded when an enabled range holds it.\<close>

definition gen_decodes :: "ram sys \<Rightarrow> u64 \<Rightarrow> bool" where
  "gen_decodes s Port \<longleftrightarrow> (\<exists>r \<in> set (gen_ranges s).
     Enable r \<and> ucast (BaseAddr r) \<le> Port \<and> Port < ucast (BaseAddr r) + ucast (Length r))"

lemma run_gen_io_read:
  "run_state (gen_io_read (ram_hw dbg) i n) s
     = (map (\<lambda>j. gen_io_decode (reg32 s (gen_reg j))) [i..<i + n], s)"
proof (induction n arbitrary: i)
  case (Suc n)
  have "[i..<i + Suc n] = i # [Suc i..<Suc i + n]" by (simp add: upt_conv_Cons)
  with Suc show ?case
    by (simp add: hwrun gen_reg_def R_PCH_LPC_GEN1_DEC_def del: upt_Suc)
qed (simp add: hwrun)

lemma run_PchLpcGenIoRangeGet [hwrun]:
  "run_state (PchLpcGenIoRangeGet (ram_hw dbg) (Some old) SlaveDevice) s =
     ((EFI_SUCCESS, Some (if SlaveDevice = 0 then gen_ranges s
        else old[0 := gen_io_decode (reg32 s 0x800F80A4)])), s)"
  by (simp add: PchLpcGenIoRangeGet_def hwrun run_gen_io_read gen_ranges_def
      LPC_ESPI_FIRST_SLAVE_def R_PCH_LPC_PCCS1GIR1_def del: upt_Suc)

lemma two_powers_256:
  "list_all (\<lambda>n::int. n AND (n - 1) = 0 \<longrightarrow> n \<in> {0, 1, 2, 4, 8, 16, 32, 64, 128, 256}) [0..256]"
  by code_simp

lemma shape_ok_powers:
  assumes "gen_io_shape_ok Address Len"
  shows "Len \<in> {0, 1, 2, 4, 8, 16, 32, 64, 128, 256}"
proof (cases "Len = 0")
  case False
  have le: "uint Len \<le> 256" and and0: "Len AND (Len - 1) = 0"
    using assms by (auto simp: gen_io_shape_ok_def word_le_def not_less)
  have "uint (Len AND (Len - 1)) = uint Len AND uint (Len - 1)" by (simp add: unsigned_and_eq)
  moreover have "uint (Len - 1) = uint Len - 1"
    using False by (simp add: uint_sub_if' word_neq_0_conv word_less_def)
  ultimately have "uint Len AND (uint Len - 1) = 0" using and0 by simp
  moreover have "uint Len \<in> set [0..256]" using le by simp
  ultimately have "uint Len \<in> {0, 1, 2, 4, 8, 16, 32, 64, 128, 256}"
    using two_powers_256 by (auto simp only: list_all_iff)
  then have "of_int (uint Len) \<in> (\<lambda>n. of_int n :: u64) ` {0, 1, 2, 4, 8, 16, 32, 64, 128, 256}" by blast
  then show ?thesis by simp
qed simp

text \<open>Reading back a programmed register.\<close>

lemma shape_ok_low: "gen_io_shape_ok Address Len \<Longrightarrow> \<not> bit Address 0 \<and> \<not> bit Address 1"
proof -
  assume "gen_io_shape_ok Address Len"
  moreover have "NOT (ucast B_PCH_LPC_GENX_DEC_IOBAR) = (3 :: u16)" by (simp add: regs)
  ultimately have "Address AND 3 = 0" by (simp only: gen_io_shape_ok_def) simp
  then have "\<not> bit (Address AND mask 2) 0 \<and> \<not> bit (Address AND mask 2) 1"
    by (simp add: mask_numeral)
  then show ?thesis by (simp add: bit_simps)
qed

lemma IO_masks:
  "B_PCH_LPC_GENX_DEC_IODRA = push_bit 18 (mask 6)" "B_PCH_LPC_GENX_DEC_IOBAR = push_bit 2 (mask 14)"
  "B_PCH_LPC_GENX_DEC_EN = mask 1"
  by (simp_all add: regs mask_numeral)

lemma gen_io_decode_value:
  assumes "gen_io_shape_ok Address Len"
  shows "gen_io_decode (gen_io_value Address Len) = \<lparr> BaseAddr = Address,
     Length = ucast (drop_bit 16 (ucast (push_bit 16 (Len - 1)) AND B_PCH_LPC_GENX_DEC_IODRA :: u32) + 4),
     Enable = True \<rparr>"
proof -
  note low = shape_ok_low [OF assms]
  have base: "ucast (gen_io_value Address Len AND B_PCH_LPC_GENX_DEC_IOBAR) = Address"
  proof (rule bit_word_eqI)
    fix n assume "n < LENGTH(16)"
    then show "bit (ucast (gen_io_value Address Len AND B_PCH_LPC_GENX_DEC_IOBAR) :: u16) n = bit Address n"
    proof (cases "2 \<le> n")
      case True
      with \<open>n < LENGTH(16)\<close> show ?thesis
        unfolding gen_io_value_def IO_masks by (simp add: bit_simps) linarith
    next
      case False
      then have "n = 0 \<or> n = 1" by linarith
      with low show ?thesis unfolding gen_io_value_def IO_masks by (auto simp: bit_simps)
    qed
  qed
  have len: "gen_io_value Address Len AND B_PCH_LPC_GENX_DEC_IODRA
      = ucast (push_bit 16 (Len - 1)) AND B_PCH_LPC_GENX_DEC_IODRA"
  proof (rule bit_word_eqI)
    fix n
    have "bit Address n \<Longrightarrow> n < 16" using bit_imp_le_length [of Address n] by simp
    then show "bit (gen_io_value Address Len AND B_PCH_LPC_GENX_DEC_IODRA) n
        = bit (ucast (push_bit 16 (Len - 1)) AND B_PCH_LPC_GENX_DEC_IODRA :: u32) n"
      unfolding gen_io_value_def IO_masks by (auto simp: bit_simps)
  qed
  have en: "gen_io_value Address Len AND B_PCH_LPC_GENX_DEC_EN \<noteq> 0"
  proof
    assume "gen_io_value Address Len AND B_PCH_LPC_GENX_DEC_EN = 0"
    then have "\<not> bit (gen_io_value Address Len AND B_PCH_LPC_GENX_DEC_EN) 0" by simp
    then show False by (simp add: gen_io_value_def IO_masks bit_simps)
  qed
  show ?thesis by (simp add: gen_io_decode_def base len en)
qed

lemma gen_io_length:
  assumes "gen_io_shape_ok Address Len" "4 \<le> Len"
  shows "ucast (drop_bit 16 (ucast (push_bit 16 (Len - 1)) AND B_PCH_LPC_GENX_DEC_IODRA :: u32) + 4)
     = (ucast Len :: 15 word)"
proof -
  have "Len \<in> {4, 8, 16, 32, 64, 128, 256}"
    using shape_ok_powers [OF assms(1)] assms(2) by (auto simp: word_le_nat_alt)
  then show ?thesis by (auto simp: regs)
qed

lemma gen_io_scan_None:
  "gen_io_scan k Address Len rs = None \<longleftrightarrow> (\<forall>r \<in> set rs. BaseAddr r \<noteq> 0 \<longrightarrow> \<not> gen_io_overlap Address Len r)"
  by (induction rs arbitrary: k) auto

lemma gen_io_empty_bound: "gen_io_empty k rs = Some i \<Longrightarrow> k \<le> i \<and> i < k + length rs"
proof (induction rs arbitrary: k)
  case (Cons r rs)
  then show ?case using Cons.IH [of "Suc k"] by (auto split: if_splits intro: Suc_leD)
qed simp

lemma gen_reg_eval:
  "gen_reg 0 = 0x800F8084" "gen_reg (Suc 0) = 0x800F8088" "gen_reg 2 = 0x800F808C" "gen_reg 3 = 0x800F8090"
  by (simp_all add: gen_reg_def)

lemma upt_0_4: "[0..<4] = [0, Suc 0, 2, 3]"
  by (simp add: upt_rec numeral_eq_Suc)

lemma gen_ranges_eval:
  "gen_ranges s = [gen_io_decode (reg32 s 0x800F8084), gen_io_decode (reg32 s 0x800F8088),
     gen_io_decode (reg32 s 0x800F808C), gen_io_decode (reg32 s 0x800F8090)]"
  unfolding gen_ranges_def upt_0_4 by (simp add: gen_reg_eval)

lemma length_gen_ranges [simp]: "length (gen_ranges s) = 4"
  by (simp add: gen_ranges_def)

lemma below_4_cases: "i < 4 \<longleftrightarrow> i = 0 \<or> i = Suc 0 \<or> i = 2 \<or> i = (3 :: nat)"
  by auto

lemma LPCLGIR_aligned: "i < 4 \<Longrightarrow> (0x2730 + of_nat i * 4 :: u16) AND 3 = 0"
  unfolding below_4_cases by auto

lemma run_GenIoRangeSet_first:
  assumes "gen_io_shape_ok Address Len" "gen_io_low_ok Address Len" "\<not> srl s"
    and "gen_io_choose 0 Address Len (gen_ranges s) = Program i A L" "i < 4"
  shows "run_state (PchLpcGenIoRangeSet (ram_hw dbg) Address Len 0) s =
    (EFI_SUCCESS, wr32 (DMI (0x2730 + of_nat i * 4)) (gen_io_value A L)
       (wr32 (gen_reg i) (gen_io_value A L) (chk dbg s)))"
proof -
  have k: "keeps_id 4 (gen_reg i)"
    using assms(5) unfolding below_4_cases by (auto simp: gen_reg_eval keeps_id_def apart_def)
  show ?thesis
    using assms LPCLGIR_aligned [OF assms(5)] k
    by (simp add: PchLpcGenIoRangeSet_def hwrun Let_def LPC_ESPI_FIRST_SLAVE_def
        R_PCH_LPC_GEN1_DEC_def R_PCH_PCR_DMI_LPCLGIR1_def flip: gen_reg_def)
qed


lemma gen_blank_ranges:
  "gen_ranges (boot blank) = [gen_io_decode 0, gen_io_decode 0, gen_io_decode 0, gen_io_decode 0]"
  by (simp add: gen_ranges_eval)

lemma gen_io_decode_0 [simp]: "BaseAddr (gen_io_decode 0) = 0" "\<not> Enable (gen_io_decode 0)"
  by (simp_all add: gen_io_decode_def)


text \<open>No register is left: nothing is programmed.\<close>

text \<open>When all four generic IO registers hold ranges and none overlaps the request,
  PchLpcGenIoRangeSet returns EFI_OUT_OF_RESOURCES and changes no state.\<close>

theorem gen_io_range_full:
  assumes "gen_io_shape_ok Address Len" and "gen_io_low_ok Address Len"
    and "\<forall>r \<in> set (gen_ranges s). BaseAddr r \<noteq> 0 \<and> \<not> gen_io_overlap Address Len r"
  shows "run_state (PchLpcGenIoRangeSet (ram_hw dbg) Address Len 0) s = (EFI_OUT_OF_RESOURCES, s)"
proof -
  have "gen_io_empty k rs = None" if "\<forall>r \<in> set rs. BaseAddr r \<noteq> 0" for k rs
    using that by (induction rs arbitrary: k) auto
  then have "gen_io_choose 0 Address Len (gen_ranges s) = NoRoom"
    using assms(3) by (simp add: gen_io_choose_def LPC_ESPI_FIRST_SLAVE_def iffD2 [OF gen_io_scan_None])
  with assms(1,2) show ?thesis by (simp add: PchLpcGenIoRangeSet_def hwrun)
qed

definition four_ranges :: "ram sys" where
  "four_ranges = wr32 0x800F8084 0x00040801 (wr32 0x800F8088 0x00040A01
     (wr32 0x800F808C 0x00040C01 (wr32 0x800F8090 0x00040E01 (boot blank))))"

lemma four_ranges_eval: "gen_ranges four_ranges =
  map gen_io_decode [0x00040801, 0x00040A01, 0x00040C01, 0x00040E01]"
  by (simp add: gen_ranges_eval four_ranges_def mem_simps)

theorem gen_io_range_full_witness:
  "run_state (PchLpcGenIoRangeSet (ram_hw False) 0x400 0x10 0) four_ranges = (EFI_OUT_OF_RESOURCES, four_ranges)"
proof -
  have "gen_io_shape_ok 0x400 0x10" "gen_io_low_ok 0x400 0x10"
    "\<forall>r \<in> set (gen_ranges four_ranges). BaseAddr r \<noteq> 0 \<and> \<not> gen_io_overlap 0x400 0x10 r"
    by (simp_all add: gen_io_shape_ok_def gen_io_low_ok_def regs four_ranges_eval gen_io_decode_def
        gen_io_overlap_def)
  then show ?thesis by (rule gen_io_range_full)
qed

section \<open>Where the code departs from its description\<close>

text \<open>The test for a covered range compares the length only: a request that starts inside a range
  and ends after it is reported as covered, and its end is not decoded.\<close>

text \<open>A request that starts inside a range in use and ends beyond it is reported as successful
  by PchLpcGenIoRangeSet although its end is not decoded: the test for a covered range compares
  the length only.\<close>

theorem gen_io_range_partial_cover:
  "let s = wr32 0x800F8084 0x00040801 (boot blank) in
     run_state (PchLpcGenIoRangeSet (ram_hw dbg) 0x804 8 0) s = (EFI_SUCCESS, s)
     \<and> gen_decodes s 0x804 \<and> \<not> gen_decodes s 0x808"
proof -
  let ?s = "wr32 0x800F8084 0x00040801 (boot blank)"
  have r: "gen_ranges ?s = map gen_io_decode [0x00040801, 0, 0, 0]"
    by (simp add: gen_ranges_eval mem_simps)
  have "gen_io_choose 0 0x804 8 (gen_ranges ?s) = Covered"
    by (simp add: r gen_io_choose_def gen_io_decode_def gen_io_overlap_def gen_io_covered_def regs)
  moreover have "gen_io_shape_ok 0x804 8" "gen_io_low_ok 0x804 8"
    by (simp_all add: gen_io_shape_ok_def gen_io_low_ok_def regs)
  moreover have "gen_decodes ?s 0x804" "\<not> gen_decodes ?s 0x808"
    by (simp_all add: gen_decodes_def r gen_io_decode_def regs)
  ultimately show ?thesis by (simp add: PchLpcGenIoRangeSet_def hwrun Let_def)
qed

text \<open>The header asks for an address that is aligned to the length, which the code does not test: 8 bytes at 804h are
  programmed.\<close>

theorem gen_io_range_unaligned:
  "\<exists>s. run_state (PchLpcGenIoRangeSet (ram_hw dbg) 0x804 8 0) (boot blank) = (EFI_SUCCESS, s)
     \<and> gen_ranges s ! 0 = \<lparr> BaseAddr = 0x804, Length = 8, Enable = True \<rparr>"
proof -
  have "gen_io_shape_ok 0x804 8" "gen_io_low_ok 0x804 8" "\<not> srl (boot blank)"
    "gen_io_choose 0 0x804 8 (gen_ranges (boot blank)) = Program 0 0x804 8"
    by (simp_all add: gen_io_shape_ok_def gen_io_low_ok_def regs srl_def gen_blank_ranges gen_io_choose_def)
  from run_GenIoRangeSet_first [OF this, of dbg] show ?thesis
    by (simp add: gen_ranges_eval gen_reg_eval PCH_PCR_ADDRESS_def PID_DMI_def mem_simps)
      (simp add: gen_io_decode_def gen_io_value_def regs)
qed

text \<open>The header also says that the range should overlap no other; the test looks at the two ends of the request
  only, and a request around a range in use is programmed.\<close>

theorem gen_io_range_encloses:
  "let s = wr32 0x800F8084 0x00000811 (boot blank) in
     \<exists>s'. run_state (PchLpcGenIoRangeSet (ram_hw dbg) 0x800 0x40 0) s = (EFI_SUCCESS, s')
       \<and> gen_ranges s' ! 0 = \<lparr> BaseAddr = 0x810, Length = 4, Enable = True \<rparr>
       \<and> gen_ranges s' ! 1 = \<lparr> BaseAddr = 0x800, Length = 0x40, Enable = True \<rparr>"
proof -
  let ?s = "wr32 0x800F8084 0x00000811 (boot blank)"
  have r: "gen_ranges ?s = map gen_io_decode [0x00000811, 0, 0, 0]"
    by (simp add: gen_ranges_eval mem_simps)
  have "gen_io_choose 0 0x800 0x40 (gen_ranges ?s) = Program 1 0x800 0x40"
    by (simp add: r gen_io_choose_def gen_io_decode_def gen_io_overlap_def regs)
  moreover have "gen_io_shape_ok 0x800 0x40" "gen_io_low_ok 0x800 0x40" "\<not> srl ?s"
    by (simp_all add: gen_io_shape_ok_def gen_io_low_ok_def regs srl_def mem_simps)
  ultimately show ?thesis
    using run_GenIoRangeSet_first [of "0x800" "0x40" ?s 1 "0x800" "0x40" dbg]
    by (simp add: gen_ranges_eval gen_reg_eval PCH_PCR_ADDRESS_def PID_DMI_def mem_simps Let_def)
      (simp add: gen_io_decode_def gen_io_value_def regs)
qed

text \<open>The secondary slave has one register, and a request that does not overlap it replaces it.\<close>

text \<open>For the secondary slave, a request that does not overlap the range in use overwrites that
  range.\<close>

theorem gen_io_range_secondary_replaces:
  assumes "gen_io_shape_ok Address Len" and "gen_io_low_ok Address Len" and "\<not> srl s"
    and "\<not> gen_io_overlap Address Len (gen_io_decode (reg32 s 0x800F80A4))"
  shows "run_state (PchLpcGenIoRangeSet (ram_hw dbg) Address Len ESPI_SECONDARY_SLAVE) s
    = (EFI_SUCCESS, wr32 0xFDEF27BC (gen_io_value Address Len)
        (wr32 0x800F80A4 (gen_io_value Address Len) (chk dbg s)))"
proof -
  let ?R = "(replicate PCH_LPC_GEN_IO_RANGE_MAX no_range)[0 := gen_io_decode (reg32 s 0x800F80A4)]"
  have "hd ?R = gen_io_decode (reg32 s 0x800F80A4)" by (simp add: numeral_eq_Suc)
  then have "gen_io_choose ESPI_SECONDARY_SLAVE Address Len ?R = Program 0 Address Len"
    using assms(4) by (simp add: gen_io_choose_def regs)
  moreover have "keeps_id 4 0x800F80A4" by (simp add: keeps_id_def apart_def)
  ultimately show ?thesis
    using assms(1-3)
    by (simp add: PchLpcGenIoRangeSet_def hwrun Let_def LPC_ESPI_FIRST_SLAVE_def
        ESPI_SECONDARY_SLAVE_def R_PCH_LPC_PCCS1GIR1_def R_PCH_PCR_DMI_SEGIR_def DMI_eval)
qed

theorem gen_io_range_secondary_replaces_witness:
  "let s = wr32 0x800F80A4 0x00040401 (boot blank);
       s' = snd (run_state (PchLpcGenIoRangeSet (ram_hw False) 0x800 0x10 ESPI_SECONDARY_SLAVE) s)
   in BaseAddr (gen_io_decode (reg32 s 0x800F80A4)) = 0x400
      \<and> BaseAddr (gen_io_decode (reg32 s' 0x800F80A4)) = 0x800"
proof -
  let ?s = "wr32 0x800F80A4 0x00040401 (boot blank)"
  have "gen_io_shape_ok 0x800 0x10" "gen_io_low_ok 0x800 0x10" "\<not> srl ?s"
    "\<not> gen_io_overlap 0x800 0x10 (gen_io_decode (reg32 ?s 0x800F80A4))"
    by (simp_all add: gen_io_shape_ok_def gen_io_low_ok_def regs srl_def mem_simps
        gen_io_decode_def gen_io_overlap_def)
  from gen_io_range_secondary_replaces [OF this, of False] show ?thesis
    by (simp add: Let_def mem_simps) (simp add: gen_io_decode_def gen_io_value_def regs)
qed

text \<open>The DMI copy of the IO enables takes the secondary slave's bits alone, while the LPC register
  keeps those of the first slave.\<close>

text \<open>PchLpcIoEnableDecodingSet for the secondary slave merges the bits into the LPC register
  of the first slave, but mirrors only the new bits to DMI.\<close>

theorem io_enable_secondary_mirror:
  assumes "\<not> srl s" and "reg16 s 0x800F80A0 \<noteq> v"
    and "run_state (PchLpcIoEnableDecodingSet (ram_hw dbg) v ESPI_SECONDARY_SLAVE) s = (st, s')"
  shows "st = EFI_SUCCESS \<and> reg16 s' 0x800F80A0 = v \<and> reg16 s' 0x800F8082 = v OR reg16 s 0x800F8082
    \<and> reg16 s' 0xFDEF2774 = v"
proof -
  have "keeps_id 2 0x800F80A0" "keeps_id 2 0x800F8082" by (simp_all add: keeps_id_def apart_def)
  with assms have "st = EFI_SUCCESS \<and> s' = wr16 0xFDEF2774 v (wr16 0x800F8082 (v OR reg16 s 0x800F8082)
      (wr16 0x800F80A0 v (chk dbg s)))"
    by (auto simp: PchLpcIoEnableDecodingSet_def hwrun LPC_ESPI_FIRST_SLAVE_def ESPI_SECONDARY_SLAVE_def
        R_PCH_LPC_PCCS1IORE_def R_PCH_LPC_IOE_def R_PCH_PCR_DMI_LPCIOE_def DMI_eval mem_simps Let_def)
  then show ?thesis by (simp add: mem_simps)
qed

theorem io_enable_secondary_mirror_witness:
  "let s = wr16 0x800F8082 0x0001 (boot blank);
       s' = snd (run_state (PchLpcIoEnableDecodingSet (ram_hw False) 0x0800 ESPI_SECONDARY_SLAVE) s)
   in reg16 s' 0x800F8082 = 0x0801 \<and> reg16 s' 0xFDEF2774 = 0x0800"
proof -
  let ?s = "wr16 0x800F8082 0x0001 (boot blank)"
  have "\<not> srl ?s" "reg16 ?s 0x800F80A0 \<noteq> 0x0800" by (simp_all add: srl_def mem_simps)
  from io_enable_secondary_mirror [OF this surjective_pairing, of False] show ?thesis
    by (simp add: Let_def)
qed

end
