(* ===== verification/GpioNative.thy ===== *)
theory GpioNative
  imports CycleDecoding
begin

text \<open>
  The GPIO pads of the Lewisburg PCH: the encoding of pad and group numbers (GpioLibrary.h),
  the table of register offsets per group (PchSklGpioData.c) and the functions of
  GpioNativeLib.c.  A pad is a 32-bit number of chipset id, group index and pad number; the
  registers of a group lie in the PCR window of its community.
\<close>

type_synonym GPIO_PAD = u32
type_synonym GPIO_GROUP = u32

section \<open>GpioLibrary.h: pads and groups\<close>

definition GPIO_PAD_DEF :: "GPIO_GROUP \<Rightarrow> u32 \<Rightarrow> GPIO_PAD" where
  "GPIO_PAD_DEF Group Pad = push_bit 16 Group + Pad"

definition GpioGetGroupFromGpioPad :: "GPIO_PAD \<Rightarrow> GPIO_GROUP" where
  "GpioGetGroupFromGpioPad GpioPad = drop_bit 16 GpioPad"

definition GpioGetGroupIndexFromGpioPad :: "GPIO_PAD \<Rightarrow> u32" where
  "GpioGetGroupIndexFromGpioPad GpioPad = drop_bit 16 GpioPad AND 0xFF"

definition GpioGetGroupIndexFromGroup :: "GPIO_GROUP \<Rightarrow> u32" where
  "GpioGetGroupIndexFromGroup GpioGroup = GpioGroup AND 0xFF"

definition GpioGetPadNumberFromGpioPad :: "GPIO_PAD \<Rightarrow> u32" where
  "GpioGetPadNumberFromGpioPad GpioPad = GpioPad AND 0xFFFF"

definition GpioGetGpioPadFromGroupAndPadNumber :: "GPIO_GROUP \<Rightarrow> u32 \<Rightarrow> GPIO_PAD" where
  "GpioGetGpioPadFromGroupAndPadNumber Group PadNumber = GPIO_PAD_DEF Group PadNumber"

definition GPIO_GET_CHIPSET_ID :: "GPIO_PAD \<Rightarrow> u32" where
  "GPIO_GET_CHIPSET_ID Pad = drop_bit 24 Pad"

definition GPIO_SKL_H_CHIPSET_ID :: u32 where [regs]: "GPIO_SKL_H_CHIPSET_ID = 0x1"
definition GPIO_SKL_LP_CHIPSET_ID :: u32 where [regs]: "GPIO_SKL_LP_CHIPSET_ID = 0x2"
definition GPIO_SKL_H_GROUP_GPP_A :: GPIO_GROUP where [regs]: "GPIO_SKL_H_GROUP_GPP_A = 0x0100"
definition GPIO_SKL_H_GROUP_GPD :: GPIO_GROUP where [regs]: "GPIO_SKL_H_GROUP_GPD = 0x010C"
definition V_PCH_GPIO_GROUP_MAX :: u32 where [regs]: "V_PCH_GPIO_GROUP_MAX = 13"

definition GpioGetNumberOfGroups :: u8 where
  "GpioGetNumberOfGroups = 13"

definition GpioGetLowestGroup :: GPIO_GROUP where
  "GpioGetLowestGroup = GPIO_SKL_H_GROUP_GPP_A"

definition GpioGetHighestGroup :: GPIO_GROUP where
  "GpioGetHighestGroup = GPIO_SKL_H_GROUP_GPD"

section \<open>PchSklGpioData.c: the group table\<close>

record GPIO_GROUP_INFO =
  Community :: u8
  PadOwnOffset :: u32
  HostOwnOffset :: u32
  GpiIsOffset :: u32
  GpiIeOffset :: u32
  GpiGpeStsOffset :: u32
  GpiGpeEnOffset :: u32
  SmiStsOffset :: u32
  SmiEnOffset :: u32
  NmiStsOffset :: u32
  NmiEnOffset :: u32
  PadCfgLockOffset :: u32
  PadCfgLockTxOffset :: u32
  PadCfgOffset :: u32
  PadPerGroup :: u32

definition NO_REGISTER_FOR_PROPERTY :: u32 where "NO_REGISTER_FOR_PROPERTY = NOT 0"

abbreviation "NOREG \<equiv> NO_REGISTER_FOR_PROPERTY"

text \<open>One row for each group, GPP_A to GPP_L and GPD, with the offsets of PchRegsGpio.h.\<close>

definition mPchGpioGroupInfo :: "GPIO_GROUP_INFO list" where
  "mPchGpioGroupInfo = [
     \<comment> \<open>GPP_A\<close> \<lparr> Community = PID_GPIOCOM0, PadOwnOffset = 0x20, HostOwnOffset = 0x80, GpiIsOffset = 0x100,
       GpiIeOffset = 0x110, GpiGpeStsOffset = 0x120, GpiGpeEnOffset = 0x130, SmiStsOffset = NOREG,
       SmiEnOffset = NOREG, NmiStsOffset = NOREG, NmiEnOffset = NOREG, PadCfgLockOffset = 0x60,
       PadCfgLockTxOffset = 0x64, PadCfgOffset = 0x400, PadPerGroup = 24 \<rparr>,
     \<comment> \<open>GPP_B\<close> \<lparr> Community = PID_GPIOCOM0, PadOwnOffset = 0x2C, HostOwnOffset = 0x84, GpiIsOffset = 0x104,
       GpiIeOffset = 0x114, GpiGpeStsOffset = 0x124, GpiGpeEnOffset = 0x134, SmiStsOffset = 0x144,
       SmiEnOffset = 0x154, NmiStsOffset = 0x164, NmiEnOffset = 0x174, PadCfgLockOffset = 0x68,
       PadCfgLockTxOffset = 0x6C, PadCfgOffset = 0x4C0, PadPerGroup = 24 \<rparr>,
     \<comment> \<open>GPP_C\<close> \<lparr> Community = PID_GPIOCOM1, PadOwnOffset = 0x20, HostOwnOffset = 0x80, GpiIsOffset = 0x100,
       GpiIeOffset = 0x110, GpiGpeStsOffset = 0x120, GpiGpeEnOffset = 0x130, SmiStsOffset = 0x140,
       SmiEnOffset = 0x150, NmiStsOffset = 0x160, NmiEnOffset = 0x170, PadCfgLockOffset = 0x60,
       PadCfgLockTxOffset = 0x64, PadCfgOffset = 0x400, PadPerGroup = 24 \<rparr>,
     \<comment> \<open>GPP_D\<close> \<lparr> Community = PID_GPIOCOM1, PadOwnOffset = 0x2C, HostOwnOffset = 0x84, GpiIsOffset = 0x104,
       GpiIeOffset = 0x114, GpiGpeStsOffset = 0x124, GpiGpeEnOffset = 0x134, SmiStsOffset = 0x144,
       SmiEnOffset = 0x154, NmiStsOffset = 0x164, NmiEnOffset = 0x174, PadCfgLockOffset = 0x68,
       PadCfgLockTxOffset = 0x6C, PadCfgOffset = 0x4C0, PadPerGroup = 24 \<rparr>,
     \<comment> \<open>GPP_E\<close> \<lparr> Community = PID_GPIOCOM1, PadOwnOffset = 0x38, HostOwnOffset = 0x88, GpiIsOffset = 0x108,
       GpiIeOffset = 0x114, GpiGpeStsOffset = 0x128, GpiGpeEnOffset = 0x138, SmiStsOffset = 0x148,
       SmiEnOffset = 0x158, NmiStsOffset = 0x168, NmiEnOffset = 0x178, PadCfgLockOffset = 0x70,
       PadCfgLockTxOffset = 0x74, PadCfgOffset = 0x580, PadPerGroup = 13 \<rparr>,
     \<comment> \<open>GPP_F\<close> \<lparr> Community = PID_GPIOCOM0, PadOwnOffset = 0x38, HostOwnOffset = 0x88, GpiIsOffset = 0x108,
       GpiIeOffset = 0x118, GpiGpeStsOffset = 0x128, GpiGpeEnOffset = 0x138, SmiStsOffset = NOREG,
       SmiEnOffset = NOREG, NmiStsOffset = NOREG, NmiEnOffset = NOREG, PadCfgLockOffset = 0x70,
       PadCfgLockTxOffset = 0x74, PadCfgOffset = 0x580, PadPerGroup = 24 \<rparr>,
     \<comment> \<open>GPP_G\<close> \<lparr> Community = PID_GPIOCOM5, PadOwnOffset = 0x20, HostOwnOffset = 0x80, GpiIsOffset = 0x100,
       GpiIeOffset = 0x110, GpiGpeStsOffset = 0x120, GpiGpeEnOffset = 0x130, SmiStsOffset = NOREG,
       SmiEnOffset = NOREG, NmiStsOffset = NOREG, NmiEnOffset = NOREG, PadCfgLockOffset = 0x60,
       PadCfgLockTxOffset = 0x64, PadCfgOffset = 0x400, PadPerGroup = 24 \<rparr>,
     \<comment> \<open>GPP_H\<close> \<lparr> Community = PID_GPIOCOM5, PadOwnOffset = 0x2C, HostOwnOffset = 0x84, GpiIsOffset = 0x104,
       GpiIeOffset = 0x114, GpiGpeStsOffset = 0x124, GpiGpeEnOffset = 0x134, SmiStsOffset = NOREG,
       SmiEnOffset = NOREG, NmiStsOffset = NOREG, NmiEnOffset = NOREG, PadCfgLockOffset = 0x68,
       PadCfgLockTxOffset = 0x6C, PadCfgOffset = 0x4C0, PadPerGroup = 24 \<rparr>,
     \<comment> \<open>GPP_I\<close> \<lparr> Community = PID_GPIOCOM3, PadOwnOffset = 0x20, HostOwnOffset = 0x80, GpiIsOffset = 0x100,
       GpiIeOffset = 0x110, GpiGpeStsOffset = 0x120, GpiGpeEnOffset = 0x130, SmiStsOffset = 0x140,
       SmiEnOffset = 0x150, NmiStsOffset = 0x160, NmiEnOffset = 0x170, PadCfgLockOffset = 0x60,
       PadCfgLockTxOffset = 0x64, PadCfgOffset = 0x400, PadPerGroup = 11 \<rparr>,
     \<comment> \<open>GPP_J\<close> \<lparr> Community = PID_GPIOCOM4, PadOwnOffset = 0x20, HostOwnOffset = 0x80, GpiIsOffset = 0x100,
       GpiIeOffset = 0x110, GpiGpeStsOffset = 0x120, GpiGpeEnOffset = 0x130, SmiStsOffset = NOREG,
       SmiEnOffset = NOREG, NmiStsOffset = NOREG, NmiEnOffset = NOREG, PadCfgLockOffset = 0x60,
       PadCfgLockTxOffset = 0x64, PadCfgOffset = 0x400, PadPerGroup = 24 \<rparr>,
     \<comment> \<open>GPP_K\<close> \<lparr> Community = PID_GPIOCOM4, PadOwnOffset = 0x2C, HostOwnOffset = 0x84, GpiIsOffset = 0x104,
       GpiIeOffset = 0x114, GpiGpeStsOffset = 0x124, GpiGpeEnOffset = 0x134, SmiStsOffset = NOREG,
       SmiEnOffset = NOREG, NmiStsOffset = NOREG, NmiEnOffset = NOREG, PadCfgLockOffset = 0x68,
       PadCfgLockTxOffset = 0x6C, PadCfgOffset = 0x4C0, PadPerGroup = 11 \<rparr>,
     \<comment> \<open>GPP_L\<close> \<lparr> Community = PID_GPIOCOM5, PadOwnOffset = 0x38, HostOwnOffset = 0x88, GpiIsOffset = 0x108,
       GpiIeOffset = 0x118, GpiGpeStsOffset = 0x124, GpiGpeEnOffset = 0x138, SmiStsOffset = NOREG,
       SmiEnOffset = NOREG, NmiStsOffset = NOREG, NmiEnOffset = NOREG, PadCfgLockOffset = 0x70,
       PadCfgLockTxOffset = 0x74, PadCfgOffset = 0x580, PadPerGroup = 20 \<rparr>,
     \<comment> \<open>GPD\<close> \<lparr> Community = PID_GPIOCOM2, PadOwnOffset = 0x20, HostOwnOffset = 0x80, GpiIsOffset = 0x100,
       GpiIeOffset = 0x110, GpiGpeStsOffset = 0x120, GpiGpeEnOffset = 0x130, SmiStsOffset = NOREG,
       SmiEnOffset = NOREG, NmiStsOffset = NOREG, NmiEnOffset = NOREG, PadCfgLockOffset = 0x60,
       PadCfgLockTxOffset = 0x64, PadCfgOffset = 0x400, PadPerGroup = 12 \<rparr>]"

record GPIO_PAD_NATIVE_FUNCTION =
  Pad :: GPIO_PAD
  Mode :: u32

definition mPchHSataPortResetToGpioMap :: "GPIO_PAD_NATIVE_FUNCTION list" where
  "mPchHSataPortResetToGpioMap = map (\<lambda>p. \<lparr> Pad = p, Mode = 0x5 \<rparr>)
     [0x01040000, 0x01040001, 0x01040002, 0x01050000, 0x01050001, 0x01050002, 0x01050003, 0x01050004]"

definition mPchHSataDevSlpPinToGpioMap :: "GPIO_PAD_NATIVE_FUNCTION list" where
  "mPchHSataDevSlpPinToGpioMap = map (\<lambda>p. \<lparr> Pad = p, Mode = 0x3 \<rparr>)
     [0x01040004, 0x01040005, 0x01040006, 0x01050005, 0x01050006, 0x01050007, 0x01050008, 0x01050009]"

section \<open>Registers of a group\<close>

text \<open>PCH_PCR_ADDRESS truncates the offset to 16 bits.\<close>

definition gpio_reg :: "GPIO_GROUP_INFO \<Rightarrow> u32 \<Rightarrow> u64" where
  "gpio_reg i Offset = PCH_PCR_ADDRESS (Community i) (ucast Offset)"

text \<open>Entry of the table.  The code indexes the table without a check in places; \<open>nth\<close> beyond
  the end is unspecified, as the read past the table is.\<close>

definition ginfo :: "GPIO_GROUP_INFO list \<Rightarrow> u32 \<Rightarrow> GPIO_GROUP_INFO" where
  "ginfo table GroupIndex = table ! unat GroupIndex"

section \<open>GpioNativeLib.c\<close>

text \<open>The length is the length of the list; an unknown chipset has no table.\<close>

definition GpioGetGroupInfoTable :: "'s hw \<Rightarrow> ('s, GPIO_GROUP_INFO list) prog" where
  "GpioGetGroupInfoTable hw = do {
     gen \<leftarrow> GetPchGeneration hw;
     State_Monad.return (if gen = SklPch then mPchGpioGroupInfo else [])
   }"

definition GpioIsCorrectPadForThisChipset :: "'s hw \<Rightarrow> GPIO_PAD \<Rightarrow> ('s, bool) prog" where
  "GpioIsCorrectPadForThisChipset hw GpioPad =
     (if hw_debug_code hw then do {
        PchSeries \<leftarrow> GetPchSeries hw;
        State_Monad.return
          (if PchSeries = PchH \<and> GPIO_GET_CHIPSET_ID GpioPad = GPIO_SKL_H_CHIPSET_ID then True
           else if PchSeries = PchLp \<and> GPIO_GET_CHIPSET_ID GpioPad = GPIO_SKL_LP_CHIPSET_ID then True
           else False)
      } else State_Monad.return False)"

definition GpioGetPadPerGroup :: "'s hw \<Rightarrow> GPIO_GROUP \<Rightarrow> ('s, u32) prog" where
  "GpioGetPadPerGroup hw Group = do {
     GpioGroupInfo \<leftarrow> GpioGetGroupInfoTable hw;
     let GroupIndex = GpioGetGroupIndexFromGroup Group;
     State_Monad.return (if unat GroupIndex \<ge> length GpioGroupInfo then 0
       else PadPerGroup (ginfo GpioGroupInfo GroupIndex))
   }"

text \<open>GPIO_PAD_OWN: host 0, ME 1, ISH 2.  GpioGetPadOwnership and GpioIsPadLocked are functions of
  GpioLib.c that GpioNativeLib.c calls.\<close>

definition GpioPadOwnHost :: u32 where [regs]: "GpioPadOwnHost = 0"

definition GpioGetPadOwnership :: "'s hw \<Rightarrow> GPIO_PAD \<Rightarrow> u32 \<Rightarrow> ('s, efi_status \<times> u32) prog" where
  "GpioGetPadOwnership hw GpioPad PadOwnVal = do {
     let GroupIndex = GpioGetGroupIndexFromGpioPad GpioPad;
     let PadNumber = GpioGetPadNumberFromGpioPad GpioPad;
     GpioGroupInfo \<leftarrow> GpioGetGroupInfoTable hw;
     if unat GroupIndex \<ge> length GpioGroupInfo then State_Monad.return (EFI_INVALID_PARAMETER, PadOwnVal)
     else if PadNumber \<ge> PadPerGroup (ginfo GpioGroupInfo GroupIndex)
     then State_Monad.return (EFI_INVALID_PARAMETER, PadOwnVal)
     else do {
       let RegOffset = PadOwnOffset (ginfo GpioGroupInfo GroupIndex) + drop_bit 3 PadNumber * 0x4;
       let PadNumber = PadNumber mod 8;
       let Msk = push_bit (unat (PadNumber * 4)) 0x3;
       PadOwnRegValue \<leftarrow> MmioRead32 hw (gpio_reg (ginfo GpioGroupInfo GroupIndex) RegOffset);
       State_Monad.return (EFI_SUCCESS, drop_bit (unat (PadNumber * 4)) (PadOwnRegValue AND Msk))
     }
   }"

definition GpioIsPadLocked :: "'s hw \<Rightarrow> u32 \<Rightarrow> u32 \<Rightarrow> ('s, bool) prog" where
  "GpioIsPadLocked hw GroupIndex PadNumber = do {
     GpioGroupInfo \<leftarrow> GpioGetGroupInfoTable hw;
     RegVal \<leftarrow> MmioRead32 hw (gpio_reg (ginfo GpioGroupInfo GroupIndex)
        (PadCfgLockOffset (ginfo GpioGroupInfo GroupIndex)));
     State_Monad.return (drop_bit (unat PadNumber) RegVal AND 0x1 = 1)
   }"

text \<open>The DEBUG_CODE check that opens most functions: is the pad one of this chipset?\<close>

definition wrong_chipset :: "'s hw \<Rightarrow> GPIO_PAD \<Rightarrow> ('s, bool) prog" where
  "wrong_chipset hw GpioPad =
     (if hw_debug_code hw then do {
        ok \<leftarrow> GpioIsCorrectPadForThisChipset hw GpioPad;
        State_Monad.return (\<not> ok)
      } else State_Monad.return False)"

text \<open>\<open>PadOwnVal\<close> is not initialised; when GpioGetPadOwnership fails it keeps that value, here 0.\<close>

definition SetGpioPadMode :: "'s hw \<Rightarrow> GPIO_PAD \<Rightarrow> u32 \<Rightarrow> ('s, efi_status) prog" where
  "SetGpioPadMode hw GpioPad PadModeValue = do {
     GpioGroupInfo \<leftarrow> GpioGetGroupInfoTable hw;
     let GroupIndex = GpioGetGroupIndexFromGpioPad GpioPad;
     let PadNumber = GpioGetPadNumberFromGpioPad GpioPad;
     wrong \<leftarrow> wrong_chipset hw GpioPad;
     if wrong then State_Monad.return EFI_UNSUPPORTED
     else do {
       (_, PadOwnVal) \<leftarrow> GpioGetPadOwnership hw GpioPad 0;
       if PadOwnVal \<noteq> GpioPadOwnHost then State_Monad.return EFI_UNSUPPORTED
       else do {
         locked \<leftarrow> GpioIsPadLocked hw GroupIndex PadNumber;
         if locked then State_Monad.return EFI_WRITE_PROTECTED
         else do {
           let PadCfgReg = 0x8 * PadNumber + PadCfgOffset (ginfo GpioGroupInfo GroupIndex);
           let Dw0RegMask = (if PadModeValue AND 0xF = 0 then 0 else 0x1C00);
           let Dw0Reg = push_bit 10 (drop_bit 1 (PadModeValue AND 0xF));
           _ \<leftarrow> MmioAndThenOr32 hw (gpio_reg (ginfo GpioGroupInfo GroupIndex) PadCfgReg)
                 (NOT Dw0RegMask) Dw0Reg;
           State_Monad.return EFI_SUCCESS
         }
       }
     }
   }"

definition GetGpioPadMode :: "'s hw \<Rightarrow> GPIO_PAD \<Rightarrow> u32 \<Rightarrow> ('s, efi_status \<times> u32) prog" where
  "GetGpioPadMode hw GpioPad PadModeValue = do {
     GpioGroupInfo \<leftarrow> GpioGetGroupInfoTable hw;
     let GroupIndex = GpioGetGroupIndexFromGpioPad GpioPad;
     let PadNumber = GpioGetPadNumberFromGpioPad GpioPad;
     wrong \<leftarrow> wrong_chipset hw GpioPad;
     if wrong then State_Monad.return (EFI_UNSUPPORTED, PadModeValue)
     else do {
       (_, PadOwnVal) \<leftarrow> GpioGetPadOwnership hw GpioPad 0;
       if PadOwnVal \<noteq> GpioPadOwnHost then State_Monad.return (EFI_UNSUPPORTED, PadModeValue)
       else do {
         let PadCfgReg = 0x8 * PadNumber + PadCfgOffset (ginfo GpioGroupInfo GroupIndex);
         Dw0Reg \<leftarrow> MmioRead32 hw (gpio_reg (ginfo GpioGroupInfo GroupIndex) PadCfgReg);
         State_Monad.return (EFI_SUCCESS, drop_bit 9 (Dw0Reg AND 0x1C00) OR 0x1)
       }
     }
   }"

text \<open>The port number indexes the map; the callers pass a port of the controller.\<close>

definition GpioIsSataResetPortInGpioMode :: "'s hw \<Rightarrow> u64 \<Rightarrow> ('s, bool) prog" where
  "GpioIsSataResetPortInGpioMode hw SataPort = do {
     (Status, GpioMode) \<leftarrow> GetGpioPadMode hw (Pad (mPchHSataPortResetToGpioMap ! unat SataPort)) 0;
     State_Monad.return (\<not> (EFI_ERROR Status \<or> GpioMode \<noteq> 0x1))
   }"

fun devslp_scan :: "'s hw \<Rightarrow> GPIO_PAD \<Rightarrow> u32 \<Rightarrow> GPIO_PAD_NATIVE_FUNCTION list \<Rightarrow> ('s, bool) prog" where
  "devslp_scan hw GpioPad PadMode [] = State_Monad.return False"
| "devslp_scan hw GpioPad PadMode (f # fs) =
     (if GpioPad = Pad f \<and> PadMode = Mode f then do {
        (_, PadOwnership) \<leftarrow> GpioGetPadOwnership hw (Pad f) 0;
        State_Monad.return (PadOwnership = GpioPadOwnHost)
      } else devslp_scan hw GpioPad PadMode fs)"

definition GpioIsPadASataDevSlpPin :: "'s hw \<Rightarrow> GPIO_PAD \<Rightarrow> u32 \<Rightarrow> ('s, bool) prog" where
  "GpioIsPadASataDevSlpPin hw GpioPad PadMode =
     devslp_scan hw GpioPad PadMode mPchHSataDevSlpPinToGpioMap"

definition GpioIsSataDevSlpPinEnabled :: "'s hw \<Rightarrow> u64 \<Rightarrow> ('s, bool \<times> GPIO_PAD) prog" where
  "GpioIsSataDevSlpPinEnabled hw SataPort = do {
     let f = mPchHSataDevSlpPinToGpioMap ! unat SataPort;
     (Status, GpioMode) \<leftarrow> GetGpioPadMode hw (Pad f) 0;
     State_Monad.return (if EFI_ERROR Status \<or> GpioMode \<noteq> Mode f then (False, 0) else (True, Pad f))
   }"

end
