(* ===== verification/GpioLib.thy ===== *)
theory GpioLib
  imports GpioNative
begin

text \<open>
  GpioLib.c: pad configuration, pad ownership and locks, routing to general purpose events,
  and SMI and GPE status.  The lock registers are changed by sideband messages.
\<close>

section \<open>Access to the registers of a pad\<close>

datatype GPIO_REG =
    GpioHostOwnershipRegister
  | GpioGpeEnableRegister
  | GpioSmiEnableRegister
  | GpioNmiEnableRegister
  | GpioPadConfigLockRegister
  | GpioPadLockOutputRegister

definition B_PCH_GPIO_TX_STATE :: u32 where [regs]: "B_PCH_GPIO_TX_STATE = BIT 0"
definition B_PCH_GPIO_RX_STATE :: u32 where [regs]: "B_PCH_GPIO_RX_STATE = BIT 1"
definition B_PCH_GPIO_INTSEL :: u32 where [regs]: "B_PCH_GPIO_INTSEL = 0x7F"
definition B_PCH_GPIO_RXINV :: u32 where [regs]: "B_PCH_GPIO_RXINV = BIT 23"
definition B_PCH_GPIO_RX_LVL_EDG :: u32 where [regs]: "B_PCH_GPIO_RX_LVL_EDG = push_bit 25 0x3"
definition B_PCH_GPIO_RX_ROUTES :: u32 where [regs]: "B_PCH_GPIO_RX_ROUTES = push_bit 17 0xF"
definition B_PCH_GPIO_RX_SCI_ROUTE :: u32 where [regs]: "B_PCH_GPIO_RX_SCI_ROUTE = BIT 19"
definition B_PCH_GPIO_RX_SMI_ROUTE :: u32 where [regs]: "B_PCH_GPIO_RX_SMI_ROUTE = BIT 18"
definition B_PCH_GPIO_RST_CONF :: u32 where [regs]: "B_PCH_GPIO_RST_CONF = push_bit 30 0x3"
definition B_PCH_GPIO_RXTXDIS :: u32 where [regs]: "B_PCH_GPIO_RXTXDIS = push_bit 8 0x3"
definition B_PCH_GPIO_RX_RAW1 :: u32 where [regs]: "B_PCH_GPIO_RX_RAW1 = BIT 28"
definition B_PCH_GPIO_PAD_MODE :: u32 where [regs]: "B_PCH_GPIO_PAD_MODE = push_bit 10 0x7"
definition B_PCH_GPIO_TERM :: u32 where [regs]: "B_PCH_GPIO_TERM = push_bit 10 0xF"
definition B_PCH_GPIO_PADTOL :: u32 where [regs]: "B_PCH_GPIO_PADTOL = BIT 25"

text \<open>The pad configuration register of a pad, DW0 or DW1.\<close>

definition pad_cfg_reg :: "GPIO_GROUP_INFO \<Rightarrow> u32 \<Rightarrow> u8 \<Rightarrow> u64" where
  "pad_cfg_reg i PadNumber DwReg =
     gpio_reg i (0x8 * PadNumber + PadCfgOffset i + (if DwReg = 1 then 0x4 else 0))"

definition GpioReadWritePadCfgReg ::
  "'s hw \<Rightarrow> GPIO_PAD \<Rightarrow> u8 \<Rightarrow> u32 \<Rightarrow> bool \<Rightarrow> u32 \<Rightarrow> ('s, efi_status \<times> u32) prog" where
  "GpioReadWritePadCfgReg hw GpioPad DwReg Msk Write ReadWriteVal = do {
     let GroupIndex = GpioGetGroupIndexFromGpioPad GpioPad;
     let PadNumber = GpioGetPadNumberFromGpioPad GpioPad;
     wrong \<leftarrow> wrong_chipset hw GpioPad;
     if wrong then State_Monad.return (EFI_UNSUPPORTED, ReadWriteVal)
     else do {
       GpioGroupInfo \<leftarrow> GpioGetGroupInfoTable hw;
       if unat GroupIndex \<ge> length GpioGroupInfo
       then State_Monad.return (EFI_INVALID_PARAMETER, ReadWriteVal)
       else if PadNumber \<ge> PadPerGroup (ginfo GpioGroupInfo GroupIndex)
       then State_Monad.return (EFI_INVALID_PARAMETER, ReadWriteVal)
       else do {
         protect \<leftarrow> (if Write \<and> (DwReg = 1 \<or> Msk AND NOT B_PCH_GPIO_TX_STATE \<noteq> 0)
                    then GpioIsPadLocked hw GroupIndex PadNumber else State_Monad.return False);
         if protect then State_Monad.return (EFI_WRITE_PROTECTED, ReadWriteVal)
         else do {
           foreign \<leftarrow> (if hw_debug_code hw then do {
                         (_, PadOwnVal) \<leftarrow> GpioGetPadOwnership hw GpioPad 0;
                         State_Monad.return (PadOwnVal \<noteq> GpioPadOwnHost) }
                       else State_Monad.return False);
           if foreign then State_Monad.return (EFI_UNSUPPORTED, ReadWriteVal)
           else (let reg = pad_cfg_reg (ginfo GpioGroupInfo GroupIndex) PadNumber DwReg in
             if Write then do {
               _ \<leftarrow> MmioAndThenOr32 hw reg (NOT Msk) (ReadWriteVal AND Msk);
               State_Monad.return (EFI_SUCCESS, ReadWriteVal) }
             else do {
               v \<leftarrow> MmioRead32 hw reg;
               State_Monad.return (EFI_SUCCESS, v AND Msk) })
         }
       }
     }
   }"

fun reg_offset :: "GPIO_REG \<Rightarrow> GPIO_GROUP_INFO \<Rightarrow> u32" where
  "reg_offset GpioHostOwnershipRegister i = HostOwnOffset i"
| "reg_offset GpioGpeEnableRegister i = GpiGpeEnOffset i"
| "reg_offset GpioSmiEnableRegister i = SmiEnOffset i"
| "reg_offset GpioNmiEnableRegister i = NmiEnOffset i"
| "reg_offset GpioPadConfigLockRegister i = PadCfgLockOffset i"
| "reg_offset GpioPadLockOutputRegister i = PadCfgLockTxOffset i"

definition GpioReadWriteReg ::
  "'s hw \<Rightarrow> GPIO_REG \<Rightarrow> GPIO_GROUP \<Rightarrow> u32 \<Rightarrow> GPIO_PAD \<Rightarrow> bool \<Rightarrow> bool \<Rightarrow> u32 \<Rightarrow>
     ('s, efi_status \<times> u32) prog" where
  "GpioReadWriteReg hw RegType Group DwNum GpioPad Write OnePad ReadWriteVal = do {
     GpioGroupInfo \<leftarrow> GpioGetGroupInfoTable hw;
     wrong \<leftarrow> (if OnePad then wrong_chipset hw GpioPad else State_Monad.return False);
     if wrong then State_Monad.return (EFI_UNSUPPORTED, ReadWriteVal)
     else do {
       let GroupIndex = (if OnePad then GpioGetGroupIndexFromGpioPad GpioPad
             else GpioGetGroupIndexFromGroup Group);
       let PadNumber = (if OnePad then GpioGetPadNumberFromGpioPad GpioPad else 0);
       if unat GroupIndex \<ge> length GpioGroupInfo
       then State_Monad.return (EFI_INVALID_PARAMETER, ReadWriteVal)
       else (let i = ginfo GpioGroupInfo GroupIndex; RegOffset = reg_offset RegType i in
         if RegOffset = NO_REGISTER_FOR_PROPERTY
         then State_Monad.return (EFI_INVALID_PARAMETER, ReadWriteVal)
         else if OnePad then
           (if PadNumber \<ge> PadPerGroup i then State_Monad.return (EFI_INVALID_PARAMETER, ReadWriteVal)
            else (let RegOffset = RegOffset + drop_bit 5 PadNumber * 0x4;
                      bitno = unat (PadNumber mod 32); Msk = push_bit bitno 1 in
              if Write then do {
                _ \<leftarrow> MmioAndThenOr32 hw (gpio_reg i RegOffset) (NOT Msk)
                      (push_bit bitno ReadWriteVal AND Msk);
                State_Monad.return (EFI_SUCCESS, ReadWriteVal) }
              else do {
                v \<leftarrow> MmioRead32 hw (gpio_reg i RegOffset);
                State_Monad.return (EFI_SUCCESS, drop_bit bitno (v AND Msk)) }))
         else if DwNum > drop_bit 5 (PadPerGroup i - 1)
         then State_Monad.return (EFI_INVALID_PARAMETER, ReadWriteVal)
         else (let RegOffset = RegOffset + DwNum * 0x4 in
           if Write then do {
             _ \<leftarrow> MmioWrite32 hw (gpio_reg i RegOffset) ReadWriteVal;
             State_Monad.return (EFI_SUCCESS, ReadWriteVal) }
           else do {
             v \<leftarrow> MmioRead32 hw (gpio_reg i RegOffset);
             State_Monad.return (EFI_SUCCESS, v) }))
     }
   }"

section \<open>Values of a pad\<close>

definition GpioSetOutputValue :: "'s hw \<Rightarrow> GPIO_PAD \<Rightarrow> u32 \<Rightarrow> ('s, efi_status) prog" where
  "GpioSetOutputValue hw GpioPad Val = do {
     (Status, _) \<leftarrow> GpioReadWritePadCfgReg hw GpioPad 0 B_PCH_GPIO_TX_STATE True Val;
     State_Monad.return Status
   }"

definition GpioGetOutputValue :: "'s hw \<Rightarrow> GPIO_PAD \<Rightarrow> u32 \<Rightarrow> ('s, efi_status \<times> u32) prog" where
  "GpioGetOutputValue hw GpioPad OutputVal = do {
     (Status, v) \<leftarrow> GpioReadWritePadCfgReg hw GpioPad 0 B_PCH_GPIO_TX_STATE False OutputVal;
     State_Monad.return (Status, drop_bit 0 v)
   }"

definition GpioGetInputValue :: "'s hw \<Rightarrow> GPIO_PAD \<Rightarrow> u32 \<Rightarrow> ('s, efi_status \<times> u32) prog" where
  "GpioGetInputValue hw GpioPad InputVal = do {
     (Status, v) \<leftarrow> GpioReadWritePadCfgReg hw GpioPad 0 B_PCH_GPIO_RX_STATE False InputVal;
     State_Monad.return (Status, drop_bit 1 v)
   }"

definition GpioGetPadIoApicIrqNumber :: "'s hw \<Rightarrow> GPIO_PAD \<Rightarrow> u32 \<Rightarrow> ('s, efi_status \<times> u32) prog" where
  "GpioGetPadIoApicIrqNumber hw GpioPad IrqNum = do {
     (Status, v) \<leftarrow> GpioReadWritePadCfgReg hw GpioPad 1 B_PCH_GPIO_INTSEL False IrqNum;
     State_Monad.return (Status, drop_bit 0 v)
   }"

definition GpioSetInputInversion :: "'s hw \<Rightarrow> GPIO_PAD \<Rightarrow> u32 \<Rightarrow> ('s, efi_status) prog" where
  "GpioSetInputInversion hw GpioPad Val = do {
     (Status, _) \<leftarrow> GpioReadWritePadCfgReg hw GpioPad 0 B_PCH_GPIO_RXINV True (push_bit 23 Val);
     State_Monad.return Status
   }"

definition GpioGetInputInversion :: "'s hw \<Rightarrow> GPIO_PAD \<Rightarrow> u32 \<Rightarrow> ('s, efi_status \<times> u32) prog" where
  "GpioGetInputInversion hw GpioPad InvertState = do {
     (Status, v) \<leftarrow> GpioReadWritePadCfgReg hw GpioPad 0 B_PCH_GPIO_RXINV False InvertState;
     State_Monad.return (Status, drop_bit 23 v)
   }"

text \<open>Fields of the configuration encodings (GpioConfig.h): \<open>conf_given\<close> tells whether the field is
  set at all (GpioHardwareDefault leaves the hardware as it is), \<open>conf_bits\<close> puts its value, without
  the bit that marks it as given, at its place in the register, and \<open>conf_read\<close> takes it from there.\<close>

definition conf_given :: "u32 \<Rightarrow> u32 \<Rightarrow> nat \<Rightarrow> bool" where
  "conf_given F FMask Pos \<longleftrightarrow> drop_bit Pos (F AND FMask) \<noteq> 0"

definition conf_mask :: "u32 \<Rightarrow> u32 \<Rightarrow> nat \<Rightarrow> u32 \<Rightarrow> u32" where
  "conf_mask F FMask Pos B = (if conf_given F FMask Pos then B else 0)"

definition conf_bits :: "u32 \<Rightarrow> u32 \<Rightarrow> nat \<Rightarrow> nat \<Rightarrow> u32" where
  "conf_bits F FMask Pos N = push_bit N (drop_bit (Pos + 1) (F AND FMask))"

definition conf_read :: "u32 \<Rightarrow> u32 \<Rightarrow> nat \<Rightarrow> nat \<Rightarrow> u32" where
  "conf_read Dw B N Pos = drop_bit (N - (Pos + 1)) (Dw AND B) OR push_bit Pos 1"

text \<open>GPIO_INT_CONFIG is a UINT32 enumeration: trigger in bits 7:5, routing in bits 4:0.\<close>

definition GpioIntSci :: u32 where [regs]: "GpioIntSci = 0x9"

definition GpioSetPadInterruptConfig :: "'s hw \<Rightarrow> GPIO_PAD \<Rightarrow> u32 \<Rightarrow> ('s, efi_status) prog" where
  "GpioSetPadInterruptConfig hw GpioPad Val = do {
     Status \<leftarrow> (if conf_given Val 0xE0 5 then do {
         (Status, _) \<leftarrow> GpioReadWritePadCfgReg hw GpioPad 0 B_PCH_GPIO_RX_LVL_EDG True (conf_bits Val 0xE0 5 25);
         State_Monad.return Status }
       else State_Monad.return EFI_SUCCESS);
     if conf_given Val 0x1F 0 then do {
       (Status, _) \<leftarrow> GpioReadWritePadCfgReg hw GpioPad 0 B_PCH_GPIO_RX_ROUTES True (conf_bits Val 0x1F 0 17);
       let GpeEnable = (if Val AND GpioIntSci = GpioIntSci then 1 else 0);
       (Status, _) \<leftarrow> GpioReadWriteReg hw GpioGpeEnableRegister 0 0 GpioPad True True GpeEnable;
       State_Monad.return Status }
     else State_Monad.return Status
   }"

definition GpioSetPadElectricalConfig :: "'s hw \<Rightarrow> GPIO_PAD \<Rightarrow> u32 \<Rightarrow> ('s, efi_status) prog" where
  "GpioSetPadElectricalConfig hw GpioPad Val = do {
     Status \<leftarrow> (if conf_given Val 0x1F 0 then do {
         (Status, _) \<leftarrow> GpioReadWritePadCfgReg hw GpioPad 1 B_PCH_GPIO_TERM True (conf_bits Val 0x1F 0 10);
         State_Monad.return Status }
       else State_Monad.return EFI_SUCCESS);
     if conf_given Val 0x60 5 then do {
       (Status, _) \<leftarrow> GpioReadWritePadCfgReg hw GpioPad 1 B_PCH_GPIO_PADTOL True (conf_bits Val 0x60 5 25);
       State_Monad.return Status }
     else State_Monad.return Status
   }"

definition GpioSetPadResetConfig :: "'s hw \<Rightarrow> GPIO_PAD \<Rightarrow> u32 \<Rightarrow> ('s, efi_status) prog" where
  "GpioSetPadResetConfig hw GpioPad Val =
     (if conf_given Val 0x7 0 then do {
        (Status, _) \<leftarrow> GpioReadWritePadCfgReg hw GpioPad 0 B_PCH_GPIO_RST_CONF True (conf_bits Val 0x7 0 30);
        State_Monad.return Status }
      else State_Monad.return EFI_SUCCESS)"

text \<open>ResetValue is not initialised: a failed read leaves it, here 0.\<close>

definition GpioGetPadResetConfig :: "'s hw \<Rightarrow> GPIO_PAD \<Rightarrow> ('s, efi_status \<times> u32) prog" where
  "GpioGetPadResetConfig hw GpioPad = do {
     (Status, ResetValue) \<leftarrow> GpioReadWritePadCfgReg hw GpioPad 0 B_PCH_GPIO_RST_CONF False 0;
     State_Monad.return (Status, drop_bit 29 ResetValue OR 1)
   }"

definition GpioSetGpiRoutSci :: "'s hw \<Rightarrow> GPIO_PAD \<Rightarrow> u32 \<Rightarrow> ('s, efi_status) prog" where
  "GpioSetGpiRoutSci hw GpioPad Val = do {
     (Status, _) \<leftarrow> GpioReadWritePadCfgReg hw GpioPad 0 B_PCH_GPIO_RX_SCI_ROUTE True (push_bit 19 Val);
     State_Monad.return Status
   }"

definition GpioSetGpiRoutSmi :: "'s hw \<Rightarrow> GPIO_PAD \<Rightarrow> u32 \<Rightarrow> ('s, efi_status) prog" where
  "GpioSetGpiRoutSmi hw GpioPad Val = do {
     (Status, _) \<leftarrow> GpioReadWritePadCfgReg hw GpioPad 0 B_PCH_GPIO_RX_SMI_ROUTE True (push_bit 18 Val);
     State_Monad.return Status
   }"

section \<open>Ownership, enables and lock registers\<close>

definition GpioGetHostSwOwnershipForGroupDw ::
  "'s hw \<Rightarrow> GPIO_GROUP \<Rightarrow> u32 \<Rightarrow> u32 \<Rightarrow> ('s, efi_status \<times> u32) prog" where
  "GpioGetHostSwOwnershipForGroupDw hw Group DwNum HostSwRegVal =
     GpioReadWriteReg hw GpioHostOwnershipRegister Group DwNum 0 False False HostSwRegVal"

definition GpioSetHostSwOwnershipForGroupDw ::
  "'s hw \<Rightarrow> GPIO_GROUP \<Rightarrow> u32 \<Rightarrow> u32 \<Rightarrow> ('s, efi_status) prog" where
  "GpioSetHostSwOwnershipForGroupDw hw Group DwNum HostSwRegVal = do {
     (Status, _) \<leftarrow> GpioReadWriteReg hw GpioHostOwnershipRegister Group DwNum 0 True False HostSwRegVal;
     State_Monad.return Status
   }"

definition GpioGetHostSwOwnershipForPad :: "'s hw \<Rightarrow> GPIO_PAD \<Rightarrow> u32 \<Rightarrow> ('s, efi_status \<times> u32) prog" where
  "GpioGetHostSwOwnershipForPad hw GpioPad PadHostSwOwn =
     GpioReadWriteReg hw GpioHostOwnershipRegister 0 0 GpioPad False True PadHostSwOwn"

definition GpioSetHostSwOwnershipForPad :: "'s hw \<Rightarrow> GPIO_PAD \<Rightarrow> u32 \<Rightarrow> ('s, efi_status) prog" where
  "GpioSetHostSwOwnershipForPad hw GpioPad PadHostSwOwn = do {
     (Status, _) \<leftarrow> GpioReadWriteReg hw GpioHostOwnershipRegister 0 0 GpioPad True True PadHostSwOwn;
     State_Monad.return Status
   }"

definition GpioGetPadCfgLockForGroupDw ::
  "'s hw \<Rightarrow> GPIO_GROUP \<Rightarrow> u32 \<Rightarrow> u32 \<Rightarrow> ('s, efi_status \<times> u32) prog" where
  "GpioGetPadCfgLockForGroupDw hw Group DwNum PadCfgLockRegVal =
     GpioReadWriteReg hw GpioPadConfigLockRegister Group DwNum 0 False False PadCfgLockRegVal"

definition GpioGetPadCfgLock :: "'s hw \<Rightarrow> GPIO_PAD \<Rightarrow> u32 \<Rightarrow> ('s, efi_status \<times> u32) prog" where
  "GpioGetPadCfgLock hw GpioPad PadCfgLock =
     GpioReadWriteReg hw GpioPadConfigLockRegister 0 0 GpioPad False True PadCfgLock"

definition GpioGetPadCfgLockTxForGroupDw ::
  "'s hw \<Rightarrow> GPIO_GROUP \<Rightarrow> u32 \<Rightarrow> u32 \<Rightarrow> ('s, efi_status \<times> u32) prog" where
  "GpioGetPadCfgLockTxForGroupDw hw Group DwNum PadCfgLockTxRegVal =
     GpioReadWriteReg hw GpioPadLockOutputRegister Group DwNum 0 False False PadCfgLockTxRegVal"

definition GpioGetPadCfgLockTx :: "'s hw \<Rightarrow> GPIO_PAD \<Rightarrow> u32 \<Rightarrow> ('s, efi_status \<times> u32) prog" where
  "GpioGetPadCfgLockTx hw GpioPad PadCfgLockTx =
     GpioReadWriteReg hw GpioPadLockOutputRegister 0 0 GpioPad False True PadCfgLockTx"

text \<open>The lock functions pass one of the two lock registers; for any other the code leaves the
  offset and the old value at 0.\<close>

definition is_lock_reg :: "GPIO_REG \<Rightarrow> bool" where
  "is_lock_reg RegType \<longleftrightarrow> RegType \<in> {GpioPadConfigLockRegister, GpioPadLockOutputRegister}"

definition lock_old :: "'s hw \<Rightarrow> GPIO_REG \<Rightarrow> GPIO_GROUP \<Rightarrow> u32 \<Rightarrow> ('s, u32) prog" where
  "lock_old hw RegType Group DwNum =
     (if RegType = GpioPadConfigLockRegister then do {
        (_, v) \<leftarrow> GpioGetPadCfgLockForGroupDw hw Group DwNum 0;
        State_Monad.return v }
      else if RegType = GpioPadLockOutputRegister then do {
        (_, v) \<leftarrow> GpioGetPadCfgLockTxForGroupDw hw Group DwNum 0;
        State_Monad.return v }
      else State_Monad.return 0)"

text \<open>\<open>Response\<close> is not initialised and not used afterwards.\<close>

definition GpioLockPadsUsingSbi ::
  "'s hw \<Rightarrow> GPIO_REG \<Rightarrow> bool \<Rightarrow> GPIO_GROUP \<Rightarrow> u32 \<Rightarrow> u32 \<Rightarrow> GPIO_PAD \<Rightarrow> bool \<Rightarrow>
     ('s, efi_status) prog" where
  "GpioLockPadsUsingSbi hw RegType Unlock Group DwNum PadsToModify GpioPad OnePad = do {
     GpioGroupInfo \<leftarrow> GpioGetGroupInfoTable hw;
     wrong \<leftarrow> (if OnePad then wrong_chipset hw GpioPad else State_Monad.return False);
     if wrong then State_Monad.return EFI_UNSUPPORTED
     else do {
       let GroupIndex = (if OnePad then GpioGetGroupIndexFromGpioPad GpioPad
             else GpioGetGroupIndexFromGroup Group);
       let PadNumber = (if OnePad then GpioGetPadNumberFromGpioPad GpioPad else 0);
       let Group = (if OnePad then GpioGetGroupFromGpioPad GpioPad else Group);
       if unat GroupIndex \<ge> length GpioGroupInfo then State_Monad.return EFI_INVALID_PARAMETER
       else (let i = ginfo GpioGroupInfo GroupIndex;
                 RegOffset = (if is_lock_reg RegType then reg_offset RegType i else 0) in
         if RegOffset = NO_REGISTER_FOR_PROPERTY then State_Monad.return EFI_INVALID_PARAMETER
         else if OnePad \<and> PadNumber \<ge> PadPerGroup i then State_Monad.return EFI_INVALID_PARAMETER
         else if \<not> OnePad \<and> DwNum > drop_bit 5 (PadPerGroup i - 1)
         then State_Monad.return EFI_INVALID_PARAMETER
         else do {
           let DwNum = (if OnePad then drop_bit 5 PadNumber else DwNum);
           let Pads = (if OnePad then push_bit (unat (PadNumber mod 32)) 1 else PadsToModify);
           OldPadCfgLockRegVal \<leftarrow> lock_old hw RegType Group DwNum;
           let NewPadCfgLockRegVal = (if Unlock then OldPadCfgLockRegVal AND NOT Pads
                 else OldPadCfgLockRegVal OR Pads);
           (Status, _) \<leftarrow> PchSbiExecution hw (Community i) (ucast (RegOffset + DwNum * 0x4))
              GpioLockUnlock False NewPadCfgLockRegVal 0;
           State_Monad.return Status
         })
     }
   }"

definition GpioUnlockPadCfgForGroupDw :: "'s hw \<Rightarrow> GPIO_GROUP \<Rightarrow> u32 \<Rightarrow> u32 \<Rightarrow> ('s, efi_status) prog" where
  "GpioUnlockPadCfgForGroupDw hw Group DwNum PadsToUnlock =
     GpioLockPadsUsingSbi hw GpioPadConfigLockRegister True Group DwNum PadsToUnlock 0 False"

definition GpioUnlockPadCfg :: "'s hw \<Rightarrow> GPIO_PAD \<Rightarrow> ('s, efi_status) prog" where
  "GpioUnlockPadCfg hw GpioPad =
     GpioLockPadsUsingSbi hw GpioPadConfigLockRegister True 0 0 0 GpioPad True"

definition GpioLockPadCfgForGroupDw :: "'s hw \<Rightarrow> GPIO_GROUP \<Rightarrow> u32 \<Rightarrow> u32 \<Rightarrow> ('s, efi_status) prog" where
  "GpioLockPadCfgForGroupDw hw Group DwNum PadsToLock =
     GpioLockPadsUsingSbi hw GpioPadConfigLockRegister False Group DwNum PadsToLock 0 False"

definition GpioLockPadCfg :: "'s hw \<Rightarrow> GPIO_PAD \<Rightarrow> ('s, efi_status) prog" where
  "GpioLockPadCfg hw GpioPad =
     GpioLockPadsUsingSbi hw GpioPadConfigLockRegister False 0 0 0 GpioPad True"

definition GpioUnlockPadCfgTxForGroupDw :: "'s hw \<Rightarrow> GPIO_GROUP \<Rightarrow> u32 \<Rightarrow> u32 \<Rightarrow> ('s, efi_status) prog" where
  "GpioUnlockPadCfgTxForGroupDw hw Group DwNum PadsToUnlockTx =
     GpioLockPadsUsingSbi hw GpioPadLockOutputRegister True Group DwNum PadsToUnlockTx 0 False"

definition GpioUnlockPadCfgTx :: "'s hw \<Rightarrow> GPIO_PAD \<Rightarrow> ('s, efi_status) prog" where
  "GpioUnlockPadCfgTx hw GpioPad =
     GpioLockPadsUsingSbi hw GpioPadLockOutputRegister True 0 0 0 GpioPad True"

definition GpioLockPadCfgTxForGroupDw :: "'s hw \<Rightarrow> GPIO_GROUP \<Rightarrow> u32 \<Rightarrow> u32 \<Rightarrow> ('s, efi_status) prog" where
  "GpioLockPadCfgTxForGroupDw hw Group DwNum PadsToLockTx =
     GpioLockPadsUsingSbi hw GpioPadLockOutputRegister False Group DwNum PadsToLockTx 0 False"

definition GpioLockPadCfgTx :: "'s hw \<Rightarrow> GPIO_PAD \<Rightarrow> ('s, efi_status) prog" where
  "GpioLockPadCfgTx hw GpioPad =
     GpioLockPadsUsingSbi hw GpioPadLockOutputRegister False 0 0 0 GpioPad True"

section \<open>The configuration of a pad\<close>

text \<open>GPIO_CONFIG of GpioConfig.h, with the widths of its bit fields.\<close>

record GPIO_CONFIG =
  PadMode :: "4 word"
  HostSoftPadOwn :: "2 word"
  Direction :: "5 word"
  OutputState :: "2 word"
  InterruptConfig :: "8 word"
  PowerConfig :: "4 word"
  ElectricalConfig :: "7 word"
  LockConfig :: "3 word"
  OtherSettings :: "2 word"

text \<open>The checks that open GpioGetPadConfig and GpioSetPadConfig.\<close>

definition pad_config_check :: "'s hw \<Rightarrow> GPIO_PAD \<Rightarrow> ('s, efi_status \<times> GPIO_GROUP_INFO list) prog" where
  "pad_config_check hw GpioPad = do {
     GpioGroupInfo \<leftarrow> GpioGetGroupInfoTable hw;
     let Group = GpioGetGroupFromGpioPad GpioPad;
     let GroupIndex = GpioGetGroupIndexFromGpioPad GpioPad;
     let PadNumber = GpioGetPadNumberFromGpioPad GpioPad;
     wrong \<leftarrow> wrong_chipset hw GpioPad;
     if wrong then State_Monad.return (EFI_UNSUPPORTED, GpioGroupInfo)
     else do {
       foreign \<leftarrow> (if hw_debug_code hw then do {
                     (_, PadOwnVal) \<leftarrow> GpioGetPadOwnership hw GpioPad 0;
                     State_Monad.return (PadOwnVal \<noteq> GpioPadOwnHost) }
                   else State_Monad.return False);
       if foreign then State_Monad.return (EFI_UNSUPPORTED, GpioGroupInfo)
       else if Group < GpioGetLowestGroup \<or> Group > GpioGetHighestGroup
       then State_Monad.return (EFI_INVALID_PARAMETER, GpioGroupInfo)
       else if PadNumber \<ge> PadPerGroup (ginfo GpioGroupInfo GroupIndex)
       then State_Monad.return (EFI_INVALID_PARAMETER, GpioGroupInfo)
       else State_Monad.return (EFI_SUCCESS, GpioGroupInfo)
     }
   }"

definition config_of_regs :: "u32 \<Rightarrow> u32 \<Rightarrow> bool \<Rightarrow> bool \<Rightarrow> bool \<Rightarrow> GPIO_CONFIG" where
  "config_of_regs Dw0 Dw1 HostOwn Lock LockTx = \<lparr>
     PadMode = ucast (conf_read Dw0 B_PCH_GPIO_PAD_MODE 10 0),
     HostSoftPadOwn = ucast (push_bit 1 (of_bool HostOwn) OR 1 :: u32),
     Direction = ucast (conf_read Dw0 B_PCH_GPIO_RXTXDIS 8 0 OR conf_read Dw0 B_PCH_GPIO_RXINV 23 3),
     OutputState = ucast (push_bit 1 (Dw0 AND B_PCH_GPIO_TX_STATE) OR 1),
     InterruptConfig = ucast (conf_read Dw0 B_PCH_GPIO_RX_LVL_EDG 25 5 OR
       conf_read Dw0 B_PCH_GPIO_RX_ROUTES 17 0),
     PowerConfig = ucast (conf_read Dw0 B_PCH_GPIO_RST_CONF 30 0),
     ElectricalConfig = ucast (conf_read Dw1 B_PCH_GPIO_TERM 10 0 OR conf_read Dw1 B_PCH_GPIO_PADTOL 25 5),
     LockConfig = ucast ((push_bit 1 (of_bool Lock) OR 1) OR (push_bit 2 (of_bool LockTx) OR 1) :: u32),
     OtherSettings = ucast (conf_read Dw0 B_PCH_GPIO_RX_RAW1 28 0) \<rparr>"

text \<open>The reserved bits of the result are left as they are and are not part of the record.\<close>

definition GpioGetPadConfig :: "'s hw \<Rightarrow> GPIO_PAD \<Rightarrow> GPIO_CONFIG \<Rightarrow> ('s, efi_status \<times> GPIO_CONFIG) prog" where
  "GpioGetPadConfig hw GpioPad GpioData = do {
     (Status, GpioGroupInfo) \<leftarrow> pad_config_check hw GpioPad;
     if Status \<noteq> EFI_SUCCESS then State_Monad.return (Status, GpioData)
     else do {
       let PadNumber = GpioGetPadNumberFromGpioPad GpioPad;
       let i = ginfo GpioGroupInfo (GpioGetGroupIndexFromGpioPad GpioPad);
       Dw0Reg \<leftarrow> MmioRead32 hw (pad_cfg_reg i PadNumber 0);
       Dw1Reg \<leftarrow> MmioRead32 hw (pad_cfg_reg i PadNumber 1);
       Own \<leftarrow> MmioRead32 hw (gpio_reg i (HostOwnOffset i));
       Lock \<leftarrow> MmioRead32 hw (gpio_reg i (PadCfgLockOffset i));
       LockTx \<leftarrow> MmioRead32 hw (gpio_reg i (PadCfgLockTxOffset i));
       State_Monad.return (EFI_SUCCESS, config_of_regs Dw0Reg Dw1Reg
         (bit Own (unat PadNumber)) (bit Lock (unat PadNumber)) (bit LockTx (unat PadNumber)))
     }
   }"

definition config_dw0_mask :: "GPIO_CONFIG \<Rightarrow> u32" where
  "config_dw0_mask c =
     conf_mask (ucast (PowerConfig c)) 0x7 0 B_PCH_GPIO_RST_CONF OR
     conf_mask (ucast (InterruptConfig c)) 0xE0 5 B_PCH_GPIO_RX_LVL_EDG OR
     conf_mask (ucast (InterruptConfig c)) 0x1F 0 B_PCH_GPIO_RX_ROUTES OR
     conf_mask (ucast (Direction c)) 0x7 0 B_PCH_GPIO_RXTXDIS OR
     conf_mask (ucast (Direction c)) 0x18 3 B_PCH_GPIO_RXINV OR
     conf_mask (ucast (OutputState c)) 0x3 0 B_PCH_GPIO_TX_STATE OR
     conf_mask (ucast (OtherSettings c)) 0x3 0 B_PCH_GPIO_RX_RAW1 OR
     conf_mask (ucast (PadMode c)) 0xF 0 B_PCH_GPIO_PAD_MODE"

definition config_dw0 :: "GPIO_CONFIG \<Rightarrow> u32" where
  "config_dw0 c =
     conf_bits (ucast (PowerConfig c)) 0x7 0 30 OR
     conf_bits (ucast (InterruptConfig c)) 0xE0 5 25 OR
     conf_bits (ucast (InterruptConfig c)) 0x1F 0 17 OR
     conf_bits (ucast (Direction c)) 0x7 0 8 OR
     conf_bits (ucast (Direction c)) 0x18 3 23 OR
     conf_bits (ucast (OutputState c)) 0x3 0 0 OR
     conf_bits (ucast (OtherSettings c)) 0x3 0 28 OR
     conf_bits (ucast (PadMode c)) 0xF 0 10"

definition config_dw1_mask :: "GPIO_CONFIG \<Rightarrow> u32" where
  "config_dw1_mask c =
     conf_mask (ucast (ElectricalConfig c)) 0x1F 0 B_PCH_GPIO_TERM OR
     conf_mask (ucast (ElectricalConfig c)) 0x60 5 B_PCH_GPIO_PADTOL"

definition config_dw1 :: "GPIO_CONFIG \<Rightarrow> u32" where
  "config_dw1 c =
     conf_bits (ucast (ElectricalConfig c)) 0x1F 0 10 OR
     conf_bits (ucast (ElectricalConfig c)) 0x60 5 25"

definition GpioSetPadConfig :: "'s hw \<Rightarrow> GPIO_PAD \<Rightarrow> GPIO_CONFIG \<Rightarrow> ('s, efi_status) prog" where
  "GpioSetPadConfig hw GpioPad c = do {
     (Status, GpioGroupInfo) \<leftarrow> pad_config_check hw GpioPad;
     if Status \<noteq> EFI_SUCCESS then State_Monad.return Status
     else do {
       let GroupIndex = GpioGetGroupIndexFromGpioPad GpioPad;
       let PadNumber = GpioGetPadNumberFromGpioPad GpioPad;
       locked \<leftarrow> GpioIsPadLocked hw GroupIndex PadNumber;
       if locked then State_Monad.return EFI_WRITE_PROTECTED
       else do {
         let i = ginfo GpioGroupInfo GroupIndex;
         let n = unat PadNumber;
         _ \<leftarrow> MmioAndThenOr32 hw (pad_cfg_reg i PadNumber 0) (NOT (config_dw0_mask c)) (config_dw0 c);
         _ \<leftarrow> MmioAndThenOr32 hw (pad_cfg_reg i PadNumber 1) (NOT (config_dw1_mask c)) (config_dw1 c);
         _ \<leftarrow> MmioAndThenOr32 hw (gpio_reg i (HostOwnOffset i))
               (NOT (push_bit n (ucast (HostSoftPadOwn c) AND 0x1)))
               (push_bit n (drop_bit 1 (ucast (HostSoftPadOwn c))));
         _ \<leftarrow> MmioAndThenOr32 hw (gpio_reg i (GpiGpeEnOffset i))
               (NOT (push_bit n (ucast (InterruptConfig c) AND 0x1)))
               (push_bit n (drop_bit 3 (ucast (InterruptConfig c) AND GpioIntSci)));
         (if LockConfig c AND 0x3 = 0x3 then do {
            _ \<leftarrow> GpioLockPadsUsingSbi hw GpioPadConfigLockRegister False 0 0 0 GpioPad True;
            State_Monad.return () }
          else State_Monad.return ());
         (if LockConfig c AND 0x5 = 0x5 then do {
            _ \<leftarrow> GpioLockPadsUsingSbi hw GpioPadLockOutputRegister False 0 0 0 GpioPad True;
            State_Monad.return () }
          else State_Monad.return ());
         State_Monad.return EFI_SUCCESS
       }
     }
   }"

section \<open>General purpose events\<close>

definition R_PCH_PWRM_GPIO_CFG :: u64 where [regs]: "R_PCH_PWRM_GPIO_CFG = 0x120"
definition B_PCH_PWRM_GPIO_CFG_GPE0_DW2 :: u32 where [regs]: "B_PCH_PWRM_GPIO_CFG_GPE0_DW2 = 0xF00"
definition B_PCH_PWRM_GPIO_CFG_GPE0_DW1 :: u32 where [regs]: "B_PCH_PWRM_GPIO_CFG_GPE0_DW1 = 0xF0"
definition B_PCH_PWRM_GPIO_CFG_GPE0_DW0 :: u32 where [regs]: "B_PCH_PWRM_GPIO_CFG_GPE0_DW0 = 0xF"
definition R_PCH_PCR_GPIO_MISCCFG :: u16 where [regs]: "R_PCH_PCR_GPIO_MISCCFG = 0x10"
definition B_PCH_PCR_GPIO_MISCCFG_GPE0_DW2 :: u32 where [regs]: "B_PCH_PCR_GPIO_MISCCFG_GPE0_DW2 = 0xF0000"
definition B_PCH_PCR_GPIO_MISCCFG_GPE0_DW1 :: u32 where [regs]: "B_PCH_PCR_GPIO_MISCCFG_GPE0_DW1 = 0xF000"
definition B_PCH_PCR_GPIO_MISCCFG_GPE0_DW0 :: u32 where [regs]: "B_PCH_PCR_GPIO_MISCCFG_GPE0_DW0 = 0xF00"
definition PCH_GPIO_2_TIER_MASTER_GPE_NUMBER :: u32 where [regs]: "PCH_GPIO_2_TIER_MASTER_GPE_NUMBER = 0x6F"

text \<open>PchPwrmBaseGet is called with the address of a local that is not initialised, here 0, and its
  status is not looked at.  The base is a UINT32, and so is the sum with the register offset.\<close>

definition pwrm_gpio_cfg :: "'s hw \<Rightarrow> ('s, u64) prog" where
  "pwrm_gpio_cfg hw = do {
     (_, Base) \<leftarrow> PchPwrmBaseGet hw (Some 0);
     State_Monad.return (ucast (the Base + (ucast R_PCH_PWRM_GPIO_CFG :: u32)))
   }"

definition GpioGetGroupToGpeDwX :: "'s hw \<Rightarrow> ('s, GPIO_GROUP \<times> GPIO_GROUP \<times> GPIO_GROUP) prog" where
  "GpioGetGroupToGpeDwX hw = do {
     a \<leftarrow> pwrm_gpio_cfg hw;
     Data32 \<leftarrow> MmioRead32 hw a;
     State_Monad.return
       (drop_bit 0 (Data32 AND B_PCH_PWRM_GPIO_CFG_GPE0_DW0) + GpioGetLowestGroup,
        drop_bit 4 (Data32 AND B_PCH_PWRM_GPIO_CFG_GPE0_DW1) + GpioGetLowestGroup,
        drop_bit 8 (Data32 AND B_PCH_PWRM_GPIO_CFG_GPE0_DW2) + GpioGetLowestGroup)
   }"

definition gpe_group_ok :: "GPIO_GROUP \<Rightarrow> bool" where
  "gpe_group_ok Group \<longleftrightarrow> \<not> (Group < GpioGetLowestGroup \<or> Group > GpioGetHighestGroup)"

definition gpe_pwrm_value :: "u32 \<Rightarrow> u32 \<Rightarrow> u32 \<Rightarrow> u32" where
  "gpe_pwrm_value Dw0 Dw1 Dw2 = push_bit 8 Dw2 OR push_bit 4 Dw1 OR push_bit 0 Dw0"

definition gpe_misc_value :: "u32 \<Rightarrow> u32 \<Rightarrow> u32 \<Rightarrow> u32" where
  "gpe_misc_value Dw0 Dw1 Dw2 = push_bit 16 Dw2 OR push_bit 12 Dw1 OR push_bit 8 Dw0"

definition gpe_pwrm_and :: u32 where
  "gpe_pwrm_and = NOT (B_PCH_PWRM_GPIO_CFG_GPE0_DW2 OR B_PCH_PWRM_GPIO_CFG_GPE0_DW1 OR
     B_PCH_PWRM_GPIO_CFG_GPE0_DW0)"

definition gpe_misc_and :: u32 where
  "gpe_misc_and = NOT (B_PCH_PCR_GPIO_MISCCFG_GPE0_DW2 OR B_PCH_PCR_GPIO_MISCCFG_GPE0_DW1 OR
     B_PCH_PCR_GPIO_MISCCFG_GPE0_DW0)"

definition GpioSetGroupToGpeDwX ::
  "'s hw \<Rightarrow> GPIO_GROUP \<Rightarrow> GPIO_GROUP \<Rightarrow> GPIO_GROUP \<Rightarrow> ('s, efi_status) prog" where
  "GpioSetGroupToGpeDwX hw GroupToGpeDw0 GroupToGpeDw1 GroupToGpeDw2 =
     (if \<not> (gpe_group_ok GroupToGpeDw0 \<and> gpe_group_ok GroupToGpeDw1 \<and> gpe_group_ok GroupToGpeDw2)
      then State_Monad.return EFI_INVALID_PARAMETER
      else if GroupToGpeDw0 = GroupToGpeDw1 \<or> GroupToGpeDw0 = GroupToGpeDw2 \<or>
        GroupToGpeDw1 = GroupToGpeDw2
      then State_Monad.return EFI_INVALID_PARAMETER
      else do {
        let Dw0 = GpioGetGroupIndexFromGroup GroupToGpeDw0;
        let Dw1 = GpioGetGroupIndexFromGroup GroupToGpeDw1;
        let Dw2 = GpioGetGroupIndexFromGroup GroupToGpeDw2;
        a \<leftarrow> pwrm_gpio_cfg hw;
        _ \<leftarrow> MmioAndThenOr32 hw a gpe_pwrm_and (gpe_pwrm_value Dw0 Dw1 Dw2);
        _ \<leftarrow> MmioAndThenOr32 hw (PCH_PCR_ADDRESS PID_GPIOCOM0 R_PCH_PCR_GPIO_MISCCFG)
              gpe_misc_and (gpe_misc_value Dw0 Dw1 Dw2);
        _ \<leftarrow> MmioAndThenOr32 hw (PCH_PCR_ADDRESS PID_GPIOCOM1 R_PCH_PCR_GPIO_MISCCFG)
              gpe_misc_and (gpe_misc_value Dw0 Dw1 Dw2);
        _ \<leftarrow> MmioAndThenOr32 hw (PCH_PCR_ADDRESS PID_GPIOCOM2 R_PCH_PCR_GPIO_MISCCFG)
              gpe_misc_and (gpe_misc_value Dw0 Dw1 Dw2);
        _ \<leftarrow> MmioAndThenOr32 hw (PCH_PCR_ADDRESS PID_GPIOCOM3 R_PCH_PCR_GPIO_MISCCFG)
              gpe_misc_and (gpe_misc_value Dw0 Dw1 Dw2);
        State_Monad.return EFI_SUCCESS
      })"

text \<open>The number of the event of a pad in the three double words, or of the shared event.\<close>

definition gpe_number :: "GPIO_GROUP \<Rightarrow> u32 \<Rightarrow> GPIO_GROUP \<times> GPIO_GROUP \<times> GPIO_GROUP \<Rightarrow> u32" where
  "gpe_number Group PadNumber = (\<lambda>(Dw0, Dw1, Dw2).
     if Group = Dw0 then PadNumber
     else if Group = Dw1 then PadNumber + 32
     else if Group = Dw2 then PadNumber + 64
     else PCH_GPIO_2_TIER_MASTER_GPE_NUMBER)"

definition GpioGetGpeNumber :: "'s hw \<Rightarrow> GPIO_PAD \<Rightarrow> u32 \<Rightarrow> ('s, efi_status \<times> u32) prog" where
  "GpioGetGpeNumber hw GpioPad GpeNumber = do {
     GpioGroupInfo \<leftarrow> GpioGetGroupInfoTable hw;
     let Group = GpioGetGroupFromGpioPad GpioPad;
     let GroupIndex = GpioGetGroupIndexFromGpioPad GpioPad;
     let PadNumber = GpioGetPadNumberFromGpioPad GpioPad;
     wrong \<leftarrow> wrong_chipset hw GpioPad;
     if wrong then State_Monad.return (EFI_UNSUPPORTED, GpeNumber)
     else if GroupIndex < GpioGetGroupIndexFromGroup GpioGetLowestGroup \<or>
       GroupIndex > GpioGetGroupIndexFromGroup GpioGetHighestGroup
     then State_Monad.return (EFI_INVALID_PARAMETER, GpeNumber)
     else if PadNumber \<ge> PadPerGroup (ginfo GpioGroupInfo GroupIndex)
     then State_Monad.return (EFI_INVALID_PARAMETER, GpeNumber)
     else do {
       dws \<leftarrow> GpioGetGroupToGpeDwX hw;
       State_Monad.return (EFI_SUCCESS, gpe_number Group PadNumber dws)
     }
   }"

text \<open>\<open>Data32\<close> is not initialised and keeps its value, here 0, when GpioGetGpeNumber fails.\<close>

definition GpioCheckFor2Tier :: "'s hw \<Rightarrow> GPIO_PAD \<Rightarrow> ('s, bool) prog" where
  "GpioCheckFor2Tier hw GpioPad = do {
     (_, Data32) \<leftarrow> GpioGetGpeNumber hw GpioPad 0;
     State_Monad.return (Data32 = PCH_GPIO_2_TIER_MASTER_GPE_NUMBER)
   }"

section \<open>SMI and GPE status\<close>

text \<open>The bounds checks of the status functions.\<close>

definition pad_in_table :: "GPIO_GROUP_INFO list \<Rightarrow> u32 \<Rightarrow> u32 \<Rightarrow> bool" where
  "pad_in_table GpioGroupInfo GroupIndex PadNumber \<longleftrightarrow>
     \<not> (unat GroupIndex \<ge> length GpioGroupInfo) \<and>
     \<not> (PadNumber \<ge> PadPerGroup (ginfo GpioGroupInfo GroupIndex))"

definition GpioClearGpiSmiSts :: "'s hw \<Rightarrow> GPIO_PAD \<Rightarrow> ('s, efi_status) prog" where
  "GpioClearGpiSmiSts hw GpioPad = do {
     GpioGroupInfo \<leftarrow> GpioGetGroupInfoTable hw;
     let GroupIndex = GpioGetGroupIndexFromGpioPad GpioPad;
     let PadNumber = GpioGetPadNumberFromGpioPad GpioPad;
     wrong \<leftarrow> wrong_chipset hw GpioPad;
     if wrong then State_Monad.return EFI_UNSUPPORTED
     else if \<not> pad_in_table GpioGroupInfo GroupIndex PadNumber
     then State_Monad.return EFI_INVALID_PARAMETER
     else (let i = ginfo GpioGroupInfo GroupIndex in
       if SmiStsOffset i = NO_REGISTER_FOR_PROPERTY then State_Monad.return EFI_INVALID_PARAMETER
       else do {
         _ \<leftarrow> MmioWrite32 hw (gpio_reg i (SmiStsOffset i)) (push_bit (unat PadNumber) 1);
         State_Monad.return EFI_SUCCESS })
   }"

fun write_groups :: "'s hw \<Rightarrow> (GPIO_GROUP_INFO \<Rightarrow> u32) \<Rightarrow> u32 \<Rightarrow> GPIO_GROUP_INFO list \<Rightarrow> ('s, unit) prog" where
  "write_groups hw Off v [] = State_Monad.return ()"
| "write_groups hw Off v (i # rest) =
     (if Off i = NO_REGISTER_FOR_PROPERTY then write_groups hw Off v rest
      else do { _ \<leftarrow> MmioWrite32 hw (gpio_reg i (Off i)) v; write_groups hw Off v rest })"

definition GpioClearAllGpiSmiSts :: "'s hw \<Rightarrow> ('s, efi_status) prog" where
  "GpioClearAllGpiSmiSts hw = do {
     GpioGroupInfo \<leftarrow> GpioGetGroupInfoTable hw;
     write_groups hw SmiStsOffset 0xFFFFFFFF GpioGroupInfo;
     State_Monad.return EFI_SUCCESS
   }"

definition GpioDisableAllGpiSmi :: "'s hw \<Rightarrow> ('s, efi_status) prog" where
  "GpioDisableAllGpiSmi hw = do {
     GpioGroupInfo \<leftarrow> GpioGetGroupInfoTable hw;
     write_groups hw SmiEnOffset 0x0 GpioGroupInfo;
     State_Monad.return EFI_SUCCESS
   }"

definition GpioGetGpiSmiNum :: "'s hw \<Rightarrow> GPIO_PAD \<Rightarrow> u64 \<Rightarrow> ('s, efi_status \<times> u64) prog" where
  "GpioGetGpiSmiNum hw GpioPad GpiNum = do {
     GpioGroupInfo \<leftarrow> GpioGetGroupInfoTable hw;
     let GroupIndex = GpioGetGroupIndexFromGpioPad GpioPad;
     let PadNumber = GpioGetPadNumberFromGpioPad GpioPad;
     wrong \<leftarrow> wrong_chipset hw GpioPad;
     State_Monad.return
       (if wrong then (EFI_UNSUPPORTED, GpiNum)
        else if \<not> pad_in_table GpioGroupInfo GroupIndex PadNumber then (EFI_INVALID_PARAMETER, GpiNum)
        else (EFI_SUCCESS,
          fold (\<lambda>i n. n + ucast (PadPerGroup i)) (take (unat GroupIndex) GpioGroupInfo) 0 + ucast PadNumber))
   }"

definition GpioClearGpiGpeSts :: "'s hw \<Rightarrow> GPIO_PAD \<Rightarrow> ('s, efi_status) prog" where
  "GpioClearGpiGpeSts hw GpioPad = do {
     GpioGroupInfo \<leftarrow> GpioGetGroupInfoTable hw;
     let GroupIndex = GpioGetGroupIndexFromGpioPad GpioPad;
     let PadNumber = GpioGetPadNumberFromGpioPad GpioPad;
     if \<not> pad_in_table GpioGroupInfo GroupIndex PadNumber
     then State_Monad.return EFI_INVALID_PARAMETER
     else (let i = ginfo GpioGroupInfo GroupIndex in
       if GpiGpeStsOffset i = NO_REGISTER_FOR_PROPERTY then State_Monad.return EFI_INVALID_PARAMETER
       else do {
         two_tier \<leftarrow> GpioCheckFor2Tier hw GpioPad;
         if \<not> two_tier then State_Monad.return EFI_INVALID_PARAMETER
         else do {
           _ \<leftarrow> MmioWrite32 hw (gpio_reg i (GpiGpeStsOffset i)) (push_bit (unat PadNumber) 1);
           State_Monad.return EFI_SUCCESS }
       })
   }"

definition GpioGetGpiGpeSts :: "'s hw \<Rightarrow> GPIO_PAD \<Rightarrow> ('s, efi_status \<times> u32) prog" where
  "GpioGetGpiGpeSts hw GpioPad = do {
     GpioGroupInfo \<leftarrow> GpioGetGroupInfoTable hw;
     let GroupIndex = GpioGetGroupIndexFromGpioPad GpioPad;
     let PadNumber = GpioGetPadNumberFromGpioPad GpioPad;
     if \<not> pad_in_table GpioGroupInfo GroupIndex PadNumber
     then State_Monad.return (EFI_INVALID_PARAMETER, 0xFFFFFFFF)
     else (let i = ginfo GpioGroupInfo GroupIndex in
       if GpiGpeStsOffset i = NO_REGISTER_FOR_PROPERTY
       then State_Monad.return (EFI_INVALID_PARAMETER, 0xFFFFFFFF)
       else do {
         two_tier \<leftarrow> GpioCheckFor2Tier hw GpioPad;
         if \<not> two_tier then State_Monad.return (EFI_INVALID_PARAMETER, 0xFFFFFFFF)
         else do {
           Data32 \<leftarrow> MmioRead32 hw (gpio_reg i (GpiGpeStsOffset i));
           State_Monad.return (EFI_SUCCESS,
             drop_bit (unat PadNumber) (Data32 AND push_bit (unat PadNumber) 1)) }
       })
   }"

definition group_in_range :: "GPIO_GROUP \<Rightarrow> bool" where
  "group_in_range Group \<longleftrightarrow>
     \<not> (Group < GpioGetLowestGroup \<or> Group \<ge> ucast GpioGetNumberOfGroups + GpioGetLowestGroup)"

definition GpioSetGpiSmiPadEn :: "'s hw \<Rightarrow> GPIO_PAD \<Rightarrow> u32 \<Rightarrow> ('s, efi_status) prog" where
  "GpioSetGpiSmiPadEn hw GpioPad PadGpiSmiEn =
     (let Group = GpioGetGroupFromGpioPad GpioPad in
      if \<not> group_in_range Group then State_Monad.return EFI_INVALID_PARAMETER
      else do {
        (Status, _) \<leftarrow> GpioReadWriteReg hw GpioSmiEnableRegister Group 0 GpioPad True True PadGpiSmiEn;
        State_Monad.return Status
      })"

definition GpioSetGpiGpePadEn :: "'s hw \<Rightarrow> GPIO_PAD \<Rightarrow> u32 \<Rightarrow> ('s, efi_status) prog" where
  "GpioSetGpiGpePadEn hw GpioPad PadGpiGpeEn =
     (let Group = GpioGetGroupFromGpioPad GpioPad in
      if \<not> group_in_range Group then State_Monad.return EFI_INVALID_PARAMETER
      else do {
        (Status, _) \<leftarrow> GpioReadWriteReg hw GpioGpeEnableRegister Group 0 GpioPad True True PadGpiGpeEn;
        State_Monad.return Status
      })"

section \<open>Locking the pads of a configuration\<close>

record GPIO_INIT_CONFIG =
  GpioPad :: GPIO_PAD
  GpioConfig :: GPIO_CONFIG

text \<open>The first loop of GpioLockPads collects the pads to lock by group; \<open>PadOwnVal\<close> keeps the
  ownership read last.\<close>

definition or_at :: "u32 \<Rightarrow> u32 \<Rightarrow> u32 list \<Rightarrow> u32 list" where
  "or_at Index v xs = xs[unat Index := xs ! unat Index OR v]"

fun lock_collect ::
  "'s hw \<Rightarrow> GPIO_GROUP_INFO list \<Rightarrow> GPIO_INIT_CONFIG list \<Rightarrow> u32 \<Rightarrow> u32 list \<Rightarrow> u32 list \<Rightarrow>
     ('s, efi_status \<times> u32 list \<times> u32 list) prog" where
  "lock_collect hw GpioGroupInfo [] PadOwnVal PadsToLock PadsToLockTx =
     State_Monad.return (EFI_SUCCESS, PadsToLock, PadsToLockTx)"
| "lock_collect hw GpioGroupInfo (GpioData # rest) PadOwnVal PadsToLock PadsToLockTx =
     (let Group = GpioGetGroupFromGpioPad (GpioPad GpioData);
          GroupIndex = GpioGetGroupIndexFromGpioPad (GpioPad GpioData);
          PadNumber = GpioGetPadNumberFromGpioPad (GpioPad GpioData) in
      if GroupIndex \<ge> V_PCH_GPIO_GROUP_MAX
      then lock_collect hw GpioGroupInfo rest PadOwnVal PadsToLock PadsToLockTx
      else if \<not> group_in_range Group
      then State_Monad.return (EFI_INVALID_PARAMETER, PadsToLock, PadsToLockTx)
      else if PadNumber \<ge> PadPerGroup (ginfo GpioGroupInfo GroupIndex)
      then State_Monad.return (EFI_INVALID_PARAMETER, PadsToLock, PadsToLockTx)
      else do {
        (_, PadOwnVal) \<leftarrow> GpioGetPadOwnership hw (GpioPad GpioData) PadOwnVal;
        if PadOwnVal \<noteq> GpioPadOwnHost
        then lock_collect hw GpioGroupInfo rest PadOwnVal PadsToLock PadsToLockTx
        else (let c = ucast (LockConfig (GpioConfig GpioData)) :: u32 in
          lock_collect hw GpioGroupInfo rest PadOwnVal
            (or_at GroupIndex (push_bit (unat PadNumber) (drop_bit 1 c AND 0x1)) PadsToLock)
            (or_at GroupIndex (push_bit (unat PadNumber) (drop_bit 2 c AND 0x1)) PadsToLockTx))
      })"

fun lock_groups :: "'s hw \<Rightarrow> GPIO_GROUP \<Rightarrow> (u32 \<times> u32) list \<Rightarrow> ('s, unit) prog" where
  "lock_groups hw Group [] = State_Monad.return ()"
| "lock_groups hw Group ((Lock, LockTx) # rest) = do {
     (if Lock \<noteq> 0 then do {
        _ \<leftarrow> GpioLockPadCfgForGroupDw hw Group 0 Lock; State_Monad.return () }
      else State_Monad.return ());
     (if LockTx \<noteq> 0 then do {
        _ \<leftarrow> GpioLockPadCfgTxForGroupDw hw Group 0 LockTx; State_Monad.return () }
      else State_Monad.return ());
     lock_groups hw (Group + 1) rest
   }"

definition GpioLockPads :: "'s hw \<Rightarrow> GPIO_INIT_CONFIG list \<Rightarrow> ('s, efi_status) prog" where
  "GpioLockPads hw GpioInitTableAddress = do {
     _ \<leftarrow> GetPchSeries hw;
     GpioGroupInfo \<leftarrow> GpioGetGroupInfoTable hw;
     (Status, PadsToLock, PadsToLockTx) \<leftarrow>
       lock_collect hw GpioGroupInfo GpioInitTableAddress GpioPadOwnHost
         (replicate (unat V_PCH_GPIO_GROUP_MAX) 0) (replicate (unat V_PCH_GPIO_GROUP_MAX) 0);
     if Status \<noteq> EFI_SUCCESS then State_Monad.return Status
     else do {
       lock_groups hw GpioGetLowestGroup
         (take (unat GpioGetNumberOfGroups) (zip PadsToLock PadsToLockTx));
       State_Monad.return EFI_SUCCESS
     }
   }"

text \<open>The configuration comes from a hand-off block (GetFirstGuidHob), a parameter; its number of
  entries is kept in a UINT16.\<close>

definition GpioLockGpios :: "'s hw \<Rightarrow> GPIO_INIT_CONFIG list option \<Rightarrow> ('s, efi_status) prog" where
  "GpioLockGpios hw GpioConfigHob =
     (case GpioConfigHob of None \<Rightarrow> State_Monad.return EFI_NOT_FOUND
      | Some Configs \<Rightarrow> do {
          _ \<leftarrow> GpioLockPads hw (take (length Configs mod 0x10000) Configs);
          State_Monad.return EFI_SUCCESS })"

fun unlock_groups :: "'s hw \<Rightarrow> GPIO_GROUP \<Rightarrow> nat \<Rightarrow> ('s, unit) prog" where
  "unlock_groups hw Group 0 = State_Monad.return ()"
| "unlock_groups hw Group (Suc n) = do {
     _ \<leftarrow> GpioUnlockPadCfgForGroupDw hw Group 0 0xFFFFFFFF;
     _ \<leftarrow> GpioUnlockPadCfgTxForGroupDw hw Group 0 0xFFFFFFFF;
     unlock_groups hw (Group + 1) n
   }"

definition GpioUnlockAllGpios :: "'s hw \<Rightarrow> ('s, unit) prog" where
  "GpioUnlockAllGpios hw = unlock_groups hw GpioGetLowestGroup (unat GpioGetNumberOfGroups)"

end
