(* ===== verification/GpioInit.thy ===== *)
theory GpioInit
  imports GpioLib
begin

text \<open>
  GpioInit.c: the initialisation of the pads from a table.  Each entry updates the two
  configuration registers of its pad; the ownership and GPE enable bits are collected by group
  and written at the end, then the interrupt status of all groups is cleared.
\<close>

section \<open>The update of one pad\<close>

definition GPIO_SKL_H_GPP_B2 :: GPIO_PAD where [regs]: "GPIO_SKL_H_GPP_B2 = 0x01010002"
definition GPIO_SKL_H_GPD7 :: GPIO_PAD where [regs]: "GPIO_SKL_H_GPD7 = 0x010C0007"
definition GPIO_SKL_H_GPD9 :: GPIO_PAD where [regs]: "GPIO_SKL_H_GPD9 = 0x010C0009"
definition GpioPadModeGpio :: u32 where [regs]: "GpioPadModeGpio = 0x1"

text \<open>Three pads may not leave GPIO mode; the configuration that is applied to them.\<close>

definition forced_gpio :: "GPIO_INIT_CONFIG \<Rightarrow> bool" where
  "forced_gpio d \<longleftrightarrow> GpioPad d \<in> {GPIO_SKL_H_GPP_B2, GPIO_SKL_H_GPD7, GPIO_SKL_H_GPD9} \<and>
     ucast (PadMode (GpioConfig d)) \<noteq> GpioPadModeGpio"

definition applied_config :: "GPIO_INIT_CONFIG \<Rightarrow> GPIO_CONFIG" where
  "applied_config d = (if forced_gpio d then (GpioConfig d)\<lparr> PadMode := ucast GpioPadModeGpio \<rparr>
     else GpioConfig d)"

text \<open>Pads in use as SATA DEVSLP are set to power good reset.\<close>

definition GpioHandleSataDevSlpPad ::
  "'s hw \<Rightarrow> GPIO_PAD \<Rightarrow> u32 \<Rightarrow> u32 \<Rightarrow> u32 \<Rightarrow> ('s, u32 \<times> u32) prog" where
  "GpioHandleSataDevSlpPad hw p m Dw0Reg Dw0RegMask = do {
     devslp \<leftarrow> GpioIsPadASataDevSlpPin hw p m;
     State_Monad.return
       (if devslp then (Dw0Reg OR push_bit 30 (drop_bit 1 0x1), Dw0RegMask OR B_PCH_GPIO_RST_CONF)
        else (Dw0Reg, Dw0RegMask))
   }"

definition configure_pad :: "'s hw \<Rightarrow> GPIO_GROUP_INFO \<Rightarrow> GPIO_INIT_CONFIG \<Rightarrow> ('s, unit) prog" where
  "configure_pad hw i d = do {
     let PadNumber = GpioGetPadNumberFromGpioPad (GpioPad d);
     (Dw0Reg, Dw0RegMask) \<leftarrow> GpioHandleSataDevSlpPad hw (GpioPad d) (ucast (PadMode (GpioConfig d)))
        (config_dw0 (applied_config d)) (config_dw0_mask (applied_config d));
     _ \<leftarrow> MmioAndThenOr32 hw (pad_cfg_reg i PadNumber 0) (NOT Dw0RegMask) Dw0Reg;
     _ \<leftarrow> MmioAndThenOr32 hw (pad_cfg_reg i PadNumber 1)
           (NOT (config_dw1_mask (applied_config d))) (config_dw1 (applied_config d));
     State_Monad.return ()
   }"

section \<open>The table\<close>

text \<open>What the loop collects for the registers of the groups.\<close>

record group_regs =
  HostSoftOwnReg :: "u32 list"
  HostSoftOwnRegMask :: "u32 list"
  GpiGpeEnReg :: "u32 list"
  GpiGpeEnRegMask :: "u32 list"

definition no_group_regs :: group_regs where
  "no_group_regs = (let z = replicate (unat V_PCH_GPIO_GROUP_MAX) 0 in
     \<lparr> HostSoftOwnReg = z, HostSoftOwnRegMask = z, GpiGpeEnReg = z, GpiGpeEnRegMask = z \<rparr>)"

definition collect_pad :: "GPIO_INIT_CONFIG \<Rightarrow> group_regs \<Rightarrow> group_regs" where
  "collect_pad d g =
     (let GroupIndex = GpioGetGroupIndexFromGpioPad (GpioPad d);
          n = unat (GpioGetPadNumberFromGpioPad (GpioPad d));
          Own = ucast (HostSoftPadOwn (GpioConfig d)); Irq = ucast (InterruptConfig (GpioConfig d)) :: u32 in
      g\<lparr> HostSoftOwnRegMask := or_at GroupIndex (push_bit n (Own AND 0x1)) (HostSoftOwnRegMask g),
         HostSoftOwnReg := or_at GroupIndex (push_bit n (drop_bit 1 Own)) (HostSoftOwnReg g),
         GpiGpeEnRegMask := or_at GroupIndex (push_bit n (Irq AND 0x1)) (GpiGpeEnRegMask g),
         GpiGpeEnReg := or_at GroupIndex (push_bit n (drop_bit 3 (Irq AND GpioIntSci))) (GpiGpeEnReg g) \<rparr>)"

definition pad_of_series :: "PCH_SERIES \<Rightarrow> GPIO_PAD \<Rightarrow> bool" where
  "pad_of_series PchSeries p \<longleftrightarrow>
     (PchSeries = PchH \<and> GPIO_GET_CHIPSET_ID p = GPIO_SKL_H_CHIPSET_ID) \<or>
     (PchSeries = PchLp \<and> GPIO_GET_CHIPSET_ID p = GPIO_SKL_LP_CHIPSET_ID)"

fun configure_pads ::
  "'s hw \<Rightarrow> PCH_SERIES \<Rightarrow> GPIO_GROUP_INFO list \<Rightarrow> GPIO_INIT_CONFIG list \<Rightarrow> u32 \<Rightarrow> group_regs \<Rightarrow>
     ('s, efi_status \<times> group_regs) prog" where
  "configure_pads hw PchSeries GpioGroupInfo [] PadOwnVal g = State_Monad.return (EFI_SUCCESS, g)"
| "configure_pads hw PchSeries GpioGroupInfo (d # rest) PadOwnVal g =
     (let GroupIndex = GpioGetGroupIndexFromGpioPad (GpioPad d);
          PadNumber = GpioGetPadNumberFromGpioPad (GpioPad d) in
      if GroupIndex \<ge> V_PCH_GPIO_GROUP_MAX
      then configure_pads hw PchSeries GpioGroupInfo rest PadOwnVal g
      else if hw_debug_code hw \<and> \<not> pad_of_series PchSeries (GpioPad d)
      then State_Monad.return (EFI_UNSUPPORTED, g)
      else if \<not> group_in_range (GpioGetGroupFromGpioPad (GpioPad d))
      then State_Monad.return (EFI_INVALID_PARAMETER, g)
      else if PadNumber \<ge> PadPerGroup (ginfo GpioGroupInfo GroupIndex)
      then State_Monad.return (EFI_INVALID_PARAMETER, g)
      else do {
        locked \<leftarrow> GpioIsPadLocked hw GroupIndex PadNumber;
        if locked then configure_pads hw PchSeries GpioGroupInfo rest PadOwnVal g
        else do {
          PadOwnVal \<leftarrow> (if hw_debug_code hw then do {
              (_, v) \<leftarrow> GpioGetPadOwnership hw (GpioPad d) PadOwnVal;
              State_Monad.return v }
            else State_Monad.return PadOwnVal);
          if hw_debug_code hw \<and> PadOwnVal \<noteq> GpioPadOwnHost
          then configure_pads hw PchSeries GpioGroupInfo rest PadOwnVal g
          else do {
            configure_pad hw (ginfo GpioGroupInfo GroupIndex) d;
            configure_pads hw PchSeries GpioGroupInfo rest PadOwnVal (collect_pad d g)
          }
        }
      })"

text \<open>The registers of the groups, for the first \<open>n\<close> groups.\<close>

definition write_group :: "'s hw \<Rightarrow> GPIO_GROUP_INFO \<Rightarrow> group_regs \<Rightarrow> nat \<Rightarrow> ('s, unit) prog" where
  "write_group hw i g Index = do {
     (if HostOwnOffset i \<noteq> NO_REGISTER_FOR_PROPERTY then do {
        _ \<leftarrow> MmioAndThenOr32 hw (gpio_reg i (HostOwnOffset i))
              (NOT (HostSoftOwnRegMask g ! Index)) (HostSoftOwnReg g ! Index);
        State_Monad.return () }
      else State_Monad.return ());
     (if GpiGpeEnOffset i \<noteq> NO_REGISTER_FOR_PROPERTY then do {
        _ \<leftarrow> MmioAndThenOr32 hw (gpio_reg i (GpiGpeEnOffset i))
              (NOT (GpiGpeEnRegMask g ! Index)) (GpiGpeEnReg g ! Index);
        State_Monad.return () }
      else State_Monad.return ())
   }"

fun write_groups_from :: "'s hw \<Rightarrow> group_regs \<Rightarrow> nat \<Rightarrow> GPIO_GROUP_INFO list \<Rightarrow> ('s, unit) prog" where
  "write_groups_from hw g Index [] = State_Monad.return ()"
| "write_groups_from hw g Index (i # rest) = do {
     write_group hw i g Index;
     write_groups_from hw g (Suc Index) rest
   }"

definition GpioConfigureSklPch :: "'s hw \<Rightarrow> GPIO_INIT_CONFIG list \<Rightarrow> ('s, efi_status) prog" where
  "GpioConfigureSklPch hw GpioInitTableAddress = do {
     PchSeries \<leftarrow> GetPchSeries hw;
     GpioGroupInfo \<leftarrow> GpioGetGroupInfoTable hw;
     (Status, g) \<leftarrow> configure_pads hw PchSeries GpioGroupInfo GpioInitTableAddress GpioPadOwnHost
        no_group_regs;
     if Status \<noteq> EFI_SUCCESS then State_Monad.return Status
     else do {
       write_groups_from hw g 0 (take (unat GpioGetNumberOfGroups) GpioGroupInfo);
       State_Monad.return EFI_SUCCESS
     }
   }"

text \<open>The code indexes the table with the group, not the group index, in the first of the four
  tests: a read past the table.  \<open>beyond\<close> stands for the words it reads there.\<close>

definition clear_sts :: "'s hw \<Rightarrow> GPIO_GROUP_INFO \<Rightarrow> u32 \<Rightarrow> u32 \<Rightarrow> ('s, unit) prog" where
  "clear_sts hw i Tested Offset =
     (if Tested \<noteq> NO_REGISTER_FOR_PROPERTY then do {
        _ \<leftarrow> MmioWrite32 hw (gpio_reg i Offset) 0xFFFFFFFF;
        State_Monad.return () }
      else State_Monad.return ())"

fun clear_groups :: "'s hw \<Rightarrow> (GPIO_GROUP \<Rightarrow> u32) \<Rightarrow> GPIO_GROUP_INFO list \<Rightarrow> GPIO_GROUP \<Rightarrow> nat \<Rightarrow> ('s, unit) prog" where
  "clear_groups hw beyond GpioGroupInfo Group 0 = State_Monad.return ()"
| "clear_groups hw beyond GpioGroupInfo Group (Suc n) =
     (let i = ginfo GpioGroupInfo (GpioGetGroupIndexFromGroup Group) in do {
        clear_sts hw i (beyond Group) (GpiIsOffset i);
        clear_sts hw i (GpiGpeStsOffset i) (GpiGpeStsOffset i);
        clear_sts hw i (SmiStsOffset i) (SmiStsOffset i);
        clear_sts hw i (NmiStsOffset i) (NmiStsOffset i);
        clear_groups hw beyond GpioGroupInfo (Group + 1) n })"

definition GpioClearAllGpioInterrupts :: "'s hw \<Rightarrow> (GPIO_GROUP \<Rightarrow> u32) \<Rightarrow> ('s, efi_status) prog" where
  "GpioClearAllGpioInterrupts hw beyond = do {
     GpioGroupInfo \<leftarrow> GpioGetGroupInfoTable hw;
     clear_groups hw beyond GpioGroupInfo GpioGetLowestGroup
       (unat (GpioGetHighestGroup - GpioGetLowestGroup + 1));
     State_Monad.return EFI_SUCCESS
   }"

definition GpioConfigurePads ::
  "'s hw \<Rightarrow> (GPIO_GROUP \<Rightarrow> u32) \<Rightarrow> GPIO_INIT_CONFIG list \<Rightarrow> ('s, efi_status) prog" where
  "GpioConfigurePads hw beyond GpioInitTableAddress = do {
     Status \<leftarrow> GpioConfigureSklPch hw GpioInitTableAddress;
     _ \<leftarrow> GpioClearAllGpioInterrupts hw beyond;
     State_Monad.return Status
   }"

end
