(* ===== verification/GpioRegs.thy ===== *)
theory GpioRegs
  imports GpioLib
begin

text \<open>
  The registers of the pads as a map from slots to words: a slot is a register of the group
  table, and distinct slots are distinct registers of the chip.  On hardware that behaves as
  plain registers outside the P2SB page the GPIO functions are functions of that map.
\<close>

section \<open>Slots\<close>

text \<open>The registers of a group that the table places apart from all others.\<close>

datatype group_field = OwnF u32 | HostOwnF | GpiIeF | GpeEnF | SmiEnF | NmiEnF | GpiIsF | GpeStsF | SmiStsF | NmiStsF
  | CfgLockF | CfgLockTxF

fun field_offset :: "group_field \<Rightarrow> GPIO_GROUP_INFO \<Rightarrow> u32" where
  "field_offset (OwnF k) i = PadOwnOffset i + k * 4"
| "field_offset HostOwnF i = HostOwnOffset i"
| "field_offset GpiIeF i = GpiIeOffset i"
| "field_offset NmiEnF i = NmiEnOffset i"
| "field_offset GpeEnF i = GpiGpeEnOffset i"
| "field_offset SmiEnF i = SmiEnOffset i"
| "field_offset GpeStsF i = GpiGpeStsOffset i"
| "field_offset SmiStsF i = SmiStsOffset i"
| "field_offset NmiStsF i = NmiStsOffset i"
| "field_offset GpiIsF i = GpiIsOffset i"
| "field_offset CfgLockF i = PadCfgLockOffset i"
| "field_offset CfgLockTxF i = PadCfgLockTxOffset i"

datatype slot = PadSlot u32 u32 u8 | GroupSlot group_field u32

definition row :: "u32 \<Rightarrow> GPIO_GROUP_INFO" where "row g = ginfo mPchGpioGroupInfo g"

text \<open>The table gives GPP_L (row 11) the GPE status register of GPP_H, and GPP_E (row 4) the interrupt enable register of
  GPP_D: they are not slots of their own.\<close>

definition aliased :: "group_field \<Rightarrow> u32 \<Rightarrow> bool" where
  "aliased f g \<longleftrightarrow> f = GpeStsF \<and> g = 11 \<or> f = GpiIeF \<and> g = 4"

definition valid_pos :: "u32 \<Rightarrow> u32 \<Rightarrow> bool" where
  "valid_pos g n \<longleftrightarrow> g < 13 \<and> n < PadPerGroup (row g)"

fun valid_slot :: "slot \<Rightarrow> bool" where
  "valid_slot (PadSlot g n d) \<longleftrightarrow> valid_pos g n \<and> d \<le> 1"
| "valid_slot (GroupSlot f g) \<longleftrightarrow> g < 13 \<and> field_offset f (row g) \<noteq> NOREG \<and> \<not> aliased f g \<and>
     (case f of OwnF k \<Rightarrow> k < 3 | _ \<Rightarrow> True)"

fun slot_offset :: "slot \<Rightarrow> u32" where
  "slot_offset (PadSlot g n d) = 0x8 * n + PadCfgOffset (row g) + (if d = 1 then 0x4 else 0)"
| "slot_offset (GroupSlot f g) = field_offset f (row g)"

fun slot_group :: "slot \<Rightarrow> u32" where
  "slot_group (PadSlot g n d) = g"
| "slot_group (GroupSlot f g) = g"

definition slot_addr :: "slot \<Rightarrow> u64" where
  "slot_addr x = gpio_reg (row (slot_group x)) (slot_offset x)"

lemma pad_cfg_reg_slot: "d \<le> 1 \<Longrightarrow> pad_cfg_reg (row g) n d = slot_addr (PadSlot g n d)"
  by (simp add: pad_cfg_reg_def slot_addr_def)

lemma group_reg_slot: "gpio_reg (row g) (field_offset f (row g)) = slot_addr (GroupSlot f g)"
  by (simp add: slot_addr_def)

section \<open>The rows of the table\<close>

lemma less_13_cases:
  "g < (13 :: u32) \<longleftrightarrow> g \<in> {0, 1, 2, 3, 4, 5, 6, 7, 8, 9, 10, 11, 12}"
proof
  assume "g < 13"
  then have "unat g < 13" by (simp add: word_less_nat_alt)
  then have "unat g \<in> set [0..<13]" by simp
  then have "g \<in> of_nat ` set [0..<13]" by (intro image_eqI [of _ _ "unat g"]) simp_all
  also have "of_nat ` set [0..<13] = {0, 1, 2, 3, 4, 5, 6, 7, 8, 9, 10, 11, 12 :: u32}"
    by (simp add: upt_rec)
  finally show "g \<in> {0, 1, 2, 3, 4, 5, 6, 7, 8, 9, 10, 11, 12}" .
qed auto

lemma row_nth:
  "row 0 = mPchGpioGroupInfo ! 0" "row 1 = mPchGpioGroupInfo ! 1" "row 2 = mPchGpioGroupInfo ! 2"
  "row 3 = mPchGpioGroupInfo ! 3" "row 4 = mPchGpioGroupInfo ! 4" "row 5 = mPchGpioGroupInfo ! 5"
  "row 6 = mPchGpioGroupInfo ! 6" "row 7 = mPchGpioGroupInfo ! 7" "row 8 = mPchGpioGroupInfo ! 8"
  "row 9 = mPchGpioGroupInfo ! 9" "row 10 = mPchGpioGroupInfo ! 10" "row 11 = mPchGpioGroupInfo ! 11"
  "row 12 = mPchGpioGroupInfo ! 12"
  by (simp_all add: row_def ginfo_def)

lemmas rows = row_nth [unfolded mPchGpioGroupInfo_def, simplified]

lemma length_table [simp]: "length mPchGpioGroupInfo = 13"
  by (simp add: mPchGpioGroupInfo_def)

lemma row_in_table: "g < 13 \<Longrightarrow> row g \<in> set mPchGpioGroupInfo"
  by (simp add: row_def ginfo_def word_less_nat_alt)

lemma table_all: "list_all P mPchGpioGroupInfo \<Longrightarrow> g < 13 \<Longrightarrow> P (row g)"
  using row_in_table by (auto simp: list_all_iff)

lemma pads_of_row: "g < 13 \<Longrightarrow> PadPerGroup (row g) \<le> 24"
  by (rule table_all) (simp_all add: mPchGpioGroupInfo_def)

lemma cfg_offset_of_row: "g < 13 \<Longrightarrow> PadCfgOffset (row g) \<in> {0x400, 0x4C0, 0x580}"
  by (rule table_all) (simp_all add: mPchGpioGroupInfo_def)

text \<open>All the group registers that the table has.\<close>

definition group_fields :: "group_field list" where
  "group_fields = [OwnF 0, OwnF 1, OwnF 2, HostOwnF, GpiIeF, GpeEnF, SmiEnF, NmiEnF, GpiIsF, GpeStsF, SmiStsF, NmiStsF,
     CfgLockF, CfgLockTxF]"

definition group_indices :: "u32 list" where
  "group_indices = [0, 1, 2, 3, 4, 5, 6, 7, 8, 9, 10, 11, 12]"

definition group_slots :: "(group_field \<times> u32) list" where
  "group_slots = concat (map (\<lambda>g. map (\<lambda>f. (f, g)) (filter (\<lambda>f. field_offset f (row g) \<noteq> NOREG \<and> \<not> aliased f g) group_fields)) group_indices)"

lemma less_3_cases: "k < (3 :: u32) \<longleftrightarrow> k \<in> {0, 1, 2}"
proof
  assume "k < 3"
  then have "unat k \<in> set [0..<3]" by (simp add: word_less_nat_alt)
  then have "k \<in> of_nat ` set [0..<3]" by (intro image_eqI [of _ _ "unat k"]) simp_all
  then show "k \<in> {0, 1, 2}" by (simp add: upt_rec)
qed auto

lemma set_group_indices: "set group_indices = {g. g < 13}"
  by (auto simp: group_indices_def less_13_cases)

lemma set_group_fields: "f \<in> set group_fields \<longleftrightarrow> (case f of OwnF k \<Rightarrow> k < 3 | _ \<Rightarrow> True)"
  by (cases f) (simp_all add: group_fields_def less_3_cases)

lemma valid_group_slot: "valid_slot (GroupSlot f g) \<longleftrightarrow> (f, g) \<in> set group_slots"
  by (auto simp: group_slots_def set_group_indices set_group_fields)

definition group_key :: "group_field \<times> u32 \<Rightarrow> int" where
  "group_key = (\<lambda>(f, g). uint (Community (row g)) * 0x10000 + uint (field_offset f (row g)))"

lemmas table_eval = aliased_def group_slots_def group_indices_def group_fields_def rows
  NO_REGISTER_FOR_PROPERTY_def

lemma group_keys_distinct: "distinct (map group_key group_slots)"
  by (simp add: table_eval group_key_def regs)

lemma group_offsets:
  "list_all (\<lambda>(f, g). field_offset f (row g) AND 3 = 0 \<and> field_offset f (row g) < 0x400) group_slots"
  by (simp add: table_eval)

lemma pad_keys_distinct:
  "distinct (map (\<lambda>g. (Community (row g), PadCfgOffset (row g))) group_indices)"
  by (simp add: table_eval regs)


section \<open>Distinct slots are distinct registers\<close>

lemma valid_pos_bounds:
  "valid_pos g n \<Longrightarrow> unat g < 13" "valid_pos g n \<Longrightarrow> unat n < 24"
  using pads_of_row [of g] by (auto simp: valid_pos_def word_less_nat_alt word_le_nat_alt)

lemma pad_base: "g < 13 \<Longrightarrow> \<exists>k < 3. unat (PadCfgOffset (row g)) = 0x400 + 0xC0 * k"
proof -
  assume "g < 13"
  from cfg_offset_of_row [OF this]
  have "unat (PadCfgOffset (row g)) \<in> {0x400 + 0xC0 * 0, 0x400 + 0xC0 * 1, 0x400 + 0xC0 * 2}" by auto
  then show ?thesis by (auto intro: exI [of _ 0] exI [of _ 1] exI [of _ 2])
qed

lemma unat_pad_offset:
  assumes "valid_pos g n"
  shows "unat (slot_offset (PadSlot g n d)) =
    8 * unat n + unat (PadCfgOffset (row g)) + (if d = 1 then 4 else 0)"
proof -
  obtain k where "k < 3" "unat (PadCfgOffset (row g)) = 0x400 + 0xC0 * k"
    using assms pad_base [of g] by (auto simp: valid_pos_def)
  with valid_pos_bounds [OF assms] show ?thesis by (simp add: unat_word_ariths)
qed

lemma u8_bool: "d \<le> 1 \<longleftrightarrow> d = 0 \<or> d = (1 :: u8)"
proof -
  have "unat d \<le> 1 \<Longrightarrow> d = 0 \<or> d = 1"
    by (metis One_nat_def le_Suc_eq le_zero_eq unat_1 unat_0 unsigned_word_eqI)
  then show ?thesis by (auto simp: word_le_nat_alt)
qed

lemma pad_offset_range:
  assumes "valid_pos g n"
  shows "0x400 \<le> unat (slot_offset (PadSlot g n d))" "unat (slot_offset (PadSlot g n d)) < 0x640"
    "4 dvd unat (slot_offset (PadSlot g n d))"
proof -
  obtain k where k: "k < 3" "unat (PadCfgOffset (row g)) = 0x400 + 0xC0 * k"
    using assms pad_base [of g] by (auto simp: valid_pos_def)
  note o = unat_pad_offset [OF assms, of d]
  show "0x400 \<le> unat (slot_offset (PadSlot g n d))" "unat (slot_offset (PadSlot g n d)) < 0x640"
    using k valid_pos_bounds [OF assms] unfolding o by auto
  show "4 dvd unat (slot_offset (PadSlot g n d))"
    unfolding o k by (simp add: dvd_add)
qed

lemma group_offset_range:
  assumes "valid_slot (GroupSlot f g)"
  shows "field_offset f (row g) AND 3 = 0" "unat (field_offset f (row g)) < 0x400"
proof -
  from assms have "(f, g) \<in> set group_slots" by (simp only: valid_group_slot)
  with group_offsets have "field_offset f (row g) AND 3 = 0 \<and> field_offset f (row g) < 0x400"
    unfolding list_all_iff by blast
  then show "field_offset f (row g) AND 3 = 0" "unat (field_offset f (row g)) < 0x400"
    by (simp_all add: word_less_nat_alt)
qed

lemma slot_offset_ok:
  assumes "valid_slot x"
  shows "slot_offset x AND 3 = 0" "unat (slot_offset x) < 0x640"
proof -
  show "slot_offset x AND 3 = 0"
  proof (cases x)
    case (PadSlot g n d)
    then have "4 dvd unat (slot_offset (PadSlot g n d))" using assms by (intro pad_offset_range(3)) simp
    then show ?thesis using PadSlot by (simp only: and_3_zero)
  qed (use assms group_offset_range in auto)
  show "unat (slot_offset x) < 0x640"
  proof (cases x)
    case (PadSlot g n d)
    then have "unat (slot_offset (PadSlot g n d)) < 0x640" using assms by (intro pad_offset_range(2)) simp
    then show ?thesis using PadSlot by simp
  next
    case (GroupSlot f g)
    with assms group_offset_range(2) [of f g] show ?thesis by simp
  qed
qed

lemma mixed_radix:
  fixes n k e n' k' e' :: nat
  assumes "8 * n + 0xC0 * k + e = 8 * n' + 0xC0 * k' + e'" "n < 24" "n' < 24" "e < 8" "e' < 8"
  shows "n = n' \<and> k = k' \<and> e = e'"
proof -
  have k: "k = k'" using assms by (cases k k' rule: linorder_cases) linarith+
  have "n = n'" using assms k by (cases n n' rule: linorder_cases) linarith+
  with k show ?thesis using assms(1) by simp
qed

lemma slot_inj:
  assumes "valid_slot x" "valid_slot y" "Community (row (slot_group x)) = Community (row (slot_group y))"
    and eq: "slot_offset x = slot_offset y"
  shows "x = y"
proof (cases x; cases y)
  fix g n d g' n' d'
  assume x: "x = PadSlot g n d" and y: "y = PadSlot g' n' d'"
  have v: "valid_pos g n" "valid_pos g' n'" using assms(1,2) x y by simp_all
  have d: "d = 0 \<or> d = 1" "d' = 0 \<or> d' = 1" using assms(1,2) x y u8_bool by auto
  obtain k k' where k: "k < 3" "unat (PadCfgOffset (row g)) = 0x400 + 0xC0 * k"
    "k' < 3" "unat (PadCfgOffset (row g')) = 0x400 + 0xC0 * k'"
    using v pad_base [of g] pad_base [of g'] by (auto simp: valid_pos_def)
  have "8 * unat n + 0xC0 * k + (if d = 1 then 4 else 0) = 8 * unat n' + 0xC0 * k' + (if d' = 1 then 4 else 0)"
    using eq unfolding x y using unat_pad_offset [OF v(1), of d] unat_pad_offset [OF v(2), of d'] k by simp
  then have nk: "unat n = unat n' \<and> k = k' \<and> (d = 1 \<longleftrightarrow> d' = 1)"
    using valid_pos_bounds(2) [OF v(1)] valid_pos_bounds(2) [OF v(2)]
      mixed_radix [of "unat n" k "if d = 1 then 4 else 0" "unat n'" k' "if d' = 1 then 4 else 0"]
    by (auto split: if_splits)
  then have "PadCfgOffset (row g) = PadCfgOffset (row g')" using k by (metis unsigned_word_eqI)
  with assms(3) have "(Community (row g), PadCfgOffset (row g)) = (Community (row g'), PadCfgOffset (row g'))"
    by (simp add: x y)
  moreover have "g \<in> set group_indices" "g' \<in> set group_indices"
    using v by (simp_all add: set_group_indices valid_pos_def)
  ultimately have "g = g'" using pad_keys_distinct unfolding distinct_map inj_on_def by blast
  then show "x = y" using nk d unfolding x y by (auto intro: unsigned_word_eqI)
next
  fix f g f' g'
  assume x: "x = GroupSlot f g" and y: "y = GroupSlot f' g'"
  have "group_key (f, g) = group_key (f', g')" using assms(3) eq by (simp add: group_key_def x y)
  moreover have "(f, g) \<in> set group_slots" "(f', g') \<in> set group_slots"
    using assms(1,2) unfolding x y valid_group_slot by simp_all
  ultimately have "(f, g) = (f', g')" using group_keys_distinct unfolding distinct_map inj_on_def by blast
  then show "x = y" by (simp add: x y)
next
  fix g n d f g'
  assume "x = PadSlot g n d" "y = GroupSlot f g'"
  then show "x = y" using assms(1,2) eq pad_offset_range(1) [of g n d] group_offset_range(2) [of f g'] by auto
next
  fix f g g' n d
  assume "x = GroupSlot f g" "y = PadSlot g' n d"
  then show "x = y" using assms(1,2) eq pad_offset_range(1) [of g' n d] group_offset_range(2) [of f g] by auto
qed

lemma ucast_16_eq:
  assumes "unat a < 0x10000" "unat b < 0x10000"
  shows "(ucast a :: u16) = ucast b \<longleftrightarrow> a = (b :: u32)"
proof
  assume "(ucast a :: u16) = ucast b"
  then have "unat (ucast a :: u16) = unat (ucast b :: u16)" by simp
  then show "a = b" using assms by (simp add: unsigned_ucast_eq take_bit_nat_eq_self unsigned_word_eqI)
qed simp

lemma slot_apart:
  assumes "valid_slot x" "valid_slot y" "x \<noteq> y"
  shows "apart (slot_addr x) 4 (slot_addr y) 4"
  unfolding slot_addr_def gpio_reg_def
proof (rule PCR_apart)
  have "(ucast (slot_offset z) AND 3 :: u16) = 0" if "valid_slot z" for z
  proof -
    have "(ucast (slot_offset z) AND 3 :: u16) = ucast (slot_offset z AND 3)"
      by (rule bit_word_eqI) (auto simp: bit_simps)
    then show ?thesis using slot_offset_ok(1) [OF that] by simp
  qed
  then show "(ucast (slot_offset x) AND 3 :: u16) = 0" "(ucast (slot_offset y) AND 3 :: u16) = 0"
    using assms by blast+
  show "(Community (row (slot_group x)), ucast (slot_offset x) :: u16)
      \<noteq> (Community (row (slot_group y)), ucast (slot_offset y))"
    using slot_inj [OF assms(1,2)] assms(3) slot_offset_ok(2) [OF assms(1)] slot_offset_ok(2) [OF assms(2)]
    by (auto simp: ucast_16_eq)
qed

lemma slot_outside [simp]: "\<not> in_p2sb (slot_addr x)"
proof -
  let ?a = "slot_addr x"
  have "unat ?a \<ge> 0xFD000000" "unat ?a < 0xFE000000"
    using unsigned_less [of "Community (row (slot_group x))", where 'a = nat]
      unsigned_less [of "ucast (slot_offset x) :: u16", where 'a = nat]
    by (simp_all add: slot_addr_def gpio_reg_def unat_PCR)
  then have "unat (?a - 0x800F9000) = unat ?a - 0x800F9000" by (subst unat_sub) simp_all
  with \<open>unat ?a \<ge> 0xFD000000\<close> show ?thesis by (simp add: in_p2sb_def)
qed

lemma slot_keeps_id [simp]: "keeps_id 4 (slot_addr x)"
  by (simp add: slot_addr_def gpio_reg_def)


section \<open>The map of the slots\<close>

definition slots :: "ram sys \<Rightarrow> slot \<Rightarrow> u32" where
  "slots s x = reg32 s (slot_addr x)"

abbreviation put_slot :: "slot \<Rightarrow> u32 \<Rightarrow> ram sys \<Rightarrow> ram sys" where
  "put_slot x v \<equiv> wr32 (slot_addr x) v"

lemma slots_put:
  "valid_slot x \<Longrightarrow> valid_slot y \<Longrightarrow> slots (put_slot x v s) y = (if y = x then v else slots s y)"
  by (auto simp: slots_def slot_apart loadw_storew_apart)

text \<open>A platform whose PCH has been identified, as the first call of the library does.\<close>

definition known :: "ram sys \<Rightarrow> bool" where
  "known s \<longleftrightarrow> mPchSeries s = PchH \<and> mPchGeneration s = SklPch"

lemma known_wr [simp]: "known (wr n a w s) = known s"
  by (simp add: known_def)

text \<open>The pads of the chip, their group and their number.\<close>

abbreviation gi :: "GPIO_PAD \<Rightarrow> u32" where "gi \<equiv> GpioGetGroupIndexFromGpioPad"
abbreviation pn :: "GPIO_PAD \<Rightarrow> u32" where "pn \<equiv> GpioGetPadNumberFromGpioPad"

definition pad_ok :: "GPIO_PAD \<Rightarrow> bool" where
  "pad_ok p \<longleftrightarrow> GPIO_GET_CHIPSET_ID p = GPIO_SKL_H_CHIPSET_ID \<and> valid_pos (gi p) (pn p)"

lemma pad_split: "p = push_bit 24 (GPIO_GET_CHIPSET_ID p) OR push_bit 16 (gi p) OR pn p"
proof (rule bit_word_eqI)
  fix n assume n: "n < LENGTH(32)"
  have m: "(0xFF :: u32) = mask 8" "(0xFFFF :: u32) = mask 16" by (simp_all add: mask_numeral)
  show "bit p n = bit (push_bit 24 (GPIO_GET_CHIPSET_ID p) OR push_bit 16 (gi p) OR pn p) n"
    unfolding GPIO_GET_CHIPSET_ID_def GpioGetGroupIndexFromGpioPad_def GpioGetPadNumberFromGpioPad_def m
    using n by (cases "n < 24") (auto simp: bit_simps)
qed

lemma pad_inj: "pad_ok p \<Longrightarrow> pad_ok q \<Longrightarrow> gi p = gi q \<Longrightarrow> pn p = pn q \<Longrightarrow> p = q"
  using pad_split [of p] pad_split [of q] by (simp add: pad_ok_def)

text \<open>Ownership and lock of a pad.\<close>

abbreviation cfg0 :: "GPIO_PAD \<Rightarrow> slot" where "cfg0 p \<equiv> PadSlot (gi p) (pn p) 0"
abbreviation cfg1 :: "GPIO_PAD \<Rightarrow> slot" where "cfg1 p \<equiv> PadSlot (gi p) (pn p) 1"

definition own_slot :: "GPIO_PAD \<Rightarrow> slot" where
  "own_slot p = GroupSlot (OwnF (drop_bit 3 (pn p))) (gi p)"

definition pad_owner :: "ram sys \<Rightarrow> GPIO_PAD \<Rightarrow> u32" where
  "pad_owner s p = (let k = unat ((pn p mod 8) * 4) in
     drop_bit k (slots s (own_slot p) AND push_bit k 0x3))"

definition pad_locked :: "ram sys \<Rightarrow> GPIO_PAD \<Rightarrow> bool" where
  "pad_locked s p \<longleftrightarrow> bit (slots s (GroupSlot CfgLockF (gi p))) (unat (pn p))"

lemma group_slots_always:
  "g < 13 \<Longrightarrow> valid_slot (GroupSlot HostOwnF g)" "g < 13 \<Longrightarrow> valid_slot (GroupSlot GpeEnF g)"
  "g < 13 \<Longrightarrow> valid_slot (GroupSlot CfgLockF g)" "g < 13 \<Longrightarrow> valid_slot (GroupSlot CfgLockTxF g)"
  "g < 13 \<Longrightarrow> valid_slot (GroupSlot GpiIsF g)"
proof -
  have "list_all (\<lambda>g. HostOwnOffset (row g) \<noteq> NOREG \<and> GpiGpeEnOffset (row g) \<noteq> NOREG \<and>
      PadCfgLockOffset (row g) \<noteq> NOREG \<and> PadCfgLockTxOffset (row g) \<noteq> NOREG \<and>
      GpiIsOffset (row g) \<noteq> NOREG) group_indices"
    by (simp add: table_eval)
  then have "HostOwnOffset (row g) \<noteq> NOREG \<and> GpiGpeEnOffset (row g) \<noteq> NOREG \<and>
      PadCfgLockOffset (row g) \<noteq> NOREG \<and> PadCfgLockTxOffset (row g) \<noteq> NOREG \<and>
      GpiIsOffset (row g) \<noteq> NOREG" if "g < 13"
    using that by (simp add: list_all_iff set_group_indices)
  then show "g < 13 \<Longrightarrow> valid_slot (GroupSlot HostOwnF g)" "g < 13 \<Longrightarrow> valid_slot (GroupSlot GpeEnF g)"
    "g < 13 \<Longrightarrow> valid_slot (GroupSlot CfgLockF g)" "g < 13 \<Longrightarrow> valid_slot (GroupSlot CfgLockTxF g)"
    "g < 13 \<Longrightarrow> valid_slot (GroupSlot GpiIsF g)"
    by (simp_all add: aliased_def)
qed

lemma own_slots:
  assumes "g < 13" "k < 3"
  shows "valid_slot (GroupSlot (OwnF k) g)"
proof -
  have "list_all (\<lambda>g. list_all (\<lambda>k. PadOwnOffset (row g) + k * 4 \<noteq> NOREG) [0, 1, 2]) group_indices"
    by (simp add: table_eval)
  then show ?thesis using assms by (auto simp: list_all_iff set_group_indices less_3_cases aliased_def)
qed

lemma pad_slots [simp]:
  assumes "pad_ok p"
  shows "gi p < 13" "pn p < PadPerGroup (row (gi p))" "unat (pn p) < 24"
    "valid_slot (cfg0 p)" "valid_slot (cfg1 p)" "valid_slot (own_slot p)"
    "valid_slot (GroupSlot HostOwnF (gi p))" "valid_slot (GroupSlot GpeEnF (gi p))"
    "valid_slot (GroupSlot CfgLockF (gi p))" "valid_slot (GroupSlot CfgLockTxF (gi p))"
proof -
  have v: "valid_pos (gi p) (pn p)" using assms by (simp add: pad_ok_def)
  then show g: "gi p < 13" "pn p < PadPerGroup (row (gi p))" by (simp_all add: valid_pos_def)
  show n: "unat (pn p) < 24" by (rule valid_pos_bounds [OF v])
  show "valid_slot (cfg0 p)" "valid_slot (cfg1 p)" using v by simp_all
  have "unat (drop_bit 3 (pn p)) = drop_bit 3 (unat (pn p))"
    using n by (simp only: unsigned_drop_bit_eq) (simp add: take_bit_nat_eq_self)
  then have "unat (drop_bit 3 (pn p)) < 3" using n by (simp add: drop_bit_eq_div)
  then have "drop_bit 3 (pn p) < 3" by (simp add: word_less_nat_alt)
  then show "valid_slot (own_slot p)" unfolding own_slot_def by (rule own_slots [OF g(1)])
  show "valid_slot (GroupSlot HostOwnF (gi p))" "valid_slot (GroupSlot GpeEnF (gi p))"
    "valid_slot (GroupSlot CfgLockF (gi p))" "valid_slot (GroupSlot CfgLockTxF (gi p))"
    using g(1) by (blast intro: group_slots_always)+
qed


lemma row_fold [simp]: "ginfo mPchGpioGroupInfo g = row g"
  by (simp add: row_def)

section \<open>Hardware that is plain outside the P2SB page\<close>

locale plain_regs =
  fixes hw :: "ram hw"
  assumes rd16: "\<not> in_p2sb a \<Longrightarrow> run_state (MmioRead16 hw a) s = (reg16 s a, s)"
    and rd32: "\<not> in_p2sb a \<Longrightarrow> run_state (MmioRead32 hw a) s = (reg32 s a, s)"
    and wt32: "\<not> in_p2sb a \<Longrightarrow> run_state (MmioWrite32 hw a v) s = (v, wr32 a v s)"
begin

lemma run_series: "known s \<Longrightarrow> run_state (GetPchSeries hw) s = (PchH, s)"
  by (simp add: GetPchSeries_def hwrun known_def)

lemma run_table: "known s \<Longrightarrow> run_state (GpioGetGroupInfoTable hw) s = (mPchGpioGroupInfo, s)"
  by (simp add: GpioGetGroupInfoTable_def GetPchGeneration_def hwrun known_def)

lemma run_wrong_chipset:
  "known s \<Longrightarrow> run_state (wrong_chipset hw p) s =
     (hw_debug_code hw \<and> GPIO_GET_CHIPSET_ID p \<noteq> GPIO_SKL_H_CHIPSET_ID, s)"
  by (simp add: wrong_chipset_def GpioIsCorrectPadForThisChipset_def hwrun run_series)

lemma run_read_slot: "run_state (MmioRead32 hw (slot_addr x)) s = (slots s x, s)"
  by (simp add: rd32 slots_def)

lemma run_write_slot: "run_state (MmioWrite32 hw (slot_addr x) v) s = (v, put_slot x v s)"
  by (simp add: wt32)

lemma run_rmw_slot:
  "run_state (MmioAndThenOr32 hw (slot_addr x) a v) s =
     (slots s x AND a OR v, put_slot x (slots s x AND a OR v) s)"
  by (simp add: MmioAndThenOr32_def hwrun run_read_slot run_write_slot)

lemma run_locked:
  assumes "known s" "pad_ok p"
  shows "run_state (GpioIsPadLocked hw (gi p) (pn p)) s = (pad_locked s p, s)"
  using run_read_slot [of "GroupSlot CfgLockF (gi p)" s] assms
  by (simp add: GpioIsPadLocked_def hwrun run_table slot_addr_def pad_locked_def
      and_one_eq bit_iff_and_drop_bit_eq_1)

lemma run_ownership:
  assumes "known s" "pad_ok p"
  shows "run_state (GpioGetPadOwnership hw p v) s = ((EFI_SUCCESS, pad_owner s p), s)"
  using run_read_slot [of "own_slot p" s] assms pad_slots [OF assms(2)]
  by (simp add: GpioGetPadOwnership_def hwrun run_table slot_addr_def own_slot_def pad_owner_def
      word_less_nat_alt word_le_nat_alt not_le Let_def)

end

interpretation plain_ram: plain_regs "ram_hw dbg" for dbg
  by unfold_locales (simp_all add: hwrun)

interpretation plain_sbi: plain_regs "sbi_hw r" for r
  by unfold_locales (auto simp: hwrun)

end
