(* ===== verification/GpioPads.thy ===== *)
theory GpioPads
  imports GpioRegs
begin

text \<open>
  Properties of the pad configuration functions of GpioLib.c.
\<close>

declare valid_slot.simps [simp del]

section \<open>The configuration register functions on the slots\<close>

definition foreign :: "bool \<Rightarrow> ram sys \<Rightarrow> GPIO_PAD \<Rightarrow> bool" where
  "foreign dbg s p \<longleftrightarrow> dbg \<and> pad_owner s p \<noteq> GpioPadOwnHost"

lemma bit_256: "bit (push_bit 8 1 :: u32) n \<longleftrightarrow> n = 8"
  by (simp only: bit_push_bit_iff) (auto simp: bit_1_iff)

lemma group_of_chip:
  "GPIO_GET_CHIPSET_ID p = GPIO_SKL_H_CHIPSET_ID \<Longrightarrow> GpioGetGroupFromGpioPad p = 0x100 + gi p"
proof -
  assume "GPIO_GET_CHIPSET_ID p = GPIO_SKL_H_CHIPSET_ID"
  then have c: "GPIO_GET_CHIPSET_ID p = 1" by (simp add: regs)
  have m: "(0xFF :: u32) = mask 8" by (simp add: mask_numeral)
  have "GpioGetGroupFromGpioPad p = push_bit 8 (GPIO_GET_CHIPSET_ID p) OR gi p"
    unfolding GpioGetGroupFromGpioPad_def GPIO_GET_CHIPSET_ID_def GpioGetGroupIndexFromGpioPad_def m
    by (rule bit_word_eqI) (auto simp: bit_simps)
  also have "\<dots> = push_bit 8 1 + gi p" unfolding c
    by (rule disjunctive_add [symmetric], unfold bit_256)
      (auto simp: bit_simps GpioGetGroupIndexFromGpioPad_def m)
  finally show ?thesis by simp
qed

lemma group_of_pad: "pad_ok p \<Longrightarrow> GpioGetGroupFromGpioPad p = 0x100 + gi p"
  by (simp add: group_of_chip pad_ok_def)

lemma group_index_bound: "unat (gi p) < 256"
proof -
  have "gi p \<le> 0xFF" unfolding GpioGetGroupIndexFromGpioPad_def by (rule word_and_le1)
  then show ?thesis by (simp add: word_le_nat_alt)
qed

context plain_regs
begin

lemma run_cfg_write:
  assumes "known s" "pad_ok p" "d \<le> 1"
  shows "run_state (GpioReadWritePadCfgReg hw p d Msk True v) s =
    (if (d = 1 \<or> Msk AND NOT B_PCH_GPIO_TX_STATE \<noteq> 0) \<and> pad_locked s p then ((EFI_WRITE_PROTECTED, v), s)
     else if foreign (hw_debug_code hw) s p then ((EFI_UNSUPPORTED, v), s)
     else ((EFI_SUCCESS, v), put_slot (PadSlot (gi p) (pn p) d)
       (slots s (PadSlot (gi p) (pn p) d) AND NOT Msk OR (v AND Msk)) s))"
  using assms pad_slots [OF assms(2)]
  by (simp add: GpioReadWritePadCfgReg_def hwrun run_table run_wrong_chipset run_locked run_ownership
      pad_cfg_reg_slot run_rmw_slot foreign_def pad_ok_def word_less_nat_alt word_le_nat_alt not_le Let_def)

lemma run_cfg_read:
  assumes "known s" "pad_ok p" "d \<le> 1"
  shows "run_state (GpioReadWritePadCfgReg hw p d Msk False v) s =
    (if foreign (hw_debug_code hw) s p then ((EFI_UNSUPPORTED, v), s)
     else ((EFI_SUCCESS, slots s (PadSlot (gi p) (pn p) d) AND Msk), s))"
  using assms pad_slots [OF assms(2)]
  by (simp add: GpioReadWritePadCfgReg_def hwrun run_table run_wrong_chipset run_ownership
      pad_cfg_reg_slot run_read_slot foreign_def pad_ok_def word_less_nat_alt word_le_nat_alt not_le Let_def)

lemma run_pad_config_check:
  assumes "known s" "pad_ok p"
  shows "run_state (pad_config_check hw p) s =
    ((if foreign (hw_debug_code hw) s p then EFI_UNSUPPORTED else EFI_SUCCESS, mPchGpioGroupInfo), s)"
proof -
  have g: "unat (gi p) < 13" using pad_slots(1) [OF assms(2)] by (simp add: word_less_nat_alt)
  then have "unat (0x100 + gi p) = 0x100 + unat (gi p)" by (simp add: unat_word_ariths)
  with g have "\<not> 0x100 + gi p < GpioGetLowestGroup" "\<not> GpioGetHighestGroup < 0x100 + gi p"
    by (simp_all add: GpioGetLowestGroup_def GpioGetHighestGroup_def regs word_less_nat_alt)
  then show ?thesis
    using assms pad_slots [OF assms(2)] group_of_pad [OF assms(2)]
    by (simp add: pad_config_check_def hwrun run_table run_wrong_chipset run_ownership foreign_def
        pad_ok_def word_less_nat_alt word_le_nat_alt not_le Let_def)
qed

end

text \<open>What the two functions compute of the registers, as functions of the map.\<close>

definition read_config :: "(slot \<Rightarrow> u32) \<Rightarrow> GPIO_PAD \<Rightarrow> GPIO_CONFIG" where
  "read_config m p = config_of_regs (m (cfg0 p)) (m (cfg1 p))
     (bit (m (GroupSlot HostOwnF (gi p))) (unat (pn p)))
     (bit (m (GroupSlot CfgLockF (gi p))) (unat (pn p)))
     (bit (m (GroupSlot CfgLockTxF (gi p))) (unat (pn p)))"

definition own_mask :: "GPIO_CONFIG \<Rightarrow> nat \<Rightarrow> u32" where
  "own_mask c n = push_bit n (ucast (HostSoftPadOwn c) AND 0x1)"

definition own_bits :: "GPIO_CONFIG \<Rightarrow> nat \<Rightarrow> u32" where
  "own_bits c n = push_bit n (drop_bit 1 (ucast (HostSoftPadOwn c)))"

definition gpe_mask :: "GPIO_CONFIG \<Rightarrow> nat \<Rightarrow> u32" where
  "gpe_mask c n = push_bit n (ucast (InterruptConfig c) AND 0x1)"

definition gpe_bits :: "GPIO_CONFIG \<Rightarrow> nat \<Rightarrow> u32" where
  "gpe_bits c n = push_bit n (drop_bit 3 (ucast (InterruptConfig c) AND GpioIntSci))"

definition write_config :: "GPIO_PAD \<Rightarrow> GPIO_CONFIG \<Rightarrow> (slot \<Rightarrow> u32) \<Rightarrow> slot \<Rightarrow> u32" where
  "write_config p c m =
     (let n = unat (pn p); H = GroupSlot HostOwnF (gi p); E = GroupSlot GpeEnF (gi p) in
      m(cfg0 p := m (cfg0 p) AND NOT (config_dw0_mask c) OR config_dw0 c,
        cfg1 p := m (cfg1 p) AND NOT (config_dw1_mask c) OR config_dw1 c,
        H := m H AND NOT (own_mask c n) OR own_bits c n,
        E := m E AND NOT (gpe_mask c n) OR gpe_bits c n))"

definition wants_lock :: "GPIO_CONFIG \<Rightarrow> bool" where
  "wants_lock c \<longleftrightarrow> LockConfig c AND 0x3 = 0x3 \<or> LockConfig c AND 0x5 = 0x5"

text \<open>What is left of GpioSetPadConfig when the registers have been written.\<close>

definition config_locks :: "'s hw \<Rightarrow> GPIO_PAD \<Rightarrow> GPIO_CONFIG \<Rightarrow> ('s, efi_status) prog" where
  "config_locks hw p c = do {
     (if LockConfig c AND 0x3 = 0x3 then do {
        _ \<leftarrow> GpioLockPadsUsingSbi hw GpioPadConfigLockRegister False 0 0 0 p True;
        State_Monad.return () }
      else State_Monad.return ());
     (if LockConfig c AND 0x5 = 0x5 then do {
        _ \<leftarrow> GpioLockPadsUsingSbi hw GpioPadLockOutputRegister False 0 0 0 p True;
        State_Monad.return () }
      else State_Monad.return ());
     State_Monad.return EFI_SUCCESS }"

definition same_slots :: "ram sys \<Rightarrow> (slot \<Rightarrow> u32) \<Rightarrow> bool" where
  "same_slots s m \<longleftrightarrow> (\<forall>x. valid_slot x \<longrightarrow> slots s x = m x)"

lemma same_slots_read:
  "same_slots s m \<Longrightarrow> pad_ok p \<Longrightarrow> read_config (slots s) p = read_config m p"
  by (simp add: same_slots_def read_config_def)

context plain_regs
begin

lemma run_GetPadConfig:
  assumes "known s" "pad_ok p"
  shows "run_state (GpioGetPadConfig hw p d) s =
    (if foreign (hw_debug_code hw) s p then (EFI_UNSUPPORTED, d) else (EFI_SUCCESS, read_config (slots s) p), s)"
  using assms run_read_slot [of "GroupSlot HostOwnF (gi p)" s] run_read_slot [of "GroupSlot CfgLockF (gi p)" s]
    run_read_slot [of "GroupSlot CfgLockTxF (gi p)" s]
  by (simp add: GpioGetPadConfig_def hwrun run_pad_config_check pad_cfg_reg_slot run_read_slot
      read_config_def slot_addr_def [of "GroupSlot f g" for f g] Let_def)

lemma run_SetPadConfig_refused:
  assumes "known s" "pad_ok p" "foreign (hw_debug_code hw) s p \<or> pad_locked s p"
  shows "run_state (GpioSetPadConfig hw p c) s =
    (if foreign (hw_debug_code hw) s p then EFI_UNSUPPORTED else EFI_WRITE_PROTECTED, s)"
  using assms by (auto simp: GpioSetPadConfig_def hwrun run_pad_config_check run_locked Let_def)

lemma run_SetPadConfig_writes:
  assumes "known s" "pad_ok p" "\<not> foreign (hw_debug_code hw) s p" "\<not> pad_locked s p"
  shows "\<exists>s'. run_state (GpioSetPadConfig hw p c) s = run_state (config_locks hw p c) s' \<and> known s' \<and>
    same_slots s' (write_config p c (slots s)) \<and>
    (\<exists>w0 w1 h e. s' = put_slot (GroupSlot GpeEnF (gi p)) e (put_slot (GroupSlot HostOwnF (gi p)) h
       (put_slot (cfg1 p) w1 (put_slot (cfg0 p) w0 s))))"
proof -
  let ?H = "GroupSlot HostOwnF (gi p)" and ?E = "GroupSlot GpeEnF (gi p)" and ?n = "unat (pn p)"
  note slot = slot_addr_def [of "GroupSlot f g" for f g]
  define s1 where "s1 = put_slot (cfg0 p) (slots s (cfg0 p) AND NOT (config_dw0_mask c) OR config_dw0 c) s"
  define s2 where "s2 = put_slot (cfg1 p) (slots s1 (cfg1 p) AND NOT (config_dw1_mask c) OR config_dw1 c) s1"
  define s3 where "s3 = put_slot ?H (slots s2 ?H AND NOT (own_mask c ?n) OR own_bits c ?n) s2"
  define s4 where "s4 = put_slot ?E (slots s3 ?E AND NOT (gpe_mask c ?n) OR gpe_bits c ?n) s3"
  have run: "run_state (GpioSetPadConfig hw p c) s = run_state (config_locks hw p c) s4"
    using assms run_rmw_slot [of ?H] run_rmw_slot [of ?E]
    unfolding s4_def s3_def s2_def s1_def
    by (simp add: GpioSetPadConfig_def hwrun run_pad_config_check run_locked pad_cfg_reg_slot run_rmw_slot
        slot own_mask_def own_bits_def gpe_mask_def gpe_bits_def config_locks_def Let_def)
  have "known s4" using assms(1) by (simp add: s4_def s3_def s2_def s1_def)
  moreover have "same_slots s4 (write_config p c (slots s))"
    using assms(2) by (simp add: same_slots_def write_config_def s4_def s3_def s2_def s1_def slots_put Let_def)
  moreover have "\<exists>w0 w1 h e. s4 = put_slot ?E e (put_slot ?H h (put_slot (cfg1 p) w1 (put_slot (cfg0 p) w0 s)))"
    unfolding s4_def s3_def s2_def s1_def by blast
  ultimately show ?thesis using run by blast
qed

lemma run_SetPadConfig:
  assumes "known s" "pad_ok p" "\<not> foreign (hw_debug_code hw) s p" "\<not> pad_locked s p" "\<not> wants_lock c"
  shows "\<exists>s'. run_state (GpioSetPadConfig hw p c) s = (EFI_SUCCESS, s') \<and> known s' \<and>
    same_slots s' (write_config p c (slots s))"
proof -
  have "run_state (config_locks hw p c) t = (EFI_SUCCESS, t)" for t
    using assms(5) by (simp add: config_locks_def wants_lock_def hwrun)
  then show ?thesis using run_SetPadConfig_writes [OF assms(1-4), of c] by auto
qed

end


section \<open>The fields of a configuration\<close>

lemma conf_bits_disjoint:
  "push_bit N (drop_bit (Pos + 1) FMask) AND B = 0 \<Longrightarrow> conf_bits F FMask Pos N AND B = 0"
proof -
  assume z: "push_bit N (drop_bit (Pos + 1) FMask) AND B = 0"
  have "conf_bits F FMask Pos N AND B = conf_bits F FMask Pos N AND (push_bit N (drop_bit (Pos + 1) FMask) AND B)"
    unfolding conf_bits_def by (rule bit_word_eqI) (auto simp: bit_simps)
  with z show ?thesis by simp
qed

lemma conf_bits_inside:
  "push_bit N (drop_bit (Pos + 1) FMask) = B \<Longrightarrow> conf_bits F FMask Pos N AND B = conf_bits F FMask Pos N"
  unfolding conf_bits_def by (rule bit_word_eqI) (auto simp: bit_simps)

lemma conf_mask_disjoint: "B' AND B = 0 \<Longrightarrow> conf_mask F FMask Pos B' AND B = 0"
  by (simp add: conf_mask_def)

lemma conf_mask_inside: "conf_mask F FMask Pos B AND B = conf_mask F FMask Pos B"
  by (simp add: conf_mask_def)

lemma conf_bits_not_given: "\<not> conf_given F FMask Pos \<Longrightarrow> conf_bits F FMask Pos N = 0"
proof -
  assume "\<not> conf_given F FMask Pos"
  then have z: "drop_bit Pos (F AND FMask) = 0" by (simp add: conf_given_def)
  have "drop_bit (Pos + 1) (F AND FMask) = drop_bit 1 (drop_bit Pos (F AND FMask))"
    by (simp only: drop_bit_drop_bit add.commute)
  also have "\<dots> = 0" unfolding z by simp
  finally show ?thesis by (simp add: conf_bits_def)
qed

text \<open>A register word updated with a set of fields, read at one of them.\<close>

lemma updated_field:
  assumes "M AND B = (if g then B else 0)" "V AND B = b" "\<not> g \<Longrightarrow> b = 0"
  shows "(w AND NOT M OR V) AND B = (if g then b else w AND B :: 'a::len word)"
proof -
  have "(w AND NOT M OR V) AND B = (w AND (B AND NOT (M AND B))) OR (V AND B)"
    by (rule bit_word_eqI) (auto simp: bit_simps)
  also have "\<dots> = (if g then b else w AND B)" using assms by (simp add: assms(1,2))
  finally show ?thesis .
qed

text \<open>The place of a field in the register and in the configuration match.\<close>

definition conf_place :: "u32 \<Rightarrow> nat \<Rightarrow> nat \<Rightarrow> bool" where
  "conf_place FMask Pos N \<longleftrightarrow>
     drop_bit (N - (Pos + 1)) (push_bit N (drop_bit (Pos + 1) FMask)) OR push_bit Pos 1 = FMask \<and> Pos < N"

lemma conf_read_written:
  assumes "conf_place FMask Pos N" "bit F Pos"
  shows "drop_bit (N - (Pos + 1)) (conf_bits F FMask Pos N) OR push_bit Pos 1 = F AND FMask"
proof (rule bit_word_eqI)
  fix n assume n: "n < LENGTH(32)"
  from assms(1) have "bit (drop_bit (N - (Pos + 1)) (push_bit N (drop_bit (Pos + 1) FMask)) OR push_bit Pos 1) n
      = bit FMask n" by (simp add: conf_place_def)
  moreover have "Pos < N" using assms(1) by (simp add: conf_place_def)
  ultimately show "bit (drop_bit (N - (Pos + 1)) (conf_bits F FMask Pos N) OR push_bit Pos 1) n = bit (F AND FMask) n"
    using assms(2) n unfolding conf_bits_def by (cases "Pos < n") (auto simp: bit_simps)
qed

lemma conf_read_within:
  assumes "conf_place FMask Pos N" "B = push_bit N (drop_bit (Pos + 1) FMask)"
  shows "conf_read w B N Pos AND FMask = conf_read w B N Pos"
proof (rule bit_word_eqI)
  fix n assume n: "n < LENGTH(32)"
  from assms(1) have "bit (drop_bit (N - (Pos + 1)) (push_bit N (drop_bit (Pos + 1) FMask)) OR push_bit Pos 1) n
      = bit FMask n" by (simp add: conf_place_def)
  then show "bit (conf_read w B N Pos AND FMask) n = bit (conf_read w B N Pos) n"
    using n unfolding conf_read_def assms(2) by (auto simp: bit_simps)
qed


definition pick :: "u32 \<Rightarrow> u32 \<Rightarrow> u32 \<Rightarrow> u32" where
  "pick FMask New Old = (if New AND FMask \<noteq> 0 then New AND FMask else Old AND FMask)"

definition wf_field :: "u32 \<Rightarrow> u32 \<Rightarrow> nat \<Rightarrow> bool" where
  "wf_field F FMask Pos \<longleftrightarrow> (F AND FMask \<noteq> 0 \<longrightarrow> bit F Pos)"

lemma conf_given_iff:
  assumes "conf_place FMask Pos N"
  shows "conf_given F FMask Pos \<longleftrightarrow> F AND FMask \<noteq> 0"
proof
  assume "F AND FMask \<noteq> 0"
  then obtain n where n: "n < 32" "bit F n" "bit FMask n"
    by (auto simp: bit_eq_iff [where 'a = u32] bit_simps dest: bit_imp_le_length)
  from assms have "bit (drop_bit (N - (Pos + 1)) (push_bit N (drop_bit (Pos + 1) FMask)) OR push_bit Pos 1) n"
    using n(3) by (simp add: conf_place_def)
  moreover have "Pos < N" using assms by (simp add: conf_place_def)
  ultimately have "Pos \<le> n" by (auto simp: bit_simps)
  then have "bit (drop_bit Pos (F AND FMask)) (n - Pos)" using n by (simp add: bit_simps)
  then show "conf_given F FMask Pos" unfolding conf_given_def by (metis bit_0_eq bot_apply bot_bool_def)
next
  assume "conf_given F FMask Pos"
  then show "F AND FMask \<noteq> 0" unfolding conf_given_def by (cases "F AND FMask = 0") simp_all
qed

lemma conf_merge:
  assumes place: "conf_place FMask Pos N" and B: "B = push_bit N (drop_bit (Pos + 1) FMask)"
    and wf: "wf_field F FMask Pos"
    and M: "M AND B = conf_mask F FMask Pos B" and V: "V AND B = conf_bits F FMask Pos N"
  shows "conf_read (w AND NOT M OR V) B N Pos = pick FMask F (conf_read w B N Pos)"
proof -
  let ?g = "conf_given F FMask Pos"
  have "(w AND NOT M OR V) AND B = (if ?g then conf_bits F FMask Pos N else w AND B)"
    by (rule updated_field) (simp_all add: M V conf_mask_def conf_bits_not_given)
  then have "conf_read (w AND NOT M OR V) B N Pos =
      (if ?g then drop_bit (N - (Pos + 1)) (conf_bits F FMask Pos N) OR push_bit Pos 1 else conf_read w B N Pos)"
    by (simp add: conf_read_def)
  also have "\<dots> = pick FMask F (conf_read w B N Pos)"
  proof (cases ?g)
    case True
    then have "bit F Pos" using wf conf_given_iff [OF place] by (simp add: wf_field_def)
    from conf_read_written [OF place this] show ?thesis
      using True conf_given_iff [OF place] by (simp add: pick_def)
  next
    case False
    then show ?thesis
      using conf_given_iff [OF place] conf_read_within [OF place B] by (simp add: pick_def)
  qed
  finally show ?thesis .
qed

definition wf_config :: "GPIO_CONFIG \<Rightarrow> bool" where
  "wf_config c \<longleftrightarrow>
     wf_field (ucast (PadMode c)) 0xF 0 \<and> wf_field (ucast (HostSoftPadOwn c)) 0x3 0 \<and>
     wf_field (ucast (Direction c)) 0x7 0 \<and> wf_field (ucast (Direction c)) 0x18 3 \<and>
     wf_field (ucast (OutputState c)) 0x3 0 \<and> wf_field (ucast (InterruptConfig c)) 0xE0 5 \<and>
     wf_field (ucast (InterruptConfig c)) 0x1F 0 \<and> wf_field (ucast (PowerConfig c)) 0x7 0 \<and>
     wf_field (ucast (ElectricalConfig c)) 0x1F 0 \<and> wf_field (ucast (ElectricalConfig c)) 0x60 5 \<and>
     wf_field (ucast (OtherSettings c)) 0x3 0"

lemmas conf_simps = conf_bits_disjoint conf_bits_inside conf_mask_disjoint conf_mask_inside
  bit.conj_disj_distrib2

lemma conf_places [simp]:
  "conf_place 0xF 0 10" "conf_place 0x7 0 8" "conf_place 0x18 3 23" "conf_place 0xE0 5 25"
  "conf_place 0x1F 0 17" "conf_place 0x7 0 30" "conf_place 0x3 0 28"
  "conf_place 0x1F 0 10" "conf_place 0x60 5 25"
  by (simp_all add: conf_place_def)

lemma dw0_merge:
  fixes w :: u32
  assumes "wf_config c" "w' = w AND NOT (config_dw0_mask c) OR config_dw0 c"
  shows "conf_read w' B_PCH_GPIO_PAD_MODE 10 0 = pick 0xF (ucast (PadMode c)) (conf_read w B_PCH_GPIO_PAD_MODE 10 0)"
    and "conf_read w' B_PCH_GPIO_RXTXDIS 8 0 = pick 0x7 (ucast (Direction c)) (conf_read w B_PCH_GPIO_RXTXDIS 8 0)"
    and "conf_read w' B_PCH_GPIO_RXINV 23 3 = pick 0x18 (ucast (Direction c)) (conf_read w B_PCH_GPIO_RXINV 23 3)"
    and "conf_read w' B_PCH_GPIO_RX_LVL_EDG 25 5 = pick 0xE0 (ucast (InterruptConfig c)) (conf_read w B_PCH_GPIO_RX_LVL_EDG 25 5)"
    and "conf_read w' B_PCH_GPIO_RX_ROUTES 17 0 = pick 0x1F (ucast (InterruptConfig c)) (conf_read w B_PCH_GPIO_RX_ROUTES 17 0)"
    and "conf_read w' B_PCH_GPIO_RST_CONF 30 0 = pick 0x7 (ucast (PowerConfig c)) (conf_read w B_PCH_GPIO_RST_CONF 30 0)"
    and "conf_read w' B_PCH_GPIO_RX_RAW1 28 0 = pick 0x3 (ucast (OtherSettings c)) (conf_read w B_PCH_GPIO_RX_RAW1 28 0)"
  unfolding assms(2)
  using assms(1) unfolding wf_config_def
  by (intro conf_merge; simp add: regs config_dw0_mask_def config_dw0_def conf_simps)+


lemma dw1_merge:
  fixes w :: u32
  assumes "wf_config c" "w' = w AND NOT (config_dw1_mask c) OR config_dw1 c"
  shows "conf_read w' B_PCH_GPIO_TERM 10 0 = pick 0x1F (ucast (ElectricalConfig c)) (conf_read w B_PCH_GPIO_TERM 10 0)"
    and "conf_read w' B_PCH_GPIO_PADTOL 25 5 = pick 0x60 (ucast (ElectricalConfig c)) (conf_read w B_PCH_GPIO_PADTOL 25 5)"
  unfolding assms(2)
  using assms(1) unfolding wf_config_def
  by (intro conf_merge; simp add: regs config_dw1_mask_def config_dw1_def conf_simps)+

text \<open>The output state is one bit at the bottom of the register, next to its mark.\<close>

definition tx_read :: "u32 \<Rightarrow> u32" where
  "tx_read w = push_bit 1 (w AND B_PCH_GPIO_TX_STATE) OR 1"

lemma one_bit_field: "F AND 3 \<noteq> 0 \<longrightarrow> bit F 0 \<Longrightarrow> F AND 3 \<noteq> 0 \<Longrightarrow> push_bit 1 (drop_bit 1 (F AND 3)) OR 1 = F AND (3 :: u32)"
proof -
  assume "F AND 3 \<noteq> 0 \<longrightarrow> bit F 0" "F AND 3 \<noteq> 0"
  then have b: "bit F 0" by simp
  have three: "(3 :: u32) = mask 2" by (simp add: mask_numeral)
  show ?thesis unfolding three
  proof (rule bit_word_eqI)
    fix n assume "n < LENGTH(32)"
    with b show "bit (push_bit 1 (drop_bit 1 (F AND mask 2)) OR 1) n = bit (F AND mask 2) n"
      by (cases n) (auto simp: bit_simps simp del: push_bit_Suc)
  qed
qed

lemma tx_disjoint:
  "B_PCH_GPIO_RST_CONF AND B_PCH_GPIO_TX_STATE = 0" "B_PCH_GPIO_RX_LVL_EDG AND B_PCH_GPIO_TX_STATE = 0"
  "B_PCH_GPIO_RX_ROUTES AND B_PCH_GPIO_TX_STATE = 0" "B_PCH_GPIO_RXTXDIS AND B_PCH_GPIO_TX_STATE = 0"
  "B_PCH_GPIO_RXINV AND B_PCH_GPIO_TX_STATE = 0" "B_PCH_GPIO_RX_RAW1 AND B_PCH_GPIO_TX_STATE = 0"
  "B_PCH_GPIO_PAD_MODE AND B_PCH_GPIO_TX_STATE = 0"
  "push_bit 30 (drop_bit (0 + 1) 0x7) AND B_PCH_GPIO_TX_STATE = 0"
  "push_bit 25 (drop_bit (5 + 1) 0xE0) AND B_PCH_GPIO_TX_STATE = 0"
  "push_bit 17 (drop_bit (0 + 1) 0x1F) AND B_PCH_GPIO_TX_STATE = 0"
  "push_bit 8 (drop_bit (0 + 1) 0x7) AND B_PCH_GPIO_TX_STATE = 0"
  "push_bit 23 (drop_bit (3 + 1) 0x18) AND B_PCH_GPIO_TX_STATE = 0"
  "push_bit 28 (drop_bit (0 + 1) 0x3) AND B_PCH_GPIO_TX_STATE = 0"
  "push_bit 10 (drop_bit (0 + 1) 0xF) AND B_PCH_GPIO_TX_STATE = 0"
  "push_bit 0 (drop_bit (0 + 1) 0x3) = B_PCH_GPIO_TX_STATE"
  by (simp_all add: regs)

lemma tx_fields:
  "config_dw0_mask c AND B_PCH_GPIO_TX_STATE =
     (if conf_given (ucast (OutputState c)) 0x3 0 then B_PCH_GPIO_TX_STATE else 0)"
  "config_dw0 c AND B_PCH_GPIO_TX_STATE = conf_bits (ucast (OutputState c)) 0x3 0 0"
  unfolding config_dw0_mask_def config_dw0_def
  by (simp_all only: conf_simps tx_disjoint or.left_neutral or.right_neutral)
    (simp add: conf_mask_def)

lemma tx_merge:
  fixes w :: u32
  assumes "wf_config c" "w' = w AND NOT (config_dw0_mask c) OR config_dw0 c"
  shows "tx_read w' = pick 0x3 (ucast (OutputState c)) (tx_read w)"
proof -
  let ?F = "ucast (OutputState c) :: u32" and ?g = "conf_given (ucast (OutputState c)) 0x3 0"
  have g: "?g \<longleftrightarrow> ?F AND 3 \<noteq> 0" by (simp add: conf_given_def)
  have w: "w' AND B_PCH_GPIO_TX_STATE = (if ?g then conf_bits ?F 0x3 0 0 else w AND B_PCH_GPIO_TX_STATE)"
    unfolding assms(2) by (rule updated_field) (simp_all only: tx_fields, rule conf_bits_not_given)
  have r: "tx_read w AND 3 = tx_read w"
    by (rule bit_word_eqI) (auto simp: tx_read_def regs bit_simps bit_1_iff simp del: push_bit_Suc)
  show ?thesis
  proof (cases ?g)
    case True
    then have F: "?F AND 3 \<noteq> 0" and wf: "?F AND 3 \<noteq> 0 \<longrightarrow> bit ?F 0"
      using g assms(1) unfolding wf_config_def wf_field_def by simp_all
    have "tx_read w' = push_bit 1 (drop_bit 1 (?F AND 3)) OR 1"
      using True unfolding tx_read_def w conf_bits_def by (simp only: if_True push_bit_0_id id_apply add_0)
    then show ?thesis using one_bit_field [OF wf F] F by (simp only: pick_def if_True not_False_eq_True)
  next
    case False
    with g have z: "?F AND 3 = 0" by blast
    from False have "tx_read w' = tx_read w" unfolding tx_read_def w by (simp only: if_False)
    then show ?thesis by (simp only: pick_def z r simp_thms if_False)
  qed
qed


lemma own_merge_mark:
  assumes "wf_config c" "HostSoftPadOwn c \<noteq> 0"
  shows "bit (HostSoftPadOwn c) 0"
proof -
  have three: "(3 :: u32) = mask 2" by (simp add: mask_numeral)
  have "(ucast (HostSoftPadOwn c) :: u32) AND 3 = ucast (HostSoftPadOwn c)" unfolding three
    by (rule bit_word_eqI) (auto simp: bit_simps dest: bit_imp_le_length)
  with assms show ?thesis by (simp add: wf_config_def wf_field_def bit_ucast_iff)
qed

lemma own_merge:
  fixes H :: u32
  assumes "wf_config c" "n < 24"
  shows "bit (H AND NOT (own_mask c n) OR own_bits c n) n = (if HostSoftPadOwn c = 0 then bit H n else bit (HostSoftPadOwn c) 1)"
    and "m \<noteq> n \<Longrightarrow> bit (H AND NOT (own_mask c n) OR own_bits c n) m = bit H m"
proof -
  let ?F = "HostSoftPadOwn c"
  note wf = own_merge_mark [OF assms(1)]
  have z: "bit ?F k \<Longrightarrow> k < 2" for k using bit_imp_le_length [of ?F k] by simp
  show "bit (H AND NOT (own_mask c n) OR own_bits c n) n = (if ?F = 0 then bit H n else bit ?F 1)"
    using assms(2) wf by (auto simp: own_mask_def own_bits_def bit_simps bit_1_iff)
  show "m \<noteq> n \<Longrightarrow> bit (H AND NOT (own_mask c n) OR own_bits c n) m = bit H m"
    using assms(2) z by (auto simp: own_mask_def own_bits_def bit_simps bit_1_iff dest!: z dest: bit_imp_le_length)
qed


text \<open>What a pad reads back as after a configuration: the given fields, and the others as before.\<close>

definition merge_config :: "GPIO_CONFIG \<Rightarrow> GPIO_CONFIG \<Rightarrow> GPIO_CONFIG" where
  "merge_config c old = \<lparr>
     PadMode = ucast (pick 0xF (ucast (PadMode c)) (ucast (PadMode old))),
     HostSoftPadOwn = (if HostSoftPadOwn c = 0 then HostSoftPadOwn old else HostSoftPadOwn c),
     Direction = ucast (pick 0x7 (ucast (Direction c)) (ucast (Direction old)) OR
       pick 0x18 (ucast (Direction c)) (ucast (Direction old))),
     OutputState = ucast (pick 0x3 (ucast (OutputState c)) (ucast (OutputState old))),
     InterruptConfig = ucast (pick 0xE0 (ucast (InterruptConfig c)) (ucast (InterruptConfig old)) OR
       pick 0x1F (ucast (InterruptConfig c)) (ucast (InterruptConfig old))),
     PowerConfig = ucast (pick 0x7 (ucast (PowerConfig c)) (ucast (PowerConfig old))),
     ElectricalConfig = ucast (pick 0x1F (ucast (ElectricalConfig c)) (ucast (ElectricalConfig old)) OR
       pick 0x60 (ucast (ElectricalConfig c)) (ucast (ElectricalConfig old))),
     LockConfig = LockConfig old,
     OtherSettings = ucast (pick 0x3 (ucast (OtherSettings c)) (ucast (OtherSettings old))) \<rparr>"

lemma pick_ucast:
  assumes "FMask AND mask LENGTH('a::len) = FMask"
  shows "pick FMask F (ucast (ucast x :: 'a word)) = pick FMask F x"
proof -
  have "ucast (ucast x :: 'a word) AND FMask = x AND (FMask AND mask LENGTH('a))"
    by (rule bit_word_eqI) (auto simp: bit_simps)
  with assms show ?thesis by (simp add: pick_def)
qed

lemma pick_or:
  "b AND FMask = 0 \<Longrightarrow> pick FMask F (a OR b) = pick FMask F a"
  "a AND FMask = 0 \<Longrightarrow> pick FMask F (a OR b) = pick FMask F b"
  by (simp_all add: pick_def bit.conj_disj_distrib2)

lemma within_disjoint: "x AND FMask = x \<Longrightarrow> FMask AND FMask' = 0 \<Longrightarrow> x AND FMask' = (0 :: u32)"
  by (metis and.assoc and_zero_eq)

lemma reads_within:
  "conf_read w B_PCH_GPIO_RXTXDIS 8 0 AND 0x18 = 0" "conf_read w B_PCH_GPIO_RXINV 23 3 AND 0x7 = 0"
  "conf_read w B_PCH_GPIO_RX_LVL_EDG 25 5 AND 0x1F = 0" "conf_read w B_PCH_GPIO_RX_ROUTES 17 0 AND 0xE0 = 0"
  "conf_read w B_PCH_GPIO_TERM 10 0 AND 0x60 = 0" "conf_read w B_PCH_GPIO_PADTOL 25 5 AND 0x1F = 0"
proof -
  note w = conf_read_within [where w = w]
  show "conf_read w B_PCH_GPIO_RXTXDIS 8 0 AND 0x18 = 0"
    by (rule within_disjoint [OF w [of "0x7"]]) (simp_all add: regs)
  show "conf_read w B_PCH_GPIO_RXINV 23 3 AND 0x7 = 0"
    by (rule within_disjoint [OF w [of "0x18"]]) (simp_all add: regs)
  show "conf_read w B_PCH_GPIO_RX_LVL_EDG 25 5 AND 0x1F = 0"
    by (rule within_disjoint [OF w [of "0xE0"]]) (simp_all add: regs)
  show "conf_read w B_PCH_GPIO_RX_ROUTES 17 0 AND 0xE0 = 0"
    by (rule within_disjoint [OF w [of "0x1F"]]) (simp_all add: regs)
  show "conf_read w B_PCH_GPIO_TERM 10 0 AND 0x60 = 0"
    by (rule within_disjoint [OF w [of "0x1F"]]) (simp_all add: regs)
  show "conf_read w B_PCH_GPIO_PADTOL 25 5 AND 0x1F = 0"
    by (rule within_disjoint [OF w [of "0x60"]]) (simp_all add: regs)
qed

lemma own_value:
  assumes "wf_config c" "HostSoftPadOwn c \<noteq> 0"
  shows "ucast (push_bit 1 (of_bool (bit (HostSoftPadOwn c) 1)) OR 1 :: u32) = HostSoftPadOwn c"
proof (rule bit_word_eqI)
  let ?F = "HostSoftPadOwn c"
  fix n assume "n < LENGTH(2)"
  then have "n = 0 \<or> n = 1" by auto
  moreover have "bit ?F 0" by (rule own_merge_mark [OF assms])
  ultimately show "bit (ucast (push_bit 1 (of_bool (bit ?F 1)) OR 1 :: u32) :: 2 word) n = bit ?F n"
    by (auto simp: bit_simps bit_1_iff simp del: push_bit_Suc)
qed

lemma merge_write:
  assumes "pad_ok p" "wf_config c"
  shows "read_config (write_config p c m) p = merge_config c (read_config m p)"
proof -
  let ?n = "unat (pn p)" and ?H = "GroupSlot HostOwnF (gi p)"
  define w0 where "w0 = m (cfg0 p)"
  define w1 where "w1 = m (cfg1 p)"
  define w0' where "w0' = w0 AND NOT (config_dw0_mask c) OR config_dw0 c"
  define w1' where "w1' = w1 AND NOT (config_dw1_mask c) OR config_dw1 c"
  define L where "L = bit (m (GroupSlot CfgLockF (gi p))) ?n"
  define T where "T = bit (m (GroupSlot CfgLockTxF (gi p))) ?n"
  have own: "HostSoftPadOwn (config_of_regs w0' w1' (bit (m ?H AND NOT (own_mask c ?n) OR own_bits c ?n) ?n) L T)
      = (if HostSoftPadOwn c = 0 then HostSoftPadOwn (config_of_regs w0 w1 (bit (m ?H) ?n) L T) else HostSoftPadOwn c)"
    unfolding own_merge(1) [OF assms(2) pad_slots(3) [OF assms(1)]]
    using own_value [OF assms(2)] by (simp add: config_of_regs_def)
  have l: "read_config (write_config p c m) p =
      config_of_regs w0' w1' (bit (m ?H AND NOT (own_mask c ?n) OR own_bits c ?n) ?n) L T"
    by (simp add: read_config_def write_config_def w0_def w1_def w0'_def w1'_def L_def T_def Let_def)
  have r: "read_config m p = config_of_regs w0 w1 (bit (m ?H) ?n) L T"
    by (simp add: read_config_def w0_def w1_def L_def T_def)
  note d0 = dw0_merge [OF assms(2) w0'_def] and d1 = dw1_merge [OF assms(2) w1'_def]
    and tx = tx_merge [OF assms(2) w0'_def]
  show ?thesis unfolding l r
    by (rule GPIO_CONFIG.equality; simp only: merge_config_def own GPIO_CONFIG.simps;
        simp only: config_of_regs_def d0 d1 tx [unfolded tx_read_def] GPIO_CONFIG.simps;
        simp add: pick_ucast pick_or reads_within mask_numeral)
qed


lemma own_other:
  fixes H :: u32
  assumes "n < 24" "m \<noteq> n"
  shows "bit (H AND NOT (own_mask c n) OR own_bits c n) m = bit H m"
proof -
  have z: "bit (HostSoftPadOwn c) k \<Longrightarrow> k < 2" for k using bit_imp_le_length [of "HostSoftPadOwn c" k] by simp
  show ?thesis
    using assms by (auto simp: own_mask_def own_bits_def bit_simps bit_1_iff dest!: z dest: bit_imp_le_length)
qed

lemma other_write:
  assumes "pad_ok p" "pad_ok q" "p \<noteq> q"
  shows "read_config (write_config p c m) q = read_config m q"
proof -
  have "gi p = gi q \<longrightarrow> pn q \<noteq> pn p" using pad_inj [OF assms(1,2)] assms(3) by auto
  then have n: "gi p = gi q \<longrightarrow> unat (pn q) \<noteq> unat (pn p)" by (auto intro: unsigned_word_eqI)
  show ?thesis
    using n own_other [OF pad_slots(3) [OF assms(1)]]
    by (auto simp: read_config_def write_config_def Let_def)
qed

lemma write_config_owner:
  "same_slots t (write_config p c (slots s)) \<Longrightarrow> pad_ok x \<Longrightarrow> pad_owner t x = pad_owner s x"
proof -
  assume "same_slots t (write_config p c (slots s))" "pad_ok x"
  then have "slots t (own_slot x) = write_config p c (slots s) (own_slot x)" by (simp add: same_slots_def)
  also have "\<dots> = slots s (own_slot x)" by (simp add: write_config_def own_slot_def Let_def)
  finally show ?thesis by (simp add: pad_owner_def Let_def)
qed

text \<open>The enable bit of the general purpose event follows the SCI routing.\<close>

lemma bits_9: "bit (9 :: u32) k \<longleftrightarrow> k = 0 \<or> k = 3"
proof -
  have "(9 :: u32) = push_bit 3 1 OR 1" by simp
  then have "bit (9 :: u32) k \<longleftrightarrow> bit (push_bit 3 1 OR 1 :: u32) k" by simp
  also have "\<dots> \<longleftrightarrow> k = 0 \<or> k = 3" by (simp only: bit_or_iff bit_push_bit_iff) (auto simp: bit_1_iff)
  finally show ?thesis .
qed

lemma gpe_merge:
  fixes E :: u32
  assumes "wf_config c" "n < 24"
  shows "bit (E AND NOT (gpe_mask c n) OR gpe_bits c n) n =
    (if bit (InterruptConfig c) 0 then bit (InterruptConfig c) 3 else bit E n)"
proof -
  have "bit (InterruptConfig c) 3 \<Longrightarrow> bit (InterruptConfig c) 0"
  proof -
    assume b: "bit (InterruptConfig c) 3"
    have "(0x1F :: u32) = mask 5" by (simp add: mask_numeral)
    then have "bit ((ucast (InterruptConfig c) :: u32) AND 0x1F) 3" using b by (simp add: bit_simps)
    then have "(ucast (InterruptConfig c) :: u32) AND 0x1F \<noteq> 0" by (metis bit_0_eq bot_apply bot_bool_def)
    with assms(1) show ?thesis by (simp add: wf_config_def wf_field_def bit_ucast_iff)
  qed
  then show ?thesis
    using assms(2) by (auto simp: gpe_mask_def gpe_bits_def GpioIntSci_def bit_simps bit_1_iff bits_9)
qed

section \<open>Properties of the pad configuration\<close>

text \<open>The same without a lock, on hardware that need not have a sideband, and with the checks of the debug build.\<close>

theorem pad_config_set_get_unlocked:
  assumes "known s" and "pad_ok p" and "\<not> foreign dbg s p" and "\<not> pad_locked s p"
    and "wf_config c" and "\<not> wants_lock c"
    and "run_state (GpioSetPadConfig (ram_hw dbg) p c) s = (st, s')"
    and "fst (run_state (GpioGetPadConfig (ram_hw dbg) p d) s) = (EFI_SUCCESS, old)"
    and "pad_ok q" and "q \<noteq> p"
  shows "st = EFI_SUCCESS
    \<and> fst (run_state (GpioGetPadConfig (ram_hw dbg) p d) s') = (EFI_SUCCESS, merge_config c old)
    \<and> fst (run_state (GpioGetPadConfig (ram_hw dbg) q d) s') = fst (run_state (GpioGetPadConfig (ram_hw dbg) q d) s)
    \<and> bit (slots s' (GroupSlot GpeEnF (gi p))) (unat (pn p)) =
        (if bit (InterruptConfig c) 0 then bit (InterruptConfig c) 3
         else bit (slots s (GroupSlot GpeEnF (gi p))) (unat (pn p)))"
proof -
  obtain t where t: "run_state (GpioSetPadConfig (ram_hw dbg) p c) s = (EFI_SUCCESS, t)" "known t"
    "same_slots t (write_config p c (slots s))"
    using plain_ram.run_SetPadConfig [of s p dbg c] assms by (auto simp: hwrun)
  with assms(7) have s': "st = EFI_SUCCESS" "s' = t" by simp_all
  have f: "foreign dbg t x = foreign dbg s x" if "pad_ok x" for x
    using write_config_owner [OF t(3) that] by (simp add: foreign_def)
  have "read_config (slots t) p = merge_config c (read_config (slots s) p)"
    using same_slots_read [OF t(3) assms(2)] merge_write [OF assms(2,5)] by simp
  moreover have "read_config (slots t) q = read_config (slots s) q"
    using same_slots_read [OF t(3) assms(9)] other_write [OF assms(2,9)] assms(10) by simp
  moreover have "old = read_config (slots s) p"
    using assms(3,8) plain_ram.run_GetPadConfig [OF assms(1,2), of dbg d] by (simp add: hwrun)
  moreover have "slots t (GroupSlot GpeEnF (gi p)) = slots s (GroupSlot GpeEnF (gi p)) AND
      NOT (gpe_mask c (unat (pn p))) OR gpe_bits c (unat (pn p))"
    using t(3) assms(2) by (simp add: same_slots_def write_config_def Let_def)
  ultimately show ?thesis
    using s' f assms gpe_merge [OF assms(5) pad_slots(3) [OF assms(2)]]
      plain_ram.run_GetPadConfig [OF t(2) assms(2), of dbg d]
      plain_ram.run_GetPadConfig [OF t(2) assms(9), of dbg d]
      plain_ram.run_GetPadConfig [OF assms(1,9), of dbg d]
    by (simp add: hwrun)
qed


text \<open>GpioSetOutputValue changes bit 0 of DW0 of its pad and no other bit of any register of
  the library, and GpioGetOutputValue returns the value set.\<close>

theorem pad_output_value:
  assumes "known s" and "pad_ok p" and "\<not> foreign dbg s p"
    and "run_state (GpioSetOutputValue (ram_hw dbg) p v) s = (st, s')"
  shows "st = EFI_SUCCESS
    \<and> fst (run_state (GpioGetOutputValue (ram_hw dbg) p d) s') = (EFI_SUCCESS, v AND 1)
    \<and> slots s' (cfg0 p) AND NOT 1 = slots s (cfg0 p) AND NOT 1
    \<and> (\<forall>x. valid_slot x \<and> x \<noteq> cfg0 p \<longrightarrow> slots s' x = slots s x)"
proof -
  let ?w = "slots s (cfg0 p) AND NOT B_PCH_GPIO_TX_STATE OR (v AND B_PCH_GPIO_TX_STATE)"
  have s': "st = EFI_SUCCESS" "s' = put_slot (cfg0 p) ?w s"
    using assms plain_ram.run_cfg_write [OF assms(1,2), of 0 dbg B_PCH_GPIO_TX_STATE v]
    by (simp_all add: GpioSetOutputValue_def hwrun)
  have k: "known s'" using assms(1) s' by simp
  have o': "slots s' (own_slot p) = slots s (own_slot p)"
    unfolding s' using assms(2) by (simp add: slots_put) (simp add: own_slot_def)
  then have f: "\<not> foreign dbg s' p" using assms(3) by (simp add: foreign_def pad_owner_def Let_def)
  have w: "slots s' (cfg0 p) = ?w" unfolding s' using assms(2) by (simp add: slots_put)
  have "fst (run_state (GpioGetOutputValue (ram_hw dbg) p d) s') = (EFI_SUCCESS, ?w AND B_PCH_GPIO_TX_STATE)"
    using plain_ram.run_cfg_read [OF k assms(2), of 0 dbg B_PCH_GPIO_TX_STATE d] f w
    by (simp add: GpioGetOutputValue_def hwrun)
  moreover have "?w AND B_PCH_GPIO_TX_STATE = v AND 1"
    using and_not_or_field [of "slots s (cfg0 p)" B_PCH_GPIO_TX_STATE v] by (simp add: regs)
  moreover have "?w AND NOT 1 = slots s (cfg0 p) AND NOT 1"
    using and_not_or_outside [of "slots s (cfg0 p)" B_PCH_GPIO_TX_STATE v] by (simp add: regs)
  moreover have "\<forall>x. valid_slot x \<and> x \<noteq> cfg0 p \<longrightarrow> slots s' x = slots s x"
    unfolding s' using assms(2) by (simp add: slots_put)
  ultimately show ?thesis using s'(1) w by (simp only: simp_thms)
qed

section \<open>The registers of the groups, one pad at a time\<close>

fun reg_field :: "GPIO_REG \<Rightarrow> group_field" where
  "reg_field GpioHostOwnershipRegister = HostOwnF"
| "reg_field GpioGpeEnableRegister = GpeEnF"
| "reg_field GpioSmiEnableRegister = SmiEnF"
| "reg_field GpioNmiEnableRegister = NmiEnF"
| "reg_field GpioPadConfigLockRegister = CfgLockF"
| "reg_field GpioPadLockOutputRegister = CfgLockTxF"

lemma reg_offset_field: "reg_offset R i = field_offset (reg_field R) i"
  by (cases R) simp_all

text \<open>A group has at most 24 pads: the double word of a pad is the first one.\<close>

lemma pad_dword [simp]:
  assumes "pad_ok p"
  shows "drop_bit 5 (pn p) = 0" "pn p mod 32 = pn p" "drop_bit 5 (PadPerGroup (row (gi p)) - 1) = 0"
proof -
  have n: "unat (pn p) < 24" using assms by simp
  show "drop_bit 5 (pn p) = 0"
    unfolding word_unat_eq_iff using n by (simp add: drop_bit_eq_div unat_div)
  show "pn p mod 32 = pn p"
    unfolding word_unat_eq_iff using n by (simp add: unat_mod)
  have "unat (PadPerGroup (row (gi p)) - 1) < 32"
  proof -
    have "pn p < PadPerGroup (row (gi p))" using assms by simp
    then have "1 \<le> PadPerGroup (row (gi p))" by (simp add: word_le_nat_alt word_less_nat_alt)
    moreover have "unat (PadPerGroup (row (gi p))) \<le> 24"
      using pads_of_row [of "gi p"] assms by (simp add: word_le_nat_alt)
    ultimately show ?thesis by (simp add: Word.unat_sub word_le_nat_alt)
  qed
  then show "drop_bit 5 (PadPerGroup (row (gi p)) - 1) = 0"
    unfolding word_unat_eq_iff by (simp add: drop_bit_eq_div unat_div)
qed


lemma group_index_of_pad: "pad_ok p \<Longrightarrow> GpioGetGroupIndexFromGroup (GpioGetGroupFromGpioPad p) = gi p"
  by (simp add: GpioGetGroupIndexFromGroup_def GpioGetGroupFromGpioPad_def GpioGetGroupIndexFromGpioPad_def)

context plain_regs
begin

lemma run_reg_pad:
  assumes "known s" "pad_ok p" "valid_slot (GroupSlot (reg_field R) (gi p))"
  shows "run_state (GpioReadWriteReg hw R G D p True True v) s =
    ((EFI_SUCCESS, v), put_slot (GroupSlot (reg_field R) (gi p))
       (slots s (GroupSlot (reg_field R) (gi p)) AND NOT (push_bit (unat (pn p)) 1)
        OR (push_bit (unat (pn p)) v AND push_bit (unat (pn p)) 1)) s)"
  and "run_state (GpioReadWriteReg hw R G D p False True v) s =
    ((EFI_SUCCESS, drop_bit (unat (pn p)) (slots s (GroupSlot (reg_field R) (gi p)) AND push_bit (unat (pn p)) 1)), s)"
proof -
  let ?X = "GroupSlot (reg_field R) (gi p)"
  have "field_offset (reg_field R) (row (gi p)) \<noteq> NOREG" using assms(3) by (simp add: valid_slot.simps)
  then show "run_state (GpioReadWriteReg hw R G D p True True v) s =
    ((EFI_SUCCESS, v), put_slot (GroupSlot (reg_field R) (gi p))
       (slots s (GroupSlot (reg_field R) (gi p)) AND NOT (push_bit (unat (pn p)) 1)
        OR (push_bit (unat (pn p)) v AND push_bit (unat (pn p)) 1)) s)"
    and "run_state (GpioReadWriteReg hw R G D p False True v) s =
    ((EFI_SUCCESS, drop_bit (unat (pn p)) (slots s (GroupSlot (reg_field R) (gi p)) AND push_bit (unat (pn p)) 1)), s)"
    using assms pad_slots [OF assms(2)] run_rmw_slot [of ?X] run_read_slot [of ?X s]
    by (simp_all add: GpioReadWriteReg_def hwrun run_table run_wrong_chipset reg_offset_field
        slot_addr_def [of "GroupSlot f g" for f g] pad_ok_def word_less_nat_alt word_le_nat_alt not_le Let_def)
qed

lemma run_reg_group:
  assumes "known s" "pad_ok p" "valid_slot (GroupSlot (reg_field R) (gi p))"
  shows "run_state (GpioReadWriteReg hw R (GpioGetGroupFromGpioPad p) 0 q False False v) s =
    ((EFI_SUCCESS, slots s (GroupSlot (reg_field R) (gi p))), s)"
proof -
  let ?X = "GroupSlot (reg_field R) (gi p)"
  have "field_offset (reg_field R) (row (gi p)) \<noteq> NOREG" using assms(3) by (simp add: valid_slot.simps)
  then show ?thesis
    using assms pad_slots [OF assms(2)] run_read_slot [of ?X s] group_index_of_pad [OF assms(2)]
    by (simp add: GpioReadWriteReg_def hwrun run_table reg_offset_field
        slot_addr_def [of "GroupSlot f g" for f g] word_less_nat_alt word_le_nat_alt not_le Let_def)
qed

end

text \<open>C39: On a pad whose configuration is locked, owned by the host in the debug build,
  GpioSetPadConfig, GpioSetInputInversion, GpioSetGpiRoutSci and GpioSetGpiRoutSmi are refused
  with EFI_WRITE_PROTECTED, and so are GpioSetPadResetConfig, GpioSetPadElectricalConfig and
  GpioSetPadInterruptConfig for any field that they are given, with the state unchanged; except
  that GpioSetPadInterruptConfig with a routing still programs the GPE enable bit of the pad,
  and nothing else, and returns EFI_SUCCESS. The output value may be set.\<close>

theorem pad_locked_protects:
  assumes "known s" and "pad_ok p" and "\<not> foreign dbg s p" and "pad_locked s p"
  shows "run_state (GpioSetPadConfig (ram_hw dbg) p c) s = (EFI_WRITE_PROTECTED, s)
    \<and> run_state (GpioSetInputInversion (ram_hw dbg) p v) s = (EFI_WRITE_PROTECTED, s)
    \<and> run_state (GpioSetGpiRoutSci (ram_hw dbg) p v) s = (EFI_WRITE_PROTECTED, s)
    \<and> run_state (GpioSetGpiRoutSmi (ram_hw dbg) p v) s = (EFI_WRITE_PROTECTED, s)
    \<and> run_state (GpioSetPadResetConfig (ram_hw dbg) p v) s =
        (if conf_given v 0x7 0 then EFI_WRITE_PROTECTED else EFI_SUCCESS, s)
    \<and> run_state (GpioSetPadElectricalConfig (ram_hw dbg) p v) s =
        (if conf_given v 0x1F 0 \<or> conf_given v 0x60 5 then EFI_WRITE_PROTECTED else EFI_SUCCESS, s)
    \<and> run_state (GpioSetPadInterruptConfig (ram_hw dbg) p v) s =
        (if conf_given v 0x1F 0 then (EFI_SUCCESS, put_slot (GroupSlot GpeEnF (gi p))
           (slots s (GroupSlot GpeEnF (gi p)) AND NOT (push_bit (unat (pn p)) 1)
            OR (if v AND GpioIntSci = GpioIntSci then push_bit (unat (pn p)) 1 else 0)) s)
         else (if conf_given v 0xE0 5 then EFI_WRITE_PROTECTED else EFI_SUCCESS, s))
    \<and> fst (run_state (GpioSetOutputValue (ram_hw dbg) p v) s) = EFI_SUCCESS"
proof -
  note cfg = plain_ram.run_cfg_write [OF assms(1,2), of 0 dbg] plain_ram.run_cfg_write [OF assms(1,2), of 1 dbg]
  note gpe = plain_ram.run_reg_pad(1) [OF assms(1,2), where R = GpioGpeEnableRegister, unfolded reg_field.simps]
  have valid: "valid_slot (GroupSlot GpeEnF (gi p))" using assms(2) by simp
  have "run_state (GpioSetPadInterruptConfig (ram_hw dbg) p v) s =
        (if conf_given v 0x1F 0 then (EFI_SUCCESS, put_slot (GroupSlot GpeEnF (gi p))
           (slots s (GroupSlot GpeEnF (gi p)) AND NOT (push_bit (unat (pn p)) 1)
            OR (if v AND GpioIntSci = GpioIntSci then push_bit (unat (pn p)) 1 else 0)) s)
         else (if conf_given v 0xE0 5 then EFI_WRITE_PROTECTED else EFI_SUCCESS, s))"
    using assms cfg gpe [OF valid]
    by (simp add: GpioSetPadInterruptConfig_def hwrun Let_def) (simp add: regs)
  moreover note plain_ram.run_SetPadConfig_refused [OF assms(1,2), of dbg c]
  ultimately show ?thesis
    using assms cfg
    by (simp add: GpioSetInputInversion_def GpioSetPadResetConfig_def GpioSetPadElectricalConfig_def
        GpioSetGpiRoutSci_def GpioSetGpiRoutSmi_def GpioSetOutputValue_def hwrun) (simp add: regs)
qed

text \<open>GpioSetHostSwOwnershipForPad sets the ownership bit of its pad, which
  GpioGetHostSwOwnershipForPad returns, and no other pad's.\<close>

theorem host_ownership_set_get:
  assumes "known s" and "pad_ok p" and "pad_ok q"
    and "run_state (GpioSetHostSwOwnershipForPad (ram_hw dbg) p v) s = (st, s')"
  shows "st = EFI_SUCCESS
    \<and> fst (run_state (GpioGetHostSwOwnershipForPad (ram_hw dbg) p d) s') = (EFI_SUCCESS, v AND 1)
    \<and> (q \<noteq> p \<longrightarrow> fst (run_state (GpioGetHostSwOwnershipForPad (ram_hw dbg) q d) s')
        = fst (run_state (GpioGetHostSwOwnershipForPad (ram_hw dbg) q d) s))"
proof -
  let ?X = "\<lambda>p. GroupSlot HostOwnF (gi p)" and ?n = "\<lambda>p. unat (pn p)"
  let ?w = "slots s (?X p) AND NOT (push_bit (?n p) 1) OR (push_bit (?n p) v AND push_bit (?n p) 1)"
  have valid: "valid_slot (?X x)" if "pad_ok x" for x using that by simp
  note run = plain_ram.run_reg_pad [where R = GpioHostOwnershipRegister, unfolded reg_field.simps]
  have s': "st = EFI_SUCCESS" "s' = put_slot (?X p) ?w s"
    using assms run(1) [OF assms(1,2) valid [OF assms(2)], of dbg 0 0 v]
    by (simp_all add: GpioSetHostSwOwnershipForPad_def hwrun)
  have k: "known s'" using assms(1) s' by simp
  have get: "fst (run_state (GpioGetHostSwOwnershipForPad (ram_hw dbg) x d) u) =
      (EFI_SUCCESS, drop_bit (?n x) (slots u (?X x) AND push_bit (?n x) 1))" if "known u" "pad_ok x" for u x
    using run(2) [OF that valid [OF that(2)], of dbg 0 0 d] by (simp add: GpioGetHostSwOwnershipForPad_def)
  have n: "?n x < 24" if "pad_ok x" for x using that by simp
  have P1: "drop_bit (?n p) (?w AND push_bit (?n p) 1) = v AND 1"
    by (rule bit_word_eqI) (use n [OF assms(2)] in \<open>auto simp: bit_simps bit_1_iff\<close>)
  have P2: "slots s' (?X q) AND push_bit (?n q) 1 = slots s (?X q) AND push_bit (?n q) 1" if "q \<noteq> p"
  proof (cases "gi q = gi p")
    case True
    then have "?n q \<noteq> ?n p" using pad_inj [OF assms(3,2)] that by (auto intro: unsigned_word_eqI)
    moreover have "slots s' (?X q) = ?w" unfolding s' using assms(2,3) True by (simp add: slots_put)
    ultimately show ?thesis using True
      by (intro bit_word_eqI) (auto simp: bit_simps bit_1_iff)
  next
    case False
    then have "slots s' (?X q) = slots s (?X q)" unfolding s' using assms(2,3) by (simp add: slots_put)
    then show ?thesis by simp
  qed
  have P3: "slots s' (?X p) = ?w" unfolding s' using assms(2) by (simp add: slots_put)
  show ?thesis
    unfolding get [OF k assms(2)] get [OF k assms(3)] get [OF assms(1,3)] P3 P1
    by (intro conjI impI) (simp_all only: s'(1) P2 simp_thms)
qed


section \<open>Pads that the chip does not have\<close>

text \<open>A pad number of the right chipset whose group or pad number is beyond the table is
  refused with EFI_INVALID_PARAMETER by the pad functions, with the state and the caller's data
  unchanged.\<close>

theorem unknown_pad_refused:
  assumes "known s" and "GPIO_GET_CHIPSET_ID p = GPIO_SKL_H_CHIPSET_ID" and "\<not> pad_ok p"
  shows "run_state (GpioSetOutputValue (ram_hw dbg) p v) s = (EFI_INVALID_PARAMETER, s)
    \<and> run_state (GpioGetOutputValue (ram_hw dbg) p d) s = ((EFI_INVALID_PARAMETER, d), s)
    \<and> run_state (GpioGetPadOwnership (ram_hw dbg) p d) s = ((EFI_INVALID_PARAMETER, d), s)
    \<and> run_state (GpioSetHostSwOwnershipForPad (ram_hw dbg) p v) s = (EFI_INVALID_PARAMETER, s)
    \<and> run_state (GpioLockPadCfg (ram_hw dbg) p) s = (EFI_INVALID_PARAMETER, s)
    \<and> run_state (GpioClearGpiSmiSts (ram_hw dbg) p) s = (EFI_INVALID_PARAMETER, s)
    \<and> run_state (GpioGetGpeNumber (ram_hw dbg) p d) s = ((EFI_INVALID_PARAMETER, d), s)
    \<and> run_state (GpioSetPadConfig (ram_hw False) p c) s = (EFI_INVALID_PARAMETER, s)"
proof -
  have np: "13 \<le> unat (gi p) \<or> (unat (gi p) < 13 \<and> PadPerGroup (row (gi p)) \<le> pn p)"
    using assms(2,3) by (auto simp: pad_ok_def valid_pos_def word_less_nat_alt word_le_nat_alt)
  note tab = plain_ram.run_table [OF assms(1)] and wrong = plain_ram.run_wrong_chipset [OF assms(1)]
  have cfg: "run_state (GpioReadWritePadCfgReg (ram_hw dbg) p 0 m w x) s = ((EFI_INVALID_PARAMETER, x), s)" for m w x
    using np assms(2) by (auto simp: GpioReadWritePadCfgReg_def hwrun tab wrong Let_def)
  have reg: "run_state (GpioReadWriteReg (ram_hw dbg) GpioHostOwnershipRegister 0 0 p w True x) s
      = ((EFI_INVALID_PARAMETER, x), s)" for w x
    using np assms(2) by (auto simp: GpioReadWriteReg_def hwrun tab wrong Let_def)
  have own: "run_state (GpioGetPadOwnership (ram_hw b) p x) s = ((EFI_INVALID_PARAMETER, x), s)" for b x
    using np by (auto simp: GpioGetPadOwnership_def hwrun tab Let_def)
  have lock: "run_state (GpioLockPadCfg (ram_hw dbg) p) s = (EFI_INVALID_PARAMETER, s)"
    using np assms(2) by (auto simp: GpioLockPadCfg_def GpioLockPadsUsingSbi_def hwrun tab wrong Let_def)
  have sts: "run_state (GpioClearGpiSmiSts (ram_hw dbg) p) s = (EFI_INVALID_PARAMETER, s)"
    using np assms(2) by (auto simp: GpioClearGpiSmiSts_def pad_in_table_def hwrun tab wrong Let_def)
  have gpe: "run_state (GpioGetGpeNumber (ram_hw dbg) p d) s = ((EFI_INVALID_PARAMETER, d), s)"
    using np assms(2) by (auto simp: GpioGetGpeNumber_def hwrun tab wrong Let_def regs word_less_nat_alt
        GpioGetHighestGroup_def GpioGetLowestGroup_def GpioGetGroupIndexFromGroup_def)
  have "unat (0x100 + gi p) = 0x100 + unat (gi p)" using group_index_bound [of p] by (simp add: unat_word_ariths)
  then have set_cfg: "run_state (GpioSetPadConfig (ram_hw False) p c) s = (EFI_INVALID_PARAMETER, s)"
    using np group_of_chip [OF assms(2)]
    by (auto simp: GpioSetPadConfig_def pad_config_check_def wrong_chipset_def hwrun tab Let_def regs
        word_less_nat_alt GpioGetHighestGroup_def GpioGetLowestGroup_def)
  show ?thesis
    using cfg reg own lock sts gpe set_cfg
    by (simp add: GpioSetOutputValue_def GpioGetOutputValue_def GpioSetHostSwOwnershipForPad_def hwrun)
qed

section \<open>Witnesses\<close>

definition ready_pch :: "ram sys" where
  "ready_pch = (boot blank)\<lparr> mPchSeries := PchH, mPchGeneration := SklPch \<rparr>"

lemma ready_pch_facts [simp]:
  "known ready_pch" "slots ready_pch x = 0" "pad_owner ready_pch p = 0" "\<not> pad_locked ready_pch p"
  "\<not> foreign dbg ready_pch p"
  by (simp_all add: ready_pch_def known_def slots_def pad_owner_def pad_locked_def foreign_def regs)

lemma pads_ok [simp]: "pad_ok 0x01010003" "pad_ok 0x01010004" "pad_ok 0x01040000"
  by (simp_all add: pad_ok_def GPIO_GET_CHIPSET_ID_def GpioGetGroupIndexFromGpioPad_def
      GpioGetPadNumberFromGpioPad_def valid_pos_def rows regs)

definition an_output :: GPIO_CONFIG where
  "an_output = \<lparr> PadMode = 1, HostSoftPadOwn = 3, Direction = 5, OutputState = 3, InterruptConfig = 0x29,
     PowerConfig = 3, ElectricalConfig = 0x13, LockConfig = 0, OtherSettings = 1 \<rparr>"

lemma an_output_facts: "wf_config an_output" "\<not> wants_lock an_output"
  by (simp_all add: an_output_def wf_config_def wf_field_def wants_lock_def)

theorem pad_config_set_get_unlocked_witness:
  "fst (run_state (GpioGetPadConfig (ram_hw True) 0x01010003 an_output)
     (snd (run_state (GpioSetPadConfig (ram_hw True) 0x01010003 an_output) ready_pch)))
   = (EFI_SUCCESS, an_output\<lparr> Direction := 0xD, ElectricalConfig := 0x33, LockConfig := 1 \<rparr>)"
proof -
  have old: "fst (run_state (GpioGetPadConfig (ram_hw True) 0x01010003 an_output) ready_pch)
      = (EFI_SUCCESS, config_of_regs 0 0 False False False)"
    by (simp add: plain_ram.run_GetPadConfig read_config_def)
  show ?thesis
    using pad_config_set_get_unlocked [OF _ _ _ _ an_output_facts surjective_pairing old, of "0x01010004"]
    by simp (simp add: merge_config_def an_output_def config_of_regs_def conf_read_def pick_def regs)
qed



theorem pad_output_value_witness:
  "fst (run_state (GpioGetOutputValue (ram_hw True) 0x01010003 7)
     (snd (run_state (GpioSetOutputValue (ram_hw True) 0x01010003 3) ready_pch))) = (EFI_SUCCESS, 1)"
  using pad_output_value [of ready_pch "0x01010003" True 3, OF _ _ _ surjective_pairing, of 7] by simp

definition locked_pch :: "ram sys" where
  "locked_pch = put_slot (GroupSlot CfgLockF 1) 0x8 ready_pch"

lemma bit_8: "bit (8 :: u32) n \<longleftrightarrow> n = 3"
proof -
  have "(8 :: u32) = push_bit 3 1" by simp
  then show ?thesis by (simp only: bit_push_bit_iff) (auto simp: bit_1_iff)
qed

lemma locked_pch_facts: "known locked_pch" "pad_locked locked_pch 0x01010003" "\<not> foreign dbg locked_pch 0x01010003"
proof -
  have v: "valid_slot (GroupSlot CfgLockF 1)" using pad_slots(9) [OF pads_ok(1)]
    by (simp add: GpioGetGroupIndexFromGpioPad_def)
  show "known locked_pch" by (simp add: locked_pch_def)
  show "pad_locked locked_pch 0x01010003"
    using v by (simp add: pad_locked_def locked_pch_def slots_put GpioGetGroupIndexFromGpioPad_def
        GpioGetPadNumberFromGpioPad_def bit_8)
  have "slots locked_pch (own_slot 0x01010003) = slots ready_pch (own_slot 0x01010003)"
    unfolding locked_pch_def using v pad_slots(6) [OF pads_ok(1)]
    by (simp add: slots_put) (simp add: own_slot_def)
  then show "\<not> foreign dbg locked_pch 0x01010003" by (simp add: foreign_def pad_owner_def regs)
qed

theorem pad_locked_protects_witness:
  "run_state (GpioSetPadResetConfig (ram_hw True) 0x01010003 5) locked_pch = (EFI_WRITE_PROTECTED, locked_pch)
   \<and> fst (run_state (GpioSetPadInterruptConfig (ram_hw True) 0x01010003 9) locked_pch) = EFI_SUCCESS"
proof -
  have "conf_given 5 0x7 0" "conf_given 9 0x1F 0"
    by (simp_all add: conf_given_def)
  with pad_locked_protects [OF locked_pch_facts(1) pads_ok(1) locked_pch_facts(3,2), of True _ 5]
    pad_locked_protects [OF locked_pch_facts(1) pads_ok(1) locked_pch_facts(3,2), of True _ 9]
  show ?thesis by simp
qed

theorem host_ownership_set_get_witness:
  "let s' = snd (run_state (GpioSetHostSwOwnershipForPad (ram_hw True) 0x01010003 1) ready_pch) in
   fst (run_state (GpioGetHostSwOwnershipForPad (ram_hw True) 0x01010003 7) s') = (EFI_SUCCESS, 1)
   \<and> fst (run_state (GpioGetHostSwOwnershipForPad (ram_hw True) 0x01010004 7) s')
     = fst (run_state (GpioGetHostSwOwnershipForPad (ram_hw True) 0x01010004 7) ready_pch)"
  using host_ownership_set_get [OF ready_pch_facts(1) pads_ok(1) pads_ok(2) surjective_pairing, of True 1 7]
  by (simp add: Let_def)

theorem unknown_pad_refused_witness:
  "run_state (GpioSetOutputValue (ram_hw True) 0x0104000D 1) ready_pch = (EFI_INVALID_PARAMETER, ready_pch)"
proof -
  have "\<not> pad_ok 0x0104000D" "GPIO_GET_CHIPSET_ID 0x0104000D = GPIO_SKL_H_CHIPSET_ID"
    by (simp_all add: pad_ok_def GPIO_GET_CHIPSET_ID_def GpioGetGroupIndexFromGpioPad_def
        GpioGetPadNumberFromGpioPad_def valid_pos_def rows regs)
  then show ?thesis using unknown_pad_refused [OF ready_pch_facts(1), of "0x0104000D" True 1] by blast
qed

end
