(* ===== verification/GpioLock.thy ===== *)
theory GpioLock
  imports GpioPads
begin

text \<open>
  Locking pads: the lock registers are changed by sideband messages, on a bridge whose endpoint
  writes a lock register when a GPIO lock/unlock message names it.
\<close>

section \<open>The endpoint of the GPIO communities\<close>

definition lock_endpoint :: responder where
  "lock_endpoint m d =
     (if drop_bit 8 (m_stat m) = 0x13 then
        (0, m_data m, d\<lparr> mem := storew 4 (mem d)
           (PCH_PCR_ADDRESS (ucast (drop_bit 24 (m_addr m))) (ucast (m_addr m))) (m_data m) \<rparr>)
      else (0, 0, d))"

text \<open>A PCR access ends below 0xFF000000, far from the P2SB page.\<close>

lemma PCR_byte_outside:
  assumes "i < 4"
  shows "\<not> in_p2sb (PCH_PCR_ADDRESS Pid Offset + of_nat i)"
proof -
  let ?a = "PCH_PCR_ADDRESS Pid Offset"
  have a: "0xFD000000 \<le> unat ?a" "unat ?a < 0xFE000000"
    using unsigned_less [of Pid, where 'a = nat] unsigned_less [of Offset, where 'a = nat]
    by (simp_all add: unat_PCR)
  then have s: "unat (?a + of_nat i) = unat ?a + i" using assms by (intro unat_offset) simp
  then have "unat (?a + of_nat i - 0x800F9000) = unat ?a + i - 0x800F9000"
    using a by (subst unat_sub) simp_all
  with a s show ?thesis by (simp add: in_p2sb_def)
qed

lemma in_p2sb_PCR_apart: "in_p2sb b \<Longrightarrow> apart (PCH_PCR_ADDRESS Pid Offset) 4 b (Suc 0)"
proof -
  assume "in_p2sb b"
  let ?a = "PCH_PCR_ADDRESS Pid Offset"
  have "unat b < 0x800FA000"
  proof -
    have "unat b = unat ((b - 0x800F9000) + 0x800F9000)" by simp
    also have "\<dots> = unat (b - 0x800F9000) + 0x800F9000"
      using \<open>in_p2sb b\<close> by (subst unat_word_ariths) (simp add: in_p2sb_def)
    finally show ?thesis using \<open>in_p2sb b\<close> by (simp add: in_p2sb_def)
  qed
  moreover have "0xFD000000 \<le> unat ?a" "unat ?a < 0xFE000000"
    using unsigned_less [of Pid, where 'a = nat] unsigned_less [of Offset, where 'a = nat]
    by (simp_all add: unat_PCR)
  ultimately show ?thesis by (intro apart_above) simp_all
qed

lemma lock_endpoint_outside [simp]: "outside_p2sb lock_endpoint"
  by (auto simp: outside_p2sb_def lock_endpoint_def storew_apart_byte in_p2sb_PCR_apart)

lemma lock_request:
  "drop_bit 8 (m_stat (sbi_request Pid Offset GpioLockUnlock Posted Fbe Bar Fid v Stat)) = 0x13"
  "m_data (sbi_request Pid Offset GpioLockUnlock Posted Fbe Bar Fid v Stat) = v"
  "ucast (drop_bit 24 (m_addr (sbi_request Pid Offset GpioLockUnlock Posted Fbe Bar Fid v Stat))) = Pid"
  "ucast (m_addr (sbi_request Pid Offset GpioLockUnlock Posted Fbe Bar Fid v Stat)) = (ucast Offset :: u16)"
proof -
  have m: "sbi_stat_and = mask 7" by (simp add: sbi_stat_and_def regs mask_numeral)
  have o': "drop_bit 8 (sbi_stat_or GpioLockUnlock Posted) = 0x13"
    by (cases Posted) (simp_all add: sbi_stat_or_def)
  show "drop_bit 8 (m_stat (sbi_request Pid Offset GpioLockUnlock Posted Fbe Bar Fid v Stat)) = 0x13"
  proof -
    have "drop_bit 8 (Stat AND mask 7) = 0" by (rule bit_word_eqI) (auto simp: bit_simps)
    then show ?thesis
      using o' by (simp add: sbi_request_def sbi_stat_word_def m drop_bit_or regs)
  qed
  show "m_data (sbi_request Pid Offset GpioLockUnlock Posted Fbe Bar Fid v Stat) = v"
    by (simp add: sbi_request_def sbi_writes_def)
  show "ucast (drop_bit 24 (m_addr (sbi_request Pid Offset GpioLockUnlock Posted Fbe Bar Fid v Stat))) = Pid"
    unfolding sbi_request_def by (rule bit_word_eqI) (auto simp: bit_simps dest: bit_imp_le_length)
  show "ucast (m_addr (sbi_request Pid Offset GpioLockUnlock Posted Fbe Bar Fid v Stat)) = (ucast Offset :: u16)"
    unfolding sbi_request_def by (rule bit_word_eqI) (auto simp: bit_simps)
qed


section \<open>A lock message\<close>

lemma loadw_cong: "(\<And>i. i < n \<Longrightarrow> m (a + of_nat i) = m' (a + of_nat i)) \<Longrightarrow> loadw n m a = loadw n m' a"
  unfolding loadw_def loadn_def by (intro arg_cong [where f = word_of_bytes] map_cong) auto

lemma slots_cong:
  "(\<And>b. \<not> in_p2sb b \<Longrightarrow> mem (dev s) b = mem (dev t) b) \<Longrightarrow> slots s x = slots t x"
  unfolding slots_def slot_addr_def gpio_reg_def by (intro loadw_cong) (simp add: PCR_byte_outside)

text \<open>A bridge that carries messages: present, and no message under way.\<close>

definition bridge_ready :: "ram sys \<Rightarrow> bool" where
  "bridge_ready s \<longleftrightarrow> present s \<and> \<not> busy s"

lemma sent_page:
  assumes "outside_p2sb r" "in_p2sb a" "apart 0x800F90D4 4 a (Suc 0)" "apart 0x800F90D8 2 a (Suc 0)"
  shows "mem (dev (sent r s)) a = mem (dev s) a"
proof -
  obtain c v d' where r: "r (the_msg (mem (dev s))) (dev s) = (c, v, d')"
    by (cases "r (the_msg (mem (dev s))) (dev s)")
  have "mem d' a = mem (dev s) a" using assms(1,2) r unfolding outside_p2sb_def by (metis snd_conv)
  with assms(3,4) show ?thesis by (simp add: sent_def transact_def r storew_apart_byte)
qed

lemma sent_present:
  assumes "outside_p2sb r"
  shows "present (sent r s) = present s"
proof -
  have "reg16 (sent r s) 0x800F9000 = reg16 s 0x800F9000"
  proof (rule loadw_cong)
    fix i :: nat assume "i < 2"
    then have "i = 0 \<or> i = 1" by auto
    then show "mem (dev (sent r s)) (0x800F9000 + of_nat i) = mem (dev s) (0x800F9000 + of_nat i)"
      using assms sent_page [OF assms, of "0x800F9000" s] sent_page [OF assms, of "0x800F9001" s]
      by (auto simp: in_p2sb_def apart_def unat_m1)
  qed
  then show ?thesis by (simp add: present_def)
qed

lemma armed_present [simp]: "present (sbi_armed Pid Offset Opcode Posted Fbe Bar Fid v s) = present s"
  by (simp add: present_def sbi_armed_def sbi_filled_def Let_def mem_simps)

lemma rehidden_ready [simp]: "present (rehidden h s) = present s" "busy (rehidden h s) = busy s"
  by (simp_all add: present_def busy_def rehidden_loadw mem_simps)

lemma known_steps [simp]:
  "known (rehidden h s) = known s" "known (sent r s) = known s" "known (revealed s) = known s"
  "known (sbi_armed Pid Offset Opcode Posted Fbe Bar Fid v s) = known s"
  by (simp_all add: known_def rehidden_def sent_def revealed_def sbi_armed_def sbi_filled_def Let_def)

lemma run_lock_message:
  assumes "known s" "bridge_ready s" "valid_slot x"
    "Pid = Community (row (slot_group x))" "Offset = ucast (slot_offset x)"
  shows "\<exists>s'. run_state (PchSbiExecution (sbi_hw lock_endpoint) Pid Offset GpioLockUnlock False v Response) s
      = ((EFI_SUCCESS, v, 0), s') \<and> known s' \<and> bridge_ready s' \<and> hidden (dev s') = hidden (dev s) \<and>
      same_slots s' ((slots s)(x := v))"
proof -
  define s6 where "s6 = sbi_armed Pid Offset GpioLockUnlock False 0xF 0 0 v (revealed s)"
  define q where "q = sbi_request Pid Offset GpioLockUnlock False 0xF 0 0 v (reg16 s 0x800F90D8)"
  define s' where "s' = rehidden (hidden (dev s)) (sent lock_endpoint s6)"
  have off: "ucast Offset = (ucast (slot_offset x) :: u16)"
    unfolding assms(5) by (rule bit_word_eqI) (auto simp: bit_simps)
  have answer: "lock_endpoint q (dev s6) = (0, v, (dev s6)\<lparr> mem := storew 4 (mem (dev s6)) (slot_addr x) v \<rparr>)"
    unfolding lock_endpoint_def q_def lock_request off by (simp add: slot_addr_def gpio_reg_def assms(4))
  have pb: "present s" "\<not> busy s" using assms(2) by (simp_all add: bridge_ready_def)
  have w: "sbi_writes GpioLockUnlock \<or> sbi_reads GpioLockUnlock" by (simp add: sbi_writes_def)
  note run = run_PchSbiExecutionEx [OF lock_endpoint_outside pb w s6_def answer [unfolded q_def, symmetric] s'_def]
  have "run_state (PchSbiExecution (sbi_hw lock_endpoint) Pid Offset GpioLockUnlock False v Response) s = ((EFI_SUCCESS, v, 0), s')"
    using run(1) by (simp add: PchSbiExecution_def sbi_result_def sbi_reads_def)
  moreover have "same_slots s' ((slots s)(x := v))"
  proof -
    have "slots s' y = ((slots s)(x := v)) y" if "valid_slot y" for y
    proof -
      have "slots s' y = slots (put_slot x v s) y"
      proof (rule slots_cong)
        fix b assume b: "\<not> in_p2sb b"
        have "mem (dev s') b = storew 4 (mem (dev s6)) (slot_addr x) v b" using run(3) [OF b] by simp
        also have "\<dots> = storew 4 (mem (dev s)) (slot_addr x) v b"
          using run(4) [OF b] by (simp add: storew_def storen_def)
        finally show "mem (dev s') b = mem (dev (put_slot x v s)) b" by simp
      qed
      then show ?thesis using assms(3) that by (simp add: slots_put)
    qed
    then show ?thesis by (simp add: same_slots_def)
  qed
  moreover have "known s'" using assms(1) by (simp add: s'_def s6_def)
  moreover have "bridge_ready s'"
    using pb sent_ready [of lock_endpoint s6] by (simp add: bridge_ready_def s'_def sent_present s6_def)
  ultimately show ?thesis using run(2) by blast
qed


section \<open>Locking and unlocking a pad\<close>

definition lock_field :: "GPIO_REG \<Rightarrow> group_field" where
  "lock_field R = (if R = GpioPadConfigLockRegister then CfgLockF else CfgLockTxF)"

definition new_lock :: "bool \<Rightarrow> u32 \<Rightarrow> u32 \<Rightarrow> u32" where
  "new_lock Unlock b old = (if Unlock then old AND NOT b else old OR b)"

lemma run_lock_pad:
  assumes "known s" "bridge_ready s" "pad_ok p" "is_lock_reg R"
  shows "\<exists>s'. run_state (GpioLockPadsUsingSbi (sbi_hw lock_endpoint) R Unlock G D M p True) s = (EFI_SUCCESS, s')
      \<and> known s' \<and> bridge_ready s' \<and> hidden (dev s') = hidden (dev s)
      \<and> same_slots s' ((slots s)(GroupSlot (lock_field R) (gi p) :=
          new_lock Unlock (push_bit (unat (pn p)) 1) (slots s (GroupSlot (lock_field R) (gi p)))))"
proof -
  let ?x = "GroupSlot (lock_field R) (gi p)" and ?hw = "sbi_hw lock_endpoint"
  let ?v = "new_lock Unlock (push_bit (unat (pn p)) 1) (slots s ?x)"
  have x: "valid_slot ?x" using assms(3) by (simp add: lock_field_def)
  have R: "reg_field R = lock_field R" using assms(4)
    by (auto simp: is_lock_reg_def lock_field_def)
  have off: "reg_offset R (row (gi p)) = slot_offset ?x" "reg_offset R (row (gi p)) \<noteq> NOREG"
    using reg_offset_field [of R "row (gi p)"] x R by (simp_all add: valid_slot.simps)
  have old: "run_state (lock_old ?hw R (GpioGetGroupFromGpioPad p) 0) s = (slots s ?x, s)"
    using plain_sbi.run_reg_group [OF assms(1,3), of R, unfolded R, OF x, of lock_endpoint 0 0] assms(4)
    by (auto simp: lock_old_def hwrun is_lock_reg_def GpioGetPadCfgLockForGroupDw_def
        GpioGetPadCfgLockTxForGroupDw_def)
  from run_lock_message [OF assms(1,2) x refl refl, of ?v 0] obtain s' where s':
    "run_state (PchSbiExecution ?hw (Community (row (gi p))) (ucast (slot_offset ?x)) GpioLockUnlock False ?v 0) s
      = ((EFI_SUCCESS, ?v, 0), s')" "known s'" "bridge_ready s'" "hidden (dev s') = hidden (dev s)"
    "same_slots s' ((slots s)(?x := ?v))" by auto
  have "run_state (GpioLockPadsUsingSbi ?hw R Unlock G D M p True) s = (EFI_SUCCESS, s')"
    using assms pad_slots [OF assms(3)] old s'(1) off
    by (simp add: GpioLockPadsUsingSbi_def hwrun plain_sbi.run_table plain_sbi.run_wrong_chipset
        new_lock_def word_less_nat_alt word_le_nat_alt not_le Let_def)
  with s' show ?thesis by blast
qed

lemma bit_new_lock:
  "n < 24 \<Longrightarrow> bit (new_lock u (push_bit n 1) old) m = (if m = n then \<not> u else bit old m)" for old :: u32
  by (auto simp: new_lock_def bit_simps bit_1_iff dest: bit_imp_le_length)

lemmas bit_new_lock_power = bit_new_lock [unfolded push_bit_of_1]

text \<open>After the message, the lock bit of this pad is set or cleared, and nothing else has changed.\<close>

lemma locked_after:
  assumes "pad_ok p" "pad_ok q"
    and "same_slots t ((slots s)(GroupSlot CfgLockF (gi p) :=
      new_lock u (push_bit (unat (pn p)) 1) (slots s (GroupSlot CfgLockF (gi p)))))"
  shows "pad_locked t q = (if q = p then \<not> u else pad_locked s q)"
    and "slots t (cfg0 q) = slots s (cfg0 q)" and "slots t (cfg1 q) = slots s (cfg1 q)"
    and "slots t (GroupSlot HostOwnF (gi q)) = slots s (GroupSlot HostOwnF (gi q))"
    and "pad_owner t q = pad_owner s q"
proof -
  note same = assms(3) [unfolded same_slots_def, rule_format]
  have eq: "unat (pn q) = unat (pn p) \<longleftrightarrow> q = p" if "gi q = gi p"
    using that pad_inj [OF assms(2,1)] by (auto intro: unsigned_word_eqI)
  show "pad_locked t q = (if q = p then \<not> u else pad_locked s q)"
    using same [of "GroupSlot CfgLockF (gi q)"] assms(1,2) eq
    by (auto simp: pad_locked_def bit_new_lock_power)
  show "slots t (cfg0 q) = slots s (cfg0 q)" "slots t (cfg1 q) = slots s (cfg1 q)"
    "slots t (GroupSlot HostOwnF (gi q)) = slots s (GroupSlot HostOwnF (gi q))"
    using same [of "cfg0 q"] same [of "cfg1 q"] same [of "GroupSlot HostOwnF (gi q)"] assms(2) by simp_all
  have "slots t (own_slot q) = slots s (own_slot q)"
    using same [of "own_slot q"] assms(2) by simp (simp add: own_slot_def)
  then show "pad_owner t q = pad_owner s q" by (simp add: pad_owner_def Let_def)
qed

text \<open>C18: GpioLockPadCfg, a sideband message through the bridge to the GPIO community, sets the
  lock bit of its pad only; GpioSetPadConfig of a locked pad is then refused and changes
  nothing; GpioUnlockPadCfg clears the bit again, and neither call changes a configuration
  register or the visibility of the bridge.\<close>

theorem gpio_lock_protects:
  assumes "known s" and "bridge_ready s" and "pad_ok p" and "pad_ok q"
    and "run_state (GpioLockPadCfg (sbi_hw lock_endpoint) p) s = (st, s')"
    and "run_state (GpioUnlockPadCfg (sbi_hw lock_endpoint) p) s' = (st', s'')"
  shows "st = EFI_SUCCESS \<and> pad_locked s' p
    \<and> run_state (GpioSetPadConfig (sbi_hw lock_endpoint) p c) s' = (EFI_WRITE_PROTECTED, s')
    \<and> st' = EFI_SUCCESS \<and> \<not> pad_locked s'' p
    \<and> (q \<noteq> p \<longrightarrow> pad_locked s' q = pad_locked s q \<and> pad_locked s'' q = pad_locked s q)
    \<and> slots s'' (cfg0 q) = slots s (cfg0 q) \<and> slots s'' (cfg1 q) = slots s (cfg1 q)
    \<and> hidden (dev s'') = hidden (dev s)"
proof -
  have R: "is_lock_reg GpioPadConfigLockRegister" by (simp add: is_lock_reg_def)
  note run = run_lock_pad [OF _ _ assms(3) R, unfolded lock_field_def, simplified]
  from run [OF assms(1,2), of False 0 0 0] assms(5) have s':
    "st = EFI_SUCCESS" "known s'" "bridge_ready s'" "hidden (dev s') = hidden (dev s)"
    "same_slots s' ((slots s)(GroupSlot CfgLockF (gi p) := new_lock False (push_bit (unat (pn p)) 1)
      (slots s (GroupSlot CfgLockF (gi p)))))"
    by (auto simp: GpioLockPadCfg_def)
  from run [OF s'(2,3), of True 0 0 0] assms(6) have s'':
    "st' = EFI_SUCCESS" "hidden (dev s'') = hidden (dev s')"
    "same_slots s'' ((slots s')(GroupSlot CfgLockF (gi p) := new_lock True (push_bit (unat (pn p)) 1)
      (slots s' (GroupSlot CfgLockF (gi p)))))"
    by (auto simp: GpioUnlockPadCfg_def)
  note p' = locked_after [OF assms(3) assms(3) s'(5)] and q' = locked_after [OF assms(3) assms(4) s'(5)]
    and p'' = locked_after [OF assms(3) assms(3) s''(3)] and q'' = locked_after [OF assms(3) assms(4) s''(3)]
  have "run_state (GpioSetPadConfig (sbi_hw lock_endpoint) p c) s' = (EFI_WRITE_PROTECTED, s')"
    using plain_sbi.run_SetPadConfig_refused [OF s'(2) assms(3), of lock_endpoint c] p'(1)
    by (simp add: foreign_def hwrun)
  then show ?thesis using s'(1,4) s''(1,2) p'(1) q' p''(1) q'' by simp
qed


section \<open>Configurations that ask for a lock\<close>

lemma put_slot_bridge: "bridge_ready (put_slot x v s) = bridge_ready s"
proof -
  have "storew 4 (mem (dev s)) (slot_addr x) v b = mem (dev s) b" if "in_p2sb b" for b
    using that by (simp add: slot_addr_def gpio_reg_def storew_apart_byte in_p2sb_PCR_apart)
  moreover have "in_p2sb (0x800F9000 + of_nat i)" "in_p2sb (0x800F90D8 + of_nat i)" if "i < 2" for i
    using that by (auto simp: in_p2sb_def less_2_cases_iff)
  ultimately have "loadw 2 (storew 4 (mem (dev s)) (slot_addr x) v) a = (loadw 2 (mem (dev s)) a :: u16)"
    if "a = 0x800F9000 \<or> a = 0x800F90D8" for a
    using that by (intro loadw_cong) auto
  then show ?thesis by (simp add: bridge_ready_def present_def busy_def)
qed

definition lock_bits :: "GPIO_PAD \<Rightarrow> GPIO_CONFIG \<Rightarrow> (slot \<Rightarrow> u32) \<Rightarrow> slot \<Rightarrow> u32" where
  "lock_bits p c m =
     (let b = push_bit (unat (pn p)) 1; L = GroupSlot CfgLockF (gi p); T = GroupSlot CfgLockTxF (gi p) in
      m(L := if LockConfig c AND 0x3 = 0x3 then m L OR b else m L,
        T := if LockConfig c AND 0x5 = 0x5 then m T OR b else m T))"

lemma run_config_locks:
  assumes "known t" "bridge_ready t" "pad_ok p" "same_slots t m"
  shows "\<exists>s'. run_state (config_locks (sbi_hw lock_endpoint) p c) t = (EFI_SUCCESS, s') \<and> known s' \<and>
    same_slots s' (lock_bits p c m)"
proof -
  let ?b = "push_bit (unat (pn p)) 1 :: u32" and ?L = "GroupSlot CfgLockF (gi p)" and ?T = "GroupSlot CfgLockTxF (gi p)"
  have regs: "is_lock_reg GpioPadConfigLockRegister" "is_lock_reg GpioPadLockOutputRegister"
    "lock_field GpioPadConfigLockRegister = CfgLockF" "lock_field GpioPadLockOutputRegister = CfgLockTxF"
    by (simp_all add: is_lock_reg_def lock_field_def)
  obtain u where u: "run_state (if LockConfig c AND 0x3 = 0x3 then do {
        _ \<leftarrow> GpioLockPadsUsingSbi (sbi_hw lock_endpoint) GpioPadConfigLockRegister False 0 0 0 p True;
        State_Monad.return () } else State_Monad.return ()) t = ((), u)" "known u" "bridge_ready u"
      "same_slots u (m(?L := if LockConfig c AND 0x3 = 0x3 then m ?L OR ?b else m ?L))"
  proof (cases "LockConfig c AND 0x3 = 0x3")
    case True
    with run_lock_pad [OF assms(1-3) regs(1), of False 0 0 0] assms(3,4) that show ?thesis
      by (auto simp: hwrun regs(3) new_lock_def same_slots_def)
  qed (use assms that in \<open>auto simp: hwrun\<close>)
  obtain v where v: "run_state (if LockConfig c AND 0x5 = 0x5 then do {
        _ \<leftarrow> GpioLockPadsUsingSbi (sbi_hw lock_endpoint) GpioPadLockOutputRegister False 0 0 0 p True;
        State_Monad.return () } else State_Monad.return ()) u = ((), v)" "known v"
      "same_slots v (lock_bits p c m)"
  proof (cases "LockConfig c AND 0x5 = 0x5")
    case True
    with run_lock_pad [OF u(2,3) assms(3) regs(2), of False 0 0 0] assms(3) u(4) that show ?thesis
      by (auto simp: hwrun regs(4) new_lock_def same_slots_def lock_bits_def Let_def)
  next
    case False
    then have "same_slots u (lock_bits p c m)" using u(4) by (simp add: same_slots_def lock_bits_def Let_def)
    then show ?thesis using False u(2) that by (simp add: hwrun)
  qed
  show ?thesis using u(1) v unfolding config_locks_def by (simp only: run_bind) (simp add: hwrun)
qed

text \<open>The pad reads back as after a configuration that asks for no lock, with the lock bits that were asked for.\<close>

definition relocked :: "GPIO_CONFIG \<Rightarrow> GPIO_CONFIG \<Rightarrow> GPIO_CONFIG" where
  "relocked c old = (merge_config c old)\<lparr> LockConfig := LockConfig old OR
     (if LockConfig c AND 0x3 = 0x3 then 0x2 else 0) OR (if LockConfig c AND 0x5 = 0x5 then 0x4 else 0) \<rparr>"

lemma read_lock_bits:
  assumes "pad_ok p" "pad_ok q"
  shows "read_config (lock_bits p c m) q = (if q = p then (read_config m p)\<lparr> LockConfig := LockConfig (read_config m p) OR
     (if LockConfig c AND 0x3 = 0x3 then 0x2 else 0) OR (if LockConfig c AND 0x5 = 0x5 then 0x4 else 0) \<rparr> else read_config m q)"
proof -
  have n: "unat (pn p) < 24" using assms(1) by simp
  have other: "gi q = gi p \<Longrightarrow> q \<noteq> p \<Longrightarrow> unat (pn p) \<noteq> unat (pn q)"
    using pad_inj [OF assms(2,1)] by (metis unsigned_word_eqI)
  have bit: "bit (w OR push_bit (unat (pn p)) 1 :: u32) k \<longleftrightarrow> bit w k \<or> k = unat (pn p)" for w k
    using n by (auto simp: bit_simps bit_1_iff)
  show ?thesis
  proof (cases "q = p")
    case True
    then show ?thesis
      by (simp add: read_config_def lock_bits_def Let_def bit config_of_regs_def del: push_bit_of_1) simp
  next
    case False
    then show ?thesis using other
      by (auto simp: read_config_def lock_bits_def Let_def bit simp del: push_bit_of_1)
  qed
qed



theorem gpio_lock_protects_witness:
  "let s' = snd (run_state (GpioLockPadCfg (sbi_hw lock_endpoint) 0x01010003) ready_pch) in
   run_state (GpioSetPadConfig (sbi_hw lock_endpoint) 0x01010003 an_output) s' = (EFI_WRITE_PROTECTED, s')
   \<and> pad_locked s' 0x01010003 \<and> \<not> pad_locked s' 0x01010004"
proof -
  have "bridge_ready ready_pch" by (simp add: ready_pch_def bridge_ready_def present_def busy_def)
  from gpio_lock_protects [OF ready_pch_facts(1) this pads_ok(1,2) surjective_pairing surjective_pairing,
      of an_output]
  show ?thesis by (simp add: Let_def)
qed

end
