(* ===== verification/GpioEvents.thy ===== *)
theory GpioEvents
  imports GpioPads
begin

text \<open>
  The numbers of the events of the pads: SMI numbers, and general purpose events with their
  routing registers.
\<close>

section \<open>SMI numbers\<close>

definition pads_before :: "u32 \<Rightarrow> nat" where
  "pads_before g = sum_list (map (\<lambda>i. unat (PadPerGroup i)) (take (unat g) mPchGpioGroupInfo))"

lemma prefix_sums:
  fixes xs :: "nat list"
  assumes "i < j" "j \<le> length xs"
  shows "sum_list (take i xs) + xs ! i \<le> sum_list (take j xs)"
proof -
  have "take j xs = take (Suc i) xs @ drop (Suc i) (take j xs)"
    by (metis assms(1) Suc_leI append_take_drop_id min.absorb1 take_take)
  then have "sum_list (take (Suc i) xs) \<le> sum_list (take j xs)" by (metis le_add1 sum_list.append)
  then show ?thesis using assms by (simp add: take_Suc_conv_app_nth)
qed

lemma pads_before_group:
  assumes "unat g < unat h" "h < 13"
  shows "pads_before g + unat (PadPerGroup (row g)) \<le> pads_before h"
  using prefix_sums [of "unat g" "unat h" "map (\<lambda>i. unat (PadPerGroup i)) mPchGpioGroupInfo"] assms
  by (simp add: pads_before_def take_map row_def ginfo_def word_less_nat_alt)

lemma all_pads: "sum_list (map (\<lambda>i. unat (PadPerGroup i)) mPchGpioGroupInfo) = 259"
  by (simp add: mPchGpioGroupInfo_def)

lemma pads_before_total: "h < 13 \<Longrightarrow> pads_before h + unat (PadPerGroup (row h)) \<le> 259"
  using prefix_sums [of "unat h" 13 "map (\<lambda>i. unat (PadPerGroup i)) mPchGpioGroupInfo"] all_pads
  by (simp add: pads_before_def take_map row_def ginfo_def word_less_nat_alt)

lemma fold_count:
  "fold (\<lambda>i n. n + ucast (PadPerGroup i)) xs a = a + of_nat (sum_list (map (\<lambda>i. unat (PadPerGroup i)) xs))"
  for a :: u64
  by (induction xs arbitrary: a) (simp_all add: algebra_simps)

lemma run_GpioGetGpiSmiNum:
  assumes "known s" "pad_ok p"
  shows "run_state (GpioGetGpiSmiNum (ram_hw dbg) p d) s =
    ((EFI_SUCCESS, of_nat (pads_before (gi p) + unat (pn p))), s)"
  using assms pad_slots [OF assms(2)]
  by (simp add: GpioGetGpiSmiNum_def hwrun plain_ram.run_table plain_ram.run_wrong_chipset fold_count
      pads_before_def pad_in_table_def pad_ok_def word_less_nat_alt word_le_nat_alt not_le Let_def)

lemma smi_number_below:
  assumes "pad_ok p" shows "pads_before (gi p) + unat (pn p) < 259"
proof -
  have "unat (pn p) < unat (PadPerGroup (row (gi p)))" "gi p < 13"
    using assms by (simp_all add: word_less_nat_alt [symmetric])
  then show ?thesis using pads_before_total [of "gi p"] by linarith
qed

text \<open>GpioGetGpiSmiNum numbers the 259 pads of the table without a collision.\<close>

theorem gpi_smi_number_unique:
  assumes "known s" and "pad_ok p" and "pad_ok q"
    and "fst (run_state (GpioGetGpiSmiNum (ram_hw dbg) p d) s) = (st, m)"
    and "fst (run_state (GpioGetGpiSmiNum (ram_hw dbg) q d) s) = (st', n)"
  shows "st = EFI_SUCCESS \<and> st' = EFI_SUCCESS \<and> unat m < 259 \<and> (m = n \<longleftrightarrow> p = q)"
proof -
  let ?N = "\<lambda>p. pads_before (gi p) + unat (pn p)"
  have mn: "st = EFI_SUCCESS" "st' = EFI_SUCCESS" "m = of_nat (?N p)" "n = of_nat (?N q)"
    using assms run_GpioGetGpiSmiNum by auto
  have u: "unat m = ?N p" "unat n = ?N q"
    using smi_number_below [OF assms(2)] smi_number_below [OF assms(3)] unfolding mn
    by (simp_all add: unat_of_nat del: of_nat_add)
  have lt: "unat (pn x) < unat (PadPerGroup (row (gi x)))" "gi x < 13" if "pad_ok x" for x
    using that by (simp_all add: word_less_nat_alt [symmetric])
  have "p = q" if "m = n"
  proof -
    have N: "?N p = ?N q" using u that by simp
    have "unat (gi p) = unat (gi q)"
      using N lt [OF assms(2)] lt [OF assms(3)] pads_before_group [of "gi p" "gi q"]
        pads_before_group [of "gi q" "gi p"]
      by (cases "unat (gi p)" "unat (gi q)" rule: linorder_cases) linarith+
    then have "gi p = gi q" by (simp add: word_unat_eq_iff)
    moreover have "pn p = pn q" using N calculation by (simp add: word_unat_eq_iff [of "pn p"])
    ultimately show "p = q" by (rule pad_inj [OF assms(2,3)])
  qed
  then show ?thesis using mn(1,2,3,4) u(1) smi_number_below [OF assms(2)] by auto
qed


section \<open>Routing of the general purpose events\<close>

text \<open>The register of the power management space, which lies above the private registers.\<close>

definition pwrm_base :: "ram sys \<Rightarrow> u32" where
  "pwrm_base s = reg32 s 0x800FA048 AND B_PCH_PMC_PWRM_BASE_BAR"

definition pwrm_cfg :: "ram sys \<Rightarrow> u64" where
  "pwrm_cfg s = ucast (pwrm_base s + 0x120)"

definition pwrm_ready :: "ram sys \<Rightarrow> bool" where
  "pwrm_ready s \<longleftrightarrow> reg16 s 0x800FA000 \<noteq> 0xFFFF \<and> 0xFE000000 \<le> pwrm_base s"

lemma run_pwrm_gpio_cfg:
  "pwrm_ready s \<Longrightarrow> run_state (pwrm_gpio_cfg (ram_hw dbg)) s = (pwrm_cfg s, s)"
  by (simp add: pwrm_gpio_cfg_def hwrun pwrm_ready_def pwrm_cfg_def pwrm_base_def R_PCH_PWRM_GPIO_CFG_def)

lemma pwrm_cfg_range:
  assumes "pwrm_ready s"
  shows "0xFE000120 \<le> unat (pwrm_cfg s)" "unat (pwrm_cfg s) + 4 \<le> 2 ^ 32"
proof -
  have "pwrm_base s \<le> B_PCH_PMC_PWRM_BASE_BAR" unfolding pwrm_base_def by (rule word_and_le1)
  then have le: "unat (pwrm_base s) \<le> 0xFFFF0000" by (simp add: regs word_le_nat_alt)
  have "unat (pwrm_cfg s) = unat (pwrm_base s) + 0x120"
    using le by (simp add: pwrm_cfg_def unsigned_ucast_eq take_bit_nat_eq_self unat_word_ariths)
  moreover have "0xFE000000 \<le> unat (pwrm_base s)"
    using assms by (simp add: pwrm_ready_def word_le_nat_alt)
  ultimately show "0xFE000120 \<le> unat (pwrm_cfg s)" "unat (pwrm_cfg s) + 4 \<le> 2 ^ 32" using le by simp_all
qed

lemma PCR_range: "0xFD000000 \<le> unat (PCH_PCR_ADDRESS Pid Offset)" "unat (PCH_PCR_ADDRESS Pid Offset) + 4 \<le> 0xFE000004"
  using unsigned_less [of Pid, where 'a = nat] unsigned_less [of Offset, where 'a = nat]
  by (simp_all add: unat_PCR)

lemma PCR_range_aligned:
  "Offset AND 3 = 0 \<Longrightarrow> unat (PCH_PCR_ADDRESS Pid Offset) + 4 \<le> 0xFE000000"
proof -
  assume "Offset AND 3 = 0"
  then have "4 dvd unat Offset" by (simp add: and_3_zero)
  then have "unat Offset + 4 \<le> 0x10000"
    using unsigned_less [of Offset, where 'a = nat] by (auto elim!: dvdE)
  then show ?thesis using unsigned_less [of Pid, where 'a = nat] by (simp add: unat_PCR)
qed

lemma pmc_apart:
  "pwrm_ready s \<Longrightarrow> apart (pwrm_cfg s) 4 0x800FA048 4" "pwrm_ready s \<Longrightarrow> apart (pwrm_cfg s) 4 0x800FA000 2"
  "apart (PCH_PCR_ADDRESS Pid Offset) 4 0x800FA048 4" "apart (PCH_PCR_ADDRESS Pid Offset) 4 0x800FA000 2"
  using pwrm_cfg_range [of s] PCR_range [of Pid Offset] by (auto intro!: apart_above)

lemma pwrm_PCR_apart:
  "pwrm_ready s \<Longrightarrow> Offset AND 3 = 0 \<Longrightarrow> apart (PCH_PCR_ADDRESS Pid Offset) 4 (pwrm_cfg s) 4"
  using pwrm_cfg_range [of s] PCR_range_aligned [of Offset Pid]
  by (subst apart_sym) (intro apart_above, simp_all)

lemma gpe_group_cases: "gpe_group_ok g \<Longrightarrow> \<exists>h < 13. g = 0x100 + h"
proof -
  assume "gpe_group_ok g"
  then have "unat g \<le> 0x10C" "0x100 \<le> unat g"
    by (simp_all add: gpe_group_ok_def GpioGetLowestGroup_def GpioGetHighestGroup_def regs
        word_le_nat_alt word_less_nat_alt)
  then have "unat (g - 0x100) < 13" by (subst Word.unat_sub) (simp_all add: word_le_nat_alt)
  then show ?thesis by (intro exI [of _ "g - 0x100"]) (simp add: word_less_nat_alt)
qed

lemma gpe_group_index:
  assumes "gpe_group_ok g"
  shows "GpioGetGroupIndexFromGroup g + GpioGetLowestGroup = g"
    and "GpioGetGroupIndexFromGroup g AND mask 4 = GpioGetGroupIndexFromGroup g"
proof -
  obtain h where "h < 13" "g = 0x100 + h" using gpe_group_cases [OF assms] by blast
  then show "GpioGetGroupIndexFromGroup g + GpioGetLowestGroup = g"
    "GpioGetGroupIndexFromGroup g AND mask 4 = GpioGetGroupIndexFromGroup g"
    by (auto simp: less_13_cases GpioGetGroupIndexFromGroup_def GpioGetLowestGroup_def regs mask_numeral)
qed

lemma nibble_fields:
  fixes w x0 x1 x2 :: u32
  defines "v \<equiv> w AND NOT (mask 12) OR
    (push_bit 8 (x2 AND mask 4) OR push_bit 4 (x1 AND mask 4) OR push_bit 0 (x0 AND mask 4))"
  shows "drop_bit 0 (v AND mask 4) = x0 AND mask 4"
    and "drop_bit 4 (v AND push_bit 4 (mask 4)) = x1 AND mask 4"
    and "drop_bit 8 (v AND push_bit 8 (mask 4)) = x2 AND mask 4"
    and "v AND NOT (mask 12) = w AND NOT (mask 12)"
  unfolding v_def by (rule bit_word_eqI; auto simp: bit_simps)+

lemma gpe_fields:
  fixes w :: u32
  assumes "d0 AND mask 4 = d0" "d1 AND mask 4 = d1" "d2 AND mask 4 = d2"
    and "v = w AND gpe_pwrm_and OR gpe_pwrm_value d0 d1 d2"
  shows "drop_bit 0 (v AND B_PCH_PWRM_GPIO_CFG_GPE0_DW0) = d0"
    and "drop_bit 4 (v AND B_PCH_PWRM_GPIO_CFG_GPE0_DW1) = d1"
    and "drop_bit 8 (v AND B_PCH_PWRM_GPIO_CFG_GPE0_DW2) = d2"
proof -
  have m: "B_PCH_PWRM_GPIO_CFG_GPE0_DW0 = mask 4" "B_PCH_PWRM_GPIO_CFG_GPE0_DW1 = push_bit 4 (mask 4)"
    "B_PCH_PWRM_GPIO_CFG_GPE0_DW2 = push_bit 8 (mask 4)" "gpe_pwrm_and = NOT (mask 12)"
    by (simp_all add: regs gpe_pwrm_and_def mask_numeral)
  show "drop_bit 0 (v AND B_PCH_PWRM_GPIO_CFG_GPE0_DW0) = d0"
    "drop_bit 4 (v AND B_PCH_PWRM_GPIO_CFG_GPE0_DW1) = d1"
    "drop_bit 8 (v AND B_PCH_PWRM_GPIO_CFG_GPE0_DW2) = d2"
    using nibble_fields [of w d2 d1 d0] unfolding assms(1-4) m gpe_pwrm_value_def by simp_all
qed

text \<open>The routing registers of a community.\<close>

definition misc_reg :: "u8 \<Rightarrow> u64" where
  "misc_reg Pid = PCH_PCR_ADDRESS Pid R_PCH_PCR_GPIO_MISCCFG"

lemma misc_apart: "Pid \<noteq> Pid' \<Longrightarrow> apart (misc_reg Pid) 4 (misc_reg Pid') 4"
  unfolding misc_reg_def by (rule PCR_apart) (simp_all add: R_PCH_PCR_GPIO_MISCCFG_def)

definition routed :: "u32 \<Rightarrow> u32 \<Rightarrow> u32 \<Rightarrow> u8 \<Rightarrow> ram sys \<Rightarrow> ram sys" where
  "routed d0 d1 d2 Pid s =
     wr32 (misc_reg Pid) (reg32 s (misc_reg Pid) AND gpe_misc_and OR gpe_misc_value d0 d1 d2) s"

lemma run_GpioSetGroupToGpeDwX:
  assumes "pwrm_ready s" "gpe_group_ok g0" "gpe_group_ok g1" "gpe_group_ok g2" "distinct [g0, g1, g2]"
    and "d0 = GpioGetGroupIndexFromGroup g0" "d1 = GpioGetGroupIndexFromGroup g1"
    and "d2 = GpioGetGroupIndexFromGroup g2"
  shows "run_state (GpioSetGroupToGpeDwX (ram_hw dbg) g0 g1 g2) s = (EFI_SUCCESS,
    routed d0 d1 d2 PID_GPIOCOM3 (routed d0 d1 d2 PID_GPIOCOM2 (routed d0 d1 d2 PID_GPIOCOM1
      (routed d0 d1 d2 PID_GPIOCOM0 (wr32 (pwrm_cfg s)
        (reg32 s (pwrm_cfg s) AND gpe_pwrm_and OR gpe_pwrm_value d0 d1 d2) s)))))"
  using assms by (simp add: GpioSetGroupToGpeDwX_def hwrun run_pwrm_gpio_cfg routed_def misc_reg_def Let_def)

lemma routed_reg:
  "apart (misc_reg Pid) 4 a n \<Longrightarrow> loadw n (mem (dev (routed d0 d1 d2 Pid s))) a = loadw n (mem (dev s)) a"
  by (simp add: routed_def loadw_storew_apart)



section \<open>The event numbers of the pads\<close>

lemma run_GpioGetGpeNumber:
  assumes "known s" "pwrm_ready s" "pad_ok p"
  shows "run_state (GpioGetGpeNumber (ram_hw dbg) p d) s = ((EFI_SUCCESS,
    gpe_number (GpioGetGroupFromGpioPad p) (pn p) (fst (run_state (GpioGetGroupToGpeDwX (ram_hw dbg)) s))), s)"
proof -
  have "GpioGetGroupIndexFromGroup GpioGetLowestGroup = 0" "GpioGetGroupIndexFromGroup GpioGetHighestGroup = 12"
    by (simp_all add: GpioGetGroupIndexFromGroup_def GpioGetLowestGroup_def GpioGetHighestGroup_def regs)
  moreover have "snd (run_state (GpioGetGroupToGpeDwX (ram_hw dbg)) s) = s"
    using assms(2) by (simp add: GpioGetGroupToGpeDwX_def hwrun run_pwrm_gpio_cfg)
  ultimately show ?thesis
    using assms pad_slots [OF assms(3)]
    by (simp add: GpioGetGpeNumber_def hwrun plain_ram.run_table plain_ram.run_wrong_chipset pad_ok_def
        word_less_nat_alt word_le_nat_alt not_le case_prod_beta Let_def)
qed

lemma unat_gpe_number:
  assumes "unat n < 24"
  shows "unat (gpe_number g n (a, b, c)) = (if g = a then unat n else if g = b then unat n + 32
    else if g = c then unat n + 64 else 0x6F)"
  using assms by (simp add: gpe_number_def regs unat_word_ariths)

text \<open>GpioGetGpeNumber gives every pad an event number: two different pads have different
  numbers below 96 or share the master event of the second tier, which is what GpioCheckFor2Tier
  tells.\<close>

theorem gpe_number_unique:
  assumes "known s" and "pwrm_ready s" and "pad_ok p" and "pad_ok q" and "p \<noteq> q"
    and "fst (run_state (GpioGetGpeNumber (ram_hw dbg) p d) s) = (st, m)"
    and "fst (run_state (GpioGetGpeNumber (ram_hw dbg) q d) s) = (st', n)"
  shows "st = EFI_SUCCESS \<and> st' = EFI_SUCCESS
    \<and> (m \<noteq> PCH_GPIO_2_TIER_MASTER_GPE_NUMBER \<longrightarrow> unat m < 96 \<and> m \<noteq> n)
    \<and> fst (run_state (GpioCheckFor2Tier (ram_hw dbg) p) s) = (m = PCH_GPIO_2_TIER_MASTER_GPE_NUMBER)"
proof -
  obtain a b c where dw: "fst (run_state (GpioGetGroupToGpeDwX (ram_hw dbg)) s) = (a, b, c)"
    by (cases "fst (run_state (GpioGetGroupToGpeDwX (ram_hw dbg)) s)")
  let ?g = GpioGetGroupFromGpioPad
  note run = run_GpioGetGpeNumber [where dbg = dbg, OF assms(1,2), unfolded dw]
  have mn: "st = EFI_SUCCESS" "st' = EFI_SUCCESS" "m = gpe_number (?g p) (pn p) (a, b, c)"
    "n = gpe_number (?g q) (pn q) (a, b, c)"
    using assms(6,7) run [OF assms(3), of d] run [OF assms(4), of d] by simp_all
  have n24: "unat (pn p) < 24" "unat (pn q) < 24" using assms(3,4) by simp_all
  have "\<not> (?g p = ?g q \<and> pn p = pn q)"
    using pad_inj [OF assms(3,4)] assms(5) group_index_of_pad [OF assms(3)] group_index_of_pad [OF assms(4)] by metis
  then have ne: "\<not> (?g p = ?g q \<and> unat (pn p) = unat (pn q))" by (simp add: word_unat_eq_iff [of "pn p"])
  have "unat m < 96 \<and> m \<noteq> n" if "m \<noteq> PCH_GPIO_2_TIER_MASTER_GPE_NUMBER"
  proof -
    have m: "unat m \<noteq> 0x6F" using that by (simp add: word_unat_eq_iff regs)
    have "unat m < 96 \<and> unat m \<noteq> unat n"
      using m ne n24 unfolding mn unat_gpe_number [OF n24(1)] unat_gpe_number [OF n24(2)]
      by (auto split: if_splits)
    then show ?thesis by auto
  qed
  moreover have "fst (run_state (GpioCheckFor2Tier (ram_hw dbg) p) s) = (m = PCH_GPIO_2_TIER_MASTER_GPE_NUMBER)"
    using run [OF assms(3), of 0] mn(3) by (simp add: GpioCheckFor2Tier_def hwrun)
  ultimately show ?thesis using mn(1,2) by blast
qed

section \<open>Witnesses\<close>

theorem gpi_smi_number_unique_witness:
  "unat (snd (fst (run_state (GpioGetGpiSmiNum (ram_hw True) 0x01010004 7) ready_pch))) < 259"
  using gpi_smi_number_unique [OF ready_pch_facts(1) pads_ok(2,1) surjective_pairing surjective_pairing]
  by blast

definition pwrm_pch :: "ram sys" where
  "pwrm_pch = wr32 0x800FA048 0xFE000000 ready_pch"

lemma pwrm_pch_facts: "known pwrm_pch" "pwrm_ready pwrm_pch"
  by (simp_all add: pwrm_pch_def pwrm_ready_def pwrm_base_def regs mem_simps) (simp add: ready_pch_def)


definition routed_pch :: "ram sys" where
  "routed_pch = wr32 0xFE000120 0x210 pwrm_pch"

lemma routed_pch_facts: "known routed_pch" "pwrm_ready routed_pch" "pwrm_cfg routed_pch = 0xFE000120"
  using pwrm_pch_facts
  by (simp_all add: routed_pch_def pwrm_ready_def pwrm_base_def pwrm_cfg_def mem_simps)
    (simp add: pwrm_pch_def regs)

lemma routed_pch_groups: "fst (run_state (GpioGetGroupToGpeDwX (ram_hw dbg)) routed_pch) = (0x100, 0x101, 0x102)"
  using routed_pch_facts(2)
  by (simp add: GpioGetGroupToGpeDwX_def hwrun run_pwrm_gpio_cfg routed_pch_facts(3))
    (simp add: routed_pch_def regs GpioGetLowestGroup_def)

theorem gpe_number_unique_witness:
  "snd (fst (run_state (GpioGetGpeNumber (ram_hw True) 0x01010003 7) routed_pch)) = 35
   \<and> snd (fst (run_state (GpioGetGpeNumber (ram_hw True) 0x01010004 7) routed_pch)) \<noteq> 35"
proof -
  have m: "snd (fst (run_state (GpioGetGpeNumber (ram_hw True) 0x01010003 7) routed_pch)) = 35"
    using run_GpioGetGpeNumber [OF routed_pch_facts(1,2) pads_ok(1), of True 7] routed_pch_groups [of True]
    by (simp add: gpe_number_def GpioGetGroupFromGpioPad_def GpioGetPadNumberFromGpioPad_def)
  show ?thesis
    using gpe_number_unique [OF routed_pch_facts(1,2) pads_ok(1,2) _ surjective_pairing surjective_pairing, of True 7] m
    by (auto simp: regs)
qed

end
