(* ===== verification/GpioBatch.thy ===== *)
theory GpioBatch
  imports GpioInit GpioPads
begin

text \<open>
  The initialisation table of GpioInit.c against the pad by pad configuration of GpioLib.c: the
  collected group registers written at the end give the same registers.
\<close>

section \<open>The reference\<close>

text \<open>The configuration that an entry stands for: locks are not handled by the table, three pads
  are kept in GPIO mode, and a DEVSLP pad that does not say otherwise gets power good reset.\<close>

definition effective_config :: "bool \<Rightarrow> GPIO_INIT_CONFIG \<Rightarrow> GPIO_CONFIG" where
  "effective_config devslp d = (let c = (applied_config d)\<lparr> LockConfig := 0 \<rparr> in
     if devslp \<and> \<not> conf_given (ucast (PowerConfig c)) 0x7 0 then c\<lparr> PowerConfig := 1 \<rparr> else c)"

fun set_each :: "'s hw \<Rightarrow> GPIO_INIT_CONFIG list \<Rightarrow> ('s, unit) prog" where
  "set_each hw [] = State_Monad.return ()"
| "set_each hw (d # ds) = do {
     devslp \<leftarrow> GpioIsPadASataDevSlpPin hw (GpioPad d) (ucast (PadMode (GpioConfig d)));
     _ \<leftarrow> GpioSetPadConfig hw (GpioPad d) (effective_config devslp d);
     set_each hw ds
   }"

lemma effective_fields:
  "HostSoftPadOwn (effective_config b d) = HostSoftPadOwn (GpioConfig d)"
  "InterruptConfig (effective_config b d) = InterruptConfig (GpioConfig d)"
  "LockConfig (effective_config b d) = 0"
  by (simp_all add: effective_config_def applied_config_def Let_def)

lemma effective_no_lock: "\<not> wants_lock (effective_config b d)"
  by (simp add: wants_lock_def effective_fields)

lemma effective_dw1:
  "config_dw1 (effective_config b d) = config_dw1 (applied_config d)"
  "config_dw1_mask (effective_config b d) = config_dw1_mask (applied_config d)"
  by (simp_all add: effective_config_def config_dw1_def config_dw1_mask_def Let_def)

lemma effective_dw0:
  "config_dw0 (effective_config b d) = config_dw0 (applied_config d)"
  "config_dw0_mask (effective_config b d) =
     (if b then config_dw0_mask (applied_config d) OR B_PCH_GPIO_RST_CONF else config_dw0_mask (applied_config d))"
proof -
  have one: "conf_bits 1 7 0 30 = 0" "conf_given 1 7 0" by (simp_all add: conf_bits_def conf_given_def)
  show "config_dw0 (effective_config b d) = config_dw0 (applied_config d)"
    by (simp add: effective_config_def config_dw0_def Let_def one conf_bits_not_given)
  show "config_dw0_mask (effective_config b d) =
     (if b then config_dw0_mask (applied_config d) OR B_PCH_GPIO_RST_CONF else config_dw0_mask (applied_config d))"
    by (simp add: effective_config_def config_dw0_mask_def Let_def conf_mask_def one ac_simps)
qed

section \<open>The collected registers\<close>

definition wf_regs :: "group_regs \<Rightarrow> bool" where
  "wf_regs g \<longleftrightarrow> length (HostSoftOwnReg g) = 13 \<and> length (HostSoftOwnRegMask g) = 13 \<and>
     length (GpiGpeEnReg g) = 13 \<and> length (GpiGpeEnRegMask g) = 13"

definition unused :: "group_regs \<Rightarrow> GPIO_PAD \<Rightarrow> bool" where
  "unused g p \<longleftrightarrow> \<not> bit (HostSoftOwnReg g ! unat (gi p)) (unat (pn p)) \<and>
     \<not> bit (GpiGpeEnReg g ! unat (gi p)) (unat (pn p))"

text \<open>What writing the collected registers makes of the slots.\<close>

definition flush :: "group_regs \<Rightarrow> (slot \<Rightarrow> u32) \<Rightarrow> slot \<Rightarrow> u32" where
  "flush g m x = (case x of
     GroupSlot HostOwnF k \<Rightarrow> m x AND NOT (HostSoftOwnRegMask g ! unat k) OR HostSoftOwnReg g ! unat k
   | GroupSlot GpeEnF k \<Rightarrow> m x AND NOT (GpiGpeEnRegMask g ! unat k) OR GpiGpeEnReg g ! unat k
   | _ \<Rightarrow> m x)"

definition put_pad :: "GPIO_PAD \<Rightarrow> GPIO_CONFIG \<Rightarrow> (slot \<Rightarrow> u32) \<Rightarrow> slot \<Rightarrow> u32" where
  "put_pad p c m = m(cfg0 p := m (cfg0 p) AND NOT (config_dw0_mask c) OR config_dw0 c,
     cfg1 p := m (cfg1 p) AND NOT (config_dw1_mask c) OR config_dw1 c)"

lemma collect_pad_fields:
  fixes d defines "p \<equiv> GpioPad d" and "c \<equiv> GpioConfig d"
  shows "HostSoftOwnRegMask (collect_pad d g) = or_at (gi p) (own_mask c (unat (pn p))) (HostSoftOwnRegMask g)"
    "HostSoftOwnReg (collect_pad d g) = or_at (gi p) (own_bits c (unat (pn p))) (HostSoftOwnReg g)"
    "GpiGpeEnRegMask (collect_pad d g) = or_at (gi p) (gpe_mask c (unat (pn p))) (GpiGpeEnRegMask g)"
    "GpiGpeEnReg (collect_pad d g) = or_at (gi p) (gpe_bits c (unat (pn p))) (GpiGpeEnReg g)"
  by (simp_all add: p_def c_def collect_pad_def own_mask_def own_bits_def gpe_mask_def gpe_bits_def Let_def)

lemma or_at_nth: "unat k < length xs \<Longrightarrow> or_at i v xs ! unat k = (if k = i then xs ! unat k OR v else xs ! unat k)"
  by (auto simp: or_at_def nth_list_update word_unat_eq_iff)

lemma one_bit:
  "bit (own_bits c n) k \<Longrightarrow> k = n" "bit (own_mask c n) k \<Longrightarrow> k = n"
  "bit (gpe_bits c n) k \<Longrightarrow> k = n" "bit (gpe_mask c n) k \<Longrightarrow> k = n"
proof -
  have z: "bit (HostSoftPadOwn c) k \<Longrightarrow> k < 2" for k using bit_imp_le_length [of "HostSoftPadOwn c" k] by simp
  show "bit (own_bits c n) k \<Longrightarrow> k = n"
    by (auto simp: own_bits_def bit_simps dest!: z)
  show "bit (own_mask c n) k \<Longrightarrow> k = n" "bit (gpe_bits c n) k \<Longrightarrow> k = n" "bit (gpe_mask c n) k \<Longrightarrow> k = n"
    by (auto simp: own_mask_def gpe_mask_def gpe_bits_def GpioIntSci_def bit_simps bit_1_iff bits_9)
qed

lemma collect_two:
  fixes B :: u32
  assumes "\<And>k. bit m k \<Longrightarrow> k = n" "\<not> bit B n"
  shows "v AND NOT (M OR m) OR (B OR b) = (v AND NOT M OR B) AND NOT m OR b"
  by (rule bit_word_eqI) (use assms in \<open>auto simp: bit_simps\<close>)

lemma flush_collect:
  assumes "wf_regs g" "pad_ok (GpioPad d)" "unused g (GpioPad d)" "valid_slot x"
    and c: "HostSoftPadOwn c = HostSoftPadOwn (GpioConfig d)" "InterruptConfig c = InterruptConfig (GpioConfig d)"
  shows "flush (collect_pad d g) (put_pad (GpioPad d) c m) x = write_config (GpioPad d) c (flush g m) x"
proof -
  let ?p = "GpioPad d" and ?n = "unat (pn (GpioPad d))"
  have eq: "own_mask c ?n = own_mask (GpioConfig d) ?n" "own_bits c ?n = own_bits (GpioConfig d) ?n"
    "gpe_mask c ?n = gpe_mask (GpioConfig d) ?n" "gpe_bits c ?n = gpe_bits (GpioConfig d) ?n"
    by (simp_all add: own_mask_def own_bits_def gpe_mask_def gpe_bits_def c)
  have u: "\<not> bit (HostSoftOwnReg g ! unat (gi ?p)) ?n" "\<not> bit (GpiGpeEnReg g ! unat (gi ?p)) ?n"
    using assms(3) by (simp_all add: unused_def)
  show ?thesis
  proof (cases x)
    case (PadSlot k n e)
    then show ?thesis by (simp add: flush_def put_pad_def write_config_def Let_def)
  next
    case (GroupSlot f k)
    have k: "unat k < 13" using assms(4) by (simp add: GroupSlot valid_slot.simps word_less_nat_alt)
    show ?thesis
      using assms(1) k collect_two [OF one_bit(2) u(1)] collect_two [OF one_bit(4) u(2)]
      by (cases f) (auto simp: GroupSlot flush_def put_pad_def write_config_def Let_def collect_pad_fields
          or_at_nth wf_regs_def eq)
  qed
qed

lemma wf_collect: "wf_regs g \<Longrightarrow> wf_regs (collect_pad d g)"
  by (simp add: wf_regs_def collect_pad_fields or_at_def)

lemma unused_collect:
  assumes "unused g q" "pad_ok q" "pad_ok (GpioPad d)" "GpioPad d \<noteq> q" "wf_regs g"
  shows "unused (collect_pad d g) q"
proof -
  have k: "unat (gi q) < 13" using assms(2) pad_slots(1) [of q] by (simp add: word_less_nat_alt)
  have n: "gi q = gi (GpioPad d) \<Longrightarrow> unat (pn q) \<noteq> unat (pn (GpioPad d))"
    using pad_inj [OF assms(2,3)] assms(4) by (auto intro: unsigned_word_eqI)
  show ?thesis
    using assms(1,5) k n one_bit(1,3)
    by (auto simp: unused_def collect_pad_fields or_at_nth wf_regs_def bit_or_iff)
qed


section \<open>The loop against the reference\<close>

definition agree :: "group_regs \<Rightarrow> ram sys \<Rightarrow> ram sys \<Rightarrow> bool" where
  "agree g s t \<longleftrightarrow> known s \<and> known t \<and> wf_regs g \<and> same_slots t (flush g (slots s))"

lemma agree_pad:
  assumes "agree g s t" "pad_ok p"
  shows "pad_owner t p = pad_owner s p" "pad_locked t p = pad_locked s p" "foreign b t p = foreign b s p"
proof -
  have "slots t x = flush g (slots s) x" if "valid_slot x" for x
    using assms(1) that by (simp add: agree_def same_slots_def)
  then have "slots t (own_slot p) = slots s (own_slot p)"
    "slots t (GroupSlot CfgLockF (gi p)) = slots s (GroupSlot CfgLockF (gi p))"
    using pad_slots(6,9) [OF assms(2)] by (simp_all add: flush_def own_slot_def)
  then show "pad_owner t p = pad_owner s p" "pad_locked t p = pad_locked s p" "foreign b t p = foreign b s p"
    by (simp_all add: pad_owner_def pad_locked_def foreign_def Let_def)
qed

definition devslp_pad :: "ram sys \<Rightarrow> GPIO_PAD \<Rightarrow> u32 \<Rightarrow> bool" where
  "devslp_pad s p m \<longleftrightarrow> (\<exists>f \<in> set mPchHSataDevSlpPinToGpioMap. p = Pad f \<and> m = Mode f) \<and>
     pad_owner s p = GpioPadOwnHost"

lemma group_in_range_pad: "pad_ok p \<Longrightarrow> group_in_range (GpioGetGroupFromGpioPad p)"
proof -
  assume p: "pad_ok p"
  have g: "unat (gi p) < 13" using pad_slots(1) [OF p] by (simp add: word_less_nat_alt)
  then have "unat (0x100 + gi p) = 0x100 + unat (gi p)" by (simp add: unat_word_ariths)
  with g show ?thesis
    by (simp add: group_in_range_def group_of_pad [OF p] GpioGetLowestGroup_def GpioGetNumberOfGroups_def
        regs word_less_nat_alt word_le_nat_alt)
qed

lemma write_config_same:
  assumes "same_slots t m" "pad_ok p" "valid_slot x"
  shows "write_config p c (slots t) x = write_config p c m x"
proof -
  have "slots t y = m y" if "valid_slot y" for y using assms(1) that by (simp add: same_slots_def)
  then show ?thesis using assms(2,3) by (simp add: write_config_def Let_def)
qed

lemma flush_cong: "m x = m' x \<Longrightarrow> flush g m x = flush g m' x"
proof (cases x)
  case (GroupSlot f k)
  then show "m x = m' x \<Longrightarrow> flush g m x = flush g m' x" by (cases f) (simp_all add: flush_def)
qed (simp add: flush_def)

lemma agree_step:
  assumes "agree g s t" "pad_ok (GpioPad d)" "unused g (GpioPad d)" "known s1" "known t1"
    and s1: "same_slots s1 (put_pad (GpioPad d) c (slots s))"
    and t1: "same_slots t1 (write_config (GpioPad d) c (slots t))"
    and c: "HostSoftPadOwn c = HostSoftPadOwn (GpioConfig d)" "InterruptConfig c = InterruptConfig (GpioConfig d)"
  shows "agree (collect_pad d g) s1 t1"
proof -
  have wf: "wf_regs g" and same: "same_slots t (flush g (slots s))" using assms(1) by (simp_all add: agree_def)
  have "slots t1 x = flush (collect_pad d g) (slots s1) x" if x: "valid_slot x" for x
  proof -
    have "slots t1 x = write_config (GpioPad d) c (flush g (slots s)) x"
      using t1 x write_config_same [OF same assms(2) x] by (simp add: same_slots_def)
    also have "\<dots> = flush (collect_pad d g) (put_pad (GpioPad d) c (slots s)) x"
      by (rule flush_collect [OF wf assms(2,3) x c, symmetric])
    also have "\<dots> = flush (collect_pad d g) (slots s1) x"
      using s1 x by (intro flush_cong) (simp add: same_slots_def)
    finally show ?thesis .
  qed
  then show ?thesis using assms(4,5) wf_collect [OF wf] by (simp add: agree_def same_slots_def)
qed

text \<open>The group registers at the end.\<close>

definition flush_from :: "nat \<Rightarrow> nat \<Rightarrow> group_regs \<Rightarrow> (slot \<Rightarrow> u32) \<Rightarrow> slot \<Rightarrow> u32" where
  "flush_from a b g m x = (if (case x of GroupSlot f k \<Rightarrow> a \<le> unat k \<and> unat k < b | _ \<Rightarrow> False)
     then flush g m x else m x)"

context plain_regs
begin

text \<open>One entry of the table, on a pad of the chip.\<close>

lemma run_entry:
  assumes "known s" "pad_ok (GpioPad d)"
  shows "run_state (configure_pads hw PchH mPchGpioGroupInfo (d # ds) v g) s =
    (if pad_locked s (GpioPad d) then run_state (configure_pads hw PchH mPchGpioGroupInfo ds v g) s
     else if foreign (hw_debug_code hw) s (GpioPad d)
     then run_state (configure_pads hw PchH mPchGpioGroupInfo ds (if hw_debug_code hw then pad_owner s (GpioPad d) else v) g) s
     else run_state (configure_pads hw PchH mPchGpioGroupInfo ds (if hw_debug_code hw then pad_owner s (GpioPad d) else v) (collect_pad d g))
       (snd (run_state (configure_pad hw (row (gi (GpioPad d))) d) s)))"
proof -
  let ?p = "GpioPad d"
  have g: "\<not> V_PCH_GPIO_GROUP_MAX \<le> gi ?p" using pad_slots(1) [OF assms(2)] by (simp add: regs)
  have n: "\<not> PadPerGroup (row (gi ?p)) \<le> pn ?p" using pad_slots(2) [OF assms(2)] by simp
  have c: "pad_of_series PchH ?p" using assms(2) by (simp add: pad_of_series_def pad_ok_def)
  show ?thesis
    by (auto simp: g n c group_in_range_pad [OF assms(2)] hwrun run_locked [OF assms(1,2)]
        run_ownership [OF assms(1,2)] foreign_def Let_def split: prod.split)
qed

lemma run_devslp_scan:
  assumes "known s" "pad_ok p"
  shows "run_state (devslp_scan hw p m fs) s =
    ((\<exists>f \<in> set fs. p = Pad f \<and> m = Mode f) \<and> pad_owner s p = GpioPadOwnHost, s)"
proof (induction fs)
  case (Cons f fs)
  then show ?case
    using run_ownership [OF assms] by (cases "p = Pad f \<and> m = Mode f") (auto simp: hwrun)
qed (simp add: hwrun)

lemma run_devslp:
  "known s \<Longrightarrow> pad_ok p \<Longrightarrow> run_state (GpioIsPadASataDevSlpPin hw p m) s = (devslp_pad s p m, s)"
  by (simp add: GpioIsPadASataDevSlpPin_def run_devslp_scan devslp_pad_def)

lemma run_configure_pad:
  assumes "known s" "pad_ok (GpioPad d)"
    and "c = effective_config (devslp_pad s (GpioPad d) (ucast (PadMode (GpioConfig d)))) d"
  shows "\<exists>s'. run_state (configure_pad hw (row (gi (GpioPad d))) d) s = ((), s') \<and> known s' \<and>
    same_slots s' (put_pad (GpioPad d) c (slots s))"
proof -
  let ?p = "GpioPad d"
  let ?b = "devslp_pad s ?p (ucast (PadMode (GpioConfig d)))"
  define s1 where "s1 = put_slot (cfg0 ?p) (slots s (cfg0 ?p) AND NOT (config_dw0_mask c) OR config_dw0 c) s"
  define s2 where "s2 = put_slot (cfg1 ?p) (slots s1 (cfg1 ?p) AND NOT (config_dw1_mask c) OR config_dw1 c) s1"
  have z: "push_bit 30 (drop_bit 1 1) = (0 :: u32)" by simp
  have h: "run_state (GpioHandleSataDevSlpPad hw ?p (ucast (PadMode (GpioConfig d)))
      (config_dw0 (applied_config d)) (config_dw0_mask (applied_config d))) s =
      ((config_dw0 c, config_dw0_mask c), s)"
    by (simp add: GpioHandleSataDevSlpPad_def hwrun run_devslp [OF assms(1,2)] assms(3) effective_dw0 z)
  have "run_state (configure_pad hw (row (gi ?p)) d) s = ((), s2)"
    using assms(2) unfolding s2_def s1_def
    by (simp add: configure_pad_def hwrun h pad_cfg_reg_slot run_rmw_slot Let_def effective_dw1 assms(3))
  moreover have "known s2" using assms(1) by (simp add: s2_def s1_def)
  moreover have "same_slots s2 (put_pad ?p c (slots s))"
    using assms(2) by (simp add: same_slots_def put_pad_def s2_def s1_def slots_put)
  ultimately show ?thesis by blast
qed


lemma run_configure_pads:
  assumes "agree g s t" "\<forall>d \<in> set ds. pad_ok (GpioPad d) \<and> unused g (GpioPad d)" "distinct (map GpioPad ds)"
  shows "\<exists>g' s' t'. run_state (configure_pads hw PchH mPchGpioGroupInfo ds v g) s = ((EFI_SUCCESS, g'), s') \<and>
    run_state (set_each hw ds) t = ((), t') \<and> agree g' s' t'"
  using assms
proof (induction ds arbitrary: g s t v)
  case (Cons d ds)
  let ?p = "GpioPad d" and ?m = "ucast (PadMode (GpioConfig d)) :: u32"
  have ks: "known s" "known t" and wf: "wf_regs g" and same: "same_slots t (flush g (slots s))"
    using Cons.prems(1) by (simp_all add: agree_def)
  have p: "pad_ok ?p" and un: "unused g ?p" using Cons.prems(2) by simp_all
  have rest: "\<forall>d \<in> set ds. pad_ok (GpioPad d) \<and> unused g (GpioPad d)" "distinct (map GpioPad ds)"
    using Cons.prems(2,3) by simp_all
  note pad = agree_pad [OF Cons.prems(1) p]
  have dv: "devslp_pad t ?p ?m = devslp_pad s ?p ?m" by (simp add: devslp_pad_def pad(1))
  define c where "c = effective_config (devslp_pad s ?p ?m) d"
  have f: "foreign (hw_debug_code hw) s ?p \<longleftrightarrow> hw_debug_code hw \<and> pad_owner s ?p \<noteq> GpioPadOwnHost"
    by (simp add: foreign_def)
  show ?case
  proof (cases "pad_locked s ?p \<or> foreign (hw_debug_code hw) s ?p")
    case True
    obtain w where "run_state (configure_pads hw PchH mPchGpioGroupInfo (d # ds) v g) s =
        run_state (configure_pads hw PchH mPchGpioGroupInfo ds w g) s"
      using True run_entry [OF ks(1) p, of ds v g] by (meson)
    moreover have "run_state (set_each hw (d # ds)) t = run_state (set_each hw ds) t"
      using True pad run_SetPadConfig_refused [OF ks(2) p, of c] by (auto simp: hwrun run_devslp ks p dv c_def)
    ultimately show ?thesis using Cons.IH [OF Cons.prems(1) rest, of w] by simp
  next
    case False
    obtain s1 where s1: "run_state (configure_pad hw (row (gi ?p)) d) s = ((), s1)" "known s1"
      "same_slots s1 (put_pad ?p c (slots s))"
      using run_configure_pad [OF ks(1) p c_def] by blast
    obtain t1 where t1: "run_state (GpioSetPadConfig hw ?p c) t = (EFI_SUCCESS, t1)" "known t1"
      "same_slots t1 (write_config ?p c (slots t))"
      using run_SetPadConfig [OF ks(2) p] False pad effective_no_lock unfolding c_def by blast
    have "agree (collect_pad d g) s1 t1"
      by (rule agree_step [OF Cons.prems(1) p un s1(2) t1(2) s1(3) t1(3)]) (simp_all add: c_def effective_fields)
    moreover have "\<forall>x \<in> set ds. pad_ok (GpioPad x) \<and> unused (collect_pad d g) (GpioPad x)"
      using rest Cons.prems(3) unused_collect [OF _ _ p _ wf] by auto
    ultimately obtain g' s' t' where IH: "run_state (configure_pads hw PchH mPchGpioGroupInfo ds (if hw_debug_code hw then pad_owner s ?p else v)
          (collect_pad d g)) s1 = ((EFI_SUCCESS, g'), s')"
       "run_state (set_each hw ds) t1 = ((), t')" "agree g' s' t'"
      using Cons.IH rest(2) by blast
    moreover have "run_state (configure_pads hw PchH mPchGpioGroupInfo (d # ds) v g) s = ((EFI_SUCCESS, g'), s')"
      using run_entry [OF ks(1) p, of ds v g] False s1(1) IH(1) by simp
    moreover have "run_state (set_each hw (d # ds)) t = ((), t')"
      using t1(1) IH(2) by (simp add: hwrun run_devslp ks p dv c_def)
    ultimately show ?thesis by blast
  qed
qed (simp add: hwrun)


lemma run_write_group:
  assumes "k < 13"
  shows "\<exists>s'. run_state (write_group hw (row k) g (unat k)) s = ((), s') \<and> (known s \<longrightarrow> known s') \<and>
    same_slots s' (flush_from (unat k) (Suc (unat k)) g (slots s))"
proof -
  let ?H = "GroupSlot HostOwnF k" and ?E = "GroupSlot GpeEnF k"
  note v = group_slots_always(1,2) [OF assms]
  then have off: "HostOwnOffset (row k) \<noteq> NOREG" "GpiGpeEnOffset (row k) \<noteq> NOREG" by (simp_all add: valid_slot.simps)
  have reg: "gpio_reg (row k) (HostOwnOffset (row k)) = slot_addr ?H"
    "gpio_reg (row k) (GpiGpeEnOffset (row k)) = slot_addr ?E" by (simp_all add: slot_addr_def)
  define s1 where "s1 = put_slot ?H (flush g (slots s) ?H) s"
  define s2 where "s2 = put_slot ?E (flush g (slots s1) ?E) s1"
  have "run_state (write_group hw (row k) g (unat k)) s = ((), s2)"
    by (simp add: write_group_def hwrun off reg run_rmw_slot s1_def s2_def flush_def)
  moreover have "same_slots s2 (flush_from (unat k) (Suc (unat k)) g (slots s))"
    using v by (auto simp: same_slots_def flush_from_def s2_def s1_def slots_put flush_def less_Suc_eq_le
        word_unat_eq_iff dual_order.antisym split: slot.split group_field.split)
  ultimately show ?thesis by (auto simp: s2_def s1_def)
qed

lemma run_write_groups_from:
  assumes "n \<le> 13"
  shows "\<exists>s'. run_state (write_groups_from hw g (13 - n) (drop (13 - n) mPchGpioGroupInfo)) s = ((), s') \<and>
    (known s \<longrightarrow> known s') \<and> same_slots s' (flush_from (13 - n) 13 g (slots s))"
  using assms
proof (induction n arbitrary: s)
  case 0
  then show ?case by (auto simp: hwrun same_slots_def flush_from_def split: slot.splits)
next
  case (Suc n)
  define k where "k = 12 - n"
  have "k < 13" by (simp add: k_def)
  then have u: "unat (of_nat k :: u32) = k" by (simp add: unat_of_nat)
  have k: "13 - Suc n = k" "13 - n = Suc k" "k < 13" "unat (of_nat k :: u32) = k" "(of_nat k :: u32) < 13"
    using Suc.prems u by (auto simp: k_def [symmetric] word_less_nat_alt) (simp_all add: k_def)
  have tab: "drop k mPchGpioGroupInfo = row (of_nat k) # drop (Suc k) mPchGpioGroupInfo"
    using k(3) by (simp add: Cons_nth_drop_Suc [symmetric] row_def ginfo_def k(4))
  obtain s1 where s1: "run_state (write_group hw (row (of_nat k)) g k) s = ((), s1)" "known s \<longrightarrow> known s1"
    "same_slots s1 (flush_from k (Suc k) g (slots s))"
    using run_write_group [OF k(5), of g s] k(4) by auto
  obtain s2 where s2: "run_state (write_groups_from hw g (Suc k) (drop (Suc k) mPchGpioGroupInfo)) s1 = ((), s2)"
    "known s1 \<longrightarrow> known s2" "same_slots s2 (flush_from (Suc k) 13 g (slots s1))"
    using Suc.IH [of s1] Suc.prems k(2) by auto
  have "same_slots s2 (flush_from k 13 g (slots s))"
  proof (unfold same_slots_def, intro allI impI)
    fix x assume x: "valid_slot x"
    have "slots s2 x = flush_from (Suc k) 13 g (slots s1) x" "slots s1 x = flush_from k (Suc k) g (slots s) x"
      using s1(3) s2(3) x by (simp_all add: same_slots_def)
    then show "slots s2 x = flush_from k 13 g (slots s) x"
      using flush_cong [of "slots s1" x "slots s" g] k(3)
      by (auto simp: flush_from_def less_Suc_eq_le split: slot.splits if_splits)
  qed
  then show ?case using s1(1,2) s2(1,2) unfolding k tab by (auto simp: hwrun)
qed

lemma run_flush:
  assumes "known s"
  shows "\<exists>s'. run_state (write_groups_from hw g 0 mPchGpioGroupInfo) s = ((), s') \<and> known s' \<and>
    same_slots s' (flush g (slots s))"
proof -
  have "same_slots s' (flush_from 0 13 g (slots s)) \<Longrightarrow> same_slots s' (flush g (slots s))" for s'
    by (auto simp: same_slots_def flush_from_def flush_def valid_slot.simps word_less_nat_alt split: slot.splits)
  then show ?thesis using run_write_groups_from [of 13 g s] assms by auto
qed


lemma run_GpioConfigureSklPch:
  assumes "known s" "\<forall>d \<in> set ds. pad_ok (GpioPad d)" "distinct (map GpioPad ds)"
  shows "\<exists>s' t'. run_state (GpioConfigureSklPch hw ds) s = (EFI_SUCCESS, s') \<and>
    run_state (set_each hw ds) s = ((), t') \<and> known s' \<and> same_slots s' (slots t')"
proof -
  have z: "wf_regs no_group_regs"
    "\<And>k. k < 13 \<Longrightarrow> HostSoftOwnReg no_group_regs ! k = 0 \<and> GpiGpeEnReg no_group_regs ! k = 0 \<and>
       HostSoftOwnRegMask no_group_regs ! k = 0 \<and> GpiGpeEnRegMask no_group_regs ! k = 0"
    by (simp_all add: wf_regs_def no_group_regs_def regs Let_def)
  then have "agree no_group_regs s s"
    using assms(1) by (auto simp: agree_def same_slots_def flush_def valid_slot.simps word_less_nat_alt
        split: slot.split group_field.split)
  moreover have "unused no_group_regs p" if "pad_ok p" for p
    using z(2) pad_slots(1) [OF that] by (simp add: unused_def word_less_nat_alt)
  ultimately obtain g' s1 t' where r: "run_state (configure_pads hw PchH mPchGpioGroupInfo ds GpioPadOwnHost no_group_regs) s
      = ((EFI_SUCCESS, g'), s1)" "run_state (set_each hw ds) s = ((), t')" "agree g' s1 t'"
    using run_configure_pads [of no_group_regs s s ds GpioPadOwnHost] assms(2,3) by auto
  then obtain s' where s': "run_state (write_groups_from hw g' 0 mPchGpioGroupInfo) s1 = ((), s')" "known s'"
    "same_slots s' (flush g' (slots s1))"
    using run_flush [of s1 g'] by (auto simp: agree_def)
  then have "same_slots s' (slots t')" using r(3) by (simp add: same_slots_def agree_def)
  moreover have "run_state (GpioConfigureSklPch hw ds) s = (EFI_SUCCESS, s')"
    using r(1) s'(1) by (simp add: GpioConfigureSklPch_def hwrun run_series [OF assms(1)] run_table [OF assms(1)]
        GpioGetNumberOfGroups_def)
  ultimately show ?thesis using r(2) s'(2) by blast
qed

end

section \<open>Properties\<close>


definition init_table :: "GPIO_INIT_CONFIG list" where
  "init_table = [
     \<lparr> GpioPad = 0x01010003, GpioConfig = an_output \<rparr>,
     \<lparr> GpioPad = 0x01010002, GpioConfig = an_output\<lparr> PadMode := 3 \<rparr> \<rparr>,
     \<lparr> GpioPad = 0x01040004, GpioConfig = an_output\<lparr> PadMode := 3 \<rparr> \<rparr>]"

lemma init_table_facts: "\<forall>d \<in> set init_table. pad_ok (GpioPad d)" "distinct (map GpioPad init_table)"
  by (simp_all add: init_table_def pad_ok_def GPIO_GET_CHIPSET_ID_def GpioGetGroupIndexFromGpioPad_def
      GpioGetPadNumberFromGpioPad_def valid_pos_def rows regs)


text \<open>One entry, on an unlocked pad of the host.\<close>

lemma single_entry:
  assumes "known s" "pad_ok p" "\<not> foreign dbg s p" "\<not> pad_locked s p"
    and "d = \<lparr> GpioPad = p, GpioConfig = c \<rparr>" "e = effective_config (devslp_pad s p (ucast (PadMode c))) d"
    and "wf_config e"
  shows "\<exists>s'. run_state (GpioConfigureSklPch (ram_hw dbg) [d]) s = (EFI_SUCCESS, s') \<and> known s' \<and>
    \<not> foreign dbg s' p \<and> read_config (slots s') p = merge_config e (read_config (slots s) p)"
proof -
  obtain s' t' where r: "run_state (GpioConfigureSklPch (ram_hw dbg) [d]) s = (EFI_SUCCESS, s')"
    "run_state (set_each (ram_hw dbg) [d]) s = ((), t')" "known s'" "same_slots s' (slots t')"
    using plain_ram.run_GpioConfigureSklPch [of s "[d]" dbg] assms(1,2,5) by auto
  obtain t where t: "run_state (GpioSetPadConfig (ram_hw dbg) p e) s = (EFI_SUCCESS, t)" "known t"
    "same_slots t (write_config p e (slots s))"
    using plain_ram.run_SetPadConfig [OF assms(1,2), of dbg e] assms(3,4,6) effective_no_lock by (auto simp: hwrun)
  have "t' = t"
    using r(2) t(1) assms(5,6) by (simp add: hwrun plain_ram.run_devslp [OF assms(1,2)])
  then have s': "same_slots s' (write_config p e (slots s))" using r(4) t(3) by (simp add: same_slots_def)
  then have "foreign dbg s' p = foreign dbg s p"
    using write_config_owner [OF s' assms(2)] by (simp add: foreign_def)
  then show ?thesis
    using r(1,3) assms(3) same_slots_read [OF s' assms(2)] merge_write [OF assms(2,7)] by simp
qed

lemma wf_effective: "wf_config c \<Longrightarrow> wf_config (effective_config b \<lparr> GpioPad = p, GpioConfig = c \<rparr>)"
  by (auto simp: effective_config_def applied_config_def wf_config_def wf_field_def regs Let_def)

lemma power_field:
  fixes w :: "4 word"
  shows "(ucast w :: u32) AND 7 = ucast (w AND 7)" "(ucast w :: u32) AND 7 = 0 \<longleftrightarrow> w AND 7 = 0"
proof -
  have m: "(7 :: u32) = mask 3" "(7 :: 4 word) = mask 3" by (simp_all add: mask_numeral)
  show e: "(ucast w :: u32) AND 7 = ucast (w AND 7)" unfolding m
    by (rule bit_word_eqI) (auto simp: bit_simps)
  have "unat (ucast (w AND 7) :: u32) = unat (w AND 7)"
    using unsigned_less [of "w AND 7", where 'a = nat] by (simp add: unsigned_ucast_eq take_bit_nat_eq_self)
  then have "ucast (w AND 7) = (0 :: u32) \<longleftrightarrow> w AND 7 = 0" by (simp add: word_unat_eq_iff)
  then show "(ucast w :: u32) AND 7 = 0 \<longleftrightarrow> w AND 7 = 0" unfolding e .
qed

text \<open>A SATA DEVSLP pad configured from the table gets power good reset only where its entry
  leaves the reset open: an entry that asks for another reset keeps it, although the code means
  to force power good.\<close>

theorem devslp_reset_config:
  assumes "known s" and "pad_ok p" and "\<not> foreign dbg s p" and "\<not> pad_locked s p"
    and "devslp_pad s p (ucast (PadMode c))" and "wf_config c"
    and "run_state (GpioConfigureSklPch (ram_hw dbg) [\<lparr> GpioPad = p, GpioConfig = c \<rparr>]) s = (st, s')"
    and "fst (run_state (GpioGetPadConfig (ram_hw dbg) p any) s') = (st', c')"
  shows "st = EFI_SUCCESS \<and> st' = EFI_SUCCESS
    \<and> PowerConfig c' = (if PowerConfig c AND 7 = 0 then 1 else PowerConfig c AND 7)"
proof -
  define d where "d = \<lparr> GpioPad = p, GpioConfig = c \<rparr>"
  define e where "e = effective_config True d"
  have "wf_config e" using wf_effective [OF assms(6)] by (simp add: e_def d_def)
  then obtain t where t: "run_state (GpioConfigureSklPch (ram_hw dbg) [d]) s = (EFI_SUCCESS, t)" "known t"
      "\<not> foreign dbg t p" "read_config (slots t) p = merge_config e (read_config (slots s) p)"
    using single_entry [OF assms(1-4) d_def, of e] assms(5) by (auto simp: e_def)
  have s': "st = EFI_SUCCESS" "s' = t" using assms(7) t(1) by (simp_all add: d_def)
  have c': "st' = EFI_SUCCESS" "c' = merge_config e (read_config (slots s) p)"
    using assms(8) plain_ram.run_GetPadConfig [OF t(2) assms(2), of dbg any] t(3,4) s'(2) by (simp_all add: hwrun)
  have P: "PowerConfig e = (if PowerConfig c AND 7 = 0 then 1 else PowerConfig c)"
    by (simp add: e_def d_def effective_config_def applied_config_def conf_given_def power_field Let_def)
  have "PowerConfig c' = ucast (pick 0x7 (ucast (PowerConfig e)) (ucast (PowerConfig (read_config (slots s) p))))"
    by (simp add: c'(2) merge_config_def)
  also have "\<dots> = (if PowerConfig c AND 7 = 0 then 1 else PowerConfig c AND 7)"
    by (simp add: pick_def P power_field)
  finally show ?thesis using s'(1) c'(1) by simp
qed

theorem devslp_reset_config_witness:
  "PowerConfig (snd (fst (run_state (GpioGetPadConfig (ram_hw True) 0x01040004 an_output)
     (snd (run_state (GpioConfigureSklPch (ram_hw True)
        [\<lparr> GpioPad = 0x01040004, GpioConfig = an_output\<lparr> PadMode := 3 \<rparr> \<rparr>]) ready_pch))))) = 3"
proof -
  have "pad_ok 0x01040004" using init_table_facts(1) by (simp add: init_table_def)
  moreover have "devslp_pad ready_pch 0x01040004 (ucast (PadMode (an_output\<lparr> PadMode := 3 \<rparr>)))"
    by (simp add: devslp_pad_def mPchHSataDevSlpPinToGpioMap_def regs)
  moreover have "wf_config (an_output\<lparr> PadMode := 3 \<rparr>)"
    using an_output_facts(1) by (simp add: wf_config_def wf_field_def)
  ultimately show ?thesis
    using devslp_reset_config [of ready_pch "0x01040004" True, OF _ _ _ _ _ _ surjective_pairing surjective_pairing]
    by (simp add: an_output_def)
qed

end
