(* ===== verification/GpioTable.thy ===== *)
theory GpioTable
  imports GpioInit GpioEvents
begin

text \<open>
  The group table of PchSklGpioData.c and the functions that walk over it: which registers are
  registers of their own, which lock registers the check of PchPcrLib.c knows, and what
  clearing all interrupts does.
\<close>

section \<open>The register map\<close>

lemma gpe_sts_shared: "gpio_reg (row 11) (GpiGpeStsOffset (row 11)) = slot_addr (GroupSlot GpeStsF 7)"
  by (simp add: slot_addr_def gpio_reg_def rows)

lemma gpi_ie_shared:
  "gpio_reg (row 4) (GpiIeOffset (row 4)) = gpio_reg (row 3) (GpiIeOffset (row 3))"
  by (simp add: gpio_reg_def rows)

text \<open>C38: The group table places the two pad configuration registers of each pad and, of every
  group that has them, the pad ownership, host ownership, configuration lock, output lock, and
  the enable and status registers of interrupts, GPEs, SMIs and NMIs at disjoint addresses, with
  two exceptions: GPP_L has the GPE status register of GPP_H, and GPP_E the interrupt enable
  register of GPP_D.\<close>

theorem gpio_register_map:
  assumes "valid_slot x" and "valid_slot y" and "x \<noteq> y"
  shows "apart (slot_addr x) 4 (slot_addr y) 4
    \<and> gpio_reg (row 11) (GpiGpeStsOffset (row 11)) = gpio_reg (row 7) (GpiGpeStsOffset (row 7))
    \<and> gpio_reg (row 4) (GpiIeOffset (row 4)) = gpio_reg (row 3) (GpiIeOffset (row 3))"
  using slot_apart [OF assms] gpe_sts_shared gpi_ie_shared by (simp add: slot_addr_def)

text \<open>The interrupt enable register of GPP_E is that of GPP_D, which is apart from those of the other groups.\<close>

theorem gpio_register_map_witness:
  "apart (slot_addr (GroupSlot GpiIeF 3)) 4 (slot_addr (GroupSlot GpiIeF 5)) 4
   \<and> apart (slot_addr (GroupSlot CfgLockF 7)) 4 (slot_addr (GroupSlot CfgLockF 11)) 4"
proof -
  have "valid_slot (GroupSlot GpiIeF 3)" "valid_slot (GroupSlot GpiIeF 5)"
    by (simp_all add: valid_slot.simps aliased_def rows NO_REGISTER_FOR_PROPERTY_def)
  then show ?thesis
    using gpio_register_map [of "GroupSlot GpiIeF 3" "GroupSlot GpiIeF 5"]
      gpio_register_map [of "GroupSlot CfgLockF 7" "GroupSlot CfgLockF 11"] group_slots_always(3) by simp
qed

section \<open>The shared GPE status register\<close>

lemma run_2Tier:
  assumes "known s" "pwrm_ready s" "pad_ok p"
  shows "snd (run_state (GpioCheckFor2Tier (ram_hw dbg) p) s) = s"
  by (simp add: GpioCheckFor2Tier_def hwrun run_GpioGetGpeNumber [OF assms])

lemma run_GpeSts:
  assumes "known s" "pwrm_ready s" "pad_ok p" "fst (run_state (GpioCheckFor2Tier (ram_hw dbg) p) s)"
    and "GpiGpeStsOffset (row (gi p)) \<noteq> NOREG"
  defines "a \<equiv> gpio_reg (row (gi p)) (GpiGpeStsOffset (row (gi p)))" and "m \<equiv> push_bit (unat (pn p)) 1"
  shows "run_state (GpioGetGpiGpeSts (ram_hw dbg) p) s =
      ((EFI_SUCCESS, drop_bit (unat (pn p)) (reg32 s a AND m)), s)"
    "run_state (GpioClearGpiGpeSts (ram_hw dbg) p) s = (EFI_SUCCESS, wr32 a m s)"
proof -
  have t: "run_state (GpioCheckFor2Tier (ram_hw dbg) p) s = (True, s)"
    using assms(4) run_2Tier [OF assms(1-3), of dbg] by (simp add: prod_eq_iff)
  have i: "pad_in_table mPchGpioGroupInfo (gi p) (pn p)"
    using pad_slots [OF assms(3)] by (simp add: pad_in_table_def word_less_nat_alt not_le)
  show "run_state (GpioGetGpiGpeSts (ram_hw dbg) p) s =
      ((EFI_SUCCESS, drop_bit (unat (pn p)) (reg32 s a AND m)), s)"
    "run_state (GpioClearGpiGpeSts (ram_hw dbg) p) s = (EFI_SUCCESS, wr32 a m s)"
    using assms(1,5) i
    by (simp_all add: GpioGetGpiGpeSts_def GpioClearGpiGpeSts_def hwrun plain_ram.run_table t a_def m_def Let_def)
qed

text \<open>For a GPP_L pad GpioGetGpiGpeSts returns, and GpioClearGpiGpeSts clears, the second tier
  GPE status of the GPP_H pad with the same number.\<close>

theorem gpe_status_shared:
  assumes "known s" and "pwrm_ready s" and "pad_ok p" and "pad_ok q"
    and "gi p = 11" and "gi q = 7" and "pn p = pn q"
    and "fst (run_state (GpioCheckFor2Tier (ram_hw dbg) p) s)"
    and "fst (run_state (GpioCheckFor2Tier (ram_hw dbg) q) s)"
  shows "run_state (GpioGetGpiGpeSts (ram_hw dbg) p) s = run_state (GpioGetGpiGpeSts (ram_hw dbg) q) s
    \<and> run_state (GpioClearGpiGpeSts (ram_hw dbg) p) s = run_state (GpioClearGpiGpeSts (ram_hw dbg) q) s
    \<and> fst (fst (run_state (GpioGetGpiGpeSts (ram_hw dbg) p) s)) = EFI_SUCCESS"
proof -
  have o: "GpiGpeStsOffset (row (gi p)) \<noteq> NOREG" "GpiGpeStsOffset (row (gi q)) \<noteq> NOREG"
    unfolding assms(5,6) by (simp_all add: rows NO_REGISTER_FOR_PROPERTY_def)
  have a: "gpio_reg (row (gi p)) (GpiGpeStsOffset (row (gi p))) = gpio_reg (row (gi q)) (GpiGpeStsOffset (row (gi q)))"
    unfolding assms(5,6) gpe_sts_shared by (simp add: slot_addr_def)
  show ?thesis
    by (simp add: run_GpeSts [OF assms(1,2,3,8) o(1)] run_GpeSts [OF assms(1,2,4,9) o(2)] a assms(7))
qed

theorem gpe_status_shared_witness:
  "run_state (GpioGetGpiGpeSts (ram_hw True) 0x010B0003) routed_pch
   = run_state (GpioGetGpiGpeSts (ram_hw True) 0x01070003) routed_pch"
proof -
  have p: "pad_ok 0x010B0003" "pad_ok 0x01070003" "gi 0x010B0003 = 11" "gi 0x01070003 = 7" "pn 0x010B0003 = pn 0x01070003"
    by (simp_all add: pad_ok_def GPIO_GET_CHIPSET_ID_def GpioGetGroupIndexFromGpioPad_def
        GpioGetPadNumberFromGpioPad_def valid_pos_def rows regs)
  have t: "fst (run_state (GpioCheckFor2Tier (ram_hw True) 0x010B0003) routed_pch)"
    "fst (run_state (GpioCheckFor2Tier (ram_hw True) 0x01070003) routed_pch)"
    using routed_pch_groups [of True]
    by (simp_all add: GpioCheckFor2Tier_def hwrun run_GpioGetGpeNumber [OF routed_pch_facts(1,2) p(1)]
        run_GpioGetGpeNumber [OF routed_pch_facts(1,2) p(2)] gpe_number_def GpioGetGroupFromGpioPad_def)
  show ?thesis using gpe_status_shared [OF routed_pch_facts(1,2) p t] by blast
qed

section \<open>The lock registers and the check of PchPcrWrite\<close>

definition guarded_groups :: "u32 list" where "guarded_groups = [0, 1, 2, 3, 4, 8, 12]"

lemma lock_guard:
  assumes "g < 13" "off = PadCfgLockOffset (row g) \<or> off = PadCfgLockTxOffset (row g)"
  shows "sbi_only PchH (Community (row g)) (ucast off) \<longleftrightarrow> g \<in> set guarded_groups" "(ucast off :: u16) AND 3 = 0"
proof -
  have "list_all (\<lambda>g. list_all (\<lambda>off. (sbi_only PchH (Community (row g)) (ucast off) \<longleftrightarrow> g \<in> set guarded_groups) \<and>
      (ucast off :: u16) AND 3 = 0) [PadCfgLockOffset (row g), PadCfgLockTxOffset (row g)]) group_indices"
    by (simp add: table_eval sbi_only_def guarded_groups_def regs)
  then show "sbi_only PchH (Community (row g)) (ucast off) \<longleftrightarrow> g \<in> set guarded_groups" "(ucast off :: u16) AND 3 = 0"
    using assms by (auto simp: list_all_iff set_group_indices)
qed

text \<open>PchPcrWrite32 of a pad lock register is refused, with the hardware untouched, exactly for
  the groups GPP_A to GPP_E, GPP_I and GPD; for the other six groups the direct write that the
  check is there to prevent is carried out.\<close>

theorem pcr_lock_guard:
  assumes "cur_series s = PchH" and "g < 13"
    and "off = PadCfgLockOffset (row g) \<or> off = PadCfgLockTxOffset (row g)"
    and "run_state (PchPcrWrite32 (ram_hw True) (Community (row g)) (ucast off) v) s = (st, s')"
  shows "if g \<in> set guarded_groups then st = EFI_INVALID_PARAMETER \<and> dev s' = dev s
    else st = EFI_SUCCESS \<and> reg32 s' (gpio_reg (row g) off) = v"
  using lock_guard [OF assms(2,3)] assms(1,4)
  by (auto simp: run_PchPcrWrites refused_def gpio_reg_def mem_simps)

theorem pcr_lock_guard_witness:
  "fst (run_state (PchPcrWrite32 (ram_hw True) PID_GPIOCOM0 0x60 0) ready_pch) = EFI_INVALID_PARAMETER"
proof -
  have "cur_series ready_pch = PchH" by (simp add: ready_pch_def cur_series_def)
  from pcr_lock_guard [OF this _ _ surjective_pairing, of 0 "0x60" 0]
  show ?thesis by (simp add: guarded_groups_def rows)
qed

section \<open>Clearing the interrupts of all groups\<close>

text \<open>A run that sets the slots of a set to all ones and leaves the others.\<close>

definition marks :: "slot set \<Rightarrow> ram sys \<Rightarrow> ram sys \<Rightarrow> bool" where
  "marks W s s' \<longleftrightarrow> (known s \<longrightarrow> known s') \<and>
     (\<forall>x. valid_slot x \<longrightarrow> slots s' x = (if x \<in> W then 0xFFFFFFFF else slots s x))"

lemma marks_none: "marks {} s s"
  by (simp add: marks_def)

lemma marks_put: "valid_slot y \<Longrightarrow> marks {y} s (put_slot y 0xFFFFFFFF s)"
  by (simp add: marks_def slots_put)

lemma marks_trans: "marks W s t \<Longrightarrow> marks V t u \<Longrightarrow> marks (V \<union> W) s u"
  by (simp add: marks_def)

definition cleared :: "(GPIO_GROUP \<Rightarrow> u32) \<Rightarrow> u32 \<Rightarrow> slot set" where
  "cleared beyond g = {x. valid_slot x \<and>
     (x = GroupSlot GpiIsF g \<and> beyond (0x100 + g) \<noteq> NOREG \<or> x = GroupSlot GpeStsF (if g = 11 then 7 else g) \<or>
      x = GroupSlot SmiStsF g \<or> x = GroupSlot NmiStsF g)}"

lemma gpe_sts_slot:
  assumes "g < 13"
  shows "valid_slot (GroupSlot GpeStsF (if g = 11 then 7 else g))" "GpiGpeStsOffset (row g) \<noteq> NOREG"
    "gpio_reg (row g) (GpiGpeStsOffset (row g)) = slot_addr (GroupSlot GpeStsF (if g = 11 then 7 else g))"
proof -
  have "list_all (\<lambda>g. GpiGpeStsOffset (row g) \<noteq> NOREG) group_indices" by (simp add: table_eval)
  then have n: "GpiGpeStsOffset (row g) \<noteq> NOREG" if "g < 13" for g
    using that by (simp add: list_all_iff set_group_indices)
  show "GpiGpeStsOffset (row g) \<noteq> NOREG" by (rule n [OF assms])
  show "valid_slot (GroupSlot GpeStsF (if g = 11 then 7 else g))"
    using n [of g] n [of 7] assms by (auto simp: valid_slot.simps aliased_def)
  show "gpio_reg (row g) (GpiGpeStsOffset (row g)) = slot_addr (GroupSlot GpeStsF (if g = 11 then 7 else g))"
    using gpe_sts_shared by (simp add: slot_addr_def)
qed

lemma group_index_of_nat:
  assumes "k < 13"
  shows "GpioGetGroupIndexFromGroup (0x100 + of_nat k) = of_nat k"
proof -
  from assms have "k \<in> set [0..<13]" by simp
  then show ?thesis by (simp add: upt_rec GpioGetGroupIndexFromGroup_def) (elim disjE; simp)
qed

fun is_status :: "(GPIO_GROUP \<Rightarrow> u32) \<Rightarrow> slot \<Rightarrow> bool" where
  "is_status beyond (GroupSlot GpiIsF g) = (beyond (0x100 + g) \<noteq> NOREG)"
| "is_status beyond (GroupSlot GpeStsF g) = True"
| "is_status beyond (GroupSlot SmiStsF g) = True"
| "is_status beyond (GroupSlot NmiStsF g) = True"
| "is_status beyond x = False"

lemma all_cleared:
  assumes "valid_slot x"
  shows "x \<in> (\<Union>k \<in> {0..<13}. cleared beyond (of_nat k)) \<longleftrightarrow> is_status beyond x"
proof (cases x)
  case (GroupSlot f g)
  have g: "g < 13" using assms by (simp add: GroupSlot valid_slot.simps)
  have s: "g \<noteq> 11" if "f = GpeStsF" using assms that by (simp add: GroupSlot valid_slot.simps aliased_def)
  have "x \<in> (\<Union>k \<in> {0..<13}. cleared beyond (of_nat k)) \<longleftrightarrow> (\<exists>h < 13. x \<in> cleared beyond h)"
  proof
    assume "\<exists>h < 13. x \<in> cleared beyond h"
    then obtain h where h: "h < 13" "x \<in> cleared beyond h" by blast
    then have "unat h \<in> {0..<13}" "of_nat (unat h) = h" by (simp_all add: word_less_nat_alt)
    with h(2) show "x \<in> (\<Union>k \<in> {0..<13}. cleared beyond (of_nat k))" by (metis UN_I)
  next
    assume "x \<in> (\<Union>k \<in> {0..<13}. cleared beyond (of_nat k))"
    then obtain k where k: "k < 13" "x \<in> cleared beyond (of_nat k)" by auto
    then have "(of_nat k :: u32) < 13" by (simp add: word_less_nat_alt unat_of_nat)
    with k(2) show "\<exists>h < 13. x \<in> cleared beyond h" by blast
  qed
  also have "\<dots> \<longleftrightarrow> is_status beyond x"
    using assms g s unfolding GroupSlot by (cases f) (auto simp: cleared_def intro: exI [of _ g])
  finally show ?thesis .
qed (simp add: cleared_def)

context plain_regs
begin

lemma run_clear_sts:
  assumes "T \<noteq> NOREG \<Longrightarrow> valid_slot y \<and> gpio_reg i off = slot_addr y"
  shows "\<exists>s'. run_state (clear_sts hw i T off) s = ((), s') \<and> marks (if T \<noteq> NOREG then {y} else {}) s s'"
  using assms marks_put [of y s] marks_none [of s] by (auto simp: clear_sts_def hwrun run_write_slot)

lemma run_clear_group:
  assumes "g < 13"
  shows "\<exists>s'. run_state (do {
       clear_sts hw (row g) (beyond (0x100 + g)) (GpiIsOffset (row g));
       clear_sts hw (row g) (GpiGpeStsOffset (row g)) (GpiGpeStsOffset (row g));
       clear_sts hw (row g) (SmiStsOffset (row g)) (SmiStsOffset (row g));
       clear_sts hw (row g) (NmiStsOffset (row g)) (NmiStsOffset (row g)) }) s = ((), s') \<and>
    marks (cleared beyond g) s s'"
proof -
  have reg: "gpio_reg (row g) (GpiIsOffset (row g)) = slot_addr (GroupSlot GpiIsF g)"
    "gpio_reg (row g) (SmiStsOffset (row g)) = slot_addr (GroupSlot SmiStsF g)"
    "gpio_reg (row g) (NmiStsOffset (row g)) = slot_addr (GroupSlot NmiStsF g)" by (simp_all add: slot_addr_def)
  have v: "SmiStsOffset (row g) \<noteq> NOREG \<longleftrightarrow> valid_slot (GroupSlot SmiStsF g)"
    "NmiStsOffset (row g) \<noteq> NOREG \<longleftrightarrow> valid_slot (GroupSlot NmiStsF g)"
    using assms by (simp_all add: valid_slot.simps aliased_def)
  note gpe = gpe_sts_slot [OF assms]
  obtain s1 where s1: "run_state (clear_sts hw (row g) (beyond (0x100 + g)) (GpiIsOffset (row g))) s = ((), s1)"
    "marks (if beyond (0x100 + g) \<noteq> NOREG then {GroupSlot GpiIsF g} else {}) s s1"
    using run_clear_sts [of "beyond (0x100 + g)" "GroupSlot GpiIsF g"] reg(1) group_slots_always(5) [OF assms] by blast
  obtain s2 where s2: "run_state (clear_sts hw (row g) (GpiGpeStsOffset (row g)) (GpiGpeStsOffset (row g))) s1 = ((), s2)"
    "marks {GroupSlot GpeStsF (if g = 11 then 7 else g)} s1 s2"
    using run_clear_sts [of "GpiGpeStsOffset (row g)" "GroupSlot GpeStsF (if g = 11 then 7 else g)" "row g"
        "GpiGpeStsOffset (row g)" s1] gpe by auto
  obtain s3 where s3: "run_state (clear_sts hw (row g) (SmiStsOffset (row g)) (SmiStsOffset (row g))) s2 = ((), s3)"
    "marks (if SmiStsOffset (row g) \<noteq> NOREG then {GroupSlot SmiStsF g} else {}) s2 s3"
    using run_clear_sts [of "SmiStsOffset (row g)" "GroupSlot SmiStsF g"] reg(2) v(1) by blast
  obtain s4 where s4: "run_state (clear_sts hw (row g) (NmiStsOffset (row g)) (NmiStsOffset (row g))) s3 = ((), s4)"
    "marks (if NmiStsOffset (row g) \<noteq> NOREG then {GroupSlot NmiStsF g} else {}) s3 s4"
    using run_clear_sts [of "NmiStsOffset (row g)" "GroupSlot NmiStsF g"] reg(3) v(2) by blast
  from marks_trans [OF marks_trans [OF marks_trans [OF s1(2) s2(2)] s3(2)] s4(2)]
  have "marks (cleared beyond g) s s4"
    using v gpe(1) group_slots_always(5) [OF assms] by (simp add: marks_def cleared_def)
  then show ?thesis using s1(1) s2(1) s3(1) s4(1) by (auto simp: hwrun)
qed

lemma run_clear_groups:
  assumes "n \<le> 13"
  shows "\<exists>s'. run_state (clear_groups hw beyond mPchGpioGroupInfo (0x100 + of_nat (13 - n)) n) s = ((), s') \<and>
    marks (\<Union>k \<in> {13 - n..<13}. cleared beyond (of_nat k)) s s'"
  using assms
proof (induction n arbitrary: s)
  case 0
  then show ?case by (simp add: hwrun marks_none)
next
  case (Suc n)
  define k where "k = 12 - n"
  have k13: "k < 13" by (simp add: k_def)
  then have "(of_nat k :: u32) < 13" by (simp add: word_less_nat_alt unat_of_nat)
  then have k: "13 - Suc n = k" "13 - n = Suc k" "(of_nat k :: u32) < 13" "{k..<13} = insert k {Suc k..<13}"
    using Suc.prems k13 by (auto simp: k_def [symmetric]) (simp_all add: k_def)
  have g: "0x100 + of_nat k + 1 = (0x100 + of_nat (Suc k) :: u32)" by (simp add: ac_simps)
  obtain s1 where s1: "run_state (do {
       clear_sts hw (row (of_nat k)) (beyond (0x100 + of_nat k)) (GpiIsOffset (row (of_nat k)));
       clear_sts hw (row (of_nat k)) (GpiGpeStsOffset (row (of_nat k))) (GpiGpeStsOffset (row (of_nat k)));
       clear_sts hw (row (of_nat k)) (SmiStsOffset (row (of_nat k))) (SmiStsOffset (row (of_nat k)));
       clear_sts hw (row (of_nat k)) (NmiStsOffset (row (of_nat k))) (NmiStsOffset (row (of_nat k))) }) s = ((), s1)"
    "marks (cleared beyond (of_nat k)) s s1"
    using run_clear_group [OF k(3), of beyond s] by blast
  obtain s2 where s2: "run_state (clear_groups hw beyond mPchGpioGroupInfo (0x100 + of_nat (Suc k)) n) s1 = ((), s2)"
    "marks (\<Union>j \<in> {Suc k..<13}. cleared beyond (of_nat j)) s1 s2"
    using Suc.IH [of s1] Suc.prems unfolding k(2) by auto
  have "run_state (clear_groups hw beyond mPchGpioGroupInfo (0x100 + of_nat k) (Suc n)) s = ((), s2)"
    using s1(1) s2(1) by (simp only: clear_groups.simps Let_def group_index_of_nat [OF k13] row_fold g hwrun)
      (auto simp: hwrun split: prod.splits)
  moreover have "marks (\<Union>j \<in> {k..<13}. cleared beyond (of_nat j)) s s2"
    using marks_trans [OF s1(2) s2(2)] unfolding k(4) by (simp only: UN_insert Un_commute)
  ultimately show ?case unfolding k(1) by blast
qed

lemma run_GpioClearAllGpioInterrupts:
  assumes "known s"
  shows "\<exists>s'. run_state (GpioClearAllGpioInterrupts hw beyond) s = (EFI_SUCCESS, s') \<and>
    marks (\<Union>k \<in> {0..<13}. cleared beyond (of_nat k)) s s'"
proof -
  have "unat (GpioGetHighestGroup - GpioGetLowestGroup + 1) = 13" "GpioGetLowestGroup = 0x100"
    by (simp_all add: GpioGetHighestGroup_def GpioGetLowestGroup_def regs)
  then show ?thesis
    using run_clear_groups [of 13 beyond s] by (auto simp: GpioClearAllGpioInterrupts_def hwrun run_table [OF assms])
qed

end

text \<open>GpioClearAllGpioInterrupts writes all ones to the GPE, SMI and NMI status registers of
  every group and to no other register than the interrupt status ones; whether it clears those
  is decided by the words behind the end of the group table.\<close>

theorem gpio_clear_interrupts:
  assumes "known s"
    and "run_state (GpioClearAllGpioInterrupts (ram_hw dbg) beyond) s = (st, s')" and "valid_slot x"
  shows "st = EFI_SUCCESS \<and> slots s' x = (if is_status beyond x then 0xFFFFFFFF else slots s x)"
  using plain_ram.run_GpioClearAllGpioInterrupts [OF assms(1), of dbg beyond] assms(2,3)
    all_cleared [OF assms(3), of beyond]
  by (auto simp: marks_def)

theorem gpio_clear_interrupts_witness:
  "slots (snd (run_state (GpioClearAllGpioInterrupts (ram_hw True) (\<lambda>_. NOREG)) ready_pch)) (GroupSlot GpiIsF 3) = 0
   \<and> slots (snd (run_state (GpioClearAllGpioInterrupts (ram_hw True) (\<lambda>_. 0x100)) ready_pch)) (GroupSlot GpiIsF 3)
     = 0xFFFFFFFF"
  using gpio_clear_interrupts [OF ready_pch_facts(1) surjective_pairing group_slots_always(5) [of 3], of True "\<lambda>_. NOREG"]
    gpio_clear_interrupts [OF ready_pch_facts(1) surjective_pairing group_slots_always(5) [of 3], of True "\<lambda>_. 0x100"]
  by (simp add: NO_REGISTER_FOR_PROPERTY_def)

end
