(* ===== verification/PciNodes.thy ===== *)
theory PciNodes
  imports Prelude "HOL-Library.Multiset"
begin

text \<open>
  The resource trees of the PCI bus driver, PciResourceSupport.c and PciResourceSupport.h of the
  platform's PciBusDxe: resource nodes, their insertion into the list of a bridge, the merging
  of lists, and the computation of the aperture of a bridge.  A linked list of nodes is a list;
  the device that a node points to is the record of the parts of it that are constant while
  resources are collected, with a number for its identity.
\<close>

section \<open>PciBus.h: devices and their base address registers\<close>

datatype PCI_BAR_TYPE =
    PciBarTypeUnknown
  | PciBarTypeIo16
  | PciBarTypeIo32
  | PciBarTypeMem32
  | PciBarTypePMem32
  | PciBarTypeMem64
  | PciBarTypePMem64
  | PciBarTypeIo
  | PciBarTypeMem
  | PciBarTypeMaxType

record PCI_BAR =
  BaseAddress :: u64
  BarLength :: u64
  BarAlignment :: u64
  BarType :: PCI_BAR_TYPE
  BarTypeFixed :: bool
  BarOffset :: u16

text \<open>An ACPI address space descriptor, as a hot plug controller gives it for padding.\<close>

record ADDRESS_SPACE_DESCRIPTOR =
  Desc :: u8
  DescResType :: u8
  SpecificFlag :: u8
  AddrSpaceGranularity :: u64
  AddrRangeMax :: u64
  AddrTranslationOffset :: u64
  AddrLen :: u64

record PCI_IO_DEVICE =
  Identity :: nat
  VendorId :: u16
  DeviceId :: u16
  HeaderType :: u8
  BusNumber :: u8
  DeviceNumber :: u8
  FunctionNumber :: u8
  PciBar :: "PCI_BAR list"
  VfPciBar :: "PCI_BAR list"
  HasParent :: bool
  Decodes :: u32
  RomSize :: u64
  ResourcePaddingDescriptors :: "ADDRESS_SPACE_DESCRIPTOR list option"
  BridgeIoAlignment :: u16
  SrIovCapabilityOffset :: u32
  SystemPageSize :: u32
  InitialVFs :: u16

definition PCI_MAX_BAR :: nat where "PCI_MAX_BAR = 6"
definition HEADER_LAYOUT_CODE :: u8 where [regs]: "HEADER_LAYOUT_CODE = 0x7F"
definition HEADER_TYPE_PCI_TO_PCI_BRIDGE :: u8 where [regs]: "HEADER_TYPE_PCI_TO_PCI_BRIDGE = 1"
definition HEADER_TYPE_CARDBUS_BRIDGE :: u8 where [regs]: "HEADER_TYPE_CARDBUS_BRIDGE = 2"

definition IS_PCI_BRIDGE :: "PCI_IO_DEVICE \<Rightarrow> bool" where
  "IS_PCI_BRIDGE d \<longleftrightarrow> HeaderType d AND HEADER_LAYOUT_CODE = HEADER_TYPE_PCI_TO_PCI_BRIDGE"

definition IS_CARDBUS_BRIDGE :: "PCI_IO_DEVICE \<Rightarrow> bool" where
  "IS_CARDBUS_BRIDGE d \<longleftrightarrow> HeaderType d AND HEADER_LAYOUT_CODE = HEADER_TYPE_CARDBUS_BRIDGE"

lemma not_both_bridges: "IS_PCI_BRIDGE d \<Longrightarrow> \<not> IS_CARDBUS_BRIDGE d"
  by (simp add: IS_PCI_BRIDGE_def IS_CARDBUS_BRIDGE_def regs)

section \<open>PciResourceSupport.h: resource nodes\<close>

datatype PCI_RESOURCE_USAGE = PciResUsageTypical | PciResUsagePadding

record resource =
  PciDev :: PCI_IO_DEVICE
  Alignment :: u64
  Offset :: u64
  Bar :: u8
  ResType :: PCI_BAR_TYPE
  Length :: u64
  Reserved :: bool
  ResourceUsage :: PCI_RESOURCE_USAGE
  Virtual :: bool

datatype PCI_RESOURCE_NODE = Node (res: resource) (ChildList: "PCI_RESOURCE_NODE list")

text \<open>Fields of a node, and updates of them.\<close>

fun upd :: "(resource \<Rightarrow> resource) \<Rightarrow> PCI_RESOURCE_NODE \<Rightarrow> PCI_RESOURCE_NODE" where
  "upd f (Node r cs) = Node (f r) cs"

fun set_children :: "PCI_RESOURCE_NODE list \<Rightarrow> PCI_RESOURCE_NODE \<Rightarrow> PCI_RESOURCE_NODE" where
  "set_children cs (Node r _) = Node r cs"

lemma res_simps [simp]:
  "res (upd f n) = f (res n)" "ChildList (upd f n) = ChildList n"
  "res (set_children cs n) = res n" "ChildList (set_children cs n) = cs"
  "upd f (upd g n) = upd (\<lambda>r. f (g r)) n"
  "set_children cs (set_children cs' n) = set_children cs n"
  by (cases n; simp)+

abbreviation align :: "PCI_RESOURCE_NODE \<Rightarrow> u64" where "align n \<equiv> Alignment (res n)"
abbreviation len :: "PCI_RESOURCE_NODE \<Rightarrow> u64" where "len n \<equiv> Length (res n)"
abbreviation off :: "PCI_RESOURCE_NODE \<Rightarrow> u64" where "off n \<equiv> Offset (res n)"
abbreviation padding :: "PCI_RESOURCE_NODE \<Rightarrow> bool" where "padding n \<equiv> ResourceUsage (res n) = PciResUsagePadding"

definition CreateResourceNode ::
  "PCI_IO_DEVICE \<Rightarrow> u64 \<Rightarrow> u64 \<Rightarrow> u8 \<Rightarrow> PCI_BAR_TYPE \<Rightarrow> PCI_RESOURCE_USAGE \<Rightarrow> PCI_RESOURCE_NODE" where
  "CreateResourceNode d Len Algn BarIndex Ty Usage =
     Node \<lparr> PciDev = d, Alignment = Algn, Offset = 0, Bar = BarIndex, ResType = Ty, Length = Len,
       Reserved = False, ResourceUsage = Usage, Virtual = False \<rparr> []"

definition CreateVfResourceNode ::
  "PCI_IO_DEVICE \<Rightarrow> u64 \<Rightarrow> u64 \<Rightarrow> u8 \<Rightarrow> PCI_BAR_TYPE \<Rightarrow> PCI_RESOURCE_USAGE \<Rightarrow> PCI_RESOURCE_NODE" where
  "CreateVfResourceNode d Len Algn BarIndex Ty Usage =
     upd (\<lambda>r. r\<lparr> Virtual := True \<rparr>) (CreateResourceNode d Len Algn BarIndex Ty Usage)"

section \<open>Lists of nodes\<close>

text \<open>The loop swaps the new node with its successor until it stands before a node of smaller
  alignment, or of equal alignment where the rest of its length asks for it.\<close>

definition stops_before :: "PCI_RESOURCE_NODE \<Rightarrow> PCI_RESOURCE_NODE \<Rightarrow> bool" where
  "stops_before n t \<longleftrightarrow> align n > align t \<or>
     (align n = align t \<and> (let ResNodeAlignRest = len n AND align n; TempAlignRest = len t AND align t in
        ResNodeAlignRest = 0 \<or> ResNodeAlignRest \<ge> TempAlignRest))"

fun insert_node :: "PCI_RESOURCE_NODE \<Rightarrow> PCI_RESOURCE_NODE list \<Rightarrow> PCI_RESOURCE_NODE list" where
  "insert_node n [] = [n]"
| "insert_node n (t # ts) = (if stops_before n t then n # t # ts else t # insert_node n ts)"

definition InsertResourceNode :: "PCI_RESOURCE_NODE \<Rightarrow> PCI_RESOURCE_NODE \<Rightarrow> PCI_RESOURCE_NODE" where
  "InsertResourceNode Bridge ResNode = set_children (insert_node ResNode (ChildList Bridge)) Bridge"

text \<open>All the nodes of the second tree, in their order, into the first.\<close>

fun merge_nodes :: "PCI_BAR_TYPE option \<Rightarrow> PCI_RESOURCE_NODE list \<Rightarrow> PCI_RESOURCE_NODE \<Rightarrow> PCI_RESOURCE_NODE" where
  "merge_nodes Ty [] Dst = Dst"
| "merge_nodes Ty (t # ts) Dst =
     merge_nodes Ty ts (InsertResourceNode Dst
       (case Ty of None \<Rightarrow> t | Some y \<Rightarrow> upd (\<lambda>r. r\<lparr> ResType := y \<rparr>) t))"

definition MergeResourceTree ::
  "PCI_RESOURCE_NODE \<Rightarrow> PCI_RESOURCE_NODE \<Rightarrow> bool \<Rightarrow> PCI_RESOURCE_NODE \<times> PCI_RESOURCE_NODE" where
  "MergeResourceTree Dst Res TypeMerge =
     (merge_nodes (if TypeMerge then Some (ResType (res Dst)) else None) (ChildList Res) Dst,
      set_children [] Res)"

definition sorted_nodes :: "PCI_RESOURCE_NODE list \<Rightarrow> bool" where
  "sorted_nodes = sorted_wrt (\<lambda>a b. align b \<le> align a)"

lemma mset_insert_node [simp]: "mset (insert_node n ts) = add_mset n (mset ts)"
  by (induction ts) auto

lemma set_insert_node [simp]: "set (insert_node n ts) = insert n (set ts)"
  by (simp flip: set_mset_mset)

lemma sorted_insert_node: "sorted_nodes ts \<Longrightarrow> sorted_nodes (insert_node n ts)"
  by (induction ts) (auto simp: sorted_nodes_def stops_before_def Let_def)

lemma sorted_nodes_simps [simp]:
  "sorted_nodes []" "sorted_nodes (t # ts) \<longleftrightarrow> (\<forall>x \<in> set ts. align x \<le> align t) \<and> sorted_nodes ts"
  by (simp_all add: sorted_nodes_def)

lemma sorted_filter_nodes: "sorted_nodes ts \<Longrightarrow> sorted_nodes (filter P ts)"
  by (simp add: sorted_nodes_def sorted_wrt_filter)

lemma InsertResourceNode_simps [simp]:
  "res (InsertResourceNode b n) = res b"
  "ChildList (InsertResourceNode b n) = insert_node n (ChildList b)"
  by (simp_all add: InsertResourceNode_def)

definition retype :: "PCI_BAR_TYPE option \<Rightarrow> PCI_RESOURCE_NODE \<Rightarrow> PCI_RESOURCE_NODE" where
  "retype Ty t = (case Ty of None \<Rightarrow> t | Some y \<Rightarrow> upd (\<lambda>r. r\<lparr> ResType := y \<rparr>) t)"

lemma merge_nodes_simps [simp]:
  "res (merge_nodes Ty ts b) = res b"
  "mset (ChildList (merge_nodes Ty ts b)) = mset (map (retype Ty) ts) + mset (ChildList b)"
  by (induction ts arbitrary: b) (auto simp: retype_def)

lemma set_merge_nodes [simp]:
  "set (ChildList (merge_nodes Ty ts b)) = retype Ty ` set ts \<union> set (ChildList b)"
proof -
  have "set_mset (mset (ChildList (merge_nodes Ty ts b))) = retype Ty ` set ts \<union> set (ChildList b)"
    unfolding merge_nodes_simps by simp
  then show ?thesis by (simp only: set_mset_mset)
qed

lemma sorted_merge_nodes:
  "sorted_nodes (ChildList b) \<Longrightarrow> sorted_nodes (ChildList (merge_nodes Ty ts b))"
  by (induction ts arbitrary: b) (auto simp: sorted_insert_node)

section \<open>Apertures\<close>

text \<open>Rounding up to an alignment; the alignment of a node is a mask of low bits.\<close>

definition align_up :: "u64 \<Rightarrow> u64 \<Rightarrow> u64" where
  "align_up Aperture Algn = (let Off = Aperture AND Algn in
     if Off \<noteq> 0 then Aperture + (Algn + 1) - Off else Aperture)"

definition VGABASE1 :: u64 where [regs]: "VGABASE1 = 0x3B0"
definition VGALIMIT2 :: u64 where [regs]: "VGALIMIT2 = 0x3DF"
definition ISABASE :: u64 where [regs]: "ISABASE = 0x100"
definition ISALIMIT :: u64 where [regs]: "ISALIMIT = 0x3FF"

definition SkipVGAAperture :: "u64 \<Rightarrow> u64 \<Rightarrow> u64" where
  "SkipVGAAperture Start Len =
     (let StartOffset = Start AND 0x3FF; LimitOffset = (Start + Len - 1) AND 0x3FF in
      if LimitOffset \<ge> VGABASE1 then Start - StartOffset + VGALIMIT2 + 1 else Start)"

definition SkipIsaAliasAperture :: "u64 \<Rightarrow> u64 \<Rightarrow> u64" where
  "SkipIsaAliasAperture Start Len =
     (let StartOffset = Start AND 0x3FF; LimitOffset = (Start + Len - 1) AND 0x3FF in
      if LimitOffset \<ge> ISABASE then Start - StartOffset + ISALIMIT + 1 else Start)"

text \<open>The module variables, set from the platform policy once.\<close>

record io_policy =
  mReserveIsaAliases :: bool
  mReserveVgaAliases :: bool
  mPolicyDetermined :: bool

text \<open>What the IO loop does to the aligned aperture for a device that is not a bridge.\<close>

definition skip_aliases :: "io_policy \<Rightarrow> PCI_RESOURCE_NODE \<Rightarrow> u64 \<Rightarrow> u64" where
  "skip_aliases p n Aperture =
     (if (mReserveIsaAliases p \<or> mReserveVgaAliases p) \<and>
         \<not> IS_PCI_BRIDGE (PciDev (res n)) \<and> \<not> IS_CARDBUS_BRIDGE (PciDev (res n))
      then if mReserveIsaAliases p then align_up (SkipIsaAliasAperture Aperture (len n)) (align n)
           else align_up (SkipVGAAperture Aperture (len n)) (align n)
      else Aperture)"

text \<open>The loop over the children: it gives the nodes their offsets and returns the aperture and
  the padding.  Padding nodes take no room and keep their offset.\<close>

fun place_nodes ::
  "(PCI_RESOURCE_NODE \<Rightarrow> u64 \<Rightarrow> u64) \<Rightarrow> PCI_RESOURCE_NODE list \<Rightarrow> u64 \<Rightarrow> u64 \<Rightarrow>
     PCI_RESOURCE_NODE list \<times> u64 \<times> u64" where
  "place_nodes skip [] Aperture PaddingAperture = ([], Aperture, PaddingAperture)"
| "place_nodes skip (n # ns) Aperture PaddingAperture =
     (if padding n then
        (case place_nodes skip ns Aperture (len n) of (ns', a, p) \<Rightarrow> (n # ns', a, p))
      else (let o' = skip n (align_up Aperture (align n)) in
        case place_nodes skip ns (o' + len n) PaddingAperture of
          (ns', a, p) \<Rightarrow> (upd (\<lambda>r. r\<lparr> Offset := o' \<rparr>) n # ns', a, p)))"

definition first_alignment :: "PCI_RESOURCE_NODE list \<Rightarrow> u64 \<Rightarrow> u64" where
  "first_alignment ns Algn = (case ns of [] \<Rightarrow> Algn | n # _ \<Rightarrow> if align n > Algn then align n else Algn)"

definition finish_aperture :: "bool \<Rightarrow> PCI_RESOURCE_NODE list \<Rightarrow> u64 \<Rightarrow> u64 \<Rightarrow> PCI_RESOURCE_NODE \<Rightarrow> PCI_RESOURCE_NODE" where
  "finish_aperture keep ns Aperture PaddingAperture Bridge =
     (let a = align_up Aperture (align Bridge);
          l = (if keep \<and> \<not> len Bridge < a then len Bridge else a) in
      set_children ns (upd (\<lambda>r. r\<lparr> Length := max l PaddingAperture,
        Alignment := first_alignment ns (align Bridge) \<rparr>) Bridge))"

text \<open>The answers of the platform that the driver asks for: the two policy protocols (absent, or
  whether the call failed and the policy it gave), the policy bits of their header, which is not
  part of the sources, and what \<open>DegradeResource\<close> reads: a feature flag, the size of a
  pointer, the setup option of the XHCI controller, and the byte of a device structure at a BAR index
  beyond its array.\<close>

record pci_env =
  PlatformPolicy :: "(bool \<times> u32) option"
  OverridePolicy :: "(bool \<times> u32) option"
  EFI_RESERVE_ISA_IO_ALIAS :: u32
  EFI_RESERVE_VGA_IO_ALIAS :: u32
  PcdPciDegradeResourceForOptionRom :: bool
  UintnIs32 :: bool
  PchUsbDegradeBar :: u8
  BarTypeFixedBeyond :: "PCI_IO_DEVICE \<Rightarrow> u8 \<Rightarrow> bool"

definition determine_policy :: "pci_env \<Rightarrow> io_policy \<Rightarrow> io_policy" where
  "determine_policy e p =
     (if mPolicyDetermined p then p
      else let answer = (case PlatformPolicy e of Some (False, v) \<Rightarrow> Some v
             | _ \<Rightarrow> (case OverridePolicy e of Some (False, v) \<Rightarrow> Some v | _ \<Rightarrow> None)) in
        (case answer of None \<Rightarrow> p
         | Some v \<Rightarrow>
             p\<lparr> mReserveIsaAliases := mReserveIsaAliases p \<or> v AND EFI_RESERVE_ISA_IO_ALIAS e \<noteq> 0,
                mReserveVgaAliases := mReserveVgaAliases p \<or> v AND EFI_RESERVE_VGA_IO_ALIAS e \<noteq> 0 \<rparr>)
          \<lparr> mPolicyDetermined := True \<rparr>)"

lemma determine_policy_twice [simp]:
  "determine_policy e (determine_policy e p) = determine_policy e p"
  "mPolicyDetermined (determine_policy e p)"
  "mPolicyDetermined p \<Longrightarrow> determine_policy e p = p"
  by (simp_all add: determine_policy_def Let_def split: option.splits)

definition CalculateApertureIo16 :: "pci_env \<Rightarrow> PCI_RESOURCE_NODE \<Rightarrow> io_policy \<Rightarrow> PCI_RESOURCE_NODE \<times> io_policy" where
  "CalculateApertureIo16 e Bridge p =
     (let p' = determine_policy e p in
      case place_nodes (skip_aliases p') (ChildList Bridge) 0 0 of
        (ns, Aperture, PaddingAperture) \<Rightarrow> (finish_aperture False ns Aperture PaddingAperture Bridge, p'))"

definition CalculateResourceAperture :: "pci_env \<Rightarrow> PCI_RESOURCE_NODE \<Rightarrow> io_policy \<Rightarrow> PCI_RESOURCE_NODE \<times> io_policy" where
  "CalculateResourceAperture e Bridge p =
     (if ResType (res Bridge) = PciBarTypeIo16 then CalculateApertureIo16 e Bridge p
      else case place_nodes (\<lambda>_ a. a) (ChildList Bridge) 0 0 of
        (ns, Aperture, PaddingAperture) \<Rightarrow> (finish_aperture True ns Aperture PaddingAperture Bridge, p))"

end
