(* ===== verification/PciAperture.thy ===== *)
theory PciAperture
  imports PciNodes
begin

text \<open>
  The correctness of the apertures that PciResourceSupport.c computes: rounding up to an alignment
  mask, the placement of the nodes of a list one after the other, stated once for every way to skip
  address ranges (the locale \<open>placement\<close>) and interpreted for memory and for IO that avoids the
  aliases of the ISA range, and the failure of the step that avoids the VGA range.
\<close>

section \<open>Alignment masks\<close>

text \<open>A size less one: the alignments of the driver are masks of fewer than 64 low bits.\<close>

definition low_mask :: "u64 \<Rightarrow> bool" where
  "low_mask m \<longleftrightarrow> (\<exists>k \<in> set [0..<64]. m = mask k)"

lemma low_mask_E:
  assumes "low_mask m"
  obtains k where "k < 64" "m = mask k" "unat m = 2 ^ k - 1"
proof -
  from assms obtain k where k: "k < 64" "m = mask k" by (auto simp: low_mask_def)
  have "unat (mask k :: u64) = unat (take_bit k (- 1 :: u64))"
    by (simp only: mask_eq_take_bit_minus_one)
  also have "\<dots> = take_bit k (mask 64)"
    by (simp only: unsigned_take_bit_eq unsigned_minus_1_eq_mask) simp
  also have "\<dots> = mask k"
    using k(1) by (simp only: take_bit_of_mask min.absorb1 less_imp_le)
  finally show thesis using k that by (simp only: mask_eq_exp_minus_1)
qed

lemma low_mask_size:
  assumes "low_mask m"
  shows "unat m + 1 dvd 18446744073709551616" "unat m < 9223372036854775808"
proof -
  obtain k where k: "k < 64" "unat m = 2 ^ k - 1" using assms by (rule low_mask_E)
  have "(2::nat) ^ k dvd 2 ^ 64" using k(1) by (intro le_imp_power_dvd) simp
  then show "unat m + 1 dvd 18446744073709551616" by (simp add: k)
  have "(2::nat) ^ k \<le> 2 ^ 63" using k(1) by (intro power_increasing) simp_all
  then show "unat m < 9223372036854775808" by (simp add: k)
qed

lemma low_mask_mask [intro]: "k < 64 \<Longrightarrow> low_mask (mask k)"
  by (auto simp: low_mask_def)

lemma unat_and_low_mask: "low_mask m \<Longrightarrow> unat (a AND m) = unat a mod (unat m + 1)"
proof (erule low_mask_E)
  fix k assume k: "k < 64" "m = mask k" "unat m = 2 ^ k - 1"
  have "unat (a AND m) = unat (take_bit k a)"
    by (simp add: k take_bit_eq_mask)
  also have "\<dots> = unat a mod 2 ^ k"
    by (simp only: unsigned_take_bit_eq) (simp add: take_bit_eq_mod)
  finally show ?thesis by (simp add: k(3))
qed

lemma low_mask_aligned_iff: "low_mask m \<Longrightarrow> a AND m = 0 \<longleftrightarrow> unat m + 1 dvd unat a"
  by (metis unat_and_low_mask dvd_eq_mod_eq_0 unat_0 unsigned_word_eqI)

lemma low_mask_dvd:
  assumes "low_mask m" "low_mask n" "m \<le> n"
  shows "unat m + 1 dvd unat n + 1"
proof -
  obtain i where i: "i < 64" "unat m = 2 ^ i - 1" using assms(1) by (rule low_mask_E)
  obtain j where j: "j < 64" "unat n = 2 ^ j - 1" using assms(2) by (rule low_mask_E)
  have "(2::nat) ^ i - 1 \<le> 2 ^ j - 1" using assms(3) i j by (simp add: word_le_nat_alt)
  then have "(2::nat) ^ i \<le> 2 ^ j" using one_le_power [of "2::nat" j] by linarith
  then have "i \<le> j" by simp
  then show ?thesis by (simp add: i j le_imp_power_dvd)
qed

lemma aligned_add:
  assumes "low_mask m" "low_mask n" "m \<le> n" "b AND n = 0" "a AND m = 0"
  shows "(b + a) AND m = 0"
proof -
  have "unat m + 1 dvd unat b"
    using low_mask_dvd [OF assms(1,2,3)] assms(2,4) by (metis low_mask_aligned_iff dvd_trans)
  moreover have "unat m + 1 dvd unat a" using assms(1,5) low_mask_aligned_iff by blast
  moreover note low_mask_size(1) [OF assms(1)]
  ultimately have "unat m + 1 dvd unat (b + a)"
    by (simp add: unat_word_ariths dvd_mod)
  then show ?thesis using assms(1) low_mask_aligned_iff by blast
qed

lemma align_up_nat:
  assumes "low_mask m" "unat a + unat m < 2 ^ 64"
  shows "unat (align_up a m) = (if unat a mod (unat m + 1) = 0 then unat a
           else unat a + (unat m + 1) - unat a mod (unat m + 1))"
proof -
  have z: "a AND m = 0 \<longleftrightarrow> unat a mod (unat m + 1) = 0"
    using low_mask_aligned_iff [OF assms(1)] by (simp add: dvd_eq_mod_eq_0)
  have s: "unat (m + 1) = unat m + 1"
    using low_mask_size(2) [OF assms(1)] by (simp add: unat_word_ariths)
  have "unat (a + (m + 1) - (a AND m)) = unat a + (unat m + 1) - unat a mod (unat m + 1)"
    if "unat a mod (unat m + 1) \<noteq> 0"
  proof -
    let ?r = "unat a mod (unat m + 1)"
    have e: "a + (m + 1) - (a AND m) = (a - (a AND m)) + (m + 1)" by simp
    have eq: "unat a + (unat m + 1) - ?r = (unat a - ?r) + (unat m + 1)"
      using mod_less_eq_dividend [of "unat a" "unat m + 1"] by linarith
    have le: "a AND m \<le> a" by (simp add: word_and_le2)
    have "unat (a - (a AND m)) = unat a - ?r"
      using le by (simp add: unat_sub unat_and_low_mask [OF assms(1)])
    moreover have "unat a - ?r + (unat m + 1) < 2 ^ 64"
      using that assms(2) mod_less_eq_dividend [of "unat a" "unat m + 1"] by simp
    ultimately show ?thesis
      unfolding e eq using s by (simp add: unat_word_ariths)
  qed
  then show ?thesis by (auto simp: align_up_def Let_def z)
qed

lemma align_up_ge:
  assumes "low_mask m" "unat a + unat m < 2 ^ 64"
  shows "unat a \<le> unat (align_up a m)"
  using mod_less_divisor [of "unat m + 1" "unat a"] mod_less_eq_dividend [of "unat a" "unat m + 1"]
  by (simp only: align_up_nat [OF assms] split: if_splits) linarith

lemma align_up_le: "low_mask m \<Longrightarrow> unat a + unat m < 2 ^ 64 \<Longrightarrow> unat (align_up a m) \<le> unat a + unat m"
  by (auto simp: align_up_nat)

lemma align_up_aligned:
  assumes "low_mask m" "unat a + unat m < 2 ^ 64"
  shows "align_up a m AND m = 0"
proof -
  let ?n = "unat m + 1"
  have "?n dvd unat (align_up a m)"
  proof (cases "unat a mod ?n = 0")
    case True then show ?thesis by (simp add: align_up_nat [OF assms] dvd_eq_mod_eq_0)
  next
    case False
    have "unat a + ?n - unat a mod ?n = (unat a - unat a mod ?n) + ?n"
      using mod_less_eq_dividend [of "unat a" ?n] by linarith
    also have "?n dvd \<dots>" by (simp only: dvd_add_triv_right_iff dvd_minus_mod)
    finally show ?thesis using False by (simp only: align_up_nat [OF assms] if_False)
  qed
  then show ?thesis using assms(1) low_mask_aligned_iff by blast
qed

lemma align_up_same [simp]: "a AND m = 0 \<Longrightarrow> align_up a m = a"
  by (simp add: align_up_def)


section \<open>Correct placement of the nodes of a list\<close>

text \<open>Alignments are masks, and typical nodes follow one another without overlap, each at a
  multiple of its alignment, between two bounds.\<close>

definition mask_nodes :: "PCI_RESOURCE_NODE list \<Rightarrow> bool" where
  "mask_nodes ns \<longleftrightarrow> (\<forall>n \<in> set ns. low_mask (align n))"

fun laid :: "nat \<Rightarrow> PCI_RESOURCE_NODE list \<Rightarrow> nat \<Rightarrow> bool" where
  "laid lo [] hi = (lo \<le> hi)"
| "laid lo (n # ns) hi =
     (if padding n then laid lo ns hi
      else lo \<le> unat (off n) \<and> off n AND align n = 0 \<and> laid (unat (off n) + unat (len n)) ns hi)"

lemma laid_mono: "laid lo ns hi \<Longrightarrow> lo' \<le> lo \<Longrightarrow> hi \<le> hi' \<Longrightarrow> laid lo' ns hi'"
  by (induction lo ns hi arbitrary: lo' rule: laid.induct) (auto split: if_splits)

lemma laid_bounds: "laid lo ns hi \<Longrightarrow> lo \<le> hi"
  by (induction lo ns hi rule: laid.induct) (auto split: if_splits)

lemma laid_member:
  "laid lo ns hi \<Longrightarrow> n \<in> set ns \<Longrightarrow> \<not> padding n \<Longrightarrow>
     lo \<le> unat (off n) \<and> unat (off n) + unat (len n) \<le> hi \<and> off n AND align n = 0"
proof (induction lo ns hi rule: laid.induct)
  case (2 lo m ns hi)
  then show ?case using laid_bounds [of _ ns hi] by (cases "padding m") force+
qed simp

lemma laid_pairwise:
  "laid lo ns hi \<Longrightarrow>
     sorted_wrt (\<lambda>a b. \<not> padding a \<and> \<not> padding b \<longrightarrow> unat (off a) + unat (len a) \<le> unat (off b)) ns"
proof (induction lo ns hi rule: laid.induct)
  case (2 lo n ns hi)
  then show ?case by (cases "padding n") (auto dest!: laid_member [of _ ns hi])
qed simp

text \<open>The room that the nodes of a list take at most.\<close>

definition room :: "(PCI_RESOURCE_NODE \<Rightarrow> nat) \<Rightarrow> PCI_RESOURCE_NODE list \<Rightarrow> nat" where
  "room slack ns = (\<Sum>n \<leftarrow> ns. unat (align n) + slack n + unat (len n))"

lemma room_simps [simp]:
  "room slack [] = 0"
  "room slack (n # ns) = unat (align n) + slack n + unat (len n) + room slack ns"
  by (simp_all add: room_def)

text \<open>What the loop over the nodes needs of the step that avoids address ranges: it keeps the
  alignment, does not go back, and goes forward by no more than a slack.\<close>

locale placement =
  fixes skip :: "PCI_RESOURCE_NODE \<Rightarrow> u64 \<Rightarrow> u64"
    and slack :: "PCI_RESOURCE_NODE \<Rightarrow> nat"
  assumes skip_aligned:
      "low_mask (align n) \<Longrightarrow> a AND align n = 0 \<Longrightarrow> unat a + slack n < 2 ^ 64 \<Longrightarrow> skip n a AND align n = 0"
    and skip_ge:
      "low_mask (align n) \<Longrightarrow> a AND align n = 0 \<Longrightarrow> unat a + slack n < 2 ^ 64 \<Longrightarrow> unat a \<le> unat (skip n a)"
    and skip_le:
      "low_mask (align n) \<Longrightarrow> a AND align n = 0 \<Longrightarrow> unat a + slack n < 2 ^ 64 \<Longrightarrow> unat (skip n a) \<le> unat a + slack n"
begin

lemma place_nodes_laid:
  "mask_nodes ns \<Longrightarrow> unat a + room slack ns < 2 ^ 64 \<Longrightarrow> place_nodes skip ns a p = (ns', a', p') \<Longrightarrow>
     laid (unat a) ns' (unat a') \<and> unat a' \<le> unat a + room slack ns"
proof (induction ns arbitrary: a p ns' a' p')
  case Nil
  then show ?case by simp
next
  case (Cons n ns)
  have m: "low_mask (align n)" "mask_nodes ns" using Cons.prems(1) by (auto simp: mask_nodes_def)
  show ?case
  proof (cases "padding n")
    case True
    then obtain ns1 where 1: "place_nodes skip ns a (len n) = (ns1, a', p')" "ns' = n # ns1"
      using Cons.prems(3) by (auto split: prod.splits)
    show ?thesis using Cons.IH [OF m(2) _ 1(1)] Cons.prems(2) 1(2) True by simp
  next
    case False
    define b where "b = align_up a (align n)"
    define c where "c = skip n b"
    obtain ns1 where 1: "place_nodes skip ns (c + len n) p = (ns1, a', p')"
        "ns' = upd (\<lambda>r. r\<lparr> Offset := c \<rparr>) n # ns1"
      using Cons.prems(3) False by (auto simp: b_def c_def Let_def split: prod.splits)
    have fits: "unat a + unat (align n) < 2 ^ 64" using Cons.prems(2) by simp
    have b: "unat a \<le> unat b" "unat b \<le> unat a + unat (align n)" "b AND align n = 0"
      using align_up_ge [OF m(1) fits] align_up_le [OF m(1) fits] align_up_aligned [OF m(1) fits]
      by (simp_all add: b_def)
    have fits': "unat b + slack n < 2 ^ 64" using b(2) Cons.prems(2) by simp
    have c: "unat b \<le> unat c" "unat c \<le> unat b + slack n" "c AND align n = 0"
      using skip_ge [OF m(1) b(3) fits'] skip_le [OF m(1) b(3) fits'] skip_aligned [OF m(1) b(3) fits']
      by (simp_all add: c_def)
    have l: "unat (c + len n) = unat c + unat (len n)"
      using b c Cons.prems(2) by (simp add: unat_word_ariths)
    have "laid (unat (c + len n)) ns1 (unat a') \<and> unat a' \<le> unat (c + len n) + room slack ns"
      by (rule Cons.IH [OF m(2) _ 1(1)]) (use b c l Cons.prems(2) in simp)
    then show ?thesis using b c l False 1(2) by simp
  qed
qed

text \<open>Every offset is the result of the step on an aligned address.\<close>

lemma place_nodes_offset:
  "mask_nodes ns \<Longrightarrow> unat a + room slack ns < 2 ^ 64 \<Longrightarrow> place_nodes skip ns a p = (ns', a', p') \<Longrightarrow>
     n \<in> set ns' \<Longrightarrow> \<not> padding n \<Longrightarrow>
     \<exists>m b. m \<in> set ns \<and> n = upd (\<lambda>r. r\<lparr> Offset := skip m b \<rparr>) m \<and>
       b AND align m = 0 \<and> unat b + slack m < 2 ^ 64"
proof (induction ns arbitrary: a p ns' a' p')
  case Nil
  then show ?case by simp
next
  case (Cons m ns)
  have m: "low_mask (align m)" "mask_nodes ns" using Cons.prems(1) by (auto simp: mask_nodes_def)
  show ?case
  proof (cases "padding m")
    case True
    then obtain ns1 where 1: "place_nodes skip ns a (len m) = (ns1, a', p')" "ns' = m # ns1"
      using Cons.prems(3) by (auto split: prod.splits)
    then have "n \<in> set ns1" using Cons.prems(4,5) True by auto
    then show ?thesis using Cons.IH [OF m(2) _ 1(1)] Cons.prems(2,5) by auto
  next
    case False
    define b where "b = align_up a (align m)"
    define c where "c = skip m b"
    obtain ns1 where 1: "place_nodes skip ns (c + len m) p = (ns1, a', p')"
        "ns' = upd (\<lambda>r. r\<lparr> Offset := c \<rparr>) m # ns1"
      using Cons.prems(3) False by (auto simp: b_def c_def Let_def split: prod.splits)
    have fits: "unat a + unat (align m) < 2 ^ 64" using Cons.prems(2) by simp
    have b: "unat b \<le> unat a + unat (align m)" "b AND align m = 0"
      using align_up_le [OF m(1) fits] align_up_aligned [OF m(1) fits] by (simp_all add: b_def)
    have fits': "unat b + slack m < 2 ^ 64" using b(1) Cons.prems(2) by simp
    have c: "unat c \<le> unat b + slack m"
      using skip_le [OF m(1) b(2) fits'] by (simp add: c_def)
    have l: "unat (c + len m) + room slack ns < 2 ^ 64"
      using b c Cons.prems(2) by (simp add: unat_word_ariths)
    show ?thesis
    proof (cases "n \<in> set ns1")
      case True
      then show ?thesis using Cons.IH [OF m(2) l 1(1)] Cons.prems(5) by auto
    next
      case False
      then have "n = upd (\<lambda>r. r\<lparr> Offset := skip m b \<rparr>) m"
        using Cons.prems(4) 1(2) by (simp add: c_def)
      then show ?thesis using b(2) fits' by auto
    qed
  qed
qed

end

text \<open>Offsets are all that the loop changes; it keeps the last padding length.\<close>

definition unplace :: "PCI_RESOURCE_NODE \<Rightarrow> PCI_RESOURCE_NODE" where
  "unplace n = upd (\<lambda>r. r\<lparr> Offset := 0 \<rparr>) n"

lemma place_nodes_same:
  "place_nodes skip ns a p = (ns', a', p') \<Longrightarrow> map unplace ns' = map unplace ns"
  by (induction ns arbitrary: a p ns' a' p')
    (auto simp: unplace_def Let_def split: if_splits prod.splits)

lemma place_nodes_member:
  "place_nodes skip ns a p = (ns', a', p') \<Longrightarrow> n \<in> set ns' \<Longrightarrow>
     \<exists>m \<in> set ns. if padding m then n = m else \<exists>x. n = upd (\<lambda>r. r\<lparr> Offset := x \<rparr>) m"
  by (induction ns arbitrary: a p ns' a' p')
    (fastforce simp: Let_def split: if_splits prod.splits)+


section \<open>The two ways to skip\<close>

interpretation mem: placement "\<lambda>_ a. a" "\<lambda>_. 0"
  by unfold_locales auto

definition alias_slack :: "io_policy \<Rightarrow> PCI_RESOURCE_NODE \<Rightarrow> nat" where
  "alias_slack p n = (if mReserveIsaAliases p then 0x400 + unat (align n) else 0)"

lemma low_10_bits: "a AND 0x3FF = (a AND mask 10 :: u64)"
  by (simp add: mask_numeral)

lemma unat_low_10_bits: "unat (a AND 0x3FF :: u64) = unat a mod 0x400"
proof -
  have "unat (mask 10 :: u64) = 0x3FF" by (simp add: mask_numeral)
  then show ?thesis
    unfolding low_10_bits using unat_and_low_mask [of "mask 10" a] by (simp add: low_mask_mask)
qed

lemma unat_SkipIsaAliasAperture:
  assumes "unat a + 0x400 < 2 ^ 64"
  shows "unat (SkipIsaAliasAperture a l) =
    (if unat ((a + l - 1) AND 0x3FF) \<ge> 0x100 then unat a - unat a mod 0x400 + 0x400 else unat a)"
proof -
  have "unat (a - (a AND 0x3FF)) = unat a - unat a mod 0x400"
    using word_and_le2 [of a "0x3FF"] by (simp add: unat_sub unat_low_10_bits)
  moreover have "unat a - unat a mod 0x400 + 0x400 < 2 ^ 64" using assms by simp
  ultimately have "unat (a - (a AND 0x3FF) + 0x400) = unat a - unat a mod 0x400 + 0x400"
    by (simp add: unat_word_ariths)
  moreover have "(a + l - 1) AND 0x3FF \<ge> 0x100 \<longleftrightarrow> unat ((a + l - 1) AND 0x3FF) \<ge> 0x100"
    by (simp add: word_le_nat_alt)
  ultimately show ?thesis
    by (simp add: SkipIsaAliasAperture_def Let_def regs add.commute)
qed

lemma SkipIsaAliasAperture_bounds:
  assumes "unat a + 0x400 < 2 ^ 64"
  shows "unat a \<le> unat (SkipIsaAliasAperture a l)" "unat (SkipIsaAliasAperture a l) \<le> unat a + 0x400"
  using mod_less_divisor [of "0x400" "unat a"] mod_less_eq_dividend [of "unat a" "0x400"]
  by (auto simp: unat_SkipIsaAliasAperture [OF assms] simp del: mod_less_divisor)

lemma isa_placement:
  assumes n: "low_mask (align n)" "a AND align n = 0"
    and fits: "unat a + alias_slack (p\<lparr>mReserveVgaAliases := False\<rparr>) n < 2 ^ 64"
  shows "let b = skip_aliases (p\<lparr>mReserveVgaAliases := False\<rparr>) n a in
    b AND align n = 0 \<and> unat a \<le> unat b \<and>
    unat b \<le> unat a + alias_slack (p\<lparr>mReserveVgaAliases := False\<rparr>) n"
proof (cases "mReserveIsaAliases p \<and> \<not> IS_PCI_BRIDGE (PciDev (res n)) \<and> \<not> IS_CARDBUS_BRIDGE (PciDev (res n))")
  case False
  then show ?thesis using n by (auto simp: skip_aliases_def Let_def)
next
  case True
  let ?c = "SkipIsaAliasAperture a (len n)"
  have f: "unat a + 0x400 + unat (align n) < 2 ^ 64" using fits True by (simp add: alias_slack_def)
  then have c: "unat a \<le> unat ?c" "unat ?c \<le> unat a + 0x400"
    by (intro SkipIsaAliasAperture_bounds; simp)+
  have f': "unat ?c + unat (align n) < 2 ^ 64" using c f by simp
  have "skip_aliases (p\<lparr>mReserveVgaAliases := False\<rparr>) n a = align_up ?c (align n)"
    using True by (simp add: skip_aliases_def)
  then show ?thesis
    using c align_up_ge [OF n(1) f'] align_up_le [OF n(1) f'] align_up_aligned [OF n(1) f'] True
    by (simp add: Let_def alias_slack_def)
qed

interpretation isa: placement "skip_aliases (p\<lparr>mReserveVgaAliases := False\<rparr>)"
    "alias_slack (p\<lparr>mReserveVgaAliases := False\<rparr>)" for p
  using isa_placement [of _ _ p] by unfold_locales (auto simp: Let_def)


section \<open>The aperture of a bridge\<close>

text \<open>The skip that the aperture of a type of resource is computed with, and its slack.\<close>

definition skip_of :: "io_policy \<Rightarrow> PCI_BAR_TYPE \<Rightarrow> PCI_RESOURCE_NODE \<Rightarrow> u64 \<Rightarrow> u64" where
  "skip_of p ty = (if ty = PciBarTypeIo16 then skip_aliases p else (\<lambda>_ a. a))"

definition slack_of :: "io_policy \<Rightarrow> PCI_BAR_TYPE \<Rightarrow> PCI_RESOURCE_NODE \<Rightarrow> nat" where
  "slack_of p ty = (if ty = PciBarTypeIo16 then alias_slack p else (\<lambda>_. 0))"

text \<open>The policy reserves the VGA ranges without the ISA ranges.\<close>

definition vga_only :: "io_policy \<Rightarrow> bool" where
  "vga_only p \<longleftrightarrow> mReserveVgaAliases p \<and> \<not> mReserveIsaAliases p"

lemma skip_aliases_isa:
  assumes "\<not> vga_only p"
  shows "skip_aliases p = skip_aliases (p\<lparr>mReserveVgaAliases := False\<rparr>)"
    and "alias_slack p = alias_slack (p\<lparr>mReserveVgaAliases := False\<rparr>)"
  using assms by (auto simp: fun_eq_iff skip_aliases_def alias_slack_def vga_only_def)

lemma skip_of_laid:
  assumes "\<not> vga_only p" "mask_nodes ns" "unat a + room (slack_of p ty) ns < 2 ^ 64"
    and "place_nodes (skip_of p ty) ns a q = (ns', a', q')"
  shows "laid (unat a) ns' (unat a') \<and> unat a' \<le> unat a + room (slack_of p ty) ns"
proof (cases "ty = PciBarTypeIo16")
  case True
  then show ?thesis
    using assms(2-4) isa.place_nodes_laid [of ns a p q ns' a' q']
    by (simp add: skip_of_def slack_of_def flip: skip_aliases_isa [OF assms(1)])
next
  case False
  then show ?thesis
    using assms(2-4) mem.place_nodes_laid [of ns a q ns' a' q']
    by (simp add: skip_of_def slack_of_def)
qed

text \<open>The bridge after its aperture is known, under a policy in force.\<close>

definition with_aperture :: "io_policy \<Rightarrow> PCI_RESOURCE_NODE \<Rightarrow> PCI_RESOURCE_NODE" where
  "with_aperture p b =
     (case place_nodes (skip_of p (ResType (res b))) (ChildList b) 0 0 of
        (ns, a, q) \<Rightarrow> finish_aperture (ResType (res b) \<noteq> PciBarTypeIo16) ns a q b)"

lemma CalculateResourceAperture_with:
  "CalculateResourceAperture e b p =
     (with_aperture (determine_policy e p) b,
      if ResType (res b) = PciBarTypeIo16 then determine_policy e p else p)"
  by (simp add: CalculateResourceAperture_def CalculateApertureIo16_def skip_of_def with_aperture_def
      Let_def split: prod.splits)

lemma finish_aperture_simps [simp]:
  "ChildList (finish_aperture keep ns a q b) = ns"
  "align (finish_aperture keep ns a q b) = first_alignment ns (align b)"
  "PciDev (res (finish_aperture keep ns a q b)) = PciDev (res b)"
  "off (finish_aperture keep ns a q b) = off b"
  "Bar (res (finish_aperture keep ns a q b)) = Bar (res b)"
  "ResType (res (finish_aperture keep ns a q b)) = ResType (res b)"
  "ResourceUsage (res (finish_aperture keep ns a q b)) = ResourceUsage (res b)"
  "Virtual (res (finish_aperture keep ns a q b)) = Virtual (res b)"
  by (simp_all add: finish_aperture_def Let_def)

lemma finish_aperture_len: "align_up a (align b) \<le> len (finish_aperture keep ns a q b)"
  by (auto simp: finish_aperture_def Let_def le_max_iff_disj)

text \<open>The nodes and the aperture fit in 64 bits.\<close>

definition aperture_fits :: "io_policy \<Rightarrow> PCI_RESOURCE_NODE \<Rightarrow> bool" where
  "aperture_fits p b \<longleftrightarrow> low_mask (align b) \<and> mask_nodes (ChildList b) \<and>
     room (slack_of p (ResType (res b))) (ChildList b) + unat (align b) < 2 ^ 64"

lemma with_aperture_laid:
  assumes "\<not> vga_only p" "aperture_fits p b"
  shows "laid 0 (ChildList (with_aperture p b)) (unat (len (with_aperture p b)))"
proof -
  obtain ns a q where r: "place_nodes (skip_of p (ResType (res b))) (ChildList b) 0 0 = (ns, a, q)"
    by (metis prod_cases3)
  have f: "low_mask (align b)" "mask_nodes (ChildList b)"
    "room (slack_of p (ResType (res b))) (ChildList b) + unat (align b) < 2 ^ 64"
    using assms(2) by (simp_all add: aperture_fits_def)
  have l: "laid 0 ns (unat a)" "unat a + unat (align b) < 2 ^ 64"
    using skip_of_laid [OF assms(1) f(2) _ r] f(3) by simp_all
  have "unat a \<le> unat (align_up a (align b))" by (rule align_up_ge [OF f(1) l(2)])
  also have "\<dots> \<le> unat (len (with_aperture p b))"
    using finish_aperture_len by (simp add: with_aperture_def r word_le_nat_alt)
  finally show ?thesis
    using l(1) by (auto simp: with_aperture_def r intro: laid_mono)
qed

lemma sorted_map_unplace: "sorted_nodes (map unplace ns) = sorted_nodes ns"
  by (simp add: sorted_nodes_def sorted_wrt_map unplace_def)

lemma with_aperture_children:
  "map unplace (ChildList (with_aperture p b)) = map unplace (ChildList b)"
  by (auto simp: with_aperture_def dest: place_nodes_same split: prod.splits)

lemma with_aperture_member:
  assumes "n \<in> set (ChildList (with_aperture p b))"
  shows "\<exists>m \<in> set (ChildList b). if padding m then n = m else \<exists>x. n = upd (\<lambda>r. r\<lparr> Offset := x \<rparr>) m"
proof -
  obtain ns a q where r: "place_nodes (skip_of p (ResType (res b))) (ChildList b) 0 0 = (ns, a, q)"
    by (metis prod_cases3)
  then have "n \<in> set ns" using assms by (simp add: with_aperture_def)
  then show ?thesis by (rule place_nodes_member [OF r])
qed

lemma with_aperture_fields [simp]:
  "PciDev (res (with_aperture p b)) = PciDev (res b)"
  "Bar (res (with_aperture p b)) = Bar (res b)"
  "ResType (res (with_aperture p b)) = ResType (res b)"
  "ResourceUsage (res (with_aperture p b)) = ResourceUsage (res b)"
  "Virtual (res (with_aperture p b)) = Virtual (res b)"
  "off (with_aperture p b) = off b"
  by (auto simp: with_aperture_def split: prod.splits)

text \<open>The first child of a sorted list has the largest alignment, so that a bridge that is placed
  at its alignment serves all of its children.\<close>

lemma first_alignment_max:
  "sorted_nodes ns \<Longrightarrow> n \<in> set ns \<Longrightarrow> align n \<le> first_alignment ns m"
  by (cases ns) (auto simp: first_alignment_def)

lemma with_aperture_align:
  assumes "sorted_nodes (ChildList b)" "n \<in> set (ChildList (with_aperture p b))"
  shows "align n \<le> align (with_aperture p b)"
proof -
  have "sorted_nodes (ChildList (with_aperture p b))"
    using assms(1) with_aperture_children sorted_map_unplace by metis
  then show ?thesis
    using assms(2) by (auto simp: with_aperture_def intro: first_alignment_max split: prod.splits)
qed


section \<open>The reserved IO ranges\<close>

text \<open>A naturally aligned range of at most a quarter of the low ten address bits avoids the
  aliases of the ISA range.\<close>

lemma mod_block:
  assumes "(c::nat) dvd d" "x < c"
  shows "(c * q + x) mod d = (c * q) mod d + x"
proof -
  obtain e where d: "d = c * e" using assms(1) by blast
  show ?thesis
  proof (cases "e = 0")
    case True then show ?thesis using d by simp
  next
    case False
    have m: "(c * q) mod d = c * (q mod e)" by (simp only: d mult_mod_right)
    have "q mod e + 1 \<le> e" using False by (simp add: Suc_le_eq)
    then have "c * (q mod e + 1) \<le> c * e" by (rule mult_le_mono2)
    then have "c * (q mod e) + x < c * e" using assms(2) by (simp only: distrib_left)
    then have "(c * q) mod d + x < d" by (simp only: m flip: d)
    then have "((c * q) mod d + x) mod d = (c * q) mod d + x" by (rule mod_less)
    then show ?thesis by (simp only: mod_add_left_eq)
  qed
qed

text \<open>A range at a multiple of a power of two that is at least its length lies within one block
  of 1024 addresses or starts such a block.\<close>

lemma block_offset:
  assumes m: "low_mask m" and a: "a AND m = 0" and l: "x \<le> unat m" "x < 0x400"
  shows "(unat a + x) mod 0x400 = unat a mod 0x400 + x"
proof -
  have d: "unat m + 1 dvd unat a" using m a low_mask_aligned_iff by blast
  then obtain q where q: "unat a = (unat m + 1) * q" by blast
  have k: "low_mask (0x3FF :: u64)" using low_mask_mask [of 10] by (simp add: mask_numeral)
  show ?thesis
  proof (cases "m \<le> 0x3FF")
    case True
    then have "unat m + 1 dvd 0x400" using low_mask_dvd [OF m k] by simp
    then show ?thesis unfolding q by (rule mod_block) (use l in simp)
  next
    case False
    then have "0x400 dvd unat m + 1" using low_mask_dvd [OF k m] by simp
    then have "0x400 dvd unat a" using d dvd_trans by blast
    then have z: "unat a mod 0x400 = 0" by simp
    then have "(unat a + x) mod 0x400 = x mod 0x400" by (metis add_0 mod_add_left_eq)
    then show ?thesis using z l(2) by simp
  qed
qed

lemma skip_isa_avoids:
  assumes p: "mReserveIsaAliases p"
    and n: "low_mask (align n)" "\<not> IS_PCI_BRIDGE (PciDev (res n))" "\<not> IS_CARDBUS_BRIDGE (PciDev (res n))"
    and l: "0 < len n" "len n \<le> 0x100" "unat (len n) \<le> unat (align n) + 1"
    and a: "a AND align n = 0" "unat a + alias_slack p n < 2 ^ 64"
    and x: "x < unat (len n)"
  shows "(unat (skip_aliases p n a) + x) mod 0x400 < 0x100"
proof -
  let ?c = "SkipIsaAliasAperture a (len n)"
  let ?b = "align_up ?c (align n)"
  have b: "skip_aliases p n a = ?b" using p n by (simp add: skip_aliases_def)
  have l': "unat (len n) \<le> 0x100" "0 < unat (len n)" using l by (simp_all add: word_le_nat_alt unat_gt_0)
  have f: "unat a + 0x400 + unat (align n) < 2 ^ 64" using a(2) p by (simp add: alias_slack_def)
  have e: "unat ((a + len n - 1) AND 0x3FF) = unat a mod 0x400 + (unat (len n) - 1)"
  proof -
    have "a + len n - 1 = a + (len n - 1)" by simp
    moreover have "unat (len n - 1) = unat (len n) - 1" using l' by (simp add: unat_sub word_le_nat_alt)
    moreover have "unat (a + (len n - 1)) = unat a + unat (len n - 1)"
      using f l' calculation(2) by (simp only: unat_word_ariths) simp
    ultimately have "unat (a + len n - 1) = unat a + (unat (len n) - 1)" by argo
    then show ?thesis
      unfolding unat_low_10_bits using block_offset [OF n(1) a(1), of "unat (len n) - 1"] l l' by simp
  qed
  show ?thesis
  proof (cases "unat ((a + len n - 1) AND 0x3FF) \<ge> 0x100")
    case False
    have f4: "unat a + 0x400 < 2 ^ 64" using f by simp
    have "?c = a" using False unat_SkipIsaAliasAperture [OF f4, of "len n"] by (simp add: word_unat_eq_iff)
    then have "?b = a" using a(1) by simp
    then show ?thesis
      using block_offset [OF n(1) a(1), of x] False e x l' l by (simp add: b)
  next
    case True
    have f4: "unat a + 0x400 < 2 ^ 64" using f by simp
    have c: "unat ?c = unat a - unat a mod 0x400 + 0x400"
      using True unat_SkipIsaAliasAperture [OF f4, of "len n"] by simp
    have f5: "unat ?c + unat (align n) < 2 ^ 64" using c f by simp
    have "0x400 dvd unat ?c" unfolding c by (simp only: dvd_add_triv_right_iff dvd_minus_mod)
    have "0x400 dvd unat ?b"
    proof (cases "align n \<le> 0x3FF")
      case le: True
      have "unat (align n) + 1 dvd 0x400"
        using low_mask_dvd [OF n(1) _ le] low_mask_mask [of 10] by (simp add: mask_numeral)
      then have "unat (align n) + 1 dvd unat ?c" using \<open>0x400 dvd unat ?c\<close> dvd_trans by blast
      then have "?c AND align n = 0" using low_mask_aligned_iff [OF n(1)] by blast
      then show ?thesis using \<open>0x400 dvd unat ?c\<close> by simp
    next
      case False
      have "0x400 dvd unat (align n) + 1"
        using low_mask_dvd [OF _ n(1), of "0x3FF"] low_mask_mask [of 10] False by (simp add: mask_numeral)
      moreover have "unat (align n) + 1 dvd unat ?b"
        using align_up_aligned [OF n(1) f5] low_mask_aligned_iff [OF n(1)] by blast
      ultimately show ?thesis using dvd_trans by blast
    qed
    then have "unat ?b mod 0x400 = 0" by simp
    then have "(unat ?b + x) mod 0x400 = x mod 0x400" by (metis add_0 mod_add_left_eq)
    then show ?thesis using x l' by (simp add: b)
  qed
qed

end
