(* ===== verification/PciMap.thy ===== *)
theory PciMap
  imports PciAperture
begin

text \<open>
  Collecting the resources of a tree of PCI devices, PciResourceSupport.c: the requests of a
  device, the padding for hot plug and CardBus bridges, the degradation of requests that a bridge
  does not decode, and \<open>CreateResourceMap\<close>, which builds the five resource trees of a
  bridge (IO, 32 and 64 bit memory, prefetchable or not) from its devices.
\<close>

section \<open>Devices and the nodes of a bridge\<close>

text \<open>A device with the list of its child devices.\<close>

datatype pci_device = PciDevice (dev: PCI_IO_DEVICE) (devices: "pci_device list")

record res_nodes =
  IoNode :: PCI_RESOURCE_NODE
  Mem32Node :: PCI_RESOURCE_NODE
  PMem32Node :: PCI_RESOURCE_NODE
  Mem64Node :: PCI_RESOURCE_NODE
  PMem64Node :: PCI_RESOURCE_NODE

text \<open>What collecting resources changes beside the nodes: the policy of the module, and the
  devices that are marked as allocated.\<close>

record map_state =
  Policy :: io_policy
  Allocated :: "nat set"

definition PPB_BAR_0 :: u8 where [regs]: "PPB_BAR_0 = 0"
definition PPB_BAR_1 :: u8 where [regs]: "PPB_BAR_1 = 1"
definition PPB_IO_RANGE :: u8 where [regs]: "PPB_IO_RANGE = 2"
definition PPB_MEM32_RANGE :: u8 where [regs]: "PPB_MEM32_RANGE = 3"
definition PPB_PMEM32_RANGE :: u8 where [regs]: "PPB_PMEM32_RANGE = 4"
definition PPB_PMEM64_RANGE :: u8 where [regs]: "PPB_PMEM64_RANGE = 5"
definition PPB_MEM64_RANGE :: u8 where [regs]: "PPB_MEM64_RANGE = 0xFF"

section \<open>The requests of a device\<close>

text \<open>One round of the first loop, for the BAR of the given index, and of the second loop, for a
  BAR of the virtual functions.\<close>

fun request_bar :: "PCI_IO_DEVICE \<Rightarrow> nat \<times> PCI_BAR \<Rightarrow> res_nodes \<Rightarrow> res_nodes" where
  "request_bar d (Index, b) N =
     (let create = (\<lambda>ty. CreateResourceNode d (BarLength b) (BarAlignment b) (of_nat Index) ty PciResUsageTypical) in
      case BarType b of
        PciBarTypeMem32 \<Rightarrow> N\<lparr> Mem32Node := InsertResourceNode (Mem32Node N) (create PciBarTypeMem32) \<rparr>
      | PciBarTypeMem64 \<Rightarrow> N\<lparr> Mem64Node := InsertResourceNode (Mem64Node N) (create PciBarTypeMem64) \<rparr>
      | PciBarTypePMem64 \<Rightarrow> N\<lparr> PMem64Node := InsertResourceNode (PMem64Node N) (create PciBarTypePMem64) \<rparr>
      | PciBarTypePMem32 \<Rightarrow> N\<lparr> PMem32Node := InsertResourceNode (PMem32Node N) (create PciBarTypePMem32) \<rparr>
      | PciBarTypeIo16 \<Rightarrow> N\<lparr> IoNode := InsertResourceNode (IoNode N) (create PciBarTypeIo16) \<rparr>
      | PciBarTypeIo32 \<Rightarrow> N\<lparr> IoNode := InsertResourceNode (IoNode N) (create PciBarTypeIo16) \<rparr>
      | _ \<Rightarrow> N)"

fun request_vf_bar :: "PCI_IO_DEVICE \<Rightarrow> nat \<times> PCI_BAR \<Rightarrow> res_nodes \<Rightarrow> res_nodes" where
  "request_vf_bar d (Index, b) N =
     (let create = (\<lambda>ty. CreateVfResourceNode d (BarLength b) (BarAlignment b) (of_nat Index) ty PciResUsageTypical) in
      case BarType b of
        PciBarTypeMem32 \<Rightarrow> N\<lparr> Mem32Node := InsertResourceNode (Mem32Node N) (create PciBarTypeMem32) \<rparr>
      | PciBarTypeMem64 \<Rightarrow> N\<lparr> Mem64Node := InsertResourceNode (Mem64Node N) (create PciBarTypeMem64) \<rparr>
      | PciBarTypePMem64 \<Rightarrow> N\<lparr> PMem64Node := InsertResourceNode (PMem64Node N) (create PciBarTypePMem64) \<rparr>
      | PciBarTypePMem32 \<Rightarrow> N\<lparr> PMem32Node := InsertResourceNode (PMem32Node N) (create PciBarTypePMem32) \<rparr>
      | _ \<Rightarrow> N)"

definition requests_resource :: "PCI_BAR_TYPE \<Rightarrow> bool" where
  "requests_resource ty \<longleftrightarrow> ty \<in> {PciBarTypeMem32, PciBarTypeMem64, PciBarTypePMem64, PciBarTypePMem32,
     PciBarTypeIo16, PciBarTypeIo32}"

text \<open>The six BARs with their indices.\<close>

definition bars :: "PCI_BAR list \<Rightarrow> (nat \<times> PCI_BAR) list" where
  "bars bs = zip [0..<PCI_MAX_BAR] bs"

definition GetResourceFromDevice :: "PCI_IO_DEVICE \<Rightarrow> res_nodes \<Rightarrow> map_state \<Rightarrow> res_nodes \<times> map_state" where
  "GetResourceFromDevice d N s =
     (let N = fold (request_bar d) (bars (PciBar d)) N;
          N = fold (request_vf_bar d) (bars (VfPciBar d)) N;
          ResourceRequested = (\<exists>(i, b) \<in> set (bars (PciBar d)). requests_resource (BarType b)) in
      (N, if \<not> ResourceRequested then s\<lparr> Allocated := insert (Identity d) (Allocated s) \<rparr> else s))"

section \<open>Padding\<close>

definition ResourcePaddingForCardBusBridge :: "PCI_IO_DEVICE \<Rightarrow> res_nodes \<Rightarrow> res_nodes" where
  "ResourcePaddingForCardBusBridge d N =
     (let N = N\<lparr> Mem32Node := InsertResourceNode (Mem32Node N)
            (CreateResourceNode d 0x2000000 0x1ffffff 1 PciBarTypeMem32 PciResUsagePadding) \<rparr>;
          N = N\<lparr> PMem32Node := InsertResourceNode (PMem32Node N)
            (CreateResourceNode d 0x2000000 0x1ffffff 2 PciBarTypePMem32 PciResUsagePadding) \<rparr>;
          N = N\<lparr> IoNode := InsertResourceNode (IoNode N)
            (CreateResourceNode d 0x100 0xff 3 PciBarTypeIo16 PciResUsagePadding) \<rparr> in
      N\<lparr> IoNode := InsertResourceNode (IoNode N)
        (CreateResourceNode d 0x100 0xff 4 PciBarTypeIo16 PciResUsagePadding) \<rparr>)"

definition ACPI_ADDRESS_SPACE_DESCRIPTOR :: u8 where [regs]: "ACPI_ADDRESS_SPACE_DESCRIPTOR = 0x8A"
definition ACPI_END_TAG_DESCRIPTOR :: u8 where [regs]: "ACPI_END_TAG_DESCRIPTOR = 0x79"
definition ACPI_ADDRESS_SPACE_TYPE_MEM :: u8 where [regs]: "ACPI_ADDRESS_SPACE_TYPE_MEM = 0"
definition ACPI_ADDRESS_SPACE_TYPE_IO :: u8 where [regs]: "ACPI_ADDRESS_SPACE_TYPE_IO = 1"

text \<open>One descriptor before the end tag.\<close>

definition pad_descriptor :: "PCI_IO_DEVICE \<Rightarrow> ADDRESS_SPACE_DESCRIPTOR \<Rightarrow> res_nodes \<Rightarrow> res_nodes" where
  "pad_descriptor d p N =
     (let create = (\<lambda>ty. CreateResourceNode d (AddrLen p) (AddrRangeMax p) 0 ty PciResUsagePadding) in
      if Desc p \<noteq> ACPI_ADDRESS_SPACE_DESCRIPTOR \<or> AddrLen p = 0 then N
      else if DescResType p = ACPI_ADDRESS_SPACE_TYPE_IO
      then N\<lparr> IoNode := InsertResourceNode (IoNode N) (create PciBarTypeIo16) \<rparr>
      else if DescResType p = ACPI_ADDRESS_SPACE_TYPE_MEM \<and> AddrSpaceGranularity p = 32 \<and> SpecificFlag p = 6
      then N\<lparr> PMem32Node := InsertResourceNode (PMem32Node N) (create PciBarTypePMem32) \<rparr>
      else if DescResType p = ACPI_ADDRESS_SPACE_TYPE_MEM \<and> AddrSpaceGranularity p = 32 \<and> SpecificFlag p = 0
      then N\<lparr> Mem32Node := InsertResourceNode (Mem32Node N) (create PciBarTypeMem32) \<rparr>
      else if DescResType p = ACPI_ADDRESS_SPACE_TYPE_MEM \<and> AddrSpaceGranularity p = 64 \<and> SpecificFlag p = 6
      then N\<lparr> PMem64Node := InsertResourceNode (PMem64Node N) (create PciBarTypePMem64) \<rparr>
      else if DescResType p = ACPI_ADDRESS_SPACE_TYPE_MEM \<and> AddrSpaceGranularity p = 64 \<and> SpecificFlag p = 0
      then N\<lparr> Mem64Node := InsertResourceNode (Mem64Node N) (create PciBarTypeMem64) \<rparr>
      else N)"

definition ApplyResourcePadding :: "PCI_IO_DEVICE \<Rightarrow> ADDRESS_SPACE_DESCRIPTOR list \<Rightarrow> res_nodes \<Rightarrow> res_nodes" where
  "ApplyResourcePadding d ps N =
     fold (pad_descriptor d) (takeWhile (\<lambda>p. Desc p \<noteq> ACPI_END_TAG_DESCRIPTOR) ps) N"

definition ResourcePaddingPolicy :: "PCI_IO_DEVICE \<Rightarrow> res_nodes \<Rightarrow> res_nodes" where
  "ResourcePaddingPolicy d N =
     (case ResourcePaddingDescriptors d of None \<Rightarrow> N | Some ps \<Rightarrow> ApplyResourcePadding d ps N)"

section \<open>Degradation\<close>

definition EFI_BRIDGE_PMEM32_DECODE_SUPPORTED :: u32 where [regs]: "EFI_BRIDGE_PMEM32_DECODE_SUPPORTED = 0x2"
definition EFI_BRIDGE_PMEM64_DECODE_SUPPORTED :: u32 where [regs]: "EFI_BRIDGE_PMEM64_DECODE_SUPPORTED = 0x4"
definition EFI_BRIDGE_PMEM_MEM_COMBINE_SUPPORTED :: u32 where [regs]: "EFI_BRIDGE_PMEM_MEM_COMBINE_SUPPORTED = 0x10"
definition EFI_BRIDGE_MEM64_DECODE_SUPPORTED :: u32 where [regs]: "EFI_BRIDGE_MEM64_DECODE_SUPPORTED = 0x20"

definition BridgeSupportResourceDecode :: "PCI_IO_DEVICE \<Rightarrow> u32 \<Rightarrow> bool" where
  "BridgeSupportResourceDecode Bridge Decode \<longleftrightarrow> Decodes Bridge AND Decode \<noteq> 0"

definition PCI32BitBarDevicesTable :: "(u16 \<times> u16) list" where
  "PCI32BitBarDevicesTable = [(0x8086, 0x2260)]"

text \<open>The controllers whose 64 bit BARs go below 4 GB: those with an option ROM that are not in the
  table, and the XHCI controller at 0:20.0 when setup asks for it.\<close>

definition degrades_device :: "pci_env \<Rightarrow> PCI_IO_DEVICE \<Rightarrow> bool" where
  "degrades_device e d \<longleftrightarrow>
     (let BarFlag = (VendorId d, DeviceId d) \<notin> set PCI32BitBarDevicesTable;
          DegradeUsbBar = (if BusNumber d = 0 \<and> DeviceNumber d = 20 \<and> FunctionNumber d = 0
            then PchUsbDegradeBar e else 0) in
      (RomSize d \<noteq> 0 \<and> BarFlag) \<or> DegradeUsbBar \<noteq> 0)"

definition bar_type_fixed :: "pci_env \<Rightarrow> PCI_IO_DEVICE \<Rightarrow> u8 \<Rightarrow> bool" where
  "bar_type_fixed e d i = (if unat i < length (PciBar d) then BarTypeFixed (PciBar d ! unat i)
     else BarTypeFixedBeyond e d i)"

definition degrades_node :: "pci_env \<Rightarrow> PCI_IO_DEVICE \<Rightarrow> PCI_RESOURCE_NODE \<Rightarrow> bool" where
  "degrades_node e d n \<longleftrightarrow> Identity (PciDev (res n)) = Identity d \<and>
     (Virtual (res n) \<or> \<not> bar_type_fixed e d (Bar (res n)))"

text \<open>The loop that moves the matching nodes of one list into another, in their order.\<close>

definition move_nodes :: "(PCI_RESOURCE_NODE \<Rightarrow> bool) \<Rightarrow> PCI_RESOURCE_NODE \<Rightarrow> PCI_RESOURCE_NODE \<Rightarrow>
    PCI_RESOURCE_NODE \<times> PCI_RESOURCE_NODE" where
  "move_nodes P Dst Src =
     (fold (\<lambda>n b. InsertResourceNode b n) (filter P (ChildList Src)) Dst,
      set_children (filter (\<lambda>n. \<not> P n) (ChildList Src)) Src)"

definition degrade_child :: "pci_env \<Rightarrow> PCI_IO_DEVICE \<Rightarrow> res_nodes \<Rightarrow> res_nodes" where
  "degrade_child e d N =
     (if degrades_device e d then
        (case move_nodes (degrades_node e d) (Mem32Node N) (Mem64Node N) of (m32, m64) \<Rightarrow>
         case move_nodes (degrades_node e d) (PMem32Node N) (PMem64Node N) of (p32, p64) \<Rightarrow>
           N\<lparr> Mem32Node := m32, Mem64Node := m64, PMem32Node := p32, PMem64Node := p64 \<rparr>)
      else N)"

text \<open>The merges that the degradation is made of.\<close>

definition merge_mem64_mem32 :: "bool \<Rightarrow> res_nodes \<Rightarrow> res_nodes" where
  "merge_mem64_mem32 TypeMerge N = (case MergeResourceTree (Mem32Node N) (Mem64Node N) TypeMerge of
     (m32, m64) \<Rightarrow> N\<lparr> Mem32Node := m32, Mem64Node := m64 \<rparr>)"

definition merge_pmem64_pmem32 :: "bool \<Rightarrow> res_nodes \<Rightarrow> res_nodes" where
  "merge_pmem64_pmem32 TypeMerge N = (case MergeResourceTree (PMem32Node N) (PMem64Node N) TypeMerge of
     (p32, p64) \<Rightarrow> N\<lparr> PMem32Node := p32, PMem64Node := p64 \<rparr>)"

definition merge_pmem32_mem32 :: "bool \<Rightarrow> res_nodes \<Rightarrow> res_nodes" where
  "merge_pmem32_mem32 TypeMerge N = (case MergeResourceTree (Mem32Node N) (PMem32Node N) TypeMerge of
     (m32, p32) \<Rightarrow> N\<lparr> Mem32Node := m32, PMem32Node := p32 \<rparr>)"

definition merge_pmem64_mem64 :: "bool \<Rightarrow> res_nodes \<Rightarrow> res_nodes" where
  "merge_pmem64_mem64 TypeMerge N = (case MergeResourceTree (Mem64Node N) (PMem64Node N) TypeMerge of
     (m64, p64) \<Rightarrow> N\<lparr> Mem64Node := m64, PMem64Node := p64 \<rparr>)"

definition DegradeResource :: "pci_env \<Rightarrow> PCI_IO_DEVICE \<Rightarrow> PCI_IO_DEVICE list \<Rightarrow> res_nodes \<Rightarrow> res_nodes" where
  "DegradeResource e Bridge childs N =
     (let N = (if PcdPciDegradeResourceForOptionRom e then fold (degrade_child e) childs N else N);
          N = (if UintnIs32 e then merge_pmem64_pmem32 True (merge_mem64_mem32 True N)
               else let N = (if \<not> BridgeSupportResourceDecode Bridge EFI_BRIDGE_MEM64_DECODE_SUPPORTED
                          then merge_mem64_mem32 True N else N);
                        N = (if \<not> BridgeSupportResourceDecode Bridge EFI_BRIDGE_PMEM64_DECODE_SUPPORTED
                          then merge_pmem64_pmem32 True N else N) in
                    (if ChildList (PMem64Node N) \<noteq> [] \<and> HasParent Bridge
                     then merge_pmem32_mem32 True N else N));
          N = (if \<not> BridgeSupportResourceDecode Bridge EFI_BRIDGE_PMEM32_DECODE_SUPPORTED
               then merge_pmem32_mem32 True N else N) in
      if BridgeSupportResourceDecode Bridge EFI_BRIDGE_PMEM_MEM_COMBINE_SUPPORTED
      then merge_pmem64_mem64 False (merge_pmem32_mem32 False N) else N)"

section \<open>The resource map\<close>

definition ResourceRequestExisted :: "PCI_RESOURCE_NODE \<Rightarrow> bool" where
  "ResourceRequestExisted Bridge \<longleftrightarrow> ChildList Bridge \<noteq> [] \<or> len Bridge \<noteq> 0"

text \<open>The five nodes of a PCI-PCI bridge, and their insertion into the nodes of the bridge above it
  where something was requested.\<close>

definition bridge_nodes :: "PCI_IO_DEVICE \<Rightarrow> res_nodes" where
  "bridge_nodes d = \<lparr>
     IoNode = CreateResourceNode d 0 (ucast (BridgeIoAlignment d)) PPB_IO_RANGE PciBarTypeIo16 PciResUsageTypical,
     Mem32Node = CreateResourceNode d 0 0xFFFFF PPB_MEM32_RANGE PciBarTypeMem32 PciResUsageTypical,
     PMem32Node = CreateResourceNode d 0 0xFFFFF PPB_PMEM32_RANGE PciBarTypePMem32 PciResUsageTypical,
     Mem64Node = CreateResourceNode d 0 0xFFFFF PPB_MEM64_RANGE PciBarTypeMem64 PciResUsageTypical,
     PMem64Node = CreateResourceNode d 0 0xFFFFF PPB_PMEM64_RANGE PciBarTypePMem64 PciResUsageTypical \<rparr>"

definition insert_existing :: "PCI_RESOURCE_NODE \<Rightarrow> PCI_RESOURCE_NODE \<Rightarrow> PCI_RESOURCE_NODE" where
  "insert_existing b w = (if ResourceRequestExisted w then InsertResourceNode b w else b)"

definition insert_bridge :: "res_nodes \<Rightarrow> res_nodes \<Rightarrow> res_nodes" where
  "insert_bridge N B = \<lparr> IoNode = insert_existing (IoNode N) (IoNode B),
     Mem32Node = insert_existing (Mem32Node N) (Mem32Node B),
     PMem32Node = insert_existing (PMem32Node N) (PMem32Node B),
     Mem64Node = insert_existing (Mem64Node N) (Mem64Node B),
     PMem64Node = insert_existing (PMem64Node N) (PMem64Node B) \<rparr>"

definition calculate_apertures :: "pci_env \<Rightarrow> res_nodes \<Rightarrow> map_state \<Rightarrow> res_nodes \<times> map_state" where
  "calculate_apertures e N s =
     (case CalculateResourceAperture e (Mem32Node N) (Policy s) of (m32, p) \<Rightarrow>
      case CalculateResourceAperture e (PMem32Node N) p of (p32, p) \<Rightarrow>
      case CalculateResourceAperture e (Mem64Node N) p of (m64, p) \<Rightarrow>
      case CalculateResourceAperture e (PMem64Node N) p of (p64, p) \<Rightarrow>
      case CalculateResourceAperture e (IoNode N) p of (io, p) \<Rightarrow>
        (\<lparr> IoNode = io, Mem32Node = m32, PMem32Node = p32, Mem64Node = m64, PMem64Node = p64 \<rparr>,
         s\<lparr> Policy := p \<rparr>))"

fun CreateResourceMap :: "pci_env \<Rightarrow> pci_device \<Rightarrow> res_nodes \<Rightarrow> map_state \<Rightarrow> res_nodes \<times> map_state"
  and map_devices :: "pci_env \<Rightarrow> pci_device list \<Rightarrow> res_nodes \<Rightarrow> map_state \<Rightarrow> res_nodes \<times> map_state" where
  "CreateResourceMap e (PciDevice Bridge ds) N s =
     (case map_devices e ds N s of (N, s) \<Rightarrow>
        calculate_apertures e (DegradeResource e Bridge (map dev ds) (ResourcePaddingPolicy Bridge N)) s)"
| "map_devices e [] N s = (N, s)"
| "map_devices e (t # ts) N s =
     (case GetResourceFromDevice (dev t) N s of (N, s) \<Rightarrow>
      case (if IS_PCI_BRIDGE (dev t)
            then (case CreateResourceMap e t (bridge_nodes (dev t)) s of (B, s) \<Rightarrow> (insert_bridge N B, s))
            else (N, s)) of (N, s) \<Rightarrow>
        map_devices e ts
          (if IS_CARDBUS_BRIDGE (dev t) then ResourcePaddingForCardBusBridge (dev t) N else N) s)"

end
