(* ===== verification/PciTrees.thy ===== *)
theory PciTrees
  imports PciMap
begin

text \<open>
  Invariants of the resource trees that \<open>CreateResourceMap\<close> builds.  The locale
  \<open>node_invariant\<close> states what a property of the nodes of a list has to satisfy so that every
  operation of PciResourceSupport.c keeps it.
\<close>

section \<open>The five lists\<close>

datatype pool_id = PoolIo | PoolMem32 | PoolPMem32 | PoolMem64 | PoolPMem64

fun pool :: "pool_id \<Rightarrow> res_nodes \<Rightarrow> PCI_RESOURCE_NODE" where
  "pool PoolIo N = IoNode N"
| "pool PoolMem32 N = Mem32Node N"
| "pool PoolPMem32 N = PMem32Node N"
| "pool PoolMem64 N = Mem64Node N"
| "pool PoolPMem64 N = PMem64Node N"

lemma all_pools: "(\<forall>k. P k) \<longleftrightarrow> P PoolIo \<and> P PoolMem32 \<and> P PoolPMem32 \<and> P PoolMem64 \<and> P PoolPMem64"
  by (metis pool_id.exhaust)

text \<open>Where the nodes of a list may be moved to.\<close>

fun flows :: "pool_id \<Rightarrow> pool_id \<Rightarrow> bool" where
  "flows PoolMem64 k = (k \<in> {PoolMem64, PoolMem32})"
| "flows PoolPMem64 k = (k \<in> {PoolPMem64, PoolPMem32, PoolMem64, PoolMem32})"
| "flows PoolPMem32 k = (k \<in> {PoolPMem32, PoolMem32})"
| "flows j k = (j = k)"

text \<open>The list that a request for a type of BAR goes to.\<close>

fun pool_of :: "PCI_BAR_TYPE \<Rightarrow> pool_id option" where
  "pool_of PciBarTypeMem32 = Some PoolMem32"
| "pool_of PciBarTypePMem32 = Some PoolPMem32"
| "pool_of PciBarTypeMem64 = Some PoolMem64"
| "pool_of PciBarTypePMem64 = Some PoolPMem64"
| "pool_of PciBarTypeIo16 = Some PoolIo"
| "pool_of PciBarTypeIo32 = Some PoolIo"
| "pool_of _ = None"

fun pool_type :: "pool_id \<Rightarrow> PCI_BAR_TYPE" where
  "pool_type PoolIo = PciBarTypeIo16"
| "pool_type PoolMem32 = PciBarTypeMem32"
| "pool_type PoolPMem32 = PciBarTypePMem32"
| "pool_type PoolMem64 = PciBarTypeMem64"
| "pool_type PoolPMem64 = PciBarTypePMem64"

definition insert_pool :: "pool_id \<Rightarrow> PCI_RESOURCE_NODE \<Rightarrow> res_nodes \<Rightarrow> res_nodes" where
  "insert_pool k n N = (case k of
     PoolIo \<Rightarrow> N\<lparr> IoNode := InsertResourceNode (IoNode N) n \<rparr>
   | PoolMem32 \<Rightarrow> N\<lparr> Mem32Node := InsertResourceNode (Mem32Node N) n \<rparr>
   | PoolPMem32 \<Rightarrow> N\<lparr> PMem32Node := InsertResourceNode (PMem32Node N) n \<rparr>
   | PoolMem64 \<Rightarrow> N\<lparr> Mem64Node := InsertResourceNode (Mem64Node N) n \<rparr>
   | PoolPMem64 \<Rightarrow> N\<lparr> PMem64Node := InsertResourceNode (PMem64Node N) n \<rparr>)"

lemma pool_insert_pool [simp]:
  "pool j (insert_pool k n N) = (if j = k then InsertResourceNode (pool k N) n else pool j N)"
  by (cases j; cases k; simp add: insert_pool_def)

lemma request_bar_pool:
  "request_bar d (i, b) N = (case pool_of (BarType b) of None \<Rightarrow> N | Some k \<Rightarrow>
     insert_pool k (CreateResourceNode d (BarLength b) (BarAlignment b) (of_nat i) (pool_type k) PciResUsageTypical) N)"
  by (cases "BarType b") (simp_all add: insert_pool_def)

definition vf_pool_of :: "PCI_BAR_TYPE \<Rightarrow> pool_id option" where
  "vf_pool_of ty = (case pool_of ty of Some PoolIo \<Rightarrow> None | x \<Rightarrow> x)"

lemma request_vf_bar_pool:
  "request_vf_bar d (i, b) N = (case vf_pool_of (BarType b) of None \<Rightarrow> N | Some k \<Rightarrow>
     insert_pool k (CreateVfResourceNode d (BarLength b) (BarAlignment b) (of_nat i) (pool_type k) PciResUsageTypical) N)"
  by (cases "BarType b") (simp_all add: insert_pool_def vf_pool_of_def)

lemma cardbus_pool:
  "ResourcePaddingForCardBusBridge d N =
     insert_pool PoolIo (CreateResourceNode d 0x100 0xff 4 PciBarTypeIo16 PciResUsagePadding)
    (insert_pool PoolIo (CreateResourceNode d 0x100 0xff 3 PciBarTypeIo16 PciResUsagePadding)
    (insert_pool PoolPMem32 (CreateResourceNode d 0x2000000 0x1ffffff 2 PciBarTypePMem32 PciResUsagePadding)
    (insert_pool PoolMem32 (CreateResourceNode d 0x2000000 0x1ffffff 1 PciBarTypeMem32 PciResUsagePadding) N)))"
  by (simp add: ResourcePaddingForCardBusBridge_def insert_pool_def)

lemma pad_descriptor_pool:
  "pad_descriptor d p N = N \<or> (\<exists>k. pad_descriptor d p N =
     insert_pool k (CreateResourceNode d (AddrLen p) (AddrRangeMax p) 0 (pool_type k) PciResUsagePadding) N)"
proof -
  have "pad_descriptor d p N \<in> {N} \<union> (\<lambda>k. insert_pool k (CreateResourceNode d (AddrLen p) (AddrRangeMax p) 0
      (pool_type k) PciResUsagePadding) N) ` {PoolIo, PoolMem32, PoolPMem32, PoolMem64, PoolPMem64}"
    by (simp add: pad_descriptor_def insert_pool_def Let_def)
  then show ?thesis by blast
qed

text \<open>Moving nodes between lists: a part of one list goes to another it flows to, in some new types.\<close>

definition moved :: "pool_id \<Rightarrow> pool_id \<Rightarrow> (PCI_RESOURCE_NODE \<Rightarrow> bool) \<Rightarrow> PCI_BAR_TYPE option \<Rightarrow> res_nodes \<Rightarrow> res_nodes \<Rightarrow> bool" where
  "moved j k P Ty N N' \<longleftrightarrow> j \<noteq> k \<and> flows j k \<and>
     pool k N' = merge_nodes Ty (filter P (ChildList (pool j N))) (pool k N) \<and>
     pool j N' = set_children (filter (\<lambda>n. \<not> P n) (ChildList (pool j N))) (pool j N) \<and>
     (\<forall>i. i \<noteq> j \<longrightarrow> i \<noteq> k \<longrightarrow> pool i N' = pool i N)"

lemma merge_nodes_fold: "merge_nodes None ns b = fold (\<lambda>n b. InsertResourceNode b n) ns b"
  by (induction ns arbitrary: b) simp_all

lemma move_nodes_merge:
  "move_nodes P Dst Src = (merge_nodes None (filter P (ChildList Src)) Dst,
     set_children (filter (\<lambda>n. \<not> P n) (ChildList Src)) Src)"
  by (simp add: move_nodes_def merge_nodes_fold)

lemma merge_moved:
  "moved PoolMem64 PoolMem32 (\<lambda>_. True) (if t then Some (ResType (res (Mem32Node N))) else None) N (merge_mem64_mem32 t N)"
  "moved PoolPMem64 PoolPMem32 (\<lambda>_. True) (if t then Some (ResType (res (PMem32Node N))) else None) N (merge_pmem64_pmem32 t N)"
  "moved PoolPMem32 PoolMem32 (\<lambda>_. True) (if t then Some (ResType (res (Mem32Node N))) else None) N (merge_pmem32_mem32 t N)"
  "moved PoolPMem64 PoolMem64 (\<lambda>_. True) (if t then Some (ResType (res (Mem64Node N))) else None) N (merge_pmem64_mem64 t N)"
  by (simp_all add: moved_def all_pools MergeResourceTree_def merge_mem64_mem32_def merge_pmem64_pmem32_def
      merge_pmem32_mem32_def merge_pmem64_mem64_def)

lemma degrade_child_moved:
  assumes "degrades_device e d"
  obtains M where "moved PoolMem64 PoolMem32 (degrades_node e d) None N M"
    "moved PoolPMem64 PoolPMem32 (degrades_node e d) None M (degrade_child e d N)"
proof -
  let ?P = "degrades_node e d"
  let ?M = "N\<lparr> Mem32Node := merge_nodes None (filter ?P (ChildList (Mem64Node N))) (Mem32Node N),
     Mem64Node := set_children (filter (\<lambda>n. \<not> ?P n) (ChildList (Mem64Node N))) (Mem64Node N) \<rparr>"
  have "moved PoolMem64 PoolMem32 ?P None N ?M" by (simp add: moved_def all_pools)
  moreover have "moved PoolPMem64 PoolPMem32 ?P None ?M (degrade_child e d N)"
    using assms by (simp add: moved_def all_pools degrade_child_def move_nodes_merge)
  ultimately show thesis by (rule that)
qed

text \<open>What holds of nodes that are only moved holds after the degradation.\<close>

lemma DegradeResource_moves:
  assumes step: "\<And>j k P Ty N N'. moved j k P Ty N N' \<Longrightarrow> I N \<Longrightarrow> I N'"
    and "I N"
  shows "I (DegradeResource e Bridge childs N)"
proof -
  note merges = merge_moved [THEN step]
  have child: "I M \<Longrightarrow> I (degrade_child e d M)" for d M
  proof (cases "degrades_device e d")
    case True
    assume "I M"
    then show ?thesis using degrade_child_moved [OF True, of M thesis] by (metis degrade_child_moved [OF True] step)
  qed (simp add: degrade_child_def)
  have "I (fold (degrade_child e) childs N)"
    using \<open>I N\<close> by (induction childs arbitrary: N) (auto intro: child)
  then show ?thesis
    using \<open>I N\<close> by (auto simp: DegradeResource_def Let_def intro!: merges)
qed

section \<open>The nodes that a device adds\<close>

text \<open>The nodes for the BARs of a device, of its virtual functions, and for padding.\<close>

inductive requested :: "PCI_IO_DEVICE \<Rightarrow> pool_id \<Rightarrow> PCI_RESOURCE_NODE \<Rightarrow> bool" for d where
  bar: "(i, b) \<in> set (bars (PciBar d)) \<Longrightarrow> pool_of (BarType b) = Some k \<Longrightarrow>
    requested d k (CreateResourceNode d (BarLength b) (BarAlignment b) (of_nat i) (pool_type k) PciResUsageTypical)"
| vf_bar: "(i, b) \<in> set (bars (VfPciBar d)) \<Longrightarrow> vf_pool_of (BarType b) = Some k \<Longrightarrow>
    requested d k (CreateVfResourceNode d (BarLength b) (BarAlignment b) (of_nat i) (pool_type k) PciResUsageTypical)"
| padding: "ResourcePaddingDescriptors d = Some ps \<Longrightarrow> x \<in> set ps \<Longrightarrow>
    requested d k (CreateResourceNode d (AddrLen x) (AddrRangeMax x) 0 (pool_type k) PciResUsagePadding)"
| cardbus_io: "k = PoolIo \<Longrightarrow> requested d k (CreateResourceNode d 0x100 0xff i (pool_type k) PciResUsagePadding)"
| cardbus_mem: "k \<noteq> PoolIo \<Longrightarrow>
    requested d k (CreateResourceNode d 0x2000000 0x1ffffff i (pool_type k) PciResUsagePadding)"

text \<open>What every insertion of such a node keeps holds after the operations of a device.\<close>

lemma fold_keeps: "(\<And>x N. x \<in> set xs \<Longrightarrow> I N \<Longrightarrow> I (f x N)) \<Longrightarrow> I N \<Longrightarrow> I (fold f xs N)"
  by (induction xs arbitrary: N) auto

lemma GetResourceFromDevice_inserts:
  assumes step: "\<And>k n N. requested d k n \<Longrightarrow> I N \<Longrightarrow> I (insert_pool k n N)" and "I N"
  shows "I (fst (GetResourceFromDevice d N s))"
proof -
  have "I (request_bar d (i, b) M)" if "(i, b) \<in> set (bars (PciBar d))" "I M" for i b M
    using that step [OF requested.bar [OF that(1)]]
    by (simp add: request_bar_pool del: request_bar.simps split: option.splits)
  then have a: "I (fold (request_bar d) (bars (PciBar d)) M)" if "I M" for M
    using that by (intro fold_keeps [where I = I]) auto
  have "I (request_vf_bar d (i, b) M)" if "(i, b) \<in> set (bars (VfPciBar d))" "I M" for i b M
    using that step [OF requested.vf_bar [OF that(1)]]
    by (simp add: request_vf_bar_pool del: request_vf_bar.simps split: option.splits)
  then have b: "I (fold (request_vf_bar d) (bars (VfPciBar d)) M)" if "I M" for M
    using that by (intro fold_keeps [where I = I]) auto
  show ?thesis using \<open>I N\<close> by (simp add: GetResourceFromDevice_def Let_def a b)
qed

lemma ResourcePaddingPolicy_inserts:
  assumes step: "\<And>k n N. requested d k n \<Longrightarrow> I N \<Longrightarrow> I (insert_pool k n N)" and "I N"
  shows "I (ResourcePaddingPolicy d N)"
proof (cases "ResourcePaddingDescriptors d")
  case (Some ps)
  have "I (pad_descriptor d x M)" if "x \<in> set ps" "I M" for x M
    using pad_descriptor_pool [of d x M] step [OF requested.padding [OF Some that(1)]] that(2) by auto
  then have "I (fold (pad_descriptor d) xs N)" if "set xs \<subseteq> set ps" for xs
    using that \<open>I N\<close> by (intro fold_keeps [where I = I]) auto
  moreover have "set (takeWhile (\<lambda>x. Desc x \<noteq> ACPI_END_TAG_DESCRIPTOR) ps) \<subseteq> set ps"
    by (auto dest: set_takeWhileD)
  ultimately show ?thesis
    by (simp add: ResourcePaddingPolicy_def ApplyResourcePadding_def Some)
qed (simp add: ResourcePaddingPolicy_def assms)

lemma cardbus_inserts:
  assumes step: "\<And>k n N. requested d k n \<Longrightarrow> I N \<Longrightarrow> I (insert_pool k n N)" and "I N"
  shows "I (ResourcePaddingForCardBusBridge d N)"
proof -
  note io = requested.cardbus_io [of PoolIo d, simplified]
  note mem = requested.cardbus_mem [of PoolMem32 d, simplified] requested.cardbus_mem [of PoolPMem32 d, simplified]
  show ?thesis unfolding cardbus_pool by (intro step io mem \<open>I N\<close>)
qed

section \<open>The roots of the lists\<close>

text \<open>The operations do not change the node whose list they change.\<close>

definition roots :: "res_nodes \<Rightarrow> pool_id \<Rightarrow> resource" where
  "roots N k = res (pool k N)"

lemma roots_insert [simp]: "roots (insert_pool k n N) = roots N"
  by (simp add: roots_def fun_eq_iff)

lemma roots_moved:
  assumes "moved j k P Ty N N'"
  shows "roots N' = roots N"
proof
  fix i
  show "roots N' i = roots N i"
    using assms by (cases "i = j"; cases "i = k"; simp add: roots_def moved_def)
qed

lemma roots_operations [simp]:
  "roots (fst (GetResourceFromDevice d N s)) = roots N"
  "roots (ResourcePaddingPolicy d N) = roots N"
  "roots (ResourcePaddingForCardBusBridge d N) = roots N"
  "roots (DegradeResource e b ds N) = roots N"
  using GetResourceFromDevice_inserts [of d "\<lambda>M. roots M = roots N" N s]
    ResourcePaddingPolicy_inserts [of d "\<lambda>M. roots M = roots N" N]
    cardbus_inserts [of d "\<lambda>M. roots M = roots N" N]
    DegradeResource_moves [of "\<lambda>M. roots M = roots N" N e b ds]
  by (simp_all add: roots_moved)

lemma roots_insert_existing [simp]: "res (insert_existing b w) = res b"
  by (simp add: insert_existing_def)

lemma pool_insert_bridge [simp]: "pool k (insert_bridge N B) = insert_existing (pool k N) (pool k B)"
  by (cases k) (simp_all add: insert_bridge_def)

lemma roots_insert_bridge [simp]: "roots (insert_bridge N B) = roots N"
  by (simp add: roots_def fun_eq_iff)

text \<open>The IO list is the only one of type Io16, so that the policy is determined there.\<close>

definition typed_roots :: "res_nodes \<Rightarrow> bool" where
  "typed_roots N \<longleftrightarrow> (\<forall>k. ResType (roots N k) = pool_type k)"

lemma pool_type_io [simp]: "pool_type k = PciBarTypeIo16 \<longleftrightarrow> k = PoolIo"
  by (cases k) auto

lemma typed_bridge_nodes [simp]: "typed_roots (bridge_nodes d)"
  by (simp add: typed_roots_def roots_def all_pools bridge_nodes_def CreateResourceNode_def)

lemma calculate_apertures_pool:
  assumes "calculate_apertures e N s = (N', s')" "typed_roots N"
  shows "pool k N' = with_aperture (determine_policy e (Policy s)) (pool k N)"
    and "determine_policy e (Policy s') = determine_policy e (Policy s)"
    and "Allocated s' = Allocated s"
proof -
  have t: "ResType (res (IoNode N)) = PciBarTypeIo16" "ResType (res (Mem32Node N)) \<noteq> PciBarTypeIo16"
    "ResType (res (PMem32Node N)) \<noteq> PciBarTypeIo16" "ResType (res (Mem64Node N)) \<noteq> PciBarTypeIo16"
    "ResType (res (PMem64Node N)) \<noteq> PciBarTypeIo16"
    using assms(2) by (simp_all add: typed_roots_def roots_def all_pools)
  show "pool k N' = with_aperture (determine_policy e (Policy s)) (pool k N)"
    "determine_policy e (Policy s') = determine_policy e (Policy s)" "Allocated s' = Allocated s"
    using assms(1) t by (cases k; auto simp: calculate_apertures_def CalculateResourceAperture_with)+
qed

lemma Policy_device [simp]: "Policy (snd (GetResourceFromDevice d N s)) = Policy s"
  by (simp add: GetResourceFromDevice_def Let_def)

text \<open>A bridge without nodes gets no aperture.\<close>

lemma empty_window:
  assumes "len b = 0"
  shows "ChildList (with_aperture p (set_children [] b)) = []" "len (with_aperture p (set_children [] b)) = 0"
  using assms by (simp_all add: with_aperture_def finish_aperture_def Let_def)

lemma len_bridge_nodes [simp]: "len (pool k (bridge_nodes d)) = 0"
  by (cases k) (simp_all add: bridge_nodes_def CreateResourceNode_def)

lemma same_root: "res a = res b \<Longrightarrow> set_children (ChildList a) b = a"
  by (cases a; cases b) simp

text \<open>The devices of a tree.\<close>

fun all_devs :: "pci_device \<Rightarrow> PCI_IO_DEVICE list" where
  "all_devs (PciDevice d ts) = d # concat (map all_devs ts)"

lemma dev_all_devs: "dev t \<in> set (all_devs t)"
  by (cases t) simp

section \<open>Invariants of the nodes\<close>

locale node_invariant =
  fixes Q :: "pool_id \<Rightarrow> PCI_RESOURCE_NODE \<Rightarrow> bool"
    and ok_dev :: "PCI_IO_DEVICE \<Rightarrow> bool"
    and p :: io_policy
  assumes flow: "Q j n \<Longrightarrow> flows j k \<Longrightarrow> Q k n"
    and retyped: "Q k (retype Ty n) = Q k n"
    and offset: "Q k n \<Longrightarrow> \<not> padding n \<Longrightarrow> Q k (upd (\<lambda>r. r\<lparr> Offset := x \<rparr>) n)"
    and request: "ok_dev d \<Longrightarrow> requested d k n \<Longrightarrow> Q k n"
    and window: "ok_dev d \<Longrightarrow> sorted_nodes ns \<Longrightarrow> (\<forall>n \<in> set ns. Q k n) \<Longrightarrow> ns \<noteq> [] \<Longrightarrow>
       Q k (with_aperture p (set_children ns (pool k (bridge_nodes d))))"
begin

text \<open>Every list is sorted and all of its nodes satisfy the invariant.\<close>

definition lists_ok :: "res_nodes \<Rightarrow> bool" where
  "lists_ok N \<longleftrightarrow> (\<forall>k. sorted_nodes (ChildList (pool k N)) \<and> (\<forall>n \<in> set (ChildList (pool k N)). Q k n))"

lemma lists_ok_insert: "lists_ok N \<Longrightarrow> Q k n \<Longrightarrow> lists_ok (insert_pool k n N)"
  by (auto simp: lists_ok_def sorted_insert_node)

lemma lists_ok_moved:
  assumes m: "moved j k P Ty N N'" and ok: "lists_ok N"
  shows "lists_ok N'"
  unfolding lists_ok_def
proof
  fix i
  have s: "sorted_nodes (ChildList (pool l N))" "\<And>n. n \<in> set (ChildList (pool l N)) \<Longrightarrow> Q l n" for l
    using ok by (auto simp: lists_ok_def)
  have jk: "j \<noteq> k" "flows j k" using m by (auto simp: moved_def)
  consider "i = k" | "i = j" | "i \<noteq> j" "i \<noteq> k" by blast
  then show "sorted_nodes (ChildList (pool i N')) \<and> (\<forall>n \<in> set (ChildList (pool i N')). Q i n)"
  proof cases
    case 1
    then have e: "pool i N' = merge_nodes Ty (filter P (ChildList (pool j N))) (pool k N)"
      using m by (simp add: moved_def)
    show ?thesis
      unfolding e using s jk by (auto simp: 1 sorted_merge_nodes retyped intro: flow [OF _ jk(2)])
  next
    case 2
    then show ?thesis using m s by (auto simp: moved_def sorted_filter_nodes)
  next
    case 3
    then show ?thesis using m s by (auto simp: moved_def)
  qed
qed

lemma lists_ok_operations:
  "ok_dev d \<Longrightarrow> lists_ok N \<Longrightarrow> lists_ok (fst (GetResourceFromDevice d N s))"
  "ok_dev d \<Longrightarrow> lists_ok N \<Longrightarrow> lists_ok (ResourcePaddingPolicy d N)"
  "ok_dev d \<Longrightarrow> lists_ok N \<Longrightarrow> lists_ok (ResourcePaddingForCardBusBridge d N)"
  "lists_ok N \<Longrightarrow> lists_ok (DegradeResource e Bridge childs N)"
  using GetResourceFromDevice_inserts [of d lists_ok N s] ResourcePaddingPolicy_inserts [of d lists_ok N]
    cardbus_inserts [of d lists_ok N] DegradeResource_moves [of lists_ok N e Bridge childs]
  by (simp_all add: lists_ok_insert request lists_ok_moved)

text \<open>After the apertures are known: every list is that of a bridge whose nodes satisfied the
  invariant, under the policy in force.\<close>

definition apertures_of :: "res_nodes \<Rightarrow> res_nodes \<Rightarrow> bool" where
  "apertures_of M N \<longleftrightarrow> lists_ok M \<and> (\<forall>k. pool k N = with_aperture p (pool k M))"

lemma lists_ok_apertures:
  assumes "apertures_of M N"
  shows "lists_ok N"
  unfolding lists_ok_def
proof
  fix k
  have m: "map unplace (ChildList (pool k N)) = map unplace (ChildList (pool k M))"
    using assms with_aperture_children by (simp add: apertures_of_def)
  have s: "sorted_nodes (ChildList (pool k M))" "\<forall>n \<in> set (ChildList (pool k M)). Q k n"
    using assms by (auto simp: apertures_of_def lists_ok_def)
  have "sorted_nodes (ChildList (pool k N))" using m s(1) sorted_map_unplace by metis
  moreover have "\<forall>n \<in> set (ChildList (pool k N)). Q k n"
  proof
    fix n assume "n \<in> set (ChildList (pool k N))"
    then have "n \<in> set (ChildList (with_aperture p (pool k M)))" using assms by (simp add: apertures_of_def)
    then show "Q k n" using with_aperture_member s(2) offset by metis
  qed
  ultimately show "sorted_nodes (ChildList (pool k N)) \<and> (\<forall>n \<in> set (ChildList (pool k N)). Q k n)" ..
qed

lemma apertures_calculated:
  assumes "lists_ok M" "typed_roots M" "determine_policy e (Policy s) = p"
    and "calculate_apertures e M s = (N', s')"
  shows "apertures_of M N' \<and> determine_policy e (Policy s') = p"
  using assms calculate_apertures_pool [OF assms(4,2)] by (simp add: apertures_of_def)

text \<open>The windows of a bridge below are inserted with the invariant.\<close>

lemma lists_ok_insert_bridge:
  assumes "ok_dev d" "lists_ok N" "apertures_of M B" "roots M = roots (bridge_nodes d)"
  shows "lists_ok (insert_bridge N B)"
  unfolding lists_ok_def
proof
  fix k
  have N: "sorted_nodes (ChildList (pool k N))" "\<forall>n \<in> set (ChildList (pool k N)). Q k n"
    using assms(2) by (auto simp: lists_ok_def)
  have M: "sorted_nodes (ChildList (pool k M))" "\<forall>n \<in> set (ChildList (pool k M)). Q k n"
    and B: "pool k B = with_aperture p (pool k M)"
    using assms(3) by (auto simp: apertures_of_def lists_ok_def)
  have r: "set_children (ChildList (pool k M)) (pool k (bridge_nodes d)) = pool k M"
    using fun_cong [OF assms(4), of k] by (intro same_root) (simp add: roots_def)
  show "sorted_nodes (ChildList (pool k (insert_bridge N B))) \<and>
      (\<forall>n \<in> set (ChildList (pool k (insert_bridge N B))). Q k n)"
  proof (cases "ChildList (pool k M) = []")
    case True
    then have "pool k B = with_aperture p (set_children [] (pool k (bridge_nodes d)))" using r B by simp
    then have "\<not> ResourceRequestExisted (pool k B)"
      by (simp add: ResourceRequestExisted_def empty_window)
    then show ?thesis using N by (simp add: insert_existing_def)
  next
    case False
    then have "Q k (pool k B)" using window [OF assms(1) M False] r B by simp
    then show ?thesis using N by (auto simp: insert_existing_def sorted_insert_node)
  qed
qed

theorem map_keeps:
  "CreateResourceMap e t N s = (N', s') \<Longrightarrow> \<forall>d \<in> set (all_devs t). ok_dev d \<Longrightarrow> lists_ok N \<Longrightarrow> typed_roots N \<Longrightarrow>
     determine_policy e (Policy s) = p \<Longrightarrow>
     (\<exists>M. apertures_of M N' \<and> roots M = roots N) \<and> determine_policy e (Policy s') = p"
  "map_devices e ts N s = (N', s') \<Longrightarrow> \<forall>t \<in> set ts. \<forall>d \<in> set (all_devs t). ok_dev d \<Longrightarrow> lists_ok N \<Longrightarrow> typed_roots N \<Longrightarrow>
     determine_policy e (Policy s) = p \<Longrightarrow>
     lists_ok N' \<and> roots N' = roots N \<and> determine_policy e (Policy s') = p"
proof (induction e t N s and e ts N s arbitrary: N' s' and N' s' rule: CreateResourceMap_map_devices.induct)
  case (1 e d ts N s)
  obtain N1 s1 where 1: "map_devices e ts N s = (N1, s1)" by fastforce
  let ?M = "DegradeResource e d (map dev ts) (ResourcePaddingPolicy d N1)"
  have c: "calculate_apertures e ?M s1 = (N', s')" using "1.prems"(1) 1 by simp
  have h: "lists_ok N1" "roots N1 = roots N" "determine_policy e (Policy s1) = p" "ok_dev d"
    using "1.IH" [OF 1] "1.prems" by auto
  then have M: "lists_ok ?M" "roots ?M = roots N" by (simp_all add: lists_ok_operations)
  then have "typed_roots ?M" using "1.prems"(4) by (simp add: typed_roots_def)
  then show ?case using apertures_calculated [OF M(1) _ h(3) c] M(2) by blast
next
  case (2 e N s)
  then show ?case by simp
next
  case (3 e t ts N s)
  let ?d = "dev t"
  obtain N1 s1 where 1: "GetResourceFromDevice ?d N s = (N1, s1)" by fastforce
  have d: "ok_dev ?d" using "3.prems"(2) dev_all_devs by auto
  have N1: "lists_ok N1" "roots N1 = roots N" "Policy s1 = Policy s"
    using lists_ok_operations(1) [OF d "3.prems"(3), of s] roots_operations(1) [of ?d N s]
      Policy_device [of ?d N s] by (simp_all add: 1)
  obtain N2 s2 where 2: "(if IS_PCI_BRIDGE ?d
            then (case CreateResourceMap e t (bridge_nodes ?d) s1 of (B, s) \<Rightarrow> (insert_bridge N1 B, s))
            else (N1, s1)) = (N2, s2)" by fastforce
  have N2: "lists_ok N2 \<and> roots N2 = roots N \<and> determine_policy e (Policy s2) = p"
  proof (cases "IS_PCI_BRIDGE ?d")
    case True
    obtain B s3 where B: "CreateResourceMap e t (bridge_nodes ?d) s1 = (B, s3)" by fastforce
    have "lists_ok (bridge_nodes ?d)"
      by (auto simp: lists_ok_def all_pools bridge_nodes_def CreateResourceNode_def)
    then obtain M where "apertures_of M B" "roots M = roots (bridge_nodes ?d)" "determine_policy e (Policy s3) = p"
      using "3.IH"(1) [OF 1 [symmetric] True B] "3.prems"(2,5) N1(3) by auto
    then show ?thesis
      using 2 True B lists_ok_insert_bridge [OF d N1(1)] N1(2) by auto
  next
    case False
    then show ?thesis using 2 N1 "3.prems"(5) by auto
  qed
  let ?N3 = "if IS_CARDBUS_BRIDGE ?d then ResourcePaddingForCardBusBridge ?d N2 else N2"
  have N3: "lists_ok ?N3" "roots ?N3 = roots N"
    using N2 lists_ok_operations(3) [OF d] by auto
  then have t3: "typed_roots ?N3" using "3.prems"(4) by (simp add: typed_roots_def)
  have m: "map_devices e ts ?N3 s2 = (N', s')" using "3.prems"(1) 1 2 by simp
  have "\<forall>t \<in> set ts. \<forall>d \<in> set (all_devs t). ok_dev d" using "3.prems"(2) by simp
  then show ?case
    using "3.IH"(2) [OF 1 [symmetric] 2 [symmetric] m] N3 t3 N2 by simp
qed

end

end
