(* ===== verification/PciLayout.thy ===== *)
theory PciLayout
  imports PciTrees
begin

text \<open>
  What \<open>CreateResourceMap\<close> guarantees: every BAR is requested once, from the tree that decodes
  its type, and the windows and BARs of a tree are laid out without overlap at their alignment.
\<close>

section \<open>The BARs of a resource tree\<close>

text \<open>The nodes that are BARs: those that are not padding and have no nodes below them.\<close>

fun leaves :: "PCI_RESOURCE_NODE \<Rightarrow> resource list" where
  "leaves (Node r cs) = (if ResourceUsage r = PciResUsagePadding then []
     else if cs = [] then [r] else concat (map leaves cs))"

lemma leaves_Create [simp]:
  "leaves (CreateResourceNode d l a i ty PciResUsagePadding) = []"
  "leaves (CreateResourceNode d l a i ty PciResUsageTypical) =
     [res (CreateResourceNode d l a i ty PciResUsageTypical)]"
  "leaves (CreateVfResourceNode d l a i ty PciResUsageTypical) =
     [res (CreateVfResourceNode d l a i ty PciResUsageTypical)]"
  by (simp_all add: CreateResourceNode_def CreateVfResourceNode_def)

text \<open>What identifies a BAR and what it asks for.\<close>

definition key :: "resource \<Rightarrow> PCI_IO_DEVICE \<times> bool \<times> u8 \<times> u64 \<times> u64" where
  "key r = (PciDev r, Virtual r, Bar r, Length r, Alignment r)"

definition node_keys :: "PCI_RESOURCE_NODE \<Rightarrow> (PCI_IO_DEVICE \<times> bool \<times> u8 \<times> u64 \<times> u64) list" where
  "node_keys n = map key (leaves n)"

lemma node_keys_upd:
  assumes "\<And>r. key (f r) = key r" "\<And>r. ResourceUsage (f r) = ResourceUsage r"
  shows "node_keys (upd f n) = node_keys n"
  using assms by (cases n) (auto simp: node_keys_def)

lemma node_keys_simps [simp]:
  "node_keys (unplace n) = node_keys n" "node_keys (retype Ty n) = node_keys n"
  by (auto simp: unplace_def retype_def key_def split: option.splits intro!: node_keys_upd)

lemma node_keys_children:
  assumes "map unplace ns = map unplace ms"
  shows "map node_keys ns = map node_keys ms"
proof -
  have "map (node_keys \<circ> unplace) ns = map (node_keys \<circ> unplace) ms"
    using assms by (metis map_map)
  then show ?thesis by (simp add: o_def)
qed

lemma node_keys_window:
  "\<not> padding n \<Longrightarrow> ChildList n \<noteq> [] \<Longrightarrow> node_keys n = concat (map node_keys (ChildList n))"
  by (cases n) (simp add: node_keys_def [abs_def] map_concat o_def)

lemma node_keys_aperture:
  assumes "\<not> padding b" "ChildList b \<noteq> []"
  shows "node_keys (with_aperture p b) = node_keys b"
proof -
  have m: "map unplace (ChildList (with_aperture p b)) = map unplace (ChildList b)"
    by (rule with_aperture_children)
  then have "ChildList (with_aperture p b) \<noteq> []" using assms(2) by auto
  then show ?thesis
    using assms node_keys_children [OF m] by (simp add: node_keys_window)
qed

section \<open>Every BAR stays in a tree for its type\<close>

text \<open>The type of BAR that a node was requested for.\<close>

definition bar_of :: "resource \<Rightarrow> PCI_BAR" where
  "bar_of r = (if Virtual r then VfPciBar (PciDev r) else PciBar (PciDev r)) ! unat (Bar r)"

text \<open>A BAR with 32 address bits is not served from above 4 GB, and one that is not
  prefetchable not from a prefetchable window.\<close>

fun serves :: "pool_id \<Rightarrow> PCI_BAR_TYPE set" where
  "serves PoolIo = {PciBarTypeIo16, PciBarTypeIo32}"
| "serves PoolMem32 = {PciBarTypeMem32, PciBarTypePMem32, PciBarTypeMem64, PciBarTypePMem64}"
| "serves PoolPMem32 = {PciBarTypePMem32, PciBarTypePMem64}"
| "serves PoolMem64 = {PciBarTypeMem64, PciBarTypePMem64}"
| "serves PoolPMem64 = {PciBarTypePMem64}"

definition keyed_bar :: "PCI_IO_DEVICE \<times> bool \<times> u8 \<times> u64 \<times> u64 \<Rightarrow> PCI_BAR" where
  "keyed_bar x = (case x of (d, v, i, _) \<Rightarrow> (if v then VfPciBar d else PciBar d) ! unat i)"

lemma bar_of_key: "bar_of r = keyed_bar (key r)"
  by (simp add: bar_of_def keyed_bar_def key_def)

definition served_node :: "pool_id \<Rightarrow> PCI_RESOURCE_NODE \<Rightarrow> bool" where
  "served_node k n \<longleftrightarrow> (\<forall>x \<in> set (node_keys n). BarType (keyed_bar x) \<in> serves k)"

lemma bars_nth:
  assumes "(i, b) \<in> set (bars bs)"
  shows "bs ! unat (of_nat i :: u8) = b"
proof -
  have "i < 6" "bs ! i = b" using assms by (auto simp: bars_def set_zip PCI_MAX_BAR_def)
  moreover have "unat (of_nat i :: u8) = i" using \<open>i < 6\<close> by (simp add: unat_of_nat)
  ultimately show ?thesis by simp
qed

lemma pool_of_serves: "pool_of ty = Some k \<Longrightarrow> ty \<in> serves k"
  by (cases ty) auto

lemma vf_pool_of_serves: "vf_pool_of ty = Some k \<Longrightarrow> ty \<in> serves k"
  using pool_of_serves [of ty k] by (auto simp: vf_pool_of_def split: option.splits pool_id.splits)

lemma flows_serves: "flows j k \<Longrightarrow> serves j \<subseteq> serves k"
  by (cases j; cases k) auto

lemma window_not_padding [simp]: "\<not> padding (pool k (bridge_nodes d))"
  by (cases k) (simp_all add: bridge_nodes_def CreateResourceNode_def)

interpretation served: node_invariant served_node "\<lambda>_. True" p for p
proof
  fix d k n
  show "requested d k n \<Longrightarrow> served_node k n"
    by (induction rule: requested.induct)
      (auto simp: served_node_def node_keys_def CreateResourceNode_def CreateVfResourceNode_def key_def
        keyed_bar_def bars_nth pool_of_serves vf_pool_of_serves)
next
  fix j k n
  show "served_node j n \<Longrightarrow> flows j k \<Longrightarrow> served_node k n"
    using flows_serves by (auto simp: served_node_def)
next
  fix d ns k
  show "\<forall>n \<in> set ns. served_node k n \<Longrightarrow> ns \<noteq> [] \<Longrightarrow>
      served_node k (with_aperture p (set_children ns (pool k (bridge_nodes d))))"
    by (auto simp: served_node_def node_keys_aperture) (auto simp: node_keys_window)
next
  fix k n x
  show "served_node k n \<Longrightarrow> served_node k (upd (\<lambda>r. r\<lparr> Offset := x \<rparr>) n)"
    by (simp add: served_node_def node_keys_upd key_def)
qed (auto simp: served_node_def)

text \<open>The nodes that a bridge starts with have no nodes below them.\<close>

definition fresh :: "res_nodes \<Rightarrow> bool" where
  "fresh N \<longleftrightarrow> typed_roots N \<and> (\<forall>k. ChildList (pool k N) = [] \<and> len (pool k N) = 0 \<and> \<not> padding (pool k N))"

lemma fresh_bridge_nodes: "fresh (bridge_nodes d)"
  by (simp add: fresh_def) (simp add: all_pools bridge_nodes_def CreateResourceNode_def)

lemma map_serves:
  assumes m: "CreateResourceMap e t N s = (N', s')" and N: "fresh N"
    and n: "n \<in> set (ChildList (pool k N'))" and r: "r \<in> set (leaves n)"
  shows "BarType (bar_of r) \<in> serves k"
proof -
  have "served.lists_ok N" using N by (simp add: served.lists_ok_def fresh_def)
  then obtain M where M: "served.apertures_of (determine_policy e (Policy s)) M N'"
    using served.map_keeps(1) [OF m] N by (auto simp: fresh_def)
  have "served.lists_ok N'" by (rule served.lists_ok_apertures [OF M])
  then have "served_node k n" using n by (auto simp: served.lists_ok_def)
  then show ?thesis using r by (simp add: served_node_def node_keys_def bar_of_key)
qed


section \<open>The layout of a tree\<close>

text \<open>All alignments are masks, and padding is not placed and has no nodes below it; windows and BARs lie in their bridge at multiples of their
  alignment, and the bridge has at least the alignment of everything in it.\<close>

fun masks :: "PCI_RESOURCE_NODE \<Rightarrow> bool" where
  "masks (Node r cs) \<longleftrightarrow> low_mask (Alignment r) \<and>
     (ResourceUsage r = PciResUsagePadding \<longrightarrow> Offset r = 0 \<and> cs = []) \<and> (\<forall>c \<in> set cs. masks c)"

fun laid_tree :: "PCI_RESOURCE_NODE \<Rightarrow> bool" where
  "laid_tree (Node r cs) \<longleftrightarrow> (cs \<noteq> [] \<longrightarrow> laid 0 cs (unat (Length r))) \<and>
     (\<forall>c \<in> set cs. align c \<le> Alignment r \<and> laid_tree c)"

text \<open>What a tree asks for at most, from the lengths of its BARs and the alignments.\<close>

fun weight :: "io_policy \<Rightarrow> PCI_RESOURCE_NODE \<Rightarrow> nat" where
  "weight p (Node r cs) = (if cs = [] then unat (Alignment r) + unat (Length r)
     else 2 * unat (Alignment r) + (\<Sum>c \<leftarrow> cs. weight p c)) + alias_slack p (Node r cs)"

definition cost :: "io_policy \<Rightarrow> PCI_RESOURCE_NODE \<Rightarrow> nat" where
  "cost p n = unat (align n) + alias_slack p n + unat (len n)"

definition lay_ok :: "io_policy \<Rightarrow> pool_id \<Rightarrow> PCI_RESOURCE_NODE \<Rightarrow> bool" where
  "lay_ok p k n \<longleftrightarrow> masks n \<and> (\<not> vga_only p \<longrightarrow> weight p n < 2 ^ 64 \<longrightarrow> laid_tree n \<and> cost p n \<le> weight p n)"

lemma lay_ok_upd:
  assumes "\<And>r. Alignment (f r) = Alignment r" "\<And>r. Length (f r) = Length r"
    "\<And>r. ResourceUsage (f r) = ResourceUsage r" "\<And>r. Offset (f r) = Offset r"
  shows "lay_ok p k (upd f n) = lay_ok p k n"
  using assms by (cases n) (auto simp: lay_ok_def cost_def alias_slack_def)

definition dev_masks :: "PCI_IO_DEVICE \<Rightarrow> bool" where
  "dev_masks d \<longleftrightarrow> (\<forall>b \<in> set (PciBar d) \<union> set (VfPciBar d). low_mask (BarAlignment b)) \<and>
     low_mask (ucast (BridgeIoAlignment d)) \<and>
     (\<forall>x \<in> set (case ResourcePaddingDescriptors d of None \<Rightarrow> [] | Some ps \<Rightarrow> ps). low_mask (AddrRangeMax x))"

lemma masks_align: "masks n \<Longrightarrow> low_mask (align n)"
  by (cases n) simp

lemma room_cost: "room (slack_of p ty) ns \<le> (\<Sum>n \<leftarrow> ns. cost p n)"
proof (induction ns)
  case (Cons n ns)
  have "slack_of p ty n \<le> alias_slack p n" by (simp add: slack_of_def)
  then show ?case using Cons by (simp add: cost_def)
qed simp

lemma cost_upd:
  assumes "\<And>r. Alignment (f r) = Alignment r" "\<And>r. Length (f r) = Length r"
  shows "cost p (upd f n) = cost p n"
  using assms by (cases n) (auto simp: cost_def alias_slack_def)

text \<open>The padding that the loop returns is the length of a node, or what it started from.\<close>

lemma place_nodes_padding:
  "place_nodes skip ns a q = (ns', a', q') \<Longrightarrow> unat q' \<le> unat q \<or> unat q' \<le> (\<Sum>n \<leftarrow> ns. cost p n)"
proof (induction ns arbitrary: a q ns' a' q')
  case (Cons n ns)
  show ?case
  proof (cases "padding n")
    case True
    then obtain ns1 where "place_nodes skip ns a (len n) = (ns1, a', q')"
      using Cons.prems by (auto split: prod.splits)
    then have "unat q' \<le> unat (len n) \<or> unat q' \<le> (\<Sum>n \<leftarrow> ns. cost p n)" by (rule Cons.IH)
    then show ?thesis by (auto simp: cost_def)
  next
    case False
    then obtain a1 ns1 where "place_nodes skip ns a1 q = (ns1, a', q')"
      using Cons.prems by (auto simp: Let_def split: prod.splits)
    then have "unat q' \<le> unat q \<or> unat q' \<le> (\<Sum>n \<leftarrow> ns. cost p n)" by (rule Cons.IH)
    then show ?thesis by auto
  qed
qed auto

text \<open>The length of a new window is bounded by what its nodes cost.\<close>

lemma with_aperture_len:
  assumes "\<not> vga_only p" "low_mask (align b)" "mask_nodes (ChildList b)" "len b = 0"
    and fits: "(\<Sum>n \<leftarrow> ChildList b. cost p n) + unat (align b) < 2 ^ 64"
  shows "unat (len (with_aperture p b)) \<le> (\<Sum>n \<leftarrow> ChildList b. cost p n) + unat (align b)"
proof -
  obtain ns a q where r: "place_nodes (skip_of p (ResType (res b))) (ChildList b) 0 0 = (ns, a, q)"
    by (metis prod_cases3)
  have le: "room (slack_of p (ResType (res b))) (ChildList b) \<le> (\<Sum>n \<leftarrow> ChildList b. cost p n)"
    by (rule room_cost)
  then have a: "unat a \<le> (\<Sum>n \<leftarrow> ChildList b. cost p n)"
    using skip_of_laid [OF assms(1,3) _ r] fits by simp
  have "unat (align_up a (align b)) \<le> unat a + unat (align b)"
    using a fits by (intro align_up_le assms(2)) simp
  moreover have "unat q \<le> (\<Sum>n \<leftarrow> ChildList b. cost p n)"
    using place_nodes_padding [OF r, of p] by auto
  moreover have "unat (max x y) = max (unat x) (unat y)" for x y :: u64
    by (simp add: max_def word_le_nat_alt)
  ultimately show ?thesis
    using a assms(4) by (auto simp: with_aperture_def r finish_aperture_def Let_def)
qed


lemma weight_children:
  "ChildList n \<noteq> [] \<Longrightarrow>
     weight p n = 2 * unat (align n) + (\<Sum>c \<leftarrow> ChildList n. weight p c) + alias_slack p n"
  by (cases n) simp

lemma laid_tree_children:
  "laid_tree n \<longleftrightarrow> (ChildList n \<noteq> [] \<longrightarrow> laid 0 (ChildList n) (unat (len n))) \<and>
     (\<forall>c \<in> set (ChildList n). align c \<le> align n \<and> laid_tree c)"
  by (cases n) simp

lemma masks_children: "masks n \<longleftrightarrow> low_mask (align n) \<and> (padding n \<longrightarrow> off n = 0 \<and> ChildList n = []) \<and>
     (\<forall>c \<in> set (ChildList n). masks c)"
  by (cases n) simp

lemma sum_list_member_le: "x \<in> set xs \<Longrightarrow> f x \<le> (\<Sum>y \<leftarrow> xs. f y :: nat)"
  by (induction xs) auto

lemma unplaced_props:
  assumes "map unplace ns = map unplace ms"
  shows "map (cost p) ns = map (cost p) ms" "map (weight p) ns = map (weight p) ms"
    "map laid_tree ns = map laid_tree ms"
proof -
  have g: "map h ns = map h ms" if "\<And>n. h (unplace n) = h n" for h :: "PCI_RESOURCE_NODE \<Rightarrow> 'a"
    using arg_cong [OF assms, of "map h"] that by (simp add: o_def)
  have w: "weight p (unplace n) = weight p n" 
    "laid_tree (unplace n) = laid_tree n" for n
    by (cases n; simp add: unplace_def alias_slack_def)+
  have "cost p (unplace n) = cost p n" for n
    unfolding unplace_def by (rule cost_upd) simp_all
  then show "map (cost p) ns = map (cost p) ms" "map (weight p) ns = map (weight p) ms"
    "map laid_tree ns = map laid_tree ms"
    by (intro g; simp add: w)+
qed

lemma masks_upd: "masks n \<Longrightarrow> \<not> padding n \<Longrightarrow> masks (upd (\<lambda>r. r\<lparr> Offset := x \<rparr>) n)"
  by (cases n) simp

text \<open>A bridge whose nodes are laid out is laid out once its aperture is known.\<close>

lemma lay_window:
  assumes ns: "sorted_nodes (ChildList b)" "\<forall>n \<in> set (ChildList b). lay_ok p k n" "ChildList b \<noteq> []"
    and b: "low_mask (align b)" "len b = 0" "\<not> padding b"
  shows "lay_ok p k (with_aperture p b)"
proof -
  let ?w = "with_aperture p b"
  have m: "map unplace (ChildList ?w) = map unplace (ChildList b)" by (rule with_aperture_children)
  note same = unplaced_props [OF m]
  have ne: "ChildList ?w \<noteq> []" using m ns(3) by auto
  have mk: "\<forall>n \<in> set (ChildList b). masks n" using ns(2) by (auto simp: lay_ok_def)
  then have mw: "\<forall>n \<in> set (ChildList ?w). masks n"
    using with_aperture_member [of _ p b] masks_upd by metis
  have al: "align ?w = align b \<or> (\<exists>n \<in> set (ChildList ?w). align ?w = align n)"
    by (auto simp: with_aperture_def first_alignment_def split: prod.splits list.splits)
  have la: "low_mask (align ?w)"
  proof (cases "align ?w = align b")
    case False
    then show ?thesis using al mw masks_align by metis
  qed (simp add: b(1))
  have "masks ?w"
    unfolding masks_children [of ?w] using mw la b(3) by simp
  moreover have "laid_tree ?w \<and> cost p ?w \<le> weight p ?w"
    if v: "\<not> vga_only p" and f: "weight p ?w < 2 ^ 64"
  proof -
    have w: "weight p ?w = 2 * unat (align ?w) + (\<Sum>c \<leftarrow> ChildList b. weight p c) + alias_slack p ?w"
      by (simp only: weight_children [OF ne] same(2))
    have c: "cost p n \<le> weight p n \<and> laid_tree n" if "n \<in> set (ChildList b)" for n
      using ns(2) that v f sum_list_member_le [OF that, of "weight p"] by (auto simp: lay_ok_def w)
    have sum: "(\<Sum>n \<leftarrow> ChildList b. cost p n) \<le> (\<Sum>n \<leftarrow> ChildList b. weight p n)"
      by (rule sum_list_mono) (use c in auto)
    have ab: "unat (align b) \<le> unat (align ?w)"
      by (auto simp: with_aperture_def first_alignment_def word_le_nat_alt [symmetric] not_less
          split: prod.splits list.splits)
    have fits: "(\<Sum>n \<leftarrow> ChildList b. cost p n) + unat (align b) < 2 ^ 64"
      using f sum ab by (simp add: w)
    have mn: "mask_nodes (ChildList b)" using mk by (auto simp: mask_nodes_def masks_align)
    have "aperture_fits p b"
      using b(1) mn fits room_cost [of p "ResType (res b)" "ChildList b"] by (simp add: aperture_fits_def)
    then have l: "laid 0 (ChildList ?w) (unat (len ?w))" by (rule with_aperture_laid [OF v])
    have "\<forall>n \<in> set (ChildList ?w). laid_tree n"
      using c same(3) by (metis (no_types) image_eqI image_set in_set_conv_nth length_map nth_map)
    then have "laid_tree ?w"
      using l with_aperture_align [OF ns(1)] unfolding laid_tree_children [of ?w] by blast
    moreover have "cost p ?w \<le> weight p ?w"
      using with_aperture_len [OF v b(1) mn b(2) fits] sum ab by (simp add: cost_def w)
    ultimately show ?thesis ..
  qed
  ultimately show ?thesis by (auto simp: lay_ok_def)
qed

lemma lay_leaf:
  "low_mask (align n) \<Longrightarrow> ChildList n = [] \<Longrightarrow> off n = 0 \<Longrightarrow> lay_ok p k n"
  by (cases n) (auto simp: lay_ok_def cost_def)

lemma requested_leaf: "requested d k n \<Longrightarrow> dev_masks d \<Longrightarrow> low_mask (align n) \<and> ChildList n = [] \<and> off n = 0"
proof (induction rule: requested.induct)
  case (bar i b k)
  then show ?case by (auto simp: CreateResourceNode_def dev_masks_def bars_def dest: set_zip_rightD)
next
  case (vf_bar i b k)
  then show ?case
    by (auto simp: CreateResourceNode_def CreateVfResourceNode_def dev_masks_def bars_def dest: set_zip_rightD)
next
  case (padding ps x k)
  then show ?case by (auto simp: CreateResourceNode_def dev_masks_def)
next
  case (cardbus_io k i)
  then show ?case using low_mask_mask [of 8] by (simp add: CreateResourceNode_def mask_numeral)
next
  case (cardbus_mem k i)
  then show ?case using low_mask_mask [of 25] by (simp add: CreateResourceNode_def mask_numeral)
qed

lemma low_mask_window: "dev_masks d \<Longrightarrow> low_mask (align (pool k (bridge_nodes d)))"
  using low_mask_mask [of 20] by (cases k) (simp_all add: bridge_nodes_def CreateResourceNode_def dev_masks_def mask_numeral)

interpretation lay: node_invariant "lay_ok p" dev_masks p for p
proof
  fix d k n
  show "dev_masks d \<Longrightarrow> requested d k n \<Longrightarrow> lay_ok p k n"
    using requested_leaf lay_leaf by blast
next
  fix d ns k
  show "dev_masks d \<Longrightarrow> sorted_nodes ns \<Longrightarrow> \<forall>n \<in> set ns. lay_ok p k n \<Longrightarrow> ns \<noteq> [] \<Longrightarrow>
      lay_ok p k (with_aperture p (set_children ns (pool k (bridge_nodes d))))"
    by (rule lay_window) (simp_all add: low_mask_window)
next
  fix k Ty n
  show "lay_ok p k (retype Ty n) = lay_ok p k n"
    unfolding retype_def by (cases Ty) (simp_all add: lay_ok_upd)
next
  fix k n x
  show "lay_ok p k n \<Longrightarrow> \<not> padding n \<Longrightarrow> lay_ok p k (upd (\<lambda>r. r\<lparr> Offset := x \<rparr>) n)"
    using masks_upd by (cases n) (auto simp: lay_ok_def cost_def alias_slack_def)
qed (auto simp: lay_ok_def)

text \<open>The tree of a list after the resource map.\<close>

lemma map_lays:
  assumes m: "CreateResourceMap e t N s = (N', s')" and N: "fresh N"
    and d: "\<forall>d \<in> set (all_devs t). dev_masks d" and a: "low_mask (align (pool k N))"
    and p: "p = determine_policy e (Policy s)" "\<not> vga_only p"
    and f: "weight p (pool k N') < 2 ^ 64"
  shows "masks (pool k N') \<and> laid_tree (pool k N')"
proof -
  have ok: "lay.lists_ok p N" using N by (simp add: lay.lists_ok_def fresh_def)
  obtain M where M: "lay.apertures_of p M N'" "roots M = roots N"
    using lay.map_keeps(1) [OF m d ok] N p(1) by (auto simp: fresh_def)
  have M': "sorted_nodes (ChildList (pool k M))" "\<forall>n \<in> set (ChildList (pool k M)). lay_ok p k n"
    and e: "pool k N' = with_aperture p (pool k M)"
    using M(1) by (auto simp: lay.apertures_of_def lay.lists_ok_def)
  have r: "align (pool k M) = align (pool k N)" "len (pool k M) = 0" "\<not> padding (pool k M)"
    using fun_cong [OF M(2), of k] N by (simp_all add: roots_def fresh_def)
  show ?thesis
  proof (cases "ChildList (pool k M) = []")
    case True
    then have "ChildList (pool k N') = []" using with_aperture_children [of p "pool k M"] e by simp
    moreover have "align (pool k N') = align (pool k N)"
      using True r by (auto simp: e with_aperture_def first_alignment_def)
    ultimately show ?thesis
      using a r(3) e masks_children [of "pool k N'"] laid_tree_children [of "pool k N'"] by simp
  next
    case False
    then have "lay_ok p k (pool k N')"
      unfolding e using a r(3) by (intro lay_window [OF M' False]) (simp_all add: r(1,2))
    then show ?thesis using p(2) f by (simp add: lay_ok_def)
  qed
qed

end
