(* ===== verification/PciConserve.thy ===== *)
theory PciConserve
  imports PciLayout
begin

text \<open>
  Conservation: the BARs and the padding in the five trees of \<open>CreateResourceMap\<close> are, with their
  multiplicities, those that the devices below the bridge and the padding descriptors request.
\<close>

section \<open>The requests in five trees\<close>

text \<open>A BAR, of a device or of its virtual functions, with index, length and alignment; or padding.\<close>

datatype pci_request = BarRequest PCI_IO_DEVICE bool u8 u64 u64 | PaddingRequest PCI_IO_DEVICE u8 u64 u64

definition resource_request :: "resource \<Rightarrow> pci_request" where
  "resource_request r = (if ResourceUsage r = PciResUsagePadding
     then PaddingRequest (PciDev r) (Bar r) (Length r) (Alignment r)
     else BarRequest (PciDev r) (Virtual r) (Bar r) (Length r) (Alignment r))"

text \<open>Windows stand for what is in them.\<close>

fun node_requests :: "PCI_RESOURCE_NODE \<Rightarrow> pci_request list" where
  "node_requests (Node r cs) =
     (if ResourceUsage r = PciResUsagePadding \<or> cs = [] then [resource_request r] else concat (map node_requests cs))"

lemma node_requests_simps [simp]:
  "node_requests (unplace n) = node_requests n" "node_requests (retype Ty n) = node_requests n"
  by (cases n; auto simp: unplace_def retype_def resource_request_def split: option.splits)+

lemma node_requests_children:
  assumes "map unplace ns = map unplace ms"
  shows "map node_requests ns = map node_requests ms"
proof -
  have "map (node_requests \<circ> unplace) ns = map (node_requests \<circ> unplace) ms" using assms by (metis map_map)
  then show ?thesis by (simp add: o_def)
qed

lemma node_requests_window:
  "\<not> padding n \<Longrightarrow> ChildList n \<noteq> [] \<Longrightarrow> node_requests n = concat (map node_requests (ChildList n))"
  by (cases n) simp

lemma node_requests_Create [simp]:
  "node_requests (CreateResourceNode d l a i ty PciResUsagePadding) = [PaddingRequest d i l a]"
  "node_requests (CreateResourceNode d l a i ty PciResUsageTypical) = [BarRequest d False i l a]"
  "node_requests (CreateVfResourceNode d l a i ty PciResUsageTypical) = [BarRequest d True i l a]"
  by (simp_all add: CreateResourceNode_def CreateVfResourceNode_def resource_request_def)

definition list_requests :: "PCI_RESOURCE_NODE list \<Rightarrow> pci_request multiset" where
  "list_requests ns = (\<Sum>n \<in># mset ns. mset (node_requests n))"

lemma list_requests_simps [simp]:
  "list_requests [] = {#}" "list_requests (n # ns) = mset (node_requests n) + list_requests ns"
  "list_requests (insert_node n ns) = mset (node_requests n) + list_requests ns"
  by (simp_all add: list_requests_def)

lemma list_requests_mset: "mset (concat (map node_requests ns)) = list_requests ns"
  by (induction ns) simp_all

lemma list_requests_merge [simp]:
  "list_requests (ChildList (merge_nodes Ty ns b)) = list_requests ns + list_requests (ChildList b)"
  by (simp add: list_requests_def image_mset.compositionality o_def)

lemma list_requests_filter: "list_requests (filter P ns) + list_requests (filter (\<lambda>n. \<not> P n) ns) = list_requests ns"
  by (induction ns) (auto simp: ac_simps)

lemma list_requests_aperture [simp]: "list_requests (ChildList (with_aperture p b)) = list_requests (ChildList b)"
proof -
  have "map node_requests (ChildList (with_aperture p b)) = map node_requests (ChildList b)"
    by (rule node_requests_children) (rule with_aperture_children)
  then show ?thesis by (simp flip: list_requests_mset)
qed

definition pool_requests :: "res_nodes \<Rightarrow> pci_request multiset" where
  "pool_requests N = list_requests (ChildList (IoNode N)) + list_requests (ChildList (Mem32Node N)) +
     list_requests (ChildList (PMem32Node N)) + list_requests (ChildList (Mem64Node N)) +
     list_requests (ChildList (PMem64Node N))"

lemma pool_requests_insert [simp]: "pool_requests (insert_pool k n N) = mset (node_requests n) + pool_requests N"
  by (cases k) (simp_all add: pool_requests_def insert_pool_def ac_simps)

lemma pool_requests_sum: "pool_requests N = (\<Sum>k \<in> {PoolIo, PoolMem32, PoolPMem32, PoolMem64, PoolPMem64}. list_requests (ChildList (pool k N)))"
  by (simp add: pool_requests_def ac_simps)

lemma pool_requests_moved:
  assumes "moved j k P Ty N N'"
  shows "pool_requests N' = pool_requests N"
proof -
  have m: "pool k N' = merge_nodes Ty (filter P (ChildList (pool j N))) (pool k N)"
    "pool j N' = set_children (filter (\<lambda>n. \<not> P n) (ChildList (pool j N))) (pool j N)"
    "\<And>i. i \<noteq> j \<Longrightarrow> i \<noteq> k \<Longrightarrow> pool i N' = pool i N" "j \<noteq> k" "flows j k"
    using assms by (auto simp: moved_def)
  define K where "K = {PoolIo, PoolMem32, PoolPMem32, PoolMem64, PoolPMem64}"
  have K: "finite K" "j \<in> K" "k \<in> K - {j}"
    using m(4) by (cases j; cases k; simp add: K_def)+
  let ?f = "\<lambda>N i. list_requests (ChildList (pool i N))"
  have split: "sum (?f M) K = ?f M j + (?f M k + sum (?f M) (K - {j} - {k}))" for M
    using K by (simp add: sum.remove [of K j] sum.remove [of "K - {j}" k])
  have "sum (?f N') (K - {j} - {k}) = sum (?f N) (K - {j} - {k})"
    by (rule sum.cong) (use m(3) in auto)
  moreover have "?f N' j + ?f N' k = ?f N j + ?f N k"
    by (simp add: m(1,2) flip: list_requests_filter [of P "ChildList (pool j N)"])
  ultimately show ?thesis unfolding pool_requests_sum split K_def [symmetric] by (simp flip: add.assoc)
qed

section \<open>The requests of devices\<close>

definition dev_requests :: "PCI_IO_DEVICE \<Rightarrow> pci_request list" where
  "dev_requests d =
     [BarRequest d False (of_nat i) (BarLength b) (BarAlignment b). (i, b) \<leftarrow> bars (PciBar d), pool_of (BarType b) \<noteq> None] @
     [BarRequest d True (of_nat i) (BarLength b) (BarAlignment b). (i, b) \<leftarrow> bars (VfPciBar d), vf_pool_of (BarType b) \<noteq> None]"

text \<open>The padding of a bridge: the address space descriptors before the end tag that ask for IO or for
  memory of 32 or 64 bits, prefetchable (6) or not (0), and the two memory and two IO windows of CardBus.\<close>

definition padding_requests :: "PCI_IO_DEVICE \<Rightarrow> pci_request list" where
  "padding_requests d = (case ResourcePaddingDescriptors d of None \<Rightarrow> [] | Some ps \<Rightarrow>
     [PaddingRequest d 0 (AddrLen p) (AddrRangeMax p). p \<leftarrow> takeWhile (\<lambda>p. Desc p \<noteq> 0x79) ps,
        Desc p = 0x8A \<and> AddrLen p \<noteq> 0 \<and> (DescResType p = 1 \<or>
          DescResType p = 0 \<and> (AddrSpaceGranularity p = 32 \<or> AddrSpaceGranularity p = 64) \<and>
          (SpecificFlag p = 0 \<or> SpecificFlag p = 6))])"

definition cardbus_requests :: "PCI_IO_DEVICE \<Rightarrow> pci_request list" where
  "cardbus_requests d = [PaddingRequest d 1 0x2000000 0x1FFFFFF, PaddingRequest d 2 0x2000000 0x1FFFFFF,
     PaddingRequest d 3 0x100 0xFF, PaddingRequest d 4 0x100 0xFF]"

text \<open>Every BAR and padding of the devices below, through the bridges.\<close>

fun tree_requests :: "pci_device \<Rightarrow> pci_request list" where
  "tree_requests (PciDevice d ts) = padding_requests d @
     concat (map (\<lambda>t. dev_requests (dev t) @ (if IS_PCI_BRIDGE (dev t) then tree_requests t else []) @
       (if IS_CARDBUS_BRIDGE (dev t) then cardbus_requests (dev t) else [])) ts)"

definition devices_requests :: "pci_device list \<Rightarrow> pci_request list" where
  "devices_requests ts =
     concat (map (\<lambda>t. dev_requests (dev t) @ (if IS_PCI_BRIDGE (dev t) then tree_requests t else []) @
       (if IS_CARDBUS_BRIDGE (dev t) then cardbus_requests (dev t) else [])) ts)"

lemma fold_adds:
  assumes "\<And>x N. x \<in> set xs \<Longrightarrow> pool_requests (f x N) = mset (g x) + pool_requests N"
  shows "pool_requests (fold f xs N) = mset (concat (map g xs)) + pool_requests N"
  using assms by (induction xs arbitrary: N) (auto simp: ac_simps)

lemma pool_requests_device:
  "pool_requests (fst (GetResourceFromDevice d N s)) = mset (dev_requests d) + pool_requests N"
proof -
  let ?g = "\<lambda>(i, b). if pool_of (BarType b) \<noteq> None then [BarRequest d False (of_nat i) (BarLength b) (BarAlignment b)] else []"
  let ?h = "\<lambda>(i, b). if vf_pool_of (BarType b) \<noteq> None then [BarRequest d True (of_nat i) (BarLength b) (BarAlignment b)] else []"
  have a: "pool_requests (fold (request_bar d) xs M) = mset (concat (map ?g xs)) + pool_requests M" for xs M
    by (rule fold_adds) (auto simp: request_bar_pool
        simp del: request_bar.simps split: option.splits)
  have b: "pool_requests (fold (request_vf_bar d) xs M) = mset (concat (map ?h xs)) + pool_requests M" for xs M
    by (rule fold_adds) (auto simp: request_vf_bar_pool simp del: request_vf_bar.simps split: option.splits)
  show ?thesis
    by (simp add: GetResourceFromDevice_def Let_def a b dev_requests_def ac_simps)
qed

lemma pad_descriptor_requests:
  "pool_requests (pad_descriptor d p M) = mset (if Desc p = 0x8A \<and> AddrLen p \<noteq> 0 \<and> (DescResType p = 1 \<or>
     DescResType p = 0 \<and> (AddrSpaceGranularity p = 32 \<or> AddrSpaceGranularity p = 64) \<and> (SpecificFlag p = 0 \<or> SpecificFlag p = 6))
     then [PaddingRequest d 0 (AddrLen p) (AddrRangeMax p)] else []) + pool_requests M"
  by (auto simp: pad_descriptor_def pool_requests_def regs Let_def)

lemma padding_added:
  "pool_requests (ResourcePaddingPolicy d N) = mset (padding_requests d) + pool_requests N"
  "pool_requests (ResourcePaddingForCardBusBridge d N) = mset (cardbus_requests d) + pool_requests N"
proof -
  show "pool_requests (ResourcePaddingPolicy d N) = mset (padding_requests d) + pool_requests N"
  proof (cases "ResourcePaddingDescriptors d")
    case (Some ps)
    have "pool_requests (fold (pad_descriptor d) xs N) = mset (concat (map (\<lambda>p. if Desc p = 0x8A \<and> AddrLen p \<noteq> 0 \<and> (DescResType p = 1 \<or>
       DescResType p = 0 \<and> (AddrSpaceGranularity p = 32 \<or> AddrSpaceGranularity p = 64) \<and> (SpecificFlag p = 0 \<or> SpecificFlag p = 6))
       then [PaddingRequest d 0 (AddrLen p) (AddrRangeMax p)] else []) xs)) + pool_requests N" for xs
      by (rule fold_adds) (rule pad_descriptor_requests)
    then show ?thesis
      by (simp add: Some ResourcePaddingPolicy_def ApplyResourcePadding_def padding_requests_def ACPI_END_TAG_DESCRIPTOR_def)
  qed (simp add: ResourcePaddingPolicy_def padding_requests_def)
  show "pool_requests (ResourcePaddingForCardBusBridge d N) = mset (cardbus_requests d) + pool_requests N"
    by (simp add: cardbus_pool cardbus_requests_def)
qed

lemma degrade_requests: "pool_requests (DegradeResource e b ds N) = pool_requests N"
  using DegradeResource_moves [of "\<lambda>M. pool_requests M = pool_requests N" N e b ds] by (simp add: pool_requests_moved)

lemma apertures_requests:
  assumes "calculate_apertures e N s = (N', s')" "typed_roots N"
  shows "pool_requests N' = pool_requests N"
  unfolding pool_requests_sum by (rule sum.cong) (simp_all add: calculate_apertures_pool(1) [OF assms])

lemma insert_existing_requests:
  assumes "\<not> padding w" "ChildList w = [] \<Longrightarrow> len w = 0"
  shows "list_requests (ChildList (insert_existing b w)) = list_requests (ChildList w) + list_requests (ChildList b)"
proof (cases "ChildList w = []")
  case False
  then have "mset (node_requests w) = list_requests (ChildList w)"
    using assms(1) by (simp add: node_requests_window list_requests_mset)
  then show ?thesis using False by (simp add: insert_existing_def ResourceRequestExisted_def)
qed (simp add: insert_existing_def ResourceRequestExisted_def assms(2))

text \<open>The windows of a bridge keep what is in them; a window that is dropped has none.\<close>

definition windows :: "res_nodes \<Rightarrow> bool" where
  "windows B \<longleftrightarrow> (\<forall>k. \<not> padding (pool k B) \<and> (ChildList (pool k B) = [] \<longrightarrow> len (pool k B) = 0))"

lemma insert_bridge_requests: "windows B \<Longrightarrow> pool_requests (insert_bridge N B) = pool_requests B + pool_requests N"
  by (simp add: pool_requests_def insert_bridge_def windows_def all_pools insert_existing_requests ac_simps)

lemma apertures_windows:
  assumes "calculate_apertures e M s = (N', s')" "typed_roots M" "roots M = roots N" "fresh N"
  shows "windows N'"
  unfolding windows_def
proof
  fix k
  have e: "pool k N' = with_aperture (determine_policy e (Policy s)) (pool k M)"
    by (rule calculate_apertures_pool(1) [OF assms(1,2)])
  have r: "res (pool k M) = res (pool k N)" using assms(3) by (simp add: roots_def fun_eq_iff)
  have "len (pool k N') = 0" if "ChildList (pool k N') = []"
  proof -
    have "ChildList (pool k M) = []"
      using that with_aperture_children [of "determine_policy e (Policy s)" "pool k M"] by (simp add: e)
    moreover have "len (pool k M) = 0" using r assms(4) by (simp add: fresh_def)
    ultimately show ?thesis
      using empty_window(2) [of "pool k M" "determine_policy e (Policy s)"] same_root [of "pool k M" "pool k M"]
      by (simp add: e)
  qed
  then show "\<not> padding (pool k N') \<and> (ChildList (pool k N') = [] \<longrightarrow> len (pool k N') = 0)"
    using r assms(4) by (simp add: e fresh_def)
qed

text \<open>The theorem, for the bridge and for a list of devices below it.\<close>

lemma map_conserves:
  "CreateResourceMap e t N s = (N', s') \<Longrightarrow> typed_roots N \<Longrightarrow>
     pool_requests N' = mset (tree_requests t) + pool_requests N \<and> (fresh N \<longrightarrow> windows N')"
  "map_devices e ts N s = (N', s') \<Longrightarrow> typed_roots N \<Longrightarrow>
     pool_requests N' = mset (devices_requests ts) + pool_requests N \<and> roots N' = roots N"
proof (induction e t N s and e ts N s arbitrary: N' s' and N' s' rule: CreateResourceMap_map_devices.induct)
  case (1 e d ts N s)
  obtain N1 s1 where 1: "map_devices e ts N s = (N1, s1)" by fastforce
  let ?M = "DegradeResource e d (map dev ts) (ResourcePaddingPolicy d N1)"
  have c: "calculate_apertures e ?M s1 = (N', s')" using "1.prems"(1) 1 by simp
  have h: "pool_requests N1 = mset (devices_requests ts) + pool_requests N" "roots N1 = roots N"
    using "1.IH" [OF 1] "1.prems" by auto
  then have r: "roots ?M = roots N" by simp
  then have t: "typed_roots ?M" using "1.prems"(2) by (simp add: typed_roots_def)
  have "pool_requests N' = mset (padding_requests d) + pool_requests N1"
    using apertures_requests [OF c t] by (simp add: degrade_requests padding_added)
  then show ?case using h apertures_windows [OF c t r] by (simp add: devices_requests_def ac_simps)
next
  case (2 e N s)
  then show ?case by (simp add: devices_requests_def)
next
  case (3 e t ts N s)
  let ?d = "dev t"
  obtain N1 s1 where 1: "GetResourceFromDevice ?d N s = (N1, s1)" by fastforce
  have N1: "pool_requests N1 = mset (dev_requests ?d) + pool_requests N" "roots N1 = roots N"
    using pool_requests_device [of ?d N s] roots_operations(1) [of ?d N s] by (simp_all add: 1)
  obtain N2 s2 where 2: "(if IS_PCI_BRIDGE ?d
            then (case CreateResourceMap e t (bridge_nodes ?d) s1 of (B, s) \<Rightarrow> (insert_bridge N1 B, s))
            else (N1, s1)) = (N2, s2)" by fastforce
  have N2: "pool_requests N2 = mset (if IS_PCI_BRIDGE ?d then tree_requests t else []) + pool_requests N1 \<and>
      roots N2 = roots N1"
  proof (cases "IS_PCI_BRIDGE ?d")
    case True
    obtain B s3 where B: "CreateResourceMap e t (bridge_nodes ?d) s1 = (B, s3)" by fastforce
    have "pool_requests (bridge_nodes ?d) = {#}"
      by (simp add: pool_requests_def bridge_nodes_def CreateResourceNode_def)
    then have "pool_requests B = mset (tree_requests t)" "windows B"
      using "3.IH"(1) [OF 1 [symmetric] True B] fresh_bridge_nodes [of ?d] by simp_all
    then show ?thesis using 2 True B insert_bridge_requests by auto
  next
    case False
    then show ?thesis using 2 by auto
  qed
  let ?N3 = "if IS_CARDBUS_BRIDGE ?d then ResourcePaddingForCardBusBridge ?d N2 else N2"
  have N3: "pool_requests ?N3 = mset (if IS_CARDBUS_BRIDGE ?d then cardbus_requests ?d else []) + pool_requests N2"
    "roots ?N3 = roots N2" by (simp_all add: padding_added)
  then have t3: "typed_roots ?N3" using "3.prems"(2) N1 N2 by (simp add: typed_roots_def)
  have m: "map_devices e ts ?N3 s2 = (N', s')" using "3.prems"(1) 1 2 by simp
  show ?case
    using "3.IH"(2) [OF 1 [symmetric] 2 [symmetric] m t3] N3 N2 N1
    by (simp add: devices_requests_def ac_simps)
qed

end
