(* ===== verification/PciProgram.thy ===== *)
theory PciProgram
  imports PciLayout
begin

text \<open>
  Programming the resources, PciResourceSupport.c: \<open>ProgramResource\<close> walks a resource tree from
  the base address that the host bridge gave and writes the BARs of devices and of virtual functions
  and the windows of PCI-PCI and CardBus bridges.
\<close>

section \<open>The state\<close>

text \<open>The writes to configuration space, in their order: the device, the register, the width in
  bytes and the value; the devices by their identity; and the devices marked as allocated.\<close>

record prog_state =
  Config :: "(nat \<times> u32 \<times> nat \<times> u32) list"
  Device :: "nat \<Rightarrow> PCI_IO_DEVICE"
  Marked :: "nat set"

definition pci_write :: "nat \<Rightarrow> u32 \<Rightarrow> nat \<Rightarrow> u32 \<Rightarrow> prog_state \<Rightarrow> prog_state" where
  "pci_write i Reg Width v s = s\<lparr> Config := Config s @ [(i, Reg, Width, v)] \<rparr>"

definition mark :: "nat \<Rightarrow> prog_state \<Rightarrow> prog_state" where
  "mark i s = s\<lparr> Marked := insert i (Marked s) \<rparr>"

definition set_bar :: "nat \<Rightarrow> nat \<Rightarrow> (PCI_BAR \<Rightarrow> PCI_BAR) \<Rightarrow> prog_state \<Rightarrow> prog_state" where
  "set_bar i k f s = s\<lparr> Device := (Device s)(i := (Device s i)
     \<lparr> PciBar := (PciBar (Device s i))[k := f (PciBar (Device s i) ! k)] \<rparr>) \<rparr>"

definition set_vf_bar :: "nat \<Rightarrow> nat \<Rightarrow> (PCI_BAR \<Rightarrow> PCI_BAR) \<Rightarrow> prog_state \<Rightarrow> prog_state" where
  "set_vf_bar i k f s = s\<lparr> Device := (Device s)(i := (Device s i)
     \<lparr> VfPciBar := (VfPciBar (Device s i))[k := f (VfPciBar (Device s i) ! k)] \<rparr>) \<rparr>"

abbreviation dev_id :: "PCI_RESOURCE_NODE \<Rightarrow> nat" where "dev_id n \<equiv> Identity (PciDev (res n))"

text \<open>The two halves of an address.\<close>

definition low32 :: "u64 \<Rightarrow> u32" where "low32 a = ucast a"
definition high32 :: "u64 \<Rightarrow> u32" where "high32 a = ucast (drop_bit 32 a)"

section \<open>The BARs\<close>

definition ProgramVfBar :: "u64 \<Rightarrow> PCI_RESOURCE_NODE \<Rightarrow> prog_state \<Rightarrow> prog_state" where
  "ProgramVfBar Base n s =
     (let i = dev_id n; k = unat (Bar (res n)); Address = Base + off n;
          s = mark i s; b = VfPciBar (Device s i) ! k;
          base = set_vf_bar i k (\<lambda>b. b\<lparr> BaseAddress := Address \<rparr>) in
      case BarType b of
        PciBarTypeMem32 \<Rightarrow> base (pci_write i (ucast (BarOffset b)) 4 (low32 Address) s)
      | PciBarTypePMem32 \<Rightarrow> base (pci_write i (ucast (BarOffset b)) 4 (low32 Address) s)
      | PciBarTypeMem64 \<Rightarrow> base (pci_write i (ucast (BarOffset b) + 4) 4 (high32 Address)
          (pci_write i (ucast (BarOffset b)) 4 (low32 Address) s))
      | PciBarTypePMem64 \<Rightarrow> base (pci_write i (ucast (BarOffset b) + 4) 4 (high32 Address)
          (pci_write i (ucast (BarOffset b)) 4 (low32 Address) s))
      | _ \<Rightarrow> s)"

text \<open>The register of the high half of a 64 bit BAR of a device is computed in eight bits.\<close>

definition high_bar :: "u16 \<Rightarrow> u32" where
  "high_bar Off = ucast (ucast (Off + 4) :: u8)"

definition write_bar :: "nat \<Rightarrow> PCI_BAR \<Rightarrow> u64 \<Rightarrow> (prog_state \<Rightarrow> prog_state) \<Rightarrow> prog_state \<Rightarrow> prog_state" where
  "write_bar i b Address base s =
     (case BarType b of
        PciBarTypeIo16 \<Rightarrow> base (pci_write i (ucast (BarOffset b)) 4 (low32 Address) s)
      | PciBarTypeIo32 \<Rightarrow> base (pci_write i (ucast (BarOffset b)) 4 (low32 Address) s)
      | PciBarTypeMem32 \<Rightarrow> base (pci_write i (ucast (BarOffset b)) 4 (low32 Address) s)
      | PciBarTypePMem32 \<Rightarrow> base (pci_write i (ucast (BarOffset b)) 4 (low32 Address) s)
      | PciBarTypeMem64 \<Rightarrow> base (pci_write i (high_bar (BarOffset b)) 4 (high32 Address)
          (pci_write i (ucast (BarOffset b)) 4 (low32 Address) s))
      | PciBarTypePMem64 \<Rightarrow> base (pci_write i (high_bar (BarOffset b)) 4 (high32 Address)
          (pci_write i (ucast (BarOffset b)) 4 (low32 Address) s))
      | _ \<Rightarrow> s)"

definition ProgramBar :: "u64 \<Rightarrow> PCI_RESOURCE_NODE \<Rightarrow> prog_state \<Rightarrow> prog_state" where
  "ProgramBar Base n s =
     (if Virtual (res n) then ProgramVfBar Base n s
      else let i = dev_id n; k = unat (Bar (res n)); Address = Base + off n;
          s = mark i s; b = PciBar (Device s i) ! k in
        write_bar i b Address (set_bar i k (\<lambda>b. b\<lparr> BaseAddress := Address \<rparr>)) s)"

section \<open>The windows of a PCI-PCI bridge\<close>

definition ProgramPpbApperture :: "u64 \<Rightarrow> PCI_RESOURCE_NODE \<Rightarrow> prog_state \<Rightarrow> prog_state" where
  "ProgramPpbApperture Base n s =
     (if len n = 0 \<or> padding n then s
      else let i = dev_id n; k = unat (Bar (res n)); Address = Base + off n; Limit = Address + len n - 1;
          s = mark i s; b = PciBar (Device s i) ! k;
          base = set_bar i k (\<lambda>b. b\<lparr> BaseAddress := Address, BarLength := len n \<rparr>) in
        if Bar (res n) = PPB_BAR_0 \<or> Bar (res n) = PPB_BAR_1 then write_bar i b Address base s
        else if Bar (res n) = PPB_IO_RANGE then
          (let s = pci_write i 0x1C 1 (drop_bit 8 (low32 Address)) s;
               s = pci_write i 0x30 2 (drop_bit 8 (drop_bit 8 (low32 Address))) s;
               s = pci_write i 0x1D 1 (drop_bit 8 (low32 Limit)) s in
           base (pci_write i 0x32 2 (drop_bit 8 (drop_bit 8 (low32 Limit))) s))
        else if Bar (res n) = PPB_MEM32_RANGE then
          (let s = pci_write i 0x20 2 (drop_bit 16 (low32 Address)) s in
           base (pci_write i 0x22 2 (drop_bit 16 (low32 Limit)) s))
        else if Bar (res n) = PPB_PMEM32_RANGE \<or> Bar (res n) = PPB_PMEM64_RANGE then
          (let s = pci_write i 0x24 2 (drop_bit 16 (low32 Address)) s;
               s = pci_write i 0x26 2 (drop_bit 16 (low32 Limit)) s;
               s = pci_write i 0x28 4 (high32 Address) s in
           base (pci_write i 0x2C 4 (high32 Limit) s))
        else s)"

section \<open>The windows of a CardBus bridge\<close>

definition P2C_BAR_0 :: u8 where [regs]: "P2C_BAR_0 = 0"
definition P2C_MEM_1 :: u8 where [regs]: "P2C_MEM_1 = 1"
definition P2C_MEM_2 :: u8 where [regs]: "P2C_MEM_2 = 2"
definition P2C_IO_1 :: u8 where [regs]: "P2C_IO_1 = 3"
definition P2C_IO_2 :: u8 where [regs]: "P2C_IO_2 = 4"
definition PCI_CARD_MEMORY_BASE_0 :: u32 where [regs]: "PCI_CARD_MEMORY_BASE_0 = 0x1C"
definition PCI_CARD_MEMORY_LIMIT_0 :: u32 where [regs]: "PCI_CARD_MEMORY_LIMIT_0 = 0x20"
definition PCI_CARD_MEMORY_BASE_1 :: u32 where [regs]: "PCI_CARD_MEMORY_BASE_1 = 0x24"
definition PCI_CARD_MEMORY_LIMIT_1 :: u32 where [regs]: "PCI_CARD_MEMORY_LIMIT_1 = 0x28"
definition PCI_CARD_IO_BASE_0_LOWER :: u32 where [regs]: "PCI_CARD_IO_BASE_0_LOWER = 0x2C"
definition PCI_CARD_IO_LIMIT_0_LOWER :: u32 where [regs]: "PCI_CARD_IO_LIMIT_0_LOWER = 0x30"
definition PCI_CARD_IO_BASE_1_LOWER :: u32 where [regs]: "PCI_CARD_IO_BASE_1_LOWER = 0x34"
definition PCI_CARD_IO_LIMIT_1_LOWER :: u32 where [regs]: "PCI_CARD_IO_LIMIT_1_LOWER = 0x38"
definition PCI_CARD_BRIDGE_CONTROL :: u32 where [regs]: "PCI_CARD_BRIDGE_CONTROL = 0x3E"
definition PCI_CARD_PREFETCHABLE_MEMORY_0_ENABLE :: u16 where [regs]: "PCI_CARD_PREFETCHABLE_MEMORY_0_ENABLE = 0x100"
definition PCI_CARD_PREFETCHABLE_MEMORY_1_ENABLE :: u16 where [regs]: "PCI_CARD_PREFETCHABLE_MEMORY_1_ENABLE = 0x200"

text \<open>A base and a limit register of 32 bits.\<close>

definition write_window :: "nat \<Rightarrow> u32 \<Rightarrow> u32 \<Rightarrow> u64 \<Rightarrow> u64 \<Rightarrow> prog_state \<Rightarrow> prog_state" where
  "write_window i BaseReg LimitReg Address Len s =
     pci_write i LimitReg 4 (low32 (Address + Len - 1)) (pci_write i BaseReg 4 (low32 Address) s)"

text \<open>The prefetch bit of a memory window, in the bridge control register that \<open>rd\<close> reads.\<close>

definition write_prefetch :: "(prog_state \<Rightarrow> nat \<Rightarrow> u32 \<Rightarrow> u16) \<Rightarrow> PCI_RESOURCE_NODE \<Rightarrow> u16 \<Rightarrow> prog_state \<Rightarrow> prog_state" where
  "write_prefetch rd n Enable s =
     (let BridgeControl = rd s (dev_id n) PCI_CARD_BRIDGE_CONTROL in
      pci_write (dev_id n) PCI_CARD_BRIDGE_CONTROL 2
        (ucast (if ResType (res n) = PciBarTypeMem32 then BridgeControl AND NOT Enable else BridgeControl OR Enable)) s)"

definition ProgramP2C :: "(prog_state \<Rightarrow> nat \<Rightarrow> u32 \<Rightarrow> u16) \<Rightarrow> u64 \<Rightarrow> PCI_RESOURCE_NODE \<Rightarrow> prog_state \<Rightarrow> prog_state" where
  "ProgramP2C rd Base n s =
     (let i = dev_id n; k = unat (Bar (res n)); Address = Base + off n;
          s = mark i s; b = PciBar (Device s i) ! k;
          base = set_bar i k (\<lambda>b. b\<lparr> BaseAddress := Address, BarLength := len n \<rparr>);
          typed = set_bar i k (\<lambda>b. b\<lparr> BaseAddress := Address, BarLength := len n, BarType := ResType (res n) \<rparr>) in
      if Bar (res n) = P2C_BAR_0 then base (pci_write i (ucast (BarOffset b)) 4 (low32 Address) s)
      else if Bar (res n) = P2C_MEM_1 then
        typed (write_prefetch rd n PCI_CARD_PREFETCHABLE_MEMORY_0_ENABLE
          (write_window i PCI_CARD_MEMORY_BASE_0 PCI_CARD_MEMORY_LIMIT_0 Address (len n) s))
      else if Bar (res n) = P2C_MEM_2 then
        typed (write_prefetch rd n PCI_CARD_PREFETCHABLE_MEMORY_1_ENABLE
          (write_window i PCI_CARD_MEMORY_BASE_1 PCI_CARD_MEMORY_LIMIT_1 Address (len n) s))
      else if Bar (res n) = P2C_IO_1 then
        typed (write_window i PCI_CARD_IO_BASE_0_LOWER PCI_CARD_IO_LIMIT_0_LOWER Address (len n) s)
      else if Bar (res n) = P2C_IO_2 then
        typed (write_window i PCI_CARD_IO_BASE_1_LOWER PCI_CARD_IO_LIMIT_1_LOWER Address (len n) s)
      else s)"

section \<open>The tree\<close>

definition gAllOne :: u64 where [regs]: "gAllOne = 0xFFFFFFFFFFFFFFFF"

fun ProgramResource :: "(prog_state \<Rightarrow> nat \<Rightarrow> u32 \<Rightarrow> u16) \<Rightarrow> u64 \<Rightarrow> PCI_RESOURCE_NODE \<Rightarrow> prog_state \<Rightarrow> efi_status \<times> prog_state"
  and program_nodes :: "(prog_state \<Rightarrow> nat \<Rightarrow> u32 \<Rightarrow> u16) \<Rightarrow> u64 \<Rightarrow> PCI_RESOURCE_NODE list \<Rightarrow> prog_state \<Rightarrow> efi_status \<times> prog_state" where
  "ProgramResource rd Base (Node r cs) s =
     (if Base = gAllOne then (EFI_OUT_OF_RESOURCES, s) else program_nodes rd Base cs s)"
| "program_nodes rd Base [] s = (EFI_SUCCESS, s)"
| "program_nodes rd Base (n # ns) s =
     (if \<not> IS_PCI_BRIDGE (PciDev (res n))
      then program_nodes rd Base ns
        (if IS_CARDBUS_BRIDGE (PciDev (res n)) then ProgramP2C rd Base n s else ProgramBar Base n s)
      else (case ProgramResource rd (Base + off n) n s of (Status, s) \<Rightarrow>
        if EFI_ERROR Status then (Status, s) else program_nodes rd Base ns (ProgramPpbApperture Base n s)))"

end
