(* ===== verification/PciAssign.thy ===== *)
theory PciAssign
  imports PciProgram PciLayout
begin

text \<open>
  The addresses that programming a resource tree gives to the BARs: they are disjoint, aligned and
  inside the window of the tree, and the BARs of the devices are set to them.
\<close>

section \<open>The assigned addresses\<close>

text \<open>The addresses of the BARs below a node whose bridge starts at a base address.\<close>

fun assigned :: "u64 \<Rightarrow> PCI_RESOURCE_NODE \<Rightarrow> (resource \<times> u64) list" where
  "assigned Base (Node r cs) = (if ResourceUsage r = PciResUsagePadding then []
     else if cs = [] then [(r, Base + Offset r)]
     else concat (map (assigned (Base + Offset r)) cs))"

definition assigned_in :: "u64 \<Rightarrow> PCI_RESOURCE_NODE list \<Rightarrow> (resource \<times> u64) list" where
  "assigned_in Base cs = concat (map (assigned Base) cs)"

lemma assigned_in_simps [simp]:
  "assigned_in Base [] = []" "assigned_in Base (c # cs) = assigned Base c @ assigned_in Base cs"
  by (simp_all add: assigned_in_def)

lemma assigned_leaves: "map fst (assigned Base n) = leaves n"
proof (induction n arbitrary: Base)
  case (Node r cs)
  then have "map (map fst \<circ> assigned (Base + Offset r)) cs = map leaves cs" by simp
  then have "map fst (concat (map (assigned (Base + Offset r)) cs)) = concat (map leaves cs)"
    by (simp only: map_concat map_map)
  then show ?case by simp
qed

definition apart :: "nat \<Rightarrow> nat \<Rightarrow> (resource \<times> u64) list \<Rightarrow> bool" where
  "apart lo hi xs \<longleftrightarrow> lo \<le> hi \<and>
     (\<forall>(r, a) \<in> set xs. lo \<le> unat a \<and> unat a + unat (Length r) \<le> hi \<and> a AND Alignment r = 0) \<and>
     sorted_wrt (\<lambda>(r, a) (r', a'). unat a + unat (Length r) \<le> unat a') xs"

lemma apart_append:
  "apart lo mid xs \<Longrightarrow> apart mid' hi ys \<Longrightarrow> mid \<le> mid' \<Longrightarrow> apart lo hi (xs @ ys)"
  unfolding apart_def sorted_wrt_append by (fastforce intro: order_trans)

lemma apart_mono: "apart lo hi xs \<Longrightarrow> lo' \<le> lo \<Longrightarrow> hi \<le> hi' \<Longrightarrow> apart lo' hi' xs"
  unfolding apart_def by fastforce

lemma unat_add_small: "unat a + unat b < 2 ^ 64 \<Longrightarrow> unat (a + b) = unat a + unat (b :: u64)"
  by (simp add: unat_word_ariths)

lemma assigned_in_apart:
  assumes "laid lo cs hi" "\<forall>c \<in> set cs. align c \<le> m \<and> masks c \<and> laid_tree c"
    and A: "low_mask m" "A AND m = 0" "unat A + hi < 2 ^ 64"
    and IH: "\<And>c. c \<in> set cs \<Longrightarrow> masks c \<Longrightarrow> laid_tree c \<Longrightarrow> \<not> padding c \<Longrightarrow> (A + off c) AND align c = 0 \<Longrightarrow>
      unat (A + off c) + unat (len c) < 2 ^ 64 \<Longrightarrow>
      apart (unat (A + off c)) (unat (A + off c) + unat (len c)) (assigned A c)"
  shows "apart (unat A + lo) (unat A + hi) (assigned_in A cs)"
  using assms(1,2) IH
proof (induction cs arbitrary: lo)
  case Nil
  then show ?case by (simp add: apart_def)
next
  case (Cons c cs)
  show ?case
  proof (cases "padding c")
    case True
    then have "assigned A c = []" by (cases c) simp
    then show ?thesis using Cons True by simp
  next
    case False
    have l: "lo \<le> unat (off c)" "off c AND align c = 0" "laid (unat (off c) + unat (len c)) cs hi"
      using Cons.prems(1) False by simp_all
    have h: "unat (off c) + unat (len c) \<le> hi" using laid_bounds [OF l(3)] .
    have u: "unat (A + off c) = unat A + unat (off c)" using h A(3) by (intro unat_add_small) simp
    have c: "align c \<le> m" "masks c" "laid_tree c" using Cons.prems(2) by simp_all
    have "(A + off c) AND align c = 0"
      by (rule aligned_add [OF masks_align [OF c(2)] A(1) c(1) A(2) l(2)])
    then have 1: "apart (unat (A + off c)) (unat (A + off c) + unat (len c)) (assigned A c)"
      using Cons.prems(3) [of c] c False u h A(3) by simp
    have 2: "apart (unat A + (unat (off c) + unat (len c))) (unat A + hi) (assigned_in A cs)"
      using Cons.IH [OF l(3)] Cons.prems(2,3) by simp
    have "apart (unat (A + off c)) (unat A + hi) (assigned_in A (c # cs))"
      using apart_append [OF 1 2] by (simp add: u)
    then show ?thesis by (rule apart_mono) (use l(1) u in auto)
  qed
qed

lemma assigned_apart:
  "masks n \<Longrightarrow> laid_tree n \<Longrightarrow> \<not> padding n \<Longrightarrow> (Base + off n) AND align n = 0 \<Longrightarrow>
     unat (Base + off n) + unat (len n) < 2 ^ 64 \<Longrightarrow>
     apart (unat (Base + off n)) (unat (Base + off n) + unat (len n)) (assigned Base n)"
proof (induction n arbitrary: Base)
  case (Node r cs)
  let ?A = "Base + Offset r"
  show ?case
  proof (cases "cs = []")
    case True
    then show ?thesis using Node.prems by (simp add: apart_def)
  next
    case False
    have "apart (unat ?A + 0) (unat ?A + unat (Length r)) (assigned_in ?A cs)"
      by (rule assigned_in_apart [where m = "Alignment r"]) (use Node False in auto)
    then show ?thesis using Node.prems(3) False by (simp add: assigned_in_def)
  qed
qed

text \<open>The whole tree of a list.\<close>

lemma tree_apart:
  assumes "masks b" "laid_tree b" "Base AND align b = 0" "unat Base + unat (len b) < 2 ^ 64"
  shows "apart (unat Base) (unat Base + unat (len b)) (assigned_in Base (ChildList b))"
proof (cases "ChildList b = []")
  case True
  then show ?thesis by (simp add: apart_def)
next
  case False
  have "apart (unat Base + 0) (unat Base + unat (len b)) (assigned_in Base (ChildList b))"
    by (rule assigned_in_apart [where m = "align b"])
      (use assms False assigned_apart in \<open>auto simp: masks_children [of b] laid_tree_children [of b]\<close>)
  then show ?thesis by simp
qed

text \<open>The ranges of all nodes, windows and BARs: each in the range of the bridge above it, at a multiple of
  its alignment, those of one bridge one behind the other.  Padding has no range.\<close>

fun well_placed :: "u64 \<Rightarrow> PCI_RESOURCE_NODE \<Rightarrow> bool" where
  "well_placed A (Node r cs) \<longleftrightarrow>
     (\<forall>c \<in> set cs. \<not> padding c \<longrightarrow> unat A \<le> unat (A + off c) \<and>
       unat (A + off c) + unat (len c) \<le> unat A + unat (Length r) \<and> (A + off c) AND align c = 0 \<and>
       well_placed (A + off c) c) \<and>
     sorted_wrt (\<lambda>c d. \<not> padding c \<and> \<not> padding d \<longrightarrow> unat (A + off c) + unat (len c) \<le> unat (A + off d)) cs"

lemma well_placed_laid:
  "masks n \<Longrightarrow> laid_tree n \<Longrightarrow> A AND align n = 0 \<Longrightarrow> unat A + unat (len n) < 2 ^ 64 \<Longrightarrow> well_placed A n"
proof (induction n arbitrary: A)
  case (Node r cs)
  show ?case
  proof (cases "cs = []")
    case False
    then have l: "laid 0 cs (unat (Length r))" using Node.prems(2) by simp
    have u: "unat (A + off c) = unat A + unat (off c)" "unat (off c) + unat (len c) \<le> unat (Length r)" "off c AND align c = 0"
      if "c \<in> set cs" "\<not> padding c" for c
    proof -
      show "unat (off c) + unat (len c) \<le> unat (Length r)" "off c AND align c = 0" using laid_member [OF l that] by auto
      then show "unat (A + off c) = unat A + unat (off c)" using Node.prems(4) by (intro unat_add_small) simp
    qed
    have c: "(A + off c) AND align c = 0 \<and> well_placed (A + off c) c" if "c \<in> set cs" "\<not> padding c" for c
    proof -
      have m: "masks c" "laid_tree c" "align c \<le> Alignment r" "low_mask (Alignment r)" using Node.prems(1,2) that(1) by auto
      have a: "(A + off c) AND align c = 0"
        by (rule aligned_add [OF masks_align [OF m(1)] m(4,3) _ u(3) [OF that]]) (use Node.prems(3) in simp)
      moreover have "unat (A + off c) + unat (len c) < 2 ^ 64" using u(1,2) [OF that] Node.prems(4) by simp
      ultimately show ?thesis using Node.IH [OF that(1) m(1,2)] by simp
    qed
    have "sorted_wrt (\<lambda>c d. \<not> padding c \<and> \<not> padding d \<longrightarrow> unat (A + off c) + unat (len c) \<le> unat (A + off d)) cs"
      using laid_pairwise [OF l] by (rule sorted_wrt_mono_rel [rotated]) (use u(1) in auto)
    then show ?thesis using c u by auto
  qed simp
qed

section \<open>Programming succeeds\<close>

text \<open>No window of a laid out tree starts at the address that stands for no resources.\<close>

lemma program_status:
  "masks n \<Longrightarrow> laid_tree n \<Longrightarrow> A AND align n = 0 \<Longrightarrow> unat A + unat (len n) < 2 ^ 64 - 1 \<Longrightarrow>
     fst (ProgramResource rd A n s) = EFI_SUCCESS"
proof (induction n arbitrary: A s)
  case (Node r cs)
  have "A \<noteq> gAllOne" using Node.prems(4) by (auto simp: regs)
  moreover have "fst (program_nodes rd A ns s) = EFI_SUCCESS"
    if "laid lo ns (unat (Length r))" "set ns \<subseteq> set cs" for ns lo s
    using that
  proof (induction ns arbitrary: lo s)
    case (Cons c ns)
    obtain lo' where lo': "laid lo' ns (unat (Length r))" using Cons.prems(1) by (auto split: if_splits)
    note rest = Cons.IH [OF lo']
    have "fst (ProgramResource rd (A + off c) c s) = EFI_SUCCESS"
    proof (cases "padding c")
      case True
      then have "off c = 0 \<and> ChildList c = []"
        using Node.prems(1) Cons.prems(2) masks_children [of c] by auto
      then show ?thesis using \<open>A \<noteq> gAllOne\<close> by (cases c) simp
    next
      case False
      have "c \<in> set (c # ns)" by simp
      then have c: "off c AND align c = 0" "unat (off c) + unat (len c) \<le> unat (Length r)"
        using laid_member [OF Cons.prems(1)] False by auto
      have m: "masks c" "laid_tree c" "align c \<le> Alignment r" "c \<in> set cs"
        using Node.prems(1,2) Cons.prems(2) by auto
      have "(A + off c) AND align c = 0"
        using aligned_add [OF masks_align [OF m(1)] _ m(3) _ c(1)] Node.prems(1,3) by simp
      moreover have "unat (A + off c) = unat A + unat (off c)"
        using c(2) Node.prems(4) by (intro unat_add_small) simp
      ultimately show ?thesis using Node.IH [OF m(4,1,2)] c(2) Node.prems(4) by simp
    qed
    then show ?case using rest Cons.prems(2) by (auto split: prod.splits)
  qed simp
  ultimately show ?case using Node.prems(2) by (cases "cs = []") auto
qed

end
