(* ===== verification/PciEffects.thy ===== *)
theory PciEffects
  imports PciAssign
begin

text \<open>
  The effect of \<open>ProgramResource\<close> on the devices: after it the BARs of a tree hold the addresses
  assigned to them, no other BAR has changed, and the configuration space has got exactly the writes that
  put these addresses into the BARs and open the windows of the bridges above them.
\<close>

section \<open>BARs of the state\<close>

datatype bar_slot = Slot (slot_dev: nat) (slot_virtual: bool) (slot_bar: u8)

definition slot :: "resource \<Rightarrow> bar_slot" where
  "slot r = Slot (Identity (PciDev r)) (Virtual r) (Bar r)"

definition bar_list :: "prog_state \<Rightarrow> nat \<Rightarrow> bool \<Rightarrow> PCI_BAR list" where
  "bar_list s i v = (if v then VfPciBar (Device s i) else PciBar (Device s i))"

definition bar_at :: "prog_state \<Rightarrow> bar_slot \<Rightarrow> PCI_BAR" where
  "bar_at s x = bar_list s (slot_dev x) (slot_virtual x) ! unat (slot_bar x)"

text \<open>The slots of all nodes of a tree, windows included.\<close>

fun slots :: "PCI_RESOURCE_NODE \<Rightarrow> bar_slot list" where
  "slots (Node r cs) = (if ResourceUsage r = PciResUsagePadding then [] else slot r # concat (map slots cs))"

definition slots_in :: "PCI_RESOURCE_NODE list \<Rightarrow> bar_slot list" where
  "slots_in cs = concat (map slots cs)"

lemma slots_in_simps [simp]:
  "slots_in [] = []" "slots_in (c # cs) = slots c @ slots_in cs"
  by (simp_all add: slots_in_def)

text \<open>The trees that can be programmed without a CardBus bridge: windows and padding belong to
  PCI-PCI bridges.\<close>

fun bridged :: "PCI_RESOURCE_NODE \<Rightarrow> bool" where
  "bridged (Node r cs) \<longleftrightarrow> \<not> IS_CARDBUS_BRIDGE (PciDev r) \<and>
     (ResourceUsage r = PciResUsagePadding \<longrightarrow> IS_PCI_BRIDGE (PciDev r) \<and> cs = []) \<and>
     (cs \<noteq> [] \<longrightarrow> IS_PCI_BRIDGE (PciDev r) \<and> \<not> Virtual r \<and> 2 \<le> unat (Bar r)) \<and> (\<forall>c \<in> set cs. bridged c)"

text \<open>A BAR that the state has, of a type that is programmed, whose registers lie in the first 256 bytes of
  configuration space; a PCI-PCI bridge has two.\<close>

definition programmable :: "prog_state \<Rightarrow> resource \<Rightarrow> bool" where
  "programmable s r \<longleftrightarrow> Length r \<noteq> 0 \<and> unat (Bar r) < length (bar_list s (Identity (PciDev r)) (Virtual r)) \<and>
     (if Virtual r then vf_pool_of (BarType (bar_at s (slot r))) \<noteq> None \<and> \<not> IS_PCI_BRIDGE (PciDev r)
      else pool_of (BarType (bar_at s (slot r))) \<noteq> None \<and> unat (BarOffset (bar_at s (slot r))) < 0xFC) \<and>
     (IS_PCI_BRIDGE (PciDev r) \<longrightarrow> Bar r = PPB_BAR_0 \<or> Bar r = PPB_BAR_1)"

section \<open>What is to be written\<close>

text \<open>A BAR gets its address in the register at its offset, a 64 bit BAR the upper half in the next one.\<close>

definition bar_writes :: "nat \<Rightarrow> PCI_BAR \<Rightarrow> u64 \<Rightarrow> (nat \<times> u32 \<times> nat \<times> u32) list" where
  "bar_writes i b a = (i, ucast (BarOffset b), 4, of_nat (unat a mod 2 ^ 32)) #
     (if BarType b = PciBarTypeMem64 \<or> BarType b = PciBarTypePMem64
      then [(i, ucast (BarOffset b) + 4, 4, of_nat (unat a div 2 ^ 32))] else [])"

text \<open>The base and limit registers of a bridge: IO (1Ch, 1Dh and the upper halves at 30h, 32h), memory (20h,
  22h) and prefetchable memory (24h, 26h, upper halves at 28h, 2Ch).\<close>

definition window_writes :: "resource \<Rightarrow> u64 \<Rightarrow> (nat \<times> u32 \<times> nat \<times> u32) list" where
  "window_writes r First = (let i = Identity (PciDev r); First = unat First; Last = unat (of_nat First + Length r - 1);
       lo = \<lambda>x k. of_nat (x mod 2 ^ 32 div 2 ^ k) in
     if Length r = 0 then []
     else if Bar r = 2 then [(i, 0x1C, 1, lo First 8), (i, 0x30, 2, lo First 16), (i, 0x1D, 1, lo Last 8), (i, 0x32, 2, lo Last 16)]
     else if Bar r = 3 then [(i, 0x20, 2, lo First 16), (i, 0x22, 2, lo Last 16)]
     else if Bar r = 4 \<or> Bar r = 5 then [(i, 0x24, 2, lo First 16), (i, 0x26, 2, lo Last 16),
       (i, 0x28, 4, of_nat (First div 2 ^ 32)), (i, 0x2C, 4, of_nat (Last div 2 ^ 32))]
     else [])"

text \<open>A tree: what is in a window before the window.\<close>

fun tree_writes :: "(bar_slot \<Rightarrow> PCI_BAR) \<Rightarrow> u64 \<Rightarrow> PCI_RESOURCE_NODE \<Rightarrow> (nat \<times> u32 \<times> nat \<times> u32) list" where
  "tree_writes at Base (Node r cs) = (if ResourceUsage r = PciResUsagePadding then []
     else if cs = [] then bar_writes (Identity (PciDev r)) (at (slot r)) (Base + Offset r)
     else concat (map (tree_writes at (Base + Offset r)) cs) @ window_writes r (Base + Offset r))"

definition writes_in :: "(bar_slot \<Rightarrow> PCI_BAR) \<Rightarrow> u64 \<Rightarrow> PCI_RESOURCE_NODE list \<Rightarrow> (nat \<times> u32 \<times> nat \<times> u32) list" where
  "writes_in at Base cs = concat (map (tree_writes at Base) cs)"

lemma writes_in_simps [simp]:
  "writes_in at Base [] = []" "writes_in at Base (c # cs) = tree_writes at Base c @ writes_in at Base cs"
  by (simp_all add: writes_in_def)

text \<open>They depend on the types and registers of the BARs only.\<close>

definition same_regs :: "(bar_slot \<Rightarrow> PCI_BAR) \<Rightarrow> (bar_slot \<Rightarrow> PCI_BAR) \<Rightarrow> bool" where
  "same_regs f g \<longleftrightarrow> (\<forall>x. BarType (f x) = BarType (g x) \<and> BarOffset (f x) = BarOffset (g x))"

lemma same_regs_writes: "same_regs f g \<Longrightarrow> tree_writes f A n = tree_writes g A n"
proof (induction n arbitrary: A)
  case (Node r cs)
  then have "map (tree_writes f (A + Offset r)) cs = map (tree_writes g (A + Offset r)) cs" by simp
  then have "concat (map (tree_writes f (A + Offset r)) cs) = concat (map (tree_writes g (A + Offset r)) cs)" by (simp only:)
  then show ?case using Node.prems by (simp add: same_regs_def bar_writes_def)
qed

lemma same_regs_in: "same_regs f g \<Longrightarrow> writes_in f A cs = writes_in g A cs"
  using same_regs_writes [of f g A] by (simp add: writes_in_def cong: map_cong)

text \<open>The halves of an address as numbers.\<close>

lemma halves: "of_nat (unat a mod 2 ^ 32) = low32 a" "of_nat (unat a div 2 ^ 32) = high32 a"
  "k < 32 \<Longrightarrow> of_nat (unat a mod 2 ^ 32 div 2 ^ k) = drop_bit k (low32 a)"
proof -
  have u: "unat (low32 a) = unat a mod 2 ^ 32" for a
    by (simp add: low32_def unsigned_ucast_eq take_bit_eq_mod)
  have of: "of_nat (unat x) = x" for x :: u32 by simp
  show "of_nat (unat a mod 2 ^ 32) = low32 a" using of [of "low32 a"] unfolding u .
  have "unat (drop_bit k (low32 a)) = unat a mod 2 ^ 32 div 2 ^ k" for k unfolding unat_drop_bit_eq u by (rule drop_bit_eq_div)
  then show "of_nat (unat a mod 2 ^ 32 div 2 ^ k) = drop_bit k (low32 a)" using of [of "drop_bit k (low32 a)"] by simp
  have "unat a div 2 ^ 32 < 2 ^ 32"
    using unsigned_less [where ?'a = nat and w = a] by (intro less_mult_imp_div_less) simp
  then have "take_bit 32 (unat a div 2 ^ 32) = unat a div 2 ^ 32" by (rule take_bit_nat_eq_self)
  moreover have "unat (high32 a) = take_bit 32 (unat a div 2 ^ 32)"
    unfolding high32_def unsigned_ucast_eq unat_drop_bit_eq by (simp only: drop_bit_eq_div len_num1) simp
  ultimately have "unat (high32 a) = unat a div 2 ^ 32" by (simp only:)
  then show "of_nat (unat a div 2 ^ 32) = high32 a" using of [of "high32 a"] by simp
qed

lemma high_bar_next:
  assumes "unat Off < 0xFC"
  shows "high_bar Off = ucast Off + 4"
proof -
  have len: "LENGTH(8) = 8" "LENGTH(32) = 32" by simp_all
  have o: "unat (Off + 4) = unat Off + 4" using assms by (simp add: unat_word_ariths)
  have b: "unat (ucast (Off + 4) :: u8) = unat Off + 4"
    unfolding unsigned_ucast_eq o len by (rule take_bit_nat_eq_self) (use assms in simp)
  have "unat (ucast x :: u32) = unat x" for x :: u8
    unfolding unsigned_ucast_eq len by (rule take_bit_nat_eq_self, rule less_trans [OF unsigned_less]) simp
  then have "unat (high_bar Off) = unat Off + 4" unfolding high_bar_def using b by (simp only:)
  moreover have "unat (ucast Off :: u32) = unat Off"
    unfolding unsigned_ucast_eq len by (rule take_bit_nat_eq_self) (use assms in simp)
  then have "unat (ucast Off + 4 :: u32) = unat Off + 4" using assms by (simp add: unat_word_ariths)
  ultimately show ?thesis by (simp add: word_unat_eq_iff)
qed

text \<open>The lists of writes in the words of the code.\<close>

lemma bar_writes_words:
  "bar_writes i b a = (i, ucast (BarOffset b), 4, low32 a) #
     (if BarType b = PciBarTypeMem64 \<or> BarType b = PciBarTypePMem64 then [(i, ucast (BarOffset b) + 4, 4, high32 a)] else [])"
  unfolding bar_writes_def halves ..

lemma window_writes_words:
  "window_writes r First = (let i = Identity (PciDev r); Last = First + Length r - 1; lo = \<lambda>x k. drop_bit k (low32 x) in
     if Length r = 0 then []
     else if Bar r = 2 then [(i, 0x1C, 1, lo First 8), (i, 0x30, 2, lo First 16), (i, 0x1D, 1, lo Last 8), (i, 0x32, 2, lo Last 16)]
     else if Bar r = 3 then [(i, 0x20, 2, lo First 16), (i, 0x22, 2, lo Last 16)]
     else if Bar r = 4 \<or> Bar r = 5 then [(i, 0x24, 2, lo First 16), (i, 0x26, 2, lo Last 16),
       (i, 0x28, 4, high32 First), (i, 0x2C, 4, high32 Last)]
     else [])"
proof -
  have o: "of_nat (unat First) = First" by simp
  have k: "(8 :: nat) < 32" "(16 :: nat) < 32" by simp_all
  show ?thesis unfolding window_writes_def Let_def o halves halves(3) [OF k(1)] halves(3) [OF k(2)] ..
qed

section \<open>Effects\<close>

definition effects :: "(resource \<times> u64) list \<Rightarrow> bar_slot list \<Rightarrow> (nat \<times> u32 \<times> nat \<times> u32) list \<Rightarrow> prog_state \<Rightarrow> prog_state \<Rightarrow> bool" where
  "effects xs S W s s' \<longleftrightarrow>
     (\<forall>(r, a) \<in> set xs. BaseAddress (bar_at s' (slot r)) = a) \<and>
     (\<forall>x. x \<notin> set S \<longrightarrow> bar_at s' x = bar_at s x) \<and>
     (\<forall>i v. length (bar_list s' i v) = length (bar_list s i v)) \<and>
     same_regs (bar_at s') (bar_at s) \<and> Config s' = Config s @ W"

lemma effects_refl: "effects [] S [] s s"
  by (simp add: effects_def same_regs_def)

lemma effects_more: "effects xs S W s s' \<Longrightarrow> set S \<subseteq> set T \<Longrightarrow> effects xs T W s s'"
  by (auto simp: effects_def)

lemma effects_programmable: "effects xs S W s s' \<Longrightarrow> programmable s' r = programmable s r"
  by (simp add: effects_def same_regs_def programmable_def)

lemma effects_append:
  assumes 1: "effects xs S V s s1" and 2: "effects ys T W s1 s2"
    and d: "set S \<inter> set T = {}" and x: "slot ` fst ` set xs \<subseteq> set S"
  shows "effects (xs @ ys) (S @ T) (V @ W) s s2"
proof -
  have "BaseAddress (bar_at s2 (slot r)) = a" if "(r, a) \<in> set xs" for r a
  proof -
    have "slot r \<in> set S" using x that by force
    then have "bar_at s2 (slot r) = bar_at s1 (slot r)" using 2 d by (auto simp: effects_def)
    then show ?thesis using 1 that by (auto simp: effects_def)
  qed
  then show ?thesis using 1 2 by (auto simp: effects_def same_regs_def)
qed

lemma bar_at_simps [simp]:
  "bar_at (pci_write i r w v s) = bar_at s" "bar_list (pci_write i r w v s) = bar_list s"
  "bar_at (mark i s) = bar_at s" "bar_list (mark i s) = bar_list s"
  by (simp_all add: fun_eq_iff bar_at_def bar_list_def pci_write_def mark_def)

lemma Config_simps [simp]:
  "Config (pci_write i r w v s) = Config s @ [(i, r, w, v)]" "Config (mark i s) = Config s"
  "Config (set_bar i k f s) = Config s" "Config (set_vf_bar i k f s) = Config s"
  by (simp_all add: pci_write_def mark_def set_bar_def set_vf_bar_def)

lemma bar_list_set:
  "bar_list (set_bar i k f s) j v =
     (if j = i \<and> \<not> v then (bar_list s i False)[k := f (bar_list s i False ! k)] else bar_list s j v)"
  "bar_list (set_vf_bar i k f s) j v =
     (if j = i \<and> v then (bar_list s i True)[k := f (bar_list s i True ! k)] else bar_list s j v)"
  by (simp_all add: bar_list_def set_bar_def set_vf_bar_def)

lemma slot_eq: "x = Slot i v k \<longleftrightarrow> slot_dev x = i \<and> slot_virtual x = v \<and> slot_bar x = k"
  by (cases x) auto

lemma effects_set:
  assumes "\<And>b. BarType (f b) = BarType b \<and> BarOffset (f b) = BarOffset b" "unat k < length (bar_list s i v)"
    "\<And>b. BaseAddress (f b) = a" "slot r = Slot i v k"
  shows "effects [(r, a)] [Slot i v k] [] s (if v then set_vf_bar i (unat k) f s else set_bar i (unat k) f s)"
proof -
  have ne: "unat b \<noteq> unat k" if "b \<noteq> k" for b :: u8
    using that by (simp add: word_unat_eq_iff)
  have upd: "(bar_list s i v)[unat k := f (bar_list s i v ! unat k)] ! unat b =
      (if b = k then f (bar_list s i v ! unat k) else bar_list s i v ! unat b)" for b :: u8
    using assms(2) ne [of b] by (auto simp: nth_list_update_neq)
  show ?thesis
    using upd assms(1,2,3,4) by (cases v) (auto simp: effects_def same_regs_def bar_at_def bar_list_set slot_eq)
qed

lemma effects_set_any:
  assumes "\<And>b. BarType (f b) = BarType b \<and> BarOffset (f b) = BarOffset b"
  shows "effects [] [Slot i v k] [] s (if v then set_vf_bar i (unat k) f s else set_bar i (unat k) f s)"
proof (cases "unat k < length (bar_list s i v)")
  case True
  then show ?thesis
    using assms by (cases v) (auto simp: effects_def same_regs_def bar_at_def bar_list_set slot_eq nth_list_update word_unat_eq_iff)
next
  case False
  then show ?thesis
    by (cases v) (auto simp: effects_def same_regs_def bar_at_def bar_list_set slot_eq list_update_beyond not_less)
qed

lemma effects_if:
  "(c \<Longrightarrow> effects xs S W s a) \<Longrightarrow> (\<not> c \<Longrightarrow> effects xs S W s b) \<Longrightarrow> effects xs S W s (if c then a else b)"
  by simp

lemma effects_through:
  "effects xs S [] s0 s' \<Longrightarrow> bar_at s0 = bar_at s \<Longrightarrow> bar_list s0 = bar_list s \<Longrightarrow> Config s0 = Config s @ W \<Longrightarrow>
     effects xs S W s s'"
  by (simp add: effects_def)

text \<open>The write to a BAR and to its record.\<close>

lemma effects_write_bar:
  assumes "pool_of (BarType b) \<noteq> None" "unat (BarOffset b) < 0xFC"
    and "\<And>s0. bar_at s0 = bar_at s \<Longrightarrow> bar_list s0 = bar_list s \<Longrightarrow> effects xs S [] s0 (base s0)"
  shows "effects xs S (bar_writes i b A) s (write_bar i b A base s)"
proof -
  have e: "bar_at s0 = bar_at s \<Longrightarrow> bar_list s0 = bar_list s \<Longrightarrow> Config s0 = Config s @ W \<Longrightarrow> effects xs S W s (base s0)" for s0 W
    using assms(3) effects_through by metis
  show ?thesis
    using assms(1,2) by (cases "BarType b") (simp_all add: write_bar_def e bar_writes_words high_bar_next)
qed

lemma ProgramBar_effects:
  assumes p: "programmable s (res n)" and b: "\<not> IS_PCI_BRIDGE (PciDev (res n))"
  shows "effects [(res n, Base + off n)] [slot (res n)] (bar_writes (dev_id n) (bar_at s (slot (res n))) (Base + off n)) s
    (ProgramBar Base n s)"
proof -
  let ?i = "dev_id n" and ?k = "unat (Bar (res n))" and ?a = "Base + off n"
  let ?f = "\<lambda>b. b\<lparr> BaseAddress := ?a \<rparr>"
  have l: "?k < length (bar_list s0 ?i (Virtual (res n)))" if "bar_list s0 = bar_list s" for s0
    using p that by (simp add: programmable_def)
  have set: "effects [(res n, ?a)] [slot (res n)] [] s0
      (if Virtual (res n) then set_vf_bar ?i ?k ?f s0 else set_bar ?i ?k ?f s0)"
    if "bar_list s0 = bar_list s" for s0
    using effects_set [of ?f "Bar (res n)" s0 ?i "Virtual (res n)" ?a "res n"] l [OF that]
    by (simp add: slot_def)
  have through: "effects [(res n, ?a)] [slot (res n)] W s
      (if Virtual (res n) then set_vf_bar ?i ?k ?f s0 else set_bar ?i ?k ?f s0)"
    if "bar_at s0 = bar_at s" "bar_list s0 = bar_list s" "Config s0 = Config s @ W" for s0 W
    using set [OF that(2)] that effects_through by metis
  show ?thesis
  proof (cases "Virtual (res n)")
    case True
    let ?b = "VfPciBar (Device (mark ?i s) ?i) ! ?k"
    have b: "bar_at s (slot (res n)) = ?b" using True by (simp add: bar_at_def slot_def bar_list_def mark_def)
    then have "vf_pool_of (BarType ?b) \<noteq> None" using p True by (simp add: programmable_def)
    then show ?thesis
      using through True unfolding b
      by (cases "BarType ?b") (simp_all add: ProgramBar_def ProgramVfBar_def Let_def vf_pool_of_def bar_writes_words)
  next
    case False
    let ?b = "PciBar (Device (mark ?i s) ?i) ! ?k"
    have b: "bar_at s (slot (res n)) = ?b" using False by (simp add: bar_at_def slot_def bar_list_def mark_def)
    then have "pool_of (BarType ?b) \<noteq> None" "unat (BarOffset ?b) < 0xFC" using p False by (simp_all add: programmable_def)
    then have "effects [(res n, ?a)] [slot (res n)] (bar_writes ?i ?b ?a) (mark ?i s)
        (write_bar ?i ?b ?a (set_bar ?i ?k ?f) (mark ?i s))"
      by (rule effects_write_bar) (use set False in simp)
    then show ?thesis
      using False unfolding b by (simp add: ProgramBar_def Let_def effects_def)
  qed
qed

text \<open>The window of a bridge, or a BAR of its own.\<close>

lemma effects_base:
  assumes "bar_at s0 = bar_at s" "bar_list s0 = bar_list s" "Config s0 = Config s @ W"
    "\<And>b. BarType (f b) = BarType b \<and> BarOffset (f b) = BarOffset b"
  shows "effects [] [Slot i False k] W s (set_bar i (unat k) f s0)"
  using effects_set_any [of f i False k s0] assms effects_through by fastforce

lemma ProgramPpb_window:
  assumes "\<not> Virtual (res n)" "2 \<le> unat (Bar (res n))" "\<not> padding n"
  shows "effects [] [slot (res n)] (window_writes (res n) (Base + off n)) s (ProgramPpbApperture Base n s)"
proof -
  let ?i = "dev_id n" and ?a = "Base + off n"
  let ?f = "\<lambda>b. b\<lparr> BaseAddress := ?a, BarLength := len n \<rparr>"
  define k where "k = unat (Bar (res n))"
  have b: "effects [] [slot (res n)] W s (set_bar ?i k ?f s0)"
    if "bar_at s0 = bar_at s" "bar_list s0 = bar_list s" "Config s0 = Config s @ W" for s0 W
    using effects_base [OF that, of ?f ?i "Bar (res n)"] assms by (simp add: slot_def k_def)
  have m: "effects [] [slot (res n)] [] s (mark ?i s)" by (simp add: effects_def same_regs_def)
  have n: "Bar (res n) \<noteq> PPB_BAR_0" "Bar (res n) \<noteq> PPB_BAR_1" using assms(2) by (auto simp: regs)
  have d: "drop_bit 8 (drop_bit 8 x) = drop_bit 16 (x :: u32)" for x by (simp add: drop_bit_drop_bit)
  show ?thesis
    unfolding ProgramPpbApperture_def window_writes_words Let_def d k_def [symmetric]
    using n assms(3) m by (simp add: regs effects_refl b)
qed

lemma ProgramPpb_leaf:
  assumes p: "programmable s (res n)" and b: "IS_PCI_BRIDGE (PciDev (res n))" "\<not> padding n"
  shows "effects [(res n, Base + off n)] [slot (res n)] (bar_writes (dev_id n) (bar_at s (slot (res n))) (Base + off n)) s
    (ProgramPpbApperture Base n s)"
proof -
  let ?i = "dev_id n" and ?k = "unat (Bar (res n))" and ?a = "Base + off n"
  let ?f = "\<lambda>b. b\<lparr> BaseAddress := ?a, BarLength := len n \<rparr>"
  let ?b = "PciBar (Device (mark ?i s) ?i) ! ?k"
  have v: "\<not> Virtual (res n)" "Bar (res n) = PPB_BAR_0 \<or> Bar (res n) = PPB_BAR_1" "len n \<noteq> 0"
    using p b(1) by (auto simp: programmable_def)
  have l: "?k < length (bar_list s0 ?i False)" if "bar_list s0 = bar_list s" for s0
    using p that v(1) by (simp add: programmable_def)
  have e: "bar_at s (slot (res n)) = ?b" using v(1) by (simp add: bar_at_def slot_def bar_list_def mark_def)
  then have "pool_of (BarType ?b) \<noteq> None" "unat (BarOffset ?b) < 0xFC" using p v(1) by (simp_all add: programmable_def)
  then have "effects [(res n, ?a)] [slot (res n)] (bar_writes ?i ?b ?a) (mark ?i s)
      (write_bar ?i ?b ?a (set_bar ?i ?k ?f) (mark ?i s))"
  proof (rule effects_write_bar)
    fix s0 assume "bar_at s0 = bar_at (mark ?i s)" "bar_list s0 = bar_list (mark ?i s)"
    then show "effects [(res n, ?a)] [slot (res n)] [] s0 (set_bar ?i ?k ?f s0)"
      using effects_set [of ?f "Bar (res n)" s0 ?i False ?a "res n"] l [of s0] v(1) by (simp add: slot_def)
  qed
  then show ?thesis
    using v b(2) unfolding e by (simp add: ProgramPpbApperture_def Let_def effects_def)
qed

section \<open>The tree\<close>

lemma leaves_slots: "slot ` set (leaves n) \<subseteq> set (slots n)"
  by (induction n) auto

lemma assigned_slots: "slot ` fst ` set (assigned A n) \<subseteq> set (slots n)"
proof -
  have "fst ` set (assigned A n) = set (leaves n)"
    using assigned_leaves [of A n] by (metis image_set)
  then show ?thesis using leaves_slots by simp
qed

text \<open>One node of a list, when what is below it has its effects.\<close>

definition program_node :: "(prog_state \<Rightarrow> nat \<Rightarrow> u32 \<Rightarrow> u16) \<Rightarrow> u64 \<Rightarrow> PCI_RESOURCE_NODE \<Rightarrow> prog_state \<Rightarrow> efi_status \<times> prog_state" where
  "program_node rd A c s =
     (if \<not> IS_PCI_BRIDGE (PciDev (res c))
      then (EFI_SUCCESS, if IS_CARDBUS_BRIDGE (PciDev (res c)) then ProgramP2C rd A c s else ProgramBar A c s)
      else (case ProgramResource rd (A + off c) c s of (Status, s) \<Rightarrow>
        (Status, if EFI_ERROR Status then s else ProgramPpbApperture A c s)))"

lemma program_nodes_Cons:
  "program_nodes rd A (c # cs) s = (case program_node rd A c s of (Status, s) \<Rightarrow>
     if EFI_ERROR Status then (Status, s) else program_nodes rd A cs s)"
  by (simp add: program_node_def split: prod.splits)

lemma program_node_effects:
  assumes c: "bridged c" "distinct (slots c)" "\<forall>r \<in> set (leaves c). programmable s r"
    and r: "program_node rd A c s = (EFI_SUCCESS, s')"
    and IH: "\<And>s1. ProgramResource rd (A + off c) c s = (EFI_SUCCESS, s1) \<Longrightarrow>
      effects (assigned_in (A + off c) (ChildList c)) (slots_in (ChildList c)) (writes_in (bar_at s) (A + off c) (ChildList c)) s s1"
  shows "effects (assigned A c) (slots c) (tree_writes (bar_at s) A c) s s'"
proof (cases c)
  case (Node q cs)
  show ?thesis
  proof (cases "IS_PCI_BRIDGE (PciDev q)")
    case False
    then show ?thesis
      using c r Node ProgramBar_effects [of s c A] by (auto simp: program_node_def)
  next
    case True
    then obtain s1 where s1: "ProgramResource rd (A + Offset q) c s = (EFI_SUCCESS, s1)"
        "s' = ProgramPpbApperture A c s1"
      using r Node by (auto simp: program_node_def split: prod.splits if_splits)
    show ?thesis
    proof (cases "cs = []")
      case no: True
      then have "s1 = s" using s1(1) Node by (auto split: if_splits)
      then show ?thesis
        using s1(2) ProgramPpb_leaf [of s c A] c(3) Node True no
        by (cases "padding c") (auto simp: ProgramPpbApperture_def effects_refl)
    next
      case False
      then have np: "\<not> padding c" "\<not> Virtual q" "2 \<le> unat (Bar q)" using c(1) Node by auto
      have "effects (assigned_in (A + Offset q) cs) (slots_in cs) (writes_in (bar_at s) (A + Offset q) cs) s s1"
        using IH [of s1] s1(1) Node by simp
      moreover have "effects [] [slot q] (window_writes q (A + Offset q)) s1 s'"
        using ProgramPpb_window [of c A s1] np s1(2) Node by simp
      moreover have "set (slots_in cs) \<inter> set [slot q] = {}"
        using c(2) Node np(1) by (auto simp: slots_in_def)
      moreover have "slot ` fst ` set (assigned_in (A + Offset q) cs) \<subseteq> set (slots_in cs)"
        using assigned_slots by (fastforce simp: assigned_in_def slots_in_def)
      ultimately have "effects (assigned_in (A + Offset q) cs @ []) (slots_in cs @ [slot q])
          (writes_in (bar_at s) (A + Offset q) cs @ window_writes q (A + Offset q)) s s'"
        by (rule effects_append)
      then have "effects (assigned_in (A + Offset q) cs) (slots c)
          (writes_in (bar_at s) (A + Offset q) cs @ window_writes q (A + Offset q)) s s'"
        unfolding append_Nil2 by (rule effects_more) (use Node np in \<open>auto simp: slots_in_def\<close>)
      then show ?thesis using Node np False by (simp add: assigned_in_def writes_in_def)
    qed
  qed
qed

lemma program_effects:
  "\<forall>c \<in> set (ChildList n). bridged c \<Longrightarrow> distinct (slots_in (ChildList n)) \<Longrightarrow>
     \<forall>c \<in> set (ChildList n). \<forall>r \<in> set (leaves c). programmable s r \<Longrightarrow>
     ProgramResource rd A n s = (EFI_SUCCESS, s') \<Longrightarrow>
     effects (assigned_in A (ChildList n)) (slots_in (ChildList n)) (writes_in (bar_at s) A (ChildList n)) s s'"
proof (induction n arbitrary: A s s')
  case (Node q cs)
  have p: "program_nodes rd A cs s = (EFI_SUCCESS, s')" using Node.prems(4) by (auto split: if_splits)
  have "effects (assigned_in A ds) (slots_in ds) (writes_in (bar_at s) A ds) s s'"
    if "program_nodes rd A ds s = (EFI_SUCCESS, s')" "set ds \<subseteq> set cs" "distinct (slots_in ds)"
      "\<forall>c \<in> set ds. \<forall>r \<in> set (leaves c). programmable s r" for ds s
    using that
  proof (induction ds arbitrary: s)
    case Nil
    then show ?case by (simp add: effects_refl)
  next
    case (Cons c ds)
    have c: "bridged c" "c \<in> set cs" using Node.prems(1) Cons.prems(2) by auto
    obtain s1 where s1: "program_node rd A c s = (EFI_SUCCESS, s1)" "program_nodes rd A ds s1 = (EFI_SUCCESS, s')"
      using Cons.prems(1) unfolding program_nodes_Cons by (auto split: prod.splits if_splits simp: EFI_ERROR_def)
    have d: "distinct (slots c)" "distinct (slots_in ds)" "set (slots c) \<inter> set (slots_in ds) = {}"
      using Cons.prems(3) by auto
    have dc: "distinct (slots_in (ChildList c))" if "\<not> padding c"
      using d(1) that by (cases c) (auto simp: slots_in_def)
    have ec: "effects (assigned A c) (slots c) (tree_writes (bar_at s) A c) s s1"
    proof (rule program_node_effects [OF c(1) d(1) _ s1(1)])
      show "\<forall>r \<in> set (leaves c). programmable s r" using Cons.prems(4) by simp
      fix s2 assume r: "ProgramResource rd (A + off c) c s = (EFI_SUCCESS, s2)"
      show "effects (assigned_in (A + off c) (ChildList c)) (slots_in (ChildList c)) (writes_in (bar_at s) (A + off c) (ChildList c)) s s2"
      proof (cases "ChildList c = []")
        case True
        then have "s2 = s" using r by (cases c) (auto split: if_splits)
        then show ?thesis using True by (simp add: effects_refl)
      next
        case False
        then have "\<not> padding c" using c(1) by (cases c) auto
        moreover have "\<forall>x \<in> set (ChildList c). \<forall>r \<in> set (leaves x). programmable s r"
          using Cons.prems(4) False calculation by (cases c) auto
        moreover have "\<forall>x \<in> set (ChildList c). bridged x" using c(1) by (cases c) simp
        ultimately show ?thesis using Node.IH [OF c(2) _ dc _ r] by simp
      qed
    qed
    have "effects (assigned_in A ds) (slots_in ds) (writes_in (bar_at s1) A ds) s1 s'"
      by (rule Cons.IH [OF s1(2)]) (use Cons.prems(2,4) d(2) effects_programmable [OF ec] in auto)
    then have "effects (assigned_in A ds) (slots_in ds) (writes_in (bar_at s) A ds) s1 s'"
      using same_regs_in [of "bar_at s1" "bar_at s" A ds] ec by (simp add: effects_def)
    then show ?case
      using effects_append [OF ec _ d(3) assigned_slots] by simp
  qed
  then show ?case using p Node.prems(2,3) by simp
qed

end
