(* ===== verification/PciWindows.thy ===== *)
theory PciWindows
  imports PciProgram
begin

text \<open>
  The windows of PCI-PCI bridges: what the base and limit registers decode after
  \<open>ProgramPpbApperture\<close>, by the register layout of the PCI-to-PCI bridge architecture, is the
  range that was allocated.
\<close>

section \<open>Registers\<close>

text \<open>The last value written to a register, in its width.\<close>

definition last_write :: "prog_state \<Rightarrow> nat \<Rightarrow> u32 \<Rightarrow> u32" where
  "last_write s i r = (case filter (\<lambda>(j, r', _, _). j = i \<and> r' = r) (rev (Config s)) of
     [] \<Rightarrow> 0 | (_, _, w, v) # _ \<Rightarrow> take_bit (8 * w) v)"

lemma last_write_simps [simp]:
  "last_write (pci_write j r' w v s) i r = (if j = i \<and> r' = r then take_bit (8 * w) v else last_write s i r)"
  "last_write (set_bar j k f s) i r = last_write s i r"
  "last_write (mark j s) i r = last_write s i r"
  by (simp_all add: last_write_def pci_write_def set_bar_def mark_def)

text \<open>The first and the last address that a bridge forwards, from its window registers: IO in units of
  4 KB, memory in units of 1 MB; the low bits of the limit are ones.\<close>

definition io_window :: "prog_state \<Rightarrow> nat \<Rightarrow> u32 \<times> u32" where
  "io_window s i =
     (push_bit 12 (drop_bit 4 (last_write s i 0x1C)) OR push_bit 16 (last_write s i 0x30),
      push_bit 12 (drop_bit 4 (last_write s i 0x1D)) OR push_bit 16 (last_write s i 0x32) OR mask 12)"

definition mem_window :: "prog_state \<Rightarrow> nat \<Rightarrow> u32 \<times> u32" where
  "mem_window s i =
     (push_bit 20 (drop_bit 4 (last_write s i 0x20)), push_bit 20 (drop_bit 4 (last_write s i 0x22)) OR mask 20)"

definition pmem_window :: "prog_state \<Rightarrow> nat \<Rightarrow> u64 \<times> u64" where
  "pmem_window s i =
     (push_bit 20 (ucast (drop_bit 4 (last_write s i 0x24))) OR push_bit 32 (ucast (last_write s i 0x28)),
      push_bit 20 (ucast (drop_bit 4 (last_write s i 0x26))) OR push_bit 32 (ucast (last_write s i 0x2C)) OR mask 20)"

section \<open>Fields of an address\<close>

lemma io_fields:
  fixes a :: u32
  shows "push_bit 12 (drop_bit 4 (take_bit 8 (drop_bit 8 a))) OR push_bit 16 (take_bit 16 (drop_bit 8 (drop_bit 8 a))) =
    a AND NOT (mask 12)"
proof (rule bit_word_eqI)
  fix n
  show "bit (push_bit 12 (drop_bit 4 (take_bit 8 (drop_bit 8 a))) OR
      push_bit 16 (take_bit 16 (drop_bit 8 (drop_bit 8 a)))) n = bit (a AND NOT (mask 12)) n"
    by (cases "16 \<le> n") (auto simp: bit_simps not_less)
qed

lemma mem_fields:
  fixes a :: u32
  shows "push_bit 20 (drop_bit 4 (take_bit 16 (drop_bit 16 a))) = a AND NOT (mask 20)"
  by (rule bit_word_eqI) (auto simp: bit_simps not_less)

lemma pmem_fields:
  fixes a :: u64
  shows "push_bit 20 (ucast (drop_bit 4 (take_bit 16 (drop_bit 16 (low32 a))))) OR
      push_bit 32 (ucast (take_bit 32 (high32 a))) = a AND NOT (mask 20)"
proof (rule bit_word_eqI)
  fix n
  show "bit (push_bit 20 (ucast (drop_bit 4 (take_bit 16 (drop_bit 16 (low32 a)))) :: u64) OR
      push_bit 32 (ucast (take_bit 32 (high32 a)))) n = bit (a AND NOT (mask 20)) n"
    by (cases "32 \<le> n") (auto simp: bit_simps low32_def high32_def not_less)
qed

text \<open>The ends of an aligned range of aligned length.\<close>

lemma take_bit_word_add: "take_bit k (a + b) = take_bit k (take_bit k a + take_bit k b :: 'a::len word)"
  by transfer (metis take_bit_add take_bit_take_bit min.commute)

lemma aligned_end:
  fixes a :: "'a::len word"
  assumes "take_bit k a = 0" "take_bit k l = 0"
  shows "take_bit k (a + l - 1) = take_bit k (- 1)"
proof -
  have "take_bit k (a + l) = 0" using assms take_bit_word_add [of k a l] by simp
  then show ?thesis using take_bit_word_add [of k "a + l" "- 1"] by simp
qed


text \<open>A field without its low bits, when these are known.\<close>

lemma and_not_mask_zero:
  assumes "take_bit k a = 0"
  shows "a AND NOT (mask k) = (a :: 'a::len word)"
proof (rule bit_word_eqI)
  fix n assume "n < LENGTH('a)"
  then have "n < k \<Longrightarrow> \<not> bit a n" using arg_cong [OF assms, of "\<lambda>x. bit x n"] by (simp add: bit_simps)
  then show "bit (a AND NOT (mask k)) n = bit a n"
    using \<open>n < LENGTH('a)\<close> by (auto simp: bit_simps)
qed

lemma and_not_mask_ones:
  assumes "take_bit k a = take_bit k (- 1)"
  shows "a AND NOT (mask k) OR mask k = (a :: 'a::len word)"
proof (rule bit_word_eqI)
  fix n assume "n < LENGTH('a)"
  then have "n < k \<Longrightarrow> bit a n" using arg_cong [OF assms, of "\<lambda>x. bit x n"] by (simp add: bit_simps)
  then show "bit (a AND NOT (mask k) OR mask k) n = bit a n"
    using \<open>n < LENGTH('a)\<close> by (auto simp: bit_simps)
qed

lemma take_bit_low32:
  "take_bit k (low32 a) = low32 (take_bit k a)"
  by (rule bit_word_eqI) (auto simp: low32_def bit_simps)

lemma low32_simps [simp]: "low32 0 = 0" "low32 (mask k) = mask k"
  by (simp add: low32_def) (rule bit_word_eqI, auto simp: low32_def bit_simps)

text \<open>The ranges of the three kinds of window.\<close>

lemma io_window_decodes:
  assumes n: "Bar (res n) = PPB_IO_RANGE" "len n \<noteq> 0" "\<not> padding n"
    and a: "take_bit 12 (Base + off n) = 0" "take_bit 12 (len n) = 0"
  shows "io_window (ProgramPpbApperture Base n s) (dev_id n) =
    (low32 (Base + off n), low32 (Base + off n + len n - 1))"
proof -
  let ?a = "low32 (Base + off n)" and ?l = "low32 (Base + off n + len n - 1)"
  have "take_bit 12 ?a = 0" using a(1) by (simp add: take_bit_low32)
  moreover have "take_bit 12 ?l = take_bit 12 (- 1)"
    using aligned_end [OF a] by (simp add: take_bit_low32)
  ultimately have "?a AND NOT (mask 12) = ?a" "?l AND NOT (mask 12) OR mask 12 = ?l"
    by (simp_all only: and_not_mask_zero and_not_mask_ones)
  then show ?thesis
    using n(2,3) by (simp add: ProgramPpbApperture_def Let_def n(1) io_window_def io_fields regs
        or.assoc [symmetric] del: drop_bit_drop_bit)
qed

lemma mem_window_decodes:
  assumes n: "Bar (res n) = PPB_MEM32_RANGE" "len n \<noteq> 0" "\<not> padding n"
    and a: "take_bit 20 (Base + off n) = 0" "take_bit 20 (len n) = 0"
  shows "mem_window (ProgramPpbApperture Base n s) (dev_id n) =
    (low32 (Base + off n), low32 (Base + off n + len n - 1))"
proof -
  let ?a = "low32 (Base + off n)" and ?l = "low32 (Base + off n + len n - 1)"
  have "take_bit 20 ?a = 0" using a(1) by (simp add: take_bit_low32)
  moreover have "take_bit 20 ?l = take_bit 20 (- 1)"
    using aligned_end [OF a] by (simp add: take_bit_low32)
  ultimately have "?a AND NOT (mask 20) = ?a" "?l AND NOT (mask 20) OR mask 20 = ?l"
    by (simp_all only: and_not_mask_zero and_not_mask_ones)
  then show ?thesis
    using n(2,3) by (simp add: ProgramPpbApperture_def Let_def n(1) mem_window_def mem_fields regs)
qed

lemma pmem_window_decodes:
  assumes n: "Bar (res n) = PPB_PMEM32_RANGE \<or> Bar (res n) = PPB_PMEM64_RANGE" "len n \<noteq> 0" "\<not> padding n"
    and a: "take_bit 20 (Base + off n) = 0" "take_bit 20 (len n) = 0"
  shows "pmem_window (ProgramPpbApperture Base n s) (dev_id n) = (Base + off n, Base + off n + len n - 1)"
proof -
  let ?a = "Base + off n" and ?l = "Base + off n + len n - 1"
  have "take_bit 20 ?l = take_bit 20 (- 1)" by (rule aligned_end [OF a])
  then have "?a AND NOT (mask 20) = ?a" "?l AND NOT (mask 20) OR mask 20 = ?l"
    using a(1) by (simp_all only: and_not_mask_zero and_not_mask_ones)
  moreover have "Bar (res n) \<noteq> PPB_BAR_0 \<and> Bar (res n) \<noteq> PPB_BAR_1 \<and> Bar (res n) \<noteq> PPB_IO_RANGE \<and>
      Bar (res n) \<noteq> PPB_MEM32_RANGE"
    using n(1) by (auto simp: regs)
  ultimately show ?thesis
    using n by (simp add: ProgramPpbApperture_def Let_def pmem_window_def pmem_fields or.assoc [symmetric])
qed

end
