(* ===== verification/PciAllocation.thy ===== *)
theory PciAllocation
  imports PciConserve PciEffects PciWindows
begin

text \<open>
  The theorems on the allocation of PCI resources, over PciResourceSupport.c as a whole: what
  \<open>CreateResourceMap\<close> and \<open>ProgramResource\<close> together guarantee of the addresses of BARs and
  windows.
\<close>

section \<open>An example\<close>

text \<open>A root bridge with a network controller (32 bit memory, IO) and a PCI-PCI bridge with a
  controller (64 bit memory, 32 bit prefetchable memory).\<close>

definition no_bar :: PCI_BAR where
  "no_bar = \<lparr> BaseAddress = 0, BarLength = 0, BarAlignment = 0, BarType = PciBarTypeUnknown,
     BarTypeFixed = False, BarOffset = 0 \<rparr>"

definition sample_bar :: "PCI_BAR_TYPE \<Rightarrow> u64 \<Rightarrow> u16 \<Rightarrow> PCI_BAR" where
  "sample_bar ty l Off = no_bar\<lparr> BarType := ty, BarLength := l, BarAlignment := l - 1, BarOffset := Off \<rparr>"

definition sample_device :: "nat \<Rightarrow> u8 \<Rightarrow> PCI_BAR list \<Rightarrow> PCI_IO_DEVICE" where
  "sample_device i h bs = \<lparr> Identity = i, VendorId = 0x8086, DeviceId = 0x1000, HeaderType = h, BusNumber = 0,
     DeviceNumber = of_nat i, FunctionNumber = 0, PciBar = bs, VfPciBar = replicate 6 no_bar, HasParent = i \<noteq> 0,
     Decodes = (if h = 1 then 0x4F else 0x6F), RomSize = 0, ResourcePaddingDescriptors = None, BridgeIoAlignment = 0xFFF,
     SrIovCapabilityOffset = 0, SystemPageSize = 0, InitialVFs = 0 \<rparr>"

definition sample_nic :: PCI_IO_DEVICE where
  "sample_nic = sample_device 1 0 [sample_bar PciBarTypeMem32 0x20000 0x10, sample_bar PciBarTypeIo16 0x20 0x14,
     no_bar, no_bar, no_bar, no_bar]"

definition sample_ctrl :: PCI_IO_DEVICE where
  "sample_ctrl = sample_device 3 0 [sample_bar PciBarTypeMem64 0x4000 0x10, no_bar,
     sample_bar PciBarTypePMem32 0x1000 0x18, no_bar, no_bar, no_bar]"

definition sample_ppb :: PCI_IO_DEVICE where
  "sample_ppb = sample_device 2 1 (replicate 6 no_bar)"

definition sample_root :: pci_device where
  "sample_root = PciDevice (sample_device 0 0 (replicate 6 no_bar))
     [PciDevice sample_nic [], PciDevice sample_ppb [PciDevice sample_ctrl []]]"

definition sample_env :: pci_env where
  "sample_env = \<lparr> PlatformPolicy = None, OverridePolicy = None, EFI_RESERVE_ISA_IO_ALIAS = 1,
     EFI_RESERVE_VGA_IO_ALIAS = 2, PcdPciDegradeResourceForOptionRom = True, UintnIs32 = False,
     PchUsbDegradeBar = 0, BarTypeFixedBeyond = (\<lambda>_ _. False) \<rparr>"

definition sample_state :: map_state where
  "sample_state = \<lparr> Policy = \<lparr> mReserveIsaAliases = False, mReserveVgaAliases = False, mPolicyDetermined = False \<rparr>,
     Allocated = {} \<rparr>"

definition sample_nodes :: res_nodes where
  "sample_nodes = bridge_nodes (sample_device 0 0 (replicate 6 no_bar))"

lemmas sample_defs = no_bar_def sample_bar_def sample_device_def sample_nic_def sample_ctrl_def sample_ppb_def
  sample_root_def sample_env_def sample_state_def sample_nodes_def

lemma sample_fresh: "fresh sample_nodes"
  unfolding sample_nodes_def by (rule fresh_bridge_nodes)

text \<open>The trees of the example.\<close>

definition sample_map :: "pool_id \<Rightarrow> PCI_RESOURCE_NODE" where
  "sample_map k = pool k (fst (CreateResourceMap sample_env sample_root sample_nodes sample_state))"

lemma sample_run: "CreateResourceMap sample_env sample_root sample_nodes sample_state =
    (fst (CreateResourceMap sample_env sample_root sample_nodes sample_state),
     snd (CreateResourceMap sample_env sample_root sample_nodes sample_state))"
  by simp


definition sample_node :: "PCI_IO_DEVICE \<Rightarrow> u64 \<Rightarrow> u64 \<Rightarrow> u64 \<Rightarrow> u8 \<Rightarrow> PCI_BAR_TYPE \<Rightarrow> PCI_RESOURCE_NODE list \<Rightarrow> PCI_RESOURCE_NODE" where
  "sample_node d x l a i ty cs = Node \<lparr> PciDev = d, Alignment = a, Offset = x, Bar = i, ResType = ty, Length = l,
     Reserved = False, ResourceUsage = PciResUsageTypical, Virtual = False \<rparr> cs"

lemma sample_mem32:
  "sample_map PoolMem32 =
     sample_node (dev sample_root) 0 0x200000 0xFFFFF PPB_MEM32_RANGE PciBarTypeMem32
       [sample_node sample_ppb 0 0x100000 0xFFFFF PPB_MEM32_RANGE PciBarTypeMem32
         [sample_node sample_ctrl 0 0x4000 0x3FFF 0 PciBarTypeMem32 []],
        sample_node sample_nic 0x100000 0x20000 0x1FFFF 0 PciBarTypeMem32 []]"
  by code_simp

lemma sample_low_masks:
  "low_mask 0" "low_mask 0x1F" "low_mask 0xFFF" "low_mask 0x3FFF" "low_mask 0x1FFFF" "low_mask 0xFFFFF"
  by code_simp+

lemma sample_align: "low_mask (align (pool k sample_nodes))"
  by (cases k) (simp_all add: sample_nodes_def bridge_nodes_def CreateResourceNode_def sample_device_def sample_low_masks)

lemma sample_masks: "\<forall>d \<in> set (all_devs sample_root). dev_masks d"
  by (simp add: sample_defs dev_masks_def sample_low_masks)

lemma sample_policy: "\<not> vga_only (determine_policy sample_env (Policy sample_state))"
  by code_simp

lemma sample_slack: "alias_slack (determine_policy sample_env (Policy sample_state)) n = 0"
  by (simp add: alias_slack_def determine_policy_def sample_state_def sample_env_def)

lemma sample_weight: "weight (determine_policy sample_env (Policy sample_state)) (sample_map PoolMem32) < 2 ^ 64"
  by (simp add: sample_mem32 sample_node_def sample_slack)

section \<open>The guarantees\<close>

text \<open>C1: After CreateResourceMap has built the resource trees of a root bridge from empty ones,
  placing any of the five trees at an aligned base puts every BAR and every bridge window inside
  the window of the bridge above it, clear of its siblings, and no two BARs of the whole tree
  overlap: for any tree of devices with power of two alignments whose requests fit in 64 bits,
  however deeply nested, whatever has been degraded or merged, as long as the policy for the VGA
  ports is off (with it there is an overlap, see the findings). Padding nodes get no offset and
  are not placed.\<close>

theorem resources_disjoint:
  assumes "CreateResourceMap e t N s = (N', s')" "fresh N"
    and "\<forall>d \<in> set (all_devs t). dev_masks d" "low_mask (align (pool k N))"
    and "p = determine_policy e (Policy s)" "\<not> vga_only p" "weight p (pool k N') < 2 ^ 64"
    and "Base AND align (pool k N') = 0" "unat Base + unat (len (pool k N')) < 2 ^ 64"
  shows "well_placed Base (pool k N') \<and>
    apart (unat Base) (unat Base + unat (len (pool k N'))) (assigned_in Base (ChildList (pool k N')))"
  using map_lays [OF assms(1-7)] assms(8,9) by (simp add: well_placed_laid tree_apart)

theorem resources_disjoint_witness:
  "well_placed 0x80000000 (sample_map PoolMem32) \<and> apart 0x80000000 (0x80000000 + unat (len (sample_map PoolMem32)))
     (assigned_in 0x80000000 (ChildList (sample_map PoolMem32))) \<and>
   map (\<lambda>(r, a). (Identity (PciDev r), Bar r, a)) (assigned_in 0x80000000 (ChildList (sample_map PoolMem32))) =
     [(3, 0, 0x80000000), (1, 0, 0x80100000)]"
proof -
  have "(0x80000000 :: u64) AND align (sample_map PoolMem32) = 0"
    "unat (0x80000000 :: u64) + unat (len (sample_map PoolMem32)) < 2 ^ 64"
    by (simp_all add: sample_mem32 sample_node_def)
  then have "well_placed 0x80000000 (sample_map PoolMem32) \<and>
      apart 0x80000000 (0x80000000 + unat (len (sample_map PoolMem32))) (assigned_in 0x80000000 (ChildList (sample_map PoolMem32)))"
    using resources_disjoint [OF sample_run sample_fresh sample_masks sample_align refl sample_policy,
        of PoolMem32 "0x80000000"] sample_weight by (simp add: sample_map_def)
  moreover have "map (\<lambda>(r, a). (Identity (PciDev r), Bar r, a)) (assigned_in 0x80000000 (ChildList (sample_map PoolMem32))) =
     [(3, 0, 0x80000000), (1, 0, 0x80100000)]"
    by (simp add: sample_mem32 sample_node_def sample_defs)
  ultimately show ?thesis by simp
qed

text \<open>C7: CreateResourceMap loses and invents no request: the five trees hold, as a multiset,
  exactly the requests of the BARs and virtual function BARs (device, BAR, length and
  alignment), of the hot plug descriptors of bridges and of CardBus bridges (padding, length and
  alignment) of all the devices below the root bridge.\<close>

theorem resources_conserved:
  assumes "CreateResourceMap e t N s = (N', s')" "fresh N"
  shows "pool_requests N' = mset (tree_requests t)"
proof -
  have "pool_requests N = {#}" "typed_roots N"
    using assms(2) by (simp_all add: fresh_def pool_requests_def all_pools)
  then show ?thesis using map_conserves(1) [OF assms(1)] by simp
qed

theorem resources_conserved_witness:
  "pool_requests (fst (CreateResourceMap sample_env sample_root sample_nodes sample_state)) = mset (tree_requests sample_root) \<and>
   tree_requests sample_root =
     [BarRequest sample_nic False 0 0x20000 0x1FFFF, BarRequest sample_nic False 1 0x20 0x1F,
      BarRequest sample_ctrl False 0 0x4000 0x3FFF, BarRequest sample_ctrl False 2 0x1000 0xFFF]"
proof
  show "pool_requests (fst (CreateResourceMap sample_env sample_root sample_nodes sample_state)) = mset (tree_requests sample_root)"
    by (rule resources_conserved [OF sample_run sample_fresh])
qed code_simp

text \<open>A bridge that pads for hot plug and a CardBus bridge below it.\<close>

definition sample_hotplug :: pci_device where
  "sample_hotplug = PciDevice ((sample_device 0 0 (replicate 6 no_bar))\<lparr> ResourcePaddingDescriptors := Some
       [\<lparr> Desc = 0x8A, DescResType = 0, SpecificFlag = 6, AddrSpaceGranularity = 64, AddrRangeMax = 0xFFFFFF, AddrTranslationOffset = 0, AddrLen = 0x1000000 \<rparr>] \<rparr>)
     [PciDevice (sample_device 1 2 (replicate 6 no_bar)) []]"

lemma hotplug_conserved:
  "pool_requests (fst (CreateResourceMap sample_env sample_hotplug sample_nodes sample_state)) =
     {# PaddingRequest (dev sample_hotplug) 0 0x1000000 0xFFFFFF #} + mset (cardbus_requests (dev (hd (devices sample_hotplug))))"
proof -
  have "tree_requests sample_hotplug =
      PaddingRequest (dev sample_hotplug) 0 0x1000000 0xFFFFFF # cardbus_requests (dev (hd (devices sample_hotplug)))"
    by code_simp
  moreover have "pool_requests (fst (CreateResourceMap sample_env sample_hotplug sample_nodes sample_state)) = mset (tree_requests sample_hotplug)"
    using map_conserves(1) [of sample_env sample_hotplug sample_nodes sample_state] sample_fresh
    by (cases "CreateResourceMap sample_env sample_hotplug sample_nodes sample_state")
      (simp add: fresh_def pool_requests_def all_pools)
  ultimately show ?thesis by simp
qed

text \<open>C27: Every tree of the resource map holds only BARs that its address range can serve: the IO
  tree IO BARs, the 32 bit non-prefetchable tree any memory BAR, the others memory BARs of their
  width and prefetchability or ones that may be degraded into them.\<close>

theorem bars_served:
  assumes "CreateResourceMap e t N s = (N', s')" "fresh N"
  shows "(\<lambda>r. BarType (bar_of r)) ` set (concat (map leaves (ChildList (pool k N')))) \<subseteq> serves k"
  using map_serves [OF assms] by auto

theorem bars_served_witness:
  "(\<lambda>r. BarType (bar_of r)) ` set (concat (map leaves (ChildList (sample_map PoolMem32)))) \<subseteq> serves PoolMem32 \<and>
   map (\<lambda>r. (Identity (PciDev r), BarType (bar_of r))) (concat (map leaves (ChildList (sample_map PoolMem32)))) =
     [(3, PciBarTypeMem64), (1, PciBarTypeMem32)]"
proof
  show "(\<lambda>r. BarType (bar_of r)) ` set (concat (map leaves (ChildList (sample_map PoolMem32)))) \<subseteq> serves PoolMem32"
    using bars_served [OF sample_run sample_fresh, of PoolMem32] by (simp add: sample_map_def)
  show "map (\<lambda>r. (Identity (PciDev r), BarType (bar_of r))) (concat (map leaves (ChildList (sample_map PoolMem32)))) =
     [(3, PciBarTypeMem64), (1, PciBarTypeMem32)]"
    by (simp add: sample_mem32 sample_node_def sample_defs bar_of_def)
qed


text \<open>C16: ProgramResource on a laid out resource tree without CardBus bridges that fits below the
  end of the address space succeeds and writes to the configuration space exactly: for every BAR
  in the tree the base of the tree plus the offsets of the nodes above it, to the offset of the
  BAR in its device and, for 64 bit BARs, the upper half behind it; for every bridge window its
  base and limit registers; in the order of the tree and nothing else. The BAR records follow,
  and those of no other device change. The BARs are distinct ones of the devices, with offsets
  inside the header.\<close>

theorem program_sets_bars:
  assumes "masks b" "laid_tree b" "Base AND align b = 0" "unat Base + unat (len b) < 2 ^ 64 - 1"
    and "\<forall>c \<in> set (ChildList b). bridged c" "distinct (slots_in (ChildList b))"
    and "\<forall>r \<in> set (concat (map leaves (ChildList b))). programmable s r"
    and "ProgramResource rd Base b s = (Status, s')"
  shows "Status = EFI_SUCCESS \<and>
    (\<forall>(r, a) \<in> set (assigned_in Base (ChildList b)). BaseAddress (bar_at s' (slot r)) = a) \<and>
    (\<forall>x. x \<notin> set (slots_in (ChildList b)) \<longrightarrow> bar_at s' x = bar_at s x) \<and>
    Config s' = Config s @ writes_in (bar_at s) Base (ChildList b)"
proof -
  have st: "Status = EFI_SUCCESS" using program_status [OF assms(1-4), of rd s] assms(8) by simp
  have "effects (assigned_in Base (ChildList b)) (slots_in (ChildList b)) (writes_in (bar_at s) Base (ChildList b)) s s'"
    using program_effects [OF assms(5,6) _ assms(8) [unfolded st]] assms(7) by simp
  then show ?thesis using st by (simp add: effects_def)
qed

definition sample_prog :: prog_state where
  "sample_prog = \<lparr> Config = [], Device = (\<lambda>i. [sample_device 0 0 (replicate 6 no_bar), sample_nic, sample_ppb, sample_ctrl] ! i),
     Marked = {} \<rparr>"

lemma sample_tree:
  "masks (sample_map PoolMem32)" "laid_tree (sample_map PoolMem32)"
  "\<forall>c \<in> set (ChildList (sample_map PoolMem32)). bridged c"
  "distinct (slots_in (ChildList (sample_map PoolMem32)))"
  "\<forall>r \<in> set (concat (map leaves (ChildList (sample_map PoolMem32)))). programmable sample_prog r"
  unfolding sample_mem32
  by (simp_all add: sample_node_def sample_low_masks IS_CARDBUS_BRIDGE_def IS_PCI_BRIDGE_def sample_defs regs
      slot_def programmable_def sample_prog_def bar_list_def bar_at_def)

theorem program_sets_bars_witness:
  "fst (ProgramResource (\<lambda>_ _ _. 0) 0x80000000 (sample_map PoolMem32) sample_prog) = EFI_SUCCESS \<and>
   BaseAddress (PciBar (Device (snd (ProgramResource (\<lambda>_ _ _. 0) 0x80000000 (sample_map PoolMem32) sample_prog)) 3) ! 0) =
     0x80000000 \<and>
   Config (snd (ProgramResource (\<lambda>_ _ _. 0) 0x80000000 (sample_map PoolMem32) sample_prog)) =
     [(3, 0x10, 4, 0x80000000), (3, 0x14, 4, 0), (2, 0x20, 2, 0x8000), (2, 0x22, 2, 0x800F), (1, 0x10, 4, 0x80100000)]"
proof -
  let ?r = "ProgramResource (\<lambda>_ _ _. 0) 0x80000000 (sample_map PoolMem32) sample_prog"
  have "(0x80000000 :: u64) AND align (sample_map PoolMem32) = 0"
    "unat (0x80000000 :: u64) + unat (len (sample_map PoolMem32)) < 2 ^ 64 - 1"
    by (simp_all add: sample_mem32 sample_node_def)
  then have "fst ?r = EFI_SUCCESS \<and> (\<forall>(r, a) \<in> set (assigned_in 0x80000000 (ChildList (sample_map PoolMem32))).
      BaseAddress (bar_at (snd ?r) (slot r)) = a) \<and>
      Config (snd ?r) = Config sample_prog @ writes_in (bar_at sample_prog) 0x80000000 (ChildList (sample_map PoolMem32))"
    using program_sets_bars [OF sample_tree(1,2) _ _ sample_tree(3,4,5), of "0x80000000" "\<lambda>_ _ _. 0" "fst ?r" "snd ?r"]
    by simp
  moreover have "writes_in (bar_at sample_prog) 0x80000000 (ChildList (sample_map PoolMem32)) =
      [(3, 0x10, 4, 0x80000000), (3, 0x14, 4, 0), (2, 0x20, 2, 0x8000), (2, 0x22, 2, 0x800F), (1, 0x10, 4, 0x80100000)]"
    by (simp add: sample_mem32 sample_node_def slot_def bar_at_def bar_list_def sample_prog_def sample_defs
        bar_writes_def window_writes_def Let_def regs)
  moreover have "Config sample_prog = []" by (simp add: sample_prog_def)
  ultimately show ?thesis
    by (simp add: sample_mem32 sample_node_def slot_def bar_at_def bar_list_def sample_ctrl_def sample_device_def)
qed

text \<open>C26: The base and limit registers that ProgramPpbApperture writes, decoded as the PCI bridge
  specification says, give exactly the range of the node, for IO, memory and prefetchable memory
  windows of the granularity of the bridge.\<close>

theorem windows_decode:
  assumes "len n \<noteq> 0" "\<not> padding n" "g = (if Bar (res n) = PPB_IO_RANGE then 12 else 20)"
    and "take_bit g (Base + off n) = 0" "take_bit g (len n) = 0"
    and "s' = ProgramPpbApperture Base n s" "First = Base + off n" "Last = Base + off n + len n - 1"
  shows "(Bar (res n) = PPB_IO_RANGE \<longrightarrow> io_window s' (dev_id n) = (low32 First, low32 Last)) \<and>
    (Bar (res n) = PPB_MEM32_RANGE \<longrightarrow> mem_window s' (dev_id n) = (low32 First, low32 Last)) \<and>
    (Bar (res n) = PPB_PMEM32_RANGE \<or> Bar (res n) = PPB_PMEM64_RANGE \<longrightarrow> pmem_window s' (dev_id n) = (First, Last))"
proof -
  have "PPB_MEM32_RANGE \<noteq> PPB_IO_RANGE" "PPB_PMEM32_RANGE \<noteq> PPB_IO_RANGE" "PPB_PMEM64_RANGE \<noteq> PPB_IO_RANGE"
    by (simp_all add: regs)
  then show ?thesis
    using assms io_window_decodes [of n Base s] mem_window_decodes [of n Base s] pmem_window_decodes [of n Base s]
    by (auto split: if_splits)
qed

theorem windows_decode_witness:
  "mem_window (ProgramPpbApperture 0x80000000 (hd (ChildList (sample_map PoolMem32))) sample_prog) 2 =
     (0x80000000, 0x800FFFFF)"
  using windows_decode [of "hd (ChildList (sample_map PoolMem32))" 20 "0x80000000" _ sample_prog, OF _ _ _ _ _ refl refl refl]
  by (simp add: sample_mem32 sample_node_def sample_ppb_def sample_device_def regs take_bit_eq_mask mask_numeral low32_def)

theorem degrade_empties:
  assumes "N' = DegradeResource e Bridge ds N"
    and "\<not> BridgeSupportResourceDecode Bridge EFI_BRIDGE_PMEM_MEM_COMBINE_SUPPORTED"
  shows "(HasParent Bridge \<or> UintnIs32 e \<longrightarrow> ChildList (PMem32Node N') = [] \<or> ChildList (PMem64Node N') = []) \<and>
    (\<not> BridgeSupportResourceDecode Bridge EFI_BRIDGE_MEM64_DECODE_SUPPORTED \<longrightarrow> ChildList (Mem64Node N') = []) \<and>
    (\<not> BridgeSupportResourceDecode Bridge EFI_BRIDGE_PMEM64_DECODE_SUPPORTED \<longrightarrow> ChildList (PMem64Node N') = []) \<and>
    (\<not> BridgeSupportResourceDecode Bridge EFI_BRIDGE_PMEM32_DECODE_SUPPORTED \<longrightarrow> ChildList (PMem32Node N') = [])"
  using assms(2)
  by (auto simp: assms(1) DegradeResource_def Let_def merge_mem64_mem32_def merge_pmem64_pmem32_def
      merge_pmem32_mem32_def MergeResourceTree_def)


theorem degrade_empties_witness:
  "ChildList (Mem64Node (DegradeResource sample_env sample_ppb [sample_ctrl]
     (insert_pool PoolMem64 (CreateResourceNode sample_ctrl 0x4000 0x3FFF 0 PciBarTypeMem64 PciResUsageTypical)
       (bridge_nodes sample_ppb)))) = []"
  using degrade_empties [OF refl, of sample_ppb sample_env "[sample_ctrl]"]
  by (simp add: BridgeSupportResourceDecode_def sample_ppb_def sample_device_def regs)

section \<open>The reserved IO ranges\<close>

text \<open>C35: With the ISA alias policy CalculateApertureIo16 places every IO BAR of up to 256 bytes of
  a device so that each of its ports lies in the first 256 of a block of 1024, where no ISA
  device answers.\<close>

theorem isa_aliases_avoided:
  assumes "CalculateApertureIo16 e b p = (b', p')" "mReserveIsaAliases p'"
    and "mask_nodes (ChildList b)" "room (alias_slack p') (ChildList b) < 2 ^ 64"
    and n: "n \<in> set (ChildList b')" "\<not> padding n" "\<not> IS_PCI_BRIDGE (PciDev (res n))" "\<not> IS_CARDBUS_BRIDGE (PciDev (res n))"
    and l: "len n \<le> 0x100" "unat (len n) \<le> unat (align n) + 1"
    and x: "x < unat (len n)"
  shows "(unat (off n) + x) mod 0x400 < 0x100"
proof -
  let ?p = "p'\<lparr>mReserveVgaAliases := False\<rparr>"
  have v: "\<not> vga_only p'" using assms(2) by (simp add: vga_only_def)
  note isa = skip_aliases_isa [OF v]
  obtain ns a q where r: "place_nodes (skip_aliases p') (ChildList b) 0 0 = (ns, a, q)" by (metis prod_cases3)
  have p': "p' = determine_policy e p"
    using assms(1) by (simp add: CalculateApertureIo16_def Let_def split: prod.splits)
  have b': "ChildList b' = ns"
    using assms(1) r by (auto simp: CalculateApertureIo16_def Let_def p')
  obtain m c where m: "n = upd (\<lambda>r. r\<lparr> Offset := skip_aliases p' m c \<rparr>) m" "c AND align m = 0"
      "unat c + alias_slack p' m < 2 ^ 64" "m \<in> set (ChildList b)"
    using isa.place_nodes_offset [of "ChildList b" 0 p' 0 ns a q n] assms(3,4) n(1,2) r b'
    by (auto simp flip: isa)
  have "low_mask (align m)" using assms(3) m(4) by (auto simp: mask_nodes_def)
  moreover have f: "len n = len m" "align n = align m" "PciDev (res n) = PciDev (res m)" "off n = skip_aliases p' m c"
    unfolding m(1) by simp_all
  moreover have "0 < len m" using x f(1) by (metis not_less0 unat_0 word_gt_0)
  ultimately show ?thesis
    using skip_isa_avoids [OF assms(2), of m c x] n(3,4) l x m(2,3) by simp
qed

definition isa_policy :: "bool \<Rightarrow> io_policy" where
  "isa_policy isa = \<lparr> mReserveIsaAliases = isa, mReserveVgaAliases = \<not> isa, mPolicyDetermined = True \<rparr>"

definition sample_io :: "u64 list \<Rightarrow> PCI_RESOURCE_NODE" where
  "sample_io ls = fold (\<lambda>l b. InsertResourceNode b (CreateResourceNode sample_nic l (l - 1) 0 PciBarTypeIo16 PciResUsageTypical))
     ls (CreateResourceNode sample_ppb 0 0xFFF PPB_IO_RANGE PciBarTypeIo16 PciResUsageTypical)"

lemma sample_io_placed:
  "map (\<lambda>n. (off n, len n)) (ChildList (fst (CalculateApertureIo16 sample_env (sample_io [0x80, 0x100]) (isa_policy True)))) =
     [(0, 0x100), (0x400, 0x80)]"
  by code_simp

theorem isa_aliases_avoided_witness:
  "(unat (off (ChildList (fst (CalculateApertureIo16 sample_env (sample_io [0x80, 0x100]) (isa_policy True))) ! Suc 0)) + 0x7F) mod 0x400 < 0x100"
proof -
  let ?b = "sample_io [0x80, 0x100]"
  let ?n = "ChildList (fst (CalculateApertureIo16 sample_env ?b (isa_policy True))) ! Suc 0"
  have b: "ChildList ?b = [CreateResourceNode sample_nic 0x100 0xFF 0 PciBarTypeIo16 PciResUsageTypical,
      CreateResourceNode sample_nic 0x80 0x7F 0 PciBarTypeIo16 PciResUsageTypical]"
    by (simp add: sample_io_def CreateResourceNode_def stops_before_def)
  have c: "CalculateApertureIo16 sample_env ?b (isa_policy True) =
      (fst (CalculateApertureIo16 sample_env ?b (isa_policy True)), isa_policy True)"
    by (simp add: CalculateApertureIo16_def isa_policy_def Let_def split: prod.splits)
  have pol: "mReserveIsaAliases (isa_policy True)" by (simp add: isa_policy_def)
  have lm: "low_mask 0xFF" "low_mask 0x7F" by code_simp+
  have n: "?n = upd (\<lambda>r. r\<lparr> Offset := 0x400 \<rparr>) (CreateResourceNode sample_nic 0x80 0x7F 0 PciBarTypeIo16 PciResUsageTypical)"
    by code_simp
  have "length (ChildList (fst (CalculateApertureIo16 sample_env ?b (isa_policy True)))) = 2"
    using arg_cong [OF sample_io_placed, of length] by simp
  then have mem: "?n \<in> set (ChildList (fst (CalculateApertureIo16 sample_env ?b (isa_policy True))))" by simp
  show ?thesis
    by (rule isa_aliases_avoided [OF c])
      (use mem in \<open>simp_all add: n b mask_nodes_def lm pol alias_slack_def CreateResourceNode_def
         IS_PCI_BRIDGE_def IS_CARDBUS_BRIDGE_def sample_nic_def sample_device_def regs\<close>)
qed

text \<open>With the VGA alias policy CalculateApertureIo16 gives two IO BARs the same ports:
  SkipVGAAperture moves the start backwards for a range that begins behind the VGA ports in its
  block of 1024.\<close>

theorem vga_skip_overlaps:
  "map (\<lambda>n. (off n, len n)) (ChildList (fst (CalculateApertureIo16 sample_env
      (sample_io [0x200, 0x100, 0x80, 0x20, 0x10, 0x10, 0x10]) (isa_policy False)))) =
   [(0, 0x200), (0x200, 0x100), (0x300, 0x80), (0x380, 0x20), (0x3A0, 0x10), (0x3E0, 0x10), (0x3E0, 0x10)]"
  by code_simp

end
