(* ===== verification/PciBars.thy ===== *)
theory PciBars
  imports PciAllocation
begin

text \<open>
  How the PCI bus driver learns the BARs of a device, PciEnumeratorSupport.c of the platform's
  PciBusDxe: writing all ones to a BAR register and reading it back (\<open>BarExisted\<close>), the size,
  type and alignment that follow (\<open>PciParseBar\<close>, \<open>PciIovParseVfBar\<close>), and the corrections for
  incompatible devices (\<open>UpdatePciInfo\<close>, \<open>SetNewAlign\<close>).
\<close>

section \<open>Configuration space\<close>

text \<open>The double words of the configuration space of a device; what a register holds after a write,
  by its offset, the value written and the value it held, is a parameter.\<close>

type_synonym config = "u32 \<Rightarrow> u32"
type_synonym config_hw = "u32 \<Rightarrow> u32 \<Rightarrow> u32 \<Rightarrow> u32"

definition cfg_write :: "config_hw \<Rightarrow> u32 \<Rightarrow> u32 \<Rightarrow> config \<Rightarrow> config" where
  "cfg_write hw r v c = c(r := hw r v (c r))"

text \<open>The status, the value read back and the original value.\<close>

definition probe_bar :: "config_hw \<Rightarrow> u32 \<Rightarrow> config \<Rightarrow> (efi_status \<times> u32 \<times> u32) \<times> config" where
  "probe_bar hw r c =
     (let OriginalValue = c r;
          c = cfg_write hw r 0xFFFFFFFF c;
          Value = c r;
          c = cfg_write hw r OriginalValue c in
      ((if Value = 0 then EFI_NOT_FOUND else EFI_SUCCESS, Value, OriginalValue), c))"

definition BarExisted :: "config_hw \<Rightarrow> u64 \<Rightarrow> config \<Rightarrow> (efi_status \<times> u32 \<times> u32) \<times> config" where
  "BarExisted hw Off c = probe_bar hw (ucast (ucast Off :: u8)) c"

text \<open>The outputs are not written for a device without the capability: the caller's zeroes stay.\<close>

definition VfBarExisted :: "config_hw \<Rightarrow> PCI_IO_DEVICE \<Rightarrow> u64 \<Rightarrow> config \<Rightarrow> (efi_status \<times> u32 \<times> u32) \<times> config" where
  "VfBarExisted hw d Off c =
     (if SrIovCapabilityOffset d = 0 then ((EFI_NOT_FOUND, 0, 0), c) else probe_bar hw (ucast Off) c)"

section \<open>Sizes\<close>

text \<open>HighBitSet32 of BaseLib, for an operand that is not zero.\<close>

fun high_bit_loop :: "nat \<Rightarrow> u32 \<Rightarrow> nat" where
  "high_bit_loop 0 Operand = 0"
| "high_bit_loop (Suc BitIndex) Operand =
     (if 0 <s Operand then high_bit_loop BitIndex (push_bit 1 Operand) else Suc BitIndex)"

definition HighBitSet32 :: "u32 \<Rightarrow> nat" where
  "HighBitSet32 Operand = high_bit_loop 31 Operand"

definition SIZE_4KB :: u64 where [regs]: "SIZE_4KB = 0x1000"

definition bar_alignment :: "u64 \<Rightarrow> u64" where
  "bar_alignment Len = (if Len < SIZE_4KB then SIZE_4KB - 1 else Len - 1)"

text \<open>The size of a 32 bit register: the two's complement of the value without its low bits.\<close>

definition size32 :: "u32 \<Rightarrow> u32 \<Rightarrow> u64" where
  "size32 Value Mask = ucast (NOT (Value AND Mask) + 1)"

definition no_zero_length :: "PCI_BAR \<Rightarrow> PCI_BAR" where
  "no_zero_length b = (if BarLength b = 0
     then b\<lparr> BarType := PciBarTypeUnknown, BaseAddress := 0, BarAlignment := 0 \<rparr> else b)"

section \<open>PciParseBar\<close>

text \<open>An IO register; the register of a KT device, whose bus, device and function numbers are in a
  header outside the sources, is aligned to 16 bytes.\<close>

definition parse_io_bar :: "bool \<Rightarrow> u32 \<Rightarrow> u32 \<Rightarrow> PCI_BAR \<Rightarrow> PCI_BAR" where
  "parse_io_bar kt Value OriginalValue b =
     (let Mask = 0xFFFFFFFC;
          Value = (if kt then Value AND NOT 0xC else Value);
          b = (if Value AND 0xFFFF0000 \<noteq> 0
            then b\<lparr> BarType := PciBarTypeIo32, BarLength := size32 Value Mask, BarAlignment := size32 Value Mask - 1 \<rparr>
            else let l = 0xFFFF AND size32 Value Mask in
              b\<lparr> BarType := PciBarTypeIo16, BarLength := l, BarAlignment := l - 1 \<rparr>);
          b = (if BarLength b = 0 then b\<lparr> BarType := PciBarTypeUnknown \<rparr> else b) in
      b\<lparr> BaseAddress := ucast (OriginalValue AND Mask) \<rparr>)"

definition parse_mem32_bar :: "u32 \<Rightarrow> u32 \<Rightarrow> PCI_BAR \<Rightarrow> PCI_BAR" where
  "parse_mem32_bar Value OriginalValue b =
     (let l = size32 Value 0xFFFFFFF0 in
      b\<lparr> BarType := (if Value AND 8 \<noteq> 0 then PciBarTypePMem32 else PciBarTypeMem32),
         BaseAddress := ucast (OriginalValue AND 0xFFFFFFF0), BarLength := l, BarAlignment := bar_alignment l \<rparr>)"

definition parse_unknown_bar :: "u32 \<Rightarrow> u32 \<Rightarrow> PCI_BAR \<Rightarrow> PCI_BAR" where
  "parse_unknown_bar Value OriginalValue b =
     (let l = size32 Value 0xFFFFFFF0 in
      b\<lparr> BarType := PciBarTypeUnknown, BaseAddress := ucast (OriginalValue AND 0xFFFFFFF0),
         BarLength := l, BarAlignment := bar_alignment l \<rparr>)"

text \<open>The lower half of a 64 bit register, and the completion with what the upper half read back.\<close>

definition parse_mem64_low :: "u32 \<Rightarrow> u32 \<Rightarrow> PCI_BAR \<Rightarrow> PCI_BAR" where
  "parse_mem64_low Value OriginalValue b =
     (let l = ucast (Value AND 0xFFFFFFF0) in
      b\<lparr> BarType := (if Value AND 8 \<noteq> 0 then PciBarTypePMem64 else PciBarTypeMem64),
         BaseAddress := ucast (OriginalValue AND 0xFFFFFFF0), BarLength := l, BarAlignment := l - 1 \<rparr>)"

definition fix_high :: "u32 \<Rightarrow> u32" where
  "fix_high Value = Value OR push_bit (HighBitSet32 Value) (- 1)"

definition size64 :: "u64 \<Rightarrow> u32 \<Rightarrow> u64" where
  "size64 Low Value = NOT (Low OR push_bit 32 (ucast Value)) + 1"

definition parse_mem64_high :: "u32 \<Rightarrow> u32 \<Rightarrow> PCI_BAR \<Rightarrow> PCI_BAR" where
  "parse_mem64_high Value OriginalValue b =
     (let l = size64 (BarLength b) (if Value = 0 then - 1 else fix_high Value) in
      b\<lparr> BaseAddress := BaseAddress b OR push_bit 32 (ucast OriginalValue),
         BarLength := l, BarAlignment := bar_alignment l \<rparr>)"

text \<open>The next offset, the BAR and the configuration space.\<close>

definition parse_bar :: "config_hw \<Rightarrow> bool \<Rightarrow> u64 \<Rightarrow> bool \<Rightarrow> PCI_BAR \<Rightarrow> config \<Rightarrow> u64 \<times> PCI_BAR \<times> config" where
  "parse_bar hw kt Off Force b c =
     (case BarExisted hw Off c of ((Status, Value, OriginalValue), c) \<Rightarrow>
      let Status = (if Force then EFI_SUCCESS else Status);
          Value = (if Force then Value AND 0xFFFFFFFE else Value) in
      if EFI_ERROR Status
      then (Off + 4, b\<lparr> BaseAddress := 0, BarLength := 0, BarAlignment := 0, BarOffset := ucast (ucast Off :: u8) \<rparr>, c)
      else let b = b\<lparr> BarTypeFixed := False, BarOffset := ucast (ucast Off :: u8) \<rparr> in
        if Value AND 1 \<noteq> 0 then (Off + 4, no_zero_length (parse_io_bar kt Value OriginalValue b), c)
        else if Value AND 7 = 0 then (Off + 4, no_zero_length (parse_mem32_bar Value OriginalValue b), c)
        else if Value AND 7 = 4 then
          (let b = parse_mem64_low Value OriginalValue b; Off = Off + 4 in
           case BarExisted hw Off c of ((Status, Value, OriginalValue), c) \<Rightarrow>
             if EFI_ERROR Status \<and> BarLength b = 0
             then (Off + 4, b\<lparr> BarType := PciBarTypeUnknown \<rparr>, c)
             else (Off + 4, no_zero_length (parse_mem64_high Value OriginalValue b), c))
        else (Off + 4, no_zero_length (parse_unknown_bar Value OriginalValue b), c))"

text \<open>The KT functions of the management and innovation engines.\<close>

definition is_kt :: "(u8 \<times> u8 \<times> u8) list \<Rightarrow> PCI_IO_DEVICE \<Rightarrow> bool" where
  "is_kt kts d \<longleftrightarrow> (BusNumber d, DeviceNumber d, FunctionNumber d) \<in> set kts"

definition PciParseBar :: "config_hw \<Rightarrow> (u8 \<times> u8 \<times> u8) list \<Rightarrow> PCI_IO_DEVICE \<Rightarrow> u64 \<Rightarrow> nat \<Rightarrow> bool \<Rightarrow> config \<Rightarrow>
    u64 \<times> PCI_IO_DEVICE \<times> config" where
  "PciParseBar hw kts d Off BarIndex Force c =
     (case parse_bar hw (is_kt kts d) Off Force (PciBar d ! BarIndex) c of
        (Off', b, c) \<Rightarrow> (Off', d\<lparr> PciBar := (PciBar d)[BarIndex := b] \<rparr>, c))"

text \<open>The loop of \<open>GatherDeviceInfo\<close> over the six BAR registers; a 64 bit BAR takes two of them.\<close>

fun parse_bars :: "config_hw \<Rightarrow> (u8 \<times> u8 \<times> u8) list \<Rightarrow> nat \<Rightarrow> PCI_IO_DEVICE \<Rightarrow> u64 \<Rightarrow> nat \<Rightarrow> config \<Rightarrow>
    PCI_IO_DEVICE \<times> config" where
  "parse_bars hw kts 0 d Off BarIndex c = (d, c)"
| "parse_bars hw kts (Suc n) d Off BarIndex c =
     (if Off \<le> 0x24 \<and> BarIndex < PCI_MAX_BAR
      then (case PciParseBar hw kts d Off BarIndex False c of
        (Off', d', c') \<Rightarrow> parse_bars hw kts n d' Off' (BarIndex + 1) c')
      else (d, c))"

definition gather_bars :: "config_hw \<Rightarrow> (u8 \<times> u8 \<times> u8) list \<Rightarrow> PCI_IO_DEVICE \<Rightarrow> config \<Rightarrow> PCI_IO_DEVICE \<times> config" where
  "gather_bars hw kts d c = parse_bars hw kts PCI_MAX_BAR d 0x10 0 c"

section \<open>PciIovParseVfBar\<close>

definition vf_alignment :: "PCI_IO_DEVICE \<Rightarrow> u64 \<Rightarrow> u64" where
  "vf_alignment d Algn = (if Algn < ucast (SystemPageSize d - 1) then ucast (SystemPageSize d - 1) else Algn)"

definition parse_vf_bar :: "config_hw \<Rightarrow> PCI_IO_DEVICE \<Rightarrow> u64 \<Rightarrow> PCI_BAR \<Rightarrow> config \<Rightarrow> u64 \<times> PCI_BAR \<times> config" where
  "parse_vf_bar hw d Off b c =
     (if SrIovCapabilityOffset d = 0 then (0, b, c)
      else case VfBarExisted hw d Off c of ((Status, Value, OriginalValue), c) \<Rightarrow>
        if EFI_ERROR Status
        then (Off + 4, b\<lparr> BaseAddress := 0, BarLength := 0, BarAlignment := 0, BarOffset := ucast Off \<rparr>, c)
        else let b = b\<lparr> BarOffset := ucast Off \<rparr> in
          if Value AND 1 \<noteq> 0 then (Off + 4, b, c)
          else if Value AND 7 = 0 then
            (let l = size32 Value 0xFFFFFFF0 in
             (Off + 4, no_zero_length (b\<lparr> BarType := (if Value AND 8 \<noteq> 0 then PciBarTypePMem32 else PciBarTypeMem32),
               BaseAddress := ucast (OriginalValue AND 0xFFFFFFF0), BarLength := l * ucast (InitialVFs d),
               BarAlignment := vf_alignment d (l - 1) \<rparr>), c))
          else if Value AND 7 = 4 then
            (let l = ucast (Value AND 0xFFFFFFF0);
                 b = b\<lparr> BarType := (if Value AND 8 \<noteq> 0 then PciBarTypePMem64 else PciBarTypeMem64),
                   BaseAddress := ucast (OriginalValue AND 0xFFFFFFF0), BarLength := l,
                   BarAlignment := vf_alignment d (l - 1) \<rparr>;
                 Off = Off + 4 in
             case VfBarExisted hw d Off c of ((Status, Value, OriginalValue), c) \<Rightarrow>
               if EFI_ERROR Status then (Off + 4, b, c)
               else let l = size64 l (fix_high Value) in
                 (Off + 4, no_zero_length (b\<lparr> BaseAddress := BaseAddress b OR push_bit 32 (ucast OriginalValue),
                   BarLength := l * ucast (InitialVFs d), BarAlignment := vf_alignment d (l - 1) \<rparr>), c))
          else (let l = size32 Value 0xFFFFFFF0 in
            (Off + 4, no_zero_length (b\<lparr> BarType := PciBarTypeUnknown, BaseAddress := ucast (OriginalValue AND 0xFFFFFFF0),
              BarLength := l, BarAlignment := vf_alignment d (l - 1) \<rparr>), c)))"

definition PciIovParseVfBar :: "config_hw \<Rightarrow> PCI_IO_DEVICE \<Rightarrow> u64 \<Rightarrow> nat \<Rightarrow> config \<Rightarrow> u64 \<times> PCI_IO_DEVICE \<times> config" where
  "PciIovParseVfBar hw d Off BarIndex c =
     (case parse_vf_bar hw d Off (VfPciBar d ! BarIndex) c of
        (Off', b, c) \<Rightarrow> (Off', d\<lparr> VfPciBar := (VfPciBar d)[BarIndex := b] \<rparr>, c))"

section \<open>Corrections\<close>

text \<open>The codes that stand for an alignment relative to the old one are defined by the incompatible device
  protocol, whose header is not part of the sources.\<close>

record align_codes =
  OLD_ALIGN :: u64
  EVEN_ALIGN :: u64
  SQUAD_ALIGN :: u64
  DQUAD_ALIGN :: u64

definition codes_ok :: "align_codes \<Rightarrow> bool" where
  "codes_ok ac \<longleftrightarrow> distinct [0, OLD_ALIGN ac, EVEN_ALIGN ac, SQUAD_ALIGN ac, DQUAD_ALIGN ac]"

definition relative :: "align_codes \<Rightarrow> u64 \<Rightarrow> bool" where
  "relative ac n \<longleftrightarrow> n = EVEN_ALIGN ac \<or> n = SQUAD_ALIGN ac \<or> n = DQUAD_ALIGN ac"

text \<open>The loop that strips the zero hex digits need not end.\<close>

partial_function (option) first_digit :: "u64 \<Rightarrow> nat \<Rightarrow> (u64 \<times> nat) option" where
  "first_digit OldAlignment ShiftBit =
     (if OldAlignment AND 0xF = 0 then first_digit (drop_bit 4 OldAlignment) (ShiftBit + 4)
      else Some (OldAlignment, ShiftBit))"

definition adjust_digit :: "align_codes \<Rightarrow> u64 \<Rightarrow> u64 \<Rightarrow> u64" where
  "adjust_digit ac NewAlignment Old =
     (let step = (\<lambda>n. if Old AND (n - 1) \<noteq> 0 then Old + n - (Old AND (n - 1)) else Old) in
      if NewAlignment = EVEN_ALIGN ac then step 2
      else if NewAlignment = SQUAD_ALIGN ac then step 4
      else if NewAlignment = DQUAD_ALIGN ac then step 8 else Old)"

definition SetNewAlign :: "align_codes \<Rightarrow> u64 \<Rightarrow> u64 \<Rightarrow> u64 option" where
  "SetNewAlign ac Algn NewAlignment =
     (if NewAlignment = 0 \<or> NewAlignment = OLD_ALIGN ac then Some Algn
      else if NewAlignment \<noteq> EVEN_ALIGN ac \<and> NewAlignment \<noteq> SQUAD_ALIGN ac \<and> NewAlignment \<noteq> DQUAD_ALIGN ac
      then Some NewAlignment
      else map_option (\<lambda>(Old, ShiftBit). push_bit ShiftBit (adjust_digit ac NewAlignment Old) - 1)
        (first_digit (Algn + 1) 0))"

text \<open>The corrections that an incompatible device asks for, as address space descriptors: they end at
  the end tag or at a descriptor of another kind.\<close>

definition CheckBarType :: "PCI_BAR \<Rightarrow> PCI_BAR_TYPE \<Rightarrow> bool" where
  "CheckBarType b Ty = (case Ty of
     PciBarTypeMem \<Rightarrow> BarType b \<in> {PciBarTypeMem32, PciBarTypePMem32, PciBarTypePMem64, PciBarTypeMem64}
   | PciBarTypeIo \<Rightarrow> BarType b \<in> {PciBarTypeIo32, PciBarTypeIo16}
   | _ \<Rightarrow> False)"

definition fix_granularity :: "PCI_BAR_TYPE \<Rightarrow> PCI_BAR_TYPE \<Rightarrow> u64 \<Rightarrow> PCI_BAR \<Rightarrow> PCI_BAR" where
  "fix_granularity Ty64 Ty32 Granularity b =
     (if BarType b = Ty64 \<and> Granularity = 32 then b\<lparr> BarType := Ty32, BarTypeFixed := True \<rparr>
      else if BarType b = Ty64 \<and> Granularity = 64 then b\<lparr> BarTypeFixed := True \<rparr> else b)"

definition update_bar :: "align_codes \<Rightarrow> ADDRESS_SPACE_DESCRIPTOR \<Rightarrow> nat \<times> PCI_BAR \<Rightarrow> PCI_BAR option" where
  "update_bar ac x ib = (case ib of (BarIndex, b) \<Rightarrow>
     if AddrTranslationOffset x \<noteq> - 1 \<and> AddrTranslationOffset x \<noteq> 0xFF \<and> AddrTranslationOffset x \<noteq> of_nat BarIndex
     then Some b
     else let mem = DescResType x = ACPI_ADDRESS_SPACE_TYPE_MEM \<and> CheckBarType b PciBarTypeMem;
              io = DescResType x = ACPI_ADDRESS_SPACE_TYPE_IO \<and> CheckBarType b PciBarTypeIo;
              b = (if mem then fix_granularity PciBarTypePMem64 PciBarTypePMem32 (AddrSpaceGranularity x)
                     (fix_granularity PciBarTypeMem64 PciBarTypeMem32 (AddrSpaceGranularity x) b) else b) in
       if mem \<or> io
       then map_option (\<lambda>a. b\<lparr> BarAlignment := a, BarLength := (if AddrLen x \<noteq> 0 then AddrLen x else BarLength b) \<rparr>)
         (SetNewAlign ac (BarAlignment b) (AddrRangeMax x))
       else Some b)"

fun update_all :: "('a \<Rightarrow> 'b option) \<Rightarrow> 'a list \<Rightarrow> 'b list option" where
  "update_all f [] = Some []"
| "update_all f (x # xs) = (case f x of None \<Rightarrow> None
     | Some y \<Rightarrow> map_option ((#) y) (update_all f xs))"

fun update_descriptors :: "align_codes \<Rightarrow> ADDRESS_SPACE_DESCRIPTOR list \<Rightarrow> PCI_BAR list \<Rightarrow> PCI_BAR list option" where
  "update_descriptors ac [] bs = Some bs"
| "update_descriptors ac (x # xs) bs =
     (if Desc x \<noteq> ACPI_ADDRESS_SPACE_DESCRIPTOR then Some bs
      else case update_all (update_bar ac x) (bars bs) of None \<Rightarrow> None | Some bs' \<Rightarrow> update_descriptors ac xs bs')"

text \<open>The configuration is what the incompatible device protocol answers, if it knows the device.\<close>

definition UpdatePciInfo :: "align_codes \<Rightarrow> ADDRESS_SPACE_DESCRIPTOR list option \<Rightarrow> PCI_IO_DEVICE \<Rightarrow> (efi_status \<times> PCI_IO_DEVICE) option" where
  "UpdatePciInfo ac Configuration d = (case Configuration of None \<Rightarrow> Some (EFI_UNSUPPORTED, d)
     | Some xs \<Rightarrow> map_option (\<lambda>bs. (EFI_SUCCESS, d\<lparr> PciBar := bs \<rparr>)) (update_descriptors ac xs (PciBar d)))"

section \<open>Probing\<close>

text \<open>A register of which some bits can be written and others are fixed.\<close>

definition decodes :: "config_hw \<Rightarrow> config \<Rightarrow> u32 \<Rightarrow> u32 \<Rightarrow> u32 \<Rightarrow> bool" where
  "decodes hw c r w f \<longleftrightarrow> (\<forall>v x. hw r v x = (v AND w) OR f) \<and> c r = (c r AND w) OR f"

lemma probe_bar_decodes:
  assumes "decodes hw c r w f"
  shows "probe_bar hw r c = ((if w OR f = 0 then EFI_NOT_FOUND else EFI_SUCCESS, w OR f, c r), c)"
proof -
  have "(0xFFFFFFFF :: u32) = - 1" by simp
  then have "0xFFFFFFFF AND w = w" by (metis and.left_neutral)
  then show ?thesis
    using assms by (auto simp: probe_bar_def cfg_write_def decodes_def Let_def fun_eq_iff)
qed

section \<open>The sizes read back\<close>

lemma mask_plus_one: "mask k + 1 = (2 ^ k :: 'a::len word)"
  by (simp add: mask_eq_exp_minus_1)

lemma ucast_power: "k < 32 \<Longrightarrow> ucast (2 ^ k :: u32) = (2 ^ k :: u64)"
  by (rule bit_word_eqI) (auto simp: bit_simps)

lemma low_nibble: "(0xFFFFFFF0 :: u32) = NOT (mask 4)"
  by (simp add: mask_numeral)

lemma size32_power:
  assumes "4 \<le> k" "k < 32" "f AND NOT (mask 4) = 0"
  shows "size32 (NOT (mask k) OR f) 0xFFFFFFF0 = 2 ^ k"
proof -
  have "(NOT (mask k) OR f) AND NOT (mask 4) = NOT (mask k) AND NOT (mask 4) OR f AND NOT (mask 4)"
    by (rule bit.conj_disj_distrib2)
  also have "\<dots> = NOT (mask k)"
    unfolding assms(3) using assms(1) by (intro bit_word_eqI) (auto simp: bit_simps)
  finally have "(NOT (mask k) OR f) AND 0xFFFFFFF0 = (NOT (mask k) :: u32)" by (simp only: low_nibble)
  then show ?thesis
    using ucast_power [OF assms(2)] by (simp only: size32_def bit.double_compl mask_plus_one)
qed

lemma high_bit_loop_shifted:
  assumes "bit v m" "\<And>i. m < i \<Longrightarrow> \<not> bit v i" "m \<le> n" "n < 32"
  shows "high_bit_loop n (push_bit (31 - n) (v :: u32)) = m"
  using assms(3,4)
proof (induction n)
  case (Suc n)
  let ?w = "push_bit (31 - Suc n) v"
  have top: "bit ?w 31 \<longleftrightarrow> m = Suc n"
    using assms(1,2) Suc.prems by (cases "m = Suc n") (auto simp: bit_simps)
  have "?w \<noteq> 0"
  proof
    assume "?w = 0"
    moreover have "31 - Suc n \<le> 31 - Suc n + m" "31 - Suc n + m < 32" using Suc.prems by linarith+
    ultimately have "\<not> bit v (31 - Suc n + m - (31 - Suc n))"
      using bit_push_bit_iff [of "31 - Suc n" v "31 - Suc n + m"] by simp
    then show False using assms(1) by simp
  qed
  then have "sint ?w \<noteq> 0" by (simp only: signed_eq_0_iff) simp
  then have "0 <s ?w \<longleftrightarrow> m \<noteq> Suc n"
    using top bit_last_iff [of ?w] by (simp add: word_sless_alt) linarith
  moreover have "push_bit 1 ?w = push_bit (31 - n) v"
  proof -
    have "1 + (31 - Suc n) = 31 - n" using Suc.prems by arith
    then show ?thesis by (simp only: push_bit_push_bit)
  qed
  ultimately show ?case using Suc by auto
qed (use assms in simp)

lemma HighBitSet32_bit:
  assumes "bit v m" "\<And>i. m < i \<Longrightarrow> \<not> bit v i"
  shows "HighBitSet32 v = m"
proof -
  have "m \<le> 31" using bit_imp_le_length [OF assms(1)] by simp
  then show ?thesis
    using high_bit_loop_shifted [of v m 31] assms by (simp add: HighBitSet32_def)
qed

lemma fix_high_field:
  assumes "j \<le> m" "m < 32"
  shows "fix_high (mask (Suc m) AND NOT (mask j)) = NOT (mask j)"
proof -
  have "HighBitSet32 (mask (Suc m) AND NOT (mask j)) = m"
    by (rule HighBitSet32_bit) (use assms in \<open>auto simp: bit_simps\<close>)
  then show ?thesis
    using assms unfolding fix_high_def by (intro bit_word_eqI) (auto simp: bit_simps)
qed


lemma size64_power:
  assumes "4 \<le> k" "k < 64" "f AND NOT (mask 4) = 0" "h = NOT (mask (k - 32))"
  shows "size64 (ucast ((NOT (mask k) OR f :: u32) AND 0xFFFFFFF0)) h = 2 ^ k"
proof -
  have "(NOT (mask k) OR f) AND NOT (mask 4) = NOT (mask k) AND NOT (mask 4) OR f AND NOT (mask 4 :: u32)"
    by (rule bit.conj_disj_distrib2)
  also have "\<dots> = NOT (mask k)"
    unfolding assms(3) using assms(1) by (intro bit_word_eqI) (auto simp: bit_simps)
  finally have l: "(NOT (mask k) OR f) AND 0xFFFFFFF0 = (NOT (mask k) :: u32)" by (simp only: low_nibble)
  have "ucast (NOT (mask k) :: u32) OR push_bit 32 (ucast h) = (NOT (mask k) :: u64)"
  proof (rule bit_word_eqI)
    fix n assume "n < LENGTH(64)"
    then show "bit (ucast (NOT (mask k) :: u32) OR push_bit 32 (ucast h) :: u64) n = bit (NOT (mask k) :: u64) n"
      by (cases "n < 32") (auto simp: assms(4) bit_simps)
  qed
  then show ?thesis
    unfolding l size64_def by (simp only: bit.double_compl mask_plus_one)
qed

section \<open>Parsing a memory register\<close>

text \<open>The type of a memory register of a given width and prefetchability, and its fixed bits.\<close>

fun mem_type :: "bool \<Rightarrow> bool \<Rightarrow> PCI_BAR_TYPE" where
  "mem_type False False = PciBarTypeMem32"
| "mem_type False True = PciBarTypePMem32"
| "mem_type True False = PciBarTypeMem64"
| "mem_type True True = PciBarTypePMem64"

definition mem_flags :: "bool \<Rightarrow> bool \<Rightarrow> u32" where
  "mem_flags wide pref = (if wide then 4 else 0) OR (if pref then 8 else 0)"

lemma mem_flags_high: "mem_flags wide pref AND NOT (mask 4) = 0"
  by (cases wide; cases pref) (simp_all add: mem_flags_def mask_numeral)

lemma mem_value_flags:
  assumes "4 \<le> k"
  shows "(NOT (mask k) OR mem_flags wide pref) AND 1 = 0"
    "(NOT (mask k) OR mem_flags wide pref) AND 7 = (if wide then 4 else 0)"
    "(NOT (mask k) OR mem_flags wide pref) AND 8 = (if pref then 8 else 0)"
proof -
  have *: "NOT (mask k) AND x = (0 :: u32)" if "x AND NOT (mask 4) = 0" for x
  proof (rule bit_word_eqI)
    fix n assume "n < LENGTH(32)"
    then have "bit x n \<Longrightarrow> n < 4" using arg_cong [OF that, of "\<lambda>x. bit x n"] by (auto simp: bit_simps)
    then show "bit (NOT (mask k) AND x) n = bit (0 :: u32) n"
      using assms \<open>n < LENGTH(32)\<close> by (auto simp: bit_simps)
  qed
  have "NOT (mask k) AND 1 = (0 :: u32)" "NOT (mask k) AND 7 = (0 :: u32)" "NOT (mask k) AND 8 = (0 :: u32)"
    by (rule *; simp add: mask_numeral)+
  then show "(NOT (mask k) OR mem_flags wide pref) AND 1 = 0"
    "(NOT (mask k) OR mem_flags wide pref) AND 7 = (if wide then 4 else 0)"
    "(NOT (mask k) OR mem_flags wide pref) AND 8 = (if pref then 8 else 0)"
    unfolding bit.conj_disj_distrib2 by (cases wide; cases pref; simp add: mem_flags_def)+
qed

lemma power_not_zero: "k < 64 \<Longrightarrow> (2 ^ k :: u64) \<noteq> 0"
  using bit_exp_iff [of k k, where 'a = "64 word"] by auto

lemma parse_mem32:
  assumes k: "4 \<le> k" "k < 32" and r: "r = ucast (ucast Off :: u8)"
    and d: "decodes hw c r (NOT (mask k)) (mem_flags False pref)"
  shows "parse_bar hw kt Off False b c = (Off + 4,
    b\<lparr> BaseAddress := ucast (c r AND 0xFFFFFFF0), BarLength := 2 ^ k, BarAlignment := bar_alignment (2 ^ k),
       BarType := mem_type False pref, BarTypeFixed := False, BarOffset := ucast (ucast Off :: u8) \<rparr>, c)"
proof -
  let ?v = "NOT (mask k) OR mem_flags False pref :: u32"
  have s: "size32 ?v 0xFFFFFFF0 = 2 ^ k" by (rule size32_power [OF k mem_flags_high])
  have "?v \<noteq> 0"
  proof
    assume "?v = 0"
    then have "size32 ?v 0xFFFFFFF0 = 0" by (simp add: size32_def)
    then show False using s power_not_zero [of k] k by simp
  qed
  then have p: "BarExisted hw Off c = ((EFI_SUCCESS, ?v, c r), c)"
    using probe_bar_decodes [OF d] by (simp add: BarExisted_def flip: r)
  show ?thesis
    using power_not_zero [of k] k mem_value_flags [OF k(1), of False pref]
    by (simp add: parse_bar_def p parse_mem32_bar_def s Let_def no_zero_length_def del: mem_type.simps) (cases pref; simp)
qed

lemma parse_mem64:
  assumes k: "4 \<le> k" "k < 64" and r: "r = ucast (ucast Off :: u8)" "r' = ucast (ucast (Off + 4) :: u8)"
    and d: "decodes hw c r (NOT (mask k)) (mem_flags True pref)" "decodes hw c r' h 0"
    and h: "h = mask (Suc m) AND NOT (mask (k - 32)) \<or> k < 32 \<and> h = 0" "k - 32 \<le> m" "m < 32"
  shows "parse_bar hw kt Off False b c = (Off + 8,
    b\<lparr> BaseAddress := ucast (c r AND 0xFFFFFFF0) OR push_bit 32 (ucast (c r')),
       BarLength := 2 ^ k, BarAlignment := bar_alignment (2 ^ k), BarType := mem_type True pref,
       BarTypeFixed := False, BarOffset := ucast (ucast Off :: u8) \<rparr>, c)"
proof -
  let ?v = "NOT (mask k) OR mem_flags True pref :: u32" and ?l = "ucast ((NOT (mask k) OR mem_flags True pref) AND 0xFFFFFFF0 :: u32) :: u64"
  have v: "?v AND 7 = 4" "?v AND 1 = 0" "?v AND 8 = (if pref then 8 else 0)"
    using mem_value_flags [OF k(1), of True pref] by simp_all
  then have p: "BarExisted hw Off c = ((EFI_SUCCESS, ?v, c r), c)"
    using probe_bar_decodes [OF d(1)] by (auto simp: BarExisted_def simp flip: r)
  have q: "BarExisted hw (Off + 4) c = ((if h = 0 then EFI_NOT_FOUND else EFI_SUCCESS, h, c r'), c)"
    using probe_bar_decodes [OF d(2)] by (auto simp: BarExisted_def simp flip: r)
  have f: "(if h = 0 then - 1 else fix_high h) = NOT (mask (k - 32))"
  proof (cases "h = 0")
    case True
    have "bit (mask (Suc m) AND NOT (mask (k - 32)) :: u32) m" using h(2,3) by (simp add: bit_simps)
    then have "k < 32" using h(1) True by auto
    then show ?thesis using True by simp
  next
    case False
    then show ?thesis using h fix_high_field [OF h(2,3)] by auto
  qed
  have z: "size64 ?l (NOT (mask (k - 32))) = 2 ^ k" by (rule size64_power [OF k mem_flags_high refl])
  have n: "\<not> (h = 0 \<and> ?l = 0)"
  proof
    assume "h = 0 \<and> ?l = 0"
    moreover from this have "size64 ?l (- 1) = 2 ^ k" using z f by simp
    moreover have "size64 0 (- 1) = 2 ^ 32" by code_simp
    ultimately have "(2 ^ 32 :: u64) = 2 ^ k" by simp
    then have "bit (2 ^ k :: u64) 32" by (simp flip: \<open>2 ^ 32 = 2 ^ k\<close>)
    then have "k = 32" using k by (simp add: bit_exp_iff)
    then have "h \<noteq> 0" using f \<open>h = 0 \<and> ?l = 0\<close> h fix_high_field [OF h(2,3)] by auto
    then show False using \<open>h = 0 \<and> ?l = 0\<close> by simp
  qed
  have n': "\<not> (EFI_ERROR (if h = 0 then EFI_NOT_FOUND else EFI_SUCCESS) \<and> ?v AND 0xFFFFFFF0 = 0)"
    using n by auto
  have t: "(if (if pref then 8 else 0 :: u32) \<noteq> 0 then PciBarTypePMem64 else PciBarTypeMem64) = mem_type True pref"
    by (cases pref) simp_all
  show ?thesis
    using power_not_zero [OF k(2)]
    by (simp add: parse_bar_def p q n' v t z f parse_mem64_low_def parse_mem64_high_def Let_def no_zero_length_def
        split del: if_split del: mem_type.simps de_Morgan_conj)
qed

section \<open>Parsing an IO register\<close>

text \<open>What an IO register that decodes \<open>2 ^ k\<close> bytes reads back; a device may leave out the upper half.\<close>

definition io_value :: "bool \<Rightarrow> nat \<Rightarrow> u32" where
  "io_value half k = (if half then NOT (mask k) AND mask 16 else NOT (mask k)) OR 1"

lemma io_masks: "(0xFFFFFFFC :: u32) = NOT (mask 2)" "(0xC :: u32) = mask 4 AND NOT (mask 2)"
  "(0xFFFF0000 :: u32) = NOT (mask 16)" "(0xFFFF :: u64) = mask 16" "(0xFFF :: u64) = mask 12"
  by (simp_all add: mask_numeral)

lemma io_value_kt:
  assumes "2 \<le> k"
  shows "io_value half k AND NOT 0xC = io_value half (max 4 k)"
  unfolding io_masks io_value_def using assms by (intro bit_word_eqI) (auto simp: bit_simps max_def)

lemma io_value_low: "2 \<le> k \<Longrightarrow> io_value half k AND 0xFFFFFFFC = (if half then NOT (mask k) AND mask 16 else NOT (mask k))"
  unfolding io_masks io_value_def by (intro bit_word_eqI) (auto simp: bit_simps)

lemma io_value_one: "io_value half k AND 1 = 1"
  unfolding io_value_def by (intro bit_word_eqI) (auto simp: bit_simps)

lemma io_value_half: "k < 32 \<Longrightarrow> io_value half k AND 0xFFFF0000 = 0 \<longleftrightarrow> half"
proof -
  assume k: "k < 32"
  have "bit (io_value False k AND 0xFFFF0000) 31" unfolding io_masks io_value_def using k by (simp add: bit_simps)
  moreover have "io_value True k AND 0xFFFF0000 = 0"
    unfolding io_masks io_value_def by (intro bit_word_eqI) (auto simp: bit_simps)
  ultimately show ?thesis by (cases half) auto
qed

lemma mask_ucast: "mask 16 AND ucast (x :: u32) = (ucast (take_bit 16 x) :: u64)"
  by (rule bit_word_eqI) (auto simp: bit_simps)

lemma io_size:
  assumes "2 \<le> k" "k < (if half then 16 else 32)"
  shows "(if half then 0xFFFF else - 1) AND size32 (io_value half k) 0xFFFFFFFC = 2 ^ k"
proof (cases half)
  case False
  then show ?thesis
    using assms ucast_power [of k] by (simp add: size32_def io_value_low mask_plus_one)
next
  case True
  have "NOT (NOT (mask k) AND mask 16) + 1 = (2 ^ k OR NOT (mask 16) :: u32)"
  proof -
    have "NOT (NOT (mask k) AND mask 16) = mask k OR NOT (mask 16 :: u32)" by simp
    also have "\<dots> = mask k + NOT (mask 16)"
      using assms True by (subst disjunctive_add) (auto simp: bit_simps)
    also have "\<dots> + 1 = 2 ^ k + NOT (mask 16)" by (simp add: mask_eq_exp_minus_1 [of k])
    also have "\<dots> = 2 ^ k OR NOT (mask 16)"
      using assms True by (subst disjunctive_add) (auto simp: bit_simps)
    finally show ?thesis .
  qed
  then have "mask 16 AND size32 (io_value half k) 0xFFFFFFFC = (ucast (take_bit 16 (2 ^ k OR NOT (mask 16) :: u32)) :: u64)"
    using True by (simp only: size32_def io_value_low [OF assms(1)] if_True mask_ucast)
  also have "take_bit 16 (2 ^ k OR NOT (mask 16) :: u32) = 2 ^ k"
    using assms True by (auto intro!: bit_word_eqI simp: bit_simps)
  finally show ?thesis using True assms ucast_power [of k] by (simp add: io_masks)
qed

lemma parse_io:
  assumes k: "2 \<le> k" "k < (if half then 16 else 32)" and r: "r = ucast (ucast Off :: u8)"
    and d: "decodes hw c r (if half then NOT (mask k) AND mask 16 else NOT (mask k)) 1"
    and l: "l = (if kt then max 4 k else k)"
  shows "parse_bar hw kt Off False b c = (Off + 4,
    b\<lparr> BaseAddress := ucast (c r AND 0xFFFFFFFC), BarLength := 2 ^ l, BarAlignment := mask l,
       BarType := (if half then PciBarTypeIo16 else PciBarTypeIo32), BarTypeFixed := False,
       BarOffset := ucast (ucast Off :: u8) \<rparr>, c)"
proof -
  have "io_value half k \<noteq> 0" using io_value_one [of half k] by auto
  then have p: "BarExisted hw Off c = ((EFI_SUCCESS, io_value half k, c r), c)"
    using probe_bar_decodes [OF d] by (simp add: BarExisted_def flip: r io_value_def)
  have v: "(if kt then io_value half k AND NOT 0xC else io_value half k) = io_value half l"
    using k l io_value_kt [OF k(1), of half] by simp
  have l': "2 \<le> l" "l < (if half then 16 else 32)" "l < 32" "l < 64" using k l by (auto split: if_splits)
  have "parse_io_bar kt (io_value half k) (c r) b = b\<lparr> BaseAddress := ucast (c r AND 0xFFFFFFFC), BarLength := 2 ^ l,
     BarAlignment := mask l, BarType := (if half then PciBarTypeIo16 else PciBarTypeIo32) \<rparr>" for b
    using io_size [OF l'(1,2)] power_not_zero [OF l'(4)]
    unfolding parse_io_bar_def Let_def v
    by (cases half) (simp_all add: io_value_half [OF l'(3)] mask_eq_exp_minus_1)
  then show ?thesis
    using power_not_zero [OF l'(4)] by (simp add: parse_bar_def p io_value_one no_zero_length_def Let_def)
qed

section \<open>The BARs of a device\<close>

text \<open>The decoders of a device: an IO decoder of \<open>2 ^ k\<close> bytes with or without the upper half of the
  address, a memory decoder of \<open>2 ^ k\<close> bytes, 64 bit wide or not, prefetchable or not; the upper
  register of a 64 bit decoder implements its bits below \<open>m\<close>.\<close>

datatype decoder = NoDecoder | IoDecoder bool nat | MemDecoder bool nat | Mem64Decoder bool nat nat

fun registers :: "decoder \<Rightarrow> nat" where
  "registers (Mem64Decoder pref k m) = 2"
| "registers _ = 1"

abbreviation bar_register :: "u64 \<Rightarrow> u32" where
  "bar_register Off \<equiv> ucast (ucast Off :: u8)"

fun decoder_at :: "config_hw \<Rightarrow> config \<Rightarrow> u64 \<Rightarrow> decoder \<Rightarrow> bool" where
  "decoder_at hw c Off NoDecoder \<longleftrightarrow> decodes hw c (bar_register Off) 0 0"
| "decoder_at hw c Off (IoDecoder half k) \<longleftrightarrow> 2 \<le> k \<and> k < (if half then 16 else 32) \<and>
     decodes hw c (bar_register Off) (if half then NOT (mask k) AND mask 16 else NOT (mask k)) 1"
| "decoder_at hw c Off (MemDecoder pref k) \<longleftrightarrow> 4 \<le> k \<and> k < 32 \<and>
     decodes hw c (bar_register Off) (NOT (mask k)) (mem_flags False pref)"
| "decoder_at hw c Off (Mem64Decoder pref k m) \<longleftrightarrow> 4 \<le> k \<and> k < 64 \<and> m \<le> 32 \<and> (k - 32 < m \<or> k < 32 \<and> m = 0) \<and>
     decodes hw c (bar_register Off) (NOT (mask k)) (mem_flags True pref) \<and>
     decodes hw c (bar_register (Off + 4)) (mask m AND NOT (mask (k - 32))) 0"

fun decoders_at :: "config_hw \<Rightarrow> config \<Rightarrow> u64 \<Rightarrow> decoder list \<Rightarrow> bool" where
  "decoders_at hw c Off [] \<longleftrightarrow> Off = 0x28"
| "decoders_at hw c Off (x # xs) \<longleftrightarrow>
     Off \<le> 0x24 \<and> decoder_at hw c Off x \<and> decoders_at hw c (Off + 4 * of_nat (registers x)) xs"

text \<open>The type, the length and the alignment that a decoder should be given.\<close>

fun decoder_shape :: "bool \<Rightarrow> decoder \<Rightarrow> PCI_BAR_TYPE \<times> u64 \<times> u64" where
  "decoder_shape kt NoDecoder = (PciBarTypeUnknown, 0, 0)"
| "decoder_shape kt (IoDecoder half k) = (if half then PciBarTypeIo16 else PciBarTypeIo32,
     2 ^ (if kt then max 4 k else k), mask (if kt then max 4 k else k))"
| "decoder_shape kt (MemDecoder pref k) = (mem_type False pref, 2 ^ k, mask (max 12 k))"
| "decoder_shape kt (Mem64Decoder pref k m) = (mem_type True pref, 2 ^ k, mask (max 12 k))"

definition bar_shape :: "PCI_BAR \<Rightarrow> PCI_BAR_TYPE \<times> u64 \<times> u64" where
  "bar_shape b = (BarType b, BarLength b, BarAlignment b)"

lemma bar_alignment_power:
  assumes "k < 64"
  shows "bar_alignment (2 ^ k) = mask (max 12 k)"
proof -
  have "uint (2 ^ k :: u64) = 2 ^ k"
    by (rule uint_2p) (use power_not_zero [OF assms] in \<open>simp add: word_gt_0\<close>)
  then have "(2 ^ k < (0x1000 :: u64)) = ((2 :: int) ^ k < 2 ^ 12)" by (simp add: word_less_def)
  also have "\<dots> = (k < 12)" by (rule power_strict_increasing_iff) simp
  finally show ?thesis
    by (auto simp: bar_alignment_def SIZE_4KB_def mask_eq_exp_minus_1 max_def)
qed

lemma parse_bar_shape:
  assumes "decoder_at hw c Off x" "BarType b = PciBarTypeUnknown"
  shows "\<exists>b'. parse_bar hw kt Off False b c = (Off + 4 * of_nat (registers x), b', c) \<and> bar_shape b' = decoder_shape kt x"
proof (cases x)
  case NoDecoder
  then have "BarExisted hw Off c = ((EFI_NOT_FOUND, 0, c (bar_register Off)), c)"
    using assms probe_bar_decodes [of hw c "bar_register Off" 0 0] by (simp add: BarExisted_def)
  then show ?thesis using assms NoDecoder by (simp add: parse_bar_def bar_shape_def)
next
  case (IoDecoder half k)
  then show ?thesis
    using assms parse_io [OF _ _ refl _ refl, of k half hw c Off kt b] by (simp add: bar_shape_def)
next
  case (MemDecoder pref k)
  then show ?thesis
    using assms parse_mem32 [OF _ _ refl, of k hw c Off pref kt b] by (simp add: bar_shape_def bar_alignment_power)
next
  case (Mem64Decoder pref k m)
  let ?h = "mask m AND NOT (mask (k - 32)) :: u32"
  have a: "4 \<le> k" "k < 64" "decodes hw c (bar_register Off) (NOT (mask k)) (mem_flags True pref)"
    "decodes hw c (bar_register (Off + 4)) ?h 0" "m \<le> 32" "k - 32 < m \<or> k < 32 \<and> m = 0"
    using assms(1) Mem64Decoder by simp_all
  have "\<exists>n. (?h = mask (Suc n) AND NOT (mask (k - 32)) \<or> k < 32 \<and> ?h = 0) \<and> k - 32 \<le> n \<and> n < 32"
  proof (cases m)
    case 0
    then show ?thesis using a(6) by (intro exI [of _ 0]) simp
  next
    case (Suc n)
    then show ?thesis using a(5,6) by (intro exI [of _ n]) simp
  qed
  then obtain n where "?h = mask (Suc n) AND NOT (mask (k - 32)) \<or> k < 32 \<and> ?h = 0" "k - 32 \<le> n" "n < 32" by blast
  from parse_mem64 [OF a(1,2) refl refl a(3,4) this, of kt b]
  show ?thesis using Mem64Decoder a(2) by (simp add: bar_shape_def bar_alignment_power)
qed

lemma parse_bars_shapes:
  assumes "decoders_at hw c Off xs" "length xs \<le> n" "i + length xs \<le> length (PciBar d)" "length (PciBar d) = 6"
    "\<forall>b \<in> set (drop i (PciBar d)). bar_shape b = (PciBarTypeUnknown, 0, 0)"
  shows "\<exists>bs. parse_bars hw kts n d Off i c = (d\<lparr> PciBar := bs \<rparr>, c) \<and> length bs = 6 \<and>
    map bar_shape bs = map bar_shape (take i (PciBar d)) @ map (decoder_shape (is_kt kts d)) xs @
      replicate (6 - i - length xs) (PciBarTypeUnknown, 0, 0)"
  using assms
proof (induction xs arbitrary: n d Off i)
  case Nil
  then have "parse_bars hw kts n d Off i c = (d\<lparr> PciBar := PciBar d \<rparr>, c)" by (cases n) simp_all
  moreover have "map bar_shape (drop i (PciBar d)) = replicate (6 - i) (PciBarTypeUnknown, 0, 0)"
    using Nil by (intro replicate_eqI) auto
  then have "map bar_shape (PciBar d) = map bar_shape (take i (PciBar d)) @ replicate (6 - i) (PciBarTypeUnknown, 0, 0)"
    by (metis append_take_drop_id map_append)
  ultimately show ?case using Nil by (intro exI [of _ "PciBar d"]) simp
next
  case (Cons x xs)
  let ?b = "PciBar d ! i"
  from Cons.prems obtain n' where n: "n = Suc n'" by (cases n) auto
  have i: "i < 6" "i < PCI_MAX_BAR" using Cons.prems by (simp_all add: PCI_MAX_BAR_def)
  then have "drop i (PciBar d) = ?b # drop (Suc i) (PciBar d)" using Cons.prems(4) by (simp add: Cons_nth_drop_Suc)
  then have bi: "bar_shape ?b = (PciBarTypeUnknown, 0, 0)" using Cons.prems(5) by simp
  from parse_bar_shape [of hw c Off x ?b "is_kt kts d"] obtain b' where
    b: "parse_bar hw (is_kt kts d) Off False ?b c = (Off + 4 * of_nat (registers x), b', c)" "bar_shape b' = decoder_shape (is_kt kts d) x"
    using Cons.prems bi by (auto simp: bar_shape_def)
  let ?d = "d\<lparr> PciBar := (PciBar d)[i := b'] \<rparr>"
  have k: "is_kt kts ?d = is_kt kts d" by (simp add: is_kt_def)
  have "\<exists>bs. parse_bars hw kts n' ?d (Off + 4 * of_nat (registers x)) (i + 1) c = (?d\<lparr> PciBar := bs \<rparr>, c) \<and> length bs = 6 \<and>
    map bar_shape bs = map bar_shape (take (i + 1) (PciBar ?d)) @ map (decoder_shape (is_kt kts ?d)) xs @
      replicate (6 - (i + 1) - length xs) (PciBarTypeUnknown, 0, 0)"
  proof (rule Cons.IH)
    show "\<forall>b \<in> set (drop (i + 1) (PciBar ?d)). bar_shape b = (PciBarTypeUnknown, 0, 0)"
      using Cons.prems(5) set_drop_subset_set_drop [of i "i + 1" "PciBar d"] by auto
  qed (use Cons.prems n in simp_all)
  then obtain bs where bs: "parse_bars hw kts n' ?d (Off + 4 * of_nat (registers x)) (i + 1) c = (?d\<lparr> PciBar := bs \<rparr>, c)" "length bs = 6"
    "map bar_shape bs = map bar_shape (take (i + 1) (PciBar ?d)) @ map (decoder_shape (is_kt kts ?d)) xs @
      replicate (6 - (i + 1) - length xs) (PciBarTypeUnknown, 0, 0)" by blast
  have "take (i + 1) (PciBar ?d) = take i (PciBar d) @ [b']"
    using i Cons.prems by (simp add: take_Suc_conv_app_nth)
  then show ?case
    using bs b Cons.prems n i by (intro exI [of _ bs]) (simp add: PciParseBar_def k)
qed

lemma decoders_at_length: "decoders_at hw c Off xs \<Longrightarrow> unat Off + 4 * length xs \<le> 0x28"
proof (induction xs arbitrary: Off)
  case (Cons x xs)
  have "unat Off \<le> 0x24" using Cons.prems by (simp add: word_le_nat_alt)
  moreover have "registers x = 1 \<or> registers x = 2" by (cases x) simp_all
  then have "unat (4 * of_nat (registers x) :: u64) = 4 * registers x" by auto
  ultimately have "unat (Off + 4 * of_nat (registers x)) = unat Off + 4 * registers x"
    using \<open>registers x = 1 \<or> registers x = 2\<close> by (subst unat_add_lem [THEN iffD1]) auto
  then show ?case using Cons \<open>registers x = 1 \<or> registers x = 2\<close> by fastforce
qed simp

lemma decoder_low_mask:
  assumes "decoder_at hw c Off x"
  shows "low_mask (snd (snd (decoder_shape kt x)))"
proof (cases x)
  case NoDecoder
  then show ?thesis using low_mask_mask [of 0] by simp
qed (use assms in \<open>auto intro!: low_mask_mask split: if_splits\<close>)

lemma decoders_low_mask: "decoders_at hw c Off xs \<Longrightarrow> \<forall>x \<in> set xs. low_mask (snd (snd (decoder_shape kt x)))"
  by (induction xs arbitrary: Off) (auto dest: decoder_low_mask)

section \<open>Alignments\<close>

lemma and_digit: "(x :: u64) AND 0xF = take_bit 4 x"
  by (simp add: take_bit_eq_mask mask_numeral)

lemma first_digit_power:
  "k < 64 \<Longrightarrow> first_digit (2 ^ k) s = Some (2 ^ (k mod 4), s + 4 * (k div 4))"
proof (induction k arbitrary: s rule: less_induct)
  case (less k)
  show ?case
  proof (cases "k < 4")
    case True
    then have "take_bit 4 (2 ^ k :: u64) = 2 ^ k" by (auto intro!: bit_word_eqI simp: bit_simps)
    then show ?thesis using True power_not_zero [OF less.prems] by (subst first_digit.simps) (simp add: and_digit)
  next
    case False
    then have "take_bit 4 (2 ^ k :: u64) = 0" by (auto intro!: bit_word_eqI simp: bit_simps)
    moreover have "drop_bit 4 (2 ^ k :: u64) = 2 ^ (k - 4)"
      using False less.prems by (auto intro!: bit_word_eqI simp: bit_simps)
    moreover have "(k - 4) mod 4 = k mod 4" "4 + 4 * ((k - 4) div 4) = 4 * (k div 4)"
      using False by (simp_all add: le_mod_geq le_div_geq)
    moreover have "first_digit (2 ^ (k - 4)) (s + 4) = Some (2 ^ ((k - 4) mod 4), (s + 4) + 4 * ((k - 4) div 4))"
      using False less by simp
    ultimately show ?thesis by (subst first_digit.simps) (simp add: and_digit)
  qed
qed

lemma first_digit_returns: "x \<noteq> 0 \<Longrightarrow> first_digit x s \<noteq> None"
proof (induction "unat x" arbitrary: x s rule: less_induct)
  case less
  show ?case
  proof (cases "x AND 0xF = 0")
    case True
    have "unat (drop_bit 4 x) < unat x"
      unfolding unat_drop_bit_eq using less.prems by (simp add: drop_bit_eq_div unat_gt_0)
    moreover have "drop_bit 4 x \<noteq> 0"
    proof
      assume "drop_bit 4 x = 0"
      then have "x = take_bit 4 x" by (metis bits_ident add_0 push_bit_of_0)
      then show False using True less.prems by (simp add: and_digit)
    qed
    ultimately show ?thesis using less True by (subst first_digit.simps) simp
  qed (subst first_digit.simps, simp)
qed

text \<open>The loop on zero is the least fixed point of a recursion that calls itself on the same argument.\<close>

lemma first_digit_zero: "first_digit 0 s = None"
proof -
  have "first_digit x s = Some r \<Longrightarrow> x \<noteq> 0" for x s r
  proof (erule first_digit.raw_induct [rotated])
    fix f :: "u64 \<Rightarrow> nat \<Rightarrow> (u64 \<times> nat) option" and x s y
    assume IH: "\<And>x s y. f x s = Some y \<Longrightarrow> x \<noteq> 0"
      and e: "(if x AND 0xF = 0 then f (drop_bit 4 x) (s + 4) else Some (x, s)) = Some y"
    show "x \<noteq> 0"
    proof
      assume "x = 0"
      then have "f 0 (s + 4) = Some y" using e by simp
      then show False using IH by blast
    qed
  qed
  then show ?thesis by (cases "first_digit 0 s") auto
qed

definition digit_bits :: "align_codes \<Rightarrow> u64 \<Rightarrow> nat" where
  "digit_bits ac n = (if n = EVEN_ALIGN ac then 1 else if n = SQUAD_ALIGN ac then 2 else 3)"

lemma adjust_digits:
  "relative ac n \<Longrightarrow> j < 4 \<Longrightarrow> adjust_digit ac n (2 ^ j) = 2 ^ max (digit_bits ac n) j"
proof -
  assume n: "relative ac n" and "j < 4"
  then have j: "j = 0 \<or> j = 1 \<or> j = 2 \<or> j = 3" by linarith
  show ?thesis
  proof (cases "n = EVEN_ALIGN ac")
    case True
    then show ?thesis using j by (elim disjE) (simp_all add: adjust_digit_def digit_bits_def)
  next
    case even: False
    show ?thesis
    proof (cases "n = SQUAD_ALIGN ac")
      case True
      then show ?thesis using even j by (elim disjE) (simp_all add: adjust_digit_def digit_bits_def)
    next
      case False
      then show ?thesis using even n j by (elim disjE) (simp_all add: adjust_digit_def digit_bits_def relative_def)
    qed
  qed
qed

lemma SetNewAlign_relative:
  assumes "codes_ok ac" "relative ac n"
  shows "SetNewAlign ac a n = map_option (\<lambda>(Old, ShiftBit). push_bit ShiftBit (adjust_digit ac n Old) - 1) (first_digit (a + 1) 0)"
  using assms by (auto simp: SetNewAlign_def relative_def codes_ok_def)

lemma SetNewAlign_mask:
  assumes "codes_ok ac" "relative ac n" "k < 64"
  shows "SetNewAlign ac (mask k) n = Some (mask (4 * (k div 4) + max (digit_bits ac n) (k mod 4)))"
proof -
  have "SetNewAlign ac (mask k) n = Some (push_bit (4 * (k div 4)) (adjust_digit ac n (2 ^ (k mod 4))) - 1)"
    by (simp add: SetNewAlign_relative [OF assms(1,2)] mask_plus_one first_digit_power [OF assms(3)])
  also have "adjust_digit ac n (2 ^ (k mod 4)) = 2 ^ max (digit_bits ac n) (k mod 4)"
    by (rule adjust_digits [OF assms(2)]) simp
  finally show ?thesis by (simp add: mask_eq_exp_minus_1 push_bit_eq_mult power_add mult.commute)
qed

lemma SetNewAlign_returns:
  assumes "codes_ok ac"
  shows "SetNewAlign ac a n = None \<longleftrightarrow> a = - 1 \<and> relative ac n"
proof (cases "relative ac n")
  case True
  have "first_digit (a + 1) 0 = None \<longleftrightarrow> a = - 1"
    using first_digit_returns [of "a + 1" 0] first_digit_zero [of 0]
    by (cases "a + 1 = 0") (simp_all add: eq_neg_iff_add_eq_0)
  then show ?thesis using True by (simp add: SetNewAlign_relative [OF assms])
next
  case False
  then show ?thesis by (auto simp: SetNewAlign_def relative_def)
qed

text \<open>The alignments that a descriptor may ask for.\<close>

definition alignment_request :: "align_codes \<Rightarrow> u64 \<Rightarrow> bool" where
  "alignment_request ac n \<longleftrightarrow> n = OLD_ALIGN ac \<or> relative ac n \<or> low_mask n"

lemma SetNewAlign_low_mask:
  assumes "codes_ok ac" "low_mask a" "alignment_request ac n"
  shows "\<exists>a'. SetNewAlign ac a n = Some a' \<and> low_mask a'"
proof (cases "relative ac n")
  case True
  from assms(2) obtain k where k: "k < 64" "a = mask k" by (auto simp: low_mask_def)
  have "digit_bits ac n < 4" by (simp add: digit_bits_def)
  then have "max (digit_bits ac n) (k mod 4) < 4" by simp
  moreover have "k div 4 < 16" using k by simp
  ultimately have "4 * (k div 4) + max (digit_bits ac n) (k mod 4) < 64" by linarith
  then show ?thesis using SetNewAlign_mask [OF assms(1) True k(1)] k(2) low_mask_mask by auto
next
  case False
  then show ?thesis using assms by (auto simp: alignment_request_def SetNewAlign_def relative_def)
qed

text \<open>A memory or IO BAR has a mask of low bits for its alignment.  One of no type may have any: PciParseBar
  leaves all ones for a 64 bit decoder of length 0.\<close>

definition masked_bar :: "PCI_BAR \<Rightarrow> bool" where
  "masked_bar b \<longleftrightarrow> (CheckBarType b PciBarTypeMem \<or> CheckBarType b PciBarTypeIo \<longrightarrow> low_mask (BarAlignment b))"

lemma update_bar_returns:
  assumes "codes_ok ac" "masked_bar b" "alignment_request ac (AddrRangeMax x)"
  shows "\<exists>b'. update_bar ac x (i, b) = Some b' \<and> masked_bar b'"
proof (cases "CheckBarType b PciBarTypeMem \<or> CheckBarType b PciBarTypeIo")
  case True
  then have "low_mask (BarAlignment b)" using assms(2) by (simp add: masked_bar_def)
  then obtain a where a: "SetNewAlign ac (BarAlignment b) (AddrRangeMax x) = Some a" "low_mask a"
    using SetNewAlign_low_mask [OF assms(1) _ assms(3)] by blast
  have g: "BarAlignment (fix_granularity T U G c) = BarAlignment c" for T U G c by (simp add: fix_granularity_def)
  show ?thesis
    using a assms(2) by (auto simp: update_bar_def Let_def g masked_bar_def)
next
  case False
  then show ?thesis using assms(2) by (simp add: update_bar_def Let_def)
qed

lemma update_all_returns:
  assumes "\<And>x. x \<in> set xs \<Longrightarrow> \<exists>y. f x = Some y \<and> P y"
  shows "\<exists>ys. update_all f xs = Some ys \<and> length ys = length xs \<and> (\<forall>y \<in> set ys. P y)"
  using assms by (induction xs) fastforce+

lemma update_descriptors_returns:
  assumes "codes_ok ac" "\<forall>b \<in> set bs. masked_bar b"
    "\<forall>x \<in> set xs. alignment_request ac (AddrRangeMax x)" "length bs = PCI_MAX_BAR"
  shows "\<exists>bs'. update_descriptors ac xs bs = Some bs' \<and> length bs' = PCI_MAX_BAR \<and> (\<forall>b \<in> set bs'. masked_bar b)"
  using assms
proof (induction xs arbitrary: bs)
  case (Cons x xs)
  have "\<exists>ys. update_all (update_bar ac x) (bars bs) = Some ys \<and> length ys = length (bars bs) \<and> (\<forall>y \<in> set ys. masked_bar y)"
  proof (rule update_all_returns)
    fix ib assume m: "ib \<in> set (bars bs)"
    obtain i b where ib: "ib = (i, b)" by (rule prod.exhaust)
    then have "b \<in> set bs" using m by (simp add: bars_def set_zip_rightD)
    with ib show "\<exists>y. update_bar ac x ib = Some y \<and> masked_bar y"
      using Cons.prems update_bar_returns [of ac b x i] by simp
  qed
  then show ?case using Cons by (auto simp: bars_def)
qed simp

section \<open>Properties\<close>

text \<open>C9: The loop of GatherDeviceInfo over the BAR registers refines the list of address decoders
  of a device: for any mix of absent, IO, 32 and 64 bit memory decoders it finds, for each, the
  type, the size 2^k and the alignment (at least 4 KB for memory, 16 bytes for a KT IO BAR),
  also for decoders that implement only some bits of the upper half, and leaves configuration
  space as it was.\<close>

theorem bars_gathered:
  assumes "decoders_at hw c 0x10 ds" "length (PciBar d) = PCI_MAX_BAR"
    "\<forall>b \<in> set (PciBar d). bar_shape b = (PciBarTypeUnknown, 0, 0)" "gather_bars hw kts d c = (d', c')"
  shows "c' = c \<and> d' = d\<lparr> PciBar := PciBar d' \<rparr> \<and>
    map bar_shape (PciBar d') = map (decoder_shape (is_kt kts d)) ds @ replicate (PCI_MAX_BAR - length ds) (PciBarTypeUnknown, 0, 0) \<and>
    (\<forall>b \<in> set (PciBar d'). low_mask (BarAlignment b))"
proof -
  have l: "length ds \<le> 6" using decoders_at_length [OF assms(1)] by simp
  obtain bs where bs: "gather_bars hw kts d c = (d\<lparr> PciBar := bs \<rparr>, c)"
    "map bar_shape bs = map (decoder_shape (is_kt kts d)) ds @ replicate (6 - length ds) (PciBarTypeUnknown, 0, 0)"
    using parse_bars_shapes [OF assms(1), of PCI_MAX_BAR 0 d kts] assms(2,3) l
    by (auto simp: gather_bars_def PCI_MAX_BAR_def)
  have "low_mask (BarAlignment b)" if "b \<in> set bs" for b
  proof -
    have "\<forall>x \<in> set (map bar_shape bs). low_mask (snd (snd x))"
      unfolding bs(2) using decoders_low_mask [OF assms(1), of "is_kt kts d"] low_mask_mask [of 0] by auto
    then show ?thesis using that by (simp add: bar_shape_def)
  qed
  then show ?thesis using bs assms(4) by (auto simp: PCI_MAX_BAR_def)
qed

text \<open>A device with a 64 bit memory BAR of 16 KB, an IO BAR of 32 bytes and a prefetchable memory BAR of
  4 KB; its registers hold zero addresses.\<close>

definition sample_decoders :: "decoder list" where
  "sample_decoders = [Mem64Decoder False 14 32, IoDecoder True 5, MemDecoder True 12, NoDecoder, NoDecoder]"

definition sample_hw :: config_hw where
  "sample_hw r v x = (if r = 0x10 then v AND NOT (mask 14) OR 4 else if r = 0x14 then v
     else if r = 0x18 then v AND (NOT (mask 5) AND mask 16) OR 1 else if r = 0x1C then v AND NOT (mask 12) OR 8 else 0)"

definition sample_config :: config where
  "sample_config r = sample_hw r 0 0"

definition fresh_device :: PCI_IO_DEVICE where
  "fresh_device = sample_device 1 0 (replicate 6 no_bar)"

lemma sample_decoders_at: "decoders_at sample_hw sample_config 0x10 sample_decoders"
proof -
  have "mask 32 = (- 1 :: u32)" by (simp add: mask_numeral)
  then show ?thesis
    by (simp add: sample_decoders_def sample_hw_def sample_config_def decodes_def mem_flags_def)
qed

theorem bars_gathered_witness:
  "\<exists>d' c'. gather_bars sample_hw [] fresh_device sample_config = (d', c') \<and> c' = sample_config \<and>
    map bar_shape (PciBar d') = [(PciBarTypeMem64, 0x4000, 0x3FFF), (PciBarTypeIo16, 0x20, 0x1F), (PciBarTypePMem32, 0x1000, 0xFFF),
      (PciBarTypeUnknown, 0, 0), (PciBarTypeUnknown, 0, 0), (PciBarTypeUnknown, 0, 0)]"
proof -
  obtain d' c' where e: "gather_bars sample_hw [] fresh_device sample_config = (d', c')" by (rule prod.exhaust)
  have "length (PciBar fresh_device) = PCI_MAX_BAR" "\<forall>b \<in> set (PciBar fresh_device). bar_shape b = (PciBarTypeUnknown, 0, 0)"
    by (simp_all add: fresh_device_def sample_device_def no_bar_def bar_shape_def PCI_MAX_BAR_def)
  from bars_gathered [OF sample_decoders_at this e] e show ?thesis
    by (auto simp: sample_decoders_def PCI_MAX_BAR_def is_kt_def mask_numeral)
qed

text \<open>C28: UpdatePciInfo returns for every device whose memory and IO BARs have alignments of the
  form 2^k - 1, as those that are probed do, and every list of descriptors that ask for legal
  alignments, although SetNewAlign strips hex digits in a loop that need not end, and leaves the
  BARs with such alignments. BARs of no type may have any alignment, the all ones of a 64 bit
  decoder of length 0 included, with which SetNewAlign would not return.\<close>

theorem update_returns:
  assumes "codes_ok ac" "\<forall>b \<in> set (PciBar d). masked_bar b" "length (PciBar d) = PCI_MAX_BAR"
    "\<forall>xs. Configuration = Some xs \<longrightarrow> (\<forall>x \<in> set xs. alignment_request ac (AddrRangeMax x))"
  shows "\<exists>Status d'. UpdatePciInfo ac Configuration d = Some (Status, d') \<and>
    (Status = EFI_SUCCESS \<longleftrightarrow> Configuration \<noteq> None) \<and>
    (\<forall>b \<in> set (PciBar d'). masked_bar b)"
  using assms update_descriptors_returns [OF assms(1,2) _ assms(3)]
  by (cases Configuration) (fastforce simp: UpdatePciInfo_def)+

text \<open>Codes, and a descriptor that asks for a quad boundary and 64 KB for every memory BAR.\<close>

definition sample_codes :: align_codes where
  "sample_codes = \<lparr> OLD_ALIGN = - 1, EVEN_ALIGN = - 2, SQUAD_ALIGN = - 3, DQUAD_ALIGN = - 4 \<rparr>"

lemma sample_codes_ok: "codes_ok sample_codes"
  by (simp add: codes_ok_def sample_codes_def)

definition sample_update :: ADDRESS_SPACE_DESCRIPTOR where
  "sample_update = \<lparr> Desc = ACPI_ADDRESS_SPACE_DESCRIPTOR, DescResType = ACPI_ADDRESS_SPACE_TYPE_MEM, SpecificFlag = 0,
     AddrSpaceGranularity = 32, AddrRangeMax = - 3, AddrTranslationOffset = - 1, AddrLen = 0x10000 \<rparr>"

text \<open>The second BAR of the card is one of length 0.\<close>

theorem update_returns_witness:
  "\<exists>Status d'. UpdatePciInfo sample_codes (Some [sample_update])
     (sample_nic\<lparr> PciBar := (PciBar sample_nic)[1 := no_bar\<lparr> BarAlignment := - 1 \<rparr>] \<rparr>) = Some (Status, d') \<and> Status = EFI_SUCCESS"
proof -
  let ?d = "sample_nic\<lparr> PciBar := (PciBar sample_nic)[1 := no_bar\<lparr> BarAlignment := - 1 \<rparr>] \<rparr>"
  have "\<forall>b \<in> set (PciBar ?d). masked_bar b" "length (PciBar ?d) = PCI_MAX_BAR"
    using sample_low_masks by (simp_all add: sample_defs PCI_MAX_BAR_def masked_bar_def CheckBarType_def no_bar_def)
  from update_returns [OF sample_codes_ok this, of "Some [sample_update]"] show ?thesis
    by (auto simp: sample_update_def alignment_request_def relative_def sample_codes_def)
qed

text \<open>C34: SetNewAlign rounds an alignment of 2^k - 1 up to the next even, quad or double quad
  boundary within its hex digit, for every k below 64 without overflow, and fails to return for
  exactly one old alignment, all ones with one of the three relative codes.\<close>

theorem alignment_rounded:
  assumes "codes_ok ac"
  shows "(SetNewAlign ac a n = None \<longleftrightarrow> a = - 1 \<and> relative ac n) \<and>
    (\<forall>k \<in> {0..<64}. SetNewAlign ac (mask k) (EVEN_ALIGN ac) = Some (mask (4 * (k div 4) + max 1 (k mod 4))) \<and>
      SetNewAlign ac (mask k) (SQUAD_ALIGN ac) = Some (mask (4 * (k div 4) + max 2 (k mod 4))) \<and>
      SetNewAlign ac (mask k) (DQUAD_ALIGN ac) = Some (mask (4 * (k div 4) + 3)))"
proof (intro conjI ballI)
  show "SetNewAlign ac a n = None \<longleftrightarrow> a = - 1 \<and> relative ac n" by (rule SetNewAlign_returns [OF assms])
next
  fix k :: nat assume "k \<in> {0..<64}"
  then have k: "k < 64" "max 3 (k mod 4) = 3" by auto
  have "digit_bits ac (EVEN_ALIGN ac) = 1" "digit_bits ac (SQUAD_ALIGN ac) = 2" "digit_bits ac (DQUAD_ALIGN ac) = 3"
    using assms by (auto simp: digit_bits_def codes_ok_def)
  then show "SetNewAlign ac (mask k) (EVEN_ALIGN ac) = Some (mask (4 * (k div 4) + max 1 (k mod 4)))"
    "SetNewAlign ac (mask k) (SQUAD_ALIGN ac) = Some (mask (4 * (k div 4) + max 2 (k mod 4)))"
    "SetNewAlign ac (mask k) (DQUAD_ALIGN ac) = Some (mask (4 * (k div 4) + 3))"
    using SetNewAlign_mask [OF assms _ k(1)] k(2) by (simp_all add: relative_def)
qed

theorem alignment_rounded_witness:
  "SetNewAlign sample_codes 0xFFFF (- 3) = Some 0x3FFFF"
  using alignment_rounded [OF sample_codes_ok, of 0 0] by (auto simp: sample_codes_def mask_numeral dest!: bspec [of _ _ 16])

text \<open>A virtual function BAR of 16 KB with a 64 bit decoder whose upper half is hardwired to zero: the
  length read back is not complemented, where that of a BAR of the device is.\<close>

lemma vf_upper_half:
  defines "hw \<equiv> \<lambda>r v x. if r = 0x124 \<or> r = 0x10 then v AND NOT (mask 14) OR 4 else 0 :: u32"
    and "d \<equiv> fresh_device\<lparr> SrIovCapabilityOffset := 0x100, SystemPageSize := 0x1000, InitialVFs := 8 \<rparr>"
  shows "BarLength (VfPciBar (fst (snd (PciIovParseVfBar hw d 0x124 0 (\<lambda>r. hw r 0 0)))) ! 0) = 0xFFFFC000 \<and>
    BarLength (PciBar (fst (snd (PciParseBar hw [] d 0x10 0 False (\<lambda>r. hw r 0 0)))) ! 0) = 0x4000"
  unfolding hw_def d_def by code_simp

end
