(* ===== verification/PciBusNumbers.thy ===== *)
theory PciBusNumbers
  imports PciNodes
begin

text \<open>
  The numbering of PCI buses, PciEnumerator.c, PciLib.c and PciEnumeratorSupport.c of the platform's
  PciBusDxe: \<open>PciAssignBusNumber\<close> walks the buses depth first and programs the bus number
  registers of each bridge, taking the numbers from the ranges of the root bridge with
  \<open>PciAllocateBusNumber\<close>.  What a configuration access reads and does, through the bridges above the
  device, is a parameter.
\<close>

section \<open>Configuration accesses\<close>

text \<open>The part of a header that the walk reads; and the accesses of the root bridge, by bus, device and
  function.\<close>

record PCI_TYPE00 =
  Hdr_VendorId :: u16
  Hdr_HeaderType :: u8

type_synonym pci_address = "u8 \<times> nat \<times> nat"

record 'st config_bus =
  read_header :: "'st \<Rightarrow> pci_address \<Rightarrow> PCI_TYPE00"
  write_config :: "'st \<Rightarrow> pci_address \<Rightarrow> u32 \<Rightarrow> nat \<Rightarrow> u32 \<Rightarrow> 'st"

definition PCI_MAX_DEVICE :: nat where [regs]: "PCI_MAX_DEVICE = 31"
definition PCI_MAX_FUNC :: nat where [regs]: "PCI_MAX_FUNC = 7"
definition HEADER_TYPE_MULTI_FUNCTION :: u8 where [regs]: "HEADER_TYPE_MULTI_FUNCTION = 0x80"

definition PPB_HDR :: "PCI_TYPE00 \<Rightarrow> bool" where
  "PPB_HDR Pci \<longleftrightarrow> Hdr_HeaderType Pci AND HEADER_LAYOUT_CODE = HEADER_TYPE_PCI_TO_PCI_BRIDGE"

definition P2C_HDR :: "PCI_TYPE00 \<Rightarrow> bool" where
  "P2C_HDR Pci \<longleftrightarrow> Hdr_HeaderType Pci AND HEADER_LAYOUT_CODE = HEADER_TYPE_CARDBUS_BRIDGE"

definition IS_PCI_MULTI_FUNC :: "PCI_TYPE00 \<Rightarrow> bool" where
  "IS_PCI_MULTI_FUNC Pci \<longleftrightarrow> Hdr_HeaderType Pci AND HEADER_TYPE_MULTI_FUNCTION \<noteq> 0"

text \<open>The SPI controller is never found; a function that is not there is written to and read again.\<close>

definition PciDevicePresent :: "'st config_bus \<Rightarrow> pci_address \<Rightarrow> 'st \<Rightarrow> PCI_TYPE00 option \<times> 'st" where
  "PciDevicePresent hw a st =
     (if a = (0, 0x1F, 5) then (None, st)
      else let st = (if Hdr_VendorId (read_header hw st a) = 0xFFFF then write_config hw st a 0 4 0xFFFFFFFF else st) in
        (if Hdr_VendorId (read_header hw st a) \<noteq> 0xFFFF then Some (read_header hw st a) else None, st))"

section \<open>Allocation of a number\<close>

text \<open>The bus number ranges of the root bridge up to the end tag, by their first number and their length.
  The sum is computed in eight bits.\<close>

type_synonym bus_ranges = "(u64 \<times> u64) list"

fun next_number :: "u8 \<Rightarrow> u64 \<Rightarrow> bus_ranges \<Rightarrow> u8 option" where
  "next_number NextNumber MaxNumberInRange [] =
     (if ucast NextNumber > MaxNumberInRange then None else Some NextNumber)"
| "next_number NextNumber MaxNumberInRange ((RangeMin, Len) # rs) =
     (if ucast NextNumber > MaxNumberInRange
      then next_number (ucast (ucast NextNumber + (RangeMin - (MaxNumberInRange + 1)))) (RangeMin + Len - 1) rs
      else Some NextNumber)"

text \<open>\<open>None\<close> is \<open>EFI_OUT_OF_RESOURCES\<close>.\<close>

fun PciAllocateBusNumber :: "bus_ranges \<Rightarrow> u8 \<Rightarrow> u8 \<Rightarrow> u8 option" where
  "PciAllocateBusNumber [] StartBusNumber NumberOfBuses = None"
| "PciAllocateBusNumber ((RangeMin, Len) # rs) StartBusNumber NumberOfBuses =
     (if ucast StartBusNumber \<ge> RangeMin \<and> ucast StartBusNumber \<le> RangeMin + Len - 1
      then next_number (StartBusNumber + NumberOfBuses) (RangeMin + Len - 1) rs
      else PciAllocateBusNumber rs StartBusNumber NumberOfBuses)"

section \<open>The walk\<close>

text \<open>The rest of the loops over devices and functions of a bus, with the number given last.  The
  recursion follows the bridges that the accesses find: it need not end.\<close>

partial_function (option) assign_functions :: "'st config_bus \<Rightarrow> bus_ranges \<Rightarrow> u8 \<Rightarrow> nat \<Rightarrow> nat \<Rightarrow> u8 \<Rightarrow> 'st \<Rightarrow>
    (efi_status \<times> u8 \<times> 'st) option" where
  "assign_functions hw rs StartBusNumber Device Fn SubBusNumber st =
     (if Device > PCI_MAX_DEVICE then Some (EFI_SUCCESS, SubBusNumber, st)
      else if Fn > PCI_MAX_FUNC then assign_functions hw rs StartBusNumber (Device + 1) 0 SubBusNumber st
      else case PciDevicePresent hw (StartBusNumber, Device, Fn) st of
        (None, st) \<Rightarrow>
          if Fn = 0 then assign_functions hw rs StartBusNumber (Device + 1) 0 SubBusNumber st
          else assign_functions hw rs StartBusNumber Device (Fn + 1) SubBusNumber st
      | (Some Pci, st) \<Rightarrow>
          let NextFunc = (if Fn = 0 \<and> \<not> IS_PCI_MULTI_FUNC Pci then PCI_MAX_FUNC + 1 else Fn + 1);
              a = (StartBusNumber, Device, Fn) in
          if \<not> (PPB_HDR Pci \<or> P2C_HDR Pci) then assign_functions hw rs StartBusNumber Device NextFunc SubBusNumber st
          else case PciAllocateBusNumber rs SubBusNumber 1 of
            None \<Rightarrow> Some (EFI_OUT_OF_RESOURCES, SubBusNumber, st)
          | Some SecondBus \<Rightarrow>
              let st = write_config hw st a 0x18 2 (push_bit 8 (ucast SecondBus) OR ucast StartBusNumber);
                  st = write_config hw st a 0x1A 1 (ucast SecondBus) in
              if \<not> PPB_HDR Pci
              then assign_functions hw rs StartBusNumber Device NextFunc SecondBus
                (write_config hw st a 0x1A 1 (ucast SecondBus))
              else Option.bind (assign_functions hw rs SecondBus 0 0 SecondBus (write_config hw st a 0x1A 1 0xFF))
                (\<lambda>(Status, SubBusNumber, st).
                  if EFI_ERROR Status then Some (EFI_DEVICE_ERROR, SubBusNumber, st)
                  else assign_functions hw rs StartBusNumber Device NextFunc SubBusNumber
                    (write_config hw st a 0x1A 1 (ucast SubBusNumber))))"

definition PciAssignBusNumber :: "'st config_bus \<Rightarrow> bus_ranges \<Rightarrow> u8 \<Rightarrow> 'st \<Rightarrow> (efi_status \<times> u8 \<times> 'st) option" where
  "PciAssignBusNumber hw rs StartBusNumber st = assign_functions hw rs StartBusNumber 0 0 StartBusNumber st"

section \<open>Buses behind bridges\<close>

text \<open>A hierarchy of functions: each with its header, its bus number registers (primary, secondary,
  subordinate), and the functions of the bus behind it, by device and function number.\<close>

datatype pci_function =
  Function (header: PCI_TYPE00) (numbers: "u8 \<times> u8 \<times> u8") (behind: "((nat \<times> nat) \<times> pci_function) list")

type_synonym pci_bus = "((nat \<times> nat) \<times> pci_function) list"

text \<open>A bridge forwards an access to the buses of its range.\<close>

definition claims :: "PCI_TYPE00 \<Rightarrow> u8 \<times> u8 \<times> u8 \<Rightarrow> u8 \<Rightarrow> bool" where
  "claims h n t \<longleftrightarrow> PPB_HDR h \<and> fst (snd n) \<le> t \<and> t \<le> snd (snd n)"

fun forward :: "u8 \<Rightarrow> pci_bus \<Rightarrow> nat \<times> nat \<Rightarrow> pci_function option" where
  "forward t [] k = None"
| "forward t ((i, Function h n fs) # rest) k =
     (if claims h n t then (if t = fst (snd n) then map_of fs k else forward t fs k) else forward t rest k)"

definition update_at :: "nat \<times> nat \<Rightarrow> (pci_function \<Rightarrow> pci_function) \<Rightarrow> pci_bus \<Rightarrow> pci_bus" where
  "update_at k g fs = map (\<lambda>(i, f). (i, if i = k then g f else f)) fs"

fun forward_update :: "u8 \<Rightarrow> pci_bus \<Rightarrow> nat \<times> nat \<Rightarrow> (pci_function \<Rightarrow> pci_function) \<Rightarrow> pci_bus" where
  "forward_update t [] k g = []"
| "forward_update t ((i, Function h n fs) # rest) k g =
     (if claims h n t
      then (i, Function h n (if t = fst (snd n) then update_at k g fs else forward_update t fs k g)) # rest
      else (i, Function h n fs) # forward_update t rest k g)"

fun write_function :: "u32 \<Rightarrow> nat \<Rightarrow> u32 \<Rightarrow> pci_function \<Rightarrow> pci_function" where
  "write_function Reg Width v (Function h (p, s, b) fs) =
     (if \<not> (PPB_HDR h \<or> P2C_HDR h) then Function h (p, s, b) fs
      else if Reg = 0x18 \<and> Width = 2 then Function h (ucast v, ucast (drop_bit 8 v), b) fs
      else if Reg = 0x1A \<and> Width = 1 then Function h (p, s, ucast v) fs
      else Function h (p, s, b) fs)"

definition absent :: PCI_TYPE00 where "absent = \<lparr> Hdr_VendorId = 0xFFFF, Hdr_HeaderType = 0xFF \<rparr>"

definition header_of :: "pci_function option \<Rightarrow> PCI_TYPE00" where
  "header_of f = (case f of None \<Rightarrow> absent | Some f \<Rightarrow> header f)"

definition find_function :: "u8 \<Rightarrow> pci_bus \<Rightarrow> pci_address \<Rightarrow> pci_function option" where
  "find_function root fs a = (if fst a = root then map_of fs (snd a) else forward (fst a) fs (snd a))"

definition update_function :: "u8 \<Rightarrow> pci_bus \<Rightarrow> pci_address \<Rightarrow> (pci_function \<Rightarrow> pci_function) \<Rightarrow> pci_bus" where
  "update_function root fs a g = (if fst a = root then update_at (snd a) g fs else forward_update (fst a) fs (snd a) g)"

definition bridged_bus :: "u8 \<Rightarrow> pci_bus config_bus" where
  "bridged_bus root = \<lparr> read_header = \<lambda>fs a. header_of (find_function root fs a),
     write_config = \<lambda>fs a Reg Width v. update_function root fs a (write_function Reg Width v) \<rparr>"

section \<open>The depth first numbering\<close>

text \<open>The functions of a bus that the walk looks at.\<close>

definition multi :: "pci_bus \<Rightarrow> nat \<Rightarrow> bool" where
  "multi fs d \<longleftrightarrow> (case map_of fs (d, 0) of None \<Rightarrow> False | Some f \<Rightarrow> IS_PCI_MULTI_FUNC (header f))"

lemma multi_iff: "multi fs d \<longleftrightarrow> (\<exists>f. map_of fs (d, 0) = Some f \<and> IS_PCI_MULTI_FUNC (header f))"
  by (simp add: multi_def split: option.split)

definition visited :: "u8 \<Rightarrow> pci_bus \<Rightarrow> nat \<times> nat \<Rightarrow> bool" where
  "visited Bus fs k \<longleftrightarrow> (Bus, k) \<noteq> (0, 0x1F, 5) \<and> (snd k = 0 \<or> multi fs (fst k))"

fun number_bus :: "bus_ranges \<Rightarrow> u8 \<Rightarrow> (nat \<times> nat \<Rightarrow> bool) \<Rightarrow> pci_bus \<Rightarrow> u8 \<Rightarrow> efi_status \<times> u8 \<times> pci_bus" where
  "number_bus rs Bus vis [] Sub = (EFI_SUCCESS, Sub, [])"
| "number_bus rs Bus vis ((k, Function h n fs) # rest) Sub =
     (if \<not> vis k \<or> \<not> (PPB_HDR h \<or> P2C_HDR h)
      then (case number_bus rs Bus vis rest Sub of (Status, Sub', rest') \<Rightarrow> (Status, Sub', (k, Function h n fs) # rest'))
      else case PciAllocateBusNumber rs Sub 1 of
        None \<Rightarrow> (EFI_OUT_OF_RESOURCES, Sub, (k, Function h n fs) # rest)
      | Some s \<Rightarrow>
          if PPB_HDR h
          then (case number_bus rs s (visited s fs) fs s of (Status, Sub', fs') \<Rightarrow>
            if EFI_ERROR Status then (EFI_DEVICE_ERROR, Sub', (k, Function h (Bus, s, 0xFF) fs') # rest)
            else case number_bus rs Bus vis rest Sub' of
              (Status, Sub'', rest') \<Rightarrow> (Status, Sub'', (k, Function h (Bus, s, Sub') fs') # rest'))
          else (case number_bus rs Bus vis rest s of
            (Status, Sub', rest') \<Rightarrow> (Status, Sub', (k, Function h (Bus, s, s) fs) # rest')))"

section \<open>A bus seen through the bridges above it\<close>

text \<open>The accesses to a bus, and to the buses numbered above it, in a hierarchy of which all but this bus
  is fixed.\<close>

definition window :: "'st config_bus \<Rightarrow> (pci_bus \<Rightarrow> 'st) \<Rightarrow> u8 \<Rightarrow> bool" where
  "window hw C Bus \<longleftrightarrow>
     (\<forall>fs k. read_header hw (C fs) (Bus, k) = header_of (map_of fs k)) \<and>
     (\<forall>fs k r w v. write_config hw (C fs) (Bus, k) r w v = C (update_at k (write_function r w v) fs)) \<and>
     (\<forall>fs k t. Bus < t \<longrightarrow> read_header hw (C fs) (t, k) = header_of (forward t fs k)) \<and>
     (\<forall>fs k t r w v. Bus < t \<longrightarrow> write_config hw (C fs) (t, k) r w v = C (forward_update t fs k (write_function r w v)))"

lemma windowD:
  assumes "window hw C Bus"
  shows "read_header hw (C fs) (Bus, k) = header_of (map_of fs k)"
    "write_config hw (C fs) (Bus, k) r w v = C (update_at k (write_function r w v) fs)"
    "Bus < t \<Longrightarrow> read_header hw (C fs) (t, k) = header_of (forward t fs k)"
    "Bus < t \<Longrightarrow> write_config hw (C fs) (t, k) r w v = C (forward_update t fs k (write_function r w v))"
  using assms unfolding window_def by blast+

lemma window_root: "window (bridged_bus root) (\<lambda>fs. fs) root"
  by (simp add: window_def bridged_bus_def find_function_def update_function_def)

definition silent :: "u8 \<Rightarrow> pci_bus \<Rightarrow> bool" where
  "silent Sub fs \<longleftrightarrow> (\<forall>(k, f) \<in> set fs. PPB_HDR (header f) \<longrightarrow> snd (snd (numbers f)) \<le> Sub)"

lemma silent_simps [simp]:
  "silent Sub []"
  "silent Sub ((k, Function h n fs) # rest) \<longleftrightarrow> (PPB_HDR h \<longrightarrow> snd (snd n) \<le> Sub) \<and> silent Sub rest"
  "silent Sub (xs @ ys) \<longleftrightarrow> silent Sub xs \<and> silent Sub ys"
  by (auto simp: silent_def)

lemma silent_mono: "silent a fs \<Longrightarrow> a \<le> b \<Longrightarrow> silent b fs"
  by (force simp: silent_def)

lemma claims_silent: "PPB_HDR h \<longrightarrow> snd (snd n) \<le> Sub \<Longrightarrow> Sub < t \<Longrightarrow> \<not> claims h n t"
  by (auto simp: claims_def)

lemma forward_silent:
  assumes "silent Sub xs" "Sub < t"
  shows "forward t (xs @ fs) k = forward t fs k \<and> forward_update t (xs @ fs) k g = xs @ forward_update t fs k g"
  using assms
proof (induction xs)
  case (Cons x xs)
  obtain i h n gs where x: "x = (i, Function h n gs)" by (metis prod.exhaust pci_function.exhaust)
  then show ?case using Cons claims_silent [of h n Sub t] by simp
qed simp

lemma window_child:
  assumes w: "window hw C Bus" and s: "Bus < s" "silent Sub xs" "Sub < s" and h: "PPB_HDR h"
  shows "window hw (\<lambda>fs. C (xs @ (i, Function h (p, s, 0xFF) fs) # rest)) s"
proof -
  have "(0xFF :: u8) = - 1" by simp
  then have "t \<le> (0xFF :: u8)" for t by (simp only: word_order.extremum)
  then have "claims h (p, s, 0xFF) t" if "s \<le> t" for t
    using that h by (simp add: claims_def)
  then have f: "forward t (xs @ (i, Function h (p, s, 0xFF) fs) # rest) k = (if t = s then map_of fs k else forward t fs k)"
    "forward_update t (xs @ (i, Function h (p, s, 0xFF) fs) # rest) k g =
      xs @ (i, Function h (p, s, 0xFF) (if t = s then update_at k g fs else forward_update t fs k g)) # rest"
    if "s \<le> t" for t fs k g
    using that s forward_silent [of Sub xs t] by auto
  have less: "Bus < t" if "s \<le> t" for t using s(1) that by (rule order.strict_trans2)
  have r: "read_header hw (C gs) (t, k) = header_of (forward t gs k)"
    and u: "write_config hw (C gs) (t, k) r' W v = C (forward_update t gs k (write_function r' W v))"
    if "s \<le> t" for gs t k r' W v
    by (rule windowD(3,4) [OF w less [OF that]])+
  show ?thesis
    unfolding window_def
  proof (intro conjI allI impI)
    fix fs k t r' W v
    show "read_header hw (C (xs @ (i, Function h (p, s, 0xFF) fs) # rest)) (s, k) = header_of (map_of fs k)"
      by (simp add: r f)
    show "write_config hw (C (xs @ (i, Function h (p, s, 0xFF) fs) # rest)) (s, k) r' W v =
        C (xs @ (i, Function h (p, s, 0xFF) (update_at k (write_function r' W v) fs)) # rest)"
      by (simp add: u f)
    assume t: "s < t"
    then have "s \<le> t" "t \<noteq> s" by auto
    then show "read_header hw (C (xs @ (i, Function h (p, s, 0xFF) fs) # rest)) (t, k) = header_of (forward t fs k)"
      "write_config hw (C (xs @ (i, Function h (p, s, 0xFF) fs) # rest)) (t, k) r' W v =
        C (xs @ (i, Function h (p, s, 0xFF) (forward_update t fs k (write_function r' W v))) # rest)"
      by (simp_all add: r u f)
  qed
qed

section \<open>Hierarchies\<close>

definition place :: "nat \<times> nat \<Rightarrow> nat" where "place k = 8 * fst k + snd k"

text \<open>The functions of each bus are in the order of their numbers, from a given place on; each is there,
  and no bridge claims a bus.\<close>

fun ordered_bus :: "nat \<Rightarrow> pci_bus \<Rightarrow> bool" where
  "ordered_bus lo [] \<longleftrightarrow> True"
| "ordered_bus lo ((k, Function h n fs) # rest) \<longleftrightarrow>
     lo \<le> place k \<and> fst k \<le> PCI_MAX_DEVICE \<and> snd k \<le> PCI_MAX_FUNC \<and> Hdr_VendorId h \<noteq> 0xFFFF \<and> snd (snd n) = 0 \<and>
     ordered_bus 0 fs \<and> ordered_bus (Suc (place k)) rest"

fun bus_size :: "pci_bus \<Rightarrow> nat" where
  "bus_size [] = 0"
| "bus_size ((k, Function h n fs) # rest) = Suc (bus_size fs + bus_size rest)"

lemma place_inject: "snd k \<le> PCI_MAX_FUNC \<Longrightarrow> snd l \<le> PCI_MAX_FUNC \<Longrightarrow> place k = place l \<longleftrightarrow> k = l"
proof -
  have "place x div 8 = fst x \<and> place x mod 8 = snd x" if "snd x \<le> PCI_MAX_FUNC" for x
    using that by (simp add: place_def PCI_MAX_FUNC_def)
  then show "snd k \<le> PCI_MAX_FUNC \<Longrightarrow> snd l \<le> PCI_MAX_FUNC \<Longrightarrow> place k = place l \<longleftrightarrow> k = l"
    by (metis prod.expand)
qed

lemma place_device: "8 * d \<le> place k \<Longrightarrow> place k < 8 * d + 8 \<Longrightarrow> snd k \<le> PCI_MAX_FUNC \<Longrightarrow> fst k = d"
  by (simp add: place_def PCI_MAX_FUNC_def)

lemma ordered_bus_mono: "ordered_bus m fs \<Longrightarrow> l \<le> m \<Longrightarrow> ordered_bus l fs"
  by (cases "(l, fs)" rule: ordered_bus.cases) auto

lemma ordered_bus_member:
  "ordered_bus lo fs \<Longrightarrow> (k, f) \<in> set fs \<Longrightarrow>
    lo \<le> place k \<and> fst k \<le> PCI_MAX_DEVICE \<and> snd k \<le> PCI_MAX_FUNC \<and> Hdr_VendorId (header f) \<noteq> 0xFFFF \<and> snd (snd (numbers f)) = 0"
  by (induction lo fs rule: ordered_bus.induct) (fastforce)+

lemma ordered_bus_split:
  assumes "ordered_bus lo fs"
  obtains xs ys where "fs = xs @ ys" "\<forall>(k, f) \<in> set xs. place k < m" "ordered_bus (max lo m) ys"
  using assms
proof (induction lo fs arbitrary: thesis rule: ordered_bus.induct)
  case (1 lo)
  then show ?case by (intro 1(1) [of "[]" "[]"]) auto
next
  case (2 lo k h n fs rest)
  show ?case
  proof (cases "place k < m")
    case True
    obtain xs ys where "rest = xs @ ys" "\<forall>(k, f) \<in> set xs. place k < m" "ordered_bus (max (Suc (place k)) m) ys"
      using 2 by auto
    then show thesis
      using True 2(3,4) ordered_bus_mono [of "max (Suc (place k)) m" ys "max lo m"]
      by (intro 2(3) [of "(k, Function h n fs) # xs" ys]) auto
  next
    case False
    then show thesis using 2(3,4) by (intro 2(3) [of "[]" "(k, Function h n fs) # rest"]) auto
  qed
qed

lemma functions_append [simp]: "bus_size (xs @ ys) = bus_size xs + bus_size ys"
  by (induction xs rule: bus_size.induct) auto

section \<open>Accesses of the walk\<close>

lemma update_at_append: "update_at k g (xs @ ys) = update_at k g xs @ update_at k g ys"
  by (simp add: update_at_def)

lemma update_at_absent: "k \<notin> fst ` set fs \<Longrightarrow> update_at k g fs = fs"
  by (induction fs) (auto simp: update_at_def)

lemma update_at_here:
  "k \<notin> fst ` set xs \<Longrightarrow> k \<notin> fst ` set ys \<Longrightarrow> update_at k g (xs @ (k, f) # ys) = xs @ (k, g f) # ys"
  by (simp add: update_at_append update_at_absent update_at_def [of k g "(k, f) # ys"] update_at_def [symmetric])

lemma map_of_here: "k \<notin> fst ` set xs \<Longrightarrow> map_of (xs @ (k, f) # ys) k = Some f"
  by (auto simp: map_add_def map_of_eq_None_iff [THEN iffD2])

definition real_bus :: "pci_bus \<Rightarrow> bool" where
  "real_bus fs \<longleftrightarrow> (\<forall>(k, f) \<in> set fs. Hdr_VendorId (header f) \<noteq> 0xFFFF)"

lemma present_window:
  assumes "window hw C Bus" "real_bus fs"
  shows "PciDevicePresent hw (Bus, k) (C fs) =
    (if (Bus, k) = (0, 0x1F, 5) then None else map_option header (map_of fs k), C fs)"
proof (cases "map_of fs k")
  case None
  then have "k \<notin> fst ` set fs" by (simp add: map_of_eq_None_iff)
  then show ?thesis
    using None by (simp add: PciDevicePresent_def windowD [OF assms(1)] header_of_def absent_def update_at_absent)
next
  case (Some f)
  then have "Hdr_VendorId (header f) \<noteq> 0xFFFF" using assms(2) map_of_SomeD by (fastforce simp: real_bus_def)
  then show ?thesis
    using Some by (simp add: PciDevicePresent_def windowD [OF assms(1)] header_of_def)
qed

lemma write_window_at:
  assumes "window hw C Bus" "k \<notin> fst ` set xs" "k \<notin> fst ` set ys"
  shows "write_config hw (C (xs @ (k, f) # ys)) (Bus, k) r w v = C (xs @ (k, write_function r w v f) # ys)"
  by (simp add: windowD [OF assms(1)] update_at_here [OF assms(2,3)])

lemma bus_register:
  "ucast (push_bit 8 (ucast (s :: u8)) OR ucast (p :: u8) :: u32) = p"
  "ucast (drop_bit 8 (push_bit 8 (ucast (s :: u8)) OR ucast (p :: u8) :: u32)) = s"
  by (intro bit_word_eqI; auto simp: bit_simps dest: bit_imp_le_length)+

lemma write_bridge:
  assumes "PPB_HDR h \<or> P2C_HDR h"
  shows "write_function 0x18 2 v (Function h n fs) = Function h (ucast v, ucast (drop_bit 8 v), snd (snd n)) fs"
    "write_function 0x1A 1 v (Function h n fs) = Function h (fst n, fst (snd n), ucast v) fs"
  using assms by (cases n; auto)+

lemma write_numbers:
  assumes "PPB_HDR h \<or> P2C_HDR h"
  shows "write_function 0x18 2 (push_bit 8 (ucast s) OR ucast p) (Function h n fs) = Function h (p, s, snd (snd n)) fs"
    "write_function 0x1A 1 (ucast b) (Function h (p, s, b') fs) = Function h (p, s, b) fs"
    "write_function 0x1A 1 0xFF (Function h (p, s, b') fs) = Function h (p, s, 0xFF) fs"
  unfolding write_bridge [OF assms] bus_register by simp_all

lemma visited_cong:
  assumes "map (\<lambda>(k, f). (k, header f)) fs = map (\<lambda>(k, f). (k, header f)) gs"
  shows "multi fs = multi gs" "visited Bus fs = visited Bus gs"
proof -
  have "map_of (map (\<lambda>(k, f). (k, header f)) fs) k = map_option header (map_of fs k)" for fs k
    by (induction fs) auto
  then have e: "map_option header (map_of fs k) = map_option header (map_of gs k)" for k
    by (metis assms)
  have q: "(\<exists>f. m = Some f \<and> P (header f)) \<longleftrightarrow> (\<exists>h. map_option header m = Some h \<and> P h)" for m P
    by (cases m) auto
  show m: "multi fs = multi gs" unfolding multi_iff fun_eq_iff q e by simp
  show "visited Bus fs = visited Bus gs" by (simp add: visited_def fun_eq_iff m)
qed

section \<open>The numbering\<close>

definition increasing :: "bus_ranges \<Rightarrow> bool" where
  "increasing rs \<longleftrightarrow> (\<forall>a s. PciAllocateBusNumber rs a 1 = Some s \<longrightarrow> a < s)"

lemma number_bus_skip:
  "\<forall>(k, f) \<in> set xs. \<not> vis k \<Longrightarrow> number_bus rs Bus vis (xs @ ys) Sub =
     (case number_bus rs Bus vis ys Sub of (Status, Sub', ys') \<Rightarrow> (Status, Sub', xs @ ys'))"
proof (induction xs)
  case (Cons x xs)
  obtain k h n fs where "x = (k, Function h n fs)" by (metis prod.exhaust pci_function.exhaust)
  then show ?case using Cons by (auto split: prod.splits)
qed (simp split: prod.splits)

lemma number_bus_mono:
  assumes "increasing rs"
  shows "number_bus rs Bus vis fs Sub = (Status, Sub', fs') \<Longrightarrow> Sub \<le> Sub'"
proof (induction fs arbitrary: Bus vis Sub Status Sub' fs' rule: bus_size.induct)
  case (2 k h n fs rest)
  show ?case
  proof (cases "\<not> vis k \<or> \<not> (PPB_HDR h \<or> P2C_HDR h)")
    case True
    then show ?thesis using 2(2) [of Bus vis Sub] 2(3) by (auto split: prod.splits)
  next
    case False
    show ?thesis
    proof (cases "PciAllocateBusNumber rs Sub 1")
      case None
      then show ?thesis using False 2(3) by simp
    next
      case (Some s)
      then have inc: "Sub \<le> s" using assms by (meson increasing_def less_imp_le)
      obtain St a gs where c: "number_bus rs s (visited s fs) fs s = (St, a, gs)" by (metis prod.exhaust)
      have "s \<le> a" by (rule 2(1) [OF c])
      moreover obtain St' b rs' where d: "number_bus rs Bus vis rest a = (St', b, rs')" by (metis prod.exhaust)
      have "a \<le> b" by (rule 2(2) [OF d])
      moreover obtain St'' b' rs'' where e: "number_bus rs Bus vis rest s = (St'', b', rs'')" by (metis prod.exhaust)
      have "s \<le> b'" by (rule 2(2) [OF e])
      ultimately show ?thesis
        using False 2(3) Some inc by (auto simp: c d e split: if_splits)
    qed
  qed
qed simp

lemma number_bus_status: "number_bus rs Bus vis fs Sub = (Status, Sub', fs') \<Longrightarrow> Status = EFI_SUCCESS \<or> EFI_ERROR Status"
proof (induction fs arbitrary: Bus vis Sub Status Sub' fs' rule: bus_size.induct)
  case (2 k h n fs rest)
  have e: "EFI_ERROR EFI_OUT_OF_RESOURCES" "EFI_ERROR EFI_DEVICE_ERROR" by simp_all
  show ?case using 2(2,3) e by (auto split: prod.splits if_splits option.splits)
qed simp

section \<open>The walk numbers depth first\<close>

text \<open>What holds of a bus of which the functions before a place have been looked at.\<close>

definition walk_ok :: "nat \<Rightarrow> pci_bus \<Rightarrow> pci_bus \<Rightarrow> u8 \<Rightarrow> bool" where
  "walk_ok p xs ys Sub \<longleftrightarrow> ordered_bus p ys \<and> real_bus xs \<and> silent Sub xs \<and>
     (\<forall>(k, f) \<in> set xs. place k < p \<and> snd k \<le> PCI_MAX_FUNC)"

lemma walk_real: "walk_ok p xs ys Sub \<Longrightarrow> real_bus (xs @ ys)"
  using ordered_bus_member [of p ys] by (fastforce simp: walk_ok_def real_bus_def)

lemma walk_split:
  assumes "walk_ok p xs ys Sub" "p \<le> m"
  obtains zs ws where "ys = zs @ ws" "\<forall>(k, f) \<in> set zs. place k < m" "walk_ok m (xs @ zs) ws Sub"
proof -
  from assms(1) have o: "ordered_bus p ys" by (simp add: walk_ok_def)
  then obtain zs ws where z: "ys = zs @ ws" "\<forall>(k, f) \<in> set zs. place k < m" "ordered_bus (max p m) ws"
    by (rule ordered_bus_split)
  have "real_bus zs" "\<forall>(k, f) \<in> set zs. snd k \<le> PCI_MAX_FUNC" "silent Sub zs"
    using ordered_bus_member [OF o] z(1) by (fastforce simp: real_bus_def silent_def)+
  moreover have "real_bus xs" "silent Sub xs" "\<forall>(k, f) \<in> set xs. place k < m \<and> snd k \<le> PCI_MAX_FUNC"
    using assms by (fastforce simp: walk_ok_def)+
  ultimately have "walk_ok m (xs @ zs) ws Sub"
    using z assms(2) by (auto simp: walk_ok_def real_bus_def max_absorb2)
  then show thesis using that z by blast
qed

lemma walk_here:
  assumes "walk_ok p xs ((k, f) # ys) Sub" "place k = p" "snd k \<le> PCI_MAX_FUNC"
  shows "k \<notin> fst ` set xs" "k \<notin> fst ` set ys"
    "header g = header f \<Longrightarrow> PPB_HDR (header f) \<longrightarrow> snd (snd (numbers g)) \<le> Sub' \<Longrightarrow> Sub \<le> Sub' \<Longrightarrow>
      walk_ok (Suc p) (xs @ [(k, g)]) ys Sub'"
proof -
  obtain h n fs where f: "f = Function h n fs" by (rule pci_function.exhaust)
  have o: "ordered_bus (Suc p) ys" "Hdr_VendorId h \<noteq> 0xFFFF" using assms f by (auto simp: walk_ok_def)
  show "k \<notin> fst ` set xs" using assms by (force simp: walk_ok_def)
  show "k \<notin> fst ` set ys" using ordered_bus_member [OF o(1)] assms(2) by force
  show "walk_ok (Suc p) (xs @ [(k, g)]) ys Sub'"
    if "header g = header f" "PPB_HDR (header f) \<longrightarrow> snd (snd (numbers g)) \<le> Sub'" "Sub \<le> Sub'"
    using assms o f that silent_mono [of Sub xs Sub']
    by (cases g) (force simp: walk_ok_def real_bus_def)
qed

definition walk_measure :: "pci_bus \<Rightarrow> nat \<Rightarrow> nat \<Rightarrow> nat" where
  "walk_measure ys D F = 400 * bus_size ys + 9 * (32 - D) + (8 - F)"

definition finished :: "(pci_bus \<Rightarrow> 'st) \<Rightarrow> pci_bus \<Rightarrow> efi_status \<times> u8 \<times> pci_bus \<Rightarrow> (efi_status \<times> u8 \<times> 'st) option" where
  "finished C xs r = (case r of (Status, Sub, ys) \<Rightarrow> Some (Status, Sub, C (xs @ ys)))"

text \<open>That the walk from a place on is the numbering of the rest of the bus, in every hierarchy that shows
  this bus.\<close>

definition walks :: "'st config_bus \<Rightarrow> bus_ranges \<Rightarrow> pci_bus \<Rightarrow> nat \<Rightarrow> nat \<Rightarrow> bool" where
  "walks hw rs ys D F \<longleftrightarrow> (\<forall>C Bus xs Sub. window hw C Bus \<longrightarrow> walk_ok (8 * D + F) xs ys Sub \<longrightarrow> Bus \<le> Sub \<longrightarrow>
     (0 < F \<longrightarrow> F \<le> PCI_MAX_FUNC \<longrightarrow> multi (xs @ ys) D) \<longrightarrow>
     assign_functions hw rs Bus D F Sub (C (xs @ ys)) = finished C xs (number_bus rs Bus (visited Bus (xs @ ys)) ys Sub))"

lemma walks_end: "32 \<le> D \<Longrightarrow> walks hw rs ys D F"
  unfolding walks_def
proof (intro allI impI)
  fix C Bus xs Sub assume D: "32 \<le> D" and w: "walk_ok (8 * D + F) xs ys Sub"
  have "ys = []"
  proof (rule ccontr)
    assume "ys \<noteq> []"
    then obtain x where "x \<in> set ys" by (cases ys) auto
    then show False
      using ordered_bus_member [of "8 * D + F" ys "fst x" "snd x"] w D
      by (auto simp: walk_ok_def place_def PCI_MAX_DEVICE_def PCI_MAX_FUNC_def)
  qed
  then show "assign_functions hw rs Bus D F Sub (C (xs @ ys)) = finished C xs (number_bus rs Bus (visited Bus (xs @ ys)) ys Sub)"
    using D by (simp add: assign_functions.simps PCI_MAX_DEVICE_def finished_def)
qed

text \<open>The walk may go on at a later place when nothing before it is to be visited.\<close>

lemma walks_from:
  assumes IH: "\<And>ws. bus_size ws \<le> bus_size ys \<Longrightarrow> walks hw rs ws D F"
    and w: "window hw C Bus" "walk_ok p xs ys Sub" "p \<le> 8 * D + F" "Bus \<le> Sub"
    and m: "0 < F \<longrightarrow> F \<le> PCI_MAX_FUNC \<longrightarrow> multi (xs @ ys) D"
    and v: "\<forall>(k, f) \<in> set ys. place k < 8 * D + F \<longrightarrow> \<not> visited Bus (xs @ ys) k"
  shows "assign_functions hw rs Bus D F Sub (C (xs @ ys)) = finished C xs (number_bus rs Bus (visited Bus (xs @ ys)) ys Sub)"
proof -
  obtain zs ws where z: "ys = zs @ ws" "\<forall>(k, f) \<in> set zs. place k < 8 * D + F" "walk_ok (8 * D + F) (xs @ zs) ws Sub"
    using walk_split [OF w(2,3)] by blast
  have "walks hw rs ws D F" by (rule IH) (simp add: z(1))
  then have "assign_functions hw rs Bus D F Sub (C ((xs @ zs) @ ws)) =
      finished C (xs @ zs) (number_bus rs Bus (visited Bus ((xs @ zs) @ ws)) ws Sub)"
    unfolding walks_def using w(1,4) z(1,3) m by (metis append.assoc)
  moreover have "\<forall>(k, f) \<in> set zs. \<not> visited Bus (xs @ ys) k" using v z(1,2) by fastforce
  ultimately show ?thesis
    by (simp add: z(1) number_bus_skip finished_def split: prod.splits)
qed

lemma ordered_bus_head:
  assumes "ordered_bus p ys" "(k, f) \<in> set ys" "place k = p"
  obtains rest where "ys = (k, f) # rest"
proof (cases "(p, ys)" rule: ordered_bus.cases)
  case (2 lo l h n fs rest)
  then have "(k, f) \<notin> set rest" using assms ordered_bus_member [of "Suc (place l)" rest k f] by auto
  then show thesis using that 2 assms by auto
qed (use assms in simp)

lemma walks_step:
  assumes inc: "increasing rs" and D: "D \<le> PCI_MAX_DEVICE" and F: "F \<le> PCI_MAX_FUNC"
    and IH: "\<And>zs D' F'. F' \<le> 8 \<Longrightarrow> walk_measure zs D' F' < walk_measure ys D F \<Longrightarrow> walks hw rs zs D' F'"
  shows "walks hw rs ys D F"
  unfolding walks_def
proof (intro allI impI)
  fix C Bus xs Sub
  assume w: "window hw C Bus" "walk_ok (8 * D + F) xs ys Sub" "Bus \<le> Sub"
    and m: "0 < F \<longrightarrow> F \<le> PCI_MAX_FUNC \<longrightarrow> multi (xs @ ys) D"
  let ?k = "(D, F)"
  let ?vis = "visited Bus (xs @ ys)"
  have later: "walks hw rs zs D' F'" if "bus_size zs \<le> bus_size ys" "F' \<le> 8" "D' = D \<and> F < F' \<or> D' = Suc D \<and> F' = 0" for zs D' F'
    using that D F by (intro IH) (auto simp: walk_measure_def PCI_MAX_DEVICE_def PCI_MAX_FUNC_def)
  have mem: "8 * D + F \<le> place k \<and> snd k \<le> PCI_MAX_FUNC" if "(k, f) \<in> set ys" for k f
    using that w(2) ordered_bus_member by (fastforce simp: walk_ok_def)
  have p: "PciDevicePresent hw (Bus, D, F) (C (xs @ ys)) =
      (if (Bus, ?k) = (0, 0x1F, 5) then None else map_option header (map_of (xs @ ys) ?k), C (xs @ ys))"
    using present_window [OF w(1) walk_real [OF w(2)], of ?k] by simp
  show "assign_functions hw rs Bus D F Sub (C (xs @ ys)) = finished C xs (number_bus rs Bus ?vis ys Sub)"
  proof (cases "(if (Bus, ?k) = (0, 0x1F, 5) then None else map_option header (map_of (xs @ ys) ?k))")
    case None
    have go: "assign_functions hw rs Bus D F Sub (C (xs @ ys)) =
        (if F = 0 then assign_functions hw rs Bus (Suc D) 0 Sub (C (xs @ ys))
         else assign_functions hw rs Bus D (Suc F) Sub (C (xs @ ys)))"
      using D F None by (subst assign_functions.simps) (simp add: p)
    show ?thesis
    proof (cases "F = 0")
      case True
      then have n: "map_of (xs @ ys) (D, 0) = None" using None by simp
      have d: "\<not> multi (xs @ ys) D" by (simp only: multi_iff n) simp
      have d': "(D, 0) \<notin> fst ` set ys" using n by (simp only: map_of_eq_None_iff) auto
      have "\<not> ?vis k" if "(k, f) \<in> set ys" "place k < 8 * Suc D + 0" for k f
      proof -
        have "fst k = D" using mem [OF that(1)] that(2) True by (intro place_device) auto
        then show ?thesis using d d' that(1) by (cases k) (force simp: visited_def)
      qed
      then show ?thesis
        unfolding go using True w later by (auto intro!: walks_from)
    next
      case False
      have "\<not> ?vis k" if "(k, f) \<in> set ys" "place k < 8 * D + Suc F" for k f
      proof -
        have "k = ?k" using mem [OF that(1)] that(2) F by (subst place_inject [symmetric]) (auto simp: place_def)
        moreover have "map_of (xs @ ys) k \<noteq> None" using that(1) by (simp only: map_of_eq_None_iff) force
        ultimately show ?thesis using None by (auto simp: visited_def split: if_splits)
      qed
      then show ?thesis
        unfolding go using False w m F later by (auto intro!: walks_from simp: PCI_MAX_FUNC_def)
    qed
  next
    case (Some h)
    then have spi: "(Bus, ?k) \<noteq> (0, 0x1F, 5)" by (auto split: if_splits)
    then have "map_option header (map_of (xs @ ys) ?k) = Some h" using Some by (simp only: if_False)
    then obtain f where f: "map_of (xs @ ys) ?k = Some f" "header f = h" unfolding map_option_eq_Some by blast
    have pk: "place ?k = 8 * D + F" by (simp add: place_def)
    have "(?k, f) \<in> set (xs @ ys)" using f(1) by (rule map_of_SomeD)
    then have "(?k, f) \<in> set ys" using w(2) pk by (fastforce simp: walk_ok_def)
    then obtain rest where ys: "ys = (?k, f) # rest"
      using ordered_bus_head [of "8 * D + F" ys ?k f] w(2) pk by (auto simp: walk_ok_def)
    obtain n fs where fn: "f = Function h n fs" using f(2) by (cases f) auto
    have P: "PciDevicePresent hw (Bus, D, F) (C (xs @ (?k, Function h n fs) # rest)) =
        (Some h, C (xs @ (?k, Function h n fs) # rest))"
      using p unfolding Some unfolding ys fn .
    have snd_k: "snd ?k \<le> PCI_MAX_FUNC" using F by simp
    note here = walk_here [OF w(2) [unfolded ys] pk snd_k]
    have vis: "?vis ?k" using m F spi by (auto simp: visited_def)
    define N where "N = (if F = 0 \<and> \<not> IS_PCI_MULTI_FUNC h then PCI_MAX_FUNC + 1 else F + 1)"
    have go: "assign_functions hw rs Bus D N Sub' (C (xs @ (?k, g) # rest)) =
        finished C (xs @ [(?k, g)]) (number_bus rs Bus ?vis rest Sub')"
      if g: "header g = h" "PPB_HDR h \<longrightarrow> snd (snd (numbers g)) \<le> Sub'" "Sub \<le> Sub'" for g Sub'
    proof -
      let ?xs = "xs @ [(?k, g)]"
      have c: "multi (?xs @ rest) = multi (xs @ ys)" "visited Bus (?xs @ rest) = ?vis"
        by (rule visited_cong; simp add: ys f(2) g(1))+
      have v: "\<forall>(k, f) \<in> set rest. place k < 8 * D + N \<longrightarrow> \<not> visited Bus (?xs @ rest) k"
      proof (intro ballI, clarify)
        fix a b f' assume k: "((a, b), f') \<in> set rest" "place (a, b) < 8 * D + N" "visited Bus (?xs @ rest) (a, b)"
        have "ordered_bus (Suc (8 * D + F)) rest" using w(2) pk by (auto simp: walk_ok_def ys fn)
        then have r: "Suc (8 * D + F) \<le> place (a, b)" "b \<le> PCI_MAX_FUNC" using ordered_bus_member k(1) by fastforce+
        then have N: "N = 8" "F = 0" "\<not> IS_PCI_MULTI_FUNC h" using k(2) by (auto simp: N_def PCI_MAX_FUNC_def split: if_splits)
        have "fst (a, b) = D" using r N k(2) by (intro place_device) auto
        then have "b \<noteq> 0" using r(1) N(2) by (auto simp: place_def)
        moreover have "?vis (a, b)" using k(3) unfolding c .
        ultimately have "multi (xs @ ys) D" using \<open>fst (a, b) = D\<close> by (simp add: visited_def)
        then show False using f N by (auto simp: multi_iff)
      qed
      have "N \<le> 8" "F < N" using F by (auto simp: N_def PCI_MAX_FUNC_def)
      moreover have "0 < N \<longrightarrow> N \<le> PCI_MAX_FUNC \<longrightarrow> multi (xs @ ys) D"
        using m f by (cases "F = 0") (auto simp: N_def multi_iff simp del: map_of_append)
      then have "0 < N \<longrightarrow> N \<le> PCI_MAX_FUNC \<longrightarrow> multi (?xs @ rest) D" unfolding c .
      ultimately have "assign_functions hw rs Bus D N Sub' (C (?xs @ rest)) =
          finished C ?xs (number_bus rs Bus (visited Bus (?xs @ rest)) rest Sub')"
        using here(3) [of g Sub'] g f(2) w(1,3) v later
        by (intro walks_from [of rest]) (auto simp: ys fn)
      then show ?thesis unfolding c by simp
    qed
    have silent: "PPB_HDR h \<longrightarrow> snd (snd (numbers f)) \<le> Sub"
      using w(2) by (auto simp: walk_ok_def ys fn)
    note wr = write_window_at [OF w(1) here(1,2)]
    show ?thesis
    proof (cases "PPB_HDR h \<or> P2C_HDR h")
      case False
      then have "assign_functions hw rs Bus D F Sub (C (xs @ ys)) = assign_functions hw rs Bus D N Sub (C (xs @ ys))"
        using D F by (subst assign_functions.simps) (simp add: P N_def ys fn)
      then show ?thesis
        using go [of f Sub] f(2) vis False silent by (simp add: ys fn finished_def split: prod.splits)
    next
      case bridge: True
      note wn = write_numbers [OF bridge]
      have nb: "(\<not> PPB_HDR h \<and> \<not> P2C_HDR h) = False" using bridge by blast
      have unfold: "assign_functions hw rs Bus D F Sub (C (xs @ ys)) = (case PciAllocateBusNumber rs Sub 1 of
          None \<Rightarrow> Some (EFI_OUT_OF_RESOURCES, Sub, C (xs @ ys))
        | Some s \<Rightarrow>
            if \<not> PPB_HDR h then assign_functions hw rs Bus D N s (C (xs @ (?k, Function h (Bus, s, s) fs) # rest))
            else Option.bind (assign_functions hw rs s 0 0 s (C (xs @ (?k, Function h (Bus, s, 0xFF) fs) # rest)))
              (\<lambda>(Status, Sub', st). if EFI_ERROR Status then Some (EFI_DEVICE_ERROR, Sub', st)
                else assign_functions hw rs Bus D N Sub' (write_config hw st (Bus, ?k) 0x1A 1 (ucast Sub'))))"
        using D F
        by (subst assign_functions.simps)
          (simp add: P N_def ys fn wr wn nb Let_def del: One_nat_def write_function.simps split del: if_split cong: if_cong option.case_cong)
      show ?thesis
      proof (cases "PciAllocateBusNumber rs Sub 1")
        case None
        then show ?thesis using bridge vis by (simp add: unfold [unfolded ys fn] ys fn finished_def)
      next
        case al: (Some s)
        then have "Sub < s" using inc by (simp add: increasing_def)
        then have s: "Sub < s" "Bus < s" using w(3) by auto
        show ?thesis
        proof (cases "PPB_HDR h")
          case False
          then show ?thesis
            using go [of "Function h (Bus, s, s) fs" s] s bridge vis al
            by (simp add: unfold [unfolded ys fn] ys fn finished_def split: prod.splits)
        next
          case ppb: True
          let ?C = "\<lambda>gs. C (xs @ (?k, Function h (Bus, s, 0xFF) gs) # rest)"
          obtain St S gs where num: "number_bus rs s (visited s fs) fs s = (St, S, gs)" by (metis prod.exhaust)
          have le: "s \<le> S" by (rule number_bus_mono [OF inc num])
          have "silent Sub xs" "ordered_bus 0 fs" using w(2) by (auto simp: walk_ok_def ys fn)
          then have "window hw ?C s" "walk_ok (8 * 0 + 0) [] fs s"
            using window_child [OF w(1) s(2) _ s(1) ppb] by (auto simp: walk_ok_def real_bus_def)
          moreover have "walks hw rs fs 0 0"
            by (rule IH) (auto simp: walk_measure_def ys fn)
          ultimately have child: "assign_functions hw rs s 0 0 s (?C fs) = Some (St, S, ?C gs)"
            unfolding walks_def by (fastforce simp: num finished_def)
          show ?thesis
          proof (cases "EFI_ERROR St")
            case True
            then show ?thesis using ppb vis al by (simp add: unfold [unfolded ys fn] child num ys fn finished_def)
          next
            case False
            then show ?thesis
              using go [of "Function h (Bus, s, S) gs" S] s le ppb vis al
              by (simp add: unfold [unfolded ys fn] child num wr wn ys fn finished_def split: prod.splits)
          qed
        qed
      qed
    qed
  qed
qed

lemma walks_last: "D \<le> PCI_MAX_DEVICE \<Longrightarrow> walks hw rs ys (Suc D) 0 \<Longrightarrow> walks hw rs ys D 8"
  unfolding walks_def by (subst assign_functions.simps) (simp add: PCI_MAX_FUNC_def add.commute)

lemma assign_walks:
  assumes "increasing rs"
  shows "F \<le> 8 \<Longrightarrow> walks hw rs ys D F"
proof (induction "walk_measure ys D F" arbitrary: ys D F rule: less_induct)
  case less
  consider "32 \<le> D" | "D \<le> PCI_MAX_DEVICE" "F = 8" | "D \<le> PCI_MAX_DEVICE" "F \<le> PCI_MAX_FUNC"
    using less.prems unfolding PCI_MAX_DEVICE_def PCI_MAX_FUNC_def by linarith
  then show ?case
  proof cases
    case 1
    then show ?thesis by (rule walks_end)
  next
    case 2
    then have "walks hw rs ys (Suc D) 0"
      by (intro less.hyps) (auto simp: walk_measure_def PCI_MAX_DEVICE_def)
    then show ?thesis using walks_last 2 by simp
  next
    case 3
    then show ?thesis using walks_step [OF assms 3] less.hyps by blast
  qed
qed

section \<open>The numbers that are allocated\<close>

fun sorted_ranges :: "nat \<Rightarrow> bus_ranges \<Rightarrow> bool" where
  "sorted_ranges lo [] \<longleftrightarrow> True"
| "sorted_ranges lo ((RangeMin, Len) # rs) \<longleftrightarrow>
     lo \<le> unat RangeMin \<and> 0 < unat Len \<and> unat RangeMin + unat Len \<le> 255 \<and> sorted_ranges (unat RangeMin + unat Len) rs"

definition in_ranges :: "bus_ranges \<Rightarrow> nat \<Rightarrow> bool" where
  "in_ranges rs b \<longleftrightarrow> (\<exists>(m, l) \<in> set rs. unat m \<le> b \<and> b < unat m + unat l)"

lemma in_ranges_simps [simp]:
  "\<not> in_ranges [] b"
  "in_ranges ((m, l) # rs) b \<longleftrightarrow> unat m \<le> b \<and> b < unat m + unat l \<or> in_ranges rs b"
  by (auto simp: in_ranges_def)

lemma in_ranges_from: "sorted_ranges lo rs \<Longrightarrow> in_ranges rs b \<Longrightarrow> lo \<le> b"
  by (induction lo rs rule: sorted_ranges.induct) auto

lemma range_limit:
  assumes "0 < unat (Len :: u64)" "unat (RangeMin :: u64) + unat Len \<le> 255"
  shows "unat (RangeMin + Len - 1) = unat RangeMin + unat Len - 1"
proof -
  have "unat (RangeMin + Len) = unat RangeMin + unat Len"
    using assms by (subst unat_add_lem [THEN iffD1]) auto
  then show ?thesis using assms by (subst unat_minus_one) auto
qed

lemma unat_wide [simp]: "unat (ucast (a :: u8) :: u64) = unat a"
proof -
  have "unat a < 2 ^ 64" using unsigned_less [of a, where 'a = nat] by simp
  then show ?thesis by (simp add: unsigned_ucast_eq take_bit_nat_eq_self)
qed

lemma unat_narrow [simp]: "unat (m :: u64) < 256 \<Longrightarrow> unat (ucast m :: u8) = unat m"
  by (simp add: unsigned_ucast_eq take_bit_nat_eq_self)

text \<open>The next number is the least one of the ranges above the last.\<close>

lemma next_number_least:
  assumes "sorted_ranges (unat Lim + 1) rs" "unat Lim < 255" "unat a \<le> unat Lim"
  shows "next_number (a + 1) Lim rs = (if unat a < unat Lim then Some (a + 1) else
    (case rs of [] \<Rightarrow> None | (m, l) # _ \<Rightarrow> Some (ucast m)))"
proof -
  have n: "unat (a + 1) = unat a + 1" using assms by (simp add: unat_plus_simple [THEN iffD1] word_le_nat_alt unat_add_lem [THEN iffD1])
  have u: "unat (ucast (a + 1) :: u64) = unat a + 1" using n by simp
  show ?thesis
  proof (cases "unat a < unat Lim")
    case True
    then have "\<not> Lim < ucast (a + 1)" using u by (simp add: word_less_nat_alt)
    then show ?thesis using True by (cases rs) auto
  next
    case False
    then have "Lim < ucast (a + 1)" "ucast (a + 1) = Lim + 1"
      using u assms by (auto simp: word_less_nat_alt word_unat_eq_iff unat_add_lem [THEN iffD1])
    moreover have "next_number (ucast m) (m + l - 1) rs' = Some (ucast m)" if "rs = (m, l) # rs'" for m l rs'
    proof -
      have m: "0 < unat l" "unat m + unat l \<le> 255" using assms(1) that by auto
      then have "unat (ucast (ucast m :: u8) :: u64) = unat m" by simp
      then have "\<not> m + l - 1 < ucast (ucast m :: u8)" using range_limit [OF m] m by (simp add: word_less_nat_alt)
      then show ?thesis by (cases rs') auto
    qed
    ultimately show ?thesis using False by (cases rs) auto
  qed
qed

lemma range_member:
  assumes "0 < unat (l :: u64)" "unat (m :: u64) + unat l \<le> 255"
  shows "m \<le> ucast (a :: u8) \<and> ucast a \<le> m + l - 1 \<longleftrightarrow> unat m \<le> unat a \<and> unat a < unat m + unat l"
  using range_limit [OF assms] assms by (auto simp: word_le_nat_alt)

lemma allocate_from:
  "sorted_ranges lo rs \<Longrightarrow> PciAllocateBusNumber rs a 1 = Some s \<Longrightarrow> in_ranges rs (unat a)"
  by (induction lo rs rule: sorted_ranges.induct) (auto simp: range_member split: if_splits)

lemma allocate_next:
  "sorted_ranges lo rs \<Longrightarrow> PciAllocateBusNumber rs a 1 = Some s \<Longrightarrow>
    a < s \<and> in_ranges rs (unat s) \<and> (\<forall>b. unat a < b \<and> b < unat s \<longrightarrow> \<not> in_ranges rs b)"
proof (induction lo rs rule: sorted_ranges.induct)
  case (2 lo m l rs)
  have m: "0 < unat l" "unat m + unat l \<le> 255" using 2(2) by auto
  note lim = range_limit [OF m]
  show ?case
  proof (cases "m \<le> ucast a \<and> ucast a \<le> m + l - 1")
    case True
    then have a: "unat m \<le> unat a" "unat a < unat m + unat l" unfolding range_member [OF m] by simp_all
    have "next_number (a + 1) (m + l - 1) rs = Some s" using True 2(3) by simp
    then have s: "(if unat a < unat m + unat l - 1 then Some (a + 1) else (case rs of [] \<Rightarrow> None | (m, l) # _ \<Rightarrow> Some (ucast m))) = Some s"
      using next_number_least [of "m + l - 1" rs a] lim m a 2(2) by auto
    show ?thesis
    proof (cases "unat a < unat m + unat l - 1")
      case True
      then have "s = a + 1" using s by simp
      moreover have "unat (a + 1) = unat a + 1" using True m by (intro unat_add_lem [THEN iffD1, THEN trans]) auto
      ultimately show ?thesis using True a by (auto simp: word_less_nat_alt)
    next
      case False
      then obtain m' l' rs' where r: "rs = (m', l') # rs'" "s = ucast m'" using s by (auto split: list.splits)
      then have b: "unat m + unat l \<le> unat m'" "0 < unat l'" "unat m' + unat l' \<le> 255" using 2(2) by auto
      then have "unat s = unat m'" using r(2) by simp
      moreover have "unat m' \<le> b" if "in_ranges rs b" for b
        using that b in_ranges_from [of "unat m'" rs b] r 2(2) by auto
      ultimately show ?thesis using r a False b by (force simp: word_less_nat_alt)
    qed
  next
    case False
    then have "PciAllocateBusNumber rs a 1 = Some s" using 2(3) by (simp split: if_splits)
    then have IH: "a < s \<and> in_ranges rs (unat s) \<and> (\<forall>b. unat a < b \<and> b < unat s \<longrightarrow> \<not> in_ranges rs b)"
      using 2 by auto
    moreover have "unat m + unat l \<le> unat a"
      using allocate_from [of "unat m + unat l" rs a s] in_ranges_from [of "unat m + unat l" rs "unat a"] 2(2) False 2(3) by auto
    ultimately show ?thesis by auto
  qed
qed simp

lemma sorted_increasing: "sorted_ranges lo rs \<Longrightarrow> increasing rs"
  using allocate_next by (fastforce simp: increasing_def)

text \<open>Where the ranges reach bus 255, the number after it is taken to be 0.\<close>

lemma allocate_wraps: "PciAllocateBusNumber [(0, 0x100)] 0xFF 1 = Some 0"
  by simp

section \<open>What the numbering gives\<close>

text \<open>The functions with the addresses that the numbers give them, behind the bridges that have been
  numbered; the headers of the functions behind the bridges that are visited.\<close>

fun addresses :: "u8 \<Rightarrow> pci_bus \<Rightarrow> (pci_address \<times> pci_function) list" where
  "addresses Bus [] = []"
| "addresses Bus ((k, Function h n fs) # rest) =
     ((Bus, k), Function h n fs) # (if PPB_HDR h \<and> 0 < snd (snd n) then addresses (fst (snd n)) fs else []) @
     addresses Bus rest"

fun headers :: "(nat \<times> nat \<Rightarrow> bool) \<Rightarrow> pci_bus \<Rightarrow> PCI_TYPE00 list" where
  "headers vis [] = []"
| "headers vis ((k, Function h n fs) # rest) =
     h # (if vis k \<and> PPB_HDR h then headers (\<lambda>k. snd k = 0 \<or> multi fs (fst k)) fs else []) @ headers vis rest"

text \<open>The ranges of the bridges of a bus lie one above the other, from the first number on; that of a
  bridge behind another lies within it.\<close>

fun nested :: "u8 \<Rightarrow> u8 \<Rightarrow> u8 \<Rightarrow> pci_bus \<Rightarrow> bool" where
  "nested Bus lo hi [] \<longleftrightarrow> lo \<le> hi"
| "nested Bus lo hi ((k, Function h n fs) # rest) \<longleftrightarrow>
     (if PPB_HDR h \<and> 0 < snd (snd n)
      then fst n = Bus \<and> lo < fst (snd n) \<and> nested (fst (snd n)) (fst (snd n)) (snd (snd n)) fs \<and> nested Bus (snd (snd n)) hi rest
      else nested Bus lo hi rest)"

fun keyed :: "pci_bus \<Rightarrow> bool" where
  "keyed [] \<longleftrightarrow> True"
| "keyed ((k, Function h n fs) # rest) \<longleftrightarrow> k \<notin> fst ` set rest \<and> keyed fs \<and> keyed rest"

lemma nested_le: "nested Bus lo hi fs \<Longrightarrow> lo \<le> hi"
  by (induction Bus lo hi fs rule: nested.induct) (fastforce split: if_splits)+

lemma nested_weaken: "nested Bus lo hi fs \<Longrightarrow> l \<le> lo \<Longrightarrow> nested Bus l hi fs"
  by (induction Bus lo hi fs rule: nested.induct) (auto split: if_splits)

lemma ordered_keyed: "ordered_bus lo fs \<Longrightarrow> keyed fs"
proof (induction lo fs rule: ordered_bus.induct)
  case (2 lo k h n fs rest)
  then have "k \<notin> fst ` set rest" using ordered_bus_member [of "Suc (place k)" rest] by fastforce
  then show ?case using 2 by simp
qed simp

lemma numbered:
  assumes inc: "increasing rs"
  shows "number_bus rs Bus vis fs Sub = (EFI_SUCCESS, Sub', fs') \<Longrightarrow> ordered_bus p fs \<Longrightarrow> Bus \<le> Sub \<Longrightarrow>
    nested Bus Sub Sub' fs' \<and> keyed fs' \<and> map fst fs' = map fst fs \<and>
    map (header \<circ> snd) (addresses Bus fs') = headers vis fs"
proof (induction fs arbitrary: Bus vis Sub Sub' fs' p rule: bus_size.induct)
  case (2 k h n fs rest)
  have o: "ordered_bus 0 fs" "ordered_bus (Suc (place k)) rest" "snd (snd n) = 0" using 2(4) by auto
  have k: "k \<notin> fst ` set rest" using ordered_keyed [OF 2(4)] by simp
  have key: "k \<notin> fst ` set rest'" if "map fst rest' = map fst rest" for rest'
    using k that by (metis list.set_map)
  show ?case
  proof (cases "\<not> vis k \<or> \<not> (PPB_HDR h \<or> P2C_HDR h)")
    case True
    then obtain rest' where r: "number_bus rs Bus vis rest Sub = (EFI_SUCCESS, Sub', rest')" "fs' = (k, Function h n fs) # rest'"
      using 2(3) by (auto split: prod.splits)
    from 2(2) [OF r(1) o(2) 2(5)] show ?thesis
      using True r(2) o ordered_keyed [OF o(1)] key by auto
  next
    case False
    then obtain s where s: "PciAllocateBusNumber rs Sub 1 = Some s" using 2(3) by (auto split: option.splits)
    then have Sub: "Sub < s" using inc by (simp add: increasing_def)
    then have s0: "0 < s" "Bus < s" using 2(5) by (auto intro: order.strict_trans1 [OF word_zero_le])
    then have vis: "visited s fs = (\<lambda>k. snd k = 0 \<or> multi fs (fst k))" by (auto simp: visited_def fun_eq_iff)
    show ?thesis
    proof (cases "PPB_HDR h")
      case ppb: True
      obtain St S gs where c: "number_bus rs s (visited s fs) fs s = (St, S, gs)" by (metis prod.exhaust)
      have ok: "\<not> EFI_ERROR St" using 2(3) False s ppb c by (auto split: if_splits)
      then have c: "number_bus rs s (visited s fs) fs s = (EFI_SUCCESS, S, gs)" using c number_bus_status by blast
      obtain rest' where r: "number_bus rs Bus vis rest S = (EFI_SUCCESS, Sub', rest')"
        "fs' = (k, Function h (Bus, s, S) gs) # rest'"
        using 2(3) False s ppb c by (auto split: prod.splits)
      note IH1 = 2(1) [OF c o(1) order.refl]
      have S: "s \<le> S" using IH1 nested_le by blast
      then have "0 < S" "Bus \<le> S" using s0 by auto
      then show ?thesis
        using IH1 2(2) [OF r(1) o(2) \<open>Bus \<le> S\<close>] r(2) ppb False Sub key by (auto simp: vis)
    next
      case nppb: False
      then obtain rest' where r: "number_bus rs Bus vis rest s = (EFI_SUCCESS, Sub', rest')"
        "fs' = (k, Function h (Bus, s, s) fs) # rest'"
        using 2(3) False s by (auto split: prod.splits)
      have "Bus \<le> s" using s0 by simp
      from 2(2) [OF r(1) o(2) this] show ?thesis
        using r(2) nppb nested_weaken [of Bus s Sub' rest' Sub] Sub ordered_keyed [OF o(1)] key by auto
    qed
  qed
qed simp

lemma addresses_found:
  "nested Bus lo hi fs \<Longrightarrow> keyed fs \<Longrightarrow> Bus \<le> lo \<Longrightarrow> (a, f) \<in> set (addresses Bus fs) \<Longrightarrow>
    fst a = Bus \<and> map_of fs (snd a) = Some f \<or> lo < fst a \<and> fst a \<le> hi \<and> forward (fst a) fs (snd a) = Some f"
proof (induction Bus fs arbitrary: lo hi rule: addresses.induct)
  case (2 Bus k h n fs rest)
  obtain p s b where n: "n = (p, s, b)" by (rule prod_cases3)
  have other: ?case if a: "(a, f) \<in> set (addresses Bus rest)" and r: "nested Bus lo' hi rest" "lo \<le> lo'"
    and c: "\<And>t. lo' < t \<Longrightarrow> \<not> claims h n t" for lo'
  proof -
    have "Bus \<le> lo'" using 2(5) r(2) by simp
    from 2(2) [OF r(1) _ this a] 2(4) consider
      (here) "fst a = Bus" "map_of rest (snd a) = Some f"
      | (behind) "lo' < fst a" "fst a \<le> hi" "forward (fst a) rest (snd a) = Some f"
      by auto
    then show ?thesis
    proof cases
      case here
      then have "snd a \<noteq> k" using 2(4) by (auto dest!: map_of_SomeD simp: image_iff)
      then show ?thesis using here by simp
    next
      case behind
      then show ?thesis using c [of "fst a"] r(2) by auto
    qed
  qed
  show ?case
  proof (cases "PPB_HDR h \<and> 0 < b")
    case False
    have "\<not> claims h n t" if "lo < t" for t
    proof
      assume "claims h n t"
      then have "PPB_HDR h" "lo < b" using that by (auto simp: claims_def n)
      then show False using False by (auto intro: order.strict_trans1 [OF word_zero_le])
    qed
    then show ?thesis using other [of lo] 2(3,6) False by (auto simp: n)
  next
    case True
    then have N: "lo < s" "nested s s b fs" "nested Bus b hi rest" using 2(3) by (auto simp: n)
    then have b: "s \<le> b" "b \<le> hi" by (auto dest: nested_le)
    then have lb: "lo < b" using N(1) by simp
    have child: ?thesis if "(a, f) \<in> set (addresses s fs)"
    proof -
      have "fst a = s \<and> map_of fs (snd a) = Some f \<or> s < fst a \<and> fst a \<le> b \<and> forward (fst a) fs (snd a) = Some f"
        using 2(1) [of s] True N(2) 2(4) that by (simp add: n)
      moreover have "Bus < s" using 2(5) N(1) by simp
      ultimately show ?thesis using True N(1) b by (auto simp: claims_def n)
    qed
    have "\<not> claims h n t" if "b < t" for t using that by (auto simp: claims_def n)
    then have "?thesis" if "(a, f) \<in> set (addresses Bus rest)" using other [of b] that N(3) lb by auto
    then show ?thesis using child 2(6) True by (auto simp: n)
  qed
qed simp

lemma addresses_distinct:
  "nested Bus lo hi fs \<Longrightarrow> keyed fs \<Longrightarrow> Bus \<le> lo \<Longrightarrow> distinct (map fst (addresses Bus fs))"
proof (induction Bus fs arbitrary: lo hi rule: addresses.induct)
  case (2 Bus k h n fs rest)
  obtain p s b where n: "n = (p, s, b)" by (rule prod_cases3)
  have apart: "(Bus, k) \<notin> fst ` set (addresses Bus rest)" if "nested Bus lo' hi rest" "Bus \<le> lo'" for lo'
  proof
    assume "(Bus, k) \<in> fst ` set (addresses Bus rest)"
    then obtain f where "((Bus, k), f) \<in> set (addresses Bus rest)" by auto
    then have "map_of rest k = Some f" using addresses_found [OF that(1) _ that(2), of "(Bus, k)" f] 2(4) that(2) by auto
    then show False using 2(4) by (auto dest!: map_of_SomeD simp: image_iff)
  qed
  show ?case
  proof (cases "PPB_HDR h \<and> 0 < b")
    case False
    then show ?thesis using 2 apart [of lo] by (auto simp: n)
  next
    case True
    then have N: "lo < s" "nested s s b fs" "nested Bus b hi rest" using 2(3) by (auto simp: n)
    then have b: "s \<le> b" by (auto dest: nested_le)
    then have lb: "Bus < s" "Bus \<le> b" using N(1) 2(5) by auto
    have child: "s \<le> fst a \<and> fst a \<le> b" if "(a, f) \<in> set (addresses s fs)" for a f
      using addresses_found [OF N(2) _ order.refl that] 2(4) b by auto
    have rest: "fst a = Bus \<or> b < fst a" if "(a, f) \<in> set (addresses Bus rest)" for a f
      using addresses_found [OF N(3) _ lb(2) that] 2(4) by auto
    have "fst ` set (addresses s fs) \<inter> fst ` set (addresses Bus rest) = {}"
      using child rest lb by (fastforce simp: disjoint_iff)
    moreover have "(Bus, k) \<notin> fst ` set (addresses s fs)" using child lb by fastforce
    ultimately show ?thesis
      using 2(1) [of s] 2(2) [OF N(3) _ lb(2)] 2(4) N(2) True apart [OF N(3) lb(2)] by (auto simp: n)
  qed
qed simp

section \<open>Properties\<close>

lemma buses_numbered_walk:
  assumes "sorted_ranges lo rs" "ordered_bus 0 fs"
  shows "PciAssignBusNumber (bridged_bus root) rs root fs = Some (number_bus rs root (visited root fs) fs root)"
proof -
  have "walks (bridged_bus root) rs fs 0 0" by (rule assign_walks [OF sorted_increasing [OF assms(1)]]) simp
  moreover have "walk_ok (8 * 0 + 0) [] fs root" using assms(2) by (simp add: walk_ok_def real_bus_def)
  ultimately show ?thesis
    using window_root [of root] unfolding walks_def PciAssignBusNumber_def
    by (fastforce simp: finished_def split: prod.splits)
qed

text \<open>C11: PciAssignBusNumber, whose configuration accesses go through the bridges that it is
  numbering, returns for every hierarchy of devices, and numbers its buses depth first: each
  bridge gets the next number of the sorted ranges, which end below bus 255, as its secondary
  bus and the last number given behind it as its subordinate bus, and CardBus bridges one
  number.\<close>

theorem buses_numbered:
  assumes "sorted_ranges lo rs" "ordered_bus 0 fs"
  shows "PciAssignBusNumber (bridged_bus root) rs root fs = Some (number_bus rs root (visited root fs) fs root)"
  by (rule buses_numbered_walk [OF assms])

definition sample_buses :: pci_bus where
  "sample_buses =
     (let endpoint = (\<lambda>mf. Function \<lparr> Hdr_VendorId = 0x8086, Hdr_HeaderType = mf \<rparr> (0, 0, 0) []);
          bridge = (\<lambda>mf fs. Function \<lparr> Hdr_VendorId = 0x8086, Hdr_HeaderType = mf OR 1 \<rparr> (0, 0, 0) fs) in
      [((1, 0), bridge 0 [((0, 0), endpoint 0), ((0, 3), endpoint 0)]),
       ((2, 0), bridge 0x80 [((0, 0), bridge 0x80 [((3, 0), endpoint 0)]), ((0, 1), endpoint 0)]),
       ((2, 2), bridge 0 [])])"

theorem buses_numbered_witness:
  "\<exists>fs'. PciAssignBusNumber (bridged_bus 0) [(0, 0x20)] 0 sample_buses = Some (EFI_SUCCESS, 4, fs') \<and>
    map (\<lambda>(k, f). (k, numbers f)) fs' = [((1, 0), 0, 1, 1), ((2, 0), 0, 2, 3), ((2, 2), 0, 4, 4)]"
proof -
  have "sorted_ranges 0 [(0, 0x20)]" "ordered_bus 0 sample_buses" by code_simp+
  note n = buses_numbered [OF this, of 0]
  have "case number_bus [(0, 0x20)] 0 (visited 0 sample_buses) sample_buses 0 of (Status, Sub, fs') \<Rightarrow>
      Status = EFI_SUCCESS \<and> Sub = 4 \<and>
      map (\<lambda>(k, f). (k, numbers f)) fs' = [((1, 0), 0, 1, 1), ((2, 0), 0, 2, 3), ((2, 2), 0, 4, 4)]"
    by code_simp
  then show ?thesis unfolding n by (auto split: prod.splits)
qed

text \<open>C12: After PciAssignBusNumber succeeds, with sorted ranges that end below bus 255, every
  function behind the bridges that it visits answers configuration accesses at an address of its
  own, and at this address no other function answers.\<close>

theorem functions_reachable:
  assumes "sorted_ranges lo rs" "ordered_bus 0 fs"
    and "PciAssignBusNumber (bridged_bus root) rs root fs = Some (EFI_SUCCESS, Sub, fs')"
  shows "distinct (map fst (addresses root fs')) \<and>
    (\<forall>(a, f) \<in> set (addresses root fs'). find_function root fs' a = Some f) \<and>
    map (header \<circ> snd) (addresses root fs') = headers (visited root fs) fs"
proof -
  have "number_bus rs root (visited root fs) fs root = (EFI_SUCCESS, Sub, fs')"
    using buses_numbered_walk [OF assms(1,2)] assms(3) by simp
  note n = numbered [OF sorted_increasing [OF assms(1)] this assms(2) order.refl]
  have "find_function root fs' a = Some f" if "(a, f) \<in> set (addresses root fs')" for a f
    using addresses_found [OF _ _ order.refl that] n by (auto simp: find_function_def)
  then show ?thesis using n addresses_distinct [of root root Sub fs'] by auto
qed

theorem functions_reachable_witness:
  "\<exists>fs'. PciAssignBusNumber (bridged_bus 0) [(0, 0x20)] 0 sample_buses = Some (EFI_SUCCESS, 4, fs') \<and>
    distinct (map fst (addresses 0 fs')) \<and> length (addresses 0 fs') = 8"
proof -
  have ok: "sorted_ranges 0 [(0, 0x20)]" "ordered_bus 0 sample_buses" by code_simp+
  have "case number_bus [(0, 0x20)] 0 (visited 0 sample_buses) sample_buses 0 of (Status, Sub, fs') \<Rightarrow>
      Status = EFI_SUCCESS \<and> Sub = 4"
    by code_simp
  then obtain fs' where fs': "PciAssignBusNumber (bridged_bus 0) [(0, 0x20)] 0 sample_buses = Some (EFI_SUCCESS, 4, fs')"
    unfolding buses_numbered_walk [OF ok] by (auto split: prod.splits)
  note r = functions_reachable [OF ok fs']
  have "length (headers (visited 0 sample_buses) sample_buses) = 8" by code_simp
  then have "length (addresses 0 fs') = 8" using r by (metis length_map)
  then show ?thesis using r fs' by blast
qed

text \<open>PciAllocateBusNumber gives the least bus number above the last one that lies in a range
  of the root bridge, for ranges in ascending order that do not reach bus 255.\<close>

theorem next_bus_number:
  assumes "sorted_ranges lo rs" "PciAllocateBusNumber rs a 1 = Some s"
  shows "a < s \<and> in_ranges rs (unat s) \<and> (\<forall>b. unat a < b \<and> b < unat s \<longrightarrow> \<not> in_ranges rs b)"
  by (rule allocate_next [OF assms])

theorem next_bus_number_witness:
  "PciAllocateBusNumber [(0, 0x10), (0x80, 0x20)] 0x0F 1 = Some 0x80 \<and>
    (0x0F :: u8) < 0x80 \<and> in_ranges [(0, 0x10), (0x80, 0x20)] 0x80"
proof -
  have "PciAllocateBusNumber [(0, 0x10), (0x80, 0x20)] 0x0F 1 = Some 0x80" "sorted_ranges 0 [(0, 0x10), (0x80, 0x20)]"
    by code_simp+
  then show ?thesis using next_bus_number [of 0 "[(0, 0x10), (0x80, 0x20)]" "0x0F" "0x80"] by simp
qed

end
