(* ===== verification/PchPcieRp.thy ===== *)
theory PchPcieRp
  imports PchPcr
begin

text \<open>
  PchPcieRpLib.c: the root ports of the PCH, numbered from 0, and the device and function numbers under which
  they appear.  The function numbers are in a private configuration register of each controller of four ports.
\<close>

definition PCI_DEVICE_NUMBER_PCH_PCIE_DEVICE_1 :: u64 where [regs]: "PCI_DEVICE_NUMBER_PCH_PCIE_DEVICE_1 = 28"
definition PCI_DEVICE_NUMBER_PCH_PCIE_DEVICE_2 :: u64 where [regs]: "PCI_DEVICE_NUMBER_PCH_PCIE_DEVICE_2 = 29"
definition PCI_DEVICE_NUMBER_PCH_PCIE_DEVICE_3 :: u64 where [regs]: "PCI_DEVICE_NUMBER_PCH_PCIE_DEVICE_3 = 27"
definition PCH_PCIE_CONTROLLER_PORTS :: u64 where [regs]: "PCH_PCIE_CONTROLLER_PORTS = 4"
definition R_PCH_PCR_SPX_PCD :: u16 where [regs]: "R_PCH_PCR_SPX_PCD = 0"
definition B_PCH_PCR_SPX_PCD_RP1FN :: u32 where [regs]: "B_PCH_PCR_SPX_PCD_RP1FN = 0x7"
definition S_PCH_PCR_SPX_PCD_RP_FIELD :: nat where [regs]: "S_PCH_PCR_SPX_PCD_RP_FIELD = 4"

text \<open>The controllers by device number, port of the sideband interface, and number of the first root port.\<close>

record PCH_PCIE_CONTROLLER_INFO =
  DevNum :: u8
  Pid :: u8
  RpNumBase :: u8

definition mPchPcieControllerInfo :: "PCH_PCIE_CONTROLLER_INFO list" where
  "mPchPcieControllerInfo = [
     \<lparr> DevNum = ucast PCI_DEVICE_NUMBER_PCH_PCIE_DEVICE_1, Pid = 0xE0, RpNumBase = 0 \<rparr>,
     \<lparr> DevNum = ucast PCI_DEVICE_NUMBER_PCH_PCIE_DEVICE_1, Pid = 0xE1, RpNumBase = 4 \<rparr>,
     \<lparr> DevNum = ucast PCI_DEVICE_NUMBER_PCH_PCIE_DEVICE_2, Pid = 0xE2, RpNumBase = 8 \<rparr>,
     \<lparr> DevNum = ucast PCI_DEVICE_NUMBER_PCH_PCIE_DEVICE_2, Pid = 0xE3, RpNumBase = 12 \<rparr>,
     \<lparr> DevNum = ucast PCI_DEVICE_NUMBER_PCH_PCIE_DEVICE_3, Pid = 0xE4, RpNumBase = 16 \<rparr>]"

definition rp_function :: "u32 \<Rightarrow> nat \<Rightarrow> u64" where
  "rp_function PciePcd FuncIndex =
     ucast (drop_bit (FuncIndex * S_PCH_PCR_SPX_PCD_RP_FIELD) PciePcd AND B_PCH_PCR_SPX_PCD_RP1FN)"

text \<open>The outputs keep their values when the number is refused.\<close>

definition GetPchPcieRpDevFun :: "'s hw \<Rightarrow> u64 \<Rightarrow> u64 \<times> u64 \<Rightarrow> ('s, efi_status \<times> u64 \<times> u64) prog" where
  "GetPchPcieRpDevFun hw RpNumber RpDevFun = do {
     m \<leftarrow> GetPchMaxPciePortNum hw;
     if RpNumber \<ge> ucast m then State_Monad.return (EFI_INVALID_PARAMETER, RpDevFun)
     else do {
       let c = mPchPcieControllerInfo ! unat (RpNumber div PCH_PCIE_CONTROLLER_PORTS);
       let FuncIndex = RpNumber - ucast (RpNumBase c);
       (_, PciePcd) \<leftarrow> PchPcrRead32 hw (Pid c) R_PCH_PCR_SPX_PCD 0;
       State_Monad.return (EFI_SUCCESS, ucast (DevNum c), rp_function PciePcd (unat FuncIndex)) } }"

fun find_rp :: "'s hw \<Rightarrow> u64 \<Rightarrow> u64 \<Rightarrow> PCH_PCIE_CONTROLLER_INFO list \<Rightarrow> ('s, u64 option) prog" where
  "find_rp hw RpDev RpFun [] = State_Monad.return None"
| "find_rp hw RpDev RpFun (c # cs) =
     (if ucast (DevNum c) = RpDev then do {
        (_, PciePcd) \<leftarrow> PchPcrRead32 hw (Pid c) R_PCH_PCR_SPX_PCD 0;
        (case find (\<lambda>i. RpFun = rp_function PciePcd i) [0, 1, 2, 3] of
           Some i \<Rightarrow> State_Monad.return (Some (ucast (RpNumBase c) + of_nat i))
         | None \<Rightarrow> find_rp hw RpDev RpFun cs) }
      else find_rp hw RpDev RpFun cs)"

definition rp_in_range :: "PCH_SERIES \<Rightarrow> u64 \<Rightarrow> u64 \<Rightarrow> bool" where
  "rp_in_range PchSeries RpDev RpFun \<longleftrightarrow> (case PchSeries of
       PchLp \<Rightarrow> (RpDev = PCI_DEVICE_NUMBER_PCH_PCIE_DEVICE_1 \<and> RpFun < 8) \<or> (RpDev = PCI_DEVICE_NUMBER_PCH_PCIE_DEVICE_2 \<and> RpFun < 4)
     | PchH \<Rightarrow> (RpDev = PCI_DEVICE_NUMBER_PCH_PCIE_DEVICE_1 \<and> RpFun < 8) \<or> (RpDev = PCI_DEVICE_NUMBER_PCH_PCIE_DEVICE_2 \<and> RpFun < 8) \<or>
         (RpDev = PCI_DEVICE_NUMBER_PCH_PCIE_DEVICE_3 \<and> RpFun < 4)
     | PchUnknownSeries \<Rightarrow> True)"

definition GetPchPcieRpNumber :: "'s hw \<Rightarrow> u64 \<Rightarrow> u64 \<Rightarrow> u64 \<Rightarrow> ('s, efi_status \<times> u64) prog" where
  "GetPchPcieRpNumber hw RpDev RpFun RpNumber = do {
     PchSeries \<leftarrow> GetPchSeries hw;
     if \<not> rp_in_range PchSeries RpDev RpFun then State_Monad.return (EFI_INVALID_PARAMETER, RpNumber)
     else do {
       n \<leftarrow> find_rp hw RpDev RpFun mPchPcieControllerInfo;
       State_Monad.return (case n of None \<Rightarrow> (EFI_UNSUPPORTED, RpNumber) | Some n \<Rightarrow> (EFI_SUCCESS, n)) } }"

text \<open>The device and function are what they were before when the index is refused.\<close>

definition PchPcieBase :: "'s hw \<Rightarrow> u64 \<times> u64 \<Rightarrow> u32 \<Rightarrow> ('s, u64) prog" where
  "PchPcieBase hw RpDevFun RpIndex = do {
     (_, RpDevice, RpFunction) \<leftarrow> GetPchPcieRpDevFun hw (ucast RpIndex) RpDevFun;
     State_Monad.return (hw_pci_base hw DEFAULT_PCI_BUS_NUMBER_PCH (ucast RpDevice) (ucast RpFunction)) }"

text \<open>The steppings by their values.\<close>

definition stepping_value :: "PCH_STEPPING \<Rightarrow> nat" where
  "stepping_value st = (case st of PchHA0 \<Rightarrow> 0 | PchHB0 \<Rightarrow> 1 | PchHC0 \<Rightarrow> 2 | PchHD0 \<Rightarrow> 3 | PchHD1 \<Rightarrow> 4
     | PchLpB0 \<Rightarrow> 0x23 | PchLpB1 \<Rightarrow> 0x24 | PchLpC0 \<Rightarrow> 0x25 | PchLpC1 \<Rightarrow> 0x26
     | LbgA0 \<Rightarrow> 0x30 | LbgB0 \<Rightarrow> 0x31 | LbgB1 \<Rightarrow> 0x32 | LbgB2 \<Rightarrow> 0x33 | LbgS0 \<Rightarrow> 0x34 | LbgS1 \<Rightarrow> 0x35
     | PchSteppingMax \<Rightarrow> 0x36)"

definition PchIsPcieL0sSupported :: "'s hw \<Rightarrow> ('s, bool) prog" where
  "PchIsPcieL0sSupported hw = do {
     PchSeries \<leftarrow> GetPchSeries hw;
     st \<leftarrow> PchStepping hw;
     State_Monad.return (if PchSeries = PchLp then \<not> stepping_value st < stepping_value PchLpC0
       else \<not> stepping_value st < stepping_value PchHD0) }"

definition PchIsPcieNativeAspmSupported :: "'s hw \<Rightarrow> ('s, bool) prog" where
  "PchIsPcieNativeAspmSupported hw = PchIsPcieL0sSupported hw"

definition PCI_COMMAND_OFFSET :: u64 where [regs]: "PCI_COMMAND_OFFSET = 0x04"
definition EFI_PCI_COMMAND_BUS_MASTER :: u8 where [regs]: "EFI_PCI_COMMAND_BUS_MASTER = BIT 2"
definition PCH_MAX_PCIE_ROOT_PORTS :: nat where [regs]: "PCH_MAX_PCIE_ROOT_PORTS = 20"

fun set_bme :: "'s hw \<Rightarrow> u64 \<times> u64 \<Rightarrow> nat list \<Rightarrow> ('s, unit) prog" where
  "set_bme hw RpDevFun [] = State_Monad.return ()"
| "set_bme hw RpDevFun (RpIndex # is) = do {
     RpBase \<leftarrow> PchPcieBase hw RpDevFun (of_nat RpIndex);
     v \<leftarrow> MmioRead16 hw RpBase;
     (if v \<noteq> 0xFFFF then do {
        _ \<leftarrow> MmioOr8 hw (RpBase + PCI_COMMAND_OFFSET) EFI_PCI_COMMAND_BUS_MASTER;
        State_Monad.return () }
      else State_Monad.return ());
     set_bme hw RpDevFun is }"

definition SmmSetPchRpBme :: "'s hw \<Rightarrow> u64 \<times> u64 \<Rightarrow> ('s, efi_status) prog" where
  "SmmSetPchRpBme hw RpDevFun = do {
     set_bme hw RpDevFun [0..<PCH_MAX_PCIE_ROOT_PORTS];
     State_Monad.return EFI_SUCCESS }"

section \<open>From the number to the function and back\<close>

abbreviation rp_ports :: "PCH_PCIE_CONTROLLER_INFO list \<Rightarrow> (PCH_PCIE_CONTROLLER_INFO \<times> nat) list" where
  "rp_ports cs \<equiv> concat (map (\<lambda>c. map (Pair c) [0, 1, 2, 3]) cs)"

definition rp_place :: "ram sys \<Rightarrow> PCH_PCIE_CONTROLLER_INFO \<times> nat \<Rightarrow> u64 \<times> u64" where
  "rp_place s p = (ucast (DevNum (fst p)), rp_function (reg32 s (PCH_PCR_ADDRESS (Pid (fst p)) 0)) (snd p))"

text \<open>The function numbers of the ports of a device differ, and those of the last controller are below 4.\<close>

definition rp_assigned :: "ram sys \<Rightarrow> bool" where
  "rp_assigned s \<longleftrightarrow> distinct (map (rp_place s) (rp_ports mPchPcieControllerInfo)) \<and>
     (\<forall>i \<in> set [0, 1, 2, 3]. snd (rp_place s (mPchPcieControllerInfo ! 4, i)) < 4)"

lemma find_append: "find P (xs @ ys) = (case find P xs of None \<Rightarrow> find P ys | Some x \<Rightarrow> Some x)"
  by (induction xs) auto

lemma run_find_rp:
  "run_state (find_rp (ram_hw dbg) RpDev RpFun cs) s =
     (map_option (\<lambda>(c, i). ucast (RpNumBase c) + of_nat i) (find (\<lambda>p. rp_place s p = (RpDev, RpFun)) (rp_ports cs)), s)"
proof (induction cs)
  case (Cons c cs)
  have eq: "find (\<lambda>p. rp_place s p = (RpDev, RpFun)) (map (Pair c) is) =
      (if ucast (DevNum c) = RpDev then map_option (Pair c) (find (\<lambda>i. RpFun = rp_function (reg32 s (PCH_PCR_ADDRESS (Pid c) 0)) i) is) else None)" for "is"
    by (induction "is") (auto simp: rp_place_def)
  have ports: "rp_ports (c # cs) = map (Pair c) [0, 1, 2, 3] @ rp_ports cs" by simp
  have run: "run_state (PchPcrRead32 (ram_hw dbg) (Pid c) R_PCH_PCR_SPX_PCD 0) s =
      ((EFI_SUCCESS, reg32 s (PCH_PCR_ADDRESS (Pid c) 0)), s)"
    by (simp add: hwrun R_PCH_PCR_SPX_PCD_def)
  define hit where "hit = find (\<lambda>i. RpFun = rp_function (reg32 s (PCH_PCR_ADDRESS (Pid c) 0)) i) [0, 1, 2, 3]"
  show ?case
    unfolding ports find_append eq hit_def [symmetric] find_rp.simps
    by (cases "ucast (DevNum c) = RpDev"; cases hit)
      (simp_all only: if_True if_False run_bind run prod.case hit_def [symmetric] option.case Cons.IH run_return
        option.map option.simps simp_thms)
qed (simp add: hwrun)

lemma find_distinct:
  "distinct (map k xs) \<Longrightarrow> x \<in> set xs \<Longrightarrow> find (\<lambda>y. k y = k x) xs = Some x"
  by (induction xs) (auto simp: rev_image_eqI)

lemma rp_function_less: "rp_function v i < 8"
proof -
  have "rp_function v i = ucast (drop_bit (i * 4) v AND mask 3)"
    by (simp add: rp_function_def regs mask_numeral)
  moreover have "unat (drop_bit (i * 4) v AND mask 3 :: u32) < 8"
    using and_mask_less' [of 3 "drop_bit (i * 4) v"] by (simp add: word_less_nat_alt)
  ultimately show ?thesis
    by (simp add: word_less_nat_alt unsigned_ucast_eq le_less_trans [OF take_bit_nat_less_eq_self])
qed

text \<open>C29: On a PCH-H whose root ports have been given device and function numbers that are all
  different, those of the last controller below 4, the numbers that GetPchPcieRpDevFun reports
  for a root port lead GetPchPcieRpNumber back to it.\<close>

theorem rp_number_roundtrip:
  assumes "cur_series s = PchH" and "rp_assigned s" and "n < 20"
    and "run_state (GetPchPcieRpDevFun (ram_hw dbg) n d) s = ((st, RpDev, RpFun), s')"
  shows "st = EFI_SUCCESS \<and> fst (run_state (GetPchPcieRpNumber (ram_hw dbg) RpDev RpFun m) s') = (EFI_SUCCESS, n)"
proof -
  define c where "c = mPchPcieControllerInfo ! unat (n div 4)"
  define i where "i = unat (n - ucast (RpNumBase c))"
  have k: "unat n < 20" using assms(3) by (simp add: word_less_nat_alt)
  define q where "q = unat n div 4"
  have q: "q \<in> {0, 1, 2, 3, 4}" "unat (n div 4) = q" using k by (auto simp: q_def unat_div)
  have c: "c \<in> set mPchPcieControllerInfo" "unat (ucast (RpNumBase c) :: u64) = 4 * q"
      "c = mPchPcieControllerInfo ! 4 \<or> DevNum c = 28 \<or> DevNum c = 29"
    using q(1) unfolding c_def q(2) by (auto simp: mPchPcieControllerInfo_def regs)
  have "unat (n - ucast (RpNumBase c)) = unat n - 4 * q"
    unfolding c(2) [symmetric] by (rule unat_sub) (simp add: word_le_nat_alt c(2) q_def)
  then have i: "i < 4" unfolding i_def by (simp add: q_def)
  have n: "n = ucast (RpNumBase c) + of_nat i" unfolding i_def by simp
  have ci: "(c, i) \<in> set (rp_ports mPchPcieControllerInfo)"
    using c(1) i by auto
  have le: "\<not> 20 \<le> n" using assms(3) by (simp add: not_le)
  have r: "st = EFI_SUCCESS" "(RpDev, RpFun) = rp_place s (c, i)" "s' = cached s"
    using assms(1,4) le
    by (auto simp: GetPchPcieRpDevFun_def GetPchMaxPciePortNum_def by_series_def hwrun regs rp_place_def c_def i_def Let_def)
  have p: "rp_place (cached s) = rp_place s" by (simp add: rp_place_def fun_eq_iff)
  have "find (\<lambda>p. rp_place s p = (RpDev, RpFun)) (rp_ports mPchPcieControllerInfo) = Some (c, i)"
    using find_distinct [OF _ ci, of "rp_place s"] assms(2) by (simp add: r(2) rp_assigned_def)
  moreover have "rp_in_range PchH RpDev RpFun"
  proof -
    have "i \<in> set [0, 1, 2, 3]" using i by auto
    then have "snd (rp_place s (mPchPcieControllerInfo ! 4, i)) < 4" using assms(2) by (simp only: rp_assigned_def)
    moreover have "DevNum (mPchPcieControllerInfo ! 4) = 27" by (simp add: mPchPcieControllerInfo_def regs)
    ultimately show ?thesis
      using c(3) r(2) rp_function_less by (auto simp: rp_in_range_def rp_place_def regs)
  qed
  ultimately show ?thesis
    using assms(1) r(1,3) n by (simp add: GetPchPcieRpNumber_def hwrun run_find_rp p)
qed

text \<open>A PCH whose ports have the function numbers of their order.\<close>

definition rp_pch :: "ram sys" where
  "rp_pch = wr32 0xFDE40000 0x3210 (wr32 0xFDE30000 0x7654 (wr32 0xFDE20000 0x3210
     (wr32 0xFDE10000 0x7654 (wr32 0xFDE00000 0x3210 ((boot blank)\<lparr> mPchSeries := PchH \<rparr>)))))"

lemma rp_pch_pcd:
  "reg32 rp_pch (PCH_PCR_ADDRESS 0xE0 0) = 0x3210" "reg32 rp_pch (PCH_PCR_ADDRESS 0xE1 0) = 0x7654"
  "reg32 rp_pch (PCH_PCR_ADDRESS 0xE2 0) = 0x3210" "reg32 rp_pch (PCH_PCR_ADDRESS 0xE3 0) = 0x7654"
  "reg32 rp_pch (PCH_PCR_ADDRESS 0xE4 0) = 0x3210"
  by (simp_all add: rp_pch_def PCH_PCR_ADDRESS_def mem_simps)

lemma rp_pch_series: "cur_series rp_pch = PchH"
  by (simp add: rp_pch_def cur_series_def)

lemma rp_pch_functions:
  "map (rp_function 0x3210) [0, 1, 2, 3] = [0, 1, 2, 3]" "map (rp_function 0x7654) [0, 1, 2, 3] = [4, 5, 6, 7]"
  by (simp_all add: rp_function_def regs)

lemma rp_pch_assigned: "rp_assigned rp_pch"
  using rp_pch_functions
  by (simp add: rp_assigned_def rp_place_def mPchPcieControllerInfo_def rp_pch_pcd regs)

theorem rp_number_roundtrip_witness:
  "fst (run_state (GetPchPcieRpNumber (ram_hw True) 29 6 0)
     (snd (run_state (GetPchPcieRpDevFun (ram_hw True) 14 (0, 0)) rp_pch))) = (EFI_SUCCESS, 14)"
proof -
  have "fst (run_state (GetPchPcieRpDevFun (ram_hw True) 14 (0, 0)) rp_pch) = (EFI_SUCCESS, 29, 6)"
    using rp_pch_functions rp_pch_pcd
    by (simp add: GetPchPcieRpDevFun_def GetPchMaxPciePortNum_def by_series_def hwrun regs rp_pch_series
        mPchPcieControllerInfo_def Let_def)
  then have "run_state (GetPchPcieRpDevFun (ram_hw True) 14 (0, 0)) rp_pch =
      ((EFI_SUCCESS, 29, 6), snd (run_state (GetPchPcieRpDevFun (ram_hw True) 14 (0, 0)) rp_pch))"
    by (metis prod.collapse)
  from rp_number_roundtrip [OF rp_pch_series rp_pch_assigned _ this] show ?thesis by simp
qed

end
