(* ===== verification/GpioPrivate.thy ===== *)
theory GpioPrivate
  imports GpioEvents
begin

text \<open>
  GpioPrivateLib.c: raw access to the registers of a GPIO community, the pad and the registers behind the
  number of a GPI SMI, and routing of the GPIO interrupt.  The search for the pad of a number inverts
  GpioGetGpiSmiNum.
\<close>

definition B_PCH_PCR_GPIO_MISCCFG_IRQ_ROUTE :: u32 where [regs]: "B_PCH_PCR_GPIO_MISCCFG_IRQ_ROUTE = BIT 3"
definition N_PCH_PCR_GPIO_MISCCFG_IRQ_ROUTE :: nat where [regs]: "N_PCH_PCR_GPIO_MISCCFG_IRQ_ROUTE = 3"
definition R_PCH_PCR_GPIO_GPP_A_GPI_GPE_STS :: u32 where [regs]: "R_PCH_PCR_GPIO_GPP_A_GPI_GPE_STS = 0x0120"
definition R_PCH_PCR_GPIO_GPP_A_GPI_GPE_EN :: u32 where [regs]: "R_PCH_PCR_GPIO_GPP_A_GPI_GPE_EN = 0x0130"
definition V_PCH_PCR_GPIO_HOSTSW_OWN_ACPI :: u32 where [regs]: "V_PCH_PCR_GPIO_HOSTSW_OWN_ACPI = 0"

definition GpioGetReg :: "'s hw \<Rightarrow> GPIO_GROUP \<Rightarrow> u32 \<Rightarrow> u32 \<Rightarrow> ('s, efi_status \<times> u32) prog" where
  "GpioGetReg hw Group Offset RegVal = do {
     GpioGroupInfo \<leftarrow> GpioGetGroupInfoTable hw;
     let GroupIndex = GpioGetGroupIndexFromGroup Group;
     if unat GroupIndex \<ge> length GpioGroupInfo then State_Monad.return (EFI_INVALID_PARAMETER, RegVal)
     else do {
       v \<leftarrow> MmioRead32 hw (gpio_reg (ginfo GpioGroupInfo GroupIndex) Offset);
       State_Monad.return (EFI_SUCCESS, v) } }"

definition GpioSetReg :: "'s hw \<Rightarrow> GPIO_GROUP \<Rightarrow> u32 \<Rightarrow> u32 \<Rightarrow> ('s, efi_status) prog" where
  "GpioSetReg hw Group Offset RegVal = do {
     GpioGroupInfo \<leftarrow> GpioGetGroupInfoTable hw;
     let GroupIndex = GpioGetGroupIndexFromGroup Group;
     if unat GroupIndex \<ge> length GpioGroupInfo then State_Monad.return EFI_INVALID_PARAMETER
     else do {
       _ \<leftarrow> MmioWrite32 hw (gpio_reg (ginfo GpioGroupInfo GroupIndex) Offset) RegVal;
       State_Monad.return EFI_SUCCESS } }"

text \<open>The loop over the groups: the index of the group, its length when the loop has run to the end, and
  the last pad number tried.\<close>

fun find_pad :: "GPIO_GROUP_INFO list \<Rightarrow> u32 \<Rightarrow> u32 \<Rightarrow> u32 \<Rightarrow> u32 \<times> u32" where
  "find_pad [] GroupIndex PadNo Index = (GroupIndex, PadNo)"
| "find_pad (i # is) GroupIndex PadNo Index =
     (if Index < PadPerGroup i then (GroupIndex, Index)
      else find_pad is (GroupIndex + 1) Index (Index - PadPerGroup i))"

text \<open>The test after the loop indexes the table by its length when no group has been found.  The results
  are the pad, the bit, and the addresses of the enable and the status register.\<close>

definition GpioGetPadAndSmiRegs :: "'s hw \<Rightarrow> u32 \<Rightarrow> ('s, (GPIO_PAD \<times> u8 \<times> u32 \<times> u32) option) prog" where
  "GpioGetPadAndSmiRegs hw Index = do {
     GpioGroupInfo \<leftarrow> GpioGetGroupInfoTable hw;
     let (GroupIndex, PadNo) = find_pad GpioGroupInfo 0 0 Index;
     let i = ginfo GpioGroupInfo GroupIndex;
     let GpioPin = GpioGetGpioPadFromGroupAndPadNumber (GroupIndex + GpioGetLowestGroup) PadNo;
     if PadNo \<ge> PadPerGroup i then State_Monad.return None
     else if SmiEnOffset i = NO_REGISTER_FOR_PROPERTY then State_Monad.return None
     else do {
       refused \<leftarrow> (if hw_debug_code hw then do {
           (_, PadOwnVal) \<leftarrow> GpioGetPadOwnership hw GpioPin 0;
           if PadOwnVal \<noteq> GpioPadOwnHost then State_Monad.return True
           else do {
             (_, HostOwnVal) \<leftarrow> GpioGetHostSwOwnershipForPad hw GpioPin 0;
             State_Monad.return (HostOwnVal \<noteq> V_PCH_PCR_GPIO_HOSTSW_OWN_ACPI) } }
         else State_Monad.return False);
       State_Monad.return (if refused then None
         else Some (GpioPin, ucast PadNo, ucast (PCH_PCR_ADDRESS (Community i) (ucast (SmiEnOffset i))),
           ucast (PCH_PCR_ADDRESS (Community i)
             (ucast (SmiEnOffset i - (R_PCH_PCR_GPIO_GPP_A_GPI_GPE_EN - R_PCH_PCR_GPIO_GPP_A_GPI_GPE_STS)))))) } }"

fun route_irq :: "'s hw \<Rightarrow> u32 \<Rightarrow> u32 \<Rightarrow> u8 list \<Rightarrow> ('s, unit) prog" where
  "route_irq hw Data32And Data32Or [] = State_Monad.return ()"
| "route_irq hw Data32And Data32Or (c # cs) = do {
     _ \<leftarrow> MmioAndThenOr32 hw (PCH_PCR_ADDRESS c R_PCH_PCR_GPIO_MISCCFG) Data32And Data32Or;
     route_irq hw Data32And Data32Or cs }"

definition GpioSetIrq :: "'s hw \<Rightarrow> u8 \<Rightarrow> ('s, efi_status) prog" where
  "GpioSetIrq hw Irq =
     (if Irq < 14 \<or> Irq > 15 then State_Monad.return EFI_INVALID_PARAMETER
      else do {
        route_irq hw (NOT B_PCH_PCR_GPIO_MISCCFG_IRQ_ROUTE)
          (push_bit N_PCH_PCR_GPIO_MISCCFG_IRQ_ROUTE (ucast (Irq - 14)))
          [PID_GPIOCOM0, PID_GPIOCOM1, PID_GPIOCOM2, PID_GPIOCOM3];
        State_Monad.return EFI_SUCCESS })"

section \<open>The pad of a number\<close>

lemma find_pad_at:
  assumes "i < length gs" "k < PadPerGroup (gs ! i)"
    and "sum_list (map (\<lambda>x. unat (PadPerGroup x)) gs) < 2 ^ 32" "n + length gs < 2 ^ 32"
  shows "find_pad gs (of_nat n) p (of_nat (sum_list (map (\<lambda>x. unat (PadPerGroup x)) (take i gs))) + k) =
    (of_nat (n + i), k)"
  using assms
proof (induction gs arbitrary: i n p)
  case (Cons x xs)
  show ?case
  proof (cases i)
    case 0
    then show ?thesis using Cons.prems by simp
  next
    case (Suc j)
    let ?m = "sum_list (map (\<lambda>x. unat (PadPerGroup x)) (take j xs))"
    have "?m + unat (PadPerGroup (xs ! j)) \<le> sum_list (map (\<lambda>x. unat (PadPerGroup x)) xs)"
    proof -
      have "take (Suc j) xs @ drop (Suc j) xs = xs" by simp
      then have "sum_list (map (\<lambda>x. unat (PadPerGroup x)) (take (Suc j) xs)) \<le> sum_list (map (\<lambda>x. unat (PadPerGroup x)) xs)"
        by (metis le_add1 map_append sum_list.append)
      then show ?thesis using Cons.prems(1) Suc by (simp add: take_Suc_conv_app_nth)
    qed
    moreover have "unat k < unat (PadPerGroup (xs ! j))" using Cons.prems(2) Suc by (simp add: word_less_nat_alt)
    ultimately have lt: "unat (PadPerGroup x) + (?m + unat k) < 2 ^ 32" using Cons.prems(3) by simp
    have eq: "(of_nat (sum_list (map (\<lambda>x. unat (PadPerGroup x)) (take i (x # xs)))) + k :: u32) =
        PadPerGroup x + (of_nat ?m + k)"
      using Suc by simp
    have u: "unat (PadPerGroup x + (of_nat ?m + k)) = unat (PadPerGroup x) + (?m + unat k)"
      using lt by (simp add: unat_word_ariths unat_of_nat)
    have "\<not> PadPerGroup x + (of_nat ?m + k) < PadPerGroup x" by (simp add: word_less_nat_alt u)
    then show ?thesis
      using Cons.IH [of j "Suc n" "PadPerGroup x + (of_nat ?m + k)"] Cons.prems Suc
      by (simp only: eq find_pad.simps if_False) (simp add: algebra_simps)
  qed
qed simp

text \<open>The offsets of the status registers are those of the table.\<close>

lemma smi_sts_offset:
  "g < 13 \<Longrightarrow> SmiEnOffset (row g) \<noteq> NO_REGISTER_FOR_PROPERTY \<Longrightarrow>
    SmiEnOffset (row g) - (R_PCH_PCR_GPIO_GPP_A_GPI_GPE_EN - R_PCH_PCR_GPIO_GPP_A_GPI_GPE_STS) = SmiStsOffset (row g)"
proof -
  assume g: "g < 13" and r: "SmiEnOffset (row g) \<noteq> NO_REGISTER_FOR_PROPERTY"
  have "\<forall>i \<in> set mPchGpioGroupInfo. SmiEnOffset i \<noteq> NO_REGISTER_FOR_PROPERTY \<longrightarrow> SmiEnOffset i - 0x10 = SmiStsOffset i"
    by (simp add: mPchGpioGroupInfo_def NO_REGISTER_FOR_PROPERTY_def)
  moreover have "row g \<in> set mPchGpioGroupInfo"
    using g by (simp add: row_def ginfo_def word_less_nat_alt mPchGpioGroupInfo_def del: set_simps)
  ultimately show ?thesis using r by (simp add: regs)
qed

lemma pad_number_at: "pad_ok p \<Longrightarrow>
  find_pad mPchGpioGroupInfo 0 0 (ucast (of_nat (pads_before (gi p) + unat (pn p)) :: u64)) = (gi p, pn p)"
proof -
  assume p: "pad_ok p"
  have g: "unat (gi p) < 13" "pn p < PadPerGroup (mPchGpioGroupInfo ! unat (gi p))"
    using p by (simp_all add: pad_ok_def valid_pos_def row_def ginfo_def word_less_nat_alt)
  have "ucast (of_nat (pads_before (gi p) + unat (pn p)) :: u64) =
      (of_nat (sum_list (map (\<lambda>x. unat (PadPerGroup x)) (take (unat (gi p)) mPchGpioGroupInfo))) + pn p :: u32)"
    using smi_number_below [OF p] by (simp add: pads_before_def unsigned_of_nat take_bit_nat_eq_self del: of_nat_add)
      (simp add: row_def ginfo_def)
  moreover have "length mPchGpioGroupInfo = 13" by (simp add: mPchGpioGroupInfo_def)
  ultimately show ?thesis
    using find_pad_at [of "unat (gi p)" mPchGpioGroupInfo "pn p" 0 0] g all_pads by simp
qed

lemma pad_of_position:
  assumes "pad_ok p" shows "GpioGetGpioPadFromGroupAndPadNumber (gi p + GpioGetLowestGroup) (pn p) = p"
proof -
  have m: "(0xFF :: u32) = mask 8" "(0xFFFF :: u32) = mask 16" by (simp_all add: mask_numeral)
  have n: "pn p = take_bit 16 p"
    by (simp add: GpioGetPadNumberFromGpioPad_def m take_bit_eq_mask)
  have "drop_bit 8 (drop_bit 16 p) = 1"
    using assms by (simp add: pad_ok_def GPIO_GET_CHIPSET_ID_def regs)
  moreover have "take_bit 8 (drop_bit 16 p) = gi p"
    unfolding GpioGetGroupIndexFromGpioPad_def m by (rule bit_word_eqI) (auto simp: bit_simps)
  ultimately have "drop_bit 16 p = gi p + 0x100"
    using bits_ident [of 8 "drop_bit 16 p"] by (simp add: add.commute)
  then show ?thesis
    using bits_ident [of 16 p] n
    by (simp add: GpioGetGpioPadFromGroupAndPadNumber_def GPIO_PAD_DEF_def GpioGetLowestGroup_def regs)
qed

text \<open>C33: GpioGetPadAndSmiRegs leads from the number that GpioGetGpiSmiNum gives a pad with an SMI
  enable register back to the pad, its bit and the addresses of its SMI enable and status
  registers; in the debug build the pad must be owned by the host and by ACPI. The number counts
  the pads of the groups before it (the comment says otherwise, see the findings).\<close>

theorem gpi_smi_roundtrip:
  assumes "known s" and "pad_ok p" and "SmiEnOffset (row (gi p)) \<noteq> NO_REGISTER_FOR_PROPERTY"
    and "dbg \<longrightarrow> pad_owner s p = GpioPadOwnHost \<and>
      fst (run_state (GpioGetHostSwOwnershipForPad (ram_hw dbg) p 0) s) = (EFI_SUCCESS, V_PCH_PCR_GPIO_HOSTSW_OWN_ACPI)"
    and "fst (run_state (GpioGetGpiSmiNum (ram_hw dbg) p d) s) = (st, n)"
  shows "st = EFI_SUCCESS \<and> fst (run_state (GpioGetPadAndSmiRegs (ram_hw dbg) (ucast n)) s) =
    Some (p, ucast (pn p), ucast (slot_addr (GroupSlot SmiEnF (gi p))), ucast (slot_addr (GroupSlot SmiStsF (gi p))))"
proof -
  have n: "st = EFI_SUCCESS" "n = of_nat (pads_before (gi p) + unat (pn p))"
    using assms(5) run_GpioGetGpiSmiNum [OF assms(1,2)] by auto
  have f: "find_pad mPchGpioGroupInfo 0 0 (ucast n) = (gi p, pn p)"
    unfolding n by (rule pad_number_at [OF assms(2)])
  have g: "gi p < 13" "pn p < PadPerGroup (row (gi p))" using assms(2) by simp_all
  note sts = smi_sts_offset [OF g(1) assms(3)]
  show ?thesis
    using assms(1-4) g n(1)
    by (cases dbg)
      (auto simp: GpioGetPadAndSmiRegs_def hwrun plain_ram.run_table plain_ram.run_ownership f pad_of_position
        row_def [symmetric] sts slot_addr_def gpio_reg_def not_le Let_def split: prod.splits)
qed

theorem gpi_smi_roundtrip_witness:
  "fst (run_state (GpioGetPadAndSmiRegs (ram_hw False)
     (ucast (snd (fst (run_state (GpioGetGpiSmiNum (ram_hw False) 0x01010004 7) ready_pch))))) ready_pch) =
   Some (0x01010004, 4, 0xFDAF0154, 0xFDAF0144)"
proof -
  have "SmiEnOffset (row (gi 0x01010004)) \<noteq> NO_REGISTER_FOR_PROPERTY"
    by (simp add: GpioGetGroupIndexFromGpioPad_def rows NO_REGISTER_FOR_PROPERTY_def)
  from gpi_smi_roundtrip [OF ready_pch_facts(1) pads_ok(2) this _ surjective_pairing, of False 7]
  show ?thesis
    by (simp add: GpioGetGroupIndexFromGpioPad_def GpioGetPadNumberFromGpioPad_def slot_addr_def gpio_reg_def rows
        PCH_PCR_ADDRESS_def regs)
qed

end
