(* ===== verification/SmmBits.thy ===== *)
theory SmmBits
  imports GpioLib
begin

text \<open>
  The helper functions of the PCH SMI dispatcher, PchSmmHelpers.c and PchxSmmHelpers.c of
  PchSmiDispatcher/Smm: descriptions of SMI sources by the bits that enable and report them, reading
  and writing such a bit wherever it lies (IO space at the ACPI or TCO base, memory, PCI configuration
  space, private configuration registers), and the tests and updates of sources that are made of these.
\<close>

section \<open>IO space\<close>

text \<open>Accesses to IO ports go beside those to memory.  \<open>smm\<close> is the state of the dispatcher's module
  variables that the helpers use; the other theories extend it.\<close>

record 's io_hw =
  mm :: "'s hw"
  io_rd8 :: "u64 \<Rightarrow> 's \<Rightarrow> u8 \<times> 's"
  io_rd16 :: "u64 \<Rightarrow> 's \<Rightarrow> u16 \<times> 's"
  io_rd32 :: "u64 \<Rightarrow> 's \<Rightarrow> u32 \<times> 's"
  io_wr8 :: "u64 \<Rightarrow> u8 \<Rightarrow> 's \<Rightarrow> 's"
  io_wr16 :: "u64 \<Rightarrow> u16 \<Rightarrow> 's \<Rightarrow> 's"
  io_wr32 :: "u64 \<Rightarrow> u32 \<Rightarrow> 's \<Rightarrow> 's"

record 's smm =
  smm_sys :: "'s sys"
  mAcpiBaseAddr :: u16
  mTcoBaseAddr :: u16

type_synonym ('s, 'z, 'a) smm_prog = "(('s, 'z) smm_scheme, 'a) state"

definition on_sys :: "('s, 'a) prog \<Rightarrow> ('s, 'z, 'a) smm_prog" where
  "on_sys p = State (\<lambda>s. let (a, t) = run_state p (smm_sys s) in (a, s\<lparr> smm_sys := t \<rparr>))"

lemma run_on_sys: "run_state (on_sys p) s = (case run_state p (smm_sys s) of (a, t) \<Rightarrow> (a, s\<lparr> smm_sys := t \<rparr>))"
  by (simp add: on_sys_def)

definition acpi_port :: "u64 \<Rightarrow> ('s, 'z, u64) smm_prog" where
  "acpi_port Offset = State (\<lambda>s. (ucast (mAcpiBaseAddr s) + Offset, s))"

definition tco_port :: "u64 \<Rightarrow> ('s, 'z, u64) smm_prog" where
  "tco_port Offset = State (\<lambda>s. (ucast (mTcoBaseAddr s) + Offset, s))"

definition IoRead8 :: "'s io_hw \<Rightarrow> u64 \<Rightarrow> ('s, 'z, u8) smm_prog" where
  "IoRead8 io Port = on_sys (on_dev (io_rd8 io Port))"

definition IoRead16 :: "'s io_hw \<Rightarrow> u64 \<Rightarrow> ('s, 'z, u16) smm_prog" where
  "IoRead16 io Port = on_sys (on_dev (io_rd16 io Port))"

definition IoRead32 :: "'s io_hw \<Rightarrow> u64 \<Rightarrow> ('s, 'z, u32) smm_prog" where
  "IoRead32 io Port = on_sys (on_dev (io_rd32 io Port))"

definition IoWrite8 :: "'s io_hw \<Rightarrow> u64 \<Rightarrow> u8 \<Rightarrow> ('s, 'z, unit) smm_prog" where
  "IoWrite8 io Port Value = on_sys (on_dev (\<lambda>d. ((), io_wr8 io Port Value d)))"

definition IoWrite16 :: "'s io_hw \<Rightarrow> u64 \<Rightarrow> u16 \<Rightarrow> ('s, 'z, unit) smm_prog" where
  "IoWrite16 io Port Value = on_sys (on_dev (\<lambda>d. ((), io_wr16 io Port Value d)))"

definition IoWrite32 :: "'s io_hw \<Rightarrow> u64 \<Rightarrow> u32 \<Rightarrow> ('s, 'z, unit) smm_prog" where
  "IoWrite32 io Port Value = on_sys (on_dev (\<lambda>d. ((), io_wr32 io Port Value d)))"

definition IoOr32 :: "'s io_hw \<Rightarrow> u64 \<Rightarrow> u32 \<Rightarrow> ('s, 'z, unit) smm_prog" where
  "IoOr32 io Port OrData = do { v \<leftarrow> IoRead32 io Port; IoWrite32 io Port (v OR OrData) }"

text \<open>The access service of SMM, gSmst->SmmIo, by the encoding of the width; it accesses the port.\<close>

definition SmmIoRead :: "'s io_hw \<Rightarrow> nat \<Rightarrow> u64 \<Rightarrow> ('s, 'z, u64) smm_prog" where
  "SmmIoRead io Width Port =
     (if Width = 2 then do { v \<leftarrow> IoRead32 io Port; State_Monad.return (ucast v) }
      else if Width = 1 then do { v \<leftarrow> IoRead16 io Port; State_Monad.return (ucast v) }
      else do { v \<leftarrow> IoRead8 io Port; State_Monad.return (ucast v) })"

definition SmmIoWrite :: "'s io_hw \<Rightarrow> nat \<Rightarrow> u64 \<Rightarrow> u64 \<Rightarrow> ('s, 'z, unit) smm_prog" where
  "SmmIoWrite io Width Port Register =
     (if Width = 2 then IoWrite32 io Port (ucast Register)
      else if Width = 1 then IoWrite16 io Port (ucast Register)
      else IoWrite8 io Port (ucast Register))"

section \<open>Registers\<close>

definition R_PCH_SMI_EN :: u16 where [regs]: "R_PCH_SMI_EN = 0x30"
definition R_PCH_SMI_STS :: u16 where [regs]: "R_PCH_SMI_STS = 0x34"
definition R_PCH_ACPI_PM1_STS :: u16 where [regs]: "R_PCH_ACPI_PM1_STS = 0x00"
definition R_PCH_ACPI_PM1_CNT :: u16 where [regs]: "R_PCH_ACPI_PM1_CNT = 0x04"
definition R_PCH_ACPI_GPE0_STS_127_96 :: u16 where [regs]: "R_PCH_ACPI_GPE0_STS_127_96 = 0x8C"
definition R_PCH_DEVACT_STS :: u16 where [regs]: "R_PCH_DEVACT_STS = 0x44"
definition R_PCH_TCO1_STS :: u16 where [regs]: "R_PCH_TCO1_STS = 0x04"
definition R_PCH_TCO2_STS :: u16 where [regs]: "R_PCH_TCO2_STS = 0x06"
definition B_PCH_SMI_EN_EOS :: u32 where [regs]: "B_PCH_SMI_EN_EOS = BIT 1"
definition B_PCH_SMI_EN_GBL_SMI :: u32 where [regs]: "B_PCH_SMI_EN_GBL_SMI = BIT 0"
definition B_PCH_ACPI_PM1_CNT_SCI_EN :: u32 where [regs]: "B_PCH_ACPI_PM1_CNT_SCI_EN = 0x1"

text \<open>The status bits that \<open>PchSmmClearSmi\<close> writes: wake, power button override, RTC, power button, global
  and timer in PM1; bits 16 and 13, 11 to 6 and 1 of the last general purpose event register; the bits
  of the SMI, device activity and TCO status registers.\<close>

definition clear_pm1_sts :: u16 where "clear_pm1_sts = 0x8000 OR 0x0800 OR 0x0400 OR 0x0100 OR 0x0020 OR 0x0001"
definition clear_gpe0_sts :: u32 where
  "clear_gpe0_sts = BIT 13 OR BIT 11 OR BIT 10 OR BIT 9 OR BIT 8 OR BIT 7 OR BIT 6 OR BIT 1 OR BIT 10 OR BIT 16"
definition clear_smi_sts :: u32 where
  "clear_smi_sts = BIT 16 OR BIT 14 OR BIT 13 OR BIT 11 OR BIT 6 OR BIT 5 OR BIT 4 OR BIT 2"
definition clear_devact_sts :: u16 where "clear_devact_sts = 0x1000 OR 0x0200 OR 0x0100 OR 0x0080 OR 0x0040"
definition clear_tco1_sts :: u16 where
  "clear_tco1_sts = BIT 12 OR BIT 10 OR BIT 9 OR BIT 8 OR BIT 7 OR BIT 3 OR BIT 2 OR BIT 1"
definition B_PCH_TCO2_STS_INTRD_DET :: u16 where [regs]: "B_PCH_TCO2_STS_INTRD_DET = BIT 0"

section \<open>PchSmm.h: descriptions of bits and sources\<close>

datatype ADDR_TYPE = ACPI_ADDR_TYPE | TCO_ADDR_TYPE | GPIO_ADDR_TYPE | MEMORY_MAPPED_IO_ADDRESS_TYPE
  | PCIE_ADDR_TYPE | PCR_ADDR_TYPE | PCH_SMM_ADDR_TYPE_NULL

text \<open>The union of the forms of an address is its eight bytes.\<close>

record PCH_SMM_ADDRESS =
  Type :: ADDR_TYPE
  Data :: u64

definition Data_raw :: "PCH_SMM_ADDRESS \<Rightarrow> u32" where "Data_raw a = ucast (Data a)"
definition Data_io :: "PCH_SMM_ADDRESS \<Rightarrow> u16" where "Data_io a = ucast (Data a)"
definition Pcie_Reg :: "PCH_SMM_ADDRESS \<Rightarrow> u32" where "Pcie_Reg a = ucast (Data a) AND 0xFFFF"
definition Pcie_Fnc :: "PCH_SMM_ADDRESS \<Rightarrow> u32" where "Pcie_Fnc a = drop_bit 16 (ucast (Data a)) AND 0x7"
definition Pcie_Dev :: "PCH_SMM_ADDRESS \<Rightarrow> u32" where "Pcie_Dev a = drop_bit 19 (ucast (Data a)) AND 0x1F"
definition Pcie_Bus :: "PCH_SMM_ADDRESS \<Rightarrow> u32" where "Pcie_Bus a = drop_bit 24 (ucast (Data a)) AND 0xFF"
definition Pcr_Offset :: "PCH_SMM_ADDRESS \<Rightarrow> u16" where "Pcr_Offset a = ucast (Data a)"
definition Pcr_Pid :: "PCH_SMM_ADDRESS \<Rightarrow> u8" where "Pcr_Pid a = ucast (drop_bit 16 (Data a))"

record PCH_SMM_BIT_DESC =
  Reg :: PCH_SMM_ADDRESS
  SizeInBytes :: u8
  Bit :: u8

definition IS_BIT_DESC_NULL :: "PCH_SMM_BIT_DESC \<Rightarrow> bool" where
  "IS_BIT_DESC_NULL BitDesc \<longleftrightarrow> Type (Reg BitDesc) = PCH_SMM_ADDR_TYPE_NULL"

definition NULL_BIT_DESC_INITIALIZER :: PCH_SMM_BIT_DESC where
  "NULL_BIT_DESC_INITIALIZER = \<lparr> Reg = \<lparr> Type = PCH_SMM_ADDR_TYPE_NULL, Data = 0 \<rparr>, SizeInBytes = 0, Bit = 0 \<rparr>"

definition NUM_EN_BITS :: nat where [regs]: "NUM_EN_BITS = 2"
definition NUM_STS_BITS :: nat where [regs]: "NUM_STS_BITS = 1"
definition PCH_SMM_NO_FLAGS :: u8 where [regs]: "PCH_SMM_NO_FLAGS = 0"
definition PCH_SMM_SCI_EN_DEPENDENT :: u8 where [regs]: "PCH_SMM_SCI_EN_DEPENDENT = 1"

record PCH_SMM_SOURCE_DESC =
  Flags :: u8
  En :: "PCH_SMM_BIT_DESC list"
  Sts :: "PCH_SMM_BIT_DESC list"
  PmcSmiSts :: PCH_SMM_BIT_DESC

definition NULL_SOURCE_DESC_INITIALIZER :: PCH_SMM_SOURCE_DESC where
  "NULL_SOURCE_DESC_INITIALIZER = \<lparr> Flags = PCH_SMM_NO_FLAGS,
     En = [NULL_BIT_DESC_INITIALIZER, NULL_BIT_DESC_INITIALIZER], Sts = [NULL_BIT_DESC_INITIALIZER],
     PmcSmiSts = NULL_BIT_DESC_INITIALIZER \<rparr>"

text \<open>A description filled with zero bytes: its address type is the one of value 0.\<close>

definition zero_bit_desc :: PCH_SMM_BIT_DESC where
  "zero_bit_desc = \<lparr> Reg = \<lparr> Type = ACPI_ADDR_TYPE, Data = 0 \<rparr>, SizeInBytes = 0, Bit = 0 \<rparr>"

definition zero_source_desc :: PCH_SMM_SOURCE_DESC where
  "zero_source_desc = \<lparr> Flags = 0, En = [zero_bit_desc, zero_bit_desc], Sts = [zero_bit_desc], PmcSmiSts = zero_bit_desc \<rparr>"

section \<open>Comparing sources\<close>

definition same_bit :: "PCH_SMM_BIT_DESC \<Rightarrow> PCH_SMM_BIT_DESC \<Rightarrow> bool" where
  "same_bit a b \<longleftrightarrow> Bit a = Bit b \<and> Type (Reg a) = Type (Reg b) \<and> Data_raw (Reg a) = Data_raw (Reg b)"

definition CompareEnables :: "PCH_SMM_SOURCE_DESC \<Rightarrow> PCH_SMM_SOURCE_DESC \<Rightarrow> bool" where
  "CompareEnables Src1 Src2 \<longleftrightarrow> (\<forall>i \<in> set [0..<NUM_EN_BITS]. same_bit (En Src1 ! i) (En Src2 ! i))"

definition CompareStatuses :: "PCH_SMM_SOURCE_DESC \<Rightarrow> PCH_SMM_SOURCE_DESC \<Rightarrow> bool" where
  "CompareStatuses Src1 Src2 \<longleftrightarrow> (\<forall>i \<in> set [0..<NUM_STS_BITS]. same_bit (Sts Src1 ! i) (Sts Src2 ! i))"

definition CompareSources :: "PCH_SMM_SOURCE_DESC \<Rightarrow> PCH_SMM_SOURCE_DESC \<Rightarrow> bool" where
  "CompareSources Src1 Src2 \<longleftrightarrow> CompareEnables Src1 Src2 \<and> CompareStatuses Src1 Src2"

definition IsBitEqualToAnySourceEn :: "PCH_SMM_BIT_DESC \<Rightarrow> PCH_SMM_SOURCE_DESC \<Rightarrow> bool" where
  "IsBitEqualToAnySourceEn BitDesc Src \<longleftrightarrow> (\<exists>i \<in> set [0..<NUM_EN_BITS]. same_bit BitDesc (En Src ! i))"

section \<open>Reading and writing a bit\<close>

text \<open>The width of an IO access by the size of the register; a size that is not supported leaves
  \<open>RegSize\<close> at 0, the encoding of 8 bits.\<close>

definition io_reg_size :: "u8 \<Rightarrow> nat" where
  "io_reg_size Size = (if Size = 2 then 1 else if Size = 4 then 2 else if Size = 8 then 3 else 0)"

text \<open>A 64 bit register is accessed by the half that holds the bit: width, offset and bit.\<close>

definition io_place :: "PCH_SMM_BIT_DESC \<Rightarrow> nat \<times> u64 \<times> nat" where
  "io_place BitDesc =
     (let RegSize = io_reg_size (SizeInBytes BitDesc); RegisterOffset = ucast (Data_io (Reg BitDesc)) in
      if RegSize = 3
      then (if Bit BitDesc \<ge> 32 then (2, RegisterOffset + 4, unat (Bit BitDesc) - 32)
            else (2, RegisterOffset, unat (Bit BitDesc)))
      else (RegSize, RegisterOffset, unat (Bit BitDesc)))"

definition io_base :: "ADDR_TYPE \<Rightarrow> ('s, 'z, u64) smm_prog" where
  "io_base t = (if t = ACPI_ADDR_TYPE then acpi_port 0 else tco_port 0)"

definition pcie_address :: "'s io_hw \<Rightarrow> PCH_SMM_ADDRESS \<Rightarrow> u64" where
  "pcie_address io a = hw_pci_base (mm io) (Pcie_Bus a) (Pcie_Dev a) (Pcie_Fnc a) + ucast (Pcie_Reg a)"

text \<open>The register is 0 where the size is not supported.\<close>

definition read_mmio :: "'s io_hw \<Rightarrow> u64 \<Rightarrow> u8 \<Rightarrow> bool \<Rightarrow> ('s, u64) prog" where
  "read_mmio io a Size wide =
     (if Size = 1 then do { v \<leftarrow> MmioRead8 (mm io) a; State_Monad.return (ucast v) }
      else if Size = 2 then do { v \<leftarrow> MmioRead16 (mm io) a; State_Monad.return (ucast v) }
      else if Size = 4 then do { v \<leftarrow> MmioRead32 (mm io) a; State_Monad.return (ucast v) }
      else if Size = 8 \<and> wide then do {
        v \<leftarrow> MmioRead32 (mm io) a;
        w \<leftarrow> MmioRead32 (mm io) (a + 4);
        State_Monad.return (ucast v OR push_bit 32 (ucast w)) }
      else State_Monad.return 0)"

definition read_pcr :: "'s io_hw \<Rightarrow> PCH_SMM_ADDRESS \<Rightarrow> u8 \<Rightarrow> ('s, u64) prog" where
  "read_pcr io a Size =
     (if Size = 1 then do { (_, v) \<leftarrow> PchPcrRead8 (mm io) (Pcr_Pid a) (Pcr_Offset a) 0; State_Monad.return (ucast v) }
      else if Size = 2 then do { (_, v) \<leftarrow> PchPcrRead16 (mm io) (Pcr_Pid a) (Pcr_Offset a) 0; State_Monad.return (ucast v) }
      else if Size = 4 then do { (_, v) \<leftarrow> PchPcrRead32 (mm io) (Pcr_Pid a) (Pcr_Offset a) 0; State_Monad.return (ucast v) }
      else State_Monad.return 0)"

definition ReadBitDesc :: "'s io_hw \<Rightarrow> PCH_SMM_BIT_DESC \<Rightarrow> ('s, 'z, bool) smm_prog" where
  "ReadBitDesc io BitDesc =
     (let a = Reg BitDesc in case Type a of
        PCH_SMM_ADDR_TYPE_NULL \<Rightarrow> State_Monad.return False
      | PCIE_ADDR_TYPE \<Rightarrow> do {
          Register \<leftarrow> on_sys (read_mmio io (pcie_address io a) (SizeInBytes BitDesc) False);
          State_Monad.return (Register AND push_bit (unat (Bit BitDesc)) 1 \<noteq> 0) }
      | PCR_ADDR_TYPE \<Rightarrow> do {
          Register \<leftarrow> on_sys (read_pcr io a (SizeInBytes BitDesc));
          State_Monad.return (Register AND push_bit (unat (Bit BitDesc)) 1 \<noteq> 0) }
      | _ \<Rightarrow>
          if Type a = ACPI_ADDR_TYPE \<or> Type a = TCO_ADDR_TYPE then do {
            BaseAddr \<leftarrow> io_base (Type a);
            let (RegSize, RegisterOffset, ShiftCount) = io_place BitDesc;
            Register \<leftarrow> SmmIoRead io RegSize (BaseAddr + RegisterOffset);
            State_Monad.return (Register AND push_bit ShiftCount 1 \<noteq> 0) }
          else do {
            Register \<leftarrow> on_sys (read_mmio io (Data a) (SizeInBytes BitDesc) True);
            State_Monad.return (Register AND push_bit (unat (Bit BitDesc)) 1 \<noteq> 0) })"

definition AndVal :: "nat \<Rightarrow> bool \<Rightarrow> u64" where
  "AndVal n WriteClear = (if WriteClear then push_bit n 1 else NOT (push_bit n 1))"

definition OrVal :: "nat \<Rightarrow> bool \<Rightarrow> u64" where
  "OrVal n ValueToWrite = push_bit n (if ValueToWrite then 1 else 0)"

definition write_mmio :: "'s io_hw \<Rightarrow> u64 \<Rightarrow> u8 \<Rightarrow> u64 \<Rightarrow> u64 \<Rightarrow> bool \<Rightarrow> ('s, unit) prog" where
  "write_mmio io a Size An Or wide =
     (if Size = 1 then do { _ \<leftarrow> MmioAndThenOr8 (mm io) a (ucast An) (ucast Or); State_Monad.return () }
      else if Size = 2 then do { _ \<leftarrow> MmioAndThenOr16 (mm io) a (ucast An) (ucast Or); State_Monad.return () }
      else if Size = 4 then do { _ \<leftarrow> MmioAndThenOr32 (mm io) a (ucast An) (ucast Or); State_Monad.return () }
      else if Size = 8 \<and> wide then do {
        v \<leftarrow> MmioRead32 (mm io) a;
        w \<leftarrow> MmioRead32 (mm io) (a + 4);
        let Register = ((ucast v OR push_bit 32 (ucast w)) AND An) OR Or;
        _ \<leftarrow> MmioWrite32 (mm io) a (ucast Register);
        _ \<leftarrow> MmioWrite32 (mm io) (a + 4) (ucast (drop_bit 32 Register));
        State_Monad.return () }
      else State_Monad.return ())"

definition write_pcr :: "'s io_hw \<Rightarrow> PCH_SMM_ADDRESS \<Rightarrow> u8 \<Rightarrow> u64 \<Rightarrow> u64 \<Rightarrow> ('s, unit) prog" where
  "write_pcr io a Size An Or =
     (if Size = 1 then do { _ \<leftarrow> PchPcrAndThenOr8 (mm io) (Pcr_Pid a) (Pcr_Offset a) (ucast An) (ucast Or); State_Monad.return () }
      else if Size = 2 then do { _ \<leftarrow> PchPcrAndThenOr16 (mm io) (Pcr_Pid a) (Pcr_Offset a) (ucast An) (ucast Or); State_Monad.return () }
      else if Size = 4 then do { _ \<leftarrow> PchPcrAndThenOr32 (mm io) (Pcr_Pid a) (Pcr_Offset a) (ucast An) (ucast Or); State_Monad.return () }
      else State_Monad.return ())"

definition WriteBitDesc :: "'s io_hw \<Rightarrow> PCH_SMM_BIT_DESC \<Rightarrow> bool \<Rightarrow> bool \<Rightarrow> ('s, 'z, unit) smm_prog" where
  "WriteBitDesc io BitDesc ValueToWrite WriteClear =
     (let a = Reg BitDesc; n = unat (Bit BitDesc) in case Type a of
        PCH_SMM_ADDR_TYPE_NULL \<Rightarrow> State_Monad.return ()
      | PCIE_ADDR_TYPE \<Rightarrow>
          on_sys (write_mmio io (pcie_address io a) (SizeInBytes BitDesc) (AndVal n WriteClear) (OrVal n ValueToWrite) False)
      | PCR_ADDR_TYPE \<Rightarrow>
          on_sys (write_pcr io a (SizeInBytes BitDesc) (AndVal n WriteClear) (OrVal n ValueToWrite))
      | _ \<Rightarrow>
          if Type a = ACPI_ADDR_TYPE \<or> Type a = TCO_ADDR_TYPE then do {
            BaseAddr \<leftarrow> io_base (Type a);
            let (RegSize, RegisterOffset, m) = io_place BitDesc;
            Register \<leftarrow> SmmIoRead io RegSize (BaseAddr + RegisterOffset);
            SmmIoWrite io RegSize (BaseAddr + RegisterOffset)
              ((Register AND AndVal m WriteClear) OR OrVal m ValueToWrite) }
          else on_sys (write_mmio io (Data a) (SizeInBytes BitDesc) (AndVal n WriteClear) (OrVal n ValueToWrite) True))"

section \<open>Sources\<close>

text \<open>The bits of a description that are described at all; the first that is 0 ends the test.  The
  value of the register SMI_EN or SMI_STS that has been read before is looked at first.\<close>

fun bits_set :: "'s io_hw \<Rightarrow> u16 \<Rightarrow> u32 \<Rightarrow> PCH_SMM_BIT_DESC list \<Rightarrow> ('s, 'z, bool) smm_prog" where
  "bits_set io Offset Value [] = State_Monad.return True"
| "bits_set io Offset Value (d # ds) =
     (if IS_BIT_DESC_NULL d then bits_set io Offset Value ds
      else if Type (Reg d) = ACPI_ADDR_TYPE \<and> Data_io (Reg d) = Offset \<and> Value AND push_bit (unat (Bit d)) 1 = 0
      then State_Monad.return False
      else do {
        b \<leftarrow> ReadBitDesc io d;
        if b then bits_set io Offset Value ds else State_Monad.return False })"

definition SourceIsActive :: "'s io_hw \<Rightarrow> PCH_SMM_SOURCE_DESC \<Rightarrow> bool \<Rightarrow> u32 \<Rightarrow> u32 \<Rightarrow> ('s, 'z, bool) smm_prog" where
  "SourceIsActive io Src SciEn SmiEnValue SmiStsValue =
     (if Flags Src = PCH_SMM_SCI_EN_DEPENDENT \<and> SciEn then State_Monad.return False
      else if \<not> IS_BIT_DESC_NULL (PmcSmiSts Src) \<and> Type (Reg (PmcSmiSts Src)) = ACPI_ADDR_TYPE \<and>
        Data_io (Reg (PmcSmiSts Src)) = R_PCH_SMI_STS \<and>
        SmiStsValue AND push_bit (unat (Bit (PmcSmiSts Src))) 1 = 0
      then State_Monad.return False
      else do {
        en \<leftarrow> bits_set io R_PCH_SMI_EN SmiEnValue (take NUM_EN_BITS (En Src));
        if \<not> en then State_Monad.return False
        else bits_set io R_PCH_SMI_STS SmiStsValue (take NUM_STS_BITS (Sts Src)) })"

fun write_bits :: "'s io_hw \<Rightarrow> bool \<Rightarrow> bool \<Rightarrow> PCH_SMM_BIT_DESC list \<Rightarrow> ('s, 'z, unit) smm_prog" where
  "write_bits io ValueToWrite WriteClear [] = State_Monad.return ()"
| "write_bits io ValueToWrite WriteClear (d # ds) =
     (if IS_BIT_DESC_NULL d then write_bits io ValueToWrite WriteClear ds
      else do {
        WriteBitDesc io d ValueToWrite WriteClear;
        write_bits io ValueToWrite WriteClear ds })"

definition PchSmmEnableSource :: "'s io_hw \<Rightarrow> PCH_SMM_SOURCE_DESC \<Rightarrow> ('s, 'z, unit) smm_prog" where
  "PchSmmEnableSource io SrcDesc = do {
     write_bits io True False (take NUM_EN_BITS (En SrcDesc));
     write_bits io True True (take NUM_STS_BITS (Sts SrcDesc)) }"

definition PchSmmDisableSource :: "'s io_hw \<Rightarrow> PCH_SMM_SOURCE_DESC \<Rightarrow> ('s, 'z, unit) smm_prog" where
  "PchSmmDisableSource io SrcDesc = write_bits io False False (take NUM_EN_BITS (En SrcDesc))"

definition PchSmmClearSource :: "'s io_hw \<Rightarrow> PCH_SMM_SOURCE_DESC \<Rightarrow> ('s, 'z, unit) smm_prog" where
  "PchSmmClearSource io SrcDesc = write_bits io True True (take NUM_STS_BITS (Sts SrcDesc))"

text \<open>The wait for the status bit need not end: \<open>None\<close>.\<close>

partial_function (option) wait_clear :: "'s io_hw \<Rightarrow> PCH_SMM_BIT_DESC \<Rightarrow> ('s, 'z) smm_scheme \<Rightarrow> ('s, 'z) smm_scheme option" where
  "wait_clear io d s = (case run_state (ReadBitDesc io d) s of (IsSet, s) \<Rightarrow> if IsSet then wait_clear io d s else Some s)"

fun clear_and_block :: "'s io_hw \<Rightarrow> PCH_SMM_BIT_DESC list \<Rightarrow> ('s, 'z) smm_scheme \<Rightarrow> ('s, 'z) smm_scheme option" where
  "clear_and_block io [] s = Some s"
| "clear_and_block io (d # ds) s =
     (if IS_BIT_DESC_NULL d then clear_and_block io ds s
      else Option.bind (wait_clear io d (snd (run_state (WriteBitDesc io d True True) s))) (clear_and_block io ds))"

definition PchSmmClearSourceAndBlock :: "'s io_hw \<Rightarrow> PCH_SMM_SOURCE_DESC \<Rightarrow> ('s, 'z) smm_scheme \<Rightarrow> ('s, 'z) smm_scheme option" where
  "PchSmmClearSourceAndBlock io SrcDesc s = clear_and_block io (take NUM_STS_BITS (Sts SrcDesc)) s"

section \<open>PchxSmmHelpers.c\<close>

definition PchSmmSetAndCheckEos :: "'s io_hw \<Rightarrow> ('s, 'z, bool) smm_prog" where
  "PchSmmSetAndCheckEos io = do {
     p \<leftarrow> acpi_port (ucast R_PCH_SMI_EN);
     SmiEn \<leftarrow> IoRead32 io p;
     IoWrite32 io p (SmiEn OR B_PCH_SMI_EN_EOS);
     SmiEn \<leftarrow> IoRead32 io p;
     State_Monad.return (SmiEn AND B_PCH_SMI_EN_EOS \<noteq> 0) }"

definition PchSmmGetSciEn :: "'s io_hw \<Rightarrow> ('s, 'z, bool) smm_prog" where
  "PchSmmGetSciEn io = do {
     p \<leftarrow> acpi_port (ucast R_PCH_ACPI_PM1_CNT);
     Pm1Cnt \<leftarrow> IoRead32 io p;
     State_Monad.return (Pm1Cnt AND B_PCH_ACPI_PM1_CNT_SCI_EN = B_PCH_ACPI_PM1_CNT_SCI_EN) }"

definition PchSmmEnableGlobalSmiBit :: "'s io_hw \<Rightarrow> ('s, 'z, efi_status) smm_prog" where
  "PchSmmEnableGlobalSmiBit io = do {
     p \<leftarrow> acpi_port (ucast R_PCH_SMI_EN);
     SmiEn \<leftarrow> IoRead32 io p;
     IoWrite32 io p (SmiEn OR B_PCH_SMI_EN_GBL_SMI);
     State_Monad.return EFI_SUCCESS }"

definition PchSmmClearSmi :: "'s io_hw \<Rightarrow> ('s, 'z, efi_status) smm_prog" where
  "PchSmmClearSmi io = do {
     SciEn \<leftarrow> PchSmmGetSciEn io;
     pm1_sts \<leftarrow> acpi_port (ucast R_PCH_ACPI_PM1_STS);
     gpe0_sts \<leftarrow> acpi_port (ucast R_PCH_ACPI_GPE0_STS_127_96);
     (if \<not> SciEn then do {
        Pm1Sts \<leftarrow> IoRead16 io pm1_sts;
        Gpe0Sts \<leftarrow> IoRead32 io gpe0_sts;
        IoWrite16 io pm1_sts (Pm1Sts OR clear_pm1_sts);
        IoWrite32 io gpe0_sts (Gpe0Sts OR clear_gpe0_sts) }
      else State_Monad.return ());
     smi_sts \<leftarrow> acpi_port (ucast R_PCH_SMI_STS);
     SmiSts \<leftarrow> IoRead32 io smi_sts;
     devact_sts \<leftarrow> acpi_port (ucast R_PCH_DEVACT_STS);
     DevActSts \<leftarrow> IoRead16 io devact_sts;
     tco1_sts \<leftarrow> tco_port (ucast R_PCH_TCO1_STS);
     Tco1Sts \<leftarrow> IoRead16 io tco1_sts;
     _ \<leftarrow> on_sys (GpioClearAllGpiSmiSts (mm io));
     IoWrite16 io tco1_sts (Tco1Sts OR clear_tco1_sts);
     tco2_sts \<leftarrow> tco_port (ucast R_PCH_TCO2_STS);
     IoWrite16 io tco2_sts (NOT B_PCH_TCO2_STS_INTRD_DET);
     IoWrite32 io smi_sts (SmiSts OR clear_smi_sts);
     IoWrite16 io devact_sts (DevActSts OR clear_devact_sts);
     _ \<leftarrow> PchSmmSetAndCheckEos io;
     State_Monad.return EFI_SUCCESS }"

definition PchSmmInitHardware :: "'s io_hw \<Rightarrow> ('s, 'z, efi_status) smm_prog" where
  "PchSmmInitHardware io = do {
     _ \<leftarrow> PchSmmClearSmi io;
     _ \<leftarrow> PchSmmEnableGlobalSmiBit io;
     _ \<leftarrow> PchSmmClearSmi io;
     State_Monad.return EFI_SUCCESS }"

end
