(* ===== verification/SmmSources.thy ===== *)
theory SmmSources
  imports SmmBits GpioPrivate
begin

text \<open>
  The sources of SMIs: their descriptions in PchSmmSw.c, PchSmmSx.c, PchSmmUsb.c, PchSmmGpi.c,
  PchSmmPowerButton.c, PchSmmPeriodicTimer.c and PchSmiDispatch.c; the registers of the GPI sources
  (GpioPrivateLib.c); the contexts of children, a union of which the model keeps the two words;
  and the USB controllers a device path leads to.
\<close>

section \<open>Registers\<close>

definition S_PCH_SMI_EN :: u8 where [regs]: "S_PCH_SMI_EN = 4"
definition N_PCH_SMI_EN_LEGACY_USB3 :: u8 where [regs]: "N_PCH_SMI_EN_LEGACY_USB3 = 31"
definition N_PCH_SMI_EN_GPIO_UNLOCK :: u8 where [regs]: "N_PCH_SMI_EN_GPIO_UNLOCK = 27"
definition N_PCH_SMI_EN_PERIODIC :: u8 where [regs]: "N_PCH_SMI_EN_PERIODIC = 14"
definition N_PCH_SMI_EN_TCO :: u8 where [regs]: "N_PCH_SMI_EN_TCO = 13"
definition N_PCH_SMI_EN_MCSMI :: u8 where [regs]: "N_PCH_SMI_EN_MCSMI = 11"
definition N_PCH_SMI_EN_SWSMI_TMR :: u8 where [regs]: "N_PCH_SMI_EN_SWSMI_TMR = 6"
definition N_PCH_SMI_EN_APMC :: u8 where [regs]: "N_PCH_SMI_EN_APMC = 5"
definition N_PCH_SMI_EN_ON_SLP_EN :: u8 where [regs]: "N_PCH_SMI_EN_ON_SLP_EN = 4"
definition N_PCH_SMI_EN_LEGACY_USB :: u8 where [regs]: "N_PCH_SMI_EN_LEGACY_USB = 3"
definition S_PCH_SMI_STS :: u8 where [regs]: "S_PCH_SMI_STS = 4"
definition N_PCH_SMI_STS_LEGACY_USB3 :: u8 where [regs]: "N_PCH_SMI_STS_LEGACY_USB3 = 31"
definition N_PCH_SMI_STS_GPIO_UNLOCK :: u8 where [regs]: "N_PCH_SMI_STS_GPIO_UNLOCK = 27"
definition N_PCH_SMI_STS_SPI :: u8 where [regs]: "N_PCH_SMI_STS_SPI = 26"
definition N_PCH_SMI_STS_MONITOR :: u8 where [regs]: "N_PCH_SMI_STS_MONITOR = 21"
definition N_PCH_SMI_STS_PCI_EXP :: u8 where [regs]: "N_PCH_SMI_STS_PCI_EXP = 20"
definition N_PCH_SMI_STS_SMBUS :: u8 where [regs]: "N_PCH_SMI_STS_SMBUS = 16"
definition N_PCH_SMI_STS_SERIRQ :: u8 where [regs]: "N_PCH_SMI_STS_SERIRQ = 15"
definition N_PCH_SMI_STS_PERIODIC :: u8 where [regs]: "N_PCH_SMI_STS_PERIODIC = 14"
definition N_PCH_SMI_STS_TCO :: u8 where [regs]: "N_PCH_SMI_STS_TCO = 13"
definition N_PCH_SMI_STS_MCSMI :: u8 where [regs]: "N_PCH_SMI_STS_MCSMI = 11"
definition N_PCH_SMI_STS_GPIO_SMI :: u8 where [regs]: "N_PCH_SMI_STS_GPIO_SMI = 10"
definition N_PCH_SMI_STS_GPE0 :: u8 where [regs]: "N_PCH_SMI_STS_GPE0 = 9"
definition N_PCH_SMI_STS_PM1_STS_REG :: u8 where [regs]: "N_PCH_SMI_STS_PM1_STS_REG = 8"
definition N_PCH_SMI_STS_SWSMI_TMR :: u8 where [regs]: "N_PCH_SMI_STS_SWSMI_TMR = 6"
definition N_PCH_SMI_STS_APM :: u8 where [regs]: "N_PCH_SMI_STS_APM = 5"
definition N_PCH_SMI_STS_ON_SLP_EN :: u8 where [regs]: "N_PCH_SMI_STS_ON_SLP_EN = 4"
definition N_PCH_SMI_STS_LEGACY_USB :: u8 where [regs]: "N_PCH_SMI_STS_LEGACY_USB = 3"
definition R_PCH_ACPI_PM1_EN :: u16 where [regs]: "R_PCH_ACPI_PM1_EN = 0x02"
definition S_PCH_ACPI_PM1_STS :: u8 where [regs]: "S_PCH_ACPI_PM1_STS = 2"
definition S_PCH_ACPI_PM1_EN :: u8 where [regs]: "S_PCH_ACPI_PM1_EN = 2"
definition N_PCH_ACPI_PM1_STS_RTC :: u8 where [regs]: "N_PCH_ACPI_PM1_STS_RTC = 10"
definition N_PCH_ACPI_PM1_STS_PWRBTN :: u8 where [regs]: "N_PCH_ACPI_PM1_STS_PWRBTN = 8"
definition N_PCH_ACPI_PM1_STS_TMROF :: u8 where [regs]: "N_PCH_ACPI_PM1_STS_TMROF = 0"
definition N_PCH_ACPI_PM1_EN_RTC :: u8 where [regs]: "N_PCH_ACPI_PM1_EN_RTC = 10"
definition N_PCH_ACPI_PM1_EN_PWRBTN :: u8 where [regs]: "N_PCH_ACPI_PM1_EN_PWRBTN = 8"
definition N_PCH_ACPI_PM1_EN_TMROF :: u8 where [regs]: "N_PCH_ACPI_PM1_EN_TMROF = 0"
definition R_PCH_ACPI_GPE0_EN_127_96 :: u16 where [regs]: "R_PCH_ACPI_GPE0_EN_127_96 = 0x9C"
definition S_PCH_ACPI_GPE0_STS_127_96 :: u8 where [regs]: "S_PCH_ACPI_GPE0_STS_127_96 = 4"
definition S_PCH_ACPI_GPE0_EN_127_96 :: u8 where [regs]: "S_PCH_ACPI_GPE0_EN_127_96 = 4"
definition N_PCH_ACPI_GPE0_STS_127_96_PME_B0 :: u8 where [regs]: "N_PCH_ACPI_GPE0_STS_127_96_PME_B0 = 13"
definition N_PCH_ACPI_GPE0_STS_127_96_PME :: u8 where [regs]: "N_PCH_ACPI_GPE0_STS_127_96_PME = 11"
definition N_PCH_ACPI_GPE0_EN_127_96_PME_B0 :: u8 where [regs]: "N_PCH_ACPI_GPE0_EN_127_96_PME_B0 = 13"
definition N_PCH_ACPI_GPE0_EN_127_96_PME :: u8 where [regs]: "N_PCH_ACPI_GPE0_EN_127_96_PME = 11"
definition R_PCH_TCO1_CNT :: u16 where [regs]: "R_PCH_TCO1_CNT = 0x08"
definition R_PCH_TCO2_CNT :: u16 where [regs]: "R_PCH_TCO2_CNT = 0x0A"
definition S_PCH_TCO1_STS :: u8 where [regs]: "S_PCH_TCO1_STS = 2"
definition S_PCH_TCO2_STS :: u8 where [regs]: "S_PCH_TCO2_STS = 2"
definition S_PCH_TCO1_CNT :: u8 where [regs]: "S_PCH_TCO1_CNT = 2"
definition S_PCH_TCO2_CNT :: u8 where [regs]: "S_PCH_TCO2_CNT = 2"
definition N_PCH_TCO1_STS_DMISMI :: u8 where [regs]: "N_PCH_TCO1_STS_DMISMI = 10"
definition N_PCH_TCO1_STS_BIOSWR :: u8 where [regs]: "N_PCH_TCO1_STS_BIOSWR = 8"
definition N_PCH_TCO1_STS_NEWCENTURY :: u8 where [regs]: "N_PCH_TCO1_STS_NEWCENTURY = 7"
definition N_PCH_TCO1_STS_TIMEOUT :: u8 where [regs]: "N_PCH_TCO1_STS_TIMEOUT = 3"
definition N_PCH_TCO1_STS_SW_TCO_SMI :: u8 where [regs]: "N_PCH_TCO1_STS_SW_TCO_SMI = 1"
definition N_PCH_TCO1_STS_NMI2SMI :: u8 where [regs]: "N_PCH_TCO1_STS_NMI2SMI = 0"
definition N_PCH_TCO2_STS_INTRD_DET :: u8 where [regs]: "N_PCH_TCO2_STS_INTRD_DET = 0"
definition N_PCH_TCO_CNT_NMI2SMI_EN :: u8 where [regs]: "N_PCH_TCO_CNT_NMI2SMI_EN = 9"
definition N_PCH_TCO2_CNT_INTRD_SEL :: u8 where [regs]: "N_PCH_TCO2_CNT_INTRD_SEL = 2"
definition R_PCH_SPI_BC :: u64 where [regs]: "R_PCH_SPI_BC = 0xDC"
definition S_PCH_SPI_BC :: u8 where [regs]: "S_PCH_SPI_BC = 4"
definition N_PCH_SPI_BC_ASE_BWP :: u8 where [regs]: "N_PCH_SPI_BC_ASE_BWP = 11"
definition N_PCH_SPI_BC_ASYNC_SS :: u8 where [regs]: "N_PCH_SPI_BC_ASYNC_SS = 10"
definition N_PCH_SPI_BC_SYNC_SS :: u8 where [regs]: "N_PCH_SPI_BC_SYNC_SS = 8"
definition N_PCH_SPI_BC_BLE :: u8 where [regs]: "N_PCH_SPI_BC_BLE = 1"
definition R_PCH_LPC_BC :: u64 where [regs]: "R_PCH_LPC_BC = 0xDC"
definition S_PCH_LPC_BC :: u8 where [regs]: "S_PCH_LPC_BC = 1"
definition N_PCH_LPC_BC_LE :: u8 where [regs]: "N_PCH_LPC_BC_LE = 1"
definition R_PCH_PCIE_MPC :: u64 where [regs]: "R_PCH_PCIE_MPC = 0xD8"
definition R_PCH_PCIE_SMSCS :: u64 where [regs]: "R_PCH_PCIE_SMSCS = 0xDC"
definition R_PCH_PCIE_EQCFG1 :: u64 where [regs]: "R_PCH_PCIE_EQCFG1 = 0x450"
definition S_PCH_PCIE_MPC :: u8 where [regs]: "S_PCH_PCIE_MPC = 4"
definition S_PCH_PCIE_SMSCS :: u8 where [regs]: "S_PCH_PCIE_SMSCS = 4"
definition S_PCH_PCIE_EQCFG1 :: u8 where [regs]: "S_PCH_PCIE_EQCFG1 = 4"
definition N_PCH_PCIE_MPC_HPME :: u8 where [regs]: "N_PCH_PCIE_MPC_HPME = 1"
definition N_PCH_PCIE_SMSCS_LERSMIS :: u8 where [regs]: "N_PCH_PCIE_SMSCS_LERSMIS = 5"
definition N_PCH_PCIE_SMSCS_HPLAS :: u8 where [regs]: "N_PCH_PCIE_SMSCS_HPLAS = 4"
definition N_PCH_PCIE_SMSCS_HPPDM :: u8 where [regs]: "N_PCH_PCIE_SMSCS_HPPDM = 1"
definition N_PCH_PCIE_EQCFG1_LERSMIE :: u8 where [regs]: "N_PCH_PCIE_EQCFG1_LERSMIE = 21"
definition R_PCH_PCR_PSTH_TRPST :: u16 where [regs]: "R_PCH_PCR_PSTH_TRPST = 0x1E00"
definition R_PCH_PCR_PSTH_TRPREG0 :: u16 where [regs]: "R_PCH_PCR_PSTH_TRPREG0 = 0x1E80"
definition R_PCH_PCR_PSTH_TRPREG1 :: u16 where [regs]: "R_PCH_PCR_PSTH_TRPREG1 = 0x1E88"
definition R_PCH_PCR_PSTH_TRPREG2 :: u16 where [regs]: "R_PCH_PCR_PSTH_TRPREG2 = 0x1E90"
definition R_PCH_PCR_PSTH_TRPREG3 :: u16 where [regs]: "R_PCH_PCR_PSTH_TRPREG3 = 0x1E98"
definition S_PCH_GPIO_GP_SMI_EN :: u8 where [regs]: "S_PCH_GPIO_GP_SMI_EN = 4"
definition S_PCH_GPIO_GP_SMI_STS :: u8 where [regs]: "S_PCH_GPIO_GP_SMI_STS = 4"
definition PID_PSTH :: u8 where [regs]: "PID_PSTH = 0x89"
definition PCI_DEVICE_NUMBER_PCH_SPI :: u32 where [regs]: "PCI_DEVICE_NUMBER_PCH_SPI = 31"
definition PCI_FUNCTION_NUMBER_PCH_SPI :: u32 where [regs]: "PCI_FUNCTION_NUMBER_PCH_SPI = 5"
definition B_PCH_SMI_STS_GPIO_UNLOCK :: u32 where [regs]: "B_PCH_SMI_STS_GPIO_UNLOCK = BIT 27"

section \<open>Descriptions\<close>

text \<open>The initializers: a bit of a register, the address of a register in the configuration space of a PCH
  function, and a source with one or two enable bits, a status bit and the top level status bit.\<close>

definition bit_desc :: "ADDR_TYPE \<Rightarrow> u64 \<Rightarrow> u8 \<Rightarrow> u8 \<Rightarrow> PCH_SMM_BIT_DESC" where
  "bit_desc t raw Size n = \<lparr> Reg = \<lparr> Type = t, Data = raw \<rparr>, SizeInBytes = Size, Bit = n \<rparr>"

definition pcie_raw :: "u32 \<Rightarrow> u32 \<Rightarrow> u64 \<Rightarrow> u64" where
  "pcie_raw Dev Fun R = push_bit 19 (ucast Dev) OR push_bit 16 (ucast Fun) OR R"

definition smi_en :: "u8 \<Rightarrow> PCH_SMM_BIT_DESC" where
  "smi_en n = bit_desc ACPI_ADDR_TYPE (ucast R_PCH_SMI_EN) S_PCH_SMI_EN n"

definition smi_sts :: "u8 \<Rightarrow> PCH_SMM_BIT_DESC" where
  "smi_sts n = bit_desc ACPI_ADDR_TYPE (ucast R_PCH_SMI_STS) S_PCH_SMI_STS n"

definition tco1_sts :: "u8 \<Rightarrow> PCH_SMM_BIT_DESC" where
  "tco1_sts n = bit_desc TCO_ADDR_TYPE (ucast R_PCH_TCO1_STS) S_PCH_TCO1_STS n"

definition source :: "u8 \<Rightarrow> PCH_SMM_BIT_DESC \<Rightarrow> PCH_SMM_BIT_DESC \<Rightarrow> PCH_SMM_BIT_DESC \<Rightarrow> PCH_SMM_BIT_DESC \<Rightarrow> PCH_SMM_SOURCE_DESC" where
  "source F en0 en1 sts pmc = \<lparr> Flags = F, En = [en0, en1], Sts = [sts], PmcSmiSts = pmc \<rparr>"

text \<open>The sources of the protocols of the standard.\<close>

definition SW_SOURCE_DESC :: PCH_SMM_SOURCE_DESC where [regs]: "SW_SOURCE_DESC =
  source PCH_SMM_NO_FLAGS (smi_en N_PCH_SMI_EN_APMC) (NULL_BIT_DESC_INITIALIZER)
    (smi_sts N_PCH_SMI_STS_APM) (smi_sts N_PCH_SMI_STS_APM)"

definition SX_SOURCE_DESC :: PCH_SMM_SOURCE_DESC where [regs]: "SX_SOURCE_DESC =
  source PCH_SMM_NO_FLAGS (smi_en N_PCH_SMI_EN_ON_SLP_EN) (NULL_BIT_DESC_INITIALIZER)
    (smi_sts N_PCH_SMI_STS_ON_SLP_EN) (smi_sts N_PCH_SMI_STS_ON_SLP_EN)"

definition POWER_BUTTON_SOURCE_DESC :: PCH_SMM_SOURCE_DESC where [regs]: "POWER_BUTTON_SOURCE_DESC =
  source PCH_SMM_SCI_EN_DEPENDENT (bit_desc ACPI_ADDR_TYPE (ucast R_PCH_ACPI_PM1_EN) S_PCH_ACPI_PM1_EN N_PCH_ACPI_PM1_EN_PWRBTN) (NULL_BIT_DESC_INITIALIZER)
    (bit_desc ACPI_ADDR_TYPE (ucast R_PCH_ACPI_PM1_STS) S_PCH_ACPI_PM1_STS N_PCH_ACPI_PM1_STS_PWRBTN) (smi_sts N_PCH_SMI_STS_PM1_STS_REG)"

definition PCH_GPI_SOURCE_DESC_TEMPLATE :: PCH_SMM_SOURCE_DESC where [regs]: "PCH_GPI_SOURCE_DESC_TEMPLATE =
  source PCH_SMM_NO_FLAGS (bit_desc GPIO_ADDR_TYPE 0 S_PCH_GPIO_GP_SMI_EN 0) (NULL_BIT_DESC_INITIALIZER)
    (bit_desc GPIO_ADDR_TYPE 0 S_PCH_GPIO_GP_SMI_STS 0) (smi_sts N_PCH_SMI_STS_GPIO_SMI)"

definition mUSB1_LEGACY :: PCH_SMM_SOURCE_DESC where [regs]: "mUSB1_LEGACY =
  source PCH_SMM_NO_FLAGS (smi_en N_PCH_SMI_EN_LEGACY_USB) (NULL_BIT_DESC_INITIALIZER)
    (smi_sts N_PCH_SMI_STS_LEGACY_USB) (smi_sts N_PCH_SMI_STS_LEGACY_USB)"

definition mUSB3_LEGACY :: PCH_SMM_SOURCE_DESC where [regs]: "mUSB3_LEGACY =
  source PCH_SMM_NO_FLAGS (smi_en N_PCH_SMI_EN_LEGACY_USB3) (NULL_BIT_DESC_INITIALIZER)
    (smi_sts N_PCH_SMI_STS_LEGACY_USB3) (smi_sts N_PCH_SMI_STS_LEGACY_USB3)"

definition PERIODIC_TIMER_DESC :: PCH_SMM_SOURCE_DESC where [regs]: "PERIODIC_TIMER_DESC =
  source PCH_SMM_NO_FLAGS (smi_en N_PCH_SMI_EN_PERIODIC) (NULL_BIT_DESC_INITIALIZER)
    (smi_sts N_PCH_SMI_STS_PERIODIC) (smi_sts N_PCH_SMI_STS_PERIODIC)"

definition SWSMI_TIMER_DESC :: PCH_SMM_SOURCE_DESC where [regs]: "SWSMI_TIMER_DESC =
  source PCH_SMM_NO_FLAGS (smi_en N_PCH_SMI_EN_SWSMI_TMR) (NULL_BIT_DESC_INITIALIZER)
    (smi_sts N_PCH_SMI_STS_SWSMI_TMR) (smi_sts N_PCH_SMI_STS_SWSMI_TMR)"

text \<open>The sources of the PCH protocols.\<close>

definition mDescSrcTcoSts :: PCH_SMM_SOURCE_DESC where [regs]: "mDescSrcTcoSts =
  source PCH_SMM_NO_FLAGS (NULL_BIT_DESC_INITIALIZER) (NULL_BIT_DESC_INITIALIZER)
    (smi_sts N_PCH_SMI_STS_TCO) (NULL_BIT_DESC_INITIALIZER)"

definition mSrcDescMch :: PCH_SMM_SOURCE_DESC where [regs]: "mSrcDescMch =
  source PCH_SMM_NO_FLAGS (smi_en N_PCH_SMI_EN_TCO) (NULL_BIT_DESC_INITIALIZER)
    (tco1_sts N_PCH_TCO1_STS_DMISMI) (smi_sts N_PCH_SMI_STS_TCO)"

definition mSrcDescTcoTimeout :: PCH_SMM_SOURCE_DESC where [regs]: "mSrcDescTcoTimeout =
  source PCH_SMM_NO_FLAGS (smi_en N_PCH_SMI_EN_TCO) (NULL_BIT_DESC_INITIALIZER)
    (tco1_sts N_PCH_TCO1_STS_TIMEOUT) (smi_sts N_PCH_SMI_STS_TCO)"

definition mSrcDescOsTco :: PCH_SMM_SOURCE_DESC where [regs]: "mSrcDescOsTco =
  source PCH_SMM_NO_FLAGS (smi_en N_PCH_SMI_EN_TCO) (NULL_BIT_DESC_INITIALIZER)
    (tco1_sts N_PCH_TCO1_STS_SW_TCO_SMI) (smi_sts N_PCH_SMI_STS_TCO)"

definition mSrcDescNmi :: PCH_SMM_SOURCE_DESC where [regs]: "mSrcDescNmi =
  source PCH_SMM_NO_FLAGS (bit_desc TCO_ADDR_TYPE (ucast R_PCH_TCO1_CNT) S_PCH_TCO1_CNT N_PCH_TCO_CNT_NMI2SMI_EN) (NULL_BIT_DESC_INITIALIZER)
    (tco1_sts N_PCH_TCO1_STS_NMI2SMI) (NULL_BIT_DESC_INITIALIZER)"

definition mSrcDescIntruderDet :: PCH_SMM_SOURCE_DESC where [regs]: "mSrcDescIntruderDet =
  source PCH_SMM_NO_FLAGS (smi_en N_PCH_SMI_EN_TCO) (bit_desc TCO_ADDR_TYPE (ucast R_PCH_TCO2_CNT) S_PCH_TCO2_CNT N_PCH_TCO2_CNT_INTRD_SEL)
    (bit_desc TCO_ADDR_TYPE (ucast R_PCH_TCO2_STS) S_PCH_TCO2_STS N_PCH_TCO2_STS_INTRD_DET) (smi_sts N_PCH_SMI_STS_TCO)"

definition mSrcDescSpiBiosWp :: PCH_SMM_SOURCE_DESC where [regs]: "mSrcDescSpiBiosWp =
  source PCH_SMM_NO_FLAGS (smi_en N_PCH_SMI_EN_TCO) (bit_desc PCIE_ADDR_TYPE (pcie_raw PCI_DEVICE_NUMBER_PCH_SPI PCI_FUNCTION_NUMBER_PCH_SPI R_PCH_SPI_BC) S_PCH_SPI_BC N_PCH_SPI_BC_BLE)
    (bit_desc PCIE_ADDR_TYPE (pcie_raw PCI_DEVICE_NUMBER_PCH_SPI PCI_FUNCTION_NUMBER_PCH_SPI R_PCH_SPI_BC) S_PCH_SPI_BC N_PCH_SPI_BC_SYNC_SS) (smi_sts N_PCH_SMI_STS_TCO)"

definition mSrcDescLpcBiosWp :: PCH_SMM_SOURCE_DESC where [regs]: "mSrcDescLpcBiosWp =
  source PCH_SMM_NO_FLAGS (smi_en N_PCH_SMI_EN_TCO) (bit_desc PCIE_ADDR_TYPE (pcie_raw PCI_DEVICE_NUMBER_PCH_LPC PCI_FUNCTION_NUMBER_PCH_LPC R_PCH_LPC_BC) S_PCH_LPC_BC N_PCH_LPC_BC_LE)
    (NULL_BIT_DESC_INITIALIZER) (smi_sts N_PCH_SMI_STS_TCO)"

definition mSrcDescNewCentury :: PCH_SMM_SOURCE_DESC where [regs]: "mSrcDescNewCentury =
  source PCH_SMM_NO_FLAGS (smi_en N_PCH_SMI_EN_TCO) (NULL_BIT_DESC_INITIALIZER)
    (tco1_sts N_PCH_TCO1_STS_NEWCENTURY) (smi_sts N_PCH_SMI_STS_TCO)"

definition PchPcieSmiRpHotPlugTemplate :: PCH_SMM_SOURCE_DESC where [regs]: "PchPcieSmiRpHotPlugTemplate =
  source PCH_SMM_NO_FLAGS (bit_desc PCIE_ADDR_TYPE R_PCH_PCIE_MPC S_PCH_PCIE_MPC N_PCH_PCIE_MPC_HPME) (NULL_BIT_DESC_INITIALIZER)
    (bit_desc PCIE_ADDR_TYPE R_PCH_PCIE_SMSCS S_PCH_PCIE_SMSCS N_PCH_PCIE_SMSCS_HPPDM) (smi_sts N_PCH_SMI_STS_PCI_EXP)"

definition PchPcieSmiRpLinkActiveTemplate :: PCH_SMM_SOURCE_DESC where [regs]: "PchPcieSmiRpLinkActiveTemplate =
  source PCH_SMM_NO_FLAGS (bit_desc PCIE_ADDR_TYPE R_PCH_PCIE_MPC S_PCH_PCIE_MPC N_PCH_PCIE_MPC_HPME) (NULL_BIT_DESC_INITIALIZER)
    (bit_desc PCIE_ADDR_TYPE R_PCH_PCIE_SMSCS S_PCH_PCIE_SMSCS N_PCH_PCIE_SMSCS_HPLAS) (smi_sts N_PCH_SMI_STS_PCI_EXP)"

definition PchPcieSmiRpLinkEqTemplate :: PCH_SMM_SOURCE_DESC where [regs]: "PchPcieSmiRpLinkEqTemplate =
  source PCH_SMM_NO_FLAGS (bit_desc PCIE_ADDR_TYPE R_PCH_PCIE_EQCFG1 S_PCH_PCIE_EQCFG1 N_PCH_PCIE_EQCFG1_LERSMIE) (NULL_BIT_DESC_INITIALIZER)
    (bit_desc PCIE_ADDR_TYPE R_PCH_PCIE_SMSCS S_PCH_PCIE_SMSCS N_PCH_PCIE_SMSCS_LERSMIS) (smi_sts N_PCH_SMI_STS_PCI_EXP)"

definition mSrcDescPme :: PCH_SMM_SOURCE_DESC where [regs]: "mSrcDescPme =
  source PCH_SMM_SCI_EN_DEPENDENT (bit_desc ACPI_ADDR_TYPE (ucast R_PCH_ACPI_GPE0_EN_127_96) S_PCH_ACPI_GPE0_EN_127_96 N_PCH_ACPI_GPE0_EN_127_96_PME) (NULL_BIT_DESC_INITIALIZER)
    (bit_desc ACPI_ADDR_TYPE (ucast R_PCH_ACPI_GPE0_STS_127_96) S_PCH_ACPI_GPE0_STS_127_96 N_PCH_ACPI_GPE0_STS_127_96_PME) (smi_sts N_PCH_SMI_STS_GPE0)"

definition mSrcDescPmeB0 :: PCH_SMM_SOURCE_DESC where [regs]: "mSrcDescPmeB0 =
  source PCH_SMM_SCI_EN_DEPENDENT (bit_desc ACPI_ADDR_TYPE (ucast R_PCH_ACPI_GPE0_EN_127_96) S_PCH_ACPI_GPE0_EN_127_96 N_PCH_ACPI_GPE0_EN_127_96_PME_B0) (NULL_BIT_DESC_INITIALIZER)
    (bit_desc ACPI_ADDR_TYPE (ucast R_PCH_ACPI_GPE0_STS_127_96) S_PCH_ACPI_GPE0_STS_127_96 N_PCH_ACPI_GPE0_STS_127_96_PME_B0) (smi_sts N_PCH_SMI_STS_GPE0)"

definition mSrcDescRtcAlarm :: PCH_SMM_SOURCE_DESC where [regs]: "mSrcDescRtcAlarm =
  source PCH_SMM_SCI_EN_DEPENDENT (bit_desc ACPI_ADDR_TYPE (ucast R_PCH_ACPI_PM1_EN) S_PCH_ACPI_PM1_EN N_PCH_ACPI_PM1_EN_RTC) (NULL_BIT_DESC_INITIALIZER)
    (bit_desc ACPI_ADDR_TYPE (ucast R_PCH_ACPI_PM1_STS) S_PCH_ACPI_PM1_STS N_PCH_ACPI_PM1_STS_RTC) (smi_sts N_PCH_SMI_STS_PM1_STS_REG)"

definition mSrcDescTmrOverflow :: PCH_SMM_SOURCE_DESC where [regs]: "mSrcDescTmrOverflow =
  source PCH_SMM_SCI_EN_DEPENDENT (bit_desc ACPI_ADDR_TYPE (ucast R_PCH_ACPI_PM1_EN) S_PCH_ACPI_PM1_EN N_PCH_ACPI_PM1_EN_TMROF) (NULL_BIT_DESC_INITIALIZER)
    (bit_desc ACPI_ADDR_TYPE (ucast R_PCH_ACPI_PM1_STS) S_PCH_ACPI_PM1_STS N_PCH_ACPI_PM1_STS_TMROF) (smi_sts N_PCH_SMI_STS_PM1_STS_REG)"

definition mSrcDescGpioUnlock :: PCH_SMM_SOURCE_DESC where [regs]: "mSrcDescGpioUnlock =
  source PCH_SMM_NO_FLAGS (smi_en N_PCH_SMI_EN_GPIO_UNLOCK) (NULL_BIT_DESC_INITIALIZER)
    (smi_sts N_PCH_SMI_STS_GPIO_UNLOCK) (smi_sts N_PCH_SMI_STS_GPIO_UNLOCK)"

definition mSrcDescSerialIrq :: PCH_SMM_SOURCE_DESC where [regs]: "mSrcDescSerialIrq =
  source PCH_SMM_NO_FLAGS (NULL_BIT_DESC_INITIALIZER) (NULL_BIT_DESC_INITIALIZER)
    (smi_sts N_PCH_SMI_STS_SERIRQ) (smi_sts N_PCH_SMI_STS_SERIRQ)"

definition mSrcDescMcSmi :: PCH_SMM_SOURCE_DESC where [regs]: "mSrcDescMcSmi =
  source PCH_SMM_NO_FLAGS (smi_en N_PCH_SMI_EN_MCSMI) (NULL_BIT_DESC_INITIALIZER)
    (smi_sts N_PCH_SMI_STS_MCSMI) (smi_sts N_PCH_SMI_STS_MCSMI)"

definition mSrcDescSmbus :: PCH_SMM_SOURCE_DESC where [regs]: "mSrcDescSmbus =
  source PCH_SMM_NO_FLAGS (NULL_BIT_DESC_INITIALIZER) (NULL_BIT_DESC_INITIALIZER)
    (smi_sts N_PCH_SMI_STS_SMBUS) (smi_sts N_PCH_SMI_STS_SMBUS)"

definition mSrcDescSpiAsyncSmi :: PCH_SMM_SOURCE_DESC where [regs]: "mSrcDescSpiAsyncSmi =
  source PCH_SMM_NO_FLAGS (bit_desc PCIE_ADDR_TYPE (pcie_raw PCI_DEVICE_NUMBER_PCH_SPI PCI_FUNCTION_NUMBER_PCH_SPI R_PCH_SPI_BC) S_PCH_SPI_BC N_PCH_SPI_BC_ASE_BWP) (NULL_BIT_DESC_INITIALIZER)
    (bit_desc PCIE_ADDR_TYPE (pcie_raw PCI_DEVICE_NUMBER_PCH_SPI PCI_FUNCTION_NUMBER_PCH_SPI R_PCH_SPI_BC) S_PCH_SPI_BC N_PCH_SPI_BC_ASYNC_SS) (smi_sts N_PCH_SMI_STS_SPI)"

definition mSrcDescIoTrap :: "nat \<Rightarrow> PCH_SMM_SOURCE_DESC" where
  "mSrcDescIoTrap i = source PCH_SMM_NO_FLAGS
     (bit_desc PCR_ADDR_TYPE (PCH_PCR_ADDRESS PID_PSTH
        ([R_PCH_PCR_PSTH_TRPREG0, R_PCH_PCR_PSTH_TRPREG1, R_PCH_PCR_PSTH_TRPREG2, R_PCH_PCR_PSTH_TRPREG3] ! i)) 4 0)
     NULL_BIT_DESC_INITIALIZER
     (bit_desc PCR_ADDR_TYPE (PCH_PCR_ADDRESS PID_PSTH R_PCH_PCR_PSTH_TRPST) 1 (of_nat i))
     (smi_sts N_PCH_SMI_STS_MONITOR)"

text \<open>Writing the device and function of a root port into a template.\<close>

definition patch_rp :: "u8 \<Rightarrow> u8 \<Rightarrow> PCH_SMM_BIT_DESC \<Rightarrow> PCH_SMM_BIT_DESC" where
  "patch_rp Dev Fun d = d\<lparr> Reg := (Reg d)\<lparr> Data :=
     (Data (Reg d) AND NOT 0xFF0000) OR push_bit 19 (ucast Dev AND 0x1F) OR push_bit 16 (ucast Fun AND 0x7) \<rparr> \<rparr>"

definition patch_source :: "u8 \<Rightarrow> u8 \<Rightarrow> PCH_SMM_SOURCE_DESC \<Rightarrow> PCH_SMM_SOURCE_DESC" where
  "patch_source Dev Fun x = x\<lparr> En := (En x)[0 := patch_rp Dev Fun (En x ! 0)], Sts := (Sts x)[0 := patch_rp Dev Fun (Sts x ! 0)] \<rparr>"

section \<open>Contexts of children\<close>

text \<open>The union of the contexts is its first two words.  Enumerations are 32 bits wide; the members of Sx are
  the type in the low and the phase in the high half of the first word.\<close>

record PCH_SMM_CONTEXT =
  W0 :: u64
  W1 :: u64

definition Sx_Type :: "PCH_SMM_CONTEXT \<Rightarrow> u32" where "Sx_Type c = ucast (W0 c)"
definition Sx_Phase :: "PCH_SMM_CONTEXT \<Rightarrow> u32" where "Sx_Phase c = ucast (drop_bit 32 (W0 c))"
definition Period :: "PCH_SMM_CONTEXT \<Rightarrow> u64" where "Period c = W0 c"
definition SmiTickInterval :: "PCH_SMM_CONTEXT \<Rightarrow> u64" where "SmiTickInterval c = W1 c"
definition SwSmiInputValue :: "PCH_SMM_CONTEXT \<Rightarrow> u64" where "SwSmiInputValue c = W0 c"
definition PowerButton_Phase :: "PCH_SMM_CONTEXT \<Rightarrow> u32" where "PowerButton_Phase c = ucast (W0 c)"
definition Usb_Type :: "PCH_SMM_CONTEXT \<Rightarrow> u32" where "Usb_Type c = ucast (W0 c)"
definition Usb_Device :: "PCH_SMM_CONTEXT \<Rightarrow> u64" where "Usb_Device c = W1 c"
definition GpiNum :: "PCH_SMM_CONTEXT \<Rightarrow> u64" where "GpiNum c = W0 c"

definition with_low :: "u64 \<Rightarrow> u32 \<Rightarrow> u64" where "with_low w v = (w AND NOT (mask 32)) OR ucast v"
definition with_high :: "u64 \<Rightarrow> u32 \<Rightarrow> u64" where "with_high w v = (w AND mask 32) OR push_bit 32 (ucast v)"

text \<open>Sleep types S0 to S5 and phases of the standard.\<close>

definition EfiMaximumSleepType :: u32 where [regs]: "EfiMaximumSleepType = 6"
definition EfiMaximumPhase :: u32 where [regs]: "EfiMaximumPhase = 2"
definition SxEntry :: u32 where [regs]: "SxEntry = 0"
definition EfiPowerButtonEntry :: u32 where [regs]: "EfiPowerButtonEntry = 0"
definition EfiPowerButtonExit :: u32 where [regs]: "EfiPowerButtonExit = 1"
definition UsbLegacy :: u32 where [regs]: "UsbLegacy = 0"
definition UsbWake :: u32 where [regs]: "UsbWake = 1"

section \<open>USB controllers\<close>

text \<open>The nodes of a device path: a node of an ACPI device by its PNP identifier and its UID, a node of a PCI
  device, and any other.\<close>

datatype dp_node = ACPI_HID_NODE u16 u32 | PCI_NODE u8 u8 | OTHER_NODE

definition PCI_DEVICE_NUMBER_PCH_XHCI :: u8 where [regs]: "PCI_DEVICE_NUMBER_PCH_XHCI = 20"
definition PCI_FUNCTION_NUMBER_PCH_XHCI :: u8 where [regs]: "PCI_FUNCTION_NUMBER_PCH_XHCI = 0"

text \<open>The controller types: 0 is the LPC bridge, 1 the XHCI controller.  The table has function, device and type.\<close>

definition PchUsbControllerLpc0 :: u32 where [regs]: "PchUsbControllerLpc0 = 0"
definition PchUsbControllerXhci :: u32 where [regs]: "PchUsbControllerXhci = 1"

definition mUsbControllersMap :: "(u8 \<times> u8 \<times> u32) list" where
  "mUsbControllersMap = [
     (ucast PCI_FUNCTION_NUMBER_PCH_LPC, ucast PCI_DEVICE_NUMBER_PCH_LPC, PchUsbControllerLpc0),
     (PCI_FUNCTION_NUMBER_PCH_XHCI, PCI_DEVICE_NUMBER_PCH_XHCI, PchUsbControllerXhci)]"

text \<open>The type of the controller, given what the variable held before.\<close>

definition DevicePathToSupportedController :: "dp_node list \<Rightarrow> u32 \<Rightarrow> efi_status \<times> u32" where
  "DevicePathToSupportedController DevicePath Controller = (case DevicePath of
       ACPI_HID_NODE HID UID # PCI_NODE Device Fun # _ \<Rightarrow>
         if HID \<noteq> 0x0A03 \<or> UID \<noteq> 0 then (EFI_UNSUPPORTED, Controller)
         else (case find (\<lambda>(f, d, _). Device = d \<and> Fun = f) mUsbControllersMap of
             Some (_, _, t) \<Rightarrow> (EFI_SUCCESS, t) | None \<Rightarrow> (EFI_UNSUPPORTED, Controller))
     | _ \<Rightarrow> (EFI_UNSUPPORTED, Controller))"

text \<open>The source of a USB context, given what the description held before.\<close>

definition MapUsbToSrcDesc :: "dp_node list \<Rightarrow> u32 \<Rightarrow> PCH_SMM_CONTEXT \<Rightarrow> PCH_SMM_SOURCE_DESC \<Rightarrow> PCH_SMM_SOURCE_DESC" where
  "MapUsbToSrcDesc DevicePath Controller Context SrcDesc =
     (let (_, Controller) = DevicePathToSupportedController DevicePath Controller in
      if Usb_Type Context = UsbLegacy then
        (if Controller = PchUsbControllerLpc0 then mUSB1_LEGACY
         else if Controller = PchUsbControllerXhci then mUSB3_LEGACY else SrcDesc)
      else SrcDesc)"

end
