(* ===== verification/SmmCore.thy ===== *)
theory SmmCore
  imports SmmSources PchPcieRp
begin

text \<open>
  The state of the SMI dispatcher and its operations that change no more than the hardware: the database of
  registered children and the timers (PchSmm.h), PchSmmPeriodicTimer.c, the functions that clear sources
  (PchSmiDispatch.c), and reading and comparing the contexts of children (PchSmmSw.c, PchSmmSx.c,
  PchSmmPowerButton.c).
\<close>

section \<open>PchSmm.h\<close>

datatype PCH_SMM_PROTOCOL_TYPE = UsbType | SxType | SwType | GpiType | PowerButtonType | PeriodicTimerType
  | PchSmiDispatchType

datatype PCH_SMI_TYPES = PchTcoSmiMchType | PchTcoSmiTcoTimeoutType | PchTcoSmiOsTcoType | PchTcoSmiNmiType
  | PchTcoSmiIntruderDetectType | PchTcoSmiSpiBiosWpType | PchTcoSmiLpcBiosWpType | PchTcoSmiNewCenturyType
  | PchPcieSmiRpHotplugType | PchPcieSmiRpLinkActiveType | PchPcieSmiRpLinkEqType | PchAcpiSmiPmeType
  | PchAcpiSmiPmeB0Type | PchAcpiSmiRtcAlarmType | PchAcpiSmiTmrOverflowType | PchGpioUnlockSmiType
  | PchEspiSmiEspiSlaveType | PchSmiSerialIrqType | PchSmiMcSmiType | PchSmiSmBusType | PchSmiSpiAsyncType
  | PchIoTrapSmiType

text \<open>The functions that ClearSource can point to, and the rows of the table of context functions.\<close>

datatype PCH_SMM_CLEAR_SOURCE = C_Null | C_PeriodicTimer | C_Tco | C_TcoAndBlock | C_SpiWp | C_NewCentury | C_SpiAsync

datatype CONTEXT_FUNCTIONS = NoContext | SxContext | SwContext | PowerButtonContext | PeriodicTimerContext

definition mContextFunctions :: "PCH_SMM_PROTOCOL_TYPE \<Rightarrow> CONTEXT_FUNCTIONS" where
  "mContextFunctions t = (case t of SxType \<Rightarrow> SxContext | SwType \<Rightarrow> SwContext | PowerButtonType \<Rightarrow> PowerButtonContext
     | PeriodicTimerType \<Rightarrow> PeriodicTimerContext | _ \<Rightarrow> NoContext)"

text \<open>Callback functions are numbers.\<close>

record DATABASE_RECORD =
  SrcDesc :: PCH_SMM_SOURCE_DESC
  Callback :: "nat option"
  ChildContext :: PCH_SMM_CONTEXT
  ClearSource :: PCH_SMM_CLEAR_SOURCE
  ContextFunctions :: CONTEXT_FUNCTIONS
  ProtocolType :: PCH_SMM_PROTOCOL_TYPE
  ElapsedTime :: u64
  PchSmiCallback :: "nat option"
  PchSmiType :: PCH_SMI_TYPES

datatype SUPPORTED_TIMER = PERIODIC_TIMER | SWSMI_TIMER

record TIMER_INFO =
  NumChildren :: u64
  MinReqInterval :: u64
  CurrentSetting :: u64

text \<open>The database lists its records in order with the addresses of their links, which are the handles.\<close>

type_synonym callback_db = "(u64 \<times> DATABASE_RECORD) list"

record 's smm_core = "'s smm" +
  mReadyToLock :: bool
  CallbackDataBase :: callback_db
  mTimers :: "SUPPORTED_TIMER \<Rightarrow> TIMER_INFO"

type_synonym ('s, 'a) core_prog = "('s smm_core, 'a) state"

abbreviation exec :: "('s, 'a) state \<Rightarrow> 's \<Rightarrow> 's" where "exec p s \<equiv> snd (run_state p s)"

text \<open>What a callback receives: its handle, and a context with a communication buffer, or the context of a root
  port, or nothing else.\<close>

datatype comm_buffer = NoBuffer | TimerBuffer u64 | SwBuffer nat u8 u8

datatype call_args = StandardCall PCH_SMM_CONTEXT comm_buffer | RootPortCall u32 u8 u8 u8 | PlainCall

text \<open>Everything around the driver: the hardware, the nodes of the device path at an address, the result of
  freeing a record and what its memory reads as after that, the callbacks, the boot script, the IO port in the saved state of a processor (none when
  it cannot be read), the status code reported before S3, and what variables on the stack hold before they are written.\<close>

record 's smm_env =
  sys_io :: "'s io_hw"
  path_at :: "u64 \<Rightarrow> dp_node list"
  SmmFreePool :: "u64 \<Rightarrow> efi_status"
  FreedRecord :: "u64 \<Rightarrow> DATABASE_RECORD"
  Call :: "nat \<Rightarrow> u64 \<Rightarrow> call_args \<Rightarrow> 's smm_core \<Rightarrow> 's smm_core"
  SaveMemReadWrite :: "u32 \<Rightarrow> u32 \<Rightarrow> u32 \<Rightarrow> 's smm_core \<Rightarrow> 's smm_core"
  SaveStateIoPort :: "nat \<Rightarrow> u16 option"
  NumberOfCpus :: nat
  ReportS3SuspendEnd :: "'s smm_core \<Rightarrow> 's smm_core"
  Context0 :: PCH_SMM_CONTEXT
  Controller0 :: u32
  RpDevFun0 :: "u64 \<times> u64"
  RpIndex0 :: u64

section \<open>PchSmmPeriodicTimer.c\<close>

record TIMER_INTERVAL =
  Interval :: u64
  AssociatedTimer :: SUPPORTED_TIMER

definition TIME_64s :: u64 where [regs]: "TIME_64s = 640000000"
definition TIME_32s :: u64 where [regs]: "TIME_32s = 320000000"
definition TIME_16s :: u64 where [regs]: "TIME_16s = 160000000"
definition TIME_8s :: u64 where [regs]: "TIME_8s = 80000000"
definition TIME_64ms :: u64 where [regs]: "TIME_64ms = 640000"
definition TIME_32ms :: u64 where [regs]: "TIME_32ms = 320000"
definition TIME_16ms :: u64 where [regs]: "TIME_16ms = 160000"
definition TIME_1_5ms :: u64 where [regs]: "TIME_1_5ms = 15000"

definition mSmmPeriodicTimerIntervals :: "TIMER_INTERVAL list" where
  "mSmmPeriodicTimerIntervals =
     [\<lparr> Interval = TIME_64s, AssociatedTimer = PERIODIC_TIMER \<rparr>, \<lparr> Interval = TIME_32s, AssociatedTimer = PERIODIC_TIMER \<rparr>,
      \<lparr> Interval = TIME_16s, AssociatedTimer = PERIODIC_TIMER \<rparr>, \<lparr> Interval = TIME_8s, AssociatedTimer = PERIODIC_TIMER \<rparr>,
      \<lparr> Interval = TIME_64ms, AssociatedTimer = SWSMI_TIMER \<rparr>, \<lparr> Interval = TIME_32ms, AssociatedTimer = SWSMI_TIMER \<rparr>,
      \<lparr> Interval = TIME_16ms, AssociatedTimer = SWSMI_TIMER \<rparr>, \<lparr> Interval = TIME_1_5ms, AssociatedTimer = SWSMI_TIMER \<rparr>]"

definition mTIMER_SOURCE_DESCS :: "SUPPORTED_TIMER \<Rightarrow> PCH_SMM_SOURCE_DESC" where
  "mTIMER_SOURCE_DESCS t = (case t of PERIODIC_TIMER \<Rightarrow> PERIODIC_TIMER_DESC | SWSMI_TIMER \<Rightarrow> SWSMI_TIMER_DESC)"

definition ContextToTimerInterval :: "PCH_SMM_CONTEXT \<Rightarrow> TIMER_INTERVAL option" where
  "ContextToTimerInterval DispatchContext = find (\<lambda>i.
     (SmiTickInterval DispatchContext = 0 \<and> Period DispatchContext \<ge> Interval i) \<or> SmiTickInterval DispatchContext = Interval i)
     mSmmPeriodicTimerIntervals"

text \<open>The pass over the children; it stops when the interval of one is not known, and the function returns.\<close>

fun collect_timers :: "callback_db \<Rightarrow> (SUPPORTED_TIMER \<Rightarrow> TIMER_INFO) \<Rightarrow> bool \<times> (SUPPORTED_TIMER \<Rightarrow> TIMER_INFO)" where
  "collect_timers [] T = (True, T)"
| "collect_timers ((_, r) # rs) T =
     (if ProtocolType r = PeriodicTimerType then
        (case ContextToTimerInterval (ChildContext r) of
           None \<Rightarrow> (False, T)
         | Some i \<Rightarrow>
             (let t = AssociatedTimer i; v = SmiTickInterval (ChildContext r) in
              collect_timers rs (T(t := (T t)\<lparr>
                MinReqInterval := (if MinReqInterval (T t) > v then v else MinReqInterval (T t)),
                NumChildren := NumChildren (T t) + 1 \<rparr>))))
      else collect_timers rs T)"

definition R_PCH_PMC_GEN_PMCON_A :: u64 where [regs]: "R_PCH_PMC_GEN_PMCON_A = 0xA0"
definition R_PCH_PMC_GEN_PMCON_B :: u64 where [regs]: "R_PCH_PMC_GEN_PMCON_B = 0xA4"
definition B_PCH_PMC_GEN_PMCON_A_PER_SMI_SEL :: u8 where [regs]: "B_PCH_PMC_GEN_PMCON_A_PER_SMI_SEL = 0x3"
definition B_PCH_PMC_GEN_PMCON_A_PWRBTN_LVL :: u32 where [regs]: "B_PCH_PMC_GEN_PMCON_A_PWRBTN_LVL = BIT 9"
definition B_PCH_PMC_GEN_PMCON_B_SWSMI_RTSL :: u8 where [regs]: "B_PCH_PMC_GEN_PMCON_B_SWSMI_RTSL = 0xC0"
definition B_PCH_PMC_GEN_PMCON_B_PWR_FLR :: u8 where [regs]: "B_PCH_PMC_GEN_PMCON_B_PWR_FLR = BIT 1"

text \<open>The value of the field and the index of the interval, by the interval.\<close>

definition periodic_rate :: "u64 \<Rightarrow> (u8 \<times> u64) option" where
  "periodic_rate m = (if m = TIME_64s then Some (0x0, 0) else if m = TIME_32s then Some (0x1, 1)
     else if m = TIME_16s then Some (0x2, 2) else if m = TIME_8s then Some (0x3, 3) else None)"

definition swsmi_rate :: "u64 \<Rightarrow> (u8 \<times> u64) option" where
  "swsmi_rate m = (if m = TIME_64ms then Some (0xC0, 4) else if m = TIME_32ms then Some (0x80, 5)
     else if m = TIME_16ms then Some (0x40, 6) else if m = TIME_1_5ms then Some (0x00, 7) else None)"

definition set_timer :: "SUPPORTED_TIMER \<Rightarrow> (u8 \<times> u64) option \<Rightarrow> ('s, unit) core_prog" where
  "set_timer t rate = State (\<lambda>s. ((), case rate of None \<Rightarrow> s
     | Some (_, i) \<Rightarrow> s\<lparr> mTimers := (mTimers s)(t := (mTimers s t)\<lparr> CurrentSetting := i \<rparr>) \<rparr>))"

definition rate_bits :: "(u8 \<times> u64) option \<Rightarrow> u8" where
  "rate_bits rate = (case rate of None \<Rightarrow> 0 | Some (v, _) \<Rightarrow> v)"

definition program_periodic :: "'s io_hw \<Rightarrow> TIMER_INFO \<Rightarrow> ('s, unit) core_prog" where
  "program_periodic io T =
     (if NumChildren T > 0 then do {
        GenPmConA \<leftarrow> on_sys (MmioRead8 (mm io) (PmcBase (mm io) + R_PCH_PMC_GEN_PMCON_A));
        set_timer PERIODIC_TIMER (periodic_rate (MinReqInterval T));
        _ \<leftarrow> on_sys (MmioWrite8 (mm io) (PmcBase (mm io) + R_PCH_PMC_GEN_PMCON_A)
          ((GenPmConA AND NOT B_PCH_PMC_GEN_PMCON_A_PER_SMI_SEL) OR rate_bits (periodic_rate (MinReqInterval T))));
        PchSmmClearSource io (mTIMER_SOURCE_DESCS PERIODIC_TIMER) }
      else PchSmmDisableSource io (mTIMER_SOURCE_DESCS PERIODIC_TIMER))"

definition program_swsmi :: "'s io_hw \<Rightarrow> TIMER_INFO \<Rightarrow> ('s, unit) core_prog" where
  "program_swsmi io T =
     (if NumChildren T > 0 then do {
        GenPmConB \<leftarrow> on_sys (MmioRead8 (mm io) (PmcBase (mm io) + R_PCH_PMC_GEN_PMCON_B));
        set_timer SWSMI_TIMER (swsmi_rate (MinReqInterval T));
        _ \<leftarrow> on_sys (MmioWrite8 (mm io) (PmcBase (mm io) + R_PCH_PMC_GEN_PMCON_B)
          ((GenPmConB AND NOT B_PCH_PMC_GEN_PMCON_B_PWR_FLR AND NOT B_PCH_PMC_GEN_PMCON_B_SWSMI_RTSL)
            OR rate_bits (swsmi_rate (MinReqInterval T))));
        PchSmmDisableSource io (mTIMER_SOURCE_DESCS SWSMI_TIMER);
        PchSmmClearSource io (mTIMER_SOURCE_DESCS SWSMI_TIMER);
        PchSmmEnableSource io (mTIMER_SOURCE_DESCS SWSMI_TIMER) }
      else PchSmmDisableSource io (mTIMER_SOURCE_DESCS SWSMI_TIMER))"

definition reset_timers :: "(SUPPORTED_TIMER \<Rightarrow> TIMER_INFO) \<Rightarrow> SUPPORTED_TIMER \<Rightarrow> TIMER_INFO" where
  "reset_timers T = (\<lambda>t. (T t)\<lparr> MinReqInterval := NOT 0, NumChildren := 0 \<rparr>)"

definition PchSmmPeriodicTimerProgramTimers :: "'s io_hw \<Rightarrow> ('s, unit) core_prog" where
  "PchSmmPeriodicTimerProgramTimers io = do {
     s \<leftarrow> State_Monad.get;
     let (known, T) = collect_timers (CallbackDataBase s) (reset_timers (mTimers s));
     State_Monad.set (s\<lparr> mTimers := T \<rparr>);
     (if known then do {
        program_periodic io (T PERIODIC_TIMER);
        program_swsmi io (T SWSMI_TIMER) }
      else State_Monad.return ()) }"

definition MapPeriodicTimerToSrcDesc :: "'s io_hw \<Rightarrow> PCH_SMM_CONTEXT \<Rightarrow> PCH_SMM_SOURCE_DESC \<Rightarrow> ('s, PCH_SMM_SOURCE_DESC) core_prog" where
  "MapPeriodicTimerToSrcDesc io DispatchContext Src =
     (case ContextToTimerInterval DispatchContext of
        None \<Rightarrow> State_Monad.return Src
      | Some TimerInterval \<Rightarrow> do {
          PchSmmPeriodicTimerProgramTimers io;
          State_Monad.return (mTIMER_SOURCE_DESCS (AssociatedTimer TimerInterval)) })"

text \<open>The pointer to an interval is its index in the table: the next shorter one, none after the last.\<close>

definition PchSmmPeriodicTimerDispatchGetNextShorterInterval :: "int option \<Rightarrow> efi_status \<times> int option" where
  "PchSmmPeriodicTimerDispatchGetNextShorterInterval p = (case p of
       None \<Rightarrow> (EFI_SUCCESS, Some 0)
     | Some i \<Rightarrow> if i = int (length mSmmPeriodicTimerIntervals) - 1 then (EFI_SUCCESS, None)
         else if 0 \<le> i \<and> i < int (length mSmmPeriodicTimerIntervals) - 1 then (EFI_SUCCESS, Some (i + 1))
         else (EFI_INVALID_PARAMETER, p))"

definition IsSmmPeriodicTimerHandle :: "u64 \<Rightarrow> 's smm_core \<Rightarrow> bool" where
  "IsSmmPeriodicTimerHandle DispatchHandle s \<longleftrightarrow>
     list_ex (\<lambda>(h, r). h = DispatchHandle \<and> ProtocolType r = PeriodicTimerType) (CallbackDataBase s)"

definition timer_control :: "(PCH_SMM_SOURCE_DESC \<Rightarrow> ('s, unit) core_prog) \<Rightarrow> u64 \<Rightarrow> ('s, efi_status) core_prog" where
  "timer_control act DispatchHandle = do {
     s \<leftarrow> State_Monad.get;
     if \<not> IsSmmPeriodicTimerHandle DispatchHandle s then State_Monad.return EFI_INVALID_PARAMETER
     else (case map_of (CallbackDataBase s) DispatchHandle of
        None \<Rightarrow> State_Monad.return EFI_INVALID_PARAMETER
      | Some r \<Rightarrow> (case ContextToTimerInterval (ChildContext r) of
          None \<Rightarrow> State_Monad.return EFI_INVALID_PARAMETER
        | Some i \<Rightarrow> do {
            act (mTIMER_SOURCE_DESCS (AssociatedTimer i));
            State_Monad.return EFI_SUCCESS })) }"

definition PchSmmPeriodicTimerControlPause :: "'s io_hw \<Rightarrow> u64 \<Rightarrow> ('s, efi_status) core_prog" where
  "PchSmmPeriodicTimerControlPause io = timer_control (PchSmmDisableSource io)"

definition PchSmmPeriodicTimerControlResume :: "'s io_hw \<Rightarrow> u64 \<Rightarrow> ('s, efi_status) core_prog" where
  "PchSmmPeriodicTimerControlResume io = timer_control (PchSmmEnableSource io)"

section \<open>Clearing sources\<close>

definition spi_base :: "'s io_hw \<Rightarrow> u64" where
  "spi_base io = hw_pci_base (mm io) DEFAULT_PCI_BUS_NUMBER_PCH PCI_DEVICE_NUMBER_PCH_SPI PCI_FUNCTION_NUMBER_PCH_SPI"

definition B_PCH_SPI_BC_ASE_BWP :: u32 where [regs]: "B_PCH_SPI_BC_ASE_BWP = BIT 11"
definition B_PCH_SPI_BC_ASYNC_SS :: u32 where [regs]: "B_PCH_SPI_BC_ASYNC_SS = BIT 10"
definition B_PCH_SPI_BC_SYNC_SS :: u32 where [regs]: "B_PCH_SPI_BC_SYNC_SS = BIT 8"
definition B_PCH_SPI_BC_BILD :: u8 where [regs]: "B_PCH_SPI_BC_BILD = BIT 7"
definition B_PCH_SPI_BC_LE :: u32 where [regs]: "B_PCH_SPI_BC_LE = BIT 1"
definition B_PCH_SMI_EN_TCO :: u32 where [regs]: "B_PCH_SMI_EN_TCO = BIT 13"
definition B_PCH_SMI_STS_TCO :: u32 where [regs]: "B_PCH_SMI_STS_TCO = BIT 13"
definition B_PCH_TCO1_STS_NEWCENTURY :: u16 where [regs]: "B_PCH_TCO1_STS_NEWCENTURY = BIT 7"
definition R_PCH_SPI_BAR0 :: u64 where [regs]: "R_PCH_SPI_BAR0 = 0x10"
definition B_PCH_SPI_BAR0_MASK :: u32 where [regs]: "B_PCH_SPI_BAR0_MASK = 0x0FFF"
definition PCH_SPI_BASE_ADDRESS :: u32 where [regs]: "PCH_SPI_BASE_ADDRESS = 0xFE010000"
definition R_PCH_SPI_HSFSC :: u64 where [regs]: "R_PCH_SPI_HSFSC = 0x04"
definition B_PCH_SPI_HSFSC_FDONE :: u32 where [regs]: "B_PCH_SPI_HSFSC_FDONE = BIT 0"
definition EFI_PCI_COMMAND_MEMORY_SPACE :: u8 where [regs]: "EFI_PCI_COMMAND_MEMORY_SPACE = BIT 1"

definition PchTcoSmiClearSource :: "'s io_hw \<Rightarrow> PCH_SMM_SOURCE_DESC \<Rightarrow> ('s, unit) core_prog" where
  "PchTcoSmiClearSource io Src = do {
     PchSmmClearSource io Src;
     PchSmmClearSource io mDescSrcTcoSts }"

text \<open>The functions that wait for a bit need not return.\<close>

definition PchTcoSmiClearSourceAndBlock :: "'s io_hw \<Rightarrow> PCH_SMM_SOURCE_DESC \<Rightarrow> 's smm_core \<Rightarrow> 's smm_core option" where
  "PchTcoSmiClearSourceAndBlock io Src s =
     map_option (exec (PchSmmClearSource io mDescSrcTcoSts)) (PchSmmClearSourceAndBlock io Src s)"

definition PchTcoSpiWpClearSource :: "'s io_hw \<Rightarrow> ('s, unit) core_prog" where
  "PchTcoSpiWpClearSource io = do {
     _ \<leftarrow> on_sys (MmioAndThenOr32 (mm io) (spi_base io + R_PCH_SPI_BC) (NOT B_PCH_SPI_BC_ASYNC_SS) B_PCH_SPI_BC_SYNC_SS);
     PchSmmClearSource io mDescSrcTcoSts }"

definition PchTcoSpiWpEnableSource :: "'s io_hw \<Rightarrow> ('s, unit) core_prog" where
  "PchTcoSpiWpEnableSource io = do {
     _ \<leftarrow> on_sys (MmioAndThenOr32 (mm io) (spi_base io + R_PCH_SPI_BC)
       (NOT (B_PCH_SPI_BC_ASYNC_SS OR B_PCH_SPI_BC_SYNC_SS)) B_PCH_SPI_BC_LE);
     p \<leftarrow> acpi_port (ucast R_PCH_SMI_EN);
     IoOr32 io p B_PCH_SMI_EN_TCO;
     PchTcoSpiWpClearSource io }"

definition PchTcoClearNewCenturySts :: "'s io_hw \<Rightarrow> 's smm_core \<Rightarrow> 's smm_core option" where
  "PchTcoClearNewCenturySts io s =
     (case run_state (do { p \<leftarrow> tco_port (ucast R_PCH_TCO1_STS); IoRead16 io p }) s of
        (TcoSts1, s) \<Rightarrow>
          if TcoSts1 AND B_PCH_TCO1_STS_NEWCENTURY \<noteq> 0 then PchTcoSmiClearSourceAndBlock io mSrcDescNewCentury s
          else Some s)"

definition PchSmiSpiAsyncClearSource :: "'s io_hw \<Rightarrow> ('s, unit) core_prog" where
  "PchSmiSpiAsyncClearSource io = on_sys (do {
     v \<leftarrow> MmioRead32 (mm io) (spi_base io + R_PCH_SPI_BAR0);
     (if v AND NOT B_PCH_SPI_BAR0_MASK \<noteq> PCH_SPI_BASE_ADDRESS then do {
        _ \<leftarrow> MmioAnd8 (mm io) (spi_base io + PCI_COMMAND_OFFSET) (NOT EFI_PCI_COMMAND_MEMORY_SPACE);
        _ \<leftarrow> MmioWrite32 (mm io) (spi_base io + R_PCH_SPI_BAR0) PCH_SPI_BASE_ADDRESS;
        _ \<leftarrow> MmioOr8 (mm io) (spi_base io + PCI_COMMAND_OFFSET) EFI_PCI_COMMAND_MEMORY_SPACE;
        State_Monad.return () }
      else State_Monad.return ());
     _ \<leftarrow> MmioOr32 (mm io) (ucast PCH_SPI_BASE_ADDRESS + R_PCH_SPI_HSFSC) B_PCH_SPI_HSFSC_FDONE;
     State_Monad.return () })"

definition PchSmiSpiAsyncEnableSource :: "'s io_hw \<Rightarrow> ('s, unit) core_prog" where
  "PchSmiSpiAsyncEnableSource io = do {
     _ \<leftarrow> on_sys (MmioAndThenOr32 (mm io) (spi_base io + R_PCH_SPI_BC) (NOT B_PCH_SPI_BC_SYNC_SS) B_PCH_SPI_BC_ASE_BWP);
     PchSmiSpiAsyncClearSource io }"

text \<open>Calling a record's ClearSource, or the default when it is null.\<close>

definition clear_source :: "'s io_hw \<Rightarrow> PCH_SMM_CLEAR_SOURCE \<Rightarrow> PCH_SMM_SOURCE_DESC \<Rightarrow> 's smm_core \<Rightarrow> 's smm_core option" where
  "clear_source io f Src s = (case f of
       C_Null \<Rightarrow> Some (exec (PchSmmClearSource io Src) s)
     | C_PeriodicTimer \<Rightarrow> Some (exec (PchSmmPeriodicTimerProgramTimers io) s)
     | C_Tco \<Rightarrow> Some (exec (PchTcoSmiClearSource io Src) s)
     | C_TcoAndBlock \<Rightarrow> PchTcoSmiClearSourceAndBlock io Src s
     | C_SpiWp \<Rightarrow> Some (exec (PchTcoSpiWpClearSource io) s)
     | C_NewCentury \<Rightarrow> PchTcoClearNewCenturySts io s
     | C_SpiAsync \<Rightarrow> Some (exec (PchSmiSpiAsyncClearSource io) s))"

section \<open>Contexts\<close>

definition R_PCH_APM_CNT :: u64 where [regs]: "R_PCH_APM_CNT = 0xB2"
definition R_PCH_APM_STS :: u64 where [regs]: "R_PCH_APM_STS = 0xB3"
definition B_PCH_ACPI_PM1_CNT_SLP_EN :: u32 where [regs]: "B_PCH_ACPI_PM1_CNT_SLP_EN = 0x2000"
definition B_PCH_ACPI_PM1_CNT_SLP_TYP :: u32 where [regs]: "B_PCH_ACPI_PM1_CNT_SLP_TYP = 0x1C00"
definition V_PCH_ACPI_PM1_CNT_S0 :: u32 where [regs]: "V_PCH_ACPI_PM1_CNT_S0 = 0x0"
definition V_PCH_ACPI_PM1_CNT_S1 :: u32 where [regs]: "V_PCH_ACPI_PM1_CNT_S1 = 0x400"
definition V_PCH_ACPI_PM1_CNT_S3 :: u32 where [regs]: "V_PCH_ACPI_PM1_CNT_S3 = 0x1400"
definition V_PCH_ACPI_PM1_CNT_S4 :: u32 where [regs]: "V_PCH_ACPI_PM1_CNT_S4 = 0x1800"
definition V_PCH_ACPI_PM1_CNT_S5 :: u32 where [regs]: "V_PCH_ACPI_PM1_CNT_S5 = 0x1C00"

text \<open>The type of the context is not written when the sleep type is not one of the five.\<close>

definition sleep_type :: "u32 \<Rightarrow> u32 \<Rightarrow> u32" where
  "sleep_type v old = (if v = V_PCH_ACPI_PM1_CNT_S0 then 0 else if v = V_PCH_ACPI_PM1_CNT_S1 then 1
     else if v = V_PCH_ACPI_PM1_CNT_S3 then 3 else if v = V_PCH_ACPI_PM1_CNT_S4 then 4
     else if v = V_PCH_ACPI_PM1_CNT_S5 then 5 else old)"

definition SxGetContext :: "'s io_hw \<Rightarrow> PCH_SMM_CONTEXT \<Rightarrow> ('s, PCH_SMM_CONTEXT) core_prog" where
  "SxGetContext io Context = do {
     p \<leftarrow> acpi_port (ucast R_PCH_ACPI_PM1_CNT);
     Pm1Cnt \<leftarrow> IoRead32 io p;
     State_Monad.return (Context\<lparr> W0 := with_low (with_high (W0 Context) SxEntry)
       (sleep_type (Pm1Cnt AND B_PCH_ACPI_PM1_CNT_SLP_TYP) (Sx_Type Context)) \<rparr>) }"

definition SxCmpContext :: "PCH_SMM_CONTEXT \<Rightarrow> PCH_SMM_CONTEXT \<Rightarrow> bool" where
  "SxCmpContext Context1 Context2 \<longleftrightarrow> Sx_Type Context1 = Sx_Type Context2"

definition SwGetContext :: "'s io_hw \<Rightarrow> PCH_SMM_CONTEXT \<Rightarrow> ('s, PCH_SMM_CONTEXT) core_prog" where
  "SwGetContext io Context = do {
     ApmCnt \<leftarrow> IoRead8 io R_PCH_APM_CNT;
     State_Monad.return (Context\<lparr> W0 := ucast ApmCnt \<rparr>) }"

definition SwCmpContext :: "PCH_SMM_CONTEXT \<Rightarrow> PCH_SMM_CONTEXT \<Rightarrow> bool" where
  "SwCmpContext Context1 Context2 \<longleftrightarrow> SwSmiInputValue Context1 = SwSmiInputValue Context2"

definition PowerButtonGetContext :: "'s io_hw \<Rightarrow> PCH_SMM_CONTEXT \<Rightarrow> ('s, PCH_SMM_CONTEXT) core_prog" where
  "PowerButtonGetContext io Context = do {
     GenPmConA \<leftarrow> on_sys (MmioRead32 (mm io) (PmcBase (mm io) + R_PCH_PMC_GEN_PMCON_A));
     State_Monad.return (Context\<lparr> W0 := with_low (W0 Context)
       (if GenPmConA AND B_PCH_PMC_GEN_PMCON_A_PWRBTN_LVL \<noteq> 0 then EfiPowerButtonExit else EfiPowerButtonEntry) \<rparr>) }"

definition PowerButtonCmpContext :: "PCH_SMM_CONTEXT \<Rightarrow> PCH_SMM_CONTEXT \<Rightarrow> bool" where
  "PowerButtonCmpContext Context1 Context2 \<longleftrightarrow> PowerButton_Phase Context1 = PowerButton_Phase Context2"

text \<open>The record and the context; neither changes when the interval is not known.\<close>

definition PeriodicTimerGetContext :: "DATABASE_RECORD \<Rightarrow> PCH_SMM_CONTEXT \<Rightarrow> PCH_SMM_CONTEXT \<times> DATABASE_RECORD" where
  "PeriodicTimerGetContext Record HwContext = (case ContextToTimerInterval (ChildContext Record) of
       None \<Rightarrow> (HwContext, Record)
     | Some TimerInterval \<Rightarrow>
         (ChildContext Record, Record\<lparr> ElapsedTime := ElapsedTime Record + Interval TimerInterval \<rparr>))"

definition PeriodicTimerCmpContext :: "DATABASE_RECORD \<Rightarrow> bool" where
  "PeriodicTimerCmpContext Record \<longleftrightarrow> ElapsedTime Record \<ge> Period (ChildContext Record)"

definition PeriodicTimerGetCommBuffer :: "DATABASE_RECORD \<Rightarrow> comm_buffer \<times> DATABASE_RECORD" where
  "PeriodicTimerGetCommBuffer Record = (TimerBuffer (ElapsedTime Record), Record\<lparr> ElapsedTime := 0 \<rparr>)"

definition SwGetCommBuffer :: "'s smm_env \<Rightarrow> ('s, comm_buffer) core_prog" where
  "SwGetCommBuffer env = do {
     CommandPort \<leftarrow> IoRead8 (sys_io env) R_PCH_APM_CNT;
     DataPort \<leftarrow> IoRead8 (sys_io env) R_PCH_APM_STS;
     let SwSmiCpuIndex = (case find (\<lambda>i. SaveStateIoPort env i = Some (ucast R_PCH_APM_CNT)) [0..<NumberOfCpus env] of
       Some i \<Rightarrow> i | None \<Rightarrow> 0);
     State_Monad.return (SwBuffer SwSmiCpuIndex CommandPort DataPort) }"

text \<open>Writing a record back to its place in the database.\<close>

definition store_record :: "u64 \<Rightarrow> DATABASE_RECORD \<Rightarrow> callback_db \<Rightarrow> callback_db" where
  "store_record h r db = map (\<lambda>(k, q). (k, if k = h then r else q)) db"

definition put_record :: "u64 \<Rightarrow> DATABASE_RECORD \<Rightarrow> 's smm_core \<Rightarrow> 's smm_core" where
  "put_record h r s = s\<lparr> CallbackDataBase := store_record h r (CallbackDataBase s) \<rparr>"

text \<open>The calling context of a child and whether it matches, with the record as it is then.\<close>

definition child_context :: "'s io_hw \<Rightarrow> DATABASE_RECORD \<Rightarrow> PCH_SMM_CONTEXT \<Rightarrow> ('s, PCH_SMM_CONTEXT \<times> DATABASE_RECORD \<times> bool) core_prog" where
  "child_context io Record Context = (case ContextFunctions Record of
       NoContext \<Rightarrow> State_Monad.return (ChildContext Record, Record, True)
     | SxContext \<Rightarrow> do { c \<leftarrow> SxGetContext io Context; State_Monad.return (c, Record, SxCmpContext c (ChildContext Record)) }
     | SwContext \<Rightarrow> do { c \<leftarrow> SwGetContext io Context; State_Monad.return (c, Record, SwCmpContext c (ChildContext Record)) }
     | PowerButtonContext \<Rightarrow> do {
         c \<leftarrow> PowerButtonGetContext io Context;
         State_Monad.return (c, Record, PowerButtonCmpContext c (ChildContext Record)) }
     | PeriodicTimerContext \<Rightarrow>
         (case PeriodicTimerGetContext Record Context of (c, r) \<Rightarrow> State_Monad.return (c, r, PeriodicTimerCmpContext r)))"

end
