(* ===== verification/SmmRegister.thy ===== *)
theory SmmRegister
  imports SmmCore
begin

text \<open>
  Registering and unregistering children of the SMI dispatcher: PchSmmCoreRegister and PchSmmCoreUnRegister
  of PchSmmCore.c, for the protocols of the standard, and the functions of PchSmiDispatch.c for those of the
  PCH.  What the pool allocates for a record, the address of its link, is an argument: none when it fails.
\<close>

section \<open>PchSmmCore.c\<close>

definition MAXIMUM_SWI_VALUE :: u64 where [regs]: "MAXIMUM_SWI_VALUE = 0xFF"

text \<open>Whether the software SMI input value is free.\<close>

definition SmiInputValueDuplicateCheck :: "callback_db \<Rightarrow> u64 \<Rightarrow> bool" where
  "SmiInputValueDuplicateCheck db FedSwSmiInputValue \<longleftrightarrow>
     \<not> list_ex (\<lambda>(_, r). ProtocolType r = SwType \<and> SwSmiInputValue (ChildContext r) = FedSwSmiInputValue) db"

definition sw_context :: "callback_db \<Rightarrow> PCH_SMM_CONTEXT \<Rightarrow> PCH_SMM_CONTEXT option" where
  "sw_context db c =
     (let c' = (if SwSmiInputValue c = - 1
          then (case find (SmiInputValueDuplicateCheck db) (map of_nat [1..<unat MAXIMUM_SWI_VALUE]) of
              Some i \<Rightarrow> c\<lparr> W0 := i \<rparr> | None \<Rightarrow> c)
          else c) in
      if SwSmiInputValue c' = - 1 then None
      else if SwSmiInputValue c' > MAXIMUM_SWI_VALUE then None
      else if \<not> SmiInputValueDuplicateCheck db (SwSmiInputValue c') then None
      else Some c')"

definition gpi_source :: "u8 \<Rightarrow> u32 \<Rightarrow> u32 \<Rightarrow> PCH_SMM_SOURCE_DESC" where
  "gpi_source GpiSmiBitOffset GpiSmiEnRegAddress GpiSmiStsRegAddress =
     (let x = PCH_GPI_SOURCE_DESC_TEMPLATE;
          patch = (\<lambda>d a. d\<lparr> Reg := (Reg d)\<lparr> Data := with_low (Data (Reg d)) a \<rparr>, Bit := GpiSmiBitOffset \<rparr>) in
      x\<lparr> En := (En x)[0 := patch (En x ! 0) GpiSmiEnRegAddress], Sts := (Sts x)[0 := patch (Sts x ! 0) GpiSmiStsRegAddress] \<rparr>)"

text \<open>The switch on the type of the protocol: the source of the record, how to clear it, and the context; none
  when the context is refused.  A description that no branch writes is that of the zeroed record.\<close>

definition core_source :: "'s smm_env \<Rightarrow> PCH_SMM_PROTOCOL_TYPE \<Rightarrow> PCH_SMM_CONTEXT \<Rightarrow>
    ('s, (PCH_SMM_SOURCE_DESC \<times> PCH_SMM_CLEAR_SOURCE \<times> PCH_SMM_CONTEXT) option) core_prog" where
  "core_source env t c = (case t of
       UsbType \<Rightarrow> State_Monad.return
         (if Usb_Type c > UsbWake then None
          else Some (MapUsbToSrcDesc (path_at env (Usb_Device c)) (Controller0 env) c zero_source_desc, C_Null, c))
     | SxType \<Rightarrow> State_Monad.return
         (if Sx_Type c \<ge> EfiMaximumSleepType \<or> Sx_Phase c \<ge> EfiMaximumPhase then None
          else Some (SX_SOURCE_DESC, C_Null, c))
     | SwType \<Rightarrow> do {
         s \<leftarrow> State_Monad.get;
         State_Monad.return (map_option (\<lambda>c. (SW_SOURCE_DESC, C_Null, c)) (sw_context (CallbackDataBase s) c)) }
     | GpiType \<Rightarrow> do {
         regs \<leftarrow> on_sys (GpioGetPadAndSmiRegs (mm (sys_io env)) (ucast (GpiNum c)));
         (case regs of
            None \<Rightarrow> State_Monad.return None
          | Some (_, GpiSmiBitOffset, GpiSmiEnRegAddress, GpiSmiStsRegAddress) \<Rightarrow> do {
              State (\<lambda>s. ((), SaveMemReadWrite env GpiSmiEnRegAddress (push_bit (unat GpiSmiBitOffset) 1) 0xFFFFFFFF s));
              State_Monad.return
                (Some (gpi_source GpiSmiBitOffset GpiSmiEnRegAddress GpiSmiStsRegAddress, C_Null, c)) }) }
     | PowerButtonType \<Rightarrow> State_Monad.return
         (if PowerButton_Phase c > EfiPowerButtonExit then None else Some (POWER_BUTTON_SOURCE_DESC, C_Null, c))
     | PeriodicTimerType \<Rightarrow>
         (if SmiTickInterval c \<le> 0 then State_Monad.return None
          else do {
            Src \<leftarrow> MapPeriodicTimerToSrcDesc (sys_io env) c zero_source_desc;
            State_Monad.return (Some (Src, C_PeriodicTimer, c)) })
     | PchSmiDispatchType \<Rightarrow> State_Monad.return None)"

definition new_record :: "PCH_SMM_PROTOCOL_TYPE \<Rightarrow> nat option \<Rightarrow> PCH_SMM_SOURCE_DESC \<Rightarrow> PCH_SMM_CLEAR_SOURCE \<Rightarrow> PCH_SMM_CONTEXT \<Rightarrow> DATABASE_RECORD" where
  "new_record t DispatchFunction Src clear c = \<lparr> SrcDesc = Src, Callback = DispatchFunction, ChildContext = c,
     ClearSource = clear, ContextFunctions = mContextFunctions t, ProtocolType = t, ElapsedTime = 0,
     PchSmiCallback = None, PchSmiType = PchTcoSmiMchType \<rparr>"

definition insert_record :: "u64 \<Rightarrow> DATABASE_RECORD \<Rightarrow> ('s, unit) core_prog" where
  "insert_record h r = State (\<lambda>s. ((), s\<lparr> CallbackDataBase := CallbackDataBase s @ [(h, r)] \<rparr>))"

text \<open>The status, with the handle and the context that are handed out.\<close>

definition PchSmmCoreRegister :: "'s smm_env \<Rightarrow> PCH_SMM_PROTOCOL_TYPE \<Rightarrow> nat option \<Rightarrow> PCH_SMM_CONTEXT \<Rightarrow> u64 option \<Rightarrow>
    ('s, efi_status \<times> (u64 \<times> PCH_SMM_CONTEXT) option) core_prog" where
  "PchSmmCoreRegister env t DispatchFunction DispatchContext Pool = (case Pool of
       None \<Rightarrow> State_Monad.return (EFI_OUT_OF_RESOURCES, None)
     | Some h \<Rightarrow> do {
         src \<leftarrow> core_source env t DispatchContext;
         (case src of
            None \<Rightarrow> State_Monad.return (EFI_INVALID_PARAMETER, None)
          | Some (Src, clear, c) \<Rightarrow>
              if CompareSources Src NULL_SOURCE_DESC_INITIALIZER then State_Monad.return (EFI_INVALID_PARAMETER, None)
              else do {
                insert_record h (new_record t DispatchFunction Src clear c);
                (if clear = C_Null then PchSmmClearSource (sys_io env) Src
                 else PchSmmPeriodicTimerProgramTimers (sys_io env));
                PchSmmEnableSource (sys_io env) Src;
                State_Monad.return (EFI_SUCCESS, Some (h, c)) }) })"

text \<open>The enable bits of a removed record that no other record has are cleared.\<close>

fun disable_unused :: "'s io_hw \<Rightarrow> callback_db \<Rightarrow> PCH_SMM_BIT_DESC list \<Rightarrow> ('s, unit) core_prog" where
  "disable_unused io db [] = State_Monad.return ()"
| "disable_unused io db (d # ds) =
     (if IS_BIT_DESC_NULL d then disable_unused io db ds
      else if list_ex (\<lambda>(_, r). IsBitEqualToAnySourceEn d (SrcDesc r)) db then disable_unused io db ds
      else do {
        WriteBitDesc io d False False;
        disable_unused io db ds })"

definition remove_record :: "u64 \<Rightarrow> callback_db \<Rightarrow> callback_db" where
  "remove_record h db = filter (\<lambda>(k, _). k \<noteq> h) db"

text \<open>A handle that is not in the database is that of a record that has been freed: its memory is filled with
  the bad pointer that the function looks for.\<close>

definition PchSmmCoreUnRegister :: "'s smm_env \<Rightarrow> u64 \<Rightarrow> ('s, efi_status) core_prog" where
  "PchSmmCoreUnRegister env DispatchHandle = do {
     s \<leftarrow> State_Monad.get;
     if DispatchHandle = 0 then State_Monad.return EFI_INVALID_PARAMETER
     else (case map_of (CallbackDataBase s) DispatchHandle of
        None \<Rightarrow> State_Monad.return EFI_INVALID_PARAMETER
      | Some RecordToDelete \<Rightarrow> do {
          let db = remove_record DispatchHandle (CallbackDataBase s);
          State_Monad.set (s\<lparr> CallbackDataBase := db \<rparr>);
          disable_unused (sys_io env) db (take NUM_EN_BITS (En (SrcDesc RecordToDelete)));
          State_Monad.return (SmmFreePool env DispatchHandle) }) }"

definition SmmReadyToLockCallback :: "('s, efi_status) core_prog" where
  "SmmReadyToLockCallback = State (\<lambda>s. (EFI_SUCCESS, s\<lparr> mReadyToLock := True \<rparr>))"

text \<open>The entry point, without the installation of the protocols.\<close>

definition InitializePchSmmDispatcher :: "'s smm_env \<Rightarrow> ('s, efi_status) core_prog" where
  "InitializePchSmmDispatcher env = do {
     s \<leftarrow> State_Monad.get;
     (_, a) \<leftarrow> on_sys (PchAcpiBaseGet (mm (sys_io env)) (Some (mAcpiBaseAddr s)));
     State (\<lambda>s. ((), s\<lparr> mAcpiBaseAddr := (case a of Some b \<Rightarrow> b | None \<Rightarrow> mAcpiBaseAddr s) \<rparr>));
     (_, t) \<leftarrow> on_sys (PchTcoBaseGet (mm (sys_io env)) (Some (mTcoBaseAddr s)));
     State (\<lambda>s. ((), s\<lparr> mTcoBaseAddr := (case t of Some b \<Rightarrow> b | None \<Rightarrow> mTcoBaseAddr s), CallbackDataBase := [] \<rparr>));
     _ \<leftarrow> PchSmmInitHardware (sys_io env);
     State_Monad.return EFI_SUCCESS }"

section \<open>PchSmiDispatch.c\<close>

definition PchSmiRecordInsert :: "PCH_SMM_SOURCE_DESC \<Rightarrow> nat option \<Rightarrow> PCH_SMI_TYPES \<Rightarrow> u64 option \<Rightarrow>
    ('s, efi_status \<times> u64 option) core_prog" where
  "PchSmiRecordInsert Src DispatchFunction t Pool =
     (if CompareSources Src NULL_SOURCE_DESC_INITIALIZER then State_Monad.return (EFI_INVALID_PARAMETER, None)
      else case Pool of
        None \<Rightarrow> State_Monad.return (EFI_OUT_OF_RESOURCES, None)
      | Some h \<Rightarrow> do {
          insert_record h \<lparr> SrcDesc = Src, Callback = None, ChildContext = \<lparr> W0 = 0, W1 = 0 \<rparr>,
            ClearSource = C_Null, ContextFunctions = NoContext, ProtocolType = PchSmiDispatchType, ElapsedTime = 0,
            PchSmiCallback = DispatchFunction, PchSmiType = t \<rparr>;
          State_Monad.return (EFI_SUCCESS, Some h) })"

definition set_clear :: "u64 \<Rightarrow> PCH_SMM_CLEAR_SOURCE \<Rightarrow> ('s, unit) core_prog" where
  "set_clear h f = State (\<lambda>s. ((), case map_of (CallbackDataBase s) h of
     None \<Rightarrow> s | Some r \<Rightarrow> put_record h (r\<lparr> ClearSource := f \<rparr>) s))"

text \<open>Registration is refused once SMRAM is about to be locked.\<close>

definition unless_locked :: "('s, efi_status \<times> u64 option) core_prog \<Rightarrow> ('s, efi_status \<times> u64 option) core_prog" where
  "unless_locked p = do {
     s \<leftarrow> State_Monad.get;
     if mReadyToLock s then State_Monad.return (EFI_ACCESS_DENIED, None) else p }"

text \<open>The TCO sources: the record gets its own function to clear the source, which is then cleared and enabled.\<close>

definition tco_register :: "'s io_hw \<Rightarrow> PCH_SMM_SOURCE_DESC \<Rightarrow> PCH_SMI_TYPES \<Rightarrow> PCH_SMM_CLEAR_SOURCE \<Rightarrow> nat option \<Rightarrow> u64 option \<Rightarrow>
    ('s, efi_status \<times> u64 option) core_prog" where
  "tco_register io Src t f DispatchFunction Pool = unless_locked (do {
     (Status, h) \<leftarrow> PchSmiRecordInsert Src DispatchFunction t Pool;
     (case h of
        None \<Rightarrow> State_Monad.return (Status, h)
      | Some k \<Rightarrow> do {
          set_clear k f;
          PchSmmClearSource io Src;
          PchSmmEnableSource io Src;
          State_Monad.return (Status, h) }) })"

definition PchTcoSmiMchRegister :: "'s smm_env \<Rightarrow> nat option \<Rightarrow> u64 option \<Rightarrow> ('s, efi_status \<times> u64 option) core_prog" where
  "PchTcoSmiMchRegister env = tco_register (sys_io env) mSrcDescMch PchTcoSmiMchType C_Tco"

definition PchTcoSmiTcoTimeoutRegister :: "'s smm_env \<Rightarrow> nat option \<Rightarrow> u64 option \<Rightarrow> ('s, efi_status \<times> u64 option) core_prog" where
  "PchTcoSmiTcoTimeoutRegister env = tco_register (sys_io env) mSrcDescTcoTimeout PchTcoSmiTcoTimeoutType C_Tco"

definition PchTcoSmiOsTcoRegister :: "'s smm_env \<Rightarrow> nat option \<Rightarrow> u64 option \<Rightarrow> ('s, efi_status \<times> u64 option) core_prog" where
  "PchTcoSmiOsTcoRegister env = tco_register (sys_io env) mSrcDescOsTco PchTcoSmiOsTcoType C_Tco"

definition PchTcoSmiNmiRegister :: "'s smm_env \<Rightarrow> nat option \<Rightarrow> u64 option \<Rightarrow> ('s, efi_status \<times> u64 option) core_prog" where
  "PchTcoSmiNmiRegister env = tco_register (sys_io env) mSrcDescNmi PchTcoSmiNmiType C_Tco"

definition PchTcoSmiIntruderDetRegister :: "'s smm_env \<Rightarrow> nat option \<Rightarrow> u64 option \<Rightarrow> ('s, efi_status \<times> u64 option) core_prog" where
  "PchTcoSmiIntruderDetRegister env = tco_register (sys_io env) mSrcDescIntruderDet PchTcoSmiIntruderDetectType C_TcoAndBlock"

definition PchTcoSmiSpiBiosWpRegister :: "'s smm_env \<Rightarrow> nat option \<Rightarrow> u64 option \<Rightarrow> ('s, efi_status \<times> u64 option) core_prog" where
  "PchTcoSmiSpiBiosWpRegister env DispatchFunction Pool = unless_locked (do {
     (Status, h) \<leftarrow> PchSmiRecordInsert mSrcDescSpiBiosWp DispatchFunction PchTcoSmiSpiBiosWpType Pool;
     (case h of
        None \<Rightarrow> State_Monad.return (Status, h)
      | Some k \<Rightarrow> do {
          set_clear k C_SpiWp;
          PchTcoSpiWpClearSource (sys_io env);
          PchTcoSpiWpEnableSource (sys_io env);
          State_Monad.return (Status, h) }) })"

definition B_PCH_ESPI_PCBC_ESPI_EN :: u8 where [regs]: "B_PCH_ESPI_PCBC_ESPI_EN = BIT 2"

text \<open>The description with its status bit, which is written before the record is inserted.\<close>

definition lpc_bios_wp :: PCH_SMM_SOURCE_DESC where
  "lpc_bios_wp = mSrcDescLpcBiosWp\<lparr> Sts := [tco1_sts N_PCH_TCO1_STS_BIOSWR] \<rparr>"

definition PchTcoSmiLpcBiosWpRegister :: "'s smm_env \<Rightarrow> nat option \<Rightarrow> u64 option \<Rightarrow> ('s, efi_status \<times> u64 option) core_prog" where
  "PchTcoSmiLpcBiosWpRegister env DispatchFunction Pool = unless_locked (do {
     BiosControl \<leftarrow> on_sys (MmioRead8 (mm (sys_io env))
       (hw_pci_base (mm (sys_io env)) DEFAULT_PCI_BUS_NUMBER_PCH PCI_DEVICE_NUMBER_PCH_LPC PCI_FUNCTION_NUMBER_PCH_LPC
         + R_PCH_LPC_BC));
     if BiosControl AND B_PCH_ESPI_PCBC_ESPI_EN \<noteq> 0 then State_Monad.return (EFI_UNSUPPORTED, None)
     else do {
       (Status, h) \<leftarrow> PchSmiRecordInsert lpc_bios_wp DispatchFunction PchTcoSmiLpcBiosWpType Pool;
       (case h of
          None \<Rightarrow> State_Monad.return (Status, h)
        | Some k \<Rightarrow> do {
            set_clear k C_Tco;
            PchSmmClearSource (sys_io env) lpc_bios_wp;
            PchSmmEnableSource (sys_io env) lpc_bios_wp;
            State_Monad.return (Status, h) }) } })"

text \<open>Clearing the new century status may not return.\<close>

definition PchTcoSmiNewCenturyRegister :: "'s smm_env \<Rightarrow> nat option \<Rightarrow> u64 option \<Rightarrow> 's smm_core \<Rightarrow> ((efi_status \<times> u64 option) \<times> 's smm_core) option" where
  "PchTcoSmiNewCenturyRegister env DispatchFunction Pool s =
     (if mReadyToLock s then Some ((EFI_ACCESS_DENIED, None), s)
      else case run_state (PchSmiRecordInsert mSrcDescNewCentury DispatchFunction PchTcoSmiNewCenturyType Pool) s of
        ((Status, None), s) \<Rightarrow> Some ((Status, None), s)
      | ((Status, Some h), s) \<Rightarrow>
          map_option (\<lambda>s. ((Status, Some h), exec (PchSmmEnableSource (sys_io env) mSrcDescNewCentury) s))
            (PchTcoClearNewCenturySts (sys_io env) (exec (set_clear h C_NewCentury) s)))"

text \<open>What the check before unregistering looks for: a bit of a register in the configuration space of a function.\<close>

definition is_pcie_bit :: "ADDR_TYPE \<Rightarrow> u32 \<Rightarrow> u32 \<Rightarrow> u64 \<Rightarrow> u8 \<Rightarrow> PCH_SMM_BIT_DESC \<Rightarrow> bool" where
  "is_pcie_bit t Dev Fun R n d \<longleftrightarrow> Type (Reg d) = t \<and> Pcie_Dev (Reg d) = Dev \<and> Pcie_Fnc (Reg d) = Fun \<and>
     Pcie_Reg (Reg d) = ucast R \<and> Bit d = n"

definition PchTcoSmiUnRegister :: "'s smm_env \<Rightarrow> u64 \<Rightarrow> ('s, efi_status) core_prog" where
  "PchTcoSmiUnRegister env DispatchHandle = do {
     s \<leftarrow> State_Monad.get;
     (case map_of (CallbackDataBase s) DispatchHandle of
        None \<Rightarrow> PchSmmCoreUnRegister env DispatchHandle
      | Some Record \<Rightarrow>
          if is_pcie_bit ACPI_ADDR_TYPE PCI_DEVICE_NUMBER_PCH_SPI PCI_FUNCTION_NUMBER_PCH_SPI R_PCH_SPI_BC
            N_PCH_SPI_BC_BLE (En (SrcDesc Record) ! 1)
          then State_Monad.return EFI_ACCESS_DENIED
          else if is_pcie_bit ACPI_ADDR_TYPE PCI_DEVICE_NUMBER_PCH_LPC PCI_FUNCTION_NUMBER_PCH_LPC R_PCH_LPC_BC
            N_PCH_LPC_BC_LE (En (SrcDesc Record) ! 1)
          then State_Monad.return EFI_ACCESS_DENIED
          else PchSmmCoreUnRegister env DispatchHandle) }"

text \<open>The sources of root ports, and the others: they are cleared and enabled whatever the status.\<close>

definition clear_and_enable :: "'s io_hw \<Rightarrow> PCH_SMM_SOURCE_DESC \<Rightarrow> ('s, unit) core_prog" where
  "clear_and_enable io Src = do {
     PchSmmClearSource io Src;
     PchSmmEnableSource io Src }"

definition rp_source :: "'s smm_env \<Rightarrow> PCH_SMM_SOURCE_DESC \<Rightarrow> u64 \<Rightarrow> ('s, PCH_SMM_SOURCE_DESC) core_prog" where
  "rp_source env Template RpIndex = do {
     (_, RpDev, RpFun) \<leftarrow> on_sys (GetPchPcieRpDevFun (mm (sys_io env)) RpIndex (RpDevFun0 env));
     State_Monad.return (patch_source (ucast RpDev) (ucast RpFun) Template) }"

definition PchPcieSmiHotPlugRegister :: "'s smm_env \<Rightarrow> nat option \<Rightarrow> u64 \<Rightarrow> u64 option \<Rightarrow> ('s, efi_status \<times> u64 option) core_prog" where
  "PchPcieSmiHotPlugRegister env DispatchFunction RpIndex Pool = unless_locked (do {
     Src \<leftarrow> rp_source env PchPcieSmiRpHotPlugTemplate RpIndex;
     r \<leftarrow> PchSmiRecordInsert Src DispatchFunction PchPcieSmiRpHotplugType Pool;
     clear_and_enable (sys_io env) Src;
     State_Monad.return r })"

definition PchPcieSmiLinkActiveRegister :: "'s smm_env \<Rightarrow> nat option \<Rightarrow> u64 \<Rightarrow> u64 option \<Rightarrow> ('s, efi_status \<times> u64 option) core_prog" where
  "PchPcieSmiLinkActiveRegister env DispatchFunction RpIndex Pool = unless_locked (do {
     Src \<leftarrow> rp_source env PchPcieSmiRpLinkActiveTemplate RpIndex;
     r \<leftarrow> PchSmiRecordInsert Src DispatchFunction PchPcieSmiRpLinkActiveType Pool;
     clear_and_enable (sys_io env) Src;
     State_Monad.return r })"

definition PchPcieSmiLinkEqRegister :: "'s smm_env \<Rightarrow> nat option \<Rightarrow> u64 \<Rightarrow> u64 option \<Rightarrow> ('s, efi_status \<times> u64 option) core_prog" where
  "PchPcieSmiLinkEqRegister env DispatchFunction RpIndex Pool = unless_locked (do {
     Src \<leftarrow> rp_source env PchPcieSmiRpLinkEqTemplate RpIndex;
     PchSmiRecordInsert Src DispatchFunction PchPcieSmiRpLinkEqType Pool })"

definition PchPcieSmiUnRegister :: "'s smm_env \<Rightarrow> u64 \<Rightarrow> ('s, efi_status) core_prog" where
  "PchPcieSmiUnRegister env DispatchHandle = PchSmmCoreUnRegister env DispatchHandle"

definition plain_register :: "'s io_hw \<Rightarrow> PCH_SMM_SOURCE_DESC \<Rightarrow> PCH_SMI_TYPES \<Rightarrow> nat option \<Rightarrow> u64 option \<Rightarrow> ('s, efi_status \<times> u64 option) core_prog" where
  "plain_register io Src t DispatchFunction Pool = do {
     r \<leftarrow> PchSmiRecordInsert Src DispatchFunction t Pool;
     clear_and_enable io Src;
     State_Monad.return r }"

definition PchAcpiSmiPmeRegister :: "'s smm_env \<Rightarrow> nat option \<Rightarrow> u64 option \<Rightarrow> ('s, efi_status \<times> u64 option) core_prog" where
  "PchAcpiSmiPmeRegister env f Pool = unless_locked (plain_register (sys_io env) mSrcDescPme PchAcpiSmiPmeType f Pool)"

definition PchAcpiSmiPmeB0Register :: "'s smm_env \<Rightarrow> nat option \<Rightarrow> u64 option \<Rightarrow> ('s, efi_status \<times> u64 option) core_prog" where
  "PchAcpiSmiPmeB0Register env f Pool = unless_locked (plain_register (sys_io env) mSrcDescPmeB0 PchAcpiSmiPmeB0Type f Pool)"

definition PchAcpiSmiRtcAlarmRegister :: "'s smm_env \<Rightarrow> nat option \<Rightarrow> u64 option \<Rightarrow> ('s, efi_status \<times> u64 option) core_prog" where
  "PchAcpiSmiRtcAlarmRegister env f Pool = unless_locked (plain_register (sys_io env) mSrcDescRtcAlarm PchAcpiSmiRtcAlarmType f Pool)"

definition PchAcpiSmiTmrOverflowRegister :: "'s smm_env \<Rightarrow> nat option \<Rightarrow> u64 option \<Rightarrow> ('s, efi_status \<times> u64 option) core_prog" where
  "PchAcpiSmiTmrOverflowRegister env f Pool = unless_locked (plain_register (sys_io env) mSrcDescTmrOverflow PchAcpiSmiTmrOverflowType f Pool)"

definition PchGpioUnlockSmiRegister :: "'s smm_env \<Rightarrow> nat option \<Rightarrow> u64 option \<Rightarrow> ('s, efi_status \<times> u64 option) core_prog" where
  "PchGpioUnlockSmiRegister env f Pool = unless_locked (plain_register (sys_io env) mSrcDescGpioUnlock PchGpioUnlockSmiType f Pool)"

definition PchSmiSerialIrqRegister :: "'s smm_env \<Rightarrow> nat option \<Rightarrow> u64 option \<Rightarrow> ('s, efi_status \<times> u64 option) core_prog" where
  "PchSmiSerialIrqRegister env f Pool = unless_locked (plain_register (sys_io env) mSrcDescSerialIrq PchSmiSerialIrqType f Pool)"

definition PchSmiMcSmiRegister :: "'s smm_env \<Rightarrow> nat option \<Rightarrow> u64 option \<Rightarrow> ('s, efi_status \<times> u64 option) core_prog" where
  "PchSmiMcSmiRegister env f Pool = unless_locked (plain_register (sys_io env) mSrcDescMcSmi PchSmiMcSmiType f Pool)"

definition PchSmiSmbusRegister :: "'s smm_env \<Rightarrow> nat option \<Rightarrow> u64 option \<Rightarrow> ('s, efi_status \<times> u64 option) core_prog" where
  "PchSmiSmbusRegister env f Pool = unless_locked (plain_register (sys_io env) mSrcDescSmbus PchSmiSmBusType f Pool)"

definition PchAcpiSmiUnRegister :: "'s smm_env \<Rightarrow> u64 \<Rightarrow> ('s, efi_status) core_prog" where
  "PchAcpiSmiUnRegister env DispatchHandle = PchSmmCoreUnRegister env DispatchHandle"

definition PchGpioUnlockSmiUnRegister :: "'s smm_env \<Rightarrow> u64 \<Rightarrow> ('s, efi_status) core_prog" where
  "PchGpioUnlockSmiUnRegister env DispatchHandle = PchSmmCoreUnRegister env DispatchHandle"

definition PchSmiSpiAsyncRegister :: "'s smm_env \<Rightarrow> nat option \<Rightarrow> u64 option \<Rightarrow> ('s, efi_status \<times> u64 option) core_prog" where
  "PchSmiSpiAsyncRegister env DispatchFunction Pool = unless_locked (do {
     (Status, h) \<leftarrow> PchSmiRecordInsert mSrcDescSpiAsyncSmi DispatchFunction PchSmiSpiAsyncType Pool;
     (case h of
        None \<Rightarrow> State_Monad.return (Status, h)
      | Some k \<Rightarrow> do {
          set_clear k C_SpiAsync;
          PchSmiSpiAsyncClearSource (sys_io env);
          PchSmiSpiAsyncEnableSource (sys_io env);
          State_Monad.return (Status, h) }) })"

definition PchSmiUnRegister :: "'s smm_env \<Rightarrow> u64 \<Rightarrow> ('s, efi_status) core_prog" where
  "PchSmiUnRegister env DispatchHandle = do {
     s \<leftarrow> State_Monad.get;
     (case map_of (CallbackDataBase s) DispatchHandle of
        None \<Rightarrow> PchSmmCoreUnRegister env DispatchHandle
      | Some Record \<Rightarrow> do {
          locked \<leftarrow>
            (if is_pcie_bit PCIE_ADDR_TYPE PCI_DEVICE_NUMBER_PCH_SPI PCI_FUNCTION_NUMBER_PCH_SPI R_PCH_SPI_BC
               N_PCH_SPI_BC_ASE_BWP (En (SrcDesc Record) ! 0)
             then do {
               v \<leftarrow> on_sys (MmioRead8 (mm (sys_io env)) (spi_base (sys_io env) + R_PCH_SPI_BC));
               State_Monad.return (v AND B_PCH_SPI_BC_BILD \<noteq> 0) }
             else State_Monad.return False);
          if locked then State_Monad.return EFI_ACCESS_DENIED
          else PchSmmCoreUnRegister env DispatchHandle }) }"

text \<open>The internal functions for IO traps, which do not check the lock.\<close>

definition PchInternalIoTrapSmiRegister :: "'s smm_env \<Rightarrow> nat option \<Rightarrow> nat \<Rightarrow> u64 option \<Rightarrow> ('s, efi_status \<times> u64 option) core_prog" where
  "PchInternalIoTrapSmiRegister env DispatchFunction IoTrapIndex Pool =
     plain_register (sys_io env) (mSrcDescIoTrap IoTrapIndex) PchIoTrapSmiType DispatchFunction Pool"

definition PchInternalIoTrapSmiUnRegister :: "'s smm_env \<Rightarrow> u64 \<Rightarrow> ('s, efi_status) core_prog" where
  "PchInternalIoTrapSmiUnRegister env DispatchHandle = PchSmmCoreUnRegister env DispatchHandle"

end
