(* ===== verification/SmmDispatch.thy ===== *)
theory SmmDispatch
  imports SmmRegister
begin

text \<open>
  Dispatching an SMI: PchSmmCoreDispatcher of PchSmmCore.c, PchSmiTypeCallbackDispatcher of PchSmiDispatch.c
  and PchSmmSxGoToSleep of PchSmmSx.c.  A function that may not return, or that calls a null pointer or walks
  through a record that has been freed, has no result: \<open>None\<close>.
\<close>

section \<open>Going to sleep\<close>

definition B_PCH_ACPI_PM1_STS_WAK :: u16 where [regs]: "B_PCH_ACPI_PM1_STS_WAK = 0x8000"

partial_function (option) wait_wake :: "'s io_hw \<Rightarrow> 's smm_core \<Rightarrow> 's smm_core option" where
  "wait_wake io s = (case run_state (do { p \<leftarrow> acpi_port (ucast R_PCH_ACPI_PM1_STS); IoRead16 io p }) s of
     (v, s) \<Rightarrow> if v AND B_PCH_ACPI_PM1_STS_WAK = 0 then wait_wake io s else Some s)"

definition enter_sleep :: "'s smm_env \<Rightarrow> ('s, u32) core_prog" where
  "enter_sleep env = do {
     _ \<leftarrow> on_sys (PchPwrmBaseGet (mm (sys_io env)) (Some 0));
     PchSmmClearSource (sys_io env) SX_SOURCE_DESC;
     PchSmmDisableSource (sys_io env) SX_SOURCE_DESC;
     p \<leftarrow> acpi_port (ucast R_PCH_ACPI_PM1_CNT);
     Pm1Cnt \<leftarrow> IoRead32 (sys_io env) p;
     (if Pm1Cnt AND B_PCH_ACPI_PM1_CNT_SLP_TYP = V_PCH_ACPI_PM1_CNT_S3
      then State (\<lambda>s. ((), ReportS3SuspendEnd env s)) else State_Monad.return ());
     let Pm1Cnt = Pm1Cnt OR B_PCH_ACPI_PM1_CNT_SLP_EN;
     IoWrite32 (sys_io env) p Pm1Cnt;
     State_Monad.return Pm1Cnt }"

definition leave_sleep :: "'s smm_env \<Rightarrow> ('s, unit) core_prog" where
  "leave_sleep env = do {
     p \<leftarrow> acpi_port (ucast R_PCH_ACPI_PM1_CNT);
     Pm1Cnt \<leftarrow> IoRead32 (sys_io env) p;
     (if Pm1Cnt AND B_PCH_ACPI_PM1_CNT_SCI_EN = 0
      then IoWrite32 (sys_io env) p ((Pm1Cnt AND NOT B_PCH_ACPI_PM1_CNT_SLP_TYP) OR V_PCH_ACPI_PM1_CNT_S0)
      else State_Monad.return ());
     PchSmmClearSource (sys_io env) SX_SOURCE_DESC;
     PchSmmEnableSource (sys_io env) SX_SOURCE_DESC }"

definition PchSmmSxGoToSleep :: "'s smm_env \<Rightarrow> 's smm_core \<Rightarrow> 's smm_core option" where
  "PchSmmSxGoToSleep env s = (case run_state (enter_sleep env) s of (Pm1Cnt, s) \<Rightarrow>
     if Pm1Cnt AND B_PCH_ACPI_PM1_CNT_SLP_TYP = V_PCH_ACPI_PM1_CNT_S1
     then map_option (exec (leave_sleep env)) (wait_wake (sys_io env) s)
     else None)"

section \<open>Calling the children\<close>

text \<open>A record where its handle points: in the database, or what is left of it.\<close>

definition record_at :: "'s smm_env \<Rightarrow> u64 \<Rightarrow> 's smm_core \<Rightarrow> DATABASE_RECORD" where
  "record_at env h s = (case map_of (CallbackDataBase s) h of Some r \<Rightarrow> r | None \<Rightarrow> FreedRecord env h)"

text \<open>The fields of the context of a root port are bytes.\<close>

definition PchSmiTypeCallbackDispatcher :: "'s smm_env \<Rightarrow> u64 \<Rightarrow> DATABASE_RECORD \<Rightarrow> 's smm_core \<Rightarrow> 's smm_core option" where
  "PchSmiTypeCallbackDispatcher env h Record s = (case PchSmiCallback Record of
       None \<Rightarrow> None
     | Some f \<Rightarrow>
         if PchSmiType Record \<in> {PchPcieSmiRpHotplugType, PchPcieSmiRpLinkActiveType, PchPcieSmiRpLinkEqType} then
           (let a = Reg (En (SrcDesc Record) ! 0); DevNum = ucast (Pcie_Dev a) :: u8; FuncNum = ucast (Pcie_Fnc a) :: u8 in
            case run_state (on_sys (GetPchPcieRpNumber (mm (sys_io env)) (ucast DevNum) (ucast FuncNum) (RpIndex0 env))) s of
              ((_, RpIndex), s) \<Rightarrow> Some (Call env f h (RootPortCall DEFAULT_PCI_BUS_NUMBER_PCH DevNum FuncNum (ucast RpIndex)) s))
         else Some (Call env f h PlainCall s))"

definition comm_buffer_of :: "'s smm_env \<Rightarrow> u64 \<Rightarrow> DATABASE_RECORD \<Rightarrow> ('s, comm_buffer) core_prog" where
  "comm_buffer_of env h Record = (case ContextFunctions Record of
       SwContext \<Rightarrow> SwGetCommBuffer env
     | PeriodicTimerContext \<Rightarrow> (case PeriodicTimerGetCommBuffer Record of
         (b, r) \<Rightarrow> do { State (\<lambda>s. ((), put_record h r s)); State_Monad.return b })
     | _ \<Rightarrow> State_Monad.return NoBuffer)"

text \<open>One record of the queue: the context as it is left, whether a sleep child was called, and the state.\<close>

definition call_child :: "'s smm_env \<Rightarrow> u64 \<Rightarrow> DATABASE_RECORD \<Rightarrow> PCH_SMM_CONTEXT \<Rightarrow> 's smm_core \<Rightarrow> (bool \<times> 's smm_core) option" where
  "call_child env h Record Context s =
     (if ProtocolType Record = PchSmiDispatchType
      then map_option (Pair False) (PchSmiTypeCallbackDispatcher env h Record s)
      else case Callback Record of
        None \<Rightarrow> Some (False, s)
      | Some f \<Rightarrow> (case run_state (comm_buffer_of env h Record) s of (CommBuffer, s) \<Rightarrow>
          (let s' = Call env f h (StandardCall Context CommBuffer) s in
           Some (ProtocolType (record_at env h s') = SxType, s'))))"

definition run_child :: "'s smm_env \<Rightarrow> PCH_SMM_SOURCE_DESC \<Rightarrow> u64 \<Rightarrow> PCH_SMM_CONTEXT \<Rightarrow> 's smm_core \<Rightarrow>
    (PCH_SMM_CONTEXT \<times> bool \<times> 's smm_core) option" where
  "run_child env ActiveSource h Context s =
     (if CompareSources (SrcDesc (record_at env h s)) ActiveSource then
        (case run_state (child_context (sys_io env) (record_at env h s) Context) s of ((Context, r, ContextsMatch), s) \<Rightarrow>
           if ContextsMatch then map_option (Pair Context) (call_child env h r Context (put_record h r s))
           else Some (Context, False, put_record h r s))
      else Some (Context, False, s))"

text \<open>GetNextNode: the link after that of a handle, none at the end of the list; a handle that is not in the list
  has no next link.\<close>

fun next_link :: "u64 \<Rightarrow> callback_db \<Rightarrow> u64 option option" where
  "next_link h [] = None"
| "next_link h ((k, _) # db) = (if k = h then Some (case db of [] \<Rightarrow> None | (k', _) # _ \<Rightarrow> Some k') else next_link h db)"

partial_function (option) exhaust :: "'s smm_env \<Rightarrow> PCH_SMM_SOURCE_DESC \<Rightarrow> u64 option \<Rightarrow> PCH_SMM_CONTEXT \<Rightarrow> bool \<Rightarrow> 's smm_core \<Rightarrow>
    (PCH_SMM_CONTEXT \<times> bool \<times> 's smm_core) option" where
  "exhaust env ActiveSource LinkToExhaust Context sx s = (case LinkToExhaust of
       None \<Rightarrow> Some (Context, sx, s)
     | Some h \<Rightarrow> (case next_link h (CallbackDataBase s) of
         None \<Rightarrow> None
       | Some k \<Rightarrow> Option.bind (run_child env ActiveSource h Context s)
           (\<lambda>(Context, d, s). exhaust env ActiveSource k Context (sx \<or> d) s)))"

section \<open>The dispatcher\<close>

text \<open>The first record whose source is active.\<close>

fun first_active :: "'s io_hw \<Rightarrow> bool \<Rightarrow> u32 \<Rightarrow> u32 \<Rightarrow> callback_db \<Rightarrow> ('s, (u64 \<times> DATABASE_RECORD) option) core_prog" where
  "first_active io SciEn SmiEnValue SmiStsValue [] = State_Monad.return None"
| "first_active io SciEn SmiEnValue SmiStsValue ((h, r) # db) = do {
     b \<leftarrow> SourceIsActive io (SrcDesc r) SciEn SmiEnValue SmiStsValue;
     if b then State_Monad.return (Some (h, r)) else first_active io SciEn SmiEnValue SmiStsValue db }"

text \<open>The end of a pass: whether the EOS bit could be set, and the state.\<close>

definition finish_pass :: "'s io_hw \<Rightarrow> u32 \<Rightarrow> 's smm_core \<Rightarrow> (bool \<times> 's smm_core) option" where
  "finish_pass io SmiStsValue s = map_option (run_state (PchSmmSetAndCheckEos io))
     (if SmiStsValue AND B_PCH_SMI_STS_TCO \<noteq> 0 then PchTcoClearNewCenturySts io s else Some s)"

definition dispatch_pass :: "'s smm_env \<Rightarrow> PCH_SMM_CONTEXT \<Rightarrow> 's smm_core \<Rightarrow> (bool \<times> PCH_SMM_CONTEXT \<times> bool \<times> 's smm_core) option" where
  "dispatch_pass env Context s =
     (let io = sys_io env in
      case run_state (do {
          SciEn \<leftarrow> PchSmmGetSciEn io;
          en \<leftarrow> acpi_port (ucast R_PCH_SMI_EN);
          SmiEnValue \<leftarrow> IoRead32 io en;
          sts \<leftarrow> acpi_port (ucast R_PCH_SMI_STS);
          SmiStsValue \<leftarrow> IoRead32 io sts;
          s \<leftarrow> State_Monad.get;
          a \<leftarrow> first_active io SciEn SmiEnValue SmiStsValue (CallbackDataBase s);
          State_Monad.return (SmiStsValue, a) }) s of
        ((SmiStsValue, None), s) \<Rightarrow>
          if CallbackDataBase s = [] then Some (False, Context, False, s)
          else map_option (\<lambda>(EosSet, s). (EosSet, Context, False, s)) (finish_pass io SmiStsValue s)
      | ((SmiStsValue, Some (h, RecordInDb)), s) \<Rightarrow>
          Option.bind (exhaust env (SrcDesc RecordInDb) (Some h) Context (ProtocolType RecordInDb = SxType) s) (\<lambda>(Context, sx, s).
          Option.bind (clear_source io (ClearSource (record_at env h s)) (SrcDesc RecordInDb) s) (\<lambda>s.
          map_option (\<lambda>(EosSet, s). (EosSet, Context, sx, s)) (finish_pass io SmiStsValue s))))"

text \<open>EscapeCount bounds the passes.\<close>

fun dispatch_passes :: "'s smm_env \<Rightarrow> nat \<Rightarrow> PCH_SMM_CONTEXT \<Rightarrow> bool \<Rightarrow> 's smm_core \<Rightarrow> (bool \<times> 's smm_core) option" where
  "dispatch_passes env 0 Context SxChildWasDispatched s = Some (SxChildWasDispatched, s)"
| "dispatch_passes env (Suc EscapeCount) Context SxChildWasDispatched s =
     Option.bind (dispatch_pass env Context s) (\<lambda>(EosSet, Context, sx, s).
       if EosSet then Some (SxChildWasDispatched \<or> sx, s)
       else dispatch_passes env EscapeCount Context (SxChildWasDispatched \<or> sx) s)"

definition R_PCH_RTC_INDEX_ALT :: u64 where [regs]: "R_PCH_RTC_INDEX_ALT = 0x74"
definition R_PCH_RTC_EXT_INDEX_ALT :: u64 where [regs]: "R_PCH_RTC_EXT_INDEX_ALT = 0x76"

definition dispatch_children :: "'s smm_env \<Rightarrow> 's smm_core \<Rightarrow> 's smm_core option" where
  "dispatch_children env s =
     Option.bind (if CallbackDataBase s = [] then Some (False, s) else dispatch_passes env 3 (Context0 env) False s)
       (\<lambda>(SxChildWasDispatched, s). if SxChildWasDispatched then PchSmmSxGoToSleep env s else Some s)"

definition PchSmmCoreDispatcher :: "'s smm_env \<Rightarrow> 's smm_core \<Rightarrow> (efi_status \<times> 's smm_core) option" where
  "PchSmmCoreDispatcher env s =
     (case run_state (do {
          Port76Save \<leftarrow> IoRead8 (sys_io env) R_PCH_RTC_EXT_INDEX_ALT;
          Port74Save \<leftarrow> IoRead8 (sys_io env) R_PCH_RTC_INDEX_ALT;
          State_Monad.return (Port76Save, Port74Save) }) s of
        ((Port76Save, Port74Save), s) \<Rightarrow>
          map_option (\<lambda>s. (EFI_SUCCESS, exec (do {
              IoWrite8 (sys_io env) R_PCH_RTC_EXT_INDEX_ALT Port76Save;
              IoWrite8 (sys_io env) R_PCH_RTC_INDEX_ALT Port74Save }) s))
            (dispatch_children env s))"

end
