(* ===== verification/SmmStore.thy ===== *)
theory SmmStore
  imports SmmBits
begin

text \<open>
  What the SMI dispatcher needs of hardware: enable bits that hold what is written to them, and status
  bits that writing one clears, each without an effect on the other bits.  The locale \<open>bit_store\<close>
  states this contract of reading and writing described bits, and derives from it what enabling,
  disabling and clearing a source does, when a source is active, and that waiting for a cleared bit ends.
\<close>

section \<open>The same bit\<close>

lemma same_bit_refl [simp]: "same_bit a a"
  by (simp add: same_bit_def)

lemma same_bit_sym: "same_bit a b \<longleftrightarrow> same_bit b a"
  by (auto simp: same_bit_def)

lemma same_bit_trans: "same_bit a b \<Longrightarrow> same_bit b c \<Longrightarrow> same_bit a c"
  by (simp add: same_bit_def)

lemma same_bit_left: "same_bit a b \<Longrightarrow> same_bit a c \<longleftrightarrow> same_bit b c"
  by (auto simp: same_bit_def)

definition any_bit :: "PCH_SMM_BIT_DESC list \<Rightarrow> PCH_SMM_BIT_DESC \<Rightarrow> bool" where
  "any_bit ds e \<longleftrightarrow> (\<exists>d \<in> set ds. \<not> IS_BIT_DESC_NULL d \<and> same_bit e d)"

lemma any_bit_simps [simp]:
  "any_bit [] e \<longleftrightarrow> False"
  "any_bit (d # ds) e \<longleftrightarrow> \<not> IS_BIT_DESC_NULL d \<and> same_bit e d \<or> any_bit ds e"
  by (auto simp: any_bit_def)

lemma any_bit_cong: "same_bit a b \<Longrightarrow> any_bit ds a \<longleftrightarrow> any_bit ds b"
  unfolding any_bit_def by (metis same_bit_left)

section \<open>Only memory and IO space change\<close>

definition sys_only :: "('s, 'z, 'a) smm_prog \<Rightarrow> bool" where
  "sys_only p \<longleftrightarrow> (\<forall>s. \<exists>t. snd (run_state p s) = s\<lparr> smm_sys := t \<rparr>)"

lemma sys_only_id: "\<exists>t. s = s\<lparr> smm_sys := t \<rparr>"
  by (rule exI [of _ "smm_sys s"]) simp

lemma sys_only_return [intro]: "sys_only (State_Monad.return a)"
  unfolding sys_only_def by (simp add: hwrun sys_only_id)

lemma sys_only_on_sys [intro]: "sys_only (on_sys p)"
  by (auto simp: sys_only_def run_on_sys split: prod.splits)

lemma sys_only_bind [intro]:
  assumes "sys_only p" "\<And>a. sys_only (f a)"
  shows "sys_only (State_Monad.bind p f)"
  unfolding sys_only_def
proof
  fix s
  obtain a u where p: "run_state p s = (a, u)" by (rule prod.exhaust)
  moreover obtain t where "u = s\<lparr> smm_sys := t \<rparr>"
    using assms(1) p by (metis snd_conv sys_only_def)
  moreover obtain t' where "snd (run_state (f a) u) = u\<lparr> smm_sys := t' \<rparr>"
    using assms(2) by (metis sys_only_def)
  ultimately show "\<exists>t. snd (run_state (State_Monad.bind p f) s) = s\<lparr> smm_sys := t \<rparr>"
    by (auto simp: hwrun intro: exI [of _ t'])
qed

lemma sys_only_if [intro]: "sys_only p \<Longrightarrow> sys_only q \<Longrightarrow> sys_only (if c then p else q)"
  by simp

lemma sys_only_port [intro]: "sys_only (acpi_port x)" "sys_only (tco_port x)"
  unfolding sys_only_def acpi_port_def tco_port_def by (simp_all add: sys_only_id)

lemma sys_only_io [intro]:
  "sys_only (IoRead8 io x)" "sys_only (IoRead16 io x)" "sys_only (IoRead32 io x)"
  "sys_only (IoWrite8 io x b)" "sys_only (IoWrite16 io x w)" "sys_only (IoWrite32 io x v)"
  unfolding IoRead8_def IoRead16_def IoRead32_def IoWrite8_def IoWrite16_def IoWrite32_def by blast+

lemma sys_only_smm_io [intro]: "sys_only (SmmIoRead io n x)" "sys_only (SmmIoWrite io n x v)"
  unfolding SmmIoRead_def SmmIoWrite_def by (auto split: if_splits)

lemmas sys_only_rules = sys_only_return sys_only_on_sys sys_only_bind sys_only_if sys_only_port sys_only_io
  sys_only_smm_io

lemma sys_only_ReadBitDesc: "sys_only (ReadBitDesc io d)"
  unfolding ReadBitDesc_def io_base_def Let_def
  by (cases "Type (Reg d)"; cases "io_place d") (simp_all, (intro sys_only_rules)+)

lemma sys_only_WriteBitDesc: "sys_only (WriteBitDesc io d v wc)"
  unfolding WriteBitDesc_def io_base_def Let_def
  by (cases "Type (Reg d)"; cases "io_place d") (simp_all, (intro sys_only_rules)+)

lemma sys_only_write_bits: "sys_only (write_bits io v wc ds)"
  by (induction ds) (auto intro!: sys_only_rules sys_only_WriteBitDesc)

lemma sys_only_bits_set: "sys_only (bits_set io Offset v ds)"
  by (induction ds) (auto intro!: sys_only_rules sys_only_ReadBitDesc)

lemma sys_only_SourceIsActive: "sys_only (SourceIsActive io x c e v)"
  unfolding SourceIsActive_def by (intro sys_only_rules sys_only_bits_set)

lemma sys_only_sources:
  "sys_only (PchSmmEnableSource io x)" "sys_only (PchSmmDisableSource io x)" "sys_only (PchSmmClearSource io x)"
  unfolding PchSmmEnableSource_def PchSmmDisableSource_def PchSmmClearSource_def
  by (intro sys_only_rules sys_only_write_bits)+

lemma sys_only_eos: "sys_only (PchSmmSetAndCheckEos io)" "sys_only (PchSmmGetSciEn io)"
  unfolding PchSmmSetAndCheckEos_def PchSmmGetSciEn_def by (intro sys_only_rules)+

lemma write_bits_Cons:
  "\<not> IS_BIT_DESC_NULL d \<Longrightarrow> snd (run_state (write_bits io v wc (d # ds)) s) =
     snd (run_state (write_bits io v wc ds) (snd (run_state (WriteBitDesc io d v wc) s)))"
  by (simp add: hwrun split: prod.splits)

section \<open>The contract\<close>

definition bits_of :: "(PCH_SMM_BIT_DESC \<Rightarrow> bool) \<Rightarrow> PCH_SMM_BIT_DESC list \<Rightarrow> bool" where
  "bits_of P ds \<longleftrightarrow> (\<forall>d \<in> set ds. IS_BIT_DESC_NULL d \<or> P d)"

text \<open>A source all whose bits are of given kinds.\<close>

definition source_ok :: "(PCH_SMM_BIT_DESC \<Rightarrow> bool) \<Rightarrow> (PCH_SMM_BIT_DESC \<Rightarrow> bool) \<Rightarrow> PCH_SMM_SOURCE_DESC \<Rightarrow> bool" where
  "source_ok en sts x \<longleftrightarrow> length (En x) = NUM_EN_BITS \<and> length (Sts x) = NUM_STS_BITS \<and>
     bits_of en (En x) \<and> bits_of sts (Sts x)"

locale bit_store =
  fixes io :: "'s io_hw"
    and en :: "PCH_SMM_BIT_DESC \<Rightarrow> bool"
    and sts :: "PCH_SMM_BIT_DESC \<Rightarrow> bool"
    and val :: "('s, 'z) smm_scheme \<Rightarrow> PCH_SMM_BIT_DESC \<Rightarrow> bool"
    and ready :: "('s, 'z) smm_scheme \<Rightarrow> bool"
  assumes not_null: "en d \<or> sts d \<Longrightarrow> \<not> IS_BIT_DESC_NULL d"
    and two_kinds: "en d \<Longrightarrow> sts e \<Longrightarrow> \<not> same_bit d e"
    and reads: "ready s \<Longrightarrow> en d \<or> sts d \<Longrightarrow> run_state (ReadBitDesc io d) s = (val s d, s)"
    and writes_en: "ready s \<Longrightarrow> en d \<Longrightarrow> snd (run_state (WriteBitDesc io d v False) s) = t \<Longrightarrow>
      ready t \<and> (\<forall>e. en e \<or> sts e \<longrightarrow> val t e = (if same_bit e d then v else val s e))"
    and writes_sts: "ready s \<Longrightarrow> sts d \<Longrightarrow> snd (run_state (WriteBitDesc io d True True) s) = t \<Longrightarrow>
      ready t \<and> (\<forall>e. en e \<or> sts e \<longrightarrow> val t e = (val s e \<and> \<not> same_bit e d))"
begin

lemma source_takes: "source_ok en sts x \<Longrightarrow> take NUM_EN_BITS (En x) = En x" "source_ok en sts x \<Longrightarrow> take NUM_STS_BITS (Sts x) = Sts x"
  by (simp_all add: source_ok_def)

lemma write_bits_en:
  assumes "ready s" "bits_of en ds"
  shows "ready (snd (run_state (write_bits io v False ds) s)) \<and>
    (\<forall>e. en e \<or> sts e \<longrightarrow> val (snd (run_state (write_bits io v False ds) s)) e = (if any_bit ds e then v else val s e))"
  using assms
proof (induction ds arbitrary: s)
  case (Cons d ds)
  show ?case
  proof (cases "IS_BIT_DESC_NULL d")
    case False
    define t where "t = snd (run_state (WriteBitDesc io d v False) s)"
    have "en d" using Cons.prems(2) False by (simp add: bits_of_def)
    then have t: "ready t \<and> (\<forall>e. en e \<or> sts e \<longrightarrow> val t e = (if same_bit e d then v else val s e))"
      by (rule writes_en [OF Cons.prems(1) _ t_def [symmetric]])
    have "bits_of en ds" using Cons.prems(2) by (simp add: bits_of_def)
    from Cons.IH [OF _ this, of t] t show ?thesis using False by (simp add: write_bits_Cons t_def [symmetric] del: write_bits.simps)
  qed (use Cons in \<open>simp add: bits_of_def\<close>)
qed (simp add: hwrun)

lemma write_bits_sts:
  assumes "ready s" "bits_of sts ds"
  shows "ready (snd (run_state (write_bits io True True ds) s)) \<and>
    (\<forall>e. en e \<or> sts e \<longrightarrow> val (snd (run_state (write_bits io True True ds) s)) e = (val s e \<and> \<not> any_bit ds e))"
  using assms
proof (induction ds arbitrary: s)
  case (Cons d ds)
  show ?case
  proof (cases "IS_BIT_DESC_NULL d")
    case False
    define t where "t = snd (run_state (WriteBitDesc io d True True) s)"
    have "sts d" using Cons.prems(2) False by (simp add: bits_of_def)
    then have t: "ready t \<and> (\<forall>e. en e \<or> sts e \<longrightarrow> val t e = (val s e \<and> \<not> same_bit e d))"
      by (rule writes_sts [OF Cons.prems(1) _ t_def [symmetric]])
    have "bits_of sts ds" using Cons.prems(2) by (simp add: bits_of_def)
    from Cons.IH [OF _ this, of t] t show ?thesis using False by (auto simp: write_bits_Cons t_def [symmetric] simp del: write_bits.simps)
  qed (use Cons in \<open>simp add: bits_of_def\<close>)
qed (simp add: hwrun)

lemma sts_no_en: "bits_of sts ds \<Longrightarrow> en e \<Longrightarrow> \<not> any_bit ds e"
  using two_kinds by (auto simp: any_bit_def bits_of_def)

lemma en_no_sts: "bits_of en ds \<Longrightarrow> sts e \<Longrightarrow> \<not> any_bit ds e"
  using two_kinds same_bit_sym by (auto simp: any_bit_def bits_of_def)

section \<open>Sources\<close>

lemma enable_source:
  assumes "ready s" "source_ok en sts x" "t = snd (run_state (PchSmmEnableSource io x) s)"
  shows "ready t" "en e \<Longrightarrow> val t e \<longleftrightarrow> any_bit (En x) e \<or> val s e" "sts e \<Longrightarrow> val t e \<longleftrightarrow> val s e \<and> \<not> any_bit (Sts x) e"
proof -
  have ok: "bits_of en (En x)" "bits_of sts (Sts x)" using assms(2) by (simp_all add: source_ok_def)
  let ?u = "snd (run_state (write_bits io True False (En x)) s)"
  have t: "t = snd (run_state (write_bits io True True (Sts x)) ?u)"
    by (simp add: assms(3) PchSmmEnableSource_def source_takes [OF assms(2)] hwrun split: prod.splits)
  note u = write_bits_en [OF assms(1) ok(1), of True]
  note w = write_bits_sts [OF u [THEN conjunct1] ok(2), folded t]
  show "ready t" using w by blast
  show "en e \<Longrightarrow> val t e \<longleftrightarrow> any_bit (En x) e \<or> val s e" using u w sts_no_en [OF ok(2)] by auto
  show "sts e \<Longrightarrow> val t e \<longleftrightarrow> val s e \<and> \<not> any_bit (Sts x) e" using u w en_no_sts [OF ok(1)] by auto
qed

lemma disable_source:
  assumes "ready s" "source_ok en sts x" "t = snd (run_state (PchSmmDisableSource io x) s)"
  shows "ready t" "en e \<Longrightarrow> val t e \<longleftrightarrow> val s e \<and> \<not> any_bit (En x) e" "sts e \<Longrightarrow> val t e \<longleftrightarrow> val s e"
proof -
  have ok: "bits_of en (En x)" using assms(2) by (simp_all add: source_ok_def)
  have t: "t = snd (run_state (write_bits io False False (En x)) s)"
    by (simp add: assms(3) PchSmmDisableSource_def source_takes [OF assms(2)])
  note u = write_bits_en [OF assms(1) ok, of False, folded t]
  show "ready t" using u by blast
  show "en e \<Longrightarrow> val t e \<longleftrightarrow> val s e \<and> \<not> any_bit (En x) e" using u by auto
  show "sts e \<Longrightarrow> val t e \<longleftrightarrow> val s e" using u en_no_sts [OF ok] by auto
qed

lemma clear_source:
  assumes "ready s" "source_ok en sts x" "t = snd (run_state (PchSmmClearSource io x) s)"
  shows "ready t" "en e \<Longrightarrow> val t e \<longleftrightarrow> val s e" "sts e \<Longrightarrow> val t e \<longleftrightarrow> val s e \<and> \<not> any_bit (Sts x) e"
proof -
  have ok: "bits_of sts (Sts x)" using assms(2) by (simp_all add: source_ok_def)
  have t: "t = snd (run_state (write_bits io True True (Sts x)) s)"
    by (simp add: assms(3) PchSmmClearSource_def source_takes [OF assms(2)])
  note u = write_bits_sts [OF assms(1) ok, folded t]
  show "ready t" using u by blast
  show "en e \<Longrightarrow> val t e \<longleftrightarrow> val s e" using u sts_no_en [OF ok] by auto
  show "sts e \<Longrightarrow> val t e \<longleftrightarrow> val s e \<and> \<not> any_bit (Sts x) e" using u by auto
qed

text \<open>Waiting for a status bit after writing one to it returns at once.\<close>

lemma wait_cleared: "ready s \<Longrightarrow> sts d \<Longrightarrow> \<not> val s d \<Longrightarrow> wait_clear io d s = Some s"
  by (subst wait_clear.simps) (simp add: reads)

lemma clear_and_block_returns:
  "ready s \<Longrightarrow> bits_of sts ds \<Longrightarrow> clear_and_block io ds s = Some (snd (run_state (write_bits io True True ds) s))"
proof (induction ds arbitrary: s)
  case (Cons d ds)
  show ?case
  proof (cases "IS_BIT_DESC_NULL d")
    case False
    define t where "t = snd (run_state (WriteBitDesc io d True True) s)"
    have d: "sts d" using Cons.prems(2) False by (simp add: bits_of_def)
    have t: "ready t" "\<not> val t d" using writes_sts [OF Cons.prems(1) d t_def [symmetric]] d by auto
    have "clear_and_block io ds t = Some (snd (run_state (write_bits io True True ds) t))"
      using Cons.prems(2) t by (intro Cons.IH) (simp_all add: bits_of_def)
    then show ?thesis
      using False wait_cleared [OF t(1) d t(2)] by (simp add: write_bits_Cons t_def [symmetric] del: write_bits.simps)
  qed (use Cons in \<open>simp add: bits_of_def\<close>)
qed (simp add: hwrun)

lemma clear_source_and_block:
  "ready s \<Longrightarrow> source_ok en sts x \<Longrightarrow> PchSmmClearSourceAndBlock io x s = Some (snd (run_state (PchSmmClearSource io x) s))"
  by (simp add: PchSmmClearSourceAndBlock_def PchSmmClearSource_def source_takes clear_and_block_returns source_ok_def)

section \<open>Active sources\<close>

text \<open>The value of a register that is read first agrees with its bits.\<close>

definition snapshot :: "('s, 'z) smm_scheme \<Rightarrow> u16 \<Rightarrow> u32 \<Rightarrow> PCH_SMM_BIT_DESC list \<Rightarrow> bool" where
  "snapshot s Offset v ds \<longleftrightarrow> (\<forall>d \<in> set ds. \<not> IS_BIT_DESC_NULL d \<longrightarrow> Type (Reg d) = ACPI_ADDR_TYPE \<longrightarrow>
     Data_io (Reg d) = Offset \<longrightarrow> (v AND push_bit (unat (Bit d)) 1 \<noteq> 0) = val s d)"

lemma run_bits_set:
  assumes "ready s" "bits_of P ds" "\<And>d. P d \<Longrightarrow> en d \<or> sts d" "snapshot s Offset v ds"
  shows "run_state (bits_set io Offset v ds) s = ((\<forall>d \<in> set ds. \<not> IS_BIT_DESC_NULL d \<longrightarrow> val s d), s)"
  using assms(2,4)
proof (induction ds)
  case (Cons d ds)
  then have IH: "run_state (bits_set io Offset v ds) s = ((\<forall>d \<in> set ds. \<not> IS_BIT_DESC_NULL d \<longrightarrow> val s d), s)"
    by (simp add: bits_of_def snapshot_def)
  show ?case
  proof (cases "IS_BIT_DESC_NULL d")
    case False
    then have "en d \<or> sts d" using Cons.prems(1) assms(3) by (simp add: bits_of_def)
    from reads [OF assms(1) this] show ?thesis
      using False IH Cons.prems(2) by (auto simp: snapshot_def hwrun simp del: push_bit_of_1)
  qed (use IH in simp)
qed (simp add: hwrun)

end

end
