(* ===== verification/SmmChip.thy ===== *)
theory SmmChip
  imports SmmStore
begin

text \<open>
  Hardware for the SMI dispatcher: memory and IO space of bytes, in which some bits are status bits
  that writing one clears.  What reading and writing a described bit does to the bits of all
  descriptions, as long as their registers lie apart: the contract \<open>bit_store\<close>, which is all that the
  theorems on the dispatcher use of hardware.
\<close>

section \<open>Bits of words in memory\<close>

lemma bit_word_of_bytes:
  "bit (word_of_bytes bs :: 'a::len word) i \<longleftrightarrow> i < LENGTH('a) \<and> i div 8 < length bs \<and> bit (bs ! (i div 8)) (i mod 8)"
proof (induction bs arbitrary: i)
  case (Cons b bs)
  show ?case
  proof (cases "i < 8")
    case True
    then show ?thesis by (auto simp: bit_simps)
  next
    case False
    then have d: "i div 8 = Suc ((i - 8) div 8)" "i mod 8 = (i - 8) mod 8"
      by (simp_all add: div_if mod_if)
    show ?thesis using False
      by (auto simp: bit_simps Cons.IH d dest: bit_imp_le_length)
  qed
qed simp

lemma bit_loadw:
  "bit (loadw n m a :: 'a::len word) i \<longleftrightarrow> i < LENGTH('a) \<and> i div 8 < n \<and> bit (m (a + of_nat (i div 8))) (i mod 8)"
  by (auto simp: loadw_def bit_word_of_bytes loadn_def)

lemma bit_bytes_of:
  "j < n \<Longrightarrow> k < 8 \<Longrightarrow> bit (bytes_of n (w :: 'a::len word) ! j) k \<longleftrightarrow> bit w (8 * j + k)"
  by (auto simp: bytes_of_def bit_simps dest: bit_imp_le_length)

section \<open>Status bits\<close>

text \<open>A write to a byte, given which of its bits are cleared by writing one.\<close>

definition put_byte :: "u8 \<Rightarrow> u8 \<Rightarrow> u8 \<Rightarrow> u8" where
  "put_byte m old v = (old AND m AND NOT v) OR (v AND NOT m)"

definition put_bytes :: "mem \<Rightarrow> mem \<Rightarrow> u64 \<Rightarrow> u8 list \<Rightarrow> mem" where
  "put_bytes msk m a bs = (\<lambda>x. if unat (x - a) < length bs then put_byte (msk x) (m x) (bs ! unat (x - a)) else m x)"

record 'l chip =
  c_mem :: mem
  c_io :: mem
  c_log :: "'l list"

definition chip_put :: "mem \<Rightarrow> nat \<Rightarrow> u64 \<Rightarrow> 'a::len word \<Rightarrow> 'l chip \<Rightarrow> 'l chip" where
  "chip_put msk n a w d = d\<lparr> c_mem := put_bytes msk (c_mem d) a (bytes_of n w) \<rparr>"

definition chip_out :: "mem \<Rightarrow> nat \<Rightarrow> u64 \<Rightarrow> 'a::len word \<Rightarrow> 'l chip \<Rightarrow> 'l chip" where
  "chip_out msk n a w d = d\<lparr> c_io := put_bytes msk (c_io d) a (bytes_of n w) \<rparr>"

text \<open>A release build, with the status bits of memory and of IO space.\<close>

definition chip_hw :: "mem \<Rightarrow> mem \<Rightarrow> 'l chip io_hw" where
  "chip_hw wm wi = \<lparr>
     mm = \<lparr> hw_rd8 = \<lambda>a d. (loadw 1 (c_mem d) a, d), hw_rd16 = \<lambda>a d. (loadw 2 (c_mem d) a, d),
       hw_rd32 = \<lambda>a d. (loadw 4 (c_mem d) a, d),
       hw_wr8 = chip_put wm 1, hw_wr16 = chip_put wm 2, hw_wr32 = chip_put wm 4,
       hw_pci_base = ecam, hw_simics = False, hw_debug_code = False \<rparr>,
     io_rd8 = \<lambda>a d. (loadw 1 (c_io d) a, d), io_rd16 = \<lambda>a d. (loadw 2 (c_io d) a, d),
     io_rd32 = \<lambda>a d. (loadw 4 (c_io d) a, d),
     io_wr8 = chip_out wi 1, io_wr16 = chip_out wi 2, io_wr32 = chip_out wi 4 \<rparr>"

text \<open>A place is a byte of one of the two spaces.\<close>

type_synonym place = "bool \<times> u64"

definition space :: "bool \<Rightarrow> 'l chip \<Rightarrow> mem" where
  "space isio d = (if isio then c_io d else c_mem d)"

definition put_space :: "bool \<Rightarrow> mem \<Rightarrow> nat \<Rightarrow> u64 \<Rightarrow> 'a::len word \<Rightarrow> 'l chip \<Rightarrow> 'l chip" where
  "put_space isio msk n a w d = (if isio then chip_out msk n a w d else chip_put msk n a w d)"

lemma space_put:
  "space j (put_space isio msk n a w d) =
     (if j = isio then put_bytes msk (space isio d) a (bytes_of n w) else space j d)"
  by (auto simp: space_def put_space_def chip_out_def chip_put_def)

lemma log_put [simp]: "c_log (put_space isio msk n a w d) = c_log d"
  by (simp add: put_space_def chip_out_def chip_put_def)

lemma put_bytes_apart:
  assumes "unat (x - a) < n" "apart b (length bs) a n"
  shows "put_bytes msk m b bs x = m x"
proof -
  have "put_bytes msk m b bs x = storen m b (map (\<lambda>i. put_byte (msk (b + of_nat i)) (m (b + of_nat i)) (bs ! i)) [0..<length bs]) x"
    by (simp add: put_bytes_def storen_def)
  moreover have "loadn (storen m b (map (\<lambda>i. put_byte (msk (b + of_nat i)) (m (b + of_nat i)) (bs ! i)) [0..<length bs])) a n = loadn m a n"
    by (rule loadn_storen_apart) (use assms(2) in simp)
  then have "\<forall>i < n. storen m b (map (\<lambda>i. put_byte (msk (b + of_nat i)) (m (b + of_nat i)) (bs ! i)) [0..<length bs]) (a + of_nat i) = m (a + of_nat i)"
    by (auto simp: loadn_def)
  then have "storen m b (map (\<lambda>i. put_byte (msk (b + of_nat i)) (m (b + of_nat i)) (bs ! i)) [0..<length bs]) (a + of_nat (unat (x - a))) = m (a + of_nat (unat (x - a)))"
    using assms(1) by blast
  ultimately show ?thesis by simp
qed

section \<open>The place of a description\<close>

definition desc_addr :: "u16 \<times> u16 \<Rightarrow> PCH_SMM_BIT_DESC \<Rightarrow> place" where
  "desc_addr bases d =
     (let a = Reg d in case Type a of
        ACPI_ADDR_TYPE \<Rightarrow> (True, ucast (fst bases) + ucast (Data_io a))
      | TCO_ADDR_TYPE \<Rightarrow> (True, ucast (snd bases) + ucast (Data_io a))
      | PCIE_ADDR_TYPE \<Rightarrow> (False, ecam (Pcie_Bus a) (Pcie_Dev a) (Pcie_Fnc a) + ucast (Pcie_Reg a))
      | PCR_ADDR_TYPE \<Rightarrow> (False, PCH_PCR_ADDRESS (Pcr_Pid a) (Pcr_Offset a))
      | _ \<Rightarrow> (False, Data a))"

definition desc_size :: "PCH_SMM_BIT_DESC \<Rightarrow> nat" where "desc_size d = unat (SizeInBytes d)"

text \<open>A description that is not null, of a register of 1, 2 or 4 bytes that has the bit; those of private
  configuration registers are aligned.\<close>

definition good_desc :: "PCH_SMM_BIT_DESC \<Rightarrow> bool" where
  "good_desc d \<longleftrightarrow> Type (Reg d) \<noteq> PCH_SMM_ADDR_TYPE_NULL \<and> SizeInBytes d \<in> {1, 2, 4} \<and>
     unat (Bit d) < 8 * desc_size d \<and>
     (Type (Reg d) = PCR_ADDR_TYPE \<longrightarrow> ucast (Pcr_Offset (Reg d)) AND (ucast (SizeInBytes d) - 1 :: u64) = 0)"

definition bases :: "('s, 'z) smm_scheme \<Rightarrow> u16 \<times> u16" where
  "bases s = (mAcpiBaseAddr s, mTcoBaseAddr s)"

definition bit_at :: "('l chip, 'z) smm_scheme \<Rightarrow> PCH_SMM_BIT_DESC \<Rightarrow> bool" where
  "bit_at s d = (case desc_addr (bases s) d of (isio, a) \<Rightarrow>
     bit (space isio (dev (smm_sys s)) (a + of_nat (unat (Bit d) div 8))) (unat (Bit d) mod 8))"

lemma bases_sys [simp]: "bases (s\<lparr> smm_sys := t \<rparr>) = bases s"
  by (simp add: bases_def)

section \<open>Programs on the chip\<close>

lemma run_chip_mmio [simp]:
  "run_state (MmioRead8 (mm (chip_hw wm wi)) a) t = (loadw 1 (c_mem (dev t)) a, t)"
  "run_state (MmioRead16 (mm (chip_hw wm wi)) a) t = (loadw 2 (c_mem (dev t)) a, t)"
  "run_state (MmioRead32 (mm (chip_hw wm wi)) a) t = (loadw 4 (c_mem (dev t)) a, t)"
  "run_state (MmioWrite8 (mm (chip_hw wm wi)) a b) t = (b, t\<lparr> dev := put_space False wm 1 a b (dev t) \<rparr>)"
  "run_state (MmioWrite16 (mm (chip_hw wm wi)) a w) t = (w, t\<lparr> dev := put_space False wm 2 a w (dev t) \<rparr>)"
  "run_state (MmioWrite32 (mm (chip_hw wm wi)) a v) t = (v, t\<lparr> dev := put_space False wm 4 a v (dev t) \<rparr>)"
  by (simp_all add: MmioRead8_def MmioRead16_def MmioRead32_def MmioWrite8_def MmioWrite16_def
      MmioWrite32_def run_on_dev chip_hw_def put_space_def)

lemma run_chip_io [simp]:
  "run_state (IoRead8 (chip_hw wm wi) a) s = (loadw 1 (c_io (dev (smm_sys s))) a, s)"
  "run_state (IoRead16 (chip_hw wm wi) a) s = (loadw 2 (c_io (dev (smm_sys s))) a, s)"
  "run_state (IoRead32 (chip_hw wm wi) a) s = (loadw 4 (c_io (dev (smm_sys s))) a, s)"
  "run_state (IoWrite8 (chip_hw wm wi) a b) s = ((), s\<lparr> smm_sys := (smm_sys s)\<lparr> dev := put_space True wi 1 a b (dev (smm_sys s)) \<rparr> \<rparr>)"
  "run_state (IoWrite16 (chip_hw wm wi) a w) s = ((), s\<lparr> smm_sys := (smm_sys s)\<lparr> dev := put_space True wi 2 a w (dev (smm_sys s)) \<rparr> \<rparr>)"
  "run_state (IoWrite32 (chip_hw wm wi) a v) s = ((), s\<lparr> smm_sys := (smm_sys s)\<lparr> dev := put_space True wi 4 a v (dev (smm_sys s)) \<rparr> \<rparr>)"
  by (simp_all add: IoRead8_def IoRead16_def IoRead32_def IoWrite8_def IoWrite16_def
      IoWrite32_def run_on_sys run_on_dev chip_hw_def put_space_def)

lemma run_port [simp]:
  "run_state (acpi_port x) s = (ucast (mAcpiBaseAddr s) + x, s)"
  "run_state (tco_port x) s = (ucast (mTcoBaseAddr s) + x, s)"
  by (simp_all add: acpi_port_def tco_port_def)

lemma chip_pci [simp]: "hw_pci_base (mm (chip_hw wm wi)) = ecam" "\<not> hw_debug_code (mm (chip_hw wm wi))"
  by (simp_all add: chip_hw_def)

text \<open>The new state when the word \<open>w\<close> is written to a place.\<close>

definition put_at :: "mem \<Rightarrow> mem \<Rightarrow> place \<Rightarrow> nat \<Rightarrow> 'a::len word \<Rightarrow> ('l chip, 'z) smm_scheme \<Rightarrow> ('l chip, 'z) smm_scheme" where
  "put_at wm wi p n w s = s\<lparr> smm_sys := (smm_sys s)\<lparr> dev :=
     put_space (fst p) (if fst p then wi else wm) n (snd p) w (dev (smm_sys s)) \<rparr> \<rparr>"

definition load_at :: "place \<Rightarrow> nat \<Rightarrow> ('l chip, 'z) smm_scheme \<Rightarrow> 'a::len word" where
  "load_at p n s = loadw n (space (fst p) (dev (smm_sys s))) (snd p)"

lemma good_sizes:
  assumes "good_desc d"
  obtains "SizeInBytes d = 1" "desc_size d = 1" | "SizeInBytes d = 2" "desc_size d = 2" | "SizeInBytes d = 4" "desc_size d = 4"
  using assms by (auto simp: good_desc_def desc_size_def)

lemma bytes_of_ucast: "8 * n \<le> LENGTH('b) \<Longrightarrow> bytes_of n (ucast (w :: 'a::len word) :: 'b::len word) = bytes_of n w"
  by (rule nth_equalityI) (auto simp: bytes_of_def bit_eq_iff bit_simps dest: bit_imp_le_length)

lemma ucast_loadw:
  "8 * n \<le> LENGTH('a) \<Longrightarrow> ucast (loadw n m a :: 'a::len word) = (loadw n m a :: 'b::len word)"
  by (rule bit_word_eqI) (auto simp: bit_simps bit_loadw)

lemma put_space_ucast:
  "8 * n \<le> LENGTH('b) \<Longrightarrow> put_space isio msk n a (ucast (w :: 'a::len word) :: 'b::len word) d = put_space isio msk n a w d"
  by (simp add: put_space_def chip_out_def chip_put_def bytes_of_ucast)

lemma ucast_masked:
  "8 * n \<le> LENGTH('b) \<Longrightarrow> LENGTH('b) \<le> LENGTH('a) \<Longrightarrow>
    put_space isio msk n a ((loadw n m x AND ucast (An :: 'a::len word)) OR ucast Or :: 'b::len word) d =
    put_space isio msk n a ((loadw n m x AND An) OR Or :: 'a word) d"
proof -
  assume le: "8 * n \<le> LENGTH('b)" "LENGTH('b) \<le> LENGTH('a)"
  have "bytes_of n ((loadw n m x AND ucast An) OR ucast Or :: 'b word) = bytes_of n ((loadw n m x AND An) OR Or :: 'a word)"
    by (rule nth_equalityI)
      (use le in \<open>auto simp: bytes_of_def bit_eq_iff bit_simps bit_loadw dest: bit_imp_le_length\<close>)
  then show ?thesis by (simp add: put_space_def chip_out_def chip_put_def)
qed

lemma and_bit: "(x AND push_bit n 1 \<noteq> 0) = bit (x :: 'a::len word) n"
proof (cases "n < LENGTH('a)")
  case True
  then show ?thesis using and_BIT_zero [of n x] by blast
next
  case False
  then have "push_bit n 1 = (0 :: 'a word)" by (intro bit_word_eqI) (simp add: bit_simps)
  moreover have "\<not> bit x n" using False bit_imp_le_length by blast
  ultimately show ?thesis by (simp del: push_bit_of_1)
qed

lemma bit_load_at:
  "bit (load_at p n s :: u64) i \<longleftrightarrow> i < 64 \<and> i div 8 < n \<and> bit (space (fst p) (dev (smm_sys s)) (snd p + of_nat (i div 8))) (i mod 8)"
  by (simp add: load_at_def bit_loadw)

lemma good_bit_at: "good_desc d \<Longrightarrow> bit_at s d = bit (load_at (desc_addr (bases s) d) (desc_size d) s :: u64) (unat (Bit d))"
  by (cases "desc_addr (bases s) d") (auto simp: bit_at_def bit_load_at good_desc_def desc_size_def split: prod.splits)

lemma run_pcr_read:
  assumes "good_desc d" "Type (Reg d) = PCR_ADDR_TYPE"
  shows "run_state (read_pcr (chip_hw wm wi) (Reg d) (SizeInBytes d)) t =
    (loadw (desc_size d) (c_mem (dev t)) (PCH_PCR_ADDRESS (Pcr_Pid (Reg d)) (Pcr_Offset (Reg d))), t)"
  using assms(1)
proof (cases rule: good_sizes)
  case 1
  then show ?thesis by (simp add: read_pcr_def PchPcrRead8_def PchPcrRead_def hwrun ucast_loadw)
next
  case 2
  then have "ucast (Pcr_Offset (Reg d)) AND (1 :: u64) = 0" using assms by (simp add: good_desc_def)
  then show ?thesis using 2 by (simp add: read_pcr_def PchPcrRead16_def PchPcrRead_def hwrun ucast_loadw)
next
  case 3
  then have "ucast (Pcr_Offset (Reg d)) AND (3 :: u64) = 0" using assms by (simp add: good_desc_def)
  then show ?thesis using 3 by (simp add: read_pcr_def PchPcrRead32_def PchPcrRead_def hwrun ucast_loadw)
qed

lemma run_mmio_read:
  assumes "good_desc d"
  shows "run_state (read_mmio (chip_hw wm wi) a (SizeInBytes d) w) t = (loadw (desc_size d) (c_mem (dev t)) a, t)"
  using assms by (cases rule: good_sizes) (simp_all add: read_mmio_def hwrun ucast_loadw)

lemma ReadBitDesc_chip:
  assumes "good_desc d"
  shows "run_state (ReadBitDesc (chip_hw wm wi) d) s = (bit_at s d, s)"
proof -
  have io: "run_state (SmmIoRead (chip_hw wm wi) RegSize (b + RegisterOffset)) s = (loadw (desc_size d) (c_io (dev (smm_sys s))) (b + RegisterOffset), s) \<and>
      RegisterOffset = ucast (Data_io (Reg d)) \<and> m = unat (Bit d)"
    if "io_place d = (RegSize, RegisterOffset, m)" for RegSize RegisterOffset m b
    using assms by (cases rule: good_sizes)
      (use that in \<open>auto simp: io_place_def io_reg_size_def SmmIoRead_def hwrun ucast_loadw\<close>)
  obtain r o' m where p: "io_place d = (r, o', m)" by (rule prod_cases3)
  have eq: "o' = ucast (Data_io (Reg d))" "m = unat (Bit d)" using io [OF p, of 0] by simp_all
  note run = io [OF p, THEN conjunct1, unfolded eq]
  show ?thesis
    using assms
    by (cases "Type (Reg d)")
      (simp_all add: ReadBitDesc_def p eq hwrun run run_on_sys run_pcr_read run_mmio_read good_bit_at desc_addr_def
        load_at_def space_def io_base_def bases_def pcie_address_def good_desc_def and_bit Let_def del: push_bit_of_1)
qed

text \<open>Writing a bit writes its register.\<close>

abbreviation written :: "PCH_SMM_BIT_DESC \<Rightarrow> bool \<Rightarrow> bool \<Rightarrow> ('l chip, 'z) smm_scheme \<Rightarrow> u64" where
  "written d v wc s \<equiv> (load_at (desc_addr (bases s) d) (desc_size d) s AND AndVal (unat (Bit d)) wc) OR OrVal (unat (Bit d)) v"

lemma run_mmio_write:
  assumes "good_desc d"
  shows "run_state (write_mmio (chip_hw wm wi) a (SizeInBytes d) An Or w) t =
    ((), t\<lparr> dev := put_space False wm (desc_size d) a ((loadw (desc_size d) (c_mem (dev t)) a AND An) OR Or :: u64) (dev t) \<rparr>)"
  using assms
  by (cases rule: good_sizes)
    (simp_all add: write_mmio_def MmioAndThenOr8_def MmioAndThenOr16_def MmioAndThenOr32_def hwrun ucast_masked)

lemma run_pcr_write:
  assumes "good_desc d" "Type (Reg d) = PCR_ADDR_TYPE"
  shows "run_state (write_pcr (chip_hw wm wi) (Reg d) (SizeInBytes d) An Or) t =
    ((), t\<lparr> dev := put_space False wm (desc_size d) (PCH_PCR_ADDRESS (Pcr_Pid (Reg d)) (Pcr_Offset (Reg d)))
      ((loadw (desc_size d) (c_mem (dev t)) (PCH_PCR_ADDRESS (Pcr_Pid (Reg d)) (Pcr_Offset (Reg d))) AND An) OR Or :: u64) (dev t) \<rparr>)"
  using assms(1)
proof (cases rule: good_sizes)
  case 1
  then show ?thesis
    by (simp add: write_pcr_def PchPcrAndThenOr8_def PchPcrRead_def PchPcrWrite_def hwrun ucast_loadw Let_def)
      (simp add: ucast_masked)
next
  case 2
  then have "ucast (Pcr_Offset (Reg d)) AND (1 :: u64) = 0" using assms by (simp add: good_desc_def)
  then show ?thesis using 2
    by (simp add: write_pcr_def PchPcrAndThenOr16_def PchPcrRead_def PchPcrWrite_def hwrun ucast_loadw Let_def)
      (simp add: ucast_masked)
next
  case 3
  then have "ucast (Pcr_Offset (Reg d)) AND (3 :: u64) = 0" using assms by (simp add: good_desc_def)
  then show ?thesis using 3
    by (simp add: write_pcr_def PchPcrAndThenOr32_def PchPcrRead_def PchPcrWrite_def hwrun Let_def)
      (simp add: ucast_masked)
qed

lemma WriteBitDesc_chip:
  assumes "good_desc d"
  shows "run_state (WriteBitDesc (chip_hw wm wi) d v wc) s =
    ((), put_at wm wi (desc_addr (bases s) d) (desc_size d) (written d v wc s) s)"
proof -
  have io: "run_state (SmmIoRead (chip_hw wm wi) RegSize (b + RegisterOffset)) s = (loadw (desc_size d) (c_io (dev (smm_sys s))) (b + RegisterOffset), s) \<and>
      run_state (SmmIoWrite (chip_hw wm wi) RegSize (b + RegisterOffset) x) s =
        ((), s\<lparr> smm_sys := (smm_sys s)\<lparr> dev := put_space True wi (desc_size d) (b + RegisterOffset) x (dev (smm_sys s)) \<rparr> \<rparr>) \<and>
      RegisterOffset = ucast (Data_io (Reg d)) \<and> m = unat (Bit d)"
    if "io_place d = (RegSize, RegisterOffset, m)" for RegSize RegisterOffset m b x
    using assms by (cases rule: good_sizes)
      (use that in \<open>auto simp: io_place_def io_reg_size_def SmmIoRead_def SmmIoWrite_def hwrun ucast_loadw put_space_ucast\<close>)
  obtain r o' m where p: "io_place d = (r, o', m)" by (rule prod_cases3)
  have eq: "o' = ucast (Data_io (Reg d))" "m = unat (Bit d)" using io [OF p, of 0] by simp_all
  note run = io [OF p, THEN conjunct1, unfolded eq] io [OF p, THEN conjunct2, THEN conjunct1, unfolded eq]
  show ?thesis
    using assms
    by (cases "Type (Reg d)")
      (simp_all add: WriteBitDesc_def p eq hwrun run run_on_sys run_pcr_write run_mmio_write desc_addr_def
        load_at_def put_at_def space_def io_base_def bases_def pcie_address_def good_desc_def Let_def del: push_bit_of_1)
qed

section \<open>Registers that lie apart\<close>

type_synonym smi_reg = "ADDR_TYPE \<times> u64 \<times> u8"

definition reg_of :: "PCH_SMM_BIT_DESC \<Rightarrow> smi_reg" where
  "reg_of d = (Type (Reg d), Data (Reg d), SizeInBytes d)"

definition reg_desc :: "smi_reg \<Rightarrow> PCH_SMM_BIT_DESC" where
  "reg_desc r = \<lparr> Reg = \<lparr> Type = fst r, Data = fst (snd r) \<rparr>, SizeInBytes = snd (snd r), Bit = 0 \<rparr>"

definition reg_addr :: "u16 \<times> u16 \<Rightarrow> smi_reg \<Rightarrow> place" where "reg_addr b r = desc_addr b (reg_desc r)"
definition reg_size :: "smi_reg \<Rightarrow> nat" where "reg_size r = unat (snd (snd r))"

lemma reg_of_simps [simp]: "reg_addr b (reg_of d) = desc_addr b d" "reg_size (reg_of d) = desc_size d"
  by (cases "Type (Reg d)"; simp add: reg_addr_def reg_size_def reg_of_def reg_desc_def desc_addr_def desc_size_def
      Data_io_def Pcie_Reg_def Pcie_Fnc_def Pcie_Dev_def Pcie_Bus_def Pcr_Offset_def Pcr_Pid_def Let_def)+

text \<open>The registers of the chip in the order of their places, IO space first, each with whether it holds
  status bits.  They do not wrap around, and each ends before the next begins.\<close>

type_synonym chip_map = "(smi_reg \<times> bool) list"

definition reg_key :: "u16 \<times> u16 \<Rightarrow> smi_reg \<Rightarrow> nat" where
  "reg_key b r = (if fst (reg_addr b r) then 0 else 2 ^ 32) + unat (snd (reg_addr b r))"

definition reg_fits :: "u16 \<times> u16 \<Rightarrow> smi_reg \<Rightarrow> bool" where
  "reg_fits b r \<longleftrightarrow> 0 < reg_size r \<and> unat (snd (reg_addr b r)) + reg_size r \<le> 2 ^ 32 \<and>
     unat (fst (snd r)) < 2 ^ 32"

fun regs_sorted :: "u16 \<times> u16 \<Rightarrow> smi_reg list \<Rightarrow> bool" where
  "regs_sorted b [] \<longleftrightarrow> True"
| "regs_sorted b [r] \<longleftrightarrow> reg_fits b r"
| "regs_sorted b (r # q # rs) \<longleftrightarrow> reg_fits b r \<and> reg_key b r + reg_size r \<le> reg_key b q \<and> regs_sorted b (q # rs)"

definition regs_differ :: "u16 \<times> u16 \<Rightarrow> smi_reg \<Rightarrow> smi_reg \<Rightarrow> bool" where
  "regs_differ b r q \<longleftrightarrow> (fst r, ucast (fst (snd r)) :: u32) \<noteq> (fst q, ucast (fst (snd q))) \<and>
     (fst (reg_addr b r) = fst (reg_addr b q) \<longrightarrow>
       apart (snd (reg_addr b r)) (reg_size r) (snd (reg_addr b q)) (reg_size q))"

lemma regs_differ_sym: "regs_differ b r q \<longleftrightarrow> regs_differ b q r"
  by (auto simp: regs_differ_def apart_sym)

lemma reg_addr_cong: "fst r = fst q \<Longrightarrow> fst (snd r) = fst (snd q) \<Longrightarrow> reg_addr b r = reg_addr b q"
  by (simp add: reg_addr_def reg_desc_def desc_addr_def)

lemma regs_differ_key:
  assumes "reg_fits b r" "reg_fits b q" "reg_key b r + reg_size r \<le> reg_key b q"
  shows "regs_differ b r q"
proof -
  have "fst (snd r) = fst (snd q)" if "(ucast (fst (snd r)) :: u32) = ucast (fst (snd q))"
  proof -
    have "unat (fst (snd r)) = unat (ucast (fst (snd r)) :: u32)" "unat (fst (snd q)) = unat (ucast (fst (snd q)) :: u32)"
      using assms(1,2) by (simp_all add: reg_fits_def unsigned_ucast_eq take_bit_nat_eq_self)
    then show ?thesis using that by (simp add: word_unat_eq_iff)
  qed
  then have "(fst r, ucast (fst (snd r)) :: u32) \<noteq> (fst q, ucast (fst (snd q)))"
    using assms reg_addr_cong [of r q b] by (auto simp: reg_fits_def reg_key_def)
  moreover have "apart (snd (reg_addr b q)) (reg_size q) (snd (reg_addr b r)) (reg_size r)"
    if "fst (reg_addr b r) = fst (reg_addr b q)"
    using assms that by (intro apart_above) (auto simp: reg_fits_def reg_key_def)
  ultimately show ?thesis by (simp add: regs_differ_def apart_sym)
qed

lemma regs_sorted_above:
  "regs_sorted b (r # rs) \<Longrightarrow> q \<in> set rs \<Longrightarrow> reg_fits b q \<and> reg_key b r + reg_size r \<le> reg_key b q"
proof (induction rs arbitrary: r)
  case (Cons p rs)
  then show ?case by (cases rs) fastforce+
qed simp

lemma regs_sorted_tl: "regs_sorted b (r # rs) \<Longrightarrow> reg_fits b r \<and> regs_sorted b rs"
  by (cases rs) auto

lemma regs_sorted_fits: "regs_sorted b rs \<Longrightarrow> r \<in> set rs \<Longrightarrow> reg_fits b r"
  by (induction rs) (auto dest: regs_sorted_tl)

lemma regs_sorted_distinct: "regs_sorted b rs \<Longrightarrow> distinct rs"
proof (induction rs)
  case (Cons p rs)
  then show ?case
    using regs_sorted_above [of b p rs p] regs_sorted_tl [of b p rs] by (auto simp: reg_fits_def)
qed simp

lemma regs_sorted_differ:
  "regs_sorted b rs \<Longrightarrow> r \<in> set rs \<Longrightarrow> q \<in> set rs \<Longrightarrow> r \<noteq> q \<Longrightarrow> regs_differ b r q"
proof (induction rs)
  case (Cons p rs)
  have x: "regs_differ b p x" "regs_differ b x p" if "x \<in> set rs" for x
    using regs_sorted_above [OF Cons.prems(1) that] regs_sorted_tl [OF Cons.prems(1)]
    by (auto intro: regs_differ_key iffD1 [OF regs_differ_sym])
  show ?case
  proof (cases "r = p \<or> q = p")
    case True
    then show ?thesis using Cons.prems(2-4) x by (metis set_ConsD)
  next
    case False
    then show ?thesis using Cons by (metis regs_sorted_tl set_ConsD)
  qed
qed simp

text \<open>The status bits of the chip are those of the status registers.\<close>

definition status_mask :: "u16 \<times> u16 \<Rightarrow> chip_map \<Rightarrow> bool \<Rightarrow> mem" where
  "status_mask b m isio x =
     (if list_ex (\<lambda>(r, st). st \<and> fst (reg_addr b r) = isio \<and> unat (x - snd (reg_addr b r)) < reg_size r) m
      then 0xFF else 0)"

definition map_hw :: "u16 \<times> u16 \<Rightarrow> chip_map \<Rightarrow> 'l chip io_hw" where
  "map_hw b m = chip_hw (status_mask b m False) (status_mask b m True)"

definition map_ok :: "u16 \<times> u16 \<Rightarrow> chip_map \<Rightarrow> bool" where
  "map_ok b m \<longleftrightarrow> regs_sorted b (map fst m)"

definition desc_in :: "chip_map \<Rightarrow> bool \<Rightarrow> PCH_SMM_BIT_DESC \<Rightarrow> bool" where
  "desc_in m st d \<longleftrightarrow> good_desc d \<and> (reg_of d, st) \<in> set m"

lemma map_differ: "map_ok b m \<Longrightarrow> (r, i) \<in> set m \<Longrightarrow> (q, j) \<in> set m \<Longrightarrow> r \<noteq> q \<Longrightarrow> regs_differ b r q"
  by (rule regs_sorted_differ [of b "map fst m"]) (simp_all add: map_ok_def rev_image_eqI)

lemma map_kind:
  assumes "map_ok b m" "(r, i) \<in> set m" "(r, j) \<in> set m" shows "i = j"
  using assms regs_sorted_distinct [of b "map fst m"] by (metis eq_key_imp_eq_value map_ok_def)

lemma status_mask_reg:
  assumes "map_ok b m" "(r, st) \<in> set m" "i < reg_size r"
  shows "status_mask b m (fst (reg_addr b r)) (snd (reg_addr b r) + of_nat i) = (if st then 0xFF else 0)"
proof -
  let ?x = "snd (reg_addr b r) + of_nat i :: u64"
  have fits: "reg_fits b r"
    using assms(1,2) by (intro regs_sorted_fits [of b "map fst m"]) (simp_all add: map_ok_def rev_image_eqI)
  have i: "unat (of_nat i :: u64) = i"
    using assms(3) fits by (subst unat_of_nat) (simp add: reg_fits_def)
  have "q = r" if "(q, True) \<in> set m" "fst (reg_addr b q) = fst (reg_addr b r)"
    "unat (?x - snd (reg_addr b q)) < reg_size q" for q
  proof (rule ccontr)
    assume "q \<noteq> r"
    then have "apart (snd (reg_addr b q)) (reg_size q) (snd (reg_addr b r)) (reg_size r)"
      using map_differ [OF assms(1) that(1) assms(2)] that(2) by (simp add: regs_differ_def)
    then have "put_bytes (\<lambda>_. 0) (\<lambda>_. 0) (snd (reg_addr b q)) (replicate (reg_size q) 1) ?x = 0"
      using assms(3) i by (intro put_bytes_apart [where a = "snd (reg_addr b r)" and n = "reg_size r"]) simp_all
    then show False using that(3) by (simp add: put_bytes_def put_byte_def)
  qed
  then have u: "st" if "(q, True) \<in> set m" "fst (reg_addr b q) = fst (reg_addr b r)"
    "unat (?x - snd (reg_addr b q)) < reg_size q" for q
    using that map_kind [OF assms(1) _ assms(2), of True] by blast
  have "list_ex (\<lambda>(q, st). st \<and> fst (reg_addr b q) = fst (reg_addr b r) \<and> unat (?x - snd (reg_addr b q)) < reg_size q) m = st"
  proof (cases st)
    case True
    then show ?thesis using assms(2,3) i by (auto simp: list_ex_iff intro!: bexI [of _ "(r, True)"])
  next
    case False
    then show ?thesis using u by (auto simp: list_ex_iff simp del: split_paired_All)
  qed
  then show ?thesis by (simp add: status_mask_def)
qed

definition reg_mask :: "mem \<Rightarrow> mem \<Rightarrow> u16 \<times> u16 \<Rightarrow> u8 \<Rightarrow> smi_reg \<Rightarrow> bool" where
  "reg_mask wm wi b m r \<longleftrightarrow>
     (\<forall>i \<in> set [0..<reg_size r]. (if fst (reg_addr b r) then wi else wm) (snd (reg_addr b r) + of_nat i) = m)"

lemma reg_mask_map:
  "map_ok b m \<Longrightarrow> (r, st) \<in> set m \<Longrightarrow> reg_mask (status_mask b m False) (status_mask b m True) b (if st then 0xFF else 0) r"
  using status_mask_reg [of b m r st] by (auto simp: reg_mask_def)

lemma bit_written:
  assumes "good_desc d" "i < desc_size d" "k < 8"
  shows "bit (bytes_of (desc_size d) (written d v wc s) ! i) k \<longleftrightarrow>
    (if 8 * i + k = unat (Bit d) then wc \<and> bit_at s d \<or> v
     else \<not> wc \<and> bit (space (fst (desc_addr (bases s) d)) (dev (smm_sys s)) (snd (desc_addr (bases s) d) + of_nat i)) k)"
proof -
  have "desc_size d \<le> 4" using assms(1) by (auto elim: good_sizes)
  then have l: "8 * i + k < 64" using assms(2,3) by linarith
  have d: "(8 * i + k) div 8 = i" "(8 * i + k) mod 8 = k" using assms(3) by simp_all
  have "unat (Bit d) < 64" using assms(1) \<open>desc_size d \<le> 4\<close> by (auto simp: good_desc_def)
  have e: "i = unat (Bit d) div 8" "k = unat (Bit d) mod 8" if "8 * i + k = unat (Bit d)"
    using d that by simp_all
  show ?thesis
  proof (cases "8 * i + k = unat (Bit d)")
    case True
    show ?thesis
      using assms l True good_bit_at [OF assms(1), of s] \<open>unat (Bit d) < 64\<close>
      by (auto simp: bit_bytes_of bit_simps AndVal_def OrVal_def bit_load_at e [OF True] simp del: push_bit_of_1)
  next
    case False
    then show ?thesis
      using assms l by (auto simp: bit_bytes_of bit_simps AndVal_def OrVal_def bit_load_at d simp del: push_bit_of_1)
  qed
qed

lemma bit_put_byte: "k < 8 \<Longrightarrow> bit (put_byte m old v) k \<longleftrightarrow> (if bit m k then bit old k \<and> \<not> bit v k else bit v k)"
  by (auto simp: put_byte_def bit_simps)

lemma bases_put_at [simp]: "bases (put_at wm wi p n w s) = bases s"
  by (simp add: put_at_def)

text \<open>What writing the bit of \<open>d\<close> does to the bit of \<open>e\<close>.\<close>

lemma bit_at_put_same:
  assumes "good_desc d" "good_desc e" "reg_of e = reg_of d"
    and "reg_mask wm wi (bases s) (if wc then 0xFF else 0) (reg_of d)"
  shows "bit_at (put_at wm wi (desc_addr (bases s) d) (desc_size d) (written d v wc s) s) e =
    (if wc then bit_at s e \<and> \<not> (Bit e = Bit d \<and> (bit_at s d \<or> v)) else if Bit e = Bit d then v else bit_at s e)"
proof -
  obtain isio a where p: "desc_addr (bases s) d = (isio, a)" by (rule prod.exhaust)
  have e: "desc_addr (bases s) e = (isio, a)" "desc_size e = desc_size d"
    using assms(3) p reg_of_simps(1) [of "bases s" e] reg_of_simps(1) [of "bases s" d]
      reg_of_simps(2) [of e] reg_of_simps(2) [of d] by metis+
  let ?i = "unat (Bit e) div 8" and ?k = "unat (Bit e) mod 8"
  have i: "?i < desc_size d" "?k < 8" "8 * ?i + ?k = unat (Bit e)"
    using assms(2) e(2) by (auto simp: good_desc_def less_mult_imp_div_less)
  have "desc_size d \<le> 4" using assms(1) by (auto elim: good_sizes)
  then have u: "unat (of_nat ?i :: u64) = ?i" using i(1) by (subst unat_of_nat) simp
  have m: "(if isio then wi else wm) (a + of_nat ?i) = (if wc then 0xFF else 0)"
    using assms(4) i(1) p by (auto simp: reg_mask_def)
  have ff: "bit (0xFF :: u8) ?k"
  proof -
    have "(0xFF :: u8) = - 1" by simp
    then show ?thesis using i(2) by (simp only: bit_minus_1_iff) simp
  qed
  have at: "bit_at s e \<longleftrightarrow> bit (space isio (dev (smm_sys s)) (a + of_nat ?i)) ?k"
    by (simp add: bit_at_def e)
  have bw: "bit (bytes_of (desc_size d) (written d v wc s) ! ?i) ?k \<longleftrightarrow>
      (if Bit e = Bit d then wc \<and> bit_at s d \<or> v else \<not> wc \<and> bit_at s e)"
    by (subst bit_written [OF assms(1) i(1,2)]) (simp only: i(3) at p fst_conv snd_conv word_unat_eq_iff)
  have "bit_at (put_at wm wi (isio, a) (desc_size d) (written d v wc s) s) e =
      bit (put_byte (if wc then 0xFF else 0) (space isio (dev (smm_sys s)) (a + of_nat ?i))
        (bytes_of (desc_size d) (written d v wc s) ! ?i)) ?k"
    using i(1) by (simp add: bit_at_def e put_at_def space_put put_bytes_def u m p del: of_nat_div)
  also have "\<dots> = (if wc then bit_at s e \<and> \<not> (Bit e = Bit d \<and> (bit_at s d \<or> v)) else if Bit e = Bit d then v else bit_at s e)"
    unfolding bit_put_byte [OF i(2)] bw using ff at by auto
  finally show ?thesis by (simp add: p)
qed

lemma bit_at_put_other:
  assumes "good_desc d" "good_desc e" "regs_differ (bases s) (reg_of d) (reg_of e)"
  shows "bit_at (put_at wm wi (desc_addr (bases s) d) (desc_size d) w s) e = bit_at s e"
proof -
  obtain isio a where p: "desc_addr (bases s) d = (isio, a)" by (rule prod.exhaust)
  obtain jsio b where q: "desc_addr (bases s) e = (jsio, b)" by (rule prod.exhaust)
  let ?i = "unat (Bit e) div 8"
  have i: "?i < desc_size e" using assms(2) by (auto simp: good_desc_def less_mult_imp_div_less)
  have "desc_size e \<le> 4" using assms(2) by (auto elim: good_sizes)
  then have u: "unat (b + of_nat ?i - b) < desc_size e" using i by (simp add: unat_of_nat)
  have "isio = jsio \<longrightarrow> apart a (desc_size d) b (desc_size e)"
    using assms(3) p q by (auto simp: regs_differ_def)
  then have "isio = jsio \<longrightarrow> put_bytes msk m a (bytes_of (desc_size d) w) (b + of_nat ?i) = m (b + of_nat ?i)" for msk m
    using put_bytes_apart [OF u, where bs = "bytes_of (desc_size d) w"] by simp
  then show ?thesis by (auto simp: bit_at_def q p put_at_def space_put)
qed

text \<open>Bits are the same exactly when they are the same bit of the same register.\<close>

lemma same_bit_in:
  assumes "map_ok b m" "desc_in m i d" "desc_in m j e"
  shows "same_bit d e \<longleftrightarrow> reg_of d = reg_of e \<and> Bit d = Bit e"
proof -
  have "(Type (Reg d), Data_raw (Reg d)) \<noteq> (Type (Reg e), Data_raw (Reg e))" if "reg_of d \<noteq> reg_of e"
    using map_differ [of b m "reg_of d" i "reg_of e" j] assms that
    by (simp add: desc_in_def regs_differ_def reg_of_def Data_raw_def)
  then show ?thesis by (auto simp: same_bit_def reg_of_def Data_raw_def)
qed

lemma bit_at_write:
  assumes "map_ok (bases s) m" "desc_in m st d" "desc_in m j e"
  shows "bit_at (snd (run_state (WriteBitDesc (map_hw (bases s) m) d v st) s)) e =
    (if st then bit_at s e \<and> \<not> (same_bit e d \<and> (bit_at s d \<or> v)) else if same_bit e d then v else bit_at s e)"
proof -
  have good: "good_desc d" "good_desc e" using assms by (simp_all add: desc_in_def)
  show ?thesis
  proof (cases "reg_of e = reg_of d")
    case True
    have "(reg_of d, st) \<in> set m" using assms(2) by (simp add: desc_in_def)
    from reg_mask_map [OF assms(1) this]
    show ?thesis
      using bit_at_put_same [OF good True, of _ _ s st v] same_bit_in [OF assms(1,3,2)] True
      by (simp add: map_hw_def WriteBitDesc_chip [OF good(1)])
  next
    case False
    then have differ: "regs_differ (bases s) (reg_of d) (reg_of e)"
      using assms by (intro map_differ [OF assms(1)]) (auto simp: desc_in_def)
    show ?thesis
      using same_bit_in [OF assms(1,3,2)] False
      by (simp add: map_hw_def WriteBitDesc_chip [OF good(1)] bit_at_put_other [OF good differ])
  qed
qed

lemma bases_WriteBitDesc [simp]: "bases (snd (run_state (WriteBitDesc io d v wc) s)) = bases s"
  using sys_only_WriteBitDesc [of io d v wc] by (metis bases_sys sys_only_def)

text \<open>The chip keeps the contract.\<close>

theorem chip_bit_store:
  assumes "map_ok b m"
  shows "bit_store (map_hw b m) (desc_in m False) (desc_in m True) bit_at (\<lambda>s. bases s = b)"
proof
  fix d e :: PCH_SMM_BIT_DESC
  assume "desc_in m False d" "desc_in m True e"
  then show "\<not> same_bit d e"
    using same_bit_in [OF assms, of False d True e] map_kind [OF assms, of "reg_of d" False True]
    by (auto simp: desc_in_def)
next
  fix s :: "('a chip, 'b) smm_scheme" and d v t
  assume b: "bases s = b" and d: "desc_in m False d" "snd (run_state (WriteBitDesc (map_hw b m) d v False) s) = t"
  show "bases t = b \<and> (\<forall>e. desc_in m False e \<or> desc_in m True e \<longrightarrow> bit_at t e = (if same_bit e d then v else bit_at s e))"
    using bit_at_write [of s m False d _ _ v] assms b d by auto
next
  fix s :: "('a chip, 'b) smm_scheme" and d t
  assume b: "bases s = b" and d: "desc_in m True d" "snd (run_state (WriteBitDesc (map_hw b m) d True True) s) = t"
  show "bases t = b \<and> (\<forall>e. desc_in m False e \<or> desc_in m True e \<longrightarrow> bit_at t e = (bit_at s e \<and> \<not> same_bit e d))"
    using bit_at_write [of s m True d _ _ True] assms b d by auto
qed (auto simp: desc_in_def good_desc_def IS_BIT_DESC_NULL_def map_hw_def ReadBitDesc_chip)

end
