(* ===== verification/SmmMap.thy ===== *)
theory SmmMap
  imports SmmChip SmmSources
begin

text \<open>
  The registers of the PCH that hold the bits of SMI sources, at the bases that the platform gives the ACPI
  and TCO registers, as a chip of SmmChip: the contract \<open>bit_store\<close> holds of it, and which of the sources of
  SmmSources are made of its bits.  The control register of the SPI controller is not one of them: it has
  bits of both kinds.
\<close>

definition pch_bases :: "u16 \<times> u16" where "pch_bases = (0x500, 0x400)"

definition rp_functions :: "(u32 \<times> u32) list" where
  "rp_functions = concat (map (\<lambda>Dev. map (Pair Dev) [0, 1, 2, 3, 4, 5, 6, 7]) [27, 28, 29])"

definition pch_map :: chip_map where
  "pch_map =
    [((TCO_ADDR_TYPE, 0x04, 2), True), ((TCO_ADDR_TYPE, 0x06, 2), True), ((TCO_ADDR_TYPE, 0x08, 2), False),
     ((TCO_ADDR_TYPE, 0x0A, 2), False), ((ACPI_ADDR_TYPE, 0x00, 2), True), ((ACPI_ADDR_TYPE, 0x02, 2), False),
     ((ACPI_ADDR_TYPE, 0x04, 4), False), ((ACPI_ADDR_TYPE, 0x30, 4), False), ((ACPI_ADDR_TYPE, 0x34, 4), True),
     ((ACPI_ADDR_TYPE, 0x44, 2), True), ((ACPI_ADDR_TYPE, 0x8C, 4), True), ((ACPI_ADDR_TYPE, 0x9C, 4), False)] @
    concat (map (\<lambda>(Dev, Fun).
      [((PCIE_ADDR_TYPE, pcie_raw Dev Fun R_PCH_PCIE_MPC, 4), False), ((PCIE_ADDR_TYPE, pcie_raw Dev Fun R_PCH_PCIE_SMSCS, 4), True),
       ((PCIE_ADDR_TYPE, pcie_raw Dev Fun R_PCH_PCIE_EQCFG1, 4), False)]) rp_functions) @
    [((PCIE_ADDR_TYPE, pcie_raw 31 0 0xDC, 1), False), ((PCIE_ADDR_TYPE, pcie_raw 31 2 0xA0, 1), False),
     ((PCIE_ADDR_TYPE, pcie_raw 31 2 0xA4, 1), False),
     ((PCR_ADDR_TYPE, 0xFD891E00, 1), True), ((PCR_ADDR_TYPE, 0xFD891E80, 4), False), ((PCR_ADDR_TYPE, 0xFD891E88, 4), False),
     ((PCR_ADDR_TYPE, 0xFD891E90, 4), False), ((PCR_ADDR_TYPE, 0xFD891E98, 4), False),
     ((GPIO_ADDR_TYPE, 0xFDAC0140, 4), True), ((GPIO_ADDR_TYPE, 0xFDAC0150, 4), False),
     ((GPIO_ADDR_TYPE, 0xFDAE0140, 4), True), ((GPIO_ADDR_TYPE, 0xFDAE0144, 4), True), ((GPIO_ADDR_TYPE, 0xFDAE0148, 4), True),
     ((GPIO_ADDR_TYPE, 0xFDAE0150, 4), False), ((GPIO_ADDR_TYPE, 0xFDAE0154, 4), False), ((GPIO_ADDR_TYPE, 0xFDAE0158, 4), False),
     ((GPIO_ADDR_TYPE, 0xFDAF0144, 4), True), ((GPIO_ADDR_TYPE, 0xFDAF0154, 4), False)]"

definition pch_hw :: "'l chip io_hw" where "pch_hw = map_hw pch_bases pch_map"

abbreviation pch_en :: "PCH_SMM_BIT_DESC \<Rightarrow> bool" where "pch_en \<equiv> desc_in pch_map False"
abbreviation pch_sts :: "PCH_SMM_BIT_DESC \<Rightarrow> bool" where "pch_sts \<equiv> desc_in pch_map True"
abbreviation at_pch :: "('s, 'z) smm_scheme \<Rightarrow> bool" where "at_pch s \<equiv> bases s = pch_bases"

lemmas place_defs = reg_fits_def reg_key_def reg_addr_def reg_size_def desc_addr_def reg_desc_def Data_io_def Pcie_Reg_def
  Pcie_Fnc_def Pcie_Dev_def Pcie_Bus_def Pcr_Offset_def Pcr_Pid_def PCH_PCR_ADDRESS_def ecam_def

lemma pch_map_ok: "map_ok pch_bases pch_map"
  apply (simp add: map_ok_def pch_map_def rp_functions_def pcie_raw_def regs)
  apply (simp add: pch_bases_def place_defs)
  done

interpretation pch: bit_store pch_hw pch_en pch_sts bit_at "\<lambda>s. bases s = pch_bases"
  unfolding pch_hw_def by (rule chip_bit_store) (rule pch_map_ok)

section \<open>The sources of the chip\<close>

definition pch_source :: "PCH_SMM_SOURCE_DESC \<Rightarrow> bool" where
  "pch_source x \<longleftrightarrow> source_ok pch_en pch_sts x"

lemmas source_defs = source_def smi_en_def smi_sts_def tco1_sts_def bit_desc_def NULL_BIT_DESC_INITIALIZER_def

lemma in_map:
  "(r, st) \<in> set [((TCO_ADDR_TYPE, 0x04, 2), True), ((TCO_ADDR_TYPE, 0x06, 2), True), ((TCO_ADDR_TYPE, 0x08, 2), False),
     ((TCO_ADDR_TYPE, 0x0A, 2), False), ((ACPI_ADDR_TYPE, 0x00, 2), True), ((ACPI_ADDR_TYPE, 0x02, 2), False),
     ((ACPI_ADDR_TYPE, 0x04, 4), False), ((ACPI_ADDR_TYPE, 0x30, 4), False), ((ACPI_ADDR_TYPE, 0x34, 4), True),
     ((ACPI_ADDR_TYPE, 0x44, 2), True), ((ACPI_ADDR_TYPE, 0x8C, 4), True), ((ACPI_ADDR_TYPE, 0x9C, 4), False)] \<Longrightarrow> (r, st) \<in> set pch_map"
  unfolding pch_map_def by (simp only: set_append Un_iff) blast

lemma pch_source_standard:
  "pch_source SW_SOURCE_DESC" "pch_source SX_SOURCE_DESC" "pch_source POWER_BUTTON_SOURCE_DESC"
  "pch_source mUSB1_LEGACY" "pch_source mUSB3_LEGACY" "pch_source PERIODIC_TIMER_DESC" "pch_source SWSMI_TIMER_DESC"
  by (simp_all add: pch_source_def source_ok_def bits_of_def desc_in_def good_desc_def desc_size_def reg_of_def in_map
      IS_BIT_DESC_NULL_def source_defs regs)

lemmas in_source_defs = pch_source_def source_ok_def bits_of_def desc_in_def good_desc_def desc_size_def reg_of_def
  IS_BIT_DESC_NULL_def

lemma pch_source_pch:
  "pch_source mDescSrcTcoSts" "pch_source mSrcDescMch" "pch_source mSrcDescTcoTimeout" "pch_source mSrcDescOsTco"
  "pch_source mSrcDescNmi" "pch_source mSrcDescIntruderDet" "pch_source mSrcDescNewCentury" "pch_source mSrcDescPme"
  "pch_source mSrcDescPmeB0" "pch_source mSrcDescRtcAlarm" "pch_source mSrcDescTmrOverflow" "pch_source mSrcDescGpioUnlock"
  "pch_source mSrcDescSerialIrq" "pch_source mSrcDescMcSmi" "pch_source mSrcDescSmbus"
  by (simp_all add: in_source_defs in_map source_defs regs)

lemma pch_source_trap:
  assumes "i < 4" shows "pch_source (mSrcDescIoTrap i)"
proof -
  have "i = 0 \<or> i = 1 \<or> i = 2 \<or> i = 3" using assms by auto
  then show ?thesis
    by (elim disjE)
      (simp_all add: mSrcDescIoTrap_def in_source_defs in_map source_defs regs pch_map_def Pcr_Offset_def PCH_PCR_ADDRESS_def)
qed

lemma pch_source_rp:
  assumes "(Dev, Fun) \<in> set rp_functions"
    and "T \<in> {PchPcieSmiRpHotPlugTemplate, PchPcieSmiRpLinkActiveTemplate, PchPcieSmiRpLinkEqTemplate}"
  shows "pch_source (patch_source (ucast Dev) (ucast Fun) T)"
proof -
  have reg: "((PCIE_ADDR_TYPE, pcie_raw Dev Fun R, 4), R = R_PCH_PCIE_SMSCS) \<in> set pch_map"
    if "R \<in> {R_PCH_PCIE_MPC, R_PCH_PCIE_SMSCS, R_PCH_PCIE_EQCFG1}" for R
    using assms(1) that unfolding pch_map_def by (auto simp: image_iff regs intro!: bexI [of _ "(Dev, Fun)"])
  have patch: "patch_rp (ucast Dev) (ucast Fun) (bit_desc PCIE_ADDR_TYPE R n b) = bit_desc PCIE_ADDR_TYPE (pcie_raw Dev Fun R) n b"
    if "R \<in> {R_PCH_PCIE_MPC, R_PCH_PCIE_SMSCS, R_PCH_PCIE_EQCFG1}" for R n b
    using assms(1) that by (auto simp: rp_functions_def patch_rp_def bit_desc_def pcie_raw_def regs)
  have ok: "desc_in pch_map (R = R_PCH_PCIE_SMSCS) (bit_desc PCIE_ADDR_TYPE (pcie_raw Dev Fun R) 4 b)"
    if "R \<in> {R_PCH_PCIE_MPC, R_PCH_PCIE_SMSCS, R_PCH_PCIE_EQCFG1}" "b \<in> {1, 4, 5, 21}" for R b
    using reg [OF that(1)] that(2) by (auto simp: desc_in_def good_desc_def desc_size_def reg_of_def bit_desc_def)
  have ne: "R_PCH_PCIE_MPC \<noteq> R_PCH_PCIE_SMSCS" "R_PCH_PCIE_EQCFG1 \<noteq> R_PCH_PCIE_SMSCS"
    by (simp_all add: regs)
  note ok' = ok [of R_PCH_PCIE_MPC, simplified ne] ok [of R_PCH_PCIE_SMSCS, simplified] ok [of R_PCH_PCIE_EQCFG1, simplified ne]
  show ?thesis
    using assms(2)
    by (elim insertE emptyE)
      (simp_all add: patch_source_def PchPcieSmiRpHotPlugTemplate_def PchPcieSmiRpLinkActiveTemplate_def
        PchPcieSmiRpLinkEqTemplate_def source_def pch_source_def source_ok_def bits_of_def patch ok' NUM_EN_BITS_def NUM_STS_BITS_def
        NULL_BIT_DESC_INITIALIZER_def IS_BIT_DESC_NULL_def S_PCH_PCIE_MPC_def S_PCH_PCIE_SMSCS_def S_PCH_PCIE_EQCFG1_def
        N_PCH_PCIE_MPC_HPME_def N_PCH_PCIE_SMSCS_HPPDM_def N_PCH_PCIE_SMSCS_HPLAS_def N_PCH_PCIE_EQCFG1_LERSMIE_def
        N_PCH_PCIE_SMSCS_LERSMIS_def)
qed

end
