(* ===== verification/SmmEnables.thy ===== *)
theory SmmEnables
  imports SmmRegister SmmMap
begin

text \<open>
  The bits that the sources of the registered children use, and what unregistering a child and programming the
  timers does to them on the chip of SmmMap.
\<close>

section \<open>The bits in use\<close>

definition used :: "callback_db \<Rightarrow> PCH_SMM_BIT_DESC \<Rightarrow> bool" where
  "used db e \<longleftrightarrow> (\<exists>p \<in> set db. any_bit (En (SrcDesc (snd p))) e)"

lemma used_simps [simp]:
  "\<not> used [] e" "used ((h, r) # db) e \<longleftrightarrow> any_bit (En (SrcDesc r)) e \<or> used db e"
  "used (db @ db') e \<longleftrightarrow> used db e \<or> used db' e"
  by (auto simp: used_def)

lemma used_cong: "same_bit d e \<Longrightarrow> used db d \<longleftrightarrow> used db e"
  unfolding used_def using any_bit_cong by blast

lemma same_bit_null: "same_bit d e \<Longrightarrow> IS_BIT_DESC_NULL d \<longleftrightarrow> IS_BIT_DESC_NULL e"
  by (auto simp: same_bit_def IS_BIT_DESC_NULL_def)

lemma equal_any_source:
  assumes "pch_source x" "\<not> IS_BIT_DESC_NULL d"
  shows "IsBitEqualToAnySourceEn d x \<longleftrightarrow> any_bit (En x) d"
proof -
  have "length (En x) = NUM_EN_BITS" using assms(1) by (simp add: pch_source_def source_ok_def)
  then have "IsBitEqualToAnySourceEn d x \<longleftrightarrow> (\<exists>e \<in> set (En x). same_bit d e)"
    by (auto simp: IsBitEqualToAnySourceEn_def set_conv_nth)
  then show ?thesis using assms(2) same_bit_null unfolding any_bit_def by blast
qed

definition sources_ok :: "callback_db \<Rightarrow> bool" where
  "sources_ok db \<longleftrightarrow> (\<forall>p \<in> set db. pch_source (SrcDesc (snd p)))"

lemma any_source_used:
  "sources_ok db \<Longrightarrow> \<not> IS_BIT_DESC_NULL d \<Longrightarrow> list_ex (\<lambda>(_, r). IsBitEqualToAnySourceEn d (SrcDesc r)) db \<longleftrightarrow> used db d"
  using equal_any_source by (force simp: sources_ok_def used_def list_ex_iff)

section \<open>Unregistering\<close>

lemma exec_then: "exec (State_Monad.bind p (\<lambda>_. q)) s = exec q (exec p s)"
  by (simp add: run_bind split: prod.splits)

lemma sys_only_core: "sys_only p \<Longrightarrow> CallbackDataBase (exec p s) = CallbackDataBase s \<and> mTimers (exec p s) = mTimers s
    \<and> mReadyToLock (exec p s) = mReadyToLock s \<and> bases (exec p s) = bases s"
proof -
  assume "sys_only p"
  then obtain t where "exec p s = s\<lparr> smm_sys := t \<rparr>" by (auto simp: sys_only_def)
  then show ?thesis by simp
qed

lemmas core_keeps = sys_only_core [OF sys_only_on_sys] sys_only_core [OF sys_only_sources(1)]
  sys_only_core [OF sys_only_sources(2)] sys_only_core [OF sys_only_sources(3)]

lemma run_disable_unused:
  assumes "at_pch s" "bits_of pch_en ds" "sources_ok db" "t = exec (disable_unused pch_hw db ds) s"
  shows "at_pch t \<and> (\<forall>e. pch_en e \<longrightarrow> (bit_at t e \<longleftrightarrow> bit_at s e \<and> (any_bit ds e \<longrightarrow> used db e)))"
  using assms
proof (induction ds arbitrary: s)
  case (Cons d ds)
  have ds: "bits_of pch_en ds" using Cons.prems(2) by (simp add: bits_of_def)
  show ?case
  proof (cases "IS_BIT_DESC_NULL d")
    case True
    then show ?thesis using Cons.IH [OF Cons.prems(1) ds Cons.prems(3)] Cons.prems(4) by simp
  next
    case False
    have d: "pch_en d" using Cons.prems(2) False by (simp add: bits_of_def)
    have same: "same_bit e d \<Longrightarrow> used db e \<longleftrightarrow> used db d" for e by (rule used_cong)
    show ?thesis
    proof (cases "used db d")
      case True
      then have "t = exec (disable_unused pch_hw db ds) s"
        unfolding Cons.prems(4)
        by (simp only: disable_unused.simps any_source_used [OF Cons.prems(3) False] False if_False if_True)
      note t = Cons.IH [OF Cons.prems(1) ds Cons.prems(3) this]
      have "bit_at t e \<longleftrightarrow> bit_at s e \<and> (any_bit (d # ds) e \<longrightarrow> used db e)" if "pch_en e" for e
        using t True same [of e] that False by (cases "same_bit e d") simp_all
      then show ?thesis using t by blast
    next
      case unused: False
      define u where "u = exec (WriteBitDesc pch_hw d False False) s"
      have u: "at_pch u \<and> (\<forall>e. pch_en e \<or> pch_sts e \<longrightarrow> bit_at u e = (if same_bit e d then False else bit_at s e))"
        by (rule pch.writes_en [OF Cons.prems(1) d u_def [symmetric]])
      have "t = exec (disable_unused pch_hw db ds) u"
        unfolding Cons.prems(4)
        by (simp only: disable_unused.simps any_source_used [OF Cons.prems(3) False] False unused if_False exec_then u_def)
      note t = Cons.IH [OF u [THEN conjunct1] ds Cons.prems(3) this]
      have "bit_at t e \<longleftrightarrow> bit_at s e \<and> (any_bit (d # ds) e \<longrightarrow> used db e)" if "pch_en e" for e
        using t u unused same [of e] that False by (cases "same_bit e d") simp_all
      then show ?thesis using t by blast
    qed
  qed
qed (simp add: hwrun)

section \<open>Timers\<close>

definition timer_bit :: "SUPPORTED_TIMER \<Rightarrow> PCH_SMM_BIT_DESC" where
  "timer_bit t = En (mTIMER_SOURCE_DESCS t) ! 0"

lemma any_timer_bit: "any_bit (En (mTIMER_SOURCE_DESCS t)) e \<longleftrightarrow> same_bit e (timer_bit t)"
  by (cases t) (auto simp: timer_bit_def mTIMER_SOURCE_DESCS_def PERIODIC_TIMER_DESC_def SWSMI_TIMER_DESC_def source_def
      NULL_BIT_DESC_INITIALIZER_def IS_BIT_DESC_NULL_def smi_en_def bit_desc_def)

lemma timer_bits_differ: "same_bit e (timer_bit PERIODIC_TIMER) \<Longrightarrow> \<not> same_bit e (timer_bit SWSMI_TIMER)"
  by (auto simp: timer_bit_def mTIMER_SOURCE_DESCS_def same_bit_def source_defs regs)

lemma pch_timer_source: "pch_source (mTIMER_SOURCE_DESCS t)"
  using pch_source_standard by (cases t) (simp_all add: mTIMER_SOURCE_DESCS_def)

text \<open>Periodic timers have a known interval, and no other record uses the bits of the timers.\<close>

definition uses_timer :: "SUPPORTED_TIMER \<Rightarrow> DATABASE_RECORD \<Rightarrow> bool" where
  "uses_timer t r \<longleftrightarrow> ProtocolType r = PeriodicTimerType \<and>
     map_option AssociatedTimer (ContextToTimerInterval (ChildContext r)) = Some t"

definition record_ok :: "DATABASE_RECORD \<Rightarrow> bool" where
  "record_ok r \<longleftrightarrow> pch_source (SrcDesc r) \<and>
     (if ProtocolType r = PeriodicTimerType
      then (\<exists>t. uses_timer t r \<and> SrcDesc r = mTIMER_SOURCE_DESCS t)
      else (\<forall>t \<in> {PERIODIC_TIMER, SWSMI_TIMER}. \<not> any_bit (En (SrcDesc r)) (timer_bit t)))"

definition db_ok :: "callback_db \<Rightarrow> bool" where
  "db_ok db \<longleftrightarrow> distinct (0 # map fst db) \<and> (\<forall>p \<in> set db. record_ok (snd p))"

lemma db_ok_sources: "db_ok db \<Longrightarrow> sources_ok db"
  by (simp add: db_ok_def sources_ok_def record_ok_def)

lemma record_timer_bit:
  assumes "record_ok r" shows "any_bit (En (SrcDesc r)) (timer_bit t) \<longleftrightarrow> uses_timer t r"
proof -
  have "u = t" if "any_bit (En (mTIMER_SOURCE_DESCS u)) (timer_bit t)" for u
    using that any_timer_bit [of u "timer_bit t"] timer_bits_differ [of "timer_bit t"] timer_bits_differ [of "timer_bit u"] same_bit_sym same_bit_refl
    by (metis SUPPORTED_TIMER.exhaust)
  then show ?thesis
    using assms any_timer_bit [of t "timer_bit t"] by (cases t) (auto simp: record_ok_def uses_timer_def split: if_splits)
qed

lemma length_handles:
  assumes "distinct (0 # map fst (db :: callback_db))" shows "length db < 2 ^ 64"
proof -
  have "length (0 # map fst db) = card (set (0 # map fst db))" using assms distinct_card by metis
  also have "\<dots> \<le> card (UNIV :: u64 set)" by (rule card_mono) simp_all
  finally show ?thesis by (simp add: card_word)
qed

lemma collect_timers_counts:
  "\<forall>p \<in> set db. record_ok (snd p) \<Longrightarrow>
   fst (collect_timers db T) \<and> NumChildren (snd (collect_timers db T) t) = NumChildren (T t) + of_nat (length (filter (\<lambda>p. uses_timer t (snd p)) db))"
proof (induction db arbitrary: T)
  case (Cons p db)
  obtain h r where p: "p = (h, r)" by (rule prod.exhaust)
  show ?case
  proof (cases "ProtocolType r = PeriodicTimerType")
    case True
    then obtain i where i: "ContextToTimerInterval (ChildContext r) = Some i"
      using Cons.prems by (auto simp: p record_ok_def uses_timer_def)
    show ?thesis using Cons True i by (auto simp: p uses_timer_def Let_def)
  qed (use Cons in \<open>auto simp: p uses_timer_def\<close>)
qed simp

lemma timer_children:
  assumes "db_ok db" "collect_timers db (reset_timers T0) = (k, T)"
  shows "k" "NumChildren (T t) > 0 \<longleftrightarrow> used db (timer_bit t)"
proof -
  let ?n = "length (filter (\<lambda>p. uses_timer t (snd p)) db)"
  have ok: "\<forall>p \<in> set db. record_ok (snd p)" and "length db < 2 ^ 64"
    using assms(1) length_handles by (auto simp: db_ok_def simp del: distinct.simps)
  then have "?n mod 2 ^ 64 = ?n"
    using length_filter_le [of "\<lambda>p. uses_timer t (snd p)" db] by (intro mod_less) linarith
  then have "(of_nat ?n :: u64) > 0 \<longleftrightarrow> ?n > 0"
    by (simp add: word_less_nat_alt unat_of_nat)
  also have "\<dots> \<longleftrightarrow> used db (timer_bit t)"
    using ok record_timer_bit by (auto simp: used_def filter_empty_conv simp del: length_0_conv)
  finally show "NumChildren (T t) > 0 \<longleftrightarrow> used db (timer_bit t)"
    using collect_timers_counts [OF ok, of "reset_timers T0" t] assms(2) by (simp add: reset_timers_def)
  show "k" using collect_timers_counts [OF ok, of "reset_timers T0" t] assms(2) by simp
qed

text \<open>The timer rate registers of the power management controller hold no enable bit of a source.\<close>

definition pmc_reg :: "smi_reg \<Rightarrow> bool" where
  "pmc_reg r \<longleftrightarrow> r = (PCIE_ADDR_TYPE, pcie_raw 31 2 0xA0, 1) \<or> r = (PCIE_ADDR_TYPE, pcie_raw 31 2 0xA4, 1)"

abbreviation tracked :: "PCH_SMM_BIT_DESC \<Rightarrow> bool" where "tracked e \<equiv> pch_en e \<and> \<not> pmc_reg (reg_of e)"

lemma pmc_write:
  fixes s :: "('l chip, 'z) smm_scheme"
  assumes "at_pch s" "tracked e" "R = R_PCH_PMC_GEN_PMCON_A \<or> R = R_PCH_PMC_GEN_PMCON_B" "io = (pch_hw :: 'l chip io_hw)"
  shows "bit_at (exec (on_sys (MmioWrite8 (mm io) (PmcBase (mm io) + R) v)) s) e = bit_at s e"
proof -
  let ?r = "(PCIE_ADDR_TYPE, pcie_raw 31 2 R, 1) :: smi_reg"
  have d: "reg_of (reg_desc ?r) = ?r" "good_desc (reg_desc ?r)" "desc_addr (bases s) (reg_desc ?r) = (False, ecam 0 31 2 + R)"
    "desc_size (reg_desc ?r) = 1"
    using assms(3) by (auto simp: reg_of_def reg_desc_def good_desc_def desc_size_def desc_addr_def pcie_raw_def place_defs regs)
  have "(?r, False) \<in> set pch_map" using assms(3) by (auto simp: pch_map_def regs)
  moreover have "?r \<noteq> reg_of e" using assms(2,3) by (auto simp: pmc_reg_def regs)
  ultimately have "regs_differ (bases s) (reg_of (reg_desc ?r)) (reg_of e)"
    using assms(1,2) map_differ [OF pch_map_ok, of ?r False "reg_of e" False] unfolding d(1) by (auto simp: desc_in_def)
  from bit_at_put_other [OF d(2) _ this, of "status_mask pch_bases pch_map False" "status_mask pch_bases pch_map True" v]
  show ?thesis
    using assms(2) d by (simp add: assms(4) desc_in_def run_on_sys put_at_def pch_hw_def map_hw_def PmcBase_def DEFAULT_PCI_BUS_NUMBER_PCH_def)
qed

lemma bases_set_timer [simp]: "bases (exec (set_timer t r) s) = bases s" "bit_at (exec (set_timer t r) s) e = bit_at s e"
  "CallbackDataBase (exec (set_timer t r) s) = CallbackDataBase s"
  by (auto simp: set_timer_def bases_def bit_at_def split: option.splits prod.splits)

lemma exec_bind_read:
  assumes "run_state p s = (a, s)" shows "exec (State_Monad.bind p f) s = exec (f a) s"
  using assms by (simp add: run_bind)

lemma read_pmc: "\<exists>v. run_state (on_sys (MmioRead8 (mm pch_hw) a)) s = (v, s)"
  by (simp add: run_on_sys pch_hw_def map_hw_def)

lemma program_periodic_bits:
  fixes s :: "'l chip smm_core"
  assumes "at_pch s" "tracked e" "t = exec (program_periodic pch_hw T) s"
  shows "at_pch t \<and> CallbackDataBase t = CallbackDataBase s \<and>
    (bit_at t e \<longleftrightarrow> bit_at s e \<and> (NumChildren T > 0 \<or> \<not> same_bit e (timer_bit PERIODIC_TIMER)))"
proof (cases "NumChildren T > 0")
  case True
  let ?io = "pch_hw :: 'l chip io_hw"
  obtain v where v: "run_state (on_sys (MmioRead8 (mm ?io) (PmcBase (mm ?io) + R_PCH_PMC_GEN_PMCON_A))) s = (v, s)"
    using read_pmc by blast
  define u where "u = exec (set_timer PERIODIC_TIMER (periodic_rate (MinReqInterval T))) s"
  have "\<exists>x. t = exec (PchSmmClearSource pch_hw PERIODIC_TIMER_DESC)
      (exec (on_sys (MmioWrite8 (mm ?io) (PmcBase (mm ?io) + R_PCH_PMC_GEN_PMCON_A) x)) u)"
    unfolding assms(3) program_periodic_def
    by (simp only: True if_True exec_bind_read [OF v] exec_then u_def mTIMER_SOURCE_DESCS_def SUPPORTED_TIMER.case)
      (rule exI, rule refl)
  then obtain x w where w: "t = exec (PchSmmClearSource pch_hw PERIODIC_TIMER_DESC) w"
    "w = exec (on_sys (MmioWrite8 (mm ?io) (PmcBase (mm ?io) + R_PCH_PMC_GEN_PMCON_A) x)) u"
    by blast
  have u: "at_pch u" "bit_at u e = bit_at s e" "CallbackDataBase u = CallbackDataBase s" by (simp_all add: u_def assms(1))
  have w': "at_pch w" "bit_at w e = bit_at s e" "CallbackDataBase w = CallbackDataBase s"
    by (simp_all only: w(2) u pmc_write [OF u(1) assms(2) disjI1 [OF refl] refl] core_keeps)
  from pch.clear_source [OF w'(1) _ w(1)] pch_source_standard(6) w' True assms(2)
  show ?thesis by (simp add: w(1) pch_source_def core_keeps)
next
  case False
  then have t: "t = exec (PchSmmDisableSource pch_hw (mTIMER_SOURCE_DESCS PERIODIC_TIMER)) s"
    using assms(3) by (simp add: program_periodic_def)
  from pch.disable_source [OF assms(1) pch_timer_source [unfolded pch_source_def] t] assms(1,2)
  show ?thesis using False by (simp add: any_timer_bit t core_keeps)
qed

lemma program_swsmi_bits:
  fixes s :: "'l chip smm_core"
  assumes "at_pch s" "tracked e" "t = exec (program_swsmi pch_hw T) s"
  shows "at_pch t \<and> CallbackDataBase t = CallbackDataBase s \<and>
    (bit_at t e \<longleftrightarrow> (if same_bit e (timer_bit SWSMI_TIMER) then NumChildren T > 0 else bit_at s e))"
proof (cases "NumChildren T > 0")
  case True
  let ?io = "pch_hw :: 'l chip io_hw" and ?d = "mTIMER_SOURCE_DESCS SWSMI_TIMER"
  obtain v where v: "run_state (on_sys (MmioRead8 (mm ?io) (PmcBase (mm ?io) + R_PCH_PMC_GEN_PMCON_B))) s = (v, s)"
    using read_pmc by blast
  define u where "u = exec (set_timer SWSMI_TIMER (swsmi_rate (MinReqInterval T))) s"
  have "\<exists>x. t = exec (PchSmmEnableSource ?io ?d) (exec (PchSmmClearSource ?io ?d) (exec (PchSmmDisableSource ?io ?d)
      (exec (on_sys (MmioWrite8 (mm ?io) (PmcBase (mm ?io) + R_PCH_PMC_GEN_PMCON_B) x)) u)))"
    unfolding assms(3) program_swsmi_def
    by (simp only: True if_True exec_bind_read [OF v] exec_then u_def) (rule exI, rule refl)
  then obtain x w y z where w: "t = exec (PchSmmEnableSource ?io ?d) z" "z = exec (PchSmmClearSource ?io ?d) y"
    "y = exec (PchSmmDisableSource ?io ?d) w"
    "w = exec (on_sys (MmioWrite8 (mm ?io) (PmcBase (mm ?io) + R_PCH_PMC_GEN_PMCON_B) x)) u"
    by blast
  have u: "at_pch u" "bit_at u e = bit_at s e" "CallbackDataBase u = CallbackDataBase s" by (simp_all add: u_def assms(1))
  have w': "at_pch w" "bit_at w e = bit_at s e" "CallbackDataBase w = CallbackDataBase s"
    by (simp_all only: w(4) u pmc_write [OF u(1) assms(2) disjI2 [OF refl] refl] core_keeps)
  note ok = pch_timer_source [of SWSMI_TIMER, unfolded pch_source_def]
  note y = pch.disable_source [OF w'(1) ok w(3)]
  note z = pch.clear_source [OF y(1) ok w(2)]
  note t = pch.enable_source [OF z(1) ok w(1)]
  have "CallbackDataBase t = CallbackDataBase s"
    by (simp only: w(1-3) w'(3) core_keeps)
  then show ?thesis using t(1) t(2) [of e] z(2) [of e] y(2) [of e] w'(2) assms(2) True by (simp add: any_timer_bit)
next
  case False
  then have t: "t = exec (PchSmmDisableSource pch_hw (mTIMER_SOURCE_DESCS SWSMI_TIMER)) s"
    using assms(3) by (simp add: program_swsmi_def)
  from pch.disable_source [OF assms(1) pch_timer_source [unfolded pch_source_def] t] assms(1,2)
  show ?thesis using False by (simp add: any_timer_bit t core_keeps)
qed

text \<open>Programming the timers switches the software SMI timer on or off as it is used, and the periodic timer off when
  it is not used.\<close>

lemma program_timers_bits:
  fixes s :: "'l chip smm_core"
  assumes "at_pch s" "tracked e" "db_ok (CallbackDataBase s)" "t = exec (PchSmmPeriodicTimerProgramTimers pch_hw) s"
  shows "at_pch t \<and> CallbackDataBase t = CallbackDataBase s \<and>
    (bit_at t e \<longleftrightarrow> (if same_bit e (timer_bit SWSMI_TIMER) then used (CallbackDataBase s) e
       else bit_at s e \<and> (same_bit e (timer_bit PERIODIC_TIMER) \<longrightarrow> used (CallbackDataBase s) e)))"
proof -
  obtain k T where T: "collect_timers (CallbackDataBase s) (reset_timers (mTimers s)) = (k, T)" by (rule prod.exhaust)
  have "k" by (rule timer_children(1) [OF assms(3) T])
  note n = timer_children(2) [OF assms(3) T]
  define u where "u = s\<lparr> mTimers := T \<rparr>"
  define v where "v = exec (program_periodic pch_hw (T PERIODIC_TIMER)) u"
  have t: "t = exec (program_swsmi pch_hw (T SWSMI_TIMER)) v"
    using \<open>k\<close> unfolding assms(4) PchSmmPeriodicTimerProgramTimers_def
    by (simp add: T u_def v_def run_bind exec_then split: prod.splits)
  have u: "at_pch u" "bit_at u e = bit_at s e" "CallbackDataBase u = CallbackDataBase s"
    by (simp_all add: u_def assms(1) [unfolded bases_def] bases_def bit_at_def)
  note v = program_periodic_bits [OF u(1) assms(2) v_def]
  note t = program_swsmi_bits [OF v [THEN conjunct1] assms(2) t]
  show ?thesis
    using t v u n used_cong [of e] by (cases "same_bit e (timer_bit PERIODIC_TIMER)") auto
qed

end
