(* ===== verification/SmmRuns.thy ===== *)
theory SmmRuns
  imports SmmEnables
begin

text \<open>
  Registering and unregistering keep the enable bits in step with the database: on the chip of SmmMap a bit is
  on exactly when the source of a registered child has it.
\<close>

section \<open>Registering\<close>

definition good_source :: "PCH_SMM_SOURCE_DESC \<Rightarrow> bool" where
  "good_source x \<longleftrightarrow> pch_source x \<and> \<not> CompareSources x NULL_SOURCE_DESC_INITIALIZER \<and>
     (\<forall>t \<in> {PERIODIC_TIMER, SWSMI_TIMER}. \<not> any_bit (En x) (timer_bit t))"

lemmas good_source_defs = timer_bit_def mTIMER_SOURCE_DESCS_def same_bit_def IS_BIT_DESC_NULL_def
  CompareSources_def CompareEnables_def CompareStatuses_def NULL_SOURCE_DESC_INITIALIZER_def NUM_EN_BITS_def NUM_STS_BITS_def
  Data_raw_def

lemma good_sources_standard:
  "good_source SW_SOURCE_DESC" "good_source SX_SOURCE_DESC" "good_source POWER_BUTTON_SOURCE_DESC"
  "good_source mUSB1_LEGACY" "good_source mUSB3_LEGACY"
  by (simp_all only: good_source_def simp_thms pch_source_standard) (simp_all add: good_source_defs source_defs regs)

lemma good_sources_pch:
  "good_source mSrcDescMch" "good_source mSrcDescTcoTimeout" "good_source mSrcDescOsTco"
  "good_source mSrcDescNmi" "good_source mSrcDescIntruderDet" "good_source mSrcDescNewCentury" "good_source mSrcDescPme"
  "good_source mSrcDescPmeB0" "good_source mSrcDescRtcAlarm" "good_source mSrcDescTmrOverflow" "good_source mSrcDescGpioUnlock"
  "good_source mSrcDescSerialIrq" "good_source mSrcDescMcSmi" "good_source mSrcDescSmbus"
  by (simp_all only: good_source_def simp_thms pch_source_pch) (simp_all add: good_source_defs source_defs regs)

lemma good_source_trap: "i < 4 \<Longrightarrow> good_source (mSrcDescIoTrap i)"
  by (simp only: good_source_def simp_thms pch_source_trap) (simp add: mSrcDescIoTrap_def good_source_defs source_defs regs)

lemma good_source_rp:
  assumes "(Dev, Fun) \<in> set rp_functions"
    and "T \<in> {PchPcieSmiRpHotPlugTemplate, PchPcieSmiRpLinkActiveTemplate, PchPcieSmiRpLinkEqTemplate}"
  shows "good_source (patch_source (ucast Dev) (ucast Fun) T)"
  using assms(2) pch_source_rp [OF assms]
  by (auto simp: good_source_def good_source_defs patch_source_def patch_rp_def source_defs regs)

definition keeps_bit :: "PCH_SMM_BIT_DESC \<Rightarrow> 'l chip smm_core \<Rightarrow> bool" where
  "keeps_bit e s \<longleftrightarrow> at_pch s \<and> db_ok (CallbackDataBase s) \<and> (bit_at s e \<longleftrightarrow> used (CallbackDataBase s) e)"

definition new_handle :: "'s smm_core \<Rightarrow> u64 option \<Rightarrow> bool" where
  "new_handle s Pool \<longleftrightarrow> (case Pool of None \<Rightarrow> True | Some h \<Rightarrow> h \<noteq> 0 \<and> h \<notin> fst ` set (CallbackDataBase s))"

text \<open>A record at the end of the database whose source is switched on.\<close>

lemma enable_inserted:
  fixes s :: "'l chip smm_core"
  assumes "keeps_bit e s" "tracked e" "new_handle s (Some h)" "record_ok r"
    and "at_pch u" "CallbackDataBase u = CallbackDataBase s @ [(h, r)]"
    and "bit_at u e \<or> any_bit (En (SrcDesc r)) e \<longleftrightarrow> bit_at s e \<or> any_bit (En (SrcDesc r)) e"
    and "t = exec (PchSmmEnableSource pch_hw (SrcDesc r)) u"
  shows "keeps_bit e t"
proof -
  have "source_ok pch_en pch_sts (SrcDesc r)" using assms(4) by (simp add: record_ok_def pch_source_def)
  note t = pch.enable_source [OF assms(5) this assms(8)]
  have "CallbackDataBase t = CallbackDataBase s @ [(h, r)]" by (simp add: assms(6,8) core_keeps)
  moreover have "db_ok (CallbackDataBase s @ [(h, r)])"
    using assms(1,3,4) by (auto simp: keeps_bit_def db_ok_def new_handle_def)
  ultimately show ?thesis using t(1) t(2) [of e] assms(1,2,7) by (auto simp: keeps_bit_def)
qed

lemma insert_record_facts [simp]:
  "CallbackDataBase (exec (insert_record h r) s) = CallbackDataBase s @ [(h, r)]"
  "bases (exec (insert_record h r) s) = bases s" "bit_at (exec (insert_record h r) s) e = bit_at s e"
  by (auto simp: insert_record_def bases_def bit_at_def split: prod.splits)

lemma store_record_end: "h \<notin> fst ` set db \<Longrightarrow> store_record h q (db @ [(h, r)]) = db @ [(h, q)]"
  by (induction db) (auto simp: store_record_def)

lemma map_of_end: "h \<notin> fst ` set db \<Longrightarrow> map_of (db @ [(h, r)]) h = Some r"
  by (induction db) auto

lemma set_clear_facts:
  assumes "h \<notin> fst ` set db" "CallbackDataBase s = db @ [(h, r)]"
  shows "CallbackDataBase (exec (set_clear h f) s) = db @ [(h, r\<lparr> ClearSource := f \<rparr>)]"
    "bases (exec (set_clear h f) s) = bases s" "bit_at (exec (set_clear h f) s) e = bit_at s e"
proof -
  have "map_of (CallbackDataBase s) h = Some r" by (simp only: assms(2) map_of_end [OF assms(1)])
  then have "exec (set_clear h f) s = put_record h (r\<lparr> ClearSource := f \<rparr>) s" by (simp add: set_clear_def)
  then show "CallbackDataBase (exec (set_clear h f) s) = db @ [(h, r\<lparr> ClearSource := f \<rparr>)]"
    "bases (exec (set_clear h f) s) = bases s" "bit_at (exec (set_clear h f) s) e = bit_at s e"
    by (simp_all add: put_record_def assms(2) store_record_end [OF assms(1)] bases_def bit_at_def)
qed

text \<open>The functions of the PCH protocols by their common parts.\<close>

definition pch_record :: "PCH_SMM_SOURCE_DESC \<Rightarrow> nat option \<Rightarrow> PCH_SMI_TYPES \<Rightarrow> PCH_SMM_CLEAR_SOURCE \<Rightarrow> DATABASE_RECORD" where
  "pch_record Src f t clear = \<lparr> SrcDesc = Src, Callback = None, ChildContext = \<lparr> W0 = 0, W1 = 0 \<rparr>,
     ClearSource = clear, ContextFunctions = NoContext, ProtocolType = PchSmiDispatchType, ElapsedTime = 0,
     PchSmiCallback = f, PchSmiType = t \<rparr>"

lemma run_PchSmiRecordInsert:
  "\<not> CompareSources Src NULL_SOURCE_DESC_INITIALIZER \<Longrightarrow> run_state (PchSmiRecordInsert Src f t (Some h)) s =
     ((EFI_SUCCESS, Some h), exec (insert_record h (pch_record Src f t C_Null)) s)"
  "run_state (PchSmiRecordInsert Src f t None) s = ((if CompareSources Src NULL_SOURCE_DESC_INITIALIZER then EFI_INVALID_PARAMETER else EFI_OUT_OF_RESOURCES, None), s)"
  by (simp_all add: PchSmiRecordInsert_def pch_record_def insert_record_def hwrun)

lemma pch_record_ok: "good_source Src \<Longrightarrow> record_ok (pch_record Src f t clear)"
  by (simp add: record_ok_def good_source_def pch_record_def)

lemma keeps_unless_locked: "keeps_bit e s \<Longrightarrow> (\<not> mReadyToLock s \<Longrightarrow> keeps_bit e (exec p s)) \<Longrightarrow> keeps_bit e (exec (unless_locked p) s)"
  by (simp add: unless_locked_def)

lemma clear_and_enable_inserted:
  fixes s :: "'l chip smm_core"
  assumes "keeps_bit e s" "tracked e" "new_handle s (Some h)" "good_source Src" "r = pch_record Src f t clear"
    and "at_pch u" "CallbackDataBase u = CallbackDataBase s @ [(h, r)]" "bit_at u e = bit_at s e"
    and "v = exec (clear_and_enable pch_hw Src) u"
  shows "keeps_bit e v"
proof -
  define w where "w = exec (PchSmmClearSource pch_hw Src) u"
  have src: "source_ok pch_en pch_sts Src" using assms(4) by (simp add: good_source_def pch_source_def)
  have v: "v = exec (PchSmmEnableSource pch_hw (SrcDesc r)) w"
    unfolding assms(5,9) clear_and_enable_def by (simp only: exec_then w_def pch_record_def DATABASE_RECORD.select_convs)
  note w = pch.clear_source [OF assms(6) src w_def]
  show ?thesis
    by (rule enable_inserted [OF assms(1-3) _ w(1) _ _ v])
      (use assms w(2) [of e] in \<open>auto simp: pch_record_ok w_def core_keeps\<close>)
qed

lemma keeps_tco_register:
  fixes s :: "'l chip smm_core"
  assumes "keeps_bit e s" "tracked e" "new_handle s Pool" "good_source Src"
  shows "keeps_bit e (exec (tco_register pch_hw Src t f F Pool) s)"
  unfolding tco_register_def
proof (rule keeps_unless_locked [OF assms(1)])
  have null: "\<not> CompareSources Src NULL_SOURCE_DESC_INITIALIZER" using assms(4) by (simp add: good_source_def)
  show "keeps_bit e (exec (do {
     (Status, h) \<leftarrow> PchSmiRecordInsert Src F t Pool;
     (case h of
        None \<Rightarrow> State_Monad.return (Status, h)
      | Some k \<Rightarrow> do {
          set_clear k f;
          PchSmmClearSource pch_hw Src;
          PchSmmEnableSource pch_hw Src;
          State_Monad.return (Status, h) }) }) s)"
  proof (cases Pool)
    case None
    then show ?thesis using assms(1) by (simp add: run_PchSmiRecordInsert(2))
  next
    case (Some h)
    define u where "u = exec (set_clear h f) (exec (insert_record h (pch_record Src F t C_Null)) s)"
    have new: "h \<notin> fst ` set (CallbackDataBase s)" using assms(3) Some by (simp add: new_handle_def)
    have r: "pch_record Src F t C_Null\<lparr> ClearSource := f \<rparr> = pch_record Src F t f" by (simp add: pch_record_def)
    have u: "CallbackDataBase u = CallbackDataBase s @ [(h, pch_record Src F t f)]" "bases u = bases s" "bit_at u e = bit_at s e"
      unfolding u_def set_clear_facts [OF new insert_record_facts(1)] r by simp_all
    show ?thesis
      by (rule clear_and_enable_inserted [OF assms(1,2) assms(3) [unfolded Some] assms(4) refl _ u(1,3)])
        (use assms(1) u(2) in \<open>simp_all add: Some run_PchSmiRecordInsert(1) [OF null] keeps_bit_def clear_and_enable_def u_def split: prod.splits\<close>)
  qed
qed

lemma keeps_plain_register:
  fixes s :: "'l chip smm_core"
  assumes "keeps_bit e s" "tracked e" "new_handle s (Some h)" "good_source Src"
  shows "keeps_bit e (exec (plain_register pch_hw Src t F (Some h)) s)"
proof -
  have null: "\<not> CompareSources Src NULL_SOURCE_DESC_INITIALIZER" using assms(4) by (simp add: good_source_def)
  show ?thesis
    by (rule clear_and_enable_inserted [OF assms refl, where u = "exec (insert_record h (pch_record Src F t C_Null)) s"])
      (use assms(1) in \<open>simp_all add: run_PchSmiRecordInsert(1) [OF null] plain_register_def keeps_bit_def clear_and_enable_def split: prod.splits\<close>)
qed

text \<open>Programs that only read the device.\<close>

definition reads_dev :: "('s, 'a) prog \<Rightarrow> bool" where
  "reads_dev p \<longleftrightarrow> (\<forall>t. dev (snd (run_state p t)) = dev t)"

lemma reads_dev_return: "reads_dev (State_Monad.return a)"
  by (simp add: reads_dev_def hwrun)

lemma reads_dev_bind: "reads_dev p \<Longrightarrow> (\<And>a. reads_dev (f a)) \<Longrightarrow> reads_dev (State_Monad.bind p f)"
  by (auto simp: reads_dev_def hwrun split: prod.splits) (metis snd_conv)

lemma reads_dev_if: "reads_dev p \<Longrightarrow> reads_dev q \<Longrightarrow> reads_dev (if c then p else q)"
  by simp

lemma reads_dev_mmio: "reads_dev (MmioRead8 (mm pch_hw) a)" "reads_dev (MmioRead16 (mm pch_hw) a)" "reads_dev (MmioRead32 (mm pch_hw) a)"
  by (simp_all add: reads_dev_def pch_hw_def map_hw_def)

lemma reads_dev_series: "reads_dev (GetPchSeries (mm pch_hw))"
  by (auto simp: reads_dev_def GetPchSeries_def hwrun pch_hw_def map_hw_def)

lemma reads_dev_pcr: "reads_dev (PchPcrRead32 (mm pch_hw) p R v)"
  by (auto simp: reads_dev_def PchPcrRead32_def PchPcrRead_def hwrun pch_hw_def map_hw_def)

lemma reads_dev_ports: "reads_dev (GetPchMaxPciePortNum (mm pch_hw))"
  unfolding GetPchMaxPciePortNum_def by_series_def
  by (intro reads_dev_bind reads_dev_return reads_dev_series) 

lemma reads_dev_RpDevFun: "reads_dev (GetPchPcieRpDevFun (mm pch_hw) RpNumber d)"
  unfolding GetPchPcieRpDevFun_def Let_def
  by (intro reads_dev_bind reads_dev_if reads_dev_return reads_dev_ports) (auto intro!: reads_dev_bind reads_dev_return reads_dev_pcr)

lemma reads_dev_keeps:
  assumes "reads_dev p"
  shows "CallbackDataBase (exec (on_sys p) s) = CallbackDataBase s" "mReadyToLock (exec (on_sys p) s) = mReadyToLock s"
    "bases (exec (on_sys p) s) = bases s" "bit_at (exec (on_sys p) s) e = bit_at s e"
  using assms by (auto simp: run_on_sys reads_dev_def bit_at_def bases_def split: prod.splits) (metis snd_conv)+

section \<open>The standard protocols\<close>

lemma usb_source:
  assumes "fst (DevicePathToSupportedController dp k) = EFI_SUCCESS" "Usb_Type c = UsbLegacy"
  shows "MapUsbToSrcDesc dp k c x \<in> {mUSB1_LEGACY, mUSB3_LEGACY}"
  using assms
  by (auto simp: MapUsbToSrcDesc_def DevicePathToSupportedController_def mUsbControllersMap_def regs
      split: list.splits dp_node.splits option.splits if_splits)

definition usb_known :: "'s smm_env \<Rightarrow> PCH_SMM_CONTEXT \<Rightarrow> bool" where
  "usb_known env c \<longleftrightarrow> Usb_Type c = UsbLegacy \<and>
     fst (DevicePathToSupportedController (path_at env (Usb_Device c)) (Controller0 env)) = EFI_SUCCESS"

lemma core_source_quiet:
  assumes "t \<in> {SxType, SwType, PowerButtonType} \<or> t = UsbType \<and> usb_known env c"
  shows "\<exists>x. run_state (core_source env t c) s = (x, s) \<and>
    (\<forall>Src clear c'. x = Some (Src, clear, c') \<longrightarrow> good_source Src \<and> clear = C_Null)"
proof -
  have "good_source (MapUsbToSrcDesc (path_at env (Usb_Device c)) (Controller0 env) c zero_source_desc)" if "usb_known env c"
    using usb_source [of "path_at env (Usb_Device c)" "Controller0 env" c zero_source_desc] that good_sources_standard
    by (auto simp: usb_known_def)
  then show ?thesis
    using assms good_sources_standard by (auto simp: core_source_def hwrun)
qed

lemma new_record_ok: "good_source Src \<Longrightarrow> t \<noteq> PeriodicTimerType \<Longrightarrow> record_ok (new_record t f Src clear c)"
  by (simp add: record_ok_def good_source_def new_record_def)

lemma keeps_register_quiet:
  fixes s :: "'l chip smm_core"
  assumes "keeps_bit e s" "tracked e" "new_handle s Pool" "sys_io env = pch_hw"
    and "t \<in> {SxType, SwType, PowerButtonType} \<or> t = UsbType \<and> usb_known env c"
  shows "keeps_bit e (exec (PchSmmCoreRegister env t f c Pool) s)"
proof -
  obtain x where x: "run_state (core_source env t c) s = (x, s)"
    "\<forall>Src clear c'. x = Some (Src, clear, c') \<longrightarrow> good_source Src \<and> clear = C_Null"
    using core_source_quiet [OF assms(5)] by blast
  show ?thesis
  proof (cases "Pool = None \<or> x = None")
    case True
    then show ?thesis using assms(1) x by (cases Pool) (auto simp: PchSmmCoreRegister_def)
  next
    case False
    then obtain h Src c' where h: "Pool = Some h" "x = Some (Src, C_Null, c')" "good_source Src"
      using x(2) by (cases x) auto
    let ?r = "new_record t f Src C_Null c'"
    define u where "u = exec (PchSmmClearSource pch_hw Src) (exec (insert_record h ?r) s)"
    have t: "exec (PchSmmCoreRegister env t f c Pool) s = exec (PchSmmEnableSource pch_hw (SrcDesc ?r)) u"
      using h(3) x(1) unfolding u_def
      by (simp add: PchSmmCoreRegister_def h assms(4) good_source_def new_record_def split: prod.splits)
    have src: "source_ok pch_en pch_sts Src" using h(3) by (simp add: good_source_def pch_source_def)
    have "at_pch (exec (insert_record h ?r) s)" using assms(1) by (simp add: keeps_bit_def)
    from pch.clear_source [OF this src u_def] have u: "at_pch u" "bit_at u e = bit_at s e" using assms(2) by simp_all
    show ?thesis
      by (rule enable_inserted [OF assms(1,2) assms(3) [unfolded h] _ u(1) _ _ t])
        (use assms(5) h(3) u in \<open>auto simp: u_def core_keeps intro!: new_record_ok\<close>)
  qed
qed

lemma timer_not_null: "\<not> CompareSources (mTIMER_SOURCE_DESCS t) NULL_SOURCE_DESC_INITIALIZER"
  by (cases t) (simp_all add: good_source_defs source_defs regs)

lemma keeps_program_timers:
  fixes s :: "'l chip smm_core"
  assumes "keeps_bit e s" "tracked e" "t = exec (PchSmmPeriodicTimerProgramTimers pch_hw) s"
  shows "keeps_bit e t" "CallbackDataBase t = CallbackDataBase s"
  using program_timers_bits [OF _ assms(2) _ assms(3)] assms(1) by (auto simp: keeps_bit_def)

lemma keeps_register_timer:
  fixes s :: "'l chip smm_core"
  assumes "keeps_bit e s" "tracked e" "new_handle s Pool" "sys_io env = pch_hw" "ContextToTimerInterval c = Some i"
  shows "keeps_bit e (exec (PchSmmCoreRegister env PeriodicTimerType f c Pool) s)"
proof (cases "Pool = None \<or> SmiTickInterval c \<le> 0")
  case True
  then show ?thesis using assms(1) by (cases Pool) (auto simp: PchSmmCoreRegister_def core_source_def)
next
  case False
  then obtain h where h: "Pool = Some h" by auto
  let ?Src = "mTIMER_SOURCE_DESCS (AssociatedTimer i)"
  let ?r = "new_record PeriodicTimerType f ?Src C_PeriodicTimer c"
  define v where "v = exec (PchSmmPeriodicTimerProgramTimers pch_hw) s"
  define w where "w = exec (insert_record h ?r) v"
  define u where "u = exec (PchSmmPeriodicTimerProgramTimers pch_hw) w"
  have t: "exec (PchSmmCoreRegister env PeriodicTimerType f c Pool) s = exec (PchSmmEnableSource pch_hw (SrcDesc ?r)) u"
    using False unfolding u_def v_def w_def
    by (simp add: PchSmmCoreRegister_def core_source_def MapPeriodicTimerToSrcDesc_def h assms(4,5) timer_not_null
        split: prod.splits) (simp add: new_record_def)
  note v = keeps_program_timers [OF assms(1,2) v_def]
  have r: "record_ok ?r" using assms(5) pch_timer_source by (auto simp: record_ok_def new_record_def uses_timer_def)
  have w: "at_pch w" "CallbackDataBase w = CallbackDataBase v @ [(h, ?r)]" "bit_at w e = bit_at v e"
    using v(1) by (simp_all add: w_def keeps_bit_def)
  have new: "new_handle v (Some h)" using assms(3) h v(2) by (simp add: new_handle_def)
  have "db_ok (CallbackDataBase w)"
    using v(1) new r unfolding w(2) by (auto simp: keeps_bit_def db_ok_def new_handle_def)
  note u = program_timers_bits [OF w(1) assms(2) this u_def]
  have "En (SrcDesc ?r) = En ?Src" by (simp add: new_record_def)
  then have "bit_at u e \<or> any_bit (En (SrcDesc ?r)) e \<longleftrightarrow> bit_at v e \<or> any_bit (En (SrcDesc ?r)) e"
    using u v(1) unfolding w(2,3) by (auto simp: keeps_bit_def)
  with u w show ?thesis by (intro enable_inserted [OF v(1) assms(2) new r _ _ _ t]) simp_all
qed

section \<open>The protocols of the PCH\<close>

lemma keeps_tco:
  fixes s :: "'l chip smm_core"
  assumes "keeps_bit e s" "tracked e" "new_handle s Pool" "sys_io env = pch_hw"
    and "p \<in> {PchTcoSmiMchRegister env, PchTcoSmiTcoTimeoutRegister env, PchTcoSmiOsTcoRegister env, PchTcoSmiNmiRegister env,
      PchTcoSmiIntruderDetRegister env}"
  shows "keeps_bit e (exec (p f Pool) s)"
  using assms(5)
  by (auto simp: PchTcoSmiMchRegister_def PchTcoSmiTcoTimeoutRegister_def PchTcoSmiOsTcoRegister_def PchTcoSmiNmiRegister_def
      PchTcoSmiIntruderDetRegister_def assms(4) good_sources_pch intro!: keeps_tco_register [OF assms(1-3)])

lemma keeps_plain:
  fixes s :: "'l chip smm_core"
  assumes "keeps_bit e s" "tracked e" "new_handle s (Some h)" "sys_io env = pch_hw"
    and "p \<in> {PchAcpiSmiPmeRegister env, PchAcpiSmiPmeB0Register env, PchAcpiSmiRtcAlarmRegister env,
      PchAcpiSmiTmrOverflowRegister env, PchGpioUnlockSmiRegister env, PchSmiSerialIrqRegister env, PchSmiMcSmiRegister env,
      PchSmiSmbusRegister env}"
  shows "keeps_bit e (exec (p f (Some h)) s)"
  using assms(5)
  by (auto simp: PchAcpiSmiPmeRegister_def PchAcpiSmiPmeB0Register_def PchAcpiSmiRtcAlarmRegister_def
      PchAcpiSmiTmrOverflowRegister_def PchGpioUnlockSmiRegister_def PchSmiSerialIrqRegister_def PchSmiMcSmiRegister_def
      PchSmiSmbusRegister_def assms(4) good_sources_pch
      intro!: keeps_unless_locked [OF assms(1)] keeps_plain_register [OF assms(1-3)])

lemma keeps_trap:
  fixes s :: "'l chip smm_core"
  assumes "keeps_bit e s" "tracked e" "new_handle s (Some h)" "sys_io env = pch_hw" "i < 4"
  shows "keeps_bit e (exec (PchInternalIoTrapSmiRegister env f i (Some h)) s)"
  unfolding PchInternalIoTrapSmiRegister_def assms(4)
  by (rule keeps_plain_register [OF assms(1-3) good_source_trap [OF assms(5)]])

lemma good_lpc_bios_wp: "good_source lpc_bios_wp"
  by (simp add: good_source_def good_source_defs lpc_bios_wp_def in_source_defs in_map source_defs regs pch_map_def)

lemma keeps_read:
  assumes "keeps_bit e s" "reads_dev p" shows "keeps_bit e (exec (on_sys p) s)"
  using assms(1) by (simp add: keeps_bit_def reads_dev_keeps [OF assms(2)])

lemma new_handle_read:
  fixes s :: "'l chip smm_core"
  shows "reads_dev p \<Longrightarrow> new_handle s Pool \<Longrightarrow> new_handle (exec (on_sys p) s) Pool"
  by (simp add: new_handle_def reads_dev_keeps split: option.splits)

text \<open>The register for the LPC bridge is a TCO register behind a read.\<close>

lemma keeps_lpc:
  fixes s :: "'l chip smm_core"
  assumes "keeps_bit e s" "tracked e" "new_handle s Pool" "sys_io env = pch_hw"
  shows "keeps_bit e (exec (PchTcoSmiLpcBiosWpRegister env f Pool) s)"
  unfolding PchTcoSmiLpcBiosWpRegister_def assms(4)
proof (rule keeps_unless_locked [OF assms(1)])
  assume unlocked: "\<not> mReadyToLock s"
  let ?io = "pch_hw :: 'l chip io_hw"
  let ?p = "MmioRead8 (mm ?io) (hw_pci_base (mm ?io) DEFAULT_PCI_BUS_NUMBER_PCH PCI_DEVICE_NUMBER_PCH_LPC PCI_FUNCTION_NUMBER_PCH_LPC + R_PCH_LPC_BC)"
  obtain v where v: "run_state (on_sys ?p) s = (v, s)" using read_pmc by blast
  have "keeps_bit e (exec (tco_register ?io lpc_bios_wp PchTcoSmiLpcBiosWpType C_Tco f Pool) s)"
    by (rule keeps_tco_register [OF assms(1-3) good_lpc_bios_wp])
  then show "keeps_bit e (exec (do {
      BiosControl \<leftarrow> on_sys ?p;
      if BiosControl AND B_PCH_ESPI_PCBC_ESPI_EN \<noteq> 0 then State_Monad.return (EFI_UNSUPPORTED, None)
      else do {
       (Status, h) \<leftarrow> PchSmiRecordInsert lpc_bios_wp f PchTcoSmiLpcBiosWpType Pool;
       (case h of
          None \<Rightarrow> State_Monad.return (Status, h)
        | Some k \<Rightarrow> do {
            set_clear k C_Tco;
            PchSmmClearSource ?io lpc_bios_wp;
            PchSmmEnableSource ?io lpc_bios_wp;
            State_Monad.return (Status, h) }) } }) s)"
    unfolding exec_bind_read [OF v] using assms(1) unlocked
    by (cases "v AND B_PCH_ESPI_PCBC_ESPI_EN \<noteq> 0") (simp_all only: if_True if_False simp_thms tco_register_def unless_locked_def, simp_all)
qed

lemma clear_new_century:
  fixes s :: "'l chip smm_core"
  assumes "at_pch s" "PchTcoClearNewCenturySts pch_hw s = Some t"
  shows "at_pch t \<and> CallbackDataBase t = CallbackDataBase s \<and> (\<forall>e. pch_en e \<longrightarrow> bit_at t e = bit_at s e)"
proof -
  have src: "source_ok pch_en pch_sts mSrcDescNewCentury" "source_ok pch_en pch_sts mDescSrcTcoSts"
    using pch_source_pch by (simp_all add: pch_source_def)
  define u where "u = exec (PchSmmClearSource pch_hw mSrcDescNewCentury) s"
  define v where "v = exec (PchSmmClearSource pch_hw mDescSrcTcoSts) u"
  note u = pch.clear_source [OF assms(1) src(1) u_def]
  note v = pch.clear_source [OF u(1) src(2) v_def]
  have "t = s \<or> t = v"
    using assms(2) by (auto simp: PchTcoClearNewCenturySts_def PchTcoSmiClearSourceAndBlock_def pch_hw_def map_hw_def
        pch.clear_source_and_block [OF assms(1) src(1), unfolded pch_hw_def map_hw_def] u_def v_def split: if_splits)
  then show ?thesis using assms(1) u v by (auto simp: u_def v_def core_keeps)
qed

lemma keeps_new_century:
  fixes s :: "'l chip smm_core"
  assumes "keeps_bit e s" "tracked e" "new_handle s Pool" "sys_io env = pch_hw"
    and "PchTcoSmiNewCenturyRegister env f Pool s = Some (x, t)"
  shows "keeps_bit e t"
proof (cases "mReadyToLock s \<or> Pool = None")
  case True
  then show ?thesis using assms(1,5) by (auto simp: PchTcoSmiNewCenturyRegister_def run_PchSmiRecordInsert(2) split: if_splits)
next
  case False
  then obtain h where h: "Pool = Some h" by auto
  have good: "good_source mSrcDescNewCentury" by (simp add: good_sources_pch)
  then have null: "\<not> CompareSources mSrcDescNewCentury NULL_SOURCE_DESC_INITIALIZER" by (simp add: good_source_def)
  let ?r = "pch_record mSrcDescNewCentury f PchTcoSmiNewCenturyType"
  define u where "u = exec (set_clear h C_NewCentury) (exec (insert_record h (?r C_Null)) s)"
  obtain v where v: "PchTcoClearNewCenturySts pch_hw u = Some v" "t = exec (PchSmmEnableSource pch_hw (SrcDesc (?r C_NewCentury))) v"
    using assms(5) False
    by (auto simp: PchTcoSmiNewCenturyRegister_def h assms(4) run_PchSmiRecordInsert(1) [OF null] u_def pch_record_def)
  have new: "h \<notin> fst ` set (CallbackDataBase s)" using assms(3) h by (simp add: new_handle_def)
  have r: "?r C_Null\<lparr> ClearSource := C_NewCentury \<rparr> = ?r C_NewCentury" by (simp add: pch_record_def)
  have u: "CallbackDataBase u = CallbackDataBase s @ [(h, ?r C_NewCentury)]" "bases u = bases s" "bit_at u e = bit_at s e"
    unfolding u_def set_clear_facts [OF new insert_record_facts(1)] r by simp_all
  have "at_pch u" using assms(1) u(2) by (simp add: keeps_bit_def)
  note w = clear_new_century [OF this v(1)]
  show ?thesis
    by (rule enable_inserted [OF assms(1,2) assms(3) [unfolded h] _ _ _ _ v(2)])
      (use w u assms(2) pch_record_ok [OF good] in auto)
qed

text \<open>Root ports: the device and the function of a port that exists.\<close>

lemma rp_dev_fun:
  fixes t :: "'l chip sys"
  assumes "run_state (GetPchPcieRpDevFun (mm pch_hw) RpNumber d) t = ((EFI_SUCCESS, Dev, Fun), t')"
  shows "(ucast Dev, ucast Fun) \<in> set rp_functions"
proof -
  obtain m u where m: "run_state (GetPchMaxPciePortNum (mm (pch_hw :: 'l chip io_hw))) t = (m, u)" by (rule prod.exhaust)
  have "m \<le> 20"
    using m by (auto simp: GetPchMaxPciePortNum_def by_series_def hwrun split: prod.splits PCH_SERIES.splits)
  let ?c = "mPchPcieControllerInfo ! unat (RpNumber div PCH_PCIE_CONTROLLER_PORTS)"
  have lt: "RpNumber < ucast m" and dev: "Dev = ucast (DevNum ?c)" and fn: "\<exists>x i. Fun = rp_function x i"
    using assms by (auto simp: GetPchPcieRpDevFun_def hwrun m Let_def split: if_splits prod.splits)
  have le: "unat (y AND 7 :: u32) \<le> 7" for y
    using word_and_le1 [of y 7] by (simp only: word_le_nat_alt) simp
  from fn have "unat Fun \<le> 7"
    by (auto simp: rp_function_def regs unsigned_ucast_eq intro: le_trans [OF take_bit_nat_less_eq_self le])
  then have "unat Fun \<in> {0,1,2,3,4,5,6,7}" by auto
  then have f: "Fun \<in> {0,1,2,3,4,5,6,7}" by (auto simp: word_unat_eq_iff)
  have a: "unat RpNumber < take_bit 64 (unat m)" using lt by (simp add: word_less_nat_alt unsigned_ucast_eq)
  have "unat m \<le> 20" using \<open>m \<le> 20\<close> by (simp add: word_le_nat_alt)
  from less_le_trans [OF a le_trans [OF take_bit_nat_less_eq_self this]] have "unat RpNumber < 20" .
  then have "unat (RpNumber div 4) < 5" by (simp add: unat_div)
  then have "unat (RpNumber div 4) \<in> {0,1,2,3,4}" by auto
  then have d: "Dev \<in> {27, 28, 29}" unfolding dev by (auto simp: mPchPcieControllerInfo_def regs)
  show ?thesis using d f by (elim insertE emptyE) (simp_all add: rp_functions_def)
qed

definition rp_exists :: "'s smm_env \<Rightarrow> u64 \<Rightarrow> 's smm_core \<Rightarrow> bool" where
  "rp_exists env RpIndex s \<longleftrightarrow>
     fst (fst (run_state (GetPchPcieRpDevFun (mm (sys_io env)) RpIndex (RpDevFun0 env)) (smm_sys s))) = EFI_SUCCESS"

lemma run_rp_source:
  fixes s :: "'l chip smm_core"
  assumes "rp_exists env RpIndex s" "sys_io env = pch_hw"
    and "T \<in> {PchPcieSmiRpHotPlugTemplate, PchPcieSmiRpLinkActiveTemplate, PchPcieSmiRpLinkEqTemplate}"
  obtains Src u where "run_state (rp_source env T RpIndex) s = (Src, u)" "good_source Src"
    "u = exec (on_sys (GetPchPcieRpDevFun (mm pch_hw) RpIndex (RpDevFun0 env))) s"
proof -
  obtain Dev Fun t where r: "run_state (GetPchPcieRpDevFun (mm pch_hw) RpIndex (RpDevFun0 env)) (smm_sys s) = ((EFI_SUCCESS, Dev, Fun), t)"
    using assms(1,2) unfolding rp_exists_def by (metis prod.collapse fst_conv)
  have good: "good_source (patch_source (ucast (ucast Dev :: u32)) (ucast (ucast Fun :: u32)) T)"
    by (rule good_source_rp [OF rp_dev_fun [OF r] assms(3)])
  have "ucast (ucast x :: u32) = (ucast x :: u8)" for x :: u64 by (rule bit_word_eqI) (simp add: bit_simps)
  then show ?thesis using good
    by (intro that [of "patch_source (ucast Dev) (ucast Fun) T"]) (simp_all add: rp_source_def run_on_sys r assms(2))
qed

lemma keeps_rp:
  fixes s :: "'l chip smm_core"
  assumes "keeps_bit e s" "tracked e" "new_handle s (Some h)" "sys_io env = pch_hw" "rp_exists env RpIndex s"
    and "p \<in> {PchPcieSmiHotPlugRegister env, PchPcieSmiLinkActiveRegister env}"
  shows "keeps_bit e (exec (p f RpIndex (Some h)) s)"
proof -
  note reads = reads_dev_RpDevFun [of RpIndex "RpDevFun0 env"]
  have plain: "keeps_bit e (exec (do {
      Src \<leftarrow> rp_source env T RpIndex;
      r \<leftarrow> PchSmiRecordInsert Src f t (Some h);
      clear_and_enable pch_hw Src;
      State_Monad.return r }) s)"
    if T: "T \<in> {PchPcieSmiRpHotPlugTemplate, PchPcieSmiRpLinkActiveTemplate, PchPcieSmiRpLinkEqTemplate}" for T t
  proof -
    obtain Src u where u: "run_state (rp_source env T RpIndex) s = (Src, u)" "good_source Src"
      "u = exec (on_sys (GetPchPcieRpDevFun (mm pch_hw) RpIndex (RpDevFun0 env))) s"
      by (rule run_rp_source [OF assms(5,4) T])
    have "keeps_bit e (exec (plain_register pch_hw Src t f (Some h)) u)"
      unfolding u(3) by (rule keeps_plain_register [OF keeps_read [OF assms(1) reads] assms(2) new_handle_read [OF reads assms(3)] u(2)])
    then show ?thesis by (simp add: u(1) plain_register_def run_bind)
  qed
  show ?thesis
    using assms(6) plain
    by (auto simp: PchPcieSmiHotPlugRegister_def PchPcieSmiLinkActiveRegister_def assms(4) intro!: keeps_unless_locked [OF assms(1)])
qed

section \<open>Unregistering keeps the bits\<close>

lemma remove_record_alt: "remove_record h db = filter (\<lambda>p. fst p \<noteq> h) db"
  by (simp add: remove_record_def split_beta')

lemma used_remove: "distinct (map fst db) \<Longrightarrow> map_of db h = Some r \<Longrightarrow>
    used db e \<longleftrightarrow> any_bit (En (SrcDesc r)) e \<or> used (remove_record h db) e"
proof (induction db)
  case (Cons p db)
  then show ?case
  proof (cases "fst p = h")
    case True
    then have "remove_record h db = db" 
      using Cons.prems(1) by (simp add: remove_record_alt filter_id_conv image_iff) metis
    then show ?thesis using Cons.prems True by (cases p) (auto simp: remove_record_def)
  qed (cases p, auto simp: remove_record_def)
qed simp

lemma db_ok_remove: "db_ok db \<Longrightarrow> db_ok (remove_record h db)"
  by (auto simp: db_ok_def remove_record_def distinct_map_filter)

lemma sys_only_disable_unused: "sys_only (disable_unused io db ds)"
  by (induction ds) (auto intro!: sys_only_return sys_only_bind sys_only_WriteBitDesc simp: list_ex_iff)

lemma keeps_unregister:
  fixes s :: "'l chip smm_core"
  assumes "keeps_bit e s" "tracked e" "sys_io env = pch_hw"
  shows "keeps_bit e (exec (PchSmmCoreUnRegister env h) s)"
proof (cases "h = 0 \<or> map_of (CallbackDataBase s) h = None")
  case True
  then show ?thesis using assms(1) by (auto simp: PchSmmCoreUnRegister_def hwrun)
next
  case False
  then obtain r where r: "map_of (CallbackDataBase s) h = Some r" by auto
  let ?db = "remove_record h (CallbackDataBase s)"
  define u where "u = s\<lparr> CallbackDataBase := ?db \<rparr>"
  define t where "t = exec (disable_unused pch_hw ?db (take NUM_EN_BITS (En (SrcDesc r)))) u"
  have ok: "db_ok ?db" using assms(1) by (simp add: keeps_bit_def db_ok_remove)
  have "(h, r) \<in> set (CallbackDataBase s)" using r by (rule map_of_SomeD)
  then have src: "source_ok pch_en pch_sts (SrcDesc r)"
    using assms(1) by (auto simp: keeps_bit_def db_ok_def record_ok_def pch_source_def)
  have u: "at_pch u" "bit_at u e = bit_at s e" "CallbackDataBase u = ?db"
    using assms(1) by (simp_all add: u_def keeps_bit_def bases_def bit_at_def)
  have take: "take NUM_EN_BITS (En (SrcDesc r)) = En (SrcDesc r)" using src by (simp add: source_ok_def)
  have db: "CallbackDataBase t = ?db" by (simp add: t_def sys_only_core [OF sys_only_disable_unused] u(3))
  have t: "exec (PchSmmCoreUnRegister env h) s = t"
    using False r by (simp add: PchSmmCoreUnRegister_def hwrun Let_def assms(3) t_def u_def split: prod.splits)
  have "bits_of pch_en (take NUM_EN_BITS (En (SrcDesc r)))" using src by (simp add: take source_ok_def)
  note bits = run_disable_unused [OF u(1) this db_ok_sources [OF ok] t_def]
  have "distinct (map fst (CallbackDataBase s))" using assms(1) by (simp add: keeps_bit_def db_ok_def)
  from used_remove [OF this r, of e] show ?thesis
    unfolding t using bits assms(1,2) ok u(2) db by (auto simp: keeps_bit_def take)
qed

section \<open>Runs of the driver\<close>

text \<open>One call of a service of the driver, with a handle that the pool gives it.  Left out are the registrations that
  the property is not true of: timers and USB controllers without a source, root port link equalization, failed
  allocations of the services that do not look at the status, and the sources of the SPI and GPIO controllers,
  which are not bits of the chip.\<close>

inductive smi_step :: "'l chip smm_env \<Rightarrow> 'l chip smm_core \<Rightarrow> 'l chip smm_core \<Rightarrow> bool" for env where
  standard: "t \<in> {SxType, SwType, PowerButtonType} \<or> t = UsbType \<and> usb_known env c \<or>
      t = PeriodicTimerType \<and> ContextToTimerInterval c \<noteq> None \<Longrightarrow>
    new_handle s Pool \<Longrightarrow> smi_step env s (exec (PchSmmCoreRegister env t f c Pool) s)"
| tco: "p \<in> {PchTcoSmiMchRegister env, PchTcoSmiTcoTimeoutRegister env, PchTcoSmiOsTcoRegister env, PchTcoSmiNmiRegister env,
      PchTcoSmiIntruderDetRegister env, PchTcoSmiLpcBiosWpRegister env} \<Longrightarrow>
    new_handle s Pool \<Longrightarrow> smi_step env s (exec (p f Pool) s)"
| century: "PchTcoSmiNewCenturyRegister env f Pool s = Some (x, t) \<Longrightarrow> new_handle s Pool \<Longrightarrow> smi_step env s t"
| pch: "p \<in> {PchAcpiSmiPmeRegister env, PchAcpiSmiPmeB0Register env, PchAcpiSmiRtcAlarmRegister env,
      PchAcpiSmiTmrOverflowRegister env, PchGpioUnlockSmiRegister env, PchSmiSerialIrqRegister env, PchSmiMcSmiRegister env,
      PchSmiSmbusRegister env} \<Longrightarrow> new_handle s (Some h) \<Longrightarrow> smi_step env s (exec (p f (Some h)) s)"
| root_port: "p \<in> {PchPcieSmiHotPlugRegister env, PchPcieSmiLinkActiveRegister env} \<Longrightarrow> rp_exists env RpIndex s \<Longrightarrow>
    new_handle s (Some h) \<Longrightarrow> smi_step env s (exec (p f RpIndex (Some h)) s)"
| trap: "i < 4 \<Longrightarrow> new_handle s (Some h) \<Longrightarrow> smi_step env s (exec (PchInternalIoTrapSmiRegister env f i (Some h)) s)"
| unregister: "p \<in> {PchSmmCoreUnRegister env, PchTcoSmiUnRegister env, PchPcieSmiUnRegister env, PchAcpiSmiUnRegister env,
      PchGpioUnlockSmiUnRegister env, PchSmiUnRegister env, PchInternalIoTrapSmiUnRegister env} \<Longrightarrow>
    smi_step env s (exec (p h) s)"
| lock: "smi_step env s (exec SmmReadyToLockCallback s)"

lemma keeps_lock: "keeps_bit e s \<Longrightarrow> keeps_bit e (exec SmmReadyToLockCallback s)"
  by (auto simp: SmmReadyToLockCallback_def keeps_bit_def bases_def bit_at_def)

lemma keeps_all_unregister:
  fixes s :: "'l chip smm_core"
  assumes "keeps_bit e s" "tracked e" "sys_io env = pch_hw"
    and "p \<in> {PchSmmCoreUnRegister env, PchTcoSmiUnRegister env, PchPcieSmiUnRegister env, PchAcpiSmiUnRegister env,
      PchGpioUnlockSmiUnRegister env, PchSmiUnRegister env, PchInternalIoTrapSmiUnRegister env}"
  shows "keeps_bit e (exec (p h) s)"
proof -
  note core = keeps_unregister [OF _ assms(2,3)]
  have tco: "exec (PchTcoSmiUnRegister env h) s \<in> {s, exec (PchSmmCoreUnRegister env h) s}"
    by (auto simp: PchTcoSmiUnRegister_def hwrun split: option.splits)
  have pch: "\<exists>u. keeps_bit e u \<and> exec (PchSmiUnRegister env h) s \<in> {u, exec (PchSmmCoreUnRegister env h) u}"
  proof (cases "map_of (CallbackDataBase s) h")
    case None
    then show ?thesis using assms(1) by (intro exI [of _ s]) (simp add: PchSmiUnRegister_def)
  next
    case (Some r)
    obtain v where v: "run_state (on_sys (MmioRead8 (mm (pch_hw :: 'l chip io_hw)) (spi_base (pch_hw :: 'l chip io_hw) + R_PCH_SPI_BC))) s = (v, s)"
      using read_pmc by blast
    show ?thesis using assms(1) Some
      by (intro exI [of _ s]) (auto simp: PchSmiUnRegister_def assms(3) v split: if_splits)
  qed
  show ?thesis
    using assms(1,4) tco pch core
    by (auto simp: PchPcieSmiUnRegister_def PchAcpiSmiUnRegister_def PchGpioUnlockSmiUnRegister_def PchInternalIoTrapSmiUnRegister_def)
qed

lemma keeps_step:
  fixes s :: "'l chip smm_core"
  assumes "smi_step env s t" "keeps_bit e s" "tracked e" "sys_io env = pch_hw"
  shows "keeps_bit e t"
  using assms(1)
proof cases
  case (standard t c Pool f)
  then show ?thesis
    using keeps_register_quiet [OF assms(2,3) standard(3) assms(4)] keeps_register_timer [OF assms(2,3) standard(3) assms(4)] by auto
next
  case (tco p Pool f)
  then show ?thesis using keeps_tco [OF assms(2,3) tco(3) assms(4)] keeps_lpc [OF assms(2,3) tco(3) assms(4)] by auto
next
  case (century f Pool x)
  then show ?thesis using keeps_new_century [OF assms(2,3) _ assms(4)] by blast
next
  case (pch p h f)
  then show ?thesis using keeps_plain [OF assms(2,3) pch(3) assms(4)] by auto
next
  case (root_port p RpIndex h f)
  then show ?thesis using keeps_rp [OF assms(2,3) root_port(4) assms(4) root_port(3)] by auto
next
  case (trap i h f)
  then show ?thesis using keeps_trap [OF assms(2,3) trap(3) assms(4) trap(2)] by auto
next
  case (unregister p h)
  then show ?thesis using keeps_all_unregister [OF assms(2-4)] by auto
next
  case lock
  then show ?thesis using keeps_lock [OF assms(2)] by simp
qed

text \<open>C4: Starting with no child, after any sequence of these calls: registering with an allocated
  record, also with refused arguments, sleep, software, power button and legacy USB children,
  periodic timers with an interval of the table, the TCO sources but the SPI write protection,
  the ACPI, GPIO unlock, serial IRQ, microcontroller, SMBus and IO trap sources and root port
  hot plug and link activity; unregistering any child; the lock. A bit outside the power
  management controller that enables SMI sources is on exactly when a child is registered whose
  source has it, so a source that children share stays enabled until the last of them is
  unregistered. For the registrations left out (GPI, SPI, link equalization, timers and USB
  controllers without a source, failed allocations of services that go on) it does not hold, see
  the findings.\<close>

theorem enabled_iff_registered:
  assumes "(smi_step env)\<^sup>*\<^sup>* s t" "sys_io env = pch_hw" "at_pch s" "CallbackDataBase s = []"
    and "pch_en e" "\<not> pmc_reg (reg_of e)" "\<not> bit_at s e"
  shows "bit_at t e \<longleftrightarrow> (\<exists>(h, r) \<in> set (CallbackDataBase t). any_bit (En (SrcDesc r)) e)"
proof -
  have "keeps_bit e t"
    using assms(1)
  proof induction
    case base
    then show ?case using assms by (simp add: keeps_bit_def db_ok_def)
  next
    case (step u v)
    then show ?case using keeps_step assms(2,5,6) by blast
  qed
  then show ?thesis by (simp add: keeps_bit_def used_def split_beta)
qed

text \<open>A platform whose callbacks write to a log: which one is called, with which handle and communication buffer.\<close>

type_synonym smi_log = "(nat \<times> u64 \<times> comm_buffer) chip"

definition buffer_of :: "call_args \<Rightarrow> comm_buffer" where
  "buffer_of a = (case a of StandardCall _ b \<Rightarrow> b | _ \<Rightarrow> NoBuffer)"

definition log_call :: "nat \<Rightarrow> u64 \<Rightarrow> call_args \<Rightarrow> smi_log smm_core \<Rightarrow> smi_log smm_core" where
  "log_call f h a s = s\<lparr> smm_sys := (smm_sys s)\<lparr> dev := (dev (smm_sys s))\<lparr> c_log := c_log (dev (smm_sys s)) @ [(f, h, buffer_of a)] \<rparr> \<rparr> \<rparr>"

definition log_env :: "smi_log smm_env" where
  "log_env = \<lparr> sys_io = pch_hw, path_at = (\<lambda>_. []), SmmFreePool = (\<lambda>_. EFI_SUCCESS),
     FreedRecord = (\<lambda>_. pch_record zero_source_desc None PchTcoSmiMchType C_Null), Call = log_call,
     SaveMemReadWrite = (\<lambda>_ _ _ s. s), SaveStateIoPort = (\<lambda>_. None), NumberOfCpus = 1, ReportS3SuspendEnd = (\<lambda>s. s),
     Context0 = \<lparr> W0 = 0, W1 = 0 \<rparr>, Controller0 = 0, RpDevFun0 = (0, 0), RpIndex0 = 0 \<rparr>"

definition log_boot :: "smi_log smm_core" where
  "log_boot = \<lparr> smm_sys = boot \<lparr> c_mem = \<lambda>_. 0, c_io = \<lambda>_. 0, c_log = [] \<rparr>, mAcpiBaseAddr = 0x500, mTcoBaseAddr = 0x400,
     mReadyToLock = False, CallbackDataBase = [], mTimers = \<lambda>_. \<lparr> NumChildren = 0, MinReqInterval = 0, CurrentSetting = 0 \<rparr> \<rparr>"

lemma at_pch_log_boot: "at_pch log_boot"
  by (simp add: log_boot_def bases_def pch_bases_def)

lemma pch_smi_en: "n < 32 \<Longrightarrow> pch_en (smi_en n) \<and> \<not> pmc_reg (reg_of (smi_en n))"
  by (simp add: desc_in_def good_desc_def desc_size_def reg_of_def in_map pmc_reg_def source_defs regs word_less_nat_alt)

theorem enabled_iff_registered_witness:
  "bit_at (exec (PchSmmCoreRegister log_env SwType (Some 7) \<lparr> W0 = 0x20, W1 = 0 \<rparr> (Some 8)) log_boot) (smi_en N_PCH_SMI_EN_APMC)"
proof -
  let ?t = "exec (PchSmmCoreRegister log_env SwType (Some 7) \<lparr> W0 = 0x20, W1 = 0 \<rparr> (Some 8)) log_boot"
  have step: "(smi_step log_env)\<^sup>*\<^sup>* log_boot ?t"
    by (intro r_into_rtranclp smi_step.standard) (simp_all add: new_handle_def log_boot_def)
  have io: "sys_io log_env = pch_hw" by (simp add: log_env_def)
  have empty: "CallbackDataBase log_boot = []" by (simp add: log_boot_def)
  have null: "\<not> CompareSources SW_SOURCE_DESC NULL_SOURCE_DESC_INITIALIZER"
    using good_sources_standard(1) by (simp add: good_source_def)
  have db: "CallbackDataBase ?t = [(8, new_record SwType (Some 7) SW_SOURCE_DESC C_Null \<lparr> W0 = 0x20, W1 = 0 \<rparr>)]"
    by (simp add: PchSmmCoreRegister_def core_source_def sw_context_def SwSmiInputValue_def SmiInputValueDuplicateCheck_def
        MAXIMUM_SWI_VALUE_def empty null io run_bind insert_record_def core_keeps split_beta)
  have off: "\<not> bit_at log_boot (smi_en N_PCH_SMI_EN_APMC)"
    by (simp add: bit_at_def log_boot_def boot_def space_def split: prod.splits)
  have any: "any_bit (En SW_SOURCE_DESC) (smi_en N_PCH_SMI_EN_APMC)"
    by (simp add: SW_SOURCE_DESC_def source_def smi_en_def bit_desc_def IS_BIT_DESC_NULL_def)
  have "N_PCH_SMI_EN_APMC < 32" by (simp add: N_PCH_SMI_EN_APMC_def)
  note en = pch_smi_en [OF this]
  from enabled_iff_registered [OF step io at_pch_log_boot empty en [THEN conjunct1] en [THEN conjunct2] off]
  show ?thesis by (simp add: db new_record_def any)
qed

end
