(* ===== verification/SmmCalls.thy ===== *)
theory SmmCalls
  imports SmmDispatch SmmRuns
begin

text \<open>
  What dispatching does, on the chip of SmmMap with callbacks that log their calls and leave the database and the
  registers of the dispatcher alone: the children of the first active source whose contexts match are called in
  the order of their registration, and no others; then the source is cleared and EOS set.
\<close>

section \<open>Active sources\<close>

definition sci_en :: "'l chip smm_core \<Rightarrow> bool" where
  "sci_en s \<longleftrightarrow> bit_at s (bit_desc ACPI_ADDR_TYPE (ucast R_PCH_ACPI_PM1_CNT) 4 0)"

definition bits_on :: "'l chip smm_core \<Rightarrow> PCH_SMM_BIT_DESC list \<Rightarrow> bool" where
  "bits_on s ds \<longleftrightarrow> (\<forall>d \<in> set ds. IS_BIT_DESC_NULL d \<or> bit_at s d)"

definition is_active :: "'l chip smm_core \<Rightarrow> PCH_SMM_SOURCE_DESC \<Rightarrow> bool" where
  "is_active s x \<longleftrightarrow> \<not> (Flags x = PCH_SMM_SCI_EN_DEPENDENT \<and> sci_en s) \<and> bits_on s (PmcSmiSts x # En x @ Sts x)"

text \<open>The top level status bit, where there is one, is in the SMI status register.\<close>

definition top_ok :: "PCH_SMM_SOURCE_DESC \<Rightarrow> bool" where
  "top_ok x \<longleftrightarrow> IS_BIT_DESC_NULL (PmcSmiSts x) \<or> (\<exists>n < 32. PmcSmiSts x = smi_sts n)"

definition acpi_reg :: "'l chip smm_core \<Rightarrow> u64 \<Rightarrow> u32" where
  "acpi_reg s R = loadw 4 (c_io (dev (smm_sys s))) (0x500 + R)"

lemma in_map_acpi:
  assumes "(r, st) \<in> set pch_map" "fst r = ACPI_ADDR_TYPE" "ucast (fst (snd r)) = (R :: u16)" "R \<in> {0x30, 0x34}"
  shows "r = (ACPI_ADDR_TYPE, ucast R, 4)"
  using assms by (auto simp: pch_map_def)

lemma bit_acpi:
  assumes "pch_en d \<or> pch_sts d" "Type (Reg d) = ACPI_ADDR_TYPE" "Data_io (Reg d) = R" "R \<in> {R_PCH_SMI_EN, R_PCH_SMI_STS}" "at_pch s"
  shows "(acpi_reg s (ucast R) AND push_bit (unat (Bit d)) 1 \<noteq> 0) = bit_at s d"
proof -
  have d: "good_desc d" "\<exists>st. (reg_of d, st) \<in> set pch_map" using assms(1) by (auto simp: desc_in_def)
  then have "reg_of d = (ACPI_ADDR_TYPE, ucast R, 4)"
    using in_map_acpi [of "reg_of d" _ R] assms(2-4) by (auto simp: reg_of_def Data_io_def regs)
  then have size: "desc_size d = 4" by (simp add: reg_of_def desc_size_def)
  then have "unat (Bit d) < 32" using d(1) by (simp add: good_desc_def)
  then show ?thesis
    using size assms(2,3,5)
    by (simp add: and_bit good_bit_at [OF d(1)] load_at_def bit_loadw acpi_reg_def desc_addr_def space_def pch_bases_def del: push_bit_of_1)
qed

lemma pch_smi_sts: "n < 32 \<Longrightarrow> pch_sts (smi_sts n)"
  by (simp add: desc_in_def good_desc_def desc_size_def reg_of_def in_map source_defs regs word_less_nat_alt)

lemma run_SourceIsActive:
  assumes "at_pch s" "pch_source x" "top_ok x"
  shows "run_state (SourceIsActive pch_hw x (sci_en s) (acpi_reg s (ucast R_PCH_SMI_EN)) (acpi_reg s (ucast R_PCH_SMI_STS))) s = (is_active s x, s)"
proof -
  have x: "take NUM_EN_BITS (En x) = En x" "take NUM_STS_BITS (Sts x) = Sts x" "bits_of pch_en (En x)" "bits_of pch_sts (Sts x)"
    using assms(2) by (simp_all add: pch_source_def source_ok_def)
  have snap: "pch.snapshot s R (acpi_reg s (ucast R)) ds" if "bits_of P ds" "\<And>d. P d \<Longrightarrow> pch_en d \<or> pch_sts d" "R \<in> {R_PCH_SMI_EN, R_PCH_SMI_STS}" for R P ds
    using that bit_acpi [OF _ _ _ that(3) assms(1)] by (auto simp: pch.snapshot_def bits_of_def)
  note en = pch.run_bits_set [OF assms(1) x(3) _ snap [OF x(3)], of R_PCH_SMI_EN]
  note sts = pch.run_bits_set [OF assms(1) x(4) _ snap [OF x(4)], of R_PCH_SMI_STS]
  have test: "(\<not> IS_BIT_DESC_NULL (PmcSmiSts x) \<and> Type (Reg (PmcSmiSts x)) = ACPI_ADDR_TYPE \<and> Data_io (Reg (PmcSmiSts x)) = R_PCH_SMI_STS \<and>
      acpi_reg s (ucast R_PCH_SMI_STS) AND push_bit (unat (Bit (PmcSmiSts x))) 1 = 0) \<longleftrightarrow>
      \<not> IS_BIT_DESC_NULL (PmcSmiSts x) \<and> \<not> bit_at s (PmcSmiSts x)"
  proof (cases "IS_BIT_DESC_NULL (PmcSmiSts x)")
    case False
    then obtain n where n: "n < 32" "PmcSmiSts x = smi_sts n" using assms(3) by (auto simp: top_ok_def)
    have "Type (Reg (smi_sts n)) = ACPI_ADDR_TYPE" "Data_io (Reg (smi_sts n)) = R_PCH_SMI_STS"
      by (simp_all add: smi_sts_def bit_desc_def Data_io_def regs)
    with bit_acpi [OF _ this _ assms(1)] pch_smi_sts [OF n(1)] n(2) show ?thesis by auto
  qed simp
  show ?thesis
  proof (cases "Flags x = PCH_SMM_SCI_EN_DEPENDENT \<and> sci_en s \<or> \<not> IS_BIT_DESC_NULL (PmcSmiSts x) \<and> \<not> bit_at s (PmcSmiSts x)")
    case True
    then show ?thesis unfolding SourceIsActive_def test by (auto simp: is_active_def bits_on_def hwrun)
  next
    case False
    then show ?thesis using en sts unfolding SourceIsActive_def test
      by (auto simp: x is_active_def bits_on_def hwrun ball_Un)
  qed
qed

section \<open>Programs that only read\<close>

lemma run_sci_en:
  assumes "at_pch s" shows "run_state (PchSmmGetSciEn pch_hw) s = (sci_en s, s)"
proof -
  have "bit (acpi_reg s 4) 0 = sci_en s"
    by (simp add: sci_en_def bit_at_def bit_loadw acpi_reg_def desc_addr_def space_def bit_desc_def Data_io_def regs assms pch_bases_def)
  moreover have "(v AND 1 = (1 :: u32)) = bit v 0" for v by (simp add: and_one_eq odd_iff_mod_2_eq_one bit_0)
  ultimately show ?thesis using assms
    by (simp add: PchSmmGetSciEn_def pch_hw_def map_hw_def hwrun acpi_reg_def bases_def pch_bases_def regs)
qed

lemma run_first_active:
  assumes "at_pch s" "\<forall>p \<in> set db. pch_source (SrcDesc (snd p)) \<and> top_ok (SrcDesc (snd p))"
  shows "run_state (first_active pch_hw (sci_en s) (acpi_reg s (ucast R_PCH_SMI_EN)) (acpi_reg s (ucast R_PCH_SMI_STS)) db) s =
    (find (\<lambda>p. is_active s (SrcDesc (snd p))) db, s)"
  using assms(2)
proof (induction db)
  case (Cons p db)
  obtain h r where p: "p = (h, r)" by (rule prod.exhaust)
  show ?case using Cons run_SourceIsActive [OF assms(1), of "SrcDesc r"] by (simp add: p hwrun)
qed (simp add: hwrun)

section \<open>The queue\<close>

definition calls_of :: "smi_log smm_core \<Rightarrow> (nat \<times> u64 \<times> comm_buffer) list" where
  "calls_of s = c_log (dev (smm_sys s))"

text \<open>Children whose contexts are those of the software SMI or the power button, or that have none.  The others are
  those of sleep SMIs and periodic timers.\<close>

definition plain_child :: "DATABASE_RECORD \<Rightarrow> bool" where
  "plain_child r \<longleftrightarrow> ContextFunctions r \<in> {NoContext, SwContext, PowerButtonContext} \<and> ProtocolType r \<noteq> SxType \<and>
     (ProtocolType r = PchSmiDispatchType \<longrightarrow> PchSmiCallback r \<noteq> None)"

definition apm_cnt :: "'l chip smm_core \<Rightarrow> u8" where
  "apm_cnt s = loadw 1 (c_io (dev (smm_sys s))) R_PCH_APM_CNT"

definition power_button :: "'l chip smm_core \<Rightarrow> u32" where
  "power_button s = (if (loadw 4 (c_mem (dev (smm_sys s))) (PmcBase (mm (pch_hw :: 'l chip io_hw)) + R_PCH_PMC_GEN_PMCON_A) :: u32)
     AND B_PCH_PMC_GEN_PMCON_A_PWRBTN_LVL \<noteq> 0 then EfiPowerButtonExit else EfiPowerButtonEntry)"

definition context_matches :: "'l chip smm_core \<Rightarrow> DATABASE_RECORD \<Rightarrow> bool" where
  "context_matches s r \<longleftrightarrow> (case ContextFunctions r of
       SwContext \<Rightarrow> SwSmiInputValue (ChildContext r) = ucast (apm_cnt s)
     | PowerButtonContext \<Rightarrow> PowerButton_Phase (ChildContext r) = power_button s
     | _ \<Rightarrow> True)"

definition sw_buffer :: "smi_log smm_env \<Rightarrow> smi_log smm_core \<Rightarrow> comm_buffer" where
  "sw_buffer env s = SwBuffer (case find (\<lambda>i. SaveStateIoPort env i = Some (ucast R_PCH_APM_CNT)) [0..<NumberOfCpus env] of Some i \<Rightarrow> i | None \<Rightarrow> 0)
     (apm_cnt s) (loadw 1 (c_io (dev (smm_sys s))) R_PCH_APM_STS)"

text \<open>The calls that a child gets.\<close>

definition child_calls :: "smi_log smm_env \<Rightarrow> smi_log smm_core \<Rightarrow> u64 \<times> DATABASE_RECORD \<Rightarrow> (nat \<times> u64 \<times> comm_buffer) list" where
  "child_calls env s p = (case p of (h, r) \<Rightarrow>
     if \<not> context_matches s r then []
     else if ProtocolType r = PchSmiDispatchType then (case PchSmiCallback r of None \<Rightarrow> [] | Some f \<Rightarrow> [(f, h, NoBuffer)])
     else (case Callback r of None \<Rightarrow> [] | Some f \<Rightarrow> [(f, h, if ContextFunctions r = SwContext then sw_buffer env s else NoBuffer)]))"

lemma reads_chip [simp]:
  "run_state (IoRead8 pch_hw p) s = (loadw 1 (c_io (dev (smm_sys s))) p, s)"
  "run_state (on_sys (MmioRead32 (mm pch_hw) p)) s = (loadw 4 (c_mem (dev (smm_sys s))) p, s)"
  by (simp_all add: pch_hw_def map_hw_def run_on_sys)

lemma run_child_context:
  assumes "plain_child r"
  shows "\<exists>c'. run_state (child_context pch_hw r c) s = ((c', r, context_matches s r), s)"
proof -
  have low: "(ucast (with_low w v) :: u32) = v" for w v
    by (rule bit_word_eqI) (auto simp: with_low_def bit_simps)
  show ?thesis
    using assms
    by (auto simp: plain_child_def child_context_def context_matches_def SwGetContext_def SwCmpContext_def SwSmiInputValue_def
        PowerButtonGetContext_def PowerButtonCmpContext_def PowerButton_Phase_def apm_cnt_def power_button_def low hwrun)
qed

lemma store_same: "distinct (map fst db) \<Longrightarrow> map_of db h = Some r \<Longrightarrow> store_record h r db = db"
  unfolding store_record_def by (rule map_idI) (auto dest: map_of_SomeD eq_key_imp_eq_value)

text \<open>What a callback may not change: the database, the bits of the sources, and what the contexts are compared with.\<close>

definition stays :: "smi_log smm_core \<Rightarrow> smi_log smm_core \<Rightarrow> bool" where
  "stays s t \<longleftrightarrow> CallbackDataBase t = CallbackDataBase s \<and> bases t = bases s \<and>
     (\<forall>e. pch_en e \<or> pch_sts e \<longrightarrow> bit_at t e = bit_at s e) \<and> apm_cnt t = apm_cnt s \<and>
     (loadw 1 (c_io (dev (smm_sys t))) R_PCH_APM_STS :: u8) = loadw 1 (c_io (dev (smm_sys s))) R_PCH_APM_STS \<and>
     power_button t = power_button s"

text \<open>A call of a child is noted in the log.\<close>

definition logs_calls :: "smi_log smm_env \<Rightarrow> bool" where
  "logs_calls env \<longleftrightarrow> (\<forall>f h a s. stays s (Call env f h a s) \<and>
     calls_of (Call env f h a s) = calls_of s @ [(f, h, buffer_of a)])"

lemma stays_refl: "stays s s"
  by (simp add: stays_def)

lemma stays_trans: "stays s t \<Longrightarrow> stays t u \<Longrightarrow> stays s u"
  by (simp add: stays_def)

lemma child_calls_stays: "stays s t \<Longrightarrow> child_calls env t = child_calls env s"
proof -
  assume st: "stays s t"
  have a: "apm_cnt t = apm_cnt s" "power_button t = power_button s" using st by (simp_all add: stays_def)
  have b: "sw_buffer env t = sw_buffer env s" using st by (simp add: sw_buffer_def stays_def)
  have "context_matches t = context_matches s" by (rule ext) (simp only: context_matches_def a)
  then show "child_calls env t = child_calls env s" by (intro ext) (simp only: child_calls_def b)
qed

lemma reads_dev_RpNumber: "reads_dev (GetPchPcieRpNumber (mm pch_hw) d f n)"
proof -
  have find: "reads_dev (find_rp (mm pch_hw) d f cs)" for cs
    by (induction cs) (auto intro!: reads_dev_bind reads_dev_return reads_dev_pcr split: option.splits)
  show ?thesis unfolding GetPchPcieRpNumber_def
    by (intro reads_dev_bind reads_dev_if reads_dev_return reads_dev_series find)
qed

lemma stays_read:
  assumes "reads_dev p"
  shows "stays s (exec (on_sys p) s)" "calls_of (exec (on_sys p) s) = calls_of s"
proof -
  have "dev (smm_sys (exec (on_sys p) s)) = dev (smm_sys s)"
    using assms by (auto simp: run_on_sys reads_dev_def split: prod.splits) (metis snd_conv)
  then show "stays s (exec (on_sys p) s)" "calls_of (exec (on_sys p) s) = calls_of s"
    by (simp_all add: stays_def reads_dev_keeps [OF assms] apm_cnt_def power_button_def calls_of_def)
qed

lemma run_PchSmiCallback:
  assumes "sys_io env = pch_hw" "logs_calls env" "PchSmiCallback r = Some f"
  shows "\<exists>t. PchSmiTypeCallbackDispatcher env h r s = Some t \<and> stays s t \<and> calls_of t = calls_of s @ [(f, h, NoBuffer)]"
proof (cases "PchSmiType r \<in> {PchPcieSmiRpHotplugType, PchPcieSmiRpLinkActiveType, PchPcieSmiRpLinkEqType}")
  case True
  let ?a = "Reg (En (SrcDesc r) ! 0)"
  let ?p = "GetPchPcieRpNumber (mm pch_hw) (ucast (ucast (Pcie_Dev ?a) :: u8)) (ucast (ucast (Pcie_Fnc ?a) :: u8)) (RpIndex0 env)"
  obtain st n u where u: "run_state (on_sys ?p) s = ((st, n), u)" by (metis prod.exhaust)
  then have e: "u = exec (on_sys ?p) s" by simp
  have k: "stays s u" "calls_of u = calls_of s" unfolding e by (rule stays_read [OF reads_dev_RpNumber])+
  define t where "t = Call env f h (RootPortCall DEFAULT_PCI_BUS_NUMBER_PCH (ucast (Pcie_Dev ?a)) (ucast (Pcie_Fnc ?a)) (ucast n)) u"
  have "stays u t" "calls_of t = calls_of u @ [(f, h, NoBuffer)]"
    using assms(2) by (simp_all add: t_def logs_calls_def buffer_of_def)
  moreover have "PchSmiTypeCallbackDispatcher env h r s = Some t"
    using True by (simp add: PchSmiTypeCallbackDispatcher_def assms(1,3) u Let_def t_def)
  ultimately show ?thesis using k stays_trans by auto
next
  case False
  then show ?thesis using assms(2)
    by (simp add: PchSmiTypeCallbackDispatcher_def assms(3) logs_calls_def buffer_of_def)
qed

lemma run_child_calls:
  assumes "sys_io env = pch_hw" "logs_calls env" "distinct (map fst (CallbackDataBase s))"
    and "map_of (CallbackDataBase s) h = Some r" "plain_child r"
  shows "\<exists>c' t. run_child env ActiveSource h c s = Some (c', False, t) \<and> stays s t \<and>
    calls_of t = calls_of s @ (if CompareSources (SrcDesc r) ActiveSource then child_calls env s (h, r) else [])"
proof -
  obtain c' where c: "run_state (child_context pch_hw r c) s = ((c', r, context_matches s r), s)"
    using run_child_context [OF assms(5)] by blast
  have r: "record_at env h t = r" if "stays s t" for t
    using assms(4) that by (simp add: record_at_def stays_def)
  have put: "put_record h r s = s" by (simp add: put_record_def store_same [OF assms(3,4)])
  show ?thesis
  proof (cases "CompareSources (SrcDesc r) ActiveSource \<and> context_matches s r")
    case False
    then show ?thesis
      by (auto simp: run_child_def assms(1) r [OF stays_refl] c put child_calls_def stays_refl)
  next
    case True
    have "\<exists>t. call_child env h r c' s = Some (False, t) \<and> stays s t \<and> calls_of t = calls_of s @ child_calls env s (h, r)"
    proof (cases "ProtocolType r = PchSmiDispatchType")
      case dispatch: True
      then obtain f where f: "PchSmiCallback r = Some f" using assms(5) by (auto simp: plain_child_def)
      obtain t where "PchSmiTypeCallbackDispatcher env h r s = Some t" "stays s t" "calls_of t = calls_of s @ [(f, h, NoBuffer)]"
        using run_PchSmiCallback [OF assms(1,2) f] by blast
      then show ?thesis using dispatch True f by (simp add: call_child_def child_calls_def)
    next
      case other: False
      show ?thesis
      proof (cases "Callback r")
        case None
        then show ?thesis using other by (simp add: call_child_def child_calls_def stays_refl)
      next
        case (Some f)
        let ?b = "if ContextFunctions r = SwContext then sw_buffer env s else NoBuffer"
        let ?t = "Call env f h (StandardCall c' ?b) s"
        have b: "run_state (comm_buffer_of env h r) s = (?b, s)"
          using assms(1,5) by (auto simp: plain_child_def comm_buffer_of_def SwGetCommBuffer_def sw_buffer_def apm_cnt_def hwrun Let_def split: option.splits)
        have t: "stays s ?t" "calls_of ?t = calls_of s @ [(f, h, ?b)]"
          using assms(2) by (simp_all add: logs_calls_def buffer_of_def)
        have sx: "ProtocolType r \<noteq> SxType" using assms(5) by (simp add: plain_child_def)
        have "call_child env h r c' s = Some (False, ?t)"
          using other Some sx by (simp add: call_child_def b Let_def r [OF t(1)])
        then show ?thesis using t other True Some by (simp add: child_calls_def)
      qed
    qed
    then show ?thesis using True
      by (auto simp: run_child_def assms(1) r [OF stays_refl] c put)
  qed
qed

text \<open>All of the queue from a link on.\<close>

definition link_of :: "callback_db \<Rightarrow> u64 option" where
  "link_of db = (case db of [] \<Rightarrow> None | (h, _) # _ \<Rightarrow> Some h)"

lemma next_link_at: "h \<notin> fst ` set pre \<Longrightarrow> next_link h (pre @ (h, r) # post) = Some (link_of post)"
  by (induction pre) (auto simp: link_of_def split: list.splits)

definition queue_calls :: "smi_log smm_env \<Rightarrow> smi_log smm_core \<Rightarrow> PCH_SMM_SOURCE_DESC \<Rightarrow> callback_db \<Rightarrow> (nat \<times> u64 \<times> comm_buffer) list" where
  "queue_calls env s x db = concat (map (child_calls env s) (filter (\<lambda>p. CompareSources (SrcDesc (snd p)) x) db))"

lemma queue_calls_stays: "stays s t \<Longrightarrow> queue_calls env t = queue_calls env s"
  by (intro ext) (simp add: queue_calls_def child_calls_stays)

lemma exhaust_calls:
  assumes "sys_io env = pch_hw" "logs_calls env" "distinct (map fst (CallbackDataBase s))"
    and "CallbackDataBase s = pre @ post" "\<forall>p \<in> set (CallbackDataBase s). plain_child (snd p)"
  shows "\<exists>c' t. exhaust env ActiveSource (link_of post) c sx s = Some (c', sx, t) \<and> stays s t \<and>
    calls_of t = calls_of s @ queue_calls env s ActiveSource post"
  using assms(3-5)
proof (induction post arbitrary: pre c s)
  case Nil
  then show ?case by (simp add: exhaust.simps link_of_def queue_calls_def stays_refl)
next
  case (Cons p post)
  obtain h r where p: "p = (h, r)" by (rule prod.exhaust)
  have h: "h \<notin> fst ` set pre" using Cons.prems(1,2) by (auto simp: p)
  have r: "map_of (CallbackDataBase s) h = Some r"
    using Cons.prems(1) by (intro map_of_is_SomeI) (simp_all add: Cons.prems(2) p)
  have "plain_child r" using Cons.prems(2,3) by (simp add: p)
  then obtain c' t where c: "run_child env ActiveSource h c s = Some (c', False, t)" and t: "stays s t"
      "calls_of t = calls_of s @ (if CompareSources (SrcDesc r) ActiveSource then child_calls env s (h, r) else [])"
    using run_child_calls [OF assms(1,2) Cons.prems(1) r] by blast
  have db: "CallbackDataBase t = CallbackDataBase s" using t(1) by (simp add: stays_def)
  obtain c'' u where u: "exhaust env ActiveSource (link_of post) c' sx t = Some (c'', sx, u)" "stays t u"
      "calls_of u = calls_of t @ queue_calls env t ActiveSource post"
    using Cons.IH [of t "pre @ [p]" c'] Cons.prems unfolding db by auto
  have "exhaust env ActiveSource (link_of (p # post)) c sx s = Some (c'', sx, u)"
    using next_link_at [OF h, of r post] c u(1)
    by (subst exhaust.simps) (simp add: link_of_def p Cons.prems(2))
  moreover have "calls_of u = calls_of s @ queue_calls env s ActiveSource (p # post)"
    unfolding u(3) t(2) queue_calls_stays [OF t(1)] by (simp add: queue_calls_def p)
  ultimately show ?case using stays_trans [OF t(1) u(2)] by blast
qed

section \<open>The end of a pass\<close>

lemma run_eos:
  fixes s :: "'l chip smm_core"
  assumes "at_pch s"
  shows "run_state (PchSmmSetAndCheckEos pch_hw) s = (True, exec (WriteBitDesc pch_hw (smi_en 1) True False) s)"
proof -
  let ?wi = "status_mask pch_bases pch_map True" and ?wm = "status_mask pch_bases pch_map False"
  define v :: u32 where "v = acpi_reg s (ucast R_PCH_SMI_EN)"
  define t where "t = put_at ?wm ?wi (True, 0x530) 4 (v OR B_PCH_SMI_EN_EOS) s"
  have en: "pch_en (smi_en 1)" using pch_smi_en [of 1] by simp
  then have good: "good_desc (smi_en 1)" by (simp add: desc_in_def)
  have place: "desc_addr (bases s) (smi_en 1) = (True, 0x530)" "desc_size (smi_en 1) = 4" "unat (Bit (smi_en 1)) = 1"
    using assms by (simp_all add: desc_addr_def smi_en_def bit_desc_def Data_io_def pch_bases_def regs desc_size_def)
  have "bytes_of 4 (v OR B_PCH_SMI_EN_EOS) = bytes_of 4 (written (smi_en 1) True False s)"
    unfolding place
    by (rule nth_equalityI) (auto simp: bytes_of_def bit_eq_iff bit_simps v_def acpi_reg_def load_at_def space_def bit_loadw regs
        AndVal_def OrVal_def simp del: push_bit_of_1)
  then have w: "exec (WriteBitDesc pch_hw (smi_en 1) True False) s = t"
    unfolding pch_hw_def map_hw_def WriteBitDesc_chip [OF good] place
    by (simp add: t_def put_at_def put_space_def chip_out_def)
  note t = pch.writes_en [OF assms en w]
  have "(acpi_reg t (ucast R_PCH_SMI_EN) AND push_bit 1 1 \<noteq> 0) = bit_at t (smi_en 1)"
    using bit_acpi [of "smi_en 1" R_PCH_SMI_EN t] en t place(3) by (simp add: smi_en_def bit_desc_def Data_io_def regs)
  then have eos: "acpi_reg t (ucast R_PCH_SMI_EN) AND B_PCH_SMI_EN_EOS \<noteq> 0" using t en by (simp add: regs)
  have b: "mAcpiBaseAddr s = 0x500" "mAcpiBaseAddr t = 0x500"
    using assms t by (simp_all add: bases_def pch_bases_def)
  have "run_state (PchSmmSetAndCheckEos pch_hw) s = (acpi_reg t (ucast R_PCH_SMI_EN) AND B_PCH_SMI_EN_EOS \<noteq> 0, t)"
    using b by (simp add: PchSmmSetAndCheckEos_def pch_hw_def map_hw_def hwrun v_def acpi_reg_def t_def put_at_def regs)
  then show ?thesis using eos w by simp
qed

text \<open>What ends a pass changes no enable bit and no record, calls nobody and clears status bits at most.\<close>

definition calm :: "smi_log smm_core \<Rightarrow> smi_log smm_core \<Rightarrow> bool" where
  "calm s t \<longleftrightarrow> at_pch t \<and> CallbackDataBase t = CallbackDataBase s \<and> calls_of t = calls_of s \<and>
     (\<forall>e. pch_en e \<longrightarrow> bit_at t e = bit_at s e) \<and> (\<forall>e. pch_sts e \<longrightarrow> bit_at t e \<longrightarrow> bit_at s e)"

lemma calm_trans: "calm s t \<Longrightarrow> calm t u \<Longrightarrow> calm s u"
  by (simp add: calm_def)

lemma calls_write: "good_desc d \<Longrightarrow> calls_of (exec (WriteBitDesc pch_hw d v wc) s) = calls_of s"
  by (simp add: pch_hw_def map_hw_def WriteBitDesc_chip put_at_def calls_of_def)

lemma calls_write_bits: "bits_of pch_sts ds \<Longrightarrow> calls_of (exec (write_bits pch_hw v wc ds) s) = calls_of s"
proof (induction ds arbitrary: s)
  case (Cons d ds)
  then have IH: "calls_of (exec (write_bits pch_hw v wc ds) t) = calls_of t" for t by (simp add: bits_of_def)
  show ?case
  proof (cases "IS_BIT_DESC_NULL d")
    case False
    then have "good_desc d" using Cons.prems by (simp add: bits_of_def desc_in_def)
    then show ?thesis by (simp only: write_bits_Cons [OF False] IH calls_write)
  qed (simp add: IH)
qed simp

lemma calm_clear:
  assumes "at_pch s" "pch_source x"
  shows "calm s (exec (PchSmmClearSource pch_hw x) s)" "\<And>d. pch_sts d \<Longrightarrow> any_bit (Sts x) d \<Longrightarrow> \<not> bit_at (exec (PchSmmClearSource pch_hw x) s) d"
proof -
  have src: "source_ok pch_en pch_sts x" using assms(2) by (simp add: pch_source_def)
  then have "take NUM_STS_BITS (Sts x) = Sts x" "bits_of pch_sts (Sts x)" by (simp_all add: source_ok_def)
  then have "calls_of (exec (PchSmmClearSource pch_hw x) s) = calls_of s"
    by (simp add: PchSmmClearSource_def calls_write_bits)
  with pch.clear_source [OF assms(1) src refl]
  show "calm s (exec (PchSmmClearSource pch_hw x) s)"
    "\<And>d. pch_sts d \<Longrightarrow> any_bit (Sts x) d \<Longrightarrow> \<not> bit_at (exec (PchSmmClearSource pch_hw x) s) d"
    by (auto simp: calm_def core_keeps)
qed

lemma calm_new_century:
  assumes "at_pch s" shows "\<exists>t. PchTcoClearNewCenturySts pch_hw s = Some t \<and> calm s t"
proof -
  have src: "source_ok pch_en pch_sts mSrcDescNewCentury" using pch_source_pch by (simp add: pch_source_def)
  have "calm s s" using assms by (simp add: calm_def)
  moreover have "calm s (exec (PchSmmClearSource pch_hw mDescSrcTcoSts) (exec (PchSmmClearSource pch_hw mSrcDescNewCentury) s))"
    using calm_clear(1) [OF assms, of mSrcDescNewCentury] calm_clear(1) [of _ mDescSrcTcoSts] pch_source_pch
    by (meson calm_def calm_trans)
  ultimately show ?thesis
    using pch.clear_source_and_block [OF assms src]
    by (simp add: PchTcoClearNewCenturySts_def PchTcoSmiClearSourceAndBlock_def pch_hw_def map_hw_def)
qed

lemma run_finish_pass:
  assumes "at_pch s"
  shows "\<exists>u. calm s u \<and> finish_pass pch_hw sts s = Some (True, exec (WriteBitDesc pch_hw (smi_en 1) True False) u)"
proof -
  obtain u where "(if sts AND B_PCH_SMI_STS_TCO \<noteq> 0 then PchTcoClearNewCenturySts pch_hw s else Some s) = Some u" "calm s u"
    using calm_new_century [OF assms] assms by (cases "sts AND B_PCH_SMI_STS_TCO \<noteq> 0") (auto simp: calm_def)
  moreover have "at_pch u" using calculation(2) by (simp add: calm_def)
  ultimately show ?thesis using run_eos [of u] by (auto simp: finish_pass_def)
qed

lemma run_clear_source:
  assumes "at_pch s" "pch_source x" "f \<in> {C_Null, C_Tco, C_TcoAndBlock}"
  shows "\<exists>t. clear_source pch_hw f x s = Some t \<and> calm s t \<and> (\<forall>d. pch_sts d \<longrightarrow> any_bit (Sts x) d \<longrightarrow> \<not> bit_at t d)"
proof -
  let ?t = "exec (PchSmmClearSource pch_hw x) s"
  note t = calm_clear [OF assms(1,2)]
  have "at_pch ?t" using t(1) by (simp add: calm_def)
  note u = calm_clear(1) [OF this, of mDescSrcTcoSts]
  have u: "calm ?t (exec (PchSmmClearSource pch_hw mDescSrcTcoSts) ?t)" using u pch_source_pch(1) by blast
  have e: "exec (PchTcoSmiClearSource pch_hw x) s = exec (PchSmmClearSource pch_hw mDescSrcTcoSts) ?t"
    by (simp only: PchTcoSmiClearSource_def exec_then)
  have "calm s (exec (PchTcoSmiClearSource pch_hw x) s) \<and> (\<forall>d. pch_sts d \<longrightarrow> any_bit (Sts x) d \<longrightarrow> \<not> bit_at (exec (PchTcoSmiClearSource pch_hw x) s) d)"
    using t(2) u calm_trans [OF t(1) u] unfolding e by (auto simp: calm_def)
  moreover have "PchTcoSmiClearSourceAndBlock pch_hw x s = Some (exec (PchTcoSmiClearSource pch_hw x) s)"
    using pch.clear_source_and_block [OF assms(1), of x] assms(2)
    unfolding PchTcoSmiClearSourceAndBlock_def PchTcoSmiClearSource_def exec_then by (simp add: pch_source_def)
  ultimately show ?thesis using assms(3) t by (auto simp: clear_source_def)
qed

section \<open>The dispatcher\<close>

lemma port_write:
  assumes "at_pch s" "pch_en e \<or> pch_sts e" "p = R_PCH_RTC_EXT_INDEX_ALT \<or> p = R_PCH_RTC_INDEX_ALT"
  shows "bit_at (exec (IoWrite8 pch_hw p v) s) e = bit_at s e"
proof -
  obtain isio a where a: "desc_addr (bases s) e = (isio, a)" by (rule prod.exhaust)
  let ?i = "unat (Bit e) div 8"
  have good: "good_desc e" using assms(2) by (auto simp: desc_in_def)
  have "desc_size e \<le> 4" using good by (auto elim: good_sizes)
  then have i: "?i < 4" using good by (auto simp: good_desc_def less_mult_imp_div_less)
  have "a + of_nat ?i \<noteq> p" if "isio"
  proof -
    have "\<exists>R :: u16. a = 0x500 + ucast R \<or> a = 0x400 + ucast R"
      using a that assms(1) by (cases "Type (Reg e)") (auto simp: desc_addr_def pch_bases_def Let_def)
    then obtain R :: u16 where R: "a = 0x500 + ucast R \<or> a = 0x400 + ucast R" by blast
    have "unat R < 2 ^ 16" using unsigned_less [of R] by simp
    then have "unat (a + of_nat ?i) = 0x500 + unat R + ?i \<or> unat (a + of_nat ?i) = 0x400 + unat R + ?i"
      using R i by (auto simp: unat_word_ariths unsigned_ucast_eq take_bit_nat_eq_self unat_of_nat)
    then have "unat (a + of_nat ?i) \<ge> 0x400" by auto
    then show ?thesis using assms(3) by (auto simp: regs)
  qed
  then have "put_bytes m (c_io (dev (smm_sys s))) p (bytes_of 1 v) (a + of_nat ?i) = c_io (dev (smm_sys s)) (a + of_nat ?i)" if "isio" for m
    using that by (auto simp: put_bytes_def bytes_of_def unat_eq_zero)
  then show ?thesis
    by (auto simp: bit_at_def a pch_hw_def map_hw_def space_put) (simp_all add: space_def)
qed

lemma calls_port_write: "calls_of (exec (IoWrite8 pch_hw p v) s) = calls_of s"
  by (simp add: pch_hw_def map_hw_def calls_of_def)

text \<open>Children that are ready to be dispatched.\<close>

definition ready_child :: "DATABASE_RECORD \<Rightarrow> bool" where
  "ready_child r \<longleftrightarrow> pch_source (SrcDesc r) \<and> top_ok (SrcDesc r) \<and> plain_child r"

lemma acpi_reg_read:
  assumes "at_pch s"
  shows "run_state (do { p \<leftarrow> acpi_port R; IoRead32 pch_hw p }) s = (acpi_reg s R, s)"
  using assms by (simp add: hwrun pch_hw_def map_hw_def acpi_reg_def bases_def pch_bases_def)

lemma run_scan:
  assumes "at_pch s" "\<forall>p \<in> set (CallbackDataBase s). ready_child (snd p)"
  shows "run_state (do {
          SciEn \<leftarrow> PchSmmGetSciEn pch_hw;
          en \<leftarrow> acpi_port (ucast R_PCH_SMI_EN);
          SmiEnValue \<leftarrow> IoRead32 pch_hw en;
          sts \<leftarrow> acpi_port (ucast R_PCH_SMI_STS);
          SmiStsValue \<leftarrow> IoRead32 pch_hw sts;
          s \<leftarrow> State_Monad.get;
          a \<leftarrow> first_active pch_hw SciEn SmiEnValue SmiStsValue (CallbackDataBase s);
          State_Monad.return (SmiStsValue, a) }) s =
    ((acpi_reg s (ucast R_PCH_SMI_STS), find (\<lambda>p. is_active s (SrcDesc (snd p))) (CallbackDataBase s)), s)"
proof -
  have "\<forall>p \<in> set (CallbackDataBase s). pch_source (SrcDesc (snd p)) \<and> top_ok (SrcDesc (snd p))"
    using assms(2) by (simp add: ready_child_def)
  note first = run_first_active [OF assms(1) this]
  have base: "mAcpiBaseAddr s = 0x500" using assms(1) by (simp add: bases_def pch_bases_def)
  have read: "run_state (IoRead32 pch_hw (0x500 + R)) s = (acpi_reg s R, s)" for R
    by (simp add: pch_hw_def map_hw_def acpi_reg_def)
  show ?thesis by (simp add: run_sci_en [OF assms(1)] base read first run_bind)
qed

lemma run_pass:
  assumes "sys_io env = pch_hw" "logs_calls env" "at_pch s" "distinct (map fst (CallbackDataBase s))"
    and "\<forall>p \<in> set (CallbackDataBase s). ready_child (snd p)"
    and "CallbackDataBase s = pre @ (h, r) # post" "\<forall>p \<in> set pre. \<not> is_active s (SrcDesc (snd p))"
    and "is_active s (SrcDesc r)" "ClearSource r \<in> {C_Null, C_Tco, C_TcoAndBlock}"
  shows "\<exists>c' q t u. dispatch_pass env c s = Some (True, c', False, t) \<and> stays s q \<and>
    calls_of q = calls_of s @ queue_calls env s (SrcDesc r) ((h, r) # post) \<and>
    calm q u \<and> t = exec (WriteBitDesc pch_hw (smi_en 1) True False) u \<and>
    (\<forall>d. pch_sts d \<longrightarrow> any_bit (Sts (SrcDesc r)) d \<longrightarrow> \<not> bit_at u d)"
proof -
  have scan: "find (\<lambda>p. is_active s (SrcDesc (snd p))) (CallbackDataBase s) = Some (h, r)"
  proof -
    have "find (\<lambda>p. is_active s (SrcDesc (snd p))) pre = None" using assms(7) by (auto simp: find_None_iff)
    then show ?thesis by (simp add: assms(6,8) find_append)
  qed
  have plain: "\<forall>p \<in> set (CallbackDataBase s). plain_child (snd p)" using assms(5) by (simp add: ready_child_def)
  obtain c' q where ex: "exhaust env (SrcDesc r) (Some h) c False s = Some (c', False, q)" and q: "stays s q"
      "calls_of q = calls_of s @ queue_calls env s (SrcDesc r) ((h, r) # post)"
    using exhaust_calls [OF assms(1,2,4,6) plain, of "SrcDesc r" c False] by (auto simp: link_of_def)
  have db: "CallbackDataBase q = CallbackDataBase s" "bases q = bases s" using q(1) by (simp_all add: stays_def)
  have r: "ready_child r" using assms(5,6) by simp
  then have sx: "(ProtocolType r = SxType) = False" by (simp add: ready_child_def plain_child_def)
  have "map_of (CallbackDataBase q) h = Some r"
    using assms(4) unfolding db by (intro map_of_is_SomeI) (simp_all add: assms(6))
  then have rec: "record_at env h q = r" by (simp add: record_at_def)
  have "at_pch q" using assms(3) db(2) by simp
  then obtain v where v: "clear_source pch_hw (ClearSource r) (SrcDesc r) q = Some v" "calm q v"
    "\<forall>d. pch_sts d \<longrightarrow> any_bit (Sts (SrcDesc r)) d \<longrightarrow> \<not> bit_at v d"
    using run_clear_source [OF _ _ assms(9), of q "SrcDesc r"] r by (auto simp: ready_child_def)
  have "at_pch v" using v(2) by (simp add: calm_def)
  then obtain u where u: "calm v u" "finish_pass pch_hw (acpi_reg s (ucast R_PCH_SMI_STS)) v =
      Some (True, exec (WriteBitDesc pch_hw (smi_en 1) True False) u)"
    using run_finish_pass by blast
  have "dispatch_pass env c s = Some (True, c', False, exec (WriteBitDesc pch_hw (smi_en 1) True False) u)"
    unfolding dispatch_pass_def Let_def assms(1) run_scan [OF assms(3,5)] scan
    by (simp add: sx ex rec v(1) u(2))
  moreover have "\<not> bit_at u d" if "pch_sts d" "any_bit (Sts (SrcDesc r)) d" for d
    using v(3) u(1) that by (auto simp: calm_def)
  ultimately show ?thesis using calm_trans [OF v(2) u(1)] q by blast
qed


text \<open>A software SMI with the value 20h, for which one of two children is registered.\<close>

definition sw_smi :: "smi_log smm_core" where
  "sw_smi = log_boot\<lparr> smm_sys := boot \<lparr> c_mem = \<lambda>_. 0,
       c_io = \<lambda>a. if a = 0x530 \<or> a = 0x534 \<or> a = R_PCH_APM_CNT then 0x20 else 0, c_log = [] \<rparr>,
     CallbackDataBase := [(8, new_record SwType (Some 7) SW_SOURCE_DESC C_Null \<lparr> W0 = 0x21, W1 = 0 \<rparr>),
       (16, new_record SwType (Some 9) SW_SOURCE_DESC C_Null \<lparr> W0 = 0x20, W1 = 0 \<rparr>)] \<rparr>"


end
