(* ===== verification/SmmServices.thy ===== *)
theory SmmServices
  imports SmmDispatch SmmRuns
begin

text \<open>
  Services of the dispatcher one by one: the input values of software SMIs, the intervals of the periodic timers and
  the rates that are programmed for them, and the handlers that cannot be unregistered.
\<close>

section \<open>Software SMIs\<close>

definition sw_values :: "callback_db \<Rightarrow> u64 list" where
  "sw_values db = map (\<lambda>p. SwSmiInputValue (ChildContext (snd p))) (filter (\<lambda>p. ProtocolType (snd p) = SwType) db)"

definition sw_ok :: "callback_db \<Rightarrow> bool" where
  "sw_ok db \<longleftrightarrow> distinct (sw_values db) \<and> (\<forall>v \<in> set (sw_values db). v \<le> MAXIMUM_SWI_VALUE)"

lemma duplicate_check: "SmiInputValueDuplicateCheck db v \<longleftrightarrow> v \<notin> set (sw_values db)"
  by (force simp: SmiInputValueDuplicateCheck_def sw_values_def list_ex_iff)

lemma find_filter: "find P xs = (case filter P xs of [] \<Rightarrow> None | x # _ \<Rightarrow> Some x)"
  by (induction xs) auto

lemma find_Some_set: "find P xs = Some x \<Longrightarrow> x \<in> set xs \<and> P x"
  by (auto simp: find_Some_iff)

text \<open>The values that are tried when the caller has none.\<close>

definition free_values :: "callback_db \<Rightarrow> u64 list" where
  "free_values db = filter (\<lambda>v. v \<notin> set (sw_values db)) (map of_nat [1..<255])"

lemma free_valuesD: "v \<in> set (free_values db) \<Longrightarrow> v \<noteq> - 1 \<and> v \<le> MAXIMUM_SWI_VALUE \<and> v \<notin> set (sw_values db)"
proof -
  assume v: "v \<in> set (free_values db)"
  then obtain n where n: "v = of_nat n" "n < 255" by (auto simp: free_values_def)
  then have "unat v = n" by (simp add: unat_of_nat)
  then show ?thesis using v n(2)
    by (auto simp: free_values_def MAXIMUM_SWI_VALUE_def word_le_nat_alt unsigned_minus_1_eq_mask mask_eq_exp_minus_1)
qed

lemma sw_context_eq:
  "sw_context db c = (let v = SwSmiInputValue c in
     if v = - 1 then (case free_values db of [] \<Rightarrow> None | i # _ \<Rightarrow> Some (c\<lparr> W0 := i \<rparr>))
     else if v \<le> MAXIMUM_SWI_VALUE \<and> v \<notin> set (sw_values db) then Some c else None)"
proof (cases "SwSmiInputValue c = - 1")
  case True
  have f: "find (SmiInputValueDuplicateCheck db) (map of_nat [1..<unat MAXIMUM_SWI_VALUE]) =
      (case free_values db of [] \<Rightarrow> None | i # _ \<Rightarrow> Some i)"
    by (simp add: find_filter free_values_def duplicate_check [abs_def] MAXIMUM_SWI_VALUE_def)
  show ?thesis
  proof (cases "free_values db")
    case Nil
    then show ?thesis using True unfolding sw_context_def f Let_def by simp
  next
    case (Cons i js)
    then have "i \<noteq> - 1 \<and> i \<le> MAXIMUM_SWI_VALUE \<and> i \<notin> set (sw_values db)" by (intro free_valuesD) simp
    then show ?thesis using True Cons unfolding sw_context_def f Let_def
      by (auto simp: duplicate_check SwSmiInputValue_def dest: leD)
  qed
qed (auto simp: sw_context_def duplicate_check not_le Let_def)

text \<open>C19: Registering a child for a software SMI, its record allocated, takes the value that it
  asks for, if it is at most FFh and no other child has it, or the lowest free value from 1 to
  FEh if it asks for none; otherwise the registration is refused with EFI_INVALID_PARAMETER,
  also when no value is free, and nothing changes. No two children ever have the same value.\<close>

theorem sw_register:
  assumes "sw_ok (CallbackDataBase s)"
    and "run_state (PchSmmCoreRegister env SwType f c (Some h)) s = ((Status, out), t)"
  shows "sw_ok (CallbackDataBase t) \<and>
    (case (let v = SwSmiInputValue c; used = set (sw_values (CallbackDataBase s)) in
       if v = - 1 then find (\<lambda>i. i \<notin> used) (map of_nat [1..<255])
       else if v \<le> 0xFF \<and> v \<notin> used then Some v else None) of
       None \<Rightarrow> Status = EFI_INVALID_PARAMETER \<and> out = None \<and> t = s
     | Some v \<Rightarrow> Status = EFI_SUCCESS \<and> out = Some (h, c\<lparr> W0 := v \<rparr>) \<and>
         CallbackDataBase t = CallbackDataBase s @ [(h, new_record SwType f SW_SOURCE_DESC C_Null (c\<lparr> W0 := v \<rparr>))])"
proof -
  let ?v = "let v = SwSmiInputValue c; used = set (sw_values (CallbackDataBase s)) in
       if v = - 1 then find (\<lambda>i. i \<notin> used) (map of_nat [1..<255])
       else if v \<le> 0xFF \<and> v \<notin> used then Some v else None"
  have ctx: "sw_context (CallbackDataBase s) c = map_option (\<lambda>v. c\<lparr> W0 := v \<rparr>) ?v"
    by (auto simp: sw_context_eq Let_def find_filter free_values_def MAXIMUM_SWI_VALUE_def SwSmiInputValue_def split: list.splits)
  show ?thesis
  proof (cases ?v)
    case None
    then have "sw_context (CallbackDataBase s) c = None" using ctx by simp
    then have "((Status, out), t) = ((EFI_INVALID_PARAMETER, None), s)"
      using assms(2) by (simp add: PchSmmCoreRegister_def core_source_def)
    then show ?thesis unfolding None using assms(1) by simp
  next
    case (Some v)
    have null: "\<not> CompareSources SW_SOURCE_DESC NULL_SOURCE_DESC_INITIALIZER"
      using good_sources_standard(1) by (simp add: good_source_def)
    define r where "r = new_record SwType f SW_SOURCE_DESC C_Null (c\<lparr> W0 := v \<rparr>)"
    define u where "u = exec (insert_record h r) s"
    have "sw_context (CallbackDataBase s) c = Some (c\<lparr> W0 := v \<rparr>)" using ctx Some by simp
    then have run: "Status = EFI_SUCCESS" "out = Some (h, c\<lparr> W0 := v \<rparr>)"
      "t = exec (PchSmmEnableSource (sys_io env) SW_SOURCE_DESC) (exec (PchSmmClearSource (sys_io env) SW_SOURCE_DESC) u)"
      using assms(2) null by (auto simp: PchSmmCoreRegister_def core_source_def u_def r_def split: prod.splits)
    then have db: "CallbackDataBase t = CallbackDataBase s @ [(h, r)]"
      by (simp add: u_def insert_record_def sys_only_core [OF sys_only_sources(1)] sys_only_core [OF sys_only_sources(3)])
    have v: "v \<le> 0xFF \<and> v \<notin> set (sw_values (CallbackDataBase s))"
    proof (cases "SwSmiInputValue c = - 1")
      case True
      then have "v \<in> set (free_values (CallbackDataBase s))"
        using Some find_Some_set by (fastforce simp: Let_def free_values_def)
      then show ?thesis using free_valuesD by (auto simp: MAXIMUM_SWI_VALUE_def)
    qed (use Some in \<open>auto simp: Let_def split: if_splits\<close>)
    have "sw_values (CallbackDataBase t) = sw_values (CallbackDataBase s) @ [v]"
      by (simp add: db sw_values_def r_def new_record_def SwSmiInputValue_def)
    then have "sw_ok (CallbackDataBase t)" using assms(1) v by (auto simp: sw_ok_def MAXIMUM_SWI_VALUE_def)
    then show ?thesis unfolding Some using run db by (simp add: r_def)
  qed
qed

theorem sw_register_witness:
  "snd (fst (run_state (PchSmmCoreRegister log_env SwType (Some 7) \<lparr> W0 = - 1, W1 = 0 \<rparr> (Some 8)) log_boot)) = Some (8, \<lparr> W0 = 1, W1 = 0 \<rparr>)"
proof -
  have db: "CallbackDataBase log_boot = []" by (simp add: log_boot_def)
  have "sw_ok (CallbackDataBase log_boot)" by (simp add: db sw_ok_def sw_values_def)
  from sw_register [OF this, of log_env "Some 7" "\<lparr> W0 = - 1, W1 = 0 \<rparr>" 8,
      OF prod.collapse [symmetric, THEN trans, OF arg_cong [OF prod.collapse [symmetric], where f = "\<lambda>x. (x, _)"]]]
  show ?thesis by (simp add: db sw_values_def SwSmiInputValue_def upt_conv_Cons Let_def)
qed

section \<open>Rates of the timers\<close>

text \<open>A byte of the configuration space of the power management controller.\<close>

definition pmc_byte :: "'l chip smm_core \<Rightarrow> u64 \<Rightarrow> u8" where
  "pmc_byte s R = loadw 1 (c_mem (dev (smm_sys s))) (ecam 0 31 2 + R)"

abbreviation pmc_ab :: "u64 \<Rightarrow> bool" where "pmc_ab R \<equiv> R \<in> {R_PCH_PMC_GEN_PMCON_A, R_PCH_PMC_GEN_PMCON_B}"

definition pmc_desc :: "u64 \<Rightarrow> u8 \<Rightarrow> PCH_SMM_BIT_DESC" where
  "pmc_desc R n = bit_desc PCIE_ADDR_TYPE (pcie_raw 31 2 R) 1 n"

lemma pmc_in_map: "pmc_ab R \<Longrightarrow> ((PCIE_ADDR_TYPE, pcie_raw 31 2 R, 1), False) \<in> set pch_map"
  by (auto simp: pch_map_def regs)

lemma pmc_desc_facts:
  assumes "pmc_ab R" "n < 8"
  shows "pch_en (pmc_desc R n)" "\<not> same_bit (pmc_desc R n) (timer_bit t)" "bit (pmc_byte s R) (unat n) = bit_at s (pmc_desc R n)"
proof -
  have n: "unat n < 8" using assms(2) by (simp add: word_less_nat_alt)
  have addr: "desc_addr b (pmc_desc R n) = (False, ecam 0 31 2 + R)" for b
    using assms(1) by (auto simp: desc_addr_def pmc_desc_def bit_desc_def pcie_raw_def place_defs regs)
  show "pch_en (pmc_desc R n)"
    using pmc_in_map [OF assms(1)] n by (simp add: desc_in_def good_desc_def desc_size_def reg_of_def pmc_desc_def bit_desc_def)
  show "\<not> same_bit (pmc_desc R n) (timer_bit t)"
    by (cases t) (simp_all add: same_bit_def pmc_desc_def timer_bit_def mTIMER_SOURCE_DESCS_def source_defs regs)
  have "unat (Bit (pmc_desc R n)) = unat n" by (simp add: pmc_desc_def bit_desc_def)
  then show "bit (pmc_byte s R) (unat n) = bit_at s (pmc_desc R n)"
    using n by (simp add: bit_at_def addr pmc_byte_def bit_loadw space_def)
qed

lemma pmc_byte_cong:
  assumes "pmc_ab R" "\<And>n. n < 8 \<Longrightarrow> bit_at t (pmc_desc R n) = bit_at s (pmc_desc R n)"
  shows "pmc_byte t R = pmc_byte s R"
proof (rule bit_word_eqI)
  fix k assume "k < LENGTH(8)"
  then have "(of_nat k :: u8) < 8" "unat (of_nat k :: u8) = k" by (simp_all add: word_less_nat_alt unat_of_nat)
  then show "bit (pmc_byte t R) k = bit (pmc_byte s R) k"
    using pmc_desc_facts(3) [OF assms(1)] assms(2) by metis
qed

lemma pmc_byte_write:
  fixes s :: "'l chip smm_core"
  assumes "pmc_ab R" "pmc_ab R'" "io = (pch_hw :: 'l chip io_hw)"
  shows "pmc_byte (exec (on_sys (MmioWrite8 (mm io) (PmcBase (mm io) + R) v)) s) R' = (if R' = R then v else pmc_byte s R')"
proof -
  have "reg_addr pch_bases (PCIE_ADDR_TYPE, pcie_raw 31 2 R, 1) = (False, ecam 0 31 2 + R)" "reg_size (PCIE_ADDR_TYPE, pcie_raw 31 2 R, 1) = 1"
    using assms(1) by (auto simp: pcie_raw_def place_defs regs)
  then have "status_mask pch_bases pch_map False (ecam 0 31 2 + R) = 0"
    using status_mask_reg [OF pch_map_ok pmc_in_map [OF assms(1)], of 0] by simp
  moreover have "R' \<noteq> R \<longrightarrow> unat ((ecam 0 31 2 + R') - (ecam 0 31 2 + R)) \<noteq> 0" by (simp add: unat_eq_zero)
  ultimately show ?thesis
    by (auto simp: assms(3) run_on_sys pch_hw_def map_hw_def PmcBase_def DEFAULT_PCI_BUS_NUMBER_PCH_def pmc_byte_def put_space_def
        chip_put_def put_bytes_def put_byte_def loadw_def loadn_def bytes_of_def)
qed

text \<open>The ticks that the children of a timer ask for, and the shortest of them.\<close>

definition ticks :: "SUPPORTED_TIMER \<Rightarrow> callback_db \<Rightarrow> u64 set" where
  "ticks T db = (\<lambda>p. SmiTickInterval (ChildContext (snd p))) ` {p \<in> set db. uses_timer T (snd p)}"

lemma collect_timers_min:
  "\<forall>p \<in> set db. record_ok (snd p) \<Longrightarrow>
   MinReqInterval (snd (collect_timers db T) t) = Min (insert (MinReqInterval (T t)) (ticks t db))"
proof (induction db arbitrary: T)
  case (Cons p db)
  obtain h r where p: "p = (h, r)" by (rule prod.exhaust)
  have fin: "finite (ticks t db)" by (simp add: ticks_def)
  have split: "ticks t (p # db) = (if uses_timer t r then insert (SmiTickInterval (ChildContext r)) (ticks t db) else ticks t db)"
    by (force simp: ticks_def p)
  have min: "Min (insert a (insert b X)) = Min (insert (if a > b then b else a) X)" if "finite X" for a b :: u64 and X
    using that by (cases "X = {}") (auto simp: min_def)
  show ?case
  proof (cases "ProtocolType r = PeriodicTimerType")
    case True
    then obtain i where i: "ContextToTimerInterval (ChildContext r) = Some i"
      using Cons.prems by (auto simp: p record_ok_def uses_timer_def)
    have IH: "MinReqInterval (snd (collect_timers db T') t) = Min (insert (MinReqInterval (T' t)) (ticks t db))" for T'
      using Cons by simp
    show ?thesis using True i
      by (simp add: p IH split [unfolded p] uses_timer_def Let_def min [OF fin] del: Min_insert)
  qed (use Cons split in \<open>simp add: p uses_timer_def\<close>)
qed (simp add: ticks_def)

text \<open>A child's tick is one of the intervals of its timer.\<close>

lemma tick_interval:
  assumes "uses_timer t r" "SmiTickInterval (ChildContext r) \<noteq> 0"
  shows "\<exists>i < 4. SmiTickInterval (ChildContext r) = Interval (mSmmPeriodicTimerIntervals ! (case t of PERIODIC_TIMER \<Rightarrow> i | SWSMI_TIMER \<Rightarrow> 7 - i))"
proof -
  obtain i where i: "ContextToTimerInterval (ChildContext r) = Some i" "AssociatedTimer i = t" using assms(1) by (auto simp: uses_timer_def)
  then have "i \<in> set mSmmPeriodicTimerIntervals" "SmiTickInterval (ChildContext r) = Interval i"
    using assms(2) by (auto simp: ContextToTimerInterval_def find_Some_iff)
  then show ?thesis using i(2)
    by (auto simp: mSmmPeriodicTimerIntervals_def) 
      (rule exI [of _ 0], simp, rule exI [of _ 1], simp, rule exI [of _ 2], simp, rule exI [of _ 3], simp,
       rule exI [of _ 3], simp, rule exI [of _ 2], simp, rule exI [of _ 1], simp, rule exI [of _ 0], simp)
qed

lemma periodic_code:
  assumes "i < 4" "m = Interval (mSmmPeriodicTimerIntervals ! i)"
  shows "((v AND NOT B_PCH_PMC_GEN_PMCON_A_PER_SMI_SEL) OR rate_bits (periodic_rate m)) AND 3 = of_nat i"
proof -
  have "i = 0 \<or> i = 1 \<or> i = 2 \<or> i = 3" using assms(1) by auto
  then show ?thesis
    by (elim disjE; simp add: assms(2) mSmmPeriodicTimerIntervals_def regs periodic_rate_def rate_bits_def word_bw_comms bit.conj_disj_distrib2)
      (rule bit_word_eqI; auto simp: bit_simps)+
qed

lemma swsmi_code:
  assumes "i < 4" "m = Interval (mSmmPeriodicTimerIntervals ! (7 - i))"
  shows "drop_bit 6 ((v AND NOT B_PCH_PMC_GEN_PMCON_B_PWR_FLR AND NOT B_PCH_PMC_GEN_PMCON_B_SWSMI_RTSL) OR rate_bits (swsmi_rate m)) = (of_nat i :: u8)"
proof -
  have "i = 0 \<or> i = 1 \<or> i = 2 \<or> i = 3" using assms(1) by auto
  moreover have "drop_bit 6 (v AND NOT B_PCH_PMC_GEN_PMCON_B_PWR_FLR AND NOT B_PCH_PMC_GEN_PMCON_B_SWSMI_RTSL) = 0"
  proof (rule bit_word_eqI)
    fix k assume "k < LENGTH(8)"
    then have "k = 0 \<or> k = 1 \<or> 2 \<le> k \<and> k < 8" by auto
    then show "bit (drop_bit 6 (v AND NOT B_PCH_PMC_GEN_PMCON_B_PWR_FLR AND NOT B_PCH_PMC_GEN_PMCON_B_SWSMI_RTSL)) k = bit (0 :: u8) k"
      by (auto simp: bit_simps regs dest: bit_imp_le_length)
  qed
  ultimately show ?thesis
    by (elim disjE) (simp_all add: drop_bit_or assms(2) mSmmPeriodicTimerIntervals_def swsmi_rate_def rate_bits_def TIME_64s_def
      TIME_32s_def TIME_16s_def TIME_8s_def TIME_64ms_def TIME_32ms_def TIME_16ms_def TIME_1_5ms_def)
qed

lemma clear_keeps_byte:
  assumes "pmc_ab R" "at_pch s" "pch_source x"
  shows "pmc_byte (exec (PchSmmClearSource pch_hw x) s) R = pmc_byte s R"
  using pch.clear_source(2) [OF assms(2) _ refl] assms(1,3) pmc_desc_facts(1)
  by (intro pmc_byte_cong) (auto simp: pch_source_def)

lemma timer_keeps_byte:
  assumes "pmc_ab R" "at_pch s"
  shows "pmc_byte (exec (PchSmmDisableSource pch_hw (mTIMER_SOURCE_DESCS T)) s) R = pmc_byte s R"
    "pmc_byte (exec (PchSmmEnableSource pch_hw (mTIMER_SOURCE_DESCS T)) s) R = pmc_byte s R"
  using pch.disable_source(2) [OF assms(2) pch_timer_source [unfolded pch_source_def] refl]
    pch.enable_source(2) [OF assms(2) pch_timer_source [unfolded pch_source_def] refl] assms(1) pmc_desc_facts(1,2)
  by (auto intro!: pmc_byte_cong simp: any_timer_bit)

lemma set_timer_byte [simp]: "pmc_byte (exec (set_timer t x) s) R = pmc_byte s R"
  by (simp add: pmc_byte_def set_timer_def split: option.splits prod.splits)

lemma program_periodic_byte:
  fixes s :: "'l chip smm_core"
  assumes "at_pch s" "t = exec (program_periodic pch_hw T) s"
  shows "at_pch t" "pmc_byte t R_PCH_PMC_GEN_PMCON_B = pmc_byte s R_PCH_PMC_GEN_PMCON_B"
    "NumChildren T > 0 \<Longrightarrow> i < 4 \<Longrightarrow> MinReqInterval T = Interval (mSmmPeriodicTimerIntervals ! i) \<Longrightarrow>
      pmc_byte t R_PCH_PMC_GEN_PMCON_A AND 3 = of_nat i"
proof -
  let ?io = "pch_hw :: 'l chip io_hw"
  show "at_pch t" using program_periodic_bits [OF assms(1) _ assms(2), of "smi_en 1"] pch_smi_en [of 1] by simp
  have "pmc_byte t R_PCH_PMC_GEN_PMCON_B = pmc_byte s R_PCH_PMC_GEN_PMCON_B \<and>
    (NumChildren T > 0 \<longrightarrow> i < 4 \<longrightarrow> MinReqInterval T = Interval (mSmmPeriodicTimerIntervals ! i) \<longrightarrow>
      pmc_byte t R_PCH_PMC_GEN_PMCON_A AND 3 = of_nat i)" for i
  proof (cases "NumChildren T > 0")
    case True
    obtain v where v: "run_state (on_sys (MmioRead8 (mm ?io) (PmcBase (mm ?io) + R_PCH_PMC_GEN_PMCON_A))) s = (v, s)"
      using read_pmc by blast
    let ?x = "(v AND NOT B_PCH_PMC_GEN_PMCON_A_PER_SMI_SEL) OR rate_bits (periodic_rate (MinReqInterval T))"
    define u where "u = exec (on_sys (MmioWrite8 (mm ?io) (PmcBase (mm ?io) + R_PCH_PMC_GEN_PMCON_A) ?x))
      (exec (set_timer PERIODIC_TIMER (periodic_rate (MinReqInterval T))) s)"
    have t: "t = exec (PchSmmClearSource ?io PERIODIC_TIMER_DESC) u"
      unfolding assms(2) program_periodic_def u_def
      by (simp only: True if_True exec_bind_read [OF v] exec_then mTIMER_SOURCE_DESCS_def SUPPORTED_TIMER.case)
    have "at_pch u" using assms(1) by (simp add: u_def core_keeps)
    note keep = clear_keeps_byte [OF _ this pch_source_standard(6)]
    have A: "pmc_byte t R_PCH_PMC_GEN_PMCON_A = ?x" "pmc_byte t R_PCH_PMC_GEN_PMCON_B = pmc_byte s R_PCH_PMC_GEN_PMCON_B"
      unfolding t by (simp_all add: keep) (simp_all add: u_def pmc_byte_write, simp add: regs)
    show ?thesis unfolding A using periodic_code by blast
  next
    case False
    then show ?thesis unfolding assms(2) program_periodic_def by (simp add: timer_keeps_byte [OF _ assms(1)])
  qed
  then show "pmc_byte t R_PCH_PMC_GEN_PMCON_B = pmc_byte s R_PCH_PMC_GEN_PMCON_B"
    "NumChildren T > 0 \<Longrightarrow> i < 4 \<Longrightarrow> MinReqInterval T = Interval (mSmmPeriodicTimerIntervals ! i) \<Longrightarrow>
      pmc_byte t R_PCH_PMC_GEN_PMCON_A AND 3 = of_nat i" by blast+
qed

lemma program_swsmi_byte:
  fixes s :: "'l chip smm_core"
  assumes "at_pch s" "t = exec (program_swsmi pch_hw T) s"
  shows "at_pch t" "pmc_byte t R_PCH_PMC_GEN_PMCON_A = pmc_byte s R_PCH_PMC_GEN_PMCON_A"
    "NumChildren T > 0 \<Longrightarrow> i < 4 \<Longrightarrow> MinReqInterval T = Interval (mSmmPeriodicTimerIntervals ! (7 - i)) \<Longrightarrow>
      drop_bit 6 (pmc_byte t R_PCH_PMC_GEN_PMCON_B) = of_nat i"
proof -
  let ?io = "pch_hw :: 'l chip io_hw" and ?d = "mTIMER_SOURCE_DESCS SWSMI_TIMER"
  show "at_pch t" using program_swsmi_bits [OF assms(1) _ assms(2), of "smi_en 1"] pch_smi_en [of 1] by simp
  have "pmc_byte t R_PCH_PMC_GEN_PMCON_A = pmc_byte s R_PCH_PMC_GEN_PMCON_A \<and>
    (NumChildren T > 0 \<longrightarrow> i < 4 \<longrightarrow> MinReqInterval T = Interval (mSmmPeriodicTimerIntervals ! (7 - i)) \<longrightarrow>
      drop_bit 6 (pmc_byte t R_PCH_PMC_GEN_PMCON_B) = of_nat i)" for i
  proof (cases "NumChildren T > 0")
    case True
    obtain v where v: "run_state (on_sys (MmioRead8 (mm ?io) (PmcBase (mm ?io) + R_PCH_PMC_GEN_PMCON_B))) s = (v, s)"
      using read_pmc by blast
    let ?x = "(v AND NOT B_PCH_PMC_GEN_PMCON_B_PWR_FLR AND NOT B_PCH_PMC_GEN_PMCON_B_SWSMI_RTSL) OR rate_bits (swsmi_rate (MinReqInterval T))"
    define u where "u = exec (on_sys (MmioWrite8 (mm ?io) (PmcBase (mm ?io) + R_PCH_PMC_GEN_PMCON_B) ?x))
      (exec (set_timer SWSMI_TIMER (swsmi_rate (MinReqInterval T))) s)"
    define y where "y = exec (PchSmmDisableSource ?io ?d) u"
    define z where "z = exec (PchSmmClearSource ?io ?d) y"
    have t: "t = exec (PchSmmEnableSource ?io ?d) z"
      unfolding assms(2) program_swsmi_def u_def y_def z_def
      by (simp only: True if_True exec_bind_read [OF v] exec_then)
    have p: "at_pch u" "at_pch y" "at_pch z" using assms(1) by (simp_all add: u_def y_def z_def core_keeps)
    have "pmc_byte t R = pmc_byte u R" if "pmc_ab R" for R
      using timer_keeps_byte(2) [OF that p(3)] clear_keeps_byte [OF that p(2) pch_timer_source] timer_keeps_byte(1) [OF that p(1)]
      by (simp only: t z_def y_def)
    then have B: "pmc_byte t R_PCH_PMC_GEN_PMCON_B = ?x" "pmc_byte t R_PCH_PMC_GEN_PMCON_A = pmc_byte s R_PCH_PMC_GEN_PMCON_A"
      by simp_all (simp_all add: u_def pmc_byte_write, simp add: regs)
    show ?thesis unfolding B using swsmi_code by blast
  next
    case False
    then show ?thesis unfolding assms(2) program_swsmi_def by (simp add: timer_keeps_byte [OF _ assms(1)])
  qed
  then show "pmc_byte t R_PCH_PMC_GEN_PMCON_A = pmc_byte s R_PCH_PMC_GEN_PMCON_A"
    "NumChildren T > 0 \<Longrightarrow> i < 4 \<Longrightarrow> MinReqInterval T = Interval (mSmmPeriodicTimerIntervals ! (7 - i)) \<Longrightarrow>
      drop_bit 6 (pmc_byte t R_PCH_PMC_GEN_PMCON_B) = of_nat i" by blast+
qed

text \<open>The registers after the timers have been programmed.\<close>

definition rates_ok :: "callback_db \<Rightarrow> 'l chip smm_core \<Rightarrow> bool" where
  "rates_ok db s \<longleftrightarrow>
     (ticks PERIODIC_TIMER db \<noteq> {} \<longrightarrow>
       Interval (mSmmPeriodicTimerIntervals ! unat (pmc_byte s R_PCH_PMC_GEN_PMCON_A AND 3)) = Min (ticks PERIODIC_TIMER db)) \<and>
     (ticks SWSMI_TIMER db \<noteq> {} \<longrightarrow>
       Interval (mSmmPeriodicTimerIntervals ! (7 - unat (drop_bit 6 (pmc_byte s R_PCH_PMC_GEN_PMCON_B)))) = Min (ticks SWSMI_TIMER db))"

lemma min_tick:
  assumes "\<forall>p \<in> set db. record_ok (snd p)" "0 \<notin> ticks t db" "ticks t db \<noteq> {}"
  shows "\<exists>i < 4. Min (insert (NOT 0) (ticks t db)) = Interval (mSmmPeriodicTimerIntervals ! (case t of PERIODIC_TIMER \<Rightarrow> i | SWSMI_TIMER \<Rightarrow> 7 - i))
    \<and> Min (insert (NOT 0) (ticks t db)) = Min (ticks t db)"
proof -
  have fin: "finite (ticks t db)" by (simp add: ticks_def)
  then have "Min (ticks t db) \<in> ticks t db" using assms(3) by (rule Min_in)
  then obtain h r where "uses_timer t r" "Min (ticks t db) = SmiTickInterval (ChildContext r)" by (auto simp: ticks_def)
  moreover have "Min (ticks t db) \<noteq> 0" using assms(2) \<open>Min (ticks t db) \<in> ticks t db\<close> by metis
  ultimately have "\<exists>i < 4. Min (ticks t db) = Interval (mSmmPeriodicTimerIntervals ! (case t of PERIODIC_TIMER \<Rightarrow> i | SWSMI_TIMER \<Rightarrow> 7 - i))"
    using tick_interval [of t r] by simp
  moreover have "Min (ticks t db) \<le> NOT 0" by simp
  then have "Min (insert (NOT 0) (ticks t db)) = Min (ticks t db)"
    by (simp only: Min_insert [OF fin assms(3)] min_absorb2)
  ultimately show ?thesis by simp
qed

lemma ticks_used:
  assumes "db_ok db" shows "ticks t db \<noteq> {} \<longleftrightarrow> used db (timer_bit t)"
proof -
  have "\<forall>p \<in> set db. any_bit (En (SrcDesc (snd p))) (timer_bit t) \<longleftrightarrow> uses_timer t (snd p)"
    using assms record_timer_bit by (simp add: db_ok_def)
  then show ?thesis unfolding ticks_def used_def image_is_empty by blast
qed

lemma program_timers_rates:
  fixes s :: "'l chip smm_core"
  assumes "at_pch s" "db_ok (CallbackDataBase s)" "0 \<notin> ticks PERIODIC_TIMER (CallbackDataBase s) \<union> ticks SWSMI_TIMER (CallbackDataBase s)"
    and "t = exec (PchSmmPeriodicTimerProgramTimers pch_hw) s"
  shows "rates_ok (CallbackDataBase s) t"
proof -
  let ?db = "CallbackDataBase s"
  obtain k T where T: "collect_timers ?db (reset_timers (mTimers s)) = (k, T)" by (rule prod.exhaust)
  have k: "k" by (rule timer_children(1) [OF assms(2) T])
  define u where "u = s\<lparr> mTimers := T \<rparr>"
  define v where "v = exec (program_periodic pch_hw (T PERIODIC_TIMER)) u"
  have t: "t = exec (program_swsmi pch_hw (T SWSMI_TIMER)) v"
    using k unfolding assms(4) PchSmmPeriodicTimerProgramTimers_def
    by (simp add: T u_def v_def run_bind split: prod.splits)
  have u: "at_pch u" by (simp add: u_def assms(1) [unfolded bases_def] bases_def)
  note v = program_periodic_byte [OF u v_def]
  note w = program_swsmi_byte [OF v(1) t]
  have ok: "\<forall>p \<in> set ?db. record_ok (snd p)" using assms(2) by (simp add: db_ok_def)
  have min: "MinReqInterval (T x) = Min (insert (NOT 0) (ticks x ?db))" for x
    using collect_timers_min [OF ok, of "reset_timers (mTimers s)" x] by (simp add: T) (simp add: reset_timers_def)
  have n: "ticks x ?db \<noteq> {} \<Longrightarrow> NumChildren (T x) > 0" for x
    using timer_children(2) [OF assms(2) T] ticks_used [OF assms(2)] by simp
  have four: "unat (of_nat i :: u8) = i" if "i < 4" for i using that by (simp add: unat_of_nat)
  have "Interval (mSmmPeriodicTimerIntervals ! unat (pmc_byte t R_PCH_PMC_GEN_PMCON_A AND 3)) = Min (ticks PERIODIC_TIMER ?db)"
    if ne: "ticks PERIODIC_TIMER ?db \<noteq> {}"
  proof -
    obtain i where i: "i < 4" "MinReqInterval (T PERIODIC_TIMER) = Interval (mSmmPeriodicTimerIntervals ! i)"
      "MinReqInterval (T PERIODIC_TIMER) = Min (ticks PERIODIC_TIMER ?db)"
      using min_tick [OF ok _ ne] assms(3) unfolding min by auto
    show ?thesis using v(3) [OF n [OF ne] i(1,2)] i by (simp add: w(2) four)
  qed
  moreover have "Interval (mSmmPeriodicTimerIntervals ! (7 - unat (drop_bit 6 (pmc_byte t R_PCH_PMC_GEN_PMCON_B)))) = Min (ticks SWSMI_TIMER ?db)"
    if ne: "ticks SWSMI_TIMER ?db \<noteq> {}"
  proof -
    obtain i where i: "i < 4" "MinReqInterval (T SWSMI_TIMER) = Interval (mSmmPeriodicTimerIntervals ! (7 - i))"
      "MinReqInterval (T SWSMI_TIMER) = Min (ticks SWSMI_TIMER ?db)"
      using min_tick [OF ok _ ne] assms(3) unfolding min by auto
    show ?thesis using w(3) [OF n [OF ne] i(1,2)] i by (simp add: four)
  qed
  ultimately show ?thesis by (simp add: rates_ok_def)
qed

lemma program_timers_keeps:
  assumes "at_pch s" "db_ok (CallbackDataBase s)" "t = exec (PchSmmPeriodicTimerProgramTimers pch_hw) s"
  shows "at_pch t" "CallbackDataBase t = CallbackDataBase s"
  using program_timers_bits [OF assms(1) _ assms(2,3), of "smi_en 1"] pch_smi_en [of 1] by simp_all

text \<open>C14: Registering a child of a periodic timer with an interval of the table, among children
  that all have one, adds it to the database, and then both timers run at the shortest interval
  that any of their children asked for: the fields PER_SMI_SEL and SWSMI_RTSL of the power
  management registers select it.\<close>

theorem timer_registered:
  assumes "sys_io env = pch_hw" "at_pch s" "db_ok (CallbackDataBase s)" "new_handle s (Some h)"
    and "0 \<notin> ticks PERIODIC_TIMER (CallbackDataBase s) \<union> ticks SWSMI_TIMER (CallbackDataBase s)"
    and "ContextToTimerInterval c = Some i" "0 < SmiTickInterval c"
    and "run_state (PchSmmCoreRegister env PeriodicTimerType f c (Some h)) s = (r, t)"
  shows "r = (EFI_SUCCESS, Some (h, c)) \<and>
    CallbackDataBase t = CallbackDataBase s @
      [(h, new_record PeriodicTimerType f (mTIMER_SOURCE_DESCS (AssociatedTimer i)) C_PeriodicTimer c)] \<and>
    rates_ok (CallbackDataBase t) t"
proof -
  let ?Src = "mTIMER_SOURCE_DESCS (AssociatedTimer i)"
  let ?r = "new_record PeriodicTimerType f ?Src C_PeriodicTimer c"
  define v where "v = exec (PchSmmPeriodicTimerProgramTimers pch_hw) s"
  define w where "w = exec (insert_record h ?r) v"
  define u where "u = exec (PchSmmPeriodicTimerProgramTimers pch_hw) w"
  have tick: "\<not> SmiTickInterval c \<le> 0" using assms(7) by (simp add: not_le)
  have run: "r = (EFI_SUCCESS, Some (h, c))" "t = exec (PchSmmEnableSource pch_hw ?Src) u"
    using assms(8) tick unfolding u_def v_def w_def
    by (auto simp: PchSmmCoreRegister_def core_source_def MapPeriodicTimerToSrcDesc_def assms(1,6) timer_not_null split: prod.splits)
  note v = program_timers_keeps [OF assms(2,3) v_def]
  have ok: "record_ok ?r" using assms(6) pch_timer_source by (auto simp: record_ok_def new_record_def uses_timer_def)
  have w: "at_pch w" "CallbackDataBase w = CallbackDataBase s @ [(h, ?r)]" using v by (simp_all add: w_def)
  have db: "db_ok (CallbackDataBase w)"
    using assms(3,4) ok unfolding w(2) by (auto simp: db_ok_def new_handle_def)
  note u = program_timers_keeps [OF w(1) db u_def]
  have "0 \<notin> ticks PERIODIC_TIMER (CallbackDataBase w) \<union> ticks SWSMI_TIMER (CallbackDataBase w)"
    using assms(5,7) unfolding w(2) by (auto simp: ticks_def new_record_def)
  from program_timers_rates [OF w(1) db this u_def] have "rates_ok (CallbackDataBase w) u" .
  moreover have "CallbackDataBase t = CallbackDataBase u" by (simp add: run(2) core_keeps)
  ultimately show ?thesis
    using run w u(2) timer_keeps_byte(2) [OF _ u(1)] by (simp add: rates_ok_def)
qed

text \<open>A child every 16 seconds.\<close>

theorem timer_registered_witness:
  "unat (pmc_byte (exec (PchSmmCoreRegister log_env PeriodicTimerType (Some 7) \<lparr> W0 = TIME_32s, W1 = TIME_16s \<rparr> (Some 8)) log_boot)
     R_PCH_PMC_GEN_PMCON_A AND 3) = 2"
proof -
  let ?c = "\<lparr> W0 = TIME_32s, W1 = TIME_16s \<rparr>"
  let ?t = "exec (PchSmmCoreRegister log_env PeriodicTimerType (Some 7) ?c (Some 8)) log_boot"
  have empty: "CallbackDataBase log_boot = []" by (simp add: log_boot_def)
  have c: "ContextToTimerInterval ?c = Some \<lparr> Interval = TIME_16s, AssociatedTimer = PERIODIC_TIMER \<rparr>"
    by (simp add: ContextToTimerInterval_def mSmmPeriodicTimerIntervals_def SmiTickInterval_def TIME_64s_def
      TIME_32s_def TIME_16s_def TIME_8s_def)
  have io: "sys_io log_env = pch_hw" by (simp add: log_env_def)
  have start: "db_ok (CallbackDataBase log_boot)" "new_handle log_boot (Some 8)"
    "0 \<notin> ticks PERIODIC_TIMER (CallbackDataBase log_boot) \<union> ticks SWSMI_TIMER (CallbackDataBase log_boot)" "0 < SmiTickInterval ?c"
    by (simp_all add: empty db_ok_def new_handle_def ticks_def SmiTickInterval_def TIME_16s_def)
  note t = timer_registered [OF io at_pch_log_boot start(1-3) c start(4) surjective_pairing, of "Some 7",
      THEN conjunct2, unfolded empty append_Nil]
  have "CallbackDataBase ?t = [(8, new_record PeriodicTimerType (Some 7) PERIODIC_TIMER_DESC C_PeriodicTimer ?c)]"
    using t [THEN conjunct1] by (simp only: TIMER_INTERVAL.select_convs mTIMER_SOURCE_DESCS_def SUPPORTED_TIMER.case)
  with t have "Interval (mSmmPeriodicTimerIntervals ! unat (pmc_byte ?t R_PCH_PMC_GEN_PMCON_A AND 3)) = TIME_16s"
    using c by (auto simp: rates_ok_def ticks_def uses_timer_def new_record_def SmiTickInterval_def)
  moreover have "unat (pmc_byte ?t R_PCH_PMC_GEN_PMCON_A AND 3) \<in> {0, 1, 2, 3}"
  proof -
    have "unat (pmc_byte ?t R_PCH_PMC_GEN_PMCON_A AND 3) \<le> 3"
      using word_and_le1 [of "pmc_byte ?t R_PCH_PMC_GEN_PMCON_A" 3] by (simp only: word_le_nat_alt) simp
    then show ?thesis by auto
  qed
  ultimately show ?thesis
    by (auto simp: mSmmPeriodicTimerIntervals_def TIME_64s_def TIME_32s_def TIME_16s_def TIME_8s_def)
qed

end
