(* ===== verification/SpiFlash.thy ===== *)
theory SpiFlash
  imports SmmCore CycleDecoding
begin

text \<open>
  The SPI flash driver: BasePchSpiCommonLib/SpiCommon.c, the operations of EFI_SPI_PROTOCOL that run
  flash cycles through the hardware sequencing registers of the PCH.  What the phases of the boot do
  differently (finding the registers, the write protection of the BIOS) is a record of functions,
  \<open>spi_hooks\<close>; SpiHooks has its three implementations.
\<close>

section \<open>State\<close>

text \<open>The services of the protocol; the record of the driver holds a pointer to each.\<close>

datatype SPI_SERVICE = FlashRead | FlashWrite | FlashErase | FlashReadSfdp | FlashReadJedecId
  | FlashWriteStatus | FlashReadStatus | GetRegionAddress | ReadPchSoftStrap | ReadCpuSoftStrap

record SPI_INSTANCE =
  SpiProtocol :: "SPI_SERVICE \<Rightarrow> u64"
  PchAcpiBase :: u16
  PchSpiBase :: u64
  ReadPermission :: u16
  WritePermission :: u16
  SfdpVscc0Value :: u32
  SfdpVscc1Value :: u32
  PchStrapBaseAddr :: u16
  PchStrapSize :: u16
  CpuStrapBaseAddr :: u16
  CpuStrapSize :: u16
  NumberOfComponents :: u8
  Component1StartAddr :: u32
  TotalFlashSize :: u32

text \<open>The memory of the callers holds their buffers.  The remaining fields are the module variables of
  Spi/Smm/PchSpi.c and Spi/RuntimeDxe/PchSpi.c.\<close>

record 's spi =
  spi_sys :: "'s sys"
  spi_ram :: mem
  spi_inst :: SPI_INSTANCE
  mSpiInstance :: u64
  mSpiResvMmioAddr :: u32
  mPchSpiBar0PhysicalAddr :: u32
  mPchSpiBar0VirtualAddr :: u64
  mRuntimeFlag :: bool

type_synonym ('s, 'a) spi_prog = "('s spi, 'a) state"

text \<open>Hardware with model specific registers.\<close>

record 's spi_hw =
  ports :: "'s io_hw"
  msr_wr :: "u32 \<Rightarrow> u32 \<Rightarrow> 's \<Rightarrow> 's"

abbreviation mmio :: "'s spi_hw \<Rightarrow> 's hw" where "mmio io \<equiv> mm (ports io)"

definition spi_on_sys :: "('s, 'a) prog \<Rightarrow> ('s, 'a) spi_prog" where
  "spi_on_sys p = State (\<lambda>s. let (a, t) = run_state p (spi_sys s) in (a, s\<lparr> spi_sys := t \<rparr>))"

definition of_inst :: "(SPI_INSTANCE \<Rightarrow> 'a) \<Rightarrow> ('s, 'a) spi_prog" where
  "of_inst f = State (\<lambda>s. (f (spi_inst s), s))"

definition set_inst :: "(SPI_INSTANCE \<Rightarrow> SPI_INSTANCE) \<Rightarrow> ('s, unit) spi_prog" where
  "set_inst f = State (\<lambda>s. ((), s\<lparr> spi_inst := f (spi_inst s) \<rparr>))"

definition PortRead32 :: "'s spi_hw \<Rightarrow> u64 \<Rightarrow> ('s, u32) spi_prog" where
  "PortRead32 io Port = spi_on_sys (on_dev (io_rd32 (ports io) Port))"

definition PortWrite32 :: "'s spi_hw \<Rightarrow> u64 \<Rightarrow> u32 \<Rightarrow> ('s, unit) spi_prog" where
  "PortWrite32 io Port Value = spi_on_sys (on_dev (\<lambda>d. ((), io_wr32 (ports io) Port Value d)))"

section \<open>Registers\<close>

definition B_PCH_SPI_BC_EISS :: u8 where [regs]: "B_PCH_SPI_BC_EISS = BIT 5"
definition B_PCH_SPI_BC_SRC :: u8 where [regs]: "B_PCH_SPI_BC_SRC = BIT 3 OR BIT 2"
definition N_PCH_SPI_BC_SRC :: nat where [regs]: "N_PCH_SPI_BC_SRC = 2"
definition V_PCH_SPI_BC_SRC_PREF_DIS_CACHE_DIS :: u8 where [regs]: "V_PCH_SPI_BC_SRC_PREF_DIS_CACHE_DIS = 0x01"
definition B_PCH_SPI_BC_WPD :: u8 where [regs]: "B_PCH_SPI_BC_WPD = BIT 0"
definition R_PCH_SPI_BFPR :: u64 where [regs]: "R_PCH_SPI_BFPR = 0x00"
definition B_PCH_SPI_BFPR_SBRS :: u32 where [regs]: "B_PCH_SPI_BFPR_SBRS = BIT 31"
definition B_PCH_SPI_HSFSC_FDBC_MASK :: u32 where [regs]: "B_PCH_SPI_HSFSC_FDBC_MASK = 0x3F000000"
definition N_PCH_SPI_HSFSC_FDBC :: nat where [regs]: "N_PCH_SPI_HSFSC_FDBC = 24"
definition B_PCH_SPI_HSFSC_CYCLE_MASK :: u32 where [regs]: "B_PCH_SPI_HSFSC_CYCLE_MASK = 0x001E0000"
definition N_PCH_SPI_HSFSC_CYCLE :: nat where [regs]: "N_PCH_SPI_HSFSC_CYCLE = 17"
definition V_PCH_SPI_HSFSC_CYCLE_READ :: u32 where [regs]: "V_PCH_SPI_HSFSC_CYCLE_READ = 0"
definition V_PCH_SPI_HSFSC_CYCLE_WRITE :: u32 where [regs]: "V_PCH_SPI_HSFSC_CYCLE_WRITE = 2"
definition V_PCH_SPI_HSFSC_CYCLE_4K_ERASE :: u32 where [regs]: "V_PCH_SPI_HSFSC_CYCLE_4K_ERASE = 3"
definition V_PCH_SPI_HSFSC_CYCLE_64K_ERASE :: u32 where [regs]: "V_PCH_SPI_HSFSC_CYCLE_64K_ERASE = 4"
definition V_PCH_SPI_HSFSC_CYCLE_READ_SFDP :: u32 where [regs]: "V_PCH_SPI_HSFSC_CYCLE_READ_SFDP = 5"
definition V_PCH_SPI_HSFSC_CYCLE_READ_JEDEC_ID :: u32 where [regs]: "V_PCH_SPI_HSFSC_CYCLE_READ_JEDEC_ID = 6"
definition V_PCH_SPI_HSFSC_CYCLE_WRITE_STATUS :: u32 where [regs]: "V_PCH_SPI_HSFSC_CYCLE_WRITE_STATUS = 7"
definition V_PCH_SPI_HSFSC_CYCLE_READ_STATUS :: u32 where [regs]: "V_PCH_SPI_HSFSC_CYCLE_READ_STATUS = 8"
definition B_PCH_SPI_HSFSC_CYCLE_FGO :: u32 where [regs]: "B_PCH_SPI_HSFSC_CYCLE_FGO = BIT 16"
definition B_PCH_SPI_HSFSC_FDV :: u32 where [regs]: "B_PCH_SPI_HSFSC_FDV = BIT 14"
definition B_PCH_SPI_HSFSC_SCIP :: u32 where [regs]: "B_PCH_SPI_HSFSC_SCIP = BIT 5"
definition B_PCH_SPI_HSFSC_FCERR :: u32 where [regs]: "B_PCH_SPI_HSFSC_FCERR = BIT 1"
definition R_PCH_SPI_FADDR :: u64 where [regs]: "R_PCH_SPI_FADDR = 0x08"
definition B_PCH_SPI_FADDR_MASK :: u32 where [regs]: "B_PCH_SPI_FADDR_MASK = 0x07FFFFFF"
definition R_PCH_SPI_FDATA00 :: u64 where [regs]: "R_PCH_SPI_FDATA00 = 0x10"
definition R_PCH_SPI_FREG0_FLASHD :: u64 where [regs]: "R_PCH_SPI_FREG0_FLASHD = 0x54"
definition R_PCH_SPI_FREG6_SECONDARY_BIOS :: u64 where [regs]: "R_PCH_SPI_FREG6_SECONDARY_BIOS = 0x6C"
definition R_PCH_SPI_FREG12 :: u64 where [regs]: "R_PCH_SPI_FREG12 = 0xE0"
definition S_PCH_SPI_FREGX :: u64 where [regs]: "S_PCH_SPI_FREGX = 4"
definition B_PCH_SPI_FREGX_LIMIT_MASK :: u32 where [regs]: "B_PCH_SPI_FREGX_LIMIT_MASK = 0x7FFF0000"
definition N_PCH_SPI_FREGX_LIMIT :: nat where [regs]: "N_PCH_SPI_FREGX_LIMIT = 16"
definition N_PCH_SPI_FREGX_LIMIT_REPR :: nat where [regs]: "N_PCH_SPI_FREGX_LIMIT_REPR = 12"
definition B_PCH_SPI_FREGX_BASE_MASK :: u32 where [regs]: "B_PCH_SPI_FREGX_BASE_MASK = 0x00007FFF"
definition N_PCH_SPI_FREGX_BASE :: nat where [regs]: "N_PCH_SPI_FREGX_BASE = 0"
definition N_PCH_SPI_FREGX_BASE_REPR :: nat where [regs]: "N_PCH_SPI_FREGX_BASE_REPR = 12"
definition R_PCH_SPI_FDOC :: u64 where [regs]: "R_PCH_SPI_FDOC = 0xB4"
definition B_PCH_SPI_FDOC_FDSS_MASK :: u32 where [regs]: "B_PCH_SPI_FDOC_FDSS_MASK = BIT 14 OR BIT 13 OR BIT 12"
definition V_PCH_SPI_FDOC_FDSS_FSDM :: u32 where [regs]: "V_PCH_SPI_FDOC_FDSS_FSDM = 0x0000"
definition V_PCH_SPI_FDOC_FDSS_COMP :: u32 where [regs]: "V_PCH_SPI_FDOC_FDSS_COMP = 0x1000"
definition B_PCH_SPI_FDOC_FDSI_MASK :: u32 where [regs]: "B_PCH_SPI_FDOC_FDSI_MASK = 0x0FFC"
definition R_PCH_SPI_FDOD :: u64 where [regs]: "R_PCH_SPI_FDOD = 0xB8"
definition R_PCH_SPI_SFDP0_VSCC0 :: u64 where [regs]: "R_PCH_SPI_SFDP0_VSCC0 = 0xC4"
definition R_PCH_SPI_SFDP1_VSCC1 :: u64 where [regs]: "R_PCH_SPI_SFDP1_VSCC1 = 0xC8"
definition B_PCH_SPI_SFDPX_VSCCX_EO_64K :: u32 where [regs]: "B_PCH_SPI_SFDPX_VSCCX_EO_64K = BIT 29"
definition R_PCH_SPI_BM_RAP :: u64 where [regs]: "R_PCH_SPI_BM_RAP = 0x118"
definition R_PCH_SPI_BM_WAP :: u64 where [regs]: "R_PCH_SPI_BM_WAP = 0x11C"
definition R_PCH_SPI_FDBAR_FLASH_MAP0 :: u32 where [regs]: "R_PCH_SPI_FDBAR_FLASH_MAP0 = 0x04"
definition B_PCH_SPI_FDBAR_NC :: u32 where [regs]: "B_PCH_SPI_FDBAR_NC = 0x00000300"
definition N_PCH_SPI_FDBAR_NC :: nat where [regs]: "N_PCH_SPI_FDBAR_NC = 8"
definition R_PCH_SPI_FDBAR_FLASH_MAP1 :: u32 where [regs]: "R_PCH_SPI_FDBAR_FLASH_MAP1 = 0x08"
definition B_PCH_SPI_FDBAR_FPSBA :: u32 where [regs]: "B_PCH_SPI_FDBAR_FPSBA = 0x00FF0000"
definition N_PCH_SPI_FDBAR_FPSBA :: nat where [regs]: "N_PCH_SPI_FDBAR_FPSBA = 16"
definition N_PCH_SPI_FDBAR_FPSBA_REPR :: nat where [regs]: "N_PCH_SPI_FDBAR_FPSBA_REPR = 4"
definition B_PCH_SPI_FDBAR_PCHSL :: u32 where [regs]: "B_PCH_SPI_FDBAR_PCHSL = 0xFF000000"
definition N_PCH_SPI_FDBAR_PCHSL :: nat where [regs]: "N_PCH_SPI_FDBAR_PCHSL = 24"
definition R_PCH_SPI_FDBAR_FLASH_MAP2 :: u32 where [regs]: "R_PCH_SPI_FDBAR_FLASH_MAP2 = 0x0C"
definition B_PCH_SPI_FDBAR_FCPUSBA :: u32 where [regs]: "B_PCH_SPI_FDBAR_FCPUSBA = 0x000000FF"
definition N_PCH_SPI_FDBAR_FCPUSBA :: nat where [regs]: "N_PCH_SPI_FDBAR_FCPUSBA = 0"
definition N_PCH_SPI_FDBAR_FCPUSBA_REPR :: nat where [regs]: "N_PCH_SPI_FDBAR_FCPUSBA_REPR = 4"
definition B_PCH_SPI_FDBAR_CPUSL :: u32 where [regs]: "B_PCH_SPI_FDBAR_CPUSL = 0x0000FF00"
definition N_PCH_SPI_FDBAR_CPUSL :: nat where [regs]: "N_PCH_SPI_FDBAR_CPUSL = 8"
definition R_PCH_SPI_FCBA_FLCOMP :: u32 where [regs]: "R_PCH_SPI_FCBA_FLCOMP = 0x00"
definition B_PCH_SPI_FLCOMP_COMP1_MASK :: u32 where [regs]: "B_PCH_SPI_FLCOMP_COMP1_MASK = 0xF0"
definition N_PCH_SPI_FLCOMP_COMP1 :: nat where [regs]: "N_PCH_SPI_FLCOMP_COMP1 = 4"
definition B_PCH_SPI_FLCOMP_COMP0_MASK :: u32 where [regs]: "B_PCH_SPI_FLCOMP_COMP0_MASK = 0x0F"
definition V_PCH_SPI_FLCOMP_COMP_512KB :: u32 where [regs]: "V_PCH_SPI_FLCOMP_COMP_512KB = 0x80000"
definition R_PCH_ACPI_PM1_TMR :: u64 where [regs]: "R_PCH_ACPI_PM1_TMR = 0x08"
definition B_PCH_ACPI_PM1_TMR_VAL :: u32 where [regs]: "B_PCH_ACPI_PM1_TMR_VAL = 0xFFFFFF"
definition V_PCH_ACPI_PM1_TMR_MAX_VAL :: u64 where [regs]: "V_PCH_ACPI_PM1_TMR_MAX_VAL = 0x1000000"
definition SPI_WAIT_TIME :: nat where [regs]: "SPI_WAIT_TIME = 6000000"
definition SPI_WAIT_PERIOD :: nat where [regs]: "SPI_WAIT_PERIOD = 10"
definition SIZE_4KB :: u32 where [regs]: "SIZE_4KB = 0x1000"
definition SIZE_64KB :: u32 where [regs]: "SIZE_64KB = 0x10000"

definition FlashRegionDescriptor :: u32 where [regs]: "FlashRegionDescriptor = 0"
definition FlashRegionBios :: u32 where [regs]: "FlashRegionBios = 1"
definition FlashRegion10Gbe_B :: u32 where [regs]: "FlashRegion10Gbe_B = 12"
definition FlashRegionAll :: u32 where [regs]: "FlashRegionAll = 16"
definition FlashRegionMax :: u32 where [regs]: "FlashRegionMax = 17"
definition FlashComponent1 :: u8 where [regs]: "FlashComponent1 = 1"

datatype FLASH_CYCLE_TYPE = FlashCycleRead | FlashCycleWrite | FlashCycleErase | FlashCycleReadSfdp
  | FlashCycleReadJedecId | FlashCycleWriteStatus | FlashCycleReadStatus | FlashCycleMax

section \<open>What depends on the phase of the boot\<close>

record 's spi_hooks =
  AcquireSpiBar0 :: "('s, u64) spi_prog"
  ReleaseSpiBar0 :: "('s, unit) spi_prog"
  DisableBiosWriteProtect :: "('s, efi_status) spi_prog"
  EnableBiosWriteProtect :: "('s, unit) spi_prog"

section \<open>SpiProtocolConstructor\<close>

text \<open>Reading a word of the flash descriptor: select section and index, then read.\<close>

definition select_descriptor :: "'s spi_hw \<Rightarrow> u64 \<Rightarrow> u32 \<Rightarrow> ('s, u32) prog" where
  "select_descriptor io PchSpiBar0 sel =
     MmioAndThenOr32 (mmio io) (PchSpiBar0 + R_PCH_SPI_FDOC)
       (NOT (B_PCH_SPI_FDOC_FDSS_MASK OR B_PCH_SPI_FDOC_FDSI_MASK)) sel"

definition total_flash_size :: "u8 \<Rightarrow> u32 \<Rightarrow> u32 \<Rightarrow> u32 \<times> u32" where
  "total_flash_size NumComponents Data32 Comp1Start =
     (let Size0 = push_bit (unat (Data32 AND B_PCH_SPI_FLCOMP_COMP0_MASK)) V_PCH_SPI_FLCOMP_COMP_512KB in
      if NumComponents > 0
      then (Size0, Size0 + push_bit (unat (drop_bit N_PCH_SPI_FLCOMP_COMP1 (Data32 AND B_PCH_SPI_FLCOMP_COMP1_MASK)))
        V_PCH_SPI_FLCOMP_COMP_512KB)
      else (Comp1Start, Size0))"

text \<open>\<open>fn\<close> is where the linker has put the services.\<close>

definition SpiProtocolConstructor :: "'s spi_hw \<Rightarrow> (SPI_SERVICE \<Rightarrow> u64) \<Rightarrow> ('s, efi_status) spi_prog" where
  "SpiProtocolConstructor io fn = do {
     set_inst (SpiProtocol_update (\<lambda>_. fn));
     let PchSpiBase = spi_base (ports io);
     set_inst (PchSpiBase_update (\<lambda>_. PchSpiBase));
     old \<leftarrow> of_inst PchAcpiBase;
     (_, ABase) \<leftarrow> spi_on_sys (PchAcpiBaseGet (mmio io) (Some old));
     set_inst (PchAcpiBase_update (\<lambda>_. the ABase));
     v \<leftarrow> spi_on_sys (MmioRead32 (mmio io) (PchSpiBase + R_PCH_SPI_BAR0));
     let PchSpiBar0 = (ucast (v AND NOT B_PCH_SPI_BAR0_MASK) :: u64);
     _ \<leftarrow> spi_on_sys (MmioRead32 (mmio io) (PchSpiBar0 + R_PCH_SPI_HSFSC));
     rap \<leftarrow> spi_on_sys (MmioRead16 (mmio io) (PchSpiBar0 + R_PCH_SPI_BM_RAP));
     set_inst (ReadPermission_update (\<lambda>_. rap));
     wap \<leftarrow> spi_on_sys (MmioRead16 (mmio io) (PchSpiBar0 + R_PCH_SPI_BM_WAP));
     set_inst (WritePermission_update (\<lambda>_. wap));
     vscc0 \<leftarrow> spi_on_sys (MmioRead32 (mmio io) (PchSpiBar0 + R_PCH_SPI_SFDP0_VSCC0));
     set_inst (SfdpVscc0Value_update (\<lambda>_. vscc0));
     vscc1 \<leftarrow> spi_on_sys (MmioRead32 (mmio io) (PchSpiBar0 + R_PCH_SPI_SFDP1_VSCC1));
     set_inst (SfdpVscc1Value_update (\<lambda>_. vscc1));
     _ \<leftarrow> spi_on_sys (select_descriptor io PchSpiBar0 (V_PCH_SPI_FDOC_FDSS_FSDM OR R_PCH_SPI_FDBAR_FLASH_MAP0));
     map0 \<leftarrow> spi_on_sys (MmioRead16 (mmio io) (PchSpiBar0 + R_PCH_SPI_FDOD));
     set_inst (NumberOfComponents_update (\<lambda>_. ucast (drop_bit N_PCH_SPI_FDBAR_NC (ucast map0 AND B_PCH_SPI_FDBAR_NC))));
     _ \<leftarrow> spi_on_sys (select_descriptor io PchSpiBar0 (V_PCH_SPI_FDOC_FDSS_COMP OR R_PCH_SPI_FCBA_FLCOMP));
     Data32 \<leftarrow> spi_on_sys (MmioRead32 (mmio io) (PchSpiBar0 + R_PCH_SPI_FDOD));
     set_inst (\<lambda>i. let (c1, total) = total_flash_size (NumberOfComponents i) Data32 (Component1StartAddr i)
       in i\<lparr> Component1StartAddr := c1, TotalFlashSize := total \<rparr>);
     _ \<leftarrow> spi_on_sys (select_descriptor io PchSpiBar0 (V_PCH_SPI_FDOC_FDSS_FSDM OR R_PCH_SPI_FDBAR_FLASH_MAP1));
     Data32 \<leftarrow> spi_on_sys (MmioRead32 (mmio io) (PchSpiBar0 + R_PCH_SPI_FDOD));
     set_inst (PchStrapBaseAddr_update (\<lambda>_. ucast (push_bit N_PCH_SPI_FDBAR_FPSBA_REPR
       (drop_bit N_PCH_SPI_FDBAR_FPSBA (Data32 AND B_PCH_SPI_FDBAR_FPSBA)))));
     set_inst (PchStrapSize_update (\<lambda>_. ucast (drop_bit N_PCH_SPI_FDBAR_PCHSL (Data32 AND B_PCH_SPI_FDBAR_PCHSL) * 4)));
     _ \<leftarrow> spi_on_sys (select_descriptor io PchSpiBar0 (V_PCH_SPI_FDOC_FDSS_FSDM OR R_PCH_SPI_FDBAR_FLASH_MAP2));
     Data32 \<leftarrow> spi_on_sys (MmioRead32 (mmio io) (PchSpiBar0 + R_PCH_SPI_FDOD));
     set_inst (CpuStrapBaseAddr_update (\<lambda>_. ucast (push_bit N_PCH_SPI_FDBAR_FCPUSBA_REPR
       (drop_bit N_PCH_SPI_FDBAR_FCPUSBA (Data32 AND B_PCH_SPI_FDBAR_FCPUSBA)))));
     set_inst (CpuStrapSize_update (\<lambda>_. ucast (drop_bit N_PCH_SPI_FDBAR_CPUSL (Data32 AND B_PCH_SPI_FDBAR_CPUSL) * 4)));
     State_Monad.return EFI_SUCCESS }"

section \<open>Waiting\<close>

definition ReadPmTimer :: "'s spi_hw \<Rightarrow> u16 \<Rightarrow> ('s, u64) spi_prog" where
  "ReadPmTimer io ABase = do {
     v \<leftarrow> PortRead32 io (ucast ABase + R_PCH_ACPI_PM1_TMR);
     State_Monad.return (ucast (v AND B_PCH_ACPI_PM1_TMR_VAL)) }"

text \<open>The loop of the stall; it ends only when the timer gets on.\<close>

partial_function (option) stall_loop :: "'s spi_hw \<Rightarrow> u16 \<Rightarrow> u64 \<Rightarrow> u64 \<Rightarrow> u64 \<Rightarrow> u64 \<Rightarrow> 's spi \<Rightarrow> 's spi option" where
  "stall_loop io ABase Counts RemainingTick CurrentTick OriginalTick s =
     (if Counts \<noteq> 0 \<or> RemainingTick > CurrentTick then
        (case run_state (ReadPmTimer io ABase) s of (CurrentTick, s) \<Rightarrow>
           if CurrentTick < OriginalTick then
             (if Counts \<noteq> 0 then stall_loop io ABase (Counts - 1) RemainingTick CurrentTick CurrentTick s
              else Some s)
           else stall_loop io ABase Counts RemainingTick CurrentTick CurrentTick s)
      else Some s)"

definition PchPmTimerStallRuntimeSafe :: "'s spi_hw \<Rightarrow> u16 \<Rightarrow> u64 \<Rightarrow> 's spi \<Rightarrow> 's spi option" where
  "PchPmTimerStallRuntimeSafe io ABase Microseconds s =
     (if Microseconds = 0 then Some s
      else if hw_simics (mmio io) then Some s
      else (case run_state (ReadPmTimer io ABase) s of (OriginalTick, s) \<Rightarrow>
        let Ticks = Microseconds * 358 div 100 + OriginalTick + 1 in
        stall_loop io ABase (Ticks div V_PCH_ACPI_PM1_TMR_MAX_VAL) (Ticks mod V_PCH_ACPI_PM1_TMR_MAX_VAL)
          OriginalTick OriginalTick s))"

fun wait_ticks :: "'s spi_hw \<Rightarrow> u64 \<Rightarrow> bool \<Rightarrow> nat \<Rightarrow> 's spi \<Rightarrow> (bool \<times> 's spi) option" where
  "wait_ticks io PchSpiBar0 ErrorCheck 0 s = Some (False, s)"
| "wait_ticks io PchSpiBar0 ErrorCheck (Suc WaitCount) s =
     (case run_state (spi_on_sys (MmioRead32 (mmio io) (PchSpiBar0 + R_PCH_SPI_HSFSC))) s of (Data32, s) \<Rightarrow>
        if Data32 AND B_PCH_SPI_HSFSC_SCIP = 0 then
          (case run_state (spi_on_sys (MmioWrite32 (mmio io) (PchSpiBar0 + R_PCH_SPI_HSFSC)
              (B_PCH_SPI_HSFSC_FCERR OR B_PCH_SPI_HSFSC_FDONE))) s of (_, s) \<Rightarrow>
            Some (\<not> (Data32 AND B_PCH_SPI_HSFSC_FCERR \<noteq> 0 \<and> ErrorCheck), s))
        else Option.bind (PchPmTimerStallRuntimeSafe io (PchAcpiBase (spi_inst s)) (of_nat SPI_WAIT_PERIOD) s)
          (wait_ticks io PchSpiBar0 ErrorCheck WaitCount))"

definition WaitForSpiCycleComplete :: "'s spi_hw \<Rightarrow> u64 \<Rightarrow> bool \<Rightarrow> 's spi \<Rightarrow> (bool \<times> 's spi) option" where
  "WaitForSpiCycleComplete io PchSpiBar0 ErrorCheck =
     wait_ticks io PchSpiBar0 ErrorCheck (SPI_WAIT_TIME div SPI_WAIT_PERIOD)"

section \<open>Regions\<close>

text \<open>A service that fails leaves its results as they were: an error, or the results.\<close>

definition region_register :: "u32 \<Rightarrow> u64" where
  "region_register FlashRegionType =
     (if FlashRegionType < FlashRegion10Gbe_B then R_PCH_SPI_FREG0_FLASHD + S_PCH_SPI_FREGX * ucast FlashRegionType
      else R_PCH_SPI_FREG12 + S_PCH_SPI_FREGX * ucast (FlashRegionType - FlashRegion10Gbe_B))"

definition region_of :: "u32 \<Rightarrow> efi_status + u32 \<times> u32" where
  "region_of ReadValue =
     (if ReadValue = B_PCH_SPI_FREGX_BASE_MASK then Inl EFI_DEVICE_ERROR
      else let BaseAddress = push_bit N_PCH_SPI_FREGX_BASE_REPR
          (drop_bit N_PCH_SPI_FREGX_BASE (ReadValue AND B_PCH_SPI_FREGX_BASE_MASK)) in
        Inr (BaseAddress, push_bit N_PCH_SPI_FREGX_LIMIT_REPR
          (drop_bit N_PCH_SPI_FREGX_LIMIT (ReadValue AND B_PCH_SPI_FREGX_LIMIT_MASK) + 1) - BaseAddress))"

definition SpiProtocolGetRegionAddress :: "'s spi_hw \<Rightarrow> 's spi_hooks \<Rightarrow> u32 \<Rightarrow> ('s, efi_status + u32 \<times> u32) spi_prog" where
  "SpiProtocolGetRegionAddress io hk FlashRegionType =
     (if FlashRegionType \<ge> FlashRegionMax then State_Monad.return (Inl EFI_INVALID_PARAMETER)
      else if FlashRegionType = FlashRegionAll then do {
        size \<leftarrow> of_inst TotalFlashSize;
        State_Monad.return (Inr (0, size)) }
      else do {
        PchSpiBar0 \<leftarrow> AcquireSpiBar0 hk;
        ReadValue \<leftarrow> spi_on_sys (MmioRead32 (mmio io) (PchSpiBar0 + region_register FlashRegionType));
        ReadValue \<leftarrow> (if FlashRegionType = FlashRegionBios then do {
            bfpr \<leftarrow> spi_on_sys (MmioRead32 (mmio io) (PchSpiBar0 + R_PCH_SPI_BFPR));
            (if bfpr AND B_PCH_SPI_BFPR_SBRS \<noteq> 0
             then spi_on_sys (MmioRead32 (mmio io) (PchSpiBar0 + R_PCH_SPI_FREG6_SECONDARY_BIOS))
             else State_Monad.return ReadValue) }
          else State_Monad.return ReadValue);
        ReleaseSpiBar0 hk;
        State_Monad.return (region_of ReadValue) })"

section \<open>Cycles\<close>

text \<open>The buffer of the caller, in its memory.\<close>

definition peek :: "nat \<Rightarrow> u64 \<Rightarrow> ('s, 'a::len word) spi_prog" where
  "peek n a = State (\<lambda>s. (loadw n (spi_ram s) a, s))"

definition poke :: "nat \<Rightarrow> u64 \<Rightarrow> 'a::len word \<Rightarrow> ('s, unit) spi_prog" where
  "poke n a v = State (\<lambda>s. ((), s\<lparr> spi_ram := storew n (spi_ram s) a v \<rparr>))"

fun for_each :: "'i list \<Rightarrow> ('i \<Rightarrow> ('s, unit) state) \<Rightarrow> ('s, unit) state" where
  "for_each [] f = State_Monad.return ()"
| "for_each (i # is) f = do { f i; for_each is f }"

text \<open>The data registers are accessed by bytes, or by words when the count is a multiple of eight.\<close>

definition word_indexes :: "u32 \<Rightarrow> nat list" where
  "word_indexes SpiDataCount = map (\<lambda>k. 4 * k) [0..<unat SpiDataCount div 4]"

definition load_data :: "'s spi_hw \<Rightarrow> u64 \<Rightarrow> u64 \<Rightarrow> u32 \<Rightarrow> ('s, unit) spi_prog" where
  "load_data io PchSpiBar0 Buffer SpiDataCount =
     (if SpiDataCount AND 0x07 \<noteq> 0 then
        for_each [0..<unat SpiDataCount] (\<lambda>Index. do {
          v \<leftarrow> peek 1 (Buffer + of_nat Index);
          _ \<leftarrow> spi_on_sys (MmioWrite8 (mmio io) (PchSpiBar0 + R_PCH_SPI_FDATA00 + of_nat Index) v);
          State_Monad.return () })
      else
        for_each (word_indexes SpiDataCount) (\<lambda>Index. do {
          v \<leftarrow> peek 4 (Buffer + of_nat Index);
          _ \<leftarrow> spi_on_sys (MmioWrite32 (mmio io) (PchSpiBar0 + R_PCH_SPI_FDATA00 + of_nat Index) v);
          State_Monad.return () }))"

definition unload_data :: "'s spi_hw \<Rightarrow> u64 \<Rightarrow> u64 \<Rightarrow> u32 \<Rightarrow> ('s, unit) spi_prog" where
  "unload_data io PchSpiBar0 Buffer SpiDataCount =
     (if SpiDataCount AND 0x07 \<noteq> 0 then
        for_each [0..<unat SpiDataCount] (\<lambda>Index. do {
          v \<leftarrow> spi_on_sys (MmioRead8 (mmio io) (PchSpiBar0 + R_PCH_SPI_FDATA00 + of_nat Index));
          poke 1 (Buffer + of_nat Index) v })
      else
        for_each (word_indexes SpiDataCount) (\<lambda>Index. do {
          v \<leftarrow> spi_on_sys (MmioRead32 (mmio io) (PchSpiBar0 + R_PCH_SPI_FDATA00 + of_nat Index));
          poke 4 (Buffer + of_nat Index) v }))"

text \<open>The number of bytes of one cycle.\<close>

definition page_up :: "u32 \<Rightarrow> u32" where
  "page_up HardwareSpiAddr = (HardwareSpiAddr + BIT 8) AND NOT (BIT 8 - 1)"

definition trim_count :: "u32 \<Rightarrow> u32 \<Rightarrow> u32" where
  "trim_count HardwareSpiAddr ByteCount =
     (let SpiDataCount = (if HardwareSpiAddr + ByteCount > page_up HardwareSpiAddr
        then page_up HardwareSpiAddr - HardwareSpiAddr else ByteCount) in
      if SpiDataCount \<ge> 64 then 64
      else if SpiDataCount AND NOT 0x07 \<noteq> 0 then SpiDataCount AND NOT 0x07
      else SpiDataCount)"

definition erase_count :: "SPI_INSTANCE \<Rightarrow> u32 \<Rightarrow> u32 \<Rightarrow> u32" where
  "erase_count SpiInstance HardwareSpiAddr ByteCount =
     (if ByteCount div SIZE_64KB \<noteq> 0 \<and> ByteCount mod SIZE_64KB = 0 \<and> HardwareSpiAddr mod SIZE_64KB = 0 then
        (if HardwareSpiAddr < Component1StartAddr SpiInstance then
           (if SfdpVscc0Value SpiInstance AND B_PCH_SPI_SFDPX_VSCCX_EO_64K \<noteq> 0 then SIZE_64KB else SIZE_4KB)
         else
           (if SfdpVscc1Value SpiInstance AND B_PCH_SPI_SFDPX_VSCCX_EO_64K \<noteq> 0 then SIZE_64KB else SIZE_4KB))
      else SIZE_4KB)"

definition data_count :: "SPI_INSTANCE \<Rightarrow> FLASH_CYCLE_TYPE \<Rightarrow> u32 \<Rightarrow> u32 \<Rightarrow> u32" where
  "data_count SpiInstance FlashCycleType HardwareSpiAddr ByteCount =
     (if FlashCycleType \<in> {FlashCycleRead, FlashCycleWrite, FlashCycleReadSfdp} then trim_count HardwareSpiAddr ByteCount
      else if FlashCycleType = FlashCycleErase then erase_count SpiInstance HardwareSpiAddr ByteCount
      else ByteCount)"

text \<open>The cycle that the controller runs; that of an erase is set for each cycle, by its size.\<close>

definition hw_cycle :: "u32 \<Rightarrow> u32" where
  "hw_cycle c = push_bit N_PCH_SPI_HSFSC_CYCLE c"

definition flash_cycle :: "FLASH_CYCLE_TYPE \<Rightarrow> u32 \<Rightarrow> u32 \<Rightarrow> efi_status + u32" where
  "flash_cycle FlashCycleType HardwareSpiAddr ByteCount =
     (case FlashCycleType of
        FlashCycleRead \<Rightarrow> Inr (hw_cycle V_PCH_SPI_HSFSC_CYCLE_READ)
      | FlashCycleWrite \<Rightarrow> Inr (hw_cycle V_PCH_SPI_HSFSC_CYCLE_WRITE)
      | FlashCycleErase \<Rightarrow>
          if ByteCount mod SIZE_4KB \<noteq> 0 \<or> HardwareSpiAddr mod SIZE_4KB \<noteq> 0 then Inl EFI_INVALID_PARAMETER
          else Inr 0
      | FlashCycleReadSfdp \<Rightarrow> Inr (hw_cycle V_PCH_SPI_HSFSC_CYCLE_READ_SFDP)
      | FlashCycleReadJedecId \<Rightarrow> Inr (hw_cycle V_PCH_SPI_HSFSC_CYCLE_READ_JEDEC_ID)
      | FlashCycleWriteStatus \<Rightarrow> Inr (hw_cycle V_PCH_SPI_HSFSC_CYCLE_WRITE_STATUS)
      | FlashCycleReadStatus \<Rightarrow> Inr (hw_cycle V_PCH_SPI_HSFSC_CYCLE_READ_STATUS)
      | FlashCycleMax \<Rightarrow> Inl EFI_INVALID_PARAMETER)"

definition cycle_code :: "FLASH_CYCLE_TYPE \<Rightarrow> u32 \<Rightarrow> u32 \<Rightarrow> u32" where
  "cycle_code FlashCycleType FlashCycle SpiDataCount =
     (if FlashCycleType = FlashCycleErase then
        (if SpiDataCount = SIZE_4KB then hw_cycle V_PCH_SPI_HSFSC_CYCLE_4K_ERASE
         else hw_cycle V_PCH_SPI_HSFSC_CYCLE_64K_ERASE)
      else FlashCycle)"

text \<open>Starting a cycle: address, then count, cycle and Go.\<close>

definition start_cycle :: "'s spi_hw \<Rightarrow> u64 \<Rightarrow> u32 \<Rightarrow> u32 \<Rightarrow> u32 \<Rightarrow> ('s, unit) prog" where
  "start_cycle io PchSpiBar0 FlashCycle HardwareSpiAddr SpiDataCount = do {
     _ \<leftarrow> MmioWrite32 (mmio io) (PchSpiBar0 + R_PCH_SPI_FADDR) (HardwareSpiAddr AND B_PCH_SPI_FADDR_MASK);
     _ \<leftarrow> MmioAndThenOr32 (mmio io) (PchSpiBar0 + R_PCH_SPI_HSFSC)
       (NOT (B_PCH_SPI_HSFSC_FDBC_MASK OR B_PCH_SPI_HSFSC_CYCLE_MASK))
       ((push_bit N_PCH_SPI_HSFSC_FDBC (SpiDataCount - 1) AND B_PCH_SPI_HSFSC_FDBC_MASK)
         OR FlashCycle OR B_PCH_SPI_HSFSC_CYCLE_FGO);
     State_Monad.return () }"

text \<open>The body of the loop of \<open>SendSpiCmd\<close>, up to the number of bytes done: nothing in the middle if the
  cycle fails.\<close>

definition one_cycle :: "'s spi_hw \<Rightarrow> u64 \<Rightarrow> FLASH_CYCLE_TYPE \<Rightarrow> u32 \<Rightarrow> u32 \<Rightarrow> u32 \<Rightarrow> u64 \<Rightarrow> 's spi \<Rightarrow> (u32 option \<times> 's spi) option" where
  "one_cycle io PchSpiBar0 FlashCycleType FlashCycle HardwareSpiAddr ByteCount Buffer s =
     (let SpiDataCount = data_count (spi_inst s) FlashCycleType HardwareSpiAddr ByteCount;
        s1 = snd (run_state (do {
          (if FlashCycleType = FlashCycleWrite \<or> FlashCycleType = FlashCycleWriteStatus
           then load_data io PchSpiBar0 Buffer SpiDataCount else State_Monad.return ());
          spi_on_sys (start_cycle io PchSpiBar0 (cycle_code FlashCycleType FlashCycle SpiDataCount)
            HardwareSpiAddr SpiDataCount) }) s)
      in case WaitForSpiCycleComplete io PchSpiBar0 True s1 of
        None \<Rightarrow> None
      | Some (done, s2) \<Rightarrow>
          if \<not> done then Some (None, s2)
          else Some (Some SpiDataCount,
            if FlashCycleType \<in> {FlashCycleRead, FlashCycleReadSfdp, FlashCycleReadJedecId, FlashCycleReadStatus}
            then snd (run_state (unload_data io PchSpiBar0 Buffer SpiDataCount) s2) else s2))"

partial_function (option) spi_cycles :: "'s spi_hw \<Rightarrow> u64 \<Rightarrow> FLASH_CYCLE_TYPE \<Rightarrow> u32 \<Rightarrow> u32 \<Rightarrow> u32 \<Rightarrow> u64 \<Rightarrow> 's spi \<Rightarrow>
    (efi_status \<times> 's spi) option" where
  "spi_cycles io PchSpiBar0 FlashCycleType FlashCycle HardwareSpiAddr ByteCount Buffer s =
     Option.bind (one_cycle io PchSpiBar0 FlashCycleType FlashCycle HardwareSpiAddr ByteCount Buffer s) (\<lambda>(n, s).
       case n of
         None \<Rightarrow> Some (EFI_DEVICE_ERROR, s)
       | Some SpiDataCount \<Rightarrow>
           let HardwareSpiAddr = HardwareSpiAddr + SpiDataCount; Buffer = Buffer + ucast SpiDataCount;
             ByteCount = ByteCount - SpiDataCount in
           if ByteCount > 0
           then spi_cycles io PchSpiBar0 FlashCycleType FlashCycle HardwareSpiAddr ByteCount Buffer s
           else Some (EFI_SUCCESS, s))"

section \<open>SendSpiCmd\<close>

definition writes_flash :: "FLASH_CYCLE_TYPE \<Rightarrow> bool" where
  "writes_flash FlashCycleType \<longleftrightarrow> FlashCycleType = FlashCycleWrite \<or> FlashCycleType = FlashCycleErase"

text \<open>The permission for the region, where it is asked for; that of writing is read anew.\<close>

definition permitted :: "'s spi_hw \<Rightarrow> u64 \<Rightarrow> u32 \<Rightarrow> FLASH_CYCLE_TYPE \<Rightarrow> ('s, bool) spi_prog" where
  "permitted io PchSpiBar0 FlashRegionType FlashCycleType =
     (if (FlashCycleType = FlashCycleRead \<or> FlashCycleType = FlashCycleWrite \<or> FlashCycleType = FlashCycleErase) \<and>
        FlashRegionType \<noteq> FlashRegionAll then
        (if FlashCycleType = FlashCycleRead then do {
           rap \<leftarrow> of_inst ReadPermission;
           State_Monad.return (rap AND push_bit (unat FlashRegionType) 1 \<noteq> 0) }
         else do {
           wap \<leftarrow> spi_on_sys (MmioRead16 (mmio io) (PchSpiBar0 + R_PCH_SPI_BM_WAP));
           set_inst (WritePermission_update (\<lambda>_. wap));
           State_Monad.return (wap AND push_bit (unat FlashRegionType) 1 \<noteq> 0) })
      else State_Monad.return True)"

text \<open>The checks before the first cycle: an error, or the address in the flash and the cycle.\<close>

definition check_command :: "'s spi_hw \<Rightarrow> 's spi_hooks \<Rightarrow> u64 \<Rightarrow> u32 \<Rightarrow> FLASH_CYCLE_TYPE \<Rightarrow> u32 \<Rightarrow> u32 \<Rightarrow>
    ('s, efi_status + u32 \<times> u32) spi_prog" where
  "check_command io hk PchSpiBar0 FlashRegionType FlashCycleType Address ByteCount = do {
     region \<leftarrow> SpiProtocolGetRegionAddress io hk FlashRegionType;
     (case region of
        Inl Status \<Rightarrow> State_Monad.return (Inl Status)
      | Inr (Base, FlashRegionSize) \<Rightarrow>
          let HardwareSpiAddr = Base + Address in
          if Address + ByteCount > FlashRegionSize then State_Monad.return (Inl EFI_INVALID_PARAMETER)
          else do {
            ok \<leftarrow> permitted io PchSpiBar0 FlashRegionType FlashCycleType;
            State_Monad.return (if \<not> ok then Inl EFI_ACCESS_DENIED
              else map_sum id (\<lambda>FlashCycle. (HardwareSpiAddr, FlashCycle))
                (flash_cycle FlashCycleType HardwareSpiAddr ByteCount)) }) }"

text \<open>For writing: take off the write protection, prefetching and caching.\<close>

definition open_flash :: "'s spi_hw \<Rightarrow> 's spi_hooks \<Rightarrow> u64 \<Rightarrow> FLASH_CYCLE_TYPE \<Rightarrow> ('s, efi_status) spi_prog" where
  "open_flash io hk SpiBaseAddress FlashCycleType =
     (if writes_flash FlashCycleType then do {
        Status \<leftarrow> DisableBiosWriteProtect hk;
        (if EFI_ERROR Status then State_Monad.return Status
         else do {
           _ \<leftarrow> spi_on_sys (MmioAndThenOr8 (mmio io) (SpiBaseAddress + R_PCH_SPI_BC) (NOT B_PCH_SPI_BC_SRC)
             (push_bit N_PCH_SPI_BC_SRC V_PCH_SPI_BC_SRC_PREF_DIS_CACHE_DIS));
           State_Monad.return Status }) }
      else State_Monad.return EFI_SUCCESS)"

definition close_flash :: "'s spi_hw \<Rightarrow> 's spi_hooks \<Rightarrow> u64 \<Rightarrow> FLASH_CYCLE_TYPE \<Rightarrow> u8 \<Rightarrow> ('s, unit) spi_prog" where
  "close_flash io hk SpiBaseAddress FlashCycleType BiosCtlSave =
     (if writes_flash FlashCycleType then do {
        EnableBiosWriteProtect hk;
        _ \<leftarrow> spi_on_sys (MmioAndThenOr8 (mmio io) (SpiBaseAddress + R_PCH_SPI_BC) (NOT B_PCH_SPI_BC_SRC) BiosCtlSave);
        State_Monad.return () }
      else State_Monad.return ())"

definition run_command :: "'s spi_hw \<Rightarrow> 's spi_hooks \<Rightarrow> u64 \<Rightarrow> u64 \<Rightarrow> u32 \<Rightarrow> FLASH_CYCLE_TYPE \<Rightarrow> u32 \<Rightarrow> u32 \<Rightarrow> u64 \<Rightarrow> 's spi \<Rightarrow>
    (efi_status \<times> 's spi) option" where
  "run_command io hk SpiBaseAddress PchSpiBar0 FlashRegionType FlashCycleType Address ByteCount Buffer s =
     (case run_state (open_flash io hk SpiBaseAddress FlashCycleType) s of (Status, s) \<Rightarrow>
        if EFI_ERROR Status then Some (Status, s)
        else Option.bind (WaitForSpiCycleComplete io PchSpiBar0 False s) (\<lambda>(safe, s).
          if \<not> safe then Some (EFI_DEVICE_ERROR, s)
          else (case run_state (check_command io hk PchSpiBar0 FlashRegionType FlashCycleType Address ByteCount) s of
              (Inl Status, s) \<Rightarrow> Some (Status, s)
            | (Inr (HardwareSpiAddr, FlashCycle), s) \<Rightarrow>
                spi_cycles io PchSpiBar0 FlashCycleType FlashCycle HardwareSpiAddr ByteCount Buffer s)))"

definition SendSpiCmd :: "'s spi_hw \<Rightarrow> 's spi_hooks \<Rightarrow> u32 \<Rightarrow> FLASH_CYCLE_TYPE \<Rightarrow> u32 \<Rightarrow> u32 \<Rightarrow> u64 \<Rightarrow> 's spi \<Rightarrow>
    (efi_status \<times> 's spi) option" where
  "SendSpiCmd io hk FlashRegionType FlashCycleType Address ByteCount Buffer s =
     (let ((PchSpiBar0, ABase, SpiBaseAddress, SmiEnSave, BiosCtlSave), s) = run_state (do {
          PchSpiBar0 \<leftarrow> AcquireSpiBar0 hk;
          SpiBaseAddress \<leftarrow> of_inst PchSpiBase;
          ABase \<leftarrow> of_inst PchAcpiBase;
          SmiEnSave \<leftarrow> PortRead32 io (ucast ABase + ucast R_PCH_SMI_EN);
          PortWrite32 io (ucast ABase + ucast R_PCH_SMI_EN) (SmiEnSave AND NOT B_PCH_SMI_EN_GBL_SMI);
          bc \<leftarrow> spi_on_sys (MmioRead8 (mmio io) (SpiBaseAddress + R_PCH_SPI_BC));
          State_Monad.return (PchSpiBar0, ABase, SpiBaseAddress, SmiEnSave, bc AND B_PCH_SPI_BC_SRC) }) s
      in case run_command io hk SpiBaseAddress PchSpiBar0 FlashRegionType FlashCycleType Address ByteCount Buffer s of
        None \<Rightarrow> None
      | Some (Status, s) \<Rightarrow> Some (Status, snd (run_state (do {
          close_flash io hk SpiBaseAddress FlashCycleType BiosCtlSave;
          PortWrite32 io (ucast ABase + ucast R_PCH_SMI_EN) SmiEnSave;
          ReleaseSpiBar0 hk }) s)))"

section \<open>The services\<close>

definition SpiProtocolFlashRead :: "'s spi_hw \<Rightarrow> 's spi_hooks \<Rightarrow> u32 \<Rightarrow> u32 \<Rightarrow> u32 \<Rightarrow> u64 \<Rightarrow> 's spi \<Rightarrow> (efi_status \<times> 's spi) option" where
  "SpiProtocolFlashRead io hk FlashRegionType Address ByteCount Buffer =
     SendSpiCmd io hk FlashRegionType FlashCycleRead Address ByteCount Buffer"

definition SpiProtocolFlashWrite :: "'s spi_hw \<Rightarrow> 's spi_hooks \<Rightarrow> u32 \<Rightarrow> u32 \<Rightarrow> u32 \<Rightarrow> u64 \<Rightarrow> 's spi \<Rightarrow> (efi_status \<times> 's spi) option" where
  "SpiProtocolFlashWrite io hk FlashRegionType Address ByteCount Buffer =
     SendSpiCmd io hk FlashRegionType FlashCycleWrite Address ByteCount Buffer"

definition SpiProtocolFlashErase :: "'s spi_hw \<Rightarrow> 's spi_hooks \<Rightarrow> u32 \<Rightarrow> u32 \<Rightarrow> u32 \<Rightarrow> 's spi \<Rightarrow> (efi_status \<times> 's spi) option" where
  "SpiProtocolFlashErase io hk FlashRegionType Address ByteCount =
     SendSpiCmd io hk FlashRegionType FlashCycleErase Address ByteCount 0"

definition component_start :: "SPI_INSTANCE \<Rightarrow> u8 \<Rightarrow> u32" where
  "component_start SpiInstance ComponentNumber =
     (if ComponentNumber = FlashComponent1 then Component1StartAddr SpiInstance else 0)"

definition SpiProtocolFlashReadSfdp :: "'s spi_hw \<Rightarrow> 's spi_hooks \<Rightarrow> u8 \<Rightarrow> u32 \<Rightarrow> u32 \<Rightarrow> u64 \<Rightarrow> 's spi \<Rightarrow> (efi_status \<times> 's spi) option" where
  "SpiProtocolFlashReadSfdp io hk ComponentNumber Address ByteCount SfdpData s =
     (if ComponentNumber > NumberOfComponents (spi_inst s) then Some (EFI_INVALID_PARAMETER, s)
      else SendSpiCmd io hk FlashRegionAll FlashCycleReadSfdp
        (component_start (spi_inst s) ComponentNumber + Address) ByteCount SfdpData s)"

definition SpiProtocolFlashReadJedecId :: "'s spi_hw \<Rightarrow> 's spi_hooks \<Rightarrow> u8 \<Rightarrow> u32 \<Rightarrow> u64 \<Rightarrow> 's spi \<Rightarrow> (efi_status \<times> 's spi) option" where
  "SpiProtocolFlashReadJedecId io hk ComponentNumber ByteCount JedecId s =
     (if ComponentNumber > NumberOfComponents (spi_inst s) then Some (EFI_INVALID_PARAMETER, s)
      else SendSpiCmd io hk FlashRegionAll FlashCycleReadJedecId
        (component_start (spi_inst s) ComponentNumber) ByteCount JedecId s)"

definition SpiProtocolFlashWriteStatus :: "'s spi_hw \<Rightarrow> 's spi_hooks \<Rightarrow> u32 \<Rightarrow> u64 \<Rightarrow> 's spi \<Rightarrow> (efi_status \<times> 's spi) option" where
  "SpiProtocolFlashWriteStatus io hk ByteCount StatusValue =
     SendSpiCmd io hk FlashRegionAll FlashCycleWriteStatus 0 ByteCount StatusValue"

definition SpiProtocolFlashReadStatus :: "'s spi_hw \<Rightarrow> 's spi_hooks \<Rightarrow> u32 \<Rightarrow> u64 \<Rightarrow> 's spi \<Rightarrow> (efi_status \<times> 's spi) option" where
  "SpiProtocolFlashReadStatus io hk ByteCount StatusValue =
     SendSpiCmd io hk FlashRegionAll FlashCycleReadStatus 0 ByteCount StatusValue"

text \<open>The soft straps: a count of 0 asks for the length of the straps, as 16 bits.\<close>

definition SpiProtocolReadPchSoftStrap :: "'s spi_hw \<Rightarrow> 's spi_hooks \<Rightarrow> u32 \<Rightarrow> u32 \<Rightarrow> u64 \<Rightarrow> 's spi \<Rightarrow> (efi_status \<times> 's spi) option" where
  "SpiProtocolReadPchSoftStrap io hk SoftStrapAddr ByteCount SoftStrapValue s =
     (let SpiInstance = spi_inst s in
      if ByteCount = 0 then Some (EFI_SUCCESS, snd (run_state (poke 2 SoftStrapValue (PchStrapSize SpiInstance)) s))
      else if \<not> hw_simics (mmio io) \<and> SoftStrapAddr + ByteCount > ucast (PchStrapSize SpiInstance)
      then Some (EFI_INVALID_PARAMETER, s)
      else SendSpiCmd io hk FlashRegionDescriptor FlashCycleRead
        (ucast (PchStrapBaseAddr SpiInstance) + SoftStrapAddr) ByteCount SoftStrapValue s)"

definition SpiProtocolReadCpuSoftStrap :: "'s spi_hw \<Rightarrow> 's spi_hooks \<Rightarrow> u32 \<Rightarrow> u32 \<Rightarrow> u64 \<Rightarrow> 's spi \<Rightarrow> (efi_status \<times> 's spi) option" where
  "SpiProtocolReadCpuSoftStrap io hk SoftStrapAddr ByteCount SoftStrapValue s =
     (let SpiInstance = spi_inst s in
      if ByteCount = 0 then Some (EFI_SUCCESS, snd (run_state (poke 2 SoftStrapValue (CpuStrapSize SpiInstance)) s))
      else if SoftStrapAddr + ByteCount > ucast (CpuStrapSize SpiInstance) then Some (EFI_INVALID_PARAMETER, s)
      else SendSpiCmd io hk FlashRegionDescriptor FlashCycleRead
        (ucast (CpuStrapBaseAddr SpiInstance) + SoftStrapAddr) ByteCount SoftStrapValue s)"

end
