(* ===== verification/SpiHooks.thy ===== *)
theory SpiHooks
  imports SpiFlash
begin

text \<open>
  The three implementations of the functions on which the SPI flash driver depends: in SMM
  (Spi/Smm/PchSpi.c), in DXE and at run time (Spi/RuntimeDxe/PchSpi.c) and in PEI
  (PeiPchInitLib/PchSpi.c), with the set-up of each and the change to virtual addresses.
\<close>

section \<open>The base of the registers\<close>

text \<open>SMM and DXE put the register BAR0 back to the address that is reserved for it.\<close>

definition restore_bar0 :: "'s spi_hw \<Rightarrow> u64 \<Rightarrow> u32 \<Rightarrow> ('s, unit) prog" where
  "restore_bar0 io SpiBaseAddress ReservedAddr = do {
     v \<leftarrow> MmioRead32 (mmio io) (SpiBaseAddress + R_PCH_SPI_BAR0);
     (if v AND NOT B_PCH_SPI_BAR0_MASK \<noteq> ReservedAddr then do {
        _ \<leftarrow> MmioAnd8 (mmio io) (SpiBaseAddress + PCI_COMMAND_OFFSET) (NOT EFI_PCI_COMMAND_MEMORY_SPACE);
        _ \<leftarrow> MmioWrite32 (mmio io) (SpiBaseAddress + R_PCH_SPI_BAR0) ReservedAddr;
        _ \<leftarrow> MmioOr8 (mmio io) (SpiBaseAddress + PCI_COMMAND_OFFSET) EFI_PCI_COMMAND_MEMORY_SPACE;
        State_Monad.return () }
      else State_Monad.return ()) }"

definition smm_AcquireSpiBar0 :: "'s spi_hw \<Rightarrow> ('s, u64) spi_prog" where
  "smm_AcquireSpiBar0 io = do {
     SpiBaseAddress \<leftarrow> of_inst PchSpiBase;
     resv \<leftarrow> State (\<lambda>s. (mSpiResvMmioAddr s, s));
     spi_on_sys (restore_bar0 io SpiBaseAddress resv);
     State_Monad.return (ucast resv) }"

definition dxe_AcquireSpiBar0 :: "'s spi_hw \<Rightarrow> ('s, u64) spi_prog" where
  "dxe_AcquireSpiBar0 io = do {
     SpiBaseAddress \<leftarrow> of_inst PchSpiBase;
     phys \<leftarrow> State (\<lambda>s. (mPchSpiBar0PhysicalAddr s, s));
     spi_on_sys (restore_bar0 io SpiBaseAddress phys);
     State (\<lambda>s. (if mRuntimeFlag s then mPchSpiBar0VirtualAddr s else ucast phys, s)) }"

definition pei_AcquireSpiBar0 :: "'s spi_hw \<Rightarrow> ('s, u64) spi_prog" where
  "pei_AcquireSpiBar0 io = do {
     SpiBaseAddress \<leftarrow> of_inst PchSpiBase;
     v \<leftarrow> spi_on_sys (MmioRead32 (mmio io) (SpiBaseAddress + R_PCH_SPI_BAR0));
     State_Monad.return (ucast (v AND NOT B_PCH_SPI_BAR0_MASK)) }"

text \<open>Releasing does nothing in any of them.\<close>

definition no_ReleaseSpiBar0 :: "('s, unit) spi_prog" where
  "no_ReleaseSpiBar0 = State_Monad.return ()"

section \<open>The write protection of the BIOS\<close>

definition lt_register :: u64 where "lt_register = 0xFED30880"
definition lt_msr :: u32 where "lt_msr = 0x1FE"

definition AsmWriteMsr32 :: "'s spi_hw \<Rightarrow> u32 \<Rightarrow> u32 \<Rightarrow> ('s, unit) prog" where
  "AsmWriteMsr32 io Index Value = on_dev (\<lambda>d. ((), msr_wr io Index Value d))"

text \<open>In SMM the protection by EISS is taken off too, by an MSR of the processor.\<close>

definition smm_DisableBiosWriteProtect :: "'s spi_hw \<Rightarrow> ('s, efi_status) spi_prog" where
  "smm_DisableBiosWriteProtect io = spi_on_sys (do {
     let SpiBaseAddress = spi_base (ports io);
     _ \<leftarrow> MmioOr8 (mmio io) (SpiBaseAddress + R_PCH_SPI_BC + 1) (ucast (drop_bit 8 B_PCH_SPI_BC_SYNC_SS));
     _ \<leftarrow> MmioOr8 (mmio io) (SpiBaseAddress + R_PCH_SPI_BC) B_PCH_SPI_BC_WPD;
     bc \<leftarrow> MmioRead8 (mmio io) (SpiBaseAddress + R_PCH_SPI_BC);
     (if bc AND B_PCH_SPI_BC_EISS \<noteq> 0 then do {
        v \<leftarrow> MmioRead32 (mmio io) lt_register;
        AsmWriteMsr32 io lt_msr (v OR BIT 0) }
      else State_Monad.return ());
     State_Monad.return EFI_SUCCESS })"

definition smm_EnableBiosWriteProtect :: "'s spi_hw \<Rightarrow> ('s, unit) spi_prog" where
  "smm_EnableBiosWriteProtect io = spi_on_sys (do {
     let SpiBaseAddress = spi_base (ports io);
     _ \<leftarrow> MmioAnd8 (mmio io) (SpiBaseAddress + R_PCH_SPI_BC) (NOT B_PCH_SPI_BC_WPD);
     bc \<leftarrow> MmioRead8 (mmio io) (SpiBaseAddress + R_PCH_SPI_BC);
     (if bc AND B_PCH_SPI_BC_EISS = B_PCH_SPI_BC_EISS then do {
        v \<leftarrow> MmioRead32 (mmio io) lt_register;
        AsmWriteMsr32 io lt_msr (v AND NOT (BIT 0)) }
      else State_Monad.return ()) })"

text \<open>Outside SMM a BIOS that is protected by EISS cannot be written.\<close>

definition open_unless_eiss :: "'s spi_hw \<Rightarrow> u64 \<Rightarrow> ('s, efi_status) prog" where
  "open_unless_eiss io SpiBaseAddress = do {
     bc \<leftarrow> MmioRead8 (mmio io) (SpiBaseAddress + R_PCH_SPI_BC);
     (if bc AND B_PCH_SPI_BC_EISS \<noteq> 0 then State_Monad.return EFI_ACCESS_DENIED
      else do {
        _ \<leftarrow> MmioOr8 (mmio io) (SpiBaseAddress + R_PCH_SPI_BC) B_PCH_SPI_BC_WPD;
        State_Monad.return EFI_SUCCESS }) }"

definition close_protection :: "'s spi_hw \<Rightarrow> u64 \<Rightarrow> ('s, unit) prog" where
  "close_protection io SpiBaseAddress = do {
     _ \<leftarrow> MmioAnd8 (mmio io) (SpiBaseAddress + R_PCH_SPI_BC) (NOT B_PCH_SPI_BC_WPD);
     State_Monad.return () }"

text \<open>DXE takes the base of the configuration space from the instance, PEI computes it.\<close>

definition dxe_DisableBiosWriteProtect :: "'s spi_hw \<Rightarrow> ('s, efi_status) spi_prog" where
  "dxe_DisableBiosWriteProtect io = do {
     SpiBaseAddress \<leftarrow> of_inst PchSpiBase;
     spi_on_sys (open_unless_eiss io SpiBaseAddress) }"

definition dxe_EnableBiosWriteProtect :: "'s spi_hw \<Rightarrow> ('s, unit) spi_prog" where
  "dxe_EnableBiosWriteProtect io = do {
     SpiBaseAddress \<leftarrow> of_inst PchSpiBase;
     spi_on_sys (close_protection io SpiBaseAddress) }"

definition pei_DisableBiosWriteProtect :: "'s spi_hw \<Rightarrow> ('s, efi_status) spi_prog" where
  "pei_DisableBiosWriteProtect io = spi_on_sys (open_unless_eiss io (spi_base (ports io)))"

definition pei_EnableBiosWriteProtect :: "'s spi_hw \<Rightarrow> ('s, unit) spi_prog" where
  "pei_EnableBiosWriteProtect io = spi_on_sys (close_protection io (spi_base (ports io)))"

definition smm_hooks :: "'s spi_hw \<Rightarrow> 's spi_hooks" where
  "smm_hooks io = \<lparr> AcquireSpiBar0 = smm_AcquireSpiBar0 io, ReleaseSpiBar0 = no_ReleaseSpiBar0,
     DisableBiosWriteProtect = smm_DisableBiosWriteProtect io, EnableBiosWriteProtect = smm_EnableBiosWriteProtect io \<rparr>"

definition dxe_hooks :: "'s spi_hw \<Rightarrow> 's spi_hooks" where
  "dxe_hooks io = \<lparr> AcquireSpiBar0 = dxe_AcquireSpiBar0 io, ReleaseSpiBar0 = no_ReleaseSpiBar0,
     DisableBiosWriteProtect = dxe_DisableBiosWriteProtect io, EnableBiosWriteProtect = dxe_EnableBiosWriteProtect io \<rparr>"

definition pei_hooks :: "'s spi_hw \<Rightarrow> 's spi_hooks" where
  "pei_hooks io = \<lparr> AcquireSpiBar0 = pei_AcquireSpiBar0 io, ReleaseSpiBar0 = no_ReleaseSpiBar0,
     DisableBiosWriteProtect = pei_DisableBiosWriteProtect io, EnableBiosWriteProtect = pei_EnableBiosWriteProtect io \<rparr>"

section \<open>Set-up\<close>

text \<open>The boot services the drivers call are parameters: allocation, which gives no memory or zeroed memory
  at an address, and the installation of the protocol, which succeeds or not.\<close>

definition zero_instance :: SPI_INSTANCE where
  "zero_instance = \<lparr> SpiProtocol = (\<lambda>_. 0), PchAcpiBase = 0, PchSpiBase = 0, ReadPermission = 0, WritePermission = 0,
     SfdpVscc0Value = 0, SfdpVscc1Value = 0, PchStrapBaseAddr = 0, PchStrapSize = 0, CpuStrapBaseAddr = 0,
     CpuStrapSize = 0, NumberOfComponents = 0, Component1StartAddr = 0, TotalFlashSize = 0 \<rparr>"

definition modify :: "('t \<Rightarrow> 't) \<Rightarrow> ('t, unit) state" where
  "modify f = State (\<lambda>s. ((), f s))"

definition new_instance :: "u64 \<Rightarrow> ('s, unit) spi_prog" where
  "new_instance p = modify (\<lambda>s. s\<lparr> mSpiInstance := p, spi_inst := zero_instance \<rparr>)"

definition smm_InstallPchSpi :: "'s spi_hw \<Rightarrow> (SPI_SERVICE \<Rightarrow> u64) \<Rightarrow> efi_status \<times> u64 \<Rightarrow> efi_status \<Rightarrow> ('s, efi_status) spi_prog" where
  "smm_InstallPchSpi io fn allocated installed = do {
     modify (\<lambda>s. s\<lparr> mSpiResvMmioAddr := PCH_SPI_BASE_ADDRESS \<rparr>);
     (if EFI_ERROR (fst allocated) then State_Monad.return (fst allocated)
      else if snd allocated = 0 then State_Monad.return EFI_OUT_OF_RESOURCES
      else do {
        new_instance (snd allocated);
        Status \<leftarrow> SpiProtocolConstructor io fn;
        State_Monad.return (if EFI_ERROR Status then Status
          else if EFI_ERROR installed then EFI_DEVICE_ERROR else EFI_SUCCESS) }) }"

text \<open>In DXE the driver also makes the ranges of the registers available at run time; that is the business
  of the memory services.\<close>

definition dxe_InstallPchSpi :: "'s spi_hw \<Rightarrow> (SPI_SERVICE \<Rightarrow> u64) \<Rightarrow> u64 \<Rightarrow> efi_status \<Rightarrow> ('s, efi_status) spi_prog" where
  "dxe_InstallPchSpi io fn allocated installed =
     (if allocated = 0 then State_Monad.return EFI_OUT_OF_RESOURCES
      else do {
        new_instance allocated;
        Status \<leftarrow> SpiProtocolConstructor io fn;
        (if EFI_ERROR Status then State_Monad.return Status
         else do {
           modify (\<lambda>s. s\<lparr> mPchSpiBar0PhysicalAddr := PCH_SPI_BASE_ADDRESS,
             mPchSpiBar0VirtualAddr := ucast PCH_SPI_BASE_ADDRESS \<rparr>);
           State_Monad.return (if EFI_ERROR installed then EFI_DEVICE_ERROR else EFI_SUCCESS) }) })"

definition InitSpiBar0 :: "'s spi_hw \<Rightarrow> ('s, unit) prog" where
  "InitSpiBar0 io = do {
     let SpiBaseAddress = spi_base (ports io);
     _ \<leftarrow> MmioWrite32 (mmio io) (SpiBaseAddress + R_PCH_SPI_BAR0) PCH_SPI_BASE_ADDRESS;
     _ \<leftarrow> MmioOr32 (mmio io) (SpiBaseAddress + PCI_COMMAND_OFFSET) (ucast EFI_PCI_COMMAND_MEMORY_SPACE);
     State_Monad.return () }"

definition pei_InstallPchSpi :: "'s spi_hw \<Rightarrow> (SPI_SERVICE \<Rightarrow> u64) \<Rightarrow> u64 \<Rightarrow> efi_status \<Rightarrow> ('s, efi_status) spi_prog" where
  "pei_InstallPchSpi io fn allocated installed = do {
     spi_on_sys (InitSpiBar0 io);
     (if allocated = 0 then State_Monad.return EFI_OUT_OF_RESOURCES
      else do {
        new_instance allocated;
        _ \<leftarrow> SpiProtocolConstructor io fn;
        State_Monad.return installed }) }"

definition B_PCH_SPI_BC_OSFH :: u32 where [regs]: "B_PCH_SPI_BC_OSFH = BIT 9"

definition HideSpiController :: "'s spi_hw \<Rightarrow> ('s, unit) prog" where
  "HideSpiController io = do {
     let SpiBaseAddress = spi_base (ports io);
     _ \<leftarrow> MmioAndThenOr8 (mmio io) (SpiBaseAddress + R_PCH_SPI_BC + 1)
       (NOT (ucast (drop_bit 8 B_PCH_SPI_BC_SYNC_SS))) (ucast (drop_bit 8 B_PCH_SPI_BC_OSFH));
     State_Monad.return () }"

definition ConfigureSpiAfterMem :: "'s spi_hw \<Rightarrow> bool \<Rightarrow> ('s, unit) prog" where
  "ConfigureSpiAfterMem io ShowSpiController =
     (if \<not> ShowSpiController then HideSpiController io else State_Monad.return ())"

section \<open>Virtual addresses\<close>

text \<open>The pointers of the record that the event converts.\<close>

definition converted_services :: "SPI_SERVICE list" where
  "converted_services = [FlashRead, FlashWrite, FlashErase, FlashReadSfdp, FlashReadJedecId, FlashWriteStatus,
     FlashReadStatus, ReadPchSoftStrap]"

definition PchSpiVirtualAddressChangeEvent :: "(u64 \<Rightarrow> u64) \<Rightarrow> ('s, unit) spi_prog" where
  "PchSpiVirtualAddressChangeEvent ConvertPointer = do {
     modify (\<lambda>s. s\<lparr> mRuntimeFlag := True \<rparr>);
     modify (\<lambda>s. s\<lparr> mPchSpiBar0VirtualAddr := ConvertPointer (mPchSpiBar0VirtualAddr s) \<rparr>);
     set_inst (PchSpiBase_update ConvertPointer);
     for_each converted_services (\<lambda>f. set_inst (SpiProtocol_update (\<lambda>p. p(f := ConvertPointer (p f)))));
     modify (\<lambda>s. s\<lparr> mSpiInstance := ConvertPointer (mSpiInstance s) \<rparr>) }"

end
