(* ===== verification/SpiChip.thy ===== *)
theory SpiChip
  imports SpiHooks SmmChip
begin

text \<open>
  Hardware for the SPI flash driver: a flash behind the hardware sequencing registers, of NOR cells that
  programming can only clear and erasing sets, with pages that programming does not leave; cycles that
  take time and may fail; the ACPI timer of 24 bits, that gets on at any pace.
\<close>

section \<open>The chip\<close>

text \<open>The flash is addressed by the 27 bits of FADDR.\<close>

record spi_chip =
  k_mem :: mem
  k_io :: mem
  k_time :: nat
  k_flash :: "nat \<Rightarrow> u8"
  k_busy :: nat
  k_cycles :: "(u32 \<times> nat \<times> nat) list"
  k_msr :: "(u32 \<times> u32) list"

text \<open>The parameters: the IO base, how far the timer gets between two accesses to it, how many times the
  status is read while a cycle runs, which cycles fail at which addresses, the flash descriptor, and the
  data of the cycles that do not read the flash array.\<close>

record chip_par =
  p_abase :: u16
  p_step :: "nat \<Rightarrow> nat"
  p_busy :: nat
  p_fails :: "u32 \<Rightarrow> nat \<Rightarrow> bool"
  p_desc :: "u32 \<Rightarrow> u32"
  p_info :: "u32 \<Rightarrow> nat \<Rightarrow> u8"

definition bar :: u64 where [simp]: "bar = 0xFE010000"
definition bc_addr :: u64 where [simp]: "bc_addr = 0x800FD0DC"

section \<open>The flash\<close>

definition page_addr :: "nat \<Rightarrow> nat \<Rightarrow> nat \<Rightarrow> nat" where
  "page_addr p a i = a - a mod p + (a + i) mod p"

definition flash_read :: "nat \<Rightarrow> nat \<Rightarrow> (nat \<Rightarrow> u8) \<Rightarrow> u8 list" where
  "flash_read a n f = map (\<lambda>i. f (page_addr 4096 a i)) [0..<n]"

definition flash_program :: "nat \<Rightarrow> u8 list \<Rightarrow> (nat \<Rightarrow> u8) \<Rightarrow> nat \<Rightarrow> u8" where
  "flash_program a bs f = (\<lambda>x.
     let i = (x + 256 - a mod 256) mod 256 in
     if x div 256 = a div 256 \<and> i < length bs then f x AND bs ! i else f x)"

definition flash_erase :: "nat \<Rightarrow> nat \<Rightarrow> (nat \<Rightarrow> u8) \<Rightarrow> nat \<Rightarrow> u8" where
  "flash_erase p a f = (\<lambda>x. if x div p = a div p then 0xFF else f x)"

section \<open>Cycles\<close>

definition write_enabled :: "spi_chip \<Rightarrow> bool" where
  "write_enabled d \<longleftrightarrow> bit (k_mem d bc_addr) 0"

definition hsfsc :: "spi_chip \<Rightarrow> u32" where "hsfsc d = loadw 4 (k_mem d) (bar + 4)"

definition cycle_fails :: "chip_par \<Rightarrow> u32 \<Rightarrow> nat \<Rightarrow> spi_chip \<Rightarrow> bool" where
  "cycle_fails P c a d \<longleftrightarrow> p_fails P c a \<or> c \<in> {2, 3, 4} \<and> \<not> write_enabled d"

definition cycle_data :: "chip_par \<Rightarrow> u32 \<Rightarrow> nat \<Rightarrow> nat \<Rightarrow> spi_chip \<Rightarrow> spi_chip" where
  "cycle_data P c a n d =
     (if c = 0 then d\<lparr> k_mem := storen (k_mem d) (bar + 0x10) (flash_read a n (k_flash d)) \<rparr>
      else if c = 2 then d\<lparr> k_flash := flash_program a (loadn (k_mem d) (bar + 0x10) n) (k_flash d) \<rparr>
      else if c = 3 then d\<lparr> k_flash := flash_erase 4096 a (k_flash d) \<rparr>
      else if c = 4 then d\<lparr> k_flash := flash_erase 65536 a (k_flash d) \<rparr>
      else if c = 7 then d
      else d\<lparr> k_mem := storen (k_mem d) (bar + 0x10) (map (\<lambda>i. p_info P c (a + i)) [0..<n]) \<rparr>)"

text \<open>A store to HSFSC: ones clear the three low bits; Go starts a cycle, which is done, well or not, when
  it is no longer in progress.\<close>

definition put_hsfsc :: "chip_par \<Rightarrow> u32 \<Rightarrow> spi_chip \<Rightarrow> spi_chip" where
  "put_hsfsc P v d =
     (let kept = (v AND NOT (0x7 OR BIT 5 OR BIT 16)) OR (hsfsc d AND 0x7 AND NOT v);
        set = (\<lambda>w d. d\<lparr> k_mem := storew 4 (k_mem d) (bar + 4) (w :: u32) \<rparr>);
        c = drop_bit 17 (v AND 0x001E0000); n = Suc (unat (drop_bit 24 (v AND 0x3F000000)));
        a = unat (loadw 4 (k_mem d) (bar + 8) AND 0x07FFFFFF :: u32)
      in if v AND BIT 16 = 0 then set kept d
         else if cycle_fails P c a d
         then (set (kept OR 0x3) d)\<lparr> k_busy := p_busy P, k_cycles := k_cycles d @ [(c, a, n)] \<rparr>
         else (set (kept OR 0x1) (cycle_data P c a n d))\<lparr> k_busy := p_busy P, k_cycles := k_cycles d @ [(c, a, n)] \<rparr>)"

definition get32 :: "chip_par \<Rightarrow> u64 \<Rightarrow> spi_chip \<Rightarrow> u32 \<times> spi_chip" where
  "get32 P a d =
     (if a = bar + 4 then
        (if k_busy d > 0 then ((hsfsc d AND NOT 0x3) OR BIT 5, d\<lparr> k_busy := k_busy d - 1 \<rparr>)
         else (hsfsc d AND NOT (BIT 5), d))
      else if a = bar + 0xB8 then (p_desc P (loadw 4 (k_mem d) (bar + 0xB4) AND 0x7FFC), d)
      else (loadw 4 (k_mem d) a, d))"

definition get16 :: "chip_par \<Rightarrow> u64 \<Rightarrow> spi_chip \<Rightarrow> u16 \<times> spi_chip" where
  "get16 P a d =
     (if a = bar + 0xB8 then (ucast (p_desc P (loadw 4 (k_mem d) (bar + 0xB4) AND 0x7FFC)), d)
      else (loadw 2 (k_mem d) a, d))"

definition put32 :: "chip_par \<Rightarrow> u64 \<Rightarrow> u32 \<Rightarrow> spi_chip \<Rightarrow> spi_chip" where
  "put32 P a v d = (if a = bar + 4 then put_hsfsc P v d else d\<lparr> k_mem := storew 4 (k_mem d) a v \<rparr>)"

definition in32 :: "chip_par \<Rightarrow> u64 \<Rightarrow> spi_chip \<Rightarrow> u32 \<times> spi_chip" where
  "in32 P a d =
     (if a = ucast (p_abase P) + 8
      then (of_nat ((k_time d + p_step P (k_time d)) mod 2 ^ 24), d\<lparr> k_time := k_time d + p_step P (k_time d) \<rparr>)
      else (loadw 4 (k_io d) a, d))"

definition spi_chip_hw :: "chip_par \<Rightarrow> spi_chip spi_hw" where
  "spi_chip_hw P = \<lparr>
     ports = \<lparr>
       mm = \<lparr> hw_rd8 = \<lambda>a d. (loadw 1 (k_mem d) a, d), hw_rd16 = get16 P, hw_rd32 = get32 P,
         hw_wr8 = \<lambda>a v d. d\<lparr> k_mem := storew 1 (k_mem d) a v \<rparr>,
         hw_wr16 = \<lambda>a v d. d\<lparr> k_mem := storew 2 (k_mem d) a v \<rparr>, hw_wr32 = put32 P,
         hw_pci_base = ecam, hw_simics = False, hw_debug_code = False \<rparr>,
       io_rd8 = \<lambda>a d. (loadw 1 (k_io d) a, d), io_rd16 = \<lambda>a d. (loadw 2 (k_io d) a, d), io_rd32 = in32 P,
       io_wr8 = \<lambda>a v d. d\<lparr> k_io := storew 1 (k_io d) a v \<rparr>,
       io_wr16 = \<lambda>a v d. d\<lparr> k_io := storew 2 (k_io d) a v \<rparr>,
       io_wr32 = \<lambda>a v d. d\<lparr> k_io := storew 4 (k_io d) a v \<rparr> \<rparr>,
     msr_wr = \<lambda>i v d. d\<lparr> k_msr := k_msr d @ [(i, v)] \<rparr> \<rparr>"

text \<open>The timer always gets on, and not by a full turn at once.\<close>

definition timer_runs :: "chip_par \<Rightarrow> bool" where
  "timer_runs P \<longleftrightarrow> (\<forall>t. 0 < p_step P t \<and> p_step P t < 2 ^ 24)"

section \<open>Running programs on the chip\<close>

abbreviation kdev :: "spi_chip spi \<Rightarrow> spi_chip" where "kdev s \<equiv> dev (spi_sys s)"

definition with_dev :: "'s \<Rightarrow> 's spi \<Rightarrow> 's spi" where
  "with_dev d s = s\<lparr> spi_sys := (spi_sys s)\<lparr> dev := d \<rparr> \<rparr>"

lemma with_dev_simps [simp]:
  "dev (spi_sys (with_dev d s)) = d" "with_dev d (with_dev e s) = with_dev d s" "with_dev (dev (spi_sys s)) s = s"
  "spi_ram (with_dev d s) = spi_ram s" "spi_inst (with_dev d s) = spi_inst s"
  "mSpiResvMmioAddr (with_dev d s) = mSpiResvMmioAddr s" "mRuntimeFlag (with_dev d s) = mRuntimeFlag s"
  "mPchSpiBar0PhysicalAddr (with_dev d s) = mPchSpiBar0PhysicalAddr s"
  "mPchSpiBar0VirtualAddr (with_dev d s) = mPchSpiBar0VirtualAddr s"
  by (simp_all add: with_dev_def)

lemma spi_chip_parts [simp]:
  "hw_pci_base (mmio (spi_chip_hw P)) = ecam" "\<not> hw_simics (mmio (spi_chip_hw P))"
  "spi_base (ports (spi_chip_hw P)) = 0x800FD000"
  by (simp_all add: spi_chip_hw_def spi_base_def regs)

lemma spi_on_sys_seq [simp]:
  "spi_on_sys (State_Monad.bind m f) = State_Monad.bind (spi_on_sys m) (\<lambda>x. spi_on_sys (f x))"
  "spi_on_sys (State_Monad.return x) = State_Monad.return x"
  "spi_on_sys (if b then m else n) = (if b then spi_on_sys m else spi_on_sys n)"
  by (auto simp: spi_on_sys_def State_Monad.bind_def State_Monad.return_def split: prod.splits)

lemma run_spi_dev:
  "run_state (spi_on_sys (on_dev f)) s = (case f (dev (spi_sys s)) of (a, d) \<Rightarrow> (a, with_dev d s))"
  by (simp add: spi_on_sys_def run_on_dev with_dev_def split: prod.splits)

lemma run_spi_chip [simp]:
  "run_state (spi_on_sys (MmioRead8 (mmio (spi_chip_hw P)) a)) s = (loadw 1 (k_mem (kdev s)) a, s)"
  "run_state (spi_on_sys (MmioRead16 (mmio (spi_chip_hw P)) a)) s =
     (case get16 P a (kdev s) of (v, d) \<Rightarrow> (v, with_dev d s))"
  "run_state (spi_on_sys (MmioRead32 (mmio (spi_chip_hw P)) a)) s =
     (case get32 P a (kdev s) of (v, d) \<Rightarrow> (v, with_dev d s))"
  "run_state (spi_on_sys (MmioWrite8 (mmio (spi_chip_hw P)) a b)) s =
     (b, with_dev ((kdev s)\<lparr> k_mem := storew 1 (k_mem (kdev s)) a b \<rparr>) s)"
  "run_state (spi_on_sys (MmioWrite32 (mmio (spi_chip_hw P)) a v)) s = (v, with_dev (put32 P a v (kdev s)) s)"
  "run_state (PortRead32 (spi_chip_hw P) p) s = (case in32 P p (kdev s) of (v, d) \<Rightarrow> (v, with_dev d s))"
  "run_state (PortWrite32 (spi_chip_hw P) p v) s =
     ((), with_dev ((kdev s)\<lparr> k_io := storew 4 (k_io (kdev s)) p v \<rparr>) s)"
  "run_state (spi_on_sys (AsmWriteMsr32 (spi_chip_hw P) x v)) s =
     ((), with_dev ((kdev s)\<lparr> k_msr := k_msr (kdev s) @ [(x, v)] \<rparr>) s)"
  by (simp_all add: MmioRead8_def MmioRead16_def MmioRead32_def MmioWrite8_def MmioWrite32_def PortRead32_def
      PortWrite32_def AsmWriteMsr32_def run_spi_dev spi_chip_hw_def)

lemma run_of_inst [simp]:
  "run_state (of_inst f) s = (f (spi_inst s), s)" "run_state (set_inst g) s = ((), s\<lparr> spi_inst := g (spi_inst s) \<rparr>)"
  "run_state (peek n a) s = (loadw n (spi_ram s) a, s)"
  "run_state (poke n a v) s = ((), s\<lparr> spi_ram := storew n (spi_ram s) a v \<rparr>)"
  by (simp_all add: of_inst_def set_inst_def peek_def poke_def)

lemma get_plain [simp]:
  "a \<noteq> bar + 4 \<Longrightarrow> a \<noteq> bar + 0xB8 \<Longrightarrow> get32 P a d = (loadw 4 (k_mem d) a, d)"
  "a \<noteq> bar + 0xB8 \<Longrightarrow> get16 P a d = (loadw 2 (k_mem d) a, d)"
  "a \<noteq> bar + 4 \<Longrightarrow> put32 P a v d = d\<lparr> k_mem := storew 4 (k_mem d) a v \<rparr>"
  by (simp_all add: get32_def get16_def put32_def)

section \<open>The stall\<close>

text \<open>The time at which the stall is over, and the turns of the timer still to see.\<close>

lemma turns_done: "k = 0 \<Longrightarrow> r \<le> t mod m \<Longrightarrow> (t div m + k) * m + r \<le> t" for k :: nat
proof -
  assume "k = 0" "r \<le> t mod m"
  then have "(t div m + k) * m + r = t div m * m + r" by simp
  also have "\<dots> \<le> t div m * m + t mod m" by (rule add_left_mono) fact
  finally show ?thesis by (simp only: div_mult_mod_eq)
qed

lemma turn_over: "st < m \<Longrightarrow> m \<le> x + st \<Longrightarrow> x + st - m < x" for x :: nat
  by linarith

lemma timer_step:
  fixes t st :: nat
  assumes "0 < st" "st < 0x1000000"
  shows "if (t + st) mod 0x1000000 < t mod 0x1000000 then (t + st) div 0x1000000 = Suc (t div 0x1000000)
    else (t + st) div 0x1000000 = t div 0x1000000 \<and> t mod 0x1000000 < (t + st) mod 0x1000000"
proof -
  let ?M = "0x1000000 :: nat"
  have lt: "t mod ?M < ?M" by simp
  have dv: "(t + st) div ?M = t div ?M + (t mod ?M + st) div ?M" and md: "(t + st) mod ?M = (t mod ?M + st) mod ?M"
  proof -
    have "t + st = (t mod ?M + st) + t div ?M * ?M" using div_mult_mod_eq [of t ?M] by linarith
    then show "(t + st) div ?M = t div ?M + (t mod ?M + st) div ?M"
      by (metis div_mult_self1 zero_neq_numeral)
    show "(t + st) mod ?M = (t mod ?M + st) mod ?M" by (simp only: mod_add_left_eq)
  qed
  show ?thesis
  proof (cases "t mod ?M + st < ?M")
    case True
    then show ?thesis using assms by (simp only: dv md div_less mod_less) simp
  next
    case False
    then have le: "?M \<le> t mod ?M + st" and less: "t mod ?M + st - ?M < ?M" using assms lt by linarith+
    have "(t mod ?M + st) div ?M = Suc ((t mod ?M + st - ?M) div ?M)" by (rule le_div_geq) (use le in simp_all)
    then have "(t mod ?M + st) div ?M = 1" using less by simp
    moreover have "(t mod ?M + st) mod ?M = t mod ?M + st - ?M"
      by (subst le_mod_geq [OF le]) (use less in simp)
    ultimately show ?thesis using turn_over [OF assms(2) le] by (simp only: dv md) simp
  qed
qed

lemma timer_bits: "(of_nat (n mod 0x1000000) :: u32) AND 0xFFFFFF = of_nat (n mod 0x1000000)"
proof -
  have "(0xFFFFFF :: u32) = mask 24" by (simp add: mask_numeral)
  moreover have "take_bit 24 (n mod 0x1000000) = n mod 0x1000000" by (simp add: take_bit_eq_mod)
  then have "take_bit 24 (of_nat (n mod 0x1000000) :: u32) = of_nat (n mod 0x1000000)"
    by (metis of_nat_take_bit)
  ultimately show ?thesis by (simp add: take_bit_eq_mask)
qed

lemma ucast_tick: "ucast (of_nat (n mod 0x1000000) :: u32) = (of_nat (n mod 0x1000000) :: u64)"
proof (rule word_unat_eq_iff [THEN iffD2])
  have "n mod 0x1000000 < 2 ^ 32" by (rule less_trans [of _ "0x1000000"]) simp_all
  then show "unat (ucast (of_nat (n mod 0x1000000) :: u32) :: u64) = unat (of_nat (n mod 0x1000000) :: u64)"
    by (simp add: unat_of_nat unsigned_ucast_eq take_bit_eq_mod)
qed

lemma run_ReadPmTimer:
  "run_state (ReadPmTimer (spi_chip_hw P) (p_abase P)) s =
     (of_nat ((k_time (kdev s) + p_step P (k_time (kdev s))) mod 0x1000000),
      with_dev ((kdev s)\<lparr> k_time := k_time (kdev s) + p_step P (k_time (kdev s)) \<rparr>) s)"
  by (simp add: ReadPmTimer_def hwrun in32_def regs timer_bits ucast_tick)

lemma tick_words:
  assumes "x < 2 ^ 40" "y < 2 ^ 40"
  shows "(of_nat x < (of_nat y :: u64)) = (x < y)" "(of_nat x :: u64) = 0 \<longleftrightarrow> x = 0"
  using assms by (simp_all add: word_less_nat_alt unat_of_nat word_unat_eq_iff)

abbreviation at_time :: "nat \<Rightarrow> spi_chip spi \<Rightarrow> spi_chip spi" where
  "at_time t s \<equiv> with_dev ((kdev s)\<lparr> k_time := t \<rparr>) s"

lemma stall_loop_ends:
  assumes P: "timer_runs P" and r: "r < 0x1000000"
  shows "k < 2 ^ 40 \<Longrightarrow> k_time (kdev s) = t \<Longrightarrow>
    \<exists>t'. stall_loop (spi_chip_hw P) (p_abase P) (of_nat k) (of_nat r) (of_nat (t mod 0x1000000))
      (of_nat (t mod 0x1000000)) s = Some (at_time t' s) \<and> (t div 0x1000000 + k) * 0x1000000 + r \<le> t' \<and> t \<le> t'"
proof (induction "k * 0x1000000 + (0x1000000 - t mod 0x1000000)" arbitrary: k t s rule: less_induct)
  case less
  let ?c = "t mod 0x1000000"
  let ?t' = "t + p_step P t"
  let ?c' = "?t' mod 0x1000000"
  let ?s' = "at_time ?t' s"
  have st: "0 < p_step P t" "p_step P t < 0x1000000" using P by (auto simp: timer_runs_def)
  note step = timer_step [OF st, of t]
  have c: "?c < 2 ^ 40" "?c' < 2 ^ 40" "r < 2 ^ 40"
    using r by (auto intro: less_trans [of _ "0x1000000"])
  have more: "(of_nat k \<noteq> (0 :: u64) \<or> (of_nat r :: u64) > of_nat ?c) = (k \<noteq> 0 \<or> r > ?c)"
    using tick_words(2) [OF less.prems(1) c(3)] tick_words(1) [OF c(1) c(3)] by simp
  have wrap: "((of_nat ?c' :: u64) < of_nat ?c) = (?c' < ?c)" by (rule tick_words(1) [OF c(2) c(1)])
  have k0: "(of_nat k :: u64) = 0 \<longleftrightarrow> k = 0" by (rule tick_words(2) [OF less.prems(1) c(3)])
  have tick: "run_state (ReadPmTimer (spi_chip_hw P) (p_abase P)) s = (of_nat ?c', ?s')"
    using run_ReadPmTimer [of P s] less.prems(2) by simp
  show ?case
  proof (cases "k \<noteq> 0 \<or> r > ?c")
    case False
    then have "k = 0" "r \<le> ?c" by simp_all
    then have "(t div 0x1000000 + k) * 0x1000000 + r \<le> t" by (rule turns_done)
    then show ?thesis
      by (subst stall_loop.simps) (use False more less.prems(2) in \<open>auto intro!: exI [of _ t]\<close>)
  next
    case True
    note unfold = stall_loop.simps [of "spi_chip_hw P" "p_abase P" "of_nat k" "of_nat r" "of_nat ?c" "of_nat ?c" s, unfolded more, unfolded if_P [OF True] tick prod.case wrap k0]
    show ?thesis
    proof (cases "?c' < ?c")
      case wrapped: True
      then have d: "?t' div 0x1000000 = Suc (t div 0x1000000)" using step by (simp only: if_True)
      show ?thesis
      proof (cases "k = 0")
        case True
        have "(t div 0x1000000 + k) * 0x1000000 + r \<le> (?t' div 0x1000000 + 0) * 0x1000000 + 0"
          unfolding d using r True by simp
        also have "\<dots> \<le> ?t'" by (rule turns_done) simp_all
        finally have "(t div 0x1000000 + k) * 0x1000000 + r \<le> ?t'" .
        moreover have "t \<le> ?t'" by simp
        moreover have "stall_loop (spi_chip_hw P) (p_abase P) (of_nat k) (of_nat r) (of_nat ?c) (of_nat ?c) s = Some ?s'"
          using unfold wrapped True by (simp only: if_True not_True_eq_False if_False simp_thms)
        ultimately show ?thesis by blast
      next
        case False
        then have k1: "(of_nat k :: u64) - 1 = of_nat (k - 1)" by (simp add: of_nat_diff)
        have dec: "(k - 1) * 0x1000000 + (0x1000000 - ?c') < k * 0x1000000 + (0x1000000 - ?c)"
          using False wrapped by (cases k) simp_all
        have "k - 1 < 2 ^ 40" "k_time (kdev ?s') = ?t'" using less.prems(1) by simp_all
        from less.hyps [OF dec this] obtain u where
          u: "stall_loop (spi_chip_hw P) (p_abase P) (of_nat (k - 1)) (of_nat r) (of_nat ?c') (of_nat ?c') ?s' = Some (at_time u ?s')"
            "(?t' div 0x1000000 + (k - 1)) * 0x1000000 + r \<le> u" "?t' \<le> u" by blast
        have sum: "Suc (t div 0x1000000) + (k - 1) = t div 0x1000000 + k" using False by simp
        have "stall_loop (spi_chip_hw P) (p_abase P) (of_nat k) (of_nat r) (of_nat ?c) (of_nat ?c) s = Some (at_time u s)"
          using unfold wrapped False u(1) by (simp only: k1 if_True not_False_eq_True simp_thms) simp
        moreover have "t \<le> u" using u(3) by simp
        ultimately show ?thesis using u(2) unfolding d sum by blast
      qed
    next
      case no: False
      then have d: "?t' div 0x1000000 = t div 0x1000000" "?c < ?c'" using step by (simp_all only: if_False)
      have dec: "k * 0x1000000 + (0x1000000 - ?c') < k * 0x1000000 + (0x1000000 - ?c)"
        using d(2) by (simp add: diff_less_mono2)
      have "k_time (kdev ?s') = ?t'" by simp
      from less.hyps [OF dec less.prems(1) this] obtain u where
        u: "stall_loop (spi_chip_hw P) (p_abase P) (of_nat k) (of_nat r) (of_nat ?c') (of_nat ?c') ?s' = Some (at_time u ?s')"
          "(?t' div 0x1000000 + k) * 0x1000000 + r \<le> u" "?t' \<le> u" by blast
      have "stall_loop (spi_chip_hw P) (p_abase P) (of_nat k) (of_nat r) (of_nat ?c) (of_nat ?c) s = Some (at_time u s)"
        using unfold no u(1) by (simp only: if_False) simp
      moreover have "t \<le> u" using u(3) by simp
      ultimately show ?thesis using u(2) unfolding d(1) by blast
    qed
  qed
qed

text \<open>The stall returns, and only after more ticks than asked for.\<close>

lemma of_nat_div_u64: "x < 2 ^ 64 \<Longrightarrow> y < 2 ^ 64 \<Longrightarrow> (of_nat x :: u64) div of_nat y = of_nat (x div y)"
  by (simp add: word_unat_eq_iff unat_div unat_of_nat take_bit_nat_eq_self div_less_dividend le_less_trans [OF div_le_dividend])

lemma of_nat_mod_u64: "x < 2 ^ 64 \<Longrightarrow> y < 2 ^ 64 \<Longrightarrow> (of_nat x :: u64) mod of_nat y = of_nat (x mod y)"
  by (simp add: word_unat_eq_iff unat_mod unat_of_nat take_bit_nat_eq_self le_less_trans [OF mod_less_eq_dividend])

lemma stall_ends:
  assumes P: "timer_runs P" and us: "0 < us" "us < 2 ^ 30"
  shows "\<exists>t. PchPmTimerStallRuntimeSafe (spi_chip_hw P) (p_abase P) (of_nat us) s = Some (at_time t s) \<and>
    k_time (kdev s) + us * 358 div 100 < t"
proof -
  let ?t = "k_time (kdev s) + p_step P (k_time (kdev s))"
  let ?s = "at_time ?t s"
  let ?c = "?t mod 0x1000000"
  let ?n = "us * 358 div 100 + ?c + 1"
  have c: "?c < 0x1000000" by simp
  have n: "?n < 2 ^ 39" using us(2) c by (simp add: div_less_iff_less_mult)
  have "(of_nat us :: u64) * 358 = of_nat (us * 358)" by simp
  also have "\<dots> div 100 = of_nat (us * 358 div 100)"
    using of_nat_div_u64 [of "us * 358" 100] us(2) by simp
  finally have ticks: "(of_nat us :: u64) * 358 div 100 + of_nat ?c + 1 = of_nat ?n" by simp
  have turns: "(of_nat ?n :: u64) div 0x1000000 = of_nat (?n div 0x1000000)" "(of_nat ?n :: u64) mod 0x1000000 = of_nat (?n mod 0x1000000)"
    using of_nat_div_u64 [of ?n "0x1000000"] of_nat_mod_u64 [of ?n "0x1000000"] n by simp_all
  have "?n div 0x1000000 < 2 ^ 40" by (rule le_less_trans [OF div_le_dividend], rule less_trans [OF n]) simp
  moreover have "?n mod 0x1000000 < 0x1000000" by simp
  ultimately obtain t where t: "stall_loop (spi_chip_hw P) (p_abase P) (of_nat (?n div 0x1000000)) (of_nat (?n mod 0x1000000))
        (of_nat ?c) (of_nat ?c) ?s = Some (at_time t ?s)"
      "(?t div 0x1000000 + ?n div 0x1000000) * 0x1000000 + ?n mod 0x1000000 \<le> t"
    using stall_loop_ends [OF P, of "?n mod 0x1000000" "?n div 0x1000000" ?s ?t] by (auto simp del: of_nat_add)
  have us0: "(of_nat us :: u64) \<noteq> 0" using us tick_words(2) [of us us] by simp
  have "PchPmTimerStallRuntimeSafe (spi_chip_hw P) (p_abase P) (of_nat us) s =
      stall_loop (spi_chip_hw P) (p_abase P) (of_nat (?n div 0x1000000)) (of_nat (?n mod 0x1000000)) (of_nat ?c) (of_nat ?c) ?s"
    using us0 by (simp only: PchPmTimerStallRuntimeSafe_def run_ReadPmTimer prod.case ticks turns Let_def
        V_PCH_ACPI_PM1_TMR_MAX_VAL_def if_False spi_chip_parts)
  then have "PchPmTimerStallRuntimeSafe (spi_chip_hw P) (p_abase P) (of_nat us) s = Some (at_time t s)"
    using t(1) by (simp only: with_dev_simps) simp
  moreover have "k_time (kdev s) + us * 358 div 100 < t"
  proof -
    have "(?t div 0x1000000 + ?n div 0x1000000) * 0x1000000 + ?n mod 0x1000000 = ?t div 0x1000000 * 0x1000000 + ?n"
      by (simp only: add_mult_distrib add.assoc div_mult_mod_eq)
    also have "\<dots> = (?t div 0x1000000 * 0x1000000 + ?c) + us * 358 div 100 + 1"
      by (simp only: ac_simps)
    also have "\<dots> = ?t + us * 358 div 100 + 1" by (simp only: div_mult_mod_eq)
    finally have "?t + us * 358 div 100 + 1 \<le> t" using t(2) by (simp only:)
    then show ?thesis by linarith
  qed
  ultimately show ?thesis by blast
qed

section \<open>Waiting for a cycle\<close>

lemma hsfsc_done: "run_state (spi_on_sys (MmioWrite32 (mmio (spi_chip_hw P)) (bar + 4) 3)) s =
    (3, with_dev ((kdev s)\<lparr> k_mem := storew 4 (k_mem (kdev s)) (bar + 4) (hsfsc (kdev s) AND 4) \<rparr>) s)"
  by (simp add: put32_def put_hsfsc_def and.assoc)

definition settle :: "nat \<Rightarrow> spi_chip \<Rightarrow> spi_chip" where
  "settle t d = d\<lparr> k_time := t, k_busy := 0, k_mem := storew 4 (k_mem d) (bar + 4) (hsfsc d AND 4) \<rparr>"

lemma settle_idle: "k_busy d = 0 \<Longrightarrow> settle (k_time d) d = d\<lparr> k_mem := storew 4 (k_mem d) (bar + 4) (hsfsc d AND 4) \<rparr>"
  by (cases d) (simp add: settle_def)

lemma settle_busy: "settle t (d\<lparr> k_busy := b, k_time := u \<rparr>) = settle t d" "hsfsc (d\<lparr> k_busy := b, k_time := u \<rparr>) = hsfsc d"
  by (cases d, simp_all add: settle_def hsfsc_def)

lemma busy_bit: "((h AND NOT 3) OR BIT 5) AND B_PCH_SPI_HSFSC_SCIP \<noteq> 0" for h :: u32
  using and_bit [of "(h AND NOT 3) OR BIT 5" 5] by (simp add: B_PCH_SPI_HSFSC_SCIP_def bit_simps del: push_bit_of_1)

text \<open>A read of the status while a cycle runs, and the stall after it.\<close>

lemma wait_busy:
  assumes P: "timer_runs P" and "PchAcpiBase (spi_inst s) = p_abase P" "k_busy (kdev s) = Suc b"
  obtains t where "wait_ticks (spi_chip_hw P) bar check (Suc n) s =
      wait_ticks (spi_chip_hw P) bar check n (with_dev ((kdev s)\<lparr> k_busy := b, k_time := t \<rparr>) s)"
    and "k_time (kdev s) + 35 < t"
proof -
  let ?s = "with_dev ((kdev s)\<lparr> k_busy := b \<rparr>) s"
  from stall_ends [OF P, of SPI_WAIT_PERIOD ?s] obtain t where
    t: "PchPmTimerStallRuntimeSafe (spi_chip_hw P) (p_abase P) (of_nat SPI_WAIT_PERIOD) ?s = Some (at_time t ?s)"
      "k_time (kdev s) + 35 < t" by (auto simp: SPI_WAIT_PERIOD_def)
  have "wait_ticks (spi_chip_hw P) bar check (Suc n) s =
      wait_ticks (spi_chip_hw P) bar check n (with_dev ((kdev s)\<lparr> k_busy := b, k_time := t \<rparr>) s)"
    using assms t(1) busy_bit [of "hsfsc (kdev s)"] by (simp add: get32_def R_PCH_SPI_HSFSC_def)
  then show thesis using t(2) by (rule that)
qed

lemma wait_done:
  assumes P: "timer_runs P"
  shows "k_busy (kdev s) < n \<Longrightarrow> PchAcpiBase (spi_inst s) = p_abase P \<Longrightarrow>
    \<exists>t. wait_ticks (spi_chip_hw P) bar check n s =
      Some (\<not> (bit (hsfsc (kdev s)) 1 \<and> check), with_dev (settle t (kdev s)) s) \<and> k_time (kdev s) \<le> t"
proof (induction n arbitrary: s)
  case (Suc n)
  show ?case
  proof (cases "k_busy (kdev s)")
    case 0
    have err: "(h AND NOT (BIT 5)) AND 2 \<noteq> 0 \<longleftrightarrow> bit h 1" for h :: u32
      using and_bit [of h 1] by (simp add: and.assoc)
    have "wait_ticks (spi_chip_hw P) bar check (Suc n) s = Some (\<not> (bit (hsfsc (kdev s)) 1 \<and> check), with_dev (settle (k_time (kdev s)) (kdev s)) s)"
      using 0 hsfsc_done [of P s] err [of "hsfsc (kdev s)"]
      by (simp add: get32_def regs settle_idle and.assoc)
    then show ?thesis by blast
  next
    case (Suc b)
    from wait_busy [OF P Suc.prems(2) Suc, of check n] obtain t where
      t: "wait_ticks (spi_chip_hw P) bar check (Suc n) s =
        wait_ticks (spi_chip_hw P) bar check n (with_dev ((kdev s)\<lparr> k_busy := b, k_time := t \<rparr>) s)"
        "k_time (kdev s) + 35 < t" by blast
    from Suc.IH [of "with_dev ((kdev s)\<lparr> k_busy := b, k_time := t \<rparr>) s"] Suc.prems Suc obtain u where
      "wait_ticks (spi_chip_hw P) bar check n (with_dev ((kdev s)\<lparr> k_busy := b, k_time := t \<rparr>) s) =
        Some (\<not> (bit (hsfsc (kdev s)) 1 \<and> check), with_dev (settle u (kdev s)) s)" "t \<le> u"
      by (auto simp: settle_busy)
    then show ?thesis using t by auto
  qed
qed simp

text \<open>A controller that stays busy: the wait ends too, after the ticks of all the stalls.\<close>

lemma wait_times_out:
  assumes P: "timer_runs P"
  shows "n \<le> k_busy (kdev s) \<Longrightarrow> PchAcpiBase (spi_inst s) = p_abase P \<Longrightarrow>
    \<exists>t. wait_ticks (spi_chip_hw P) bar check n s =
      Some (False, with_dev ((kdev s)\<lparr> k_busy := k_busy (kdev s) - n, k_time := t \<rparr>) s) \<and> k_time (kdev s) + 36 * n \<le> t"
proof (induction n arbitrary: s)
  case 0
  have "with_dev ((kdev s)\<lparr> k_busy := k_busy (kdev s) - 0, k_time := k_time (kdev s) \<rparr>) s = s" by simp
  then show ?case by (intro exI [of _ "k_time (kdev s)"]) simp
next
  case (Suc n)
  then obtain b where b: "k_busy (kdev s) = Suc b" by (cases "k_busy (kdev s)") auto
  from wait_busy [OF P Suc.prems(2) b, of check n] obtain t where
    t: "wait_ticks (spi_chip_hw P) bar check (Suc n) s =
      wait_ticks (spi_chip_hw P) bar check n (with_dev ((kdev s)\<lparr> k_busy := b, k_time := t \<rparr>) s)"
      "k_time (kdev s) + 35 < t" by blast
  from Suc.IH [of "with_dev ((kdev s)\<lparr> k_busy := b, k_time := t \<rparr>) s"] Suc.prems b obtain u where
    "wait_ticks (spi_chip_hw P) bar check n (with_dev ((kdev s)\<lparr> k_busy := b, k_time := t \<rparr>) s) =
      Some (False, with_dev ((kdev s)\<lparr> k_busy := b - n, k_time := u \<rparr>) s)" "t + 36 * n \<le> u"
    by auto
  then show ?case using t b by auto
qed

end
