(* ===== verification/SpiCycle.thy ===== *)
theory SpiCycle
  imports SpiChip
begin

text \<open>
  One cycle of the SPI controller: what moving the data between the caller's buffer and the data
  registers does, what starting a cycle does, and the whole body of the loop of \<open>SendSpiCmd\<close> on the
  hardware of SpiChip.
\<close>

section \<open>Copying bytes\<close>

lemma storen_append:
  assumes "length xs + length ys < 2 ^ 64"
  shows "storen (storen m a xs) (a + of_nat (length xs)) ys = storen m a (xs @ ys)"
proof (rule ext)
  fix x :: u64
  let ?d = "unat (x - a)" and ?n = "length xs"
  have n: "unat (of_nat ?n :: u64) = ?n" using assms by (simp add: unat_of_nat)
  have eq: "x - (a + of_nat ?n) = (x - a) - of_nat ?n" by (simp add: algebra_simps)
  show "storen (storen m a xs) (a + of_nat ?n) ys x = storen m a (xs @ ys) x"
  proof (cases "?d < ?n")
    case True
    let ?e = "of_nat ?n - (x - a)"
    have e: "unat ?e = ?n - ?d" using True n by (subst unat_sub) (simp_all add: word_le_nat_alt)
    then have "?e \<noteq> 0" using True by auto
    from unat_add_neg [OF this] have "unat (- ?e) + (?n - ?d) = 2 ^ 64" by (simp only: e)
    then have "unat ((x - a) - of_nat ?n) \<ge> length ys" using assms True by simp
    then show ?thesis using True by (simp add: storen_def eq nth_append)
  next
    case False
    then have "unat ((x - a) - of_nat ?n) = ?d - ?n" using n by (subst unat_sub) (simp_all add: word_le_nat_alt)
    then show ?thesis using False by (simp add: storen_def eq nth_append) linarith
  qed
qed

lemma loadn_append: "loadn r b (k + n) = loadn r b k @ loadn r (b + of_nat k) n"
  by (rule nth_equalityI) (auto simp: loadn_def nth_append ac_simps)

lemma length_loadn [simp]: "length (loadn r b n) = n"
  by (simp add: loadn_def)

lemma bytes_of_word_of_bytes:
  assumes "length bs = n" "8 * n \<le> LENGTH('a)"
  shows "bytes_of n (word_of_bytes bs :: 'a::len word) = bs"
proof (rule nth_equalityI)
  fix i assume "i < length (bytes_of n (word_of_bytes bs :: 'a word))"
  then have i: "i < n" by simp
  show "bytes_of n (word_of_bytes bs :: 'a word) ! i = bs ! i"
  proof (rule bit_word_eqI)
    fix k assume "k < LENGTH(8)"
    then have k: "k < 8" by simp
    have "8 * i + k < LENGTH('a)" using assms(2) i k by linarith
    then show "bit (bytes_of n (word_of_bytes bs :: 'a word) ! i) k = bit (bs ! i) k"
      using i k assms(1) by (simp add: bit_bytes_of bit_word_of_bytes)
  qed
qed (simp add: assms)

lemma storew_loadw:
  "8 * n \<le> LENGTH('a) \<Longrightarrow> storew n m a (loadw n r b :: 'a::len word) = storen m a (loadn r b n)"
  by (simp add: storew_def loadw_def bytes_of_word_of_bytes)

text \<open>A loop that copies words of \<open>w\<close> bytes copies the whole range.\<close>

lemma run_for_each:
  "(\<And>i s. i \<in> set is \<Longrightarrow> run_state (f i) s = ((), g i s)) \<Longrightarrow> run_state (for_each is f) s = ((), fold g is s)"
  by (induction "is" arbitrary: s) (simp_all add: hwrun)

lemma copy_range:
  "w * k < 2 ^ 64 \<Longrightarrow>
    fold (\<lambda>i m. storen m (a + of_nat i) (loadn r (b + of_nat i) w)) (map (\<lambda>j. w * j) [0..<k]) m =
      storen m a (loadn r b (w * k))"
proof (induction k)
  case 0
  then show ?case by (simp add: loadn_def storen_def)
next
  case (Suc k)
  then have IH: "fold (\<lambda>i m. storen m (a + of_nat i) (loadn r (b + of_nat i) w)) (map (\<lambda>j. w * j) [0..<k]) m =
      storen m a (loadn r b (w * k))" by simp
  have "storen (storen m a (loadn r b (w * k))) (a + of_nat (w * k)) (loadn r (b + of_nat (w * k)) w) =
      storen m a (loadn r b (w * k) @ loadn r (b + of_nat (w * k)) w)"
    using storen_append [of "loadn r b (w * k)" "loadn r (b + of_nat (w * k)) w" m a] Suc.prems by simp
  also have "\<dots> = storen m a (loadn r b (w * Suc k))"
    by (simp only: loadn_append [of r b "w * k" w, symmetric] mult_Suc_right add.commute [of w])
  finally show ?case by (simp only: upt_Suc_append map_append list.map fold_append comp_apply IH fold.simps id_apply)
qed

lemma and_7_zero: "x AND 7 = 0 \<longleftrightarrow> 8 dvd unat (x :: 'a::len word)"
proof -
  have "x AND 7 = take_bit 3 x" by (simp add: take_bit_eq_mask mask_numeral)
  moreover have "unat (take_bit 3 x) = unat x mod 8"
    by (simp only: unsigned_take_bit_eq) (simp add: take_bit_eq_mod)
  ultimately show ?thesis
    by (metis dvd_eq_mod_eq_0 unsigned_0 unsigned_word_eqI)
qed

lemma word_index: "cnt AND 7 = 0 \<Longrightarrow> 4 * (unat cnt div 4) = unat cnt" for cnt :: u32
  by (metis and_7_zero dvd_mult_div_cancel dvd_trans dvd_triv_left numeral_times_numeral semiring_norm(12) semiring_norm(13) mult.commute)

lemma fdata_plain: "i < 64 \<Longrightarrow> bar + 0x10 + of_nat i \<noteq> bar + 4 \<and> bar + 0x10 + of_nat i \<noteq> bar + 0xB8"
proof -
  assume "i < 64"
  then have u: "unat (of_nat i :: u64) = i" by (simp add: unat_of_nat)
  have c: "unat (0xFE010010 :: u64) + i < 2 ^ 64" using \<open>i < 64\<close> by simp
  have e: "unat (0xFE010010 + of_nat i :: u64) = 0xFE010010 + i"
    using unat_offset [OF c] by simp
  have "(0xFE010010 + of_nat i :: u64) \<noteq> 0xFE010004"
  proof
    assume "(0xFE010010 + of_nat i :: u64) = 0xFE010004"
    with e have "unat (0xFE010004 :: u64) = 0xFE010010 + i" by (simp only:)
    then show False by simp
  qed
  moreover have "(0xFE010010 + of_nat i :: u64) \<noteq> 0xFE0100B8"
  proof
    assume "(0xFE010010 + of_nat i :: u64) = 0xFE0100B8"
    with e have "unat (0xFE0100B8 :: u64) = 0xFE010010 + i" by (simp only:)
    then show False using \<open>i < 64\<close> by simp
  qed
  ultimately show ?thesis by (simp only: bar_def) simp
qed

section \<open>Moving the data\<close>

definition with_mem :: "mem \<Rightarrow> spi_chip spi \<Rightarrow> spi_chip spi" where
  "with_mem m s = with_dev ((kdev s)\<lparr> k_mem := m \<rparr>) s"

lemma with_mem_simps [simp]:
  "k_mem (kdev (with_mem m s)) = m" "with_mem m (with_mem k s) = with_mem m s" "spi_ram (with_mem m s) = spi_ram s"
  "spi_inst (with_mem m s) = spi_inst s" "k_busy (kdev (with_mem m s)) = k_busy (kdev s)"
  "k_flash (kdev (with_mem m s)) = k_flash (kdev s)" "k_cycles (kdev (with_mem m s)) = k_cycles (kdev s)"
  by (simp_all add: with_mem_def)

lemma fold_mem:
  "fold (\<lambda>i s. with_mem (h i (k_mem (kdev s)) (spi_ram s)) s) is s =
     with_mem (fold (\<lambda>i m. h i m (spi_ram s)) is (k_mem (kdev s))) s"
  by (induction "is" arbitrary: s) (simp_all add: with_mem_def)

lemma fold_ram:
  "fold (\<lambda>i s. s\<lparr> spi_ram := h i (spi_ram s) (k_mem (kdev s)) \<rparr>) is s =
     s\<lparr> spi_ram := fold (\<lambda>i r. h i r (k_mem (kdev s))) is (spi_ram s) \<rparr>"
  by (induction "is" arbitrary: s) simp_all

lemma load_range:
  "w * k < 2 ^ 64 \<Longrightarrow>
    fold (\<lambda>i s. with_mem (storen (k_mem (kdev s)) (a + of_nat i) (loadn (spi_ram s) (b + of_nat i) w)) s)
      (map (\<lambda>j. w * j) [0..<k]) s = with_mem (storen (k_mem (kdev s)) a (loadn (spi_ram s) b (w * k))) s"
  by (simp only: fold_mem [of "\<lambda>i m r. storen m (a + of_nat i) (loadn r (b + of_nat i) w)"] copy_range)

lemma unload_range:
  "w * k < 2 ^ 64 \<Longrightarrow>
    fold (\<lambda>i s. s\<lparr> spi_ram := storen (spi_ram s) (b + of_nat i) (loadn (k_mem (kdev s)) (a + of_nat i) w) \<rparr>)
      (map (\<lambda>j. w * j) [0..<k]) s = s\<lparr> spi_ram := storen (spi_ram s) b (loadn (k_mem (kdev s)) a (w * k)) \<rparr>"
  by (simp only: fold_ram [of "\<lambda>i r m. storen r (b + of_nat i) (loadn m (a + of_nat i) w)"] copy_range)

lemma one_index: "[0..<n] = map (\<lambda>j. 1 * j) [0..<n]"
  by simp

lemma run_load_data:
  assumes n: "unat cnt \<le> 64"
  shows "run_state (load_data (spi_chip_hw P) bar Buffer cnt) s =
    ((), with_mem (storen (k_mem (kdev s)) (bar + 0x10) (loadn (spi_ram s) Buffer (unat cnt))) s)"
proof (cases "cnt AND 7 = 0")
  case False
  have "run_state (load_data (spi_chip_hw P) bar Buffer cnt) s = ((), fold (\<lambda>i s. with_mem
      (storen (k_mem (kdev s)) (bar + 0x10 + of_nat i) (loadn (spi_ram s) (Buffer + of_nat i) 1)) s) [0..<unat cnt] s)"
    unfolding load_data_def if_P [OF False] R_PCH_SPI_FDATA00_def
    by (rule run_for_each) (simp add: hwrun with_mem_def storew_loadw)
  then show ?thesis
    using n by (subst (asm) one_index, subst (asm) load_range) simp_all
next
  case True
  have "run_state (load_data (spi_chip_hw P) bar Buffer cnt) s = ((), fold (\<lambda>i s. with_mem
      (storen (k_mem (kdev s)) (bar + 0x10 + of_nat i) (loadn (spi_ram s) (Buffer + of_nat i) 4)) s) (word_indexes cnt) s)"
    unfolding load_data_def if_not_P [OF not_not [THEN iffD2, OF True]] R_PCH_SPI_FDATA00_def
  proof (rule run_for_each)
    fix i and s :: "spi_chip spi"
    assume "i \<in> set (word_indexes cnt)"
    then have "i < 64" using n by (auto simp: word_indexes_def)
    from fdata_plain [OF this] show "run_state (do {
        v \<leftarrow> peek 4 (Buffer + of_nat i);
        _ \<leftarrow> spi_on_sys (MmioWrite32 (mmio (spi_chip_hw P)) (bar + 0x10 + of_nat i) v);
        State_Monad.return () }) s =
      ((), with_mem (storen (k_mem (kdev s)) (bar + 0x10 + of_nat i) (loadn (spi_ram s) (Buffer + of_nat i) 4)) s)"
      by (simp add: hwrun with_mem_def storew_loadw del: bar_def)
  qed
  then show ?thesis
    using n word_index [OF True] by (subst (asm) word_indexes_def, subst (asm) load_range) simp_all
qed

lemma run_unload_data:
  assumes n: "unat cnt \<le> 64"
  shows "run_state (unload_data (spi_chip_hw P) bar Buffer cnt) s =
    ((), s\<lparr> spi_ram := storen (spi_ram s) Buffer (loadn (k_mem (kdev s)) (bar + 0x10) (unat cnt)) \<rparr>)"
proof (cases "cnt AND 7 = 0")
  case False
  have "run_state (unload_data (spi_chip_hw P) bar Buffer cnt) s = ((), fold (\<lambda>i s. s\<lparr> spi_ram :=
      storen (spi_ram s) (Buffer + of_nat i) (loadn (k_mem (kdev s)) (bar + 0x10 + of_nat i) 1) \<rparr>) [0..<unat cnt] s)"
    unfolding unload_data_def if_P [OF False] R_PCH_SPI_FDATA00_def
    by (rule run_for_each) (simp add: hwrun storew_loadw)
  then show ?thesis
    using n by (subst (asm) one_index, subst (asm) unload_range) simp_all
next
  case True
  have "run_state (unload_data (spi_chip_hw P) bar Buffer cnt) s = ((), fold (\<lambda>i s. s\<lparr> spi_ram :=
      storen (spi_ram s) (Buffer + of_nat i) (loadn (k_mem (kdev s)) (bar + 0x10 + of_nat i) 4) \<rparr>) (word_indexes cnt) s)"
    unfolding unload_data_def if_not_P [OF not_not [THEN iffD2, OF True]] R_PCH_SPI_FDATA00_def
  proof (rule run_for_each)
    fix i and s :: "spi_chip spi"
    assume "i \<in> set (word_indexes cnt)"
    then have "i < 64" using n by (auto simp: word_indexes_def)
    from fdata_plain [OF this] show "run_state (do {
        v \<leftarrow> spi_on_sys (MmioRead32 (mmio (spi_chip_hw P)) (bar + 0x10 + of_nat i));
        poke 4 (Buffer + of_nat i) v }) s =
      ((), s\<lparr> spi_ram := storen (spi_ram s) (Buffer + of_nat i) (loadn (k_mem (kdev s)) (bar + 0x10 + of_nat i) 4) \<rparr>)"
      by (simp add: hwrun storew_loadw del: bar_def)
  qed
  then show ?thesis
    using n word_index [OF True] by (subst (asm) word_indexes_def, subst (asm) unload_range) simp_all
qed

section \<open>Starting a cycle\<close>

text \<open>The word stored to HSFSC, given the word read from it, the count and the cycle.\<close>

definition go_word :: "u32 \<Rightarrow> u32 \<Rightarrow> u32 \<Rightarrow> u32" where
  "go_word h m c = (h AND NOT (0x3F000000 OR 0x001E0000)) OR ((push_bit 24 m AND 0x3F000000) OR push_bit 17 c OR BIT 16)"

lemma hsfsc_masks: "(0x3F000000 :: u32) = push_bit 24 (mask 6)" "(0x001E0000 :: u32) = push_bit 17 (mask 4)"
  by (simp_all add: mask_numeral)

lemma go_word_fields:
  assumes "take_bit 4 c = c"
  shows "bit (go_word h m c) 16"
    and "drop_bit 17 (go_word h m c AND 0x001E0000) = c"
    and "drop_bit 24 (go_word h m c AND 0x3F000000) = take_bit 6 m"
    and "go_word h m c AND 0x7 = h AND 0x7"
proof -
  have c: "bit c n \<Longrightarrow> n < 4" for n using assms by (metis bit_take_bit_iff)
  show "bit (go_word h m c) 16" by (simp add: go_word_def bit_simps del: push_bit_of_1)
  show "drop_bit 17 (go_word h m c AND 0x001E0000) = c"
    unfolding go_word_def hsfsc_masks
    by (rule bit_word_eqI) (auto simp: bit_simps simp del: push_bit_of_1 dest: c)
  show "drop_bit 24 (go_word h m c AND 0x3F000000) = take_bit 6 m"
    unfolding go_word_def hsfsc_masks
    by (rule bit_word_eqI) (auto simp: bit_simps simp del: push_bit_of_1 dest: c)
  have "go_word h m c AND mask 3 = h AND mask 3"
    unfolding go_word_def hsfsc_masks
    by (rule bit_word_eqI) (auto simp: bit_simps simp del: push_bit_of_1)
  then show "go_word h m c AND 0x7 = h AND 0x7" by (simp add: mask_numeral)
qed

text \<open>What a command leaves alone: all but the timer, the flash, the registers of cycles and the buffers.\<close>

definition hide :: "mem \<Rightarrow> mem" where
  "hide m = (\<lambda>x. if unat (x - (bar + 4)) < 0x4C then 0 else m x)"

definition rest :: "spi_chip spi \<Rightarrow> spi_chip spi" where
  "rest s = (with_dev ((kdev s)\<lparr> k_mem := hide (k_mem (kdev s)), k_time := 0, k_flash := (\<lambda>_. 0), k_busy := 0,
     k_cycles := [] \<rparr>) s)\<lparr> spi_ram := (\<lambda>_. 0) \<rparr>"

text \<open>Between two cycles.\<close>

definition idle :: "chip_par \<Rightarrow> spi_chip spi \<Rightarrow> bool" where
  "idle P s \<longleftrightarrow> k_busy (kdev s) = 0 \<and> hsfsc (kdev s) AND 0x3 = 0 \<and> PchAcpiBase (spi_inst s) = p_abase P"

lemma hide_storen:
  assumes "4 \<le> k" "k + length bs \<le> 0x50"
  shows "hide (storen m (bar + of_nat k) bs) = hide m"
proof (rule ext)
  fix x :: u64
  let ?y = "x - (bar + 4)"
  show "hide (storen m (bar + of_nat k) bs) x = hide m x"
  proof (cases "unat (x - (bar + of_nat k)) < length bs")
    case True
    have "?y = (x - (bar + of_nat k)) + of_nat (k - 4)" using assms(1) by (simp add: of_nat_diff)
    moreover have "unat (x - (bar + of_nat k)) + (k - 4) < 0x50" using True assms by linarith
    then have "unat (x - (bar + of_nat k)) + (k - 4) < 2 ^ 64" by simp
    ultimately have "unat ?y = unat (x - (bar + of_nat k)) + (k - 4)" by (simp only: unat_offset)
    then have "unat ?y < 0x4C" using True assms by linarith
    then show ?thesis by (simp add: hide_def)
  next
    case False
    then show ?thesis by (simp add: hide_def storen_def)
  qed
qed

lemma hide_regs [simp]:
  "hide (storew 4 m (bar + 4) (v :: u32)) = hide m" "hide (storew 4 m (bar + 8) (v :: u32)) = hide m"
  "length bs \<le> 64 \<Longrightarrow> hide (storen m (bar + 0x10) bs) = hide m"
  using hide_storen [of 4 "bytes_of 4 v" m] hide_storen [of 8 "bytes_of 4 v" m] hide_storen [of 16 bs m]
  by (simp_all add: storew_def)

lemma run_start_cycle:
  assumes "k_busy (kdev s) = 0" "unat addr < 2 ^ 27"
  shows "run_state (spi_on_sys (start_cycle (spi_chip_hw P) bar (hw_cycle c) addr cnt)) s =
    (let d = (kdev s)\<lparr> k_mem := storew 4 (k_mem (kdev s)) (bar + 8) addr \<rparr> in
      ((), with_dev (put_hsfsc P (go_word (hsfsc d AND NOT (BIT 5)) (cnt - 1) c) d) s))"
proof -
  have "take_bit 27 addr = addr"
    using assms(2) by (simp add: word_unat_eq_iff unsigned_take_bit_eq take_bit_nat_eq_self)
  moreover have "(0x07FFFFFF :: u32) = mask 27" by (simp add: mask_numeral)
  ultimately have addr: "addr AND 0x07FFFFFF = addr" by (simp add: take_bit_eq_mask)
  show ?thesis
    using assms(1) addr
    by (simp add: start_cycle_def MmioAndThenOr32_def hwrun regs get32_def put32_def go_word_def hw_cycle_def
        Let_def or.assoc del: push_bit_of_1)
qed

text \<open>The effect of a cycle on flash and data registers.\<close>

definition effect :: "chip_par \<Rightarrow> u32 \<Rightarrow> nat \<Rightarrow> nat \<Rightarrow> spi_chip \<Rightarrow> spi_chip" where
  "effect P c a n d = (if cycle_fails P c a d then d else cycle_data P c a n d)"

lemma started:
  assumes h: "hsfsc d AND 0x3 = 0" and c: "take_bit 4 c = c" and a: "loadw 4 (k_mem d) (bar + 8) = (addr :: u32)" "unat addr < 2 ^ 27"
    and r: "r AND 0x7 = hsfsc d AND 0x7"
  obtains h' :: u32 where "put_hsfsc P (go_word r m c) d =
      (let n = Suc (unat (take_bit 6 m)); e = effect P c (unat addr) n d in
        e\<lparr> k_mem := storew 4 (k_mem e) (bar + 4) h', k_busy := p_busy P, k_cycles := k_cycles d @ [(c, unat addr, n)] \<rparr>)"
    and "bit h' 1 \<longleftrightarrow> cycle_fails P c (unat addr) d"
proof -
  let ?v = "go_word r m c"
  let ?k = "(?v AND NOT (0x7 OR BIT 5 OR BIT 16)) OR (hsfsc d AND 0x7 AND NOT ?v)"
  let ?h = "?k OR (if cycle_fails P c (unat addr) d then 0x3 else 0x1)"
  have go: "?v AND BIT 16 \<noteq> 0" using go_word_fields(1) [OF c] and_bit [of ?v 16] by (simp del: push_bit_of_1)
  have "addr AND 0x07FFFFFF = addr"
  proof -
    have "take_bit 27 addr = addr"
      using a(2) by (simp add: word_unat_eq_iff unsigned_take_bit_eq take_bit_nat_eq_self)
    moreover have "(0x07FFFFFF :: u32) = mask 27" by (simp add: mask_numeral)
    ultimately show ?thesis by (simp add: take_bit_eq_mask)
  qed
  then have "put_hsfsc P ?v d = (let n = Suc (unat (take_bit 6 m)); e = effect P c (unat addr) n d in
      e\<lparr> k_mem := storew 4 (k_mem e) (bar + 4) ?h, k_busy := p_busy P, k_cycles := k_cycles d @ [(c, unat addr, n)] \<rparr>)"
    using go unfolding put_hsfsc_def Let_def go_word_fields(2,3) [OF c] a(1)
    by (simp add: effect_def del: push_bit_of_1 bar_def)
  moreover have "\<not> bit (hsfsc d) 1"
  proof -
    have "\<not> bit (hsfsc d AND 0x3) 1" using h by simp
    then show ?thesis by (simp add: bit_simps)
  qed
  then have "bit ?h 1 \<longleftrightarrow> cycle_fails P c (unat addr) d" by (simp add: bit_simps)
  ultimately show thesis by (rule that)
qed

section \<open>The body of the loop\<close>

definition reads_data :: "FLASH_CYCLE_TYPE \<Rightarrow> bool" where
  "reads_data t \<longleftrightarrow> t \<in> {FlashCycleRead, FlashCycleReadSfdp, FlashCycleReadJedecId, FlashCycleReadStatus}"

definition sends_data :: "FLASH_CYCLE_TYPE \<Rightarrow> bool" where
  "sends_data t \<longleftrightarrow> t = FlashCycleWrite \<or> t = FlashCycleWriteStatus"

text \<open>The chip with the data and the address in the registers.\<close>

definition prepared :: "FLASH_CYCLE_TYPE \<Rightarrow> u32 \<Rightarrow> u32 \<Rightarrow> u64 \<Rightarrow> spi_chip spi \<Rightarrow> spi_chip" where
  "prepared t addr cnt Buffer s =
     (let m = if sends_data t then storen (k_mem (kdev s)) (bar + 0x10) (loadn (spi_ram s) Buffer (unat cnt))
        else k_mem (kdev s)
      in (kdev s)\<lparr> k_mem := storew 4 m (bar + 8) addr \<rparr>)"

definition after_cycle :: "chip_par \<Rightarrow> u32 \<Rightarrow> nat \<Rightarrow> nat \<Rightarrow> u32 \<Rightarrow> nat \<Rightarrow> spi_chip \<Rightarrow> spi_chip" where
  "after_cycle P c a n h u d =
     (let e = effect P c a n d in
      settle u (e\<lparr> k_mem := storew 4 (k_mem e) (bar + 4) h, k_busy := p_busy P, k_cycles := k_cycles d @ [(c, a, n)] \<rparr>))"

lemma loadw_window:
  "loadw 4 (storen m (bar + 0x10) bs) (bar + 4) = (loadw 4 m (bar + 4) :: u32)" if "length bs \<le> 64"
proof -
  have "apart (bar + 0x10) (length bs) (bar + 4) 4" using that by (simp add: apart_def unat_m1)
  then show ?thesis by (simp add: loadw_def loadn_storen_apart)
qed

lemma prepared_hsfsc: "unat cnt \<le> 64 \<or> \<not> sends_data t \<Longrightarrow> hsfsc (prepared t addr cnt Buffer s) = hsfsc (kdev s)"
  by (auto simp: prepared_def hsfsc_def Let_def mem_simps loadw_window simp del: bar_def)

lemma prepared_addr: "loadw 4 (k_mem (prepared t addr cnt Buffer s)) (bar + 8) = addr"
  by (simp add: prepared_def Let_def)

lemma bind_case: "Option.bind x f = (case x of None \<Rightarrow> None | Some y \<Rightarrow> f y)"
  by (cases x) simp_all

lemma one_cycle_runs:
  fixes Buffer :: u64
  assumes P: "timer_runs P" "p_busy P < 600000" and s: "idle P s"
    and cnt: "data_count (spi_inst s) t addr bc = cnt"
    and cc: "cycle_code t FC cnt = hw_cycle c" "take_bit 4 c = c"
    and a: "unat addr < 2 ^ 27" and small: "sends_data t \<or> reads_data t \<Longrightarrow> unat cnt \<le> 64"
  defines "d \<equiv> prepared t addr cnt Buffer s" and "n \<equiv> Suc (unat (take_bit 6 (cnt - 1)))"
  shows "\<exists>h u. one_cycle (spi_chip_hw P) bar t FC addr bc Buffer s =
    (let s2 = with_dev (after_cycle P c (unat addr) n h u d) s in
      Some (if cycle_fails P c (unat addr) d then (None, s2)
        else (Some cnt, if reads_data t
          then s2\<lparr> spi_ram := storen (spi_ram s) Buffer (loadn (k_mem (kdev s2)) (bar + 0x10) (unat cnt)) \<rparr>
          else s2)))"
proof -
  let ?hw = "spi_chip_hw P"
  let ?m = "if sends_data t then storen (k_mem (kdev s)) (bar + 0x10) (loadn (spi_ram s) Buffer (unat cnt)) else k_mem (kdev s)"
  have load: "run_state (if t = FlashCycleWrite \<or> t = FlashCycleWriteStatus then load_data ?hw bar Buffer cnt
      else State_Monad.return ()) s = ((), with_mem ?m s)"
    using small run_load_data by (auto simp: sends_data_def hwrun with_mem_def)
  have h0: "hsfsc d AND 0x3 = 0" "k_busy d = 0"
    using s prepared_hsfsc [of cnt t addr Buffer s] small by (auto simp: d_def idle_def prepared_def Let_def)
  have "(with_dev d s) = with_dev ((kdev (with_mem ?m s))\<lparr> k_mem := storew 4 (k_mem (kdev (with_mem ?m s))) (bar + 8) addr \<rparr>) (with_mem ?m s)"
    by (simp add: d_def prepared_def with_mem_def)
  moreover have "k_busy (kdev (with_mem ?m s)) = 0" using s by (simp add: idle_def)
  ultimately have start: "run_state (spi_on_sys (start_cycle ?hw bar (hw_cycle c) addr cnt)) (with_mem ?m s) =
      ((), with_dev (put_hsfsc P (go_word (hsfsc d AND NOT (BIT 5)) (cnt - 1) c) d) s)"
    using run_start_cycle [of "with_mem ?m s" addr P c cnt] a by (simp add: d_def prepared_def with_mem_def Let_def del: push_bit_of_1)
  have r: "(hsfsc d AND NOT (BIT 5)) AND 0x7 = hsfsc d AND 0x7" by (simp add: and.assoc)
  obtain h :: u32 where put0: "put_hsfsc P (go_word (hsfsc d AND NOT (BIT 5)) (cnt - 1) c) d =
      (let n = Suc (unat (take_bit 6 (cnt - 1))); e = effect P c (unat addr) n d in
        e\<lparr> k_mem := storew 4 (k_mem e) (bar + 4) h, k_busy := p_busy P, k_cycles := k_cycles d @ [(c, unat addr, n)] \<rparr>)"
      and h: "bit h 1 \<longleftrightarrow> cycle_fails P c (unat addr) d"
    by (rule started [where P = P and m = "cnt - 1", OF h0(1) cc(2) prepared_addr [of t addr cnt Buffer s, folded d_def] a r])
  note put = put0 [unfolded Let_def, folded n_def]
  define d1 where "d1 = put_hsfsc P (go_word (hsfsc d AND NOT (BIT 5)) (cnt - 1) c) d"
  have d1: "k_busy d1 = p_busy P" "hsfsc d1 = h"
    unfolding d1_def put by (simp_all add: Let_def hsfsc_def)
  have "\<exists>u. WaitForSpiCycleComplete ?hw bar True (with_dev d1 s) =
      Some (\<not> cycle_fails P c (unat addr) d, with_dev (settle u d1) s)"
    using wait_done [OF P(1), of "with_dev d1 s" 600000 True] d1 h P(2) s
    by (auto simp: WaitForSpiCycleComplete_def SPI_WAIT_TIME_def SPI_WAIT_PERIOD_def idle_def)
  then obtain u where wait: "WaitForSpiCycleComplete ?hw bar True (with_dev d1 s) =
      Some (\<not> cycle_fails P c (unat addr) d, with_dev (after_cycle P c (unat addr) n h u d) s)"
    unfolding d1_def put after_cycle_def Let_def by blast
  have reads: "t \<in> {FlashCycleRead, FlashCycleReadSfdp, FlashCycleReadJedecId, FlashCycleReadStatus} \<longleftrightarrow> reads_data t"
    by (simp add: reads_data_def)
  have unload: "reads_data t \<Longrightarrow> run_state (unload_data ?hw bar Buffer cnt) x =
      ((), x\<lparr> spi_ram := storen (spi_ram x) Buffer (loadn (k_mem (kdev x)) (bar + 0x10) (unat cnt)) \<rparr>)" for x
    using small run_unload_data by blast
  show ?thesis
    unfolding one_cycle_def reads
    by (rule exI [of _ h], rule exI [of _ u])
      (simp add: cnt load start cc(1) run_bind wait [unfolded d1_def] Let_def unload del: bar_def push_bit_of_1)
qed

section \<open>What a cycle leaves\<close>

lemma rest_eqI:
  assumes "k_io d = k_io (kdev s)" "k_msr d = k_msr (kdev s)" "hide (k_mem d) = hide (k_mem (kdev s))"
  shows "rest (with_dev d s) = rest s"
  using assms by (cases d; cases "kdev s") (simp add: rest_def)

lemma rest_ram [simp]: "rest (s\<lparr> spi_ram := r \<rparr>) = rest s"
  by (simp add: rest_def with_dev_def)

lemma cycle_data_parts:
  "k_io (cycle_data P c a n d) = k_io d" "k_msr (cycle_data P c a n d) = k_msr d"
  "n \<le> 64 \<Longrightarrow> hide (k_mem (cycle_data P c a n d)) = hide (k_mem d)"
  by (simp_all add: cycle_data_def flash_read_def del: bar_def)

lemma prepared_parts:
  "k_io (prepared t addr cnt Buffer s) = k_io (kdev s)" "k_msr (prepared t addr cnt Buffer s) = k_msr (kdev s)"
  "k_flash (prepared t addr cnt Buffer s) = k_flash (kdev s)" "k_cycles (prepared t addr cnt Buffer s) = k_cycles (kdev s)"
  "unat cnt \<le> 64 \<or> \<not> sends_data t \<Longrightarrow> hide (k_mem (prepared t addr cnt Buffer s)) = hide (k_mem (kdev s))"
  by (auto simp: prepared_def Let_def simp del: bar_def)

lemma write_enabled_hide: "hide (k_mem d) = hide (k_mem e) \<Longrightarrow> write_enabled d = write_enabled e"
proof -
  assume "hide (k_mem d) = hide (k_mem e)"
  then have "hide (k_mem d) bc_addr = hide (k_mem e) bc_addr" by simp
  then show ?thesis by (simp add: hide_def write_enabled_def)
qed

lemma cycle_fails_hide: "hide (k_mem d) = hide (k_mem e) \<Longrightarrow> cycle_fails P c a d = cycle_fails P c a e"
  by (drule write_enabled_hide) (simp add: cycle_fails_def)

lemma count_field: "Suc (unat (take_bit 6 (m :: u32))) \<le> 64"
proof -
  have "take_bit 6 (unat m) < 2 ^ 6" by (rule take_bit_nat_less_exp)
  then show ?thesis by (simp add: unsigned_take_bit_eq)
qed

lemma count_field_eq: "0 < unat cnt \<Longrightarrow> unat cnt \<le> 64 \<Longrightarrow> Suc (unat (take_bit 6 (cnt - 1))) = unat cnt" for cnt :: u32
proof -
  assume c: "0 < unat cnt" "unat cnt \<le> 64"
  have "unat (cnt - 1) = unat cnt - 1" using c by (subst Word.unat_sub) (simp_all add: word_le_nat_alt Suc_le_eq)
  then show ?thesis using c by (simp add: unsigned_take_bit_eq take_bit_nat_eq_self)
qed

text \<open>The state between two cycles again, with the same rest; and the flash and the log of cycles.\<close>

lemma after_cycle_state:
  assumes "idle P s" "n \<le> 64" "k_io d = k_io (kdev s)" "k_msr d = k_msr (kdev s)" "hide (k_mem d) = hide (k_mem (kdev s))"
  shows "idle P (with_dev (after_cycle P c a n h u d) s)"
    and "rest (with_dev (after_cycle P c a n h u d) s) = rest s"
    and "k_flash (after_cycle P c a n h u d) = k_flash (effect P c a n d)"
    and "k_cycles (after_cycle P c a n h u d) = k_cycles d @ [(c, a, n)]"
proof -
  have "(w AND 4) AND 3 = 0" for w :: u32 by (simp add: and.assoc)
  then show "idle P (with_dev (after_cycle P c a n h u d) s)"
    using assms(1) by (simp add: idle_def after_cycle_def Let_def settle_def hsfsc_def)
  show "rest (with_dev (after_cycle P c a n h u d) s) = rest s"
    by (rule rest_eqI) (use assms in \<open>simp_all add: after_cycle_def Let_def settle_def effect_def cycle_data_parts del: bar_def\<close>)
  show "k_flash (after_cycle P c a n h u d) = k_flash (effect P c a n d)"
    "k_cycles (after_cycle P c a n h u d) = k_cycles d @ [(c, a, n)]"
    by (simp_all add: after_cycle_def Let_def settle_def)
qed

lemma loadn_addr: "n \<le> 64 \<Longrightarrow> loadn (storew 4 m (bar + 8) (v :: u32)) (bar + 0x10) n = loadn m (bar + 0x10) n"
proof -
  assume le: "n \<le> 64"
  have "apart (bar + 8) 4 (bar + 0x10) n" using le by (simp add: apart_def unat_m1)
  then show ?thesis by (simp add: storew_def loadn_storen_apart)
qed

lemma loadn_settled: "n \<le> 64 \<Longrightarrow>
    loadn (storew 4 (storew 4 m (bar + 4) (v :: u32)) (bar + 4) (w :: u32)) (bar + 0x10) n = loadn m (bar + 0x10) n"
proof -
  assume le: "n \<le> 64"
  have "apart (bar + 4) 4 (bar + 0x10) n" using le by (simp add: apart_def unat_m1)
  then show ?thesis by (simp add: storew_def loadn_storen_apart)
qed

lemma after_read_data:
  assumes "\<not> cycle_fails P 0 a d" "n \<le> 64"
  shows "loadn (k_mem (after_cycle P 0 a n h u d)) (bar + 0x10) n = flash_read a n (k_flash d)"
proof -
  have "length (flash_read a n (k_flash d)) = n" by (simp add: flash_read_def)
  then show ?thesis
    using assms loadn_storen_same [of "flash_read a n (k_flash d)" "k_mem d" "bar + 0x10"]
    by (simp add: after_cycle_def effect_def cycle_data_def settle_def Let_def loadn_settled del: bar_def)
qed

section \<open>The laws of reading, writing and erasing\<close>

definition flash_of :: "spi_chip spi \<Rightarrow> nat \<Rightarrow> u8" where "flash_of s = k_flash (kdev s)"

text \<open>What every cycle keeps: the controller is idle again, and the rest is as before.\<close>

definition kept :: "chip_par \<Rightarrow> spi_chip spi \<Rightarrow> spi_chip spi \<Rightarrow> bool" where
  "kept P s s' \<longleftrightarrow> idle P s' \<and> rest s' = rest s"

lemma flash_read_plain: "a mod 4096 + n \<le> 4096 \<Longrightarrow> flash_read a n f = map f [a..<a + n]"
  by (rule nth_equalityI) (auto simp: flash_read_def page_addr_def mod_add_left_eq [symmetric, of a])

lemma cycle_law:
  fixes Buffer :: u64
  assumes P: "timer_runs P" "p_busy P < 600000" and s: "idle P s"
    and cnt: "data_count (spi_inst s) t addr bc = cnt"
    and cc: "cycle_code t FC cnt = hw_cycle c" "take_bit 4 c = c"
    and a: "unat addr < 2 ^ 27" and small: "sends_data t \<or> reads_data t \<Longrightarrow> unat cnt \<le> 64"
  defines "d \<equiv> prepared t addr cnt Buffer s" and "n \<equiv> Suc (unat (take_bit 6 (cnt - 1)))"
    and "fails \<equiv> cycle_fails P c (unat addr) (kdev s)"
  obtains s' h u where
    "one_cycle (spi_chip_hw P) bar t FC addr bc Buffer s = Some (if fails then None else Some cnt, s')"
    "kept P s s'" "flash_of s' = (if fails then flash_of s else k_flash (cycle_data P c (unat addr) n d))"
    "spi_ram s' = (if fails \<or> \<not> reads_data t then spi_ram s
      else storen (spi_ram s) Buffer (loadn (k_mem (after_cycle P c (unat addr) n h u d)) (bar + 0x10) (unat cnt)))"
    "k_cycles (kdev s') = k_cycles (kdev s) @ [(c, unat addr, n)]"
proof -
  from one_cycle_runs [OF P s cnt cc a small, of Buffer, folded d_def n_def] obtain h u where
    run: "one_cycle (spi_chip_hw P) bar t FC addr bc Buffer s =
      (let s2 = with_dev (after_cycle P c (unat addr) n h u d) s in
      Some (if cycle_fails P c (unat addr) d then (None, s2)
        else (Some cnt, if reads_data t
          then s2\<lparr> spi_ram := storen (spi_ram s) Buffer (loadn (k_mem (kdev s2)) (bar + 0x10) (unat cnt)) \<rparr>
          else s2)))" by blast
  note pp = prepared_parts [where t = t and addr = addr and cnt = cnt and Buffer = Buffer and s = s, folded d_def]
  have hid: "hide (k_mem d) = hide (k_mem (kdev s))" using pp(5) small by blast
  note st = after_cycle_state [OF s count_field [of "cnt - 1", folded n_def] pp(1,2) hid, of c "unat addr" h u]
  have f: "cycle_fails P c (unat addr) d = fails" unfolding fails_def by (rule cycle_fails_hide [OF hid])
  let ?s2 = "with_dev (after_cycle P c (unat addr) n h u d) s"
  let ?s' = "if fails \<or> \<not> reads_data t then ?s2
    else ?s2\<lparr> spi_ram := storen (spi_ram s) Buffer (loadn (k_mem (kdev ?s2)) (bar + 0x10) (unat cnt)) \<rparr>"
  show thesis
  proof (rule that [of ?s' h u])
    show "one_cycle (spi_chip_hw P) bar t FC addr bc Buffer s = Some (if fails then None else Some cnt, ?s')"
      using run f by (simp add: Let_def)
    show "kept P s ?s'" using st(1,2) by (simp add: kept_def idle_def)
    show "flash_of ?s' = (if fails then flash_of s else k_flash (cycle_data P c (unat addr) n d))"
      using st(3) f pp(3) by (simp add: flash_of_def effect_def)
    show "k_cycles (kdev ?s') = k_cycles (kdev s) @ [(c, unat addr, n)]" using st(4) pp(4) by simp
  qed simp
qed

text \<open>Reading fills the buffer, programming takes the bytes of the buffer, erasing needs no buffer.\<close>

lemma read_law:
  assumes P: "timer_runs P" "p_busy P < 600000" and s: "idle P s"
    and cnt: "data_count (spi_inst s) FlashCycleRead addr bc = cnt" "0 < unat cnt" "unat cnt \<le> 64" and a: "unat addr < 2 ^ 27"
  defines "fails \<equiv> cycle_fails P 0 (unat addr) (kdev s)"
  obtains s' where
    "one_cycle (spi_chip_hw P) bar FlashCycleRead (hw_cycle 0) addr bc Buffer s = Some (if fails then None else Some cnt, s')"
    "kept P s s'" "flash_of s' = flash_of s"
    "spi_ram s' = (if fails then spi_ram s else storen (spi_ram s) Buffer (flash_read (unat addr) (unat cnt) (flash_of s)))"
    "k_cycles (kdev s') = k_cycles (kdev s) @ [(0, unat addr, unat cnt)]"
proof -
  let ?d = "prepared FlashCycleRead addr cnt Buffer s"
  have cc: "cycle_code FlashCycleRead (hw_cycle 0) cnt = hw_cycle 0" "take_bit 4 (0 :: u32) = 0" by (simp_all add: cycle_code_def)
  have fl: "k_flash ?d = flash_of s" by (simp add: prepared_parts flash_of_def)
  show thesis
  proof (rule cycle_law [where Buffer = Buffer, OF P s cnt(1) cc a cnt(3), unfolded count_field_eq [OF cnt(2,3)], folded fails_def], goal_cases)
    case (1 s' h u)
    have fails: "fails = cycle_fails P 0 (unat addr) ?d"
      unfolding fails_def using prepared_parts(5) cnt(3) by (intro cycle_fails_hide [symmetric]) blast
    have "\<not> fails \<Longrightarrow> loadn (k_mem (after_cycle P 0 (unat addr) (unat cnt) h u ?d)) (bar + 0x10) (unat cnt) =
        flash_read (unat addr) (unat cnt) (flash_of s)"
      using after_read_data [of P "unat addr" ?d "unat cnt" h u] cnt(3) fl fails by simp
    then show thesis
      using 1 fl by (intro that [of s']) (auto simp: reads_data_def cycle_data_def simp del: bar_def)
  qed
qed

lemma write_law:
  assumes P: "timer_runs P" "p_busy P < 600000" and s: "idle P s"
    and cnt: "data_count (spi_inst s) FlashCycleWrite addr bc = cnt" "0 < unat cnt" "unat cnt \<le> 64" and a: "unat addr < 2 ^ 27"
  defines "fails \<equiv> cycle_fails P 2 (unat addr) (kdev s)"
  obtains s' where
    "one_cycle (spi_chip_hw P) bar FlashCycleWrite (hw_cycle 2) addr bc Buffer s = Some (if fails then None else Some cnt, s')"
    "kept P s s'" "spi_ram s' = spi_ram s"
    "flash_of s' = (if fails then flash_of s else flash_program (unat addr) (loadn (spi_ram s) Buffer (unat cnt)) (flash_of s))"
    "k_cycles (kdev s') = k_cycles (kdev s) @ [(2, unat addr, unat cnt)]"
proof -
  let ?d = "prepared FlashCycleWrite addr cnt Buffer s"
  have cc: "cycle_code FlashCycleWrite (hw_cycle 2) cnt = hw_cycle 2" "take_bit 4 (2 :: u32) = 2" by (simp_all add: cycle_code_def)
  have data: "loadn (k_mem ?d) (bar + 0x10) (unat cnt) = loadn (spi_ram s) Buffer (unat cnt)"
    using cnt(3) loadn_storen_same [of "loadn (spi_ram s) Buffer (unat cnt)" "k_mem (kdev s)" "bar + 0x10"]
    by (simp add: prepared_def sends_data_def loadn_addr Let_def del: bar_def)
  have fl: "k_flash ?d = flash_of s" by (simp add: prepared_parts flash_of_def)
  show thesis
    by (rule cycle_law [where Buffer = Buffer, OF P s cnt(1) cc a cnt(3), unfolded count_field_eq [OF cnt(2,3)], folded fails_def],
        rule that) (auto simp: reads_data_def cycle_data_def data fl simp del: bar_def)
qed

lemma erase_law:
  assumes P: "timer_runs P" "p_busy P < 600000" and s: "idle P s"
    and cnt: "data_count (spi_inst s) FlashCycleErase addr bc = cnt" and c: "(cnt, c) \<in> {(0x1000, 3), (0x10000, 4)}"
    and a: "unat addr < 2 ^ 27"
  defines "fails \<equiv> cycle_fails P c (unat addr) (kdev s)"
  obtains s' where
    "one_cycle (spi_chip_hw P) bar FlashCycleErase FC addr bc Buffer s = Some (if fails then None else Some cnt, s')"
    "kept P s s'" "spi_ram s' = spi_ram s"
    "flash_of s' = (if fails then flash_of s else flash_erase (unat cnt) (unat addr) (flash_of s))"
    "k_cycles (kdev s') = k_cycles (kdev s) @ [(c, unat addr, 64)]"
proof -
  let ?d = "prepared FlashCycleErase addr cnt Buffer s"
  have cc: "cycle_code FlashCycleErase FC cnt = hw_cycle c" "take_bit 4 c = c"
    using c by (auto simp: cycle_code_def regs)
  have n: "Suc (unat (take_bit 6 (cnt - 1))) = 64" using c by auto
  have fl: "k_flash ?d = flash_of s" by (simp add: prepared_parts flash_of_def)
  have small: "sends_data FlashCycleErase \<or> reads_data FlashCycleErase \<Longrightarrow> unat cnt \<le> 64"
    by (simp add: sends_data_def reads_data_def)
  show thesis
    by (rule cycle_law [where Buffer = Buffer, OF P s cnt cc a small, unfolded n, folded fails_def], assumption,
        rule that) (use c in \<open>auto simp: reads_data_def cycle_data_def prepared_parts flash_of_def simp del: bar_def\<close>)
qed

end
