(* ===== verification/SpiTransfer.thy ===== *)
theory SpiTransfer
  imports SpiCycle
begin

text \<open>
  Transfers: the loop of \<open>SendSpiCmd\<close> over any controller that runs single cycles as the interface
  \<open>flash_controller\<close> says.  The cycles that the loop makes never leave a page of 256 bytes nor the
  range asked for; together they read, program or erase exactly this range.
\<close>

section \<open>How much one cycle transfers\<close>

lemma and_not_mask_nat:
  fixes x :: u32
  shows "unat (x AND NOT (mask k)) = unat x div 2 ^ k * 2 ^ k"
proof -
  have "x AND NOT (mask k) = push_bit k (drop_bit k x)"
    by (rule bit_word_eqI) (auto simp: bit_simps)
  moreover have "unat x div 2 ^ k * 2 ^ k < 2 ^ 32"
    by (rule le_less_trans [OF div_times_less_eq_dividend]) (use unsigned_less [where ?'a = nat and w = x] in simp)
  moreover have "take_bit 32 (unat x) = unat x" 
    using unsigned_less [where ?'a = nat and w = x] by (simp add: take_bit_nat_eq_self)
  moreover have "unat (push_bit k (drop_bit k x)) = take_bit 32 (take_bit 32 (unat x) div 2 ^ k * 2 ^ k)"
    by (subst unsigned_push_bit_eq, subst unsigned_drop_bit_eq, simp only: push_bit_eq_mult drop_bit_eq_div) simp
  ultimately show ?thesis by (simp only: take_bit_nat_eq_self)
qed

lemma page_up_nat:
  assumes "unat a < 2 ^ 27"
  shows "unat (page_up a) = (unat a div 256 + 1) * 256"
proof -
  have "page_up a = (a + 256) AND NOT (mask 8)" by (simp add: page_up_def mask_numeral)
  moreover have "unat (a + 256) = unat a + 256" using assms by (simp add: unat_word_ariths)
  ultimately show ?thesis by (simp add: and_not_mask_nat del: mult_Suc)
qed

lemma trim_nat:
  assumes a: "unat a < 2 ^ 27" "unat a + unat bc \<le> 2 ^ 27"
  defines "m \<equiv> min (unat bc) (256 - unat a mod 256)"
  shows "unat (trim_count a bc) = (if m \<ge> 64 then 64 else if m div 8 \<noteq> 0 then m div 8 * 8 else m)"
proof -
  let ?c = "if a + bc > page_up a then page_up a - a else bc"
  have up: "unat (page_up a) = (unat a div 256 + 1) * 256" by (rule page_up_nat [OF a(1)])
  have sum: "unat (a + bc) = unat a + unat bc" using a(2) by (simp add: unat_word_ariths)
  define q r where qr: "q = unat a div 256" "r = unat a mod 256"
  have split: "unat a = q * 256 + r" "r < 256" unfolding qr by simp_all
  note up' = up [folded qr]
  have "unat ?c = m"
  proof (cases "a + bc > page_up a")
    case True
    then have "256 - r < unat bc" using up' sum split by (simp only: word_less_nat_alt) arith
    moreover have "unat (page_up a - a) = unat (page_up a) - unat a"
      using up' split by (subst Word.unat_sub) (simp_all only: word_le_nat_alt, arith)
    then have "unat (page_up a - a) = 256 - r" using up' split by simp
    ultimately show ?thesis using True by (simp add: m_def qr)
  next
    case False
    then have "unat bc \<le> 256 - r" using up' sum split by (simp only: word_less_nat_alt not_less) arith
    then show ?thesis using False by (simp add: m_def qr)
  qed
  moreover have "unat (?c AND NOT 0x07) = unat ?c div 8 * 8" using and_not_mask_nat [of ?c 3] by (simp add: mask_numeral)
  moreover have "?c AND NOT 0x07 = 0 \<longleftrightarrow> unat ?c div 8 = 0"
  proof -
    have "?c AND NOT 0x07 = 0 \<longleftrightarrow> unat (?c AND NOT 0x07) = 0" by (metis unat_eq_0)
    then show ?thesis using calculation(2) by simp
  qed
  moreover have "64 \<le> ?c \<longleftrightarrow> 64 \<le> unat ?c" by (simp add: word_le_nat_alt)
  ultimately show ?thesis
    unfolding trim_count_def Let_def by (simp only: if_distrib [of unat]) simp
qed

text \<open>A count that the controller takes: at most 8, or a multiple of 8 up to 64.\<close>

definition valid_count :: "nat \<Rightarrow> bool" where
  "valid_count n \<longleftrightarrow> 0 < n \<and> n \<le> 64 \<and> (n < 8 \<or> 8 dvd n)"

lemma trim_count_ok:
  assumes "unat a + unat bc \<le> 2 ^ 27" "0 < unat bc"
  defines "n \<equiv> unat (trim_count a bc)"
  shows "valid_count n" "n \<le> unat bc" "unat a mod 256 + n \<le> 256" "unat a mod 4096 + n \<le> 4096"
proof -
  have a: "unat a < 2 ^ 27" using assms by linarith
  define m where "m = min (unat bc) (256 - unat a mod 256)"
  have n: "n = (if m \<ge> 64 then 64 else if m div 8 \<noteq> 0 then m div 8 * 8 else m)"
    unfolding n_def m_def by (rule trim_nat [OF a assms(1)])
  have m: "0 < m" using assms(2) by (simp add: m_def)
  have m8: "m div 8 * 8 \<le> m" by (rule div_times_less_eq_dividend)
  have small: "m div 8 = 0 \<Longrightarrow> m < 8" by (simp add: div_eq_0_iff)
  consider "m \<ge> 64" "n = 64" | "m < 64" "m div 8 \<noteq> 0" "n = m div 8 * 8" | "m div 8 = 0" "n = m" "m < 8"
    using n small by (metis not_le)
  then show "valid_count n"
    by cases (use m m8 in \<open>simp_all add: valid_count_def\<close>)
  have le: "n \<le> m" using n m8 by (simp split: if_splits)
  then show "n \<le> unat bc" by (simp add: m_def)
  have room: "r < 256 \<Longrightarrow> n \<le> 256 - r \<Longrightarrow> r + n \<le> 256" for r by arith
  show p: "unat a mod 256 + n \<le> 256" by (rule room) (use le in \<open>simp_all add: m_def\<close>)
  define q r where qr: "q = unat a div 256 mod 16" "r = unat a mod 256"
  have "unat a mod (256 * 16) = 256 * q + r" unfolding qr by (rule mod_mult2_eq)
  then have "unat a mod 4096 = 256 * q + r" by simp
  moreover have "q < 16" by (simp add: qr)
  moreover have "r + n \<le> 256" using p by (simp add: qr)
  ultimately show "unat a mod 4096 + n \<le> 4096" by simp
qed

text \<open>What an erase of a range is to run: a 64 KB block where its address and the end of the range are
  multiples of 64 KB and the flash component that holds it erases such blocks, else a 4 KB block.  The
  capabilities are those read from the component at the address.\<close>

definition erases_64KB :: "SPI_INSTANCE \<Rightarrow> nat \<Rightarrow> bool" where
  "erases_64KB i x \<longleftrightarrow> bit (if x < unat (Component1StartAddr i) then SfdpVscc0Value i else SfdpVscc1Value i) 29"

definition erase_kind :: "(nat \<Rightarrow> bool) \<Rightarrow> nat \<Rightarrow> nat \<Rightarrow> u32" where
  "erase_kind big e x = (if 65536 dvd x \<and> 65536 dvd e \<and> big x then 4 else 3)"

definition erase_size :: "u32 \<Rightarrow> nat" where
  "erase_size c = (if c = 4 then 65536 else 4096)"

function erase_plan :: "(nat \<Rightarrow> bool) \<Rightarrow> nat \<Rightarrow> nat \<Rightarrow> (u32 \<times> nat \<times> nat) list" where
  "erase_plan big e x =
     (if x < e then (erase_kind big e x, x, 64) # erase_plan big e (x + erase_size (erase_kind big e x)) else [])"
  by pat_completeness auto
termination
  by (relation "measure (\<lambda>(_, e, x). e - x)") (auto simp: erase_size_def)

declare erase_plan.simps [simp del]

lemma erase_plan_next: "x < e \<Longrightarrow> erase_plan big e x = (erase_kind big e x, x, 64) # erase_plan big e (x + erase_size (erase_kind big e x))"
  by (subst erase_plan.simps) simp

lemma erase_plan_done: "erase_plan big e e = []"
  by (subst erase_plan.simps) simp

text \<open>The size that the code chooses is that of the plan.\<close>

lemma erase_count_kind:
  assumes "0 < unat bc"
  shows "erase_count i a bc = (if erase_kind (erases_64KB i) (unat a + unat bc) (unat a) = 4 then 0x10000 else 0x1000)"
proof -
  have zero: "x = 0 \<longleftrightarrow> unat x = 0" for x :: u32 by (metis unat_eq_0)
  have m: "a mod 0x10000 = 0 \<longleftrightarrow> 65536 dvd unat a" "bc mod 0x10000 = 0 \<longleftrightarrow> 65536 dvd unat bc"
    "bc div 0x10000 = 0 \<longleftrightarrow> unat bc div 65536 = 0"
    unfolding zero [of "_ mod _"] zero [of "_ div _"] unat_mod unat_div dvd_eq_mod_eq_0 by simp_all
  have big: "65536 dvd unat bc \<Longrightarrow> unat bc div 65536 \<noteq> 0" using assms by (auto simp: dvd_def)
  have "65536 dvd unat a \<Longrightarrow> 65536 dvd unat a + unat bc \<longleftrightarrow> 65536 dvd unat bc" by (rule dvd_add_right_iff)
  then have fit: "(bc div 0x10000 \<noteq> 0 \<and> bc mod 0x10000 = 0 \<and> a mod 0x10000 = 0) \<longleftrightarrow> 65536 dvd unat a \<and> 65536 dvd unat a + unat bc"
    unfolding m using big by blast
  have cap: "erases_64KB i (unat a) \<longleftrightarrow>
      (if a < Component1StartAddr i then SfdpVscc0Value i AND BIT 29 \<noteq> 0 else SfdpVscc1Value i AND BIT 29 \<noteq> 0)"
    unfolding erases_64KB_def word_less_nat_alt and_bit by simp
  show ?thesis
    unfolding erase_count_def SIZE_64KB_def SIZE_4KB_def B_PCH_SPI_SFDPX_VSCCX_EO_64K_def fit erase_kind_def cap by simp
qed

lemma erase_count_ok:
  assumes al: "4096 dvd unat a" "4096 dvd unat bc" and bc: "0 < unat bc"
  obtains c where "(erase_count i a bc, c) \<in> {(0x1000, 3), (0x10000, 4 :: u32)}"
    "unat (erase_count i a bc) dvd unat a" "unat (erase_count i a bc) \<le> unat bc"
    "c = erase_kind (erases_64KB i) (unat a + unat bc) (unat a)" "unat (erase_count i a bc) = erase_size c"
proof (cases "erase_kind (erases_64KB i) (unat a + unat bc) (unat a) = 4")
  case True
  then have c: "65536 dvd unat a" "65536 dvd unat a + unat bc" by (auto simp: erase_kind_def split: if_splits)
  then have "65536 dvd unat bc" using dvd_add_right_iff by blast
  then have "65536 \<le> unat bc" using bc by (rule dvd_imp_le)
  moreover have "erase_count i a bc = 0x10000" using erase_count_kind [OF bc, of i a] unfolding True by simp
  ultimately show thesis using c(1) True by (intro that [of 4]) (simp_all add: erase_size_def)
next
  case False
  then have k: "erase_kind (erases_64KB i) (unat a + unat bc) (unat a) = 3" by (simp add: erase_kind_def split: if_splits)
  moreover have "0x1000 \<le> unat bc" using al(2) bc by (auto dest: dvd_imp_le)
  moreover have "erase_count i a bc = 0x1000" using erase_count_kind [OF bc, of i a] unfolding k by simp
  ultimately show thesis using al by (intro that [of 3]) (simp_all add: erase_size_def)
qed

section \<open>The loop\<close>

lemma bind_Some: "Option.bind (Some x) f = f x"
  by simp

text \<open>A rule for the loop: an assertion \<open>I\<close> that each cycle keeps, or after which the loop ends well.\<close>

lemma spi_cycles_rule:
  assumes step: "\<And>a bc b s. I a bc b s \<Longrightarrow> 0 < unat bc \<Longrightarrow>
      \<exists>n s'. one_cycle io base t FC a bc b s = Some (n, s') \<and>
        (case n of None \<Rightarrow> Q EFI_DEVICE_ERROR s'
         | Some cnt \<Rightarrow> 0 < unat cnt \<and> unat cnt \<le> unat bc \<and>
             (if cnt = bc then Q EFI_SUCCESS s' else I (a + cnt) (bc - cnt) (b + ucast cnt) s'))"
  shows "I a bc b s \<Longrightarrow> 0 < unat bc \<Longrightarrow> \<exists>st s'. spi_cycles io base t FC a bc b s = Some (st, s') \<and> Q st s'"
proof (induction "unat bc" arbitrary: a bc b s rule: less_induct)
  case less
  from step [OF less.prems] obtain n s1 where one: "one_cycle io base t FC a bc b s = Some (n, s1)"
    and n: "case n of None \<Rightarrow> Q EFI_DEVICE_ERROR s1
         | Some cnt \<Rightarrow> 0 < unat cnt \<and> unat cnt \<le> unat bc \<and>
             (if cnt = bc then Q EFI_SUCCESS s1 else I (a + cnt) (bc - cnt) (b + ucast cnt) s1)" by blast
  show ?case
  proof (cases n)
    case None
    then show ?thesis using n by (subst spi_cycles.simps) (simp add: one)
  next
    case (Some cnt)
    show ?thesis
    proof (cases "cnt = bc")
      case True
      then show ?thesis using n Some by (subst spi_cycles.simps) (simp add: one)
    next
      case False
      have sub: "unat (bc - cnt) = unat bc - unat cnt" using n Some by (subst Word.unat_sub) (simp_all add: word_le_nat_alt)
      have ne: "unat cnt \<noteq> unat bc" using False word_unat_eq_iff by blast
      then have "unat (bc - cnt) < unat bc" "0 < unat (bc - cnt)" using sub n Some by auto
      moreover have "I (a + cnt) (bc - cnt) (b + ucast cnt) s1" using n Some False by simp
      moreover have "spi_cycles io base t FC a bc b s = spi_cycles io base t FC (a + cnt) (bc - cnt) (b + ucast cnt) s1"
        using False by (subst spi_cycles.simps) (simp add: one Some Let_def word_gt_0)
      ultimately show ?thesis using less.hyps by simp
    qed
  qed
qed

lemma storen_map_append:
  assumes "k + n < 2 ^ 64"
  shows "storen (storen m b (map f [x..<x + k])) (b + of_nat k) (map f [x + k..<x + k + n]) = storen m b (map f [x..<x + k + n])"
proof -
  have "map f [x..<x + k + n] = map f [x..<x + k] @ map f [x + k..<x + k + n]"
    by (simp only: upt_add_eq_append [of x "x + k" n] le_add1 map_append)
  then show ?thesis using storen_append [of "map f [x..<x + k]" "map f [x + k..<x + k + n]" m b] assms by simp
qed

text \<open>How far a transfer has come: \<open>k\<close> of the bytes are done.\<close>

definition progress :: "nat \<Rightarrow> nat \<Rightarrow> u64 \<Rightarrow> nat \<Rightarrow> u32 \<Rightarrow> u32 \<Rightarrow> u64 \<Rightarrow> bool" where
  "progress a n b k a' bc' b' \<longleftrightarrow> k < n \<and> unat a' = a + k \<and> unat bc' = n - k \<and> b' = b + of_nat k"

lemma progress_start: "0 < unat bc \<Longrightarrow> progress (unat a) (unat bc) b 0 a bc b"
  by (simp add: progress_def)

lemma progressD:
  assumes "progress a n b k a' bc' b'" "a + n \<le> 2 ^ 27"
  shows "unat a' < 2 ^ 27" "unat a' + unat bc' \<le> 2 ^ 27" "unat a' = a + k" "b' = b + of_nat k" "k < n" "unat bc' = n - k"
  using assms by (auto simp: progress_def)

lemma progress_next:
  assumes "progress a n b k a' bc' b'" "a + n \<le> 2 ^ 27" "0 < unat cnt" "unat cnt \<le> unat bc'"
  shows "if cnt = bc' then k + unat cnt = n else progress a n b (k + unat cnt) (a' + cnt) (bc' - cnt) (b' + ucast cnt)"
proof (cases "cnt = bc'")
  case False
  note p = assms(1) [unfolded progress_def]
  have "unat (bc' - cnt) = unat bc' - unat cnt" using assms(4) by (subst Word.unat_sub) (simp_all add: word_le_nat_alt)
  moreover have "unat (a' + cnt) = unat a' + unat cnt" using p assms by (simp add: unat_word_ariths)
  moreover have "(ucast cnt :: u64) = of_nat (unat cnt)" by (simp only: of_nat_unat)
  moreover have "unat cnt \<noteq> unat bc'" using False word_unat_eq_iff by blast
  ultimately show ?thesis using p assms False by (simp add: progress_def)
qed (use assms in \<open>simp add: progress_def\<close>)

lemma storen_nil [simp]: "storen m a [] = m"
  by (simp add: storen_def)

text \<open>The rule for a transfer: \<open>R k\<close> holds when \<open>k\<close> bytes are done, \<open>E k\<close> when the cycle after them failed.\<close>

lemma transfer_rule:
  assumes fit: "unat a + unat bc \<le> 2 ^ 27" "0 < unat bc"
    and step: "\<And>k a' bc' b' s1. progress (unat a) (unat bc) b k a' bc' b' \<Longrightarrow> 0 < unat bc' \<Longrightarrow> R k s1 \<Longrightarrow>
      \<exists>n s2. one_cycle io base t FC a' bc' b' s1 = Some (n, s2) \<and>
        (case n of None \<Rightarrow> E k s2
         | Some cnt \<Rightarrow> 0 < unat cnt \<and> unat cnt \<le> unat bc' \<and> R (k + unat cnt) s2)"
    and start: "R 0 s"
  obtains s' where "spi_cycles io base t FC a bc b s = Some (EFI_SUCCESS, s')" "R (unat bc) s'"
  | s' k where "spi_cycles io base t FC a bc b s = Some (EFI_DEVICE_ERROR, s')" "k < unat bc" "E k s'"
proof -
  let ?I = "\<lambda>a' bc' b' s1. \<exists>k. progress (unat a) (unat bc) b k a' bc' b' \<and> R k s1"
  let ?Q = "\<lambda>st s'. st = EFI_SUCCESS \<and> R (unat bc) s' \<or> st = EFI_DEVICE_ERROR \<and> (\<exists>k < unat bc. E k s')"
  have main: "\<exists>n s2. one_cycle io base t FC a' bc' b' s1 = Some (n, s2) \<and>
      (case n of None \<Rightarrow> ?Q EFI_DEVICE_ERROR s2
       | Some cnt \<Rightarrow> 0 < unat cnt \<and> unat cnt \<le> unat bc' \<and>
           (if cnt = bc' then ?Q EFI_SUCCESS s2 else ?I (a' + cnt) (bc' - cnt) (b' + ucast cnt) s2))"
    if I: "?I a' bc' b' s1" and bc': "0 < unat bc'" for a' bc' b' s1
  proof -
    from I obtain k where k: "progress (unat a) (unat bc) b k a' bc' b'" "R k s1" by blast
    from step [OF k(1) bc' k(2)] obtain n s2 where
      one: "one_cycle io base t FC a' bc' b' s1 = Some (n, s2)" and
      n: "case n of None \<Rightarrow> E k s2 | Some cnt \<Rightarrow> 0 < unat cnt \<and> unat cnt \<le> unat bc' \<and> R (k + unat cnt) s2" by blast
    show ?thesis
    proof (cases n)
      case None
      then show ?thesis using one n progressD(5) [OF k(1) fit(1)] by auto
    next
      case (Some cnt)
      with n have c: "0 < unat cnt" "unat cnt \<le> unat bc'" "R (k + unat cnt) s2" by auto
      show ?thesis
      proof (cases "cnt = bc'")
        case True
        then have "k + unat cnt = unat bc" using progress_next [OF k(1) fit(1) c(1,2)] by simp
        then show ?thesis using one Some c True by simp
      next
        case False
        then have "progress (unat a) (unat bc) b (k + unat cnt) (a' + cnt) (bc' - cnt) (b' + ucast cnt)"
          using progress_next [OF k(1) fit(1) c(1,2)] by simp
        then show ?thesis using one Some c False by auto
      qed
    qed
  qed
  have "?I a bc b s" using progress_start [OF fit(2)] start by blast
  from spi_cycles_rule [where I = ?I and Q = ?Q, OF main this fit(2)] obtain st s' where
    "spi_cycles io base t FC a bc b s = Some (st, s')" "?Q st s'" by blast
  then show thesis using that by blast
qed

section \<open>The interface of a controller\<close>

text \<open>Bytes from \<open>a\<close> programmed, or set by erasing.\<close>

definition programmed :: "nat \<Rightarrow> u8 list \<Rightarrow> (nat \<Rightarrow> u8) \<Rightarrow> nat \<Rightarrow> u8" where
  "programmed a bs f = (\<lambda>x. if a \<le> x \<and> x < a + length bs then f x AND bs ! (x - a) else f x)"

definition erased :: "nat \<Rightarrow> nat \<Rightarrow> (nat \<Rightarrow> u8) \<Rightarrow> nat \<Rightarrow> u8" where
  "erased a n f = (\<lambda>x. if a \<le> x \<and> x < a + n then 0xFF else f x)"

lemma programmed_append: "programmed (a + length xs) ys (programmed a xs f) = programmed a (xs @ ys) f"
  by (rule ext) (auto simp: programmed_def nth_append)

lemma programmed_none: "programmed a (loadn r b 0) f = f"
  by (rule ext) (auto simp: programmed_def)

lemma erased_none: "erased a 0 f = f"
  by (rule ext) (auto simp: erased_def)

lemma erased_append: "erased (a + m) n (erased a m f) = erased a (m + n) f"
  by (rule ext) (auto simp: erased_def)

text \<open>The contract: single cycles that stay in their page read, program or erase, unless the controller
  refuses the cycle at this address; then they do nothing.  \<open>rest\<close> is what cycles leave alone.\<close>

locale flash_controller =
  fixes io :: "'s spi_hw"
    and base :: u64
    and ready :: "'s spi \<Rightarrow> bool"
    and rest :: "'s spi \<Rightarrow> 'r"
    and flash :: "'s spi \<Rightarrow> nat \<Rightarrow> u8"
    and log :: "'s spi \<Rightarrow> (u32 \<times> nat \<times> nat) list"
    and refuses :: "'s spi \<Rightarrow> u32 \<Rightarrow> nat \<Rightarrow> bool"
  assumes rest_inst: "rest s' = rest s \<Longrightarrow> spi_inst s' = spi_inst s"
    and rest_refuses: "rest s' = rest s \<Longrightarrow> refuses s' = refuses s"
    and read_cycle: "ready s \<Longrightarrow> data_count (spi_inst s) FlashCycleRead a bc = cnt \<Longrightarrow> valid_count (unat cnt) \<Longrightarrow>
      unat a < 2 ^ 27 \<Longrightarrow> unat a mod 4096 + unat cnt \<le> 4096 \<Longrightarrow>
      \<exists>s'. one_cycle io base FlashCycleRead (hw_cycle 0) a bc b s =
          Some (if refuses s 0 (unat a) then None else Some cnt, s') \<and>
        ready s' \<and> rest s' = rest s \<and> flash s' = flash s \<and>
        spi_ram s' = (if refuses s 0 (unat a) then spi_ram s
          else storen (spi_ram s) b (map (flash s) [unat a..<unat a + unat cnt]))"
    and write_cycle: "ready s \<Longrightarrow> data_count (spi_inst s) FlashCycleWrite a bc = cnt \<Longrightarrow> valid_count (unat cnt) \<Longrightarrow>
      unat a < 2 ^ 27 \<Longrightarrow> unat a mod 256 + unat cnt \<le> 256 \<Longrightarrow>
      \<exists>s'. one_cycle io base FlashCycleWrite (hw_cycle 2) a bc b s =
          Some (if refuses s 2 (unat a) then None else Some cnt, s') \<and>
        ready s' \<and> rest s' = rest s \<and> spi_ram s' = spi_ram s \<and>
        flash s' = (if refuses s 2 (unat a) then flash s
          else programmed (unat a) (loadn (spi_ram s) b (unat cnt)) (flash s))"
    and erase_cycle: "ready s \<Longrightarrow> data_count (spi_inst s) FlashCycleErase a bc = cnt \<Longrightarrow>
      (cnt, c) \<in> {(0x1000, 3), (0x10000, 4)} \<Longrightarrow> unat a < 2 ^ 27 \<Longrightarrow> unat cnt dvd unat a \<Longrightarrow>
      \<exists>s'. one_cycle io base FlashCycleErase FC a bc b s =
          Some (if refuses s c (unat a) then None else Some cnt, s') \<and>
        ready s' \<and> rest s' = rest s \<and> spi_ram s' = spi_ram s \<and>
        flash s' = (if refuses s c (unat a) then flash s else erased (unat a) (unat cnt) (flash s)) \<and>
        log s' = log s @ [(c, unat a, 64)]"
begin

text \<open>Reading: the buffer gets the bytes of the flash, all of them or those before the cycle that fails.\<close>

lemma read_transfer:
  assumes s: "ready s" and fit: "unat a + unat bc \<le> 2 ^ 27" "0 < unat bc"
  obtains st s' k where "spi_cycles io base FlashCycleRead (hw_cycle 0) a bc b s = Some (st, s')"
    and "ready s'" "rest s' = rest s" "flash s' = flash s"
    and "spi_ram s' = storen (spi_ram s) b (map (flash s) [unat a..<unat a + k])"
    and "st = EFI_SUCCESS \<and> k = unat bc \<or> st = EFI_DEVICE_ERROR \<and> k < unat bc \<and> refuses s 0 (unat a + k)"
proof -
  define R where "R k s' \<longleftrightarrow> ready s' \<and> rest s' = rest s \<and> flash s' = flash s \<and>
    spi_ram s' = storen (spi_ram s) b (map (flash s) [unat a..<unat a + k])" for k s'
  define E where "E k s' \<longleftrightarrow> R k s' \<and> refuses s 0 (unat a + k)" for k s'
  have step: "\<exists>n s2. one_cycle io base FlashCycleRead (hw_cycle 0) a' bc' b' s1 = Some (n, s2) \<and>
      (case n of None \<Rightarrow> E k s2 | Some cnt \<Rightarrow> 0 < unat cnt \<and> unat cnt \<le> unat bc' \<and> R (k + unat cnt) s2)"
    if k: "progress (unat a) (unat bc) b k a' bc' b'" "0 < unat bc'" "R k s1" for k a' bc' b' s1
  proof -
    note pr = progressD [OF k(1) fit(1)]
    let ?cnt = "trim_count a' bc'"
    note cnt = trim_count_ok [OF pr(2) k(2)]
    have dc: "data_count (spi_inst s1) FlashCycleRead a' bc' = ?cnt" by (simp add: data_count_def)
    have ref: "refuses s1 = refuses s" by (rule rest_refuses) (use k(3) in \<open>simp add: R_def\<close>)
    from read_cycle [OF _ dc cnt(1) pr(1) cnt(4), of b'] k(3) obtain s2 where
      s2: "one_cycle io base FlashCycleRead (hw_cycle 0) a' bc' b' s1 = Some (if refuses s 0 (unat a') then None else Some ?cnt, s2)"
        "ready s2" "rest s2 = rest s" "flash s2 = flash s"
        "spi_ram s2 = (if refuses s 0 (unat a') then spi_ram s1
          else storen (spi_ram s1) b' (map (flash s) [unat a'..<unat a' + unat ?cnt]))"
      unfolding ref R_def by auto
    have "refuses s 0 (unat a') \<Longrightarrow> E k s2" using s2 k(3) pr by (simp add: E_def R_def)
    moreover have "R (k + unat ?cnt) s2" if "\<not> refuses s 0 (unat a')"
      using s2 k(3) that pr cnt(2) fit storen_map_append [of k "unat ?cnt" "spi_ram s" b "flash s" "unat a"]
      by (simp add: R_def add.assoc)
    ultimately show ?thesis using s2(1) cnt(1,2) by (auto simp: valid_count_def)
  qed
  have start: "R 0 s" by (simp add: R_def s)
  show thesis
  proof (rule transfer_rule [where R = R and E = E and b = b, OF fit step start])
    fix s' :: "'s spi"
    assume "spi_cycles io base FlashCycleRead (hw_cycle 0) a bc b s = Some (EFI_SUCCESS, s')" "R (unat bc) s'"
    then show thesis by (intro that [of EFI_SUCCESS s' "unat bc"]) (simp_all add: R_def)
  next
    fix s' :: "'s spi" and k
    assume "spi_cycles io base FlashCycleRead (hw_cycle 0) a bc b s = Some (EFI_DEVICE_ERROR, s')" "k < unat bc" "E k s'"
    then show thesis by (intro that [of EFI_DEVICE_ERROR s' k]) (simp_all add: E_def R_def)
  qed
qed

text \<open>Writing: the bytes of the buffer are programmed.\<close>

lemma write_transfer:
  assumes s: "ready s" and fit: "unat a + unat bc \<le> 2 ^ 27" "0 < unat bc"
  obtains st s' k where "spi_cycles io base FlashCycleWrite (hw_cycle 2) a bc b s = Some (st, s')"
    and "ready s'" "rest s' = rest s" "spi_ram s' = spi_ram s"
    and "flash s' = programmed (unat a) (loadn (spi_ram s) b k) (flash s)"
    and "st = EFI_SUCCESS \<and> k = unat bc \<or> st = EFI_DEVICE_ERROR \<and> k < unat bc \<and> refuses s 2 (unat a + k)"
proof -
  define R where "R k s' \<longleftrightarrow> ready s' \<and> rest s' = rest s \<and> spi_ram s' = spi_ram s \<and>
    flash s' = programmed (unat a) (loadn (spi_ram s) b k) (flash s)" for k s'
  define E where "E k s' \<longleftrightarrow> R k s' \<and> refuses s 2 (unat a + k)" for k s'
  have step: "\<exists>n s2. one_cycle io base FlashCycleWrite (hw_cycle 2) a' bc' b' s1 = Some (n, s2) \<and>
      (case n of None \<Rightarrow> E k s2 | Some cnt \<Rightarrow> 0 < unat cnt \<and> unat cnt \<le> unat bc' \<and> R (k + unat cnt) s2)"
    if k: "progress (unat a) (unat bc) b k a' bc' b'" "0 < unat bc'" "R k s1" for k a' bc' b' s1
  proof -
    note pr = progressD [OF k(1) fit(1)]
    let ?cnt = "trim_count a' bc'"
    note cnt = trim_count_ok [OF pr(2) k(2)]
    have dc: "data_count (spi_inst s1) FlashCycleWrite a' bc' = ?cnt" by (simp add: data_count_def)
    have ref: "refuses s1 = refuses s" by (rule rest_refuses) (use k(3) in \<open>simp add: R_def\<close>)
    from write_cycle [OF _ dc cnt(1) pr(1) cnt(3), of b'] k(3) obtain s2 where
      s2: "one_cycle io base FlashCycleWrite (hw_cycle 2) a' bc' b' s1 = Some (if refuses s 2 (unat a') then None else Some ?cnt, s2)"
        "ready s2" "rest s2 = rest s" "spi_ram s2 = spi_ram s"
        "flash s2 = (if refuses s 2 (unat a') then flash s1
          else programmed (unat a') (loadn (spi_ram s) b' (unat ?cnt)) (flash s1))"
      unfolding ref R_def by auto
    have "refuses s 2 (unat a') \<Longrightarrow> E k s2" using s2 k(3) pr by (simp add: E_def R_def)
    moreover have "R (k + unat ?cnt) s2" if "\<not> refuses s 2 (unat a')"
      using s2 k(3) that pr programmed_append [of "unat a" "loadn (spi_ram s) b k"]
      by (simp add: R_def loadn_append)
    ultimately show ?thesis using s2(1) cnt(1,2) by (auto simp: valid_count_def)
  qed
  have start: "R 0 s" by (simp add: R_def s programmed_none)
  show thesis
  proof (rule transfer_rule [where R = R and E = E and b = b, OF fit step start])
    fix s' :: "'s spi"
    assume "spi_cycles io base FlashCycleWrite (hw_cycle 2) a bc b s = Some (EFI_SUCCESS, s')" "R (unat bc) s'"
    then show thesis by (intro that [of EFI_SUCCESS s' "unat bc"]) (simp_all add: R_def)
  next
    fix s' :: "'s spi" and k
    assume "spi_cycles io base FlashCycleWrite (hw_cycle 2) a bc b s = Some (EFI_DEVICE_ERROR, s')" "k < unat bc" "E k s'"
    then show thesis by (intro that [of EFI_DEVICE_ERROR s' k]) (simp_all add: E_def R_def)
  qed
qed

text \<open>Erasing: the cycles of the plan, all of them or those up to the one that fails.\<close>

lemma erase_transfer:
  assumes s: "ready s" and fit: "unat a + unat bc \<le> 2 ^ 27" "0 < unat bc"
    and aligned: "4096 dvd unat a" "4096 dvd unat bc"
  defines "plan \<equiv> erase_plan (erases_64KB (spi_inst s)) (unat a + unat bc) (unat a)"
  obtains st s' k m where "spi_cycles io base FlashCycleErase FC a bc b s = Some (st, s')"
    and "ready s'" "rest s' = rest s" "spi_ram s' = spi_ram s"
    and "flash s' = erased (unat a) k (flash s)" "log s' = log s @ take m plan"
    and "st = EFI_SUCCESS \<and> k = unat bc \<and> m = length plan \<or>
      st = EFI_DEVICE_ERROR \<and> k < unat bc \<and> 0 < m \<and> m \<le> length plan \<and>
        (\<exists>c. plan ! (m - 1) = (c, unat a + k, 64) \<and> refuses s c (unat a + k))"
proof -
  let ?big = "erases_64KB (spi_inst s)" and ?e = "unat a + unat bc"
  define R0 where "R0 k s' \<longleftrightarrow> ready s' \<and> rest s' = rest s \<and> spi_ram s' = spi_ram s \<and>
    flash s' = erased (unat a) k (flash s) \<and> 4096 dvd k" for k s'
  define R where "R k s' \<longleftrightarrow> R0 k s' \<and> (\<exists>m. log s' = log s @ take m plan \<and> drop m plan = erase_plan ?big ?e (unat a + k))" for k s'
  define E where "E k s' \<longleftrightarrow> R0 k s' \<and> (\<exists>m c. log s' = log s @ take (Suc m) plan \<and> m < length plan \<and>
    plan ! m = (c, unat a + k, 64) \<and> refuses s c (unat a + k))" for k s'
  have step: "\<exists>n s2. one_cycle io base FlashCycleErase FC a' bc' b' s1 = Some (n, s2) \<and>
      (case n of None \<Rightarrow> E k s2 | Some cnt \<Rightarrow> 0 < unat cnt \<and> unat cnt \<le> unat bc' \<and> R (k + unat cnt) s2)"
    if k: "progress (unat a) (unat bc) b k a' bc' b'" "0 < unat bc'" "R k s1" for k a' bc' b' s1
  proof -
    note pr = progressD [OF k(1) fit(1)]
    have r1: "R0 k s1" using k(3) by (simp add: R_def)
    obtain m where m: "log s1 = log s @ take m plan" "drop m plan = erase_plan ?big ?e (unat a + k)"
      using k(3) by (auto simp: R_def)
    have inst: "spi_inst s1 = spi_inst s" by (rule rest_inst) (use r1 in \<open>simp add: R0_def\<close>)
    have al: "4096 dvd unat a'" "4096 dvd unat bc'" using pr r1 aligned by (auto simp: R0_def)
    obtain c where cnt: "(erase_count (spi_inst s1) a' bc', c) \<in> {(0x1000, 3), (0x10000, 4 :: u32)}"
      "unat (erase_count (spi_inst s1) a' bc') dvd unat a'" "unat (erase_count (spi_inst s1) a' bc') \<le> unat bc'"
      "c = erase_kind (erases_64KB (spi_inst s1)) (unat a' + unat bc') (unat a')" "unat (erase_count (spi_inst s1) a' bc') = erase_size c"
      by (rule erase_count_ok [OF al k(2)])
    define cnt where "cnt = erase_count (spi_inst s1) a' bc'"
    note cnt = cnt_def [symmetric] cnt [folded cnt_def]
    have kind: "c = erase_kind ?big ?e (unat a + k)" using cnt(5) pr inst by simp
    have at: "drop m plan = (c, unat a + k, 64) # erase_plan ?big ?e (unat a + k + unat cnt)"
      using m(2) erase_plan_next [of "unat a + k" ?e ?big] pr(5) kind cnt(6) by simp
    then have m1: "m < length plan" by (metis drop_eq_Nil list.distinct(1) not_le)
    have pm: "plan ! m = (c, unat a + k, 64)" "drop (Suc m) plan = erase_plan ?big ?e (unat a + k + unat cnt)"
      using at by (simp_all add: Cons_nth_drop_Suc [OF m1, symmetric])
    have dc: "data_count (spi_inst s1) FlashCycleErase a' bc' = cnt" by (simp add: data_count_def cnt)
    have ref: "refuses s1 = refuses s" by (rule rest_refuses) (use r1 in \<open>simp add: R0_def\<close>)
    from erase_cycle [OF _ dc cnt(2) pr(1) cnt(3), of FC b'] r1 obtain s2 where
      s2: "one_cycle io base FlashCycleErase FC a' bc' b' s1 = Some (if refuses s c (unat a') then None else Some cnt, s2)"
        "ready s2" "rest s2 = rest s" "spi_ram s2 = spi_ram s"
        "flash s2 = (if refuses s c (unat a') then flash s1 else erased (unat a') (unat cnt) (flash s1))"
        "log s2 = log s1 @ [(c, unat a', 64)]"
      unfolding ref R0_def by auto
    have lg: "log s2 = log s @ take (Suc m) plan"
      using s2(6) m(1) pm(1) pr(3) by (simp add: take_Suc_conv_app_nth [OF m1])
    have big: "0 < unat cnt" "4096 dvd unat cnt" using cnt(2) by auto
    have "E k s2" if ref: "refuses s c (unat a')"
    proof -
      have "R0 k s2" using s2 r1 ref by (simp add: R0_def)
      then show ?thesis unfolding E_def using lg m1 pm(1) pr(3) ref by auto
    qed
    moreover have "R (k + unat cnt) s2" if "\<not> refuses s c (unat a')"
      unfolding R_def
    proof
      show "R0 (k + unat cnt) s2" using s2 r1 that pr big erased_append [of "unat a" k "unat cnt"] by (simp add: R0_def)
      show "\<exists>m. log s2 = log s @ take m plan \<and> drop m plan = erase_plan ?big ?e (unat a + (k + unat cnt))"
        using lg pm(2) by (auto simp: add.assoc)
    qed
    ultimately show ?thesis using s2(1) cnt(4) big by auto
  qed
  have start: "R 0 s" using s by (auto simp: R_def R0_def erased_none plan_def intro: exI [of _ 0])
  show thesis
  proof (rule transfer_rule [where R = R and E = E and b = b, OF fit step start])
    fix s' :: "'s spi"
    assume c: "spi_cycles io base FlashCycleErase FC a bc b s = Some (EFI_SUCCESS, s')" "R (unat bc) s'"
    then obtain m where m: "log s' = log s @ take m plan" "drop m plan = []" by (auto simp: R_def erase_plan_done)
    then have "take m plan = take (length plan) plan" by simp
    then show thesis using c m by (intro that [of EFI_SUCCESS s' "unat bc" "length plan"]) (simp_all add: R_def R0_def)
  next
    fix s' :: "'s spi" and k
    assume c: "spi_cycles io base FlashCycleErase FC a bc b s = Some (EFI_DEVICE_ERROR, s')" "k < unat bc" "E k s'"
    then obtain m c' where m: "log s' = log s @ take (Suc m) plan" "m < length plan" "plan ! m = (c', unat a + k, 64)"
      "refuses s c' (unat a + k)" by (auto simp: E_def)
    with c show thesis by (intro that [of EFI_DEVICE_ERROR s' k "Suc m"]) (auto simp: E_def R0_def)
  qed
qed

end

end
