(* ===== verification/SpiRuns.thy ===== *)
theory SpiRuns
  imports SpiTransfer
begin

text \<open>
  Whole commands of the SPI flash driver on the hardware of SpiChip: the chip is a flash controller, the
  three phases of the boot open and close the flash as the interface \<open>spi_phase\<close> says, and reading,
  writing and erasing do what they are asked for to exactly the range they are asked for.
\<close>

section \<open>The chip as a controller\<close>

definition chip_ready :: "chip_par \<Rightarrow> spi_chip spi \<Rightarrow> bool" where
  "chip_ready P s \<longleftrightarrow> idle P s \<and> timer_runs P \<and> p_busy P < 600000"

definition chip_refuses :: "chip_par \<Rightarrow> spi_chip spi \<Rightarrow> u32 \<Rightarrow> nat \<Rightarrow> bool" where
  "chip_refuses P s c a \<longleftrightarrow> cycle_fails P c a (kdev s)"

lemma flash_program_page:
  assumes "a mod 256 + length bs \<le> 256"
  shows "flash_program a bs f = programmed a bs f"
proof (rule ext)
  fix x :: nat
  define q r where qr: "q = a div 256" "r = a mod 256"
  define y z where yz: "y = x div 256" "z = x mod 256"
  have a: "a = q * 256 + r" "r < 256" and x: "x = y * 256 + z" "z < 256" by (simp_all add: qr yz)
  have le: "r + length bs \<le> 256" using assms by (simp add: qr)
  show "flash_program a bs f x = programmed a bs f x"
  proof (cases "y = q")
    case True
    have i: "(x + 256 - r) mod 256 = (if r \<le> z then z - r else z + 256 - r)"
    proof (cases "r \<le> z")
      case True
      then have "x + 256 - r = (z - r) + (y + 1) * 256" using x a by simp
      moreover have "z - r < 256" using x by simp
      ultimately show ?thesis using True by (simp only: mod_mult_self1) simp
    next
      case False
      then have "x + 256 - r = (z + 256 - r) + y * 256" "z + 256 - r < 256" using x a by simp_all
      then show ?thesis using False by (simp only: mod_mult_self1) simp
    qed
    have in1: "a \<le> x \<longleftrightarrow> r \<le> z" "r \<le> z \<Longrightarrow> x - a = z - r" using x a True by simp_all
    have in2: "x < a + length bs \<longleftrightarrow> z < r + length bs" using x a True by simp
    have "\<not> r \<le> z \<Longrightarrow> \<not> z + 256 - r < length bs" using le by simp
    then show ?thesis
      using True in1 in2 i
      by (auto simp: flash_program_def programmed_def Let_def qr [symmetric] yz [symmetric])
  next
    case False
    have "\<not> (a \<le> x \<and> x < a + length bs)"
    proof
      assume "a \<le> x \<and> x < a + length bs"
      then have "q * 256 + r \<le> y * 256 + z" "y * 256 + z < q * 256 + 256" using a x le by simp_all
      then have "q = y" using a(2) x(2) by simp
      then show False using False by simp
    qed
    then show ?thesis using False by (auto simp: flash_program_def programmed_def Let_def qr [symmetric] yz [symmetric])
  qed
qed

lemma flash_erase_block:
  assumes "p dvd a" "0 < p"
  shows "flash_erase p a f = erased a p f"
proof (rule ext)
  fix x :: nat
  from assms(1) obtain q where a: "a = q * p" by (metis dvd_div_mult_self)
  have "x div p = q \<longleftrightarrow> q * p \<le> x \<and> x < q * p + p"
    using assms(2) by (metis add.commute div_nat_eqI dividend_less_div_times div_times_less_eq_dividend mult.commute mult_Suc)
  then show "flash_erase p a f x = erased a p f x" using assms(2) by (simp add: flash_erase_def erased_def a)
qed

lemma rest_parts:
  assumes "rest s' = rest s"
  shows "spi_inst s' = spi_inst s" "hide (k_mem (kdev s')) = hide (k_mem (kdev s))" "k_io (kdev s') = k_io (kdev s)"
    "k_msr (kdev s') = k_msr (kdev s)"
  using arg_cong [OF assms, of spi_inst] arg_cong [OF assms, of "\<lambda>s. k_mem (kdev s)"]
    arg_cong [OF assms, of "\<lambda>s. k_io (kdev s)"] arg_cong [OF assms, of "\<lambda>s. k_msr (kdev s)"]
  by (simp_all add: rest_def with_dev_def)

text \<open>The cycles run so far: code, address and byte count of each.\<close>

definition cycles_of :: "spi_chip spi \<Rightarrow> (u32 \<times> nat \<times> nat) list" where "cycles_of s = k_cycles (kdev s)"

interpretation chip: flash_controller "spi_chip_hw P" bar "chip_ready P" rest flash_of cycles_of "chip_refuses P" for P
proof
  fix s s' :: "spi_chip spi" and a bc cnt :: u32 and b :: u64
  show "rest s' = rest s \<Longrightarrow> spi_inst s' = spi_inst s" by (rule rest_parts)
  show "rest s' = rest s \<Longrightarrow> chip_refuses P s' = chip_refuses P s"
    unfolding chip_refuses_def by (intro ext cycle_fails_hide rest_parts(2))
  {
    assume s: "chip_ready P s" and cnt: "data_count (spi_inst s) FlashCycleRead a bc = cnt" "valid_count (unat cnt)"
      and a: "unat a < 2 ^ 27" "unat a mod 4096 + unat cnt \<le> 4096"
    obtain s' where "one_cycle (spi_chip_hw P) bar FlashCycleRead (hw_cycle 0) a bc b s =
        Some (if cycle_fails P 0 (unat a) (kdev s) then None else Some cnt, s')"
      "kept P s s'" "flash_of s' = flash_of s"
      "spi_ram s' = (if cycle_fails P 0 (unat a) (kdev s) then spi_ram s
        else storen (spi_ram s) b (flash_read (unat a) (unat cnt) (flash_of s)))"
      by (rule read_law [of P s a bc cnt b]) (use s cnt a in \<open>auto simp: chip_ready_def valid_count_def\<close>)
    then have "one_cycle (spi_chip_hw P) bar FlashCycleRead (hw_cycle 0) a bc b s =
          Some (if chip_refuses P s 0 (unat a) then None else Some cnt, s') \<and>
        chip_ready P s' \<and> rest s' = rest s \<and> flash_of s' = flash_of s \<and>
        spi_ram s' = (if chip_refuses P s 0 (unat a) then spi_ram s
          else storen (spi_ram s) b (map (flash_of s) [unat a..<unat a + unat cnt]))"
      using s unfolding flash_read_plain [OF a(2)] chip_ready_def chip_refuses_def kept_def by blast
    then show "\<exists>s'. one_cycle (spi_chip_hw P) bar FlashCycleRead (hw_cycle 0) a bc b s =
          Some (if chip_refuses P s 0 (unat a) then None else Some cnt, s') \<and>
        chip_ready P s' \<and> rest s' = rest s \<and> flash_of s' = flash_of s \<and>
        spi_ram s' = (if chip_refuses P s 0 (unat a) then spi_ram s
          else storen (spi_ram s) b (map (flash_of s) [unat a..<unat a + unat cnt]))"
      by blast
  }
  {
    assume s: "chip_ready P s" and cnt: "data_count (spi_inst s) FlashCycleWrite a bc = cnt" "valid_count (unat cnt)"
      and a: "unat a < 2 ^ 27" "unat a mod 256 + unat cnt \<le> 256"
    obtain s' where "one_cycle (spi_chip_hw P) bar FlashCycleWrite (hw_cycle 2) a bc b s =
        Some (if cycle_fails P 2 (unat a) (kdev s) then None else Some cnt, s')"
      "kept P s s'" "spi_ram s' = spi_ram s"
      "flash_of s' = (if cycle_fails P 2 (unat a) (kdev s) then flash_of s
        else flash_program (unat a) (loadn (spi_ram s) b (unat cnt)) (flash_of s))"
      by (rule write_law [of P s a bc cnt b]) (use s cnt a in \<open>auto simp: chip_ready_def valid_count_def\<close>)
    moreover have "flash_program (unat a) (loadn (spi_ram s) b (unat cnt)) (flash_of s) =
        programmed (unat a) (loadn (spi_ram s) b (unat cnt)) (flash_of s)"
      by (rule flash_program_page) (use a(2) in simp)
    ultimately have "one_cycle (spi_chip_hw P) bar FlashCycleWrite (hw_cycle 2) a bc b s =
          Some (if chip_refuses P s 2 (unat a) then None else Some cnt, s') \<and>
        chip_ready P s' \<and> rest s' = rest s \<and> spi_ram s' = spi_ram s \<and>
        flash_of s' = (if chip_refuses P s 2 (unat a) then flash_of s
          else programmed (unat a) (loadn (spi_ram s) b (unat cnt)) (flash_of s))"
      using s unfolding chip_ready_def chip_refuses_def kept_def by presburger
    then show "\<exists>s'. one_cycle (spi_chip_hw P) bar FlashCycleWrite (hw_cycle 2) a bc b s =
          Some (if chip_refuses P s 2 (unat a) then None else Some cnt, s') \<and>
        chip_ready P s' \<and> rest s' = rest s \<and> spi_ram s' = spi_ram s \<and>
        flash_of s' = (if chip_refuses P s 2 (unat a) then flash_of s
          else programmed (unat a) (loadn (spi_ram s) b (unat cnt)) (flash_of s))"
      by blast
  }
  fix c FC :: u32
  assume s: "chip_ready P s" and cnt: "data_count (spi_inst s) FlashCycleErase a bc = cnt"
    and c: "(cnt, c) \<in> {(0x1000, 3), (0x10000, 4)}" and a: "unat a < 2 ^ 27" "unat cnt dvd unat a"
  obtain s' where "one_cycle (spi_chip_hw P) bar FlashCycleErase FC a bc b s =
      Some (if cycle_fails P c (unat a) (kdev s) then None else Some cnt, s')"
    "kept P s s'" "spi_ram s' = spi_ram s"
    "flash_of s' = (if cycle_fails P c (unat a) (kdev s) then flash_of s
      else flash_erase (unat cnt) (unat a) (flash_of s))"
    "cycles_of s' = cycles_of s @ [(c, unat a, 64)]"
    unfolding cycles_of_def by (rule erase_law [of P s a bc cnt c FC b]) (use s cnt c a in \<open>auto simp: chip_ready_def\<close>)
  moreover have "flash_erase (unat cnt) (unat a) (flash_of s) = erased (unat a) (unat cnt) (flash_of s)"
    by (rule flash_erase_block [OF a(2)]) (use c in auto)
  ultimately have "one_cycle (spi_chip_hw P) bar FlashCycleErase FC a bc b s =
        Some (if chip_refuses P s c (unat a) then None else Some cnt, s') \<and>
      chip_ready P s' \<and> rest s' = rest s \<and> spi_ram s' = spi_ram s \<and>
      flash_of s' = (if chip_refuses P s c (unat a) then flash_of s else erased (unat a) (unat cnt) (flash_of s)) \<and>
      cycles_of s' = cycles_of s @ [(c, unat a, 64)]"
    using s unfolding chip_ready_def chip_refuses_def kept_def by presburger
  then show "\<exists>s'. one_cycle (spi_chip_hw P) bar FlashCycleErase FC a bc b s =
        Some (if chip_refuses P s c (unat a) then None else Some cnt, s') \<and>
      chip_ready P s' \<and> rest s' = rest s \<and> spi_ram s' = spi_ram s \<and>
      flash_of s' = (if chip_refuses P s c (unat a) then flash_of s else erased (unat a) (unat cnt) (flash_of s)) \<and>
      cycles_of s' = cycles_of s @ [(c, unat a, 64)]"
    by blast
qed

section \<open>The phases of the boot\<close>

text \<open>The chip and the instance as the drivers find them: the base of the configuration space, the registers
  at their reserved address, the protection EISS of BC.\<close>

definition bc :: "spi_chip spi \<Rightarrow> u8" where "bc s = k_mem (kdev s) bc_addr"

datatype boot_phase = PEI | DXE | SMM

definition spi_placed :: "chip_par \<Rightarrow> boot_phase \<Rightarrow> spi_chip spi \<Rightarrow> bool" where
  "spi_placed P ph s \<longleftrightarrow> PchAcpiBase (spi_inst s) = p_abase P \<and> PchSpiBase (spi_inst s) = 0x800FD000 \<and>
     loadw 4 (k_mem (kdev s)) 0x800FD010 AND NOT 0xFFF = (0xFE010000 :: u32) \<and>
     (ph = SMM \<longrightarrow> mSpiResvMmioAddr s = 0xFE010000) \<and>
     (ph = DXE \<longrightarrow> mPchSpiBar0PhysicalAddr s = 0xFE010000 \<and> \<not> mRuntimeFlag s)"

text \<open>The data registers.\<close>

definition fdata :: "spi_chip spi \<Rightarrow> u8 list" where "fdata s = loadn (k_mem (kdev s)) (bar + 0x10) 64"

text \<open>Only the two bytes of BC differ.\<close>

definition same_but_bc :: "spi_chip spi \<Rightarrow> spi_chip spi \<Rightarrow> bool" where
  "same_but_bc s s' \<longleftrightarrow> (\<exists>m l. (\<forall>x. x \<noteq> bc_addr \<longrightarrow> x \<noteq> bc_addr + 1 \<longrightarrow> m x = k_mem (kdev s) x) \<and>
     s' = with_dev ((kdev s)\<lparr> k_mem := m, k_msr := l \<rparr>) s)"

text \<open>What the commands rely on: the registers are found, writing is opened, or refused where \<open>locked\<close>, and
  closed again, and nothing but BC and the register of the processor changes.\<close>

locale spi_phase =
  fixes P :: chip_par
    and ph :: boot_phase
    and hk :: "spi_chip spi_hooks"
    and locked :: "spi_chip spi \<Rightarrow> bool"
  assumes acquire: "spi_placed P ph s \<Longrightarrow> run_state (AcquireSpiBar0 hk) s = (bar, s)"
    and release: "run_state (ReleaseSpiBar0 hk) s = ((), s)"
    and refuse: "spi_placed P ph s \<Longrightarrow> locked s \<Longrightarrow> run_state (DisableBiosWriteProtect hk) s = (EFI_ACCESS_DENIED, s)"
    and open_it: "spi_placed P ph s \<Longrightarrow> \<not> locked s \<Longrightarrow> \<exists>s'. run_state (DisableBiosWriteProtect hk) s = (EFI_SUCCESS, s') \<and>
      same_but_bc s s' \<and> bc s' = bc s OR BIT 0"
    and locked_bc: "bc s' = bc s \<Longrightarrow> locked s' = locked s"
    and close_it: "spi_placed P ph s \<Longrightarrow> \<exists>s'. run_state (EnableBiosWriteProtect hk) s = ((), s') \<and>
      same_but_bc s s' \<and> bc s' = bc s AND NOT (BIT 0)"

definition locked_by_eiss :: "spi_chip spi \<Rightarrow> bool" where "locked_by_eiss s \<longleftrightarrow> bit (bc s) 5"

lemma loadw_byte: "loadw (Suc 0) m a = m a"
  by (simp add: loadw_def loadn_def)

lemma storew_byte: "storew (Suc 0) m a v = m(a := v)"
  by (rule ext) (auto simp: storew_def storen_def bytes_of_def unat_eq_0)

lemma same_but_bcI:
  assumes "\<And>x. x \<noteq> bc_addr \<Longrightarrow> x \<noteq> bc_addr + 1 \<Longrightarrow> m x = k_mem (kdev s) x"
  shows "same_but_bc s (with_dev ((kdev s)\<lparr> k_mem := m, k_msr := l \<rparr>) s)"
    "same_but_bc s (with_dev ((kdev s)\<lparr> k_mem := m \<rparr>) s)"
proof -
  show l: "same_but_bc s (with_dev ((kdev s)\<lparr> k_mem := m, k_msr := l \<rparr>) s)" for l
    using assms unfolding same_but_bc_def by blast
  have "(kdev s)\<lparr> k_mem := m, k_msr := k_msr (kdev s) \<rparr> = (kdev s)\<lparr> k_mem := m \<rparr>" by (cases "kdev s") simp
  then show "same_but_bc s (with_dev ((kdev s)\<lparr> k_mem := m \<rparr>) s)" using l [of "k_msr (kdev s)"] by simp
qed

lemma same_but_bc_upd: "x \<in> {bc_addr, bc_addr + 1} \<Longrightarrow> same_but_bc s (with_dev ((kdev s)\<lparr> k_mem := (k_mem (kdev s))(x := v) \<rparr>) s)"
  by (rule same_but_bcI) auto

lemma eiss_bit: "b AND B_PCH_SPI_BC_EISS \<noteq> 0 \<longleftrightarrow> bit b 5"
  using and_bit [of b 5] by (simp add: B_PCH_SPI_BC_EISS_def)

lemmas phase_simps = run_bind run_return spi_placed_def loadw_byte storew_byte eiss_bit locked_by_eiss_def bc_def

lemma run_no_release [simp]: "run_state no_ReleaseSpiBar0 s = ((), s)"
  by (simp add: no_ReleaseSpiBar0_def hwrun)

lemma run_open_unless_eiss:
  "run_state (spi_on_sys (open_unless_eiss (spi_chip_hw P) 0x800FD000)) s =
     (if bit (bc s) 5 then (EFI_ACCESS_DENIED, s)
      else (EFI_SUCCESS, with_dev ((kdev s)\<lparr> k_mem := (k_mem (kdev s))(bc_addr := bc s OR BIT 0) \<rparr>) s))"
  by (simp add: open_unless_eiss_def MmioOr8_def phase_simps R_PCH_SPI_BC_def B_PCH_SPI_BC_WPD_def)

lemma run_close_protection:
  "run_state (spi_on_sys (close_protection (spi_chip_hw P) 0x800FD000)) s =
     ((), with_dev ((kdev s)\<lparr> k_mem := (k_mem (kdev s))(bc_addr := bc s AND NOT (BIT 0)) \<rparr>) s)"
  by (simp add: close_protection_def MmioAnd8_def phase_simps R_PCH_SPI_BC_def B_PCH_SPI_BC_WPD_def)

interpretation pei: spi_phase P PEI "pei_hooks (spi_chip_hw P)" locked_by_eiss for P
proof
  fix s :: "spi_chip spi"
  assume s: "spi_placed P PEI s"
  show "run_state (AcquireSpiBar0 (pei_hooks (spi_chip_hw P))) s = (bar, s)"
    using s by (simp add: pei_hooks_def pei_AcquireSpiBar0_def phase_simps regs)
  show "locked_by_eiss s \<Longrightarrow> run_state (DisableBiosWriteProtect (pei_hooks (spi_chip_hw P))) s = (EFI_ACCESS_DENIED, s)"
    by (simp add: pei_hooks_def pei_DisableBiosWriteProtect_def run_open_unless_eiss locked_by_eiss_def)
  show "\<not> locked_by_eiss s \<Longrightarrow> \<exists>s'. run_state (DisableBiosWriteProtect (pei_hooks (spi_chip_hw P))) s = (EFI_SUCCESS, s') \<and>
      same_but_bc s s' \<and> bc s' = bc s OR BIT 0"
    by (simp add: pei_hooks_def pei_DisableBiosWriteProtect_def run_open_unless_eiss locked_by_eiss_def
        same_but_bc_upd bc_def [of "with_dev _ _"] del: bc_addr_def)
  show "\<exists>s'. run_state (EnableBiosWriteProtect (pei_hooks (spi_chip_hw P))) s = ((), s') \<and>
      same_but_bc s s' \<and> bc s' = bc s AND NOT (BIT 0)"
    by (simp add: pei_hooks_def pei_EnableBiosWriteProtect_def run_close_protection
        same_but_bc_upd bc_def [of "with_dev _ _"] del: bc_addr_def)
qed (simp_all add: pei_hooks_def locked_by_eiss_def)

lemma run_restore_bar0:
  "spi_placed P ph s \<Longrightarrow> run_state (spi_on_sys (restore_bar0 (spi_chip_hw P) 0x800FD000 0xFE010000)) s = ((), s)"
  by (simp add: restore_bar0_def phase_simps regs)

interpretation dxe: spi_phase P DXE "dxe_hooks (spi_chip_hw P)" locked_by_eiss for P
proof
  fix s :: "spi_chip spi"
  assume s: "spi_placed P DXE s"
  then have base: "PchSpiBase (spi_inst s) = 0x800FD000" by (simp add: spi_placed_def)
  show "run_state (AcquireSpiBar0 (dxe_hooks (spi_chip_hw P))) s = (bar, s)"
    using s run_restore_bar0 [OF s] by (simp add: dxe_hooks_def dxe_AcquireSpiBar0_def run_bind spi_placed_def)
  show "locked_by_eiss s \<Longrightarrow> run_state (DisableBiosWriteProtect (dxe_hooks (spi_chip_hw P))) s = (EFI_ACCESS_DENIED, s)"
    by (simp add: dxe_hooks_def dxe_DisableBiosWriteProtect_def run_bind base run_open_unless_eiss locked_by_eiss_def)
  show "\<not> locked_by_eiss s \<Longrightarrow> \<exists>s'. run_state (DisableBiosWriteProtect (dxe_hooks (spi_chip_hw P))) s = (EFI_SUCCESS, s') \<and>
      same_but_bc s s' \<and> bc s' = bc s OR BIT 0"
    by (simp add: dxe_hooks_def dxe_DisableBiosWriteProtect_def run_bind base run_open_unless_eiss locked_by_eiss_def
        same_but_bc_upd bc_def [of "with_dev _ _"] del: bc_addr_def)
  show "\<exists>s'. run_state (EnableBiosWriteProtect (dxe_hooks (spi_chip_hw P))) s = ((), s') \<and>
      same_but_bc s s' \<and> bc s' = bc s AND NOT (BIT 0)"
    by (simp add: dxe_hooks_def dxe_EnableBiosWriteProtect_def run_bind base run_close_protection
        same_but_bc_upd bc_def [of "with_dev _ _"] del: bc_addr_def)
qed (simp_all add: dxe_hooks_def locked_by_eiss_def)

interpretation smm: spi_phase P SMM "smm_hooks (spi_chip_hw P)" "\<lambda>_. False" for P
proof
  fix s :: "spi_chip spi"
  assume s: "spi_placed P SMM s"
  then have base: "PchSpiBase (spi_inst s) = 0x800FD000" by (simp add: spi_placed_def)
  show "run_state (AcquireSpiBar0 (smm_hooks (spi_chip_hw P))) s = (bar, s)"
    using s run_restore_bar0 [OF s] by (simp add: smm_hooks_def smm_AcquireSpiBar0_def run_bind run_return spi_placed_def)
  show "\<exists>s'. run_state (DisableBiosWriteProtect (smm_hooks (spi_chip_hw P))) s = (EFI_SUCCESS, s') \<and>
      same_but_bc s s' \<and> bc s' = bc s OR BIT 0"
    by (simp add: smm_hooks_def smm_DisableBiosWriteProtect_def phase_simps MmioOr8_def R_PCH_SPI_BC_def
        B_PCH_SPI_BC_WPD_def lt_register_def) (auto intro!: same_but_bcI)
  show "\<exists>s'. run_state (EnableBiosWriteProtect (smm_hooks (spi_chip_hw P))) s = ((), s') \<and>
      same_but_bc s s' \<and> bc s' = bc s AND NOT (BIT 0)"
    by (simp add: smm_hooks_def smm_EnableBiosWriteProtect_def phase_simps MmioAnd8_def R_PCH_SPI_BC_def
        B_PCH_SPI_BC_WPD_def lt_register_def) (auto intro!: same_but_bcI)
qed (simp_all add: smm_hooks_def)

section \<open>What commands leave as it was\<close>

text \<open>All registers but BC and those of cycles, and the instance but for the permission read anew.\<close>

definition like :: "spi_chip spi \<Rightarrow> spi_chip spi \<Rightarrow> bool" where
  "like s s' \<longleftrightarrow> (\<forall>x. x \<noteq> bc_addr \<longrightarrow> x \<noteq> bc_addr + 1 \<longrightarrow> hide (k_mem (kdev s')) x = hide (k_mem (kdev s)) x) \<and>
     (spi_inst s')\<lparr> WritePermission := 0 \<rparr> = (spi_inst s)\<lparr> WritePermission := 0 \<rparr> \<and>
     mSpiResvMmioAddr s' = mSpiResvMmioAddr s \<and> mPchSpiBar0PhysicalAddr s' = mPchSpiBar0PhysicalAddr s \<and>
     mRuntimeFlag s' = mRuntimeFlag s"

lemma like_refl [simp]: "like s s"
  by (simp add: like_def)

lemma like_trans: "like s s' \<Longrightarrow> like s' s'' \<Longrightarrow> like s s''"
  by (simp add: like_def)

lemma like_rest: "rest s' = rest s \<Longrightarrow> like s s'"
proof -
  assume r: "rest s' = rest s"
  have "mSpiResvMmioAddr s' = mSpiResvMmioAddr s" "mPchSpiBar0PhysicalAddr s' = mPchSpiBar0PhysicalAddr s"
    "mRuntimeFlag s' = mRuntimeFlag s"
    using arg_cong [OF r, of mSpiResvMmioAddr] arg_cong [OF r, of mPchSpiBar0PhysicalAddr] arg_cong [OF r, of mRuntimeFlag]
    by (simp_all add: rest_def with_dev_def)
  then show ?thesis using rest_parts [OF r] by (simp add: like_def)
qed

lemma like_same_but_bc: "same_but_bc s s' \<Longrightarrow> like s s'"
  by (auto simp: same_but_bc_def like_def hide_def)

lemma like_inst:
  assumes "like s s'"
  shows "PchAcpiBase (spi_inst s') = PchAcpiBase (spi_inst s)" "PchSpiBase (spi_inst s') = PchSpiBase (spi_inst s)"
    "TotalFlashSize (spi_inst s') = TotalFlashSize (spi_inst s)" "ReadPermission (spi_inst s') = ReadPermission (spi_inst s)"
    "erases_64KB (spi_inst s') = erases_64KB (spi_inst s)"
proof -
  have i: "(spi_inst s')\<lparr> WritePermission := 0 \<rparr> = (spi_inst s)\<lparr> WritePermission := 0 \<rparr>" using assms by (simp add: like_def)
  show "PchAcpiBase (spi_inst s') = PchAcpiBase (spi_inst s)" "PchSpiBase (spi_inst s') = PchSpiBase (spi_inst s)"
    "TotalFlashSize (spi_inst s') = TotalFlashSize (spi_inst s)" "ReadPermission (spi_inst s') = ReadPermission (spi_inst s)"
    using arg_cong [OF i, of PchAcpiBase] arg_cong [OF i, of PchSpiBase] arg_cong [OF i, of TotalFlashSize]
      arg_cong [OF i, of ReadPermission] by simp_all
  show "erases_64KB (spi_inst s') = erases_64KB (spi_inst s)"
    using arg_cong [OF i, of Component1StartAddr] arg_cong [OF i, of SfdpVscc0Value] arg_cong [OF i, of SfdpVscc1Value]
    by (simp add: erases_64KB_def fun_eq_iff)
qed

text \<open>A word of registers that are not those of cycles nor BC.\<close>

definition plain_reg :: "nat \<Rightarrow> u64 \<Rightarrow> bool" where
  "plain_reg n a \<longleftrightarrow> (\<forall>i < n. a + of_nat i \<noteq> bc_addr \<and> a + of_nat i \<noteq> bc_addr + 1 \<and> 0x4C \<le> unat (a + of_nat i - (bar + 4)))"

lemma like_load: "like s s' \<Longrightarrow> plain_reg n a \<Longrightarrow> loadw n (k_mem (kdev s')) a = loadw n (k_mem (kdev s)) a"
proof -
  assume l: "like s s'" and p: "plain_reg n a"
  have "k_mem (kdev s') (a + of_nat i) = k_mem (kdev s) (a + of_nat i)" if "i < n" for i
  proof -
    have "hide (k_mem (kdev s')) (a + of_nat i) = hide (k_mem (kdev s)) (a + of_nat i)"
      using l p that by (simp add: like_def plain_reg_def del: bc_addr_def)
    then show ?thesis using p that by (auto simp: hide_def plain_reg_def)
  qed
  then have "loadn (k_mem (kdev s')) a n = loadn (k_mem (kdev s)) a n" by (intro nth_equalityI) (simp_all add: loadn_def)
  then show ?thesis by (simp add: loadw_def)
qed

lemma plain_reg_num:
  "plain_reg 4 a \<longleftrightarrow> (\<forall>i \<in> {0, 1, 2, 3 :: u64}. a + i \<noteq> bc_addr \<and> a + i \<noteq> bc_addr + 1 \<and> 0x4C \<le> unat (a + i - (bar + 4)))"
  "plain_reg 2 a \<longleftrightarrow> (\<forall>i \<in> {0, 1 :: u64}. a + i \<noteq> bc_addr \<and> a + i \<noteq> bc_addr + 1 \<and> 0x4C \<le> unat (a + i - (bar + 4)))"
  by (auto simp: plain_reg_def numeral_eq_Suc less_Suc_eq all_conj_distrib)

lemma like_placed: "like s s' \<Longrightarrow> spi_placed P ph s \<Longrightarrow> spi_placed P ph s'"
proof -
  assume l: "like s s'" and s: "spi_placed P ph s"
  have "plain_reg 4 0x800FD010" by (simp add: plain_reg_num unat_m1)
  from like_load [where ?'a = 32, OF l this] show ?thesis using s l like_inst [OF l] by (simp add: spi_placed_def like_def)
qed

section \<open>The checks\<close>

definition region_word :: "mem \<Rightarrow> u32 \<Rightarrow> u32" where
  "region_word m t = (if t = FlashRegionBios \<and> loadw 4 m bar AND B_PCH_SPI_BFPR_SBRS \<noteq> 0
     then loadw 4 m (bar + 0x6C) else loadw 4 m (bar + region_register t))"

definition region_at :: "spi_chip spi \<Rightarrow> u32 \<Rightarrow> efi_status + u32 \<times> u32" where
  "region_at s t =
     (if t \<ge> FlashRegionMax then Inl EFI_INVALID_PARAMETER
      else if t = FlashRegionAll then Inr (0, TotalFlashSize (spi_inst s))
      else region_of (region_word (k_mem (kdev s)) t))"

lemma region_cases:
  assumes "t < FlashRegionAll"
  obtains "t = 0" | "t = 1" | "t = 2" | "t = 3" | "t = 4" | "t = 5" | "t = 6" | "t = 7" | "t = 8" | "t = 9"
    | "t = 10" | "t = 11" | "t = 12" | "t = 13" | "t = 14" | "t = 15"
proof -
  have "unat t < 16" using assms by (simp add: word_less_nat_alt FlashRegionAll_def)
  then have "t \<in> of_nat ` {0..<16}" by (metis atLeastLessThan_iff imageI of_nat_unat ucast_id zero_le)
  then show thesis using that by (auto simp: atLeast0_lessThan_Suc eval_nat_numeral)
qed

lemma region_register_plain:
  assumes "t < FlashRegionAll"
  shows "plain_reg 4 (bar + region_register t)" "bar + region_register t \<noteq> bar + 4" "bar + region_register t \<noteq> bar + 0xB8"
  using assms by (cases rule: region_cases; simp add: region_register_def regs plain_reg_num unat_m1)+

lemma region_below: "\<not> t \<ge> FlashRegionMax \<Longrightarrow> t \<noteq> FlashRegionAll \<Longrightarrow> t < FlashRegionAll"
  by (simp add: regs word_less_nat_alt word_le_nat_alt word_unat_eq_iff)

lemma like_region: "like s s' \<Longrightarrow> region_at s' t = region_at s t"
proof -
  assume l: "like s s'"
  have p: "plain_reg 4 bar" "plain_reg 4 (bar + 0x6C)" by (simp_all add: plain_reg_num unat_m1)
  show ?thesis
    using like_inst [OF l] region_below [of t] like_load [where ?'a = 32, OF l region_register_plain(1), of t]
      like_load [where ?'a = 32, OF l p(1)] like_load [where ?'a = 32, OF l p(2)]
    by (simp add: region_at_def region_word_def)
qed

text \<open>The permission for a region, and the checks of a command as a function of the state.\<close>

definition write_permission :: "spi_chip spi \<Rightarrow> u16" where
  "write_permission s = loadw 2 (k_mem (kdev s)) (bar + 0x11C)"

definition may :: "FLASH_CYCLE_TYPE \<Rightarrow> spi_chip spi \<Rightarrow> u32 \<Rightarrow> bool" where
  "may c s t \<longleftrightarrow> t = FlashRegionAll \<or>
     (if c = FlashCycleRead then bit (ReadPermission (spi_inst s)) (unat t)
      else if writes_flash c then bit (write_permission s) (unat t) else True)"

definition verdict :: "spi_chip spi \<Rightarrow> u32 \<Rightarrow> FLASH_CYCLE_TYPE \<Rightarrow> u32 \<Rightarrow> u32 \<Rightarrow> efi_status + u32 \<times> u32" where
  "verdict s t c Address ByteCount =
     (case region_at s t of
        Inl st \<Rightarrow> Inl st
      | Inr (Base, Size) \<Rightarrow>
          if Address + ByteCount > Size then Inl EFI_INVALID_PARAMETER
          else if \<not> may c s t then Inl EFI_ACCESS_DENIED
          else map_sum id (\<lambda>FC. (Base + Address, FC)) (flash_cycle c (Base + Address) ByteCount))"

lemma like_verdict: "like s s' \<Longrightarrow> verdict s' t c Address ByteCount = verdict s t c Address ByteCount"
proof -
  assume l: "like s s'"
  have "plain_reg 2 (bar + 0x11C)" by (simp add: plain_reg_num unat_m1)
  from like_load [where ?'a = 16, OF l this] have "may c s' t = may c s t"
    using like_inst [OF l] by (simp add: may_def write_permission_def)
  then show ?thesis using like_region [OF l] unfolding verdict_def by (simp only:)
qed

text \<open>A command that asks for the permission to write stores it.\<close>

definition note_permission :: "FLASH_CYCLE_TYPE \<Rightarrow> u32 \<Rightarrow> spi_chip spi \<Rightarrow> spi_chip spi" where
  "note_permission c t s = (if writes_flash c \<and> t \<noteq> FlashRegionAll
     then s\<lparr> spi_inst := (spi_inst s)\<lparr> WritePermission := write_permission s \<rparr> \<rparr> else s)"

lemma like_note: "like s (note_permission c t s)"
  by (simp add: like_def note_permission_def)

lemma note_parts [simp]:
  "kdev (note_permission c t s) = kdev s" "spi_ram (note_permission c t s) = spi_ram s"
  "PchAcpiBase (spi_inst (note_permission c t s)) = PchAcpiBase (spi_inst s)"
  by (simp_all add: note_permission_def)

lemma note_state: "flash_of (note_permission c t s) = flash_of s" "bc (note_permission c t s) = bc s"
  "fdata (note_permission c t s) = fdata s"
  "chip_ready P (note_permission c t s) = chip_ready P s"
  "chip_refuses P (note_permission c t s) = chip_refuses P s"
  by (auto simp: flash_of_def bc_def fdata_def chip_ready_def idle_def chip_refuses_def fun_eq_iff)

context spi_phase
begin

lemma run_region:
  assumes "spi_placed P ph s"
  shows "run_state (SpiProtocolGetRegionAddress (spi_chip_hw P) hk t) s = (region_at s t, s)"
proof -
  have "run_state (spi_on_sys (MmioRead32 (mmio (spi_chip_hw P)) (bar + region_register t))) s =
      (loadw 4 (k_mem (kdev s)) (bar + region_register t), s)" if "\<not> t \<ge> FlashRegionMax" "t \<noteq> FlashRegionAll"
    using region_register_plain(2,3) [OF region_below [OF that]] by (simp del: bar_def)
  moreover have "run_state (spi_on_sys (MmioRead32 (mmio (spi_chip_hw P)) (bar + R_PCH_SPI_BFPR))) s =
      (loadw 4 (k_mem (kdev s)) bar, s)"
    "run_state (spi_on_sys (MmioRead32 (mmio (spi_chip_hw P)) (bar + R_PCH_SPI_FREG6_SECONDARY_BIOS))) s =
      (loadw 4 (k_mem (kdev s)) (bar + 0x6C), s)"
    by (simp_all add: R_PCH_SPI_BFPR_def R_PCH_SPI_FREG6_SECONDARY_BIOS_def)
  ultimately show ?thesis
    by (simp add: SpiProtocolGetRegionAddress_def run_bind run_return acquire [OF assms] release region_at_def
        region_word_def del: bar_def)
qed

lemma run_permitted:
  assumes "t < FlashRegionMax"
  shows "run_state (permitted (spi_chip_hw P) bar t c) s = (may c s t, note_permission c t s)"
  using and_bit [of "ReadPermission (spi_inst s)" "unat t"] and_bit [of "write_permission s" "unat t"]
  by (simp add: permitted_def run_bind run_return may_def note_permission_def writes_flash_def write_permission_def
      R_PCH_SPI_BM_WAP_def)

lemma run_check:
  assumes "spi_placed P ph s"
  shows "run_state (check_command (spi_chip_hw P) hk bar t c Address ByteCount) s =
    (verdict s t c Address ByteCount,
     case region_at s t of Inl st \<Rightarrow> s | Inr (Base, Size) \<Rightarrow> if Address + ByteCount > Size then s else note_permission c t s)"
proof -
  have "\<not> t < FlashRegionMax \<Longrightarrow> region_at s t = Inl EFI_INVALID_PARAMETER" by (simp add: region_at_def not_less)
  then show ?thesis
    using run_permitted [of t c s]
    by (cases "t < FlashRegionMax"; cases "region_at s t")
      (auto simp: check_command_def run_bind run_return run_region [OF assms] verdict_def Let_def)
qed

end

section \<open>Beginning and end of a command\<close>

definition smi_port :: "chip_par \<Rightarrow> u64" where "smi_port P = ucast (p_abase P) + 0x30"

definition smi_en :: "chip_par \<Rightarrow> spi_chip spi \<Rightarrow> u32" where "smi_en P s = loadw 4 (k_io (kdev s)) (smi_port P)"

text \<open>The state with SMIs off.\<close>

definition quiet :: "chip_par \<Rightarrow> spi_chip spi \<Rightarrow> spi_chip spi" where
  "quiet P s = with_dev ((kdev s)\<lparr> k_io := storew 4 (k_io (kdev s)) (smi_port P) (smi_en P s AND NOT (BIT 0)) \<rparr>) s"

lemma quiet_parts [simp]:
  "k_mem (kdev (quiet P s)) = k_mem (kdev s)" "spi_ram (quiet P s) = spi_ram s" "spi_inst (quiet P s) = spi_inst s"
  "k_flash (kdev (quiet P s)) = k_flash (kdev s)" "k_busy (kdev (quiet P s)) = k_busy (kdev s)"
  "flash_of (quiet P s) = flash_of s" "bc (quiet P s) = bc s" "k_cycles (kdev (quiet P s)) = k_cycles (kdev s)"
  "fdata (quiet P s) = fdata s"
  by (simp_all add: quiet_def flash_of_def bc_def fdata_def)

lemma like_quiet: "like s (quiet P s)"
  by (simp add: like_def quiet_def)

lemma storew_restore: "storew 4 (storew 4 m a (v :: u32)) a (loadw 4 m a :: u32) = m"
proof (rule ext)
  fix x
  have "storew 4 (storew 4 m a v) a (loadw 4 m a :: u32) = storen (storen m a (bytes_of 4 v)) a (loadn m a 4)"
    by (simp add: storew_loadw) (simp add: storew_def)
  then show "storew 4 (storew 4 m a v) a (loadw 4 m a :: u32) x = m x"
    by (simp add: storen_def loadn_def)
qed

lemma same_but_bc_trans:
  assumes "same_but_bc s s'" "same_but_bc s' s''"
  shows "same_but_bc s s''"
proof -
  from assms(1) obtain m l where 1: "\<forall>x. x \<noteq> bc_addr \<longrightarrow> x \<noteq> bc_addr + 1 \<longrightarrow> m x = k_mem (kdev s) x"
    "s' = with_dev ((kdev s)\<lparr> k_mem := m, k_msr := l \<rparr>) s" unfolding same_but_bc_def by blast
  from assms(2) obtain m' l' where 2: "\<forall>x. x \<noteq> bc_addr \<longrightarrow> x \<noteq> bc_addr + 1 \<longrightarrow> m' x = k_mem (kdev s') x"
    "s'' = with_dev ((kdev s')\<lparr> k_mem := m', k_msr := l' \<rparr>) s'" unfolding same_but_bc_def by blast
  have "\<forall>x. x \<noteq> bc_addr \<longrightarrow> x \<noteq> bc_addr + 1 \<longrightarrow> m' x = k_mem (kdev s) x" using 1 2(1) by (simp del: bc_addr_def)
  moreover have "s'' = with_dev ((kdev s)\<lparr> k_mem := m', k_msr := l' \<rparr>) s" using 1(2) 2(2) by simp
  ultimately show ?thesis unfolding same_but_bc_def by blast
qed

lemma same_but_bc_parts:
  assumes "same_but_bc s s'"
  shows "k_io (kdev s') = k_io (kdev s)" "spi_ram s' = spi_ram s" "flash_of s' = flash_of s"
    "k_busy (kdev s') = k_busy (kdev s)" "spi_inst s' = spi_inst s" "k_cycles (kdev s') = k_cycles (kdev s)"
    "fdata s' = fdata s" "k_time (kdev s') = k_time (kdev s)"
proof -
  from assms obtain m l where m: "\<And>x. x \<noteq> bc_addr \<Longrightarrow> x \<noteq> bc_addr + 1 \<Longrightarrow> m x = k_mem (kdev s) x"
    "s' = with_dev ((kdev s)\<lparr> k_mem := m, k_msr := l \<rparr>) s" unfolding same_but_bc_def by blast
  show "k_io (kdev s') = k_io (kdev s)" "spi_ram s' = spi_ram s" "flash_of s' = flash_of s"
    "k_busy (kdev s') = k_busy (kdev s)" "spi_inst s' = spi_inst s" "k_cycles (kdev s') = k_cycles (kdev s)"
    "k_time (kdev s') = k_time (kdev s)"
    by (simp_all add: m(2) flash_of_def)
  show "fdata s' = fdata s"
  proof (rule nth_equalityI)
    fix i assume "i < length (fdata s')"
    then have i: "i < 64" by (simp add: fdata_def)
    have "bar + 0x10 + of_nat i \<noteq> bc_addr" "bar + 0x10 + of_nat i \<noteq> bc_addr + 1"
    proof -
      have "unat (bar + 0x10 + of_nat i :: u64) = 0xFE010010 + i" using i by (simp add: unat_word_ariths unat_of_nat)
      then have ne: "unat (bar + 0x10 + of_nat i) \<noteq> unat bc_addr" "unat (bar + 0x10 + of_nat i) \<noteq> unat (bc_addr + 1)"
        by (simp_all del: bar_def)
      show "bar + 0x10 + of_nat i \<noteq> bc_addr" "bar + 0x10 + of_nat i \<noteq> bc_addr + 1"
        unfolding word_unat_eq_iff by (rule ne)+
    qed
    then show "fdata s' ! i = fdata s ! i" using i m by (simp add: fdata_def loadn_def)
  qed (simp add: fdata_def)
qed

definition opened_bc :: "FLASH_CYCLE_TYPE \<Rightarrow> u8 \<Rightarrow> u8" where
  "opened_bc c b = (if writes_flash c then ((b OR BIT 0) AND NOT (BIT 3 OR BIT 2)) OR BIT 2 else b)"

definition closed_bc :: "FLASH_CYCLE_TYPE \<Rightarrow> u8 \<Rightarrow> u8 \<Rightarrow> u8" where
  "closed_bc c src b = (if writes_flash c then ((b AND NOT (BIT 0)) AND NOT (BIT 3 OR BIT 2)) OR src else b)"

lemma closed_opened: "closed_bc c (b AND (BIT 3 OR BIT 2)) (opened_bc c b) = (if writes_flash c then b AND NOT (BIT 0) else b)"
  unfolding closed_bc_def opened_bc_def
  by (cases "writes_flash c") (auto intro!: bit_word_eqI simp: bit_simps simp del: push_bit_of_1)

lemma closed_unopened: "closed_bc c (b AND (BIT 3 OR BIT 2)) b = (if writes_flash c then b AND NOT (BIT 0) else b)"
  unfolding closed_bc_def
  by (cases "writes_flash c") (auto intro!: bit_word_eqI simp: bit_simps simp del: push_bit_of_1)

lemma run_set_src:
  "run_state (spi_on_sys (MmioAndThenOr8 (mmio (spi_chip_hw P)) (0x800FD000 + R_PCH_SPI_BC) m v)) s =
     (bc s AND m OR v, with_dev ((kdev s)\<lparr> k_mem := (k_mem (kdev s))(bc_addr := bc s AND m OR v) \<rparr>) s)"
  by (simp add: MmioAndThenOr8_def phase_simps R_PCH_SPI_BC_def)

context spi_phase
begin

lemma run_open:
  assumes s: "spi_placed P ph s" and free: "\<not> (writes_flash c \<and> locked s)"
  obtains s' where "run_state (open_flash (spi_chip_hw P) hk 0x800FD000 c) s = (EFI_SUCCESS, s')"
    "same_but_bc s s'" "bc s' = opened_bc c (bc s)"
proof (cases "writes_flash c")
  case False
  have "same_but_bc s s" using same_but_bc_upd [of bc_addr s "k_mem (kdev s) bc_addr"] by simp
  then show thesis using that [of s] False by (simp add: open_flash_def run_return opened_bc_def)
next
  case True
  with free open_it [OF s] obtain s1 where s1: "run_state (DisableBiosWriteProtect hk) s = (EFI_SUCCESS, s1)"
    "same_but_bc s s1" "bc s1 = bc s OR BIT 0" by blast
  let ?s' = "with_dev ((kdev s1)\<lparr> k_mem := (k_mem (kdev s1))(bc_addr := bc s1 AND NOT B_PCH_SPI_BC_SRC OR
    push_bit N_PCH_SPI_BC_SRC V_PCH_SPI_BC_SRC_PREF_DIS_CACHE_DIS) \<rparr>) s1"
  have "same_but_bc s ?s'" by (rule same_but_bc_trans [OF s1(2) same_but_bc_upd]) simp
  moreover have "bc ?s' = opened_bc c (bc s)"
    using True s1(3) by (simp add: bc_def opened_bc_def regs del: bc_addr_def push_bit_of_1)
  ultimately show thesis
    using that [of ?s'] True s1(1) by (simp add: open_flash_def run_bind run_return run_set_src)
qed

lemma run_close:
  assumes s: "spi_placed P ph s"
  obtains s' where "run_state (close_flash (spi_chip_hw P) hk 0x800FD000 c src) s = ((), s')"
    "same_but_bc s s'" "bc s' = closed_bc c src (bc s)"
proof (cases "writes_flash c")
  case False
  have "same_but_bc s s" using same_but_bc_upd [of bc_addr s "k_mem (kdev s) bc_addr"] by simp
  then show thesis using that [of s] False by (simp add: close_flash_def run_return closed_bc_def)
next
  case True
  from close_it [OF s] obtain s1 where s1: "run_state (EnableBiosWriteProtect hk) s = ((), s1)"
    "same_but_bc s s1" "bc s1 = bc s AND NOT (BIT 0)" by blast
  let ?s' = "with_dev ((kdev s1)\<lparr> k_mem := (k_mem (kdev s1))(bc_addr := bc s1 AND NOT B_PCH_SPI_BC_SRC OR src) \<rparr>) s1"
  have "same_but_bc s ?s'" by (rule same_but_bc_trans [OF s1(2) same_but_bc_upd]) simp
  moreover have "bc ?s' = closed_bc c src (bc s)"
    using True s1(3) by (simp add: bc_def closed_bc_def regs del: bc_addr_def push_bit_of_1)
  ultimately show thesis
    using that [of ?s'] True s1(1) by (simp add: close_flash_def run_bind run_return run_set_src)
qed

text \<open>The wait before the checks leaves an idle controller.\<close>

lemma waited:
  assumes "timer_runs P" "p_busy P < 600000" "spi_placed P ph s" "k_busy (kdev s) < 600000"
  obtains s' where "WaitForSpiCycleComplete (spi_chip_hw P) bar False s = Some (True, s')" "chip_ready P s'"
    "rest s' = rest s" "spi_ram s' = spi_ram s" "flash_of s' = flash_of s" "bc s' = bc s"
    "k_cycles (kdev s') = k_cycles (kdev s)" "fdata s' = fdata s"
proof -
  from wait_done [OF assms(1), of s 600000 False] assms(3,4) obtain u where
    u: "WaitForSpiCycleComplete (spi_chip_hw P) bar False s = Some (True, with_dev (settle u (kdev s)) s)"
    by (auto simp: WaitForSpiCycleComplete_def SPI_WAIT_TIME_def SPI_WAIT_PERIOD_def spi_placed_def)
  let ?s = "with_dev (settle u (kdev s)) s"
  have and43: "(w AND 4) AND 3 = 0" for w :: u32 by (simp add: and.assoc)
  have "chip_ready P ?s" using assms and43 by (simp add: chip_ready_def idle_def settle_def hsfsc_def spi_placed_def)
  moreover have r: "rest ?s = rest s" by (rule rest_eqI) (simp_all add: settle_def del: bar_def)
  moreover have "bc ?s = bc s"
  proof -
    have "hide (k_mem (kdev ?s)) bc_addr = hide (k_mem (kdev s)) bc_addr" using rest_parts(2) [OF r] by simp
    then show ?thesis by (simp add: bc_def hide_def)
  qed
  moreover have "apart (bar + 4) 4 (bar + 0x10) 64" by (simp add: apart_def unat_m1)
  then have "fdata ?s = fdata s" by (simp add: fdata_def settle_def storew_def loadn_storen_apart del: bar_def)
  ultimately show thesis using that u by (simp add: flash_of_def settle_def)
qed

end

lemma bc_rest: "rest s' = rest s \<Longrightarrow> bc s' = bc s"
proof -
  assume "rest s' = rest s"
  from rest_parts(2) [OF this] have "hide (k_mem (kdev s')) bc_addr = hide (k_mem (kdev s)) bc_addr" by (simp only:)
  then show ?thesis by (simp add: bc_def hide_def)
qed

text \<open>How a command leaves the state, given the state after its cycles.\<close>

definition ends :: "FLASH_CYCLE_TYPE \<Rightarrow> spi_chip spi \<Rightarrow> spi_chip spi \<Rightarrow> spi_chip spi \<Rightarrow> bool" where
  "ends c s s4 s' \<longleftrightarrow> like s s' \<and> k_io (kdev s') = k_io (kdev s) \<and> spi_ram s' = spi_ram s4 \<and>
     flash_of s' = flash_of s4 \<and> k_busy (kdev s') = k_busy (kdev s4) \<and> k_cycles (kdev s') = k_cycles (kdev s4) \<and>
     k_time (kdev s') = k_time (kdev s4) \<and>
     bc s' = (if writes_flash c then bc s AND NOT (BIT 0) else bc s)"

text \<open>A state in which the cycles of a command begin.\<close>

definition begun :: "chip_par \<Rightarrow> FLASH_CYCLE_TYPE \<Rightarrow> spi_chip spi \<Rightarrow> spi_chip spi \<Rightarrow> bool" where
  "begun P c s s3 \<longleftrightarrow> chip_ready P s3 \<and> like s s3 \<and> k_io (kdev s3) = k_io (kdev (quiet P s)) \<and>
     spi_ram s3 = spi_ram s \<and> flash_of s3 = flash_of s \<and> k_cycles (kdev s3) = k_cycles (kdev s) \<and> fdata s3 = fdata s \<and>
     bc s3 = opened_bc c (bc s)"

text \<open>What the cycles may change: all but BC, IO space and the registers that a command leaves alone.\<close>

definition within :: "chip_par \<Rightarrow> spi_chip spi \<Rightarrow> spi_chip spi \<Rightarrow> bool" where
  "within P s3 s4 \<longleftrightarrow> chip_ready P s4 \<and> like s3 s4 \<and> k_io (kdev s4) = k_io (kdev s3) \<and> bc s4 = bc s3"

lemma within_rest: "rest s' = rest s \<Longrightarrow> chip_ready P s' \<Longrightarrow> within P s s'"
  unfolding within_def by (blast intro: like_rest rest_parts(3) bc_rest)

context spi_phase
begin

lemma run_prologue:
  assumes "spi_placed P ph s"
  shows "run_state (do {
      PchSpiBar0 \<leftarrow> AcquireSpiBar0 hk;
      SpiBaseAddress \<leftarrow> of_inst PchSpiBase;
      ABase \<leftarrow> of_inst PchAcpiBase;
      SmiEnSave \<leftarrow> PortRead32 (spi_chip_hw P) (ucast ABase + ucast R_PCH_SMI_EN);
      PortWrite32 (spi_chip_hw P) (ucast ABase + ucast R_PCH_SMI_EN) (SmiEnSave AND NOT B_PCH_SMI_EN_GBL_SMI);
      bc \<leftarrow> spi_on_sys (MmioRead8 (mmio (spi_chip_hw P)) (SpiBaseAddress + R_PCH_SPI_BC));
      State_Monad.return (PchSpiBar0, ABase, SpiBaseAddress, SmiEnSave, bc AND B_PCH_SPI_BC_SRC) }) s =
    ((bar, p_abase P, 0x800FD000, smi_en P s, bc s AND (BIT 3 OR BIT 2)), quiet P s)"
  using assms acquire [OF assms]
  by (simp add: run_bind run_return spi_placed_def in32_def smi_en_def smi_port_def quiet_def loadw_byte bc_def
      R_PCH_SMI_EN_def B_PCH_SMI_EN_GBL_SMI_def R_PCH_SPI_BC_def B_PCH_SPI_BC_SRC_def)

lemma run_epilogue:
  assumes s: "spi_placed P ph s" and l: "like s s4" and q: "k_io (kdev s4) = k_io (kdev (quiet P s))"
    and b: "bc s4 = opened_bc c (bc s) \<or> bc s4 = bc s"
  shows "\<exists>s'. run_state (do {
      close_flash (spi_chip_hw P) hk 0x800FD000 c (bc s AND (BIT 3 OR BIT 2));
      PortWrite32 (spi_chip_hw P) (ucast (p_abase P) + ucast R_PCH_SMI_EN) (smi_en P s);
      ReleaseSpiBar0 hk }) s4 = ((), s') \<and> ends c s s4 s'"
proof -
  from run_close [OF like_placed [OF l s], of c "bc s AND (BIT 3 OR BIT 2)"] obtain s5 where
    s5: "run_state (close_flash (spi_chip_hw P) hk 0x800FD000 c (bc s AND (BIT 3 OR BIT 2))) s4 = ((), s5)"
      "same_but_bc s4 s5" "bc s5 = closed_bc c (bc s AND (BIT 3 OR BIT 2)) (bc s4)" by blast
  let ?s' = "with_dev ((kdev s5)\<lparr> k_io := storew 4 (k_io (kdev s5)) (smi_port P) (smi_en P s) \<rparr>) s5"
  have bc: "bc ?s' = (if writes_flash c then bc s AND NOT (BIT 0) else bc s)"
    using b s5(3) closed_opened [of c "bc s"] closed_unopened [of c "bc s"] by (auto simp: bc_def)
  have "k_io (kdev s5) = storew 4 (k_io (kdev s)) (smi_port P) (smi_en P s AND NOT (BIT 0))"
    using q same_but_bc_parts(1) [OF s5(2)] by (simp add: quiet_def)
  then have io: "k_io (kdev ?s') = k_io (kdev s)" by (simp add: storew_restore smi_en_def)
  have "like s5 ?s'" by (simp add: like_def)
  then have "like s ?s'" using l like_same_but_bc [OF s5(2)] by (blast intro: like_trans)
  then have "ends c s s4 ?s'"
    using bc io same_but_bc_parts(2,3,4,6,8) [OF s5(2)] by (simp add: ends_def) (simp add: flash_of_def)
  moreover have "ucast (p_abase P) + ucast R_PCH_SMI_EN = smi_port P" by (simp add: smi_port_def R_PCH_SMI_EN_def)
  ultimately show ?thesis
    using s5(1) release by (simp add: run_bind)
qed

text \<open>A command that may begin: the checks of its state decide, then the cycles run.\<close>

lemma command_begins:
  assumes P: "timer_runs P" "p_busy P < 600000" and s: "spi_placed P ph s" "k_busy (kdev s) < 600000"
    and free: "\<not> (writes_flash c \<and> locked s)"
  obtains s3 where "begun P c s s3"
    and "run_command (spi_chip_hw P) hk 0x800FD000 bar t c Address ByteCount Buffer (quiet P s) =
      (case verdict s t c Address ByteCount of
         Inl st \<Rightarrow> Some (st, s3)
       | Inr (a, FC) \<Rightarrow> spi_cycles (spi_chip_hw P) bar c FC a ByteCount Buffer s3)"
proof -
  have q: "spi_placed P ph (quiet P s)" by (rule like_placed [OF like_quiet s(1)])
  have "\<not> (writes_flash c \<and> locked (quiet P s))" using free locked_bc [of "quiet P s" s] by simp
  from run_open [OF q this] obtain s1 where s1: "run_state (open_flash (spi_chip_hw P) hk 0x800FD000 c) (quiet P s) = (EFI_SUCCESS, s1)"
    "same_but_bc (quiet P s) s1" "bc s1 = opened_bc c (bc s)" by auto
  have l1: "like s s1" by (rule like_trans [OF like_quiet like_same_but_bc [OF s1(2)]])
  have "k_busy (kdev s1) < 600000" using same_but_bc_parts(4) [OF s1(2)] s(2) by simp
  from waited [OF P like_placed [OF l1 s(1)] this] obtain s2 where
    s2: "WaitForSpiCycleComplete (spi_chip_hw P) bar False s1 = Some (True, s2)" "chip_ready P s2"
      "rest s2 = rest s1" "spi_ram s2 = spi_ram s1" "flash_of s2 = flash_of s1" "bc s2 = bc s1"
      "k_cycles (kdev s2) = k_cycles (kdev s1)" "fdata s2 = fdata s1" by blast
  have l2: "like s s2" by (rule like_trans [OF l1 like_rest [OF s2(3)]])
  have b2: "begun P c s s2"
    using s1(3) s2 l2 same_but_bc_parts(1,2,3,6,7) [OF s1(2)] rest_parts(3) [OF s2(3)] by (simp add: begun_def)
  have bn: "begun P c s (note_permission c t s2)"
    using b2 like_trans [OF l2 like_note] by (simp add: begun_def note_state)
  note chk = run_check [OF like_placed [OF l2 s(1)], of t c Address ByteCount]
  have v: "verdict s2 t c Address ByteCount = verdict s t c Address ByteCount" by (rule like_verdict [OF l2])
  let ?s3 = "case region_at s2 t of Inl st \<Rightarrow> s2 | Inr (Base, Size) \<Rightarrow> if Address + ByteCount > Size then s2 else note_permission c t s2"
  have "begun P c s ?s3" using b2 bn by (auto split: sum.split)
  moreover have "run_command (spi_chip_hw P) hk 0x800FD000 bar t c Address ByteCount Buffer (quiet P s) =
      (case verdict s t c Address ByteCount of
         Inl st \<Rightarrow> Some (st, ?s3)
       | Inr (a, FC) \<Rightarrow> spi_cycles (spi_chip_hw P) bar c FC a ByteCount Buffer ?s3)"
    unfolding run_command_def s1(1) prod.case s2(1) bind_Some chk v
    by (simp del: bar_def split: sum.split prod.split)
  ultimately show thesis by (rule that)
qed

end

end
