(* ===== verification/SpiCommands.thy ===== *)
theory SpiCommands
  imports SpiRuns
begin

text \<open>
  The services of the SPI flash driver on the chip, in the three phases of the boot: reading, writing and
  erasing; that they return whatever the flash does, that they keep to the range, and what they restore.
\<close>

section \<open>A whole command\<close>

context spi_phase
begin

lemma command_ends:
  assumes P: "timer_runs P" "p_busy P < 600000" and s: "spi_placed P ph s" "k_busy (kdev s) < 600000"
    and free: "\<not> (writes_flash c \<and> locked s)"
    and cycles: "\<And>s3. begun P c s s3 \<Longrightarrow>
      \<exists>st s4. (case verdict s t c Address ByteCount of
         Inl st \<Rightarrow> Some (st, s3)
       | Inr (a, FC) \<Rightarrow> spi_cycles (spi_chip_hw P) bar c FC a ByteCount Buffer s3) = Some (st, s4) \<and>
        within P s3 s4 \<and> Q st s4"
  shows "\<exists>st s' s4. SendSpiCmd (spi_chip_hw P) hk t c Address ByteCount Buffer s = Some (st, s') \<and> Q st s4 \<and> ends c s s4 s'"
proof -
  from command_begins [OF P s free] obtain s3 where s3: "begun P c s s3"
    "run_command (spi_chip_hw P) hk 0x800FD000 bar t c Address ByteCount Buffer (quiet P s) =
      (case verdict s t c Address ByteCount of
         Inl st \<Rightarrow> Some (st, s3)
       | Inr (a, FC) \<Rightarrow> spi_cycles (spi_chip_hw P) bar c FC a ByteCount Buffer s3)" by blast
  from cycles [OF s3(1)] obtain st s4 where s4: "run_command (spi_chip_hw P) hk 0x800FD000 bar t c Address ByteCount Buffer (quiet P s) = Some (st, s4)"
    "within P s3 s4" "Q st s4" unfolding s3(2) by blast
  have l: "like s s4" "k_io (kdev s4) = k_io (kdev (quiet P s))" "bc s4 = opened_bc c (bc s) \<or> bc s4 = bc s"
    using s3(1) s4(2) by (auto simp: begun_def within_def intro: like_trans)
  from run_epilogue [OF s(1) l] obtain s' where s': "run_state (do {
      close_flash (spi_chip_hw P) hk 0x800FD000 c (bc s AND (BIT 3 OR BIT 2));
      PortWrite32 (spi_chip_hw P) (ucast (p_abase P) + ucast R_PCH_SMI_EN) (smi_en P s);
      ReleaseSpiBar0 hk }) s4 = ((), s')" "ends c s s4 s'" by blast
  have "SendSpiCmd (spi_chip_hw P) hk t c Address ByteCount Buffer s = Some (st, s')"
    unfolding SendSpiCmd_def run_prologue [OF s(1)] Let_def prod.case s4(1) option.case s'(1) by simp
  then show ?thesis using s4(3) s'(2) by blast
qed

text \<open>Where the protection cannot be taken off, nothing is tried.\<close>

lemma command_denied:
  assumes s: "spi_placed P ph s" and locked: "writes_flash c" "locked s"
  shows "\<exists>s'. SendSpiCmd (spi_chip_hw P) hk t c Address ByteCount Buffer s = Some (EFI_ACCESS_DENIED, s') \<and> ends c s (quiet P s) s'"
proof -
  have q: "spi_placed P ph (quiet P s)" "locked (quiet P s)"
    using like_placed [OF like_quiet s] locked(2) locked_bc [of "quiet P s" s] by simp_all
  have "run_state (open_flash (spi_chip_hw P) hk 0x800FD000 c) (quiet P s) = (EFI_ACCESS_DENIED, quiet P s)"
    using refuse [OF q] locked(1) by (simp add: open_flash_def run_bind run_return)
  then have "run_command (spi_chip_hw P) hk 0x800FD000 bar t c Address ByteCount Buffer (quiet P s) = Some (EFI_ACCESS_DENIED, quiet P s)"
    by (simp add: run_command_def)
  note cmd = this
  have b: "bc (quiet P s) = opened_bc c (bc s) \<or> bc (quiet P s) = bc s" by simp
  from run_epilogue [OF s like_quiet refl b] obtain s' where s': "run_state (do {
      close_flash (spi_chip_hw P) hk 0x800FD000 c (bc s AND (BIT 3 OR BIT 2));
      PortWrite32 (spi_chip_hw P) (ucast (p_abase P) + ucast R_PCH_SMI_EN) (smi_en P s);
      ReleaseSpiBar0 hk }) (quiet P s) = ((), s')" "ends c s (quiet P s) s'" by blast
  have "SendSpiCmd (spi_chip_hw P) hk t c Address ByteCount Buffer s = Some (EFI_ACCESS_DENIED, s')"
    unfolding SendSpiCmd_def run_prologue [OF s] Let_def prod.case cmd option.case s'(1) by simp
  then show ?thesis using s'(2) by blast
qed

end

section \<open>The range of a command\<close>

text \<open>The flash addresses of \<open>n\<close> bytes at \<open>Address\<close> of the region \<open>t\<close>, when they lie in the region and
  the region in the flash.\<close>

definition in_region :: "spi_chip spi \<Rightarrow> u32 \<Rightarrow> u32 \<Rightarrow> u32 \<Rightarrow> nat \<Rightarrow> bool" where
  "in_region s t Address n a \<longleftrightarrow> (case region_at s t of Inl _ \<Rightarrow> False | Inr (Base, Size) \<Rightarrow>
     unat Base + unat Size \<le> 2 ^ 27 \<and> unat Address + unat n \<le> unat Size \<and> a = unat Base + unat Address)"

lemma in_regionE:
  assumes "in_region s t Address n a" "may c s t"
  obtains Base where "verdict s t c Address n = map_sum id (\<lambda>FC. (Base + Address, FC)) (flash_cycle c (Base + Address) n)"
    "unat (Base + Address) = a" "a + unat n \<le> 2 ^ 27"
proof -
  from assms(1) obtain Base Size where r: "region_at s t = Inr (Base, Size)" "unat Base + unat Size \<le> 2 ^ 27"
    "unat Address + unat n \<le> unat Size" "a = unat Base + unat Address"
    by (auto simp: in_region_def split: sum.splits)
  have "unat (Address + n) = unat Address + unat n" using r(2,3) by (simp add: unat_word_ariths)
  then have "\<not> Address + n > Size" using r(3) by (simp add: word_less_nat_alt)
  then have "verdict s t c Address n = map_sum id (\<lambda>FC. (Base + Address, FC)) (flash_cycle c (Base + Address) n)"
    using r(1) assms(2) by (simp add: verdict_def)
  moreover have "unat (Base + Address) = a" using r(2,3,4) by (simp add: unat_word_ariths)
  ultimately show thesis using that r(2,3,4) by simp
qed

lemma erase_check:
  assumes "in_region s t Address n a" "may FlashCycleErase s t" "4096 dvd a" "4096 dvd unat n"
  obtains h where "verdict s t FlashCycleErase Address n = Inr (h, 0)" "unat h = a" "a + unat n \<le> 2 ^ 27"
proof -
  from in_regionE [OF assms(1,2)] obtain Base where b:
    "verdict s t FlashCycleErase Address n = map_sum id (\<lambda>FC. (Base + Address, FC)) (flash_cycle FlashCycleErase (Base + Address) n)"
    "unat (Base + Address) = a" "a + unat n \<le> 2 ^ 27" by auto
  have "unat n mod 4096 = 0" "unat (Base + Address) mod 4096 = 0" using assms(3,4) b(2) by simp_all
  then have "n mod SIZE_4KB = 0" "(Base + Address) mod SIZE_4KB = 0"
    by (simp_all only: word_unat_eq_iff unat_mod SIZE_4KB_def) simp_all
  then have "verdict s t FlashCycleErase Address n = Inr (Base + Address, 0)" using b(1) by (simp add: flash_cycle_def)
  then show thesis using b(2,3) by (rule that)
qed

lemma begun_writes: "begun P c s s3 \<Longrightarrow> writes_flash c \<Longrightarrow> chip_refuses P s3 k a \<longleftrightarrow> p_fails P k a"
proof -
  assume "begun P c s s3" "writes_flash c"
  then have "bc s3 = ((bc s OR BIT 0) AND NOT (BIT 3 OR BIT 2)) OR BIT 2" by (simp add: begun_def opened_bc_def)
  then have "bit (bc s3) 0" by (simp add: bit_simps del: push_bit_of_1)
  then have "write_enabled (kdev s3)" by (simp add: write_enabled_def bc_def)
  then show ?thesis by (simp add: chip_refuses_def cycle_fails_def)
qed

lemma reads_refused: "chip_refuses P s3 0 a \<longleftrightarrow> p_fails P 0 a"
  by (simp add: chip_refuses_def cycle_fails_def)

text \<open>The state at the end of a command, without the buffer and the flash.\<close>

definition restored :: "FLASH_CYCLE_TYPE \<Rightarrow> spi_chip spi \<Rightarrow> spi_chip spi \<Rightarrow> bool" where
  "restored c s s' \<longleftrightarrow> like s s' \<and> k_io (kdev s') = k_io (kdev s) \<and> k_busy (kdev s') = 0 \<and>
     bc s' = (if writes_flash c then bc s AND NOT (BIT 0) else bc s)"

lemma ends_restored: "ends c s s4 s' \<Longrightarrow> k_busy (kdev s4) = 0 \<Longrightarrow> restored c s s'"
  by (simp add: ends_def restored_def)

lemma ready_busy: "chip_ready P s \<Longrightarrow> k_busy (kdev s) = 0"
  by (simp add: chip_ready_def idle_def)

text \<open>How an erase of \<open>n\<close> bytes at \<open>a\<close> ends: \<open>k\<close> bytes are erased by the first \<open>m\<close> cycles of the plan, all
  of them, or up to the one that failed.\<close>

definition erase_result :: "chip_par \<Rightarrow> (nat \<Rightarrow> bool) \<Rightarrow> spi_chip spi \<Rightarrow> nat \<Rightarrow> nat \<Rightarrow> efi_status \<Rightarrow> nat \<Rightarrow> nat \<Rightarrow> spi_chip spi \<Rightarrow> bool" where
  "erase_result P big s a n st k m s' \<longleftrightarrow> (let plan = erase_plan big (a + n) a in
     k_cycles (kdev s') = k_cycles (kdev s) @ take m plan \<and>
     (st = EFI_SUCCESS \<and> k = n \<and> m = length plan \<or>
      st = EFI_DEVICE_ERROR \<and> k < n \<and> 0 < m \<and> m \<le> length plan \<and>
        (\<exists>c. plan ! (m - 1) = (c, a + k, 64) \<and> p_fails P c (a + k))))"

section \<open>The services in a phase\<close>

context spi_phase
begin

lemma read_command:
  assumes P: "timer_runs P" "p_busy P < 600000" and s: "spi_placed P ph s" "k_busy (kdev s) < 600000"
    and a: "in_region s t Address n a" "may FlashCycleRead s t" and n: "0 < unat n"
  shows "\<exists>st s' k. SpiProtocolFlashRead (spi_chip_hw P) hk t Address n Buffer s = Some (st, s') \<and>
    restored FlashCycleRead s s' \<and> flash_of s' = flash_of s \<and>
    spi_ram s' = storen (spi_ram s) Buffer (map (flash_of s) [a..<a + k]) \<and>
    (st = EFI_SUCCESS \<and> k = unat n \<or> st = EFI_DEVICE_ERROR \<and> k < unat n \<and> p_fails P 0 (a + k))"
proof -
  let ?Q = "\<lambda>st s4. k_busy (kdev s4) = 0 \<and> flash_of s4 = flash_of s \<and>
    (\<exists>k. spi_ram s4 = storen (spi_ram s) Buffer (map (flash_of s) [a..<a + k]) \<and>
      (st = EFI_SUCCESS \<and> k = unat n \<or> st = EFI_DEVICE_ERROR \<and> k < unat n \<and> p_fails P 0 (a + k)))"
  from in_regionE [OF a] obtain Base where b:
    "verdict s t FlashCycleRead Address n = Inr (Base + Address, hw_cycle 0)" "unat (Base + Address) = a" "a + unat n \<le> 2 ^ 27"
    by (auto simp: flash_cycle_def V_PCH_SPI_HSFSC_CYCLE_READ_def)
  have "\<exists>st s' s4. SendSpiCmd (spi_chip_hw P) hk t FlashCycleRead Address n Buffer s = Some (st, s') \<and> ?Q st s4 \<and> ends FlashCycleRead s s4 s'"
  proof (rule command_ends [OF P s])
    show "\<not> (writes_flash FlashCycleRead \<and> locked s)" by (simp add: writes_flash_def)
    fix s3 assume s3: "begun P FlashCycleRead s s3"
    then have r3: "chip_ready P s3" "spi_ram s3 = spi_ram s" "flash_of s3 = flash_of s" by (simp_all add: begun_def)
    have fit: "unat (Base + Address) + unat n \<le> 2 ^ 27" using b by simp
    obtain st s4 k where c: "spi_cycles (spi_chip_hw P) bar FlashCycleRead (hw_cycle 0) (Base + Address) n Buffer s3 = Some (st, s4)"
      "chip_ready P s4" "rest s4 = rest s3" "flash_of s4 = flash_of s3"
      "spi_ram s4 = storen (spi_ram s3) Buffer (map (flash_of s3) [unat (Base + Address)..<unat (Base + Address) + k])"
      "st = EFI_SUCCESS \<and> k = unat n \<or> st = EFI_DEVICE_ERROR \<and> k < unat n \<and> chip_refuses P s3 0 (unat (Base + Address) + k)"
      by (rule chip.read_transfer [OF r3(1) fit n])
    have "?Q st s4" using c r3 b(2) ready_busy by (auto simp: reads_refused)
    then show "\<exists>st s4. (case verdict s t FlashCycleRead Address n of Inl st \<Rightarrow> Some (st, s3)
        | Inr (a, FC) \<Rightarrow> spi_cycles (spi_chip_hw P) bar FlashCycleRead FC a n Buffer s3) = Some (st, s4) \<and>
        within P s3 s4 \<and> ?Q st s4"
      using c(1) within_rest [OF c(3,2)] b(1) by auto
  qed
  then obtain st s' s4 where r: "SendSpiCmd (spi_chip_hw P) hk t FlashCycleRead Address n Buffer s = Some (st, s')" "?Q st s4"
    "ends FlashCycleRead s s4 s'" by blast
  have "restored FlashCycleRead s s'" by (rule ends_restored [OF r(3)]) (use r(2) in simp)
  moreover have "flash_of s' = flash_of s4" "spi_ram s' = spi_ram s4" using r(3) by (simp_all add: ends_def)
  ultimately show ?thesis unfolding SpiProtocolFlashRead_def using r(1,2) by metis
qed

lemma write_command:
  assumes P: "timer_runs P" "p_busy P < 600000" and s: "spi_placed P ph s" "k_busy (kdev s) < 600000" and free: "\<not> locked s"
    and a: "in_region s t Address n a" "may FlashCycleWrite s t" and n: "0 < unat n"
  shows "\<exists>st s' k. SpiProtocolFlashWrite (spi_chip_hw P) hk t Address n Buffer s = Some (st, s') \<and>
    restored FlashCycleWrite s s' \<and> spi_ram s' = spi_ram s \<and>
    flash_of s' = programmed a (loadn (spi_ram s) Buffer k) (flash_of s) \<and>
    (st = EFI_SUCCESS \<and> k = unat n \<or> st = EFI_DEVICE_ERROR \<and> k < unat n \<and> p_fails P 2 (a + k))"
proof -
  let ?Q = "\<lambda>st s4. k_busy (kdev s4) = 0 \<and> spi_ram s4 = spi_ram s \<and>
    (\<exists>k. flash_of s4 = programmed a (loadn (spi_ram s) Buffer k) (flash_of s) \<and>
      (st = EFI_SUCCESS \<and> k = unat n \<or> st = EFI_DEVICE_ERROR \<and> k < unat n \<and> p_fails P 2 (a + k)))"
  from in_regionE [OF a] obtain Base where b:
    "verdict s t FlashCycleWrite Address n = Inr (Base + Address, hw_cycle 2)" "unat (Base + Address) = a" "a + unat n \<le> 2 ^ 27"
    by (auto simp: flash_cycle_def V_PCH_SPI_HSFSC_CYCLE_WRITE_def)
  have w: "writes_flash FlashCycleWrite" by (simp add: writes_flash_def)
  have "\<exists>st s' s4. SendSpiCmd (spi_chip_hw P) hk t FlashCycleWrite Address n Buffer s = Some (st, s') \<and> ?Q st s4 \<and> ends FlashCycleWrite s s4 s'"
  proof (rule command_ends [OF P s])
    show "\<not> (writes_flash FlashCycleWrite \<and> locked s)" using free by simp
    fix s3 assume s3: "begun P FlashCycleWrite s s3"
    then have r3: "chip_ready P s3" "spi_ram s3 = spi_ram s" "flash_of s3 = flash_of s" by (simp_all add: begun_def)
    have fit: "unat (Base + Address) + unat n \<le> 2 ^ 27" using b by simp
    obtain st s4 k where c: "spi_cycles (spi_chip_hw P) bar FlashCycleWrite (hw_cycle 2) (Base + Address) n Buffer s3 = Some (st, s4)"
      "chip_ready P s4" "rest s4 = rest s3" "spi_ram s4 = spi_ram s3"
      "flash_of s4 = programmed (unat (Base + Address)) (loadn (spi_ram s3) Buffer k) (flash_of s3)"
      "st = EFI_SUCCESS \<and> k = unat n \<or> st = EFI_DEVICE_ERROR \<and> k < unat n \<and> chip_refuses P s3 2 (unat (Base + Address) + k)"
      by (rule chip.write_transfer [OF r3(1) fit n])
    have "?Q st s4" using c r3 b(2) ready_busy begun_writes [OF s3 w] by auto
    then show "\<exists>st s4. (case verdict s t FlashCycleWrite Address n of Inl st \<Rightarrow> Some (st, s3)
        | Inr (a, FC) \<Rightarrow> spi_cycles (spi_chip_hw P) bar FlashCycleWrite FC a n Buffer s3) = Some (st, s4) \<and>
        within P s3 s4 \<and> ?Q st s4"
      using c(1) within_rest [OF c(3,2)] b(1) by auto
  qed
  then obtain st s' s4 where r: "SendSpiCmd (spi_chip_hw P) hk t FlashCycleWrite Address n Buffer s = Some (st, s')" "?Q st s4"
    "ends FlashCycleWrite s s4 s'" by blast
  have "restored FlashCycleWrite s s'" by (rule ends_restored [OF r(3)]) (use r(2) in simp)
  moreover have "flash_of s' = flash_of s4" "spi_ram s' = spi_ram s4" using r(3) by (simp_all add: ends_def)
  ultimately show ?thesis unfolding SpiProtocolFlashWrite_def using r(1,2) by metis
qed

lemma erase_verdict:
  assumes P: "timer_runs P" "p_busy P < 600000" and s: "spi_placed P ph s" "k_busy (kdev s) < 600000" and free: "\<not> locked s"
    and v: "verdict s t FlashCycleErase Address n = Inr (h, 0)" "unat h + unat n \<le> 2 ^ 27" and n: "0 < unat n"
    and aligned: "4096 dvd unat h" "4096 dvd unat n"
  shows "\<exists>st s' k m. SpiProtocolFlashErase (spi_chip_hw P) hk t Address n s = Some (st, s') \<and>
    restored FlashCycleErase s s' \<and> spi_ram s' = spi_ram s \<and> flash_of s' = erased (unat h) k (flash_of s) \<and>
    erase_result P (erases_64KB (spi_inst s)) s (unat h) (unat n) st k m s'"
proof -
  define plan where "plan = erase_plan (erases_64KB (spi_inst s)) (unat h + unat n) (unat h)"
  let ?Q = "\<lambda>st s4. k_busy (kdev s4) = 0 \<and> spi_ram s4 = spi_ram s \<and>
    (\<exists>k m. flash_of s4 = erased (unat h) k (flash_of s) \<and> erase_result P (erases_64KB (spi_inst s)) s (unat h) (unat n) st k m s4)"
  have w: "writes_flash FlashCycleErase" by (simp add: writes_flash_def)
  have "\<exists>st s' s4. SendSpiCmd (spi_chip_hw P) hk t FlashCycleErase Address n 0 s = Some (st, s') \<and> ?Q st s4 \<and> ends FlashCycleErase s s4 s'"
  proof (rule command_ends [OF P s])
    show "\<not> (writes_flash FlashCycleErase \<and> locked s)" using free by simp
    fix s3 assume s3: "begun P FlashCycleErase s s3"
    then have r3: "chip_ready P s3" "spi_ram s3 = spi_ram s" "flash_of s3 = flash_of s" "cycles_of s3 = cycles_of s"
      "erases_64KB (spi_inst s3) = erases_64KB (spi_inst s)"
      by (auto simp: begun_def cycles_of_def dest: like_inst(5))
    obtain st s4 k m where c: "spi_cycles (spi_chip_hw P) bar FlashCycleErase 0 h n 0 s3 = Some (st, s4)"
      "chip_ready P s4" "rest s4 = rest s3" "spi_ram s4 = spi_ram s3"
      "flash_of s4 = erased (unat h) k (flash_of s3)" "cycles_of s4 = cycles_of s3 @ take m plan"
      "st = EFI_SUCCESS \<and> k = unat n \<and> m = length plan \<or>
        st = EFI_DEVICE_ERROR \<and> k < unat n \<and> 0 < m \<and> m \<le> length plan \<and>
          (\<exists>c. plan ! (m - 1) = (c, unat h + k, 64) \<and> chip_refuses P s3 c (unat h + k))"
      unfolding plan_def r3(5) [symmetric] by (rule chip.erase_transfer [OF r3(1) v(2) n aligned])
    have "erase_result P (erases_64KB (spi_inst s)) s (unat h) (unat n) st k m s4"
      unfolding erase_result_def plan_def [symmetric]
      using c(6,7) r3(4) begun_writes [OF s3 w] by (auto simp: cycles_of_def)
    then have "?Q st s4" using c(2,4,5) r3 ready_busy by auto
    then show "\<exists>st s4. (case verdict s t FlashCycleErase Address n of Inl st \<Rightarrow> Some (st, s3)
        | Inr (a, FC) \<Rightarrow> spi_cycles (spi_chip_hw P) bar FlashCycleErase FC a n 0 s3) = Some (st, s4) \<and>
        within P s3 s4 \<and> ?Q st s4"
      using c(1) within_rest [OF c(3,2)] v by auto
  qed
  then obtain st s' s4 where r: "SendSpiCmd (spi_chip_hw P) hk t FlashCycleErase Address n 0 s = Some (st, s')" "?Q st s4"
    "ends FlashCycleErase s s4 s'" by blast
  have "restored FlashCycleErase s s'" by (rule ends_restored [OF r(3)]) (use r(2) in simp)
  moreover have e: "flash_of s' = flash_of s4" "spi_ram s' = spi_ram s4" "k_cycles (kdev s') = k_cycles (kdev s4)"
    using r(3) by (simp_all add: ends_def)
  moreover have "erase_result P big s a l st k m s4 \<Longrightarrow> erase_result P big s a l st k m s'" for big a l k m
    using e(3) by (simp add: erase_result_def)
  ultimately show ?thesis unfolding SpiProtocolFlashErase_def using r(1,2) by metis
qed

lemma erase_command:
  assumes P: "timer_runs P" "p_busy P < 600000" and s: "spi_placed P ph s" "k_busy (kdev s) < 600000" and free: "\<not> locked s"
    and a: "in_region s t Address n a" "may FlashCycleErase s t" and n: "0 < unat n"
    and aligned: "4096 dvd a" "4096 dvd unat n"
  shows "\<exists>st s' k m. SpiProtocolFlashErase (spi_chip_hw P) hk t Address n s = Some (st, s') \<and>
    restored FlashCycleErase s s' \<and> spi_ram s' = spi_ram s \<and> flash_of s' = erased a k (flash_of s) \<and>
    erase_result P (erases_64KB (spi_inst s)) s a (unat n) st k m s'"
proof -
  from erase_check [OF a aligned] obtain h where
    h: "verdict s t FlashCycleErase Address n = Inr (h, 0)" "unat h = a" "a + unat n \<le> 2 ^ 27" by blast
  show ?thesis using erase_verdict [OF P s free h(1) _ n] h(2,3) aligned by simp
qed

text \<open>A command that fails the checks runs no cycle.\<close>

lemma command_refused:
  assumes P: "timer_runs P" "p_busy P < 600000" and s: "spi_placed P ph s" "k_busy (kdev s) < 600000"
    and free: "\<not> (writes_flash c \<and> locked s)" and v: "verdict s t c Address n = Inl st"
  shows "\<exists>s'. SendSpiCmd (spi_chip_hw P) hk t c Address n Buffer s = Some (st, s') \<and>
    restored c s s' \<and> flash_of s' = flash_of s \<and> spi_ram s' = spi_ram s \<and> k_cycles (kdev s') = k_cycles (kdev s)"
proof -
  let ?Q = "\<lambda>st' s4. st' = st \<and> k_busy (kdev s4) = 0 \<and> flash_of s4 = flash_of s \<and> spi_ram s4 = spi_ram s \<and>
    k_cycles (kdev s4) = k_cycles (kdev s)"
  have "\<exists>st' s' s4. SendSpiCmd (spi_chip_hw P) hk t c Address n Buffer s = Some (st', s') \<and> ?Q st' s4 \<and> ends c s s4 s'"
  proof (rule command_ends [OF P s free])
    fix s3 assume "begun P c s s3"
    then show "\<exists>st' s4. (case verdict s t c Address n of Inl st \<Rightarrow> Some (st, s3)
        | Inr (a, FC) \<Rightarrow> spi_cycles (spi_chip_hw P) bar c FC a n Buffer s3) = Some (st', s4) \<and>
        within P s3 s4 \<and> ?Q st' s4"
      using v ready_busy by (auto simp: begun_def within_def)
  qed
  then obtain s' s4 where r: "SendSpiCmd (spi_chip_hw P) hk t c Address n Buffer s = Some (st, s')" "?Q st s4" "ends c s s4 s'"
    by blast
  have "restored c s s'" by (rule ends_restored [OF r(3)]) (use r(2) in simp)
  then show ?thesis using r by (simp add: ends_def)
qed

text \<open>A controller that stays busy is given up.\<close>

lemma command_times_out:
  assumes P: "timer_runs P" and s: "spi_placed P ph s" "600000 \<le> k_busy (kdev s)" and free: "\<not> (writes_flash c \<and> locked s)"
  shows "\<exists>s'. SendSpiCmd (spi_chip_hw P) hk t c Address n Buffer s = Some (EFI_DEVICE_ERROR, s') \<and>
    like s s' \<and> k_io (kdev s') = k_io (kdev s) \<and> flash_of s' = flash_of s \<and> spi_ram s' = spi_ram s \<and>
    k_cycles (kdev s') = k_cycles (kdev s) \<and> bc s' = (if writes_flash c then bc s AND NOT (BIT 0) else bc s) \<and>
    k_busy (kdev s') = k_busy (kdev s) - 600000 \<and> k_time (kdev s) + 36 * 600000 \<le> k_time (kdev s')"
proof -
  have q: "spi_placed P ph (quiet P s)" by (rule like_placed [OF like_quiet s(1)])
  have "\<not> (writes_flash c \<and> locked (quiet P s))" using free locked_bc [of "quiet P s" s] by simp
  from run_open [OF q this] obtain s1 where s1: "run_state (open_flash (spi_chip_hw P) hk 0x800FD000 c) (quiet P s) = (EFI_SUCCESS, s1)"
    "same_but_bc (quiet P s) s1" "bc s1 = opened_bc c (bc s)" by auto
  have l1: "like s s1" by (rule like_trans [OF like_quiet like_same_but_bc [OF s1(2)]])
  have busy: "600000 \<le> k_busy (kdev s1)" using same_but_bc_parts(4) [OF s1(2)] s(2) by simp
  have base: "PchAcpiBase (spi_inst s1) = p_abase P" using like_inst [OF l1] s(1) by (simp add: spi_placed_def)
  from wait_times_out [OF P busy base, of False] obtain u where
    u: "WaitForSpiCycleComplete (spi_chip_hw P) bar False s1 = Some (False, with_dev ((kdev s1)\<lparr> k_busy := k_busy (kdev s1) - 600000, k_time := u \<rparr>) s1)"
      "k_time (kdev s1) + 36 * 600000 \<le> u"
    by (auto simp: WaitForSpiCycleComplete_def SPI_WAIT_TIME_def SPI_WAIT_PERIOD_def)
  let ?s2 = "with_dev ((kdev s1)\<lparr> k_busy := k_busy (kdev s1) - 600000, k_time := u \<rparr>) s1"
  have cmd: "run_command (spi_chip_hw P) hk 0x800FD000 bar t c Address n Buffer (quiet P s) = Some (EFI_DEVICE_ERROR, ?s2)"
    unfolding run_command_def s1(1) prod.case u(1) bind_Some by (simp del: bar_def)
  have "rest ?s2 = rest s1" by (rule rest_eqI) simp_all
  then have l: "like s ?s2" by (rule like_trans [OF l1 like_rest])
  have io: "k_io (kdev ?s2) = k_io (kdev (quiet P s))" using same_but_bc_parts(1) [OF s1(2)] by simp
  have b: "bc ?s2 = opened_bc c (bc s) \<or> bc ?s2 = bc s" using s1(3) by (simp add: bc_def)
  from run_epilogue [OF s(1) l io b] obtain s' where s': "run_state (do {
      close_flash (spi_chip_hw P) hk 0x800FD000 c (bc s AND (BIT 3 OR BIT 2));
      PortWrite32 (spi_chip_hw P) (ucast (p_abase P) + ucast R_PCH_SMI_EN) (smi_en P s);
      ReleaseSpiBar0 hk }) ?s2 = ((), s')" "ends c s ?s2 s'" by blast
  have "SendSpiCmd (spi_chip_hw P) hk t c Address n Buffer s = Some (EFI_DEVICE_ERROR, s')"
    unfolding SendSpiCmd_def run_prologue [OF s(1)] Let_def prod.case cmd option.case s'(1) by simp
  then show ?thesis using s'(2) same_but_bc_parts(2,3,4,6,8) [OF s1(2)] u(2) by (auto simp: ends_def flash_of_def quiet_def)
qed

end

end
