(* ===== verification/SpiServices.thy ===== *)
theory SpiServices
  imports SpiCommands
begin

text \<open>
  The services of the SPI flash driver as its callers see them, in each phase of the boot: reading, writing
  and erasing keep to their range whatever the flash does, a sequence of requests acts on the flash as on a
  memory, and what a locked, a busy or a wrongly asked controller does.
\<close>

section \<open>The phases\<close>

definition phase_hooks :: "chip_par \<Rightarrow> boot_phase \<Rightarrow> spi_chip spi_hooks" where
  "phase_hooks P ph = (case ph of PEI \<Rightarrow> pei_hooks (spi_chip_hw P) | DXE \<Rightarrow> dxe_hooks (spi_chip_hw P)
     | SMM \<Rightarrow> smm_hooks (spi_chip_hw P))"

text \<open>Outside SMM the bit EISS keeps the flash from being written.\<close>

definition write_locked :: "boot_phase \<Rightarrow> spi_chip spi \<Rightarrow> bool" where
  "write_locked ph s \<longleftrightarrow> ph \<noteq> SMM \<and> locked_by_eiss s"

lemma phase_spi: "spi_phase P ph (phase_hooks P ph) (write_locked ph)"
proof (cases ph)
  case PEI
  then have "write_locked ph = locked_by_eiss" by (simp add: write_locked_def fun_eq_iff)
  then show ?thesis using PEI pei.spi_phase_axioms by (simp add: phase_hooks_def)
next
  case DXE
  then have "write_locked ph = locked_by_eiss" by (simp add: write_locked_def fun_eq_iff)
  then show ?thesis using DXE dxe.spi_phase_axioms by (simp add: phase_hooks_def)
next
  case SMM
  then have "write_locked ph = (\<lambda>_. False)" by (simp add: write_locked_def fun_eq_iff)
  then show ?thesis using SMM smm.spi_phase_axioms by (simp add: phase_hooks_def)
qed

interpretation any: spi_phase P ph "phase_hooks P ph" "write_locked ph" for P ph
  by (rule phase_spi)

text \<open>A controller in working order: the timer runs, cycles end in time, the driver has been set up.\<close>

definition spi_up :: "chip_par \<Rightarrow> boot_phase \<Rightarrow> spi_chip spi \<Rightarrow> bool" where
  "spi_up P ph s \<longleftrightarrow> timer_runs P \<and> p_busy P < 600000 \<and> spi_placed P ph s \<and> k_busy (kdev s) < 600000"

lemma spi_upD: "spi_up P ph s \<Longrightarrow> timer_runs P" "spi_up P ph s \<Longrightarrow> p_busy P < 600000" "spi_up P ph s \<Longrightarrow> spi_placed P ph s"
  "spi_up P ph s \<Longrightarrow> k_busy (kdev s) < 600000"
  by (simp_all add: spi_up_def)

lemma restored_up: "spi_up P ph s \<Longrightarrow> restored c s s' \<Longrightarrow> spi_up P ph s'"
  unfolding spi_up_def restored_def by (auto intro: like_placed)

lemma restored_locked: "restored c s s' \<Longrightarrow> write_locked ph s' = write_locked ph s"
  by (auto simp: restored_def write_locked_def locked_by_eiss_def bit_simps)

lemma like_may: "like s s' \<Longrightarrow> may c s' t = may c s t"
proof -
  assume l: "like s s'"
  have "plain_reg 2 (bar + 0x11C)" by (simp add: plain_reg_num unat_m1)
  from like_load [where ?'a = 16, OF l this] show ?thesis
    using like_inst [OF l] by (simp add: may_def write_permission_def)
qed

lemma like_in_region: "like s s' \<Longrightarrow> in_region s' t Address n a = in_region s t Address n a"
  by (simp add: in_region_def like_region)

section \<open>Requests\<close>

datatype spi_request = ReadRequest u32 u32 u32 u64 | WriteRequest u32 u32 u32 u64 | EraseRequest u32 u32 u32

definition serve :: "chip_par \<Rightarrow> boot_phase \<Rightarrow> spi_request \<Rightarrow> spi_chip spi \<Rightarrow> (efi_status \<times> spi_chip spi) option" where
  "serve P ph r = (case r of
     ReadRequest t Address n Buffer \<Rightarrow> SpiProtocolFlashRead (spi_chip_hw P) (phase_hooks P ph) t Address n Buffer
   | WriteRequest t Address n Buffer \<Rightarrow> SpiProtocolFlashWrite (spi_chip_hw P) (phase_hooks P ph) t Address n Buffer
   | EraseRequest t Address n \<Rightarrow> SpiProtocolFlashErase (spi_chip_hw P) (phase_hooks P ph) t Address n)"

fun serve_all :: "chip_par \<Rightarrow> boot_phase \<Rightarrow> spi_request list \<Rightarrow> spi_chip spi \<Rightarrow> (efi_status list \<times> spi_chip spi) option" where
  "serve_all P ph [] s = Some ([], s)"
| "serve_all P ph (r # rs) s = Option.bind (serve P ph r s) (\<lambda>(Status, s).
     Option.bind (serve_all P ph rs s) (\<lambda>(Statuses, s). Some (Status # Statuses, s)))"

text \<open>What the requests mean for a flash and the memory of the callers; \<open>at\<close> gives each region its base.\<close>

definition memory_step :: "(u32 \<Rightarrow> nat) \<Rightarrow> spi_request \<Rightarrow> (nat \<Rightarrow> u8) \<times> mem \<Rightarrow> (nat \<Rightarrow> u8) \<times> mem" where
  "memory_step at r = (\<lambda>(flash, ram). case r of
     ReadRequest t Address n Buffer \<Rightarrow>
       (flash, storen ram Buffer (map flash [at t + unat Address..<at t + unat Address + unat n]))
   | WriteRequest t Address n Buffer \<Rightarrow> (programmed (at t + unat Address) (loadn ram Buffer (unat n)) flash, ram)
   | EraseRequest t Address n \<Rightarrow> (erased (at t + unat Address) (unat n) flash, ram))"

definition region_base :: "spi_chip spi \<Rightarrow> u32 \<Rightarrow> nat" where
  "region_base s t = (case region_at s t of Inl _ \<Rightarrow> 0 | Inr (Base, Size) \<Rightarrow> unat Base)"

text \<open>Requests within a region that the permissions and the lock allow, erasing whole blocks.\<close>

definition allowed :: "boot_phase \<Rightarrow> spi_chip spi \<Rightarrow> spi_request \<Rightarrow> bool" where
  "allowed ph s r = (case r of
     ReadRequest t Address n _ \<Rightarrow> 0 < n \<and> in_region s t Address n (region_base s t + unat Address) \<and> may FlashCycleRead s t
   | WriteRequest t Address n _ \<Rightarrow> 0 < n \<and> in_region s t Address n (region_base s t + unat Address) \<and>
       may FlashCycleWrite s t \<and> \<not> write_locked ph s
   | EraseRequest t Address n \<Rightarrow> 0 < n \<and> in_region s t Address n (region_base s t + unat Address) \<and>
       may FlashCycleErase s t \<and> \<not> write_locked ph s \<and>
       4096 dvd (region_base s t + unat Address) \<and> 4096 dvd unat n)"

definition request_cycle :: "spi_request \<Rightarrow> FLASH_CYCLE_TYPE" where
  "request_cycle r = (case r of ReadRequest _ _ _ _ \<Rightarrow> FlashCycleRead | WriteRequest _ _ _ _ \<Rightarrow> FlashCycleWrite
     | EraseRequest _ _ _ \<Rightarrow> FlashCycleErase)"

lemma restored_allowed: "restored c s s' \<Longrightarrow> allowed ph s' r = allowed ph s r"
  "restored c s s' \<Longrightarrow> region_base s' = region_base s"
proof -
  assume r: "restored c s s'"
  then have l: "like s s'" by (simp add: restored_def)
  show b: "region_base s' = region_base s" by (simp add: region_base_def like_region [OF l] fun_eq_iff)
  show "allowed ph s' r = allowed ph s r"
    unfolding allowed_def b restored_locked [OF r] like_may [OF l] like_in_region [OF l] ..
qed

text \<open>One request on a flash that fails no cycle.\<close>

lemma serve_ok:
  assumes up: "spi_up P ph s" and ok: "allowed ph s r" and fine: "\<And>c a. \<not> p_fails P c a"
  shows "\<exists>s'. serve P ph r s = Some (EFI_SUCCESS, s') \<and> restored (request_cycle r) s s' \<and>
    (flash_of s', spi_ram s') = memory_step (region_base s) r (flash_of s, spi_ram s)"
proof (cases r)
  case (ReadRequest t Address n Buffer)
  with ok have a: "in_region s t Address n (region_base s t + unat Address)" "may FlashCycleRead s t" "0 < unat n"
    by (simp_all add: allowed_def word_gt_0 unat_gt_0)
  from any.read_command [OF spi_upD [OF up] a, of Buffer] fine ReadRequest show ?thesis
    by (auto simp: serve_def memory_step_def request_cycle_def)
next
  case (WriteRequest t Address n Buffer)
  with ok have a: "in_region s t Address n (region_base s t + unat Address)" "may FlashCycleWrite s t" "0 < unat n"
    and free: "\<not> write_locked ph s"
    by (simp_all add: allowed_def word_gt_0 unat_gt_0)
  from any.write_command [OF spi_upD [OF up] free a, of Buffer] fine WriteRequest show ?thesis
    by (auto simp: serve_def memory_step_def request_cycle_def)
next
  case (EraseRequest t Address n)
  with ok have a: "in_region s t Address n (region_base s t + unat Address)" "may FlashCycleErase s t" "0 < unat n"
    "4096 dvd (region_base s t + unat Address)" "4096 dvd unat n"
    and free: "\<not> write_locked ph s"
    by (simp_all add: allowed_def word_gt_0 unat_gt_0)
  from any.erase_command [OF spi_upD [OF up] free a] fine EraseRequest show ?thesis
    by (auto simp: serve_def memory_step_def request_cycle_def erase_result_def Let_def)
qed

text \<open>The write protection that a sequence leaves, and what it keeps.\<close>

definition protected_after :: "spi_request list \<Rightarrow> u8 \<Rightarrow> u8" where
  "protected_after rs b = (if \<exists>r\<in>set rs. writes_flash (request_cycle r) then b AND NOT (BIT 0) else b)"

lemma serve_all_ok:
  assumes "spi_up P ph s" "\<And>r. r \<in> set rs \<Longrightarrow> allowed ph s r" "\<And>c a. \<not> p_fails P c a"
  shows "\<exists>s'. serve_all P ph rs s = Some (replicate (length rs) EFI_SUCCESS, s') \<and> like s s' \<and> spi_up P ph s' \<and>
    k_io (kdev s') = k_io (kdev s) \<and> bc s' = protected_after rs (bc s) \<and>
    (flash_of s', spi_ram s') = fold (memory_step (region_base s)) rs (flash_of s, spi_ram s)"
  using assms(1,2)
proof (induction rs arbitrary: s)
  case Nil
  then show ?case by (simp add: protected_after_def)
next
  case (Cons r rs)
  from serve_ok [OF Cons.prems(1) _ assms(3), of r] Cons.prems(2) obtain s1 where
    s1: "serve P ph r s = Some (EFI_SUCCESS, s1)" "restored (request_cycle r) s s1"
      "(flash_of s1, spi_ram s1) = memory_step (region_base s) r (flash_of s, spi_ram s)" by auto
  have "spi_up P ph s1" by (rule restored_up [OF Cons.prems(1) s1(2)])
  moreover have "\<And>q. q \<in> set rs \<Longrightarrow> allowed ph s1 q"
    unfolding restored_allowed(1) [OF s1(2)] using Cons.prems(2) by simp
  ultimately obtain s' where s': "serve_all P ph rs s1 = Some (replicate (length rs) EFI_SUCCESS, s')"
    "like s1 s'" "spi_up P ph s'" "k_io (kdev s') = k_io (kdev s1)" "bc s' = protected_after rs (bc s1)"
    "(flash_of s', spi_ram s') = fold (memory_step (region_base s1)) rs (flash_of s1, spi_ram s1)"
    using Cons.IH by blast
  have "like s s'" using s1(2) s'(2) by (auto simp: restored_def intro: like_trans)
  moreover have "bc s' = protected_after (r # rs) (bc s)"
    using s1(2) s'(5) by (auto simp: restored_def protected_after_def and.assoc)
  moreover have "k_io (kdev s') = k_io (kdev s)" using s1(2) s'(4) by (simp add: restored_def)
  moreover have "(flash_of s', spi_ram s') = fold (memory_step (region_base s)) (r # rs) (flash_of s, spi_ram s)"
    using s'(6) by (simp add: s1(3) restored_allowed(2) [OF s1(2)])
  ultimately show ?case using s1(1) s'(1,3) by simp
qed

end
