(* ===== verification/SpiLimits.thy ===== *)
theory SpiLimits
  imports SpiServices
begin

text \<open>
  Commands at the limits of the checks of \<open>SendSpiCmd\<close>: counts of zero, for which the loop runs all the
  same, and an end address that wraps, which the check of the region lets pass.
\<close>

section \<open>Erasing no bytes\<close>

text \<open>The cycles of an erase whose count has wrapped: they run up to the end \<open>L\<close> of the flash.\<close>

lemma erase_to_end:
  assumes end_of_flash: "\<And>c x. c \<in> {3, 4} \<Longrightarrow> chip_refuses P s c x \<longleftrightarrow> L \<le> x" and L: "65536 dvd L" "L < 2 ^ 27"
  shows "chip_ready P s1 \<Longrightarrow> rest s1 = rest s \<Longrightarrow> unat a \<le> L \<Longrightarrow> 4096 dvd unat a \<Longrightarrow> 4096 dvd unat m \<Longrightarrow>
    2 ^ 32 \<le> unat a + unat m \<Longrightarrow>
    \<exists>s'. spi_cycles (spi_chip_hw P) bar FlashCycleErase FC a m b s1 = Some (EFI_DEVICE_ERROR, s') \<and>
      chip_ready P s' \<and> rest s' = rest s \<and> spi_ram s' = spi_ram s1 \<and>
      flash_of s' = erased (unat a) (L - unat a) (flash_of s1)"
proof (induction "L - unat a" arbitrary: a m b s1 rule: less_induct)
  case less
  have L27: "L < 134217728" and sum: "4294967296 \<le> unat a + unat m" using L(2) less.prems(6) by simp_all
  have big: "0 < unat m" using less.prems(3) sum L27 by linarith
  have a27: "unat a < 2 ^ 27" using less.prems(3) L27 by simp
  obtain c where c: "(erase_count (spi_inst s1) a m, c) \<in> {(0x1000, 3), (0x10000, 4 :: u32)}"
    "unat (erase_count (spi_inst s1) a m) dvd unat a" "unat (erase_count (spi_inst s1) a m) \<le> unat m"
    "c = erase_kind (erases_64KB (spi_inst s1)) (unat a + unat m) (unat a)" "unat (erase_count (spi_inst s1) a m) = erase_size c"
    by (rule erase_count_ok [OF less.prems(4,5) big])
  define cnt where "cnt = erase_count (spi_inst s1) a m"
  note c = c [folded cnt_def]
  have dc: "data_count (spi_inst s1) FlashCycleErase a m = cnt" by (simp add: data_count_def cnt_def)
  have ref: "chip_refuses P s1 c x \<longleftrightarrow> L \<le> x" for x
    using end_of_flash [of c x] chip.rest_refuses [OF less.prems(2), of P] c(1) by auto
  from chip.erase_cycle [OF less.prems(1) dc c(1) a27 c(2), of FC b] obtain s2 where
    s2: "one_cycle (spi_chip_hw P) bar FlashCycleErase FC a m b s1 = Some (if L \<le> unat a then None else Some cnt, s2)"
      "chip_ready P s2" "rest s2 = rest s1" "spi_ram s2 = spi_ram s1"
      "flash_of s2 = (if L \<le> unat a then flash_of s1 else erased (unat a) (unat cnt) (flash_of s1))"
    unfolding ref by blast
  show ?case
  proof (cases "L \<le> unat a")
    case True
    then have "L - unat a = 0" by simp
    then show ?thesis using s2 True less.prems(2) by (subst spi_cycles.simps) (simp add: erased_none)
  next
    case False
    have "unat cnt dvd 65536" "0 < unat cnt" "4096 dvd unat cnt" "unat cnt \<le> 65536" using c(1) by auto
    then have "unat cnt dvd L" using L(1) by (blast intro: dvd_trans)
    then have "unat cnt dvd L - unat a" using c(2) by (rule dvd_diff_nat)
    then have le: "unat cnt \<le> L - unat a" using False by (intro dvd_imp_le) simp_all
    have a': "unat (a + cnt) = unat a + unat cnt"
      using a27 \<open>unat cnt \<le> 65536\<close> by (simp add: unat_word_ariths)
    have m': "unat (m - cnt) = unat m - unat cnt" using c(3) by (subst Word.unat_sub) (simp_all add: word_le_nat_alt)
    have more: "unat cnt < unat m" using less.prems(3) sum L27 le False by linarith
    have run: "spi_cycles (spi_chip_hw P) bar FlashCycleErase FC a m b s1 =
        spi_cycles (spi_chip_hw P) bar FlashCycleErase FC (a + cnt) (m - cnt) (b + ucast cnt) s2"
      using s2(1) False less_irrefl [of "unat cnt"] more by (subst spi_cycles.simps, cases "m = cnt") (simp_all add: Let_def word_gt_0)
    have "L - unat (a + cnt) < L - unat a" using a' False \<open>0 < unat cnt\<close> by simp
    moreover have "rest s2 = rest s" using s2(3) less.prems(2) by simp
    moreover have "unat (a + cnt) \<le> L" using a' le False by simp
    moreover have "4096 dvd unat (a + cnt)" using a' less.prems(4) \<open>4096 dvd unat cnt\<close> by simp
    moreover have "4096 dvd unat (m - cnt)" using m' less.prems(5) \<open>4096 dvd unat cnt\<close> by simp
    moreover have "2 ^ 32 \<le> unat (a + cnt) + unat (m - cnt)" using a' m' c(3) less.prems(6) by simp
    ultimately obtain s' where s': "spi_cycles (spi_chip_hw P) bar FlashCycleErase FC (a + cnt) (m - cnt) (b + ucast cnt) s2 =
        Some (EFI_DEVICE_ERROR, s')" "chip_ready P s'" "rest s' = rest s" "spi_ram s' = spi_ram s2"
        "flash_of s' = erased (unat (a + cnt)) (L - unat (a + cnt)) (flash_of s2)"
      using less.hyps s2(2) by blast
    have "unat cnt + (L - unat (a + cnt)) = L - unat a" using a' le False by simp
    then have "flash_of s' = erased (unat a) (L - unat a) (flash_of s1)"
      using s'(5) s2(5) False a' erased_append [of "unat a" "unat cnt" "L - unat (a + cnt)" "flash_of s1"] by simp
    then show ?thesis using run s' s2(4) by simp
  qed
qed

lemma erase_zero_cycles:
  assumes s: "chip_ready P s" and end_of_flash: "\<And>c x. c \<in> {3, 4} \<Longrightarrow> chip_refuses P s c x \<longleftrightarrow> L \<le> x"
    and L: "65536 dvd L" "L < 2 ^ 27" and a: "unat a < L" "4096 dvd unat a"
  shows "\<exists>s'. spi_cycles (spi_chip_hw P) bar FlashCycleErase FC a 0 b s = Some (EFI_DEVICE_ERROR, s') \<and>
      chip_ready P s' \<and> rest s' = rest s \<and> spi_ram s' = spi_ram s \<and>
      flash_of s' = erased (unat a) (L - unat a) (flash_of s)"
proof -
  have dc: "data_count (spi_inst s) FlashCycleErase a 0 = 0x1000" by (simp add: data_count_def erase_count_def regs)
  have c: "(0x1000, 3) \<in> {(0x1000, 3), (0x10000, 4 :: u32)}" "unat (0x1000 :: u32) dvd unat a" "unat a < 2 ^ 27"
    using a L by simp_all
  have ref: "\<not> chip_refuses P s 3 (unat a)" using end_of_flash [of 3 "unat a"] a(1) by simp
  from chip.erase_cycle [OF s dc c(1,3,2), of FC b] obtain s2 where
    s2: "one_cycle (spi_chip_hw P) bar FlashCycleErase FC a 0 b s = Some (Some 0x1000, s2)"
      "chip_ready P s2" "rest s2 = rest s" "spi_ram s2 = spi_ram s" "flash_of s2 = erased (unat a) 4096 (flash_of s)"
    using ref by auto
  have a': "unat (a + 0x1000) = unat a + 4096" using c(3) by (simp add: unat_word_ariths)
  have "4096 dvd L" using L(1) by (rule dvd_trans [rotated]) simp
  then have "4096 dvd L - unat a" using a(2) by (rule dvd_diff_nat)
  then have le: "4096 \<le> L - unat a" using a(1) by (intro dvd_imp_le) simp_all
  have neg: "(- 4096 :: u32) = 0xFFFFF000" by simp
  have run: "spi_cycles (spi_chip_hw P) bar FlashCycleErase FC a 0 b s =
      spi_cycles (spi_chip_hw P) bar FlashCycleErase FC (a + 0x1000) 0xFFFFF000 (b + 0x1000) s2"
    using s2(1) by (subst spi_cycles.simps) (simp add: Let_def word_gt_0 neg)
  have in_flash: "unat a + 4096 \<le> L" using le a(1) by linarith
  from erase_to_end [OF end_of_flash L s2(2,3), of "a + 0x1000" "0xFFFFF000" FC "b + 0x1000"] a(2) in_flash
  obtain s' where s': "spi_cycles (spi_chip_hw P) bar FlashCycleErase FC (a + 0x1000) 0xFFFFF000 (b + 0x1000) s2 =
      Some (EFI_DEVICE_ERROR, s')" "chip_ready P s'" "rest s' = rest s" "spi_ram s' = spi_ram s2"
      "flash_of s' = erased (unat a + 4096) (L - (unat a + 4096)) (flash_of s2)"
    unfolding a' by auto
  have "4096 + (L - (unat a + 4096)) = L - unat a" using le by simp
  then have "flash_of s' = erased (unat a) (L - unat a) (flash_of s)"
    using s'(5) s2(5) erased_append [of "unat a" 4096 "L - (unat a + 4096)" "flash_of s"] by simp
  then show ?thesis using run s' s2(4) by simp
qed

section \<open>Programming no bytes\<close>

lemma loadn_0 [simp]: "loadn m b 0 = []"
  by (simp add: loadn_def)

lemma trim_zero: "unat a < 2 ^ 27 \<Longrightarrow> trim_count a 0 = 0"
proof -
  assume a: "unat a < 2 ^ 27"
  have "unat a < (unat a div 256 + 1) * 256"
    using mod_less_divisor [of 256 "unat a"] div_mult_mod_eq [of "unat a" 256] by (simp only: add_mult_distrib)
  then have "\<not> a > page_up a" using page_up_nat [OF a] by (simp only: word_less_nat_alt)
  then show ?thesis by (simp add: trim_count_def)
qed

text \<open>The cycle programs all data registers, as they are.\<close>

lemma write_zero_cycles:
  assumes s: "chip_ready P s" and a: "unat a < 2 ^ 27" and ok: "\<not> chip_refuses P s 2 (unat a)"
  shows "\<exists>s'. spi_cycles (spi_chip_hw P) bar FlashCycleWrite (hw_cycle 2) a 0 b s = Some (EFI_SUCCESS, s') \<and>
      chip_ready P s' \<and> rest s' = rest s \<and> spi_ram s' = spi_ram s \<and>
      flash_of s' = flash_program (unat a) (fdata s) (flash_of s)"
proof -
  have P: "timer_runs P" "p_busy P < 600000" and i: "idle P s" using s by (simp_all add: chip_ready_def)
  have dc: "data_count (spi_inst s) FlashCycleWrite a 0 = 0" using trim_zero [OF a] by (simp add: data_count_def)
  have cc: "cycle_code FlashCycleWrite (hw_cycle 2) 0 = hw_cycle 2" "take_bit 4 (2 :: u32) = 2" by (simp_all add: cycle_code_def)
  have n: "Suc (unat (take_bit 6 (0 - 1 :: u32))) = 64" by (simp add: mask_eq_exp_minus_1)
  have fd: "flash_program x (loadn (k_mem (prepared FlashCycleWrite a 0 b s)) (bar + 0x10) 64) (k_flash (prepared FlashCycleWrite a 0 b s)) =
      flash_program x (fdata s) (flash_of s)" for x
    using loadn_addr [of 64 "k_mem (kdev s)" a]
    by (simp add: prepared_def sends_data_def Let_def fdata_def flash_of_def loadn_0 del: bar_def)
  have ok': "\<not> cycle_fails P 2 (unat a) (kdev s)" using ok by (simp add: chip_refuses_def)
  show ?thesis
  proof (rule cycle_law [where Buffer = b, OF P i dc cc a, unfolded n], goal_cases)
    case (2 s' h u)
    then have s': "one_cycle (spi_chip_hw P) bar FlashCycleWrite (hw_cycle 2) a 0 b s = Some (Some 0, s')"
      "kept P s s'" "spi_ram s' = spi_ram s" "flash_of s' = flash_program (unat a) (fdata s) (flash_of s)"
      using ok' fd by (auto simp: reads_data_def cycle_data_def simp del: bar_def)
    then have "spi_cycles (spi_chip_hw P) bar FlashCycleWrite (hw_cycle 2) a 0 b s = Some (EFI_SUCCESS, s')"
      by (subst spi_cycles.simps) simp
    then show ?case using s' s by (simp add: kept_def chip_ready_def)
  qed simp
qed

section \<open>The commands\<close>

context spi_phase
begin

lemma erase_zero_command:
  assumes P: "timer_runs P" "p_busy P < 600000" and s: "spi_placed P ph s" "k_busy (kdev s) < 600000" and free: "\<not> locked s"
    and a: "in_region s t Address 0 a" "may FlashCycleErase s t" "4096 dvd a" "a < L"
    and end_of_flash: "\<And>c x. c \<in> {3, 4} \<Longrightarrow> p_fails P c x \<longleftrightarrow> L \<le> x" and L: "65536 dvd L" "L < 2 ^ 27"
  shows "\<exists>s'. SpiProtocolFlashErase (spi_chip_hw P) hk t Address 0 s = Some (EFI_DEVICE_ERROR, s') \<and>
    restored FlashCycleErase s s' \<and> spi_ram s' = spi_ram s \<and> flash_of s' = erased a (L - a) (flash_of s)"
proof -
  let ?Q = "\<lambda>st s4. st = EFI_DEVICE_ERROR \<and> k_busy (kdev s4) = 0 \<and> spi_ram s4 = spi_ram s \<and>
    flash_of s4 = erased a (L - a) (flash_of s)"
  from erase_check [OF a(1,2,3)] obtain h where h: "verdict s t FlashCycleErase Address 0 = Inr (h, 0)" "unat h = a" by auto
  have w: "writes_flash FlashCycleErase" by (simp add: writes_flash_def)
  have "\<exists>st s' s4. SendSpiCmd (spi_chip_hw P) hk t FlashCycleErase Address 0 0 s = Some (st, s') \<and> ?Q st s4 \<and> ends FlashCycleErase s s4 s'"
  proof (rule command_ends [OF P s])
    show "\<not> (writes_flash FlashCycleErase \<and> locked s)" using free by simp
    fix s3 assume s3: "begun P FlashCycleErase s s3"
    then have r3: "chip_ready P s3" "spi_ram s3 = spi_ram s" "flash_of s3 = flash_of s" by (simp_all add: begun_def)
    have "\<And>c x. c \<in> {3, 4} \<Longrightarrow> chip_refuses P s3 c x \<longleftrightarrow> L \<le> x" using begun_writes [OF s3 w] end_of_flash by simp
    from erase_zero_cycles [OF r3(1) this L, of h 0 0] h(2) a(3,4) obtain s4 where
      s4: "spi_cycles (spi_chip_hw P) bar FlashCycleErase 0 h 0 0 s3 = Some (EFI_DEVICE_ERROR, s4)"
        "chip_ready P s4" "rest s4 = rest s3" "spi_ram s4 = spi_ram s3" "flash_of s4 = erased a (L - a) (flash_of s3)" by auto
    then show "\<exists>st s4. (case verdict s t FlashCycleErase Address 0 of Inl st \<Rightarrow> Some (st, s3)
        | Inr (a, FC) \<Rightarrow> spi_cycles (spi_chip_hw P) bar FlashCycleErase FC a 0 0 s3) = Some (st, s4) \<and>
        within P s3 s4 \<and> ?Q st s4"
      using h(1) r3 ready_busy within_rest [OF s4(3,2)] by auto
  qed
  then obtain s' s4 where r: "SendSpiCmd (spi_chip_hw P) hk t FlashCycleErase Address 0 0 s = Some (EFI_DEVICE_ERROR, s')"
    "?Q EFI_DEVICE_ERROR s4" "ends FlashCycleErase s s4 s'" by blast
  have "restored FlashCycleErase s s'" by (rule ends_restored [OF r(3)]) (use r(2) in simp)
  then show ?thesis unfolding SpiProtocolFlashErase_def using r by (simp add: ends_def)
qed

lemma write_zero_command:
  assumes P: "timer_runs P" "p_busy P < 600000" and s: "spi_placed P ph s" "k_busy (kdev s) < 600000" and free: "\<not> locked s"
    and a: "in_region s t Address 0 a" "may FlashCycleWrite s t" "a < 2 ^ 27" and ok: "\<not> p_fails P 2 a"
  shows "\<exists>s'. SpiProtocolFlashWrite (spi_chip_hw P) hk t Address 0 Buffer s = Some (EFI_SUCCESS, s') \<and>
    restored FlashCycleWrite s s' \<and> spi_ram s' = spi_ram s \<and> flash_of s' = flash_program a (fdata s) (flash_of s)"
proof -
  let ?Q = "\<lambda>st s4. st = EFI_SUCCESS \<and> k_busy (kdev s4) = 0 \<and> spi_ram s4 = spi_ram s \<and>
    flash_of s4 = flash_program a (fdata s) (flash_of s)"
  from in_regionE [OF a(1,2)] obtain Base where h:
    "verdict s t FlashCycleWrite Address 0 = Inr (Base + Address, hw_cycle 2)" "unat (Base + Address) = a"
    by (auto simp: flash_cycle_def V_PCH_SPI_HSFSC_CYCLE_WRITE_def)
  have w: "writes_flash FlashCycleWrite" by (simp add: writes_flash_def)
  have "\<exists>st s' s4. SendSpiCmd (spi_chip_hw P) hk t FlashCycleWrite Address 0 Buffer s = Some (st, s') \<and> ?Q st s4 \<and> ends FlashCycleWrite s s4 s'"
  proof (rule command_ends [OF P s])
    show "\<not> (writes_flash FlashCycleWrite \<and> locked s)" using free by simp
    fix s3 assume s3: "begun P FlashCycleWrite s s3"
    then have r3: "chip_ready P s3" "spi_ram s3 = spi_ram s" "flash_of s3 = flash_of s" "fdata s3 = fdata s"
      by (simp_all add: begun_def)
    have "\<not> chip_refuses P s3 2 (unat (Base + Address))" using begun_writes [OF s3 w] ok h(2) by simp
    from write_zero_cycles [OF r3(1) _ this, of Buffer] h(2) a(3) obtain s4 where
      s4: "spi_cycles (spi_chip_hw P) bar FlashCycleWrite (hw_cycle 2) (Base + Address) 0 Buffer s3 = Some (EFI_SUCCESS, s4)"
        "chip_ready P s4" "rest s4 = rest s3" "spi_ram s4 = spi_ram s3" "flash_of s4 = flash_program a (fdata s3) (flash_of s3)"
      by auto
    then show "\<exists>st s4. (case verdict s t FlashCycleWrite Address 0 of Inl st \<Rightarrow> Some (st, s3)
        | Inr (a, FC) \<Rightarrow> spi_cycles (spi_chip_hw P) bar FlashCycleWrite FC a 0 Buffer s3) = Some (st, s4) \<and>
        within P s3 s4 \<and> ?Q st s4"
      using h(1) r3 ready_busy within_rest [OF s4(3,2)] by auto
  qed
  then obtain s' s4 where r: "SendSpiCmd (spi_chip_hw P) hk t FlashCycleWrite Address 0 Buffer s = Some (EFI_SUCCESS, s')"
    "?Q EFI_SUCCESS s4" "ends FlashCycleWrite s s4 s'" by blast
  have "restored FlashCycleWrite s s'" by (rule ends_restored [OF r(3)]) (use r(2) in simp)
  then show ?thesis unfolding SpiProtocolFlashWrite_def using r by (simp add: ends_def)
qed

end

section \<open>An end that wraps\<close>

text \<open>An address below the region, as a negative number: the sum of address and count is zero.\<close>

lemma verdict_wraps:
  assumes r: "region_at s t = Inr (Base, Size)" "may FlashCycleErase s t" and n: "unat n \<le> unat Base"
    and al: "4096 dvd unat Base" "4096 dvd unat n"
  shows "verdict s t FlashCycleErase (- n) n = Inr (Base - n, 0)" "unat (Base - n) = unat Base - unat n"
proof -
  show h: "unat (Base - n) = unat Base - unat n" using n by (subst Word.unat_sub) (simp_all add: word_le_nat_alt)
  have "unat n mod 4096 = 0" "unat (Base - n) mod 4096 = 0" using al h by simp_all
  then have "n mod SIZE_4KB = 0" "(Base - n) mod SIZE_4KB = 0"
    by (simp_all only: word_unat_eq_iff unat_mod SIZE_4KB_def) simp_all
  then show "verdict s t FlashCycleErase (- n) n = Inr (Base - n, 0)"
    using r by (simp add: verdict_def flash_cycle_def)
qed

end
