(* ===== verification/SpiSetup.thy ===== *)
theory SpiSetup
  imports SpiServices
begin

text \<open>
  Setting up the SPI flash driver on the chip: what \<open>SpiProtocolConstructor\<close> reads from the flash
  descriptor, and that the drivers of the three phases leave a controller in which the services work.
\<close>

section \<open>Reading the descriptor\<close>

lemma storew_twice: "storew n (storew n m a (v :: 'a::len word)) a (w :: 'b::len word) = storew n m a w"
  by (rule ext) (simp add: storew_def storen_def bytes_of_def)

text \<open>Every selection is a write of FDOC; the chip differs from the one before in this register only.\<close>

definition fdoc_set :: "u32 \<Rightarrow> spi_chip spi \<Rightarrow> spi_chip spi" where
  "fdoc_set w s = with_dev ((kdev s)\<lparr> k_mem := storew 4 (k_mem (kdev s)) (bar + 0xB4) w \<rparr>) s"

lemma fdoc_parts [simp]:
  "spi_inst (fdoc_set w s) = spi_inst s" "spi_ram (fdoc_set w s) = spi_ram s" "k_io (kdev (fdoc_set w s)) = k_io (kdev s)"
  "k_flash (kdev (fdoc_set w s)) = k_flash (kdev s)" "k_busy (kdev (fdoc_set w s)) = k_busy (kdev s)"
  "k_cycles (kdev (fdoc_set w s)) = k_cycles (kdev s)" "k_msr (kdev (fdoc_set w s)) = k_msr (kdev s)"
  "mSpiResvMmioAddr (fdoc_set w s) = mSpiResvMmioAddr s" "mPchSpiBar0PhysicalAddr (fdoc_set w s) = mPchSpiBar0PhysicalAddr s"
  "mRuntimeFlag (fdoc_set w s) = mRuntimeFlag s" "fdoc_set v (fdoc_set w s) = fdoc_set v s"
  by (simp_all add: fdoc_set_def storew_twice)

lemma fdoc_inst [simp]: "fdoc_set w (s\<lparr> spi_inst := i \<rparr>) = (fdoc_set w s)\<lparr> spi_inst := i \<rparr>"
  by (simp add: fdoc_set_def with_dev_def)

lemma fdoc_load: "apart (bar + 0xB4) 4 a n \<Longrightarrow> loadw n (k_mem (kdev (fdoc_set w s))) a = loadw n (k_mem (kdev s)) a"
  by (simp add: fdoc_set_def loadw_def storew_def loadn_storen_apart del: bar_def)

definition fdoc_value :: "spi_chip spi \<Rightarrow> u32 \<Rightarrow> u32" where
  "fdoc_value s sel = (loadw 4 (k_mem (kdev s)) (bar + 0xB4) AND NOT (B_PCH_SPI_FDOC_FDSS_MASK OR B_PCH_SPI_FDOC_FDSI_MASK)) OR sel"

lemma run_select:
  "run_state (spi_on_sys (select_descriptor (spi_chip_hw P) bar sel)) s = (fdoc_value s sel, fdoc_set (fdoc_value s sel) s)"
  by (simp add: select_descriptor_def MmioAndThenOr32_def run_bind run_return R_PCH_SPI_FDOC_def fdoc_set_def fdoc_value_def)

lemma fdoc_select:
  assumes "sel AND 0x7FFC = sel"
  shows "fdoc_value s sel AND 0x7FFC = sel"
proof -
  have m: "B_PCH_SPI_FDOC_FDSS_MASK OR B_PCH_SPI_FDOC_FDSI_MASK = 0x7FFC" by (simp add: regs)
  have "((w AND NOT 0x7FFC) OR sel) AND 0x7FFC = sel" for w :: u32
    using assms by (simp add: bit.conj_disj_distrib2 and.assoc)
  then show ?thesis unfolding fdoc_value_def m .
qed

lemma fdoc_read: "loadw 4 (k_mem (kdev (fdoc_set w s))) 0xFE0100B4 = w"
  by (simp add: fdoc_set_def)

lemma fdoc_value_inst [simp]: "fdoc_value (s\<lparr> spi_inst := i \<rparr>) sel = fdoc_value s sel"
  by (simp add: fdoc_value_def)

section \<open>SpiProtocolConstructor\<close>

text \<open>The chip as the constructor finds it.\<close>

definition spi_present :: "chip_par \<Rightarrow> spi_chip spi \<Rightarrow> bool" where
  "spi_present P s \<longleftrightarrow> loadw 2 (k_mem (kdev s)) 0x800FA000 \<noteq> (0xFFFF :: u16) \<and>
     loadw 2 (k_mem (kdev s)) 0x800FA040 AND 0xFFFC = p_abase P \<and>
     loadw 4 (k_mem (kdev s)) 0x800FD010 AND NOT 0xFFF = (0xFE010000 :: u32)"

definition nc_field :: "chip_par \<Rightarrow> u8" where
  "nc_field P = ucast (drop_bit N_PCH_SPI_FDBAR_NC (ucast (ucast (p_desc P 4) :: u16) AND B_PCH_SPI_FDBAR_NC))"

lemma run_acpi_base:
  assumes "spi_present P s"
  shows "run_state (spi_on_sys (PchAcpiBaseGet (mmio (spi_chip_hw P)) (Some old))) s = ((EFI_SUCCESS, Some (p_abase P)), s)"
proof -
  have "PmcBase (mmio (spi_chip_hw P)) = 0x800FA000" by (simp add: PmcBase_def regs)
  then show ?thesis
    using assms by (simp add: PchAcpiBaseGet_def run_bind run_return spi_present_def regs)
qed

lemma present_inst [simp]: "spi_present P (s\<lparr> spi_inst := i \<rparr>) = spi_present P s"
  by (simp add: spi_present_def)

lemma with_dev_inst [simp]: "with_dev d (s\<lparr> spi_inst := i \<rparr>) = (with_dev d s)\<lparr> spi_inst := i \<rparr>"
  by (simp add: with_dev_def)

definition seen :: "chip_par \<Rightarrow> spi_chip \<Rightarrow> u32" where "seen P d = fst (get32 P (bar + 4) d)"

lemma get_hsfsc: "get32 P 0xFE010004 d = (seen P d, d\<lparr> k_busy := k_busy d - 1 \<rparr>)"
  by (cases d) (simp add: get32_def seen_def)

text \<open>The status is read once.\<close>

definition polled :: "spi_chip spi \<Rightarrow> spi_chip spi" where
  "polled s = with_dev ((kdev s)\<lparr> k_busy := k_busy (kdev s) - 1 \<rparr>) s"

lemmas constructor_simps = SpiProtocolConstructor_def run_bind run_return run_acpi_base R_PCH_SPI_BAR0_def
  B_PCH_SPI_BAR0_MASK_def Let_def R_PCH_SPI_HSFSC_def R_PCH_SPI_BM_RAP_def R_PCH_SPI_BM_WAP_def
  R_PCH_SPI_SFDP0_VSCC0_def R_PCH_SPI_SFDP1_VSCC1_def run_select [unfolded bar_def] get32_def [of _ "0xFE0100B8"]
  get16_def [of _ "0xFE0100B8"] R_PCH_SPI_FDOD_def fdoc_select fdoc_read get_hsfsc

text \<open>What the record of the driver is to hold: permissions and capabilities as the registers give them, and
  of the descriptor the number of components less one, and the places and lengths in bytes of the straps.\<close>

definition components :: "chip_par \<Rightarrow> nat" where "components P = unat (p_desc P 4) div 2 ^ 8 mod 4"

definition learned :: "chip_par \<Rightarrow> mem \<Rightarrow> (SPI_SERVICE \<Rightarrow> u64) \<Rightarrow> SPI_INSTANCE \<Rightarrow> bool" where
  "learned P m fn i \<longleftrightarrow> SpiProtocol i = fn \<and>
     ReadPermission i = loadw 2 m (bar + 0x118) \<and> WritePermission i = loadw 2 m (bar + 0x11C) \<and>
     SfdpVscc0Value i = loadw 4 m (bar + 0xC4) \<and> SfdpVscc1Value i = loadw 4 m (bar + 0xC8) \<and>
     unat (NumberOfComponents i) = components P \<and>
     unat (PchStrapBaseAddr i) = 16 * (unat (p_desc P 8) div 2 ^ 16 mod 2 ^ 8) \<and>
     unat (PchStrapSize i) = 4 * (unat (p_desc P 8) div 2 ^ 24) \<and>
     unat (CpuStrapBaseAddr i) = 16 * (unat (p_desc P 0xC) mod 2 ^ 8) \<and>
     unat (CpuStrapSize i) = 4 * (unat (p_desc P 0xC) div 2 ^ 8 mod 2 ^ 8)"

lemma byte_field:
  fixes w :: u32
  assumes "m = push_bit k (mask j)" "j \<le> 8" "k + j \<le> 32"
  shows "unat (drop_bit k (w AND m)) = unat w div 2 ^ k mod 2 ^ j" "unat (drop_bit k (w AND m)) < 2 ^ 8"
proof -
  have d: "drop_bit k (w AND m) = take_bit j (drop_bit k w)"
    unfolding assms(1) by (rule bit_word_eqI) (use assms(3) in \<open>auto simp: bit_simps\<close>)
  show e: "unat (drop_bit k (w AND m)) = unat w div 2 ^ k mod 2 ^ j"
    unfolding d unsigned_take_bit_eq unat_drop_bit_eq by (simp only: take_bit_eq_mod drop_bit_eq_div)
  have "unat w div 2 ^ k mod 2 ^ j < 2 ^ j" by simp
  also have "(2 :: nat) ^ j \<le> 2 ^ 8" using assms(2) by (intro power_increasing) simp_all
  finally show "unat (drop_bit k (w AND m)) < 2 ^ 8" unfolding e .
qed

lemma strap_words:
  fixes x :: u32
  assumes "unat x < 2 ^ 8"
  shows "unat (ucast (push_bit 4 x) :: u16) = 16 * unat x" "unat (ucast (x * 4) :: u16) = 4 * unat x"
proof -
  have "push_bit 4 x = x * 16" by (simp add: push_bit_eq_mult)
  moreover have "unat (x * 16) = unat x * 16" "unat (x * 4) = unat x * 4" using assms by (simp_all add: unat_word_ariths)
  ultimately show "unat (ucast (push_bit 4 x) :: u16) = 16 * unat x" "unat (ucast (x * 4) :: u16) = 4 * unat x"
    using assms by (simp_all add: unsigned_ucast_eq take_bit_nat_eq_self)
qed

lemma nc_components: "unat (nc_field P) = components P"
proof -
  define w :: u32 where "w = ucast (ucast (p_desc P 4) :: u16)"
  have m: "B_PCH_SPI_FDBAR_NC = push_bit 8 (mask 2)" by (simp add: regs mask_numeral)
  note f = byte_field [OF m, of w]
  have "unat w = unat (p_desc P 4) mod 2 ^ 16" by (simp add: w_def unsigned_ucast_eq take_bit_eq_mod unat_mod)
  moreover have "x mod 2 ^ 16 div 2 ^ 8 mod 4 = x div 2 ^ 8 mod 4" for x :: nat
    using drop_bit_take_bit [of 8 16 x] by (simp add: take_bit_eq_mod drop_bit_eq_div mod_mod_cancel)
  ultimately have "unat (drop_bit 8 (w AND B_PCH_SPI_FDBAR_NC)) = components P" using f(1) by (simp add: components_def)
  then show ?thesis using f(2) by (simp add: nc_field_def w_def N_PCH_SPI_FDBAR_NC_def unsigned_ucast_eq take_bit_nat_eq_self)
qed

lemma strap_fields:
  "unat (ucast (push_bit N_PCH_SPI_FDBAR_FPSBA_REPR (drop_bit N_PCH_SPI_FDBAR_FPSBA (w AND B_PCH_SPI_FDBAR_FPSBA))) :: u16) =
     16 * (unat w div 2 ^ 16 mod 2 ^ 8)"
  "unat (ucast (drop_bit N_PCH_SPI_FDBAR_PCHSL (w AND B_PCH_SPI_FDBAR_PCHSL) * 4) :: u16) = 4 * (unat w div 2 ^ 24)"
  "unat (ucast (push_bit N_PCH_SPI_FDBAR_FCPUSBA_REPR (drop_bit N_PCH_SPI_FDBAR_FCPUSBA (w AND B_PCH_SPI_FDBAR_FCPUSBA))) :: u16) =
     16 * (unat w mod 2 ^ 8)"
  "unat (ucast (drop_bit N_PCH_SPI_FDBAR_CPUSL (w AND B_PCH_SPI_FDBAR_CPUSL) * 4) :: u16) = 4 * (unat w div 2 ^ 8 mod 2 ^ 8)"
proof -
  have m: "B_PCH_SPI_FDBAR_FPSBA = push_bit 16 (mask 8)" "B_PCH_SPI_FDBAR_PCHSL = push_bit 24 (mask 8)"
    "B_PCH_SPI_FDBAR_FCPUSBA = push_bit 0 (mask 8)" "B_PCH_SPI_FDBAR_CPUSL = push_bit 8 (mask 8)"
    by (simp_all add: regs mask_numeral)
  have n: "N_PCH_SPI_FDBAR_FPSBA_REPR = 4" "N_PCH_SPI_FDBAR_FPSBA = 16" "N_PCH_SPI_FDBAR_PCHSL = 24"
    "N_PCH_SPI_FDBAR_FCPUSBA_REPR = 4" "N_PCH_SPI_FDBAR_FCPUSBA = 0" "N_PCH_SPI_FDBAR_CPUSL = 8" by (simp_all add: regs)
  note f = byte_field [where w = w, OF m(1)] byte_field [where w = w, OF m(2)] byte_field [where w = w, OF m(3)]
    byte_field [where w = w, OF m(4)]
  have top: "unat w div 2 ^ 24 mod 2 ^ 8 = unat w div 2 ^ 24"
    using unsigned_less [where ?'a = nat and w = w] by (intro mod_less) (simp add: div_less_iff_less_mult)
  show "unat (ucast (push_bit N_PCH_SPI_FDBAR_FPSBA_REPR (drop_bit N_PCH_SPI_FDBAR_FPSBA (w AND B_PCH_SPI_FDBAR_FPSBA))) :: u16) =
     16 * (unat w div 2 ^ 16 mod 2 ^ 8)" unfolding n by (subst strap_words, rule f(2), simp, simp, subst f(1)) simp_all
  show "unat (ucast (drop_bit N_PCH_SPI_FDBAR_PCHSL (w AND B_PCH_SPI_FDBAR_PCHSL) * 4) :: u16) = 4 * (unat w div 2 ^ 24)"
    unfolding n by (subst strap_words, rule f(4), simp, simp, subst f(3), simp, simp, subst top) simp
  show "unat (ucast (push_bit N_PCH_SPI_FDBAR_FCPUSBA_REPR (drop_bit N_PCH_SPI_FDBAR_FCPUSBA (w AND B_PCH_SPI_FDBAR_FCPUSBA))) :: u16) =
     16 * (unat w mod 2 ^ 8)" unfolding n by (subst strap_words, rule f(6), simp, simp, subst f(5)) simp_all
  show "unat (ucast (drop_bit N_PCH_SPI_FDBAR_CPUSL (w AND B_PCH_SPI_FDBAR_CPUSL) * 4) :: u16) = 4 * (unat w div 2 ^ 8 mod 2 ^ 8)"
    unfolding n by (subst strap_words, rule f(8), simp, simp, subst f(7)) simp_all
qed

lemma run_constructor:
  assumes "spi_present P s"
  shows "\<exists>w i. run_state (SpiProtocolConstructor (spi_chip_hw P) fn) s =
      (EFI_SUCCESS, (fdoc_set w (polled s))\<lparr> spi_inst := i \<rparr>) \<and>
    PchAcpiBase i = p_abase P \<and> PchSpiBase i = 0x800FD000 \<and> learned P (k_mem (kdev s)) fn i \<and>
    (Component1StartAddr i, TotalFlashSize i) = total_flash_size (nc_field P) (p_desc P 0x1000) (Component1StartAddr (spi_inst s))"
proof -
  have b: "loadw 4 (k_mem (kdev s)) 0x800FD010 AND NOT 0xFFF = (0xFE010000 :: u32)"
    using assms by (simp add: spi_present_def)
  have sels: "V_PCH_SPI_FDOC_FDSS_FSDM OR R_PCH_SPI_FDBAR_FLASH_MAP0 = 4" "V_PCH_SPI_FDOC_FDSS_COMP OR R_PCH_SPI_FCBA_FLCOMP = 0x1000"
    "V_PCH_SPI_FDOC_FDSS_FSDM OR R_PCH_SPI_FDBAR_FLASH_MAP1 = 8" "V_PCH_SPI_FDOC_FDSS_FSDM OR R_PCH_SPI_FDBAR_FLASH_MAP2 = 0xC"
    by (simp_all add: regs)
  show ?thesis
    by (simp add: constructor_simps assms b [simplified] sels del: drop_bit_and push_bit_and, intro exI conjI,
        (simp add: polled_def del: drop_bit_and push_bit_and; fail))
      (auto simp: learned_def strap_fields nc_components nc_field_def [symmetric] simp del: drop_bit_and push_bit_and
        split: prod.splits)
qed

section \<open>The drivers\<close>

definition phase_install :: "chip_par \<Rightarrow> boot_phase \<Rightarrow> (SPI_SERVICE \<Rightarrow> u64) \<Rightarrow> u64 \<Rightarrow> (spi_chip, efi_status) spi_prog" where
  "phase_install P ph fn p = (case ph of
     PEI \<Rightarrow> pei_InstallPchSpi (spi_chip_hw P) fn p EFI_SUCCESS
   | DXE \<Rightarrow> dxe_InstallPchSpi (spi_chip_hw P) fn p EFI_SUCCESS
   | SMM \<Rightarrow> smm_InstallPchSpi (spi_chip_hw P) fn (EFI_SUCCESS, p) EFI_SUCCESS)"

text \<open>What the drivers find: PEI sets the base of the registers itself, the others rely on it.\<close>

definition spi_found :: "chip_par \<Rightarrow> boot_phase \<Rightarrow> spi_chip spi \<Rightarrow> bool" where
  "spi_found P ph s \<longleftrightarrow> loadw 2 (k_mem (kdev s)) 0x800FA000 \<noteq> (0xFFFF :: u16) \<and>
     loadw 2 (k_mem (kdev s)) 0x800FA040 AND 0xFFFC = p_abase P \<and>
     (ph = PEI \<or> loadw 4 (k_mem (kdev s)) 0x800FD010 AND NOT 0xFFF = (0xFE010000 :: u32)) \<and>
     (ph = DXE \<longrightarrow> \<not> mRuntimeFlag s)"

lemma run_modify [simp]: "run_state (modify f) s = ((), f s)"
  by (simp add: modify_def)

lemma fdoc_placed:
  assumes "spi_present P s" "PchAcpiBase i = p_abase P" "PchSpiBase i = 0x800FD000"
    "ph = SMM \<Longrightarrow> mSpiResvMmioAddr s = 0xFE010000" "ph = DXE \<Longrightarrow> mPchSpiBar0PhysicalAddr s = 0xFE010000 \<and> \<not> mRuntimeFlag s"
  shows "spi_placed P ph ((fdoc_set w (polled s))\<lparr> spi_inst := i \<rparr>)"
proof -
  have "apart (bar + 0xB4) 4 0x800FD010 4" by (simp add: apart_def unat_m1)
  from fdoc_load [where ?'a = 32, OF this, of w "polled s"] show ?thesis
    using assms by (simp add: spi_placed_def spi_present_def polled_def)
qed

text \<open>Setting up succeeds, touches neither flash nor buffers, and leaves a controller that is found.\<close>

lemma install_ok:
  assumes f: "spi_found P ph s" and p: "p \<noteq> 0"
  shows "\<exists>s'. run_state (phase_install P ph fn p) s = (EFI_SUCCESS, s') \<and> spi_placed P ph s' \<and>
    flash_of s' = flash_of s \<and> spi_ram s' = spi_ram s \<and> k_cycles (kdev s') = k_cycles (kdev s) \<and>
    k_io (kdev s') = k_io (kdev s) \<and> k_busy (kdev s') \<le> k_busy (kdev s) \<and> learned P (k_mem (kdev s)) fn (spi_inst s') \<and>
    (Component1StartAddr (spi_inst s'), TotalFlashSize (spi_inst s')) = total_flash_size (nc_field P) (p_desc P 0x1000) 0"
proof (cases ph)
  case SMM
  let ?s = "s\<lparr> mSpiResvMmioAddr := 0xFE010000, mSpiInstance := p, spi_inst := zero_instance \<rparr>"
  have pr: "spi_present P ?s" using f SMM by (simp add: spi_found_def spi_present_def)
  from run_constructor [OF pr, of fn] obtain w i where
    c: "run_state (SpiProtocolConstructor (spi_chip_hw P) fn) ?s = (EFI_SUCCESS, (fdoc_set w (polled ?s))\<lparr> spi_inst := i \<rparr>)"
      "PchAcpiBase i = p_abase P" "PchSpiBase i = 0x800FD000" "learned P (k_mem (kdev s)) fn i"
      "(Component1StartAddr i, TotalFlashSize i) = total_flash_size (nc_field P) (p_desc P 0x1000) 0"
    by (auto simp: zero_instance_def)
  have "spi_placed P ph ((fdoc_set w (polled ?s))\<lparr> spi_inst := i \<rparr>)"
    by (rule fdoc_placed [OF pr c(2,3)]) (use SMM in simp_all)
  moreover have "run_state (phase_install P ph fn p) s = (EFI_SUCCESS, (fdoc_set w (polled ?s))\<lparr> spi_inst := i \<rparr>)"
    using p c(1) SMM by (simp add: phase_install_def smm_InstallPchSpi_def new_instance_def run_bind run_return PCH_SPI_BASE_ADDRESS_def)
  ultimately show ?thesis using c(4,5) by (simp add: polled_def flash_of_def)
next
  case DXE
  let ?s = "s\<lparr> mSpiInstance := p, spi_inst := zero_instance \<rparr>"
  have pr: "spi_present P ?s" using f DXE by (simp add: spi_found_def spi_present_def)
  from run_constructor [OF pr, of fn] obtain w i where
    c: "run_state (SpiProtocolConstructor (spi_chip_hw P) fn) ?s = (EFI_SUCCESS, (fdoc_set w (polled ?s))\<lparr> spi_inst := i \<rparr>)"
      "PchAcpiBase i = p_abase P" "PchSpiBase i = 0x800FD000" "learned P (k_mem (kdev s)) fn i"
      "(Component1StartAddr i, TotalFlashSize i) = total_flash_size (nc_field P) (p_desc P 0x1000) 0"
    by (auto simp: zero_instance_def)
  let ?s' = "(fdoc_set w (polled ?s))\<lparr> spi_inst := i \<rparr>"
  let ?t = "?s'\<lparr> mPchSpiBar0PhysicalAddr := 0xFE010000, mPchSpiBar0VirtualAddr := 0xFE010000 \<rparr>"
  have "spi_placed P PEI ?s'" by (rule fdoc_placed [OF pr c(2,3)]) simp_all
  then have "spi_placed P ph ?t" using f DXE by (simp add: spi_placed_def spi_found_def polled_def)
  moreover have "run_state (phase_install P ph fn p) s = (EFI_SUCCESS, ?t)"
    using p c(1) DXE by (simp add: phase_install_def dxe_InstallPchSpi_def new_instance_def run_bind run_return PCH_SPI_BASE_ADDRESS_def)
  ultimately show ?thesis using c(4,5) by (simp add: polled_def flash_of_def)
next
  case PEI
  let ?m1 = "storew 4 (k_mem (kdev s)) 0x800FD010 (0xFE010000 :: u32)"
  let ?m = "storew 4 ?m1 0x800FD004 (loadw 4 ?m1 0x800FD004 OR 2 :: u32)"
  let ?t = "with_dev ((kdev s)\<lparr> k_mem := ?m \<rparr>) s"
  let ?s = "?t\<lparr> mSpiInstance := p, spi_inst := zero_instance \<rparr>"
  have init: "run_state (spi_on_sys (InitSpiBar0 (spi_chip_hw P))) s = ((), ?t)"
    by (simp add: InitSpiBar0_def MmioOr32_def run_bind run_return R_PCH_SPI_BAR0_def PCH_SPI_BASE_ADDRESS_def
        PCI_COMMAND_OFFSET_def EFI_PCI_COMMAND_MEMORY_SPACE_def)
  have "loadw 2 ?m 0x800FA000 = (loadw 2 (k_mem (kdev s)) 0x800FA000 :: u16)"
    "loadw 2 ?m 0x800FA040 = (loadw 2 (k_mem (kdev s)) 0x800FA040 :: u16)"
    "loadw 4 ?m 0x800FD010 = (0xFE010000 :: u32)"
    by (simp_all add: mem_simps)
  then have pr: "spi_present P ?s" using f by (simp add: spi_present_def spi_found_def)
  have lm: "learned P ?m fn i = learned P (k_mem (kdev s)) fn i" for i
    by (simp add: learned_def mem_simps)
  from run_constructor [OF pr, of fn] obtain w i where
    c: "run_state (SpiProtocolConstructor (spi_chip_hw P) fn) ?s = (EFI_SUCCESS, (fdoc_set w (polled ?s))\<lparr> spi_inst := i \<rparr>)"
      "PchAcpiBase i = p_abase P" "PchSpiBase i = 0x800FD000" "learned P (k_mem (kdev s)) fn i"
      "(Component1StartAddr i, TotalFlashSize i) = total_flash_size (nc_field P) (p_desc P 0x1000) 0"
    by (auto simp: zero_instance_def lm)
  have "spi_placed P ph ((fdoc_set w (polled ?s))\<lparr> spi_inst := i \<rparr>)"
    by (rule fdoc_placed [OF pr c(2,3)]) (use PEI in simp_all)
  moreover have "run_state (phase_install P ph fn p) s = (EFI_SUCCESS, (fdoc_set w (polled ?s))\<lparr> spi_inst := i \<rparr>)"
    using p c(1) PEI by (simp add: phase_install_def pei_InstallPchSpi_def new_instance_def run_bind run_return init)
  ultimately show ?thesis using c(4,5) by (simp add: polled_def flash_of_def)
qed

text \<open>The size of the flash, from the densities of the components.\<close>

lemma component_size: "d \<le> 12 \<Longrightarrow> unat (push_bit d (0x80000 :: u32)) = 2 ^ (19 + d)"
proof -
  assume d: "d \<le> 12"
  then have "(2 :: nat) ^ (19 + d) < 2 ^ 32" by (intro power_strict_increasing) simp_all
  moreover have "push_bit d (0x80000 :: u32) = of_nat (2 ^ (19 + d))" by (simp add: push_bit_eq_mult power_add)
  ultimately show ?thesis by (simp only: unat_of_nat take_bit_nat_eq_self len_num1) (simp add: take_bit_nat_eq_self)
qed

definition density :: "chip_par \<Rightarrow> nat \<Rightarrow> nat" where
  "density P i = unat (p_desc P 0x1000) div 16 ^ i mod 16"

lemma density_0: "unat (p_desc P 0x1000 AND 0x0F) = density P 0"
proof -
  have m: "(0x0F :: u32) = mask 4" by (simp add: mask_numeral)
  show ?thesis
    by (simp add: m take_bit_eq_mask [symmetric] density_def unsigned_take_bit_eq take_bit_eq_mod unat_mod)
qed

lemma total_size:
  assumes "density P 0 \<le> 7" "n > 0 \<Longrightarrow> density P 1 \<le> 7"
  shows "unat (snd (total_flash_size n (p_desc P 0x1000) c)) = 2 ^ (19 + density P 0) + (if n > 0 then 2 ^ (19 + density P 1) else 0)"
proof -
  have m: "(0xF0 :: u32) = push_bit 4 (mask 4)" by (simp add: mask_numeral)
  note d0 = density_0 [of P]
  have "drop_bit 4 (p_desc P 0x1000 AND 0xF0) = take_bit 4 (drop_bit 4 (p_desc P 0x1000))"
    unfolding m by (rule bit_word_eqI) (auto simp: bit_simps)
  then have d1: "unat (drop_bit 4 (p_desc P 0x1000 AND 0xF0)) = density P 1"
    by (simp add: density_def unsigned_take_bit_eq unsigned_drop_bit_eq take_bit_eq_mod drop_bit_eq_div unat_mod unat_div)
  let ?a = "push_bit (density P 0) (0x80000 :: u32)" and ?b = "push_bit (density P 1) (0x80000 :: u32)"
  have a: "unat ?a = 2 ^ (19 + density P 0)" using component_size [of "density P 0"] assms(1) by simp
  have le: "2 ^ (19 + density P i) \<le> (2 :: nat) ^ 26" if "density P i \<le> 7" for i
    using that by (intro power_increasing) simp_all
  have "unat (?a + ?b) = unat ?a + 2 ^ (19 + density P 1)" if "n > 0"
  proof -
    have b: "unat ?b = 2 ^ (19 + density P 1)" using component_size [of "density P 1"] assms(2) [OF that] by simp
    have "unat ?a + unat ?b < 2 ^ 32" using le [OF assms(1)] le [OF assms(2) [OF that]] unfolding a b by simp
    then show ?thesis unfolding b [symmetric] by (simp add: unat_word_ariths)
  qed
  then show ?thesis
    using d0 d1 a by (simp add: total_flash_size_def V_PCH_SPI_FLCOMP_COMP_512KB_def B_PCH_SPI_FLCOMP_COMP0_MASK_def
        B_PCH_SPI_FLCOMP_COMP1_MASK_def N_PCH_SPI_FLCOMP_COMP1_def Let_def)
qed

lemma first_size:
  assumes "density P 0 \<le> 7"
  shows "n > 0 \<Longrightarrow> unat (fst (total_flash_size n (p_desc P 0x1000) c)) = 2 ^ (19 + density P 0)"
  using component_size [of "density P 0"] assms
  by (simp add: total_flash_size_def V_PCH_SPI_FLCOMP_COMP_512KB_def B_PCH_SPI_FLCOMP_COMP0_MASK_def density_0 Let_def)

section \<open>Virtual addresses\<close>

text \<open>Two of the services keep their physical addresses.\<close>

lemma services_converted:
  "SpiProtocol (spi_inst (snd (run_state (PchSpiVirtualAddressChangeEvent conv) s))) f =
     (if f = GetRegionAddress \<or> f = ReadCpuSoftStrap then SpiProtocol (spi_inst s) f else conv (SpiProtocol (spi_inst s) f))"
  by (cases f) (simp_all add: PchSpiVirtualAddressChangeEvent_def converted_services_def run_bind run_return
      modify_def set_inst_def)

end
