(* ===== verification/SpiProps.thy ===== *)
theory SpiProps
  imports SpiLimits SpiSetup
begin

text \<open>
  What the SPI flash driver promises, over the services in the three phases of the boot, with a sample
  controller at which each statement is instantiated.
\<close>

section \<open>A sample controller\<close>

text \<open>The BIOS region is the second megabyte; \<open>b\<close> is the register BC, \<open>k\<close> how long the controller is busy.\<close>

definition sample_mem :: "u8 \<Rightarrow> mem" where
  "sample_mem b = storew 1 (storew 2 (storew 4 (storew 4 (storew 2 (\<lambda>_. 0) 0x800FA040 (0x0501 :: u16))
     0x800FD010 (0xFE010000 :: u32)) 0xFE010058 (0x01FF0100 :: u32)) 0xFE01011C (0xFFFF :: u16)) bc_addr b"

definition sample_par :: "(u32 \<Rightarrow> nat \<Rightarrow> bool) \<Rightarrow> chip_par" where
  "sample_par f = \<lparr> p_abase = 0x500, p_step = (\<lambda>_. 7), p_busy = 3, p_fails = f, p_desc = (\<lambda>_. 0x105), p_info = (\<lambda>_ _. 0) \<rparr>"

definition sample_spi :: "u8 \<Rightarrow> nat \<Rightarrow> spi_chip spi" where
  "sample_spi b k = \<lparr> spi_sys = boot \<lparr> k_mem = sample_mem b, k_io = (\<lambda>_. 0), k_time = 0, k_flash = (\<lambda>_. 0xA5), k_busy = k,
       k_cycles = [], k_msr = [] \<rparr>,
     spi_ram = (\<lambda>x. ucast x), spi_inst = zero_instance\<lparr> PchAcpiBase := 0x500, PchSpiBase := 0x800FD000, ReadPermission := 0xFFFF \<rparr>,
     mSpiInstance = 0x8000, mSpiResvMmioAddr = 0xFE010000, mPchSpiBar0PhysicalAddr = 0xFE010000, mPchSpiBar0VirtualAddr = 0,
     mRuntimeFlag = False \<rparr>"

lemma sample_words:
  "loadw 2 (sample_mem b) 0x800FA000 = (0 :: u16)" "loadw 2 (sample_mem b) 0x800FA040 = (0x0501 :: u16)"
  "loadw 4 (sample_mem b) 0x800FD010 = (0xFE010000 :: u32)" "loadw 4 (sample_mem b) 0xFE010000 = (0 :: u32)"
  "loadw 4 (sample_mem b) 0xFE010058 = (0x01FF0100 :: u32)" "loadw 2 (sample_mem b) 0xFE01011C = (0xFFFF :: u16)"
  "sample_mem b bc_addr = b"
proof -
  show "sample_mem b bc_addr = b" by (simp add: sample_mem_def storew_byte)
  have "loadw n (\<lambda>_. 0) a = (0 :: 'a::len word)" for n a by (simp add: loadw_def loadn_def word_of_zero_bytes)
  then show "loadw 2 (sample_mem b) 0x800FA000 = (0 :: u16)" "loadw 2 (sample_mem b) 0x800FA040 = (0x0501 :: u16)"
    "loadw 4 (sample_mem b) 0x800FD010 = (0xFE010000 :: u32)" "loadw 4 (sample_mem b) 0xFE010000 = (0 :: u32)"
    "loadw 4 (sample_mem b) 0xFE010058 = (0x01FF0100 :: u32)" "loadw 2 (sample_mem b) 0xFE01011C = (0xFFFF :: u16)"
    by (simp_all add: sample_mem_def mem_simps)
qed

lemma sample_parts [simp]:
  "k_mem (kdev (sample_spi b k)) = sample_mem b" "k_busy (kdev (sample_spi b k)) = k" "k_cycles (kdev (sample_spi b k)) = []"
  "PchAcpiBase (spi_inst (sample_spi b k)) = 0x500" "PchSpiBase (spi_inst (sample_spi b k)) = 0x800FD000"
  "ReadPermission (spi_inst (sample_spi b k)) = 0xFFFF" "mSpiResvMmioAddr (sample_spi b k) = 0xFE010000"
  "mPchSpiBar0PhysicalAddr (sample_spi b k) = 0xFE010000" "\<not> mRuntimeFlag (sample_spi b k)" "bc (sample_spi b k) = b"
  "p_fails (sample_par f) = f" "p_abase (sample_par f) = 0x500" "p_busy (sample_par f) = 3"
  by (simp_all add: sample_spi_def boot_def bc_def sample_words sample_par_def del: bc_addr_def)

lemma sample_placed: "spi_placed (sample_par f) ph (sample_spi b k)" "timer_runs (sample_par f)"
  "k < 600000 \<Longrightarrow> spi_up (sample_par f) ph (sample_spi b k)"
  by (simp_all add: spi_up_def spi_placed_def sample_words timer_runs_def) (simp_all add: sample_par_def)

lemma sample_region: "region_at (sample_spi b k) 1 = Inr (0x100000, 0x100000)" "may c (sample_spi b k) 1"
  "region_base (sample_spi b k) 1 = 0x100000" "region_at (sample_spi b k) 17 = Inl EFI_INVALID_PARAMETER"
proof -
  have "region_word (sample_mem b) 1 = 0x01FF0100" by (simp add: region_word_def region_register_def regs sample_words)
  then show r: "region_at (sample_spi b k) 1 = Inr (0x100000, 0x100000)" by (simp add: region_at_def region_of_def regs word_le_nat_alt)
  show "region_at (sample_spi b k) 17 = Inl EFI_INVALID_PARAMETER" by (simp add: region_at_def regs)
  show "may c (sample_spi b k) 1" by (simp add: may_def write_permission_def sample_words bit_simps)
  show "region_base (sample_spi b k) 1 = 0x100000" by (simp add: region_base_def r)
qed

lemma sample_range: "in_region (sample_spi b k) 1 Address n a \<longleftrightarrow> unat Address + unat n \<le> 0x100000 \<and> a = 0x100000 + unat Address"
  by (simp add: in_region_def sample_region)

lemma sample_locks: "write_locked ph (sample_spi b k) \<longleftrightarrow> ph \<noteq> SMM \<and> bit b 5"
  by (simp add: write_locked_def locked_by_eiss_def)

section \<open>Setting up\<close>

text \<open>C23: InstallPchSpi of each phase, on a PCH whose registers are found, succeeds, leaves flash
  and buffers alone, and establishes the state from which all services work. The instance holds
  the services, the read and write permissions and the two VSCC values of the controller, and,
  of the flash descriptor, the number of components, base and size of the PCH and CPU straps,
  and the sizes of the flash and of its first component: 512 KB times 2 to the power of the
  density of each component that there is (densities up to 7).\<close>

theorem spi_set_up:
  assumes "spi_found P ph s" "p \<noteq> 0" "timer_runs P" "p_busy P < 600000" "k_busy (kdev s) < 600000"
    and "density P 0 \<le> 7" "0 < components P \<Longrightarrow> density P 1 \<le> 7"
  shows "\<exists>s'. run_state (phase_install P ph fn p) s = (EFI_SUCCESS, s') \<and> spi_up P ph s' \<and>
    flash_of s' = flash_of s \<and> spi_ram s' = spi_ram s \<and> k_cycles (kdev s') = k_cycles (kdev s) \<and> k_io (kdev s') = k_io (kdev s) \<and>
    learned P (k_mem (kdev s)) fn (spi_inst s') \<and>
    unat (TotalFlashSize (spi_inst s')) = 2 ^ (19 + density P 0) + (if 0 < components P then 2 ^ (19 + density P 1) else 0) \<and>
    (0 < components P \<longrightarrow> unat (Component1StartAddr (spi_inst s')) = 2 ^ (19 + density P 0))"
proof -
  from install_ok [OF assms(1,2), of fn] obtain s' where
    s': "run_state (phase_install P ph fn p) s = (EFI_SUCCESS, s')" "spi_placed P ph s'" "flash_of s' = flash_of s"
      "spi_ram s' = spi_ram s" "k_cycles (kdev s') = k_cycles (kdev s)" "k_io (kdev s') = k_io (kdev s)"
      "k_busy (kdev s') \<le> k_busy (kdev s)" "learned P (k_mem (kdev s)) fn (spi_inst s')"
      "(Component1StartAddr (spi_inst s'), TotalFlashSize (spi_inst s')) = total_flash_size (nc_field P) (p_desc P 0x1000) 0"
    by blast
  have nc: "nc_field P > 0 \<longleftrightarrow> 0 < components P" by (simp add: nc_components [symmetric] word_gt_0 unat_gt_0)
  have "unat (TotalFlashSize (spi_inst s')) = 2 ^ (19 + density P 0) + (if 0 < components P then 2 ^ (19 + density P 1) else 0)"
    by (rule total_size [OF assms(6), of "nc_field P" 0, unfolded s'(9) [symmetric] snd_conv nc, OF assms(7)])
  moreover have "0 < components P \<longrightarrow> unat (Component1StartAddr (spi_inst s')) = 2 ^ (19 + density P 0)"
    by (intro impI) (rule first_size [OF assms(6), of "nc_field P" 0, unfolded s'(9) [symmetric] fst_conv nc])
  moreover have "spi_up P ph s'" using s'(2,7) assms(3-5) by (simp add: spi_up_def)
  ultimately show ?thesis using s'(1,3-6,8) by (intro exI [of _ s'] conjI)
qed

section \<open>Reading, writing and erasing\<close>

text \<open>C25: SpiProtocolFlashRead fills the buffer with exactly the bytes of its range of the flash,
  or, with EFI_DEVICE_ERROR, with those before the cycle that fails; flash, registers and the
  rest of the memory stay as they were.\<close>

theorem flash_read_exact:
  assumes "spi_up P ph s" "in_region s t Address n a" "may FlashCycleRead s t" "0 < unat n"
  shows "\<exists>st s' k. SpiProtocolFlashRead (spi_chip_hw P) (phase_hooks P ph) t Address n Buffer s = Some (st, s') \<and>
    restored FlashCycleRead s s' \<and> flash_of s' = flash_of s \<and>
    spi_ram s' = storen (spi_ram s) Buffer (map (flash_of s) [a..<a + k]) \<and>
    (st = EFI_SUCCESS \<and> k = unat n \<or> st = EFI_DEVICE_ERROR \<and> k < unat n \<and> p_fails P 0 (a + k))"
  by (rule any.read_command [OF spi_upD [OF assms(1)] assms(2-)])

text \<open>C6: SpiProtocolFlashWrite of at least one byte on a range of its region returns, whichever
  cycles fail: with EFI_SUCCESS the bytes of the buffer are programmed to exactly the range,
  although a program cycle wraps in its page of 256 bytes; with EFI_DEVICE_ERROR exactly the
  bytes before the failing cycle are. All registers but BC are as before, SMIs are enabled as
  before, prefetching and caching too, and the write protection is on.\<close>

theorem flash_write_exact:
  assumes "spi_up P ph s" "\<not> write_locked ph s" "in_region s t Address n a" "may FlashCycleWrite s t" "0 < unat n"
  shows "\<exists>st s' k. SpiProtocolFlashWrite (spi_chip_hw P) (phase_hooks P ph) t Address n Buffer s = Some (st, s') \<and>
    restored FlashCycleWrite s s' \<and> spi_ram s' = spi_ram s \<and>
    flash_of s' = programmed a (loadn (spi_ram s) Buffer k) (flash_of s) \<and>
    (st = EFI_SUCCESS \<and> k = unat n \<or> st = EFI_DEVICE_ERROR \<and> k < unat n \<and> p_fails P 2 (a + k))"
  by (rule any.write_command [OF spi_upD [OF assms(1)] assms(2-)])

text \<open>C10: SpiProtocolFlashErase of at least one whole 4 KB block returns, whichever cycles fail:
  with EFI_SUCCESS exactly the range reads FFh, with EFI_DEVICE_ERROR exactly the blocks before
  the failing cycle are erased. The cycles that the controller runs are, one by one, a 64 KB
  erase where the address and the end of the range are multiples of 64 KB and the component at
  the address (0 below the start of component 1, else 1) advertises it, and a 4 KB erase
  elsewhere, up to the failing one. Registers and write protection are restored as after a
  write.\<close>

theorem flash_erase_exact:
  assumes "spi_up P ph s" "\<not> write_locked ph s" "in_region s t Address n a" "may FlashCycleErase s t" "0 < unat n"
    and "4096 dvd a" "4096 dvd unat n"
  shows "\<exists>st s' k m. SpiProtocolFlashErase (spi_chip_hw P) (phase_hooks P ph) t Address n s = Some (st, s') \<and>
    restored FlashCycleErase s s' \<and> spi_ram s' = spi_ram s \<and> flash_of s' = erased a k (flash_of s) \<and>
    erase_result P (erases_64KB (spi_inst s)) s a (unat n) st k m s'"
  by (rule any.erase_command [OF spi_upD [OF assms(1)] assms(2-)])

section \<open>Sequences of requests\<close>

text \<open>C2: In each phase of the boot the SPI flash driver refines a memory: any sequence of requests
  to read, write and erase at least one byte, erases in whole blocks, that lie in their regions
  and are permitted is served with EFI_SUCCESS throughout by a flash whose cycles do not fail,
  and flash and buffers end as if each request had read, ANDed in or set to FFh exactly its
  range, in order; the SMI enables are as before, the BIOS is write protected after a write or
  an erase, and the driver is ready for the next request.\<close>

theorem spi_requests_refined:
  assumes "spi_up P ph s" "\<forall>r \<in> set rs. allowed ph s r" "\<forall>c a. \<not> p_fails P c a"
  shows "\<exists>s'. serve_all P ph rs s = Some (replicate (length rs) EFI_SUCCESS, s') \<and> like s s' \<and> spi_up P ph s' \<and>
    k_io (kdev s') = k_io (kdev s) \<and> bc s' = protected_after rs (bc s) \<and>
    (flash_of s', spi_ram s') = fold (memory_step (region_base s)) rs (flash_of s, spi_ram s)"
  by (rule serve_all_ok) (use assms in auto)

text \<open>Programming a range that has been erased stores the bytes.\<close>

lemma programmed_erased:
  assumes "k + length bs \<le> m"
  shows "map (programmed (a + k) bs (erased a m f)) [a + k..<a + k + length bs] = bs"
proof -
  have "(255 :: u8) = - 1" by simp
  then have "(255 :: u8) AND b = b" for b by (simp only: and.left_neutral)
  then show ?thesis using assms by (intro nth_equalityI) (simp_all add: programmed_def erased_def)
qed

text \<open>C13: Erasing blocks of a region, writing a buffer to a range inside them and reading the range
  back gives the buffer, in each phase of the boot, and no byte of the flash outside the erased
  blocks changes.\<close>

theorem erase_write_read:
  assumes "spi_up P ph s" "\<forall>c a. \<not> p_fails P c a" "Address \<le> Offset" "unat Offset + unat n \<le> unat Address + unat m"
    and "allowed ph s (EraseRequest t Address m)" "allowed ph s (WriteRequest t Offset n Buffer)"
    and "allowed ph s (ReadRequest t Offset n Copy)"
  shows "\<exists>s'. serve_all P ph [EraseRequest t Address m, WriteRequest t Offset n Buffer, ReadRequest t Offset n Copy] s =
      Some ([EFI_SUCCESS, EFI_SUCCESS, EFI_SUCCESS], s') \<and>
    spi_ram s' = storen (spi_ram s) Copy (loadn (spi_ram s) Buffer (unat n)) \<and>
    (\<forall>x. \<not> (region_base s t + unat Address \<le> x \<and> x < region_base s t + unat Address + unat m) \<longrightarrow> flash_of s' x = flash_of s x)"
proof -
  let ?rs = "[EraseRequest t Address m, WriteRequest t Offset n Buffer, ReadRequest t Offset n Copy]"
  have "\<And>r. r \<in> set ?rs \<Longrightarrow> allowed ph s r" using assms(5-7) by auto
  from serve_all_ok [OF assms(1) this] assms(2) obtain s' where
    s': "serve_all P ph ?rs s = Some (replicate (length ?rs) EFI_SUCCESS, s')"
      "(flash_of s', spi_ram s') = fold (memory_step (region_base s)) ?rs (flash_of s, spi_ram s)" by blast
  let ?e = "region_base s t + unat Address" and ?a = "region_base s t + unat Offset"
  let ?bs = "loadn (spi_ram s) Buffer (unat n)"
  have "unat Address \<le> unat Offset" using assms(3) by (simp add: word_le_nat_alt)
  then obtain k where k: "unat Offset = unat Address + k" using le_Suc_ex by blast
  have "k + length ?bs \<le> unat m" using assms(4) k by simp
  from programmed_erased [OF this, of ?e "flash_of s"]
  have m: "map (programmed ?a ?bs (erased ?e (unat m) (flash_of s))) [?a..<?a + unat n] = ?bs" by (simp add: k add.assoc)
  have f: "flash_of s' = programmed ?a ?bs (erased ?e (unat m) (flash_of s))" "spi_ram s' = storen (spi_ram s) Copy ?bs"
    using s'(2) m by (simp_all add: memory_step_def)
  have "flash_of s' x = flash_of s x" if "\<not> (?e \<le> x \<and> x < ?e + unat m)" for x
    using that k assms(4) by (auto simp: f(1) programmed_def erased_def)
  then show ?thesis using s'(1) f(2) by simp
qed

section \<open>Refusals\<close>

text \<open>The reasons to refuse a command, in their order, from the registers: the region register has the base
  in bits 0 to 14 and the limit in bits 16 to 30, both in blocks of 4 KB, and 7FFFh marks a region that is
  not used; the BIOS region is the one of FREG6 when bit 31 of BFPR says so.\<close>

definition freg :: "mem \<Rightarrow> nat \<Rightarrow> u32" where
  "freg m t = loadw 4 m (bar + of_nat (if t < 12 then 0x54 + 4 * t else 0xE0 + 4 * (t - 12)))"

definition region_field :: "mem \<Rightarrow> nat \<Rightarrow> u32" where
  "region_field m t = (if t = 1 \<and> bit (loadw 4 m bar :: u32) 31 then freg m 6 else freg m t)"

definition refusal :: "spi_chip spi \<Rightarrow> u32 \<Rightarrow> FLASH_CYCLE_TYPE \<Rightarrow> u32 \<Rightarrow> u32 \<Rightarrow> efi_status option" where
  "refusal s t c Address n =
     (let w = region_field (k_mem (kdev s)) (unat t);
        Base = (if t = 16 then 0 else of_nat (4096 * (unat w mod 2 ^ 15)));
        Size = (if t = 16 then TotalFlashSize (spi_inst s) else of_nat (4096 * (unat w div 2 ^ 16 mod 2 ^ 15 + 1)) - Base)
      in if 17 \<le> unat t then Some EFI_INVALID_PARAMETER
         else if t \<noteq> 16 \<and> w = 0x7FFF then Some EFI_DEVICE_ERROR
         else if Address + n > Size then Some EFI_INVALID_PARAMETER
         else if t \<noteq> 16 \<and> (c = FlashCycleRead \<and> \<not> bit (ReadPermission (spi_inst s)) (unat t) \<or>
           (c = FlashCycleWrite \<or> c = FlashCycleErase) \<and> \<not> bit (loadw 2 (k_mem (kdev s)) (bar + 0x11C) :: u16) (unat t))
         then Some EFI_ACCESS_DENIED
         else if c = FlashCycleErase \<and> \<not> (4096 dvd unat (Base + Address) \<and> 4096 dvd unat n) \<or> c = FlashCycleMax
         then Some EFI_INVALID_PARAMETER
         else None)"

lemma freg_register: "t < FlashRegionAll \<Longrightarrow> loadw 4 m (bar + region_register t) = freg m (unat t)"
  by (cases rule: region_cases [of t]; simp add: region_register_def regs freg_def)

lemma region_word_field: "t < FlashRegionAll \<Longrightarrow> region_word m t = region_field m (unat t)"
proof -
  assume t: "t < FlashRegionAll"
  have "(6 :: u32) < FlashRegionAll" by (simp add: regs)
  from freg_register [OF this, of m] have "loadw 4 m (bar + 0x6C) = freg m 6" by (simp add: region_register_def regs)
  moreover have "t = 1 \<longleftrightarrow> unat t = 1" by (simp add: word_unat_eq_iff)
  ultimately show ?thesis
    using freg_register [OF t, of m] and_bit [of "loadw 4 m bar :: u32" 31]
    by (simp add: region_word_def region_field_def FlashRegionBios_def B_PCH_SPI_BFPR_SBRS_def del: bar_def push_bit_of_1)
qed

lemma region_bounds:
  "region_of w = (if w = 0x7FFF then Inl EFI_DEVICE_ERROR
     else Inr (of_nat (4096 * (unat w mod 2 ^ 15)), of_nat (4096 * (unat w div 2 ^ 16 mod 2 ^ 15 + 1)) - of_nat (4096 * (unat w mod 2 ^ 15))))"
proof -
  have w: "of_nat (unat x) = x" for x :: u32 by simp
  have m: "(0x7FFF :: u32) = mask 15" "(0x7FFF0000 :: u32) = push_bit 16 (mask 15)" by (simp_all add: mask_numeral)
  have "unat (w AND 0x7FFF) = unat w mod 2 ^ 15"
    unfolding m take_bit_eq_mask [symmetric] unsigned_take_bit_eq by (simp only: take_bit_eq_mod)
  then have b: "w AND 0x7FFF = of_nat (unat w mod 2 ^ 15)" using w [of "w AND 0x7FFF"] by simp
  have "drop_bit 16 (w AND 0x7FFF0000) = take_bit 15 (drop_bit 16 w)"
    unfolding m by (rule bit_word_eqI) (auto simp: bit_simps)
  then have "unat (drop_bit 16 (w AND 0x7FFF0000)) = unat w div 2 ^ 16 mod 2 ^ 15"
    by (simp only: unsigned_take_bit_eq unat_drop_bit_eq) (simp only: take_bit_eq_mod drop_bit_eq_div)
  then have l: "drop_bit 16 (w AND 0x7FFF0000) = of_nat (unat w div 2 ^ 16 mod 2 ^ 15)"
    using w [of "drop_bit 16 (w AND 0x7FFF0000)"] by simp
  have p: "push_bit 12 (x :: u32) = 4096 * x" for x by (simp add: push_bit_eq_mult mult.commute)
  show ?thesis
    unfolding region_of_def regs Let_def drop_bit_0 id_apply b l p by simp
qed

lemma flash_cycle_refuses:
  "map_sum id g (flash_cycle c a n) = Inl st \<longleftrightarrow> (c = FlashCycleErase \<and> \<not> (4096 dvd unat a \<and> 4096 dvd unat n) \<or> c = FlashCycleMax) \<and> st = EFI_INVALID_PARAMETER"
proof -
  have "x mod SIZE_4KB \<noteq> 0 \<longleftrightarrow> \<not> 4096 dvd unat x" for x :: u32
    unfolding dvd_eq_mod_eq_0 word_unat_eq_iff unat_mod by (simp add: SIZE_4KB_def)
  then show ?thesis unfolding flash_cycle_def by (cases c) auto
qed

lemma refusal_verdict:
  assumes "refusal s t c Address n = Some st"
  shows "verdict s t c Address n = Inl st"
proof (cases "t < FlashRegionAll")
  case True
  note r = region_word_field [OF True, of "k_mem (kdev s)"]
  have t: "\<not> 17 \<le> unat t" "\<not> t \<ge> FlashRegionMax" "t \<noteq> FlashRegionAll" "t \<noteq> 16"
    using True by (auto simp: regs word_less_nat_alt word_le_nat_alt)
  show ?thesis
    using assms t unfolding refusal_def verdict_def region_at_def r region_bounds Let_def may_def write_permission_def writes_flash_def
    by (auto simp: flash_cycle_refuses simp del: bar_def split: if_splits)
next
  case False
  then have "t = 16 \<or> 17 \<le> unat t" by (auto simp: regs word_less_nat_alt word_unat_eq_iff)
  then show ?thesis
    using assms unfolding refusal_def verdict_def region_at_def Let_def may_def
    by (auto simp: flash_cycle_refuses FlashRegionAll_def FlashRegionMax_def word_le_nat_alt simp del: bar_def split: if_splits)
qed

text \<open>C24: A command that the conditions of the controller and the flash descriptor exclude, stated
  here on the region registers themselves (no such region; a region that is not used; an end
  behind the region; no permission; an erase whose address or size is no multiple of 4 KB; no
  such cycle), returns the status of the first condition, runs no cycle, and restores SMI
  enables and write protection.\<close>

theorem refused_command:
  assumes "spi_up P ph s" "\<not> (writes_flash c \<and> write_locked ph s)" "refusal s t c Address n = Some st"
  shows "\<exists>s'. SendSpiCmd (spi_chip_hw P) (phase_hooks P ph) t c Address n Buffer s = Some (st, s') \<and>
    restored c s s' \<and> flash_of s' = flash_of s \<and> spi_ram s' = spi_ram s \<and> k_cycles (kdev s') = k_cycles (kdev s)"
  by (rule any.command_refused [OF spi_upD [OF assms(1)] assms(2) refusal_verdict [OF assms(3)]])

text \<open>C20: Outside SMM, when the bit EISS of BC is set, every write and erase returns
  EFI_ACCESS_DENIED without a cycle, without waiting for the controller and without a change of
  flash, buffers or SMI enables, and leaves the write protection on.\<close>

theorem locked_flash:
  assumes "spi_placed P ph s" "write_locked ph s" "writes_flash c"
  shows "\<exists>s'. SendSpiCmd (spi_chip_hw P) (phase_hooks P ph) t c Address n Buffer s = Some (EFI_ACCESS_DENIED, s') \<and>
    like s s' \<and> k_io (kdev s') = k_io (kdev s) \<and> flash_of s' = flash_of s \<and> spi_ram s' = spi_ram s \<and>
    k_cycles (kdev s') = k_cycles (kdev s) \<and> bc s' = bc s AND NOT (BIT 0)"
proof -
  from any.command_denied [OF assms(1,3,2), of t Address n Buffer] obtain s' where
    "SendSpiCmd (spi_chip_hw P) (phase_hooks P ph) t c Address n Buffer s = Some (EFI_ACCESS_DENIED, s')"
    "ends c s (quiet P s) s'" by blast
  then show ?thesis using assms(3) by (auto simp: ends_def)
qed

section \<open>Waiting\<close>

text \<open>C22: PchPmTimerStallRuntimeSafe with up to 2^30 microseconds returns however the 24 bit timer
  gets on, as long as each access sees it moved by less than a turn, and only after more ticks
  than the microseconds asked for at 3.58 ticks each, over any number of turns of the timer.\<close>

theorem stall_waits:
  assumes "timer_runs P" "0 < us" "us < 2 ^ 30"
  shows "\<exists>t. PchPmTimerStallRuntimeSafe (spi_chip_hw P) (p_abase P) (of_nat us) s = Some (at_time t s) \<and>
    k_time (kdev s) + us * 358 div 100 < t"
  by (rule stall_ends [OF assms])

text \<open>C21: On a controller that stays busy every command, other than a write or erase that is denied
  as locked, ends with EFI_DEVICE_ERROR after 600000 polls of the status, at least 36 ticks of
  the timer (10 microseconds) apart, without a cycle of its own, with flash and buffers
  unchanged and SMI enables and write protection restored.\<close>

theorem stuck_controller:
  assumes "timer_runs P" "spi_placed P ph s" "600000 \<le> k_busy (kdev s)" "\<not> (writes_flash c \<and> write_locked ph s)"
  shows "\<exists>s'. SendSpiCmd (spi_chip_hw P) (phase_hooks P ph) t c Address n Buffer s = Some (EFI_DEVICE_ERROR, s') \<and>
    like s s' \<and> k_io (kdev s') = k_io (kdev s) \<and> flash_of s' = flash_of s \<and> spi_ram s' = spi_ram s \<and>
    k_cycles (kdev s') = k_cycles (kdev s) \<and> bc s' = (if writes_flash c then bc s AND NOT (BIT 0) else bc s) \<and>
    k_busy (kdev s') = k_busy (kdev s) - 600000 \<and> k_time (kdev s) + 36 * 600000 \<le> k_time (kdev s')"
  by (rule any.command_times_out [OF assms])

section \<open>At the limits of the checks\<close>

text \<open>C30: SpiProtocolFlashErase with a byte count of 0 passes the checks, and its loop, whose
  counter wraps, erases everything from the address to the end of the flash, behind the region
  too, until a cycle fails.\<close>

theorem erase_nothing:
  assumes "spi_up P ph s" "\<not> write_locked ph s" "in_region s t Address 0 a" "may FlashCycleErase s t" "4096 dvd a" "a < L"
    and "\<forall>c x. p_fails P c x = (L \<le> x)" "65536 dvd L" "L < 2 ^ 27"
  shows "\<exists>s'. SpiProtocolFlashErase (spi_chip_hw P) (phase_hooks P ph) t Address 0 s = Some (EFI_DEVICE_ERROR, s') \<and>
    flash_of s' = erased a (L - a) (flash_of s)"
  using any.erase_zero_command [OF spi_upD [OF assms(1)] assms(2-6) _ assms(8,9)] assms(7) by blast

text \<open>C32: SpiProtocolFlashWrite with a byte count of 0 runs one program cycle of 64 bytes with
  whatever the data registers hold.\<close>

theorem write_nothing:
  assumes "spi_up P ph s" "\<not> write_locked ph s" "in_region s t Address 0 a" "may FlashCycleWrite s t" "a < 2 ^ 27" "\<not> p_fails P 2 a"
  shows "\<exists>s'. SpiProtocolFlashWrite (spi_chip_hw P) (phase_hooks P ph) t Address 0 Buffer s = Some (EFI_SUCCESS, s') \<and>
    flash_of s' = flash_program a (fdata s) (flash_of s)"
  using any.write_zero_command [OF spi_upD [OF assms(1)] assms(2-)] by blast

text \<open>C31: The sum of address and byte count wraps in the check of the region: an erase of n bytes
  at address 2^32 - n of a region erases the n bytes below the region, with the permission for
  the region only.\<close>

theorem erase_below_region:
  assumes "spi_up P ph s" "\<not> write_locked ph s" "may FlashCycleErase s t" "region_at s t = Inr (Base, Size)" "unat Base \<le> 2 ^ 27"
    and "0 < unat n" "unat n \<le> unat Base" "4096 dvd unat Base" "4096 dvd unat n" "\<forall>c a. \<not> p_fails P c a"
  shows "\<exists>s'. SpiProtocolFlashErase (spi_chip_hw P) (phase_hooks P ph) t (- n) n s = Some (EFI_SUCCESS, s') \<and>
    flash_of s' = erased (unat Base - unat n) (unat n) (flash_of s)"
proof -
  note v = verdict_wraps [OF assms(4,3,7,8,9)]
  have "unat (Base - n) + unat n \<le> 2 ^ 27" "4096 dvd unat (Base - n)" using assms(5,7,8,9) unfolding v(2) by auto
  from any.erase_verdict [OF spi_upD [OF assms(1)] assms(2) v(1) this(1) assms(6) this(2) assms(9)] assms(10)
  show ?thesis unfolding v(2) erase_result_def Let_def by blast
qed

section \<open>Instances\<close>

abbreviation never :: "u32 \<Rightarrow> nat \<Rightarrow> bool" where "never \<equiv> (\<lambda>_ _. False)"

lemma sample_density: "density (sample_par f) 0 = 5" "density (sample_par f) 1 = 0" "density (sample_par f) (Suc 0) = 0"
  by (simp_all add: density_def sample_par_def)

lemma spi_set_up_witness:
  "\<exists>s'. run_state (phase_install (sample_par never) DXE (\<lambda>_. 7) 0x8000) (sample_spi 0 0) = (EFI_SUCCESS, s') \<and>
    spi_up (sample_par never) DXE s' \<and> NumberOfComponents (spi_inst s') = 1 \<and> WritePermission (spi_inst s') = 0xFFFF \<and>
    unat (Component1StartAddr (spi_inst s')) = 2 ^ 24 \<and> unat (TotalFlashSize (spi_inst s')) = 2 ^ 24 + 2 ^ 19"
proof -
  have f: "spi_found (sample_par never) DXE (sample_spi 0 0)" by (simp add: spi_found_def sample_words)
  have c: "components (sample_par never) = 1" by (simp add: components_def sample_par_def)
  from spi_set_up [OF f, of "0x8000" "\<lambda>_. 7"] obtain s' where
    s': "run_state (phase_install (sample_par never) DXE (\<lambda>_. 7) 0x8000) (sample_spi 0 0) = (EFI_SUCCESS, s')"
    "spi_up (sample_par never) DXE s'" "learned (sample_par never) (sample_mem 0) (\<lambda>_. 7) (spi_inst s')"
    "unat (Component1StartAddr (spi_inst s')) = 2 ^ 24" "unat (TotalFlashSize (spi_inst s')) = 2 ^ 24 + 2 ^ 19"
    by (auto simp: sample_density sample_placed c)
  moreover have "NumberOfComponents (spi_inst s') = 1" "WritePermission (spi_inst s') = 0xFFFF"
    using s'(3) by (simp_all add: learned_def c word_unat_eq_iff sample_words)
  ultimately show ?thesis by blast
qed

lemma flash_read_exact_witness:
  "\<exists>s'. SpiProtocolFlashRead (spi_chip_hw (sample_par never)) (phase_hooks (sample_par never) PEI) 1 0x40 300 0x5000 (sample_spi 0 0) =
      Some (EFI_SUCCESS, s') \<and>
    spi_ram s' = storen (spi_ram (sample_spi 0 0)) 0x5000 (map (flash_of (sample_spi 0 0)) [0x100040..<0x10016C])"
  using flash_read_exact [OF sample_placed(3) [of 0 never PEI 0], of 1 "0x40" 300 "0x100040" "0x5000"]
  by (auto simp: sample_range sample_region)

lemma flash_write_exact_witness:
  "\<exists>s'. SpiProtocolFlashWrite (spi_chip_hw (sample_par never)) (phase_hooks (sample_par never) SMM) 1 0x40 300 0x5000 (sample_spi 0x20 2) =
      Some (EFI_SUCCESS, s') \<and>
    flash_of s' = programmed 0x100040 (loadn (spi_ram (sample_spi 0x20 2)) 0x5000 300) (flash_of (sample_spi 0x20 2))"
  using flash_write_exact [OF sample_placed(3) [of 2 never SMM "0x20"], of 1 "0x40" 300 "0x100040" "0x5000"]
  by (auto simp: sample_range sample_region sample_locks)

lemma flash_erase_exact_witness:
  "\<exists>s'. SpiProtocolFlashErase (spi_chip_hw (sample_par never)) (phase_hooks (sample_par never) DXE) 1 0x1000 0x3000 (sample_spi 0 0) =
      Some (EFI_SUCCESS, s') \<and> flash_of s' = erased 0x101000 0x3000 (flash_of (sample_spi 0 0)) \<and>
      k_cycles (kdev s') = [(3, 0x101000, 64), (3, 0x102000, 64), (3, 0x103000, 64)]"
proof -
  have plan: "erase_plan big 0x104000 0x101000 = [(3, 0x101000, 64), (3, 0x102000, 64), (3, 0x103000, 64)]" for big
    by (simp add: erase_plan.simps erase_kind_def erase_size_def)
  show ?thesis
    using flash_erase_exact [OF sample_placed(3) [of 0 never DXE 0], of 1 "0x1000" "0x3000" "0x101000"]
    by (auto simp: sample_range sample_region sample_locks erase_result_def plan)
qed

lemma spi_requests_refined_witness:
  "\<exists>s'. serve_all (sample_par never) DXE [WriteRequest 1 0 16 0x100, ReadRequest 1 8 16 0x200] (sample_spi 1 0) =
      Some ([EFI_SUCCESS, EFI_SUCCESS], s') \<and> bc s' = 0"
  using spi_requests_refined [OF sample_placed(3) [of 0 never DXE 1], of "[WriteRequest 1 0 16 0x100, ReadRequest 1 8 16 0x200]"]
  by (auto simp: allowed_def sample_range sample_region sample_locks protected_after_def request_cycle_def writes_flash_def)

lemma erase_write_read_witness:
  "\<exists>s'. serve_all (sample_par never) PEI [EraseRequest 1 0x2000 0x1000, WriteRequest 1 0x2100 20 0x100, ReadRequest 1 0x2100 20 0x200]
      (sample_spi 0 0) = Some ([EFI_SUCCESS, EFI_SUCCESS, EFI_SUCCESS], s') \<and>
    spi_ram s' = storen (spi_ram (sample_spi 0 0)) 0x200 (loadn (spi_ram (sample_spi 0 0)) 0x100 20)"
  using erase_write_read [OF sample_placed(3) [of 0 never PEI 0], of "0x2000" "0x2100" 20 "0x1000" 1 "0x100" "0x200"]
  by (auto simp: allowed_def sample_range sample_region sample_locks)

lemma refused_command_witness:
  "\<exists>s'. SendSpiCmd (spi_chip_hw (sample_par never)) (phase_hooks (sample_par never) PEI) 17 FlashCycleRead 0 8 0x100 (sample_spi 0 0) =
      Some (EFI_INVALID_PARAMETER, s') \<and> k_cycles (kdev s') = []"
  using refused_command [OF sample_placed(3) [of 0 never PEI 0], of FlashCycleRead 17 0 8 EFI_INVALID_PARAMETER "0x100"]
  by (auto simp: refusal_def writes_flash_def)

lemma locked_flash_witness:
  "\<exists>s'. SendSpiCmd (spi_chip_hw (sample_par never)) (phase_hooks (sample_par never) DXE) 1 FlashCycleErase 0 0x1000 0 (sample_spi 0x21 0) =
      Some (EFI_ACCESS_DENIED, s') \<and> k_cycles (kdev s') = [] \<and> bc s' = 0x20"
  using locked_flash [OF sample_placed(1) [of never DXE "0x21" 0], of FlashCycleErase 1 0 "0x1000" 0]
  by (auto simp: sample_locks writes_flash_def bit_simps)

lemma stall_waits_witness:
  "\<exists>t. PchPmTimerStallRuntimeSafe (spi_chip_hw (sample_par never)) 0x500 10 (sample_spi 0 0) = Some (at_time t (sample_spi 0 0)) \<and> 35 < t"
  using stall_waits [OF sample_placed(2) [of never], of 10 "sample_spi 0 0"] by (auto simp: sample_spi_def boot_def)

lemma stuck_controller_witness:
  "\<exists>s'. SendSpiCmd (spi_chip_hw (sample_par never)) (phase_hooks (sample_par never) PEI) 1 FlashCycleWrite 0 8 0x100 (sample_spi 0 700000) =
      Some (EFI_DEVICE_ERROR, s') \<and> k_cycles (kdev s') = []"
  using stuck_controller [OF sample_placed(2) [of never] sample_placed(1) [of never PEI 0 700000], of FlashCycleWrite 1 0 8 "0x100"]
  by (auto simp: sample_locks)

lemma erase_nothing_witness:
  "\<exists>s'. SpiProtocolFlashErase (spi_chip_hw (sample_par (\<lambda>_ x. 0x1000000 \<le> x))) (phase_hooks (sample_par (\<lambda>_ x. 0x1000000 \<le> x)) SMM) 1 0 0
      (sample_spi 0 0) = Some (EFI_DEVICE_ERROR, s') \<and> flash_of s' = erased 0x100000 0xF00000 (flash_of (sample_spi 0 0))"
  using erase_nothing [OF sample_placed(3) [of 0 "\<lambda>_ x. 0x1000000 \<le> x" SMM 0], of 1 0 "0x100000" "0x1000000"]
  by (auto simp: sample_range sample_region sample_locks)

lemma write_nothing_witness:
  "\<exists>s'. SpiProtocolFlashWrite (spi_chip_hw (sample_par never)) (phase_hooks (sample_par never) DXE) 1 0 0 0x100 (sample_spi 0 0) =
      Some (EFI_SUCCESS, s') \<and> flash_of s' = flash_program 0x100000 (fdata (sample_spi 0 0)) (flash_of (sample_spi 0 0))"
  using write_nothing [OF sample_placed(3) [of 0 never DXE 0], of 1 0 "0x100000" "0x100"]
  by (auto simp: sample_range sample_region sample_locks)

lemma erase_below_region_witness:
  "\<exists>s'. SpiProtocolFlashErase (spi_chip_hw (sample_par never)) (phase_hooks (sample_par never) DXE) 1 (- 0x1000) 0x1000 (sample_spi 0 0) =
      Some (EFI_SUCCESS, s') \<and> flash_of s' = erased 0xFF000 0x1000 (flash_of (sample_spi 0 0))"
  using erase_below_region [OF sample_placed(3) [of 0 never DXE 0], of 1 "0x100000" "0x100000" "0x1000"]
  by (auto simp: sample_region sample_locks)

end
