(* ===== verification/Spec2Isabelle.thy ===== *)
theory Spec2Isabelle
  imports Prelude Mmio PchInfo PchPcr PchP2sb PchSbi CycleDecoding
    GpioNative GpioLib GpioInit GpioRegs GpioPads GpioLock GpioEvents GpioBatch GpioTable
    PciAllocation PciBars PciBusNumbers
    PchPcieRp GpioPrivate SmmCalls SmmServices SpiProps
begin

text \<open>
  A verification library for two parts of the Purley UEFI firmware.  One is the code of the
  Lewisburg PCH (platform controller hub), PurleySktPkg/SouthClusterLbg: the libraries through which all other code of the PCH
  reaches its registers, two libraries built on them that carry logic of their own, IO and memory
  cycle decoding and the GPIO pads, the SMI dispatcher, the driver that runs in system management
  mode and calls the handlers that others have registered for the interrupts of the PCH, and the driver of the
  SPI flash.  The other is the platform's PCI bus driver,
  PurleyPlatPkg/Override/MdeModulePkg/Bus/Pci/PciBusDxe: how it numbers buses, probes the BARs of
  devices, and allocates and programs addresses.  The two parts share the Prelude and the status codes
  only.

  The theories of the PCH, from the bottom:

  \<^item> Prelude: status codes, machine words, and the helper lemmas on words, lists and maps that the
    components share.
  \<^item> Mmio (IoLib.c, IoHighLevel.c): a program is a state transformer over \<open>sys\<close>, the state of the
    hardware with the module variables of the libraries.  What an access to a register does is a
    parameter, the record \<open>hw\<close>: so the definitions of the libraries are functions of the hardware.
    The properties instantiate it with hardware that behaves as memory (\<open>ram_hw\<close>) or, for sideband
    messages, with a model of the bridge (\<open>sbi_hw\<close> in PchP2sb) around an arbitrary endpoint.  The
    flag of a DEBUG_CODE build is a part of \<open>hw\<close>; ASSERT and DEBUG messages have no effect.
  \<^item> PchInfo (PchInfoLib.c): identification of the PCH with its caches.
  \<^item> PchPcr (PchPcrLib.c): the private configuration registers, at 0xFD000000 by port id and offset.
  \<^item> PchP2sb (PchP2sbLib.c): the configuration space of the bridge, a device that is hidden and
    revealed around each access.
  \<^item> PchSbi (PchSbiAccessLib.c): sideband messages: the transaction state machine with its polling
    loops, which run to their real bound of 0xFFFFFFF rounds and are proved to end.
  \<^item> CycleDecoding (PchCycleDecodingLib.c): ACPI, PWRM and TCO bases, generic IO and memory ranges,
    BIOS decode and IO enables, mirrored between LPC and DMI.
  \<^item> GpioNative (GpioLibrary.h, PchSklGpioData.c, GpioNativeLib.c), GpioLib (GpioLib.c) and GpioInit
    (GpioInit.c): the pads, their group table and every function that configures them.
  \<^item> GpioRegs: the specification of the GPIO registers as a map from slots to words, and the proof
    that the group table puts different slots at different addresses.  The locale \<open>plain_regs\<close> is
    the contract the GPIO functions need of the hardware; both hardware models are instances.
  \<^item> GpioPads, GpioLock, GpioEvents, GpioBatch, GpioTable: what the GPIO functions do to that map.

  \<^item> GpioPrivate (GpioPrivateLib.c): the pad and the registers behind the number of a GPI SMI.
  \<^item> PchPcieRp (PchPcieRpLib.c): root port numbers and the functions under which the ports appear.

  The theories of the SMI dispatcher, PchSmiDispatcher/Smm:

  \<^item> SmmBits (PchSmmHelpers.c, PchxSmmHelpers.c, PchSmm.h): a source of SMIs is described by the bits
    that enable and report it; reading and writing such a bit in any of the five address spaces.  IO
    ports go beside memory in the record \<open>io_hw\<close>.
  \<^item> SmmSources (PchSmiDispatch.c, PchSmmSw.c, PchSmmSx.c, PchSmmUsb.c and others): the descriptions of
    all the sources, and the contexts of children.
  \<^item> SmmCore (PchSmm.h, PchSmmPeriodicTimer.c): the database of children, \<open>CallbackDataBase\<close>, and the
    timers, with the operations that change the hardware only.  What surrounds the driver, the
    callbacks above all, is a parameter, the record \<open>smm_env\<close>.
  \<^item> SmmRegister (PchSmmCore.c, PchSmiDispatch.c): registering and unregistering children.
  \<^item> SmmDispatch (PchSmmCore.c, PchSmmSx.c): dispatching an SMI, and going to sleep.  What need not
    return has the result \<open>None\<close>.
  \<^item> SmmStore: the locale \<open>bit_store\<close>, the contract between the dispatcher and the bits of the chip:
    writing an enable bit changes that bit only, and clearing a status bit no other and no enable bit.
  \<^item> SmmChip, SmmMap: a chip whose status registers are cleared by writing ones, with the map of the
    registers that the sources lie in; it is proved to keep the contract, and interprets the locale.
  \<^item> SmmEnables, SmmRuns, SmmCalls, SmmServices: the enable bits against the registered children over
    any run, the calls that an SMI leads to, the values of software SMIs and the rates of timers.

  The theories of the SPI flash driver, BasePchSpiCommonLib and the three drivers around it:

  \<^item> SpiFlash (SpiCommon.c): the services of EFI_SPI_PROTOCOL over \<open>spi_hw\<close>, the registers, the flash
    descriptor, the timer and the ports; \<open>SendSpiCmd\<close> with its checks, its loop of cycles and its
    waiting, and the constructor.  Loops that the hardware could keep from ending (\<open>stall_loop\<close>, which
    waits for the timer, and \<open>spi_cycles\<close>, whose counter can wrap) are \<open>partial_function\<close>s; the 600000
    polls of \<open>WaitForSpiCycleComplete\<close> are a recursion of that depth.
  \<^item> SpiHooks (Spi/Smm/PchSpi.c, Spi/RuntimeDxe/PchSpi.c, PeiPchInitLib/PchSpi.c): how SMM, DXE and PEI find
    the registers, take away and restore the write protection of the BIOS, and install the services:
    the record \<open>spi_hooks\<close>.
  \<^item> SpiChip, SpiCycle: a controller with its flash, of cells that programming can only clear and pages
    of 256 bytes that it does not leave, with cycles that take time and may fail, a log of the cycles
    that were run, and a timer of any pace; and one cycle of the driver on it.
  \<^item> SpiTransfer: the locale \<open>flash_controller\<close>, the contract of one cycle (what it reads, programs or
    erases, what it keeps, what it logs), and what the loop of cycles then does to a range; \<open>erase_plan\<close>
    says which cycles of 4 KB and 64 KB an erase is made of.
  \<^item> SpiRuns, SpiCommands: the interpretation of the contract on the chip, the locale \<open>spi_phase\<close>, what
    opening and closing the flash promises, with its three interpretations, and whole commands.
  \<^item> SpiServices, SpiLimits, SpiSetup, SpiProps: the services over sequences of requests, counts of 0 and
    addresses that wrap, the set-up from the flash descriptor, and the properties.

  The theories of the PCI bus driver, in the order in which the driver works:

  \<^item> PciBusNumbers (PciEnumerator.c, PciLib.c, PciEnumeratorSupport.c): \<open>PciAssignBusNumber\<close> walks the
    devices and functions of a bus, gives each bridge the next number of the ranges of the root bridge
    and walks the bus behind it.  Configuration accesses are a parameter, the record \<open>config_bus\<close>; the
    properties instantiate it with \<open>bridged_bus\<close>, a hierarchy in which an access reaches a device only
    through the bridges whose bus number registers claim its bus, the registers that the walk is
    writing.
  \<^item> PciBars (PciEnumeratorSupport.c): probing a BAR by writing all ones to it, its size, type and
    alignment, for BARs and virtual function BARs, and the corrections by \<open>UpdatePciInfo\<close>.  The access
    to a BAR register (\<open>config_hw\<close>), the list of KT devices and the alignment codes are parameters.
  \<^item> PciNodes, PciAperture (PciResourceSupport.c): resource nodes and their lists, sorted by alignment;
    the placement of the nodes of a bridge one after the other, with the ISA and VGA aliases skipped.
    The locale \<open>placement\<close> states what a way to skip addresses must promise.
  \<^item> PciMap: the requests of a device, padding, the degradation of requests that a bridge does not
    decode, and \<open>CreateResourceMap\<close>, which builds the five trees (IO, 32 and 64 bit memory, prefetchable
    or not) of a root bridge.  The policies and platform hooks are a parameter, \<open>pci_env\<close>.
  \<^item> PciTrees, PciLayout, PciConserve: the invariants of these trees, proved once for any property of
    nodes that the operations keep: sorted lists, every request in a tree that can serve it, room
    enough for the apertures, and no request lost or added, BARs, hot plug padding and CardBus windows
    alike.
  \<^item> PciProgram, PciAssign, PciEffects, PciWindows: \<open>ProgramResource\<close> writes BARs and bridge windows;
    the addresses that result are disjoint and inside their windows, the configuration writes are
    exactly those of the BARs and windows of the tree, in its order, the BAR records of the devices
    hold the addresses, and the window registers decode to them.
  \<^item> PciAllocation: the theorems on allocation as a whole.

  A device tree is a value, and a node belongs to one list at a time.  \<open>update_returns\<close> and
  \<open>buses_numbered\<close> are about loops that need not end, which are \<open>partial_function\<close>s: that they return is
  proved.

  What the lemmas show.  For each function of the PCH there is a run lemma (in the collection \<open>hwrun\<close>, or named
  \<open>run_\<close> with the function) that gives its result and final state on every branch; the properties
  follow from these.  They are: delivery of a sideband message and restoration of the bridge; set and
  get of bases, ranges, fields, pads and routings, with everything else unchanged; refusal of illegal
  arguments with no effect; protection of locked decoders and pads; the numbering of events without
  collisions; and the equivalence of the table driven pad initialisation, which caches the group
  registers, with configuring pad after pad.  Where the code does not do what it means to do, the
  property states what it does and the manifest lists the finding.

  Machine integers are words of their width and wrap as in C.  An uninitialised local is given the
  value 0 where a path of the code reads it, as a comment at the definition says.  A read behind the
  end of a table is a parameter (\<open>beyond\<close> in GpioInit) or the unspecified \<open>nth\<close>.

  Not modelled: timing, caching and reordering of accesses, other masters changing registers, and,
  except on the chips of SmmChip and SpiChip, the write-one-to-clear behaviour of status registers (a write to
  one is observed as the value written).  UINTN has 64 bits; in the PEI of an IA32 build it has 32, which
  makes no difference for the values that occur there (the stall of the SPI driver is 10 microseconds).
  The flash of SpiChip programs any count from 1 to 64 bytes; the SMI that locks the flash and the accesses
  through virtual addresses at run time are not modelled.  Of the SMI dispatcher: IO traps (IoTrap.c), the eSPI dispatcher
  (PchSmmEspi.c) and the installation of protocols.
  The remaining components of the repository are listed in the manifest with the reason.
\<close>

end
